(* ===== verification/Prelude.thy ===== *)
theory Prelude
  imports Main
begin

text \<open>
  Shared vocabulary of the development.

  A service method of the backend reads and writes database tables and may throw
  one of the exceptions of \<^verbatim>\<open>@nestjs/common\<close>. It is modelled as a function from
  the tables to a result and the tables it leaves behind. The tables are returned
  next to the exception as well, because a method that is not wrapped in
  \<^verbatim>\<open>dataSource.transaction\<close> keeps what it saved before it threw;
  \<open>transaction\<close> puts the tables back.

  The second half models a table as the list of its rows and states, as the locale
  \<open>repository\<close>, what the services rely on when they look a row up by its
  primary key and save it.
\<close>

text \<open>The nullish default \<^verbatim>\<open>x ?? d\<close>.\<close>

definition nullish :: "'a option \<Rightarrow> 'a \<Rightarrow> 'a" where
  "nullish x d = (case x of None \<Rightarrow> d | Some v \<Rightarrow> v)"

text \<open>\<^verbatim>\<open>x ?? y\<close> where \<open>y\<close> may be null as well.\<close>

definition or_else :: "'a option \<Rightarrow> 'a option \<Rightarrow> 'a option" where
  "or_else x y = (case x of None \<Rightarrow> y | Some v \<Rightarrow> Some v)"

section \<open>Exceptions and service computations\<close>

text \<open>
  One constructor per exception class the services throw. Message texts are left
  out. \<open>Locked\<close> carries the number of minutes that the HTTP 423 answer
  reports; \<open>PlainError\<close> is a JavaScript \<^verbatim>\<open>Error\<close>.
\<close>

datatype http_error =
    BadRequest
  | NotFound
  | Conflict
  | Forbidden
  | Unauthorized
  | Unprocessable
  | Locked int
  | NotImplemented
  | PlainError

type_synonym ('s, 'a) svc = "'s \<Rightarrow> (http_error + 'a) \<times> 's"

type_synonym uuid = string

definition ret :: "'a \<Rightarrow> ('s, 'a) svc" where
  "ret a = (\<lambda>s. (Inr a, s))"

definition throw :: "http_error \<Rightarrow> ('s, 'a) svc" where
  "throw e = (\<lambda>s. (Inl e, s))"

definition bind :: "('s, 'a) svc \<Rightarrow> ('a \<Rightarrow> ('s, 'b) svc) \<Rightarrow> ('s, 'b) svc" where
  "bind m f = (\<lambda>s. case m s of (Inl e, s') \<Rightarrow> (Inl e, s') | (Inr a, s') \<Rightarrow> f a s')"

definition seq :: "('s, unit) svc \<Rightarrow> ('s, 'b) svc \<Rightarrow> ('s, 'b) svc" where
  "seq m k = bind m (\<lambda>_. k)"

definition throw_if :: "bool \<Rightarrow> http_error \<Rightarrow> ('s, unit) svc" where
  "throw_if c e = (if c then throw e else ret ())"

definition gets :: "('s \<Rightarrow> 'a) \<Rightarrow> ('s, 'a) svc" where
  "gets f = (\<lambda>s. (Inr (f s), s))"

definition modify :: "('s \<Rightarrow> 's) \<Rightarrow> ('s, unit) svc" where
  "modify f = (\<lambda>s. (Inr (), f s))"

text \<open>\<^verbatim>\<open>findOne\<close> followed by \<^verbatim>\<open>if (!row) throw\<close>.\<close>

definition require :: "'a option \<Rightarrow> http_error \<Rightarrow> ('s, 'a) svc" where
  "require r e = (case r of None \<Rightarrow> throw e | Some a \<Rightarrow> ret a)"

text \<open>A synchronous function that returns or throws, called inside a method.\<close>

definition lift :: "http_error + 'a \<Rightarrow> ('s, 'a) svc" where
  "lift r = (\<lambda>s. (r, s))"

text \<open>\<^verbatim>\<open>dataSource.transaction(\<dots>)\<close>: an exception rolls the tables back.\<close>

definition transaction :: "('s, 'a) svc \<Rightarrow> ('s, 'a) svc" where
  "transaction m = (\<lambda>s. case m s of (Inl e, _) \<Rightarrow> (Inl e, s) | (Inr a, s') \<Rightarrow> (Inr a, s'))"

text \<open>A \<^verbatim>\<open>for (const x of xs)\<close> loop whose body may throw.\<close>

fun for_each :: "('x \<Rightarrow> ('s, unit) svc) \<Rightarrow> 'x list \<Rightarrow> ('s, unit) svc" where
  "for_each body [] = ret ()"
| "for_each body (x # xs) = seq (body x) (for_each body xs)"

text \<open>A service that works on one component of a larger state.\<close>

definition on_part :: "('s \<Rightarrow> 'p) \<Rightarrow> ('p \<Rightarrow> 's \<Rightarrow> 's) \<Rightarrow> ('p, 'a) svc \<Rightarrow> ('s, 'a) svc" where
  "on_part get put m = (\<lambda>s. case m (get s) of (r, p) \<Rightarrow> (r, put p s))"

text \<open>
  \<open>svc_simps\<close> inverts a successful run step by step; \<open>svc_defs\<close> unfolds
  the combinators for evaluation.
\<close>

named_theorems svc_simps "what a successful run of a service computation did"
named_theorems svc_defs "the definitions of the service combinators"

lemmas [svc_defs] =
  ret_def throw_def bind_def seq_def throw_if_def gets_def modify_def require_def lift_def
  transaction_def on_part_def

lemma ret_Inr [svc_simps]: "ret a s = (Inr b, t) \<longleftrightarrow> b = a \<and> t = s"
  by (auto simp: ret_def)

lemma throw_Inr [svc_simps]: "throw e s = (Inr b, t) \<longleftrightarrow> False"
  by (simp add: throw_def)

lemma bind_Inr [svc_simps]:
  "bind m f s = (Inr b, t) \<longleftrightarrow> (\<exists>a u. m s = (Inr a, u) \<and> f a u = (Inr b, t))"
  by (auto simp: bind_def split: sum.splits prod.splits)

lemma seq_Inr [svc_simps]:
  "seq m k s = (Inr b, t) \<longleftrightarrow> (\<exists>u. m s = (Inr (), u) \<and> k u = (Inr b, t))"
  by (simp add: seq_def bind_Inr)

lemma throw_if_Inr [svc_simps]: "throw_if c e s = (Inr x, t) \<longleftrightarrow> \<not> c \<and> t = s"
  by (auto simp: throw_if_def ret_def throw_def)

lemma gets_Inr [svc_simps]: "gets f s = (Inr b, t) \<longleftrightarrow> b = f s \<and> t = s"
  by (auto simp: gets_def)

lemma modify_Inr [svc_simps]: "modify f s = (Inr x, t) \<longleftrightarrow> t = f s"
  by (auto simp: modify_def)

lemma require_Inr [svc_simps]: "require r e s = (Inr a, t) \<longleftrightarrow> r = Some a \<and> t = s"
  by (auto simp: require_def ret_def throw_def split: option.splits)

lemma lift_Inr [svc_simps]: "lift r s = (Inr a, t) \<longleftrightarrow> r = Inr a \<and> t = s"
  by (auto simp: lift_def)

lemma transaction_Inr [svc_simps]: "transaction m s = (Inr b, t) \<longleftrightarrow> m s = (Inr b, t)"
  by (auto simp: transaction_def split: sum.splits prod.splits)

lemma on_part_Inr [svc_simps]:
  "on_part get put m s = (Inr b, t) \<longleftrightarrow> (\<exists>p. m (get s) = (Inr b, p) \<and> t = put p s)"
  by (auto simp: on_part_def split: prod.splits)

lemma for_each_Inr_Nil [svc_simps]: "for_each body [] s = (Inr x, t) \<longleftrightarrow> t = s"
  by (auto simp: ret_def)

lemma for_each_Inr_Cons [svc_simps]:
  "for_each body (x # xs) s = (Inr b, t) \<longleftrightarrow>
     (\<exists>u. body x s = (Inr (), u) \<and> for_each body xs u = (Inr b, t))"
  by (simp add: seq_Inr)

lemma transaction_rollback: "fst (transaction m s) = Inl e \<Longrightarrow> snd (transaction m s) = s"
  by (auto simp: transaction_def split: sum.splits prod.splits)

text \<open>A state predicate that every step of a loop keeps holds after the loop.\<close>

lemma for_each_invariant:
  assumes step: "\<And>x s t. x \<in> set xs \<Longrightarrow> I s \<Longrightarrow> body x s = (Inr (), t) \<Longrightarrow> I t"
    and "I s" and "for_each body xs s = (Inr (), t)"
  shows "I t"
  using assms
proof (induction xs arbitrary: s)
  case Nil
  then show ?case by (simp add: ret_def)
next
  case (Cons x xs)
  from Cons.prems(3) obtain u where u: "body x s = (Inr (), u)"
    and rest: "for_each body xs u = (Inr (), t)"
    by (auto simp: for_each_Inr_Cons simp del: for_each.simps)
  have "I u" using Cons.prems(1,2) u by (metis list.set_intros(1))
  then show ?case using Cons.IH [OF _ _ rest] Cons.prems(1) by (metis list.set_intros(2))
qed

text \<open>A concrete run, for examples: whether it succeeded, its result and the tables after it.\<close>

definition runs_ok :: "('s, 'a) svc \<Rightarrow> 's \<Rightarrow> bool" where
  "runs_ok m s \<longleftrightarrow> \<not> isl (fst (m s))"

definition outcome :: "('s, 'a) svc \<Rightarrow> 's \<Rightarrow> 'a" where
  "outcome m s = projr (fst (m s))"

definition after :: "('s, 'a) svc \<Rightarrow> 's \<Rightarrow> 's" where
  "after m s = snd (m s)"

lemma runs_okD: "runs_ok m s \<Longrightarrow> m s = (Inr (outcome m s), after m s)"
  by (cases "m s"; cases "fst (m s)") (auto simp: runs_ok_def outcome_def after_def)

section \<open>Methods that change nothing when they fail\<close>

text \<open>
  \<open>atomic m\<close>: a run that throws leaves the tables as they were. The rules follow the
  shape of the methods: reads first, then checks, then writes that cannot throw, or
  everything inside a transaction.
\<close>

definition atomic :: "('s, 'a) svc \<Rightarrow> bool" where
  "atomic m \<longleftrightarrow> (\<forall>s e s'. m s = (Inl e, s') \<longrightarrow> s' = s)"

definition read_only :: "('s, 'a) svc \<Rightarrow> bool" where
  "read_only m \<longleftrightarrow> (\<forall>s. snd (m s) = s)"

definition never_throws :: "('s, 'a) svc \<Rightarrow> bool" where
  "never_throws m \<longleftrightarrow> (\<forall>s. \<exists>a s'. m s = (Inr a, s'))"

named_theorems atomic_intros "rules for atomic, read_only and never_throws"

lemma atomicD: "atomic m \<Longrightarrow> m s = (Inl e, s') \<Longrightarrow> s' = s"
  by (simp add: atomic_def)

lemma read_only_simple [atomic_intros]:
  "read_only (ret a)" "read_only (throw e)" "read_only (gets f)" "read_only (require r e)"
  "read_only (throw_if c e)" "read_only (lift x)"
  by (simp_all add: read_only_def svc_defs split: option.split)

lemma read_only_bind [atomic_intros]: "read_only m \<Longrightarrow> (\<And>a. read_only (f a)) \<Longrightarrow> read_only (bind m f)"
  by (auto simp: read_only_def bind_def split: sum.split prod.split) (metis snd_conv)+

lemma read_only_seq [atomic_intros]: "read_only m \<Longrightarrow> read_only k \<Longrightarrow> read_only (seq m k)"
  by (simp add: seq_def read_only_bind)

lemma read_only_for_each [atomic_intros]: "(\<And>x. read_only (body x)) \<Longrightarrow> read_only (for_each body xs)"
  by (induction xs) (simp_all add: read_only_simple read_only_seq)

lemma read_only_atomic: "read_only m \<Longrightarrow> atomic m"
  by (metis atomic_def read_only_def snd_conv)

lemma never_throws_atomic: "never_throws m \<Longrightarrow> atomic m"
  unfolding atomic_def never_throws_def by (metis Inl_Inr_False Pair_inject)

lemma never_throws_simple [atomic_intros]:
  "never_throws (ret a)" "never_throws (gets f)" "never_throws (modify g)"
  by (simp_all add: never_throws_def svc_defs)

lemma never_throws_bind [atomic_intros]:
  "never_throws m \<Longrightarrow> (\<And>a. never_throws (f a)) \<Longrightarrow> never_throws (bind m f)"
  unfolding never_throws_def bind_def by (metis (no_types, lifting) case_prod_conv sum.simps(6))

lemma never_throws_seq [atomic_intros]:
  "never_throws m \<Longrightarrow> never_throws k \<Longrightarrow> never_throws (seq m k)"
  by (simp add: seq_def never_throws_bind)

lemma never_throws_if [atomic_intros]:
  "never_throws m \<Longrightarrow> never_throws k \<Longrightarrow> never_throws (if c then m else k)"
  by simp

lemma atomic_transaction [atomic_intros]: "atomic (transaction m)"
  by (auto simp: atomic_def transaction_def split: sum.splits prod.splits)

lemma atomic_bind [atomic_intros]: "read_only m \<Longrightarrow> (\<And>a. atomic (f a)) \<Longrightarrow> atomic (bind m f)"
  unfolding atomic_def read_only_def bind_def
  by (auto split: sum.splits prod.splits) (metis snd_conv)+

lemma atomic_seq [atomic_intros]: "read_only m \<Longrightarrow> atomic k \<Longrightarrow> atomic (seq m k)"
  by (simp add: seq_def atomic_bind)

lemma atomic_writes [atomic_intros]: "never_throws k \<Longrightarrow> atomic (seq (modify g) k)"
  by (simp add: never_throws_atomic never_throws_seq never_throws_simple)

lemma atomic_if [atomic_intros]: "atomic m \<Longrightarrow> atomic k \<Longrightarrow> atomic (if c then m else k)"
  by simp

lemma read_only_if [atomic_intros]: "read_only m \<Longrightarrow> read_only k \<Longrightarrow> read_only (if c then m else k)"
  by simp

lemma atomic_throw [atomic_intros]: "atomic (throw e)"
  by (rule read_only_atomic) (rule read_only_simple)

lemma atomic_ret [atomic_intros]: "atomic (ret a)"
  by (rule read_only_atomic) (rule read_only_simple)

lemma atomic_let [atomic_intros]: "(\<And>x. atomic (f x)) \<Longrightarrow> atomic (Let a f)"
  by simp

section \<open>Tables\<close>

text \<open>
  Every entity class of the backend has a generated UUID primary key \<^verbatim>\<open>id\<close> and,
  apart from the tenant table, a \<^verbatim>\<open>tenantId\<close>. Entities extend this record. A
  table is the list of its rows.
\<close>

record entity =
  ent_id :: uuid
  tenantId :: uuid

text \<open>\<^verbatim>\<open>findOne({ where: { id, tenantId } })\<close>\<close>

definition find_scoped :: "uuid \<Rightarrow> uuid \<Rightarrow> 'a entity_scheme list \<Rightarrow> 'a entity_scheme option" where
  "find_scoped t i rows = find (\<lambda>r. ent_id r = i \<and> tenantId r = t) rows"

text \<open>\<^verbatim>\<open>findOne({ where: { id } })\<close>\<close>

definition find_id :: "uuid \<Rightarrow> 'a entity_scheme list \<Rightarrow> 'a entity_scheme option" where
  "find_id i rows = find (\<lambda>r. ent_id r = i) rows"

text \<open>\<^verbatim>\<open>save(row)\<close>: updates the row with that key, or inserts it.\<close>

definition save_row :: "'a entity_scheme \<Rightarrow> 'a entity_scheme list \<Rightarrow> 'a entity_scheme list" where
  "save_row r rows =
     (if ent_id r \<in> ent_id ` set rows
      then map (\<lambda>x. if ent_id x = ent_id r then r else x) rows
      else rows @ [r])"

definition save_rows :: "'a entity_scheme list \<Rightarrow> 'a entity_scheme list \<Rightarrow> 'a entity_scheme list" where
  "save_rows rs rows = fold save_row rs rows"

text \<open>\<^verbatim>\<open>count({ where: { tenantId } })\<close>\<close>

definition count_tenant :: "uuid \<Rightarrow> 'a entity_scheme list \<Rightarrow> nat" where
  "count_tenant t rows = length (filter (\<lambda>r. tenantId r = t) rows)"

text \<open>The primary key: no two rows of a table share an \<^verbatim>\<open>id\<close>.\<close>

definition keyed :: "'a entity_scheme list \<Rightarrow> bool" where
  "keyed rows \<longleftrightarrow> distinct (map ent_id rows)"

text \<open>The rows a tenant does not own.\<close>

definition foreign_rows :: "uuid \<Rightarrow> 'a entity_scheme list \<Rightarrow> 'a entity_scheme list" where
  "foreign_rows t rows = filter (\<lambda>r. tenantId r \<noteq> t) rows"

text \<open>
  What a service relies on: a saved row is found again under its key, no other key
  is affected, and keys stay unique. \<open>rows\<close> lists what is stored.
\<close>

locale repository =
  fixes key :: "'r \<Rightarrow> 'k"
    and lookup :: "'k \<Rightarrow> 't \<Rightarrow> 'r option"
    and save :: "'r \<Rightarrow> 't \<Rightarrow> 't"
    and rows :: "'t \<Rightarrow> 'r set"
    and wf :: "'t \<Rightarrow> bool"
  assumes lookup_rows: "wf t \<Longrightarrow> lookup k t = Some r \<longleftrightarrow> r \<in> rows t \<and> key r = k"
    and lookup_save_same: "wf t \<Longrightarrow> lookup (key r) (save r t) = Some r"
    and lookup_save_other: "k \<noteq> key r \<Longrightarrow> lookup k (save r t) = lookup k t"
    and save_wf: "wf t \<Longrightarrow> wf (save r t)"
begin

lemma lookup_save: "wf t \<Longrightarrow> lookup k (save r t) = (if k = key r then Some r else lookup k t)"
  by (simp add: lookup_save_same lookup_save_other)

lemma rows_save: "wf t \<Longrightarrow> rows (save r t) = insert r {x \<in> rows t. key x \<noteq> key r}"
proof (intro set_eqI iffI)
  fix x
  assume wf: "wf t" and "x \<in> rows (save r t)"
  then have "lookup (key x) (save r t) = Some x" by (simp add: lookup_rows save_wf)
  then show "x \<in> insert r {x \<in> rows t. key x \<noteq> key r}"
    using wf by (auto simp: lookup_save lookup_rows split: if_splits)
next
  fix x
  assume wf: "wf t" and "x \<in> insert r {x \<in> rows t. key x \<noteq> key r}"
  then have "lookup (key x) (save r t) = Some x" by (auto simp: lookup_save lookup_rows)
  then show "x \<in> rows (save r t)" using wf by (simp add: lookup_rows save_wf)
qed

lemma save_invariant:
  "wf t \<Longrightarrow> (\<And>x. x \<in> rows t \<Longrightarrow> P x) \<Longrightarrow> P r \<Longrightarrow> x \<in> rows (save r t) \<Longrightarrow> P x"
  by (auto simp: rows_save)

lemma key_inj: "wf t \<Longrightarrow> x \<in> rows t \<Longrightarrow> y \<in> rows t \<Longrightarrow> key x = key y \<Longrightarrow> x = y"
  by (metis lookup_rows option.inject)

end

lemma find_Some_iff_keyed:
  assumes "distinct (map f xs)"
  shows "find (\<lambda>x. f x = k) xs = Some r \<longleftrightarrow> r \<in> set xs \<and> f r = k"
  using assms by (induction xs) (auto simp: image_iff)

lemma find_scoped_Some:
  "find_scoped t i rows = Some r \<Longrightarrow> r \<in> set rows \<and> ent_id r = i \<and> tenantId r = t"
  by (auto simp: find_scoped_def find_Some_iff)

lemma find_scoped_keyed:
  assumes "keyed rows"
  shows "find_scoped t i rows = Some r \<longleftrightarrow> r \<in> set rows \<and> ent_id r = i \<and> tenantId r = t"
  using assms unfolding keyed_def find_scoped_def
  by (induction rows) (auto simp: image_iff)

lemma find_id_keyed:
  assumes "keyed rows"
  shows "find_id i rows = Some r \<longleftrightarrow> r \<in> set rows \<and> ent_id r = i"
  using assms unfolding keyed_def find_id_def by (rule find_Some_iff_keyed)

lemma ids_save_row: "ent_id ` set (save_row r rows) = insert (ent_id r) (ent_id ` set rows)"
proof (cases "ent_id r \<in> ent_id ` set rows")
  case True
  have "ent_id ` (\<lambda>x. if ent_id x = ent_id r then r else x) ` set rows = ent_id ` set rows"
    unfolding image_image by (rule image_cong) auto
  with True show ?thesis by (auto simp: save_row_def)
qed (auto simp: save_row_def)

lemma map_ids_update: "map ent_id (map (\<lambda>x. if ent_id x = ent_id r then r else x) rows) = map ent_id rows"
  by simp

lemma keyed_save_row: "keyed rows \<Longrightarrow> keyed (save_row r rows)"
  unfolding keyed_def save_row_def
  by (cases "ent_id r \<in> ent_id ` set rows") (simp_all only: if_True if_False map_ids_update, simp)

lemma find_map_other:
  "i \<noteq> ent_id r \<Longrightarrow>
     find (\<lambda>x. ent_id x = i) (map (\<lambda>x. if ent_id x = ent_id r then r else x) rows)
       = find (\<lambda>x. ent_id x = i) rows"
  by (induction rows) auto

lemma find_append_other:
  "i \<noteq> ent_id r \<Longrightarrow> find (\<lambda>x. ent_id x = i) (rows @ [r]) = find (\<lambda>x. ent_id x = i) rows"
  by (induction rows) auto

lemma find_id_save_other: "i \<noteq> ent_id r \<Longrightarrow> find_id i (save_row r rows) = find_id i rows"
  by (simp add: find_id_def save_row_def find_map_other find_append_other)

lemma set_save_row: "keyed rows \<Longrightarrow> set (save_row r rows) = insert r {x \<in> set rows. ent_id x \<noteq> ent_id r}"
  by (auto simp: save_row_def image_iff split: if_splits)

interpretation table: repository ent_id find_id save_row set keyed
proof unfold_locales
  fix t :: "'a entity_scheme list" and k r
  assume "keyed t"
  then show "find_id k t = Some r \<longleftrightarrow> r \<in> set t \<and> ent_id r = k"
    by (rule find_id_keyed)
next
  fix t :: "'a entity_scheme list" and r
  assume "keyed t"
  then show "find_id (ent_id r) (save_row r t) = Some r"
    by (simp add: find_id_keyed keyed_save_row set_save_row)
qed (simp_all add: find_id_save_other keyed_save_row)

lemma find_scoped_find_id:
  assumes "keyed rows"
  shows "find_scoped t i rows =
           (case find_id i rows of None \<Rightarrow> None | Some x \<Rightarrow> if tenantId x = t then Some x else None)"
proof (cases "find_scoped t i rows")
  case None
  then have "r \<in> set rows \<Longrightarrow> ent_id r = i \<Longrightarrow> tenantId r \<noteq> t" for r
    using find_scoped_keyed [OF assms] by (metis option.distinct(1))
  with None show ?thesis
    using find_id_keyed [OF assms, of i] by (auto split: option.splits)
next
  case (Some r)
  then have "find_id i rows = Some r" "tenantId r = t"
    using assms by (auto simp: find_scoped_keyed find_id_keyed)
  with Some show ?thesis by simp
qed

lemma find_scoped_save:
  "keyed rows \<Longrightarrow>
     find_scoped t i (save_row r rows) =
       (if i = ent_id r then (if tenantId r = t then Some r else None) else find_scoped t i rows)"
  by (simp add: find_scoped_find_id keyed_save_row table.lookup_save)

text \<open>A row saved by its own tenant leaves the other tenants' rows as they are.\<close>

lemma foreign_rows_save:
  assumes "keyed rows" and "tenantId r = t"
    and "\<And>x. x \<in> set rows \<Longrightarrow> ent_id x = ent_id r \<Longrightarrow> tenantId x = t"
  shows "foreign_rows t (save_row r rows) = foreign_rows t rows"
proof (cases "ent_id r \<in> ent_id ` set rows")
  case True
  have "filter (\<lambda>r. tenantId r \<noteq> t) (map (\<lambda>x. if ent_id x = ent_id r then r else x) xs)
      = filter (\<lambda>r. tenantId r \<noteq> t) xs" if "set xs \<subseteq> set rows" for xs
    using that assms(2,3) by (induction xs) auto
  with True show ?thesis by (simp add: foreign_rows_def save_row_def)
next
  case False
  with assms(2) show ?thesis by (auto simp: foreign_rows_def save_row_def)
qed

lemma count_tenant_insert:
  "ent_id r \<notin> ent_id ` set rows \<Longrightarrow>
     count_tenant t (save_row r rows) = count_tenant t rows + (if tenantId r = t then 1 else 0)"
  by (simp add: count_tenant_def save_row_def)

lemma map_update_fresh:
  "i \<notin> ent_id ` set rows \<Longrightarrow> map (\<lambda>x. if ent_id x = i then b else x) rows = rows"
  by (intro map_idI) (metis imageI)

lemma save_row_twice [simp]:
  assumes eq: "ent_id a = ent_id b"
  shows "save_row b (save_row a rows) = save_row b rows"
proof -
  have ids: "ent_id b \<in> ent_id ` set (save_row a rows)" using eq by (simp add: ids_save_row)
  then have step: "save_row b (save_row a rows) = map (\<lambda>x. if ent_id x = ent_id b then b else x) (save_row a rows)"
    unfolding save_row_def [of b "save_row a rows"] by simp
  show ?thesis
  proof (cases "ent_id b \<in> ent_id ` set rows")
    case True
    have "(\<lambda>x. if ent_id x = ent_id b then b else x) \<circ> (\<lambda>x. if ent_id x = ent_id b then a else x)
        = (\<lambda>x. if ent_id x = ent_id b then b else x)" using eq by (auto simp: fun_eq_iff)
    then show ?thesis unfolding step using True eq by (simp add: save_row_def)
  next
    case False
    then show ?thesis unfolding step using eq by (simp add: save_row_def map_update_fresh)
  qed
qed

text \<open>A generated key that no row of the table has.\<close>

definition fresh :: "uuid \<Rightarrow> 'a entity_scheme list \<Rightarrow> bool" where
  "fresh i rows \<longleftrightarrow> i \<notin> ent_id ` set rows"

lemma fresh_save_row: "fresh (ent_id r) rows \<Longrightarrow> save_row r rows = rows @ [r]"
  by (simp add: fresh_def save_row_def)

text \<open>Sums over the rows of a table, when a row is added and when it is replaced.\<close>

lemma sum_save_fresh:
  fixes g :: "'a entity_scheme \<Rightarrow> 'b::ab_group_add"
  shows "fresh (ent_id r) rows \<Longrightarrow> sum_list (map g (save_row r rows)) = sum_list (map g rows) + g r"
  by (simp add: fresh_save_row)

lemma sum_map_row:
  fixes g :: "'a entity_scheme \<Rightarrow> 'b::ab_group_add"
  assumes "keyed rows" and "old \<in> set rows" and "ent_id r = ent_id old"
  shows "sum_list (map g (map (\<lambda>x. if ent_id x = ent_id r then r else x) rows))
    = sum_list (map g rows) - g old + g r"
  using assms
proof (induction rows)
  case (Cons x rows)
  show ?case
  proof (cases "x = old")
    case True
    then have "ent_id old \<notin> ent_id ` set rows" using Cons.prems by (simp add: keyed_def)
    then show ?thesis using True Cons.prems(3) map_update_fresh [of "ent_id r" rows r] by simp
  next
    case False
    then have "old \<in> set rows" "keyed rows" using Cons.prems by (simp_all add: keyed_def)
    moreover have "ent_id x \<noteq> ent_id r"
      using Cons.prems calculation by (auto simp: keyed_def image_iff)
    ultimately show ?thesis using Cons.IH Cons.prems(3) by (simp add: algebra_simps)
  qed
qed simp

lemma sum_save_row:
  fixes g :: "'a entity_scheme \<Rightarrow> 'b::ab_group_add"
  assumes "keyed rows" and "find_scoped t i rows = Some old" and "ent_id r = ent_id old"
  shows "sum_list (map g (save_row r rows)) = sum_list (map g rows) - g old + g r"
proof -
  have old: "old \<in> set rows" using find_scoped_Some [OF assms(2)] by simp
  then have "save_row r rows = map (\<lambda>x. if ent_id x = ent_id r then r else x) rows"
    using assms(3) unfolding save_row_def by (metis imageI)
  then show ?thesis using sum_map_row [OF assms(1) old assms(3)] by simp
qed

text \<open>A save that leaves a projection of its row alone leaves the projection of the table alone.\<close>

lemma map_save_row:
  assumes "keyed rows" and "x \<in> set rows" and "ent_id r = ent_id x" and "f r = f x"
  shows "map f (save_row r rows) = map f rows"
proof -
  have "(if ent_id y = ent_id x then f r else f y) = f y" if "y \<in> set rows" for y
    using that assms table.key_inj [OF assms(1) that assms(2)] by auto
  then have "map (f \<circ> (\<lambda>y. if ent_id y = ent_id x then r else y)) rows = map f rows"
    by (intro map_cong [OF refl]) (simp add: if_distrib [of f] cong: if_cong)
  with assms show ?thesis by (simp add: save_row_def)
qed

text \<open>Looking a row up by something else than its key, after it was added or replaced.\<close>

lemma find_appended: "find P cs = None \<Longrightarrow> P c \<Longrightarrow> find P (cs @ [c]) = Some c"
  by (induction cs) (auto split: if_splits)

lemma find_replaced:
  assumes "find P cs = Some c" and "P c'" and "ent_id c' = ent_id c" and "keyed cs"
  shows "find P (save_row c' cs) = Some c'"
proof -
  have "c \<in> set cs" "P c" using assms(1) by (auto simp: find_Some_iff)
  then have "save_row c' cs = map (\<lambda>x. if ent_id x = ent_id c then c' else x) cs"
    using assms(3) by (auto simp: save_row_def)
  moreover have "find P (map (\<lambda>x. if ent_id x = ent_id c then c' else x) cs) = Some c'"
    using assms(1,2) by (induction cs) (auto split: if_splits)
  ultimately show ?thesis by simp
qed

lemma find_unreplaced:
  assumes "c \<in> set cs" and "\<not> P c" and "\<not> P c'" and "ent_id c' = ent_id c" and "keyed cs"
  shows "find P (save_row c' cs) = find P cs"
proof -
  have "save_row c' cs = map (\<lambda>x. if ent_id x = ent_id c then c' else x) cs"
    using assms(1,4) by (auto simp: save_row_def)
  moreover have "\<not> P x" if "x \<in> set cs" "ent_id x = ent_id c" for x
    using table.key_inj [OF assms(5) that(1) assms(1)] that assms(2) by simp
  then have "find P (map (\<lambda>x. if ent_id x = ent_id c then c' else x) cs) = find P cs"
    using assms(3) by (induction cs) auto
  ultimately show ?thesis by simp
qed

end
