(* ===== verification/Fsm.thy ===== *)
theory Fsm
  imports Prelude
begin

text \<open>
  The status machines of the document types. Each source file of a
  \<^verbatim>\<open>state-machines/\<close> directory holds a table \<^verbatim>\<open>TRANSITIONS\<close> and up to three
  functions over it: \<^verbatim>\<open>can\<dots>Transition\<close>, \<^verbatim>\<open>assert\<dots>Transition\<close> (throws a plain
  \<^verbatim>\<open>Error\<close>) and \<^verbatim>\<open>list\<dots>Transitions\<close>. The locale \<open>status_machine\<close> states what the
  services rely on, \<open>ranked_machine\<close> adds that the document only moves forward.
\<close>

section \<open>What a status machine promises\<close>

locale status_machine =
  fixes listing :: "'a \<Rightarrow> 'a list"
    and can :: "'a \<Rightarrow> 'a \<Rightarrow> bool"
    and assert_can :: "'a \<Rightarrow> 'a \<Rightarrow> http_error + unit"
  assumes can_listing: "can a b \<longleftrightarrow> b \<in> set (listing a)"
    and assert_ok: "assert_can a b = Inr () \<longleftrightarrow> can a b"
    and assert_err: "\<not> can a b \<Longrightarrow> assert_can a b = Inl PlainError"
begin

lemma assert_cases: "assert_can a b = (if can a b then Inr () else Inl PlainError)"
  using assert_ok assert_err by auto

lemma terminal_stays: "can\<^sup>*\<^sup>* a b \<Longrightarrow> listing a = [] \<Longrightarrow> b = a"
  by (induction rule: rtranclp_induct) (auto simp: can_listing)

lemma run_keeps: "can\<^sup>*\<^sup>* a b \<Longrightarrow> P a \<Longrightarrow> (\<And>x y. P x \<Longrightarrow> can x y \<Longrightarrow> P y) \<Longrightarrow> P b"
  by (induction rule: rtranclp_induct) auto

end

text \<open>
  A machine whose statuses carry a rank that grows along every transition that
  changes the status.
\<close>

locale ranked_machine = status_machine listing can assert_can
  for listing :: "'a \<Rightarrow> 'a list"
    and can :: "'a \<Rightarrow> 'a \<Rightarrow> bool"
    and assert_can :: "'a \<Rightarrow> 'a \<Rightarrow> http_error + unit" +
  fixes rank :: "'a \<Rightarrow> nat"
  assumes rank_grows: "can a b \<Longrightarrow> a = b \<or> rank a < rank b"
begin

lemma rank_run: "can\<^sup>*\<^sup>* a b \<Longrightarrow> a = b \<or> rank a < rank b"
  by (induction rule: rtranclp_induct) (use rank_grows less_trans in \<open>blast+\<close>)

lemma no_return: "can\<^sup>*\<^sup>* a b \<Longrightarrow> can\<^sup>*\<^sup>* b a \<Longrightarrow> b = a"
  using rank_run [of a b] rank_run [of b a] by auto

end

text \<open>
  \<^verbatim>\<open>TRANSITIONS[from]?.includes(to) ?? false\<close> and the assertion built on it. The
  table is a parameter here; every machine below instantiates it.
\<close>

abbreviation in_table :: "('a \<Rightarrow> 'a list) \<Rightarrow> 'a \<Rightarrow> 'a \<Rightarrow> bool" where
  "in_table T a b \<equiv> b \<in> set (T a)"

section \<open>Purchase requisitions\<close>

datatype pr_status = PrDraft | PrSubmitted | PrApproved | PrRejected | PrConverted | PrCancelled

fun pr_transitions :: "pr_status \<Rightarrow> pr_status list" where
  "pr_transitions PrDraft = [PrSubmitted, PrCancelled]"
| "pr_transitions PrSubmitted = [PrApproved, PrRejected, PrCancelled]"
| "pr_transitions PrApproved = [PrConverted, PrCancelled]"
| "pr_transitions PrRejected = [PrCancelled]"
| "pr_transitions PrConverted = []"
| "pr_transitions PrCancelled = []"

definition can_pr :: "pr_status \<Rightarrow> pr_status \<Rightarrow> bool" where
  "can_pr a b = in_table pr_transitions a b"

definition assert_pr :: "pr_status \<Rightarrow> pr_status \<Rightarrow> http_error + unit" where
  "assert_pr a b = (if \<not> can_pr a b then Inl PlainError else Inr ())"

definition list_pr :: "pr_status \<Rightarrow> pr_status list" where
  "list_pr a = pr_transitions a"

fun pr_rank :: "pr_status \<Rightarrow> nat" where
  "pr_rank PrDraft = 0"
| "pr_rank PrSubmitted = 1"
| "pr_rank PrApproved = 2"
| "pr_rank PrRejected = 2"
| "pr_rank PrConverted = 3"
| "pr_rank PrCancelled = 4"

interpretation pr_machine: ranked_machine list_pr can_pr assert_pr pr_rank
proof unfold_locales
  show "can_pr a b \<Longrightarrow> a = b \<or> pr_rank a < pr_rank b" for a b
    by (cases a) (auto simp: can_pr_def)
qed (auto simp: can_pr_def assert_pr_def list_pr_def)

section \<open>Requests for quote\<close>

datatype rfq_status = RfqDraft | RfqSent | RfqQuotesReceived | RfqAwarded | RfqExpired | RfqConverted | RfqCancelled

fun rfq_transitions :: "rfq_status \<Rightarrow> rfq_status list" where
  "rfq_transitions RfqDraft = [RfqSent, RfqCancelled]"
| "rfq_transitions RfqSent = [RfqQuotesReceived, RfqExpired, RfqCancelled]"
| "rfq_transitions RfqQuotesReceived = [RfqAwarded, RfqExpired, RfqCancelled]"
| "rfq_transitions RfqAwarded = [RfqConverted, RfqCancelled]"
| "rfq_transitions RfqExpired = [RfqCancelled]"
| "rfq_transitions RfqConverted = []"
| "rfq_transitions RfqCancelled = []"

definition can_rfq :: "rfq_status \<Rightarrow> rfq_status \<Rightarrow> bool" where
  "can_rfq a b = in_table rfq_transitions a b"

definition assert_rfq :: "rfq_status \<Rightarrow> rfq_status \<Rightarrow> http_error + unit" where
  "assert_rfq a b = (if \<not> can_rfq a b then Inl PlainError else Inr ())"

definition list_rfq :: "rfq_status \<Rightarrow> rfq_status list" where
  "list_rfq a = rfq_transitions a"

fun rfq_rank :: "rfq_status \<Rightarrow> nat" where
  "rfq_rank RfqDraft = 0"
| "rfq_rank RfqSent = 1"
| "rfq_rank RfqQuotesReceived = 2"
| "rfq_rank RfqAwarded = 3"
| "rfq_rank RfqExpired = 3"
| "rfq_rank RfqConverted = 4"
| "rfq_rank RfqCancelled = 4"

interpretation rfq_machine: ranked_machine list_rfq can_rfq assert_rfq rfq_rank
proof unfold_locales
  show "can_rfq a b \<Longrightarrow> a = b \<or> rfq_rank a < rfq_rank b" for a b
    by (cases a) (auto simp: can_rfq_def)
qed (auto simp: can_rfq_def assert_rfq_def list_rfq_def)

section \<open>Purchase orders\<close>

datatype po_status = PoDraft | PoSent | PoAcknowledged | PoPartiallyReceived | PoReceived | PoInvoiced | PoClosed | PoCancelled

fun po_transitions :: "po_status \<Rightarrow> po_status list" where
  "po_transitions PoDraft = [PoSent, PoCancelled]"
| "po_transitions PoSent = [PoAcknowledged, PoPartiallyReceived, PoReceived, PoCancelled]"
| "po_transitions PoAcknowledged = [PoPartiallyReceived, PoReceived, PoCancelled]"
| "po_transitions PoPartiallyReceived = [PoPartiallyReceived, PoReceived, PoCancelled]"
| "po_transitions PoReceived = [PoInvoiced, PoClosed, PoCancelled]"
| "po_transitions PoInvoiced = [PoClosed, PoCancelled]"
| "po_transitions PoClosed = []"
| "po_transitions PoCancelled = []"

definition can_po :: "po_status \<Rightarrow> po_status \<Rightarrow> bool" where
  "can_po a b = in_table po_transitions a b"

definition assert_po :: "po_status \<Rightarrow> po_status \<Rightarrow> http_error + unit" where
  "assert_po a b = (if \<not> can_po a b then Inl PlainError else Inr ())"

definition list_po :: "po_status \<Rightarrow> po_status list" where
  "list_po a = po_transitions a"

definition is_po_terminal :: "po_status \<Rightarrow> bool" where
  "is_po_terminal a \<longleftrightarrow> length (po_transitions a) = 0"

fun po_rank :: "po_status \<Rightarrow> nat" where
  "po_rank PoDraft = 0"
| "po_rank PoSent = 1"
| "po_rank PoAcknowledged = 2"
| "po_rank PoPartiallyReceived = 3"
| "po_rank PoReceived = 4"
| "po_rank PoInvoiced = 5"
| "po_rank PoClosed = 6"
| "po_rank PoCancelled = 6"

interpretation po_machine: ranked_machine list_po can_po assert_po po_rank
proof unfold_locales
  show "can_po a b \<Longrightarrow> a = b \<or> po_rank a < po_rank b" for a b
    by (cases a) (auto simp: can_po_def)
qed (auto simp: can_po_def assert_po_def list_po_def)

section \<open>Goods receipts\<close>

datatype gr_status = GrDraft | GrConfirmed | GrPartiallyInspected | GrInspected | GrRejected

fun gr_transitions :: "gr_status \<Rightarrow> gr_status list" where
  "gr_transitions GrDraft = [GrConfirmed, GrRejected]"
| "gr_transitions GrConfirmed = [GrPartiallyInspected, GrInspected, GrRejected]"
| "gr_transitions GrPartiallyInspected = [GrPartiallyInspected, GrInspected, GrRejected]"
| "gr_transitions GrInspected = []"
| "gr_transitions GrRejected = []"

definition can_gr :: "gr_status \<Rightarrow> gr_status \<Rightarrow> bool" where
  "can_gr a b = in_table gr_transitions a b"

definition assert_gr :: "gr_status \<Rightarrow> gr_status \<Rightarrow> http_error + unit" where
  "assert_gr a b = (if \<not> can_gr a b then Inl PlainError else Inr ())"

definition list_gr :: "gr_status \<Rightarrow> gr_status list" where
  "list_gr a = gr_transitions a"

fun gr_rank :: "gr_status \<Rightarrow> nat" where
  "gr_rank GrDraft = 0"
| "gr_rank GrConfirmed = 1"
| "gr_rank GrPartiallyInspected = 2"
| "gr_rank GrInspected = 3"
| "gr_rank GrRejected = 3"

interpretation gr_machine: ranked_machine list_gr can_gr assert_gr gr_rank
proof unfold_locales
  show "can_gr a b \<Longrightarrow> a = b \<or> gr_rank a < gr_rank b" for a b
    by (cases a) (auto simp: can_gr_def)
qed (auto simp: can_gr_def assert_gr_def list_gr_def)

section \<open>Supplier invoices\<close>

datatype si_status = SiReceived | SiMatched | SiDisputed | SiApproved | SiPaid | SiRejected | SiCancelled

fun si_transitions :: "si_status \<Rightarrow> si_status list" where
  "si_transitions SiReceived = [SiMatched, SiDisputed, SiRejected, SiCancelled]"
| "si_transitions SiMatched = [SiApproved, SiDisputed, SiCancelled]"
| "si_transitions SiDisputed = [SiApproved, SiRejected, SiCancelled]"
| "si_transitions SiApproved = [SiPaid, SiCancelled]"
| "si_transitions SiPaid = []"
| "si_transitions SiRejected = []"
| "si_transitions SiCancelled = []"

definition can_si :: "si_status \<Rightarrow> si_status \<Rightarrow> bool" where
  "can_si a b = in_table si_transitions a b"

definition assert_si :: "si_status \<Rightarrow> si_status \<Rightarrow> http_error + unit" where
  "assert_si a b = (if \<not> can_si a b then Inl PlainError else Inr ())"

definition list_si :: "si_status \<Rightarrow> si_status list" where
  "list_si a = si_transitions a"

fun si_rank :: "si_status \<Rightarrow> nat" where
  "si_rank SiReceived = 0"
| "si_rank SiMatched = 1"
| "si_rank SiDisputed = 2"
| "si_rank SiApproved = 3"
| "si_rank SiPaid = 4"
| "si_rank SiRejected = 4"
| "si_rank SiCancelled = 4"

interpretation si_machine: ranked_machine list_si can_si assert_si si_rank
proof unfold_locales
  show "can_si a b \<Longrightarrow> a = b \<or> si_rank a < si_rank b" for a b
    by (cases a) (auto simp: can_si_def)
qed (auto simp: can_si_def assert_si_def list_si_def)

section \<open>Quotations\<close>

datatype quotation_status = QDraft | QSent | QRevised | QAccepted | QConverted | QRejected | QExpired

fun quotation_transitions :: "quotation_status \<Rightarrow> quotation_status list" where
  "quotation_transitions QDraft = [QSent, QExpired]"
| "quotation_transitions QSent = [QRevised, QAccepted, QRejected, QExpired]"
| "quotation_transitions QRevised = [QSent, QExpired]"
| "quotation_transitions QAccepted = [QConverted, QExpired]"
| "quotation_transitions QConverted = []"
| "quotation_transitions QRejected = []"
| "quotation_transitions QExpired = []"

definition can_quotation :: "quotation_status \<Rightarrow> quotation_status \<Rightarrow> bool" where
  "can_quotation a b = in_table quotation_transitions a b"

definition assert_quotation :: "quotation_status \<Rightarrow> quotation_status \<Rightarrow> http_error + unit" where
  "assert_quotation a b = (if \<not> can_quotation a b then Inl PlainError else Inr ())"

definition list_quotation :: "quotation_status \<Rightarrow> quotation_status list" where
  "list_quotation a = quotation_transitions a"

interpretation quotation_machine: status_machine list_quotation can_quotation assert_quotation
  by unfold_locales (auto simp: can_quotation_def assert_quotation_def list_quotation_def)

section \<open>Delivery notes\<close>

datatype ddt_status = DdtDraft | DdtIssued | DdtInTransit | DdtDelivered | DdtDisputed | DdtInvoiced | DdtReturned | DdtLost | DdtCancelled

fun ddt_transitions :: "ddt_status \<Rightarrow> ddt_status list" where
  "ddt_transitions DdtDraft = [DdtIssued, DdtCancelled]"
| "ddt_transitions DdtIssued = [DdtInTransit, DdtDelivered, DdtCancelled]"
| "ddt_transitions DdtInTransit = [DdtDelivered, DdtReturned, DdtLost, DdtDisputed]"
| "ddt_transitions DdtDelivered = [DdtInvoiced, DdtDisputed]"
| "ddt_transitions DdtDisputed = [DdtDelivered, DdtReturned, DdtLost]"
| "ddt_transitions DdtInvoiced = []"
| "ddt_transitions DdtReturned = []"
| "ddt_transitions DdtLost = []"
| "ddt_transitions DdtCancelled = []"

definition can_ddt :: "ddt_status \<Rightarrow> ddt_status \<Rightarrow> bool" where
  "can_ddt a b = in_table ddt_transitions a b"

definition assert_ddt :: "ddt_status \<Rightarrow> ddt_status \<Rightarrow> http_error + unit" where
  "assert_ddt a b = (if \<not> can_ddt a b then Inl PlainError else Inr ())"

definition list_ddt :: "ddt_status \<Rightarrow> ddt_status list" where
  "list_ddt a = ddt_transitions a"

interpretation ddt_machine: status_machine list_ddt can_ddt assert_ddt
  by unfold_locales (auto simp: can_ddt_def assert_ddt_def list_ddt_def)

section \<open>Intrastat declarations\<close>

datatype intrastat_status = IntraDraft | IntraGenerated | IntraSubmitted | IntraAccepted | IntraRejected

fun intrastat_transitions :: "intrastat_status \<Rightarrow> intrastat_status list" where
  "intrastat_transitions IntraDraft = [IntraGenerated]"
| "intrastat_transitions IntraGenerated = [IntraSubmitted, IntraDraft]"
| "intrastat_transitions IntraSubmitted = [IntraAccepted, IntraRejected]"
| "intrastat_transitions IntraAccepted = []"
| "intrastat_transitions IntraRejected = []"

definition can_intrastat :: "intrastat_status \<Rightarrow> intrastat_status \<Rightarrow> bool" where
  "can_intrastat a b = in_table intrastat_transitions a b"

definition assert_intrastat :: "intrastat_status \<Rightarrow> intrastat_status \<Rightarrow> http_error + unit" where
  "assert_intrastat a b = (if \<not> can_intrastat a b then Inl PlainError else Inr ())"

definition list_intrastat :: "intrastat_status \<Rightarrow> intrastat_status list" where
  "list_intrastat a = intrastat_transitions a"

interpretation intrastat_machine: status_machine list_intrastat can_intrastat assert_intrastat
  by unfold_locales (auto simp: can_intrastat_def assert_intrastat_def list_intrastat_def)

section \<open>Employees\<close>

datatype employee_status = EmpProspect | EmpOnboarding | EmpActive | EmpTerminated

fun employee_transitions :: "employee_status \<Rightarrow> employee_status list" where
  "employee_transitions EmpProspect = [EmpOnboarding, EmpTerminated]"
| "employee_transitions EmpOnboarding = [EmpActive, EmpTerminated]"
| "employee_transitions EmpActive = [EmpTerminated]"
| "employee_transitions EmpTerminated = []"

definition can_employee :: "employee_status \<Rightarrow> employee_status \<Rightarrow> bool" where
  "can_employee a b = in_table employee_transitions a b"

definition assert_employee :: "employee_status \<Rightarrow> employee_status \<Rightarrow> http_error + unit" where
  "assert_employee a b = (if \<not> can_employee a b then Inl PlainError else Inr ())"

definition list_employee :: "employee_status \<Rightarrow> employee_status list" where
  "list_employee a = employee_transitions a"

fun employee_rank :: "employee_status \<Rightarrow> nat" where
  "employee_rank EmpProspect = 0"
| "employee_rank EmpOnboarding = 1"
| "employee_rank EmpActive = 2"
| "employee_rank EmpTerminated = 3"

interpretation employee_machine: ranked_machine list_employee can_employee assert_employee employee_rank
proof unfold_locales
  show "can_employee a b \<Longrightarrow> a = b \<or> employee_rank a < employee_rank b" for a b
    by (cases a) (auto simp: can_employee_def)
qed (auto simp: can_employee_def assert_employee_def list_employee_def)

section \<open>Leave requests\<close>

datatype leave_status = LeaveDraft | LeaveSubmitted | LeaveApproved | LeaveRejected | LeaveCancelled

fun leave_transitions :: "leave_status \<Rightarrow> leave_status list" where
  "leave_transitions LeaveDraft = [LeaveSubmitted, LeaveCancelled]"
| "leave_transitions LeaveSubmitted = [LeaveApproved, LeaveRejected, LeaveCancelled]"
| "leave_transitions LeaveApproved = [LeaveCancelled]"
| "leave_transitions LeaveRejected = []"
| "leave_transitions LeaveCancelled = []"

definition can_leave :: "leave_status \<Rightarrow> leave_status \<Rightarrow> bool" where
  "can_leave a b = in_table leave_transitions a b"

definition assert_leave :: "leave_status \<Rightarrow> leave_status \<Rightarrow> http_error + unit" where
  "assert_leave a b = (if \<not> can_leave a b then Inl PlainError else Inr ())"

definition list_leave :: "leave_status \<Rightarrow> leave_status list" where
  "list_leave a = leave_transitions a"

fun leave_rank :: "leave_status \<Rightarrow> nat" where
  "leave_rank LeaveDraft = 0"
| "leave_rank LeaveSubmitted = 1"
| "leave_rank LeaveApproved = 2"
| "leave_rank LeaveRejected = 3"
| "leave_rank LeaveCancelled = 3"

interpretation leave_machine: ranked_machine list_leave can_leave assert_leave leave_rank
proof unfold_locales
  show "can_leave a b \<Longrightarrow> a = b \<or> leave_rank a < leave_rank b" for a b
    by (cases a) (auto simp: can_leave_def)
qed (auto simp: can_leave_def assert_leave_def list_leave_def)

section \<open>Attendance records\<close>

datatype attendance_status = AttOpen | AttClosed | AttAutoClosed

fun attendance_transitions :: "attendance_status \<Rightarrow> attendance_status list" where
  "attendance_transitions AttOpen = [AttClosed, AttAutoClosed]"
| "attendance_transitions AttClosed = []"
| "attendance_transitions AttAutoClosed = []"

definition can_attendance :: "attendance_status \<Rightarrow> attendance_status \<Rightarrow> bool" where
  "can_attendance a b = in_table attendance_transitions a b"

definition assert_attendance :: "attendance_status \<Rightarrow> attendance_status \<Rightarrow> http_error + unit" where
  "assert_attendance a b = (if \<not> can_attendance a b then Inl PlainError else Inr ())"

fun attendance_rank :: "attendance_status \<Rightarrow> nat" where
  "attendance_rank AttOpen = 0"
| "attendance_rank AttClosed = 1"
| "attendance_rank AttAutoClosed = 1"

interpretation attendance_machine: ranked_machine attendance_transitions can_attendance assert_attendance attendance_rank
proof unfold_locales
  show "can_attendance a b \<Longrightarrow> a = b \<or> attendance_rank a < attendance_rank b" for a b
    by (cases a) (auto simp: can_attendance_def)
qed (auto simp: can_attendance_def assert_attendance_def)

section \<open>Forward only\<close>

text \<open>
  Requisitions, requests for quote, purchase orders, goods receipts, supplier
  invoices, employees, leave requests and attendance records never come back to a status
  they have left: each of these tables of transitions orders the statuses.
\<close>

theorem status_machines_never_return:
  "antisymp (can_pr\<^sup>*\<^sup>*) \<and> antisymp (can_rfq\<^sup>*\<^sup>*) \<and> antisymp (can_po\<^sup>*\<^sup>*) \<and> antisymp (can_gr\<^sup>*\<^sup>*) \<and>
   antisymp (can_si\<^sup>*\<^sup>*) \<and> antisymp (can_employee\<^sup>*\<^sup>*) \<and> antisymp (can_leave\<^sup>*\<^sup>*) \<and> antisymp (can_attendance\<^sup>*\<^sup>*)"
  by (intro conjI antisympI)
    (fact pr_machine.no_return [symmetric] rfq_machine.no_return [symmetric] po_machine.no_return [symmetric]
      gr_machine.no_return [symmetric] si_machine.no_return [symmetric] employee_machine.no_return [symmetric]
      leave_machine.no_return [symmetric] attendance_machine.no_return [symmetric])+

end
