(* ===== verification/JsString.thy ===== *)
theory JsString
  imports Prelude
begin

text \<open>
  JavaScript strings. A string is the list of its characters; the texts these
  components inspect (IBANs, document numbers, XML, URLs) are ASCII. The theory holds
  \<^verbatim>\<open>String(n)\<close> and \<^verbatim>\<open>parseInt\<close> on natural numbers, \<^verbatim>\<open>padStart\<close>,
  \<^verbatim>\<open>toUpperCase\<close>, the removal of \<^verbatim>\<open>/\s+/g\<close>, and the XML escaping function
  that occurs in several files, with the lemma that printing is injective.
\<close>

section \<open>Decimal numbers\<close>

definition digit :: "nat \<Rightarrow> char" where
  "digit d = char_of (48 + d)"

definition digit_val :: "char \<Rightarrow> nat" where
  "digit_val c = of_char c - 48"

definition is_digit :: "char \<Rightarrow> bool" where
  "is_digit c \<longleftrightarrow> 48 \<le> (of_char c :: nat) \<and> (of_char c :: nat) \<le> 57"

definition is_upper :: "char \<Rightarrow> bool" where
  "is_upper c \<longleftrightarrow> 65 \<le> (of_char c :: nat) \<and> (of_char c :: nat) \<le> 90"

definition is_lower :: "char \<Rightarrow> bool" where
  "is_lower c \<longleftrightarrow> 97 \<le> (of_char c :: nat) \<and> (of_char c :: nat) \<le> 122"

definition is_space :: "char \<Rightarrow> bool" where
  "is_space c \<longleftrightarrow> (of_char c :: nat) = 32 \<or> (9 \<le> (of_char c :: nat) \<and> (of_char c :: nat) \<le> 13)"

fun dec :: "nat \<Rightarrow> string" where
  "dec n = (if n < 10 then [digit n] else dec (n div 10) @ [digit (n mod 10)])"

declare dec.simps [simp del]

definition parse_dec :: "string \<Rightarrow> nat" where
  "parse_dec s = foldl (\<lambda>a c. 10 * a + digit_val c) 0 s"

definition pad_start :: "nat \<Rightarrow> char \<Rightarrow> string \<Rightarrow> string" where
  "pad_start k c s = replicate (k - length s) c @ s"

definition to_upper :: "char \<Rightarrow> char" where
  "to_upper c = (if is_lower c then char_of ((of_char c :: nat) - 32) else c)"

definition to_lower :: "char \<Rightarrow> char" where
  "to_lower c = (if is_upper c then char_of ((of_char c :: nat) + 32) else c)"

definition strip_spaces :: "string \<Rightarrow> string" where
  "strip_spaces s = filter (\<lambda>c. \<not> is_space c) s"

text \<open>\<^verbatim>\<open>s.trim()\<close>\<close>

definition js_trim :: "string \<Rightarrow> string" where
  "js_trim s = rev (dropWhile is_space (rev (dropWhile is_space s)))"

text \<open>An optional text read as a condition: absent and empty texts are false.\<close>

definition truthy :: "string option \<Rightarrow> bool" where
  "truthy s \<longleftrightarrow> s \<noteq> None \<and> s \<noteq> Some []"

lemma truthy_simps [simp]: "truthy (Some x) \<longleftrightarrow> x \<noteq> []" "\<not> truthy None"
  by (simp_all add: truthy_def)

text \<open>\<^verbatim>\<open>s.split(c)\<close>\<close>

fun split_at_char :: "char \<Rightarrow> string \<Rightarrow> string list" where
  "split_at_char c [] = [[]]"
| "split_at_char c (x # xs) =
     (if x = c then [] # split_at_char c xs
      else (case split_at_char c xs of [] \<Rightarrow> [[x]] | w # ws \<Rightarrow> (x # w) # ws))"

text \<open>\<^verbatim>\<open>s.includes(t)\<close>\<close>

definition has_substring :: "string \<Rightarrow> string \<Rightarrow> bool" where
  "has_substring s t \<longleftrightarrow> list_ex (\<lambda>k. take (length t) (drop k s) = t) [0..<Suc (length s)]"

lemma of_char_digit: "d < 10 \<Longrightarrow> of_char (digit d) = 48 + d"
  by (simp add: digit_def)

lemma digit_val_digit [simp]: "d < 10 \<Longrightarrow> digit_val (digit d) = d"
  by (simp add: digit_val_def of_char_digit)

lemma is_digit_digit [simp]: "d < 10 \<Longrightarrow> is_digit (digit d)"
  by (simp add: is_digit_def of_char_digit)

lemma dec_nonempty [simp]: "dec n \<noteq> []"
  by (subst dec.simps) simp

lemma dec_digits: "c \<in> set (dec n) \<Longrightarrow> is_digit c"
proof (induction n rule: dec.induct)
  case (1 n)
  then show ?case by (cases "n < 10") (auto simp: dec.simps [of n])
qed

lemma parse_dec_append: "parse_dec (s @ [c]) = 10 * parse_dec s + digit_val c"
  by (simp add: parse_dec_def)

lemma parse_dec_dec [simp]: "parse_dec (dec n) = n"
proof (induction n rule: dec.induct)
  case (1 n)
  show ?case
  proof (cases "n < 10")
    case True
    then show ?thesis by (simp add: dec.simps [of n] parse_dec_def)
  next
    case False
    then show ?thesis using 1 by (simp add: dec.simps [of n] parse_dec_append)
  qed
qed

lemma dec_inj: "dec m = dec n \<Longrightarrow> m = n"
  by (metis parse_dec_dec)

lemma digit_val_0 [simp]: "digit_val CHR ''0'' = 0"
  by (simp add: digit_val_def)

lemma parse_dec_pad: "parse_dec (pad_start k CHR ''0'' s) = parse_dec s"
proof -
  have "foldl (\<lambda>a c. 10 * a + digit_val c) 0 (replicate m CHR ''0'') = 0" for m
    by (induction m) auto
  then show ?thesis by (simp add: parse_dec_def pad_start_def)
qed

lemma pad_start_digits: "(\<And>c. c \<in> set s \<Longrightarrow> is_digit c) \<Longrightarrow> c \<in> set (pad_start k CHR ''0'' s) \<Longrightarrow> is_digit c"
  by (auto simp: pad_start_def is_digit_def)

lemma length_pad_start: "length (pad_start k c s) = max k (length s)"
  by (simp add: pad_start_def)

lemma parse_dec_app: "parse_dec (xs @ ys) = parse_dec xs * 10 ^ length ys + parse_dec ys"
proof (induction ys rule: rev_induct)
  case (snoc y ys)
  have "parse_dec (xs @ ys @ [y]) = 10 * parse_dec (xs @ ys) + digit_val y"
    using parse_dec_append [of "xs @ ys" y] by simp
  then show ?case using snoc by (simp add: parse_dec_append algebra_simps)
qed (simp add: parse_dec_def)

lemma length_dec: "0 < k \<Longrightarrow> n < 10 ^ k \<Longrightarrow> length (dec n) \<le> k"
proof (induction k arbitrary: n)
  case (Suc k)
  show ?case
  proof (cases "n < 10")
    case False
    with Suc.prems have "0 < k" by (cases k) auto
    moreover have "n div 10 < 10 ^ k" using Suc.prems by (simp add: less_mult_imp_div_less mult.commute)
    ultimately show ?thesis using Suc.IH [of "n div 10"] by (subst dec.simps) simp
  qed (simp add: dec.simps)
qed simp

section \<open>Document numbers\<close>

text \<open>
  \<^verbatim>\<open>`PO-${year}-${String(count + 1).padStart(5, '0')}`\<close> and its siblings: a
  prefix, the year, and the padded running number.
\<close>

definition doc_number :: "string \<Rightarrow> nat \<Rightarrow> nat \<Rightarrow> nat \<Rightarrow> string" where
  "doc_number prefix width year n = prefix @ ''-'' @ dec year @ ''-'' @ pad_start width CHR ''0'' (dec n)"

lemma dash_no_digit: "\<not> is_digit CHR ''-''"
  by (simp add: is_digit_def)

lemma split_at_dash:
  assumes "xs @ CHR ''-'' # ys = xs' @ CHR ''-'' # ys'"
    and "\<And>c. c \<in> set xs \<Longrightarrow> is_digit c" and "\<And>c. c \<in> set xs' \<Longrightarrow> is_digit c"
  shows "xs = xs' \<and> ys = ys'"
  using assms dash_no_digit
proof (induction xs arbitrary: xs')
  case Nil
  then show ?case by (cases xs') auto
next
  case (Cons x xs)
  have "x \<noteq> CHR ''-''" using Cons.prems(2) [of x] dash_no_digit by auto
  then obtain xs2 where xs': "xs' = x # xs2" using Cons.prems(1) by (cases xs') auto
  have "xs = xs2 \<and> ys = ys'"
    by (rule Cons.IH) (use Cons.prems xs' dash_no_digit in auto)
  then show ?case by (simp add: xs')
qed

lemma doc_number_inj:
  assumes "doc_number p w y m = doc_number p w y' n"
  shows "y = y' \<and> m = n"
proof -
  from assms have "dec y @ CHR ''-'' # pad_start w CHR ''0'' (dec m) =
      dec y' @ CHR ''-'' # pad_start w CHR ''0'' (dec n)"
    by (simp add: doc_number_def)
  then have "dec y = dec y' \<and> pad_start w CHR ''0'' (dec m) = pad_start w CHR ''0'' (dec n)"
    by (rule split_at_dash) (auto dest: dec_digits)
  then show ?thesis by (metis dec_inj parse_dec_dec parse_dec_pad)
qed

section \<open>XML escaping\<close>

text \<open>
  The five chained \<^verbatim>\<open>replace\<close> calls of \<^verbatim>\<open>escXml\<close> and \<^verbatim>\<open>escapeXml\<close>.
  \<open>replace_char\<close> is \<^verbatim>\<open>s.replace(/c/g, r)\<close>.
\<close>

definition replace_char :: "char \<Rightarrow> string \<Rightarrow> string \<Rightarrow> string" where
  "replace_char c r s = concat (map (\<lambda>x. if x = c then r else [x]) s)"

definition esc_xml :: "string \<Rightarrow> string" where
  "esc_xml s =
     replace_char CHR 0x27 ''&apos;''
      (replace_char CHR 0x22 ''&quot;''
       (replace_char CHR ''>'' ''&gt;''
        (replace_char CHR ''<'' ''&lt;''
         (replace_char CHR ''&'' ''&amp;'' s))))"

text \<open>What one character becomes after the whole chain.\<close>

definition esc_char :: "char \<Rightarrow> string" where
  "esc_char c =
     (if c = CHR ''&'' then ''&amp;''
      else if c = CHR ''<'' then ''&lt;''
      else if c = CHR ''>'' then ''&gt;''
      else if c = CHR 0x22 then ''&quot;''
      else if c = CHR 0x27 then ''&apos;''
      else [c])"

lemma replace_char_append: "replace_char c r (s @ t) = replace_char c r s @ replace_char c r t"
  by (simp add: replace_char_def)

lemma esc_xml_append: "esc_xml (s @ t) = esc_xml s @ esc_xml t"
  by (simp add: esc_xml_def replace_char_append)

lemma esc_xml_single: "esc_xml [c] = esc_char c"
  by (simp add: esc_xml_def esc_char_def replace_char_def)

lemma esc_xml_concat: "esc_xml s = concat (map esc_char s)"
proof (induction s)
  case (Cons c s)
  then show ?case using esc_xml_append [of "[c]" s] by (simp add: esc_xml_single)
qed (simp add: esc_xml_def replace_char_def)

text \<open>The inverse reads an entity greedily at each ampersand.\<close>

fun unesc_xml :: "string \<Rightarrow> string" where
  "unesc_xml [] = []"
| "unesc_xml (c # s) =
     (if c \<noteq> CHR ''&'' then c # unesc_xml s
      else if take 4 s = ''amp;'' then CHR ''&'' # unesc_xml (drop 4 s)
      else if take 3 s = ''lt;'' then CHR ''<'' # unesc_xml (drop 3 s)
      else if take 3 s = ''gt;'' then CHR ''>'' # unesc_xml (drop 3 s)
      else if take 5 s = ''quot;'' then CHR 0x22 # unesc_xml (drop 5 s)
      else if take 5 s = ''apos;'' then CHR 0x27 # unesc_xml (drop 5 s)
      else c # unesc_xml s)"

declare unesc_xml.simps(2) [simp del]

lemma unesc_esc_char: "unesc_xml (esc_char c @ s) = c # unesc_xml s"
  by (simp add: esc_char_def unesc_xml.simps(2))

lemma unesc_esc: "unesc_xml (esc_xml s) = s"
  unfolding esc_xml_concat by (induction s) (simp_all add: unesc_esc_char)

lemma esc_xml_no_markup: "c \<in> set (esc_xml s) \<Longrightarrow> c \<notin> {CHR ''<'', CHR ''>'', CHR 0x22, CHR 0x27}"
  unfolding esc_xml_concat by (auto simp: esc_char_def split: if_splits)

end
