(* ===== verification/Documents.thy ===== *)
theory Documents
  imports Fsm JsString
begin

text \<open>
  What the document services have in common: the private \<^verbatim>\<open>transition\<dots>\<close> helper
  that every service repeats for its own entity, and the running document numbers.
  \<open>document_table\<close> is the interface between a service's tables and the helper:
  how the rows of one entity are read and replaced, and where the entity keeps its
  status.
\<close>

section \<open>Status transitions\<close>

text \<open>
  \<^verbatim>\<open>transition\<dots>(tenantId, id, next, mutator)\<close>: load the row of the tenant (404), check
  the transition (400), set the status, let the mutator write its fields or throw, save.
\<close>

definition transition_row ::
  "('s \<Rightarrow> 'a entity_scheme list) \<Rightarrow> (('a entity_scheme list \<Rightarrow> 'a entity_scheme list) \<Rightarrow> 's \<Rightarrow> 's) \<Rightarrow>
   ('a entity_scheme \<Rightarrow> 'st) \<Rightarrow> ('st \<Rightarrow> 'a entity_scheme \<Rightarrow> 'a entity_scheme) \<Rightarrow> ('st \<Rightarrow> 'st \<Rightarrow> bool) \<Rightarrow>
   uuid \<Rightarrow> uuid \<Rightarrow> 'st \<Rightarrow> ('a entity_scheme \<Rightarrow> http_error + 'a entity_scheme) \<Rightarrow>
   ('s, 'a entity_scheme) svc" where
  "transition_row get upd st set_st can t i next mutator =
     bind (gets (\<lambda>s. find_scoped t i (get s))) (\<lambda>found.
     bind (require found NotFound) (\<lambda>row.
     seq (throw_if (\<not> can (st row) next) BadRequest)
       (bind (lift (mutator (set_st next row))) (\<lambda>row'.
        seq (modify (upd (save_row row'))) (ret row')))))"

locale document_table =
  fixes get :: "'s \<Rightarrow> 'a entity_scheme list"
    and upd :: "('a entity_scheme list \<Rightarrow> 'a entity_scheme list) \<Rightarrow> 's \<Rightarrow> 's"
    and st :: "'a entity_scheme \<Rightarrow> 'st"
    and set_st :: "'st \<Rightarrow> 'a entity_scheme \<Rightarrow> 'a entity_scheme"
  assumes get_upd: "get (upd f s) = f (get s)"
    and st_set: "st (set_st x r) = x"
    and id_set: "ent_id (set_st x r) = ent_id r"
    and tenant_set: "tenantId (set_st x r) = tenantId r"
begin

lemma transition_Inr:
  "transition_row get upd st set_st can t i nxt m s = (Inr r', s') \<longleftrightarrow>
     (\<exists>r. find_scoped t i (get s) = Some r \<and> can (st r) nxt \<and> m (set_st nxt r) = Inr r' \<and>
          s' = upd (save_row r') s)"
  by (auto simp: transition_row_def svc_simps)

lemma transition_Inl:
  "transition_row get upd st set_st can t i nxt m s = (Inl e, s') \<Longrightarrow> s' = s"
  by (auto simp: transition_row_def svc_defs split: sum.splits option.splits if_splits)

lemma transition_not_found:
  "find_scoped t i (get s) = None \<Longrightarrow> transition_row get upd st set_st can t i nxt m s = (Inl NotFound, s)"
  by (simp add: transition_row_def svc_defs)

lemma transition_refused:
  "find_scoped t i (get s) = Some r \<Longrightarrow> \<not> can (st r) nxt \<Longrightarrow>
     transition_row get upd st set_st can t i nxt m s = (Inl BadRequest, s)"
  by (simp add: transition_row_def svc_defs)

text \<open>
  What a transition does to the table, for a mutator that leaves the status, the key
  and the tenant alone.
\<close>

lemma transition_row_saved:
  assumes "transition_row get upd st set_st can t i nxt m s = (Inr r', s')"
    and "\<And>x y. m x = Inr y \<Longrightarrow> ent_id y = ent_id x \<and> tenantId y = tenantId x"
  obtains r where "find_scoped t i (get s) = Some r" "can (st r) nxt" "m (set_st nxt r) = Inr r'"
    "ent_id r' = i" "tenantId r' = t" "get s' = save_row r' (get s)"
proof -
  from assms(1) obtain r where r: "find_scoped t i (get s) = Some r" "can (st r) nxt"
      "m (set_st nxt r) = Inr r'" "s' = upd (save_row r') s"
    by (auto simp: transition_Inr)
  have "ent_id r' = i" "tenantId r' = t"
    using assms(2) [OF r(3)] find_scoped_Some [OF r(1)] by (simp_all add: id_set tenant_set)
  with r that show thesis by (simp add: get_upd)
qed

lemma transition_foreign:
  assumes "transition_row get upd st set_st can t i nxt m s = (Inr r', s')"
    and "\<And>x y. m x = Inr y \<Longrightarrow> ent_id y = ent_id x \<and> tenantId y = tenantId x"
    and "keyed (get s)"
  shows "foreign_rows t (get s') = foreign_rows t (get s)"
proof -
  obtain r where r: "find_scoped t i (get s) = Some r" "ent_id r' = i" "tenantId r' = t"
      "get s' = save_row r' (get s)"
    using transition_row_saved [OF assms(1,2)] by blast
  have "x \<in> set (get s) \<Longrightarrow> ent_id x = ent_id r' \<Longrightarrow> tenantId x = t" for x
    using r find_scoped_Some [OF r(1)] assms(3) by (metis table.key_inj)
  then show ?thesis using r assms(3) by (simp add: foreign_rows_save)
qed

end

section \<open>Running numbers\<close>

text \<open>
  The rows of a tenant, in the order they were inserted, carry the numbers one, two,
  three and so on, each with the year it was issued in.
\<close>

definition tenant_rows :: "uuid \<Rightarrow> 'a entity_scheme list \<Rightarrow> 'a entity_scheme list" where
  "tenant_rows t rows = filter (\<lambda>r. tenantId r = t) rows"

definition numbered :: "string \<Rightarrow> nat \<Rightarrow> ('a entity_scheme \<Rightarrow> string) \<Rightarrow> uuid \<Rightarrow> 'a entity_scheme list \<Rightarrow> bool" where
  "numbered pre w num t rows \<longleftrightarrow>
     (\<forall>k < length (tenant_rows t rows). \<exists>y. num (tenant_rows t rows ! k) = doc_number pre w y (Suc k))"

lemma count_tenant_rows: "count_tenant t rows = length (tenant_rows t rows)"
  by (simp add: count_tenant_def tenant_rows_def)

lemma numbered_Nil [simp]: "numbered pre w num t []"
  by (simp add: numbered_def tenant_rows_def)

lemma numbered_distinct:
  assumes "numbered pre w num t rows"
  shows "distinct (map num (tenant_rows t rows))"
proof -
  have "j = k" if "j < length (tenant_rows t rows)" "k < length (tenant_rows t rows)"
    and "num (tenant_rows t rows ! j) = num (tenant_rows t rows ! k)" for j k
    using assms that unfolding numbered_def by (metis doc_number_inj old.nat.inject)
  then show ?thesis by (auto simp: distinct_conv_nth)
qed

lemma numbered_insert:
  assumes "numbered pre w num t rows" and "ent_id r \<notin> ent_id ` set rows"
    and "tenantId r = t \<Longrightarrow> num r = doc_number pre w y (count_tenant t rows + 1)"
  shows "numbered pre w num t (save_row r rows)"
  using assms
  by (auto simp: numbered_def save_row_def tenant_rows_def nth_append less_Suc_eq count_tenant_def)

lemma numbered_map:
  assumes "numbered pre w num t rows"
    and "\<And>x. x \<in> set rows \<Longrightarrow> tenantId (f x) = tenantId x \<and> num (f x) = num x"
  shows "numbered pre w num t (map f rows)"
proof -
  have eq: "filter (\<lambda>r. tenantId r = t) (map f xs) = map f (filter (\<lambda>r. tenantId r = t) xs)"
    if "set xs \<subseteq> set rows" for xs
    using that assms(2) by (induction xs) auto
  have "tenant_rows t (map f rows) = map f (tenant_rows t rows)"
    unfolding tenant_rows_def by (rule eq) simp
  moreover have "num (f (tenant_rows t rows ! k)) = num (tenant_rows t rows ! k)"
    if "k < length (tenant_rows t rows)" for k
    using assms(2) nth_mem [OF that] by (simp add: tenant_rows_def)
  ultimately show ?thesis using assms(1) by (simp add: numbered_def)
qed

lemma numbered_update:
  assumes "numbered pre w num t rows" and "keyed rows"
    and "old \<in> set rows" "ent_id old = ent_id r" "tenantId old = tenantId r" "num old = num r"
  shows "numbered pre w num t (save_row r rows)"
proof -
  have "save_row r rows = map (\<lambda>x. if ent_id x = ent_id r then r else x) rows"
    using assms(3,4) unfolding save_row_def by (metis imageI)
  moreover have "tenantId (if ent_id x = ent_id r then r else x) = tenantId x \<and>
      num (if ent_id x = ent_id r then r else x) = num x" if "x \<in> set rows" for x
    using assms(2-6) that table.key_inj [OF assms(2)] by metis
  ultimately show ?thesis using assms(1) by (simp add: numbered_map)
qed

section \<open>Detail lines\<close>

text \<open>
  \<^verbatim>\<open>dto.lines.map((l) => manager.create(Line, {\<dots>}))\<close> followed by a save of all of
  them: \<open>ids\<close> gives the generated key of the n-th line.
\<close>

definition create_lines :: "(uuid \<Rightarrow> 'd \<Rightarrow> 'l) \<Rightarrow> (nat \<Rightarrow> uuid) \<Rightarrow> 'd list \<Rightarrow> 'l list" where
  "create_lines mk ids ds = map (\<lambda>(k, d). mk (ids k) d) (enumerate 0 ds)"

section \<open>Table invariants\<close>

text \<open>
  What is maintained of a numbered document table: unique keys, a property of every
  row, and the running numbers of every tenant.
\<close>

definition table_inv ::
  "string \<Rightarrow> nat \<Rightarrow> ('a entity_scheme \<Rightarrow> string) \<Rightarrow> ('a entity_scheme \<Rightarrow> bool) \<Rightarrow> 'a entity_scheme list \<Rightarrow> bool" where
  "table_inv pre w num ok rows \<longleftrightarrow>
     keyed rows \<and> (\<forall>r\<in>set rows. ok r) \<and> (\<forall>t. numbered pre w num t rows)"

lemma table_inv_Nil [simp]: "table_inv pre w num ok []"
  by (simp add: table_inv_def keyed_def)

lemma table_inv_keyed: "table_inv pre w num ok rows \<Longrightarrow> keyed rows"
  by (simp add: table_inv_def)

lemma table_inv_row: "table_inv pre w num ok rows \<Longrightarrow> r \<in> set rows \<Longrightarrow> ok r"
  by (simp add: table_inv_def)

lemma table_inv_numbered: "table_inv pre w num ok rows \<Longrightarrow> numbered pre w num t rows"
  by (simp add: table_inv_def)

lemma table_inv_insert:
  assumes "table_inv pre w num ok rows" and "fresh (ent_id r) rows" and "ok r"
    and "num r = doc_number pre w y (count_tenant (tenantId r) rows + 1)"
  shows "table_inv pre w num ok (save_row r rows)"
  unfolding table_inv_def
proof (intro conjI ballI allI)
  fix t
  show "numbered pre w num t (save_row r rows)"
    using assms by (intro numbered_insert [where y = y]) (auto simp: table_inv_def fresh_def)
qed (use assms in \<open>auto simp: table_inv_def keyed_save_row set_save_row\<close>)

lemma table_inv_update:
  assumes "table_inv pre w num ok rows" and "find_scoped t i rows = Some old"
    and "ent_id r = i" "tenantId r = t" "num r = num old" "ok r"
  shows "table_inv pre w num ok (save_row r rows)"
  unfolding table_inv_def
proof (intro conjI ballI allI)
  fix u
  show "numbered pre w num u (save_row r rows)"
    using assms find_scoped_Some [OF assms(2)]
    by (intro numbered_update [where old = old]) (auto simp: table_inv_def)
qed (use assms in \<open>auto simp: table_inv_def keyed_save_row set_save_row\<close>)

lemma find_scoped_fresh: "fresh i rows \<Longrightarrow> find_scoped t i rows = None"
  by (auto simp: fresh_def find_scoped_def find_None_iff)


definition fresh_ids :: "(nat \<Rightarrow> uuid) \<Rightarrow> 'a entity_scheme list \<Rightarrow> bool" where
  "fresh_ids ids rows \<longleftrightarrow> inj ids \<and> (\<forall>k. ids k \<notin> ent_id ` set rows)"

lemma save_rows_fresh:
  "distinct (map ent_id ls) \<Longrightarrow> ent_id ` set ls \<inter> ent_id ` set rows = {} \<Longrightarrow> save_rows ls rows = rows @ ls"
proof (induction ls arbitrary: rows)
  case (Cons l ls)
  then have "save_row l rows = rows @ [l]" by (intro fresh_save_row) (auto simp: fresh_def)
  then have "save_rows (l # ls) rows = save_rows ls (rows @ [l])" by (simp add: save_rows_def)
  also have "\<dots> = (rows @ [l]) @ ls" by (rule Cons.IH) (use Cons.prems in auto)
  finally show ?case by simp
qed (simp add: save_rows_def)

lemma map_create_lines:
  "(\<And>i d. f (mk i d) = g d) \<Longrightarrow> map f (create_lines mk ids ds) = map g ds"
  by (rule nth_equalityI) (simp_all add: create_lines_def enumerate_eq_zip nth_zip)

lemma set_create_lines: "l \<in> set (create_lines mk ids ds) \<Longrightarrow> \<exists>k<length ds. l = mk (ids k) (ds ! k)"
  by (auto simp: create_lines_def in_set_enumerate_eq)

lemma length_create_lines [simp]: "length (create_lines mk ids ds) = length ds"
  by (simp add: create_lines_def)

lemma ids_create_lines:
  "(\<And>i d. ent_id (mk i d) = i) \<Longrightarrow> map ent_id (create_lines mk ids ds) = map ids [0..<length ds]"
  by (rule nth_equalityI) (simp_all add: create_lines_def enumerate_eq_zip nth_zip)

lemma created_lines_fresh:
  assumes "fresh_ids ids rows" and "\<And>i d. ent_id (mk i d) = i"
  shows "distinct (map ent_id (create_lines mk ids ds))"
    and "ent_id ` set (create_lines mk ids ds) \<inter> ent_id ` set rows = {}"
proof -
  have ids: "map ent_id (create_lines mk ids ds) = map ids [0..<length ds]"
    by (rule ids_create_lines) (rule assms(2))
  have "inj_on ids (set [0..<length ds])"
    using assms(1) by (auto simp: fresh_ids_def intro: inj_on_subset)
  then show "distinct (map ent_id (create_lines mk ids ds))"
    unfolding ids by (simp add: distinct_map)
  have "ent_id ` set (create_lines mk ids ds) = ids ` {0..<length ds}"
    using arg_cong [OF ids, of set] by simp
  then show "ent_id ` set (create_lines mk ids ds) \<inter> ent_id ` set rows = {}"
    using assms(1) by (auto simp: fresh_ids_def)
qed

lemma save_created_lines:
  assumes "fresh_ids ids rows" and "\<And>i d. ent_id (mk i d) = i"
  shows "save_rows (create_lines mk ids ds) rows = rows @ create_lines mk ids ds"
  by (rule save_rows_fresh) (rule created_lines_fresh [OF assms])+

lemma keyed_append_fresh:
  assumes "keyed rows" and "fresh_ids ids rows" and "\<And>i d. ent_id (mk i d) = i"
  shows "keyed (rows @ create_lines mk ids ds)"
  using assms(1) created_lines_fresh [OF assms(2,3), where ds = ds] unfolding keyed_def
  by (simp add: Int_commute)

text \<open>Keys for concrete runs: a letter and a running number.\<close>

definition sample_ids :: "char \<Rightarrow> nat \<Rightarrow> uuid" where
  "sample_ids c k = c # dec k"

lemma inj_sample_ids: "inj (sample_ids c)"
  by (auto simp: inj_def sample_ids_def dec_inj)

lemma fresh_sample_ids [simp]: "fresh_ids (sample_ids c) []"
  by (simp add: fresh_ids_def inj_sample_ids)

section \<open>Documents only move forward\<close>

text \<open>
  \<open>advances can st rows rows'\<close>: every row is still there, with its tenant, and its status
  was reached from the old one by transitions of the table \<open>can\<close>.
\<close>

definition advances ::
  "('st \<Rightarrow> 'st \<Rightarrow> bool) \<Rightarrow> ('a entity_scheme \<Rightarrow> 'st) \<Rightarrow> 'a entity_scheme list \<Rightarrow> 'a entity_scheme list \<Rightarrow> bool" where
  "advances can st rows rows' \<longleftrightarrow>
     (\<forall>i r. find_id i rows = Some r \<longrightarrow>
        (\<exists>r'. find_id i rows' = Some r' \<and> tenantId r' = tenantId r \<and> can\<^sup>*\<^sup>* (st r) (st r')))"

lemma advances_refl [simp]: "advances can st rows rows"
  by (auto simp: advances_def)

lemma advances_trans: "advances can st a b \<Longrightarrow> advances can st b c \<Longrightarrow> advances can st a c"
  unfolding advances_def by (metis (no_types, lifting) rtranclp_trans)

lemma advances_insert:
  assumes "keyed rows" and "fresh (ent_id r) rows"
  shows "advances can st rows (save_row r rows)"
  unfolding advances_def
proof (intro allI impI)
  fix i x
  assume x: "find_id i rows = Some x"
  then have "i \<noteq> ent_id r" using assms unfolding fresh_def by (metis find_id_keyed image_eqI)
  then show "\<exists>r'. find_id i (save_row r rows) = Some r' \<and> tenantId r' = tenantId x \<and> can\<^sup>*\<^sup>* (st x) (st r')"
    using x by (simp add: find_id_save_other)
qed

lemma advances_update:
  assumes "keyed rows" and "find_scoped t i rows = Some old"
    and "ent_id r = ent_id old" "tenantId r = tenantId old" "can\<^sup>*\<^sup>* (st old) (st r)"
  shows "advances can st rows (save_row r rows)"
  unfolding advances_def
proof (intro allI impI)
  fix j x
  assume x: "find_id j rows = Some x"
  show "\<exists>r'. find_id j (save_row r rows) = Some r' \<and> tenantId r' = tenantId x \<and> can\<^sup>*\<^sup>* (st x) (st r')"
  proof (cases "j = ent_id r")
    case True
    have "find_id (ent_id old) rows = Some old"
      using assms(1) find_scoped_Some [OF assms(2)] by (simp add: find_id_keyed)
    with True x assms(3) have "x = old" by simp
    with True show ?thesis using assms by (simp add: table.lookup_save)
  next
    case False
    then show ?thesis using x by (simp add: find_id_save_other)
  qed
qed

context ranked_machine
begin

lemma advances_forward:
  "advances can st rows rows' \<Longrightarrow> find_id i rows = Some r \<Longrightarrow>
     \<exists>r'. find_id i rows' = Some r' \<and> tenantId r' = tenantId r \<and>
       (st r' = st r \<or> rank (st r) < rank (st r'))"
  unfolding advances_def using rank_run by metis

end

section \<open>Tenant isolation\<close>

lemma foreign_insert:
  "fresh (ent_id r) rows \<Longrightarrow> tenantId r = t \<Longrightarrow> foreign_rows t (save_row r rows) = foreign_rows t rows"
  by (simp add: fresh_save_row foreign_rows_def)

lemma foreign_update:
  assumes "keyed rows" and "find_scoped t i rows = Some old" and "ent_id r = ent_id old" "tenantId r = t"
  shows "foreign_rows t (save_row r rows) = foreign_rows t rows"
proof (rule foreign_rows_save [OF assms(1,4)])
  fix x
  assume "x \<in> set rows" "ent_id x = ent_id r"
  then have "x = old" using assms(1,3) find_scoped_Some [OF assms(2)] by (metis table.key_inj)
  then show "tenantId x = t" using find_scoped_Some [OF assms(2)] by simp
qed

lemma foreign_lines:
  assumes "fresh_ids ids rows" and "\<And>i d. ent_id (mk i d) = i" and "\<And>i d. tenantId (mk i d) = t"
  shows "foreign_rows t (save_rows (create_lines mk ids ds) rows) = foreign_rows t rows"
proof -
  have "tenantId l = t" if "l \<in> set (create_lines mk ids ds)" for l
    using set_create_lines [OF that] assms(3) by auto
  then show ?thesis
    by (simp add: save_created_lines [OF assms(1,2)] foreign_rows_def filter_empty_conv)
qed

end
