(* ===== verification/JsNumber.thy ===== *)
theory JsNumber
  imports Prelude Complex_Main "HOL-Library.Log_Nat"
begin

text \<open>
  JavaScript numbers.

  Amounts, prices, quantities, percentages and hours are IEEE-754 doubles in the
  source. A finite double is modelled by the rational number it denotes, and every
  arithmetic operator rounds its exact result to the nearest double, ties to even
  (\<open>fl\<close>), with 53 significant bits and gradual underflow. Overflow to
  infinity is left out: the columns these numbers come from hold at most twelve
  digits, or 64-bit integers. \<^verbatim>\<open>NaN\<close> occurs in one place of the source (an
  undefined tolerance); it is modelled there by \<open>None\<close>.

  \<^verbatim>\<open>Math.round\<close>, \<^verbatim>\<open>Math.floor\<close>, \<^verbatim>\<open>Math.ceil\<close> and the integer behind
  \<^verbatim>\<open>toFixed(2)\<close> are exact in ECMAScript, so they are integer-valued functions of
  the rational.

  The lemmas the components use: \<open>fl\<close> is monotone, odd and idempotent, and it is
  the identity on whole numbers up to \<open>2 ^ 53\<close> (\<open>safe\<close>).
\<close>

type_synonym jsnum = rat

section \<open>Rounding to double\<close>

definition ilog2 :: "rat \<Rightarrow> int" where
  "ilog2 x =
     (let (a, b) = quotient_of x; k = bitlen a - bitlen b
      in if 2 powi k \<le> x then k else k - 1)"

definition rne :: "rat \<Rightarrow> int" where
  "rne q =
     (let f = \<lfloor>q\<rfloor>; d = q - of_int f
      in if d < 1 / 2 \<or> (d = 1 / 2 \<and> even f) then f else f + 1)"

definition fexp :: "rat \<Rightarrow> int" where
  "fexp x = max (ilog2 \<bar>x\<bar>) (- 1022) - 52"

definition fl :: "rat \<Rightarrow> jsnum" where
  "fl x = (if x = 0 then 0 else of_int (rne (x / 2 powi fexp x)) * 2 powi fexp x)"

definition js_add :: "jsnum \<Rightarrow> jsnum \<Rightarrow> jsnum" where "js_add a b = fl (a + b)"
definition js_sub :: "jsnum \<Rightarrow> jsnum \<Rightarrow> jsnum" where "js_sub a b = fl (a - b)"
definition js_mul :: "jsnum \<Rightarrow> jsnum \<Rightarrow> jsnum" where "js_mul a b = fl (a * b)"
definition js_div :: "jsnum \<Rightarrow> jsnum \<Rightarrow> jsnum" where "js_div a b = fl (a / b)"

text \<open>\<^verbatim>\<open>xs.reduce((s, x) => s + f(x), 0)\<close>\<close>

definition js_sum :: "('a \<Rightarrow> jsnum) \<Rightarrow> 'a list \<Rightarrow> jsnum" where
  "js_sum f xs = foldl (\<lambda>s x. js_add s (f x)) 0 xs"

definition math_round :: "jsnum \<Rightarrow> int" where "math_round x = \<lfloor>x + 1 / 2\<rfloor>"
definition math_floor :: "jsnum \<Rightarrow> int" where "math_floor x = \<lfloor>x\<rfloor>"
definition math_ceil :: "jsnum \<Rightarrow> int" where "math_ceil x = \<lceil>x\<rceil>"

text \<open>The hundredths that \<^verbatim>\<open>x.toFixed(2)\<close> prints, and \<^verbatim>\<open>Number(x.toFixed(2))\<close>.\<close>

definition to_fixed2 :: "jsnum \<Rightarrow> int" where
  "to_fixed2 x = (if 0 \<le> x then \<lfloor>100 * x + 1 / 2\<rfloor> else - \<lfloor>- 100 * x + 1 / 2\<rfloor>)"

definition js_fixed2 :: "jsnum \<Rightarrow> jsnum" where
  "js_fixed2 x = fl (of_int (to_fixed2 x) / 100)"

section \<open>Rounding to the nearest integer\<close>

lemma rne_of_int [simp]: "rne (of_int n) = n"
  by (simp add: rne_def)

lemma rne_cases: "rne q = \<lfloor>q\<rfloor> \<or> rne q = \<lfloor>q\<rfloor> + 1"
  by (simp add: rne_def Let_def)

lemma rne_mono: "p \<le> q \<Longrightarrow> rne p \<le> rne q"
proof (cases "\<lfloor>p\<rfloor> = \<lfloor>q\<rfloor>")
  case True
  assume "p \<le> q"
  with True show ?thesis by (auto simp: rne_def Let_def)
next
  case False
  assume "p \<le> q"
  with False have "\<lfloor>p\<rfloor> + 1 \<le> \<lfloor>q\<rfloor>" using floor_mono [of p q] by linarith
  then show ?thesis using rne_cases [of p] rne_cases [of q] by linarith
qed

lemma rne_error: "\<bar>of_int (rne q) - q\<bar> \<le> 1 / 2"
proof -
  have "of_int \<lfloor>q\<rfloor> \<le> q" and "q < of_int \<lfloor>q\<rfloor> + 1" by linarith+
  then show ?thesis unfolding rne_def Let_def abs_le_iff by (auto; linarith)
qed

lemma rne_minus: "rne (- q) = - rne q"
proof (cases "q \<in> \<int>")
  case True
  then show ?thesis by (metis Ints_cases of_int_minus rne_of_int)
next
  case False
  then have "\<lfloor>- q\<rfloor> = - \<lfloor>q\<rfloor> - 1"
    by (metis ceiling_altdef ceiling_def diff_minus_eq_add frac_eq_0_iff minus_diff_eq
        Ints_of_int uminus_add_conv_diff minus_equation_iff add.commute)
  then show ?thesis by (auto simp: rne_def Let_def)
qed

section \<open>The binary exponent\<close>

lemma powi2_pos [simp]: "(0::rat) < 2 powi k"
  by simp

lemma powi2_less_iff: "(2::rat) powi a < 2 powi b \<longleftrightarrow> a < b"
  by (metis linorder_not_less power_int_increasing power_int_strict_increasing
      one_le_numeral one_less_numeral_iff semiring_norm(76))

lemma powi2_le_iff: "(2::rat) powi a \<le> 2 powi b \<longleftrightarrow> a \<le> b"
  by (metis linorder_not_less powi2_less_iff)

lemma powi2_add: "(2::rat) powi (a + b) = 2 powi a * 2 powi b"
  by (simp add: power_int_add)

lemma powi2_diff: "(2::rat) powi (a - b) = 2 powi a / 2 powi b"
  by (simp add: power_int_diff)

lemma powi2_Ints: "0 \<le> k \<Longrightarrow> (2::rat) powi k = of_int (2 ^ nat k)"
  by (simp add: power_int_def)

lemma bitlen_bounds_rat:
  assumes "0 < a"
  shows "2 powi (bitlen a - 1) \<le> (of_int a :: rat)" and "(of_int a :: rat) < 2 powi bitlen a"
proof -
  have "1 \<le> bitlen a" using assms bitlen_eq_zero_iff [of a] bitlen_nonneg [of a] by linarith
  with bitlen_bounds [OF assms] show "2 powi (bitlen a - 1) \<le> (of_int a :: rat)"
    and "(of_int a :: rat) < 2 powi bitlen a"
    by (simp_all add: powi2_Ints flip: of_int_power)
qed

lemma ilog2_bounds:
  assumes "0 < x"
  shows "2 powi ilog2 x \<le> x" and "x < 2 powi (ilog2 x + 1)"
proof -
  obtain a b where ab: "quotient_of x = (a, b)" by (cases "quotient_of x")
  have b: "0 < b" using ab by (rule quotient_of_denom_pos)
  have x: "x = of_int a / of_int b" using ab by (rule quotient_of_div)
  with assms b have a: "0 < a" by (simp add: zero_less_divide_iff)
  define k where "k = bitlen a - bitlen b"
  have "x < 2 powi bitlen a / 2 powi (bitlen b - 1)"
    unfolding x using bitlen_bounds_rat [OF a] bitlen_bounds_rat [OF b] a b
    by (intro frac_less) auto
  then have upper: "x < 2 powi (k + 1)"
    by (simp add: k_def algebra_simps flip: powi2_diff)
  have "2 powi (bitlen a - 1) / 2 powi bitlen b < x"
    unfolding x using bitlen_bounds_rat [OF a] bitlen_bounds_rat [OF b] a b
    by (intro frac_less2) auto
  then have lower: "2 powi (k - 1) < x"
    by (simp add: k_def algebra_simps flip: powi2_diff)
  have e: "ilog2 x = (if 2 powi k \<le> x then k else k - 1)"
    by (simp add: ilog2_def ab k_def)
  show "2 powi ilog2 x \<le> x" and "x < 2 powi (ilog2 x + 1)"
    using lower upper by (auto simp: e)
qed

lemma ilog2_mono: "0 < x \<Longrightarrow> x \<le> y \<Longrightarrow> ilog2 x \<le> ilog2 y"
proof -
  assume "0 < x" "x \<le> y"
  then have "2 powi ilog2 x < (2::rat) powi (ilog2 y + 1)"
    using ilog2_bounds [of x] ilog2_bounds [of y] by linarith
  then show ?thesis by (simp add: powi2_less_iff)
qed

lemma ilog2_minus [simp]: "fexp (- x) = fexp x"
  by (simp add: fexp_def)

section \<open>Properties of rounding to double\<close>

lemma fl_0 [simp]: "fl 0 = 0"
  by (simp add: fl_def)

lemma fl_minus: "fl (- x) = - fl x"
  by (simp add: fl_def rne_minus)

text \<open>The significand: below \<open>2 ^ 53\<close>, and at least \<open>2 ^ 52\<close> for a normal number.\<close>

lemma scaled_less:
  assumes "0 < x"
  shows "x / 2 powi fexp x < 2 powi 53"
proof -
  have "x < 2 powi (ilog2 x + 1)" using assms by (rule ilog2_bounds)
  also have "\<dots> \<le> 2 powi (fexp x + 53)"
    using assms by (simp only: powi2_le_iff) (simp add: fexp_def)
  finally show ?thesis by (simp add: powi2_add divide_less_eq mult.commute)
qed

lemma fl_upper: "0 < x \<Longrightarrow> fl x \<le> 2 powi (fexp x + 53)"
proof -
  assume x: "0 < x"
  have "rne (x / 2 powi fexp x) \<le> rne (of_int (2 ^ 53))"
    using scaled_less [OF x] by (intro rne_mono) (simp add: powi2_Ints)
  then have "rne (x / 2 powi fexp x) \<le> 2 ^ 53" by (simp only: rne_of_int)
  then have r: "of_int (rne (x / 2 powi fexp x)) \<le> (2::rat) powi 53"
    by (metis of_int_le_iff powi2_Ints nat_numeral zero_le_numeral)
  have "fl x = of_int (rne (x / 2 powi fexp x)) * 2 powi fexp x" using x by (simp add: fl_def)
  also have "\<dots> \<le> 2 powi 53 * 2 powi fexp x" using r by (rule mult_right_mono) simp
  also have "\<dots> = 2 powi (fexp x + 53)" unfolding powi2_add by (rule mult.commute)
  finally show ?thesis .
qed

lemma fl_lower:
  assumes "0 < x" and "- 1022 \<le> ilog2 x"
  shows "2 powi ilog2 x \<le> fl x"
proof -
  have e: "ilog2 x = fexp x + 52" using assms by (simp add: fexp_def)
  have "2 powi (fexp x + 52) \<le> x" using ilog2_bounds(1) [OF assms(1)] by (simp add: e)
  then have "of_int (2 ^ 52) \<le> x / 2 powi fexp x"
    by (simp add: powi2_add le_divide_eq powi2_Ints mult.commute)
  then have "2 ^ 52 \<le> rne (x / 2 powi fexp x)" by (metis rne_mono rne_of_int)
  then have r: "(2::rat) powi 52 \<le> of_int (rne (x / 2 powi fexp x))"
    by (metis of_int_le_iff powi2_Ints nat_numeral zero_le_numeral)
  have "2 powi ilog2 x = (2::rat) powi 52 * 2 powi fexp x"
    unfolding e powi2_add by (rule mult.commute)
  also have "\<dots> \<le> of_int (rne (x / 2 powi fexp x)) * 2 powi fexp x"
    using r by (rule mult_right_mono) simp
  also have "\<dots> = fl x" using assms(1) by (simp add: fl_def)
  finally show ?thesis .
qed

lemma fl_nonneg: "0 \<le> x \<Longrightarrow> 0 \<le> fl x"
proof -
  assume "0 \<le> x"
  then have "rne (of_int 0) \<le> rne (x / 2 powi fexp x)" by (intro rne_mono) simp
  then show ?thesis by (simp only: rne_of_int) (simp add: fl_def)
qed

lemma fl_mono_pos:
  assumes "0 < x" and "x \<le> y"
  shows "fl x \<le> fl y"
proof (cases "fexp x = fexp y")
  case True
  have "rne (x / 2 powi fexp x) \<le> rne (y / 2 powi fexp x)"
    using assms by (intro rne_mono) (simp add: divide_right_mono)
  with True assms show ?thesis by (simp add: fl_def mult_right_mono)
next
  case False
  with assms have less: "fexp x + 53 \<le> ilog2 y" and normal: "- 1022 \<le> ilog2 y"
    using ilog2_mono [OF assms] by (auto simp: fexp_def)
  have "fl x \<le> 2 powi (fexp x + 53)" using assms(1) by (rule fl_upper)
  also have "\<dots> \<le> 2 powi ilog2 y" using less by (simp only: powi2_le_iff)
  also have "\<dots> \<le> fl y" using assms normal by (intro fl_lower) auto
  finally show ?thesis .
qed

lemma fl_mono: "x \<le> y \<Longrightarrow> fl x \<le> fl y"
proof -
  assume xy: "x \<le> y"
  consider "0 < x" | "x \<le> 0" "0 \<le> y" | "y < 0" by linarith
  then show ?thesis
  proof cases
    case 1
    then show ?thesis using xy by (rule fl_mono_pos)
  next
    case 2
    then have "0 \<le> fl (- x)" and "0 \<le> fl y" by (simp_all add: fl_nonneg)
    then show ?thesis by (simp add: fl_minus)
  next
    case 3
    then have "fl (- y) \<le> fl (- x)" using xy by (intro fl_mono_pos) auto
    then show ?thesis by (simp add: fl_minus)
  qed
qed

text \<open>Every multiple of a power of two with at most 53 significant bits is a double.\<close>

lemma fl_dyadic:
  assumes "\<bar>m\<bar> \<le> 2 ^ 53" and "- 1074 \<le> k"
  shows "fl (of_int m * 2 powi k) = of_int m * 2 powi k"
proof (cases "m = 0")
  case False
  define x :: rat where "x = of_int m * 2 powi k"
  have x0: "0 < \<bar>x\<bar>" using False by (simp add: x_def)
  have absx: "\<bar>x\<bar> = of_int \<bar>m\<bar> * 2 powi k" by (simp add: x_def abs_mult)
  have "x / 2 powi fexp x \<in> \<int>"
  proof (cases "fexp x \<le> k")
    case True
    have "x / 2 powi fexp x = of_int m * 2 powi (k - fexp x)" by (simp add: x_def powi2_diff)
    with True show ?thesis by (simp add: powi2_Ints)
  next
    case False
    then have e: "fexp x = ilog2 \<bar>x\<bar> - 52" and k: "k + 53 \<le> ilog2 \<bar>x\<bar>"
      using assms(2) by (auto simp: fexp_def max_def split: if_splits)
    have "2 powi (k + 53) \<le> (2::rat) powi ilog2 \<bar>x\<bar>" using k by (simp only: powi2_le_iff)
    also have "\<dots> \<le> \<bar>x\<bar>" using x0 by (rule ilog2_bounds)
    finally have "2 powi 53 \<le> (of_int \<bar>m\<bar> :: rat)" by (simp add: absx powi2_add)
    then have m: "\<bar>m\<bar> = 2 ^ 53" using assms(1) by (simp add: powi2_Ints)
    have "\<bar>x\<bar> < 2 powi (k + 54)" by (simp add: absx m powi2_add powi2_Ints)
    then have "(2::rat) powi ilog2 \<bar>x\<bar> < 2 powi (k + 54)"
      using ilog2_bounds(1) [OF x0] by (rule le_less_trans [rotated])
    then have "ilog2 \<bar>x\<bar> = k + 53" using k by (simp add: powi2_less_iff)
    then have "fexp x = k + 1" using e by simp
    then have "x / 2 powi fexp x = of_int m / 2" by (simp add: x_def powi2_add)
    moreover have "even m" using m by (metis abs_dvd_iff even_abs_add_iff dvd_power zero_less_numeral dvd_abs_iff)
    then obtain b where "m = 2 * b" by (elim evenE)
    ultimately have "x / 2 powi fexp x = of_int b" by simp
    then show ?thesis by simp
  qed
  then obtain z where z: "x / 2 powi fexp x = of_int z" by (auto elim: Ints_cases)
  then have "x = of_int z * 2 powi fexp x" by (simp add: divide_eq_eq)
  then show ?thesis
    using x0 z unfolding x_def [symmetric] by (simp add: fl_def)
qed simp

definition safe :: "jsnum \<Rightarrow> bool" where
  "safe x \<longleftrightarrow> x \<in> \<int> \<and> \<bar>x\<bar> \<le> 2 ^ 53"

lemma safe_of_int: "\<bar>n\<bar> \<le> 2 ^ 53 \<Longrightarrow> safe (of_int n)"
proof -
  assume "\<bar>n\<bar> \<le> 2 ^ 53"
  then have "(of_int \<bar>n\<bar> :: rat) \<le> of_int (2 ^ 53)" by (simp only: of_int_le_iff)
  then show ?thesis by (simp add: safe_def)
qed

lemma fl_safe: "safe x \<Longrightarrow> fl x = x"
proof -
  assume "safe x"
  then obtain n where n: "x = of_int n" and "\<bar>x\<bar> \<le> 2 ^ 53"
    by (auto simp: safe_def elim!: Ints_cases)
  then have "\<bar>n\<bar> \<le> 2 ^ 53" by (metis of_int_abs of_int_le_iff of_int_numeral of_int_power)
  then show ?thesis using fl_dyadic [of n 0] n by simp
qed

lemma fl_numeral_safe: "numeral n \<le> (2::rat) ^ 53 \<Longrightarrow> fl (numeral n) = numeral n"
  by (rule fl_safe) (simp add: safe_def)

lemma fl_1 [simp]: "fl 1 = 1"
  by (rule fl_safe) (simp add: safe_def)

lemma fl_idem [simp]: "fl (fl x) = fl x"
proof (cases "x = 0")
  case False
  have "\<bar>rne (x / 2 powi fexp x)\<bar> \<le> 2 ^ 53"
  proof -
    have "\<bar>x / 2 powi fexp x\<bar> < 2 powi 53"
      using scaled_less [of "\<bar>x\<bar>"] False by (simp add: fexp_def)
    then have "\<bar>x / 2 powi fexp x\<bar> \<le> of_int (2 ^ 53)" by (simp only: powi2_Ints) simp
    then have "x / 2 powi fexp x \<le> of_int (2 ^ 53)" "of_int (- (2 ^ 53)) \<le> x / 2 powi fexp x"
      unfolding of_int_minus by linarith+
    then have "rne (x / 2 powi fexp x) \<le> 2 ^ 53" "- (2 ^ 53) \<le> rne (x / 2 powi fexp x)"
      by (metis rne_mono rne_of_int)+
    then show ?thesis by linarith
  qed
  moreover have "- 1074 \<le> fexp x" by (simp add: fexp_def)
  ultimately show ?thesis using False by (simp add: fl_def [of x] fl_dyadic)
qed simp

section \<open>Arithmetic on doubles\<close>

lemma js_add_safe: "safe (a + b) \<Longrightarrow> js_add a b = a + b"
  by (simp add: js_add_def fl_safe)

lemma js_sub_safe: "safe (a - b) \<Longrightarrow> js_sub a b = a - b"
  by (simp add: js_sub_def fl_safe)

lemma js_mul_safe: "safe (a * b) \<Longrightarrow> js_mul a b = a * b"
  by (simp add: js_mul_def fl_safe)

lemma safe_Ints: "safe a \<Longrightarrow> a \<in> \<int>"
  by (simp add: safe_def)

lemma safe_0 [simp]: "safe 0"
  by (simp add: safe_def)

text \<open>Whole numbers between two safe numbers are safe.\<close>

lemma safe_between: "safe l \<Longrightarrow> safe u \<Longrightarrow> a \<in> \<int> \<Longrightarrow> l \<le> a \<Longrightarrow> a \<le> u \<Longrightarrow> safe a"
  by (auto simp: safe_def abs_le_iff)

lemma js_add_nonneg: "0 \<le> a \<Longrightarrow> 0 \<le> b \<Longrightarrow> 0 \<le> js_add a b"
  by (simp add: js_add_def fl_nonneg)

lemma js_sum_Nil [simp]: "js_sum f [] = 0"
  by (simp add: js_sum_def)

lemma js_sum_snoc [simp]: "js_sum f (xs @ [x]) = js_add (js_sum f xs) (f x)"
  by (simp add: js_sum_def)

lemma js_sum_nonneg: "(\<And>x. x \<in> set xs \<Longrightarrow> 0 \<le> f x) \<Longrightarrow> 0 \<le> js_sum f xs"
  by (induction xs rule: rev_induct) (auto intro: js_add_nonneg)

text \<open>
  Summing whole numbers is exact as long as the sum of their magnitudes is a safe
  integer.
\<close>

lemma js_sum_exact:
  assumes "\<And>x. x \<in> set xs \<Longrightarrow> f x \<in> \<int>" and "sum_list (map (\<lambda>x. \<bar>f x\<bar>) xs) \<le> 2 ^ 53"
  shows "js_sum f xs = sum_list (map f xs)"
  using assms
proof (induction xs rule: rev_induct)
  case (snoc x xs)
  have nonneg: "0 \<le> sum_list (map (\<lambda>x. \<bar>f x\<bar>) ys)" for ys
    by (induction ys) auto
  have abs_le: "\<bar>sum_list (map f ys)\<bar> \<le> sum_list (map (\<lambda>x. \<bar>f x\<bar>) ys)" for ys
    by (induction ys) (auto intro: order_trans [OF abs_triangle_ineq])
  have ints: "sum_list (map f ys) \<in> \<int>" if "set ys \<subseteq> set (xs @ [x])" for ys
    using that snoc.prems(1) by (induction ys) auto
  have IH: "js_sum f xs = sum_list (map f xs)"
    using snoc.prems by (intro snoc.IH) auto
  have "safe (sum_list (map f (xs @ [x])))"
    using abs_le [of "xs @ [x]"] snoc.prems(2) ints [of "xs @ [x]"] by (simp add: safe_def)
  then show ?case by (simp add: IH js_add_safe)
qed simp

end
