(* ===== verification/ThreeWayMatch.thy ===== *)
theory ThreeWayMatch
  imports Prelude JsNumber
begin

text \<open>
  \<^verbatim>\<open>backend/src/procurement/three-way-match.ts\<close>: the pure comparison of a supplier
  invoice with the purchase-order lines it names and with the quantities accepted on
  goods receipts. A decimal string such as \<^verbatim>\<open>quantity\<close> is its rational value,
  and \<^verbatim>\<open>Number(s)\<close> is \<open>fl\<close> of it. \<^verbatim>\<open>Number(String(x))\<close> is
  \<open>x\<close> for a double, so the accepted quantity is compared as it is. Cents are
  numbers, as the interfaces declare them. A tolerance that evaluates to \<^verbatim>\<open>NaN\<close>
  (an \<^verbatim>\<open>undefined\<close> percentage) is \<open>None\<close>; every comparison with it is false.
\<close>

section \<open>Input and output\<close>

record po_line_snapshot =
  ps_poLineId :: uuid
  ps_productId :: uuid
  ps_quantity :: rat
  ps_unitCostCents :: jsnum
  ps_taxRate :: jsnum

record gr_line_snapshot =
  gs_poLineId :: uuid
  gs_acceptedQuantity :: rat

record si_line_snapshot =
  ss_invoiceLineId :: uuid
  ss_poLineId :: "uuid option"
  ss_quantity :: rat
  ss_unitCostCents :: jsnum
  ss_taxRate :: jsnum
  ss_lineTotalCents :: jsnum

text \<open>
  An optional property of a JavaScript object is absent (\<open>None\<close>), present with
  the value \<^verbatim>\<open>undefined\<close> (\<open>Some None\<close>), or present with a number. The spread
  \<^verbatim>\<open>{ ...DEFAULT_TOLERANCES, ...t }\<close> copies the second kind too.
\<close>

record match_tolerances =
  quantityPct :: "jsnum option option"
  pricePct :: "jsnum option option"
  totalPct :: "jsnum option option"

record merged_tolerances =
  tolQuantity :: "jsnum option"
  tolPrice :: "jsnum option"
  tolTotal :: "jsnum option"

definition default_tolerances :: merged_tolerances where
  "default_tolerances = \<lparr>tolQuantity = Some 2, tolPrice = Some (1 / 2), tolTotal = Some 1\<rparr>"

definition spread_field :: "jsnum option \<Rightarrow> jsnum option option \<Rightarrow> jsnum option" where
  "spread_field d f = (case f of None \<Rightarrow> d | Some v \<Rightarrow> v)"

definition merge_tolerances :: "match_tolerances option \<Rightarrow> merged_tolerances" where
  "merge_tolerances t =
     (case t of
        None \<Rightarrow> default_tolerances
      | Some t \<Rightarrow> \<lparr>tolQuantity = spread_field (tolQuantity default_tolerances) (quantityPct t),
                    tolPrice = spread_field (tolPrice default_tolerances) (pricePct t),
                    tolTotal = spread_field (tolTotal default_tolerances) (totalPct t)\<rparr>)"

datatype discrepancy =
    UnmatchedLine uuid
  | MissingPo uuid uuid
  | QuantityOff uuid uuid jsnum rat
  | PriceOff uuid uuid jsnum jsnum
  | TotalOff jsnum jsnum

section \<open>Comparisons\<close>

definition within_pct :: "jsnum \<Rightarrow> jsnum \<Rightarrow> jsnum option \<Rightarrow> bool" where
  "within_pct expected actual pct =
     (if expected = 0 then actual = 0
      else (case pct of
              None \<Rightarrow> False
            | Some p \<Rightarrow>
                let tolerance = \<bar>js_mul expected (js_div p 100)\<bar>
                in \<bar>js_sub actual expected\<bar> \<le> js_add tolerance (1 / 2)))"

definition within_pct_decimal :: "jsnum \<Rightarrow> rat \<Rightarrow> jsnum option \<Rightarrow> bool" where
  "within_pct_decimal expected actual pct =
     (let e = expected; a = fl actual
      in if e = 0 then a = 0
         else (case pct of
                 None \<Rightarrow> False
               | Some p \<Rightarrow>
                   let tolerance = \<bar>js_mul e (js_div p 100)\<bar>
                   in \<bar>js_sub a e\<bar> \<le> js_add tolerance (fl (1 / 10000))))"

section \<open>The match\<close>

text \<open>The \<^verbatim>\<open>Map\<close> of accepted quantities per purchase-order line.\<close>

definition accepted_by_po_line :: "gr_line_snapshot list \<Rightarrow> uuid \<rightharpoonup> jsnum" where
  "accepted_by_po_line grs =
     foldl (\<lambda>m g. m(gs_poLineId g \<mapsto>
              js_add (case m (gs_poLineId g) of None \<Rightarrow> 0 | Some q \<Rightarrow> q) (fl (gs_acceptedQuantity g))))
       Map.empty grs"

definition check_line ::
  "merged_tolerances \<Rightarrow> po_line_snapshot list \<Rightarrow> (uuid \<rightharpoonup> jsnum) \<Rightarrow> si_line_snapshot \<Rightarrow> discrepancy list" where
  "check_line tol pos accepted sil =
     (case ss_poLineId sil of
        None \<Rightarrow> [UnmatchedLine (ss_invoiceLineId sil)]
      | Some pid \<Rightarrow>
          if pid = '''' then [UnmatchedLine (ss_invoiceLineId sil)]
          else (case find (\<lambda>p. ps_poLineId p = pid) pos of
                  None \<Rightarrow> [MissingPo (ss_invoiceLineId sil) pid]
                | Some pol \<Rightarrow>
                    let acceptedQty = (case accepted (ps_poLineId pol) of None \<Rightarrow> 0 | Some q \<Rightarrow> q)
                    in (if \<not> within_pct_decimal acceptedQty (ss_quantity sil) (tolQuantity tol)
                        then [QuantityOff (ps_poLineId pol) (ss_invoiceLineId sil) acceptedQty (ss_quantity sil)]
                        else []) @
                       (if \<not> within_pct (ps_unitCostCents pol) (ss_unitCostCents sil) (tolPrice tol)
                        then [PriceOff (ps_poLineId pol) (ss_invoiceLineId sil) (ps_unitCostCents pol) (ss_unitCostCents sil)]
                        else [])))"

definition line_gross :: "jsnum \<Rightarrow> si_line_snapshot \<Rightarrow> jsnum" where
  "line_gross s l =
     (let taxAmt = of_int (math_round (js_div (js_mul (ss_lineTotalCents l) (ss_taxRate l)) 100))
      in js_add (js_add s (ss_lineTotalCents l)) taxAmt)"

definition expected_total :: "si_line_snapshot list \<Rightarrow> jsnum" where
  "expected_total sis = foldl line_gross 0 sis"

record match_input =
  mi_poLines :: "po_line_snapshot list"
  mi_grLines :: "gr_line_snapshot list"
  mi_siLines :: "si_line_snapshot list"
  mi_siTotalCents :: jsnum
  mi_tolerances :: "match_tolerances option"

record match_result =
  matched :: bool
  discrepancies :: "discrepancy list"

definition run_three_way_match :: "match_input \<Rightarrow> match_result" where
  "run_three_way_match i =
     (let tol = merge_tolerances (mi_tolerances i);
          accepted = accepted_by_po_line (mi_grLines i);
          lines = concat (map (check_line tol (mi_poLines i) accepted) (mi_siLines i));
          expectedTotal = expected_total (mi_siLines i);
          total = (if \<not> within_pct expectedTotal (mi_siTotalCents i) (tolTotal tol)
                   then [TotalOff expectedTotal (mi_siTotalCents i)] else []);
          ds = lines @ total
      in \<lparr>matched = (length ds = 0), discrepancies = ds\<rparr>)"

section \<open>What a clean match means\<close>

text \<open>
  The specification: an invoice line is covered when it names a purchase-order line,
  its quantity agrees with what was accepted and its unit cost with what was ordered.
\<close>

definition accepted_qty :: "gr_line_snapshot list \<Rightarrow> uuid \<Rightarrow> jsnum" where
  "accepted_qty grs pid = js_sum (\<lambda>g. fl (gs_acceptedQuantity g)) (filter (\<lambda>g. gs_poLineId g = pid) grs)"

definition line_covered ::
  "merged_tolerances \<Rightarrow> po_line_snapshot list \<Rightarrow> gr_line_snapshot list \<Rightarrow> si_line_snapshot \<Rightarrow> bool" where
  "line_covered tol pos grs sil \<longleftrightarrow>
     (case ss_poLineId sil of
        None \<Rightarrow> False
      | Some pid \<Rightarrow> pid \<noteq> '''' \<and>
          (case find (\<lambda>p. ps_poLineId p = pid) pos of
             None \<Rightarrow> False
           | Some pol \<Rightarrow>
               within_pct_decimal (accepted_qty grs pid) (ss_quantity sil) (tolQuantity tol) \<and>
               within_pct (ps_unitCostCents pol) (ss_unitCostCents sil) (tolPrice tol)))"

lemma accepted_by_po_line_snoc:
  "accepted_by_po_line (grs @ [g]) = (accepted_by_po_line grs)(gs_poLineId g \<mapsto>
     js_add (case accepted_by_po_line grs (gs_poLineId g) of None \<Rightarrow> 0 | Some q \<Rightarrow> q)
       (fl (gs_acceptedQuantity g)))"
  by (simp add: accepted_by_po_line_def)

text \<open>The map accumulates, per line, the sum in the order of the receipts.\<close>

lemma accepted_by_po_line_sum:
  "(case accepted_by_po_line grs pid of None \<Rightarrow> 0 | Some q \<Rightarrow> q) = accepted_qty grs pid"
proof (induction grs rule: rev_induct)
  case Nil
  then show ?case by (simp add: accepted_by_po_line_def accepted_qty_def)
next
  case (snoc g grs)
  then show ?case by (auto simp: accepted_by_po_line_snoc accepted_qty_def)
qed

lemma find_po_line_id: "find (\<lambda>p. ps_poLineId p = pid) pos = Some pol \<Longrightarrow> ps_poLineId pol = pid"
  by (auto simp: find_Some_iff)

lemma check_line_Nil:
  "check_line tol pos (accepted_by_po_line grs) sil = [] \<longleftrightarrow> line_covered tol pos grs sil"
  by (auto simp: check_line_def line_covered_def Let_def accepted_by_po_line_sum
      split: option.splits dest: find_po_line_id)

lemma matched_iff:
  "matched (run_three_way_match i) \<longleftrightarrow>
     list_all (line_covered (merge_tolerances (mi_tolerances i)) (mi_poLines i) (mi_grLines i)) (mi_siLines i) \<and>
     within_pct (expected_total (mi_siLines i)) (mi_siTotalCents i)
       (tolTotal (merge_tolerances (mi_tolerances i)))"
  by (auto simp: run_three_way_match_def Let_def check_line_Nil list_all_iff)

lemma discrepancies_matched:
  "matched (run_three_way_match i) \<longleftrightarrow> discrepancies (run_three_way_match i) = []"
  by (auto simp: run_three_way_match_def Let_def)

text \<open>A comparison whose tolerance is undefined only accepts zero against zero.\<close>

lemma within_pct_undefined: "within_pct e a None \<longleftrightarrow> e = 0 \<and> a = 0"
  by (simp add: within_pct_def)

lemma within_pct_decimal_undefined: "within_pct_decimal e a None \<longleftrightarrow> e = 0 \<and> fl a = 0"
  by (auto simp: within_pct_decimal_def Let_def)

lemma within_pct_exact: "0 \<le> p \<Longrightarrow> within_pct e e (Some p)"
  by (simp add: within_pct_def js_sub_def js_add_def fl_nonneg)

lemma within_pct_decimal_exact: "fl a = e \<Longrightarrow> within_pct_decimal e a (Some p)"
  by (simp add: within_pct_decimal_def js_sub_def js_add_def fl_nonneg)

lemma abs_fl: "\<bar>fl x\<bar> = fl \<bar>x\<bar>"
  by (metis abs_if abs_of_nonneg abs_of_nonpos fl_minus fl_nonneg linorder_linear
      minus_minus neg_0_le_iff_le)

lemma tolerance_mono:
  assumes "0 \<le> p" and "p \<le> q"
  shows "\<bar>js_mul e (js_div p 100)\<bar> \<le> \<bar>js_mul e (js_div q 100)\<bar>"
proof -
  have "0 \<le> js_div p 100" "js_div p 100 \<le> js_div q 100"
    using assms by (auto simp: js_div_def intro: fl_nonneg fl_mono divide_right_mono)
  then have "\<bar>e * js_div p 100\<bar> \<le> \<bar>e * js_div q 100\<bar>" by (simp add: abs_mult mult_left_mono)
  then show ?thesis by (simp add: js_mul_def abs_fl fl_mono)
qed

lemma within_pct_mono:
  assumes "within_pct e a (Some p)" and "0 \<le> p" and "p \<le> q"
  shows "within_pct e a (Some q)"
proof -
  have "js_add (\<bar>js_mul e (js_div p 100)\<bar>) (1 / 2) \<le> js_add (\<bar>js_mul e (js_div q 100)\<bar>) (1 / 2)"
    using tolerance_mono [OF assms(2,3)] by (simp add: js_add_def fl_mono)
  then show ?thesis using assms(1) by (auto simp: within_pct_def split: if_splits)
qed

lemma within_pct_decimal_mono:
  assumes "within_pct_decimal e a (Some p)" and "0 \<le> p" and "p \<le> q"
  shows "within_pct_decimal e a (Some q)"
proof -
  have "js_add (\<bar>js_mul e (js_div p 100)\<bar>) (fl (1 / 10000)) \<le> js_add (\<bar>js_mul e (js_div q 100)\<bar>) (fl (1 / 10000))"
    using tolerance_mono [OF assms(2,3)] by (simp add: js_add_def fl_mono)
  then show ?thesis using assms(1) by (auto simp: within_pct_decimal_def Let_def split: if_splits)
qed

section \<open>Properties\<close>


lemma line_covered_mono:
  assumes "line_covered \<lparr>tolQuantity = Some q, tolPrice = Some p, tolTotal = t\<rparr> pos grs l"
    and "0 \<le> q" "q \<le> q'" "0 \<le> p" "p \<le> p'"
  shows "line_covered \<lparr>tolQuantity = Some q', tolPrice = Some p', tolTotal = t'\<rparr> pos grs l"
  using assms
  by (auto simp: line_covered_def intro: within_pct_mono within_pct_decimal_mono split: option.splits)

text \<open>
  Widening the tolerances of a clean match keeps it clean.
\<close>

theorem three_way_match_tolerance_mono:
  assumes "mi_tolerances i = Some \<lparr>quantityPct = Some (Some q), pricePct = Some (Some p), totalPct = Some (Some t)\<rparr>"
    and "matched (run_three_way_match i)"
    and "0 \<le> q" "q \<le> q'" "0 \<le> p" "p \<le> p'" "0 \<le> t" "t \<le> t'"
  shows "matched (run_three_way_match (i\<lparr>mi_tolerances :=
           Some \<lparr>quantityPct = Some (Some q'), pricePct = Some (Some p'), totalPct = Some (Some t')\<rparr>\<rparr>))"
  using assms unfolding matched_iff
  by (auto simp: merge_tolerances_def spread_field_def list_all_iff
      intro: within_pct_mono line_covered_mono)

text \<open>One invoice of 10 pieces at 1.00 EUR against a receipt of 10, and its neighbours.\<close>

definition sample_match :: "rat \<Rightarrow> rat \<Rightarrow> jsnum \<Rightarrow> match_tolerances option \<Rightarrow> match_input" where
  "sample_match accepted invoiced cost tol =
     \<lparr>mi_poLines = [\<lparr>ps_poLineId = ''l1'', ps_productId = ''p1'', ps_quantity = 10,
                       ps_unitCostCents = 100, ps_taxRate = 22\<rparr>],
      mi_grLines = [\<lparr>gs_poLineId = ''l1'', gs_acceptedQuantity = accepted\<rparr>],
      mi_siLines = [\<lparr>ss_invoiceLineId = ''i1'', ss_poLineId = Some ''l1'', ss_quantity = invoiced,
                       ss_unitCostCents = cost, ss_taxRate = 22, ss_lineTotalCents = 1000\<rparr>],
      mi_siTotalCents = 1220, mi_tolerances = tol\<rparr>"

theorem three_way_match_tolerance_mono_witness:
  "matched (run_three_way_match (sample_match 10 10 100
     (Some \<lparr>quantityPct = Some (Some 3), pricePct = Some (Some 1), totalPct = Some (Some 2)\<rparr>)))"
proof -
  let ?i = "sample_match 10 10 100
     (Some \<lparr>quantityPct = Some (Some 2), pricePct = Some (Some 1), totalPct = Some (Some 1)\<rparr>)"
  have "\<lfloor>441 / 2 :: rat\<rfloor> = 220" by (rule floor_unique) auto
  then have "matched (run_three_way_match ?i)"
    by (simp add: matched_iff sample_match_def merge_tolerances_def spread_field_def line_covered_def
        accepted_qty_def js_sum_def expected_total_def line_gross_def math_round_def
        js_add_def js_mul_def js_div_def fl_numeral_safe within_pct_exact within_pct_decimal_exact)
  from three_way_match_tolerance_mono [OF _ this, of 2 1 1 3 1 2]
  show ?thesis by (simp add: sample_match_def)
qed

text \<open>
  The three percentages that \<^verbatim>\<open>runMatch\<close> forwards when the request body has none:
  present, with the value \<^verbatim>\<open>undefined\<close>.
\<close>

definition undefined_tolerances :: match_tolerances where
  "undefined_tolerances = \<lparr>quantityPct = Some None, pricePct = Some None, totalPct = Some None\<rparr>"

definition zero_line :: "po_line_snapshot list \<Rightarrow> gr_line_snapshot list \<Rightarrow> si_line_snapshot \<Rightarrow> bool" where
  "zero_line pos grs sil \<longleftrightarrow>
     (case ss_poLineId sil of
        None \<Rightarrow> False
      | Some pid \<Rightarrow> pid \<noteq> '''' \<and>
          (case find (\<lambda>p. ps_poLineId p = pid) pos of
             None \<Rightarrow> False
           | Some pol \<Rightarrow> accepted_qty grs pid = 0 \<and> fl (ss_quantity sil) = 0 \<and>
               ps_unitCostCents pol = 0 \<and> ss_unitCostCents sil = 0))"

text \<open>
  Percentages that are present but undefined are not replaced by the defaults:
  the match then accepts only invoices whose every quantity, price and total is zero.
\<close>

theorem three_way_match_undefined_tolerances:
  "matched (run_three_way_match (i\<lparr>mi_tolerances := Some undefined_tolerances\<rparr>)) \<longleftrightarrow>
     list_all (zero_line (mi_poLines i) (mi_grLines i)) (mi_siLines i) \<and>
     expected_total (mi_siLines i) = 0 \<and> mi_siTotalCents i = 0"
  by (auto simp: matched_iff undefined_tolerances_def merge_tolerances_def spread_field_def
      zero_line_def line_covered_def within_pct_undefined within_pct_decimal_undefined
      list_all_iff split: option.splits)

lemma find_map_same_id:
  "(\<And>p. ps_poLineId (g p) = ps_poLineId p) \<Longrightarrow>
     find (\<lambda>p. ps_poLineId p = pid) (map g pos) = map_option g (find (\<lambda>p. ps_poLineId p = pid) pos)"
  by (induction pos) auto

text \<open>
  The ordered quantities play no role: whatever quantities the
  purchase-order lines carry, the result of the match is the same.
\<close>

theorem three_way_match_ignores_ordered_quantity:
  "run_three_way_match (i\<lparr>mi_poLines := map (\<lambda>p. p\<lparr>ps_quantity := f p\<rparr>) (mi_poLines i)\<rparr>)
     = run_three_way_match i"
proof -
  have "check_line tol (map (\<lambda>p. p\<lparr>ps_quantity := f p\<rparr>) pos) acc l = check_line tol pos acc l"
    for tol pos acc l
    by (simp add: check_line_def find_map_same_id Let_def split: option.split)
  then have "check_line tol (map (\<lambda>p. p\<lparr>ps_quantity := f p\<rparr>) pos) acc = check_line tol pos acc"
    for tol pos acc by (rule ext)
  then show ?thesis by (simp add: run_three_way_match_def Let_def)
qed

end
