(* ===== verification/ProcurementDb.thy ===== *)
theory ProcurementDb
  imports Documents JsNumber ThreeWayMatch
begin

text \<open>
  The tables of the procurement module (\<^verbatim>\<open>procurement/entities/\<close>): one record per
  entity class with the columns the service reads or writes, and the database state
  \<open>procurement_db\<close> with one table per entity. Dates and timestamps are integers,
  decimal strings their rational value, nullable columns options. The audit columns
  \<^verbatim>\<open>createdAt\<close> and \<^verbatim>\<open>updatedAt\<close> are left out.
\<close>

section \<open>Requisitions and purchase orders\<close>

datatype approver_role = ManagerStep | AdminStep | FounderStep

datatype approval_status = StepPending | StepApproved | StepRejected

record approval_step =
  ap_userId :: string
  ap_role :: approver_role
  ap_status :: approval_status
  ap_approvedAt :: "int option"
  ap_rejectedAt :: "int option"
  ap_comment :: "string option"

record requisition = entity +
  pr_number :: string
  pr_requestedBy :: uuid
  pr_requestedDate :: int
  pr_needByDate :: "int option"
  pr_status :: pr_status
  pr_approverChain :: "approval_step list"
  pr_totalEstimateCents :: jsnum
  pr_notes :: "string option"
  pr_convertedTo :: "uuid option"

record requisition_line = entity +
  rl_requisitionId :: uuid
  rl_productId :: uuid
  rl_description :: string
  rl_quantity :: rat
  rl_unitOfMeasure :: string
  rl_estimatedUnitCostCents :: jsnum
  rl_preferredSupplierId :: "uuid option"
  rl_needByDate :: "int option"
  rl_notes :: "string option"

record purchase_order = entity +
  po_number :: string
  po_supplierId :: uuid
  po_requisitionId :: "uuid option"
  po_orderDate :: int
  po_expectedDeliveryDate :: "int option"
  po_shipToWarehouseId :: "uuid option"
  po_status :: po_status
  po_paymentTermsDays :: int
  po_paymentMethod :: string
  po_incoterms :: "string option"
  po_currency :: string
  po_subtotalCents :: jsnum
  po_taxCents :: jsnum
  po_totalCents :: jsnum
  po_notes :: "string option"
  po_sentAt :: "int option"
  po_acknowledgedAt :: "int option"
  po_closedAt :: "int option"
  po_cancelledAt :: "int option"
  po_cancellationReason :: "string option"

record purchase_order_line = entity +
  pol_purchaseOrderId :: uuid
  pol_productId :: uuid
  pol_description :: string
  pol_quantity :: rat
  pol_unitOfMeasure :: string
  pol_unitCostCents :: jsnum
  pol_lineTotalCents :: jsnum
  pol_taxRate :: jsnum
  pol_taxAmountCents :: jsnum
  pol_expectedDeliveryDate :: "int option"
  pol_receivedQuantity :: rat
  pol_invoicedQuantity :: rat
  pol_notes :: "string option"

section \<open>Requests for quote\<close>

datatype quote_status = QuotePending | QuoteReceived | QuoteDeclined

record line_cost =
  lc_rfqLineId :: uuid
  lc_unitCostCents :: jsnum
  lc_leadTimeDays :: "int option"

record rfq = entity +
  rfq_number :: string
  rfq_requesterId :: uuid
  rfq_issueDate :: int
  rfq_validUntilDate :: int
  rfq_status :: rfq_status
  rfq_notes :: "string option"
  rfq_awardedQuoteId :: "uuid option"
  rfq_awardedAt :: "int option"
  rfq_convertedTo :: "uuid option"

record rfq_line = entity +
  ql_rfqId :: uuid
  ql_productId :: uuid
  ql_description :: string
  ql_quantity :: rat
  ql_unitOfMeasure :: string
  ql_needByDate :: "int option"

record rfq_quote = entity +
  qt_rfqId :: uuid
  qt_supplierId :: uuid
  qt_status :: quote_status
  qt_totalCents :: "jsnum option"
  qt_currency :: string
  qt_validUntilDate :: "int option"
  qt_perLineCosts :: "line_cost list"
  qt_receivedAt :: "int option"
  qt_notes :: "string option"

section \<open>Goods receipts\<close>

record goods_receipt = entity +
  gr_number :: string
  gr_poId :: uuid
  gr_supplierId :: uuid
  gr_warehouseId :: uuid
  gr_receiptDate :: int
  gr_receivedBy :: uuid
  gr_carrierTrackingNumber :: "string option"
  gr_supplierDdtNumber :: "string option"
  gr_supplierDdtDate :: "int option"
  gr_status :: gr_status
  gr_notes :: "string option"
  gr_confirmedAt :: "int option"
  gr_inspectedAt :: "int option"

record goods_receipt_line = entity +
  grl_goodsReceiptId :: uuid
  grl_poLineId :: uuid
  grl_productId :: uuid
  grl_receivedQuantity :: rat
  grl_acceptedQuantity :: rat
  grl_rejectedQuantity :: rat
  grl_rejectReason :: "string option"
  grl_lotId :: "uuid option"
  grl_serialIds :: "string list"
  grl_inspectionId :: "uuid option"
  grl_warehouseLocation :: "string option"

section \<open>Supplier invoices\<close>

datatype received_via = ViaPec | ViaManual | ViaOcr | ViaSdi

record iva_breakdown_item =
  ib_rate :: int
  ib_taxableCents :: jsnum
  ib_taxCents :: jsnum
  ib_naturaCode :: "string option"

record supplier_invoice = entity +
  si_supplierId :: uuid
  si_number :: string
  si_date :: int
  si_receivedDate :: int
  si_receivedVia :: received_via
  si_externalMessageId :: "string option"
  si_fatturaPaXmlPath :: "string option"
  si_subtotalCents :: jsnum
  si_taxCents :: jsnum
  si_totalCents :: jsnum
  si_ivaBreakdown :: "iva_breakdown_item list"
  si_paymentDueDate :: int
  si_paymentTermsDays :: int
  si_status :: si_status
  si_poIds :: "uuid list"
  si_discrepancies :: "discrepancy list option"
  si_matchedAt :: "int option"
  si_matchedBy :: "uuid option"
  si_approvedAt :: "int option"
  si_approvedBy :: "uuid option"
  si_paidAt :: "int option"
  si_paymentBatchId :: "uuid option"
  si_notes :: "string option"
  si_partnerCountry :: "string option"
  si_partnerVatNumber :: "string option"

record supplier_invoice_line = entity +
  sil_supplierInvoiceId :: uuid
  sil_description :: string
  sil_quantity :: rat
  sil_unitOfMeasure :: string
  sil_unitCostCents :: jsnum
  sil_lineTotalCents :: jsnum
  sil_taxRate :: jsnum
  sil_taxAmountCents :: jsnum
  sil_naturaCode :: "string option"
  sil_poLineId :: "uuid option"
  sil_notes :: "string option"

section \<open>The database\<close>

record procurement_db =
  requisitions :: "requisition list"
  requisitionLines :: "requisition_line list"
  purchaseOrders :: "purchase_order list"
  purchaseOrderLines :: "purchase_order_line list"
  rfqs :: "rfq list"
  rfqLines :: "rfq_line list"
  rfqQuotes :: "rfq_quote list"
  goodsReceipts :: "goods_receipt list"
  goodsReceiptLines :: "goods_receipt_line list"
  supplierInvoices :: "supplier_invoice list"
  supplierInvoiceLines :: "supplier_invoice_line list"

definition empty_procurement_db :: procurement_db where
  "empty_procurement_db = \<lparr>requisitions = [], requisitionLines = [], purchaseOrders = [],
     purchaseOrderLines = [], rfqs = [], rfqLines = [], rfqQuotes = [], goodsReceipts = [],
     goodsReceiptLines = [], supplierInvoices = [], supplierInvoiceLines = []\<rparr>"

interpretation pr_table: document_table requisitions requisitions_update pr_status "\<lambda>x. pr_status_update (\<lambda>_. x)"
  by unfold_locales simp_all

interpretation po_table: document_table purchaseOrders purchaseOrders_update po_status "\<lambda>x. po_status_update (\<lambda>_. x)"
  by unfold_locales simp_all

interpretation rfq_table: document_table rfqs rfqs_update rfq_status "\<lambda>x. rfq_status_update (\<lambda>_. x)"
  by unfold_locales simp_all

interpretation gr_table: document_table goodsReceipts goodsReceipts_update gr_status "\<lambda>x. gr_status_update (\<lambda>_. x)"
  by unfold_locales simp_all

interpretation si_table: document_table supplierInvoices supplierInvoices_update si_status "\<lambda>x. si_status_update (\<lambda>_. x)"
  by unfold_locales simp_all

end
