(* ===== verification/Requisition.thy ===== *)
theory Requisition
  imports ProcurementDb
begin

text \<open>
  Purchase requisitions and purchase orders of
  \<^verbatim>\<open>backend/src/procurement/procurement.service.ts\<close>: creation with the approval
  chain that the estimated amount calls for, submission, approval step by step,
  rejection, cancellation, conversion into a purchase order, and the purchase
  order's own life. \<open>now\<close> and \<open>year\<close> are the readings of the clock,
  \<open>newId\<close> and \<open>lineIds\<close> the keys the database generates.
\<close>

section \<open>Approval chains\<close>

definition AUTO_APPROVE_THRESHOLD_CENTS :: jsnum where "AUTO_APPROVE_THRESHOLD_CENTS = 50000"
definition MANAGER_THRESHOLD_CENTS :: jsnum where "MANAGER_THRESHOLD_CENTS = 500000"
definition ADMIN_THRESHOLD_CENTS :: jsnum where "ADMIN_THRESHOLD_CENTS = 2500000"

definition pending_step :: "approver_role \<Rightarrow> approval_step" where
  "pending_step r = \<lparr>ap_userId = '''', ap_role = r, ap_status = StepPending,
     ap_approvedAt = None, ap_rejectedAt = None, ap_comment = None\<rparr>"

definition build_approval_chain :: "jsnum \<Rightarrow> approval_step list" where
  "build_approval_chain cents =
     (if cents < AUTO_APPROVE_THRESHOLD_CENTS then []
      else if cents \<le> MANAGER_THRESHOLD_CENTS then [pending_step ManagerStep]
      else if cents \<le> ADMIN_THRESHOLD_CENTS then [pending_step AdminStep]
      else [pending_step AdminStep, pending_step FounderStep])"

definition is_approval_chain_complete :: "approval_step list \<Rightarrow> bool" where
  "is_approval_chain_complete chain \<longleftrightarrow>
     length chain > 0 \<and> list_all (\<lambda>s. ap_status s = StepApproved) chain"

definition next_pending_step :: "approval_step list \<Rightarrow> approval_step option" where
  "next_pending_step chain = find (\<lambda>s. ap_status s = StepPending) chain"

text \<open>Writing to the step that \<open>next_pending_step\<close> returned, which is shared with the chain.\<close>

fun mark_next :: "(approval_step \<Rightarrow> approval_step) \<Rightarrow> approval_step list \<Rightarrow> approval_step list" where
  "mark_next f [] = []"
| "mark_next f (s # ss) = (if ap_status s = StepPending then f s # ss else s # mark_next f ss)"

section \<open>Requisitions\<close>

record requisition_line_input =
  rli_productId :: uuid
  rli_description :: string
  rli_quantity :: rat
  rli_unitOfMeasure :: "string option"
  rli_estimatedUnitCostCents :: "jsnum option"
  rli_preferredSupplierId :: "uuid option"
  rli_needByDate :: "int option"
  rli_notes :: "string option"

record requisition_input =
  ri_requestedBy :: uuid
  ri_requestedDate :: int
  ri_needByDate :: "int option"
  ri_notes :: "string option"
  ri_lines :: "requisition_line_input list"

definition total_estimate :: "requisition_line_input list \<Rightarrow> jsnum" where
  "total_estimate ls =
     js_sum (\<lambda>l. js_mul (nullish (rli_estimatedUnitCostCents l) 0) (fl (rli_quantity l))) ls"

definition next_requisition_number :: "nat \<Rightarrow> uuid \<Rightarrow> procurement_db \<Rightarrow> string" where
  "next_requisition_number year t s = doc_number ''PR'' 5 year (count_tenant t (requisitions s) + 1)"

definition requisition_line_of :: "uuid \<Rightarrow> uuid \<Rightarrow> uuid \<Rightarrow> requisition_line_input \<Rightarrow> requisition_line" where
  "requisition_line_of t rid i l =
     \<lparr>ent_id = i, tenantId = t, rl_requisitionId = rid, rl_productId = rli_productId l,
      rl_description = rli_description l, rl_quantity = rli_quantity l,
      rl_unitOfMeasure = nullish (rli_unitOfMeasure l) ''pz'',
      rl_estimatedUnitCostCents = nullish (rli_estimatedUnitCostCents l) 0,
      rl_preferredSupplierId = rli_preferredSupplierId l, rl_needByDate = rli_needByDate l,
      rl_notes = rli_notes l\<rparr>"

definition create_requisition ::
  "nat \<Rightarrow> uuid \<Rightarrow> (nat \<Rightarrow> uuid) \<Rightarrow> uuid \<Rightarrow> requisition_input \<Rightarrow> (procurement_db, requisition) svc" where
  "create_requisition year newId lineIds t dto =
     (let total = total_estimate (ri_lines dto) in
      bind (gets (next_requisition_number year t)) (\<lambda>number.
      transaction
        (let req = \<lparr>ent_id = newId, tenantId = t, pr_number = number,
                    pr_requestedBy = ri_requestedBy dto, pr_requestedDate = ri_requestedDate dto,
                    pr_needByDate = ri_needByDate dto, pr_status = PrDraft,
                    pr_approverChain = build_approval_chain total, pr_totalEstimateCents = total,
                    pr_notes = ri_notes dto, pr_convertedTo = None\<rparr>;
             ls = create_lines (requisition_line_of t newId) lineIds (ri_lines dto)
         in seq (modify (requisitions_update (save_row req)))
           (seq (modify (requisitionLines_update (save_rows ls)))
              (ret req)))))"

definition get_requisition :: "uuid \<Rightarrow> uuid \<Rightarrow> (procurement_db, requisition) svc" where
  "get_requisition t i =
     bind (gets (\<lambda>s. find_scoped t i (requisitions s))) (\<lambda>r. require r NotFound)"

text \<open>The \<^verbatim>\<open>lines\<close> relation that \<^verbatim>\<open>getRequisition\<close> loads with the row.\<close>

definition requisition_lines :: "uuid \<Rightarrow> procurement_db \<Rightarrow> requisition_line list" where
  "requisition_lines i s = filter (\<lambda>l. rl_requisitionId l = i) (requisitionLines s)"

definition transition_requisition ::
  "uuid \<Rightarrow> uuid \<Rightarrow> pr_status \<Rightarrow> (requisition \<Rightarrow> requisition) \<Rightarrow> (procurement_db, requisition) svc" where
  "transition_requisition t i next mutator =
     transition_row requisitions requisitions_update pr_status (\<lambda>x. pr_status_update (\<lambda>_. x)) can_pr
       t i next (\<lambda>r. Inr (mutator r))"

definition submit_requisition :: "uuid \<Rightarrow> uuid \<Rightarrow> (procurement_db, requisition) svc" where
  "submit_requisition t i =
     transition_requisition t i PrSubmitted
       (\<lambda>req. if length (pr_approverChain req) = 0 then req\<lparr>pr_status := PrApproved\<rparr> else req)"

definition approve_step :: "int \<Rightarrow> uuid \<Rightarrow> string option \<Rightarrow> approval_step \<Rightarrow> approval_step" where
  "approve_step now user comment s =
     s\<lparr>ap_userId := user, ap_status := StepApproved, ap_approvedAt := Some now,
       ap_comment := (case comment of Some c \<Rightarrow> if c \<noteq> '''' then Some c else ap_comment s
                      | None \<Rightarrow> ap_comment s)\<rparr>"

definition approve_requisition ::
  "int \<Rightarrow> uuid \<Rightarrow> uuid \<Rightarrow> uuid \<Rightarrow> string option \<Rightarrow> (procurement_db, requisition) svc" where
  "approve_requisition now t i approver comment =
     bind (get_requisition t i) (\<lambda>req.
     seq (throw_if (pr_status req \<noteq> PrSubmitted \<and> pr_status req \<noteq> PrApproved) BadRequest)
    (bind (require (next_pending_step (pr_approverChain req)) BadRequest) (\<lambda>_.
      let chain = mark_next (approve_step now approver comment) (pr_approverChain req);
          complete = is_approval_chain_complete chain
      in seq (if complete then lift (assert_pr (pr_status req) PrApproved) else ret ())
        (let req' = req\<lparr>pr_approverChain := chain,
                        pr_status := (if complete then PrApproved else pr_status req)\<rparr>
         in seq (modify (requisitions_update (save_row req'))) (ret req')))))"

definition reject_step :: "int \<Rightarrow> uuid \<Rightarrow> string \<Rightarrow> approval_step \<Rightarrow> approval_step" where
  "reject_step now user comment s =
     s\<lparr>ap_userId := user, ap_status := StepRejected, ap_rejectedAt := Some now, ap_comment := Some comment\<rparr>"

definition reject_next :: "int \<Rightarrow> uuid \<Rightarrow> string \<Rightarrow> requisition \<Rightarrow> requisition" where
  "reject_next now user comment req =
     (case next_pending_step (pr_approverChain req) of
        None \<Rightarrow> req
      | Some _ \<Rightarrow> req\<lparr>pr_approverChain := mark_next (reject_step now user comment) (pr_approverChain req)\<rparr>)"

definition reject_requisition ::
  "int \<Rightarrow> uuid \<Rightarrow> uuid \<Rightarrow> uuid \<Rightarrow> string \<Rightarrow> (procurement_db, requisition) svc" where
  "reject_requisition now t i approver comment =
     transition_requisition t i PrRejected (reject_next now approver comment)"

definition cancel_requisition :: "uuid \<Rightarrow> uuid \<Rightarrow> (procurement_db, requisition) svc" where
  "cancel_requisition t i = transition_requisition t i PrCancelled (\<lambda>req. req)"

section \<open>Purchase orders\<close>

record po_line_input =
  pli_productId :: uuid
  pli_description :: string
  pli_quantity :: rat
  pli_unitOfMeasure :: "string option"
  pli_unitCostCents :: jsnum
  pli_taxRate :: "jsnum option"
  pli_expectedDeliveryDate :: "int option"
  pli_notes :: "string option"

record po_input =
  pi_supplierId :: uuid
  pi_requisitionId :: "uuid option"
  pi_orderDate :: int
  pi_expectedDeliveryDate :: "int option"
  pi_shipToWarehouseId :: "uuid option"
  pi_paymentTermsDays :: "int option"
  pi_paymentMethod :: "string option"
  pi_incoterms :: "string option"
  pi_currency :: "string option"
  pi_notes :: "string option"
  pi_lines :: "po_line_input list"

record convert_input =
  ci_supplierId :: uuid
  ci_orderDate :: int
  ci_expectedDeliveryDate :: "int option"
  ci_shipToWarehouseId :: "uuid option"
  ci_incoterms :: "string option"
  ci_paymentTermsDays :: "int option"

definition next_po_number :: "nat \<Rightarrow> uuid \<Rightarrow> procurement_db \<Rightarrow> string" where
  "next_po_number year t s = doc_number ''PO'' 5 year (count_tenant t (purchaseOrders s) + 1)"

text \<open>The header amounts that every way of creating a purchase order computes from its lines.\<close>

definition with_po_totals :: "purchase_order_line list \<Rightarrow> purchase_order \<Rightarrow> purchase_order" where
  "with_po_totals ls po =
     (let sub = js_sum pol_lineTotalCents ls; tax = js_sum pol_taxAmountCents ls
      in po\<lparr>po_subtotalCents := sub, po_taxCents := tax, po_totalCents := js_add sub tax\<rparr>)"

text \<open>
  The row that \<^verbatim>\<open>manager.create(PurchaseOrder, \<dots>)\<close> builds, with the amounts at zero; the
  three ways of creating a purchase order fill in their own values.
\<close>

definition new_purchase_order ::
  "uuid \<Rightarrow> uuid \<Rightarrow> string \<Rightarrow> uuid \<Rightarrow> uuid option \<Rightarrow> int \<Rightarrow> int option \<Rightarrow> uuid option \<Rightarrow> int \<Rightarrow> string \<Rightarrow>
   string option \<Rightarrow> string \<Rightarrow> string option \<Rightarrow> purchase_order" where
  "new_purchase_order newId t number supplier req orderDate expected ship terms method incoterms cur remarks =
     \<lparr>ent_id = newId, tenantId = t, po_number = number, po_supplierId = supplier,
      po_requisitionId = req, po_orderDate = orderDate, po_expectedDeliveryDate = expected,
      po_shipToWarehouseId = ship, po_status = PoDraft, po_paymentTermsDays = terms,
      po_paymentMethod = method, po_incoterms = incoterms, po_currency = cur,
      po_subtotalCents = 0, po_taxCents = 0, po_totalCents = 0, po_notes = remarks,
      po_sentAt = None, po_acknowledgedAt = None, po_closedAt = None, po_cancelledAt = None,
      po_cancellationReason = None\<rparr>"

definition po_line_of :: "uuid \<Rightarrow> uuid \<Rightarrow> uuid \<Rightarrow> po_line_input \<Rightarrow> purchase_order_line" where
  "po_line_of t pid i l =
     (let qty = fl (pli_quantity l);
          total = js_mul (pli_unitCostCents l) qty;
          rate = nullish (pli_taxRate l) 22
      in \<lparr>ent_id = i, tenantId = t, pol_purchaseOrderId = pid, pol_productId = pli_productId l,
          pol_description = pli_description l, pol_quantity = pli_quantity l,
          pol_unitOfMeasure = nullish (pli_unitOfMeasure l) ''pz'',
          pol_unitCostCents = pli_unitCostCents l, pol_lineTotalCents = total, pol_taxRate = rate,
          pol_taxAmountCents = of_int (math_round (js_div (js_mul total rate) 100)),
          pol_expectedDeliveryDate = pli_expectedDeliveryDate l,
          pol_receivedQuantity = 0, pol_invoicedQuantity = 0, pol_notes = pli_notes l\<rparr>)"

definition create_purchase_order ::
  "nat \<Rightarrow> uuid \<Rightarrow> (nat \<Rightarrow> uuid) \<Rightarrow> uuid \<Rightarrow> po_input \<Rightarrow> (procurement_db, purchase_order) svc" where
  "create_purchase_order year newId lineIds t dto =
     bind (gets (next_po_number year t)) (\<lambda>number.
     transaction
       (let po = new_purchase_order newId t number (pi_supplierId dto) (pi_requisitionId dto)
                  (pi_orderDate dto) (pi_expectedDeliveryDate dto) (pi_shipToWarehouseId dto)
                  (nullish (pi_paymentTermsDays dto) 30)
                  (nullish (pi_paymentMethod dto) ''sepa_bank_transfer'')
                  (pi_incoterms dto) (nullish (pi_currency dto) ''EUR'') (pi_notes dto);
            ls = create_lines (po_line_of t newId) lineIds (pi_lines dto);
            po' = with_po_totals ls po
        in seq (modify (purchaseOrders_update (save_row po)))
          (seq (modify (purchaseOrderLines_update (save_rows ls)))
          (seq (modify (purchaseOrders_update (save_row po')))
             (ret po')))))"

text \<open>A requisition line becomes an order line at its estimated cost and 22 percent VAT.\<close>

definition converted_line_of :: "uuid \<Rightarrow> uuid \<Rightarrow> uuid \<Rightarrow> requisition_line \<Rightarrow> purchase_order_line" where
  "converted_line_of t pid i rl =
     (let qty = fl (rl_quantity rl);
          total = js_mul (rl_estimatedUnitCostCents rl) qty
      in \<lparr>ent_id = i, tenantId = t, pol_purchaseOrderId = pid, pol_productId = rl_productId rl,
          pol_description = rl_description rl, pol_quantity = rl_quantity rl,
          pol_unitOfMeasure = rl_unitOfMeasure rl,
          pol_unitCostCents = rl_estimatedUnitCostCents rl, pol_lineTotalCents = total,
          pol_taxRate = 22, pol_taxAmountCents = of_int (math_round (js_mul total (fl (22 / 100)))),
          pol_expectedDeliveryDate = rl_needByDate rl,
          pol_receivedQuantity = 0, pol_invoicedQuantity = 0, pol_notes = rl_notes rl\<rparr>)"

definition convert_requisition_to_po ::
  "nat \<Rightarrow> uuid \<Rightarrow> (nat \<Rightarrow> uuid) \<Rightarrow> uuid \<Rightarrow> uuid \<Rightarrow> convert_input \<Rightarrow> (procurement_db, purchase_order) svc" where
  "convert_requisition_to_po year newId lineIds t i dto =
     bind (get_requisition t i) (\<lambda>req.
     bind (gets (requisition_lines i)) (\<lambda>rlines.
     seq (throw_if (pr_status req \<noteq> PrApproved) BadRequest)
    (seq (throw_if (pr_convertedTo req \<noteq> None) Conflict)
     (transaction
       (bind (gets (next_po_number year t)) (\<lambda>number.
        let po = new_purchase_order newId t number (ci_supplierId dto) (Some (ent_id req))
                  (ci_orderDate dto) (ci_expectedDeliveryDate dto) (ci_shipToWarehouseId dto)
                  (nullish (ci_paymentTermsDays dto) 30) ''sepa_bank_transfer''
                  (ci_incoterms dto) ''EUR'' None;
            ls = create_lines (converted_line_of t newId) lineIds rlines;
            po' = with_po_totals ls po
        in seq (modify (purchaseOrders_update (save_row po)))
          (seq (modify (purchaseOrderLines_update (save_rows ls)))
          (seq (modify (purchaseOrders_update (save_row po')))
          (seq (lift (assert_pr (pr_status req) PrConverted))
          (seq (modify (requisitions_update (save_row
                  (req\<lparr>pr_status := PrConverted, pr_convertedTo := Some (ent_id po')\<rparr>))))
             (ret po')))))))))))"

definition get_purchase_order :: "uuid \<Rightarrow> uuid \<Rightarrow> (procurement_db, purchase_order) svc" where
  "get_purchase_order t i =
     bind (gets (\<lambda>s. find_scoped t i (purchaseOrders s))) (\<lambda>r. require r NotFound)"

definition transition_purchase_order ::
  "uuid \<Rightarrow> uuid \<Rightarrow> po_status \<Rightarrow> (purchase_order \<Rightarrow> purchase_order) \<Rightarrow> (procurement_db, purchase_order) svc" where
  "transition_purchase_order t i next mutator =
     transition_row purchaseOrders purchaseOrders_update po_status (\<lambda>x. po_status_update (\<lambda>_. x)) can_po
       t i next (\<lambda>r. Inr (mutator r))"

definition send_purchase_order :: "int \<Rightarrow> uuid \<Rightarrow> uuid \<Rightarrow> (procurement_db, purchase_order) svc" where
  "send_purchase_order now t i = transition_purchase_order t i PoSent (\<lambda>po. po\<lparr>po_sentAt := Some now\<rparr>)"

definition acknowledge_purchase_order :: "int \<Rightarrow> uuid \<Rightarrow> uuid \<Rightarrow> (procurement_db, purchase_order) svc" where
  "acknowledge_purchase_order now t i =
     transition_purchase_order t i PoAcknowledged (\<lambda>po. po\<lparr>po_acknowledgedAt := Some now\<rparr>)"

definition cancel_purchase_order ::
  "int \<Rightarrow> uuid \<Rightarrow> uuid \<Rightarrow> string \<Rightarrow> (procurement_db, purchase_order) svc" where
  "cancel_purchase_order now t i reason =
     transition_purchase_order t i PoCancelled
       (\<lambda>po. po\<lparr>po_cancelledAt := Some now, po_cancellationReason := Some reason\<rparr>)"

text \<open>\<^verbatim>\<open>assertTenantOwnership(req, tenantId)\<close>\<close>

definition assert_tenant_ownership :: "requisition option \<Rightarrow> uuid \<Rightarrow> http_error + unit" where
  "assert_tenant_ownership req t =
     (case req of None \<Rightarrow> Inr () | Some r \<Rightarrow> if tenantId r \<noteq> t then Inl Forbidden else Inr ())"

section \<open>Lemmas on the approval chain\<close>

lemma build_approval_chain_pending:
  "list_all (\<lambda>s. ap_status s = StepPending) (build_approval_chain c)"
  by (simp add: build_approval_chain_def pending_step_def)

lemma mark_next_roles: "(\<And>s. ap_role (f s) = ap_role s) \<Longrightarrow> map ap_role (mark_next f chain) = map ap_role chain"
  by (induction chain) auto

lemma approve_step_fields [simp]:
  "ap_role (approve_step now u c s) = ap_role s"
  "ap_status (approve_step now u c s) = StepApproved"
  by (simp_all add: approve_step_def)

lemma reject_step_fields [simp]:
  "ap_role (reject_step now u c s) = ap_role s"
  "ap_status (reject_step now u c s) = StepRejected"
  by (simp_all add: reject_step_def)

text \<open>
  Approvals are given in the order of the chain: the steps before the next pending one
  are approved. \<open>in_order\<close> holds of a chain whose approved steps form a prefix.
\<close>

fun in_order :: "approval_step list \<Rightarrow> bool" where
  "in_order [] = True"
| "in_order (s # ss) =
     (case ap_status s of
        StepApproved \<Rightarrow> in_order ss
      | _ \<Rightarrow> list_all (\<lambda>s. ap_status s = StepPending) ss)"

lemma all_pending_in_order: "list_all (\<lambda>s. ap_status s = StepPending) chain \<Longrightarrow> in_order chain"
  by (cases chain) auto

lemma mark_next_in_order: 
  "list_all (\<lambda>s. ap_status s \<noteq> StepRejected) chain \<Longrightarrow> in_order chain \<Longrightarrow>
     in_order (mark_next (approve_step now u c) chain)"
  by (induction chain) (auto simp: all_pending_in_order split: approval_status.splits)

lemma mark_next_reject_in_order: 
  "list_all (\<lambda>s. ap_status s \<noteq> StepRejected) chain \<Longrightarrow> in_order chain \<Longrightarrow>
     in_order (mark_next (reject_step now u c) chain)"
  by (induction chain) (auto split: approval_status.splits)

text \<open>Each approval reduces the number of pending steps by one.\<close>

definition pending_count :: "approval_step list \<Rightarrow> nat" where
  "pending_count chain = length (filter (\<lambda>s. ap_status s = StepPending) chain)"

lemma pending_count_mark_next:
  "next_pending_step chain = Some x \<Longrightarrow> (\<And>s. ap_status (f s) \<noteq> StepPending) \<Longrightarrow>
     Suc (pending_count (mark_next f chain)) = pending_count chain"
  by (induction chain) (auto simp: pending_count_def next_pending_step_def split: if_splits)

section \<open>The requisition invariant\<close>

text \<open>
  A requisition carries the chain its amount demands; it is approved or converted only
  when every step of the chain is approved, waits for a pending step while submitted,
  and records the purchase order exactly when it is converted.
\<close>

definition requisition_ok :: "requisition \<Rightarrow> bool" where
  "requisition_ok r \<longleftrightarrow>
     map ap_role (pr_approverChain r) = map ap_role (build_approval_chain (pr_totalEstimateCents r)) \<and>
     in_order (pr_approverChain r) \<and>
     (pr_status r = PrDraft \<longrightarrow> list_all (\<lambda>s. ap_status s = StepPending) (pr_approverChain r)) \<and>
     (pr_status r = PrSubmitted \<longrightarrow>
        list_all (\<lambda>s. ap_status s \<noteq> StepRejected) (pr_approverChain r) \<and>
        list_ex (\<lambda>s. ap_status s = StepPending) (pr_approverChain r)) \<and>
     (pr_status r \<in> {PrApproved, PrConverted} \<longrightarrow> list_all (\<lambda>s. ap_status s = StepApproved) (pr_approverChain r)) \<and>
     (pr_status r = PrConverted \<longleftrightarrow> pr_convertedTo r \<noteq> None)"

abbreviation requisition_inv :: "requisition list \<Rightarrow> bool" where
  "requisition_inv \<equiv> table_inv ''PR'' 5 pr_number requisition_ok"

lemma approve_not_rejected:
  "list_all (\<lambda>s. ap_status s \<noteq> StepRejected) chain \<Longrightarrow>
     list_all (\<lambda>s. ap_status s \<noteq> StepRejected) (mark_next (approve_step now u c) chain)"
  by (induction chain) auto

lemma not_complete_pending:
  assumes "list_all (\<lambda>s. ap_status s \<noteq> StepRejected) chain" and "chain \<noteq> []"
    and "\<not> is_approval_chain_complete chain"
  shows "list_ex (\<lambda>s. ap_status s = StepPending) chain"
  using assms by (auto simp: is_approval_chain_complete_def list_all_iff list_ex_iff)
    (metis approval_status.exhaust)

lemma mark_next_Nil_iff [simp]: "mark_next f chain = [] \<longleftrightarrow> chain = []"
  by (cases chain) auto

lemma requisition_ok_create:
  assumes "pr_status r = PrDraft" "pr_convertedTo r = None"
    and "pr_approverChain r = build_approval_chain (pr_totalEstimateCents r)"
  shows "requisition_ok r"
  using assms build_approval_chain_pending by (simp add: requisition_ok_def all_pending_in_order)

lemma requisition_ok_submit:
  assumes "requisition_ok r" and "can_pr (pr_status r) PrSubmitted"
  shows "requisition_ok (if length (pr_approverChain r) = 0 then r\<lparr>pr_status := PrApproved\<rparr>
                         else r\<lparr>pr_status := PrSubmitted\<rparr>)"
proof (cases "pr_approverChain r")
  case Nil
  then show ?thesis using assms by (cases "pr_status r") (auto simp: requisition_ok_def can_pr_def)
next
  case (Cons a ss)
  with assms show ?thesis
    by (cases "pr_status r") (auto simp: requisition_ok_def can_pr_def list_all_iff)
qed

lemma requisition_ok_approve:
  assumes ok: "requisition_ok r" and st: "pr_status r = PrSubmitted"
    and chain: "chain = mark_next (approve_step now u c) (pr_approverChain r)"
  shows "requisition_ok (r\<lparr>pr_approverChain := chain,
           pr_status := (if is_approval_chain_complete chain then PrApproved else pr_status r)\<rparr>)"
proof -
  have nr: "list_all (\<lambda>s. ap_status s \<noteq> StepRejected) chain" and "chain \<noteq> []" and "in_order chain"
    and "map ap_role chain = map ap_role (pr_approverChain r)"
    using ok st unfolding chain requisition_ok_def
    by (auto simp: approve_not_rejected mark_next_in_order mark_next_roles)
  moreover have "\<not> is_approval_chain_complete chain \<Longrightarrow> list_ex (\<lambda>s. ap_status s = StepPending) chain"
    using nr \<open>chain \<noteq> []\<close> by (rule not_complete_pending)
  ultimately show ?thesis
    using ok st by (auto simp: requisition_ok_def is_approval_chain_complete_def)
qed

lemma requisition_ok_leave:
  assumes "requisition_ok r" and "can_pr (pr_status r) nxt" and "nxt \<in> {PrRejected, PrCancelled}"
  shows "requisition_ok (r\<lparr>pr_status := nxt\<rparr>)"
  using assms by (cases "pr_status r") (auto simp: requisition_ok_def can_pr_def)

lemma requisition_ok_reject:
  assumes "requisition_ok r" and "can_pr (pr_status r) PrRejected"
  shows "requisition_ok (r\<lparr>pr_status := PrRejected,
           pr_approverChain := mark_next (reject_step now u c) (pr_approverChain r)\<rparr>)"
proof -
  have "pr_status r = PrSubmitted" using assms(2) by (cases "pr_status r") (auto simp: can_pr_def)
  then show ?thesis
    using assms(1) by (auto simp: requisition_ok_def mark_next_roles mark_next_reject_in_order)
qed

lemma requisition_ok_convert:
  assumes "requisition_ok r" and "pr_status r = PrApproved"
  shows "requisition_ok (r\<lparr>pr_status := PrConverted, pr_convertedTo := Some p\<rparr>)"
  using assms by (simp add: requisition_ok_def)

section \<open>Every operation keeps the invariant\<close>

lemma get_requisition_Inr [svc_simps]:
  "get_requisition t i s = (Inr r, s') \<longleftrightarrow> find_scoped t i (requisitions s) = Some r \<and> s' = s"
  by (auto simp: get_requisition_def svc_simps)

lemma transition_requisition_Inr [svc_simps]:
  "transition_requisition t i nxt m s = (Inr r', s') \<longleftrightarrow>
     (\<exists>r. find_scoped t i (requisitions s) = Some r \<and> can_pr (pr_status r) nxt \<and>
          r' = m (r\<lparr>pr_status := nxt\<rparr>) \<and> s' = requisitions_update (save_row r') s)"
  by (auto simp: transition_requisition_def pr_table.transition_Inr)

lemma create_requisition_inv:
  assumes "requisition_inv (requisitions s)" and "fresh newId (requisitions s)"
    and "create_requisition year newId lineIds t dto s = (Inr r, s')"
  shows "requisition_inv (requisitions s')"
  using assms
  by (auto simp: create_requisition_def Let_def svc_simps next_requisition_number_def
      intro!: table_inv_insert [where y = year] requisition_ok_create)

lemma submit_requisition_inv:
  assumes "requisition_inv (requisitions s)" and "submit_requisition t i s = (Inr r, s')"
  shows "requisition_inv (requisitions s')"
proof -
  from assms(2) obtain q where q: "find_scoped t i (requisitions s) = Some q"
      "can_pr (pr_status q) PrSubmitted"
    and r: "r = (if length (pr_approverChain q) = 0 then q\<lparr>pr_status := PrApproved\<rparr>
                 else q\<lparr>pr_status := PrSubmitted\<rparr>)"
    and s': "s' = requisitions_update (save_row r) s"
    by (auto simp: submit_requisition_def svc_simps)
  have "requisition_ok r"
    unfolding r using q find_scoped_Some [OF q(1)] assms(1)
    by (intro requisition_ok_submit) (auto dest: table_inv_row)
  then show ?thesis
    using assms(1) q(1) r find_scoped_Some [OF q(1)] by (auto simp: s' intro: table_inv_update)
qed

lemma approve_requisition_Inr:
  assumes "approve_requisition now t i u c s = (Inr r, s')"
  obtains q x where "find_scoped t i (requisitions s) = Some q"
      "pr_status q = PrSubmitted \<or> pr_status q = PrApproved"
      "next_pending_step (pr_approverChain q) = Some x"
      "r = q\<lparr>pr_approverChain := mark_next (approve_step now u c) (pr_approverChain q),
             pr_status := (if is_approval_chain_complete (mark_next (approve_step now u c) (pr_approverChain q))
                           then PrApproved else pr_status q)\<rparr>"
      "s' = requisitions_update (save_row r) s"
  using assms that by (auto simp: approve_requisition_def Let_def svc_simps split: if_splits)

lemma approve_requisition_inv:
  assumes "requisition_inv (requisitions s)" and "approve_requisition now t i u c s = (Inr r, s')"
  shows "requisition_inv (requisitions s')"
  using assms(2)
proof (rule approve_requisition_Inr)
  fix q x
  assume q: "find_scoped t i (requisitions s) = Some q"
      "pr_status q = PrSubmitted \<or> pr_status q = PrApproved"
      "next_pending_step (pr_approverChain q) = Some x"
    and r: "r = q\<lparr>pr_approverChain := mark_next (approve_step now u c) (pr_approverChain q),
                  pr_status := (if is_approval_chain_complete (mark_next (approve_step now u c) (pr_approverChain q))
                                then PrApproved else pr_status q)\<rparr>"
    and s': "s' = requisitions_update (save_row r) s"
  have ok: "requisition_ok q" using assms(1) find_scoped_Some [OF q(1)] by (blast dest: table_inv_row)
  have "pr_status q \<noteq> PrApproved"
    using ok q(3) by (auto simp: requisition_ok_def next_pending_step_def find_Some_iff list_all_iff)
  with q(2) have "pr_status q = PrSubmitted" by simp
  then have "requisition_ok r" unfolding r by (rule requisition_ok_approve [OF ok _ refl])
  then show ?thesis
    using assms(1) q(1) r find_scoped_Some [OF q(1)] by (auto simp: s' intro: table_inv_update)
qed

lemma leave_requisition_inv:
  assumes "requisition_inv (requisitions s)" and "find_scoped t i (requisitions s) = Some q"
    and "requisition_ok r" "ent_id r = ent_id q" "tenantId r = tenantId q" "pr_number r = pr_number q"
  shows "requisition_inv (save_row r (requisitions s))"
  using assms find_scoped_Some [OF assms(2)] by (auto intro: table_inv_update)

lemma reject_next_fields [simp]:
  "ent_id (reject_next now u c r) = ent_id r" "tenantId (reject_next now u c r) = tenantId r"
  "pr_number (reject_next now u c r) = pr_number r"
  by (simp_all add: reject_next_def split: option.split)

lemma requisition_ok_reject_next:
  assumes "requisition_ok q" and "can_pr (pr_status q) PrRejected"
  shows "requisition_ok (reject_next now u c (q\<lparr>pr_status := PrRejected\<rparr>))"
  using requisition_ok_reject [OF assms] requisition_ok_leave [OF assms]
  by (simp add: reject_next_def split: option.split)

lemma reject_requisition_inv:
  assumes "requisition_inv (requisitions s)" and "reject_requisition now t i u c s = (Inr r, s')"
  shows "requisition_inv (requisitions s')"
proof -
  from assms(2) obtain q where q: "find_scoped t i (requisitions s) = Some q"
      "can_pr (pr_status q) PrRejected"
    and r: "r = reject_next now u c (q\<lparr>pr_status := PrRejected\<rparr>)"
    and s': "s' = requisitions_update (save_row r) s"
    unfolding reject_requisition_def transition_requisition_Inr by blast
  have "requisition_ok q" using assms(1) find_scoped_Some [OF q(1)] by (blast dest: table_inv_row)
  then have "requisition_ok r" using q(2) unfolding r by (rule requisition_ok_reject_next)
  then show ?thesis using leave_requisition_inv [OF assms(1) q(1)] by (simp add: s' r)
qed

lemma cancel_requisition_inv:
  assumes "requisition_inv (requisitions s)" and "cancel_requisition t i s = (Inr r, s')"
  shows "requisition_inv (requisitions s')"
proof -
  from assms(2) obtain q where q: "find_scoped t i (requisitions s) = Some q"
      "can_pr (pr_status q) PrCancelled"
    and r: "r = q\<lparr>pr_status := PrCancelled\<rparr>" and s': "s' = requisitions_update (save_row r) s"
    by (auto simp: cancel_requisition_def svc_simps)
  have "requisition_ok q" using assms(1) find_scoped_Some [OF q(1)] by (blast dest: table_inv_row)
  then have "requisition_ok r" unfolding r using q(2) by (rule requisition_ok_leave) simp
  then show ?thesis using leave_requisition_inv [OF assms(1) q(1)] by (simp add: s' r)
qed

lemma new_purchase_order_fields [simp]:
  "ent_id (new_purchase_order n t num supp r d x w p m c cur notes) = n"
  "tenantId (new_purchase_order n t num supp r d x w p m c cur notes) = t"
  "po_number (new_purchase_order n t num supp r d x w p m c cur notes) = num"
  "po_requisitionId (new_purchase_order n t num supp r d x w p m c cur notes) = r"
  "po_status (new_purchase_order n t num supp r d x w p m c cur notes) = PoDraft"
  by (simp_all add: new_purchase_order_def)

lemma with_po_totals_fields [simp]:
  "ent_id (with_po_totals ls po) = ent_id po"
  "tenantId (with_po_totals ls po) = tenantId po"
  "po_number (with_po_totals ls po) = po_number po"
  "po_requisitionId (with_po_totals ls po) = po_requisitionId po"
  "po_status (with_po_totals ls po) = po_status po"
  "po_subtotalCents (with_po_totals ls po) = js_sum pol_lineTotalCents ls"
  "po_taxCents (with_po_totals ls po) = js_sum pol_taxAmountCents ls"
  "po_totalCents (with_po_totals ls po) = js_add (js_sum pol_lineTotalCents ls) (js_sum pol_taxAmountCents ls)"
  by (simp_all add: with_po_totals_def Let_def)

text \<open>What a successful conversion did, in one step.\<close>

lemma convert_requisition_Inr:
  assumes "convert_requisition_to_po year newId lineIds t i dto s = (Inr po, s')"
  obtains q header where "find_scoped t i (requisitions s) = Some q"
    "pr_status q = PrApproved" "pr_convertedTo q = None"
    "header = new_purchase_order newId t (next_po_number year t s) (ci_supplierId dto) (Some i)
       (ci_orderDate dto) (ci_expectedDeliveryDate dto) (ci_shipToWarehouseId dto)
       (nullish (ci_paymentTermsDays dto) 30) ''sepa_bank_transfer'' (ci_incoterms dto) ''EUR'' None"
    "po = with_po_totals (create_lines (converted_line_of t newId) lineIds (requisition_lines i s)) header"
    "s' = s\<lparr>purchaseOrders := save_row po (purchaseOrders s),
            purchaseOrderLines := save_rows (create_lines (converted_line_of t newId) lineIds (requisition_lines i s))
              (purchaseOrderLines s),
            requisitions := save_row (q\<lparr>pr_status := PrConverted, pr_convertedTo := Some newId\<rparr>) (requisitions s)\<rparr>"
proof -
  from assms obtain q where q: "find_scoped t i (requisitions s) = Some q"
    "pr_status q = PrApproved" "pr_convertedTo q = None"
    by (auto simp: convert_requisition_to_po_def svc_simps)
  have "ent_id q = i" using find_scoped_Some [OF q(1)] by simp
  then show thesis
    using assms q
    by (intro that [OF q refl]) (simp_all add: convert_requisition_to_po_def Let_def svc_simps)
qed

lemma convert_requisition_inv:
  assumes "requisition_inv (requisitions s)"
    and "convert_requisition_to_po year newId lineIds t i dto s = (Inr po, s')"
  shows "requisition_inv (requisitions s')"
  using assms(2)
proof (rule convert_requisition_Inr)
  fix q
  assume q: "find_scoped t i (requisitions s) = Some q" "pr_status q = PrApproved"
    and s': "s' = s\<lparr>purchaseOrders := save_row po (purchaseOrders s),
            purchaseOrderLines := save_rows (create_lines (converted_line_of t newId) lineIds (requisition_lines i s))
              (purchaseOrderLines s),
            requisitions := save_row (q\<lparr>pr_status := PrConverted, pr_convertedTo := Some newId\<rparr>) (requisitions s)\<rparr>"
  have "requisition_ok q" using assms(1) find_scoped_Some [OF q(1)] by (blast dest: table_inv_row)
  then have "requisition_ok (q\<lparr>pr_status := PrConverted, pr_convertedTo := Some newId\<rparr>)"
    using q(2) by (rule requisition_ok_convert)
  then show ?thesis using leave_requisition_inv [OF assms(1) q(1)] by (simp add: s')
qed

section \<open>Purchase orders and their lines\<close>

definition purchase_order_lines :: "uuid \<Rightarrow> procurement_db \<Rightarrow> purchase_order_line list" where
  "purchase_order_lines i s = filter (\<lambda>l. pol_purchaseOrderId l = i) (purchaseOrderLines s)"

definition po_amounts_ok :: "purchase_order \<Rightarrow> bool" where
  "po_amounts_ok p \<longleftrightarrow> po_totalCents p = js_add (po_subtotalCents p) (po_taxCents p)"

text \<open>
  The purchase-order tables agree: numbered orders, every line belongs to an order,
  and every header carries the sums over its own lines.
\<close>

definition po_inv :: "procurement_db \<Rightarrow> bool" where
  "po_inv s \<longleftrightarrow>
     table_inv ''PO'' 5 po_number po_amounts_ok (purchaseOrders s) \<and>
     keyed (purchaseOrderLines s) \<and>
     pol_purchaseOrderId ` set (purchaseOrderLines s) \<subseteq> ent_id ` set (purchaseOrders s) \<and>
     (\<forall>p\<in>set (purchaseOrders s).
        po_subtotalCents p = js_sum pol_lineTotalCents (purchase_order_lines (ent_id p) s) \<and>
        po_taxCents p = js_sum pol_taxAmountCents (purchase_order_lines (ent_id p) s))"

text \<open>The common step of the three operations that create an order with its lines.\<close>

lemma add_purchase_order_inv:
  assumes inv: "po_inv s" and fresh: "fresh newId (purchaseOrders s)"
    and ids: "fresh_ids lineIds (purchaseOrderLines s)"
    and mk: "\<And>i d. ent_id (mk i d) = i" "\<And>i d. pol_purchaseOrderId (mk i d) = newId"
    and po: "po = with_po_totals (create_lines mk lineIds ds) header"
    and header: "ent_id header = newId" "tenantId header = t" "po_number header = next_po_number year t s"
    and s': "purchaseOrders s' = save_row po (purchaseOrders s)"
      "purchaseOrderLines s' = save_rows (create_lines mk lineIds ds) (purchaseOrderLines s)"
  shows "po_inv s'"
proof -
  let ?ls = "create_lines mk lineIds ds"
  have lines: "purchaseOrderLines s' = purchaseOrderLines s @ ?ls"
    unfolding s'(2) using ids mk(1) by (rule save_created_lines)
  have pos: "purchaseOrders s' = purchaseOrders s @ [po]"
    unfolding s'(1) by (rule fresh_save_row) (simp add: po header fresh)
  have parent: "pol_purchaseOrderId l = newId" if "l \<in> set ?ls" for l
    using set_create_lines [OF that] mk(2) by auto
  have none: "pol_purchaseOrderId l \<noteq> newId" if "l \<in> set (purchaseOrderLines s)" for l
    using inv that fresh by (auto simp: po_inv_def fresh_def)
  have old: "purchase_order_lines (ent_id p) s' = purchase_order_lines (ent_id p) s"
    if "p \<in> set (purchaseOrders s)" for p
  proof -
    have "ent_id p \<noteq> newId" using fresh that by (auto simp: fresh_def)
    then show ?thesis using parent by (auto simp: purchase_order_lines_def lines filter_empty_conv)
  qed
  have new: "purchase_order_lines newId s' = ?ls"
    using parent none by (auto simp: purchase_order_lines_def lines filter_id_conv filter_empty_conv)
  show ?thesis
    unfolding po_inv_def
  proof (intro conjI)
    show "table_inv ''PO'' 5 po_number po_amounts_ok (purchaseOrders s')"
      unfolding s'(1) using inv fresh header
      by (intro table_inv_insert [where y = year])
        (auto simp: po_inv_def po po_amounts_ok_def next_po_number_def)
    show "keyed (purchaseOrderLines s')"
      unfolding lines using inv ids mk(1) by (intro keyed_append_fresh) (auto simp: po_inv_def)
    show "pol_purchaseOrderId ` set (purchaseOrderLines s') \<subseteq> ent_id ` set (purchaseOrders s')"
      using inv parent by (auto simp: po_inv_def lines pos po header)
    show "\<forall>p\<in>set (purchaseOrders s').
        po_subtotalCents p = js_sum pol_lineTotalCents (purchase_order_lines (ent_id p) s') \<and>
        po_taxCents p = js_sum pol_taxAmountCents (purchase_order_lines (ent_id p) s')"
      using inv old new by (auto simp: po_inv_def pos po header)
  qed
qed

lemma po_line_of_fields [simp]:
  "ent_id (po_line_of t pid i l) = i" "pol_purchaseOrderId (po_line_of t pid i l) = pid"
  by (simp_all add: po_line_of_def Let_def)

lemma converted_line_of_fields [simp]:
  "ent_id (converted_line_of t pid i l) = i" "pol_purchaseOrderId (converted_line_of t pid i l) = pid"
  by (simp_all add: converted_line_of_def Let_def)

lemma create_purchase_order_Inr:
  assumes "create_purchase_order year newId lineIds t dto s = (Inr po, s')"
  obtains header where "ent_id header = newId" "tenantId header = t" "po_number header = next_po_number year t s"
    "po_status header = PoDraft"
    "po = with_po_totals (create_lines (po_line_of t newId) lineIds (pi_lines dto)) header"
    "s' = s\<lparr>purchaseOrders := save_row po (purchaseOrders s),
            purchaseOrderLines := save_rows (create_lines (po_line_of t newId) lineIds (pi_lines dto))
              (purchaseOrderLines s)\<rparr>"
proof -
  have "po = with_po_totals (create_lines (po_line_of t newId) lineIds (pi_lines dto))
     (new_purchase_order newId t (next_po_number year t s) (pi_supplierId dto) (pi_requisitionId dto)
                  (pi_orderDate dto) (pi_expectedDeliveryDate dto) (pi_shipToWarehouseId dto)
                  (nullish (pi_paymentTermsDays dto) 30)
                  (nullish (pi_paymentMethod dto) ''sepa_bank_transfer'')
                  (pi_incoterms dto) (nullish (pi_currency dto) ''EUR'') (pi_notes dto))" (is "_ = with_po_totals _ ?h")
    using assms by (simp add: create_purchase_order_def Let_def svc_simps)
  then show thesis
    using assms by (intro that [of ?h]) (simp_all add: create_purchase_order_def Let_def svc_simps)
qed

lemma create_purchase_order_inv:
  assumes "po_inv s" and "fresh newId (purchaseOrders s)" and "fresh_ids lineIds (purchaseOrderLines s)"
    and "create_purchase_order year newId lineIds t dto s = (Inr po, s')"
  shows "po_inv s'"
  using assms(4)
proof (rule create_purchase_order_Inr)
  fix header
  assume h: "ent_id header = newId" "tenantId header = t" "po_number header = next_po_number year t s"
    and po: "po = with_po_totals (create_lines (po_line_of t newId) lineIds (pi_lines dto)) header"
    and s': "s' = s\<lparr>purchaseOrders := save_row po (purchaseOrders s),
            purchaseOrderLines := save_rows (create_lines (po_line_of t newId) lineIds (pi_lines dto))
              (purchaseOrderLines s)\<rparr>"
  show ?thesis
    by (rule add_purchase_order_inv [OF assms(1-3) _ _ po h]) (simp_all add: s')
qed

lemma convert_requisition_po_inv:
  assumes "po_inv s" and "fresh newId (purchaseOrders s)" and "fresh_ids lineIds (purchaseOrderLines s)"
    and "convert_requisition_to_po year newId lineIds t i dto s = (Inr po, s')"
  shows "po_inv s'"
  using assms(4)
proof (rule convert_requisition_Inr)
  fix q header
  assume h: "header = new_purchase_order newId t (next_po_number year t s) (ci_supplierId dto) (Some i)
       (ci_orderDate dto) (ci_expectedDeliveryDate dto) (ci_shipToWarehouseId dto)
       (nullish (ci_paymentTermsDays dto) 30) ''sepa_bank_transfer'' (ci_incoterms dto) ''EUR'' None"
    and po: "po = with_po_totals (create_lines (converted_line_of t newId) lineIds (requisition_lines i s)) header"
    and s': "s' = s\<lparr>purchaseOrders := save_row po (purchaseOrders s),
            purchaseOrderLines := save_rows (create_lines (converted_line_of t newId) lineIds (requisition_lines i s))
              (purchaseOrderLines s),
            requisitions := save_row (q\<lparr>pr_status := PrConverted, pr_convertedTo := Some newId\<rparr>) (requisitions s)\<rparr>"
  show ?thesis
    by (rule add_purchase_order_inv [OF assms(1-3) _ _ po]) (simp_all add: s' h)
qed

lemma transition_purchase_order_Inr [svc_simps]:
  "transition_purchase_order t i nxt m s = (Inr r', s') \<longleftrightarrow>
     (\<exists>r. find_scoped t i (purchaseOrders s) = Some r \<and> can_po (po_status r) nxt \<and>
          r' = m (r\<lparr>po_status := nxt\<rparr>) \<and> s' = purchaseOrders_update (save_row r') s)"
  by (auto simp: transition_purchase_order_def po_table.transition_Inr)

text \<open>Two orders with the same key, tenant, number and amounts are the same to the invariant.\<close>

definition po_core :: "purchase_order \<Rightarrow> uuid \<times> uuid \<times> string \<times> jsnum \<times> jsnum \<times> jsnum" where
  "po_core p = (ent_id p, tenantId p, po_number p, po_subtotalCents p, po_taxCents p, po_totalCents p)"

lemma update_purchase_order_inv:
  assumes inv: "po_inv s" and old: "find_scoped t i (purchaseOrders s) = Some q"
    and core: "po_core r = po_core q"
    and s': "purchaseOrders s' = save_row r (purchaseOrders s)" "purchaseOrderLines s' = purchaseOrderLines s"
  shows "po_inv s'"
proof -
  note q = find_scoped_Some [OF old]
  have keyed: "keyed (purchaseOrders s)" using inv by (auto simp: po_inv_def dest: table_inv_keyed)
  have "ent_id r \<in> ent_id ` set (purchaseOrders s)"
    using q core by (metis Pair_inject image_eqI po_core_def)
  then have ids: "ent_id ` set (purchaseOrders s') = ent_id ` set (purchaseOrders s)"
    by (auto simp: s' ids_save_row)
  have rows: "p \<in> set (purchaseOrders s') \<Longrightarrow> p = r \<or> p \<in> set (purchaseOrders s)" for p
    using keyed by (auto simp: s' set_save_row)
  have "po_amounts_ok q" using inv q by (auto simp: po_inv_def dest: table_inv_row)
  then have "table_inv ''PO'' 5 po_number po_amounts_ok (purchaseOrders s')"
    unfolding s' using inv old core q
    by (intro table_inv_update) (auto simp: po_inv_def po_core_def po_amounts_ok_def)
  moreover have "\<forall>p\<in>set (purchaseOrders s').
        po_subtotalCents p = js_sum pol_lineTotalCents (purchase_order_lines (ent_id p) s') \<and>
        po_taxCents p = js_sum pol_taxAmountCents (purchase_order_lines (ent_id p) s')"
  proof
    fix p
    assume "p \<in> set (purchaseOrders s')"
    then have "p = r \<or> p \<in> set (purchaseOrders s)" by (rule rows)
    then show "po_subtotalCents p = js_sum pol_lineTotalCents (purchase_order_lines (ent_id p) s') \<and>
        po_taxCents p = js_sum pol_taxAmountCents (purchase_order_lines (ent_id p) s')"
      using inv q core by (auto simp: po_inv_def po_core_def purchase_order_lines_def s')
  qed
  ultimately show ?thesis using inv ids by (simp add: po_inv_def s')
qed

lemma transition_purchase_order_inv:
  assumes "transition_purchase_order t i nxt m s = (Inr r, s')" and "po_inv s"
    and "\<And>p. po_core (m p) = po_core p"
  shows "po_inv s'"
proof -
  from assms(1) obtain q where q: "find_scoped t i (purchaseOrders s) = Some q"
      "r = m (q\<lparr>po_status := nxt\<rparr>)" "s' = purchaseOrders_update (save_row r) s"
    unfolding transition_purchase_order_Inr by blast
  have "po_core r = po_core (q\<lparr>po_status := nxt\<rparr>)" unfolding q(2) by (rule assms(3))
  then have "po_core r = po_core q" by (simp add: po_core_def)
  then show ?thesis by (rule update_purchase_order_inv [OF assms(2) q(1)]) (simp_all add: q(3))
qed

lemma po_event_inv:
  assumes "po_inv s"
  shows "send_purchase_order now t i s = (Inr r, s') \<Longrightarrow> po_inv s'"
    and "acknowledge_purchase_order now t i s = (Inr r, s') \<Longrightarrow> po_inv s'"
    and "cancel_purchase_order now t i reason s = (Inr r, s') \<Longrightarrow> po_inv s'"
  unfolding send_purchase_order_def acknowledge_purchase_order_def cancel_purchase_order_def
  by (erule transition_purchase_order_inv [OF _ assms], simp add: po_core_def)+

section \<open>Refused requests\<close>

lemma transition_row_atomic [atomic_intros]: "atomic (transition_row get upd st set_st can t i nxt m)"
  unfolding transition_row_def by (intro atomic_intros)

lemmas requisition_ops =
  create_requisition_def submit_requisition_def approve_requisition_def reject_requisition_def
  cancel_requisition_def convert_requisition_to_po_def get_requisition_def transition_requisition_def
  create_purchase_order_def send_purchase_order_def acknowledge_purchase_order_def
  cancel_purchase_order_def transition_purchase_order_def

lemma requisition_atomic:
  "atomic (create_requisition y n ls t ri)" "atomic (submit_requisition t i)"
  "atomic (approve_requisition now t i u c)" "atomic (reject_requisition now t i u cm)"
  "atomic (cancel_requisition t i)" "atomic (convert_requisition_to_po y n ls t i ci)"
  "atomic (create_purchase_order y n ls t poi)" "atomic (send_purchase_order now t i)"
  "atomic (acknowledge_purchase_order now t i)" "atomic (cancel_purchase_order now t i reason)"
  unfolding requisition_ops by (intro atomic_intros)+

end
