(* ===== verification/Rfq.thy ===== *)
theory Rfq
  imports Requisition
begin

text \<open>
  Requests for quote of \<^verbatim>\<open>procurement.service.ts\<close>: issued to suppliers, answered by
  quotes, awarded to one received quote and converted into a purchase order priced by
  that quote.
\<close>

section \<open>Operations\<close>

record rfq_line_input =
  qli_productId :: uuid
  qli_description :: string
  qli_quantity :: rat
  qli_unitOfMeasure :: "string option"
  qli_needByDate :: "int option"

record rfq_input =
  qi_requesterId :: uuid
  qi_issueDate :: int
  qi_validUntilDate :: int
  qi_notes :: "string option"
  qi_lines :: "rfq_line_input list"

record quote_input =
  qo_supplierId :: uuid
  qo_totalCents :: jsnum
  qo_currency :: "string option"
  qo_validUntilDate :: "int option"
  qo_perLineCosts :: "line_cost list"
  qo_notes :: "string option"

record rfq_convert_input =
  qc_orderDate :: int
  qc_expectedDeliveryDate :: "int option"
  qc_shipToWarehouseId :: "uuid option"
  qc_incoterms :: "string option"
  qc_paymentTermsDays :: "int option"

definition next_rfq_number :: "nat \<Rightarrow> uuid \<Rightarrow> procurement_db \<Rightarrow> string" where
  "next_rfq_number year t s = doc_number ''RFQ'' 5 year (count_tenant t (rfqs s) + 1)"

definition rfq_line_of :: "uuid \<Rightarrow> uuid \<Rightarrow> uuid \<Rightarrow> rfq_line_input \<Rightarrow> rfq_line" where
  "rfq_line_of t rid i l =
     \<lparr>ent_id = i, tenantId = t, ql_rfqId = rid, ql_productId = qli_productId l,
      ql_description = qli_description l, ql_quantity = qli_quantity l,
      ql_unitOfMeasure = nullish (qli_unitOfMeasure l) ''pz'', ql_needByDate = qli_needByDate l\<rparr>"

definition create_rfq ::
  "nat \<Rightarrow> uuid \<Rightarrow> (nat \<Rightarrow> uuid) \<Rightarrow> uuid \<Rightarrow> rfq_input \<Rightarrow> (procurement_db, rfq) svc" where
  "create_rfq year newId lineIds t dto =
     bind (gets (next_rfq_number year t)) (\<lambda>number.
     transaction
       (let r = \<lparr>ent_id = newId, tenantId = t, rfq_number = number, rfq_requesterId = qi_requesterId dto,
                 rfq_issueDate = qi_issueDate dto, rfq_validUntilDate = qi_validUntilDate dto,
                 rfq_status = RfqDraft, rfq_notes = qi_notes dto, rfq_awardedQuoteId = None,
                 rfq_awardedAt = None, rfq_convertedTo = None\<rparr>;
            ls = create_lines (rfq_line_of t newId) lineIds (qi_lines dto)
        in seq (modify (rfqs_update (save_row r)))
          (seq (modify (rfqLines_update (save_rows ls)))
             (ret r))))"

definition get_rfq :: "uuid \<Rightarrow> uuid \<Rightarrow> (procurement_db, rfq) svc" where
  "get_rfq t i = bind (gets (\<lambda>s. find_scoped t i (rfqs s))) (\<lambda>r. require r NotFound)"

definition rfq_lines :: "uuid \<Rightarrow> procurement_db \<Rightarrow> rfq_line list" where
  "rfq_lines i s = filter (\<lambda>l. ql_rfqId l = i) (rfqLines s)"

definition quote_of :: "uuid \<Rightarrow> uuid \<Rightarrow> uuid \<Rightarrow> uuid \<Rightarrow> rfq_quote" where
  "quote_of t rid i supplier =
     \<lparr>ent_id = i, tenantId = t, qt_rfqId = rid, qt_supplierId = supplier, qt_status = QuotePending,
      qt_totalCents = None, qt_currency = ''EUR'', qt_validUntilDate = None, qt_perLineCosts = [],
      qt_receivedAt = None, qt_notes = None\<rparr>"

definition send_rfq ::
  "(nat \<Rightarrow> uuid) \<Rightarrow> uuid \<Rightarrow> uuid \<Rightarrow> uuid list \<Rightarrow> (procurement_db, rfq) svc" where
  "send_rfq quoteIds t i supplierIds =
     bind (get_rfq t i) (\<lambda>r.
     seq (throw_if (\<not> can_rfq (rfq_status r) RfqSent) BadRequest)
     (transaction
       (let r' = r\<lparr>rfq_status := RfqSent\<rparr>;
            quotes = create_lines (quote_of t i) quoteIds supplierIds
        in seq (modify (rfqs_update (save_row r')))
          (seq (modify (rfqQuotes_update (save_rows quotes)))
             (ret r')))))"

definition find_quote_of_supplier :: "uuid \<Rightarrow> uuid \<Rightarrow> uuid \<Rightarrow> rfq_quote list \<Rightarrow> rfq_quote option" where
  "find_quote_of_supplier t rid supplier qs =
     find (\<lambda>q. qt_rfqId q = rid \<and> qt_supplierId q = supplier \<and> tenantId q = t) qs"

definition record_supplier_quote ::
  "int \<Rightarrow> uuid \<Rightarrow> uuid \<Rightarrow> quote_input \<Rightarrow> (procurement_db, rfq_quote) svc" where
  "record_supplier_quote now t rid dto =
     bind (get_rfq t rid) (\<lambda>r.
     seq (throw_if (rfq_status r \<noteq> RfqSent \<and> rfq_status r \<noteq> RfqQuotesReceived) BadRequest)
    (bind (gets (\<lambda>s. find_quote_of_supplier t rid (qo_supplierId dto) (rfqQuotes s))) (\<lambda>found.
     bind (require found NotFound) (\<lambda>quote.
       let quote' = quote\<lparr>qt_status := QuoteReceived, qt_totalCents := Some (qo_totalCents dto),
              qt_currency := nullish (qo_currency dto) ''EUR'', qt_validUntilDate := qo_validUntilDate dto,
              qt_perLineCosts := qo_perLineCosts dto, qt_receivedAt := Some now, qt_notes := qo_notes dto\<rparr>
       in seq (modify (rfqQuotes_update (save_row quote')))
         (seq (if rfq_status r = RfqSent
               then modify (rfqs_update (save_row (r\<lparr>rfq_status := RfqQuotesReceived\<rparr>)))
               else ret ())
            (ret quote'))))))"

definition find_quote_on_rfq :: "uuid \<Rightarrow> uuid \<Rightarrow> uuid \<Rightarrow> rfq_quote list \<Rightarrow> rfq_quote option" where
  "find_quote_on_rfq t rid qid qs = find (\<lambda>q. ent_id q = qid \<and> qt_rfqId q = rid \<and> tenantId q = t) qs"

definition award_rfq :: "int \<Rightarrow> uuid \<Rightarrow> uuid \<Rightarrow> uuid \<Rightarrow> (procurement_db, rfq) svc" where
  "award_rfq now t rid quoteId =
     bind (get_rfq t rid) (\<lambda>r.
     seq (throw_if (\<not> can_rfq (rfq_status r) RfqAwarded) BadRequest)
    (bind (gets (\<lambda>s. find_quote_on_rfq t rid quoteId (rfqQuotes s))) (\<lambda>found.
     bind (require found NotFound) (\<lambda>quote.
     seq (throw_if (qt_status quote \<noteq> QuoteReceived) BadRequest)
       (let r' = r\<lparr>rfq_status := RfqAwarded, rfq_awardedQuoteId := Some (ent_id quote),
                  rfq_awardedAt := Some now\<rparr>
        in seq (modify (rfqs_update (save_row r'))) (ret r'))))))"

definition cancel_rfq :: "uuid \<Rightarrow> uuid \<Rightarrow> (procurement_db, rfq) svc" where
  "cancel_rfq t i =
     bind (get_rfq t i) (\<lambda>r.
     seq (throw_if (\<not> can_rfq (rfq_status r) RfqCancelled) BadRequest)
       (let r' = r\<lparr>rfq_status := RfqCancelled\<rparr>
        in seq (modify (rfqs_update (save_row r'))) (ret r')))"

text \<open>A request line becomes an order line at the unit cost the awarded quote gives for it, or zero.\<close>

definition quoted_line_of :: "uuid \<Rightarrow> uuid \<Rightarrow> line_cost list \<Rightarrow> uuid \<Rightarrow> rfq_line \<Rightarrow> purchase_order_line" where
  "quoted_line_of t pid costs i rl =
     (let unitCost = (case find (\<lambda>c. lc_rfqLineId c = ent_id rl) costs of
                        None \<Rightarrow> 0 | Some c \<Rightarrow> lc_unitCostCents c);
          qty = fl (ql_quantity rl);
          total = js_mul unitCost qty
      in \<lparr>ent_id = i, tenantId = t, pol_purchaseOrderId = pid, pol_productId = ql_productId rl,
          pol_description = ql_description rl, pol_quantity = ql_quantity rl,
          pol_unitOfMeasure = ql_unitOfMeasure rl, pol_unitCostCents = unitCost,
          pol_lineTotalCents = total, pol_taxRate = 22,
          pol_taxAmountCents = of_int (math_round (js_mul total (fl (22 / 100)))),
          pol_expectedDeliveryDate = ql_needByDate rl,
          pol_receivedQuantity = 0, pol_invoicedQuantity = 0, pol_notes = None\<rparr>)"

definition convert_rfq_to_po ::
  "nat \<Rightarrow> uuid \<Rightarrow> (nat \<Rightarrow> uuid) \<Rightarrow> uuid \<Rightarrow> uuid \<Rightarrow> rfq_convert_input \<Rightarrow> (procurement_db, purchase_order) svc" where
  "convert_rfq_to_po year newId lineIds t rid dto =
     bind (get_rfq t rid) (\<lambda>r.
     bind (gets (rfq_lines rid)) (\<lambda>rlines.
     seq (throw_if (rfq_status r \<noteq> RfqAwarded) BadRequest)
    (bind (require (rfq_awardedQuoteId r) BadRequest) (\<lambda>quoteId.
     seq (throw_if (rfq_convertedTo r \<noteq> None) Conflict)
    (bind (gets (\<lambda>s. find_scoped t quoteId (rfqQuotes s))) (\<lambda>found.
     bind (require found NotFound) (\<lambda>quote.
     transaction
       (bind (gets (next_po_number year t)) (\<lambda>number.
        let po = new_purchase_order newId t number (qt_supplierId quote) None
                  (qc_orderDate dto) (qc_expectedDeliveryDate dto) (qc_shipToWarehouseId dto)
                  (nullish (qc_paymentTermsDays dto) 30) ''sepa_bank_transfer''
                  (qc_incoterms dto) (qt_currency quote) None;
            ls = create_lines (quoted_line_of t newId (qt_perLineCosts quote)) lineIds rlines;
            po' = with_po_totals ls po
        in seq (modify (purchaseOrders_update (save_row po)))
          (seq (modify (purchaseOrderLines_update (save_rows ls)))
          (seq (modify (purchaseOrders_update (save_row po')))
          (seq (modify (rfqs_update (save_row
                  (r\<lparr>rfq_status := RfqConverted, rfq_convertedTo := Some (ent_id po')\<rparr>))))
             (ret po')))))))))))))"

lemmas rfq_ops =
  create_rfq_def send_rfq_def record_supplier_quote_def award_rfq_def cancel_rfq_def
  convert_rfq_to_po_def get_rfq_def

lemma rfq_atomic:
  "atomic (create_rfq y n ls t qi)" "atomic (send_rfq qs t i suppliers)" "atomic (record_supplier_quote now t i qo)"
  "atomic (award_rfq now t i q)" "atomic (cancel_rfq t i)" "atomic (convert_rfq_to_po y n ls t i qc)"
  unfolding rfq_ops by (intro atomic_intros)+

section \<open>The invariant\<close>

definition rfq_ok :: "rfq \<Rightarrow> bool" where
  "rfq_ok r \<longleftrightarrow>
     (rfq_status r \<in> {RfqAwarded, RfqConverted} \<longrightarrow> rfq_awardedQuoteId r \<noteq> None) \<and>
     (rfq_status r = RfqConverted \<longleftrightarrow> rfq_convertedTo r \<noteq> None)"

text \<open>The awarded quote exists, answers this request and has been received.\<close>

definition award_ok :: "rfq_quote list \<Rightarrow> rfq \<Rightarrow> bool" where
  "award_ok quotes r \<longleftrightarrow>
     (\<forall>qid. rfq_status r \<in> {RfqAwarded, RfqConverted} \<longrightarrow> rfq_awardedQuoteId r = Some qid \<longrightarrow>
        (\<exists>q\<in>set quotes. ent_id q = qid \<and> qt_rfqId q = ent_id r \<and> tenantId q = tenantId r \<and>
           qt_status q = QuoteReceived))"

definition rfq_inv :: "procurement_db \<Rightarrow> bool" where
  "rfq_inv s \<longleftrightarrow> table_inv ''RFQ'' 5 rfq_number rfq_ok (rfqs s) \<and> keyed (rfqQuotes s) \<and>
     (\<forall>r\<in>set (rfqs s). award_ok (rfqQuotes s) r)"

text \<open>Received quotes stay.\<close>

definition quotes_grow :: "rfq_quote list \<Rightarrow> rfq_quote list \<Rightarrow> bool" where
  "quotes_grow qs qs' \<longleftrightarrow>
     (\<forall>q\<in>set qs. qt_status q = QuoteReceived \<longrightarrow>
        (\<exists>q'\<in>set qs'. ent_id q' = ent_id q \<and> qt_rfqId q' = qt_rfqId q \<and> tenantId q' = tenantId q \<and>
           qt_status q' = QuoteReceived))"

lemma quotes_grow_refl [simp]: "quotes_grow qs qs"
  by (auto simp: quotes_grow_def)

lemma award_ok_grow: "award_ok qs r \<Longrightarrow> quotes_grow qs qs' \<Longrightarrow> award_ok qs' r"
  unfolding award_ok_def quotes_grow_def by metis

lemma rfq_inv_update:
  assumes inv: "rfq_inv s" and old: "find_scoped t i (rfqs s) = Some q"
    and r: "ent_id r = ent_id q" "tenantId r = tenantId q" "rfq_number r = rfq_number q" "rfq_ok r"
    and award: "award_ok (rfqQuotes s') r"
    and s': "rfqs s' = save_row r (rfqs s)" "quotes_grow (rfqQuotes s) (rfqQuotes s')" "keyed (rfqQuotes s')"
  shows "rfq_inv s'"
proof -
  have "table_inv ''RFQ'' 5 rfq_number rfq_ok (rfqs s')"
    unfolding s' using inv old r find_scoped_Some [OF old]
    by (intro table_inv_update) (auto simp: rfq_inv_def)
  moreover have "keyed (rfqs s)" using inv by (auto simp: rfq_inv_def dest: table_inv_keyed)
  then have "\<forall>r\<in>set (rfqs s'). award_ok (rfqQuotes s') r"
    using inv award s'(2) by (auto simp: s' set_save_row rfq_inv_def intro: award_ok_grow)
  ultimately show ?thesis using s'(3) by (simp add: rfq_inv_def)
qed

lemma get_rfq_Inr [svc_simps]:
  "get_rfq t i s = (Inr r, s') \<longleftrightarrow> find_scoped t i (rfqs s) = Some r \<and> s' = s"
  by (auto simp: get_rfq_def svc_simps)

lemma quote_of_fields [simp]:
  "ent_id (quote_of t rid i supp) = i" "qt_rfqId (quote_of t rid i supp) = rid"
  by (simp_all add: quote_of_def)

lemma rfq_inv_row: "rfq_inv s \<Longrightarrow> find_scoped t i (rfqs s) = Some r \<Longrightarrow> rfq_ok r \<and> award_ok (rfqQuotes s) r"
  by (auto simp: rfq_inv_def dest: table_inv_row find_scoped_Some)

lemma create_rfq_inv:
  assumes "rfq_inv s" and "fresh newId (rfqs s)"
    and "create_rfq year newId lineIds t dto s = (Inr r, s')"
  shows "rfq_inv s'"
proof -
  have r: "ent_id r = newId" "tenantId r = t" "rfq_number r = next_rfq_number year t s"
      "rfq_status r = RfqDraft" "rfq_convertedTo r = None"
    and s': "rfqs s' = save_row r (rfqs s)" "rfqQuotes s' = rfqQuotes s"
    using assms(3) by (auto simp: create_rfq_def Let_def svc_simps)
  have ok: "rfq_ok r" "award_ok (rfqQuotes s) r" using r by (simp_all add: rfq_ok_def award_ok_def)
  have "table_inv ''RFQ'' 5 rfq_number rfq_ok (rfqs s')"
    unfolding s' using assms r ok
    by (intro table_inv_insert [where y = year]) (auto simp: rfq_inv_def next_rfq_number_def)
  moreover have "rfqs s' = rfqs s @ [r]" unfolding s' by (rule fresh_save_row) (simp add: r assms(2))
  ultimately show ?thesis using assms(1) ok by (auto simp: rfq_inv_def s'(2))
qed

lemma send_rfq_Inr:
  assumes "send_rfq quoteIds t i supplierIds s = (Inr r, s')"
  obtains q where "find_scoped t i (rfqs s) = Some q" "rfq_status q = RfqDraft" "r = q\<lparr>rfq_status := RfqSent\<rparr>"
    "s' = s\<lparr>rfqs := save_row r (rfqs s),
            rfqQuotes := save_rows (create_lines (quote_of t i) quoteIds supplierIds) (rfqQuotes s)\<rparr>"
proof -
  from assms obtain q where q: "find_scoped t i (rfqs s) = Some q" "can_rfq (rfq_status q) RfqSent"
    "r = q\<lparr>rfq_status := RfqSent\<rparr>"
    by (auto simp: send_rfq_def Let_def svc_simps)
  have "rfq_status q = RfqDraft" using q(2) by (cases "rfq_status q") (auto simp: can_rfq_def)
  with q assms show thesis by (intro that [OF q(1)]) (simp_all add: send_rfq_def Let_def svc_simps)
qed

lemma send_rfq_inv:
  assumes "rfq_inv s" and "fresh_ids quoteIds (rfqQuotes s)"
    and "send_rfq quoteIds t i supplierIds s = (Inr r, s')"
  shows "rfq_inv s'"
  using assms(3)
proof (rule send_rfq_Inr)
  fix q
  assume q: "find_scoped t i (rfqs s) = Some q" "rfq_status q = RfqDraft" "r = q\<lparr>rfq_status := RfqSent\<rparr>"
    and s': "s' = s\<lparr>rfqs := save_row r (rfqs s),
            rfqQuotes := save_rows (create_lines (quote_of t i) quoteIds supplierIds) (rfqQuotes s)\<rparr>"
  have quotes: "rfqQuotes s' = rfqQuotes s @ create_lines (quote_of t i) quoteIds supplierIds"
    using save_created_lines [OF assms(2), of "quote_of t i"] by (simp add: s')
  have "rfq_convertedTo q = None" using rfq_inv_row [OF assms(1) q(1)] q(2) by (auto simp: rfq_ok_def)
  moreover have "keyed (rfqQuotes s')"
    unfolding quotes using assms(1,2) by (intro keyed_append_fresh) (auto simp: rfq_inv_def)
  ultimately show ?thesis
    by (intro rfq_inv_update [OF assms(1) q(1), of r])
      (auto simp: q s' rfq_ok_def award_ok_def quotes [unfolded s', simplified] quotes_grow_def)
qed

lemma record_supplier_quote_Inr:
  assumes "record_supplier_quote now t i dto s = (Inr x, s')"
  obtains r q where "find_scoped t i (rfqs s) = Some r"
    "rfq_status r = RfqSent \<or> rfq_status r = RfqQuotesReceived"
    "find_quote_of_supplier t i (qo_supplierId dto) (rfqQuotes s) = Some q"
    "ent_id x = ent_id q" "qt_rfqId x = qt_rfqId q" "tenantId x = tenantId q" "qt_status x = QuoteReceived"
    "s' = s\<lparr>rfqQuotes := save_row x (rfqQuotes s),
            rfqs := (if rfq_status r = RfqSent then save_row (r\<lparr>rfq_status := RfqQuotesReceived\<rparr>) (rfqs s)
                     else rfqs s)\<rparr>"
proof -
  from assms obtain r q where r: "find_scoped t i (rfqs s) = Some r"
    "rfq_status r = RfqSent \<or> rfq_status r = RfqQuotesReceived"
    and q: "find_quote_of_supplier t i (qo_supplierId dto) (rfqQuotes s) = Some q"
    by (auto simp: record_supplier_quote_def Let_def svc_simps)
  show thesis
    by (rule that [OF r q])
      (use assms r q in \<open>auto simp: record_supplier_quote_def Let_def svc_simps split: if_splits\<close>)
qed

lemma save_received_grows:
  assumes "keyed qs" and "q \<in> set qs" and "ent_id x = ent_id q" "qt_rfqId x = qt_rfqId q"
    "tenantId x = tenantId q" "qt_status x = QuoteReceived"
  shows "quotes_grow qs (save_row x qs)"
  unfolding quotes_grow_def
proof (intro ballI impI)
  fix p
  assume p: "p \<in> set qs" "qt_status p = QuoteReceived"
  show "\<exists>q'\<in>set (save_row x qs). ent_id q' = ent_id p \<and> qt_rfqId q' = qt_rfqId p \<and>
          tenantId q' = tenantId p \<and> qt_status q' = QuoteReceived"
  proof (cases "ent_id p = ent_id x")
    case True
    then have "p = q" using assms(1-3) p(1) by (metis table.key_inj)
    then show ?thesis using assms by (intro bexI [of _ x]) (auto simp: set_save_row)
  next
    case False
    then show ?thesis using assms(1) p by (intro bexI [of _ p]) (auto simp: set_save_row)
  qed
qed

lemma record_supplier_quote_inv:
  assumes "rfq_inv s" and "record_supplier_quote now t i dto s = (Inr x, s')"
  shows "rfq_inv s'"
  using assms(2)
proof (rule record_supplier_quote_Inr)
  fix r q
  assume r: "find_scoped t i (rfqs s) = Some r" "rfq_status r = RfqSent \<or> rfq_status r = RfqQuotesReceived"
    and q: "find_quote_of_supplier t i (qo_supplierId dto) (rfqQuotes s) = Some q"
    and x: "ent_id x = ent_id q" "qt_rfqId x = qt_rfqId q" "tenantId x = tenantId q" "qt_status x = QuoteReceived"
    and s': "s' = s\<lparr>rfqQuotes := save_row x (rfqQuotes s),
            rfqs := (if rfq_status r = RfqSent then save_row (r\<lparr>rfq_status := RfqQuotesReceived\<rparr>) (rfqs s)
                     else rfqs s)\<rparr>"
  have "q \<in> set (rfqQuotes s)" using q by (auto simp: find_quote_of_supplier_def find_Some_iff)
  then have grow: "quotes_grow (rfqQuotes s) (rfqQuotes s')"
    using assms(1) x unfolding s' by (auto simp: rfq_inv_def intro: save_received_grows)
  have keyed: "keyed (rfqQuotes s')" using assms(1) by (simp add: s' rfq_inv_def keyed_save_row)
  have ok: "rfq_ok r" using rfq_inv_row [OF assms(1) r(1)] by simp
  show ?thesis
  proof (cases "rfq_status r = RfqSent")
    case True
    then show ?thesis using ok grow keyed
      by (intro rfq_inv_update [OF assms(1) r(1), of "r\<lparr>rfq_status := RfqQuotesReceived\<rparr>"])
        (auto simp: s' rfq_ok_def award_ok_def)
  next
    case False
    then have "rfqs s' = rfqs s" by (simp add: s')
    then show ?thesis
      using assms(1) grow keyed by (auto simp: rfq_inv_def intro: award_ok_grow)
  qed
qed

lemma award_rfq_Inr:
  assumes "award_rfq now t i qid s = (Inr r', s')"
  obtains r q where "find_scoped t i (rfqs s) = Some r" "rfq_status r = RfqQuotesReceived"
    "q \<in> set (rfqQuotes s)" "ent_id q = qid" "qt_rfqId q = i" "tenantId q = t" "qt_status q = QuoteReceived"
    "r' = r\<lparr>rfq_status := RfqAwarded, rfq_awardedQuoteId := Some qid, rfq_awardedAt := Some now\<rparr>"
    "s' = rfqs_update (save_row r') s"
proof -
  from assms obtain r q where r: "find_scoped t i (rfqs s) = Some r" "can_rfq (rfq_status r) RfqAwarded"
    and q: "find_quote_on_rfq t i qid (rfqQuotes s) = Some q" "qt_status q = QuoteReceived"
    and r': "r' = r\<lparr>rfq_status := RfqAwarded, rfq_awardedQuoteId := Some (ent_id q), rfq_awardedAt := Some now\<rparr>"
      "s' = rfqs_update (save_row r') s"
    by (auto simp: award_rfq_def Let_def svc_simps)
  have "rfq_status r = RfqQuotesReceived" using r(2) by (cases "rfq_status r") (auto simp: can_rfq_def)
  moreover have "q \<in> set (rfqQuotes s) \<and> ent_id q = qid \<and> qt_rfqId q = i \<and> tenantId q = t"
    using q(1) by (auto simp: find_quote_on_rfq_def find_Some_iff)
  ultimately show thesis using r(1) q(2) r' by (intro that [of r q]) simp_all
qed

lemma award_rfq_inv:
  assumes "rfq_inv s" and "award_rfq now t i qid s = (Inr r', s')"
  shows "rfq_inv s'"
  using assms(2)
proof (rule award_rfq_Inr)
  fix r q
  assume r: "find_scoped t i (rfqs s) = Some r" "rfq_status r = RfqQuotesReceived"
    and q: "q \<in> set (rfqQuotes s)" "ent_id q = qid" "qt_rfqId q = i" "tenantId q = t" "qt_status q = QuoteReceived"
    and r': "r' = r\<lparr>rfq_status := RfqAwarded, rfq_awardedQuoteId := Some qid, rfq_awardedAt := Some now\<rparr>"
      "s' = rfqs_update (save_row r') s"
  show ?thesis
    using rfq_inv_row [OF assms(1) r(1)] r q find_scoped_Some [OF r(1)] assms(1)
    by (intro rfq_inv_update [OF assms(1) r(1), of r'])
      (auto simp: r' rfq_ok_def award_ok_def rfq_inv_def)
qed

lemma cancel_rfq_inv:
  assumes "rfq_inv s" and "cancel_rfq t i s = (Inr r', s')"
  shows "rfq_inv s'"
proof -
  from assms(2) obtain r where r: "find_scoped t i (rfqs s) = Some r" "can_rfq (rfq_status r) RfqCancelled"
      "r' = r\<lparr>rfq_status := RfqCancelled\<rparr>" "s' = rfqs_update (save_row r') s"
    by (auto simp: cancel_rfq_def Let_def svc_simps)
  have "rfq_status r \<noteq> RfqConverted" using r(2) by (auto simp: can_rfq_def)
  then show ?thesis
    using rfq_inv_row [OF assms(1) r(1)] assms(1)
    by (intro rfq_inv_update [OF assms(1) r(1), of r'])
      (auto simp: r(3,4) rfq_ok_def award_ok_def rfq_inv_def)
qed

lemma convert_rfq_Inr:
  assumes "convert_rfq_to_po year newId lineIds t i dto s = (Inr po, s')"
  obtains r qid q header where "find_scoped t i (rfqs s) = Some r" "rfq_status r = RfqAwarded"
    "rfq_convertedTo r = None" "rfq_awardedQuoteId r = Some qid" "find_scoped t qid (rfqQuotes s) = Some q"
    "header = new_purchase_order newId t (next_po_number year t s) (qt_supplierId q) None
                  (qc_orderDate dto) (qc_expectedDeliveryDate dto) (qc_shipToWarehouseId dto)
                  (nullish (qc_paymentTermsDays dto) 30) ''sepa_bank_transfer''
                  (qc_incoterms dto) (qt_currency q) None"
    "po = with_po_totals (create_lines (quoted_line_of t newId (qt_perLineCosts q)) lineIds (rfq_lines i s)) header"
    "s' = s\<lparr>purchaseOrders := save_row po (purchaseOrders s),
            purchaseOrderLines := save_rows (create_lines (quoted_line_of t newId (qt_perLineCosts q)) lineIds (rfq_lines i s))
              (purchaseOrderLines s),
            rfqs := save_row (r\<lparr>rfq_status := RfqConverted, rfq_convertedTo := Some newId\<rparr>) (rfqs s)\<rparr>"
proof -
  from assms obtain r qid q where r: "find_scoped t i (rfqs s) = Some r" "rfq_status r = RfqAwarded"
    "rfq_convertedTo r = None" "rfq_awardedQuoteId r = Some qid" "find_scoped t qid (rfqQuotes s) = Some q"
    by (auto simp: convert_rfq_to_po_def svc_simps)
  show thesis
    by (rule that [OF r refl]) (use assms r in \<open>simp_all add: convert_rfq_to_po_def Let_def svc_simps\<close>)
qed

lemma quoted_line_of_fields [simp]:
  "ent_id (quoted_line_of t pid cs i l) = i" "pol_purchaseOrderId (quoted_line_of t pid cs i l) = pid"
  by (simp_all add: quoted_line_of_def Let_def)

lemma convert_rfq_inv:
  assumes "rfq_inv s" and "convert_rfq_to_po year newId lineIds t i dto s = (Inr po, s')"
  shows "rfq_inv s'"
proof -
  obtain r where r: "find_scoped t i (rfqs s) = Some r"
      "rfq_status r = RfqAwarded"
      "rfqs s' = save_row (r\<lparr>rfq_status := RfqConverted, rfq_convertedTo := Some newId\<rparr>) (rfqs s)"
      "rfqQuotes s' = rfqQuotes s"
    by (rule convert_rfq_Inr [OF assms(2)]) simp
  show ?thesis
    using rfq_inv_row [OF assms(1) r(1)] r(2) assms(1)
    by (intro rfq_inv_update [OF assms(1) r(1) _ _ _ _ _ r(3)])
      (auto simp: r(4) rfq_ok_def award_ok_def rfq_inv_def)
qed

lemma convert_rfq_po_inv:
  assumes "po_inv s" and "fresh newId (purchaseOrders s)" and "fresh_ids lineIds (purchaseOrderLines s)"
    and "convert_rfq_to_po year newId lineIds t i dto s = (Inr po, s')"
  shows "po_inv s'"
  using assms(4)
proof (rule convert_rfq_Inr)
  fix r qid q header
  assume h: "header = new_purchase_order newId t (next_po_number year t s) (qt_supplierId q) None
                  (qc_orderDate dto) (qc_expectedDeliveryDate dto) (qc_shipToWarehouseId dto)
                  (nullish (qc_paymentTermsDays dto) 30) ''sepa_bank_transfer''
                  (qc_incoterms dto) (qt_currency q) None"
    and po: "po = with_po_totals (create_lines (quoted_line_of t newId (qt_perLineCosts q)) lineIds (rfq_lines i s)) header"
    and s': "s' = s\<lparr>purchaseOrders := save_row po (purchaseOrders s),
            purchaseOrderLines := save_rows (create_lines (quoted_line_of t newId (qt_perLineCosts q)) lineIds (rfq_lines i s))
              (purchaseOrderLines s),
            rfqs := save_row (r\<lparr>rfq_status := RfqConverted, rfq_convertedTo := Some newId\<rparr>) (rfqs s)\<rparr>"
  show ?thesis
    by (rule add_purchase_order_inv [OF assms(1-3) _ _ po]) (simp_all add: s' h)
qed

end
