(* ===== verification/GoodsReceipt.thy ===== *)
theory GoodsReceipt
  imports Requisition
begin

text \<open>
  Goods receipts of \<^verbatim>\<open>procurement.service.ts\<close>: created against an open purchase
  order, confirmed, inspected line by line (possibly in several rounds) or rejected.
\<close>

section \<open>Operations\<close>

record gr_line_input =
  gli_poLineId :: uuid
  gli_productId :: uuid
  gli_receivedQuantity :: rat
  gli_acceptedQuantity :: "rat option"
  gli_rejectedQuantity :: "rat option"
  gli_rejectReason :: "string option"
  gli_lotId :: "uuid option"
  gli_serialIds :: "string list option"
  gli_warehouseLocation :: "string option"

record gr_input =
  gi_poId :: uuid
  gi_supplierId :: uuid
  gi_warehouseId :: uuid
  gi_receiptDate :: int
  gi_receivedBy :: uuid
  gi_carrierTrackingNumber :: "string option"
  gi_supplierDdtNumber :: "string option"
  gi_supplierDdtDate :: "int option"
  gi_notes :: "string option"
  gi_lines :: "gr_line_input list"

record inspect_line_input =
  il_goodsReceiptLineId :: uuid
  il_acceptedQuantity :: rat
  il_rejectedQuantity :: rat
  il_rejectReason :: "string option"
  il_inspectionId :: "uuid option"

definition next_gr_number :: "nat \<Rightarrow> uuid \<Rightarrow> procurement_db \<Rightarrow> string" where
  "next_gr_number year t s = doc_number ''GR'' 5 year (count_tenant t (goodsReceipts s) + 1)"

definition gr_line_of :: "uuid \<Rightarrow> uuid \<Rightarrow> uuid \<Rightarrow> gr_line_input \<Rightarrow> goods_receipt_line" where
  "gr_line_of t gid i l =
     \<lparr>ent_id = i, tenantId = t, grl_goodsReceiptId = gid, grl_poLineId = gli_poLineId l,
      grl_productId = gli_productId l, grl_receivedQuantity = gli_receivedQuantity l,
      grl_acceptedQuantity = nullish (gli_acceptedQuantity l) (gli_receivedQuantity l),
      grl_rejectedQuantity = nullish (gli_rejectedQuantity l) 0,
      grl_rejectReason = gli_rejectReason l, grl_lotId = gli_lotId l,
      grl_serialIds = nullish (gli_serialIds l) [], grl_inspectionId = None,
      grl_warehouseLocation = gli_warehouseLocation l\<rparr>"

definition create_goods_receipt ::
  "nat \<Rightarrow> uuid \<Rightarrow> (nat \<Rightarrow> uuid) \<Rightarrow> uuid \<Rightarrow> gr_input \<Rightarrow> (procurement_db, goods_receipt) svc" where
  "create_goods_receipt year newId lineIds t dto =
     bind (gets (\<lambda>s. find_scoped t (gi_poId dto) (purchaseOrders s))) (\<lambda>found.
     bind (require found NotFound) (\<lambda>po.
     seq (throw_if (po_status po = PoCancelled \<or> po_status po = PoClosed) BadRequest)
    (bind (gets (next_gr_number year t)) (\<lambda>number.
     transaction
       (let gr = \<lparr>ent_id = newId, tenantId = t, gr_number = number, gr_poId = gi_poId dto,
                  gr_supplierId = gi_supplierId dto, gr_warehouseId = gi_warehouseId dto,
                  gr_receiptDate = gi_receiptDate dto, gr_receivedBy = gi_receivedBy dto,
                  gr_carrierTrackingNumber = gi_carrierTrackingNumber dto,
                  gr_supplierDdtNumber = gi_supplierDdtNumber dto,
                  gr_supplierDdtDate = gi_supplierDdtDate dto, gr_status = GrDraft,
                  gr_notes = gi_notes dto, gr_confirmedAt = None, gr_inspectedAt = None\<rparr>;
            ls = create_lines (gr_line_of t newId) lineIds (gi_lines dto)
        in seq (modify (goodsReceipts_update (save_row gr)))
          (seq (modify (goodsReceiptLines_update (save_rows ls)))
             (ret gr)))))))"

definition get_goods_receipt :: "uuid \<Rightarrow> uuid \<Rightarrow> (procurement_db, goods_receipt) svc" where
  "get_goods_receipt t i =
     bind (gets (\<lambda>s. find_scoped t i (goodsReceipts s))) (\<lambda>r. require r NotFound)"

definition goods_receipt_lines :: "uuid \<Rightarrow> procurement_db \<Rightarrow> goods_receipt_line list" where
  "goods_receipt_lines i s = filter (\<lambda>l. grl_goodsReceiptId l = i) (goodsReceiptLines s)"

definition transition_goods_receipt ::
  "uuid \<Rightarrow> uuid \<Rightarrow> gr_status \<Rightarrow> (goods_receipt \<Rightarrow> goods_receipt) \<Rightarrow> (procurement_db, goods_receipt) svc" where
  "transition_goods_receipt t i next mutator =
     transition_row goodsReceipts goodsReceipts_update gr_status (\<lambda>x. gr_status_update (\<lambda>_. x)) can_gr
       t i next (\<lambda>r. Inr (mutator r))"

definition confirm_goods_receipt :: "int \<Rightarrow> uuid \<Rightarrow> uuid \<Rightarrow> (procurement_db, goods_receipt) svc" where
  "confirm_goods_receipt now t i =
     transition_goods_receipt t i GrConfirmed (\<lambda>gr. gr\<lparr>gr_confirmedAt := Some now\<rparr>)"

definition reject_goods_receipt :: "uuid \<Rightarrow> uuid \<Rightarrow> (procurement_db, goods_receipt) svc" where
  "reject_goods_receipt t i = transition_goods_receipt t i GrRejected (\<lambda>gr. gr)"

text \<open>0.0001, the slack of the quantity comparisons.\<close>

definition qty_slack :: jsnum where "qty_slack = fl (1 / 10000)"

definition over_inspected :: "inspect_line_input \<Rightarrow> goods_receipt_line \<Rightarrow> bool" where
  "over_inspected li grl \<longleftrightarrow>
     js_add (fl (il_acceptedQuantity li)) (fl (il_rejectedQuantity li)) >
     js_add (fl (grl_receivedQuantity grl)) qty_slack"

definition inspected_line :: "inspect_line_input \<Rightarrow> goods_receipt_line \<Rightarrow> goods_receipt_line" where
  "inspected_line li grl =
     grl\<lparr>grl_acceptedQuantity := il_acceptedQuantity li, grl_rejectedQuantity := il_rejectedQuantity li,
         grl_rejectReason := (case il_rejectReason li of None \<Rightarrow> grl_rejectReason grl | Some r \<Rightarrow> Some r),
         grl_inspectionId := (case il_inspectionId li of None \<Rightarrow> grl_inspectionId grl | Some r \<Rightarrow> Some r)\<rparr>"

text \<open>
  The loop over \<^verbatim>\<open>dto.lines\<close>: each line is looked up among the loaded lines \<open>ls\<close> of the
  receipt, checked, written there and saved. The loaded lines are carried along.
\<close>

fun inspect_lines ::
  "inspect_line_input list \<Rightarrow> goods_receipt_line list \<Rightarrow> (procurement_db, goods_receipt_line list) svc" where
  "inspect_lines [] ls = ret ls"
| "inspect_lines (li # lis) ls =
     bind (require (find_id (il_goodsReceiptLineId li) ls) NotFound) (\<lambda>grl.
     seq (throw_if (over_inspected li grl) BadRequest)
    (seq (modify (goodsReceiptLines_update (save_row (inspected_line li grl))))
       (inspect_lines lis (save_row (inspected_line li grl) ls))))"

definition line_settled :: "goods_receipt_line \<Rightarrow> bool" where
  "line_settled g \<longleftrightarrow>
     \<bar>js_sub (js_add (fl (grl_acceptedQuantity g)) (fl (grl_rejectedQuantity g)))
        (fl (grl_receivedQuantity g))\<bar> < qty_slack"

definition inspect_goods_receipt ::
  "int \<Rightarrow> uuid \<Rightarrow> uuid \<Rightarrow> inspect_line_input list \<Rightarrow> (procurement_db, goods_receipt) svc" where
  "inspect_goods_receipt now t i lis =
     bind (get_goods_receipt t i) (\<lambda>gr.
     bind (gets (goods_receipt_lines i)) (\<lambda>ls.
     seq (throw_if (gr_status gr \<noteq> GrConfirmed \<and> gr_status gr \<noteq> GrPartiallyInspected) BadRequest)
     (transaction
       (bind (inspect_lines lis ls) (\<lambda>ls'.
        let next = (if list_all line_settled ls' then GrInspected else GrPartiallyInspected);
            gr' = gr\<lparr>gr_status := next,
                     gr_inspectedAt := (if next = GrInspected then Some now else gr_inspectedAt gr)\<rparr>
        in seq (modify (goodsReceipts_update (save_row gr'))) (ret gr'))))))"

lemmas goods_receipt_ops =
  create_goods_receipt_def confirm_goods_receipt_def reject_goods_receipt_def
  inspect_goods_receipt_def get_goods_receipt_def transition_goods_receipt_def

lemma goods_receipt_atomic:
  "atomic (create_goods_receipt y n ls t gi)" "atomic (confirm_goods_receipt now t i)"
  "atomic (reject_goods_receipt t i)" "atomic (inspect_goods_receipt now t i lis)"
  unfolding goods_receipt_ops by (intro atomic_intros)+

section \<open>The inspection loop\<close>

text \<open>What the loop checks of each line it writes.\<close>

definition line_within_received :: "goods_receipt_line \<Rightarrow> bool" where
  "line_within_received g \<longleftrightarrow>
     js_add (fl (grl_acceptedQuantity g)) (fl (grl_rejectedQuantity g)) \<le>
     js_add (fl (grl_receivedQuantity g)) qty_slack"

lemma inspected_line_fields [simp]:
  "ent_id (inspected_line li g) = ent_id g" "tenantId (inspected_line li g) = tenantId g"
  "grl_goodsReceiptId (inspected_line li g) = grl_goodsReceiptId g"
  "grl_poLineId (inspected_line li g) = grl_poLineId g"
  "grl_receivedQuantity (inspected_line li g) = grl_receivedQuantity g"
  "grl_acceptedQuantity (inspected_line li g) = il_acceptedQuantity li"
  "grl_rejectedQuantity (inspected_line li g) = il_rejectedQuantity li"
  by (simp_all add: inspected_line_def)

lemma inspected_within: "\<not> over_inspected li g \<Longrightarrow> line_within_received (inspected_line li g)"
  by (simp add: over_inspected_def line_within_received_def not_less)

lemma save_row_present:
  "r \<in> set rows \<Longrightarrow> ent_id x = ent_id r \<Longrightarrow>
     save_row x rows = map (\<lambda>y. if ent_id y = ent_id x then x else y) rows"
  unfolding save_row_def by (metis imageI)

text \<open>Saving a changed line of the receipt commutes with loading the receipt's lines.\<close>

lemma goods_receipt_lines_save:
  assumes "keyed (goodsReceiptLines s)" and "g \<in> set (goods_receipt_lines i s)"
    and "ent_id x = ent_id g" "grl_goodsReceiptId x = grl_goodsReceiptId g"
  shows "goods_receipt_lines j (goodsReceiptLines_update (save_row x) s) =
         (if j = i then save_row x (goods_receipt_lines i s) else goods_receipt_lines j s)"
proof -
  have g: "g \<in> set (goodsReceiptLines s)" "grl_goodsReceiptId g = i"
    using assms(2) by (auto simp: goods_receipt_lines_def)
  let ?f = "\<lambda>y. if ent_id y = ent_id x then x else y"
  have same: "grl_goodsReceiptId (?f y) = grl_goodsReceiptId y" if "y \<in> set (goodsReceiptLines s)" for y
    using assms(1,3,4) g(1) that by (metis table.key_inj)
  have "filter (\<lambda>l. grl_goodsReceiptId l = j) (map ?f ys) = map ?f (filter (\<lambda>l. grl_goodsReceiptId l = j) ys)"
    if "set ys \<subseteq> set (goodsReceiptLines s)" for ys
    using that same by (induction ys) auto
  then have lines: "goods_receipt_lines j (goodsReceiptLines_update (save_row x) s) = map ?f (goods_receipt_lines j s)"
    using g(1) assms(3) by (simp add: goods_receipt_lines_def save_row_present)
  show ?thesis
  proof (cases "j = i")
    case True
    then show ?thesis using lines assms(2,3) by (simp add: save_row_present)
  next
    case False
    have "map ?f (goods_receipt_lines j s) = goods_receipt_lines j s"
    proof (rule map_idI)
      fix y
      assume "y \<in> set (goods_receipt_lines j s)"
      then have "y \<in> set (goodsReceiptLines s)" "grl_goodsReceiptId y = j"
        by (auto simp: goods_receipt_lines_def)
      then have "ent_id y \<noteq> ent_id x" using assms(1,3) g False by (metis table.key_inj)
      then show "?f y = y" by simp
    qed
    with False lines show ?thesis by simp
  qed
qed

lemma inspect_lines_Cons_Inr:
  assumes "inspect_lines (li # lis) ls s = (Inr ls', s')"
  obtains g where "find_id (il_goodsReceiptLineId li) ls = Some g" "\<not> over_inspected li g"
    "inspect_lines lis (save_row (inspected_line li g) ls)
       (goodsReceiptLines_update (save_row (inspected_line li g)) s) = (Inr ls', s')"
  using assms by (auto simp: svc_simps)

text \<open>The columns an inspection does not write.\<close>

definition line_frame :: "goods_receipt_line \<Rightarrow> uuid \<times> uuid \<times> uuid \<times> uuid \<times> rat" where
  "line_frame g = (ent_id g, tenantId g, grl_goodsReceiptId g, grl_poLineId g, grl_receivedQuantity g)"

lemma map_line_frame_save:
  assumes "keyed ls" and "g \<in> set ls" and "line_frame x = line_frame g"
  shows "map line_frame (save_row x ls) = map line_frame ls"
proof -
  have "line_frame y = line_frame x" if "y \<in> set ls" "ent_id y = ent_id x" for y
    using that assms by (metis line_frame_def prod.inject table.key_inj)
  moreover have "ent_id x = ent_id g" using assms(3) by (simp add: line_frame_def)
  ultimately show ?thesis using assms(2) by (simp add: save_row_present)
qed

lemma inspect_lines_spec:
  assumes "inspect_lines lis ls s = (Inr ls', s')" and "keyed (goodsReceiptLines s)"
    and "ls = goods_receipt_lines i s"
  shows "ls' = goods_receipt_lines i s' \<and> keyed (goodsReceiptLines s') \<and>
     map line_frame ls' = map line_frame ls \<and>
     (\<forall>g\<in>set ls'. g \<in> set ls \<and> ent_id g \<notin> il_goodsReceiptLineId ` set lis \<or> line_within_received g) \<and>
     (\<forall>j. j \<noteq> i \<longrightarrow> goods_receipt_lines j s' = goods_receipt_lines j s) \<and>
     il_goodsReceiptLineId ` set lis \<subseteq> ent_id ` set ls' \<and>
     (\<exists>rows. s' = s\<lparr>goodsReceiptLines := rows\<rparr>)"
  using assms
proof (induction lis arbitrary: ls s)
  case Nil
  then show ?case by (auto simp: svc_simps intro: exI [of _ "goodsReceiptLines s"])
next
  case (Cons li lis)
  from Cons.prems(1) show ?case
  proof (rule inspect_lines_Cons_Inr)
    fix g
    assume g: "find_id (il_goodsReceiptLineId li) ls = Some g" "\<not> over_inspected li g"
      and rest: "inspect_lines lis (save_row (inspected_line li g) ls)
       (goodsReceiptLines_update (save_row (inspected_line li g)) s) = (Inr ls', s')"
    let ?x = "inspected_line li g" and ?s = "goodsReceiptLines_update (save_row (inspected_line li g)) s"
    have mem: "g \<in> set ls" "ent_id g = il_goodsReceiptLineId li"
      using g(1) by (auto simp: find_id_def find_Some_iff)
    have keyed: "keyed ls" using Cons.prems(2,3)
      by (simp add: keyed_def goods_receipt_lines_def distinct_map_filter)
    have ls: "save_row ?x ls = goods_receipt_lines i ?s"
      using goods_receipt_lines_save [of s g i ?x i] Cons.prems(2,3) mem by simp
    have other: "j \<noteq> i \<longrightarrow> goods_receipt_lines j ?s = goods_receipt_lines j s" for j
      using goods_receipt_lines_save [of s g i ?x j] Cons.prems(2,3) mem by simp
    have IH: "ls' = goods_receipt_lines i s' \<and> keyed (goodsReceiptLines s') \<and>
       map line_frame ls' = map line_frame (save_row ?x ls) \<and>
       (\<forall>y\<in>set ls'. y \<in> set (save_row ?x ls) \<and> ent_id y \<notin> il_goodsReceiptLineId ` set lis \<or> line_within_received y) \<and>
       (\<forall>j. j \<noteq> i \<longrightarrow> goods_receipt_lines j s' = goods_receipt_lines j ?s) \<and>
       il_goodsReceiptLineId ` set lis \<subseteq> ent_id ` set ls' \<and>
       (\<exists>rows. s' = ?s\<lparr>goodsReceiptLines := rows\<rparr>)"
      by (rule Cons.IH [OF rest _ ls]) (simp add: Cons.prems(2) keyed_save_row)
    have frame: "map line_frame (save_row ?x ls) = map line_frame ls"
      using keyed mem(1) by (rule map_line_frame_save) (simp add: line_frame_def)
    have "map ent_id ls' = map ent_id ls"
      using arg_cong [of _ _ "map fst", OF IH [THEN conjunct2, THEN conjunct2, THEN conjunct1, unfolded frame]]
      by (simp add: line_frame_def comp_def)
    then have "ent_id ` set ls' = ent_id ` set ls" by (metis set_map)
    then have "il_goodsReceiptLineId li \<in> ent_id ` set ls'" using mem by force
    moreover have "y \<in> set ls \<and> ent_id y \<notin> il_goodsReceiptLineId ` set (li # lis) \<or> line_within_received y"
      if "y \<in> set ls'" for y
      using IH that keyed mem inspected_within [OF g(2)] by (auto simp: set_save_row)
    moreover have "\<exists>rows. s' = s\<lparr>goodsReceiptLines := rows\<rparr>" using IH by auto
    ultimately show ?thesis using IH frame other by auto
  qed
qed

section \<open>The invariant\<close>

text \<open>
  An inspected receipt has every line settled: accepted and rejected quantities add up
  to the received one, within the slack.
\<close>

definition gr_ok :: "goods_receipt \<Rightarrow> bool" where
  "gr_ok g \<longleftrightarrow> (gr_status g = GrInspected \<longrightarrow> gr_inspectedAt g \<noteq> None)"

definition settled_ok :: "procurement_db \<Rightarrow> goods_receipt \<Rightarrow> bool" where
  "settled_ok s g \<longleftrightarrow> (gr_status g = GrInspected \<longrightarrow> list_all line_settled (goods_receipt_lines (ent_id g) s))"

definition gr_inv :: "procurement_db \<Rightarrow> bool" where
  "gr_inv s \<longleftrightarrow> table_inv ''GR'' 5 gr_number gr_ok (goodsReceipts s) \<and> keyed (goodsReceiptLines s) \<and>
     grl_goodsReceiptId ` set (goodsReceiptLines s) \<subseteq> ent_id ` set (goodsReceipts s) \<and>
     (\<forall>g\<in>set (goodsReceipts s). settled_ok s g)"

lemma gr_inv_row: "gr_inv s \<Longrightarrow> find_scoped t i (goodsReceipts s) = Some g \<Longrightarrow> gr_ok g \<and> settled_ok s g"
  by (auto simp: gr_inv_def dest: table_inv_row find_scoped_Some)

lemma gr_inv_update:
  assumes inv: "gr_inv s" and old: "find_scoped t i (goodsReceipts s) = Some g"
    and r: "ent_id r = ent_id g" "tenantId r = tenantId g" "gr_number r = gr_number g" "gr_ok r" "settled_ok s' r"
    and s': "goodsReceipts s' = save_row r (goodsReceipts s)" "keyed (goodsReceiptLines s')"
      "grl_goodsReceiptId ` set (goodsReceiptLines s') \<subseteq> grl_goodsReceiptId ` set (goodsReceiptLines s)"
      "\<And>j. j \<noteq> ent_id r \<Longrightarrow> goods_receipt_lines j s' = goods_receipt_lines j s"
  shows "gr_inv s'"
proof -
  have "table_inv ''GR'' 5 gr_number gr_ok (goodsReceipts s')"
    unfolding s' using inv old r find_scoped_Some [OF old]
    by (intro table_inv_update) (auto simp: gr_inv_def)
  moreover have "keyed (goodsReceipts s)" using inv by (auto simp: gr_inv_def dest: table_inv_keyed)
  then have "\<forall>x\<in>set (goodsReceipts s'). settled_ok s' x"
    using inv r(5) s'(4) by (auto simp: s'(1) set_save_row gr_inv_def settled_ok_def)
  moreover have "ent_id ` set (goodsReceipts s) \<subseteq> ent_id ` set (goodsReceipts s')"
    unfolding s'(1) ids_save_row by (rule subset_insertI)
  then have "grl_goodsReceiptId ` set (goodsReceiptLines s') \<subseteq> ent_id ` set (goodsReceipts s')"
    using s'(3) inv unfolding gr_inv_def by (meson order_trans)
  ultimately show ?thesis using s'(2) by (simp add: gr_inv_def)
qed

lemma transition_goods_receipt_Inr [svc_simps]:
  "transition_goods_receipt t i nxt m s = (Inr r', s') \<longleftrightarrow>
     (\<exists>r. find_scoped t i (goodsReceipts s) = Some r \<and> can_gr (gr_status r) nxt \<and>
          r' = m (r\<lparr>gr_status := nxt\<rparr>) \<and> s' = goodsReceipts_update (save_row r') s)"
  by (auto simp: transition_goods_receipt_def gr_table.transition_Inr)

lemma get_goods_receipt_Inr [svc_simps]:
  "get_goods_receipt t i s = (Inr r, s') \<longleftrightarrow> find_scoped t i (goodsReceipts s) = Some r \<and> s' = s"
  by (auto simp: get_goods_receipt_def svc_simps)

lemma goods_receipt_lines_frame [simp]:
  "goods_receipt_lines j (goodsReceipts_update f s) = goods_receipt_lines j s"
  by (simp add: goods_receipt_lines_def)

lemma confirm_goods_receipt_inv:
  assumes "gr_inv s" and "confirm_goods_receipt now t i s = (Inr r, s')"
  shows "gr_inv s'"
proof -
  from assms(2) obtain g where g: "find_scoped t i (goodsReceipts s) = Some g"
      "r = g\<lparr>gr_status := GrConfirmed, gr_confirmedAt := Some now\<rparr>" "s' = goodsReceipts_update (save_row r) s"
    by (auto simp: confirm_goods_receipt_def svc_simps)
  show ?thesis
    by (rule gr_inv_update [OF assms(1) g(1), of r])
      (use assms(1) in \<open>simp_all add: g(2,3) gr_ok_def settled_ok_def gr_inv_def\<close>)
qed

lemma reject_goods_receipt_inv:
  assumes "gr_inv s" and "reject_goods_receipt t i s = (Inr r, s')"
  shows "gr_inv s'"
proof -
  from assms(2) obtain g where g: "find_scoped t i (goodsReceipts s) = Some g"
      "r = g\<lparr>gr_status := GrRejected\<rparr>" "s' = goodsReceipts_update (save_row r) s"
    by (auto simp: reject_goods_receipt_def svc_simps)
  show ?thesis
    by (rule gr_inv_update [OF assms(1) g(1), of r])
      (use assms(1) in \<open>simp_all add: g(2,3) gr_ok_def settled_ok_def gr_inv_def\<close>)
qed

lemma inspect_goods_receipt_Inr:
  assumes "inspect_goods_receipt now t i lis s = (Inr r, s')"
  obtains g ls u where "find_scoped t i (goodsReceipts s) = Some g"
    "gr_status g = GrConfirmed \<or> gr_status g = GrPartiallyInspected"
    "inspect_lines lis (goods_receipt_lines i s) s = (Inr ls, u)"
    "r = g\<lparr>gr_status := (if list_all line_settled ls then GrInspected else GrPartiallyInspected),
           gr_inspectedAt := (if list_all line_settled ls then Some now else gr_inspectedAt g)\<rparr>"
    "s' = goodsReceipts_update (save_row r) u"
proof -
  from assms obtain g ls u where g: "find_scoped t i (goodsReceipts s) = Some g"
    "gr_status g = GrConfirmed \<or> gr_status g = GrPartiallyInspected"
    "inspect_lines lis (goods_receipt_lines i s) s = (Inr ls, u)"
    by (auto simp: inspect_goods_receipt_def svc_simps)
  show thesis
    by (rule that [OF g]) (use assms g in \<open>auto simp: inspect_goods_receipt_def svc_simps Let_def split: if_splits\<close>)
qed

lemma parents_by_receipt:
  "grl_goodsReceiptId ` set (goodsReceiptLines s) = {j. goods_receipt_lines j s \<noteq> []}"
  by (auto simp: goods_receipt_lines_def filter_empty_conv)

lemma inspect_goods_receipt_inv:
  assumes "gr_inv s" and "inspect_goods_receipt now t i lis s = (Inr r, s')"
  shows "gr_inv s'"
  using assms(2)
proof (rule inspect_goods_receipt_Inr)
  fix g ls u
  assume g: "find_scoped t i (goodsReceipts s) = Some g"
    and run: "inspect_lines lis (goods_receipt_lines i s) s = (Inr ls, u)"
    and r: "r = g\<lparr>gr_status := (if list_all line_settled ls then GrInspected else GrPartiallyInspected),
           gr_inspectedAt := (if list_all line_settled ls then Some now else gr_inspectedAt g)\<rparr>"
    and s': "s' = goodsReceipts_update (save_row r) u"
  have keyed: "keyed (goodsReceiptLines s)" using assms(1) by (simp add: gr_inv_def)
  note spec = inspect_lines_spec [OF run keyed refl]
  have id: "ent_id g = i" using find_scoped_Some [OF g] by simp
  from spec have lines: "goods_receipt_lines i u = ls" and keyed': "keyed (goodsReceiptLines u)"
    and len: "length ls = length (goods_receipt_lines i s)"
    and other: "j \<noteq> i \<Longrightarrow> goods_receipt_lines j u = goods_receipt_lines j s" for j
    by (metis length_map)+
  obtain rows where u: "u = s\<lparr>goodsReceiptLines := rows\<rparr>" using spec by blast
  have rows: "goodsReceipts u = goodsReceipts s" by (simp add: u)
  have "goods_receipt_lines j u \<noteq> [] \<longleftrightarrow> goods_receipt_lines j s \<noteq> []" for j
    using len other [of j] by (cases "j = i") (auto simp: lines)
  then have parents: "grl_goodsReceiptId ` set (goodsReceiptLines u) = grl_goodsReceiptId ` set (goodsReceiptLines s)"
    by (simp add: parents_by_receipt)
  show ?thesis
    by (rule gr_inv_update [OF assms(1) g, of r])
      (use id lines other keyed' in \<open>simp_all add: r s' rows parents gr_ok_def settled_ok_def\<close>)
qed

lemma gr_line_of_fields [simp]:
  "ent_id (gr_line_of t gid i l) = i" "grl_goodsReceiptId (gr_line_of t gid i l) = gid"
  by (simp_all add: gr_line_of_def)

lemma create_goods_receipt_Inr:
  assumes "create_goods_receipt year newId lineIds t dto s = (Inr r, s')"
  obtains po where "find_scoped t (gi_poId dto) (purchaseOrders s) = Some po"
    "po_status po \<noteq> PoCancelled" "po_status po \<noteq> PoClosed"
    "ent_id r = newId" "tenantId r = t" "gr_number r = next_gr_number year t s" "gr_status r = GrDraft"
    "gr_poId r = gi_poId dto"
    "s' = s\<lparr>goodsReceipts := save_row r (goodsReceipts s),
            goodsReceiptLines := save_rows (create_lines (gr_line_of t newId) lineIds (gi_lines dto)) (goodsReceiptLines s)\<rparr>"
proof -
  from assms obtain po where po: "find_scoped t (gi_poId dto) (purchaseOrders s) = Some po"
    "po_status po \<noteq> PoCancelled" "po_status po \<noteq> PoClosed"
    by (auto simp: create_goods_receipt_def svc_simps)
  show thesis
    by (rule that [OF po]) (use assms po in \<open>simp_all add: create_goods_receipt_def svc_simps Let_def\<close>)
qed

lemma create_goods_receipt_inv:
  assumes "gr_inv s" and "fresh newId (goodsReceipts s)" and "fresh_ids lineIds (goodsReceiptLines s)"
    and "create_goods_receipt year newId lineIds t dto s = (Inr r, s')"
  shows "gr_inv s'"
  using assms(4)
proof (rule create_goods_receipt_Inr)
  let ?ls = "create_lines (gr_line_of t newId) lineIds (gi_lines dto)"
  assume r: "ent_id r = newId" "tenantId r = t" "gr_number r = next_gr_number year t s" "gr_status r = GrDraft"
    and s': "s' = s\<lparr>goodsReceipts := save_row r (goodsReceipts s),
            goodsReceiptLines := save_rows ?ls (goodsReceiptLines s)\<rparr>"
  have lines: "goodsReceiptLines s' = goodsReceiptLines s @ ?ls"
    using save_created_lines [OF assms(3), of "gr_line_of t newId"] by (simp add: s')
  have rows: "goodsReceipts s' = goodsReceipts s @ [r]"
    using fresh_save_row [of r] assms(2) by (simp add: s' r)
  have parent: "grl_goodsReceiptId l = newId" if "l \<in> set ?ls" for l
    using set_create_lines [OF that] by auto
  have "table_inv ''GR'' 5 gr_number gr_ok (save_row r (goodsReceipts s))"
    using assms(1,2) r
    by (intro table_inv_insert [where y = year]) (auto simp: gr_inv_def gr_ok_def next_gr_number_def)
  moreover have "keyed (goodsReceiptLines s')"
    unfolding lines using assms(1,3) by (intro keyed_append_fresh) (auto simp: gr_inv_def)
  moreover have "grl_goodsReceiptId ` set (goodsReceiptLines s') \<subseteq> ent_id ` set (goodsReceipts s')"
    using assms(1) parent by (auto simp: gr_inv_def lines rows r)
  moreover have "settled_ok s' g" if "g \<in> set (goodsReceipts s')" for g
  proof (cases "g = r")
    case True
    then show ?thesis by (simp add: settled_ok_def r)
  next
    case False
    with that have g: "g \<in> set (goodsReceipts s)" by (auto simp: rows)
    then have "ent_id g \<noteq> newId" using assms(2) by (auto simp: fresh_def)
    then have "goods_receipt_lines (ent_id g) s' = goods_receipt_lines (ent_id g) s"
      using parent by (auto simp: goods_receipt_lines_def lines filter_empty_conv)
    then show ?thesis using assms(1) g by (simp add: gr_inv_def settled_ok_def)
  qed
  ultimately show ?thesis by (simp add: gr_inv_def s')
qed

section \<open>Properties\<close>

text \<open>
  A successful inspection writes only quantities that stay within what was
  received, leaves the lines it does not name as they were, and closes the receipt
  exactly when every line of it is settled.
\<close>

theorem inspect_goods_receipt_bounds:
  assumes "keyed (goodsReceiptLines s)"
    and "inspect_goods_receipt now t i lis s = (Inr r, s')"
  shows "list_all (\<lambda>g. line_within_received g \<or>
           g \<in> set (goods_receipt_lines i s) \<and> ent_id g \<notin> il_goodsReceiptLineId ` set lis)
           (goods_receipt_lines i s')
       \<and> il_goodsReceiptLineId ` set lis \<subseteq> ent_id ` set (goods_receipt_lines i s')
       \<and> map grl_receivedQuantity (goods_receipt_lines i s') = map grl_receivedQuantity (goods_receipt_lines i s)
       \<and> gr_status r = (if list_all line_settled (goods_receipt_lines i s') then GrInspected else GrPartiallyInspected)"
  using assms(2)
proof (rule inspect_goods_receipt_Inr)
  fix g ls u
  assume run: "inspect_lines lis (goods_receipt_lines i s) s = (Inr ls, u)"
    and r: "r = g\<lparr>gr_status := (if list_all line_settled ls then GrInspected else GrPartiallyInspected),
           gr_inspectedAt := (if list_all line_settled ls then Some now else gr_inspectedAt g)\<rparr>"
    and s': "s' = goodsReceipts_update (save_row r) u"
  note spec = inspect_lines_spec [OF run assms(1) refl]
  have lines: "goods_receipt_lines i s' = ls" using spec by (simp add: s')
  have "map (snd \<circ> snd \<circ> snd \<circ> snd \<circ> line_frame) ls =
      map (snd \<circ> snd \<circ> snd \<circ> snd \<circ> line_frame) (goods_receipt_lines i s)"
    using spec by (metis (no_types, lifting) map_map)
  then have "map grl_receivedQuantity ls = map grl_receivedQuantity (goods_receipt_lines i s)"
    by (simp add: line_frame_def comp_def)
  then show ?thesis using spec unfolding lines r by (auto simp: list_all_iff)
qed

definition sample_receipt_db :: procurement_db where
  "sample_receipt_db = empty_procurement_db\<lparr>
     goodsReceipts := [\<lparr>ent_id = ''g'', tenantId = ''t'', gr_number = ''GR-2026-00001'', gr_poId = ''p'',
        gr_supplierId = ''s'', gr_warehouseId = ''w'', gr_receiptDate = 0, gr_receivedBy = ''u'',
        gr_carrierTrackingNumber = None, gr_supplierDdtNumber = None, gr_supplierDdtDate = None,
        gr_status = GrConfirmed, gr_notes = None, gr_confirmedAt = Some 1, gr_inspectedAt = None\<rparr>],
     goodsReceiptLines := [\<lparr>ent_id = ''l'', tenantId = ''t'', grl_goodsReceiptId = ''g'', grl_poLineId = ''pl'',
        grl_productId = ''x'', grl_receivedQuantity = 10, grl_acceptedQuantity = 10, grl_rejectedQuantity = 0,
        grl_rejectReason = None, grl_lotId = None, grl_serialIds = [], grl_inspectionId = None,
        grl_warehouseLocation = None\<rparr>]\<rparr>"

definition sample_inspection :: "inspect_line_input list" where
  "sample_inspection = [\<lparr>il_goodsReceiptLineId = ''l'', il_acceptedQuantity = 6, il_rejectedQuantity = 4,
     il_rejectReason = None, il_inspectionId = None\<rparr>]"

lemma le_fl_slack: "numeral n \<le> (2::rat) ^ 53 \<Longrightarrow> numeral n \<le> fl (numeral n + qty_slack)"
proof -
  assume "numeral n \<le> (2::rat) ^ 53"
  moreover have "0 \<le> qty_slack" by (simp add: qty_slack_def fl_nonneg)
  ultimately show ?thesis using fl_mono [of "numeral n" "numeral n + qty_slack"] by (simp add: fl_numeral_safe)
qed

lemmas inspection_run =
  inspect_goods_receipt_def get_goods_receipt_def svc_defs sample_receipt_db_def sample_inspection_def
  empty_procurement_db_def find_scoped_def find_id_def goods_receipt_lines_def over_inspected_def
  js_add_def fl_numeral_safe le_fl_slack save_row_def Let_def

theorem inspect_goods_receipt_bounds_witness:
  "list_all line_within_received
     (goods_receipt_lines ''g'' (after (inspect_goods_receipt 5 ''t'' ''g'' sample_inspection) sample_receipt_db))"
proof -
  let ?m = "inspect_goods_receipt 5 ''t'' ''g'' sample_inspection"
  have ok: "runs_ok ?m sample_receipt_db" by (simp add: runs_ok_def inspection_run not_less)
  have "keyed (goodsReceiptLines sample_receipt_db)" by (simp add: sample_receipt_db_def keyed_def)
  moreover have "list_all (\<lambda>g. ent_id g = ''l'') (goods_receipt_lines ''g'' (after ?m sample_receipt_db))"
    by (simp add: after_def inspection_run not_less)
  ultimately show ?thesis
    using inspect_goods_receipt_bounds [OF _ runs_okD [OF ok]]
    by (auto simp: list_all_iff sample_inspection_def)
qed

end
