(* ===== verification/SupplierInvoice.thy ===== *)
theory SupplierInvoice
  imports Requisition
begin

text \<open>
  Supplier invoices of \<^verbatim>\<open>procurement.service.ts\<close>: registration, the three-way match
  against the stored purchase-order and goods-receipt lines, approval, dispute,
  rejection, cancellation.
\<close>

section \<open>Operations\<close>

record si_line_input =
  sli_description :: string
  sli_quantity :: rat
  sli_unitOfMeasure :: "string option"
  sli_unitCostCents :: jsnum
  sli_lineTotalCents :: jsnum
  sli_taxRate :: "jsnum option"
  sli_taxAmountCents :: "jsnum option"
  sli_naturaCode :: "string option"
  sli_poLineId :: "uuid option"
  sli_notes :: "string option"

record si_input =
  sii_supplierId :: uuid
  sii_number :: string
  sii_date :: int
  sii_receivedDate :: "int option"
  sii_receivedVia :: "received_via option"
  sii_externalMessageId :: "string option"
  sii_fatturaPaXmlPath :: "string option"
  sii_subtotalCents :: jsnum
  sii_taxCents :: jsnum
  sii_totalCents :: jsnum
  sii_ivaBreakdown :: "iva_breakdown_item list option"
  sii_paymentDueDate :: int
  sii_paymentTermsDays :: "int option"
  sii_poIds :: "uuid list option"
  sii_notes :: "string option"
  sii_lines :: "si_line_input list"

record run_match_input =
  rm_quantityPct :: "jsnum option"
  rm_pricePct :: "jsnum option"
  rm_totalPct :: "jsnum option"

definition find_duplicate_invoice :: "uuid \<Rightarrow> uuid \<Rightarrow> string \<Rightarrow> supplier_invoice list \<Rightarrow> supplier_invoice option" where
  "find_duplicate_invoice t supplier number rows =
     find (\<lambda>x. tenantId x = t \<and> si_supplierId x = supplier \<and> si_number x = number) rows"

definition si_line_of :: "uuid \<Rightarrow> uuid \<Rightarrow> uuid \<Rightarrow> si_line_input \<Rightarrow> supplier_invoice_line" where
  "si_line_of t sid i l =
     \<lparr>ent_id = i, tenantId = t, sil_supplierInvoiceId = sid, sil_description = sli_description l,
      sil_quantity = sli_quantity l, sil_unitOfMeasure = nullish (sli_unitOfMeasure l) ''pz'',
      sil_unitCostCents = sli_unitCostCents l, sil_lineTotalCents = sli_lineTotalCents l,
      sil_taxRate = nullish (sli_taxRate l) 22,
      sil_taxAmountCents =
        nullish (sli_taxAmountCents l)
          (of_int (math_round (js_div (js_mul (sli_lineTotalCents l) (nullish (sli_taxRate l) 22)) 100))),
      sil_naturaCode = sli_naturaCode l, sil_poLineId = sli_poLineId l, sil_notes = sli_notes l\<rparr>"

definition create_supplier_invoice ::
  "int \<Rightarrow> uuid \<Rightarrow> (nat \<Rightarrow> uuid) \<Rightarrow> uuid \<Rightarrow> si_input \<Rightarrow> (procurement_db, supplier_invoice) svc" where
  "create_supplier_invoice now newId lineIds t dto =
     seq (throw_if (js_add (sii_subtotalCents dto) (sii_taxCents dto) \<noteq> sii_totalCents dto) BadRequest)
    (bind (gets (\<lambda>s. find_duplicate_invoice t (sii_supplierId dto) (sii_number dto) (supplierInvoices s))) (\<lambda>dup.
     seq (throw_if (dup \<noteq> None) Conflict)
     (transaction
       (let si = \<lparr>ent_id = newId, tenantId = t, si_supplierId = sii_supplierId dto, si_number = sii_number dto,
                  si_date = sii_date dto, si_receivedDate = nullish (sii_receivedDate dto) now,
                  si_receivedVia = nullish (sii_receivedVia dto) ViaManual,
                  si_externalMessageId = sii_externalMessageId dto,
                  si_fatturaPaXmlPath = sii_fatturaPaXmlPath dto,
                  si_subtotalCents = sii_subtotalCents dto, si_taxCents = sii_taxCents dto,
                  si_totalCents = sii_totalCents dto, si_ivaBreakdown = nullish (sii_ivaBreakdown dto) [],
                  si_paymentDueDate = sii_paymentDueDate dto,
                  si_paymentTermsDays = nullish (sii_paymentTermsDays dto) 30, si_status = SiReceived,
                  si_poIds = nullish (sii_poIds dto) [], si_discrepancies = None, si_matchedAt = None,
                  si_matchedBy = None, si_approvedAt = None, si_approvedBy = None, si_paidAt = None,
                  si_paymentBatchId = None, si_notes = sii_notes dto, si_partnerCountry = None,
                  si_partnerVatNumber = None\<rparr>;
            ls = create_lines (si_line_of t newId) lineIds (sii_lines dto)
        in seq (modify (supplierInvoices_update (save_row si)))
          (seq (modify (supplierInvoiceLines_update (save_rows ls)))
             (ret si))))))"

definition get_supplier_invoice :: "uuid \<Rightarrow> uuid \<Rightarrow> (procurement_db, supplier_invoice) svc" where
  "get_supplier_invoice t i =
     bind (gets (\<lambda>s. find_scoped t i (supplierInvoices s))) (\<lambda>r. require r NotFound)"

definition supplier_invoice_lines :: "uuid \<Rightarrow> procurement_db \<Rightarrow> supplier_invoice_line list" where
  "supplier_invoice_lines i s = filter (\<lambda>l. sil_supplierInvoiceId l = i) (supplierInvoiceLines s)"

text \<open>\<^verbatim>\<open>Array.from(new Set(xs))\<close>: first occurrences, in order.\<close>

definition js_unique :: "'a list \<Rightarrow> 'a list" where
  "js_unique xs = rev (remdups (rev xs))"

definition referenced_po_lines :: "supplier_invoice_line list \<Rightarrow> uuid list" where
  "referenced_po_lines ls = js_unique (filter (\<lambda>x. x \<noteq> '''') (List.map_filter sil_poLineId ls))"

text \<open>The rows the two query builders return for the referenced line keys.\<close>

definition matched_po_lines :: "uuid \<Rightarrow> uuid list \<Rightarrow> procurement_db \<Rightarrow> purchase_order_line list" where
  "matched_po_lines t ids s = filter (\<lambda>l. tenantId l = t \<and> ent_id l \<in> set ids) (purchaseOrderLines s)"

definition matched_gr_lines :: "uuid \<Rightarrow> uuid list \<Rightarrow> procurement_db \<Rightarrow> goods_receipt_line list" where
  "matched_gr_lines t ids s = filter (\<lambda>l. tenantId l = t \<and> grl_poLineId l \<in> set ids) (goodsReceiptLines s)"

definition match_input_of ::
  "supplier_invoice \<Rightarrow> supplier_invoice_line list \<Rightarrow> purchase_order_line list \<Rightarrow> goods_receipt_line list \<Rightarrow>
   run_match_input \<Rightarrow> match_input" where
  "match_input_of si ls pols grls dto =
     \<lparr>mi_poLines = map (\<lambda>p. \<lparr>ps_poLineId = ent_id p, ps_productId = pol_productId p,
         ps_quantity = pol_quantity p, ps_unitCostCents = pol_unitCostCents p, ps_taxRate = pol_taxRate p\<rparr>) pols,
      mi_grLines = map (\<lambda>g. \<lparr>gs_poLineId = grl_poLineId g, gs_acceptedQuantity = grl_acceptedQuantity g\<rparr>) grls,
      mi_siLines = map (\<lambda>l. \<lparr>ss_invoiceLineId = ent_id l, ss_poLineId = sil_poLineId l,
         ss_quantity = sil_quantity l, ss_unitCostCents = sil_unitCostCents l, ss_taxRate = sil_taxRate l,
         ss_lineTotalCents = sil_lineTotalCents l\<rparr>) ls,
      mi_siTotalCents = si_totalCents si,
      mi_tolerances = Some \<lparr>quantityPct = Some (rm_quantityPct dto), pricePct = Some (rm_pricePct dto),
        totalPct = Some (rm_totalPct dto)\<rparr>\<rparr>"

definition run_match :: "int \<Rightarrow> uuid \<Rightarrow> uuid \<Rightarrow> run_match_input \<Rightarrow> (procurement_db, supplier_invoice) svc" where
  "run_match now t i dto =
     bind (get_supplier_invoice t i) (\<lambda>si.
     bind (gets (supplier_invoice_lines i)) (\<lambda>ls.
     seq (throw_if (si_status si \<noteq> SiReceived) BadRequest)
    (let ids = referenced_po_lines ls in
     bind (gets (matched_po_lines t ids)) (\<lambda>pols.
     bind (gets (matched_gr_lines t ids)) (\<lambda>grls.
     let result = run_three_way_match (match_input_of si ls pols grls dto);
         next = (if matched result then SiMatched else SiDisputed);
         si' = si\<lparr>si_discrepancies := (if length (discrepancies result) \<noteq> 0 then Some (discrepancies result) else None),
                  si_status := next,
                  si_matchedAt := (if next = SiMatched then Some now else si_matchedAt si),
                  si_poIds := (if length pols \<noteq> 0 then js_unique (map pol_purchaseOrderId pols) else si_poIds si)\<rparr>
     in seq (modify (supplierInvoices_update (save_row si'))) (ret si'))))))"

definition transition_supplier_invoice ::
  "uuid \<Rightarrow> uuid \<Rightarrow> si_status \<Rightarrow> (supplier_invoice \<Rightarrow> supplier_invoice) \<Rightarrow> (procurement_db, supplier_invoice) svc" where
  "transition_supplier_invoice t i next mutator =
     transition_row supplierInvoices supplierInvoices_update si_status (\<lambda>x. si_status_update (\<lambda>_. x)) can_si
       t i next (\<lambda>r. Inr (mutator r))"

definition approve_supplier_invoice :: "int \<Rightarrow> uuid \<Rightarrow> uuid \<Rightarrow> uuid \<Rightarrow> (procurement_db, supplier_invoice) svc" where
  "approve_supplier_invoice now t i approver =
     transition_supplier_invoice t i SiApproved
       (\<lambda>si. si\<lparr>si_approvedAt := Some now, si_approvedBy := Some approver\<rparr>)"

definition dispute_note :: "string option \<Rightarrow> string \<Rightarrow> string" where
  "dispute_note notes reason =
     (case notes of
        None \<Rightarrow> ''[DISPUTE] '' @ reason
      | Some n \<Rightarrow> if n = '''' then ''[DISPUTE] '' @ reason
                  else n @ [CHR 0x0A] @ ''[DISPUTE] '' @ reason)"

definition dispute_supplier_invoice :: "uuid \<Rightarrow> uuid \<Rightarrow> string \<Rightarrow> (procurement_db, supplier_invoice) svc" where
  "dispute_supplier_invoice t i reason =
     transition_supplier_invoice t i SiDisputed
       (\<lambda>si. si\<lparr>si_notes := Some (dispute_note (si_notes si) reason)\<rparr>)"

definition reject_supplier_invoice :: "uuid \<Rightarrow> uuid \<Rightarrow> (procurement_db, supplier_invoice) svc" where
  "reject_supplier_invoice t i = transition_supplier_invoice t i SiRejected (\<lambda>si. si)"

definition cancel_supplier_invoice :: "uuid \<Rightarrow> uuid \<Rightarrow> (procurement_db, supplier_invoice) svc" where
  "cancel_supplier_invoice t i = transition_supplier_invoice t i SiCancelled (\<lambda>si. si)"

lemmas supplier_invoice_ops =
  create_supplier_invoice_def run_match_def approve_supplier_invoice_def dispute_supplier_invoice_def
  reject_supplier_invoice_def cancel_supplier_invoice_def get_supplier_invoice_def
  transition_supplier_invoice_def

lemma supplier_invoice_atomic:
  "atomic (create_supplier_invoice now n ls t sii)" "atomic (run_match now t i rm)"
  "atomic (approve_supplier_invoice now t i u)" "atomic (dispute_supplier_invoice t i why)"
  "atomic (reject_supplier_invoice t i)" "atomic (cancel_supplier_invoice t i)"
  unfolding supplier_invoice_ops by (intro atomic_intros)+

section \<open>The invariant\<close>

text \<open>
  The header amounts of a stored invoice add up, an approved invoice names its
  approver, a matched one carries no discrepancies, and a supplier's invoice number is
  registered once per tenant.
\<close>

definition si_ok :: "supplier_invoice \<Rightarrow> bool" where
  "si_ok x \<longleftrightarrow> js_add (si_subtotalCents x) (si_taxCents x) = si_totalCents x \<and>
     (si_status x \<in> {SiApproved, SiPaid} \<longrightarrow> si_approvedBy x \<noteq> None) \<and>
     (si_status x = SiReceived \<longrightarrow> si_approvedBy x = None \<and> si_discrepancies x = None) \<and>
     (si_status x = SiMatched \<longrightarrow> si_discrepancies x = None \<and> si_matchedAt x \<noteq> None)"

definition si_key :: "supplier_invoice \<Rightarrow> uuid \<times> uuid \<times> string" where
  "si_key x = (tenantId x, si_supplierId x, si_number x)"

definition si_inv :: "procurement_db \<Rightarrow> bool" where
  "si_inv s \<longleftrightarrow> keyed (supplierInvoices s) \<and> (\<forall>x\<in>set (supplierInvoices s). si_ok x) \<and>
     inj_on si_key (set (supplierInvoices s))"

lemma si_inv_update:
  assumes inv: "si_inv s" and old: "find_scoped t i (supplierInvoices s) = Some x"
    and r: "ent_id r = ent_id x" "si_key r = si_key x" "si_ok r"
    and s': "supplierInvoices s' = save_row r (supplierInvoices s)"
  shows "si_inv s'"
proof -
  have keyed: "keyed (supplierInvoices s)" using inv by (simp add: si_inv_def)
  have x: "x \<in> set (supplierInvoices s)" using find_scoped_Some [OF old] by simp
  have rows: "set (supplierInvoices s') = insert r {y \<in> set (supplierInvoices s). ent_id y \<noteq> ent_id r}"
    unfolding s' using keyed by (rule set_save_row)
  have "inj_on si_key (set (supplierInvoices s'))"
  proof (rule inj_onI)
    fix a b
    assume ab: "a \<in> set (supplierInvoices s')" "b \<in> set (supplierInvoices s')" "si_key a = si_key b"
    have inj: "y \<in> set (supplierInvoices s) \<Longrightarrow> z \<in> set (supplierInvoices s) \<Longrightarrow> si_key y = si_key z \<Longrightarrow> y = z"
      for y z using inv by (auto simp: si_inv_def inj_on_def)
    show "a = b" using ab inj x r(1,2) unfolding rows by auto metis+
  qed
  then show ?thesis
    using inv keyed r(3) by (auto simp: si_inv_def s' keyed_save_row set_save_row)
qed

lemma get_supplier_invoice_Inr [svc_simps]:
  "get_supplier_invoice t i s = (Inr r, s') \<longleftrightarrow> find_scoped t i (supplierInvoices s) = Some r \<and> s' = s"
  by (auto simp: get_supplier_invoice_def svc_simps)

lemma transition_supplier_invoice_Inr [svc_simps]:
  "transition_supplier_invoice t i nxt m s = (Inr r', s') \<longleftrightarrow>
     (\<exists>r. find_scoped t i (supplierInvoices s) = Some r \<and> can_si (si_status r) nxt \<and>
          r' = m (r\<lparr>si_status := nxt\<rparr>) \<and> s' = supplierInvoices_update (save_row r') s)"
  by (auto simp: transition_supplier_invoice_def si_table.transition_Inr)

lemma si_inv_row: "si_inv s \<Longrightarrow> find_scoped t i (supplierInvoices s) = Some x \<Longrightarrow> si_ok x"
  by (auto simp: si_inv_def dest: find_scoped_Some)

lemma transition_supplier_invoice_inv:
  assumes "transition_supplier_invoice t i nxt m s = (Inr r', s')" and "si_inv s"
    and "\<And>x. ent_id (m x) = ent_id x \<and> si_key (m x) = si_key x"
    and "\<And>x. si_ok x \<Longrightarrow> can_si (si_status x) nxt \<Longrightarrow> si_ok (m (x\<lparr>si_status := nxt\<rparr>))"
  shows "si_inv s'"
proof -
  from assms(1) obtain x where x: "find_scoped t i (supplierInvoices s) = Some x" "can_si (si_status x) nxt"
      "r' = m (x\<lparr>si_status := nxt\<rparr>)" "s' = supplierInvoices_update (save_row r') s"
    by (auto simp: transition_supplier_invoice_Inr)
  show ?thesis
  proof (rule si_inv_update [OF assms(2) x(1)])
    show "ent_id r' = ent_id x" "si_key r' = si_key x"
      using assms(3) [of "x\<lparr>si_status := nxt\<rparr>"] by (simp_all add: x(3) si_key_def)
    show "si_ok r'" unfolding x(3) by (rule assms(4)) (use si_inv_row [OF assms(2) x(1)] x(2) in auto)
  qed (simp add: x(4))
qed

lemma si_event_inv:
  assumes "si_inv s"
  shows "approve_supplier_invoice now t i u s = (Inr r, s') \<Longrightarrow> si_inv s'"
    and "dispute_supplier_invoice t i why s = (Inr r, s') \<Longrightarrow> si_inv s'"
    and "reject_supplier_invoice t i s = (Inr r, s') \<Longrightarrow> si_inv s'"
    and "cancel_supplier_invoice t i s = (Inr r, s') \<Longrightarrow> si_inv s'"
  unfolding approve_supplier_invoice_def dispute_supplier_invoice_def reject_supplier_invoice_def
    cancel_supplier_invoice_def
  by (erule transition_supplier_invoice_inv [OF _ assms], simp add: si_key_def, simp add: si_ok_def)+

lemma create_supplier_invoice_Inr:
  assumes "create_supplier_invoice now newId lineIds t dto s = (Inr r, s')"
  shows "js_add (sii_subtotalCents dto) (sii_taxCents dto) = sii_totalCents dto \<and>
    find_duplicate_invoice t (sii_supplierId dto) (sii_number dto) (supplierInvoices s) = None \<and>
    ent_id r = newId \<and> si_key r = (t, sii_supplierId dto, sii_number dto) \<and> si_ok r \<and> si_status r = SiReceived \<and>
    s' = s\<lparr>supplierInvoices := save_row r (supplierInvoices s),
           supplierInvoiceLines := save_rows (create_lines (si_line_of t newId) lineIds (sii_lines dto)) (supplierInvoiceLines s)\<rparr>"
proof -
  have *: "js_add (sii_subtotalCents dto) (sii_taxCents dto) = sii_totalCents dto"
    "find_duplicate_invoice t (sii_supplierId dto) (sii_number dto) (supplierInvoices s) = None"
    using assms by (auto simp: create_supplier_invoice_def svc_simps)
  show ?thesis
    using assms * by (simp add: create_supplier_invoice_def svc_simps Let_def si_key_def si_ok_def)
qed

lemma create_supplier_invoice_inv:
  assumes "si_inv s" and "fresh newId (supplierInvoices s)"
    and "create_supplier_invoice now newId lineIds t dto s = (Inr r, s')"
  shows "si_inv s'"
proof -
  note r = create_supplier_invoice_Inr [OF assms(3)]
  have rows: "supplierInvoices s' = supplierInvoices s @ [r]"
    using fresh_save_row [of r] r assms(2) by simp
  have "si_key r \<notin> si_key ` set (supplierInvoices s)"
    using r by (auto simp: find_duplicate_invoice_def find_None_iff si_key_def)
  moreover have "inj_on si_key (set (supplierInvoices s))" using assms(1) by (simp add: si_inv_def)
  ultimately have "inj_on si_key (insert r (set (supplierInvoices s)))" by auto
  then show ?thesis
    using assms(1,2) r unfolding si_inv_def rows by (auto simp: keyed_def fresh_def)
qed

lemma run_match_Inr:
  assumes "run_match now t i dto s = (Inr r, s')"
  obtains x result pols where "find_scoped t i (supplierInvoices s) = Some x" "si_status x = SiReceived"
    "result = run_three_way_match (match_input_of x (supplier_invoice_lines i s)
       (matched_po_lines t (referenced_po_lines (supplier_invoice_lines i s)) s)
       (matched_gr_lines t (referenced_po_lines (supplier_invoice_lines i s)) s) dto)"
    "pols = (if length (matched_po_lines t (referenced_po_lines (supplier_invoice_lines i s)) s) \<noteq> 0
       then js_unique (map pol_purchaseOrderId (matched_po_lines t (referenced_po_lines (supplier_invoice_lines i s)) s))
       else si_poIds x)"
    "r = x\<lparr>si_discrepancies := (if length (discrepancies result) \<noteq> 0 then Some (discrepancies result) else None),
           si_status := (if matched result then SiMatched else SiDisputed),
           si_matchedAt := (if matched result then Some now else si_matchedAt x),
           si_poIds := pols\<rparr>"
    "s' = supplierInvoices_update (save_row r) s"
proof -
  from assms obtain x where x: "find_scoped t i (supplierInvoices s) = Some x" "si_status x = SiReceived"
    by (auto simp: run_match_def svc_simps Let_def)
  show thesis
    by (rule that [OF x refl refl])
      (use assms x in \<open>simp_all add: run_match_def svc_simps Let_def\<close>)
qed

lemma run_match_inv:
  assumes "si_inv s" and "run_match now t i dto s = (Inr r, s')"
  shows "si_inv s'"
  using assms(2)
proof (rule run_match_Inr)
  fix x result pols
  assume x: "find_scoped t i (supplierInvoices s) = Some x" "si_status x = SiReceived"
    and result: "result = run_three_way_match (match_input_of x (supplier_invoice_lines i s)
       (matched_po_lines t (referenced_po_lines (supplier_invoice_lines i s)) s)
       (matched_gr_lines t (referenced_po_lines (supplier_invoice_lines i s)) s) dto)"
    and r: "r = x\<lparr>si_discrepancies := (if length (discrepancies result) \<noteq> 0 then Some (discrepancies result) else None),
           si_status := (if matched result then SiMatched else SiDisputed),
           si_matchedAt := (if matched result then Some now else si_matchedAt x),
           si_poIds := pols\<rparr>"
    and s': "s' = supplierInvoices_update (save_row r) s"
  have "matched result \<longleftrightarrow> discrepancies result = []" unfolding result by (rule discrepancies_matched)
  then show ?thesis
    using si_inv_row [OF assms(1) x(1)] x(2)
    by (intro si_inv_update [OF assms(1) x(1), of r]) (simp_all add: r s' si_key_def si_ok_def)
qed

section \<open>Properties\<close>

text \<open>
  Called without percentages, the match sends every invoice with a total to
  dispute, however well it agrees with the order and the receipt.
\<close>

theorem run_match_without_percentages_disputes:
  assumes "run_match now t i \<lparr>rm_quantityPct = None, rm_pricePct = None, rm_totalPct = None\<rparr> s = (Inr r, s')"
    and "find_scoped t i (supplierInvoices s) = Some x" and "si_totalCents x \<noteq> 0"
  shows "si_status r = SiDisputed \<and> si_discrepancies r \<noteq> None"
  using assms(1)
proof (rule run_match_Inr)
  fix y result pols
  assume y: "find_scoped t i (supplierInvoices s) = Some y"
    and result: "result = run_three_way_match (match_input_of y (supplier_invoice_lines i s)
       (matched_po_lines t (referenced_po_lines (supplier_invoice_lines i s)) s)
       (matched_gr_lines t (referenced_po_lines (supplier_invoice_lines i s)) s)
       \<lparr>rm_quantityPct = None, rm_pricePct = None, rm_totalPct = None\<rparr>)"
    and r: "r = y\<lparr>si_discrepancies := (if length (discrepancies result) \<noteq> 0 then Some (discrepancies result) else None),
           si_status := (if matched result then SiMatched else SiDisputed),
           si_matchedAt := (if matched result then Some now else si_matchedAt y),
           si_poIds := pols\<rparr>"
  have "y = x" using y assms(2) by simp
  then have "\<not> matched result"
    unfolding result using assms(3)
    by (auto simp: matched_iff match_input_of_def merge_tolerances_def spread_field_def within_pct_undefined)
  moreover from this have "discrepancies result \<noteq> []" unfolding result by (simp add: discrepancies_matched)
  ultimately show ?thesis by (simp add: r)
qed

definition sample_invoice_db :: procurement_db where
  "sample_invoice_db = empty_procurement_db\<lparr>
     purchaseOrderLines := [\<lparr>ent_id = ''pl'', tenantId = ''t'', pol_purchaseOrderId = ''p'', pol_productId = ''x'',
        pol_description = ''bolts'', pol_quantity = 10, pol_unitOfMeasure = ''pz'', pol_unitCostCents = 100,
        pol_lineTotalCents = 1000, pol_taxRate = 22, pol_taxAmountCents = 220, pol_expectedDeliveryDate = None,
        pol_receivedQuantity = 0, pol_invoicedQuantity = 0, pol_notes = None\<rparr>],
     goodsReceiptLines := [\<lparr>ent_id = ''gl'', tenantId = ''t'', grl_goodsReceiptId = ''g'', grl_poLineId = ''pl'',
        grl_productId = ''x'', grl_receivedQuantity = 10, grl_acceptedQuantity = 10, grl_rejectedQuantity = 0,
        grl_rejectReason = None, grl_lotId = None, grl_serialIds = [], grl_inspectionId = None,
        grl_warehouseLocation = None\<rparr>],
     supplierInvoices := [\<lparr>ent_id = ''i'', tenantId = ''t'', si_supplierId = ''s'', si_number = ''A1'',
        si_date = 0, si_receivedDate = 0, si_receivedVia = ViaManual, si_externalMessageId = None,
        si_fatturaPaXmlPath = None, si_subtotalCents = 1000, si_taxCents = 220, si_totalCents = 1220,
        si_ivaBreakdown = [], si_paymentDueDate = 30, si_paymentTermsDays = 30, si_status = SiReceived,
        si_poIds = [], si_discrepancies = None, si_matchedAt = None, si_matchedBy = None, si_approvedAt = None,
        si_approvedBy = None, si_paidAt = None, si_paymentBatchId = None, si_notes = None,
        si_partnerCountry = None, si_partnerVatNumber = None\<rparr>],
     supplierInvoiceLines := [\<lparr>ent_id = ''il'', tenantId = ''t'', sil_supplierInvoiceId = ''i'',
        sil_description = ''bolts'', sil_quantity = 10, sil_unitOfMeasure = ''pz'', sil_unitCostCents = 100,
        sil_lineTotalCents = 1000, sil_taxRate = 22, sil_taxAmountCents = 220, sil_naturaCode = None,
        sil_poLineId = Some ''pl'', sil_notes = None\<rparr>]\<rparr>"

theorem run_match_without_percentages_disputes_witness:
  "si_status (outcome (run_match 5 ''t'' ''i''
     \<lparr>rm_quantityPct = None, rm_pricePct = None, rm_totalPct = None\<rparr>) sample_invoice_db) = SiDisputed"
proof -
  let ?m = "run_match 5 ''t'' ''i'' \<lparr>rm_quantityPct = None, rm_pricePct = None, rm_totalPct = None\<rparr>"
  obtain x where x: "find_scoped ''t'' ''i'' (supplierInvoices sample_invoice_db) = Some x"
    "si_status x = SiReceived" "si_totalCents x = 1220"
    by (simp add: sample_invoice_db_def find_scoped_def)
  have "runs_ok ?m sample_invoice_db"
    using x by (simp add: runs_ok_def run_match_def get_supplier_invoice_def svc_defs Let_def)
  from run_match_without_percentages_disputes [OF runs_okD [OF this] x(1)] x(3) show ?thesis by simp
qed

text \<open>
  The match does not look at the goods receipts behind the accepted quantities:
  whatever their status - draft, rejected, inspected - its result is the same.
\<close>

theorem run_match_ignores_receipt_status:
  "fst (run_match now t i dto (s\<lparr>goodsReceipts := gs\<rparr>)) = fst (run_match now t i dto s)"
  by (simp add: run_match_def get_supplier_invoice_def svc_defs supplier_invoice_lines_def
      matched_po_lines_def matched_gr_lines_def Let_def split: option.split)

end
