(* ===== verification/Procurement.thy ===== *)
theory Procurement
  imports Rfq GoodsReceipt SupplierInvoice
begin

text \<open>
  The procurement service as a state machine over its database: one step per successful
  request, by any tenant, in any order. A refused request changes nothing
  (\<open>requisition_atomic\<close> and its siblings), so successful steps are all there is to
  follow. Generated keys are fresh, as the primary keys demand.
\<close>

section \<open>Steps\<close>

inductive procurement_step :: "uuid \<Rightarrow> procurement_db \<Rightarrow> procurement_db \<Rightarrow> bool" for t where
  create_requisition:
    "create_requisition y n ls t ri s = (Inr r, s') \<Longrightarrow> fresh n (requisitions s) \<Longrightarrow>
     fresh_ids ls (requisitionLines s) \<Longrightarrow> procurement_step t s s'"
| submit_requisition: "submit_requisition t i s = (Inr r, s') \<Longrightarrow> procurement_step t s s'"
| approve_requisition: "approve_requisition now t i u c s = (Inr r, s') \<Longrightarrow> procurement_step t s s'"
| reject_requisition: "reject_requisition now t i u cm s = (Inr r, s') \<Longrightarrow> procurement_step t s s'"
| cancel_requisition: "cancel_requisition t i s = (Inr r, s') \<Longrightarrow> procurement_step t s s'"
| convert_requisition:
    "convert_requisition_to_po y n ls t i ci s = (Inr p, s') \<Longrightarrow> fresh n (purchaseOrders s) \<Longrightarrow>
     fresh_ids ls (purchaseOrderLines s) \<Longrightarrow> procurement_step t s s'"
| create_purchase_order:
    "create_purchase_order y n ls t poi s = (Inr p, s') \<Longrightarrow> fresh n (purchaseOrders s) \<Longrightarrow>
     fresh_ids ls (purchaseOrderLines s) \<Longrightarrow> procurement_step t s s'"
| send_purchase_order: "send_purchase_order now t i s = (Inr p, s') \<Longrightarrow> procurement_step t s s'"
| acknowledge_purchase_order: "acknowledge_purchase_order now t i s = (Inr p, s') \<Longrightarrow> procurement_step t s s'"
| cancel_purchase_order: "cancel_purchase_order now t i why s = (Inr p, s') \<Longrightarrow> procurement_step t s s'"
| create_rfq:
    "create_rfq y n ls t qi s = (Inr q, s') \<Longrightarrow> fresh n (rfqs s) \<Longrightarrow> fresh_ids ls (rfqLines s) \<Longrightarrow>
     procurement_step t s s'"
| send_rfq: "send_rfq qs t i suppliers s = (Inr q, s') \<Longrightarrow> fresh_ids qs (rfqQuotes s) \<Longrightarrow> procurement_step t s s'"
| record_supplier_quote: "record_supplier_quote now t i qo s = (Inr x, s') \<Longrightarrow> procurement_step t s s'"
| award_rfq: "award_rfq now t i qid s = (Inr q, s') \<Longrightarrow> procurement_step t s s'"
| cancel_rfq: "cancel_rfq t i s = (Inr q, s') \<Longrightarrow> procurement_step t s s'"
| convert_rfq:
    "convert_rfq_to_po y n ls t i qc s = (Inr p, s') \<Longrightarrow> fresh n (purchaseOrders s) \<Longrightarrow>
     fresh_ids ls (purchaseOrderLines s) \<Longrightarrow> procurement_step t s s'"
| create_goods_receipt:
    "create_goods_receipt y n ls t gi s = (Inr g, s') \<Longrightarrow> fresh n (goodsReceipts s) \<Longrightarrow>
     fresh_ids ls (goodsReceiptLines s) \<Longrightarrow> procurement_step t s s'"
| confirm_goods_receipt: "confirm_goods_receipt now t i s = (Inr g, s') \<Longrightarrow> procurement_step t s s'"
| inspect_goods_receipt: "inspect_goods_receipt now t i lis s = (Inr g, s') \<Longrightarrow> procurement_step t s s'"
| reject_goods_receipt: "reject_goods_receipt t i s = (Inr g, s') \<Longrightarrow> procurement_step t s s'"
| create_supplier_invoice:
    "create_supplier_invoice now n ls t sii s = (Inr x, s') \<Longrightarrow> fresh n (supplierInvoices s) \<Longrightarrow>
     fresh_ids ls (supplierInvoiceLines s) \<Longrightarrow> procurement_step t s s'"
| run_match: "run_match now t i rm s = (Inr x, s') \<Longrightarrow> procurement_step t s s'"
| approve_supplier_invoice: "approve_supplier_invoice now t i u s = (Inr x, s') \<Longrightarrow> procurement_step t s s'"
| dispute_supplier_invoice: "dispute_supplier_invoice t i why s = (Inr x, s') \<Longrightarrow> procurement_step t s s'"
| reject_supplier_invoice: "reject_supplier_invoice t i s = (Inr x, s') \<Longrightarrow> procurement_step t s s'"
| cancel_supplier_invoice: "cancel_supplier_invoice t i s = (Inr x, s') \<Longrightarrow> procurement_step t s s'"

definition procurement_run :: "procurement_db \<Rightarrow> procurement_db \<Rightarrow> bool" where
  "procurement_run = (\<lambda>s s'. \<exists>t. procurement_step t s s')\<^sup>*\<^sup>*"

abbreviation procurement_reachable :: "procurement_db \<Rightarrow> bool" where
  "procurement_reachable s \<equiv> procurement_run empty_procurement_db s"

section \<open>Frames\<close>

text \<open>Which tables a group of operations leaves alone.\<close>

definition same_pr :: "procurement_db \<Rightarrow> procurement_db \<Rightarrow> bool" where
  "same_pr s s' \<longleftrightarrow> requisitions s' = requisitions s \<and> requisitionLines s' = requisitionLines s"

definition same_po :: "procurement_db \<Rightarrow> procurement_db \<Rightarrow> bool" where
  "same_po s s' \<longleftrightarrow> purchaseOrders s' = purchaseOrders s \<and> purchaseOrderLines s' = purchaseOrderLines s"

definition same_rfq :: "procurement_db \<Rightarrow> procurement_db \<Rightarrow> bool" where
  "same_rfq s s' \<longleftrightarrow> rfqs s' = rfqs s \<and> rfqLines s' = rfqLines s \<and> rfqQuotes s' = rfqQuotes s"

definition same_gr :: "procurement_db \<Rightarrow> procurement_db \<Rightarrow> bool" where
  "same_gr s s' \<longleftrightarrow> goodsReceipts s' = goodsReceipts s \<and> goodsReceiptLines s' = goodsReceiptLines s"

definition same_si :: "procurement_db \<Rightarrow> procurement_db \<Rightarrow> bool" where
  "same_si s s' \<longleftrightarrow> supplierInvoices s' = supplierInvoices s \<and> supplierInvoiceLines s' = supplierInvoiceLines s"

lemmas same_defs = same_pr_def same_po_def same_rfq_def same_gr_def same_si_def

lemma same_inv:
  "same_pr s s' \<Longrightarrow> requisition_inv (requisitions s') = requisition_inv (requisitions s)"
  "same_po s s' \<Longrightarrow> po_inv s' = po_inv s"
  "same_rfq s s' \<Longrightarrow> rfq_inv s' = rfq_inv s"
  "same_gr s s' \<Longrightarrow> gr_inv s' = gr_inv s"
  "same_si s s' \<Longrightarrow> si_inv s' = si_inv s"
  by (simp_all add: same_defs po_inv_def purchase_order_lines_def rfq_inv_def gr_inv_def
      settled_ok_def goods_receipt_lines_def si_inv_def)

lemma requisition_frame:
  "create_requisition y n ls t ri s = (Inr r, s') \<Longrightarrow> same_po s s' \<and> same_rfq s s' \<and> same_gr s s' \<and> same_si s s'"
  "submit_requisition t i s = (Inr r, s') \<Longrightarrow> same_po s s' \<and> same_rfq s s' \<and> same_gr s s' \<and> same_si s s'"
  "approve_requisition now t i u c s = (Inr r, s') \<Longrightarrow> same_po s s' \<and> same_rfq s s' \<and> same_gr s s' \<and> same_si s s'"
  "reject_requisition now t i u cm s = (Inr r, s') \<Longrightarrow> same_po s s' \<and> same_rfq s s' \<and> same_gr s s' \<and> same_si s s'"
  "cancel_requisition t i s = (Inr r, s') \<Longrightarrow> same_po s s' \<and> same_rfq s s' \<and> same_gr s s' \<and> same_si s s'"
  subgoal by (auto simp: create_requisition_def svc_simps Let_def same_defs)
  subgoal by (auto simp: submit_requisition_def svc_simps same_defs)
  subgoal by (erule approve_requisition_Inr) (simp add: same_defs)
  subgoal by (auto simp: reject_requisition_def svc_simps same_defs)
  subgoal by (auto simp: cancel_requisition_def svc_simps same_defs)
  done

lemma po_frame:
  "create_purchase_order y n ls t poi s = (Inr p, s') \<Longrightarrow> same_pr s s' \<and> same_rfq s s' \<and> same_gr s s' \<and> same_si s s'"
  "send_purchase_order now t i s = (Inr p, s') \<Longrightarrow> same_pr s s' \<and> same_rfq s s' \<and> same_gr s s' \<and> same_si s s'"
  "acknowledge_purchase_order now t i s = (Inr p, s') \<Longrightarrow> same_pr s s' \<and> same_rfq s s' \<and> same_gr s s' \<and> same_si s s'"
  "cancel_purchase_order now t i why s = (Inr p, s') \<Longrightarrow> same_pr s s' \<and> same_rfq s s' \<and> same_gr s s' \<and> same_si s s'"
  subgoal by (erule create_purchase_order_Inr) (simp add: same_defs)
  subgoal by (auto simp: send_purchase_order_def svc_simps same_defs)
  subgoal by (auto simp: acknowledge_purchase_order_def svc_simps same_defs)
  subgoal by (auto simp: cancel_purchase_order_def svc_simps same_defs)
  done

lemma convert_frame:
  "convert_requisition_to_po y n ls t i ci s = (Inr p, s') \<Longrightarrow> same_rfq s s' \<and> same_gr s s' \<and> same_si s s'"
  "convert_rfq_to_po y n ls t i qc s = (Inr p, s') \<Longrightarrow> same_pr s s' \<and> same_gr s s' \<and> same_si s s'"
  by (erule convert_requisition_Inr, simp add: same_defs)
    (erule convert_rfq_Inr, simp add: same_defs)

lemma rfq_frame:
  "create_rfq y n ls t qi s = (Inr q, s') \<Longrightarrow> same_pr s s' \<and> same_po s s' \<and> same_gr s s' \<and> same_si s s'"
  "send_rfq qs t i suppliers s = (Inr q, s') \<Longrightarrow> same_pr s s' \<and> same_po s s' \<and> same_gr s s' \<and> same_si s s'"
  "record_supplier_quote now t i qo s = (Inr x, s') \<Longrightarrow> same_pr s s' \<and> same_po s s' \<and> same_gr s s' \<and> same_si s s'"
  "award_rfq now t i qid s = (Inr q, s') \<Longrightarrow> same_pr s s' \<and> same_po s s' \<and> same_gr s s' \<and> same_si s s'"
  "cancel_rfq t i s = (Inr q, s') \<Longrightarrow> same_pr s s' \<and> same_po s s' \<and> same_gr s s' \<and> same_si s s'"
  subgoal by (auto simp: create_rfq_def svc_simps Let_def same_defs)
  subgoal by (erule send_rfq_Inr) (simp add: same_defs)
  subgoal by (erule record_supplier_quote_Inr) (simp add: same_defs)
  subgoal by (erule award_rfq_Inr) (simp add: same_defs)
  subgoal by (auto simp: cancel_rfq_def svc_simps Let_def same_defs)
  done

lemma goods_receipt_frame:
  "create_goods_receipt y n ls t gi s = (Inr g, s') \<Longrightarrow> same_pr s s' \<and> same_po s s' \<and> same_rfq s s' \<and> same_si s s'"
  "confirm_goods_receipt now t i s = (Inr g, s') \<Longrightarrow> same_pr s s' \<and> same_po s s' \<and> same_rfq s s' \<and> same_si s s'"
  "reject_goods_receipt t i s = (Inr g, s') \<Longrightarrow> same_pr s s' \<and> same_po s s' \<and> same_rfq s s' \<and> same_si s s'"
  subgoal by (erule create_goods_receipt_Inr) (simp add: same_defs)
  subgoal by (auto simp: confirm_goods_receipt_def svc_simps same_defs)
  subgoal by (auto simp: reject_goods_receipt_def svc_simps same_defs)
  done

lemma inspect_lines_frame:
  "inspect_lines lis ls s = (Inr ls', s') \<Longrightarrow> \<exists>rows. s' = s\<lparr>goodsReceiptLines := rows\<rparr>"
proof (induction lis arbitrary: ls s)
  case Nil
  then show ?case by (auto simp: svc_simps intro: exI [of _ "goodsReceiptLines s"])
next
  case (Cons li lis)
  from Cons.prems show ?case by (rule inspect_lines_Cons_Inr) (drule Cons.IH, auto)
qed

lemma inspect_frame:
  assumes "inspect_goods_receipt now t i lis s = (Inr g, s')"
  shows "same_pr s s' \<and> same_po s s' \<and> same_rfq s s' \<and> same_si s s'"
  by (rule inspect_goods_receipt_Inr [OF assms], drule inspect_lines_frame) (auto simp: same_defs)

lemma si_frame:
  "create_supplier_invoice now n ls t sii s = (Inr x, s') \<Longrightarrow> same_pr s s' \<and> same_po s s' \<and> same_rfq s s' \<and> same_gr s s'"
  "run_match now t i rm s = (Inr x, s') \<Longrightarrow> same_pr s s' \<and> same_po s s' \<and> same_rfq s s' \<and> same_gr s s'"
  "approve_supplier_invoice now t i u s = (Inr x, s') \<Longrightarrow> same_pr s s' \<and> same_po s s' \<and> same_rfq s s' \<and> same_gr s s'"
  "dispute_supplier_invoice t i why s = (Inr x, s') \<Longrightarrow> same_pr s s' \<and> same_po s s' \<and> same_rfq s s' \<and> same_gr s s'"
  "reject_supplier_invoice t i s = (Inr x, s') \<Longrightarrow> same_pr s s' \<and> same_po s s' \<and> same_rfq s s' \<and> same_gr s s'"
  "cancel_supplier_invoice t i s = (Inr x, s') \<Longrightarrow> same_pr s s' \<and> same_po s s' \<and> same_rfq s s' \<and> same_gr s s'"
  subgoal by (drule create_supplier_invoice_Inr) (simp add: same_defs)
  subgoal by (erule run_match_Inr) (simp add: same_defs)
  subgoal by (auto simp: approve_supplier_invoice_def svc_simps same_defs)
  subgoal by (auto simp: dispute_supplier_invoice_def svc_simps same_defs)
  subgoal by (auto simp: reject_supplier_invoice_def svc_simps same_defs)
  subgoal by (auto simp: cancel_supplier_invoice_def svc_simps same_defs)
  done

section \<open>The invariant\<close>

definition procurement_inv :: "procurement_db \<Rightarrow> bool" where
  "procurement_inv s \<longleftrightarrow>
     requisition_inv (requisitions s) \<and> po_inv s \<and> rfq_inv s \<and> gr_inv s \<and> si_inv s"

lemma procurement_inv_init: "procurement_inv empty_procurement_db"
  by (simp add: procurement_inv_def empty_procurement_db_def po_inv_def rfq_inv_def gr_inv_def si_inv_def
      keyed_def)

lemma procurement_step_inv: "procurement_step t s s' \<Longrightarrow> procurement_inv s \<Longrightarrow> procurement_inv s'"
proof (induction rule: procurement_step.induct)
  case (create_requisition y n ls ri s r s')
  then show ?case using requisition_frame(1) [of y n ls t ri s r s']
    by (auto simp: procurement_inv_def same_inv intro: create_requisition_inv)
next
  case (submit_requisition i s r s')
  then show ?case using requisition_frame(2) [of t i s r s']
    by (auto simp: procurement_inv_def same_inv intro: submit_requisition_inv)
next
  case (approve_requisition now i u c s r s')
  then show ?case using requisition_frame(3) [of now t i u c s r s']
    by (auto simp: procurement_inv_def same_inv intro: approve_requisition_inv)
next
  case (reject_requisition now i u cm s r s')
  then show ?case using requisition_frame(4) [of now t i u cm s r s']
    by (auto simp: procurement_inv_def same_inv intro: reject_requisition_inv)
next
  case (cancel_requisition i s r s')
  then show ?case using requisition_frame(5) [of t i s r s']
    by (auto simp: procurement_inv_def same_inv intro: cancel_requisition_inv)
next
  case (convert_requisition y n ls i ci s p s')
  then show ?case using convert_frame(1) [of y n ls t i ci s p s']
    by (auto simp: procurement_inv_def same_inv intro: convert_requisition_inv convert_requisition_po_inv)
next
  case (create_purchase_order y n ls poi s p s')
  then show ?case using po_frame(1) [of y n ls t poi s p s']
    by (auto simp: procurement_inv_def same_inv intro: create_purchase_order_inv)
next
  case (send_purchase_order now i s p s')
  then show ?case using po_frame(2) [of now t i s p s']
    by (auto simp: procurement_inv_def same_inv intro: po_event_inv)
next
  case (acknowledge_purchase_order now i s p s')
  then show ?case using po_frame(3) [of now t i s p s']
    by (auto simp: procurement_inv_def same_inv intro: po_event_inv)
next
  case (cancel_purchase_order now i why s p s')
  then show ?case using po_frame(4) [of now t i why s p s']
    by (auto simp: procurement_inv_def same_inv intro: po_event_inv)
next
  case (create_rfq y n ls qi s q s')
  then show ?case using rfq_frame(1) [of y n ls t qi s q s']
    by (auto simp: procurement_inv_def same_inv intro: create_rfq_inv)
next
  case (send_rfq qs i suppliers s q s')
  then show ?case using rfq_frame(2) [of qs t i suppliers s q s']
    by (auto simp: procurement_inv_def same_inv intro: send_rfq_inv)
next
  case (record_supplier_quote now i qo s x s')
  then show ?case using rfq_frame(3) [of now t i qo s x s']
    by (auto simp: procurement_inv_def same_inv intro: record_supplier_quote_inv)
next
  case (award_rfq now i qid s q s')
  then show ?case using rfq_frame(4) [of now t i qid s q s']
    by (auto simp: procurement_inv_def same_inv intro: award_rfq_inv)
next
  case (cancel_rfq i s q s')
  then show ?case using rfq_frame(5) [of t i s q s']
    by (auto simp: procurement_inv_def same_inv intro: cancel_rfq_inv)
next
  case (convert_rfq y n ls i qc s p s')
  then show ?case using convert_frame(2) [of y n ls t i qc s p s']
    by (auto simp: procurement_inv_def same_inv intro: convert_rfq_inv convert_rfq_po_inv)
next
  case (create_goods_receipt y n ls gi s g s')
  then show ?case using goods_receipt_frame(1) [of y n ls t gi s g s']
    by (auto simp: procurement_inv_def same_inv intro: create_goods_receipt_inv)
next
  case (confirm_goods_receipt now i s g s')
  then show ?case using goods_receipt_frame(2) [of now t i s g s']
    by (auto simp: procurement_inv_def same_inv intro: confirm_goods_receipt_inv)
next
  case (inspect_goods_receipt now i lis s g s')
  then show ?case using inspect_frame [of now t i lis s g s']
    by (auto simp: procurement_inv_def same_inv intro: inspect_goods_receipt_inv)
next
  case (reject_goods_receipt i s g s')
  then show ?case using goods_receipt_frame(3) [of t i s g s']
    by (auto simp: procurement_inv_def same_inv intro: reject_goods_receipt_inv)
next
  case (create_supplier_invoice now n ls sii s x s')
  then show ?case using si_frame(1) [of now n ls t sii s x s']
    by (auto simp: procurement_inv_def same_inv intro: create_supplier_invoice_inv)
next
  case (run_match now i rm s x s')
  then show ?case using si_frame(2) [of now t i rm s x s']
    by (auto simp: procurement_inv_def same_inv intro: run_match_inv)
next
  case (approve_supplier_invoice now i u s x s')
  then show ?case using si_frame(3) [of now t i u s x s']
    by (auto simp: procurement_inv_def same_inv intro: si_event_inv)
next
  case (dispute_supplier_invoice i why s x s')
  then show ?case using si_frame(4) [of t i why s x s']
    by (auto simp: procurement_inv_def same_inv intro: si_event_inv)
next
  case (reject_supplier_invoice i s x s')
  then show ?case using si_frame(5) [of t i s x s']
    by (auto simp: procurement_inv_def same_inv intro: si_event_inv)
next
  case (cancel_supplier_invoice i s x s')
  then show ?case using si_frame(6) [of t i s x s']
    by (auto simp: procurement_inv_def same_inv intro: si_event_inv)
qed

lemma procurement_run_inv: "procurement_run s s' \<Longrightarrow> procurement_inv s \<Longrightarrow> procurement_inv s'"
  unfolding procurement_run_def by (induction rule: rtranclp_induct) (auto intro: procurement_step_inv)

lemma reachable_inv: "procurement_reachable s \<Longrightarrow> procurement_inv s"
  using procurement_run_inv procurement_inv_init by blast

end
