(* ===== verification/ProcurementProps.thy ===== *)
theory ProcurementProps
  imports Procurement
begin

text \<open>
  What holds of every run of the procurement service: approvals, forward-only
  documents, unique numbers, amounts, awards, and the separation of tenants.
\<close>

section \<open>Documents move forward\<close>

definition documents_advance :: "procurement_db \<Rightarrow> procurement_db \<Rightarrow> bool" where
  "documents_advance s s' \<longleftrightarrow>
     advances can_pr pr_status (requisitions s) (requisitions s') \<and>
     advances can_po po_status (purchaseOrders s) (purchaseOrders s') \<and>
     advances can_rfq rfq_status (rfqs s) (rfqs s') \<and>
     advances can_gr gr_status (goodsReceipts s) (goodsReceipts s') \<and>
     advances can_si si_status (supplierInvoices s) (supplierInvoices s')"

lemma same_advances:
  "same_pr s s' \<Longrightarrow> advances can_pr pr_status (requisitions s) (requisitions s')"
  "same_po s s' \<Longrightarrow> advances can_po po_status (purchaseOrders s) (purchaseOrders s')"
  "same_rfq s s' \<Longrightarrow> advances can_rfq rfq_status (rfqs s) (rfqs s')"
  "same_gr s s' \<Longrightarrow> advances can_gr gr_status (goodsReceipts s) (goodsReceipts s')"
  "same_si s s' \<Longrightarrow> advances can_si si_status (supplierInvoices s) (supplierInvoices s')"
  by (simp_all add: same_defs)

lemma inv_keyed:
  assumes "procurement_inv s"
  shows "keyed (requisitions s)" "keyed (purchaseOrders s)" "keyed (rfqs s)" "keyed (goodsReceipts s)"
    "keyed (supplierInvoices s)" "keyed (rfqQuotes s)"
  using assms
  by (auto simp: procurement_inv_def po_inv_def rfq_inv_def gr_inv_def si_inv_def dest: table_inv_keyed)

text \<open>The requisition operations.\<close>

lemma requisition_advance:
  assumes "keyed (requisitions s)"
  shows "create_requisition y n ls t ri s = (Inr r, s') \<Longrightarrow> fresh n (requisitions s) \<Longrightarrow>
      advances can_pr pr_status (requisitions s) (requisitions s')"
    and "submit_requisition t i s = (Inr r, s') \<Longrightarrow> advances can_pr pr_status (requisitions s) (requisitions s')"
    and "reject_requisition now t i u cm s = (Inr r, s') \<Longrightarrow> advances can_pr pr_status (requisitions s) (requisitions s')"
    and "cancel_requisition t i s = (Inr r, s') \<Longrightarrow> advances can_pr pr_status (requisitions s) (requisitions s')"
    and "convert_requisition_to_po y n ls t i ci s = (Inr p, s') \<Longrightarrow> advances can_pr pr_status (requisitions s) (requisitions s')"
proof -
  show "create_requisition y n ls t ri s = (Inr r, s') \<Longrightarrow> fresh n (requisitions s) \<Longrightarrow>
      advances can_pr pr_status (requisitions s) (requisitions s')"
    by (auto simp: create_requisition_def svc_simps Let_def intro!: advances_insert assms)
next
  assume "submit_requisition t i s = (Inr r, s')"
  then obtain q where q: "find_scoped t i (requisitions s) = Some q" "can_pr (pr_status q) PrSubmitted"
      "r = (if length (pr_approverChain q) = 0 then q\<lparr>pr_status := PrApproved\<rparr> else q\<lparr>pr_status := PrSubmitted\<rparr>)"
      "s' = requisitions_update (save_row r) s"
    by (auto simp: submit_requisition_def svc_simps)
  have "can_pr\<^sup>*\<^sup>* (pr_status q) PrSubmitted" using q(2) by (rule r_into_rtranclp)
  moreover have "can_pr PrSubmitted PrApproved" by (simp add: can_pr_def)
  ultimately have "can_pr\<^sup>*\<^sup>* (pr_status q) (pr_status r)"
    by (auto simp: q(3) intro: rtranclp.rtrancl_into_rtrancl)
  then show "advances can_pr pr_status (requisitions s) (requisitions s')"
    by (simp add: q(4)) (rule advances_update [OF assms q(1)], simp_all add: q(3))
next
  assume "reject_requisition now t i u cm s = (Inr r, s')"
  then obtain q where q: "find_scoped t i (requisitions s) = Some q" "can_pr (pr_status q) PrRejected"
      "r = reject_next now u cm (q\<lparr>pr_status := PrRejected\<rparr>)" "s' = requisitions_update (save_row r) s"
    unfolding reject_requisition_def transition_requisition_Inr by blast
  moreover have "pr_status r = PrRejected" by (simp add: q(3) reject_next_def split: option.split)
  ultimately show "advances can_pr pr_status (requisitions s) (requisitions s')"
    by simp (rule advances_update [OF assms q(1)], simp_all add: r_into_rtranclp)
next
  assume "cancel_requisition t i s = (Inr r, s')"
  then obtain q where q: "find_scoped t i (requisitions s) = Some q" "can_pr (pr_status q) PrCancelled"
      "s' = requisitions_update (save_row (q\<lparr>pr_status := PrCancelled\<rparr>)) s"
    by (auto simp: cancel_requisition_def svc_simps)
  then show "advances can_pr pr_status (requisitions s) (requisitions s')"
    by simp (rule advances_update [OF assms q(1)], simp_all add: r_into_rtranclp)
next
  assume "convert_requisition_to_po y n ls t i ci s = (Inr p, s')"
  then obtain q where q: "find_scoped t i (requisitions s) = Some q" "pr_status q = PrApproved"
      "requisitions s' = save_row (q\<lparr>pr_status := PrConverted, pr_convertedTo := Some n\<rparr>) (requisitions s)"
    by (rule convert_requisition_Inr) simp
  have "can_pr PrApproved PrConverted" by (simp add: can_pr_def)
  then show "advances can_pr pr_status (requisitions s) (requisitions s')"
    unfolding q(3) by (intro advances_update [OF assms q(1)]) (simp_all add: q(2) r_into_rtranclp)
qed

lemma approve_advance:
  assumes "requisition_inv (requisitions s)" and "approve_requisition now t i u c s = (Inr r, s')"
  shows "advances can_pr pr_status (requisitions s) (requisitions s')"
  using assms(2)
proof (rule approve_requisition_Inr)
  fix q x
  assume q: "find_scoped t i (requisitions s) = Some q"
      "pr_status q = PrSubmitted \<or> pr_status q = PrApproved"
    and r: "r = q\<lparr>pr_approverChain := mark_next (approve_step now u c) (pr_approverChain q),
                  pr_status := (if is_approval_chain_complete (mark_next (approve_step now u c) (pr_approverChain q))
                                then PrApproved else pr_status q)\<rparr>"
    and s': "s' = requisitions_update (save_row r) s"
  have "can_pr\<^sup>*\<^sup>* (pr_status q) (pr_status r)" using q(2) by (auto simp: r can_pr_def intro: r_into_rtranclp)
  then show ?thesis
    using assms(1) by (simp add: s') (rule advances_update [OF _ q(1)], simp_all add: r table_inv_keyed)
qed

lemma po_advance:
  assumes "keyed (purchaseOrders s)"
  shows "transition_purchase_order t i nxt m s = (Inr p, s') \<Longrightarrow> (\<And>x. po_core (m x) = po_core x \<and> po_status (m x) = po_status x) \<Longrightarrow>
      advances can_po po_status (purchaseOrders s) (purchaseOrders s')"
    and "purchaseOrders s' = save_row p (purchaseOrders s) \<Longrightarrow> ent_id p = n \<Longrightarrow> fresh n (purchaseOrders s) \<Longrightarrow>
      advances can_po po_status (purchaseOrders s) (purchaseOrders s')"
proof -
  assume run: "transition_purchase_order t i nxt m s = (Inr p, s')"
    and m: "\<And>x. po_core (m x) = po_core x \<and> po_status (m x) = po_status x"
  from run obtain q where q: "find_scoped t i (purchaseOrders s) = Some q" "can_po (po_status q) nxt"
      "p = m (q\<lparr>po_status := nxt\<rparr>)" "s' = purchaseOrders_update (save_row p) s"
    unfolding transition_purchase_order_Inr by blast
  have "ent_id p = ent_id q" "tenantId p = tenantId q" "po_status p = nxt"
    using m [of "q\<lparr>po_status := nxt\<rparr>"] by (simp_all add: q(3) po_core_def)
  then show "advances can_po po_status (purchaseOrders s) (purchaseOrders s')"
    using q(2) by (simp add: q(4)) (rule advances_update [OF assms q(1)], simp_all add: r_into_rtranclp)
qed (use assms advances_insert [of "purchaseOrders s" p] in simp)

lemma po_events_advance:
  assumes "keyed (purchaseOrders s)"
  shows "send_purchase_order now t i s = (Inr p, s') \<Longrightarrow> advances can_po po_status (purchaseOrders s) (purchaseOrders s')"
    and "acknowledge_purchase_order now t i s = (Inr p, s') \<Longrightarrow> advances can_po po_status (purchaseOrders s) (purchaseOrders s')"
    and "cancel_purchase_order now t i why s = (Inr p, s') \<Longrightarrow> advances can_po po_status (purchaseOrders s) (purchaseOrders s')"
  unfolding send_purchase_order_def acknowledge_purchase_order_def cancel_purchase_order_def
  by (erule po_advance(1) [OF assms], simp add: po_core_def)+

lemma po_created_advance:
  assumes "keyed (purchaseOrders s)" and "fresh n (purchaseOrders s)"
  shows "create_purchase_order y n ls t poi s = (Inr p, s') \<Longrightarrow> advances can_po po_status (purchaseOrders s) (purchaseOrders s')"
    and "convert_requisition_to_po y n ls t i ci s = (Inr p, s') \<Longrightarrow> advances can_po po_status (purchaseOrders s) (purchaseOrders s')"
    and "convert_rfq_to_po y n ls t i qc s = (Inr p, s') \<Longrightarrow> advances can_po po_status (purchaseOrders s) (purchaseOrders s')"
  subgoal by (erule create_purchase_order_Inr) (rule po_advance(2) [OF assms(1) _ _ assms(2), of _ p], simp_all)
  subgoal by (erule convert_requisition_Inr) (rule po_advance(2) [OF assms(1) _ _ assms(2), of _ p], simp_all)
  subgoal by (erule convert_rfq_Inr) (rule po_advance(2) [OF assms(1) _ _ assms(2), of _ p], simp_all)
  done

lemma rfq_advance:
  assumes "keyed (rfqs s)"
  shows "create_rfq y n ls t qi s = (Inr q, s') \<Longrightarrow> fresh n (rfqs s) \<Longrightarrow> advances can_rfq rfq_status (rfqs s) (rfqs s')"
    and "send_rfq qs t i suppliers s = (Inr q, s') \<Longrightarrow> advances can_rfq rfq_status (rfqs s) (rfqs s')"
    and "record_supplier_quote now t i qo s = (Inr x, s') \<Longrightarrow> advances can_rfq rfq_status (rfqs s) (rfqs s')"
    and "award_rfq now t i qid s = (Inr q, s') \<Longrightarrow> advances can_rfq rfq_status (rfqs s) (rfqs s')"
    and "cancel_rfq t i s = (Inr q, s') \<Longrightarrow> advances can_rfq rfq_status (rfqs s) (rfqs s')"
    and "convert_rfq_to_po y n ls t i qc s = (Inr p, s') \<Longrightarrow> advances can_rfq rfq_status (rfqs s) (rfqs s')"
proof -
  have step: "advances can_rfq rfq_status (rfqs s) (save_row r (rfqs s))"
    if "find_scoped t i (rfqs s) = Some q" "can_rfq (rfq_status q) (rfq_status r)"
      "ent_id r = ent_id q" "tenantId r = tenantId q" for q r
    using that by (intro advances_update [OF assms]) auto
  show "create_rfq y n ls t qi s = (Inr q, s') \<Longrightarrow> fresh n (rfqs s) \<Longrightarrow> advances can_rfq rfq_status (rfqs s) (rfqs s')"
    by (auto simp: create_rfq_def svc_simps Let_def intro!: advances_insert assms)
  show "send_rfq qs t i suppliers s = (Inr q, s') \<Longrightarrow> advances can_rfq rfq_status (rfqs s) (rfqs s')"
    by (erule send_rfq_Inr) (simp, rule step, simp_all add: can_rfq_def)
  show "record_supplier_quote now t i qo s = (Inr x, s') \<Longrightarrow> advances can_rfq rfq_status (rfqs s) (rfqs s')"
    by (erule record_supplier_quote_Inr) (auto intro!: step simp: can_rfq_def)
  show "award_rfq now t i qid s = (Inr q, s') \<Longrightarrow> advances can_rfq rfq_status (rfqs s) (rfqs s')"
    by (erule award_rfq_Inr) (simp, rule step, simp_all add: can_rfq_def)
  show "cancel_rfq t i s = (Inr q, s') \<Longrightarrow> advances can_rfq rfq_status (rfqs s) (rfqs s')"
    by (auto simp: cancel_rfq_def svc_simps Let_def intro!: step)
  show "convert_rfq_to_po y n ls t i qc s = (Inr p, s') \<Longrightarrow> advances can_rfq rfq_status (rfqs s) (rfqs s')"
    by (erule convert_rfq_Inr) (simp, rule step, simp_all add: can_rfq_def)
qed

lemma gr_advance:
  assumes "keyed (goodsReceipts s)"
  shows "create_goods_receipt y n ls t gi s = (Inr g, s') \<Longrightarrow> fresh n (goodsReceipts s) \<Longrightarrow>
      advances can_gr gr_status (goodsReceipts s) (goodsReceipts s')"
    and "confirm_goods_receipt now t i s = (Inr g, s') \<Longrightarrow> advances can_gr gr_status (goodsReceipts s) (goodsReceipts s')"
    and "reject_goods_receipt t i s = (Inr g, s') \<Longrightarrow> advances can_gr gr_status (goodsReceipts s) (goodsReceipts s')"
    and "inspect_goods_receipt now t i lis s = (Inr g, s') \<Longrightarrow> advances can_gr gr_status (goodsReceipts s) (goodsReceipts s')"
proof -
  have step: "advances can_gr gr_status (goodsReceipts s) (save_row r (goodsReceipts s))"
    if "find_scoped t i (goodsReceipts s) = Some q" "can_gr (gr_status q) (gr_status r)"
      "ent_id r = ent_id q" "tenantId r = tenantId q" for q r
    using that by (intro advances_update [OF assms]) auto
  show "create_goods_receipt y n ls t gi s = (Inr g, s') \<Longrightarrow> fresh n (goodsReceipts s) \<Longrightarrow>
      advances can_gr gr_status (goodsReceipts s) (goodsReceipts s')"
    by (erule create_goods_receipt_Inr) (simp, rule advances_insert [OF assms], simp)
  show "confirm_goods_receipt now t i s = (Inr g, s') \<Longrightarrow> advances can_gr gr_status (goodsReceipts s) (goodsReceipts s')"
    by (auto simp: confirm_goods_receipt_def svc_simps intro!: step)
  show "reject_goods_receipt t i s = (Inr g, s') \<Longrightarrow> advances can_gr gr_status (goodsReceipts s) (goodsReceipts s')"
    by (auto simp: reject_goods_receipt_def svc_simps intro!: step)
  show "inspect_goods_receipt now t i lis s = (Inr g, s') \<Longrightarrow> advances can_gr gr_status (goodsReceipts s) (goodsReceipts s')"
  proof (erule inspect_goods_receipt_Inr)
    fix q ls u
    assume q: "find_scoped t i (goodsReceipts s) = Some q"
        "gr_status q = GrConfirmed \<or> gr_status q = GrPartiallyInspected"
      and run: "inspect_lines lis (goods_receipt_lines i s) s = (Inr ls, u)"
      and g: "g = q\<lparr>gr_status := (if list_all line_settled ls then GrInspected else GrPartiallyInspected),
           gr_inspectedAt := (if list_all line_settled ls then Some now else gr_inspectedAt q)\<rparr>"
      and s': "s' = goodsReceipts_update (save_row g) u"
    have "goodsReceipts u = goodsReceipts s" using inspect_lines_frame [OF run] by auto
    then show ?thesis
      using q by (auto simp: s' g can_gr_def intro!: step)
  qed
qed

lemma si_advance:
  assumes "keyed (supplierInvoices s)"
  shows "create_supplier_invoice now n ls t sii s = (Inr x, s') \<Longrightarrow> fresh n (supplierInvoices s) \<Longrightarrow>
      advances can_si si_status (supplierInvoices s) (supplierInvoices s')"
    and "run_match now t i rm s = (Inr x, s') \<Longrightarrow> advances can_si si_status (supplierInvoices s) (supplierInvoices s')"
    and "approve_supplier_invoice now t i u s = (Inr x, s') \<Longrightarrow> advances can_si si_status (supplierInvoices s) (supplierInvoices s')"
    and "dispute_supplier_invoice t i why s = (Inr x, s') \<Longrightarrow> advances can_si si_status (supplierInvoices s) (supplierInvoices s')"
    and "reject_supplier_invoice t i s = (Inr x, s') \<Longrightarrow> advances can_si si_status (supplierInvoices s) (supplierInvoices s')"
    and "cancel_supplier_invoice t i s = (Inr x, s') \<Longrightarrow> advances can_si si_status (supplierInvoices s) (supplierInvoices s')"
proof -
  have step: "advances can_si si_status (supplierInvoices s) (save_row r (supplierInvoices s))"
    if "find_scoped t i (supplierInvoices s) = Some q" "can_si (si_status q) (si_status r)"
      "ent_id r = ent_id q" "tenantId r = tenantId q" for q r
    using that by (intro advances_update [OF assms]) auto
  show "create_supplier_invoice now n ls t sii s = (Inr x, s') \<Longrightarrow> fresh n (supplierInvoices s) \<Longrightarrow>
      advances can_si si_status (supplierInvoices s) (supplierInvoices s')"
    by (drule create_supplier_invoice_Inr) (auto intro: advances_insert [OF assms])
  show "run_match now t i rm s = (Inr x, s') \<Longrightarrow> advances can_si si_status (supplierInvoices s) (supplierInvoices s')"
  proof (erule run_match_Inr)
    fix q result pols
    assume q: "find_scoped t i (supplierInvoices s) = Some q" "si_status q = SiReceived"
      "x = q\<lparr>si_discrepancies := (if length (discrepancies result) \<noteq> 0 then Some (discrepancies result) else None),
             si_status := (if matched result then SiMatched else SiDisputed),
             si_matchedAt := (if matched result then Some now else si_matchedAt q), si_poIds := pols\<rparr>"
      "s' = supplierInvoices_update (save_row x) s"
    have "supplierInvoices s' = save_row x (supplierInvoices s)" by (simp add: q(4))
    moreover have "can_si (si_status q) (si_status x)" "ent_id x = ent_id q" "tenantId x = tenantId q"
      using q(2) by (simp_all add: q(3) can_si_def)
    ultimately show ?thesis using step [OF q(1), of x] by simp
  qed
  show "approve_supplier_invoice now t i u s = (Inr x, s') \<Longrightarrow> advances can_si si_status (supplierInvoices s) (supplierInvoices s')"
    by (auto simp: approve_supplier_invoice_def svc_simps intro!: step)
  show "dispute_supplier_invoice t i why s = (Inr x, s') \<Longrightarrow> advances can_si si_status (supplierInvoices s) (supplierInvoices s')"
    by (auto simp: dispute_supplier_invoice_def svc_simps intro!: step)
  show "reject_supplier_invoice t i s = (Inr x, s') \<Longrightarrow> advances can_si si_status (supplierInvoices s) (supplierInvoices s')"
    by (auto simp: reject_supplier_invoice_def svc_simps intro!: step)
  show "cancel_supplier_invoice t i s = (Inr x, s') \<Longrightarrow> advances can_si si_status (supplierInvoices s) (supplierInvoices s')"
    by (auto simp: cancel_supplier_invoice_def svc_simps intro!: step)
qed

lemma procurement_step_advance:
  assumes "procurement_step t s s'" and "procurement_inv s"
  shows "documents_advance s s'"
  using assms(1)
proof cases
  case create_requisition
  note k = inv_keyed [OF assms(2)]
  show ?thesis using requisition_frame(1) [OF create_requisition(1)] requisition_advance(1) [OF k(1) create_requisition(1,2)]
    by (simp add: documents_advance_def same_advances)
next
  case submit_requisition
  note k = inv_keyed [OF assms(2)]
  show ?thesis using requisition_frame(2) [OF submit_requisition(1)] requisition_advance(2) [OF k(1) submit_requisition(1)]
    by (simp add: documents_advance_def same_advances)
next
  case approve_requisition
  note k = inv_keyed [OF assms(2)]
  have pr: "requisition_inv (requisitions s)" using assms(2) by (simp add: procurement_inv_def)
  show ?thesis using requisition_frame(3) [OF approve_requisition(1)] approve_advance [OF pr approve_requisition(1)]
    by (simp add: documents_advance_def same_advances)
next
  case reject_requisition
  note k = inv_keyed [OF assms(2)]
  show ?thesis using requisition_frame(4) [OF reject_requisition(1)] requisition_advance(3) [OF k(1) reject_requisition(1)]
    by (simp add: documents_advance_def same_advances)
next
  case cancel_requisition
  note k = inv_keyed [OF assms(2)]
  show ?thesis using requisition_frame(5) [OF cancel_requisition(1)] requisition_advance(4) [OF k(1) cancel_requisition(1)]
    by (simp add: documents_advance_def same_advances)
next
  case convert_requisition
  note k = inv_keyed [OF assms(2)]
  show ?thesis using convert_frame(1) [OF convert_requisition(1)] requisition_advance(5) [OF k(1) convert_requisition(1)] po_created_advance(2) [OF k(2) convert_requisition(2) convert_requisition(1)]
    by (simp add: documents_advance_def same_advances)
next
  case create_purchase_order
  note k = inv_keyed [OF assms(2)]
  show ?thesis using po_frame(1) [OF create_purchase_order(1)] po_created_advance(1) [OF k(2) create_purchase_order(2) create_purchase_order(1)]
    by (simp add: documents_advance_def same_advances)
next
  case send_purchase_order
  note k = inv_keyed [OF assms(2)]
  show ?thesis using po_frame(2) [OF send_purchase_order(1)] po_events_advance(1) [OF k(2) send_purchase_order(1)]
    by (simp add: documents_advance_def same_advances)
next
  case acknowledge_purchase_order
  note k = inv_keyed [OF assms(2)]
  show ?thesis using po_frame(3) [OF acknowledge_purchase_order(1)] po_events_advance(2) [OF k(2) acknowledge_purchase_order(1)]
    by (simp add: documents_advance_def same_advances)
next
  case cancel_purchase_order
  note k = inv_keyed [OF assms(2)]
  show ?thesis using po_frame(4) [OF cancel_purchase_order(1)] po_events_advance(3) [OF k(2) cancel_purchase_order(1)]
    by (simp add: documents_advance_def same_advances)
next
  case create_rfq
  note k = inv_keyed [OF assms(2)]
  show ?thesis using rfq_frame(1) [OF create_rfq(1)] rfq_advance(1) [OF k(3) create_rfq(1,2)]
    by (simp add: documents_advance_def same_advances)
next
  case send_rfq
  note k = inv_keyed [OF assms(2)]
  show ?thesis using rfq_frame(2) [OF send_rfq(1)] rfq_advance(2) [OF k(3) send_rfq(1)]
    by (simp add: documents_advance_def same_advances)
next
  case record_supplier_quote
  note k = inv_keyed [OF assms(2)]
  show ?thesis using rfq_frame(3) [OF record_supplier_quote(1)] rfq_advance(3) [OF k(3) record_supplier_quote(1)]
    by (simp add: documents_advance_def same_advances)
next
  case award_rfq
  note k = inv_keyed [OF assms(2)]
  show ?thesis using rfq_frame(4) [OF award_rfq(1)] rfq_advance(4) [OF k(3) award_rfq(1)]
    by (simp add: documents_advance_def same_advances)
next
  case cancel_rfq
  note k = inv_keyed [OF assms(2)]
  show ?thesis using rfq_frame(5) [OF cancel_rfq(1)] rfq_advance(5) [OF k(3) cancel_rfq(1)]
    by (simp add: documents_advance_def same_advances)
next
  case convert_rfq
  note k = inv_keyed [OF assms(2)]
  show ?thesis using convert_frame(2) [OF convert_rfq(1)] rfq_advance(6) [OF k(3) convert_rfq(1)] po_created_advance(3) [OF k(2) convert_rfq(2) convert_rfq(1)]
    by (simp add: documents_advance_def same_advances)
next
  case create_goods_receipt
  note k = inv_keyed [OF assms(2)]
  show ?thesis using goods_receipt_frame(1) [OF create_goods_receipt(1)] gr_advance(1) [OF k(4) create_goods_receipt(1,2)]
    by (simp add: documents_advance_def same_advances)
next
  case confirm_goods_receipt
  note k = inv_keyed [OF assms(2)]
  show ?thesis using goods_receipt_frame(2) [OF confirm_goods_receipt(1)] gr_advance(2) [OF k(4) confirm_goods_receipt(1)]
    by (simp add: documents_advance_def same_advances)
next
  case inspect_goods_receipt
  note k = inv_keyed [OF assms(2)]
  show ?thesis using inspect_frame [OF inspect_goods_receipt(1)] gr_advance(4) [OF k(4) inspect_goods_receipt(1)]
    by (simp add: documents_advance_def same_advances)
next
  case reject_goods_receipt
  note k = inv_keyed [OF assms(2)]
  show ?thesis using goods_receipt_frame(3) [OF reject_goods_receipt(1)] gr_advance(3) [OF k(4) reject_goods_receipt(1)]
    by (simp add: documents_advance_def same_advances)
next
  case create_supplier_invoice
  note k = inv_keyed [OF assms(2)]
  show ?thesis using si_frame(1) [OF create_supplier_invoice(1)] si_advance(1) [OF k(5) create_supplier_invoice(1,2)]
    by (simp add: documents_advance_def same_advances)
next
  case run_match
  note k = inv_keyed [OF assms(2)]
  show ?thesis using si_frame(2) [OF run_match(1)] si_advance(2) [OF k(5) run_match(1)]
    by (simp add: documents_advance_def same_advances)
next
  case approve_supplier_invoice
  note k = inv_keyed [OF assms(2)]
  show ?thesis using si_frame(3) [OF approve_supplier_invoice(1)] si_advance(3) [OF k(5) approve_supplier_invoice(1)]
    by (simp add: documents_advance_def same_advances)
next
  case dispute_supplier_invoice
  note k = inv_keyed [OF assms(2)]
  show ?thesis using si_frame(4) [OF dispute_supplier_invoice(1)] si_advance(4) [OF k(5) dispute_supplier_invoice(1)]
    by (simp add: documents_advance_def same_advances)
next
  case reject_supplier_invoice
  note k = inv_keyed [OF assms(2)]
  show ?thesis using si_frame(5) [OF reject_supplier_invoice(1)] si_advance(5) [OF k(5) reject_supplier_invoice(1)]
    by (simp add: documents_advance_def same_advances)
next
  case cancel_supplier_invoice
  note k = inv_keyed [OF assms(2)]
  show ?thesis using si_frame(6) [OF cancel_supplier_invoice(1)] si_advance(6) [OF k(5) cancel_supplier_invoice(1)]
    by (simp add: documents_advance_def same_advances)
qed

section \<open>Tenants do not touch each other's rows\<close>

text \<open>
  Everything a tenant does not own, except the lines of goods receipts: an inspection
  loads those through the receipt and not by tenant.
\<close>

definition foreign_view where
  "foreign_view t s =
     (foreign_rows t (requisitions s), foreign_rows t (requisitionLines s),
      foreign_rows t (purchaseOrders s), foreign_rows t (purchaseOrderLines s),
      foreign_rows t (rfqs s), foreign_rows t (rfqLines s), foreign_rows t (rfqQuotes s),
      foreign_rows t (goodsReceipts s), foreign_rows t (supplierInvoices s),
      foreign_rows t (supplierInvoiceLines s))"

lemma line_tenants [simp]:
  "tenantId (requisition_line_of t n i rli) = t" "ent_id (requisition_line_of t n i rli) = i"
  "tenantId (po_line_of t n i pli) = t" "tenantId (converted_line_of t n i rl) = t"
  "tenantId (quoted_line_of t n cs i ql) = t" "tenantId (rfq_line_of t n i rql) = t"
  "ent_id (rfq_line_of t n i rql) = i" "tenantId (quote_of t n i supp) = t"
  "tenantId (si_line_of t n i sl) = t" "ent_id (si_line_of t n i sl) = i"
  by (simp_all add: requisition_line_of_def po_line_of_def converted_line_of_def quoted_line_of_def
      rfq_line_of_def quote_of_def si_line_of_def Let_def)

lemma foreign_own:
  assumes "keyed rows" and "find_scoped t i rows = Some q" and "ent_id r = ent_id q" "tenantId r = tenantId q"
  shows "foreign_rows t (save_row r rows) = foreign_rows t rows"
  using assms find_scoped_Some [OF assms(2)] by (intro foreign_update [OF assms(1,2)]) simp_all

lemma requisition_foreign:
  assumes k: "keyed (requisitions s)"
  shows "create_requisition y n ls t ri s = (Inr r, s') \<Longrightarrow> fresh n (requisitions s) \<Longrightarrow> fresh_ids ls (requisitionLines s) \<Longrightarrow>
      foreign_rows t (requisitions s') = foreign_rows t (requisitions s) \<and>
      foreign_rows t (requisitionLines s') = foreign_rows t (requisitionLines s)"
    and "submit_requisition t i s = (Inr r, s') \<Longrightarrow> foreign_rows t (requisitions s') = foreign_rows t (requisitions s) \<and>
      requisitionLines s' = requisitionLines s"
    and "approve_requisition now t i u c s = (Inr r, s') \<Longrightarrow> foreign_rows t (requisitions s') = foreign_rows t (requisitions s) \<and>
      requisitionLines s' = requisitionLines s"
    and "reject_requisition now t i u cm s = (Inr r, s') \<Longrightarrow> foreign_rows t (requisitions s') = foreign_rows t (requisitions s) \<and>
      requisitionLines s' = requisitionLines s"
    and "cancel_requisition t i s = (Inr r, s') \<Longrightarrow> foreign_rows t (requisitions s') = foreign_rows t (requisitions s) \<and>
      requisitionLines s' = requisitionLines s"
    and "convert_requisition_to_po y n ls t i ci s = (Inr p, s') \<Longrightarrow> foreign_rows t (requisitions s') = foreign_rows t (requisitions s) \<and>
      requisitionLines s' = requisitionLines s"
  subgoal by (auto simp: create_requisition_def svc_simps Let_def foreign_insert foreign_lines)
  subgoal by (auto simp: submit_requisition_def svc_simps intro!: foreign_own [OF k])
  subgoal by (erule approve_requisition_Inr) (auto intro!: foreign_own [OF k])
  subgoal unfolding reject_requisition_def transition_requisition_Inr by (auto intro!: foreign_own [OF k])
  subgoal by (auto simp: cancel_requisition_def svc_simps intro!: foreign_own [OF k])
  subgoal by (erule convert_requisition_Inr) (simp, erule foreign_own [OF k], simp_all)
  done

lemma po_foreign:
  assumes k: "keyed (purchaseOrders s)"
  shows "transition_purchase_order t i nx m s = (Inr p, s') \<Longrightarrow> (\<And>x. po_core (m x) = po_core x) \<Longrightarrow>
      foreign_rows t (purchaseOrders s') = foreign_rows t (purchaseOrders s) \<and> purchaseOrderLines s' = purchaseOrderLines s"
    and "create_purchase_order y n ls t poi s = (Inr p, s') \<Longrightarrow> fresh n (purchaseOrders s) \<Longrightarrow> fresh_ids ls (purchaseOrderLines s) \<Longrightarrow>
      foreign_rows t (purchaseOrders s') = foreign_rows t (purchaseOrders s) \<and>
      foreign_rows t (purchaseOrderLines s') = foreign_rows t (purchaseOrderLines s)"
    and "convert_requisition_to_po y n ls t i ci s = (Inr p, s') \<Longrightarrow> fresh n (purchaseOrders s) \<Longrightarrow> fresh_ids ls (purchaseOrderLines s) \<Longrightarrow>
      foreign_rows t (purchaseOrders s') = foreign_rows t (purchaseOrders s) \<and>
      foreign_rows t (purchaseOrderLines s') = foreign_rows t (purchaseOrderLines s)"
    and "convert_rfq_to_po y n ls t i qc s = (Inr p, s') \<Longrightarrow> fresh n (purchaseOrders s) \<Longrightarrow> fresh_ids ls (purchaseOrderLines s) \<Longrightarrow>
      foreign_rows t (purchaseOrders s') = foreign_rows t (purchaseOrders s) \<and>
      foreign_rows t (purchaseOrderLines s') = foreign_rows t (purchaseOrderLines s)"
  subgoal premises p
  proof -
    from p(1) obtain q where q: "find_scoped t i (purchaseOrders s) = Some q" "p = m (q\<lparr>po_status := nx\<rparr>)"
        "s' = purchaseOrders_update (save_row p) s"
      unfolding transition_purchase_order_Inr by blast
    then show ?thesis using p(2) [of "q\<lparr>po_status := nx\<rparr>"] by (auto simp: po_core_def intro!: foreign_own [OF k])
  qed
  subgoal by (erule create_purchase_order_Inr) (simp add: foreign_insert foreign_lines)
  subgoal by (erule convert_requisition_Inr) (simp add: foreign_insert foreign_lines)
  subgoal by (erule convert_rfq_Inr) (simp add: foreign_insert foreign_lines)
  done

lemma po_events_foreign:
  assumes k: "keyed (purchaseOrders s)"
  shows "send_purchase_order now t i s = (Inr p, s') \<Longrightarrow>
      foreign_rows t (purchaseOrders s') = foreign_rows t (purchaseOrders s) \<and> purchaseOrderLines s' = purchaseOrderLines s"
    and "acknowledge_purchase_order now t i s = (Inr p, s') \<Longrightarrow>
      foreign_rows t (purchaseOrders s') = foreign_rows t (purchaseOrders s) \<and> purchaseOrderLines s' = purchaseOrderLines s"
    and "cancel_purchase_order now t i why s = (Inr p, s') \<Longrightarrow>
      foreign_rows t (purchaseOrders s') = foreign_rows t (purchaseOrders s) \<and> purchaseOrderLines s' = purchaseOrderLines s"
  unfolding send_purchase_order_def acknowledge_purchase_order_def cancel_purchase_order_def
  by (erule po_foreign(1) [OF k], simp add: po_core_def)+

lemma rfq_foreign:
  assumes k: "keyed (rfqs s)" and kq: "keyed (rfqQuotes s)"
  shows "create_rfq y n ls t qi s = (Inr q, s') \<Longrightarrow> fresh n (rfqs s) \<Longrightarrow> fresh_ids ls (rfqLines s) \<Longrightarrow> 
      foreign_rows t (rfqs s') = foreign_rows t (rfqs s) \<and> foreign_rows t (rfqLines s') = foreign_rows t (rfqLines s) \<and>
      foreign_rows t (rfqQuotes s') = foreign_rows t (rfqQuotes s)"
    and "send_rfq qs t i suppliers s = (Inr q, s') \<Longrightarrow> fresh_ids qs (rfqQuotes s) \<Longrightarrow> 
      foreign_rows t (rfqs s') = foreign_rows t (rfqs s) \<and> foreign_rows t (rfqLines s') = foreign_rows t (rfqLines s) \<and>
      foreign_rows t (rfqQuotes s') = foreign_rows t (rfqQuotes s)"
    and "record_supplier_quote now t i qo s = (Inr x, s') \<Longrightarrow> 
      foreign_rows t (rfqs s') = foreign_rows t (rfqs s) \<and> foreign_rows t (rfqLines s') = foreign_rows t (rfqLines s) \<and>
      foreign_rows t (rfqQuotes s') = foreign_rows t (rfqQuotes s)"
    and "award_rfq now t i qid s = (Inr q, s') \<Longrightarrow> 
      foreign_rows t (rfqs s') = foreign_rows t (rfqs s) \<and> foreign_rows t (rfqLines s') = foreign_rows t (rfqLines s) \<and>
      foreign_rows t (rfqQuotes s') = foreign_rows t (rfqQuotes s)"
    and "cancel_rfq t i s = (Inr q, s') \<Longrightarrow> 
      foreign_rows t (rfqs s') = foreign_rows t (rfqs s) \<and> foreign_rows t (rfqLines s') = foreign_rows t (rfqLines s) \<and>
      foreign_rows t (rfqQuotes s') = foreign_rows t (rfqQuotes s)"
    and "convert_rfq_to_po y n ls t i qc s = (Inr p, s') \<Longrightarrow> 
      foreign_rows t (rfqs s') = foreign_rows t (rfqs s) \<and> foreign_rows t (rfqLines s') = foreign_rows t (rfqLines s) \<and>
      foreign_rows t (rfqQuotes s') = foreign_rows t (rfqQuotes s)"
  subgoal by (auto simp: create_rfq_def svc_simps Let_def foreign_insert foreign_lines)
  subgoal by (erule send_rfq_Inr) (auto simp: foreign_lines intro!: foreign_own [OF k])
  subgoal
  proof (erule record_supplier_quote_Inr)
    fix r q
    assume r: "find_scoped t i (rfqs s) = Some r"
      and q: "find_quote_of_supplier t i (qo_supplierId qo) (rfqQuotes s) = Some q"
      and x: "ent_id x = ent_id q" "tenantId x = tenantId q"
      and s': "s' = s\<lparr>rfqQuotes := save_row x (rfqQuotes s),
            rfqs := (if rfq_status r = RfqSent then save_row (r\<lparr>rfq_status := RfqQuotesReceived\<rparr>) (rfqs s)
                     else rfqs s)\<rparr>"
    have "q \<in> set (rfqQuotes s)" "tenantId q = t"
      using q by (auto simp: find_quote_of_supplier_def find_Some_iff)
    then have "find_scoped t (ent_id q) (rfqQuotes s) = Some q" using kq by (simp add: find_scoped_keyed)
    then have "foreign_rows t (save_row x (rfqQuotes s)) = foreign_rows t (rfqQuotes s)"
      using x by (rule foreign_own [OF kq])
    then show ?thesis using foreign_own [OF k r] by (simp add: s')
  qed
  subgoal by (erule award_rfq_Inr) (auto intro!: foreign_own [OF k])
  subgoal by (auto simp: cancel_rfq_def svc_simps Let_def intro!: foreign_own [OF k])
  subgoal by (erule convert_rfq_Inr) (auto intro!: foreign_own [OF k])
  done

lemma gr_foreign:
  assumes k: "keyed (goodsReceipts s)"
  shows "create_goods_receipt y n ls t gi s = (Inr g, s') \<Longrightarrow> fresh n (goodsReceipts s) \<Longrightarrow> 
      foreign_rows t (goodsReceipts s') = foreign_rows t (goodsReceipts s)"
    and "confirm_goods_receipt now t i s = (Inr g, s') \<Longrightarrow> foreign_rows t (goodsReceipts s') = foreign_rows t (goodsReceipts s)"
    and "reject_goods_receipt t i s = (Inr g, s') \<Longrightarrow> foreign_rows t (goodsReceipts s') = foreign_rows t (goodsReceipts s)"
    and "inspect_goods_receipt now t i lis s = (Inr g, s') \<Longrightarrow> foreign_rows t (goodsReceipts s') = foreign_rows t (goodsReceipts s)"
  subgoal by (erule create_goods_receipt_Inr) (simp add: foreign_insert)
  subgoal by (auto simp: confirm_goods_receipt_def svc_simps intro!: foreign_own [OF k])
  subgoal by (auto simp: reject_goods_receipt_def svc_simps intro!: foreign_own [OF k])
  subgoal by (erule inspect_goods_receipt_Inr, drule inspect_lines_frame) (auto intro!: foreign_own [OF k])
  done

lemma si_foreign:
  assumes k: "keyed (supplierInvoices s)"
  shows "create_supplier_invoice now n ls t sii s = (Inr x, s') \<Longrightarrow> fresh n (supplierInvoices s) \<Longrightarrow> 
      fresh_ids ls (supplierInvoiceLines s) \<Longrightarrow> 
      foreign_rows t (supplierInvoices s') = foreign_rows t (supplierInvoices s) \<and>
      foreign_rows t (supplierInvoiceLines s') = foreign_rows t (supplierInvoiceLines s)"
    and "run_match now t i rm s = (Inr x, s') \<Longrightarrow> 
      foreign_rows t (supplierInvoices s') = foreign_rows t (supplierInvoices s) \<and>
      foreign_rows t (supplierInvoiceLines s') = foreign_rows t (supplierInvoiceLines s)"
    and "approve_supplier_invoice now t i u s = (Inr x, s') \<Longrightarrow> 
      foreign_rows t (supplierInvoices s') = foreign_rows t (supplierInvoices s) \<and>
      foreign_rows t (supplierInvoiceLines s') = foreign_rows t (supplierInvoiceLines s)"
    and "dispute_supplier_invoice t i why s = (Inr x, s') \<Longrightarrow> 
      foreign_rows t (supplierInvoices s') = foreign_rows t (supplierInvoices s) \<and>
      foreign_rows t (supplierInvoiceLines s') = foreign_rows t (supplierInvoiceLines s)"
    and "reject_supplier_invoice t i s = (Inr x, s') \<Longrightarrow> 
      foreign_rows t (supplierInvoices s') = foreign_rows t (supplierInvoices s) \<and>
      foreign_rows t (supplierInvoiceLines s') = foreign_rows t (supplierInvoiceLines s)"
    and "cancel_supplier_invoice t i s = (Inr x, s') \<Longrightarrow> 
      foreign_rows t (supplierInvoices s') = foreign_rows t (supplierInvoices s) \<and>
      foreign_rows t (supplierInvoiceLines s') = foreign_rows t (supplierInvoiceLines s)"
  subgoal by (drule create_supplier_invoice_Inr) (simp add: foreign_insert foreign_lines si_key_def)
  subgoal
  proof (erule run_match_Inr)
    fix q result pols
    assume q: "find_scoped t i (supplierInvoices s) = Some q"
      "x = q\<lparr>si_discrepancies := (if length (discrepancies result) \<noteq> 0 then Some (discrepancies result) else None),
             si_status := (if matched result then SiMatched else SiDisputed),
             si_matchedAt := (if matched result then Some now else si_matchedAt q), si_poIds := pols\<rparr>"
      "s' = supplierInvoices_update (save_row x) s"
    have "ent_id x = ent_id q" "tenantId x = tenantId q" by (simp_all add: q(2))
    then have "foreign_rows t (save_row x (supplierInvoices s)) = foreign_rows t (supplierInvoices s)"
      by (rule foreign_own [OF k q(1)])
    then show ?thesis by (simp add: q(3))
  qed
  subgoal by (auto simp: approve_supplier_invoice_def svc_simps intro!: foreign_own [OF k])
  subgoal by (auto simp: dispute_supplier_invoice_def svc_simps intro!: foreign_own [OF k])
  subgoal by (auto simp: reject_supplier_invoice_def svc_simps intro!: foreign_own [OF k])
  subgoal by (auto simp: cancel_supplier_invoice_def svc_simps intro!: foreign_own [OF k])
  done

lemma procurement_step_foreign:
  assumes "procurement_step t s s'" and "procurement_inv s"
  shows "foreign_view t s' = foreign_view t s"
  using assms(1)
proof cases
  case create_requisition
  note k = inv_keyed [OF assms(2)]
  show ?thesis using requisition_frame(1) [OF create_requisition(1)] requisition_foreign(1) [OF k(1) create_requisition(1-3)]
    by (simp add: foreign_view_def same_defs)
next
  case submit_requisition
  note k = inv_keyed [OF assms(2)]
  show ?thesis using requisition_frame(2) [OF submit_requisition(1)] requisition_foreign(2) [OF k(1) submit_requisition(1)]
    by (simp add: foreign_view_def same_defs)
next
  case approve_requisition
  note k = inv_keyed [OF assms(2)]
  show ?thesis using requisition_frame(3) [OF approve_requisition(1)] requisition_foreign(3) [OF k(1) approve_requisition(1)]
    by (simp add: foreign_view_def same_defs)
next
  case reject_requisition
  note k = inv_keyed [OF assms(2)]
  show ?thesis using requisition_frame(4) [OF reject_requisition(1)] requisition_foreign(4) [OF k(1) reject_requisition(1)]
    by (simp add: foreign_view_def same_defs)
next
  case cancel_requisition
  note k = inv_keyed [OF assms(2)]
  show ?thesis using requisition_frame(5) [OF cancel_requisition(1)] requisition_foreign(5) [OF k(1) cancel_requisition(1)]
    by (simp add: foreign_view_def same_defs)
next
  case convert_requisition
  note k = inv_keyed [OF assms(2)]
  show ?thesis using convert_frame(1) [OF convert_requisition(1)] requisition_foreign(6) [OF k(1) convert_requisition(1)] po_foreign(3) [OF k(2) convert_requisition(1-3)]
    by (simp add: foreign_view_def same_defs)
next
  case create_purchase_order
  note k = inv_keyed [OF assms(2)]
  show ?thesis using po_frame(1) [OF create_purchase_order(1)] po_foreign(2) [OF k(2) create_purchase_order(1-3)]
    by (simp add: foreign_view_def same_defs)
next
  case send_purchase_order
  note k = inv_keyed [OF assms(2)]
  show ?thesis using po_frame(2) [OF send_purchase_order(1)] po_events_foreign(1) [OF k(2) send_purchase_order(1)]
    by (simp add: foreign_view_def same_defs)
next
  case acknowledge_purchase_order
  note k = inv_keyed [OF assms(2)]
  show ?thesis using po_frame(3) [OF acknowledge_purchase_order(1)] po_events_foreign(2) [OF k(2) acknowledge_purchase_order(1)]
    by (simp add: foreign_view_def same_defs)
next
  case cancel_purchase_order
  note k = inv_keyed [OF assms(2)]
  show ?thesis using po_frame(4) [OF cancel_purchase_order(1)] po_events_foreign(3) [OF k(2) cancel_purchase_order(1)]
    by (simp add: foreign_view_def same_defs)
next
  case create_rfq
  note k = inv_keyed [OF assms(2)]
  show ?thesis using rfq_frame(1) [OF create_rfq(1)] rfq_foreign(1) [OF k(3,6) create_rfq(1-3)]
    by (simp add: foreign_view_def same_defs)
next
  case send_rfq
  note k = inv_keyed [OF assms(2)]
  show ?thesis using rfq_frame(2) [OF send_rfq(1)] rfq_foreign(2) [OF k(3,6) send_rfq(1,2)]
    by (simp add: foreign_view_def same_defs)
next
  case record_supplier_quote
  note k = inv_keyed [OF assms(2)]
  show ?thesis using rfq_frame(3) [OF record_supplier_quote(1)] rfq_foreign(3) [OF k(3,6) record_supplier_quote(1)]
    by (simp add: foreign_view_def same_defs)
next
  case award_rfq
  note k = inv_keyed [OF assms(2)]
  show ?thesis using rfq_frame(4) [OF award_rfq(1)] rfq_foreign(4) [OF k(3,6) award_rfq(1)]
    by (simp add: foreign_view_def same_defs)
next
  case cancel_rfq
  note k = inv_keyed [OF assms(2)]
  show ?thesis using rfq_frame(5) [OF cancel_rfq(1)] rfq_foreign(5) [OF k(3,6) cancel_rfq(1)]
    by (simp add: foreign_view_def same_defs)
next
  case convert_rfq
  note k = inv_keyed [OF assms(2)]
  show ?thesis using convert_frame(2) [OF convert_rfq(1)] rfq_foreign(6) [OF k(3,6) convert_rfq(1)] po_foreign(4) [OF k(2) convert_rfq(1-3)]
    by (simp add: foreign_view_def same_defs)
next
  case create_goods_receipt
  note k = inv_keyed [OF assms(2)]
  show ?thesis using goods_receipt_frame(1) [OF create_goods_receipt(1)] gr_foreign(1) [OF k(4) create_goods_receipt(1,2)]
    by (simp add: foreign_view_def same_defs)
next
  case confirm_goods_receipt
  note k = inv_keyed [OF assms(2)]
  show ?thesis using goods_receipt_frame(2) [OF confirm_goods_receipt(1)] gr_foreign(2) [OF k(4) confirm_goods_receipt(1)]
    by (simp add: foreign_view_def same_defs)
next
  case inspect_goods_receipt
  note k = inv_keyed [OF assms(2)]
  show ?thesis using inspect_frame [OF inspect_goods_receipt(1)] gr_foreign(4) [OF k(4) inspect_goods_receipt(1)]
    by (simp add: foreign_view_def same_defs)
next
  case reject_goods_receipt
  note k = inv_keyed [OF assms(2)]
  show ?thesis using goods_receipt_frame(3) [OF reject_goods_receipt(1)] gr_foreign(3) [OF k(4) reject_goods_receipt(1)]
    by (simp add: foreign_view_def same_defs)
next
  case create_supplier_invoice
  note k = inv_keyed [OF assms(2)]
  show ?thesis using si_frame(1) [OF create_supplier_invoice(1)] si_foreign(1) [OF k(5) create_supplier_invoice(1-3)]
    by (simp add: foreign_view_def same_defs)
next
  case run_match
  note k = inv_keyed [OF assms(2)]
  show ?thesis using si_frame(2) [OF run_match(1)] si_foreign(2) [OF k(5) run_match(1)]
    by (simp add: foreign_view_def same_defs)
next
  case approve_supplier_invoice
  note k = inv_keyed [OF assms(2)]
  show ?thesis using si_frame(3) [OF approve_supplier_invoice(1)] si_foreign(3) [OF k(5) approve_supplier_invoice(1)]
    by (simp add: foreign_view_def same_defs)
next
  case dispute_supplier_invoice
  note k = inv_keyed [OF assms(2)]
  show ?thesis using si_frame(4) [OF dispute_supplier_invoice(1)] si_foreign(4) [OF k(5) dispute_supplier_invoice(1)]
    by (simp add: foreign_view_def same_defs)
next
  case reject_supplier_invoice
  note k = inv_keyed [OF assms(2)]
  show ?thesis using si_frame(5) [OF reject_supplier_invoice(1)] si_foreign(5) [OF k(5) reject_supplier_invoice(1)]
    by (simp add: foreign_view_def same_defs)
next
  case cancel_supplier_invoice
  note k = inv_keyed [OF assms(2)]
  show ?thesis using si_frame(6) [OF cancel_supplier_invoice(1)] si_foreign(6) [OF k(5) cancel_supplier_invoice(1)]
    by (simp add: foreign_view_def same_defs)
qed

section \<open>A concrete run\<close>

text \<open>
  A requisition of 1,000 EUR is created, submitted, approved by a manager and
  converted into a purchase order.
\<close>

definition sample_requisition :: requisition_input where
  "sample_requisition = \<lparr>ri_requestedBy = ''u'', ri_requestedDate = 0, ri_needByDate = None, ri_notes = None,
     ri_lines = [\<lparr>rli_productId = ''x'', rli_description = ''bolts'', rli_quantity = 10,
       rli_unitOfMeasure = None, rli_estimatedUnitCostCents = Some 10000, rli_preferredSupplierId = None,
       rli_needByDate = None, rli_notes = None\<rparr>]\<rparr>"

definition sample_convert :: convert_input where
  "sample_convert = \<lparr>ci_supplierId = ''s'', ci_orderDate = 1, ci_expectedDeliveryDate = None,
     ci_shipToWarehouseId = None, ci_incoterms = None, ci_paymentTermsDays = None\<rparr>"

definition sample_created :: procurement_db where
  "sample_created = after (create_requisition 2026 ''r'' (sample_ids CHR ''a'') ''t'' sample_requisition) empty_procurement_db"

definition sample_submitted :: procurement_db where
  "sample_submitted = after (submit_requisition ''t'' ''r'') sample_created"

definition sample_approved :: procurement_db where
  "sample_approved = after (approve_requisition 7 ''t'' ''r'' ''boss'' None) sample_submitted"

definition sample_converted :: procurement_db where
  "sample_converted = after (convert_requisition_to_po 2026 ''p'' (sample_ids CHR ''b'') ''t'' ''r'' sample_convert) sample_approved"

lemma sample_created_requisitions:
  "requisitions sample_created = [\<lparr>ent_id = ''r'', tenantId = ''t'', pr_number = doc_number ''PR'' 5 2026 1,
     pr_requestedBy = ''u'', pr_requestedDate = 0, pr_needByDate = None, pr_status = PrDraft,
     pr_approverChain = [pending_step ManagerStep], pr_totalEstimateCents = 100000, pr_notes = None,
     pr_convertedTo = None\<rparr>]" (is "_ = [?r]")
  "purchaseOrders sample_created = []" "purchaseOrderLines sample_created = []"
proof -
  have t: "total_estimate (ri_lines sample_requisition) = 100000"
    by (simp add: total_estimate_def sample_requisition_def js_sum_def js_add_def js_mul_def nullish_def fl_numeral_safe)
  show "purchaseOrders sample_created = []" "purchaseOrderLines sample_created = []"
    by (simp_all add: sample_created_def after_def create_requisition_def svc_defs Let_def empty_procurement_db_def)
  show "requisitions sample_created = [?r]"
    by (simp_all add: sample_created_def after_def create_requisition_def svc_defs Let_def t
        build_approval_chain_def AUTO_APPROVE_THRESHOLD_CENTS_def MANAGER_THRESHOLD_CENTS_def
        next_requisition_number_def count_tenant_def empty_procurement_db_def save_row_def)
      (simp_all add: sample_requisition_def)
qed

lemma sample_submitted_requisitions:
  "requisitions sample_submitted = map (\<lambda>r. r\<lparr>pr_status := PrSubmitted\<rparr>) (requisitions sample_created)"
  "purchaseOrders sample_submitted = []" "purchaseOrderLines sample_submitted = []"
  "runs_ok (submit_requisition ''t'' ''r'') sample_created"
  by (simp_all add: sample_submitted_def after_def runs_ok_def submit_requisition_def transition_requisition_def
      transition_row_def svc_defs sample_created_requisitions find_scoped_def can_pr_def save_row_def)

definition manager_approval :: approval_step where
  "manager_approval = approve_step 7 ''boss'' None (pending_step ManagerStep)"

lemma sample_approved_requisitions:
  "requisitions sample_approved =
     map (\<lambda>r. r\<lparr>pr_status := PrApproved, pr_approverChain := [manager_approval]\<rparr>) (requisitions sample_created)"
  "purchaseOrders sample_approved = []" "purchaseOrderLines sample_approved = []"
  "runs_ok (approve_requisition 7 ''t'' ''r'' ''boss'' None) sample_submitted"
  by (simp_all add: sample_approved_def after_def runs_ok_def approve_requisition_def get_requisition_def
      svc_defs sample_created_requisitions sample_submitted_requisitions find_scoped_def save_row_def
      next_pending_step_def pending_step_def manager_approval_def approve_step_def Let_def
      is_approval_chain_complete_def assert_pr_def can_pr_def)

lemma sample_converted_runs:
  "runs_ok (convert_requisition_to_po 2026 ''p'' (sample_ids CHR ''b'') ''t'' ''r'' sample_convert) sample_approved"
  by (simp add: runs_ok_def convert_requisition_to_po_def get_requisition_def svc_defs sample_created_requisitions
      sample_approved_requisitions find_scoped_def Let_def assert_pr_def can_pr_def)

lemma procurement_run_refl: "procurement_run s s"
  by (simp add: procurement_run_def)

lemma procurement_run_step: "procurement_run s u \<Longrightarrow> procurement_step t u s' \<Longrightarrow> procurement_run s s'"
  unfolding procurement_run_def by (rule rtranclp.rtrancl_into_rtrancl) auto

lemma procurement_run_trans: "procurement_run s u \<Longrightarrow> procurement_run u s' \<Longrightarrow> procurement_run s s'"
  unfolding procurement_run_def by (rule rtranclp_trans)

lemma sample_run:
  "procurement_reachable sample_created" "procurement_run sample_created sample_approved"
  "procurement_reachable sample_approved" "procurement_step ''t'' sample_approved sample_converted"
proof -
  have "runs_ok (create_requisition 2026 ''r'' (sample_ids CHR ''a'') ''t'' sample_requisition) empty_procurement_db"
    by (simp add: runs_ok_def create_requisition_def svc_defs Let_def)
  note c = runs_okD [OF this, folded sample_created_def]
  have "procurement_step ''t'' empty_procurement_db sample_created"
    using procurement_step.create_requisition [OF c] by (simp add: empty_procurement_db_def fresh_def)
  then show created: "procurement_reachable sample_created" by (rule procurement_run_step [OF procurement_run_refl])
  have "procurement_step ''t'' sample_created sample_submitted"
    using procurement_step.submit_requisition [OF runs_okD [OF sample_submitted_requisitions(4)]]
    by (simp add: sample_submitted_def)
  moreover have "procurement_step ''t'' sample_submitted sample_approved"
    using procurement_step.approve_requisition [OF runs_okD [OF sample_approved_requisitions(4)]]
    by (simp add: sample_approved_def)
  ultimately show run: "procurement_run sample_created sample_approved"
    by (meson procurement_run_refl procurement_run_step)
  show "procurement_reachable sample_approved"
    using created run by (rule procurement_run_trans)
  show "procurement_step ''t'' sample_approved sample_converted"
    using procurement_step.convert_requisition [OF runs_okD [OF sample_converted_runs]]
    by (simp add: sample_converted_def fresh_def sample_approved_requisitions fresh_ids_def inj_sample_ids)
qed

section \<open>Properties of every run\<close>

lemma procurement_run_advance:
  assumes "procurement_run s s'" and "procurement_inv s"
  shows "documents_advance s s'"
proof -
  have "documents_advance s s' \<and> procurement_inv s'"
    using assms(1) unfolding procurement_run_def
  proof (induction rule: rtranclp_induct)
    case base
    then show ?case using assms(2) by (simp add: documents_advance_def)
  next
    case (step u v)
    then have "documents_advance u v" "procurement_inv v"
      using procurement_step_advance procurement_step_inv by blast+
    with step.IH show ?case unfolding documents_advance_def by (auto intro: advances_trans)
  qed
  then show ?thesis by simp
qed

text \<open>
  C1. A requisition that counts as approved, or has been converted, carries exactly
  the approval steps that its estimated amount demands, and every one of them is
  approved - after any sequence of requests by any tenants.
\<close>

theorem approved_requisition_fully_approved:
  assumes "procurement_reachable s" and "r \<in> set (requisitions s)"
    and "pr_status r \<in> {PrApproved, PrConverted}"
  shows "map ap_role (pr_approverChain r) = map ap_role (build_approval_chain (pr_totalEstimateCents r)) \<and>
     list_all (\<lambda>x. ap_status x = StepApproved) (pr_approverChain r)"
proof -
  have "requisition_ok r"
    using reachable_inv [OF assms(1)] assms(2) by (auto simp: procurement_inv_def dest: table_inv_row)
  then show ?thesis using assms(3) by (auto simp: requisition_ok_def)
qed

theorem approved_requisition_fully_approved_witness:
  "list_all (\<lambda>x. ap_status x = StepApproved) [manager_approval]"
proof -
  let ?r = "hd (requisitions sample_approved)"
  have "?r \<in> set (requisitions sample_approved)" "pr_status ?r \<in> {PrApproved, PrConverted}"
    "pr_approverChain ?r = [manager_approval]"
    by (simp_all add: sample_approved_requisitions sample_created_requisitions)
  with approved_requisition_fully_approved [OF sample_run(3), of ?r] show ?thesis by simp
qed

text \<open>
  \<open>forward rank st rows rows'\<close>: every document is still there, still its tenant's, and its
  status is the same or has a higher rank.
\<close>

definition forward :: "('st \<Rightarrow> nat) \<Rightarrow> ('a entity_scheme \<Rightarrow> 'st) \<Rightarrow> 'a entity_scheme list \<Rightarrow> 'a entity_scheme list \<Rightarrow> bool" where
  "forward rank st rows rows' \<longleftrightarrow>
     (\<forall>i r. find_id i rows = Some r \<longrightarrow>
        (\<exists>r'. find_id i rows' = Some r' \<and> tenantId r' = tenantId r \<and>
           (st r' = st r \<or> rank (st r) < rank (st r'))))"

text \<open>
  C4. No procurement document disappears, changes tenant or returns to a status it
  has left: along every run the rank of its status only grows.
\<close>

theorem documents_never_return:
  assumes "procurement_reachable s" and "procurement_run s s'"
  shows "forward pr_rank pr_status (requisitions s) (requisitions s') \<and>
     forward po_rank po_status (purchaseOrders s) (purchaseOrders s') \<and>
     forward rfq_rank rfq_status (rfqs s) (rfqs s') \<and>
     forward gr_rank gr_status (goodsReceipts s) (goodsReceipts s') \<and>
     forward si_rank si_status (supplierInvoices s) (supplierInvoices s')"
  using procurement_run_advance [OF assms(2) reachable_inv [OF assms(1)]]
  unfolding documents_advance_def forward_def
  by (auto dest: pr_machine.advances_forward po_machine.advances_forward rfq_machine.advances_forward
      gr_machine.advances_forward si_machine.advances_forward)

theorem documents_never_return_witness:
  "\<exists>r'. find_id ''r'' (requisitions sample_approved) = Some r' \<and> tenantId r' = ''t'' \<and>
     (pr_status r' = PrDraft \<or> 0 < pr_rank (pr_status r'))"
proof -
  have "find_id ''r'' (requisitions sample_created) = Some (hd (requisitions sample_created))"
    by (simp add: sample_created_requisitions find_id_def)
  moreover have "forward pr_rank pr_status (requisitions sample_created) (requisitions sample_approved)"
    using documents_never_return [OF sample_run(1,2)] by (rule conjunct1)
  ultimately show ?thesis unfolding forward_def by (force simp: sample_created_requisitions)
qed

text \<open>
  A requisition is converted at most once: whatever happens after a successful
  conversion, a second attempt is refused and changes nothing.
\<close>

theorem requisition_converts_once:
  assumes "procurement_reachable s" and "fresh n (purchaseOrders s)" and "fresh_ids ls (purchaseOrderLines s)"
    and "convert_requisition_to_po y n ls t i ci s = (Inr po, s1)" and "procurement_run s1 s2"
  shows "convert_requisition_to_po y' n' ls' t i ci' s2 = (Inl BadRequest, s2)"
proof -
  have inv: "procurement_inv s" using assms(1) by (rule reachable_inv)
  have inv1: "procurement_inv s1"
    using procurement_step_inv [OF procurement_step.convert_requisition [OF assms(4,2,3)] inv] .
  obtain q where q: "find_scoped t i (requisitions s) = Some q"
      "requisitions s1 = save_row (q\<lparr>pr_status := PrConverted, pr_convertedTo := Some n\<rparr>) (requisitions s)"
    using assms(4) by (rule convert_requisition_Inr) simp
  let ?q = "q\<lparr>pr_status := PrConverted, pr_convertedTo := Some n\<rparr>"
  have id: "ent_id q = i" "tenantId q = t" using find_scoped_Some [OF q(1)] by simp_all
  have "find_id i (requisitions s1) = Some ?q"
    unfolding q(2) using inv_keyed(1) [OF inv] by (simp add: table.lookup_save id)
  moreover have "advances can_pr pr_status (requisitions s1) (requisitions s2)"
    using procurement_run_advance [OF assms(5) inv1] by (simp add: documents_advance_def)
  ultimately obtain r where r: "find_id i (requisitions s2) = Some r" "tenantId r = tenantId ?q"
      "can_pr\<^sup>*\<^sup>* (pr_status ?q) (pr_status r)"
    unfolding advances_def by blast
  have "pr_status r = pr_status ?q" using r(3) by (rule pr_machine.terminal_stays) (simp add: list_pr_def)
  moreover have "find_scoped t i (requisitions s2) = Some r"
    using r inv_keyed(1) [OF procurement_run_inv [OF assms(5) inv1]] id by (simp add: find_scoped_find_id)
  ultimately show ?thesis
    by (simp add: convert_requisition_to_po_def get_requisition_def svc_defs)
qed

theorem requisition_converts_once_witness:
  "convert_requisition_to_po 2026 ''p2'' (sample_ids CHR ''c'') ''t'' ''r'' sample_convert sample_converted
     = (Inl BadRequest, sample_converted)"
proof -
  note run = runs_okD [OF sample_converted_runs, folded sample_converted_def]
  show ?thesis
    by (rule requisition_converts_once [OF sample_run(3) _ _ run procurement_run_refl])
      (simp_all add: sample_approved_requisitions fresh_def fresh_ids_def inj_sample_ids)
qed

text \<open>
  When the line amounts of a purchase order are whole cents that stay within the
  exact range of doubles, its total is exactly the sum of its lines' amounts and taxes.
\<close>

theorem purchase_order_total_exact:
  assumes "procurement_reachable s" and "p \<in> set (purchaseOrders s)"
    and "list_all (\<lambda>l. pol_lineTotalCents l \<in> \<int> \<and> pol_taxAmountCents l \<in> \<int>) (purchase_order_lines (ent_id p) s)"
    and "sum_list (map (\<lambda>l. \<bar>pol_lineTotalCents l\<bar> + \<bar>pol_taxAmountCents l\<bar>) (purchase_order_lines (ent_id p) s)) \<le> 2 ^ 53"
  shows "po_totalCents p =
     sum_list (map (\<lambda>l. pol_lineTotalCents l + pol_taxAmountCents l) (purchase_order_lines (ent_id p) s))"
proof -
  let ?ls = "purchase_order_lines (ent_id p) s"
  let ?A = "sum_list (map (\<lambda>l. \<bar>pol_lineTotalCents l\<bar>) ?ls)" and ?B = "sum_list (map (\<lambda>l. \<bar>pol_taxAmountCents l\<bar>) ?ls)"
  have inv: "po_inv s" using reachable_inv [OF assms(1)] by (simp add: procurement_inv_def)
  have AB: "?A + ?B \<le> 2 ^ 53" using assms(4) by (simp add: sum_list_addf)
  have "0 \<le> ?A" by (rule sum_list_nonneg) auto
  moreover have "0 \<le> ?B" by (rule sum_list_nonneg) auto
  ultimately have le: "?A \<le> 2 ^ 53" "?B \<le> 2 ^ 53" using AB by linarith+
  have sub: "js_sum pol_lineTotalCents ?ls = sum_list (map pol_lineTotalCents ?ls)"
    using assms(3) le(1) by (intro js_sum_exact) (auto simp: list_all_iff)
  have tax: "js_sum pol_taxAmountCents ?ls = sum_list (map pol_taxAmountCents ?ls)"
    using assms(3) le(2) by (intro js_sum_exact) (auto simp: list_all_iff)
  have ints: "sum_list (map f xs) \<in> \<int>" if "\<And>x. x \<in> set xs \<Longrightarrow> f x \<in> \<int>" for f :: "purchase_order_line \<Rightarrow> rat" and xs
    using that by (induction xs) auto
  have abs: "\<bar>sum_list (map f xs)\<bar> \<le> sum_list (map (\<lambda>x. \<bar>f x\<bar>) xs)" for f :: "purchase_order_line \<Rightarrow> rat" and xs
    by (induction xs) (auto intro: order_trans [OF abs_triangle_ineq])
  have "\<bar>sum_list (map pol_lineTotalCents ?ls) + sum_list (map pol_taxAmountCents ?ls)\<bar> \<le> ?A + ?B"
    using abs [of pol_lineTotalCents ?ls] abs [of pol_taxAmountCents ?ls] by linarith
  then have "safe (sum_list (map pol_lineTotalCents ?ls) + sum_list (map pol_taxAmountCents ?ls))"
    using AB assms(3) by (auto simp: safe_def list_all_iff intro!: Ints_add ints)
  then show ?thesis
    using inv assms(2) by (auto simp: po_inv_def po_amounts_ok_def sub tax js_add_safe sum_list_addf dest!: table_inv_row)
qed

definition sample_order :: po_input where
  "sample_order = \<lparr>pi_supplierId = ''s'', pi_requisitionId = None, pi_orderDate = 0,
     pi_expectedDeliveryDate = None, pi_shipToWarehouseId = None, pi_paymentTermsDays = None,
     pi_paymentMethod = None, pi_incoterms = None, pi_currency = None, pi_notes = None,
     pi_lines = [\<lparr>pli_productId = ''x'', pli_description = ''bolts'', pli_quantity = 10,
       pli_unitOfMeasure = None, pli_unitCostCents = 100, pli_taxRate = None,
       pli_expectedDeliveryDate = None, pli_notes = None\<rparr>]\<rparr>"

definition sample_ordered :: procurement_db where
  "sample_ordered = after (create_purchase_order 2026 ''p'' (sample_ids CHR ''b'') ''t'' sample_order) empty_procurement_db"

lemma sample_order_line:
  "pol_lineTotalCents (po_line_of ''t'' ''p'' i (hd (pi_lines sample_order))) = 1000"
  "pol_taxAmountCents (po_line_of ''t'' ''p'' i (hd (pi_lines sample_order))) = 220"
  by (simp_all add: po_line_of_def sample_order_def Let_def nullish_def js_mul_def js_div_def fl_numeral_safe
      math_round_def floor_unique [of 220])

theorem purchase_order_total_exact_witness:
  "\<exists>p. purchaseOrders sample_ordered = [p] \<and> po_totalCents p = 1220"
proof -
  let ?ls = "create_lines (po_line_of ''t'' ''p'') (sample_ids CHR ''b'') (pi_lines sample_order)"
  have "runs_ok (create_purchase_order 2026 ''p'' (sample_ids CHR ''b'') ''t'' sample_order) empty_procurement_db"
    by (simp add: runs_ok_def create_purchase_order_def svc_defs Let_def)
  note run = runs_okD [OF this, folded sample_ordered_def]
  have reach: "procurement_reachable sample_ordered"
    using procurement_step.create_purchase_order [OF run]
    by (intro procurement_run_step [OF procurement_run_refl]) (simp_all add: empty_procurement_db_def fresh_def)
  let ?p = "outcome (create_purchase_order 2026 ''p'' (sample_ids CHR ''b'') ''t'' sample_order) empty_procurement_db"
  have p: "purchaseOrders sample_ordered = [?p]" "ent_id ?p = ''p''" "purchaseOrderLines sample_ordered = ?ls"
    using save_created_lines [of "sample_ids CHR ''b''" "[]" "po_line_of ''t'' ''p''"]
    by (simp_all add: sample_ordered_def after_def outcome_def create_purchase_order_def svc_defs Let_def
        empty_procurement_db_def save_row_def)
  have "purchase_order_lines ''p'' sample_ordered = [po_line_of ''t'' ''p'' (sample_ids CHR ''b'' 0) (hd (pi_lines sample_order))]"
    by (simp add: purchase_order_lines_def p(3) create_lines_def sample_order_def)
  with p purchase_order_total_exact [OF reach, of ?p] show ?thesis by (simp add: sample_order_line)
qed

text \<open>
  Requisitions, purchase orders, requests for quote and goods receipts of one
  tenant never share a document number.
\<close>

theorem document_numbers_unique:
  assumes "procurement_reachable s"
  shows "distinct (map pr_number (tenant_rows t (requisitions s))) \<and>
     distinct (map po_number (tenant_rows t (purchaseOrders s))) \<and>
     distinct (map rfq_number (tenant_rows t (rfqs s))) \<and>
     distinct (map gr_number (tenant_rows t (goodsReceipts s)))"
  using reachable_inv [OF assms]
  by (auto simp: procurement_inv_def po_inv_def rfq_inv_def gr_inv_def
      intro!: numbered_distinct dest: table_inv_numbered)

theorem document_numbers_unique_witness:
  "distinct (map po_number (tenant_rows ''t'' (purchaseOrders sample_approved)))"
  using document_numbers_unique [OF sample_run(3), of "''t''"] by simp

text \<open>
  C5. A request of one tenant leaves every row of every other tenant as it is, in all
  tables but the lines of goods receipts.
\<close>

theorem procurement_tenant_isolation:
  assumes "procurement_reachable s" and "procurement_step t s s'"
  shows "foreign_view t s' = foreign_view t s"
  using assms(2) reachable_inv [OF assms(1)] by (rule procurement_step_foreign)

theorem procurement_tenant_isolation_witness:
  "foreign_view ''t'' sample_converted = foreign_view ''t'' sample_approved"
  using procurement_tenant_isolation [OF sample_run(3,4)] .

text \<open>
  C6. A procurement request that is refused - for whatever reason, at whatever point -
  leaves all tables as they were.
\<close>

theorem refused_requests_change_nothing:
  "atomic (create_requisition y n ls t ri) \<and> atomic (submit_requisition t i) \<and>
   atomic (approve_requisition now t i u c) \<and> atomic (reject_requisition now t i u cm) \<and>
   atomic (cancel_requisition t i) \<and> atomic (convert_requisition_to_po y n ls t i ci) \<and>
   atomic (create_purchase_order y n ls t poi) \<and> atomic (send_purchase_order now t i) \<and>
   atomic (acknowledge_purchase_order now t i) \<and> atomic (cancel_purchase_order now t i why) \<and>
   atomic (create_rfq y n ls t qi) \<and> atomic (send_rfq ls t i suppliers) \<and>
   atomic (record_supplier_quote now t i qo) \<and> atomic (award_rfq now t i q) \<and>
   atomic (cancel_rfq t i) \<and> atomic (convert_rfq_to_po y n ls t i qc) \<and>
   atomic (create_goods_receipt y n ls t gi) \<and> atomic (confirm_goods_receipt now t i) \<and>
   atomic (inspect_goods_receipt now t i lis) \<and> atomic (reject_goods_receipt t i) \<and>
   atomic (create_supplier_invoice now n ls t sii) \<and> atomic (run_match now t i rm) \<and>
   atomic (approve_supplier_invoice now t i u) \<and> atomic (dispute_supplier_invoice t i why) \<and>
   atomic (reject_supplier_invoice t i) \<and> atomic (cancel_supplier_invoice t i)"
  by (intro conjI requisition_atomic rfq_atomic goods_receipt_atomic supplier_invoice_atomic)

section \<open>An award fixes supplier and prices\<close>

definition award_frozen :: "uuid \<Rightarrow> uuid \<Rightarrow> uuid \<Rightarrow> rfq_quote list \<Rightarrow> rfq_line list \<Rightarrow> procurement_db \<Rightarrow> bool" where
  "award_frozen t i qid qs ls s \<longleftrightarrow>
     (\<exists>r. find_scoped t i (rfqs s) = Some r \<and> rfq_status r \<in> {RfqAwarded, RfqConverted, RfqCancelled} \<and>
        rfq_awardedQuoteId r = Some qid) \<and>
     filter (\<lambda>q. qt_rfqId q = i) (rfqQuotes s) = qs \<and> rfq_lines i s = ls"

lemma award_frozen_same: "same_rfq s s' \<Longrightarrow> award_frozen t i qid qs ls s \<Longrightarrow> award_frozen t i qid qs ls s'"
  by (simp add: award_frozen_def same_rfq_def rfq_lines_def)

lemma filter_save_other:
  assumes "keyed rows" and "q \<in> set rows" and "ent_id x = ent_id q" and "\<not> P q" and "\<not> P x"
  shows "filter P (save_row x rows) = filter P rows"
proof -
  have "filter P (map (\<lambda>y. if ent_id y = ent_id x then x else y) ys) = filter P ys" if "set ys \<subseteq> set rows" for ys
    using that
  proof (induction ys)
    case (Cons y ys)
    have "ent_id y = ent_id x \<Longrightarrow> y = q" using Cons.prems assms(1-3) by (metis list.set_intros(1) subsetD table.key_inj)
    with Cons assms(4,5) show ?case by auto
  qed simp
  then show ?thesis using assms(2,3) by (simp add: save_row_present)
qed

text \<open>An operation on a request of another key or tenant.\<close>

lemma award_frozen_other:
  assumes "award_frozen t i qid qs ls s" and "keyed (rfqs s)" and "find_scoped t i (rfqs s') = find_scoped t i (rfqs s)"
    and "filter (\<lambda>q. qt_rfqId q = i) (rfqQuotes s') = filter (\<lambda>q. qt_rfqId q = i) (rfqQuotes s)"
    and "rfqLines s' = rfqLines s"
  shows "award_frozen t i qid qs ls s'"
  using assms by (simp add: award_frozen_def rfq_lines_def)

lemma find_scoped_same:
  assumes "keyed rows" and "find_scoped t i rows = Some r" and "find_scoped u j rows = Some q" and "i = j"
  shows "q = r"
  using find_scoped_Some [OF assms(2)] find_scoped_Some [OF assms(3)] assms(4) table.key_inj [OF assms(1), of q r]
  by simp

lemma award_frozen_change:
  assumes "award_frozen t i qid qs ls s" and "keyed (rfqs s)" and "find_scoped u j (rfqs s) = Some q"
    and "ent_id r = ent_id q" "tenantId r = tenantId q" "rfq_awardedQuoteId r = rfq_awardedQuoteId q"
    and "rfq_status r \<in> {RfqAwarded, RfqConverted, RfqCancelled}"
    and "rfqs s' = save_row r (rfqs s)" "rfqQuotes s' = rfqQuotes s" "rfqLines s' = rfqLines s"
  shows "award_frozen t i qid qs ls s'"
proof -
  obtain p where p: "find_scoped t i (rfqs s) = Some p" "rfq_awardedQuoteId p = Some qid"
      "rfq_status p \<in> {RfqAwarded, RfqConverted, RfqCancelled}"
    using assms(1) by (auto simp: award_frozen_def)
  have j: "ent_id q = j" "tenantId q = u" using find_scoped_Some [OF assms(3)] by simp_all
  show ?thesis
  proof (cases "i = j")
    case True
    then have "q = p" using find_scoped_same [OF assms(2) p(1) assms(3)] by simp
    then show ?thesis
      using assms p j find_scoped_Some [OF p(1)] True
      by (auto simp: award_frozen_def rfq_lines_def find_scoped_save)
  next
    case False
    then show ?thesis using assms j p by (auto simp: award_frozen_def rfq_lines_def find_scoped_save)
  qed
qed

lemma award_frozen_open:
  assumes "award_frozen t i qid qs ls s" and "keyed (rfqs s)" and "find_scoped u j (rfqs s) = Some q"
    and "rfq_status q \<notin> {RfqAwarded, RfqConverted, RfqCancelled}"
  shows "i \<noteq> j"
proof
  assume eq: "i = j"
  obtain p where p: "find_scoped t i (rfqs s) = Some p" "rfq_status p \<in> {RfqAwarded, RfqConverted, RfqCancelled}"
    using assms(1) unfolding award_frozen_def by blast
  have "q = p" using find_scoped_same [OF assms(2) p(1) assms(3) eq] .
  with p(2) assms(4) show False by simp
qed

lemma award_frozen_create:
  assumes "award_frozen t i qid qs ls s" and k: "keyed (rfqs s)"
    and "create_rfq y n ids u qi s = (Inr q, s')" and f: "fresh n (rfqs s)" "fresh_ids ids (rfqLines s)"
  shows "award_frozen t i qid qs ls s'"
proof -
  let ?ls = "create_lines (rfq_line_of u n) ids (qi_lines qi)"
  have q: "ent_id q = n" and s': "rfqs s' = save_row q (rfqs s)" "rfqQuotes s' = rfqQuotes s"
    "rfqLines s' = rfqLines s @ ?ls"
    using assms(3) save_created_lines [OF f(2), of "rfq_line_of u n"]
    by (auto simp: create_rfq_def Let_def svc_simps)
  obtain r where r: "find_scoped t i (rfqs s) = Some r" using assms(1) by (auto simp: award_frozen_def)
  have "i \<noteq> n" using f(1) r k by (metis find_scoped_fresh option.distinct(1))
  moreover have "ql_rfqId l = n" if "l \<in> set ?ls" for l
    using set_create_lines [OF that] by (auto simp: rfq_line_of_def)
  ultimately have "filter (\<lambda>l. ql_rfqId l = i) ?ls = []" by (auto simp: filter_empty_conv)
  then show ?thesis
    using assms(1) \<open>i \<noteq> n\<close> by (simp add: award_frozen_def rfq_lines_def s' find_scoped_save [OF k] q)
qed

lemma award_frozen_send:
  assumes "award_frozen t i qid qs ls s" and k: "keyed (rfqs s)"
    and "send_rfq ids u j suppliers s = (Inr q, s')" and f: "fresh_ids ids (rfqQuotes s)"
  shows "award_frozen t i qid qs ls s'"
  using assms(3)
proof (rule send_rfq_Inr)
  let ?qs = "create_lines (quote_of u j) ids suppliers"
  fix p
  assume p: "find_scoped u j (rfqs s) = Some p" "rfq_status p = RfqDraft" "q = p\<lparr>rfq_status := RfqSent\<rparr>"
    and s': "s' = s\<lparr>rfqs := save_row q (rfqs s), rfqQuotes := save_rows ?qs (rfqQuotes s)\<rparr>"
  have "i \<noteq> j" by (rule award_frozen_open [OF assms(1) k p(1)]) (simp add: p(2))
  have "qt_rfqId x = j" if "x \<in> set ?qs" for x using set_create_lines [OF that] by auto
  then have "filter (\<lambda>x. qt_rfqId x = i) ?qs = []" using \<open>i \<noteq> j\<close> by (auto simp: filter_empty_conv)
  moreover have "rfqQuotes s' = rfqQuotes s @ ?qs"
    using save_created_lines [OF f, of "quote_of u j"] by (simp add: s')
  moreover have "ent_id q = j" using find_scoped_Some [OF p(1)] by (simp add: p(3))
  ultimately show ?thesis
    using \<open>i \<noteq> j\<close> by (intro award_frozen_other [OF assms(1) k]) (simp_all add: s' find_scoped_save [OF k])
qed

lemma award_frozen_record:
  assumes "award_frozen t i qid qs ls s" and k: "keyed (rfqs s)" and kq: "keyed (rfqQuotes s)"
    and "record_supplier_quote now u j qo s = (Inr x, s')"
  shows "award_frozen t i qid qs ls s'"
  using assms(4)
proof (rule record_supplier_quote_Inr)
  fix p q
  assume p: "find_scoped u j (rfqs s) = Some p" "rfq_status p = RfqSent \<or> rfq_status p = RfqQuotesReceived"
    and q: "find_quote_of_supplier u j (qo_supplierId qo) (rfqQuotes s) = Some q"
    and x: "ent_id x = ent_id q" "qt_rfqId x = qt_rfqId q"
    and s': "s' = s\<lparr>rfqQuotes := save_row x (rfqQuotes s),
            rfqs := (if rfq_status p = RfqSent then save_row (p\<lparr>rfq_status := RfqQuotesReceived\<rparr>) (rfqs s)
                     else rfqs s)\<rparr>"
  have "i \<noteq> j" by (rule award_frozen_open [OF assms(1) k p(1)]) (use p(2) in auto)
  moreover have "q \<in> set (rfqQuotes s)" "qt_rfqId q = j"
    using q by (auto simp: find_quote_of_supplier_def find_Some_iff)
  moreover have "ent_id p = j" using find_scoped_Some [OF p(1)] by simp
  ultimately show ?thesis
    using filter_save_other [OF kq, of q x "\<lambda>y. qt_rfqId y = i"] x
    by (intro award_frozen_other [OF assms(1) k]) (simp_all add: s' find_scoped_save [OF k])
qed

lemma award_frozen_award:
  assumes "award_frozen t i qid qs ls s" and k: "keyed (rfqs s)" and "award_rfq now u j qid' s = (Inr r, s')"
  shows "award_frozen t i qid qs ls s'"
  using assms(3)
proof (rule award_rfq_Inr)
  fix p q
  assume p: "find_scoped u j (rfqs s) = Some p" "rfq_status p = RfqQuotesReceived"
    and r: "r = p\<lparr>rfq_status := RfqAwarded, rfq_awardedQuoteId := Some qid', rfq_awardedAt := Some now\<rparr>"
      "s' = rfqs_update (save_row r) s"
  have "i \<noteq> j" by (rule award_frozen_open [OF assms(1) k p(1)]) (simp add: p(2))
  moreover have "ent_id r = j" using find_scoped_Some [OF p(1)] by (simp add: r(1))
  ultimately show ?thesis
    by (intro award_frozen_other [OF assms(1) k]) (simp_all add: r(2) find_scoped_save [OF k])
qed


lemma award_frozen_cancel:
  assumes "award_frozen t i qid qs ls s" and k: "keyed (rfqs s)" and "cancel_rfq u j s = (Inr r, s')"
  shows "award_frozen t i qid qs ls s'"
proof -
  from assms(3) obtain p where p: "find_scoped u j (rfqs s) = Some p" "r = p\<lparr>rfq_status := RfqCancelled\<rparr>"
      "s' = rfqs_update (save_row r) s"
    by (auto simp: cancel_rfq_def Let_def svc_simps)
  show ?thesis by (rule award_frozen_change [OF assms(1) k p(1), of r]) (simp_all add: p(2,3))
qed

lemma award_frozen_convert:
  assumes "award_frozen t i qid qs ls s" and k: "keyed (rfqs s)"
    and "convert_rfq_to_po y n ids u j qc s = (Inr po, s')"
  shows "award_frozen t i qid qs ls s'"
  using assms(3)
proof (rule convert_rfq_Inr)
  fix p q pls
  assume p: "find_scoped u j (rfqs s) = Some p"
    and s': "s' = s\<lparr>purchaseOrders := save_row po (purchaseOrders s),
            purchaseOrderLines := save_rows (create_lines (quoted_line_of u n (qt_perLineCosts q)) ids (rfq_lines j s))
              (purchaseOrderLines s),
            rfqs := save_row (p\<lparr>rfq_status := RfqConverted, rfq_convertedTo := Some n\<rparr>) (rfqs s)\<rparr>"
  show ?thesis
    by (rule award_frozen_change [OF assms(1) k p, of "p\<lparr>rfq_status := RfqConverted, rfq_convertedTo := Some n\<rparr>"])
      (simp_all add: s')
qed

lemma award_frozen_step:
  assumes "procurement_step u s s'" and "procurement_inv s" and "award_frozen t i qid qs ls s"
  shows "award_frozen t i qid qs ls s'"
  using assms(1)
proof cases
  case create_requisition
  show ?thesis using requisition_frame(1) [OF create_requisition(1)] assms(3) by (blast intro: award_frozen_same)
next
  case submit_requisition
  show ?thesis using requisition_frame(2) [OF submit_requisition(1)] assms(3) by (blast intro: award_frozen_same)
next
  case approve_requisition
  show ?thesis using requisition_frame(3) [OF approve_requisition(1)] assms(3) by (blast intro: award_frozen_same)
next
  case reject_requisition
  show ?thesis using requisition_frame(4) [OF reject_requisition(1)] assms(3) by (blast intro: award_frozen_same)
next
  case cancel_requisition
  show ?thesis using requisition_frame(5) [OF cancel_requisition(1)] assms(3) by (blast intro: award_frozen_same)
next
  case convert_requisition
  show ?thesis using convert_frame(1) [OF convert_requisition(1)] assms(3) by (blast intro: award_frozen_same)
next
  case create_purchase_order
  show ?thesis using po_frame(1) [OF create_purchase_order(1)] assms(3) by (blast intro: award_frozen_same)
next
  case send_purchase_order
  show ?thesis using po_frame(2) [OF send_purchase_order(1)] assms(3) by (blast intro: award_frozen_same)
next
  case acknowledge_purchase_order
  show ?thesis using po_frame(3) [OF acknowledge_purchase_order(1)] assms(3) by (blast intro: award_frozen_same)
next
  case cancel_purchase_order
  show ?thesis using po_frame(4) [OF cancel_purchase_order(1)] assms(3) by (blast intro: award_frozen_same)
next
  case create_rfq
  show ?thesis using create_rfq by (rule award_frozen_create [OF assms(3) inv_keyed(3) [OF assms(2)]])
next
  case send_rfq
  show ?thesis using send_rfq by (rule award_frozen_send [OF assms(3) inv_keyed(3) [OF assms(2)]])
next
  case record_supplier_quote
  show ?thesis using record_supplier_quote by (rule award_frozen_record [OF assms(3) inv_keyed(3) [OF assms(2)] inv_keyed(6) [OF assms(2)]])
next
  case award_rfq
  show ?thesis using award_rfq by (rule award_frozen_award [OF assms(3) inv_keyed(3) [OF assms(2)]])
next
  case cancel_rfq
  show ?thesis using cancel_rfq by (rule award_frozen_cancel [OF assms(3) inv_keyed(3) [OF assms(2)]])
next
  case convert_rfq
  show ?thesis using convert_rfq(1) by (rule award_frozen_convert [OF assms(3) inv_keyed(3) [OF assms(2)]])
next
  case create_goods_receipt
  show ?thesis using goods_receipt_frame(1) [OF create_goods_receipt(1)] assms(3) by (blast intro: award_frozen_same)
next
  case confirm_goods_receipt
  show ?thesis using goods_receipt_frame(2) [OF confirm_goods_receipt(1)] assms(3) by (blast intro: award_frozen_same)
next
  case inspect_goods_receipt
  show ?thesis using inspect_frame [OF inspect_goods_receipt(1)] assms(3) by (blast intro: award_frozen_same)
next
  case reject_goods_receipt
  show ?thesis using goods_receipt_frame(3) [OF reject_goods_receipt(1)] assms(3) by (blast intro: award_frozen_same)
next
  case create_supplier_invoice
  show ?thesis using si_frame(1) [OF create_supplier_invoice(1)] assms(3) by (blast intro: award_frozen_same)
next
  case run_match
  show ?thesis using si_frame(2) [OF run_match(1)] assms(3) by (blast intro: award_frozen_same)
next
  case approve_supplier_invoice
  show ?thesis using si_frame(3) [OF approve_supplier_invoice(1)] assms(3) by (blast intro: award_frozen_same)
next
  case dispute_supplier_invoice
  show ?thesis using si_frame(4) [OF dispute_supplier_invoice(1)] assms(3) by (blast intro: award_frozen_same)
next
  case reject_supplier_invoice
  show ?thesis using si_frame(5) [OF reject_supplier_invoice(1)] assms(3) by (blast intro: award_frozen_same)
next
  case cancel_supplier_invoice
  show ?thesis using si_frame(6) [OF cancel_supplier_invoice(1)] assms(3) by (blast intro: award_frozen_same)
qed

lemma award_frozen_run:
  assumes "procurement_run s s'" and "procurement_inv s" and "award_frozen t i qid qs ls s"
  shows "award_frozen t i qid qs ls s'"
proof -
  have "award_frozen t i qid qs ls s' \<and> procurement_inv s'"
    using assms(1) unfolding procurement_run_def
    by (induction rule: rtranclp_induct) (use assms(2,3) award_frozen_step procurement_step_inv in \<open>blast+\<close>)
  then show ?thesis by simp
qed

text \<open>
  What an award decides stays decided: however much happens between the award and
  the conversion, the purchase order goes to the supplier of the awarded quote, in its
  currency, with the request's lines at the unit costs that quote had when it was
  awarded.
\<close>

theorem award_fixes_supplier_and_prices:
  assumes "procurement_reachable s" and "award_rfq now t i qid s = (Inr r, s1)" and "procurement_run s1 s2"
    and "convert_rfq_to_po y n ids t i qc s2 = (Inr po, s3)"
  shows "\<exists>q. find_scoped t qid (rfqQuotes s) = Some q \<and> qt_status q = QuoteReceived \<and>
     po_supplierId po = qt_supplierId q \<and> po_currency po = qt_currency q \<and>
     po_subtotalCents po =
       js_sum pol_lineTotalCents (create_lines (quoted_line_of t n (qt_perLineCosts q)) ids (rfq_lines i s))"
proof -
  have inv: "procurement_inv s" using assms(1) by (rule reachable_inv)
  have inv1: "procurement_inv s1" using procurement_step_inv [OF procurement_step.award_rfq [OF assms(2)] inv] .
  obtain p q where p: "find_scoped t i (rfqs s) = Some p"
    and q: "q \<in> set (rfqQuotes s)" "ent_id q = qid" "qt_rfqId q = i" "tenantId q = t" "qt_status q = QuoteReceived"
    and r: "r = p\<lparr>rfq_status := RfqAwarded, rfq_awardedQuoteId := Some qid, rfq_awardedAt := Some now\<rparr>"
      "s1 = rfqs_update (save_row r) s"
    using assms(2) by (rule award_rfq_Inr)
  have "award_frozen t i qid (filter (\<lambda>q. qt_rfqId q = i) (rfqQuotes s)) (rfq_lines i s) s1"
    using find_scoped_Some [OF p]
    by (simp add: award_frozen_def r(2) find_scoped_save [OF inv_keyed(3) [OF inv]] rfq_lines_def) (simp add: r(1))
  then have frozen: "award_frozen t i qid (filter (\<lambda>q. qt_rfqId q = i) (rfqQuotes s)) (rfq_lines i s) s2"
    by (rule award_frozen_run [OF assms(3) inv1])
  have kq: "keyed (rfqQuotes s)" "keyed (rfqQuotes s2)"
    using inv_keyed(6) inv procurement_run_inv [OF assms(3) inv1] by blast+
  have scoped: "find_scoped t qid (rfqQuotes s) = Some q" using q kq(1) by (simp add: find_scoped_keyed)
  have "q \<in> set (rfqQuotes s2)"
    using frozen q by (auto simp: award_frozen_def dest!: arg_cong [of _ _ set])
  then have scoped2: "find_scoped t qid (rfqQuotes s2) = Some q" using q kq(2) by (simp add: find_scoped_keyed)
  show ?thesis
    using assms(4)
  proof (rule convert_rfq_Inr)
    fix p2 qid2 q2 header
    assume a: "find_scoped t i (rfqs s2) = Some p2" "rfq_awardedQuoteId p2 = Some qid2"
        "find_scoped t qid2 (rfqQuotes s2) = Some q2"
      and h: "header = new_purchase_order n t (next_po_number y t s2) (qt_supplierId q2) None
                  (qc_orderDate qc) (qc_expectedDeliveryDate qc) (qc_shipToWarehouseId qc)
                  (nullish (qc_paymentTermsDays qc) 30) ''sepa_bank_transfer''
                  (qc_incoterms qc) (qt_currency q2) None"
      and po: "po = with_po_totals (create_lines (quoted_line_of t n (qt_perLineCosts q2)) ids (rfq_lines i s2)) header"
    have "qid2 = qid" "rfq_lines i s2 = rfq_lines i s" using frozen a(1,2) by (auto simp: award_frozen_def)
    moreover from this a(3) scoped2 have "q2 = q" by simp
    ultimately show ?thesis
      using scoped q(5) by (simp add: po h with_po_totals_def new_purchase_order_def Let_def)
  qed
qed

text \<open>A request sent to one supplier, answered, awarded and converted.\<close>

definition sample_rfq :: rfq_input where
  "sample_rfq = \<lparr>qi_requesterId = ''u'', qi_issueDate = 0, qi_validUntilDate = 9, qi_notes = None, qi_lines = []\<rparr>"

definition sample_quote :: quote_input where
  "sample_quote = \<lparr>qo_supplierId = ''s'', qo_totalCents = 500, qo_currency = Some ''CHF'',
     qo_validUntilDate = None, qo_perLineCosts = [], qo_notes = None\<rparr>"

definition sample_rfq_convert :: rfq_convert_input where
  "sample_rfq_convert = \<lparr>qc_orderDate = 1, qc_expectedDeliveryDate = None, qc_shipToWarehouseId = None,
     qc_incoterms = None, qc_paymentTermsDays = None\<rparr>"

definition rfq_created :: procurement_db where
  "rfq_created = after (create_rfq 2026 ''f'' (sample_ids CHR ''a'') ''t'' sample_rfq) empty_procurement_db"

definition rfq_sent :: procurement_db where
  "rfq_sent = after (send_rfq (sample_ids CHR ''q'') ''t'' ''f'' [''s'']) rfq_created"

definition rfq_answered :: procurement_db where
  "rfq_answered = after (record_supplier_quote 3 ''t'' ''f'' sample_quote) rfq_sent"

definition rfq_awarded :: procurement_db where
  "rfq_awarded = after (award_rfq 4 ''t'' ''f'' ''q0'') rfq_answered"

lemma rfq_created_rows:
  "rfqs rfq_created = [\<lparr>ent_id = ''f'', tenantId = ''t'', rfq_number = doc_number ''RFQ'' 5 2026 1,
     rfq_requesterId = ''u'', rfq_issueDate = 0, rfq_validUntilDate = 9, rfq_status = RfqDraft,
     rfq_notes = None, rfq_awardedQuoteId = None, rfq_awardedAt = None, rfq_convertedTo = None\<rparr>]"
  "rfqQuotes rfq_created = []" "purchaseOrders rfq_created = []" "purchaseOrderLines rfq_created = []"
  "runs_ok (create_rfq 2026 ''f'' (sample_ids CHR ''a'') ''t'' sample_rfq) empty_procurement_db"
  by (simp_all add: rfq_created_def after_def runs_ok_def create_rfq_def svc_defs Let_def sample_rfq_def
      next_rfq_number_def count_tenant_def empty_procurement_db_def save_row_def)

lemma sample_quote_rows: "create_lines (quote_of ''t'' ''f'') (sample_ids CHR ''q'') [''s''] = [quote_of ''t'' ''f'' ''q0'' ''s'']"
proof -
  have "sample_ids CHR ''q'' 0 = ''q0''" by code_simp
  then show ?thesis by (simp add: create_lines_def)
qed

lemma rfq_sent_rows:
  "rfqs rfq_sent = map (\<lambda>r. r\<lparr>rfq_status := RfqSent\<rparr>) (rfqs rfq_created)"
  "rfqQuotes rfq_sent = [quote_of ''t'' ''f'' ''q0'' ''s'']"
  "purchaseOrders rfq_sent = []" "purchaseOrderLines rfq_sent = []"
  "runs_ok (send_rfq (sample_ids CHR ''q'') ''t'' ''f'' [''s'']) rfq_created"
  by (simp_all add: rfq_sent_def after_def runs_ok_def send_rfq_def get_rfq_def svc_defs Let_def
      rfq_created_rows find_scoped_def can_rfq_def save_row_def save_rows_def sample_quote_rows)

lemma rfq_answered_rows:
  "rfqs rfq_answered = map (\<lambda>r. r\<lparr>rfq_status := RfqQuotesReceived\<rparr>) (rfqs rfq_created)"
  "\<exists>q. rfqQuotes rfq_answered = [q] \<and> ent_id q = ''q0'' \<and> tenantId q = ''t'' \<and> qt_rfqId q = ''f'' \<and>
     qt_supplierId q = ''s'' \<and> qt_status q = QuoteReceived \<and> qt_currency q = ''CHF''"
  "purchaseOrders rfq_answered = []" "purchaseOrderLines rfq_answered = []"
  "runs_ok (record_supplier_quote 3 ''t'' ''f'' sample_quote) rfq_sent"
  by (simp_all add: rfq_answered_def after_def runs_ok_def record_supplier_quote_def get_rfq_def svc_defs Let_def
      rfq_sent_rows rfq_created_rows find_scoped_def save_row_def find_quote_of_supplier_def quote_of_def
      sample_quote_def nullish_def)

lemma rfq_awarded_runs:
  "runs_ok (award_rfq 4 ''t'' ''f'' ''q0'') rfq_answered"
  "rfqs rfq_awarded = map (\<lambda>r. r\<lparr>rfq_status := RfqAwarded, rfq_awardedQuoteId := Some ''q0'', rfq_awardedAt := Some 4\<rparr>) (rfqs rfq_created)"
  "rfqQuotes rfq_awarded = rfqQuotes rfq_answered"
  using rfq_answered_rows(2)
  by (auto simp: rfq_awarded_def after_def runs_ok_def award_rfq_def get_rfq_def svc_defs Let_def
      rfq_answered_rows(1) rfq_created_rows find_scoped_def save_row_def find_quote_on_rfq_def can_rfq_def)

lemma rfq_convert_runs:
  "runs_ok (convert_rfq_to_po 2026 ''p'' (sample_ids CHR ''b'') ''t'' ''f'' sample_rfq_convert) rfq_awarded"
  using rfq_answered_rows(2)
  by (auto simp: runs_ok_def convert_rfq_to_po_def get_rfq_def svc_defs Let_def
      rfq_awarded_runs rfq_created_rows find_scoped_def)

theorem award_fixes_supplier_and_prices_witness:
  "po_currency (outcome (convert_rfq_to_po 2026 ''p'' (sample_ids CHR ''b'') ''t'' ''f'' sample_rfq_convert) rfq_awarded)
     = ''CHF''"
proof -
  have c: "procurement_step ''t'' empty_procurement_db rfq_created"
    using procurement_step.create_rfq [OF runs_okD [OF rfq_created_rows(5)]]
    by (simp add: rfq_created_def empty_procurement_db_def fresh_def)
  have "procurement_step ''t'' rfq_created rfq_sent"
    using procurement_step.send_rfq [OF runs_okD [OF rfq_sent_rows(5)]] by (simp add: rfq_sent_def rfq_created_rows)
  moreover have "procurement_step ''t'' rfq_sent rfq_answered"
    using procurement_step.record_supplier_quote [OF runs_okD [OF rfq_answered_rows(5)]] by (simp add: rfq_answered_def)
  ultimately have reach: "procurement_reachable rfq_answered"
    using c by (meson procurement_run_refl procurement_run_step)
  show ?thesis
    using award_fixes_supplier_and_prices [OF reach runs_okD [OF rfq_awarded_runs(1), folded rfq_awarded_def]
        procurement_run_refl runs_okD [OF rfq_convert_runs]] rfq_answered_rows(2)
    by (auto simp: find_scoped_def)
qed

end
