(* ===== verification/Inventory.thy ===== *)
theory Inventory
  imports Documents JsNumber "HOL-Library.List_Lexorder" "HOL-Library.Char_ord"
begin

text \<open>
  The inventory module, \<^verbatim>\<open>backend/src/inventory/inventory.service.ts\<close> with its entities:
  products, warehouses, stock levels and the log of stock movements; movements,
  reservations for sales orders and consumption of bills of materials. Quantities are
  doubles; that the database rounds its \<^verbatim>\<open>decimal\<close> columns to two digits is not
  modelled. The product cache, the metrics counters and the log lines are left out.
\<close>

section \<open>Entities\<close>

datatype product_category = RawMaterial | SemiFinished | FinishedProduct | Consumable | Packaging | SparePart

datatype unit_of_measure = Piece | Kilogram | Gram | Liter | Meter | SquareMeter | CubicMeter | Box | Pallet

datatype movement_type =
  Inbound | Outbound | Transfer | Adjustment | ProductionConsumption | ProductionOutput | Return | Scrap

record product = entity +
  pd_sku :: string
  pd_name :: string
  pd_description :: "string option"
  pd_category :: product_category
  pd_unitOfMeasure :: unit_of_measure
  pd_unitCost :: jsnum
  pd_sellingPrice :: jsnum
  pd_weight :: jsnum
  pd_barcode :: "string option"
  pd_minimumStock :: int
  pd_reorderPoint :: int
  pd_reorderQuantity :: int
  pd_leadTimeDays :: int
  pd_supplier :: "string option"
  pd_isActive :: bool

record warehouse = entity +
  wh_code :: string
  wh_name :: string
  wh_address :: "string option"
  wh_city :: "string option"
  wh_postalCode :: "string option"
  wh_province :: "string option"
  wh_contactPerson :: "string option"
  wh_contactPhone :: "string option"
  wh_capacity :: "jsnum option"
  wh_isActive :: bool

record stock_level = entity +
  sl_productId :: uuid
  sl_warehouseId :: uuid
  sl_onHand :: jsnum
  sl_reserved :: jsnum
  sl_onOrder :: jsnum

record stock_movement = entity +
  mv_productId :: uuid
  mv_type :: movement_type
  mv_quantity :: jsnum
  mv_source :: "uuid option"
  mv_destination :: "uuid option"
  mv_reference :: "string option"
  mv_notes :: "string option"
  mv_performedBy :: "string option"
  mv_unitCostAtTime :: "jsnum option"

record inventory_db =
  products :: "product list"
  warehouses :: "warehouse list"
  stockLevels :: "stock_level list"
  stockMovements :: "stock_movement list"

section \<open>Stock levels\<close>

text \<open>
  Stock levels are unique per tenant, product and warehouse; every access finds them
  by these three. A save therefore replaces the level with the same key, or adds one.
\<close>

type_synonym level_key = "uuid \<times> uuid \<times> uuid"

definition level_key :: "stock_level \<Rightarrow> level_key" where
  "level_key l = (tenantId l, sl_productId l, sl_warehouseId l)"

definition find_level :: "level_key \<Rightarrow> stock_level list \<Rightarrow> stock_level option" where
  "find_level k ls = find (\<lambda>l. level_key l = k) ls"

fun save_level :: "stock_level \<Rightarrow> stock_level list \<Rightarrow> stock_level list" where
  "save_level r [] = [r]"
| "save_level r (l # ls) = (if level_key l = level_key r then r # ls else l # save_level r ls)"

definition levels_wf :: "stock_level list \<Rightarrow> bool" where
  "levels_wf ls \<longleftrightarrow> distinct (map level_key ls)"

lemma find_save_level: "find_level k (save_level r ls) = (if k = level_key r then Some r else find_level k ls)"
  by (induction ls) (auto simp: find_level_def)

lemma keys_save_level: "level_key ` set (save_level r ls) = insert (level_key r) (level_key ` set ls)"
  by (induction ls) auto

lemma levels_wf_save: "levels_wf ls \<Longrightarrow> levels_wf (save_level r ls)"
proof (induction ls)
  case (Cons l ls)
  then have "level_key l \<notin> level_key ` set ls" by (simp add: levels_wf_def)
  with Cons show ?case
    by (cases "level_key l = level_key r") (simp_all add: levels_wf_def keys_save_level)
qed (simp add: levels_wf_def)

lemma find_level_Some: "find_level k ls = Some l \<Longrightarrow> l \<in> set ls \<and> level_key l = k"
  by (auto simp: find_level_def find_Some_iff)

interpretation levels: repository level_key find_level save_level set levels_wf
proof unfold_locales
  show "levels_wf t \<Longrightarrow> find_level k t = Some r \<longleftrightarrow> r \<in> set t \<and> level_key r = k" for t k r
    unfolding find_level_def levels_wf_def by (rule find_Some_iff_keyed)
qed (simp_all add: find_save_level levels_wf_save)

text \<open>\<^verbatim>\<open>slRepo.create({ tenantId, productId, warehouseId, quantityOnHand: 0, \<dots> })\<close>\<close>

definition new_level :: "uuid \<Rightarrow> level_key \<Rightarrow> stock_level" where
  "new_level newId k =
     (case k of (t, p, w) \<Rightarrow>
        \<lparr>ent_id = newId, tenantId = t, sl_productId = p, sl_warehouseId = w,
         sl_onHand = 0, sl_reserved = 0, sl_onOrder = 0\<rparr>)"

definition level_or_new :: "uuid \<Rightarrow> level_key \<Rightarrow> stock_level option \<Rightarrow> stock_level" where
  "level_or_new newId k found = (case found of None \<Rightarrow> new_level newId k | Some l \<Rightarrow> l)"

lemma level_key_new [simp]: "level_key (new_level newId k) = k"
  by (simp add: new_level_def level_key_def split: prod.split)

lemma level_key_update [simp]:
  "level_key (l\<lparr>sl_onHand := q\<rparr>) = level_key l" "level_key (l\<lparr>sl_reserved := q\<rparr>) = level_key l"
  by (simp_all add: level_key_def)

lemma level_key_or_new [simp]: "level_key (level_or_new newId k (find_level k ls)) = k"
  by (auto simp: level_or_new_def dest: find_level_Some split: option.split)

text \<open>What the service reads of a level: an absent one counts as zero.\<close>

definition on_hand :: "level_key \<Rightarrow> inventory_db \<Rightarrow> jsnum" where
  "on_hand k s = (case find_level k (stockLevels s) of None \<Rightarrow> 0 | Some l \<Rightarrow> sl_onHand l)"

definition reserved :: "level_key \<Rightarrow> inventory_db \<Rightarrow> jsnum" where
  "reserved k s = (case find_level k (stockLevels s) of None \<Rightarrow> 0 | Some l \<Rightarrow> sl_reserved l)"

section \<open>Stock movements\<close>

text \<open>
  \<open>newId k\<close> is the key of a level created for \<open>k\<close>.
\<close>

definition adjust_stock :: "(level_key \<Rightarrow> uuid) \<Rightarrow> level_key \<Rightarrow> jsnum \<Rightarrow> (inventory_db, unit) svc" where
  "adjust_stock newId k delta =
     bind (gets (\<lambda>s. find_level k (stockLevels s))) (\<lambda>found.
     let level = level_or_new (newId k) k found; next = js_add (sl_onHand level) delta
     in seq (throw_if (next < 0) BadRequest)
          (modify (stockLevels_update (save_level (level\<lparr>sl_onHand := next\<rparr>)))))"

record movement_request =
  mr_productId :: uuid
  mr_movementType :: movement_type
  mr_quantity :: jsnum
  mr_source :: "uuid option"
  mr_destination :: "uuid option"
  mr_reference :: "string option"
  mr_notes :: "string option"
  mr_performedBy :: "string option"

text \<open>The \<^verbatim>\<open>switch\<close> of \<^verbatim>\<open>applyMovementToLevels\<close>; a missing warehouse makes it do nothing.\<close>

definition apply_movement_to_levels ::
  "(level_key \<Rightarrow> uuid) \<Rightarrow> uuid \<Rightarrow> movement_request \<Rightarrow> (inventory_db, unit) svc" where
  "apply_movement_to_levels newId t dto =
     (let p = mr_productId dto; q = mr_quantity dto;
          increase = (case mr_destination dto of None \<Rightarrow> ret () | Some w \<Rightarrow> adjust_stock newId (t, p, w) q);
          decrease = (case mr_source dto of None \<Rightarrow> ret () | Some w \<Rightarrow> adjust_stock newId (t, p, w) (- q))
      in case mr_movementType dto of
           Inbound \<Rightarrow> increase
         | ProductionOutput \<Rightarrow> increase
         | Return \<Rightarrow> increase
         | Outbound \<Rightarrow> decrease
         | ProductionConsumption \<Rightarrow> decrease
         | Scrap \<Rightarrow> decrease
         | Transfer \<Rightarrow>
             (if mr_source dto \<noteq> None \<and> mr_destination dto \<noteq> None then seq decrease increase else ret ())
         | Adjustment \<Rightarrow> increase)"

definition record_stock_movement ::
  "uuid \<Rightarrow> (level_key \<Rightarrow> uuid) \<Rightarrow> uuid \<Rightarrow> movement_request \<Rightarrow> (inventory_db, stock_movement) svc" where
  "record_stock_movement mvId newId t dto =
     bind (gets (\<lambda>s. find_scoped t (mr_productId dto) (products s))) (\<lambda>found.
     bind (require found NotFound) (\<lambda>product.
     transaction
       (let mv = \<lparr>ent_id = mvId, tenantId = t, mv_productId = mr_productId dto, mv_type = mr_movementType dto,
                  mv_quantity = mr_quantity dto, mv_source = mr_source dto, mv_destination = mr_destination dto,
                  mv_reference = mr_reference dto, mv_notes = mr_notes dto, mv_performedBy = mr_performedBy dto,
                  mv_unitCostAtTime = Some (pd_unitCost product)\<rparr>
        in seq (modify (stockMovements_update (save_row mv)))
          (seq (apply_movement_to_levels newId t dto)
             (ret mv)))))"

section \<open>Reservations\<close>

record reservation_request =
  rr_productId :: uuid
  rr_warehouseId :: uuid
  rr_quantity :: jsnum
  rr_reference :: string

definition request_key :: "uuid \<Rightarrow> reservation_request \<Rightarrow> level_key" where
  "request_key t r = (t, rr_productId r, rr_warehouseId r)"

definition reservation_movement ::
  "uuid \<Rightarrow> uuid \<Rightarrow> movement_type \<Rightarrow> string \<Rightarrow> reservation_request \<Rightarrow> stock_movement" where
  "reservation_movement mvId t ty remark r =
     \<lparr>ent_id = mvId, tenantId = t, mv_productId = rr_productId r, mv_type = ty, mv_quantity = rr_quantity r,
      mv_source = (if ty = Outbound then Some (rr_warehouseId r) else None),
      mv_destination = (if ty = Outbound then None else Some (rr_warehouseId r)),
      mv_reference = Some (rr_reference r), mv_notes = Some (remark @ rr_reference r),
      mv_performedBy = None, mv_unitCostAtTime = None\<rparr>"

text \<open>One round of each of the three loops; \<open>mvId\<close> is the key of its movement row.\<close>

definition reserve_one ::
  "(level_key \<Rightarrow> uuid) \<Rightarrow> uuid \<Rightarrow> uuid \<Rightarrow> reservation_request \<Rightarrow> (inventory_db, unit) svc" where
  "reserve_one newId mvId t r =
     bind (gets (\<lambda>s. find_level (request_key t r) (stockLevels s))) (\<lambda>stock.
     let onHand = (case stock of None \<Rightarrow> 0 | Some l \<Rightarrow> sl_onHand l);
         res = (case stock of None \<Rightarrow> 0 | Some l \<Rightarrow> sl_reserved l);
         available = js_sub onHand res;
         target = level_or_new (newId (request_key t r)) (request_key t r) stock
     in seq (throw_if (available < rr_quantity r) BadRequest)
       (seq (modify (stockLevels_update (save_level
               (target\<lparr>sl_reserved := js_add (sl_reserved target) (rr_quantity r)\<rparr>))))
          (modify (stockMovements_update (save_row
               (reservation_movement mvId t Adjustment ''Reservation for '' r))))))"

definition release_one :: "uuid \<Rightarrow> uuid \<Rightarrow> reservation_request \<Rightarrow> (inventory_db, unit) svc" where
  "release_one mvId t r =
     bind (gets (\<lambda>s. find_level (request_key t r) (stockLevels s))) (\<lambda>stock.
     case stock of
       None \<Rightarrow> ret ()
     | Some l \<Rightarrow>
         seq (modify (stockLevels_update (save_level
                (l\<lparr>sl_reserved := max 0 (js_sub (sl_reserved l) (rr_quantity r))\<rparr>))))
           (modify (stockMovements_update (save_row
                (reservation_movement mvId t Adjustment ''Reservation release for '' r)))))"

definition ship_one :: "uuid \<Rightarrow> uuid \<Rightarrow> reservation_request \<Rightarrow> (inventory_db, unit) svc" where
  "ship_one mvId t r =
     bind (gets (\<lambda>s. find_level (request_key t r) (stockLevels s))) (\<lambda>stock.
     bind (require stock BadRequest) (\<lambda>l.
     seq (throw_if (sl_onHand l < rr_quantity r) BadRequest)
       (seq (modify (stockLevels_update (save_level
               (l\<lparr>sl_onHand := js_sub (sl_onHand l) (rr_quantity r),
                 sl_reserved := max 0 (js_sub (sl_reserved l) (rr_quantity r))\<rparr>))))
          (modify (stockMovements_update (save_row
               (reservation_movement mvId t Outbound ''Shipment for '' r)))))))"

definition reserve_stock ::
  "(level_key \<Rightarrow> uuid) \<Rightarrow> (nat \<Rightarrow> uuid) \<Rightarrow> uuid \<Rightarrow> reservation_request list \<Rightarrow> (inventory_db, unit) svc" where
  "reserve_stock newId mvIds t rs =
     transaction (for_each (\<lambda>(k, r). reserve_one newId (mvIds k) t r) (enumerate 0 rs))"

definition release_reservation ::
  "(nat \<Rightarrow> uuid) \<Rightarrow> uuid \<Rightarrow> reservation_request list \<Rightarrow> (inventory_db, unit) svc" where
  "release_reservation mvIds t rs =
     transaction (for_each (\<lambda>(k, r). release_one (mvIds k) t r) (enumerate 0 rs))"

definition ship_reservation ::
  "(nat \<Rightarrow> uuid) \<Rightarrow> uuid \<Rightarrow> reservation_request list \<Rightarrow> (inventory_db, unit) svc" where
  "ship_reservation mvIds t rs =
     transaction (for_each (\<lambda>(k, r). ship_one (mvIds k) t r) (enumerate 0 rs))"

section \<open>Bills of materials\<close>

text \<open>
  The first active warehouse by code. The order of codes is that of the characters, as
  in the C collation.
\<close>

definition first_active_warehouse :: "uuid \<Rightarrow> warehouse list \<Rightarrow> warehouse option" where
  "first_active_warehouse t ws =
     (case sort_key wh_code (filter (\<lambda>w. tenantId w = t \<and> wh_isActive w) ws) of
        [] \<Rightarrow> None | w # _ \<Rightarrow> Some w)"

record bom_requirement =
  bl_materialId :: uuid
  bl_quantityRequired :: jsnum
  bl_warehouseId :: "uuid option"

definition consume_one ::
  "uuid \<Rightarrow> uuid \<Rightarrow> string \<Rightarrow> uuid \<Rightarrow> bom_requirement \<Rightarrow> (inventory_db, unit) svc" where
  "consume_one mvId t reference defaultWarehouse line =
     (let w = nullish (bl_warehouseId line) defaultWarehouse; k = (t, bl_materialId line, w) in
      bind (gets (\<lambda>s. find_level k (stockLevels s))) (\<lambda>stock.
      let onHand = (case stock of None \<Rightarrow> 0 | Some l \<Rightarrow> sl_onHand l) in
      seq (throw_if (onHand < bl_quantityRequired line) BadRequest)
     (bind (require stock PlainError) (\<lambda>l.
      seq (modify (stockLevels_update (save_level (l\<lparr>sl_onHand := js_sub onHand (bl_quantityRequired line)\<rparr>))))
        (modify (stockMovements_update (save_row
          \<lparr>ent_id = mvId, tenantId = t, mv_productId = bl_materialId line, mv_type = ProductionConsumption,
           mv_quantity = bl_quantityRequired line, mv_source = Some w, mv_destination = None,
           mv_reference = Some reference, mv_notes = Some (''BOM consumption for '' @ reference),
           mv_performedBy = None, mv_unitCostAtTime = None\<rparr>)))))))"

definition consume_bom_for_production_order ::
  "(nat \<Rightarrow> uuid) \<Rightarrow> uuid \<Rightarrow> string \<Rightarrow> bom_requirement list \<Rightarrow> uuid option \<Rightarrow> (inventory_db, unit) svc" where
  "consume_bom_for_production_order mvIds t reference bom fallback =
     bind (gets (\<lambda>s. case fallback of Some w \<Rightarrow> Some w
                     | None \<Rightarrow> map_option ent_id (first_active_warehouse t (warehouses s)))) (\<lambda>found.
     bind (require found BadRequest) (\<lambda>defaultWarehouse.
     transaction (for_each (\<lambda>(k, line). consume_one (mvIds k) t reference defaultWarehouse line) (enumerate 0 bom))))"

section \<open>Products and warehouses\<close>

record product_input =
  pdi_sku :: string
  pdi_name :: string
  pdi_description :: "string option"
  pdi_category :: product_category
  pdi_unitOfMeasure :: "unit_of_measure option"
  pdi_unitCost :: "jsnum option"
  pdi_sellingPrice :: "jsnum option"
  pdi_weight :: "jsnum option"
  pdi_barcode :: "string option"
  pdi_minimumStock :: "int option"
  pdi_reorderPoint :: "int option"
  pdi_reorderQuantity :: "int option"
  pdi_leadTimeDays :: "int option"
  pdi_supplier :: "string option"

text \<open>Columns the request leaves out take the defaults of the entity.\<close>

definition create_product :: "uuid \<Rightarrow> uuid \<Rightarrow> product_input \<Rightarrow> (inventory_db, product) svc" where
  "create_product newId t dto =
     bind (gets (\<lambda>s. find (\<lambda>p. tenantId p = t \<and> pd_sku p = pdi_sku dto) (products s))) (\<lambda>existing.
     seq (throw_if (existing \<noteq> None) BadRequest)
       (let p = \<lparr>ent_id = newId, tenantId = t, pd_sku = pdi_sku dto, pd_name = pdi_name dto,
                 pd_description = pdi_description dto, pd_category = pdi_category dto,
                 pd_unitOfMeasure = nullish (pdi_unitOfMeasure dto) Piece,
                 pd_unitCost = nullish (pdi_unitCost dto) 0, pd_sellingPrice = nullish (pdi_sellingPrice dto) 0,
                 pd_weight = nullish (pdi_weight dto) 0, pd_barcode = pdi_barcode dto,
                 pd_minimumStock = nullish (pdi_minimumStock dto) 0,
                 pd_reorderPoint = nullish (pdi_reorderPoint dto) 0,
                 pd_reorderQuantity = nullish (pdi_reorderQuantity dto) 0,
                 pd_leadTimeDays = nullish (pdi_leadTimeDays dto) 0,
                 pd_supplier = pdi_supplier dto, pd_isActive = True\<rparr>
        in seq (modify (products_update (save_row p))) (ret p)))"

definition get_product_by_id :: "uuid \<Rightarrow> uuid \<Rightarrow> (inventory_db, product) svc" where
  "get_product_by_id t i = bind (gets (\<lambda>s. find_scoped t i (products s))) (\<lambda>p. require p NotFound)"

text \<open>\<^verbatim>\<open>Object.assign(product, dto)\<close> is the function \<open>assign\<close>.\<close>

definition update_product :: "uuid \<Rightarrow> uuid \<Rightarrow> (product \<Rightarrow> product) \<Rightarrow> (inventory_db, product) svc" where
  "update_product t i assign =
     bind (get_product_by_id t i) (\<lambda>p.
     seq (modify (products_update (save_row (assign p)))) (ret (assign p)))"

definition delete_product :: "uuid \<Rightarrow> uuid \<Rightarrow> (inventory_db, unit) svc" where
  "delete_product t i =
     bind (get_product_by_id t i) (\<lambda>p.
     modify (products_update (save_row (p\<lparr>pd_isActive := False\<rparr>))))"

record warehouse_input =
  wi_code :: string
  wi_name :: string
  wi_address :: "string option"
  wi_city :: "string option"
  wi_postalCode :: "string option"
  wi_province :: "string option"
  wi_contactPerson :: "string option"
  wi_contactPhone :: "string option"
  wi_capacity :: "jsnum option"

definition create_warehouse :: "uuid \<Rightarrow> uuid \<Rightarrow> warehouse_input \<Rightarrow> (inventory_db, warehouse) svc" where
  "create_warehouse newId t dto =
     bind (gets (\<lambda>s. find (\<lambda>w. tenantId w = t \<and> wh_code w = wi_code dto) (warehouses s))) (\<lambda>existing.
     seq (throw_if (existing \<noteq> None) BadRequest)
       (let w = \<lparr>ent_id = newId, tenantId = t, wh_code = wi_code dto, wh_name = wi_name dto,
                 wh_address = wi_address dto, wh_city = wi_city dto, wh_postalCode = wi_postalCode dto,
                 wh_province = wi_province dto, wh_contactPerson = wi_contactPerson dto,
                 wh_contactPhone = wi_contactPhone dto, wh_capacity = wi_capacity dto, wh_isActive = True\<rparr>
        in seq (modify (warehouses_update (save_row w))) (ret w)))"

definition get_warehouses :: "uuid \<Rightarrow> (inventory_db, warehouse list) svc" where
  "get_warehouses t =
     gets (\<lambda>s. sort_key wh_code (filter (\<lambda>w. tenantId w = t \<and> wh_isActive w) (warehouses s)))"

definition get_warehouse_by_id :: "uuid \<Rightarrow> uuid \<Rightarrow> (inventory_db, warehouse) svc" where
  "get_warehouse_by_id t i = bind (gets (\<lambda>s. find_scoped t i (warehouses s))) (\<lambda>w. require w NotFound)"

definition update_warehouse :: "uuid \<Rightarrow> uuid \<Rightarrow> (warehouse \<Rightarrow> warehouse) \<Rightarrow> (inventory_db, warehouse) svc" where
  "update_warehouse t i assign =
     bind (get_warehouse_by_id t i) (\<lambda>w.
     seq (modify (warehouses_update (save_row (assign w)))) (ret (assign w)))"

section \<open>Listings\<close>

text \<open>
  Pages: an absent or zero page number is the first page, the page size is twenty
  unless given and at most a hundred. The rows come newest first.
\<close>

record 'a page =
  pg_data :: "'a list"
  pg_total :: nat
  pg_page :: nat
  pg_limit :: nat
  pg_totalPages :: nat

definition page_number :: "nat option \<Rightarrow> nat" where
  "page_number p = (case p of None \<Rightarrow> 1 | Some n \<Rightarrow> if n = 0 then 1 else n)"

definition page_limit :: "nat option \<Rightarrow> nat" where
  "page_limit l = min (case l of None \<Rightarrow> 20 | Some n \<Rightarrow> if n = 0 then 20 else n) 100"

definition get_page :: "nat \<Rightarrow> nat \<Rightarrow> 'a list \<Rightarrow> 'a page" where
  "get_page page limit rows =
     \<lparr>pg_data = take limit (drop ((page - 1) * limit) rows), pg_total = length rows,
      pg_page = page, pg_limit = limit, pg_totalPages = (length rows + limit - 1) div limit\<rparr>"

text \<open>\<^verbatim>\<open>LIKE '%text%'\<close> for a text without pattern characters.\<close>

fun contains :: "string \<Rightarrow> string \<Rightarrow> bool" where
  "contains pat [] = (pat = [])"
| "contains pat (c # s) = (take (length pat) (c # s) = pat \<or> contains pat s)"

record product_filter =
  pf_category :: "product_category option"
  pf_search :: "string option"
  pf_isActive :: "bool option"
  pf_page :: "nat option"
  pf_limit :: "nat option"

definition product_matches :: "uuid \<Rightarrow> product_filter \<Rightarrow> product \<Rightarrow> bool" where
  "product_matches t f p \<longleftrightarrow> tenantId p = t \<and>
     (case pf_category f of None \<Rightarrow> True | Some c \<Rightarrow> pd_category p = c) \<and>
     (case pf_isActive f of None \<Rightarrow> True | Some b \<Rightarrow> pd_isActive p = b) \<and>
     (case pf_search f of None \<Rightarrow> True | Some q \<Rightarrow> q = '''' \<or> contains q (pd_name p))"

definition get_products :: "uuid \<Rightarrow> product_filter \<Rightarrow> (inventory_db, product page) svc" where
  "get_products t f =
     gets (\<lambda>s. get_page (page_number (pf_page f)) (page_limit (pf_limit f))
       (rev (filter (product_matches t f) (products s))))"

definition get_stock_levels :: "uuid \<Rightarrow> uuid option \<Rightarrow> (inventory_db, stock_level list) svc" where
  "get_stock_levels t w =
     gets (\<lambda>s. filter (\<lambda>l. tenantId l = t \<and> (case w of None \<Rightarrow> True | Some x \<Rightarrow> sl_warehouseId l = x)) (stockLevels s))"

definition get_stock_movements ::
  "uuid \<Rightarrow> uuid option \<Rightarrow> nat \<Rightarrow> nat \<Rightarrow> (inventory_db, stock_movement page) svc" where
  "get_stock_movements t p page limit =
     gets (\<lambda>s. get_page page limit (rev (filter
       (\<lambda>m. tenantId m = t \<and> (case p of None \<Rightarrow> True | Some x \<Rightarrow> mv_productId m = x)) (stockMovements s))))"

definition get_low_stock_products :: "uuid \<Rightarrow> (inventory_db, product list) svc" where
  "get_low_stock_products t =
     gets (\<lambda>s. filter (\<lambda>p. tenantId p = t \<and> pd_isActive p \<and>
       sum_list (map sl_onHand (filter (\<lambda>l. sl_productId l = ent_id p) (stockLevels s))) \<le> of_int (pd_reorderPoint p))
       (products s))"

record valuation =
  va_totalValue :: jsnum
  va_byCategory :: "product_category \<rightharpoonup> jsnum"
  va_byWarehouse :: "string \<rightharpoonup> jsnum"

text \<open>\<^verbatim>\<open>acc[key] = (acc[key] || 0) + value\<close>, when there is a key.\<close>

definition add_under :: "'k option \<Rightarrow> jsnum \<Rightarrow> ('k \<rightharpoonup> jsnum) \<Rightarrow> ('k \<rightharpoonup> jsnum)" where
  "add_under key v acc =
     (case key of None \<Rightarrow> acc | Some k \<Rightarrow> acc(k \<mapsto> js_add (nullish (acc k) 0) v))"

definition level_value :: "product list \<Rightarrow> stock_level \<Rightarrow> jsnum" where
  "level_value ps l =
     js_mul (sl_onHand l) (case find_id (sl_productId l) ps of None \<Rightarrow> 0 | Some p \<Rightarrow> pd_unitCost p)"

definition warehouse_name :: "warehouse list \<Rightarrow> stock_level \<Rightarrow> string option" where
  "warehouse_name ws l =
     (case find_id (sl_warehouseId l) ws of None \<Rightarrow> None | Some w \<Rightarrow> if wh_name w = '''' then None else Some (wh_name w))"

definition get_inventory_valuation :: "uuid \<Rightarrow> (inventory_db, valuation) svc" where
  "get_inventory_valuation t =
     gets (\<lambda>s. let ls = filter (\<lambda>l. tenantId l = t) (stockLevels s); value = level_value (products s) in
       \<lparr>va_totalValue = js_fixed2 (js_sum value ls),
        va_byCategory = fold (\<lambda>l. add_under (map_option pd_category (find_id (sl_productId l) (products s))) (value l)) ls Map.empty,
        va_byWarehouse = fold (\<lambda>l. add_under (warehouse_name (warehouses s) l) (value l)) ls Map.empty\<rparr>)"

end
