(* ===== verification/Sales.thy ===== *)
theory Sales
  imports Inventory
begin

text \<open>
  Sales orders, \<^verbatim>\<open>backend/src/sales/sales.service.ts\<close> with
  \<^verbatim>\<open>sales.entity.ts\<close>: customers, orders and the way an order holds, gives back and
  takes stock through the inventory service. The state holds the inventory tables next
  to the two of this module. Dates are the texts of the request; the customer's
  free-form notes and the counters are left out.
\<close>

section \<open>Entities\<close>

datatype customer_type = Business | PublicAdministration | Individual | Foreign

datatype so_status = SoDraft | SoConfirmed | SoPartiallyShipped | SoShipped | SoInvoiced | SoCancelled

record customer = entity +
  cu_code :: string
  cu_name :: string
  cu_customerType :: customer_type
  cu_vatNumber :: "string option"
  cu_fiscalCode :: "string option"
  cu_sdiDestinationCode :: "string option"
  cu_pecEmail :: "string option"
  cu_email :: "string option"
  cu_phone :: "string option"
  cu_address :: "string option"
  cu_city :: "string option"
  cu_postalCode :: "string option"
  cu_province :: "string option"
  cu_country :: string
  cu_defaultIvaRate :: int
  cu_paymentTermsDays :: int
  cu_splitPayment :: bool
  cu_isActive :: bool

record so_line_input =
  sli_productId :: string
  sli_sku :: string
  sli_description :: string
  sli_quantity :: jsnum
  sli_unitPrice :: jsnum
  sli_discountPct :: "jsnum option"
  sli_ivaRate :: int
  sli_warehouseId :: "uuid option"

record so_line = so_line_input +
  sol_lineTotal :: jsnum

record sales_order = entity +
  so_orderNumber :: string
  so_customerId :: uuid
  so_status :: so_status
  so_orderDate :: string
  so_requestedDeliveryDate :: "string option"
  so_customerPoReference :: "string option"
  so_subtotalAmount :: jsnum
  so_taxAmount :: jsnum
  so_totalAmount :: jsnum
  so_notes :: "string option"
  so_lines :: "so_line list"

record sales_db =
  customers :: "customer list"
  salesOrders :: "sales_order list"
  inventory :: inventory_db

abbreviation with_inventory :: "(inventory_db, 'a) svc \<Rightarrow> (sales_db, 'a) svc" where
  "with_inventory \<equiv> on_part inventory (\<lambda>p s. s\<lparr>inventory := p\<rparr>)"

section \<open>Customers\<close>

record customer_input =
  ci_code :: string
  ci_name :: string
  ci_customerType :: "customer_type option"
  ci_vatNumber :: "string option"
  ci_fiscalCode :: "string option"
  ci_sdiDestinationCode :: "string option"
  ci_pecEmail :: "string option"
  ci_email :: "string option"
  ci_phone :: "string option"
  ci_address :: "string option"
  ci_city :: "string option"
  ci_postalCode :: "string option"
  ci_province :: "string option"
  ci_country :: "string option"
  ci_defaultIvaRate :: "int option"
  ci_paymentTermsDays :: "int option"
  ci_splitPayment :: "bool option"

definition create_customer :: "uuid \<Rightarrow> uuid \<Rightarrow> customer_input \<Rightarrow> (sales_db, customer) svc" where
  "create_customer newId t dto =
     bind (gets (\<lambda>s. find (\<lambda>c. tenantId c = t \<and> cu_code c = ci_code dto) (customers s))) (\<lambda>existing.
     seq (throw_if (existing \<noteq> None) BadRequest)
       (let c = \<lparr>ent_id = newId, tenantId = t, cu_code = ci_code dto, cu_name = ci_name dto,
                 cu_customerType = nullish (ci_customerType dto) Business, cu_vatNumber = ci_vatNumber dto,
                 cu_fiscalCode = ci_fiscalCode dto, cu_sdiDestinationCode = ci_sdiDestinationCode dto,
                 cu_pecEmail = ci_pecEmail dto, cu_email = ci_email dto, cu_phone = ci_phone dto,
                 cu_address = ci_address dto, cu_city = ci_city dto, cu_postalCode = ci_postalCode dto,
                 cu_province = ci_province dto, cu_country = nullish (ci_country dto) ''IT'',
                 cu_defaultIvaRate = nullish (ci_defaultIvaRate dto) 22,
                 cu_paymentTermsDays = nullish (ci_paymentTermsDays dto) 30,
                 cu_splitPayment = nullish (ci_splitPayment dto) False, cu_isActive = True\<rparr>
        in seq (modify (customers_update (save_row c))) (ret c)))"

definition get_customer :: "uuid \<Rightarrow> uuid \<Rightarrow> (sales_db, customer) svc" where
  "get_customer t i = bind (gets (\<lambda>s. find_scoped t i (customers s))) (\<lambda>c. require c NotFound)"

section \<open>Orders\<close>

record so_input =
  soi_customerId :: uuid
  soi_orderDate :: string
  soi_requestedDeliveryDate :: "string option"
  soi_customerPoReference :: "string option"
  soi_notes :: "string option"
  soi_lines :: "so_line_input list"

definition so_line_total :: "so_line_input \<Rightarrow> jsnum" where
  "so_line_total l =
     (let discount = nullish (sli_discountPct l) 0;
          netPrice = js_mul (sli_unitPrice l) (js_sub 1 (js_div discount 100))
      in js_fixed2 (js_mul (sli_quantity l) netPrice))"

definition so_line_of :: "so_line_input \<Rightarrow> so_line" where
  "so_line_of l = so_line_input.extend l (so_line.fields (so_line_total l))"

definition so_line_tax :: "so_line_input \<Rightarrow> jsnum" where
  "so_line_tax l = js_fixed2 (js_div (js_mul (so_line_total l) (of_int (sli_ivaRate l))) 100)"

definition next_order_number :: "nat \<Rightarrow> uuid \<Rightarrow> sales_db \<Rightarrow> string" where
  "next_order_number year t s = doc_number ''SO'' 5 year (count_tenant t (salesOrders s) + 1)"

definition create_sales_order ::
  "nat \<Rightarrow> uuid \<Rightarrow> uuid \<Rightarrow> so_input \<Rightarrow> (sales_db, sales_order) svc" where
  "create_sales_order year newId t dto =
     bind (get_customer t (soi_customerId dto)) (\<lambda>customer.
     bind (gets (next_order_number year t)) (\<lambda>number.
     let subtotal = js_sum so_line_total (soi_lines dto);
         tax = js_sum so_line_tax (soi_lines dto);
         taxAmount = (if cu_splitPayment customer then 0 else js_fixed2 tax);
         totalAmount = js_fixed2 (js_add subtotal taxAmount);
         order = \<lparr>ent_id = newId, tenantId = t, so_orderNumber = number, so_customerId = soi_customerId dto,
                  so_status = SoDraft, so_orderDate = soi_orderDate dto,
                  so_requestedDeliveryDate = soi_requestedDeliveryDate dto,
                  so_customerPoReference = soi_customerPoReference dto,
                  so_subtotalAmount = js_fixed2 subtotal, so_taxAmount = taxAmount, so_totalAmount = totalAmount,
                  so_notes = soi_notes dto, so_lines = map so_line_of (soi_lines dto)\<rparr>
     in seq (modify (salesOrders_update (save_row order))) (ret order)))"

definition get_sales_order :: "uuid \<Rightarrow> uuid \<Rightarrow> (sales_db, sales_order) svc" where
  "get_sales_order t i = bind (gets (\<lambda>s. find_scoped t i (salesOrders s))) (\<lambda>o'. require o' NotFound)"

definition list_sales_orders ::
  "uuid \<Rightarrow> so_status option \<Rightarrow> nat option \<Rightarrow> nat option \<Rightarrow> (sales_db, sales_order page) svc" where
  "list_sales_orders t st page limit =
     gets (\<lambda>s. get_page (nullish page 1) (min (nullish limit 20) 100)
       (rev (sort_key so_orderDate (filter
         (\<lambda>r. tenantId r = t \<and> (case st of None \<Rightarrow> True | Some x \<Rightarrow> so_status r = x)) (salesOrders s)))))"

section \<open>Stock of an order\<close>

definition pick_default_warehouse_id :: "uuid \<Rightarrow> (sales_db, uuid) svc" where
  "pick_default_warehouse_id t =
     bind (gets (\<lambda>s. first_active_warehouse t (warehouses (inventory s)))) (\<lambda>w.
     bind (require w BadRequest) (\<lambda>w. ret (ent_id w)))"

definition request_of :: "uuid \<Rightarrow> sales_order \<Rightarrow> so_line \<Rightarrow> reservation_request" where
  "request_of defaultWarehouse r l =
     \<lparr>rr_productId = sli_productId l, rr_warehouseId = nullish (sli_warehouseId l) defaultWarehouse,
      rr_quantity = sli_quantity l, rr_reference = ''SO:'' @ so_orderNumber r\<rparr>"

definition requests_of :: "uuid \<Rightarrow> sales_order \<Rightarrow> reservation_request list" where
  "requests_of defaultWarehouse r =
     map (request_of defaultWarehouse r) (filter (\<lambda>l. sli_productId l \<noteq> '''') (so_lines r))"

text \<open>
  The transaction around a change of an order covers the writes to the order table; the
  inventory service opens a transaction of its own.
\<close>

definition order_transaction :: "(sales_db, 'a) svc \<Rightarrow> (sales_db, 'a) svc" where
  "order_transaction m =
     (\<lambda>s. case m s of (Inl e, s') \<Rightarrow> (Inl e, s'\<lparr>salesOrders := salesOrders s\<rparr>) | (Inr a, s') \<Rightarrow> (Inr a, s'))"

definition save_order_status :: "so_status \<Rightarrow> sales_order \<Rightarrow> (sales_db, sales_order) svc" where
  "save_order_status st r =
     seq (modify (salesOrders_update (save_row (r\<lparr>so_status := st\<rparr>)))) (ret (r\<lparr>so_status := st\<rparr>))"

definition confirm_sales_order ::
  "(level_key \<Rightarrow> uuid) \<Rightarrow> (nat \<Rightarrow> uuid) \<Rightarrow> uuid \<Rightarrow> uuid \<Rightarrow> (sales_db, sales_order) svc" where
  "confirm_sales_order newLevel mvIds t i =
     order_transaction
       (bind (get_sales_order t i) (\<lambda>r.
        seq (throw_if (so_status r \<noteq> SoDraft) BadRequest)
       (bind (pick_default_warehouse_id t) (\<lambda>dw.
        seq (if requests_of dw r \<noteq> []
             then with_inventory (reserve_stock newLevel mvIds t (requests_of dw r)) else ret ())
          (save_order_status SoConfirmed r)))))"

definition cancel_sales_order :: "(nat \<Rightarrow> uuid) \<Rightarrow> uuid \<Rightarrow> uuid \<Rightarrow> (sales_db, sales_order) svc" where
  "cancel_sales_order mvIds t i =
     order_transaction
       (bind (get_sales_order t i) (\<lambda>r.
        seq (throw_if (so_status r = SoShipped \<or> so_status r = SoInvoiced) BadRequest)
       (seq (if so_status r = SoConfirmed \<or> so_status r = SoPartiallyShipped
             then bind (pick_default_warehouse_id t) (\<lambda>dw.
                  if requests_of dw r \<noteq> []
                  then with_inventory (release_reservation mvIds t (requests_of dw r)) else ret ())
             else ret ())
          (save_order_status SoCancelled r))))"

definition ship_sales_order :: "(nat \<Rightarrow> uuid) \<Rightarrow> uuid \<Rightarrow> uuid \<Rightarrow> (sales_db, sales_order) svc" where
  "ship_sales_order mvIds t i =
     order_transaction
       (bind (get_sales_order t i) (\<lambda>r.
        seq (throw_if (so_status r \<noteq> SoConfirmed) BadRequest)
       (bind (pick_default_warehouse_id t) (\<lambda>dw.
        seq (if requests_of dw r \<noteq> []
             then with_inventory (ship_reservation mvIds t (requests_of dw r)) else ret ())
          (save_order_status SoShipped r)))))"

end
