(* ===== verification/SalesDepth.thy ===== *)
theory SalesDepth
  imports Sales Documents
begin

text \<open>
  Quotations, delivery notes (DDT) and contact activities,
  \<^verbatim>\<open>backend/src/sales/sales-depth.service.ts\<close> with its entities. A quotation that was
  accepted becomes a draft order of the sales module, so the state holds the sales
  tables. Dates without a time are the texts of the request, times are milliseconds;
  \<open>now\<close> is the clock a request reads.
\<close>

section \<open>Entities\<close>

record quotation = entity +
  q_quotationNumber :: string
  q_customerId :: uuid
  q_issueDate :: string
  q_validUntilDate :: string
  q_status :: quotation_status
  q_subtotalCents :: jsnum
  q_taxCents :: jsnum
  q_totalCents :: jsnum
  q_currency :: string
  q_notes :: "string option"
  q_sentAt :: "int option"
  q_acceptedAt :: "int option"
  q_rejectedAt :: "int option"
  q_rejectionReason :: "string option"
  q_convertedToSalesOrderId :: "uuid option"
  q_createdAt :: int
  q_updatedAt :: int

record quotation_line = entity +
  ql_quotationId :: uuid
  ql_productId :: "uuid option"
  ql_description :: string
  ql_quantity :: rat
  ql_unitOfMeasure :: string
  ql_unitPriceCents :: jsnum
  ql_discountPct :: rat
  ql_taxRate :: int
  ql_lineTotalCents :: jsnum

datatype ddt_causale = Vendita | ContoVisione | ContoLavorazione | Reso | TentataVendita | Campionatura | Altro

record ddt = entity +
  ddt_number :: string
  ddt_customerId :: uuid
  ddt_salesOrderId :: "uuid option"
  ddt_issueDate :: string
  ddt_shippedAt :: "int option"
  ddt_deliveredAt :: "int option"
  ddt_status :: ddt_status
  ddt_causaleTrasporto :: ddt_causale
  ddt_carrierId :: "uuid option"
  ddt_trackingNumber :: "string option"
  ddt_packageCount :: int
  ddt_totalWeightKg :: "rat option"
  ddt_shipFromAddress :: string
  ddt_shipToAddress :: string
  ddt_invoiceId :: "uuid option"
  ddt_notes :: "string option"
  ddt_createdAt :: int
  ddt_updatedAt :: int

record ddt_line = entity +
  dl_ddtId :: uuid
  dl_productId :: uuid
  dl_salesOrderLineId :: "uuid option"
  dl_description :: string
  dl_quantity :: rat
  dl_unitOfMeasure :: string
  dl_serialIds :: "string list"
  dl_lotId :: "uuid option"

datatype activity_kind = ActCall | ActEmail | ActMeeting | ActDemo | ActVisit | ActNote

datatype activity_direction = Inbound | Outbound | Internal

datatype activity_link = LinkCustomer | LinkQuotation | LinkSalesOrder | LinkInvoice | LinkDdt | LinkRfq | LinkComplaint

record contact_activity = entity +
  ca_customerId :: uuid
  ca_contactPersonId :: "uuid option"
  ca_kind :: activity_kind
  ca_direction :: activity_direction
  ca_occurredAt :: int
  ca_durationMinutes :: "int option"
  ca_subject :: string
  ca_body :: "string option"
  ca_linkedEntityType :: activity_link
  ca_linkedEntityId :: "uuid option"
  ca_recordedBy :: uuid
  ca_tags :: "string list"

record depth_db =
  quotations :: "quotation list"
  quotationLines :: "quotation_line list"
  ddts :: "ddt list"
  ddtLines :: "ddt_line list"
  contactActivities :: "contact_activity list"
  orderTables :: sales_db

interpretation quotation_table: document_table quotations quotations_update q_status "\<lambda>x. q_status_update (\<lambda>_. x)"
  by unfold_locales simp_all

interpretation ddt_table: document_table ddts ddts_update ddt_status "\<lambda>x. ddt_status_update (\<lambda>_. x)"
  by unfold_locales simp_all

section \<open>Quotations\<close>

record quotation_line_input =
  qli_productId :: "uuid option"
  qli_description :: string
  qli_quantity :: rat
  qli_unitOfMeasure :: "string option"
  qli_unitPriceCents :: jsnum
  qli_discountPct :: "rat option"
  qli_taxRate :: "int option"

record quotation_input =
  qi_customerId :: uuid
  qi_issueDate :: string
  qi_validUntilDate :: string
  qi_currency :: "string option"
  qi_notes :: "string option"
  qi_lines :: "quotation_line_input list"

definition next_quotation_number :: "nat \<Rightarrow> uuid \<Rightarrow> depth_db \<Rightarrow> string" where
  "next_quotation_number year t s = doc_number ''QT'' 5 year (count_tenant t (quotations s) + 1)"

definition quotation_line_of :: "uuid \<Rightarrow> uuid \<Rightarrow> uuid \<Rightarrow> quotation_line_input \<Rightarrow> quotation_line" where
  "quotation_line_of t qid i l =
     (let qty = fl (qli_quantity l);
          discountFactor = (case qli_discountPct l of None \<Rightarrow> 1 | Some d \<Rightarrow> js_sub 1 (js_div (fl d) 100));
          total = of_int (math_round (js_mul (js_mul qty (qli_unitPriceCents l)) discountFactor))
      in \<lparr>ent_id = i, tenantId = t, ql_quotationId = qid, ql_productId = qli_productId l,
          ql_description = qli_description l, ql_quantity = qli_quantity l,
          ql_unitOfMeasure = nullish (qli_unitOfMeasure l) ''pz'',
          ql_unitPriceCents = qli_unitPriceCents l, ql_discountPct = nullish (qli_discountPct l) 0,
          ql_taxRate = nullish (qli_taxRate l) 22, ql_lineTotalCents = total\<rparr>)"

definition quotation_line_tax :: "quotation_line \<Rightarrow> jsnum" where
  "quotation_line_tax l = of_int (math_round (js_div (js_mul (ql_lineTotalCents l) (of_int (ql_taxRate l))) 100))"

definition with_quotation_totals :: "quotation_line list \<Rightarrow> quotation \<Rightarrow> quotation" where
  "with_quotation_totals ls q =
     (let subtotal = js_sum ql_lineTotalCents ls; tax = js_sum quotation_line_tax ls
      in q\<lparr>q_subtotalCents := subtotal, q_taxCents := tax, q_totalCents := js_add subtotal tax\<rparr>)"

definition create_quotation ::
  "int \<Rightarrow> nat \<Rightarrow> uuid \<Rightarrow> (nat \<Rightarrow> uuid) \<Rightarrow> uuid \<Rightarrow> quotation_input \<Rightarrow> (depth_db, quotation) svc" where
  "create_quotation now year newId lineIds t dto =
     bind (gets (next_quotation_number year t)) (\<lambda>number.
     transaction
       (let q = \<lparr>ent_id = newId, tenantId = t, q_quotationNumber = number, q_customerId = qi_customerId dto,
                 q_issueDate = qi_issueDate dto, q_validUntilDate = qi_validUntilDate dto, q_status = QDraft,
                 q_subtotalCents = 0, q_taxCents = 0, q_totalCents = 0,
                 q_currency = nullish (qi_currency dto) ''EUR'', q_notes = qi_notes dto,
                 q_sentAt = None, q_acceptedAt = None, q_rejectedAt = None, q_rejectionReason = None,
                 q_convertedToSalesOrderId = None, q_createdAt = now, q_updatedAt = now\<rparr>;
            ls = create_lines (quotation_line_of t newId) lineIds (qi_lines dto);
            q' = with_quotation_totals ls q
        in seq (modify (quotations_update (save_row q)))
          (seq (modify (quotationLines_update (save_rows ls)))
          (seq (modify (quotations_update (save_row q')))
             (ret q')))))"

definition get_quotation :: "uuid \<Rightarrow> uuid \<Rightarrow> (depth_db, quotation) svc" where
  "get_quotation t i = bind (gets (\<lambda>s. find_scoped t i (quotations s))) (\<lambda>q. require q NotFound)"

definition quotation_lines :: "uuid \<Rightarrow> depth_db \<Rightarrow> quotation_line list" where
  "quotation_lines i s = filter (\<lambda>l. ql_quotationId l = i) (quotationLines s)"

text \<open>The guard against a bare transition to \<open>converted\<close> runs before the mutator.\<close>

definition transition_quotation ::
  "int \<Rightarrow> uuid \<Rightarrow> uuid \<Rightarrow> quotation_status \<Rightarrow> (quotation \<Rightarrow> quotation) \<Rightarrow> (depth_db, quotation) svc" where
  "transition_quotation now t i next mutator =
     transition_row quotations quotations_update q_status (\<lambda>x. q_status_update (\<lambda>_. x)) can_quotation t i next
       (\<lambda>q. if next = QConverted \<and> q_convertedToSalesOrderId q = None then Inl Conflict
            else Inr (mutator q\<lparr>q_updatedAt := now\<rparr>))"

definition send_quotation :: "int \<Rightarrow> uuid \<Rightarrow> uuid \<Rightarrow> (depth_db, quotation) svc" where
  "send_quotation now t i = transition_quotation now t i QSent (\<lambda>q. q\<lparr>q_sentAt := Some now\<rparr>)"

definition revision_note :: "string option \<Rightarrow> string option \<Rightarrow> string option" where
  "revision_note note old =
     (case note of None \<Rightarrow> old
      | Some n \<Rightarrow> if n = [] then old
                 else Some (js_trim (nullish old [] @ CHR 0x0A # ''[REVISION] '' @ n)))"

definition revise_quotation :: "int \<Rightarrow> uuid \<Rightarrow> uuid \<Rightarrow> string option \<Rightarrow> (depth_db, quotation) svc" where
  "revise_quotation now t i note =
     transition_quotation now t i QRevised (\<lambda>q. q\<lparr>q_notes := revision_note note (q_notes q)\<rparr>)"

definition accept_quotation :: "int \<Rightarrow> uuid \<Rightarrow> uuid \<Rightarrow> (depth_db, quotation) svc" where
  "accept_quotation now t i = transition_quotation now t i QAccepted (\<lambda>q. q\<lparr>q_acceptedAt := Some now\<rparr>)"

definition reject_quotation :: "int \<Rightarrow> uuid \<Rightarrow> uuid \<Rightarrow> string \<Rightarrow> (depth_db, quotation) svc" where
  "reject_quotation now t i reason =
     transition_quotation now t i QRejected
       (\<lambda>q. q\<lparr>q_rejectedAt := Some now, q_rejectionReason := Some reason\<rparr>)"

definition expire_quotation :: "int \<Rightarrow> uuid \<Rightarrow> uuid \<Rightarrow> (depth_db, quotation) svc" where
  "expire_quotation now t i = transition_quotation now t i QExpired (\<lambda>q. q)"

section \<open>From quotation to order\<close>

definition next_sales_order_number :: "nat \<Rightarrow> uuid \<Rightarrow> depth_db \<Rightarrow> string" where
  "next_sales_order_number year t s =
     doc_number ''SO'' 5 year (count_tenant t (salesOrders (orderTables s)) + 1)"

definition order_line_of :: "quotation_line \<Rightarrow> so_line" where
  "order_line_of l =
     \<lparr>sli_productId = nullish (ql_productId l) '''', sli_sku = '''', sli_description = ql_description l,
      sli_quantity = fl (ql_quantity l), sli_unitPrice = js_div (ql_unitPriceCents l) 100,
      sli_discountPct = Some (fl (ql_discountPct l)), sli_ivaRate = ql_taxRate l, sli_warehouseId = None,
      sol_lineTotal = js_div (ql_lineTotalCents l) 100\<rparr>"

definition order_of_quotation :: "uuid \<Rightarrow> string \<Rightarrow> string \<Rightarrow> quotation \<Rightarrow> quotation_line list \<Rightarrow> sales_order" where
  "order_of_quotation newId number orderDate q ls =
     \<lparr>ent_id = newId, tenantId = tenantId q, so_orderNumber = number, so_customerId = q_customerId q,
      so_status = SoDraft, so_orderDate = orderDate, so_requestedDeliveryDate = None,
      so_customerPoReference = None, so_subtotalAmount = js_div (q_subtotalCents q) 100,
      so_taxAmount = js_div (q_taxCents q) 100, so_totalAmount = js_div (q_totalCents q) 100,
      so_notes = q_notes q, so_lines = map order_line_of ls\<rparr>"

definition convert_quotation_to_sales_order ::
  "int \<Rightarrow> nat \<Rightarrow> string \<Rightarrow> uuid \<Rightarrow> uuid \<Rightarrow> uuid \<Rightarrow> string option \<Rightarrow> (depth_db, sales_order) svc" where
  "convert_quotation_to_sales_order now year today newId t i orderDate =
     bind (get_quotation t i) (\<lambda>q.
     bind (gets (quotation_lines i)) (\<lambda>ls.
     seq (throw_if (q_status q \<noteq> QAccepted) BadRequest)
       (case q_convertedToSalesOrderId q of
          Some soId \<Rightarrow>
            bind (gets (\<lambda>s. find_scoped t soId (salesOrders (orderTables s)))) (\<lambda>existing.
            require existing Conflict)
        | None \<Rightarrow>
            transaction
              (bind (gets (next_sales_order_number year t)) (\<lambda>number.
               let so = order_of_quotation newId number (if orderDate = None \<or> orderDate = Some [] then today else the orderDate) q ls
               in seq (modify (orderTables_update (salesOrders_update (save_row so))))
                 (seq (modify (quotations_update (save_row
                        (q\<lparr>q_convertedToSalesOrderId := Some (ent_id so), q_status := QConverted,
                           q_updatedAt := now\<rparr>))))
                    (ret so)))))))"


section \<open>Delivery notes\<close>

record ddt_line_input =
  dli_productId :: uuid
  dli_salesOrderLineId :: "uuid option"
  dli_description :: string
  dli_quantity :: rat
  dli_unitOfMeasure :: "string option"
  dli_serialIds :: "string list option"
  dli_lotId :: "uuid option"

record ddt_input =
  di_customerId :: uuid
  di_salesOrderId :: "uuid option"
  di_issueDate :: string
  di_causaleTrasporto :: "ddt_causale option"
  di_carrierId :: "uuid option"
  di_packageCount :: "int option"
  di_totalWeightKg :: "rat option"
  di_shipFromAddress :: "string option"
  di_shipToAddress :: "string option"
  di_notes :: "string option"
  di_lines :: "ddt_line_input list"

definition next_ddt_number :: "nat \<Rightarrow> uuid \<Rightarrow> depth_db \<Rightarrow> string" where
  "next_ddt_number year t s = doc_number ''DDT'' 5 year (count_tenant t (ddts s) + 1)"

definition ddt_line_of :: "uuid \<Rightarrow> uuid \<Rightarrow> uuid \<Rightarrow> ddt_line_input \<Rightarrow> ddt_line" where
  "ddt_line_of t did i l =
     \<lparr>ent_id = i, tenantId = t, dl_ddtId = did, dl_productId = dli_productId l,
      dl_salesOrderLineId = dli_salesOrderLineId l, dl_description = dli_description l,
      dl_quantity = dli_quantity l, dl_unitOfMeasure = nullish (dli_unitOfMeasure l) ''pz'',
      dl_serialIds = nullish (dli_serialIds l) [], dl_lotId = dli_lotId l\<rparr>"

definition create_ddt ::
  "int \<Rightarrow> nat \<Rightarrow> uuid \<Rightarrow> (nat \<Rightarrow> uuid) \<Rightarrow> uuid \<Rightarrow> ddt_input \<Rightarrow> (depth_db, ddt) svc" where
  "create_ddt now year newId lineIds t dto =
     bind (gets (next_ddt_number year t)) (\<lambda>number.
     transaction
       (let d = \<lparr>ent_id = newId, tenantId = t, ddt_number = number, ddt_customerId = di_customerId dto,
                 ddt_salesOrderId = di_salesOrderId dto, ddt_issueDate = di_issueDate dto,
                 ddt_shippedAt = None, ddt_deliveredAt = None, ddt_status = DdtDraft,
                 ddt_causaleTrasporto = nullish (di_causaleTrasporto dto) Vendita,
                 ddt_carrierId = di_carrierId dto, ddt_trackingNumber = None,
                 ddt_packageCount = nullish (di_packageCount dto) 1, ddt_totalWeightKg = di_totalWeightKg dto,
                 ddt_shipFromAddress = nullish (di_shipFromAddress dto) ''{}'',
                 ddt_shipToAddress = nullish (di_shipToAddress dto) ''{}'', ddt_invoiceId = None,
                 ddt_notes = di_notes dto, ddt_createdAt = now, ddt_updatedAt = now\<rparr>;
            ls = create_lines (ddt_line_of t newId) lineIds (di_lines dto)
        in seq (modify (ddts_update (save_row d)))
          (seq (modify (ddtLines_update (save_rows ls)))
             (ret d))))"

definition get_ddt :: "uuid \<Rightarrow> uuid \<Rightarrow> (depth_db, ddt) svc" where
  "get_ddt t i = bind (gets (\<lambda>s. find_scoped t i (ddts s))) (\<lambda>d. require d NotFound)"

definition ddt_lines_of :: "uuid \<Rightarrow> depth_db \<Rightarrow> ddt_line list" where
  "ddt_lines_of i s = filter (\<lambda>l. dl_ddtId l = i) (ddtLines s)"

definition transition_ddt ::
  "int \<Rightarrow> uuid \<Rightarrow> uuid \<Rightarrow> ddt_status \<Rightarrow> (ddt \<Rightarrow> ddt) \<Rightarrow> (depth_db, ddt) svc" where
  "transition_ddt now t i next mutator =
     transition_row ddts ddts_update ddt_status (\<lambda>x. ddt_status_update (\<lambda>_. x)) can_ddt t i next
       (\<lambda>d. Inr (mutator d\<lparr>ddt_updatedAt := now\<rparr>))"

definition issue_ddt ::
  "int \<Rightarrow> uuid \<Rightarrow> uuid \<Rightarrow> string option \<Rightarrow> uuid option \<Rightarrow> (depth_db, ddt) svc" where
  "issue_ddt now t i trackingNumber carrierId =
     transition_ddt now t i DdtIssued
       (\<lambda>d. d\<lparr>ddt_trackingNumber := or_else trackingNumber (ddt_trackingNumber d),
             ddt_carrierId := or_else carrierId (ddt_carrierId d)\<rparr>)"

definition mark_ddt_in_transit ::
  "int \<Rightarrow> uuid \<Rightarrow> uuid \<Rightarrow> string option \<Rightarrow> int option \<Rightarrow> (depth_db, ddt) svc" where
  "mark_ddt_in_transit now t i trackingNumber shippedAt =
     transition_ddt now t i DdtInTransit
       (\<lambda>d. d\<lparr>ddt_shippedAt := Some (nullish shippedAt now),
             ddt_trackingNumber := or_else trackingNumber (ddt_trackingNumber d)\<rparr>)"

definition mark_ddt_delivered :: "int \<Rightarrow> uuid \<Rightarrow> uuid \<Rightarrow> int option \<Rightarrow> (depth_db, ddt) svc" where
  "mark_ddt_delivered now t i deliveredAt =
     transition_ddt now t i DdtDelivered (\<lambda>d. d\<lparr>ddt_deliveredAt := Some (nullish deliveredAt now)\<rparr>)"

definition cancel_ddt :: "int \<Rightarrow> uuid \<Rightarrow> uuid \<Rightarrow> (depth_db, ddt) svc" where
  "cancel_ddt now t i = transition_ddt now t i DdtCancelled (\<lambda>d. d)"

definition return_ddt :: "int \<Rightarrow> uuid \<Rightarrow> uuid \<Rightarrow> (depth_db, ddt) svc" where
  "return_ddt now t i = transition_ddt now t i DdtReturned (\<lambda>d. d)"

definition mark_ddt_lost :: "int \<Rightarrow> uuid \<Rightarrow> uuid \<Rightarrow> (depth_db, ddt) svc" where
  "mark_ddt_lost now t i = transition_ddt now t i DdtLost (\<lambda>d. d)"

definition dispute_ddt :: "int \<Rightarrow> uuid \<Rightarrow> uuid \<Rightarrow> (depth_db, ddt) svc" where
  "dispute_ddt now t i = transition_ddt now t i DdtDisputed (\<lambda>d. d)"

definition invoice_ddt :: "int \<Rightarrow> uuid \<Rightarrow> uuid \<Rightarrow> uuid \<Rightarrow> (depth_db, ddt) svc" where
  "invoice_ddt now t i invoiceId =
     transition_ddt now t i DdtInvoiced (\<lambda>d. d\<lparr>ddt_invoiceId := Some invoiceId\<rparr>)"

section \<open>Deferred invoices\<close>

record invoice_line_draft =
  idl_productId :: uuid
  idl_description :: string
  idl_quantity :: rat
  idl_unitOfMeasure :: string
  idl_ddtRef :: string

record invoice_draft =
  idr_customerId :: uuid
  idr_ddts :: "(uuid \<times> string \<times> string) list"
  idr_lines :: "invoice_line_draft list"

text \<open>\<^verbatim>\<open>where tenantId = :tenantId and id in (:...ids)\<close>, in table order.\<close>

definition ddts_named :: "uuid \<Rightarrow> uuid list \<Rightarrow> depth_db \<Rightarrow> ddt list" where
  "ddts_named t ids s = filter (\<lambda>d. tenantId d = t \<and> ent_id d \<in> set ids) (ddts s)"

definition draft_lines :: "depth_db \<Rightarrow> ddt \<Rightarrow> invoice_line_draft list" where
  "draft_lines s d =
     map (\<lambda>l. \<lparr>idl_productId = dl_productId l, idl_description = dl_description l, idl_quantity = dl_quantity l,
               idl_unitOfMeasure = dl_unitOfMeasure l, idl_ddtRef = ddt_number d\<rparr>)
       (ddt_lines_of (ent_id d) s)"

definition prepare_invoice_from_ddts :: "uuid \<Rightarrow> uuid list \<Rightarrow> (depth_db, invoice_draft) svc" where
  "prepare_invoice_from_ddts t ids =
     seq (throw_if (ids = []) BadRequest)
       (bind (gets (ddts_named t ids)) (\<lambda>ds.
        seq (throw_if (length ds \<noteq> length ids) NotFound)
       (seq (throw_if (length (remdups (map ddt_customerId ds)) > 1) BadRequest)
       (seq (for_each (\<lambda>d. throw_if (ddt_status d \<noteq> DdtDelivered) BadRequest) ds)
          (gets (\<lambda>s. \<lparr>idr_customerId = ddt_customerId (hd ds),
             idr_ddts = map (\<lambda>d. (ent_id d, ddt_number d, ddt_issueDate d)) ds,
             idr_lines = concat (map (draft_lines s) ds)\<rparr>))))))"

section \<open>Contact activities\<close>

record activity_input =
  ai_customerId :: uuid
  ai_contactPersonId :: "uuid option"
  ai_kind :: activity_kind
  ai_direction :: "activity_direction option"
  ai_occurredAt :: int
  ai_durationMinutes :: "int option"
  ai_subject :: string
  ai_body :: "string option"
  ai_linkedEntityType :: "activity_link option"
  ai_linkedEntityId :: "uuid option"
  ai_recordedBy :: uuid
  ai_tags :: "string list option"

definition log_activity :: "uuid \<Rightarrow> uuid \<Rightarrow> activity_input \<Rightarrow> (depth_db, contact_activity) svc" where
  "log_activity newId t dto =
     (let a = \<lparr>ent_id = newId, tenantId = t, ca_customerId = ai_customerId dto,
               ca_contactPersonId = ai_contactPersonId dto, ca_kind = ai_kind dto,
               ca_direction = nullish (ai_direction dto) Outbound, ca_occurredAt = ai_occurredAt dto,
               ca_durationMinutes = ai_durationMinutes dto, ca_subject = ai_subject dto, ca_body = ai_body dto,
               ca_linkedEntityType = nullish (ai_linkedEntityType dto) LinkCustomer,
               ca_linkedEntityId = ai_linkedEntityId dto, ca_recordedBy = ai_recordedBy dto,
               ca_tags = nullish (ai_tags dto) []\<rparr>
      in seq (modify (contactActivities_update (save_row a))) (ret a))"

record activity_query =
  aq_customerId :: "uuid option"
  aq_kind :: "activity_kind option"
  aq_linkedEntityType :: "activity_link option"
  aq_linkedEntityId :: "uuid option"
  aq_limit :: "nat option"

definition list_activities :: "uuid \<Rightarrow> activity_query \<Rightarrow> (depth_db, contact_activity list) svc" where
  "list_activities t query =
     gets (\<lambda>s. take (nullish (aq_limit query) 50) (sort_key (\<lambda>a. - ca_occurredAt a) (filter
       (\<lambda>a. tenantId a = t \<and>
            (aq_customerId query = None \<or> aq_customerId query = Some (ca_customerId a)) \<and>
            (aq_kind query = None \<or> aq_kind query = Some (ca_kind a)) \<and>
            (aq_linkedEntityType query = None \<or> aq_linkedEntityId query = None \<or>
             aq_linkedEntityType query = Some (ca_linkedEntityType a) \<and>
             aq_linkedEntityId query = ca_linkedEntityId a))
       (contactActivities s))))"

end
