(* ===== verification/InventoryProps.thy ===== *)
theory InventoryProps
  imports Inventory
begin

text \<open>
  Stock never goes negative; reservations are granted exactly when they fit and are
  undone by their release; a transfer moves stock without creating any; and what the
  movement log says of a reservation is not what happened to the stock.
\<close>

section \<open>Effects on levels\<close>

text \<open>Keys are triples, but quantifiers over them are kept whole.\<close>

declare split_paired_All [simp del]

lemma on_hand_save [simp]:
  "on_hand k (stockLevels_update (save_level l) s) = (if k = level_key l then sl_onHand l else on_hand k s)"
  by (simp add: on_hand_def find_save_level)

lemma reserved_save [simp]:
  "reserved k (stockLevels_update (save_level l) s) = (if k = level_key l then sl_reserved l else reserved k s)"
  by (simp add: reserved_def find_save_level)

lemma levels_frame [simp]:
  "on_hand k (stockMovements_update f s) = on_hand k s" "reserved k (stockMovements_update f s) = reserved k s"
  "on_hand k (products_update g s) = on_hand k s" "reserved k (products_update g s) = reserved k s"
  "on_hand k (warehouses_update h s) = on_hand k s" "reserved k (warehouses_update h s) = reserved k s"
  by (simp_all add: on_hand_def reserved_def)

lemma level_or_new_view [simp]:
  "sl_onHand (level_or_new i k (find_level k (stockLevels s))) = on_hand k s"
  "sl_reserved (level_or_new i k (find_level k (stockLevels s))) = reserved k s"
  by (simp_all add: level_or_new_def on_hand_def reserved_def new_level_def split: option.split prod.split)

lemma level_key_saved:
  "find_level k ls = Some l \<Longrightarrow> level_key l = k"
  "find_level k ls = Some l \<Longrightarrow> level_key (l\<lparr>sl_onHand := q, sl_reserved := r\<rparr>) = k"
  by (auto simp: level_key_def dest: find_level_Some)

lemma adjust_stock_Inr:
  "adjust_stock newId k d s = (Inr x, s') \<Longrightarrow>
     0 \<le> js_add (on_hand k s) d \<and>
     on_hand j s' = (if j = k then js_add (on_hand k s) d else on_hand j s) \<and> reserved j s' = reserved j s \<and>
     stockMovements s' = stockMovements s \<and> products s' = products s \<and> warehouses s' = warehouses s"
  by (auto simp: adjust_stock_def svc_simps Let_def not_less)

lemma reserve_one_Inr:
  "reserve_one newId m t r s = (Inr x, s') \<Longrightarrow>
     rr_quantity r \<le> js_sub (on_hand (request_key t r) s) (reserved (request_key t r) s) \<and>
     on_hand j s' = on_hand j s \<and>
     reserved j s' = (if j = request_key t r then js_add (reserved j s) (rr_quantity r) else reserved j s)"
  by (auto simp: reserve_one_def svc_simps Let_def not_less on_hand_def [symmetric] reserved_def [symmetric])

lemma release_one_Inr:
  "release_one m t r s = (Inr x, s') \<Longrightarrow>
     on_hand j s' = on_hand j s \<and>
     reserved j s' =
       (if j = request_key t r \<and> find_level j (stockLevels s) \<noteq> None
        then max 0 (js_sub (reserved j s) (rr_quantity r)) else reserved j s)"
  by (auto simp: release_one_def svc_simps on_hand_def reserved_def find_save_level
      split: option.splits dest: find_level_Some)

lemma ship_one_Inr:
  "ship_one m t r s = (Inr x, s') \<Longrightarrow>
     rr_quantity r \<le> on_hand (request_key t r) s \<and>
     on_hand j s' = (if j = request_key t r then js_sub (on_hand j s) (rr_quantity r) else on_hand j s) \<and>
     reserved j s' = (if j = request_key t r then max 0 (js_sub (reserved j s) (rr_quantity r)) else reserved j s)"
  by (auto simp: ship_one_def svc_simps not_less on_hand_def reserved_def find_save_level level_key_saved)

definition bom_key :: "uuid \<Rightarrow> uuid \<Rightarrow> bom_requirement \<Rightarrow> level_key" where
  "bom_key t dw line = (t, bl_materialId line, nullish (bl_warehouseId line) dw)"

lemma consume_one_Inr:
  "consume_one m t ref dw line s = (Inr x, s') \<Longrightarrow>
     bl_quantityRequired line \<le> on_hand (bom_key t dw line) s \<and>
     on_hand j s' = (if j = bom_key t dw line then js_sub (on_hand j s) (bl_quantityRequired line) else on_hand j s) \<and>
     reserved j s' = reserved j s"
  unfolding bom_key_def [symmetric] consume_one_def Let_def
  by (auto simp: svc_simps not_less on_hand_def reserved_def find_save_level level_key_saved)

section \<open>Stock never goes negative\<close>

definition stock_nonneg :: "inventory_db \<Rightarrow> bool" where
  "stock_nonneg s \<longleftrightarrow> (\<forall>k. 0 \<le> on_hand k s \<and> 0 \<le> reserved k s)"

lemma stock_nonnegI: "(\<And>k. 0 \<le> on_hand k s) \<Longrightarrow> (\<And>k. 0 \<le> reserved k s) \<Longrightarrow> stock_nonneg s"
  by (simp add: stock_nonneg_def)

lemma stock_nonnegD: "stock_nonneg s \<Longrightarrow> 0 \<le> on_hand k s" "stock_nonneg s \<Longrightarrow> 0 \<le> reserved k s"
  by (cases k, simp add: stock_nonneg_def)+

lemma adjust_stock_nonneg: "adjust_stock newId k d s = (Inr x, s') \<Longrightarrow> stock_nonneg s \<Longrightarrow> stock_nonneg s'"
  using adjust_stock_Inr [of newId k d s x s'] by (auto simp: stock_nonneg_def)

lemma apply_movement_nonneg:
  "apply_movement_to_levels newId t dto s = (Inr x, s') \<Longrightarrow> stock_nonneg s \<Longrightarrow> stock_nonneg s'"
  by (auto simp: apply_movement_to_levels_def Let_def svc_simps intro: adjust_stock_nonneg
      split: movement_type.splits option.splits if_splits)

lemma js_sub_nonneg: "b \<le> a \<Longrightarrow> 0 \<le> js_sub a b"
  by (simp add: js_sub_def fl_nonneg)

lemma reserve_one_nonneg:
  "reserve_one newId m t r s = (Inr x, s') \<Longrightarrow> 0 \<le> rr_quantity r \<Longrightarrow> stock_nonneg s \<Longrightarrow> stock_nonneg s'"
  by (rule stock_nonnegI) (simp_all add: reserve_one_Inr stock_nonnegD js_add_nonneg)

lemma release_one_nonneg: "release_one m t r s = (Inr x, s') \<Longrightarrow> stock_nonneg s \<Longrightarrow> stock_nonneg s'"
  using release_one_Inr [of m t r s x s'] by (simp add: stock_nonneg_def)

lemma ship_one_nonneg: "ship_one m t r s = (Inr x, s') \<Longrightarrow> stock_nonneg s \<Longrightarrow> stock_nonneg s'"
  using ship_one_Inr [of m t r s x s'] by (simp add: stock_nonneg_def js_sub_nonneg)

lemma consume_one_nonneg: "consume_one m t ref dw line s = (Inr x, s') \<Longrightarrow> stock_nonneg s \<Longrightarrow> stock_nonneg s'"
  using consume_one_Inr [of m t ref dw line s x s'] by (simp add: stock_nonneg_def js_sub_nonneg)

text \<open>The inventory service as a state machine, one step per successful request.\<close>

inductive inventory_step :: "inventory_db \<Rightarrow> inventory_db \<Rightarrow> bool" where
  movement: "record_stock_movement m newId t dto s = (Inr v, s') \<Longrightarrow> inventory_step s s'"
| reserve: "reserve_stock newId ms t rs s = (Inr (), s') \<Longrightarrow> list_all (\<lambda>r. 0 \<le> rr_quantity r) rs \<Longrightarrow> inventory_step s s'"
| release: "release_reservation ms t rs s = (Inr (), s') \<Longrightarrow> inventory_step s s'"
| ship: "ship_reservation ms t rs s = (Inr (), s') \<Longrightarrow> inventory_step s s'"
| consume: "consume_bom_for_production_order ms t ref bom fb s = (Inr (), s') \<Longrightarrow> inventory_step s s'"
| create_product: "create_product i t pdi s = (Inr p, s') \<Longrightarrow> inventory_step s s'"
| update_product: "update_product t i f s = (Inr p, s') \<Longrightarrow> inventory_step s s'"
| delete_product: "delete_product t i s = (Inr (), s') \<Longrightarrow> inventory_step s s'"
| create_warehouse: "create_warehouse i t wi s = (Inr w, s') \<Longrightarrow> inventory_step s s'"
| update_warehouse: "update_warehouse t i g s = (Inr w, s') \<Longrightarrow> inventory_step s s'"

lemma stock_nonneg_frame:
  "stock_nonneg (stockMovements_update f s) = stock_nonneg s" "stock_nonneg (products_update g s) = stock_nonneg s"
  "stock_nonneg (warehouses_update h s) = stock_nonneg s"
  by (simp_all add: stock_nonneg_def)

lemma for_each_nonneg:
  assumes "for_each (\<lambda>(k, r). body k r) (enumerate 0 rs) s = (Inr (), s')" and "stock_nonneg s"
    and "\<And>k r u v. r \<in> set rs \<Longrightarrow> stock_nonneg u \<Longrightarrow> body k r u = (Inr (), v) \<Longrightarrow> stock_nonneg v"
  shows "stock_nonneg s'"
proof (rule for_each_invariant [where I = stock_nonneg and s = s and t = s'])
  fix x u v
  assume "x \<in> set (enumerate 0 rs)" and "stock_nonneg u" and "(\<lambda>(k, r). body k r) x u = (Inr (), v)"
  moreover have "snd x \<in> set rs" using \<open>x \<in> set (enumerate 0 rs)\<close> by (metis map_snd_enumerate set_map image_eqI)
  ultimately show "stock_nonneg v" using assms(3) [of "snd x" u "fst x" v] by (simp add: case_prod_beta)
qed (use assms in simp_all)

lemma inventory_step_nonneg: "inventory_step s s' \<Longrightarrow> stock_nonneg s \<Longrightarrow> stock_nonneg s'"
proof (induction rule: inventory_step.induct)
  case (movement m newId t dto s v s')
  then show ?case
    by (auto simp: record_stock_movement_def svc_simps Let_def stock_nonneg_frame dest!: apply_movement_nonneg)
next
  case (reserve newId ms t rs s s')
  then show ?case
    unfolding reserve_stock_def transaction_Inr
    by (elim for_each_nonneg) (auto simp: list_all_iff intro: reserve_one_nonneg)
next
  case (release ms t rs s s')
  then show ?case unfolding release_reservation_def transaction_Inr
    by (elim for_each_nonneg) (auto intro: release_one_nonneg)
next
  case (ship ms t rs s s')
  then show ?case unfolding ship_reservation_def transaction_Inr
    by (elim for_each_nonneg) (auto intro: ship_one_nonneg)
next
  case (consume ms t ref bom fb s s')
  then obtain dw where "for_each (\<lambda>(k, line). consume_one (ms k) t ref dw line) (enumerate 0 bom) s = (Inr (), s')"
    by (auto simp: consume_bom_for_production_order_def svc_simps)
  then show ?case using consume(2) by (rule for_each_nonneg) (auto intro: consume_one_nonneg)
qed (auto simp: create_product_def update_product_def delete_product_def get_product_by_id_def
    create_warehouse_def update_warehouse_def get_warehouse_by_id_def svc_simps Let_def stock_nonneg_frame)

section \<open>Reservations\<close>

text \<open>Quantities that doubles represent exactly: whole numbers up to \<open>2 ^ 53\<close>.\<close>

definition whole :: "jsnum \<Rightarrow> bool" where
  "whole x \<longleftrightarrow> 0 \<le> x \<and> x \<le> 2 ^ 53 \<and> frac x = 0"

definition whole_levels :: "inventory_db \<Rightarrow> bool" where
  "whole_levels s \<longleftrightarrow> list_all (\<lambda>l. whole (sl_onHand l) \<and> whole (sl_reserved l)) (stockLevels s)"

definition whole_requests :: "reservation_request list \<Rightarrow> bool" where
  "whole_requests rs \<longleftrightarrow> list_all (\<lambda>r. whole (rr_quantity r)) rs"

text \<open>What a batch of requests asks for in total at one stock level, and whether it fits there.\<close>

definition requested :: "uuid \<Rightarrow> level_key \<Rightarrow> reservation_request list \<Rightarrow> rat" where
  "requested t k rs = sum_list (map rr_quantity (filter (\<lambda>r. request_key t r = k) rs))"

definition batch_fits :: "uuid \<Rightarrow> reservation_request list \<Rightarrow> inventory_db \<Rightarrow> bool" where
  "batch_fits t rs s \<longleftrightarrow>
     list_all (\<lambda>r. reserved (request_key t r) s + requested t (request_key t r) rs \<le> on_hand (request_key t r) s) rs"

definition whole_stock :: "inventory_db \<Rightarrow> bool" where
  "whole_stock s \<longleftrightarrow> (\<forall>k. whole (on_hand k s) \<and> whole (reserved k s))"

lemma whole_0 [simp]: "whole 0"
  by (simp add: whole_def)

lemma whole_stock_levels: "whole_levels s \<Longrightarrow> whole_stock s"
  by (auto simp: whole_stock_def whole_levels_def on_hand_def reserved_def list_all_iff
      split: option.split dest!: find_level_Some)

lemma whole_Ints: "whole x \<Longrightarrow> x \<in> \<int>"
  by (simp add: whole_def frac_eq_0_iff)

lemma whole_I: "x \<in> \<int> \<Longrightarrow> 0 \<le> x \<Longrightarrow> x \<le> 2 ^ 53 \<Longrightarrow> whole x"
  by (simp add: whole_def frac_eq_0_iff)

lemma whole_safe: "x \<in> \<int> \<Longrightarrow> \<bar>x\<bar> \<le> 2 ^ 53 \<Longrightarrow> safe x"
proof (elim Ints_cases)
  fix n
  assume "x = of_int n" and "\<bar>x\<bar> \<le> 2 ^ 53"
  then have "\<bar>n\<bar> \<le> 2 ^ 53" by (metis of_int_abs of_int_le_iff of_int_numeral of_int_power)
  with \<open>x = of_int n\<close> show "safe x" by (simp add: safe_of_int)
qed

lemma whole_sub: "whole a \<Longrightarrow> whole b \<Longrightarrow> js_sub a b = a - b"
  by (rule js_sub_safe, rule whole_safe) (auto simp: whole_Ints whole_def)

lemma whole_add: "whole a \<Longrightarrow> whole b \<Longrightarrow> a + b \<le> 2 ^ 53 \<Longrightarrow> js_add a b = a + b"
  by (rule js_add_safe, rule whole_safe) (auto simp: whole_Ints whole_def)

lemma requested_Cons [simp]:
  "requested t k (r # rs) = (if request_key t r = k then rr_quantity r else 0) + requested t k rs"
  by (simp add: requested_def)

lemma requested_Nil [simp]: "requested t k [] = 0"
  by (simp add: requested_def)

lemma requested_nonneg: "whole_requests rs \<Longrightarrow> 0 \<le> requested t k rs"
  by (induction rs) (auto simp: whole_requests_def whole_def)

lemma requested_absent: "k \<notin> request_key t ` set rs \<Longrightarrow> requested t k rs = 0"
  by (induction rs) auto

lemma requested_whole: "whole_requests rs \<Longrightarrow> requested t k rs \<in> \<int>"
  by (induction rs) (auto simp: whole_requests_def intro: whole_Ints)

text \<open>One round: it succeeds exactly when the quantity is available.\<close>

lemma reserve_one_whole:
  assumes "whole_stock s" and q: "whole (rr_quantity r)"
  shows "if rr_quantity r \<le> on_hand (request_key t r) s - reserved (request_key t r) s
         then \<exists>u. reserve_one newId m t r s = (Inr (), u) \<and> whole_stock u \<and>
           (\<forall>k. on_hand k u = on_hand k s \<and>
             reserved k u = reserved k s + (if request_key t r = k then rr_quantity r else 0))
         else reserve_one newId m t r s = (Inl BadRequest, s)"
proof (cases "rr_quantity r \<le> on_hand (request_key t r) s - reserved (request_key t r) s")
  case fits: True
  let ?k = "request_key t r"
  have w: "whole (on_hand k s)" "whole (reserved k s)" for k using assms(1) by (simp_all add: whole_stock_def)
  have sub: "js_sub (on_hand ?k s) (reserved ?k s) = on_hand ?k s - reserved ?k s" using w whole_sub by simp
  have le: "reserved ?k s + rr_quantity r \<le> on_hand ?k s" using fits by simp
  then have small: "reserved ?k s + rr_quantity r \<le> 2 ^ 53" using w(1) [of ?k] unfolding whole_def by linarith
  then have add: "js_add (reserved ?k s) (rr_quantity r) = reserved ?k s + rr_quantity r" using w q whole_add by simp
  obtain u where u: "reserve_one newId m t r s = (Inr (), u)"
    using sub fits unfolding on_hand_def reserved_def
    by (cases "find_level ?k (stockLevels s)") (simp_all add: reserve_one_def svc_defs Let_def not_less)
  have view: "on_hand k u = on_hand k s \<and>
      reserved k u = reserved k s + (if request_key t r = k then rr_quantity r else 0)" for k
    using reserve_one_Inr [OF u, of k] add by auto
  have "whole (reserved ?k s + rr_quantity r)"
    using w q small by (intro whole_I) (auto simp: whole_Ints whole_def)
  then have "whole_stock u" using view w by (simp add: whole_stock_def)
  then show ?thesis using u view fits by auto
next
  case False
  have "whole (on_hand k s)" "whole (reserved k s)" for k using assms(1) by (simp_all add: whole_stock_def)
  then have "js_sub (on_hand (request_key t r) s) (reserved (request_key t r) s) < rr_quantity r"
    using False whole_sub by simp
  then show ?thesis using False unfolding on_hand_def reserved_def
    by (cases "find_level (request_key t r) (stockLevels s)") (simp_all add: reserve_one_def svc_defs Let_def)
qed

lemma batch_fits_Cons:
  assumes "whole_requests rs" and "\<forall>k. on_hand k u = on_hand k s \<and>
      reserved k u = reserved k s + (if request_key t r = k then rr_quantity r else 0)"
  shows "batch_fits t (r # rs) s \<longleftrightarrow>
    rr_quantity r \<le> on_hand (request_key t r) s - reserved (request_key t r) s \<and> batch_fits t rs u"
proof -
  have u: "on_hand k u = on_hand k s"
    "reserved k u = reserved k s + (if request_key t r = k then rr_quantity r else 0)" for k
    using assms(2) by simp_all
  have rest: "reserved (request_key t x) s + requested t (request_key t x) (r # rs) \<le> on_hand (request_key t x) s \<longleftrightarrow>
      reserved (request_key t x) u + requested t (request_key t x) rs \<le> on_hand (request_key t x) u" for x
    by (simp add: u add.assoc)
  have "reserved (request_key t r) s + requested t (request_key t r) (r # rs) \<le> on_hand (request_key t r) s \<longleftrightarrow>
      rr_quantity r \<le> on_hand (request_key t r) s - reserved (request_key t r) s"
    if fits: "batch_fits t rs u"
  proof (cases "request_key t r \<in> request_key t ` set rs")
    case True
    then obtain x where "x \<in> set rs" "request_key t x = request_key t r" by auto
    then have "reserved (request_key t r) u + requested t (request_key t r) rs \<le> on_hand (request_key t r) u"
      using fits by (auto simp: batch_fits_def list_all_iff)
    then show ?thesis using requested_nonneg [OF assms(1), of t "request_key t r"] by (simp add: u)
  next
    case False
    then show ?thesis by (simp add: requested_absent le_diff_eq add.commute)
  qed
  then have "(reserved (request_key t r) s + requested t (request_key t r) (r # rs) \<le> on_hand (request_key t r) s \<and>
      batch_fits t rs u) = (rr_quantity r \<le> on_hand (request_key t r) s - reserved (request_key t r) s \<and> batch_fits t rs u)"
    by blast
  then show ?thesis using rest by (simp add: batch_fits_def del: requested_Cons)
qed

lemma reserve_loop:
  assumes "whole_stock s" and "whole_requests rs"
  shows "if batch_fits t rs s
         then \<exists>u. for_each (\<lambda>(k, r). reserve_one newId (ms k) t r) (enumerate n rs) s = (Inr (), u) \<and>
           whole_stock u \<and>
           (\<forall>k. on_hand k u = on_hand k s \<and> reserved k u = reserved k s + requested t k rs)
         else fst (for_each (\<lambda>(k, r). reserve_one newId (ms k) t r) (enumerate n rs) s) = Inl BadRequest"
  using assms
proof (induction rs arbitrary: s n)
  case Nil
  then show ?case by (simp add: batch_fits_def ret_def)
next
  case (Cons r rs)
  have q: "whole (rr_quantity r)" and rs: "whole_requests rs"
    using Cons.prems(2) by (simp_all add: whole_requests_def)
  note one = reserve_one_whole [OF Cons.prems(1) q, of t newId "ms n"]
  show ?case
  proof (cases "rr_quantity r \<le> on_hand (request_key t r) s - reserved (request_key t r) s")
    case True
    with one obtain u where u: "reserve_one newId (ms n) t r s = (Inr (), u)" "whole_stock u"
      "\<forall>k. on_hand k u = on_hand k s \<and>
         reserved k u = reserved k s + (if request_key t r = k then rr_quantity r else 0)"
      by auto
    have run: "for_each (\<lambda>(k, r). reserve_one newId (ms k) t r) (enumerate n (r # rs)) s
        = for_each (\<lambda>(k, r). reserve_one newId (ms k) t r) (enumerate (Suc n) rs) u"
      by (simp add: seq_def bind_def u(1))
    have fits: "batch_fits t (r # rs) s = batch_fits t rs u"
      using batch_fits_Cons [OF rs u(3)] True by simp
    show ?thesis unfolding run fits using Cons.IH [OF u(2) rs, of "Suc n"] u(3)
      by (simp add: add.assoc split: if_splits)
  next
    case False
    then have "\<not> batch_fits t (r # rs) s"
      using requested_nonneg [OF rs, of t "request_key t r"] by (simp add: batch_fits_def not_le)
    then show ?thesis using one False by (simp add: seq_def bind_def)
  qed
qed


section \<open>Undoing and shipping a reservation\<close>

definition positive_requests :: "reservation_request list \<Rightarrow> bool" where
  "positive_requests rs \<longleftrightarrow> list_all (\<lambda>r. whole (rr_quantity r) \<and> 0 < rr_quantity r) rs"

lemma positive_whole: "positive_requests rs \<Longrightarrow> whole_requests rs"
  by (auto simp: positive_requests_def whole_requests_def list_all_iff)

text \<open>
  The loops of the release (\<open>f = 0\<close>) and of the shipment (\<open>f = 1\<close>): each round
  takes its quantity off what is reserved, and \<open>f\<close> times it off what is on hand.
\<close>

definition settles :: "rat \<Rightarrow> uuid \<Rightarrow> reservation_request \<Rightarrow> inventory_db \<Rightarrow> inventory_db \<Rightarrow> bool" where
  "settles f t r s u \<longleftrightarrow> (\<forall>k.
     on_hand k u = on_hand k s - (if request_key t r = k then f * rr_quantity r else 0) \<and>
     reserved k u = reserved k s - (if request_key t r = k then rr_quantity r else 0))"

definition covers :: "rat \<Rightarrow> uuid \<Rightarrow> reservation_request list \<Rightarrow> inventory_db \<Rightarrow> bool" where
  "covers f t rs s \<longleftrightarrow>
     (\<forall>k. f * requested t k rs \<le> on_hand k s \<and> requested t k rs \<le> reserved k s)"

lemma settles_whole:
  assumes "whole_stock s" and "whole (rr_quantity r)" and "f = 0 \<or> f = 1"
    and "f * rr_quantity r \<le> on_hand (request_key t r) s" and "rr_quantity r \<le> reserved (request_key t r) s"
    and "settles f t r s u"
  shows "whole_stock u"
  unfolding whole_stock_def
proof (intro allI conjI)
  fix k
  have w: "whole (on_hand k s)" "whole (reserved k s)" using assms(1) by (simp_all add: whole_stock_def)
  have ints: "on_hand k s \<in> \<int>" "reserved k s \<in> \<int>" "rr_quantity r \<in> \<int>" "f * rr_quantity r \<in> \<int>"
    using w assms(2,3) by (auto simp: whole_Ints)
  have u: "on_hand k u = on_hand k s - (if request_key t r = k then f * rr_quantity r else 0)"
    "reserved k u = reserved k s - (if request_key t r = k then rr_quantity r else 0)"
    using assms(6) by (simp_all add: settles_def)
  have q: "0 \<le> rr_quantity r" "0 \<le> f * rr_quantity r" using assms(2,3) by (auto simp: whole_def)
  show "whole (on_hand k u)"
    using u(1) ints w(1) assms(4) q(2) by (intro whole_I) (auto simp: whole_def)
  show "whole (reserved k u)"
    using u(2) ints w(2) assms(5) q(1) by (intro whole_I) (auto simp: whole_def)
qed

lemma covers_Cons:
  assumes "whole_requests rs" and "0 \<le> f" and "covers f t (r # rs) s" and "settles f t r s u"
  shows "f * rr_quantity r \<le> on_hand (request_key t r) s" "rr_quantity r \<le> reserved (request_key t r) s"
    "covers f t rs u"
proof -
  have c: "f * requested t k (r # rs) \<le> on_hand k s" "requested t k (r # rs) \<le> reserved k s" for k
    using assms(3) by (simp_all add: covers_def)
  have n: "0 \<le> requested t k rs" "0 \<le> f * requested t k rs" for k
    using requested_nonneg [OF assms(1)] assms(2) by simp_all
  show "f * rr_quantity r \<le> on_hand (request_key t r) s" "rr_quantity r \<le> reserved (request_key t r) s"
    using c [of "request_key t r"] n [of "request_key t r"] by (simp_all add: distrib_left)
  show "covers f t rs u"
    unfolding covers_def
  proof (intro allI conjI)
    fix k
    show "f * requested t k rs \<le> on_hand k u" "requested t k rs \<le> reserved k u"
      using c [of k] assms(4) by (auto simp: settles_def distrib_left)
  qed
qed

lemma settle_loop:
  assumes one: "\<And>n r s. whole_stock s \<Longrightarrow> whole (rr_quantity r) \<Longrightarrow> 0 < rr_quantity r \<Longrightarrow>
      f * rr_quantity r \<le> on_hand (request_key t r) s \<Longrightarrow> rr_quantity r \<le> reserved (request_key t r) s \<Longrightarrow>
      \<exists>u. body n r s = (Inr (), u) \<and> settles f t r s u"
    and f: "f = 0 \<or> f = 1"
    and "whole_stock s" and "positive_requests rs" and "covers f t rs s"
  shows "\<exists>u. for_each (\<lambda>(n, r). body n r) (enumerate n rs) s = (Inr (), u) \<and> whole_stock u \<and>
    (\<forall>k. on_hand k u = on_hand k s - f * requested t k rs \<and> reserved k u = reserved k s - requested t k rs)"
  using assms(3-)
proof (induction rs arbitrary: s n)
  case Nil
  then show ?case by (simp add: ret_def)
next
  case (Cons r rs)
  have q: "whole (rr_quantity r)" "0 < rr_quantity r" and rs: "positive_requests rs"
    using Cons.prems(2) by (simp_all add: positive_requests_def)
  have n: "0 \<le> requested t k rs" "0 \<le> f * requested t k rs" for k
    using requested_nonneg [OF positive_whole [OF rs], of t k] f by auto
  have fits: "f * rr_quantity r \<le> on_hand (request_key t r) s" "rr_quantity r \<le> reserved (request_key t r) s"
    using Cons.prems(3) [unfolded covers_def, rule_format, of "request_key t r"] n [of "request_key t r"]
    by (simp_all add: distrib_left)
  obtain u where u: "body n r s = (Inr (), u)" "settles f t r s u"
    using one [OF Cons.prems(1) q fits] by auto
  have "whole_stock u" using settles_whole [OF Cons.prems(1) q(1) f fits u(2)] .
  moreover have "covers f t rs u" using covers_Cons(3) [OF positive_whole [OF rs] _ Cons.prems(3) u(2)] f by auto
  ultimately obtain v where v: "for_each (\<lambda>(n, r). body n r) (enumerate (Suc n) rs) u = (Inr (), v)" "whole_stock v"
    "\<forall>k. on_hand k v = on_hand k u - f * requested t k rs \<and> reserved k v = reserved k u - requested t k rs"
    using Cons.IH rs by blast
  have "for_each (\<lambda>(n, r). body n r) (enumerate n (r # rs)) s = (Inr (), v)"
    using u(1) v(1) by (simp add: seq_def bind_def)
  moreover have "on_hand k v = on_hand k s - f * requested t k (r # rs) \<and>
      reserved k v = reserved k s - requested t k (r # rs)" for k
    using v(3) u(2) by (simp add: settles_def distrib_left)
  ultimately show ?case using v(2) by blast
qed

lemma release_one_settles:
  assumes "whole_stock s" and "whole (rr_quantity r)" and "rr_quantity r \<le> reserved (request_key t r) s"
    and "0 < rr_quantity r"
  shows "\<exists>u. release_one m t r s = (Inr (), u) \<and> settles 0 t r s u"
proof -
  let ?k = "request_key t r"
  obtain u where u: "release_one m t r s = (Inr (), u)"
    by (cases "find_level ?k (stockLevels s)") (simp_all add: release_one_def svc_defs)
  have "find_level ?k (stockLevels s) \<noteq> None" using assms(3,4) by (auto simp: reserved_def split: option.splits)
  moreover have "js_sub (reserved ?k s) (rr_quantity r) = reserved ?k s - rr_quantity r"
    using assms(1,2) by (simp add: whole_sub whole_stock_def)
  ultimately have "settles 0 t r s u" using release_one_Inr [OF u] assms(3) by (auto simp: settles_def)
  with u show ?thesis by blast
qed

lemma ship_one_settles:
  assumes "whole_stock s" and "whole (rr_quantity r)" and "0 < rr_quantity r"
    and "1 * rr_quantity r \<le> on_hand (request_key t r) s" and "rr_quantity r \<le> reserved (request_key t r) s"
  shows "\<exists>u. ship_one m t r s = (Inr (), u) \<and> settles 1 t r s u"
proof -
  let ?k = "request_key t r"
  obtain l where l: "find_level ?k (stockLevels s) = Some l"
    using assms(3,5) by (auto simp: reserved_def split: option.splits)
  then obtain u where u: "ship_one m t r s = (Inr (), u)"
    using assms(4) by (simp add: ship_one_def svc_defs on_hand_def)
  have "js_sub (reserved ?k s) (rr_quantity r) = reserved ?k s - rr_quantity r"
    "js_sub (on_hand ?k s) (rr_quantity r) = on_hand ?k s - rr_quantity r"
    using assms(1,2) by (simp_all add: whole_sub whole_stock_def)
  then have "settles 1 t r s u" using ship_one_Inr [OF u] assms(5) by (auto simp: settles_def)
  with u show ?thesis by blast
qed

lemma release_run:
  assumes "release_reservation ids t rs s = (Inr (), u)"
    and "whole_stock s" and "positive_requests rs" and "\<forall>k. requested t k rs \<le> reserved k s"
  shows "whole_stock u \<and>
    (\<forall>k. on_hand k u = on_hand k s \<and> reserved k u = reserved k s - requested t k rs)"
proof -
  have "covers 0 t rs s" using assms(2,4) by (simp add: covers_def whole_stock_def whole_def)
  then obtain v where v: "for_each (\<lambda>(n, r). release_one (ids n) t r) (enumerate 0 rs) s = (Inr (), v)" "whole_stock v"
    "\<forall>k. on_hand k v = on_hand k s - 0 * requested t k rs \<and> reserved k v = reserved k s - requested t k rs"
    using settle_loop [of 0 t "\<lambda>n r. release_one (ids n) t r", OF release_one_settles _ assms(2,3)] by blast
  then have "v = u" using assms(1) by (simp add: release_reservation_def transaction_Inr)
  with v show ?thesis by simp
qed

text \<open>A shipment that succeeded took what it was asked for, if that much was reserved.\<close>

lemma ship_loop_Inr:
  assumes "for_each (\<lambda>(n, r). ship_one (ids n) t r) (enumerate n rs) s = (Inr (), u)"
    and "whole_stock s" and "positive_requests rs" and "\<forall>k. requested t k rs \<le> reserved k s"
  shows "whole_stock u \<and>
    (\<forall>k. on_hand k u = on_hand k s - requested t k rs \<and> reserved k u = reserved k s - requested t k rs)"
  using assms
proof (induction rs arbitrary: s n)
  case Nil
  then show ?case by (simp add: ret_Inr)
next
  case (Cons r rs)
  let ?k = "request_key t r"
  have q: "whole (rr_quantity r)" "0 < rr_quantity r" and rs: "positive_requests rs"
    using Cons.prems(3) by (simp_all add: positive_requests_def)
  obtain v where v: "ship_one (ids n) t r s = (Inr (), v)"
    "for_each (\<lambda>(n, r). ship_one (ids n) t r) (enumerate (Suc n) rs) v = (Inr (), u)"
    using Cons.prems(1) by (auto simp: seq_Inr)
  have "0 \<le> requested t ?k rs" using requested_nonneg [OF positive_whole [OF rs]] .
  moreover have "requested t ?k (r # rs) \<le> reserved ?k s" using Cons.prems(4) by blast
  ultimately have res: "rr_quantity r \<le> reserved ?k s" by simp
  have hand: "1 * rr_quantity r \<le> on_hand ?k s" using ship_one_Inr [OF v(1)] by simp
  then have settled: "settles 1 t r s v"
    using ship_one_settles [OF Cons.prems(2) q hand res, of "ids n"] v(1) by simp
  have "\<forall>k. requested t k rs \<le> reserved k v"
  proof
    fix k
    have "requested t k (r # rs) \<le> reserved k s" using Cons.prems(4) by blast
    then show "requested t k rs \<le> reserved k v" using settled by (simp add: settles_def split: if_splits)
  qed
  then show ?case
    using Cons.IH [OF v(2) settles_whole [OF Cons.prems(2) q(1) _ hand res settled] rs] settled
    by (simp add: settles_def)
qed

text \<open>What a granted reservation leaves behind covers its release and its shipment.\<close>

lemma reserved_batch:
  assumes "whole_stock s" and "positive_requests rs" and "reserve_stock newId mvIds t rs s = (Inr (), u)"
  shows "whole_stock u" "covers 0 t rs u" "covers 1 t rs u"
    "on_hand k u = on_hand k s" "reserved k u = reserved k s + requested t k rs"
proof -
  have w: "whole_stock s" "whole_requests rs" using assms(1,2) by (simp_all add: positive_whole)
  have fits: "batch_fits t rs s" using reserve_loop [OF w, of t newId mvIds 0] assms(3)
    by (cases "batch_fits t rs s") (auto simp: reserve_stock_def transaction_Inr)
  then have loop: "whole_stock u" "\<forall>k. on_hand k u = on_hand k s \<and> reserved k u = reserved k s + requested t k rs"
    using reserve_loop [OF w, of t newId mvIds 0] assms(3) by (auto simp: reserve_stock_def transaction_Inr)
  then show "whole_stock u" "on_hand k u = on_hand k s" "reserved k u = reserved k s + requested t k rs" by simp_all
  have n: "0 \<le> reserved k s" "0 \<le> on_hand k s" "0 \<le> requested t k rs" for k
    using w requested_nonneg by (simp_all add: whole_stock_def whole_def)
  have "requested t k rs \<le> on_hand k s" for k
  proof (cases "k \<in> request_key t ` set rs")
    case True
    then have "reserved k s + requested t k rs \<le> on_hand k s"
      using fits by (auto simp: batch_fits_def list_all_iff)
    then show ?thesis using n(1) [of k] by linarith
  qed (simp add: requested_absent n(2))
  then show "covers 0 t rs u" "covers 1 t rs u" using loop(2) n by (simp_all add: covers_def)
qed

text \<open>
  Reserving and releasing the same batch is a round trip: after a granted
  reservation of whole quantities \<^verbatim>\<open>releaseReservation\<close> cannot fail, and it leaves
  every on-hand and reserved quantity as before the reservation.
\<close>

theorem release_undoes_reserve:
  assumes "whole_levels s" and "positive_requests rs" and "reserve_stock newId mvIds t rs s = (Inr (), s1)"
  shows "\<exists>s2. release_reservation mvIds' t rs s1 = (Inr (), s2) \<and>
    (\<forall>k. on_hand k s2 = on_hand k s \<and> reserved k s2 = reserved k s)"
proof -
  note r = reserved_batch [OF whole_stock_levels [OF assms(1)] assms(2,3)]
  obtain s2 where s2: "for_each (\<lambda>(n, r). release_one (mvIds' n) t r) (enumerate 0 rs) s1 = (Inr (), s2)"
    "\<forall>k. on_hand k s2 = on_hand k s1 - 0 * requested t k rs \<and> reserved k s2 = reserved k s1 - requested t k rs"
    using settle_loop [of 0 t "\<lambda>n r. release_one (mvIds' n) t r", OF release_one_settles _ r(1) assms(2) r(2)]
    by auto
  then show ?thesis using r(4,5) by (auto simp: release_reservation_def transaction_Inr)
qed

text \<open>
  A granted reservation can be shipped: if nothing else touches the stock,
  \<^verbatim>\<open>shipReservation\<close> of the same batch cannot fail; what was promised leaves the
  on-hand stock and the reserved quantities are back where they were.
\<close>

theorem ship_honours_reserve:
  assumes "whole_levels s" and "positive_requests rs" and "reserve_stock newId mvIds t rs s = (Inr (), s1)"
  shows "\<exists>s2. ship_reservation mvIds' t rs s1 = (Inr (), s2) \<and>
    (\<forall>k. on_hand k s2 = on_hand k s - requested t k rs \<and> reserved k s2 = reserved k s)"
proof -
  note r = reserved_batch [OF whole_stock_levels [OF assms(1)] assms(2,3)]
  obtain s2 where s2: "for_each (\<lambda>(n, r). ship_one (mvIds' n) t r) (enumerate 0 rs) s1 = (Inr (), s2)"
    "\<forall>k. on_hand k s2 = on_hand k s1 - 1 * requested t k rs \<and> reserved k s2 = reserved k s1 - requested t k rs"
    using settle_loop [of 1 t "\<lambda>n r. ship_one (mvIds' n) t r", OF ship_one_settles _ r(1) assms(2) r(3)]
    by auto
  then show ?thesis using r(4,5) by (auto simp: ship_reservation_def transaction_Inr)
qed

section \<open>What the movement log says\<close>

text \<open>
  What one row of the log says happened at a stock level, read as
  \<^verbatim>\<open>applyMovementToLevels\<close> reads a movement, and the sum over the log.
\<close>

definition moves_at :: "level_key \<Rightarrow> stock_movement \<Rightarrow> uuid option \<Rightarrow> bool" where
  "moves_at k m w = (case w of None \<Rightarrow> False | Some x \<Rightarrow> k = (tenantId m, mv_productId m, x))"

definition movement_effect :: "level_key \<Rightarrow> stock_movement \<Rightarrow> rat" where
  "movement_effect k m =
     (let goes_in = (if moves_at k m (mv_destination m) then mv_quantity m else 0);
          goes_out = (if moves_at k m (mv_source m) then - mv_quantity m else 0)
      in case mv_type m of
           Inbound \<Rightarrow> goes_in
         | ProductionOutput \<Rightarrow> goes_in
         | Return \<Rightarrow> goes_in
         | Outbound \<Rightarrow> goes_out
         | ProductionConsumption \<Rightarrow> goes_out
         | Scrap \<Rightarrow> goes_out
         | Transfer \<Rightarrow> (if mv_source m \<noteq> None \<and> mv_destination m \<noteq> None then goes_out + goes_in else 0)
         | Adjustment \<Rightarrow> goes_in)"

definition logged :: "level_key \<Rightarrow> inventory_db \<Rightarrow> rat" where
  "logged k s = sum_list (map (movement_effect k) (stockMovements s))"

text \<open>Room for \<open>q\<close> more at every stock level, within what doubles count exactly.\<close>

definition room_for :: "jsnum \<Rightarrow> inventory_db \<Rightarrow> bool" where
  "room_for q s \<longleftrightarrow> whole q \<and> list_all (\<lambda>l. sl_onHand l + q \<le> 2 ^ 53) (stockLevels s)"

lemma room_for_on_hand: "room_for q s \<Longrightarrow> on_hand k s + q \<le> 2 ^ 53"
  by (auto simp: room_for_def list_all_iff on_hand_def whole_def split: option.split dest!: find_level_Some)

lemma logged_append [simp]:
  "fresh (ent_id m) (stockMovements s) \<Longrightarrow>
     logged k (stockMovements_update (save_row m) s) = logged k s + movement_effect k m"
  by (simp add: logged_def fresh_save_row)

lemma logged_frame [simp]: "logged k (stockLevels_update f s) = logged k s"
  by (simp add: logged_def)

lemma adjust_stock_exact:
  assumes "adjust_stock newId k d s = (Inr x, u)" and "whole_stock s" and "d \<in> \<int>"
    and "\<bar>d\<bar> \<le> 2 ^ 53" and "on_hand k s + d \<le> 2 ^ 53"
  shows "whole_stock u"
    "(\<forall>j. on_hand j u = on_hand j s + (if j = k then d else 0) \<and> reserved j u = reserved j s) \<and>
     stockMovements u = stockMovements s"
proof -
  have w: "whole (on_hand j s)" "whole (reserved j s)" for j using assms(2) by (simp_all add: whole_stock_def)
  have ints: "on_hand k s + d \<in> \<int>" using assms(3) w(1) by (simp add: whole_Ints)
  moreover have "\<bar>on_hand k s + d\<bar> \<le> 2 ^ 53" using assms(4,5) w(1) [of k] unfolding whole_def by linarith
  ultimately have "safe (on_hand k s + d)" by (rule whole_safe)
  then have add: "js_add (on_hand k s) d = on_hand k s + d" by (rule js_add_safe)
  note u = adjust_stock_Inr [OF assms(1), unfolded add]
  show view: "(\<forall>j. on_hand j u = on_hand j s + (if j = k then d else 0) \<and> reserved j u = reserved j s) \<and>
     stockMovements u = stockMovements s"
    using u by simp
  have "whole (on_hand k s + d)" using ints assms(5) u by (intro whole_I) auto
  then show "whole_stock u" using w u by (simp add: whole_stock_def)
qed

text \<open>The two directions of a movement, each only when its warehouse is given.\<close>

definition shifts :: "(level_key \<Rightarrow> rat) \<Rightarrow> inventory_db \<Rightarrow> inventory_db \<Rightarrow> bool" where
  "shifts d s u \<longleftrightarrow> whole_stock u \<and> stockMovements u = stockMovements s \<and>
     (\<forall>k. on_hand k u = on_hand k s + d k \<and> reserved k u = reserved k s)"

lemma move_in:
  assumes "(case w of None \<Rightarrow> ret () | Some x \<Rightarrow> adjust_stock newId (tenantId m, mv_productId m, x) (mv_quantity m)) s = (Inr (), u)"
    and "whole_stock s" and q: "whole (mv_quantity m)" and room: "\<forall>k. on_hand k s + mv_quantity m \<le> 2 ^ 53"
  shows "shifts (\<lambda>k. if moves_at k m w then mv_quantity m else 0) s u"
proof (cases w)
  case None
  then show ?thesis using assms by (simp add: shifts_def moves_at_def ret_Inr)
next
  case (Some x)
  then have run: "adjust_stock newId (tenantId m, mv_productId m, x) (mv_quantity m) s = (Inr (), u)"
    using assms(1) by simp
  have "mv_quantity m \<in> \<int>" "\<bar>mv_quantity m\<bar> \<le> 2 ^ 53" using q by (simp_all add: whole_Ints) (simp add: whole_def)
  then show ?thesis
    using adjust_stock_exact [OF run assms(2)] room Some by (simp add: shifts_def moves_at_def)
qed

lemma move_out:
  assumes "(case w of None \<Rightarrow> ret () | Some x \<Rightarrow> adjust_stock newId (tenantId m, mv_productId m, x) (- mv_quantity m)) s = (Inr (), u)"
    and "whole_stock s" and q: "whole (mv_quantity m)"
  shows "shifts (\<lambda>k. if moves_at k m w then - mv_quantity m else 0) s u"
proof (cases w)
  case None
  then show ?thesis using assms by (simp add: shifts_def moves_at_def ret_Inr)
next
  case (Some x)
  let ?k = "(tenantId m, mv_productId m, x)"
  have run: "adjust_stock newId ?k (- mv_quantity m) s = (Inr (), u)" using assms(1) Some by simp
  have "- mv_quantity m \<in> \<int>" using q by (simp add: whole_Ints)
  moreover have "\<bar>- mv_quantity m\<bar> \<le> 2 ^ 53" using q by (simp add: whole_def)
  moreover have "whole (on_hand ?k s)" using assms(2) by (simp add: whole_stock_def)
  then have "on_hand ?k s + - mv_quantity m \<le> 2 ^ 53" using q unfolding whole_def by linarith
  ultimately show ?thesis
    using adjust_stock_exact [OF run assms(2)] Some by (simp add: shifts_def moves_at_def)
qed

lemma shifts_trans: "shifts d s u \<Longrightarrow> shifts e u v \<Longrightarrow> shifts (\<lambda>k. d k + e k) s v"
  by (simp add: shifts_def)

lemma apply_movement_exact:
  assumes run: "apply_movement_to_levels newId t dto s = (Inr (), u)"
    and "whole_stock s" and q: "whole (mr_quantity dto)" and room: "\<forall>k. on_hand k s + mr_quantity dto \<le> 2 ^ 53"
    and m: "tenantId m = t" "mv_productId m = mr_productId dto" "mv_type m = mr_movementType dto"
      "mv_quantity m = mr_quantity dto" "mv_source m = mr_source dto" "mv_destination m = mr_destination dto"
  shows "shifts (\<lambda>k. movement_effect k m) s u"
proof -
  let ?in = "\<lambda>k. if moves_at k m (mv_destination m) then mv_quantity m else 0"
  let ?out = "\<lambda>k. if moves_at k m (mv_source m) then - mv_quantity m else 0"
  define increase where "increase = (case mv_destination m of None \<Rightarrow> ret ()
    | Some w \<Rightarrow> adjust_stock newId (tenantId m, mv_productId m, w) (mv_quantity m))"
  define decrease where "decrease = (case mv_source m of None \<Rightarrow> ret ()
    | Some w \<Rightarrow> adjust_stock newId (tenantId m, mv_productId m, w) (- mv_quantity m))"
  have q': "whole (mv_quantity m)" and room': "\<forall>k. on_hand k s + mv_quantity m \<le> 2 ^ 53"
    using q room m by simp_all
  have inc: "shifts ?in a b" if "increase a = (Inr (), b)" "whole_stock a" "\<forall>k. on_hand k a + mv_quantity m \<le> 2 ^ 53" for a b
    using move_in that q' unfolding increase_def by blast
  have dec: "shifts ?out s b" if "decrease s = (Inr (), b)" for b
    using move_out that q' assms(2) unfolding decrease_def by blast
  have both: "shifts (\<lambda>k. ?out k + ?in k) s b" if "seq decrease increase s = (Inr (), b)" for b
  proof -
    from that have "\<exists>v. decrease s = (Inr (), v) \<and> increase v = (Inr (), b)" by (simp add: seq_Inr)
    then obtain v where v: "decrease s = (Inr (), v)" "increase v = (Inr (), b)" by blast
    have out: "shifts ?out s v" using dec v(1) .
    then have "on_hand k v \<le> on_hand k s" for k using q' by (simp add: shifts_def whole_def)
    then have "\<forall>k. on_hand k v + mv_quantity m \<le> 2 ^ 53" using room' by (meson add_right_mono order_trans)
    then have "shifts ?in v b" using inc v(2) out by (simp add: shifts_def)
    then show ?thesis using out shifts_trans by blast
  qed
  have none: "shifts (\<lambda>k. 0) s b" if "ret () s = (Inr (), b)" for b
    using that assms(2) by (simp add: shifts_def ret_Inr)
  show ?thesis
    using run inc [OF _ assms(2) room'] dec both none
    unfolding apply_movement_to_levels_def Let_def m [symmetric] increase_def [symmetric] decrease_def [symmetric]
    by (cases "mv_type m"; cases "mv_source m = None \<or> mv_destination m = None")
      (auto simp: movement_effect_def Let_def)
qed

lemma record_movement_exact:
  assumes "record_stock_movement mvId newId t dto s = (Inr mv, s')" and "whole_stock s" and "room_for (mr_quantity dto) s"
  shows "shifts (\<lambda>k. movement_effect k mv) (stockMovements_update (save_row mv) s) s'" "ent_id mv = mvId"
proof -
  have fields: "tenantId mv = t" "mv_productId mv = mr_productId dto" "mv_type mv = mr_movementType dto"
      "mv_quantity mv = mr_quantity dto" "mv_source mv = mr_source dto" "mv_destination mv = mr_destination dto"
    and id: "ent_id mv = mvId"
    and run: "apply_movement_to_levels newId t dto (stockMovements_update (save_row mv) s) = (Inr (), s')"
    using assms(1) by (auto simp: record_stock_movement_def svc_simps Let_def)
  have "whole_stock (stockMovements_update (save_row mv) s)" using assms(2) by (simp add: whole_stock_def)
  moreover have "\<forall>k. on_hand k (stockMovements_update (save_row mv) s) + mr_quantity dto \<le> 2 ^ 53"
    using room_for_on_hand [OF assms(3)] by simp
  ultimately show "shifts (\<lambda>k. movement_effect k mv) (stockMovements_update (save_row mv) s) s'" "ent_id mv = mvId"
    using apply_movement_exact [OF run] assms(3) fields id by (simp_all add: room_for_def)
qed

text \<open>
  \<^verbatim>\<open>recordStockMovement\<close> moves stock as its log row says: a successful
  movement of a whole quantity changes every on-hand quantity by exactly the effect of the
  new row, touches no reservation, and appends just that row. So a stock that agrees with
  its log before a movement agrees with it afterwards; and a transfer takes from the
  source what it adds to the destination.
\<close>

theorem movement_matches_log:
  assumes "record_stock_movement mvId newId t dto s = (Inr mv, s')"
    and "whole_levels s" and "room_for (mr_quantity dto) s" and "fresh mvId (stockMovements s)"
  shows "stockMovements s' = stockMovements s @ [mv] \<and>
    (\<forall>k. on_hand k s' = on_hand k s + movement_effect k mv \<and> logged k s' = logged k s + movement_effect k mv \<and>
         reserved k s' = reserved k s)"
  using record_movement_exact [OF assms(1) whole_stock_levels [OF assms(2)] assms(3)] assms(4)
  by (simp add: shifts_def logged_def fresh_save_row)

text \<open>The rows a reservation loop appends to the log.\<close>

lemma log_loop:
  assumes "for_each (\<lambda>(n, r). body n r) (enumerate n rs) s = (Inr (), u)"
    and one: "\<And>n r s u. body n r s = (Inr (), u) \<Longrightarrow> stockMovements u = save_row (row (ids n) r) (stockMovements s)"
    and id: "\<And>i r. ent_id (row i r) = i"
    and "inj ids" and "\<forall>j \<ge> n. ids j \<notin> ent_id ` set (stockMovements s)"
  shows "stockMovements u = stockMovements s @ map (\<lambda>(n, r). row (ids n) r) (enumerate n rs)"
  using assms(1,5)
proof (induction rs arbitrary: n s)
  case Nil
  then show ?case by (simp add: ret_Inr)
next
  case (Cons r rs)
  from Cons.prems(1) obtain v where v: "body n r s = (Inr (), v)"
    "for_each (\<lambda>(n, r). body n r) (enumerate (Suc n) rs) v = (Inr (), u)" by (auto simp: seq_Inr)
  have log: "stockMovements v = stockMovements s @ [row (ids n) r]"
    using one [OF v(1)] Cons.prems(2) id by (simp add: save_row_def)
  moreover have "ids j \<noteq> ids n" if "j \<ge> Suc n" for j using that assms(4) by (auto dest: injD)
  ultimately have "\<forall>j \<ge> Suc n. ids j \<notin> ent_id ` set (stockMovements v)"
    using Cons.prems(2) id by auto
  then show ?case using Cons.IH [OF v(2)] log by simp
qed

lemma reservation_effect:
  "movement_effect k (reservation_movement i t Adjustment c r) = (if request_key t r = k then rr_quantity r else 0)"
  "movement_effect k (reservation_movement i t Outbound c r) = - (if request_key t r = k then rr_quantity r else 0)"
  by (auto simp: movement_effect_def reservation_movement_def moves_at_def request_key_def)

lemma logged_batch:
  "sum_list (map (movement_effect k) (map (\<lambda>(n, r). reservation_movement (ids n) t Adjustment c r) (enumerate n rs)))
     = requested t k rs"
  "sum_list (map (movement_effect k) (map (\<lambda>(n, r). reservation_movement (ids n) t Outbound c r) (enumerate n rs)))
     = - requested t k rs"
  by (induction rs arbitrary: n) (simp_all add: reservation_effect)

lemma reserve_log:
  assumes "reserve_stock newId ids t rs s = (Inr (), u)" and "fresh_ids ids (stockMovements s)"
  shows "stockMovements u = stockMovements s @
    map (\<lambda>(n, r). reservation_movement (ids n) t Adjustment ''Reservation for '' r) (enumerate 0 rs)"
  using assms
  by (intro log_loop [where body = "\<lambda>n r. reserve_one newId (ids n) t r"])
    (auto simp: reserve_stock_def transaction_Inr fresh_ids_def reserve_one_def svc_simps Let_def
      reservation_movement_def)

lemma ship_log:
  assumes "ship_reservation ids t rs s = (Inr (), u)" and "fresh_ids ids (stockMovements s)"
  shows "stockMovements u = stockMovements s @
    map (\<lambda>(n, r). reservation_movement (ids n) t Outbound ''Shipment for '' r) (enumerate 0 rs)"
  using assms
  by (intro log_loop [where body = "\<lambda>n r. ship_one (ids n) t r"])
    (auto simp: ship_reservation_def transaction_Inr fresh_ids_def ship_one_def svc_simps Let_def
      reservation_movement_def)

text \<open>
  The log is not an account of the stock once goods are reserved: a reservation
  is logged as an \<^verbatim>\<open>ADJUSTMENT\<close> into the warehouse although nothing arrives there,
  so that reserving and then shipping goods leaves no net trace in the log, while the
  on-hand stock has gone down by what was shipped.
\<close>

theorem shipped_goods_missing_from_log:
  assumes "whole_levels s" and "positive_requests rs"
    and "reserve_stock newId ids t rs s = (Inr (), s1)" and "fresh_ids ids (stockMovements s)"
    and "ship_reservation ids' t rs s1 = (Inr (), s2)" and "fresh_ids ids' (stockMovements s1)"
  shows "logged k s1 = logged k s + requested t k rs \<and> on_hand k s1 = on_hand k s \<and>
    logged k s2 = logged k s \<and> on_hand k s2 = on_hand k s - requested t k rs"
proof -
  note r = reserved_batch [OF whole_stock_levels [OF assms(1)] assms(2,3)]
  have log: "logged k s1 = logged k s + requested t k rs"
    by (simp only: logged_def reserve_log [OF assms(3,4)] map_append sum_list_append logged_batch)
  moreover have "logged k s2 = logged k s1 + - requested t k rs"
    by (simp only: logged_def ship_log [OF assms(5,6)] map_append sum_list_append logged_batch)
  moreover obtain v where "for_each (\<lambda>(n, r). ship_one (ids' n) t r) (enumerate 0 rs) s1 = (Inr (), v)"
    "\<forall>k. on_hand k v = on_hand k s1 - 1 * requested t k rs \<and> reserved k v = reserved k s1 - requested t k rs"
    using settle_loop [of 1 t "\<lambda>n r. ship_one (ids' n) t r", OF ship_one_settles _ r(1) assms(2) r(3)]
    by auto
  then have "on_hand k s2 = on_hand k s1 - requested t k rs"
    using assms(5) by (simp add: ship_reservation_def transaction_Inr)
  ultimately show ?thesis using r(4) by simp
qed


section \<open>Pages\<close>

lemma pages_take:
  "concat (map (\<lambda>p. pg_data (get_page p l rows)) [1..<Suc n]) = take (n * l) rows"
proof (induction n)
  case (Suc n)
  have "take (Suc n * l) rows = take (n * l) rows @ take l (drop (n * l) rows)"
    by (simp add: add.commute [of l] take_add)
  with Suc show ?case by (simp add: get_page_def)
qed simp

lemma page_limit_pos: "0 < page_limit ask"
  by (simp add: page_limit_def split: option.split)

text \<open>
  Walking through the listed pages shows every row once and in order: the pages
  from 1 to \<^verbatim>\<open>totalPages\<close>, one after the other, are the whole list, whatever page
  size the client asks for.
\<close>

theorem pages_cover_all_rows:
  "concat (map (\<lambda>p. pg_data (get_page p (page_limit ask) rows))
     [1..<Suc (pg_totalPages (get_page 1 (page_limit ask) rows))]) = rows"
proof -
  let ?l = "page_limit ask"
  let ?n = "(length rows + ?l - 1) div ?l"
  have "length rows + ?l - 1 < Suc ?n * ?l" using page_limit_pos [of ask] dividend_less_div_times by simp
  then have "length rows \<le> ?n * ?l" using page_limit_pos [of ask] by simp
  then show ?thesis unfolding pages_take by (simp add: get_page_def)
qed

section \<open>Examples\<close>

definition sample_product :: product where
  "sample_product = \<lparr>ent_id = ''P'', tenantId = ''T'', pd_sku = ''S'', pd_name = ''N'', pd_description = None,
     pd_category = FinishedProduct, pd_unitOfMeasure = Piece, pd_unitCost = 4, pd_sellingPrice = 9, pd_weight = 1,
     pd_barcode = None, pd_minimumStock = 0, pd_reorderPoint = 5, pd_reorderQuantity = 0, pd_leadTimeDays = 0,
     pd_supplier = None, pd_isActive = True\<rparr>"

definition sample_level :: "string \<Rightarrow> jsnum \<Rightarrow> jsnum \<Rightarrow> stock_level" where
  "sample_level w q r = \<lparr>ent_id = ''L'' @ w, tenantId = ''T'', sl_productId = ''P'', sl_warehouseId = w,
     sl_onHand = q, sl_reserved = r, sl_onOrder = 0\<rparr>"

definition sample_stock :: inventory_db where
  "sample_stock = \<lparr>products = [sample_product], warehouses = [],
     stockLevels = [sample_level ''W'' 10 2, sample_level ''V'' 1 0], stockMovements = []\<rparr>"

definition sample_requests :: "reservation_request list" where
  "sample_requests =
     [\<lparr>rr_productId = ''P'', rr_warehouseId = ''W'', rr_quantity = 3, rr_reference = ''SO1''\<rparr>,
      \<lparr>rr_productId = ''P'', rr_warehouseId = ''W'', rr_quantity = 4, rr_reference = ''SO1''\<rparr>]"

definition sample_transfer :: movement_request where
  "sample_transfer = \<lparr>mr_productId = ''P'', mr_movementType = Transfer, mr_quantity = 6, mr_source = Some ''W'',
     mr_destination = Some ''V'', mr_reference = None, mr_notes = None, mr_performedBy = None\<rparr>"

abbreviation sample_reserve :: "(inventory_db, unit) svc" where
  "sample_reserve \<equiv> reserve_stock (\<lambda>_. ''new'') (sample_ids CHR ''r'') ''T'' sample_requests"

lemma whole_numeral [simp]: "whole (numeral n) \<longleftrightarrow> numeral n \<le> (2::rat) ^ 53"
  using Ints_numeral frac_eq_0_iff by (auto simp: whole_def)

lemma whole_1 [simp]: "whole 1"
  by (simp add: whole_def)

lemma sample_stock_whole: "whole_levels sample_stock"
  by (simp add: whole_levels_def sample_stock_def sample_level_def)

lemma sample_positive: "positive_requests sample_requests"
  by (simp add: positive_requests_def sample_requests_def)

lemmas inventory_eval =
  sample_stock_def sample_level_def sample_requests_def sample_transfer_def sample_product_def
  reserve_one_def request_key_def find_level_def level_key_def level_or_new_def
  reservation_movement_def js_add_def js_sub_def fl_numeral_safe find_scoped_def
  svc_defs runs_ok_def after_def outcome_def

lemma sample_reserve_runs: "runs_ok sample_reserve sample_stock"
  by (simp add: reserve_stock_def inventory_eval)


lemma sample_reserve_run: "sample_reserve sample_stock = (Inr (), after sample_reserve sample_stock)"
  using runs_okD [OF sample_reserve_runs] by simp

theorem release_undoes_reserve_witness:
  "\<exists>s2. release_reservation (sample_ids CHR ''q'') ''T'' sample_requests (after sample_reserve sample_stock) = (Inr (), s2) \<and>
    (\<forall>k. on_hand k s2 = on_hand k sample_stock \<and> reserved k s2 = reserved k sample_stock)"
  by (rule release_undoes_reserve [OF sample_stock_whole sample_positive sample_reserve_run])

theorem ship_honours_reserve_witness:
  "\<exists>s2. ship_reservation (sample_ids CHR ''q'') ''T'' sample_requests (after sample_reserve sample_stock) = (Inr (), s2) \<and>
    (\<forall>k. on_hand k s2 = on_hand k sample_stock - requested ''T'' k sample_requests \<and>
         reserved k s2 = reserved k sample_stock)"
  by (rule ship_honours_reserve [OF sample_stock_whole sample_positive sample_reserve_run])

abbreviation sample_ship :: "(inventory_db, unit) svc" where
  "sample_ship \<equiv> ship_reservation (sample_ids CHR ''q'') ''T'' sample_requests"

lemma sample_ship_runs: "runs_ok sample_ship (after sample_reserve sample_stock)"
  by (simp add: reserve_stock_def ship_reservation_def ship_one_def inventory_eval)

lemma sample_ids_fresh: "fresh_ids (sample_ids CHR ''q'') (stockMovements (after sample_reserve sample_stock))"
  by (simp add: reserve_stock_def inventory_eval fresh_ids_def inj_sample_ids)
    (simp add: sample_ids_def save_row_def)

theorem shipped_goods_missing_from_log_witness:
  "let s1 = after sample_reserve sample_stock; s2 = after sample_ship s1; k = (''T'', ''P'', ''W'')
   in logged k s2 = logged k sample_stock \<and> on_hand k s2 = on_hand k sample_stock - 7"
proof -
  have "fresh_ids (sample_ids CHR ''r'') (stockMovements sample_stock)" by (simp add: sample_stock_def)
  moreover have "sample_ship (after sample_reserve sample_stock) = (Inr (), after sample_ship (after sample_reserve sample_stock))"
    using runs_okD [OF sample_ship_runs] by simp
  moreover have "requested ''T'' (''T'', ''P'', ''W'') sample_requests = 7"
    by (simp add: sample_requests_def request_key_def)
  ultimately show ?thesis
    using shipped_goods_missing_from_log [OF sample_stock_whole sample_positive sample_reserve_run _ _ sample_ids_fresh,
        of _ "(''T'', ''P'', ''W'')"]
    by (simp add: Let_def)
qed

abbreviation sample_move :: "(inventory_db, stock_movement) svc" where
  "sample_move \<equiv> record_stock_movement ''M'' (\<lambda>_. ''new'') ''T'' sample_transfer"

lemma sample_move_runs: "runs_ok sample_move sample_stock"
  by (simp add: record_stock_movement_def apply_movement_to_levels_def adjust_stock_def Let_def inventory_eval)

theorem movement_matches_log_witness:
  "stockMovements (after sample_move sample_stock) = stockMovements sample_stock @ [outcome sample_move sample_stock] \<and>
    (\<forall>k. on_hand k (after sample_move sample_stock) =
           on_hand k sample_stock + movement_effect k (outcome sample_move sample_stock) \<and>
         logged k (after sample_move sample_stock) =
           logged k sample_stock + movement_effect k (outcome sample_move sample_stock) \<and>
         reserved k (after sample_move sample_stock) = reserved k sample_stock)"
  by (rule movement_matches_log [OF runs_okD [OF sample_move_runs] sample_stock_whole])
    (simp_all add: room_for_def sample_transfer_def sample_stock_def sample_level_def fresh_def)

definition sample_empty :: inventory_db where
  "sample_empty = \<lparr>products = [sample_product], warehouses = [], stockLevels = [], stockMovements = []\<rparr>"

definition sample_inbound :: movement_request where
  "sample_inbound = sample_transfer\<lparr>mr_movementType := Inbound\<rparr>"

abbreviation sample_receipt :: "(inventory_db, stock_movement) svc" where
  "sample_receipt \<equiv> record_stock_movement ''M'' (\<lambda>_. ''new'') ''T'' sample_inbound"

lemma sample_receipt_runs: "runs_ok sample_receipt sample_empty"
  by (simp add: record_stock_movement_def apply_movement_to_levels_def adjust_stock_def sample_inbound_def
      sample_empty_def new_level_def Let_def inventory_eval)


end
