(* ===== verification/SalesProps.thy ===== *)
theory SalesProps
  imports Sales InventoryProps
begin

text \<open>
  What the stock owes to the sales orders: reserved quantities are exactly what confirmed
  orders hold, an order gives back what it took, and where this breaks - when the default
  warehouse changes while an order is open.
\<close>

section \<open>What a change of an order does\<close>

declare split_paired_All [simp del]

lemma order_transaction_Inr [svc_simps]:
  "order_transaction m s = (Inr a, s') \<longleftrightarrow> m s = (Inr a, s')"
  by (auto simp: order_transaction_def split: sum.splits prod.splits)

lemma empty_batch:
  "reserve_stock n ids t [] s = (Inr (), s)" "release_reservation ids t [] s = (Inr (), s)"
  "ship_reservation ids t [] s = (Inr (), s)"
  by (simp_all add: reserve_stock_def release_reservation_def ship_reservation_def svc_defs)

lemma when_requests:
  "(if rs \<noteq> [] then with_inventory m else ret ()) s = (Inr (), u) \<Longrightarrow> (rs = [] \<Longrightarrow> m (inventory s) = (Inr (), inventory s)) \<Longrightarrow>
     m (inventory s) = (Inr (), inventory u) \<and> u = s\<lparr>inventory := inventory u\<rparr>"
  by (auto simp: svc_simps split: if_splits)

lemma default_warehouse_Inr:
  "pick_default_warehouse_id t s = (Inr dw, u) \<longleftrightarrow>
     u = s \<and> (\<exists>w. first_active_warehouse t (warehouses (inventory s)) = Some w \<and> dw = ent_id w)"
  by (auto simp: pick_default_warehouse_id_def svc_simps)

lemma confirm_Inr:
  assumes "confirm_sales_order newLevel ids t i s = (Inr r', s')"
  obtains r w p where "find_scoped t i (salesOrders s) = Some r" "so_status r = SoDraft"
    "first_active_warehouse t (warehouses (inventory s)) = Some w"
    "reserve_stock newLevel ids t (requests_of (ent_id w) r) (inventory s) = (Inr (), p)"
    "r' = r\<lparr>so_status := SoConfirmed\<rparr>" "s' = salesOrders_update (save_row r') (s\<lparr>inventory := p\<rparr>)"
proof -
  from assms obtain r w u where r: "find_scoped t i (salesOrders s) = Some r" "so_status r = SoDraft"
    and w: "first_active_warehouse t (warehouses (inventory s)) = Some w"
    and run: "(if requests_of (ent_id w) r \<noteq> []
      then with_inventory (reserve_stock newLevel ids t (requests_of (ent_id w) r)) else ret ()) s = (Inr (), u)"
    and save: "save_order_status SoConfirmed r u = (Inr r', s')"
    by (auto simp: confirm_sales_order_def get_sales_order_def svc_simps default_warehouse_Inr simp del: if_not_P)
  note reserve = when_requests [OF run]
  have "r' = r\<lparr>so_status := SoConfirmed\<rparr>" "s' = salesOrders_update (save_row r') u"
    using save by (simp_all add: save_order_status_def svc_simps)
  then show thesis using that [OF r w] reserve by (metis empty_batch(1))
qed

lemma ship_Inr:
  assumes "ship_sales_order ids t i s = (Inr r', s')"
  obtains r w p where "find_scoped t i (salesOrders s) = Some r" "so_status r = SoConfirmed"
    "first_active_warehouse t (warehouses (inventory s)) = Some w"
    "ship_reservation ids t (requests_of (ent_id w) r) (inventory s) = (Inr (), p)"
    "r' = r\<lparr>so_status := SoShipped\<rparr>" "s' = salesOrders_update (save_row r') (s\<lparr>inventory := p\<rparr>)"
proof -
  from assms obtain r w u where r: "find_scoped t i (salesOrders s) = Some r" "so_status r = SoConfirmed"
    and w: "first_active_warehouse t (warehouses (inventory s)) = Some w"
    and run: "(if requests_of (ent_id w) r \<noteq> []
      then with_inventory (ship_reservation ids t (requests_of (ent_id w) r)) else ret ()) s = (Inr (), u)"
    and save: "save_order_status SoShipped r u = (Inr r', s')"
    by (auto simp: ship_sales_order_def get_sales_order_def svc_simps default_warehouse_Inr simp del: if_not_P)
  note ship = when_requests [OF run]
  have "r' = r\<lparr>so_status := SoShipped\<rparr>" "s' = salesOrders_update (save_row r') u"
    using save by (simp_all add: save_order_status_def svc_simps)
  then show thesis using that [OF r w] ship by (metis empty_batch(3))
qed

lemma cancel_Inr:
  assumes "cancel_sales_order ids t i s = (Inr r', s')"
  obtains r p where "find_scoped t i (salesOrders s) = Some r" "so_status r \<noteq> SoShipped" "so_status r \<noteq> SoInvoiced"
    "if so_status r = SoConfirmed \<or> so_status r = SoPartiallyShipped
     then \<exists>w. first_active_warehouse t (warehouses (inventory s)) = Some w \<and>
       release_reservation ids t (requests_of (ent_id w) r) (inventory s) = (Inr (), p)
     else p = inventory s"
    "r' = r\<lparr>so_status := SoCancelled\<rparr>" "s' = salesOrders_update (save_row r') (s\<lparr>inventory := p\<rparr>)"
proof -
  from assms obtain r u where r: "find_scoped t i (salesOrders s) = Some r"
      "so_status r \<noteq> SoShipped" "so_status r \<noteq> SoInvoiced"
    and run: "(if so_status r = SoConfirmed \<or> so_status r = SoPartiallyShipped
       then bind (pick_default_warehouse_id t) (\<lambda>dw.
            if requests_of dw r \<noteq> [] then with_inventory (release_reservation ids t (requests_of dw r)) else ret ())
       else ret ()) s = (Inr (), u)"
    and save: "save_order_status SoCancelled r u = (Inr r', s')"
    unfolding cancel_sales_order_def get_sales_order_def order_transaction_Inr
    by (simp only: bind_Inr seq_Inr gets_Inr require_Inr throw_if_Inr) blast
  have s': "r' = r\<lparr>so_status := SoCancelled\<rparr>" "s' = salesOrders_update (save_row r') u"
    using save by (simp_all add: save_order_status_def svc_simps)
  show thesis
  proof (cases "so_status r = SoConfirmed \<or> so_status r = SoPartiallyShipped")
    case True
    with run obtain w where w: "first_active_warehouse t (warehouses (inventory s)) = Some w"
      and rel: "(if requests_of (ent_id w) r \<noteq> []
        then with_inventory (release_reservation ids t (requests_of (ent_id w) r)) else ret ()) s = (Inr (), u)"
      by (simp only: if_True bind_Inr default_warehouse_Inr) blast
    show thesis
      using that [OF r _ s'(1), of "inventory u"] when_requests [OF rel] w s'(2) True by (metis empty_batch(2))
  next
    case False
    then have "u = s" using run by (simp add: ret_Inr)
    then show thesis using that [OF r _ s'(1), of "inventory s"] False s'(2) by simp
  qed
qed

lemma create_order_Inr:
  assumes "create_sales_order year newId t dto s = (Inr r, s')"
  obtains c where "find_scoped t (soi_customerId dto) (customers s) = Some c" "ent_id r = newId" "tenantId r = t"
    "so_status r = SoDraft" "so_orderNumber r = next_order_number year t s"
    "so_lines r = map so_line_of (soi_lines dto)" "s' = salesOrders_update (save_row r) s"
  using assms by (auto simp: create_sales_order_def get_customer_def svc_simps Let_def)

section \<open>The stock that confirmed orders hold\<close>

text \<open>
  Orders as the users of this section create them: every product line names its
  warehouse and asks for a positive whole quantity.
\<close>

definition line_ok :: "'a so_line_input_scheme \<Rightarrow> bool" where
  "line_ok l = (if sli_productId l = '''' then True
     else sli_warehouseId l \<noteq> None \<and> whole (sli_quantity l) \<and> 0 < sli_quantity l)"

definition order_ok :: "sales_order \<Rightarrow> bool" where
  "order_ok r \<longleftrightarrow> list_all line_ok (so_lines r) \<and> so_status r \<in> {SoDraft, SoConfirmed, SoShipped, SoCancelled}"

definition held :: "level_key \<Rightarrow> sales_order \<Rightarrow> rat" where
  "held k r = (if so_status r = SoConfirmed then requested (tenantId r) k (requests_of '''' r) else 0)"

definition promised :: "level_key \<Rightarrow> sales_order list \<Rightarrow> rat" where
  "promised k rows = sum_list (map (held k) rows)"

definition sales_inv :: "sales_db \<Rightarrow> bool" where
  "sales_inv s \<longleftrightarrow> table_inv ''SO'' 5 so_orderNumber order_ok (salesOrders s) \<and> whole_stock (inventory s) \<and>
     (\<forall>k. reserved k (inventory s) = promised k (salesOrders s))"

lemma requests_of_status [simp]: "requests_of dw (r\<lparr>so_status := st\<rparr>) = requests_of dw r"
  by (simp add: requests_of_def request_of_def [abs_def])

lemma requests_of_default:
  assumes "order_ok r"
  shows "requests_of dw r = requests_of '''' r"
proof -
  have "request_of dw r l = request_of '''' r l" if "l \<in> set (so_lines r)" "sli_productId l \<noteq> ''''" for l
  proof -
    have "line_ok l" using assms that(1) by (simp add: order_ok_def list_all_iff)
    then show ?thesis using that(2) by (auto simp: line_ok_def request_of_def nullish_def)
  qed
  then show ?thesis by (auto simp: requests_of_def)
qed

lemma requests_of_positive: "order_ok r \<Longrightarrow> positive_requests (requests_of dw r)"
  by (auto simp: order_ok_def line_ok_def requests_of_def request_of_def positive_requests_def list_all_iff)

lemma held_nonneg: "order_ok r \<Longrightarrow> 0 \<le> held k r"
  by (simp add: held_def requested_nonneg positive_whole requests_of_positive)

lemma promised_nonneg: "\<forall>r\<in>set rows. order_ok r \<Longrightarrow> 0 \<le> promised k rows"
  unfolding promised_def by (rule sum_list_nonneg) (auto simp: held_nonneg)

lemma promised_insert: "fresh (ent_id r) rows \<Longrightarrow> promised k (save_row r rows) = promised k rows + held k r"
  by (simp add: promised_def fresh_save_row)

lemma promised_update:
  assumes "keyed rows" and "find_scoped t i rows = Some old" and "ent_id r = ent_id old"
  shows "promised k (save_row r rows) = promised k rows - held k old + held k r"
  unfolding promised_def by (rule sum_save_row [OF assms])

section \<open>Reserved stock and confirmed orders\<close>

text \<open>
  Everything that touches orders or stock, one step per successful request: customers,
  orders as above, their confirmation, cancellation and shipment, stock movements and
  changes of the product and warehouse tables.
\<close>

inductive sales_step :: "sales_db \<Rightarrow> sales_db \<Rightarrow> bool" where
  customer: "create_customer n t ci s = (Inr c, s') \<Longrightarrow> sales_step s s'"
| order: "create_sales_order y n t dto s = (Inr r, s') \<Longrightarrow> fresh n (salesOrders s) \<Longrightarrow>
    list_all line_ok (soi_lines dto) \<Longrightarrow> sales_step s s'"
| confirm: "confirm_sales_order newLevel ids t i s = (Inr r, s') \<Longrightarrow> sales_step s s'"
| cancel: "cancel_sales_order ids t i s = (Inr r, s') \<Longrightarrow> sales_step s s'"
| ship: "ship_sales_order ids t i s = (Inr r, s') \<Longrightarrow> sales_step s s'"
| movement: "record_stock_movement m newLevel t mr (inventory s) = (Inr mv, p) \<Longrightarrow>
    room_for (mr_quantity mr) (inventory s) \<Longrightarrow> sales_step s (s\<lparr>inventory := p\<rparr>)"
| catalogue: "sales_step s (s\<lparr>inventory := products_update f (warehouses_update g (inventory s))\<rparr>)"

lemma line_ok_of [simp]: "line_ok (so_line_of l) = line_ok l"
  by (simp add: line_ok_def so_line_of_def so_line_input.extend_def so_line.fields_def)

lemma order_tables_update:
  assumes "sales_inv s" and "find_scoped t i (salesOrders s) = Some r" and "r' = r\<lparr>so_status := st\<rparr>"
    and "st \<in> {SoConfirmed, SoShipped, SoCancelled}"
  shows "table_inv ''SO'' 5 so_orderNumber order_ok (save_row r' (salesOrders s))"
    "promised k (save_row r' (salesOrders s)) = promised k (salesOrders s) - held k r + held k r'"
    "order_ok r" "order_ok r'" "held k r \<le> promised k (salesOrders s)"
    "held k r' = (if st = SoConfirmed then requested t k (requests_of '''' r) else 0)"
proof -
  have inv: "table_inv ''SO'' 5 so_orderNumber order_ok (salesOrders s)" using assms(1) by (simp add: sales_inv_def)
  have r: "r \<in> set (salesOrders s)" "ent_id r = i" "tenantId r = t" using find_scoped_Some [OF assms(2)] by simp_all
  show ok: "order_ok r" using inv r(1) by (rule table_inv_row)
  have ok': "order_ok (r\<lparr>so_status := x\<rparr>)" if "x \<in> {SoConfirmed, SoShipped, SoCancelled}" for x
    using ok that by (auto simp: order_ok_def)
  then show "order_ok r'" using assms(3,4) by simp
  then show "table_inv ''SO'' 5 so_orderNumber order_ok (save_row r' (salesOrders s))"
    using assms(2,3) r by (intro table_inv_update [OF inv assms(2)]) simp_all
  have update: "promised k (save_row (r\<lparr>so_status := x\<rparr>) (salesOrders s))
      = promised k (salesOrders s) - held k r + held k (r\<lparr>so_status := x\<rparr>)" for x
    using promised_update [OF table_inv_keyed [OF inv] assms(2)] by simp
  then show "promised k (save_row r' (salesOrders s)) = promised k (salesOrders s) - held k r + held k r'"
    using assms(3) by simp
  have "table_inv ''SO'' 5 so_orderNumber order_ok (save_row (r\<lparr>so_status := SoCancelled\<rparr>) (salesOrders s))"
    using ok' r by (intro table_inv_update [OF inv assms(2)]) simp_all
  then have "0 \<le> promised k (save_row (r\<lparr>so_status := SoCancelled\<rparr>) (salesOrders s))"
    by (intro promised_nonneg) (auto simp: table_inv_def)
  moreover have "held k (r\<lparr>so_status := SoCancelled\<rparr>) = 0" by (simp add: held_def)
  ultimately show "held k r \<le> promised k (salesOrders s)" using update [of SoCancelled] by simp
  show "held k r' = (if st = SoConfirmed then requested t k (requests_of '''' r) else 0)"
    using assms(3) r(3) by (simp add: held_def)
qed

lemma confirm_keeps_inv:
  assumes "confirm_sales_order newLevel ids t i s = (Inr r', s')" and "sales_inv s"
  shows "sales_inv s'"
  using assms(1)
proof (rule confirm_Inr)
  fix r w p
  assume r: "find_scoped t i (salesOrders s) = Some r" "so_status r = SoDraft"
    and run: "reserve_stock newLevel ids t (requests_of (ent_id w) r) (inventory s) = (Inr (), p)"
    and r': "r' = r\<lparr>so_status := SoConfirmed\<rparr>"
    and s': "s' = salesOrders_update (save_row r') (s\<lparr>inventory := p\<rparr>)"
  note tables = order_tables_update [OF assms(2) r(1) r']
  have stock: "whole_stock (inventory s)" using assms(2) by (simp add: sales_inv_def)
  note batch = reserved_batch [OF stock requests_of_positive [OF tables(3)] run]
  have dw: "requests_of (ent_id w) r = requests_of '''' r" using tables(3) by (intro requests_of_default) simp
  have "held k r = 0" for k using r(2) by (simp add: held_def)
  then have "reserved k p = promised k (save_row r' (salesOrders s))" for k
    using tables(2,6) batch(5) assms(2) dw by (simp add: sales_inv_def)
  then show "sales_inv s'" using tables(1) batch(1) s' by (simp add: sales_inv_def)
qed

lemma ship_keeps_inv:
  assumes "ship_sales_order ids t i s = (Inr r', s')" and "sales_inv s"
  shows "sales_inv s'"
  using assms(1)
proof (rule ship_Inr)
  fix r w p
  assume r: "find_scoped t i (salesOrders s) = Some r" "so_status r = SoConfirmed"
    and run: "ship_reservation ids t (requests_of (ent_id w) r) (inventory s) = (Inr (), p)"
    and r': "r' = r\<lparr>so_status := SoShipped\<rparr>"
    and s': "s' = salesOrders_update (save_row r') (s\<lparr>inventory := p\<rparr>)"
  note tables = order_tables_update [OF assms(2) r(1) r']
  have stock: "whole_stock (inventory s)" and res: "\<And>k. reserved k (inventory s) = promised k (salesOrders s)"
    using assms(2) by (simp_all add: sales_inv_def)
  have dw: "requests_of (ent_id w) r = requests_of '''' r" using tables(3) by (intro requests_of_default) simp
  have held: "held k r = requested t k (requests_of (ent_id w) r)" for k
    using r find_scoped_Some [OF r(1)] dw by (simp add: held_def)
  have "\<forall>k. requested t k (requests_of (ent_id w) r) \<le> reserved k (inventory s)"
    using tables(5) held res by simp
  then have settled: "whole_stock p" "reserved k p = reserved k (inventory s) - requested t k (requests_of (ent_id w) r)" for k
    using ship_loop_Inr [OF _ stock requests_of_positive] run tables(3)
    by (simp_all add: ship_reservation_def transaction_Inr)
  have "reserved k p = promised k (save_row r' (salesOrders s))" for k
    using tables(2,6) settled(2) held res by simp
  then show "sales_inv s'" using tables(1) settled(1) s' by (simp add: sales_inv_def)
qed

lemma cancel_keeps_inv:
  assumes "cancel_sales_order ids t i s = (Inr r', s')" and "sales_inv s"
  shows "sales_inv s'"
  using assms(1)
proof (rule cancel_Inr)
  fix r p
  assume r: "find_scoped t i (salesOrders s) = Some r"
    and run: "if so_status r = SoConfirmed \<or> so_status r = SoPartiallyShipped
      then \<exists>w. first_active_warehouse t (warehouses (inventory s)) = Some w \<and>
        release_reservation ids t (requests_of (ent_id w) r) (inventory s) = (Inr (), p)
      else p = inventory s"
    and r': "r' = r\<lparr>so_status := SoCancelled\<rparr>"
    and s': "s' = salesOrders_update (save_row r') (s\<lparr>inventory := p\<rparr>)"
  note tables = order_tables_update [OF assms(2) r(1) r']
  have stock: "whole_stock (inventory s)" and res: "\<And>k. reserved k (inventory s) = promised k (salesOrders s)"
    using assms(2) by (simp_all add: sales_inv_def)
  have settled: "whole_stock p \<and> (\<forall>k. reserved k p = reserved k (inventory s) - held k r)"
  proof (cases "so_status r = SoConfirmed")
    case True
    with run obtain w :: warehouse where rel: "release_reservation ids t (requests_of (ent_id w) r) (inventory s) = (Inr (), p)"
      by auto
    have dw: "requests_of (ent_id w) r = requests_of '''' r" using tables(3) by (intro requests_of_default) simp
    have held: "held k r = requested t k (requests_of (ent_id w) r)" for k
      using True find_scoped_Some [OF r(1)] dw by (simp add: held_def)
    have "\<forall>k. requested t k (requests_of (ent_id w) r) \<le> reserved k (inventory s)"
      using tables(5) held res by simp
    then show ?thesis using release_run [OF rel stock requests_of_positive] tables(3) held by simp
  next
    case False
    then have "p = inventory s" using run tables(3) by (auto simp: order_ok_def)
    then show ?thesis using stock False by (simp add: held_def)
  qed
  then have "reserved k p = promised k (save_row r' (salesOrders s))" for k
    using tables(2,6) res by simp
  then show "sales_inv s'" using tables(1) settled s' by (simp add: sales_inv_def)
qed

text \<open>Steps that leave the orders and the reserved quantities alone.\<close>

lemma frame_keeps_inv:
  assumes "sales_inv s" and "salesOrders s' = salesOrders s" and "whole_stock (inventory s')"
    and "\<And>k. reserved k (inventory s') = reserved k (inventory s)"
  shows "sales_inv s'"
  using assms by (simp add: sales_inv_def)

lemma sales_step_inv: "sales_step s s' \<Longrightarrow> sales_inv s \<Longrightarrow> sales_inv s'"
proof (induction rule: sales_step.induct)
  case (customer n t ci s c s')
  then show ?case
    by (intro frame_keeps_inv [OF customer(2)]) (auto simp: create_customer_def svc_simps Let_def sales_inv_def)
next
  case (order y n t dto s r s')
  then have r: "ent_id r = n" "tenantId r = t" "so_status r = SoDraft" "so_orderNumber r = next_order_number y t s"
    "so_lines r = map so_line_of (soi_lines dto)" "s' = salesOrders_update (save_row r) s"
    by (auto elim: create_order_Inr)
  have ok: "order_ok r" using r(3,5) order.hyps(3) by (simp add: order_ok_def list.pred_map comp_def)
  have "table_inv ''SO'' 5 so_orderNumber order_ok (save_row r (salesOrders s))"
    using order.prems order.hyps(2) r ok
    by (intro table_inv_insert [where y = y]) (simp_all add: sales_inv_def next_order_number_def)
  moreover have "promised k (save_row r (salesOrders s)) = promised k (salesOrders s)" for k
    using promised_insert order.hyps(2) r(1,3) by (simp add: held_def)
  ultimately show ?case using order.prems r(6) by (simp add: sales_inv_def)
next
  case (movement m newLevel t mr s mv p)
  have stock: "whole_stock (inventory s)" using movement.prems by (simp add: sales_inv_def)
  show ?case
    using record_movement_exact(1) [OF movement.hyps(1) stock movement.hyps(2)]
    by (intro frame_keeps_inv [OF movement.prems]) (simp_all add: shifts_def)
next
  case (catalogue s f g)
  have "whole_stock (inventory s)" using catalogue.prems by (simp add: sales_inv_def)
  then show ?case by (intro frame_keeps_inv [OF catalogue.prems]) (simp_all add: whole_stock_def)
qed (fact confirm_keeps_inv cancel_keeps_inv ship_keeps_inv)+

lemma sales_run_inv: "sales_step\<^sup>*\<^sup>* s s' \<Longrightarrow> sales_inv s \<Longrightarrow> sales_inv s'"
  by (induction rule: rtranclp_induct) (auto intro: sales_step_inv)

definition sales_start :: "sales_db \<Rightarrow> bool" where
  "sales_start s \<longleftrightarrow> salesOrders s = [] \<and> stockLevels (inventory s) = []"

lemma start_inv: "sales_start s \<Longrightarrow> sales_inv s"
  by (simp add: sales_start_def sales_inv_def promised_def whole_stock_def reserved_def on_hand_def find_level_def)


text \<open>
  Orders of a tenant never share a number, and every order is in one of the four
  statuses the service uses: nothing is ever marked as partially shipped or invoiced.
\<close>

theorem sales_order_numbers_unique:
  assumes "sales_start s0" and "sales_step\<^sup>*\<^sup>* s0 s"
  shows "distinct (map so_orderNumber (tenant_rows t (salesOrders s))) \<and>
    list_all (\<lambda>r. so_status r \<in> {SoDraft, SoConfirmed, SoShipped, SoCancelled}) (salesOrders s)"
proof -
  have inv: "table_inv ''SO'' 5 so_orderNumber order_ok (salesOrders s)"
    using sales_run_inv [OF assms(2) start_inv [OF assms(1)]] by (simp add: sales_inv_def)
  have "distinct (map so_orderNumber (tenant_rows t (salesOrders s)))"
    by (rule numbered_distinct, rule table_inv_numbered [OF inv])
  moreover have "list_all (\<lambda>r. so_status r \<in> {SoDraft, SoConfirmed, SoShipped, SoCancelled}) (salesOrders s)"
    using inv by (simp add: table_inv_def order_ok_def list_all_iff)
  ultimately show ?thesis by simp
qed

section \<open>Single orders\<close>

lemma save_other_row:
  "keyed rows \<Longrightarrow> find_scoped t i rows = Some old \<Longrightarrow> ent_id r' = ent_id old \<Longrightarrow> r \<in> set rows \<Longrightarrow> r \<noteq> old \<Longrightarrow>
     r \<in> set (save_row r' rows)"
  using find_scoped_Some [of t i rows old] table.key_inj [of rows r old] by (auto simp: set_save_row)

lemma final_order_step:
  assumes "sales_step s s'" and "sales_inv s" and r: "r \<in> set (salesOrders s)" "so_status r \<in> {SoShipped, SoCancelled}"
  shows "r \<in> set (salesOrders s')"
proof -
  have keyed: "keyed (salesOrders s)" using assms(2) by (auto simp: sales_inv_def dest: table_inv_keyed)
  have changed: "r \<in> set (save_row (x\<lparr>so_status := st\<rparr>) (salesOrders s))"
    if x: "find_scoped t i (salesOrders s) = Some x" and "so_status x = SoConfirmed \<or> so_status x = SoDraft \<or> so_status x = st"
      and "st = SoCancelled \<or> so_status x \<noteq> st" for x t i st
  proof (cases "r = x")
    case True
    then have "so_status x = st" using that r(2) by auto
    then have "x\<lparr>so_status := st\<rparr> = r" using True by simp
    then show ?thesis using keyed by (simp add: set_save_row)
  next
    case False
    then show ?thesis using save_other_row [OF keyed x, of "x\<lparr>so_status := st\<rparr>" r] r(1) by simp
  qed
  from assms(1) show ?thesis
  proof cases
    case (order y n t dto q)
    then show ?thesis using r(1) by (auto elim!: create_order_Inr simp: fresh_save_row)
  next
    case (confirm newLevel ids t i q)
    then show ?thesis using changed by (auto elim!: confirm_Inr)
  next
    case (ship ids t i q)
    then show ?thesis using changed by (auto elim!: ship_Inr)
  next
    case (cancel ids t i q)
    then show ?thesis
    proof (elim cancel_Inr)
      fix x p
      assume x: "find_scoped t i (salesOrders s) = Some x" "so_status x \<noteq> SoShipped"
        and "q = x\<lparr>so_status := SoCancelled\<rparr>" and s': "s' = salesOrders_update (save_row q) (s\<lparr>inventory := p\<rparr>)"
      have "order_ok x" using assms(2) find_scoped_Some [OF x(1)] by (auto simp: sales_inv_def dest: table_inv_row)
      then have "so_status x \<in> {SoDraft, SoConfirmed, SoCancelled}" using x(2) by (auto simp: order_ok_def)
      then show ?thesis using changed [OF x(1), of SoCancelled] s' \<open>q = _\<close> by auto
    qed
  qed (use r(1) in \<open>auto simp: create_customer_def svc_simps Let_def\<close>)
qed

lemma final_order_run:
  "sales_step\<^sup>*\<^sup>* s s' \<Longrightarrow> sales_inv s \<Longrightarrow> r \<in> set (salesOrders s) \<Longrightarrow> so_status r \<in> {SoShipped, SoCancelled} \<Longrightarrow>
     sales_inv s' \<and> r \<in> set (salesOrders s')"
  by (induction rule: rtranclp_induct) (auto intro: sales_step_inv final_order_step)

text \<open>
  An order that is shipped or cancelled is final: no later request, of any tenant,
  changes anything in it.
\<close>

theorem settled_orders_are_final:
  assumes "sales_start s0" and "sales_step\<^sup>*\<^sup>* s0 s" and "sales_step\<^sup>*\<^sup>* s s'"
    and "r \<in> set (salesOrders s)" and "so_status r \<in> {SoShipped, SoCancelled}"
  shows "r \<in> set (salesOrders s')"
  using final_order_run [OF assms(3) sales_run_inv [OF assms(2) start_inv [OF assms(1)]] assms(4,5)] by simp


lemma fl_js_sum: "fl (js_sum f xs) = js_sum f xs"
  by (induction xs rule: rev_induct) (simp_all add: js_add_def)

text \<open>
  For a customer under split payment the VAT of an order is not charged: the order
  carries no tax and its total is its net amount.
\<close>

theorem split_payment_charges_no_tax:
  assumes "find_scoped t (soi_customerId dto) (customers s) = Some c" and "cu_splitPayment c"
    and "create_sales_order year newId t dto s = (Inr r, s')"
  shows "so_taxAmount r = 0 \<and> so_totalAmount r = so_subtotalAmount r"
proof -
  show ?thesis using assms
    by (auto simp: create_sales_order_def get_customer_def svc_simps Let_def js_add_def [of _ 0] fl_js_sum)
qed

text \<open>A release leaves the levels it does not name as they are.\<close>

lemma release_frame:
  assumes "release_reservation ids t rs s = (Inr (), u)" and "k \<notin> request_key t ` set rs"
  shows "reserved k u = reserved k s"
proof -
  have "reserved k u = reserved k s"
    if "for_each (\<lambda>(n, r). release_one (ids n) t r) (enumerate n rs) s = (Inr (), u)" for n s
    using that assms(2)
  proof (induction rs arbitrary: n s)
    case (Cons r rs)
    then obtain v where v: "release_one (ids n) t r s = (Inr (), v)"
      "for_each (\<lambda>(n, r). release_one (ids n) t r) (enumerate (Suc n) rs) v = (Inr (), u)" by (auto simp: seq_Inr)
    have "reserved k v = reserved k s" using release_one_Inr [OF v(1), of k] Cons.prems(2) by simp
    then show ?case using Cons.IH [OF v(2)] Cons.prems(2) by simp
  qed (simp add: ret_Inr)
  then show ?thesis using assms(1) by (auto simp: release_reservation_def transaction_Inr)
qed

text \<open>
  When the default warehouse changes between the confirmation and the cancellation
  of an order whose lines name no warehouse, the reservation is never given back: after
  the cancellation the first default warehouse still has everything reserved.
\<close>

theorem changed_default_warehouse_strands_stock:
  assumes "keyed (salesOrders s)" and "whole_levels (inventory s)"
    and "confirm_sales_order newLevel ids t i s = (Inr r, s1)"
    and "first_active_warehouse t (warehouses (inventory s)) = Some w"
    and "list_all (\<lambda>l. sli_warehouseId l = None) (so_lines r)" and "positive_requests (requests_of (ent_id w) r)"
    and "s2 = s1\<lparr>inventory := warehouses_update g (inventory s1)\<rparr>"
    and "first_active_warehouse t (warehouses (inventory s2)) = Some w'" and "ent_id w' \<noteq> ent_id w"
    and "cancel_sales_order ids' t i s2 = (Inr r2, s3)"
  shows "so_status r2 = SoCancelled \<and>
    reserved (t, p, ent_id w) (inventory s3)
      = reserved (t, p, ent_id w) (inventory s) + requested t (t, p, ent_id w) (requests_of (ent_id w) r)"
proof -
  let ?k = "(t, p, ent_id w)"
  obtain x q where x: "find_scoped t i (salesOrders s) = Some x" "so_status x = SoDraft"
    and q: "reserve_stock newLevel ids t (requests_of (ent_id w) x) (inventory s) = (Inr (), q)"
    and r: "r = x\<lparr>so_status := SoConfirmed\<rparr>" and s1: "s1 = salesOrders_update (save_row r) (s\<lparr>inventory := q\<rparr>)"
    using assms(3,4) by (elim confirm_Inr) simp
  have "positive_requests (requests_of (ent_id w) x)" using assms(6) r by simp
  then have held: "reserved ?k (inventory s2) = reserved ?k (inventory s) + requested t ?k (requests_of (ent_id w) r)"
    using reserved_batch(5) [OF whole_stock_levels [OF assms(2)] _ q, of ?k] r s1 assms(7) by simp
  have found: "find_scoped t i (salesOrders s2) = Some r"
    using x find_scoped_Some [OF x(1)] assms(1,7) r s1 by (simp add: find_scoped_save)
  show ?thesis
    using assms(10)
  proof (rule cancel_Inr)
    fix y p'
    assume y: "find_scoped t i (salesOrders s2) = Some y" and r2: "r2 = y\<lparr>so_status := SoCancelled\<rparr>"
      and rel: "if so_status y = SoConfirmed \<or> so_status y = SoPartiallyShipped
        then \<exists>w. first_active_warehouse t (warehouses (inventory s2)) = Some w \<and>
          release_reservation ids' t (requests_of (ent_id w) y) (inventory s2) = (Inr (), p')
        else p' = inventory s2"
      and s3: "s3 = salesOrders_update (save_row r2) (s2\<lparr>inventory := p'\<rparr>)"
    have "y = r" using y found by simp
    then have rel': "release_reservation ids' t (requests_of (ent_id w') r) (inventory s2) = (Inr (), p')"
      using rel r assms(8) by simp
    have "?k \<notin> request_key t ` set (requests_of (ent_id w') r)"
      using assms(5,9) by (auto simp: requests_of_def request_of_def request_key_def nullish_def list_all_iff)
    then show ?thesis using release_frame [OF rel'] held r2 s3 by simp
  qed
qed

section \<open>Refused requests\<close>

lemma atomic_then: "atomic m \<Longrightarrow> never_throws k \<Longrightarrow> atomic (seq m k)"
  unfolding atomic_def never_throws_def seq_def bind_def
  by (auto split: sum.splits prod.splits) (metis Inl_Inr_False Pair_inject)

lemma atomic_with_inventory: "atomic m \<Longrightarrow> atomic (with_inventory m)"
  by (auto simp: atomic_def on_part_def split: prod.splits)

lemma atomic_order_transaction: "atomic m \<Longrightarrow> atomic (order_transaction m)"
  unfolding atomic_def order_transaction_def
  by (auto split: sum.splits prod.splits) (metis sales_db.surjective sales_db.update_convs(2))

lemma never_throws_save: "never_throws (save_order_status st r)"
  unfolding save_order_status_def by (intro atomic_intros)

lemma read_only_orders: "read_only (get_sales_order t i)" "read_only (pick_default_warehouse_id t)" "read_only (get_customer t i)"
  unfolding get_sales_order_def pick_default_warehouse_id_def get_customer_def by (intro atomic_intros)+

lemmas order_atomic = atomic_then atomic_with_inventory atomic_order_transaction never_throws_save read_only_orders

text \<open>
  A sales request that is refused leaves orders, customers and stock as they were,
  also when the inventory service refuses in the middle of a batch.
\<close>

theorem refused_sales_requests_change_nothing:
  "atomic (create_customer n t ci) \<and> atomic (create_sales_order y n t dto) \<and>
   atomic (confirm_sales_order newLevel ids t i) \<and> atomic (cancel_sales_order ids t i) \<and>
   atomic (ship_sales_order ids t i)"
  unfolding create_customer_def create_sales_order_def confirm_sales_order_def cancel_sales_order_def
    ship_sales_order_def reserve_stock_def release_reservation_def ship_reservation_def Let_def
  by (intro conjI order_atomic atomic_intros never_throws_save)

section \<open>Examples\<close>

definition sample_customer :: customer where
  "sample_customer = \<lparr>ent_id = ''K'', tenantId = ''T'', cu_code = ''C1'', cu_name = ''Comune'', cu_customerType = PublicAdministration,
     cu_vatNumber = None, cu_fiscalCode = None, cu_sdiDestinationCode = None, cu_pecEmail = None, cu_email = None,
     cu_phone = None, cu_address = None, cu_city = None, cu_postalCode = None, cu_province = None, cu_country = ''IT'',
     cu_defaultIvaRate = 22, cu_paymentTermsDays = 30, cu_splitPayment = True, cu_isActive = True\<rparr>"

definition sample_site :: "string \<Rightarrow> string \<Rightarrow> warehouse" where
  "sample_site i c = \<lparr>ent_id = i, tenantId = ''T'', wh_code = c, wh_name = c, wh_address = None, wh_city = None,
     wh_postalCode = None, wh_province = None, wh_contactPerson = None, wh_contactPhone = None, wh_capacity = None,
     wh_isActive = True\<rparr>"

definition sample_so :: "uuid option \<Rightarrow> so_input" where
  "sample_so w = \<lparr>soi_customerId = ''K'', soi_orderDate = ''2026-05-01'', soi_requestedDeliveryDate = None,
     soi_customerPoReference = None, soi_notes = None,
     soi_lines = [\<lparr>sli_productId = ''P'', sli_sku = ''S'', sli_description = ''N'', sli_quantity = 3, sli_unitPrice = 10,
       sli_discountPct = None, sli_ivaRate = 22, sli_warehouseId = w\<rparr>]\<rparr>"

definition sales_0 :: sales_db where
  "sales_0 = \<lparr>customers = [sample_customer], salesOrders = [],
     inventory = \<lparr>products = [sample_product], warehouses = [sample_site ''V'' ''B''], stockLevels = [], stockMovements = []\<rparr>\<rparr>"

definition sales_1 :: sales_db where
  "sales_1 = sales_0\<lparr>inventory := after sample_receipt (inventory sales_0)\<rparr>"

abbreviation sample_create :: "uuid option \<Rightarrow> (sales_db, sales_order) svc" where
  "sample_create w \<equiv> create_sales_order 2026 ''O'' ''T'' (sample_so w)"

abbreviation sample_confirm :: "(sales_db, sales_order) svc" where
  "sample_confirm \<equiv> confirm_sales_order (\<lambda>_. ''new'') (sample_ids CHR ''c'') ''T'' ''O''"

abbreviation sample_ship_order :: "(sales_db, sales_order) svc" where
  "sample_ship_order \<equiv> ship_sales_order (sample_ids CHR ''s'') ''T'' ''O''"

definition sales_2 :: sales_db where "sales_2 = after (sample_create (Some ''V'')) sales_1"
definition sales_3 :: sales_db where "sales_3 = after sample_confirm sales_2"
definition sales_4 :: sales_db where "sales_4 = after sample_ship_order sales_3"

lemmas sales_eval =
  create_sales_order_def confirm_sales_order_def ship_sales_order_def cancel_sales_order_def get_customer_def
  get_sales_order_def pick_default_warehouse_id_def requests_of_def request_of_def order_transaction_def
  save_order_status_def first_active_warehouse_def so_line_of_def so_line_input.extend_def so_line.fields_def
  sample_customer_def sample_site_def sample_so_def record_stock_movement_def apply_movement_to_levels_def
  adjust_stock_def new_level_def sample_inbound_def reserve_stock_def ship_reservation_def release_reservation_def
  ship_one_def release_one_def save_row_def nullish_def Let_def

definition sample_log :: "stock_movement list" where "sample_log = stockMovements (inventory sales_1)"

lemma sales_1_eval:
  "sales_1 = sales_0\<lparr>inventory := \<lparr>products = [sample_product], warehouses = [sample_site ''V'' ''B''],
     stockLevels = [\<lparr>ent_id = ''new'', tenantId = ''T'', sl_productId = ''P'', sl_warehouseId = ''V'',
       sl_onHand = 6, sl_reserved = 0, sl_onOrder = 0\<rparr>], stockMovements = sample_log\<rparr>\<rparr>"
  by (simp add: sample_log_def sales_1_def sales_0_def sales_eval inventory_eval)

lemma sales_2_runs: "runs_ok (sample_create w) sales_1"
  by (simp add: sales_1_eval sales_0_def sales_eval inventory_eval)

lemma sales_3_runs: "runs_ok sample_confirm sales_2"
  unfolding sales_2_def
  by (simp add: sales_1_eval sales_0_def sales_eval inventory_eval)

lemma sales_4_runs: "runs_ok sample_ship_order sales_3"
  unfolding sales_3_def sales_2_def
  by (simp add: sales_1_eval sales_0_def sales_eval inventory_eval)

lemma sales_start_0: "sales_start sales_0"
  by (simp add: sales_start_def sales_0_def)

lemma sales_run:
  "sales_step\<^sup>*\<^sup>* sales_0 sales_2" "sales_step sales_2 sales_3" "sales_step\<^sup>*\<^sup>* sales_0 sales_3" "sales_step\<^sup>*\<^sup>* sales_3 sales_4"
proof -
  have "record_stock_movement ''M'' (\<lambda>_. ''new'') ''T'' sample_inbound (inventory sales_0)
      = (Inr (outcome sample_receipt (inventory sales_0)), after sample_receipt (inventory sales_0))"
    by (rule runs_okD) (simp add: sales_0_def sales_eval inventory_eval)
  moreover have "room_for (mr_quantity sample_inbound) (inventory sales_0)"
    by (simp add: room_for_def sample_inbound_def sample_transfer_def sales_0_def)
  ultimately have "sales_step sales_0 sales_1" unfolding sales_1_def by (rule sales_step.movement)
  moreover have "fresh ''O'' (salesOrders sales_1)" by (simp add: sales_1_def sales_0_def fresh_def)
  then have "sales_step sales_1 sales_2"
    using sales_step.order [OF runs_okD [OF sales_2_runs]] unfolding sales_2_def
    by (simp add: sample_so_def line_ok_def)
  ultimately show run2: "sales_step\<^sup>*\<^sup>* sales_0 sales_2" by simp
  show step3: "sales_step sales_2 sales_3"
    using sales_step.confirm [OF runs_okD [OF sales_3_runs]] unfolding sales_3_def .
  with run2 show "sales_step\<^sup>*\<^sup>* sales_0 sales_3" by simp
  show "sales_step\<^sup>*\<^sup>* sales_3 sales_4"
    using sales_step.ship [OF runs_okD [OF sales_4_runs]] unfolding sales_4_def by blast
qed

lemma sales_3_order:
  "find_scoped ''T'' ''O'' (salesOrders sales_3) = Some (outcome sample_confirm sales_2)"
  "so_status (outcome sample_confirm sales_2) = SoConfirmed"
  "first_active_warehouse ''T'' (warehouses (inventory sales_3)) \<noteq> None"
  unfolding sales_3_def sales_2_def
  by (simp_all add: sales_1_eval sales_0_def sales_eval inventory_eval)


theorem sales_order_numbers_unique_witness:
  "distinct (map so_orderNumber (tenant_rows ''T'' (salesOrders sales_3))) \<and>
    list_all (\<lambda>r. so_status r \<in> {SoDraft, SoConfirmed, SoShipped, SoCancelled}) (salesOrders sales_3)"
  by (rule sales_order_numbers_unique [OF sales_start_0 sales_run(3)])

abbreviation sample_shipped :: sales_order where
  "sample_shipped \<equiv> outcome sample_ship_order sales_3"

theorem settled_orders_are_final_witness:
  "so_status sample_shipped = SoShipped \<and> sample_shipped \<in> set (salesOrders sales_4)"
proof -
  have "sample_shipped \<in> set (salesOrders sales_4)" "so_status sample_shipped = SoShipped"
    unfolding sales_4_def sales_3_def sales_2_def
    by (simp_all add: sales_1_eval sales_0_def sales_eval inventory_eval)
  then show ?thesis
    using settled_orders_are_final [OF sales_start_0 rtranclp_trans [OF sales_run(3,4)] rtranclp.rtrancl_refl] by simp
qed


theorem split_payment_charges_no_tax_witness:
  "so_taxAmount (outcome (sample_create (Some ''V'')) sales_1) = 0 \<and>
   so_totalAmount (outcome (sample_create (Some ''V'')) sales_1) = so_subtotalAmount (outcome (sample_create (Some ''V'')) sales_1)"
  by (rule split_payment_charges_no_tax [where c = sample_customer, OF _ _ runs_okD [OF sales_2_runs]])
    (simp_all add: sales_1_def sales_0_def sample_so_def find_scoped_def sample_customer_def)

text \<open>A warehouse with an earlier code is opened while an order without a warehouse is confirmed.\<close>

definition drift_2 :: sales_db where "drift_2 = after (sample_create None) sales_1"
definition drift_3 :: sales_db where "drift_3 = after sample_confirm drift_2"

definition drift_4 :: sales_db where
  "drift_4 = drift_3\<lparr>inventory := warehouses_update (Cons (sample_site ''A'' ''A'')) (inventory drift_3)\<rparr>"

abbreviation sample_cancel :: "(sales_db, sales_order) svc" where
  "sample_cancel \<equiv> cancel_sales_order (sample_ids CHR ''x'') ''T'' ''O''"

lemmas drift_eval = drift_4_def drift_3_def drift_2_def sales_1_eval sales_0_def sales_eval inventory_eval

lemma drift_runs: "runs_ok sample_confirm drift_2" "runs_ok sample_cancel drift_4"
  by (simp_all add: drift_eval less_char_def)

theorem changed_default_warehouse_strands_stock_witness:
  "so_status (outcome sample_cancel drift_4) = SoCancelled \<and>
   reserved (''T'', ''P'', ent_id (sample_site ''V'' ''B'')) (inventory (after sample_cancel drift_4))
     = reserved (''T'', ''P'', ent_id (sample_site ''V'' ''B'')) (inventory drift_2)
       + requested ''T'' (''T'', ''P'', ent_id (sample_site ''V'' ''B''))
           (requests_of (ent_id (sample_site ''V'' ''B'')) (outcome sample_confirm drift_2))"
proof (rule changed_default_warehouse_strands_stock [OF _ _ runs_okD [OF drift_runs(1)] _ _ _ _ _ _ runs_okD [OF drift_runs(2)]])
  show "keyed (salesOrders drift_2)" "whole_levels (inventory drift_2)"
    by (simp_all add: drift_eval keyed_def whole_levels_def)
  show "first_active_warehouse ''T'' (warehouses (inventory drift_2)) = Some (sample_site ''V'' ''B'')"
    by (simp add: drift_eval)
  show "list_all (\<lambda>l. sli_warehouseId l = None) (so_lines (outcome sample_confirm drift_2))"
    "positive_requests (requests_of (ent_id (sample_site ''V'' ''B'')) (outcome sample_confirm drift_2))"
    by (simp_all add: drift_eval positive_requests_def)
  show "drift_4 = (after sample_confirm drift_2)
      \<lparr>inventory := warehouses_update (Cons (sample_site ''A'' ''A'')) (inventory (after sample_confirm drift_2))\<rparr>"
    by (simp add: drift_4_def drift_3_def)
  show "first_active_warehouse ''T'' (warehouses (inventory drift_4)) = Some (sample_site ''A'' ''A'')"
    by (simp add: drift_eval less_char_def)
  show "ent_id (sample_site ''A'' ''A'') \<noteq> ent_id (sample_site ''V'' ''B'')" by (simp add: sample_site_def)
qed

end
