(* ===== verification/SalesDepthProps.thy ===== *)
theory SalesDepthProps
  imports SalesDepth SalesProps
begin

text \<open>
  Quotations and delivery notes along arbitrary runs of the sales modules: a quotation
  becomes at most one order, with its own amounts, and a delivery note is invoiced at
  most once.
\<close>

section \<open>The modules as a state machine\<close>

text \<open>
  What the order module does next to this one: customers, orders, and any change of the
  inventory.
\<close>

inductive order_change :: "sales_db \<Rightarrow> sales_db \<Rightarrow> bool" where
  customer: "create_customer n t ci s = (Inr c, s') \<Longrightarrow> order_change s s'"
| order: "create_sales_order y n t dto s = (Inr r, s') \<Longrightarrow> fresh n (salesOrders s) \<Longrightarrow> order_change s s'"
| confirm: "confirm_sales_order newLevel ids t i s = (Inr r, s') \<Longrightarrow> order_change s s'"
| cancel: "cancel_sales_order ids t i s = (Inr r, s') \<Longrightarrow> order_change s s'"
| ship: "ship_sales_order ids t i s = (Inr r, s') \<Longrightarrow> order_change s s'"
| stock: "order_change s (s\<lparr>inventory := p\<rparr>)"

inductive depth_step :: "depth_db \<Rightarrow> depth_db \<Rightarrow> bool" where
  create_quotation: "create_quotation now y n ids t qi s = (Inr q, s') \<Longrightarrow> fresh n (quotations s) \<Longrightarrow> depth_step s s'"
| send_quotation: "send_quotation now t i s = (Inr q, s') \<Longrightarrow> depth_step s s'"
| revise_quotation: "revise_quotation now t i note s = (Inr q, s') \<Longrightarrow> depth_step s s'"
| accept_quotation: "accept_quotation now t i s = (Inr q, s') \<Longrightarrow> depth_step s s'"
| reject_quotation: "reject_quotation now t i reason s = (Inr q, s') \<Longrightarrow> depth_step s s'"
| expire_quotation: "expire_quotation now t i s = (Inr q, s') \<Longrightarrow> depth_step s s'"
| convert: "convert_quotation_to_sales_order now y today n t i od s = (Inr r, s') \<Longrightarrow>
    fresh n (salesOrders (orderTables s)) \<Longrightarrow> depth_step s s'"
| create_ddt: "create_ddt now y n ids t di s = (Inr d, s') \<Longrightarrow> fresh n (ddts s) \<Longrightarrow> depth_step s s'"
| issue_ddt: "issue_ddt now t i tn c s = (Inr d, s') \<Longrightarrow> depth_step s s'"
| in_transit: "mark_ddt_in_transit now t i tn sh s = (Inr d, s') \<Longrightarrow> depth_step s s'"
| delivered: "mark_ddt_delivered now t i da s = (Inr d, s') \<Longrightarrow> depth_step s s'"
| cancel_ddt: "cancel_ddt now t i s = (Inr d, s') \<Longrightarrow> depth_step s s'"
| return_ddt: "return_ddt now t i s = (Inr d, s') \<Longrightarrow> depth_step s s'"
| lost: "mark_ddt_lost now t i s = (Inr d, s') \<Longrightarrow> depth_step s s'"
| dispute: "dispute_ddt now t i s = (Inr d, s') \<Longrightarrow> depth_step s s'"
| invoice: "invoice_ddt now t i bill s = (Inr d, s') \<Longrightarrow> depth_step s s'"
| activity: "log_activity n t ai s = (Inr a, s') \<Longrightarrow> depth_step s s'"
| orders: "order_change (orderTables s) p \<Longrightarrow> depth_step s (s\<lparr>orderTables := p\<rparr>)"

section \<open>What an order keeps\<close>

definition order_core :: "sales_order \<Rightarrow> uuid \<times> uuid \<times> uuid \<times> jsnum \<times> jsnum \<times> jsnum" where
  "order_core r = (ent_id r, tenantId r, so_customerId r, so_subtotalAmount r, so_taxAmount r, so_totalAmount r)"

definition orders_kept :: "sales_order list \<Rightarrow> sales_order list \<Rightarrow> bool" where
  "orders_kept rows rows' \<longleftrightarrow>
     (keyed rows \<longrightarrow> keyed rows') \<and> (\<forall>r\<in>set rows. \<exists>r'\<in>set rows'. order_core r' = order_core r)"

lemma orders_kept_refl [simp]: "orders_kept rows rows"
  by (auto simp: orders_kept_def)

lemma orders_kept_insert: "fresh (ent_id r) rows \<Longrightarrow> orders_kept rows (save_row r rows)"
  unfolding orders_kept_def using keyed_save_row [of rows r] by (auto simp: fresh_save_row)

lemma orders_kept_status:
  assumes "keyed rows" and "find_scoped t i rows = Some r"
  shows "orders_kept rows (save_row (r\<lparr>so_status := st\<rparr>) rows)"
proof -
  have "\<exists>r'\<in>set (save_row (r\<lparr>so_status := st\<rparr>) rows). order_core r' = order_core x" if "x \<in> set rows" for x
  proof (cases "ent_id x = ent_id r")
    case True
    then have "x = r" using table.key_inj [OF assms(1) that] find_scoped_Some [OF assms(2)] by simp
    then show ?thesis using assms(1) by (auto simp: set_save_row order_core_def)
  next
    case False
    then show ?thesis using that assms(1) by (auto simp: set_save_row)
  qed
  then show ?thesis using assms(1) by (simp add: orders_kept_def keyed_save_row)
qed

lemma order_change_kept: "order_change s s' \<Longrightarrow> keyed (salesOrders s) \<Longrightarrow> orders_kept (salesOrders s) (salesOrders s')"
proof (induction rule: order_change.induct)
  case (customer n t ci s c s')
  then show ?case by (auto simp: create_customer_def svc_simps Let_def)
next
  case (order y n t dto s r s')
  then show ?case by (auto elim!: create_order_Inr intro!: orders_kept_insert)
next
  case (confirm newLevel ids t i s r s')
  then show ?case by (auto elim!: confirm_Inr intro!: orders_kept_status)
next
  case (cancel ids t i s r s')
  then show ?case by (auto elim!: cancel_Inr intro!: orders_kept_status)
next
  case (ship ids t i s r s')
  then show ?case by (auto elim!: ship_Inr intro!: orders_kept_status)
qed simp

section \<open>Invariant\<close>

definition order_matches :: "quotation \<Rightarrow> sales_order \<Rightarrow> bool" where
  "order_matches q r \<longleftrightarrow>
     order_core r = (the (q_convertedToSalesOrderId q), tenantId q, q_customerId q,
       js_div (q_subtotalCents q) 100, js_div (q_taxCents q) 100, js_div (q_totalCents q) 100)"

definition quotation_linked :: "sales_order list \<Rightarrow> quotation \<Rightarrow> bool" where
  "quotation_linked rows q \<longleftrightarrow>
     (q_status q = QConverted \<longleftrightarrow> q_convertedToSalesOrderId q \<noteq> None) \<and>
     (q_convertedToSalesOrderId q \<noteq> None \<longrightarrow> (\<exists>r\<in>set rows. order_matches q r))"

definition ddt_ok :: "ddt \<Rightarrow> bool" where
  "ddt_ok d \<longleftrightarrow> (ddt_status d = DdtInvoiced \<longleftrightarrow> ddt_invoiceId d \<noteq> None)"

definition links_unique :: "quotation list \<Rightarrow> bool" where
  "links_unique qs \<longleftrightarrow> (\<forall>q\<in>set qs. \<forall>q'\<in>set qs.
     q_convertedToSalesOrderId q \<noteq> None \<longrightarrow> q_convertedToSalesOrderId q = q_convertedToSalesOrderId q' \<longrightarrow> q = q')"

definition depth_inv :: "depth_db \<Rightarrow> bool" where
  "depth_inv s \<longleftrightarrow>
     keyed (quotations s) \<and> keyed (ddts s) \<and> keyed (salesOrders (orderTables s)) \<and>
     (\<forall>q\<in>set (quotations s). quotation_linked (salesOrders (orderTables s)) q) \<and>
     links_unique (quotations s) \<and>
     (\<forall>d\<in>set (ddts s). ddt_ok d)"

lemma depth_inv_keyed: "depth_inv s \<Longrightarrow> keyed (quotations s) \<and> keyed (ddts s) \<and> keyed (salesOrders (orderTables s))"
  by (simp add: depth_inv_def)

lemma linked_order:
  assumes "depth_inv s" and "q \<in> set (quotations s)" and "q_convertedToSalesOrderId q = Some i"
  obtains r where "r \<in> set (salesOrders (orderTables s))" "order_matches q r"
  using assms by (fastforce simp: depth_inv_def quotation_linked_def)

lemma linked_kept: "quotation_linked rows q \<Longrightarrow> orders_kept rows rows' \<Longrightarrow> quotation_linked rows' q"
  unfolding quotation_linked_def orders_kept_def order_matches_def by metis

lemma depth_inv_orders:
  assumes "depth_inv s" and "orders_kept (salesOrders (orderTables s)) (salesOrders p)"
  shows "depth_inv (s\<lparr>orderTables := p\<rparr>)"
  using assms linked_kept [OF _ assms(2)] unfolding depth_inv_def orders_kept_def by simp

lemma depth_inv_other:
  assumes "depth_inv s" and "quotations s' = quotations s" "ddts s' = ddts s" "orderTables s' = orderTables s"
  shows "depth_inv s'"
  using assms by (simp add: depth_inv_def)

text \<open>Saving a quotation whose link is as before.\<close>

lemma depth_inv_quotation:
  assumes inv: "depth_inv s" and frame: "ddts s' = ddts s" "orderTables s' = orderTables s"
    and rows: "quotations s' = save_row q' (quotations s)"
    and ok: "quotation_linked (salesOrders (orderTables s)) q'"
    and link: "\<And>q. q \<in> set (quotations s) \<Longrightarrow> q_convertedToSalesOrderId q \<noteq> None \<Longrightarrow>
       q_convertedToSalesOrderId q = q_convertedToSalesOrderId q' \<Longrightarrow> ent_id q = ent_id q'"
  shows "depth_inv s'"
proof -
  have keyed: "keyed (quotations s)" and unique: "links_unique (quotations s)" using inv by (simp_all add: depth_inv_def)
  have "links_unique (save_row q' (quotations s))"
    unfolding links_unique_def set_save_row [OF keyed]
    using unique link unfolding links_unique_def by (metis (mono_tags, lifting) insert_iff mem_Collect_eq)
  then show ?thesis
    using inv frame ok by (auto simp: depth_inv_def rows set_save_row keyed_save_row)
qed


section \<open>Every request keeps it\<close>

lemma transition_quotation_Inr:
  "transition_quotation now t i next m s = (Inr q', s') \<longleftrightarrow>
     (\<exists>q. find_scoped t i (quotations s) = Some q \<and> can_quotation (q_status q) next \<and>
          \<not> (next = QConverted \<and> q_convertedToSalesOrderId q = None) \<and>
          q' = m (q\<lparr>q_status := next\<rparr>)\<lparr>q_updatedAt := now\<rparr> \<and> s' = quotations_update (save_row q') s)"
  unfolding transition_quotation_def quotation_table.transition_Inr by auto

lemma transition_ddt_Inr:
  "transition_ddt now t i next m s = (Inr d', s') \<longleftrightarrow>
     (\<exists>d. find_scoped t i (ddts s) = Some d \<and> can_ddt (ddt_status d) next \<and>
          d' = m (d\<lparr>ddt_status := next\<rparr>)\<lparr>ddt_updatedAt := now\<rparr> \<and> s' = ddts_update (save_row d') s)"
  unfolding transition_ddt_def ddt_table.transition_Inr by auto

text \<open>What no transition of a quotation changes.\<close>

definition quotation_core :: "quotation \<Rightarrow> uuid \<times> uuid \<times> uuid \<times> jsnum \<times> jsnum \<times> jsnum \<times> uuid option" where
  "quotation_core q = (ent_id q, tenantId q, q_customerId q, q_subtotalCents q, q_taxCents q, q_totalCents q,
     q_convertedToSalesOrderId q)"

lemma transition_quotation_inv:
  assumes "transition_quotation now t i next m s = (Inr q', s')" and inv: "depth_inv s" and "next \<noteq> QConverted"
    and m: "\<And>q. quotation_core (m q) = quotation_core q \<and> q_status (m q) = q_status q"
  shows "depth_inv s'"
proof -
  obtain q where q: "find_scoped t i (quotations s) = Some q" "can_quotation (q_status q) next"
      "q' = m (q\<lparr>q_status := next\<rparr>)\<lparr>q_updatedAt := now\<rparr>" "s' = quotations_update (save_row q') s"
    using assms(1) by (auto simp: transition_quotation_Inr)
  have mem: "q \<in> set (quotations s)" using find_scoped_Some [OF q(1)] by simp
  have core: "quotation_core q' = quotation_core q" "q_status q' = next"
    using m [of "q\<lparr>q_status := next\<rparr>"] q(3) by (simp_all add: quotation_core_def)
  have "q_status q \<noteq> QConverted" using q(2) by (auto simp: can_quotation_def)
  then have unlinked: "q_convertedToSalesOrderId q = None"
    using inv mem by (auto simp: depth_inv_def quotation_linked_def)
  show ?thesis
  proof (rule depth_inv_quotation [OF inv, where q' = q'])
    show "quotation_linked (salesOrders (orderTables s)) q'"
      using core unlinked assms(3) by (simp add: quotation_linked_def quotation_core_def)
  qed (use q(4) core unlinked in \<open>auto simp: quotation_core_def\<close>)
qed

lemma transition_ddt_inv:
  assumes "transition_ddt now t i next m s = (Inr d', s')" and inv: "depth_inv s"
    and m: "\<And>d. ent_id (m d) = ent_id d \<and> tenantId (m d) = tenantId d \<and> ddt_status (m d) = ddt_status d \<and>
       (if next = DdtInvoiced then ddt_invoiceId (m d) \<noteq> None else ddt_invoiceId (m d) = ddt_invoiceId d)"
  shows "depth_inv s'"
proof -
  obtain d where d: "find_scoped t i (ddts s) = Some d" "can_ddt (ddt_status d) next"
      "d' = m (d\<lparr>ddt_status := next\<rparr>)\<lparr>ddt_updatedAt := now\<rparr>" "s' = ddts_update (save_row d') s"
    using assms(1) by (auto simp: transition_ddt_Inr)
  have mem: "d \<in> set (ddts s)" using find_scoped_Some [OF d(1)] by simp
  have "ddt_status d \<noteq> DdtInvoiced" using d(2) by (auto simp: can_ddt_def)
  then have "ddt_invoiceId d = None" using inv mem by (auto simp: depth_inv_def ddt_ok_def)
  then have "ddt_ok d'"
    using m [of "d\<lparr>ddt_status := next\<rparr>"] d(3) by (simp add: ddt_ok_def split: if_splits)
  then show ?thesis using inv d(4)
    by (auto simp: depth_inv_def keyed_save_row set_save_row)
qed

lemma create_quotation_inv:
  assumes "create_quotation now y n ids t qi s = (Inr q, s')" and "fresh n (quotations s)" and inv: "depth_inv s"
  shows "depth_inv s'"
proof -
  have q: "quotations s' = save_row q (quotations s)" "ddts s' = ddts s" "orderTables s' = orderTables s"
    "q_status q = QDraft" "q_convertedToSalesOrderId q = None"
    using assms(1) by (auto simp: create_quotation_def with_quotation_totals_def svc_simps Let_def)
  show ?thesis
    by (rule depth_inv_quotation [OF inv q(2,3,1)]) (use q in \<open>simp_all add: quotation_linked_def\<close>)
qed

lemma create_ddt_inv:
  assumes "create_ddt now y n ids t di s = (Inr d, s')" and inv: "depth_inv s"
  shows "depth_inv s'"
proof -
  have "ddts s' = save_row d (ddts s)" "quotations s' = quotations s" "orderTables s' = orderTables s" "ddt_ok d"
    using assms(1) by (auto simp: create_ddt_def svc_simps Let_def ddt_ok_def)
  then show ?thesis using inv by (auto simp: depth_inv_def keyed_save_row set_save_row)
qed

lemma convert_Inr:
  assumes "convert_quotation_to_sales_order now y today n t i od s = (Inr r, s')" and "depth_inv s"
  obtains q where "find_scoped t i (quotations s) = Some q" "q_status q = QAccepted" "q_convertedToSalesOrderId q = None"
    "ent_id r = n" "so_status r = SoDraft" "order_matches (q\<lparr>q_convertedToSalesOrderId := Some n\<rparr>) r"
    "s' = quotations_update (save_row (q\<lparr>q_convertedToSalesOrderId := Some n, q_status := QConverted,
             q_updatedAt := now\<rparr>)) (orderTables_update (salesOrders_update (save_row r)) s)"
proof -
  obtain q where q: "find_scoped t i (quotations s) = Some q" "q_status q = QAccepted"
    using assms(1) by (auto simp: convert_quotation_to_sales_order_def get_quotation_def svc_simps)
  then have "q_convertedToSalesOrderId q = None"
    using assms(2) find_scoped_Some [OF q(1)] by (auto simp: depth_inv_def quotation_linked_def)
  then show thesis using assms(1) q find_scoped_Some [OF q(1)] that
    by (auto simp: convert_quotation_to_sales_order_def get_quotation_def svc_simps Let_def
        order_of_quotation_def order_matches_def order_core_def)
qed

lemma convert_inv:
  assumes run: "convert_quotation_to_sales_order now y today n t i od s = (Inr r, s')"
    and fresh: "fresh n (salesOrders (orderTables s))" and inv: "depth_inv s"
  shows "depth_inv s'"
  using run inv
proof (rule convert_Inr)
  fix q :: quotation
  let ?q = "q\<lparr>q_convertedToSalesOrderId := Some n, q_status := QConverted, q_updatedAt := now\<rparr>"
  let ?p = "salesOrders_update (save_row r) (orderTables s)"
  assume q: "find_scoped t i (quotations s) = Some q" "ent_id r = n"
    "order_matches (q\<lparr>q_convertedToSalesOrderId := Some n\<rparr>) r"
    "s' = quotations_update (save_row ?q) (orderTables_update (salesOrders_update (save_row r)) s)"
  have kept: "orders_kept (salesOrders (orderTables s)) (salesOrders ?p)"
    using fresh q(2) by (simp add: orders_kept_insert)
  have new: "q_convertedToSalesOrderId x \<noteq> Some n" if "x \<in> set (quotations s)" for x
    using linked_order [OF inv that, of n] fresh by (force simp: order_matches_def order_core_def fresh_def)
  show "depth_inv s'"
  proof (rule depth_inv_quotation [OF depth_inv_orders [OF inv kept], where q' = ?q])
    show "quotation_linked (salesOrders (orderTables (s\<lparr>orderTables := ?p\<rparr>))) ?q"
      using q(2,3) fresh by (auto simp: quotation_linked_def order_matches_def fresh_save_row)
  qed (use q(4) new in auto)
qed

lemmas quotation_requests =
  send_quotation_def revise_quotation_def accept_quotation_def reject_quotation_def expire_quotation_def

lemmas ddt_requests =
  issue_ddt_def mark_ddt_in_transit_def mark_ddt_delivered_def cancel_ddt_def return_ddt_def mark_ddt_lost_def
  dispute_ddt_def invoice_ddt_def

lemma depth_step_inv: "depth_step s s' \<Longrightarrow> depth_inv s \<Longrightarrow> depth_inv s'"
proof (induction rule: depth_step.induct)
  case (activity n t ai s a s')
  then show ?case by (intro depth_inv_other [OF activity(2)]) (auto simp: log_activity_def svc_simps Let_def)
next
  case (orders s p)
  then show ?case by (intro depth_inv_orders order_change_kept) (simp_all add: depth_inv_def)
qed (auto simp: quotation_requests ddt_requests quotation_core_def
      intro: create_quotation_inv create_ddt_inv convert_inv
      elim!: transition_quotation_inv transition_ddt_inv)

lemma depth_run_inv: "depth_step\<^sup>*\<^sup>* s s' \<Longrightarrow> depth_inv s \<Longrightarrow> depth_inv s'"
  by (induction rule: rtranclp_induct) (auto intro: depth_step_inv)


section \<open>A quotation becomes one order\<close>

definition depth_start :: "depth_db \<Rightarrow> bool" where
  "depth_start s \<longleftrightarrow> quotations s = [] \<and> ddts s = [] \<and> salesOrders (orderTables s) = []"

lemma depth_start_inv: "depth_start s \<Longrightarrow> depth_inv s"
  by (simp add: depth_start_def depth_inv_def links_unique_def keyed_def)

text \<open>
  C13. Whatever is requested of the sales modules, every converted quotation leads to an
  order of the same tenant and customer, whose amounts are those of the quotation in euros,
  no other quotation leads to that order, and a quotation that is not converted leads to none.
\<close>

theorem quotation_becomes_one_order:
  assumes "depth_start s0" and "depth_step\<^sup>*\<^sup>* s0 s" and "q \<in> set (quotations s)"
  shows "case q_convertedToSalesOrderId q of
      None \<Rightarrow> q_status q \<noteq> QConverted
    | Some i \<Rightarrow> q_status q = QConverted \<and>
        (\<exists>r. find_scoped (tenantId q) i (salesOrders (orderTables s)) = Some r \<and> so_customerId r = q_customerId q \<and>
           so_subtotalAmount r = js_div (q_subtotalCents q) 100 \<and> so_taxAmount r = js_div (q_taxCents q) 100 \<and>
           so_totalAmount r = js_div (q_totalCents q) 100) \<and>
        (\<forall>q'\<in>set (quotations s). q_convertedToSalesOrderId q' = Some i \<longrightarrow> q' = q)"
proof -
  have inv: "depth_inv s" by (rule depth_run_inv [OF assms(2) depth_start_inv [OF assms(1)]])
  then have linked: "quotation_linked (salesOrders (orderTables s)) q" and unique: "links_unique (quotations s)"
    and keyed: "keyed (salesOrders (orderTables s))"
    using assms(3) by (simp_all add: depth_inv_def)
  show ?thesis
  proof (cases "q_convertedToSalesOrderId q")
    case None
    then show ?thesis using linked by (simp add: quotation_linked_def)
  next
    case (Some i)
    then obtain r where r: "r \<in> set (salesOrders (orderTables s))" "order_matches q r"
      using linked_order [OF inv assms(3)] by blast
    then have "find_scoped (tenantId q) i (salesOrders (orderTables s)) = Some r"
      using keyed Some by (simp add: find_scoped_keyed order_matches_def order_core_def)
    moreover have "q' = q" if "q' \<in> set (quotations s)" "q_convertedToSalesOrderId q' = Some i" for q'
      using unique that assms(3) Some unfolding links_unique_def by (metis option.distinct(1))
    ultimately show ?thesis using r(2) Some linked by (simp add: quotation_linked_def order_matches_def order_core_def)
  qed
qed

section \<open>Converted quotations stay converted\<close>

text \<open>
  Along a step, a quotation in a final status stays as it is; the same for delivery notes.
\<close>

lemma final_quotation_kept:
  assumes "depth_step s s'" and "depth_inv s" and "q \<in> set (quotations s)" and "quotation_transitions (q_status q) = []"
  shows "q \<in> set (quotations s')"
proof -
  have keyed: "keyed (quotations s)" using assms(2) by (simp add: depth_inv_def)
  have other: "q \<in> set (save_row q' (quotations s))"
    if "find_scoped t i (quotations s) = Some x" "ent_id q' = ent_id x" "quotation_transitions (q_status x) \<noteq> []" for t i q' x
  proof -
    have "ent_id q \<noteq> ent_id q'"
      using that(2,3) assms(3,4) find_scoped_Some [OF that(1)] table.key_inj [OF keyed] by metis
    then show ?thesis using assms(3) by (simp add: set_save_row [OF keyed])
  qed
  have moved: "q \<in> set (quotations s')"
    if "transition_quotation now t i nxt m s = (Inr q', s')" "\<And>q. ent_id (m q) = ent_id q" for now t i nxt m q'
    using that by (auto simp: transition_quotation_Inr can_quotation_def intro!: other)
  show ?thesis using assms(1)
  proof (cases rule: depth_step.cases)
    case (create_quotation now y n ids t qi q')
    then show ?thesis using assms(3)
      by (auto simp: create_quotation_def with_quotation_totals_def svc_simps Let_def fresh_def set_save_row [OF keyed])
  next
    case (convert now y today n t i od r)
    from convert(1) assms(2) show ?thesis
      by (rule convert_Inr) (auto intro!: other)
  next
    case (create_ddt now y n ids t di d)
    then show ?thesis using assms(3) by (auto simp: create_ddt_def svc_simps Let_def)
  next
    case (activity n t ai a)
    then show ?thesis using assms(3) by (auto simp: log_activity_def svc_simps Let_def)
  qed (use assms(3) in \<open>auto simp: quotation_requests ddt_requests transition_ddt_Inr elim!: moved\<close>)
qed

lemma final_quotation_run:
  assumes "depth_step\<^sup>*\<^sup>* s s'" and "depth_inv s" and "q \<in> set (quotations s)" and "quotation_transitions (q_status q) = []"
  shows "q \<in> set (quotations s') \<and> depth_inv s'"
  using assms by (induction rule: rtranclp_induct) (auto intro: final_quotation_kept depth_step_inv)

text \<open>
  The conversion is not idempotent: once a quotation has been converted, every later
  request to convert it is refused and changes nothing, at any time, instead of returning the order.
\<close>

theorem quotation_conversion_not_idempotent:
  assumes "depth_start s0" and "depth_step\<^sup>*\<^sup>* s0 s"
    and "convert_quotation_to_sales_order now y today n t i od s = (Inr r, s1)" and "fresh n (salesOrders (orderTables s))"
    and "depth_step\<^sup>*\<^sup>* s1 s2"
  shows "convert_quotation_to_sales_order now' y' today' n' t i od' s2 = (Inl BadRequest, s2)"
proof -
  have inv: "depth_inv s" by (rule depth_run_inv [OF assms(2) depth_start_inv [OF assms(1)]])
  obtain q where q: "find_scoped t i (quotations s) = Some q"
    and s1: "quotations s1 = save_row (q\<lparr>q_convertedToSalesOrderId := Some n, q_status := QConverted, q_updatedAt := now\<rparr>) (quotations s)"
    using assms(3) inv by (rule convert_Inr) auto
  let ?q = "q\<lparr>q_convertedToSalesOrderId := Some n, q_status := QConverted, q_updatedAt := now\<rparr>"
  have "?q \<in> set (quotations s1)" using inv s1 by (simp add: depth_inv_def set_save_row)
  then have "?q \<in> set (quotations s2)" and "depth_inv s2"
    using final_quotation_run [OF assms(5), of ?q] convert_inv [OF assms(3,4) inv] by simp_all
  then have "find_scoped t i (quotations s2) = Some ?q"
    using find_scoped_Some [OF q] by (simp add: depth_inv_def find_scoped_keyed)
  then show ?thesis
    by (simp add: convert_quotation_to_sales_order_def get_quotation_def svc_defs)
qed


section \<open>A delivery note is invoiced once\<close>

lemma final_ddt_kept:
  assumes "depth_step s s'" and "depth_inv s" and "d \<in> set (ddts s)" and "ddt_transitions (ddt_status d) = []"
  shows "d \<in> set (ddts s')"
proof -
  have keyed: "keyed (ddts s)" using assms(2) by (simp add: depth_inv_def)
  have moved: "d \<in> set (ddts s')"
    if run: "transition_ddt now t i nxt m s = (Inr d', s')" and m: "\<And>d. ent_id (m d) = ent_id d" for now t i nxt m d'
  proof -
    obtain x where x: "find_scoped t i (ddts s) = Some x" "can_ddt (ddt_status x) nxt" "ent_id d' = ent_id x"
        "ddts s' = save_row d' (ddts s)"
      using run m by (auto simp: transition_ddt_Inr)
    have "ddt_transitions (ddt_status x) \<noteq> []" using x(2) by (auto simp: can_ddt_def)
    then have "ent_id d \<noteq> ent_id d'"
      using x(3) assms(3,4) find_scoped_Some [OF x(1)] table.key_inj [OF keyed] by metis
    then show ?thesis using assms(3) x(4) by (simp add: set_save_row [OF keyed])
  qed
  show ?thesis using assms(1)
  proof (cases rule: depth_step.cases)
    case (create_quotation now y n ids t qi q)
    then show ?thesis using assms(3) by (auto simp: create_quotation_def svc_simps Let_def)
  next
    case (convert now y today n t i od r)
    from convert(1) assms(2) show ?thesis by (rule convert_Inr) (use assms(3) in auto)
  next
    case (create_ddt now y n ids t di d')
    then show ?thesis using assms(3) by (auto simp: create_ddt_def svc_simps Let_def fresh_def set_save_row [OF keyed])
  next
    case (activity n t ai a)
    then show ?thesis using assms(3) by (auto simp: log_activity_def svc_simps Let_def)
  qed (use assms(3) in \<open>auto simp: quotation_requests ddt_requests transition_quotation_Inr elim!: moved\<close>)
qed

lemma final_ddt_run:
  assumes "depth_step\<^sup>*\<^sup>* s s'" and "depth_inv s" and "d \<in> set (ddts s)" and "ddt_transitions (ddt_status d) = []"
  shows "d \<in> set (ddts s') \<and> depth_inv s'"
  using assms by (induction rule: rtranclp_induct) (auto intro: final_ddt_kept depth_step_inv)

text \<open>The caller's loop over the notes of a prepared invoice.\<close>

definition invoice_all :: "int \<Rightarrow> uuid \<Rightarrow> uuid \<Rightarrow> uuid list \<Rightarrow> (depth_db, unit) svc" where
  "invoice_all now t bill ids = for_each (\<lambda>i. bind (invoice_ddt now t i bill) (\<lambda>_. ret ())) ids"

lemma check_loop: "for_each (\<lambda>x. throw_if (P x) e) xs s = (Inr (), s') \<longleftrightarrow> s' = s \<and> (\<forall>x\<in>set xs. \<not> P x)"
  by (induction xs) (auto simp: svc_simps simp del: for_each.simps)

lemma read_only_prepare: "read_only (prepare_invoice_from_ddts t ids)"
  unfolding prepare_invoice_from_ddts_def by (intro atomic_intros)

lemma prepare_Inr:
  assumes "prepare_invoice_from_ddts t ids s = (Inr r, s')"
  shows "s' = s" "ids \<noteq> []" "length (ddts_named t ids s) = length ids"
    "\<forall>d\<in>set (ddts_named t ids s). ddt_status d = DdtDelivered"
  using assms by (auto simp: prepare_invoice_from_ddts_def svc_simps check_loop)

text \<open>As many rows as listed keys: every key is listed once and has its row.\<close>

lemma all_named:
  assumes "keyed (ddts s)" and "length (ddts_named t ids s) = length ids"
  shows "distinct ids" and "i \<in> set ids \<Longrightarrow> \<exists>d\<in>set (ddts_named t ids s). ent_id d = i"
proof -
  have "distinct (map ent_id (ddts_named t ids s))"
    using assms(1) by (simp add: ddts_named_def keyed_def distinct_map_filter)
  then have card: "card (ent_id ` set (ddts_named t ids s)) = length ids"
    using assms(2) distinct_card by fastforce
  have sub: "ent_id ` set (ddts_named t ids s) \<subseteq> set ids" by (auto simp: ddts_named_def)
  then have "length ids \<le> card (set ids)" using card card_mono by (metis List.finite_set)
  then have full: "card (set ids) = length ids" by (simp add: card_length le_antisym)
  then show "distinct ids" by (rule card_distinct)
  have "ent_id ` set (ddts_named t ids s) = set ids" using card_subset_eq [OF _ sub] card full by simp
  then show "i \<in> set ids \<Longrightarrow> \<exists>d\<in>set (ddts_named t ids s). ent_id d = i" by force
qed

lemma invoice_all_runs:
  assumes "depth_inv s" and "distinct ids"
    and "\<And>i. i \<in> set ids \<Longrightarrow> \<exists>d\<in>set (ddts s). ent_id d = i \<and> tenantId d = t \<and> ddt_status d = DdtDelivered"
  shows "\<exists>s'. invoice_all now t bill ids s = (Inr (), s') \<and> depth_inv s' \<and>
     (\<forall>i\<in>set ids. \<exists>d\<in>set (ddts s'). ent_id d = i \<and> tenantId d = t \<and> ddt_status d = DdtInvoiced)"
  using assms
proof (induction ids arbitrary: s)
  case Nil
  then show ?case by (simp add: invoice_all_def svc_defs)
next
  case (Cons i ids)
  have keyed: "keyed (ddts s)" using Cons.prems(1) by (simp add: depth_inv_def)
  obtain d where d: "d \<in> set (ddts s)" "ent_id d = i" "tenantId d = t" "ddt_status d = DdtDelivered"
    using Cons.prems(3) by (meson list.set_intros(1))
  let ?d = "d\<lparr>ddt_status := DdtInvoiced, ddt_invoiceId := Some bill, ddt_updatedAt := now\<rparr>"
  let ?s = "ddts_update (save_row ?d) s"
  have run: "invoice_ddt now t i bill s = (Inr ?d, ?s)"
    unfolding invoice_ddt_def transition_ddt_Inr using d keyed by (auto simp: find_scoped_keyed can_ddt_def)
  then have inv: "depth_inv ?s" using depth_step.invoice depth_step_inv Cons.prems(1) by blast
  have rest: "\<exists>d\<in>set (ddts ?s). ent_id d = j \<and> tenantId d = t \<and> ddt_status d = DdtDelivered" if "j \<in> set ids" for j
  proof -
    obtain x where "x \<in> set (ddts s)" "ent_id x = j" "tenantId x = t" "ddt_status x = DdtDelivered"
      using Cons.prems(3) \<open>j \<in> set ids\<close> by (meson list.set_intros(2))
    moreover have "j \<noteq> i" using Cons.prems(2) \<open>j \<in> set ids\<close> by auto
    ultimately show ?thesis using d by (auto simp: set_save_row [OF keyed])
  qed
  obtain s' where s': "invoice_all now t bill ids ?s = (Inr (), s')" "depth_inv s'"
      "\<forall>i\<in>set ids. \<exists>d\<in>set (ddts s'). ent_id d = i \<and> tenantId d = t \<and> ddt_status d = DdtInvoiced"
    using Cons.IH [OF inv _ rest] Cons.prems(2) by auto
  have steps: "depth_step\<^sup>*\<^sup>* u v" if "invoice_all now t bill js u = (Inr (), v)" for js u v
    using that
  proof (induction js arbitrary: u)
    case Nil
    then show ?case by (simp add: invoice_all_def svc_defs)
  next
    case (Cons j js)
    then obtain d' w where "invoice_ddt now t j bill u = (Inr d', w)" "invoice_all now t bill js w = (Inr (), v)"
      by (auto simp: invoice_all_def svc_simps simp del: for_each.simps)
    then show ?case using Cons.IH depth_step.invoice by (metis converse_rtranclp_into_rtranclp)
  qed
  have "?d \<in> set (ddts ?s)" using keyed by (simp add: set_save_row)
  then have "?d \<in> set (ddts s')" using final_ddt_run [OF steps [OF s'(1)] inv, of ?d] by simp
  then have "\<exists>d\<in>set (ddts s'). ent_id d = i \<and> tenantId d = t \<and> ddt_status d = DdtInvoiced"
    using d by (auto intro!: bexI [of _ ?d])
  moreover have "invoice_all now t bill (i # ids) s = (Inr (), s')"
    using run s'(1) by (auto simp: invoice_all_def svc_simps simp del: for_each.simps)
  ultimately show ?case using s'(2,3) by auto
qed

text \<open>
  C14. Goods are invoiced once: when the delivery notes of a deferred invoice pass the
  preparation, each of them can then be marked as invoiced, and from then on no invoice
  can be prepared from any list that names one of them.
\<close>

theorem delivery_notes_invoiced_once:
  assumes "depth_start s0" and "depth_step\<^sup>*\<^sup>* s0 s" and "prepare_invoice_from_ddts t ids s = (Inr r, s')"
  shows "\<exists>s1. invoice_all now t bill ids s = (Inr (), s1) \<and>
    (\<forall>s2 i ids'. depth_step\<^sup>*\<^sup>* s1 s2 \<longrightarrow> i \<in> set ids \<longrightarrow> i \<in> set ids' \<longrightarrow>
       (\<exists>e. prepare_invoice_from_ddts t ids' s2 = (Inl e, s2)))"
proof -
  have inv: "depth_inv s" by (rule depth_run_inv [OF assms(2) depth_start_inv [OF assms(1)]])
  then have keyed: "keyed (ddts s)" by (simp add: depth_inv_def)
  note prepared = prepare_Inr [OF assms(3)]
  have "\<exists>d\<in>set (ddts s). ent_id d = i \<and> tenantId d = t \<and> ddt_status d = DdtDelivered" if "i \<in> set ids" for i
    using all_named(2) [OF keyed prepared(3) that] prepared(4) by (auto simp: ddts_named_def)
  from invoice_all_runs [OF inv all_named(1) [OF keyed prepared(3)] this] obtain s1 where
    s1: "invoice_all now t bill ids s = (Inr (), s1)" "depth_inv s1"
      "\<forall>i\<in>set ids. \<exists>d\<in>set (ddts s1). ent_id d = i \<and> tenantId d = t \<and> ddt_status d = DdtInvoiced"
    by blast
  have "\<exists>e. prepare_invoice_from_ddts t ids' s2 = (Inl e, s2)"
    if run: "depth_step\<^sup>*\<^sup>* s1 s2" and i: "i \<in> set ids" "i \<in> set ids'" for s2 i ids'
  proof -
    obtain d where d: "d \<in> set (ddts s1)" "ent_id d = i" "tenantId d = t" "ddt_status d = DdtInvoiced"
      using s1(3) i(1) by blast
    then have "d \<in> set (ddts_named t ids' s2)"
      using final_ddt_run [OF run s1(2), of d] i(2) by (simp add: ddts_named_def)
    then have "\<not> (\<exists>r s'. prepare_invoice_from_ddts t ids' s2 = (Inr r, s'))"
      using prepare_Inr(4) d(4) by fastforce
    moreover have "snd (prepare_invoice_from_ddts t ids' s2) = s2"
      using read_only_prepare by (simp add: read_only_def)
    ultimately show ?thesis by (metis old.sum.exhaust prod.collapse)
  qed
  with s1(1) show ?thesis by blast
qed


section \<open>Example\<close>

text \<open>A quotation that is sent, accepted and converted, and a delivery note that is delivered.\<close>

definition depth_0 :: depth_db where
  "depth_0 = \<lparr>quotations = [], quotationLines = [], ddts = [], ddtLines = [], contactActivities = [],
     orderTables = \<lparr>customers = [], salesOrders = [],
       inventory = \<lparr>products = [], warehouses = [], stockLevels = [], stockMovements = []\<rparr>\<rparr>\<rparr>"

definition sample_quotation_input :: quotation_input where
  "sample_quotation_input = \<lparr>qi_customerId = ''K'', qi_issueDate = ''2026-05-01'', qi_validUntilDate = ''2026-06-01'',
     qi_currency = None, qi_notes = None,
     qi_lines = [\<lparr>qli_productId = Some ''P'', qli_description = ''N'', qli_quantity = 2, qli_unitOfMeasure = None,
       qli_unitPriceCents = 500, qli_discountPct = None, qli_taxRate = None\<rparr>]\<rparr>"

definition sample_ddt_input :: ddt_input where
  "sample_ddt_input = \<lparr>di_customerId = ''K'', di_salesOrderId = None, di_issueDate = ''2026-05-02'',
     di_causaleTrasporto = None, di_carrierId = None, di_packageCount = None, di_totalWeightKg = None,
     di_shipFromAddress = None, di_shipToAddress = None, di_notes = None, di_lines = []\<rparr>"

abbreviation "sample_quote \<equiv> create_quotation 1 2026 ''Q'' (sample_ids CHR ''l'') ''T'' sample_quotation_input"
abbreviation "sample_send \<equiv> send_quotation 2 ''T'' ''Q''"
abbreviation "sample_accept \<equiv> accept_quotation 3 ''T'' ''Q''"
abbreviation "sample_order \<equiv> convert_quotation_to_sales_order 4 2026 ''2026-05-03'' ''O'' ''T'' ''Q'' None"
abbreviation "sample_note \<equiv> create_ddt 5 2026 ''D'' (sample_ids CHR ''m'') ''T'' sample_ddt_input"
abbreviation "sample_issue \<equiv> issue_ddt 6 ''T'' ''D'' None None"
abbreviation "sample_delivery \<equiv> mark_ddt_delivered 7 ''T'' ''D'' None"
abbreviation "sample_bill \<equiv> prepare_invoice_from_ddts ''T'' [''D'']"

definition depth_1 :: depth_db where "depth_1 = after sample_quote depth_0"
definition depth_2 :: depth_db where "depth_2 = after sample_send depth_1"
definition depth_3 :: depth_db where "depth_3 = after sample_accept depth_2"
definition depth_4 :: depth_db where "depth_4 = after sample_order depth_3"
definition depth_5 :: depth_db where "depth_5 = after sample_note depth_4"
definition depth_6 :: depth_db where "depth_6 = after sample_issue depth_5"
definition depth_7 :: depth_db where "depth_7 = after sample_delivery depth_6"

lemmas depth_eval =
  create_quotation_def with_quotation_totals_def transition_quotation_def transition_ddt_def transition_row_def
  get_quotation_def convert_quotation_to_sales_order_def order_of_quotation_def create_ddt_def
  prepare_invoice_from_ddts_def ddts_named_def find_scoped_def can_quotation_def can_ddt_def
  save_row_def nullish_def Let_def depth_0_def sample_quotation_input_def sample_ddt_input_def
  svc_defs runs_ok_def after_def outcome_def

definition sample_q :: quotation where "sample_q = outcome sample_quote depth_0"
definition sample_q_lines :: "quotation_line list" where "sample_q_lines = quotationLines depth_1"
definition sample_so_made :: sales_order where "sample_so_made = outcome sample_order depth_3"

lemma sample_q_fields:
  "ent_id sample_q = ''Q''" "tenantId sample_q = ''T''" "q_status sample_q = QDraft" "q_convertedToSalesOrderId sample_q = None"
  by (simp_all add: sample_q_def depth_eval)

lemma sample_quote_ok: "runs_ok sample_quote depth_0"
  by (simp add: depth_eval)

lemma depth_1_eval: "depth_1 = depth_0\<lparr>quotations := [sample_q], quotationLines := sample_q_lines\<rparr>"
  by (simp add: sample_q_def sample_q_lines_def depth_1_def depth_eval)

lemma sample_send_ok: "runs_ok sample_send depth_1"
  by (simp add: depth_1_eval depth_eval send_quotation_def sample_q_fields)

lemma depth_2_eval:
  "depth_2 = depth_1\<lparr>quotations := [sample_q\<lparr>q_status := QSent, q_sentAt := Some 2, q_updatedAt := 2\<rparr>]\<rparr>"
  unfolding depth_2_def by (simp add: depth_1_eval depth_eval send_quotation_def sample_q_fields)

lemma sample_accept_ok: "runs_ok sample_accept depth_2"
  by (simp add: depth_2_eval depth_1_eval depth_eval accept_quotation_def sample_q_fields)

abbreviation "sample_q_accepted \<equiv>
  sample_q\<lparr>q_status := QAccepted, q_sentAt := Some 2, q_acceptedAt := Some 3, q_updatedAt := 3\<rparr>"

lemma depth_3_eval: "depth_3 = depth_1\<lparr>quotations := [sample_q_accepted]\<rparr>"
  unfolding depth_3_def by (simp add: depth_2_eval depth_1_eval depth_eval accept_quotation_def sample_q_fields)

lemma sample_order_ok: "runs_ok sample_order depth_3"
  by (simp add: depth_3_eval depth_1_eval depth_eval sample_q_fields)

lemma depth_4_eval:
  "depth_4 = depth_1\<lparr>quotations := [sample_q_accepted\<lparr>q_convertedToSalesOrderId := Some ''O'', q_status := QConverted, q_updatedAt := 4\<rparr>],
     orderTables := salesOrders_update (\<lambda>_. [sample_so_made]) (orderTables depth_0)\<rparr>"
  unfolding depth_4_def sample_so_made_def
  by (simp add: depth_3_eval depth_1_eval depth_eval sample_q_fields)

lemma depth_runs_note:
  "runs_ok sample_note depth_4" "runs_ok sample_issue depth_5" "runs_ok sample_delivery depth_6" "runs_ok sample_bill depth_7"
  unfolding depth_7_def depth_6_def depth_5_def
  by (simp_all add: depth_4_eval depth_1_eval depth_eval issue_ddt_def mark_ddt_delivered_def)

lemmas depth_runs_quotation = sample_quote_ok sample_send_ok sample_accept_ok sample_order_ok

lemma depth_sample_fresh:
  "fresh ''O'' (salesOrders (orderTables depth_3))" "fresh ''D'' (ddts depth_4)" "fresh ''Q'' (quotations depth_0)"
  by (simp_all add: depth_4_eval depth_3_eval depth_1_eval depth_0_def fresh_def)

lemma depth_sample_run: "depth_step\<^sup>*\<^sup>* depth_0 depth_3" "depth_step\<^sup>*\<^sup>* depth_0 depth_4" "depth_step\<^sup>*\<^sup>* depth_0 depth_7"
proof -
  have s1: "depth_step depth_0 depth_1"
    unfolding depth_1_def by (rule depth_step.create_quotation [OF runs_okD [OF depth_runs_quotation(1)] depth_sample_fresh(3)])
  have s2: "depth_step depth_1 depth_2"
    unfolding depth_2_def by (rule depth_step.send_quotation [OF runs_okD [OF depth_runs_quotation(2)]])
  have s3: "depth_step depth_2 depth_3"
    unfolding depth_3_def by (rule depth_step.accept_quotation [OF runs_okD [OF depth_runs_quotation(3)]])
  have s4: "depth_step depth_3 depth_4"
    using depth_step.convert [OF runs_okD [OF depth_runs_quotation(4)] depth_sample_fresh(1)] by (simp add: depth_4_def)
  have s5: "depth_step depth_4 depth_5"
    using depth_step.create_ddt [OF runs_okD [OF depth_runs_note(1)] depth_sample_fresh(2)] by (simp add: depth_5_def)
  have s6: "depth_step depth_5 depth_6"
    unfolding depth_6_def by (rule depth_step.issue_ddt [OF runs_okD [OF depth_runs_note(2)]])
  have s7: "depth_step depth_6 depth_7"
    unfolding depth_7_def by (rule depth_step.delivered [OF runs_okD [OF depth_runs_note(3)]])
  show r3: "depth_step\<^sup>*\<^sup>* depth_0 depth_3" using s1 s2 s3 by simp
  show r4: "depth_step\<^sup>*\<^sup>* depth_0 depth_4" using r3 s4 by (rule rtranclp.rtrancl_into_rtrancl)
  show "depth_step\<^sup>*\<^sup>* depth_0 depth_7" using r4 s5 s6 s7 by simp
qed

lemma depth_start_0: "depth_start depth_0"
  by (simp add: depth_start_def depth_0_def)

theorem quotation_becomes_one_order_witness:
  "\<exists>q\<in>set (quotations depth_4). \<exists>r. q_convertedToSalesOrderId q = Some ''O'' \<and>
     find_scoped ''T'' ''O'' (salesOrders (orderTables depth_4)) = Some r \<and> so_totalAmount r = js_div (q_totalCents q) 100"
proof -
  let ?q = "sample_q_accepted\<lparr>q_convertedToSalesOrderId := Some ''O'', q_status := QConverted, q_updatedAt := 4\<rparr>"
  have q: "?q \<in> set (quotations depth_4)" by (simp add: depth_4_eval)
  have "tenantId ?q = ''T''" "q_convertedToSalesOrderId ?q = Some ''O''" by (simp_all add: sample_q_fields)
  then obtain r where "find_scoped ''T'' ''O'' (salesOrders (orderTables depth_4)) = Some r"
      "so_totalAmount r = js_div (q_totalCents ?q) 100"
    using quotation_becomes_one_order [OF depth_start_0 depth_sample_run(2) q] by auto
  then show ?thesis using q by (intro bexI [OF _ q] exI [of _ r]) simp
qed

theorem quotation_conversion_not_idempotent_witness:
  "convert_quotation_to_sales_order 9 2026 ''2026-05-09'' ''O2'' ''T'' ''Q'' None depth_4 = (Inl BadRequest, depth_4)"
  by (rule quotation_conversion_not_idempotent [OF depth_start_0 depth_sample_run(1)
        runs_okD [OF depth_runs_quotation(4)] depth_sample_fresh(1)]) (simp add: depth_4_def)

theorem delivery_notes_invoiced_once_witness:
  "\<exists>s1. invoice_all 8 ''T'' ''I'' [''D''] depth_7 = (Inr (), s1) \<and>
     (\<exists>e. prepare_invoice_from_ddts ''T'' [''X'', ''D''] s1 = (Inl e, s1))"
proof -
  from delivery_notes_invoiced_once [OF depth_start_0 depth_sample_run(3) runs_okD [OF depth_runs_note(4)], of 8 "''I''"]
  obtain s1 where s1: "invoice_all 8 ''T'' ''I'' [''D''] depth_7 = (Inr (), s1)"
    and later: "\<And>s2 i ids'. depth_step\<^sup>*\<^sup>* s1 s2 \<Longrightarrow> i \<in> set [''D''] \<Longrightarrow> i \<in> set ids' \<Longrightarrow>
       \<exists>e. prepare_invoice_from_ddts ''T'' ids' s2 = (Inl e, s2)" by blast
  have "\<exists>e. prepare_invoice_from_ddts ''T'' [''X'', ''D''] s1 = (Inl e, s1)"
    by (rule later [where i = "''D''"]) simp_all
  with s1 show ?thesis by blast
qed

end
