(* ===== verification/JsDate.thy ===== *)
theory JsDate
  imports JsString
begin

text \<open>
  Calendar days of JavaScript dates (ECMAScript, "Date Objects"): the proleptic Gregorian
  calendar as day numbers since 1970-01-01, and the ISO form of a day that date columns,
  \<^verbatim>\<open>toISOString().slice(0, 10)\<close> and \<^verbatim>\<open>Date.parse\<close> use. Years have four digits.
\<close>

definition MS_PER_DAY :: int where "MS_PER_DAY = 24 * 60 * 60 * 1000"

text \<open>Years that begin in March make the leap day the last day of a year.\<close>

definition days_from_civil :: "int \<Rightarrow> int \<Rightarrow> int \<Rightarrow> int" where
  "days_from_civil y m d =
     (let y' = (if m \<le> 2 then y - 1 else y);
          era = y' div 400;
          yoe = y' mod 400;
          mp = (m + 9) mod 12;
          doy = (153 * mp + 2) div 5 + d - 1;
          doe = yoe * 365 + yoe div 4 - yoe div 100 + doy
      in era * 146097 + doe - 719468)"

text \<open>\<^verbatim>\<open>YYYY-MM-DD\<close>\<close>

definition iso_days :: "string \<Rightarrow> int" where
  "iso_days s = days_from_civil (int (parse_dec (take 4 s))) (int (parse_dec (take 2 (drop 5 s))))
     (int (parse_dec (take 2 (drop 8 s))))"

text \<open>\<^verbatim>\<open>new Date(`${s}T00:00:00Z`).getTime()\<close>\<close>

definition midnight_utc :: "string \<Rightarrow> int" where
  "midnight_utc s = iso_days s * MS_PER_DAY"

text \<open>The day with that number as (year, month, day).\<close>

definition civil_from_days :: "int \<Rightarrow> int \<times> int \<times> int" where
  "civil_from_days n =
     (let z = n + 719468;
          era = z div 146097;
          doe = z mod 146097;
          yoe = (doe - doe div 1460 + doe div 36524 - doe div 146096) div 365;
          doy = doe - (365 * yoe + yoe div 4 - yoe div 100);
          mp = (5 * doy + 2) div 153;
          d = doy - (153 * mp + 2) div 5 + 1;
          m = (if mp < 10 then mp + 3 else mp - 9)
      in (yoe + era * 400 + (if m \<le> 2 then 1 else 0), m, d))"

definition pad_int :: "nat \<Rightarrow> int \<Rightarrow> string" where
  "pad_int k n = pad_start k CHR ''0'' (dec (nat n))"

definition iso_of_days :: "int \<Rightarrow> string" where
  "iso_of_days n = (case civil_from_days n of (y, m, d) \<Rightarrow> pad_int 4 y @ ''-'' @ pad_int 2 m @ ''-'' @ pad_int 2 d)"

text \<open>\<^verbatim>\<open>new Date(t).toISOString()\<close> and its first ten characters\<close>

definition iso_time :: "int \<Rightarrow> string" where
  "iso_time t =
     (let ms = t mod MS_PER_DAY in
      iso_of_days (t div MS_PER_DAY) @ ''T'' @ pad_int 2 (ms div 3600000) @ '':'' @ pad_int 2 (ms div 60000 mod 60) @ '':'' @
      pad_int 2 (ms div 1000 mod 60) @ ''.'' @ pad_int 3 (ms mod 1000) @ ''Z'')"

definition iso_date :: "int \<Rightarrow> string" where
  "iso_date t = take 10 (iso_time t)"

end
