(* ===== verification/SalesPipeline.thy ===== *)
theory SalesPipeline
  imports SalesDepth JsDate
begin

text \<open>
  The pipeline screen and the customer timeline,
  \<^verbatim>\<open>backend/src/sales/sales-pipeline.service.ts\<close>: read-only projections of
  quotations, orders, delivery notes and contact activities. Times are milliseconds
  where the code passes ISO texts around. A JavaScript \<^verbatim>\<open>Map\<close> is the list of its
  entries in insertion order.
\<close>

section \<open>Types\<close>

datatype pipeline_stage = Lead | Qualifying | Negotiation | Won | Delivered | Lost

datatype deal_status = QuotationStatus quotation_status | OrderStatus so_status | LeadStatus

record pipeline_deal =
  pd_customerId :: uuid
  pd_customerCode :: string
  pd_customerName :: string
  pd_stage :: pipeline_stage
  pd_quotationId :: "uuid option"
  pd_quotationNumber :: "string option"
  pd_salesOrderId :: "uuid option"
  pd_salesOrderNumber :: "string option"
  pd_valueCents :: jsnum
  pd_currency :: string
  pd_status :: deal_status
  pd_issueDate :: "string option"
  pd_lastActivityAt :: "int option"
  pd_ageDays :: int

record pipeline_filters =
  pf_stage :: "pipeline_stage list option"
  pf_customerId :: "uuid option"
  pf_customerCodeContains :: "string option"
  pf_periodFrom :: "string option"
  pf_periodTo :: "string option"
  pf_minValueCents :: "jsnum option"
  pf_maxValueCents :: "jsnum option"
  pf_ownerId :: "uuid option"
  pf_currency :: "string option"

type_synonym stage_totals = "pipeline_stage \<Rightarrow> nat \<times> jsnum"

record pipeline_snapshot =
  ps_asOf :: int
  ps_totalsByStage :: stage_totals
  ps_deals :: "pipeline_deal list"

definition LOST_LOOKBACK_DAYS :: int where "LOST_LOOKBACK_DAYS = 90"
definition LEAD_ACTIVITY_LOOKBACK_DAYS :: int where "LEAD_ACTIVITY_LOOKBACK_DAYS = 90"

text \<open>A text that is present and not empty, as \<^verbatim>\<open>if (x)\<close> asks.\<close>

definition truthy :: "string option \<Rightarrow> string option" where
  "truthy x = (if x = Some [] then None else x)"

definition accepts :: "('a \<Rightarrow> bool) \<Rightarrow> 'a option \<Rightarrow> bool" where
  "accepts P x = (case x of None \<Rightarrow> True | Some v \<Rightarrow> P v)"

text \<open>\<^verbatim>\<open>if (!map.has(key)) map.set(key, value)\<close> over a list, and the keys in order.\<close>

definition set_absent :: "('a \<Rightarrow> 'k) \<Rightarrow> ('k \<times> 'a) list \<Rightarrow> 'a \<Rightarrow> ('k \<times> 'a) list" where
  "set_absent f m x = (if f x \<in> fst ` set m then m else m @ [(f x, x)])"

definition first_by :: "('a \<Rightarrow> 'k) \<Rightarrow> 'a list \<Rightarrow> ('k \<times> 'a) list" where
  "first_by f xs = foldl (set_absent f) [] xs"

section \<open>Queries\<close>

definition quotation_passes :: "uuid \<Rightarrow> pipeline_filters \<Rightarrow> quotation \<Rightarrow> bool" where
  "quotation_passes t f q \<longleftrightarrow>
     tenantId q = t \<and>
     accepts (\<lambda>c. q_customerId q = c) (truthy (pf_customerId f)) \<and>
     accepts (\<lambda>d. d \<le> q_issueDate q) (truthy (pf_periodFrom f)) \<and>
     accepts (\<lambda>d. q_issueDate q \<le> d) (truthy (pf_periodTo f)) \<and>
     accepts (\<lambda>v. v \<le> q_totalCents q) (pf_minValueCents f) \<and>
     accepts (\<lambda>v. q_totalCents q \<le> v) (pf_maxValueCents f) \<and>
     accepts (\<lambda>c. q_currency q = c) (truthy (pf_currency f))"

text \<open>\<^verbatim>\<open>order by customerId asc, issueDate desc\<close>\<close>

definition pipeline_quotations :: "uuid \<Rightarrow> pipeline_filters \<Rightarrow> depth_db \<Rightarrow> quotation list" where
  "pipeline_quotations t f s =
     sort_key q_customerId (rev (sort_key q_issueDate (rev (filter (quotation_passes t f) (quotations s)))))"

definition latest_quotations :: "uuid \<Rightarrow> pipeline_filters \<Rightarrow> depth_db \<Rightarrow> (uuid \<times> quotation) list" where
  "latest_quotations t f s = first_by q_customerId (pipeline_quotations t f s)"

definition recent_activities :: "int \<Rightarrow> uuid \<Rightarrow> depth_db \<Rightarrow> contact_activity list" where
  "recent_activities now t s =
     filter (\<lambda>a. tenantId a = t \<and> now - LEAD_ACTIVITY_LOOKBACK_DAYS * MS_PER_DAY \<le> ca_occurredAt a)
       (contactActivities s)"

text \<open>\<^verbatim>\<open>select customerId, max(occurredAt) \<dots> group by customerId\<close>\<close>

definition last_activity :: "int \<Rightarrow> uuid \<Rightarrow> depth_db \<Rightarrow> uuid \<Rightarrow> int option" where
  "last_activity now t s c =
     (case map ca_occurredAt (filter (\<lambda>a. ca_customerId a = c) (recent_activities now t s)) of
        [] \<Rightarrow> None
      | x # xs \<Rightarrow> Some (fold max xs x))"

text \<open>The set of customers: those with a quotation, then those with a recent activity.\<close>

definition pipeline_customer_ids :: "int \<Rightarrow> uuid \<Rightarrow> pipeline_filters \<Rightarrow> depth_db \<Rightarrow> uuid list" where
  "pipeline_customer_ids now t f s =
     map fst (foldl (set_absent id) [] (map fst (latest_quotations t f s) @ map ca_customerId (recent_activities now t s)))"

section \<open>Deals\<close>

text \<open>\<^verbatim>\<open>formatDateOnly\<close>\<close>

definition format_date_only :: "string \<Rightarrow> string" where
  "format_date_only d = take 10 d"

text \<open>
  The stage and the status of a quotation, with the order it was converted to; \<open>None\<close>
  for an offer lost too long ago.
\<close>

definition stage_of :: "int \<Rightarrow> quotation \<Rightarrow> sales_order option \<Rightarrow> (pipeline_stage \<times> deal_status) option" where
  "stage_of lostCutoff q so =
     (case q_status q of
        QDraft \<Rightarrow> Some (Qualifying, QuotationStatus QDraft)
      | QSent \<Rightarrow> Some (Qualifying, QuotationStatus QSent)
      | QRevised \<Rightarrow> Some (Negotiation, QuotationStatus QRevised)
      | QAccepted \<Rightarrow> Some (Won, QuotationStatus QAccepted)
      | QConverted \<Rightarrow>
          (case so of
             None \<Rightarrow> Some (Won, QuotationStatus QConverted)
           | Some r \<Rightarrow> if so_status r = SoShipped \<or> so_status r = SoInvoiced
                      then Some (Delivered, OrderStatus (so_status r))
                      else Some (Won, QuotationStatus QConverted))
      | QRejected \<Rightarrow> if q_updatedAt q < lostCutoff then None else Some (Lost, QuotationStatus QRejected)
      | QExpired \<Rightarrow> if q_updatedAt q < lostCutoff then None else Some (Lost, QuotationStatus QExpired))"

definition compose_deal ::
  "int \<Rightarrow> int \<Rightarrow> customer \<Rightarrow> quotation option \<Rightarrow> sales_order option \<Rightarrow> int option \<Rightarrow> pipeline_deal option" where
  "compose_deal now lostCutoff c q so lastActivityAt =
     (let age = (\<lambda>r. (now - r) div MS_PER_DAY) in
      case q of
        None \<Rightarrow>
          (case lastActivityAt of
             None \<Rightarrow> None
           | Some act \<Rightarrow> Some
               \<lparr>pd_customerId = ent_id c, pd_customerCode = cu_code c, pd_customerName = cu_name c, pd_stage = Lead,
                pd_quotationId = None, pd_quotationNumber = None, pd_salesOrderId = None, pd_salesOrderNumber = None,
                pd_valueCents = 0, pd_currency = ''EUR'', pd_status = LeadStatus, pd_issueDate = None,
                pd_lastActivityAt = Some act, pd_ageDays = age act\<rparr>)
      | Some q \<Rightarrow>
          (case stage_of lostCutoff q so of
             None \<Rightarrow> None
           | Some (stage, status) \<Rightarrow>
               let order = (if q_status q = QConverted then so else None) in Some
               \<lparr>pd_customerId = ent_id c, pd_customerCode = cu_code c, pd_customerName = cu_name c, pd_stage = stage,
                pd_quotationId = Some (ent_id q), pd_quotationNumber = Some (q_quotationNumber q),
                pd_salesOrderId = map_option ent_id order, pd_salesOrderNumber = map_option so_orderNumber order,
                pd_valueCents = q_totalCents q, pd_currency = q_currency q, pd_status = status,
                pd_issueDate = Some (format_date_only (q_issueDate q)), pd_lastActivityAt = lastActivityAt,
                pd_ageDays = age (nullish lastActivityAt (q_updatedAt q))\<rparr>))"

definition deal_passes :: "pipeline_filters \<Rightarrow> pipeline_deal \<Rightarrow> bool" where
  "deal_passes f d \<longleftrightarrow>
     accepts (\<lambda>v. \<not> pd_valueCents d < v) (pf_minValueCents f) \<and>
     accepts (\<lambda>v. \<not> pd_valueCents d > v) (pf_maxValueCents f) \<and>
     accepts (\<lambda>c. pd_currency d = c) (truthy (pf_currency f)) \<and>
     accepts (\<lambda>sts. sts = [] \<or> pd_stage d \<in> set sts) (pf_stage f)"

text \<open>One turn of the loop over the customers: no deal, or one.\<close>

definition customer_deal ::
  "int \<Rightarrow> uuid \<Rightarrow> pipeline_filters \<Rightarrow> depth_db \<Rightarrow> uuid \<Rightarrow> pipeline_deal list" where
  "customer_deal now t f s cid =
     (case find_scoped t cid (customers (orderTables s)) of
        None \<Rightarrow> []
      | Some c \<Rightarrow>
          if \<not> accepts (\<lambda>x. has_substring (map to_lower (cu_code c)) (map to_lower x)) (truthy (pf_customerCodeContains f)) then []
          else
            (let q = map_of (latest_quotations t f s) cid;
                 so = (case q of None \<Rightarrow> None | Some q \<Rightarrow>
                        (case truthy (q_convertedToSalesOrderId q) of None \<Rightarrow> None
                         | Some i \<Rightarrow> find_scoped t i (salesOrders (orderTables s))))
             in case compose_deal now (now - LOST_LOOKBACK_DAYS * MS_PER_DAY) c q so (last_activity now t s cid) of
                  None \<Rightarrow> []
                | Some d \<Rightarrow> if deal_passes f d then [d] else []))"

text \<open>Most recent activity first, then the largest value: a stable sort by both.\<close>

definition sort_deals :: "pipeline_deal list \<Rightarrow> pipeline_deal list" where
  "sort_deals ds =
     sort_key (\<lambda>d. - nullish (pd_lastActivityAt d) 0) (sort_key (\<lambda>d. - pd_valueCents d) ds)"

definition add_to_totals :: "stage_totals \<Rightarrow> pipeline_deal \<Rightarrow> stage_totals" where
  "add_to_totals m d =
     m(pd_stage d := (fst (m (pd_stage d)) + 1, js_add (snd (m (pd_stage d))) (pd_valueCents d)))"

definition empty_totals :: stage_totals where
  "empty_totals = (\<lambda>_. (0, 0))"

definition empty_snapshot :: "int \<Rightarrow> pipeline_snapshot" where
  "empty_snapshot now = \<lparr>ps_asOf = now, ps_totalsByStage = empty_totals, ps_deals = []\<rparr>"

definition get_pipeline :: "int \<Rightarrow> uuid \<Rightarrow> pipeline_filters \<Rightarrow> depth_db \<Rightarrow> pipeline_snapshot" where
  "get_pipeline now t f s =
     (if pipeline_customer_ids now t f s = [] then empty_snapshot now
      else
        (let deals = sort_deals (concat (map (customer_deal now t f s) (pipeline_customer_ids now t f s)))
         in \<lparr>ps_asOf = now, ps_totalsByStage = foldl add_to_totals empty_totals deals, ps_deals = deals\<rparr>))"


section \<open>Customer timeline\<close>

datatype timeline_kind =
    QuotationCreated | QuotationSent | QuotationRevised | QuotationAccepted | QuotationRejected
  | QuotationExpired | QuotationConverted | SalesOrderCreated | DdtIssuedEvent | DdtInTransitEvent
  | DdtDeliveredEvent | DdtInvoicedEvent | ActivityEvent

datatype linked_type = LinkedQuotation | LinkedSalesOrder | LinkedDdt | LinkedActivity

record timeline_event =
  te_occurredAt :: int
  te_kind :: timeline_kind
  te_reference :: string
  te_summary :: string
  te_valueCents :: "jsnum option"
  te_currency :: "string option"
  te_linkedEntityId :: uuid
  te_linkedEntityType :: linked_type
  te_recordedById :: "uuid option"

definition quotation_event :: "quotation \<Rightarrow> timeline_kind \<Rightarrow> string \<Rightarrow> int \<Rightarrow> timeline_event" where
  "quotation_event q kind word moment =
     \<lparr>te_occurredAt = moment, te_kind = kind, te_reference = q_quotationNumber q,
      te_summary = ''Preventivo '' @ q_quotationNumber q @ word, te_valueCents = Some (q_totalCents q),
      te_currency = Some (q_currency q), te_linkedEntityId = ent_id q, te_linkedEntityType = LinkedQuotation,
      te_recordedById = None\<rparr>"

text \<open>A list with one element if the value is there.\<close>

definition opt_event :: "('a \<Rightarrow> 'e) \<Rightarrow> 'a option \<Rightarrow> 'e list" where
  "opt_event f x = (case x of None \<Rightarrow> [] | Some v \<Rightarrow> [f v])"

definition quotation_events :: "quotation \<Rightarrow> timeline_event list" where
  "quotation_events q =
     [quotation_event q QuotationCreated '' creato'' (q_createdAt q)] @
     opt_event (quotation_event q QuotationSent '' inviato'') (q_sentAt q) @
     (if q_status q = QRevised then [quotation_event q QuotationRevised '' revisionato'' (q_updatedAt q)] else []) @
     opt_event (quotation_event q QuotationAccepted '' accettato'') (q_acceptedAt q) @
     opt_event (quotation_event q QuotationRejected
        (case truthy (q_rejectionReason q) of None \<Rightarrow> '' rifiutato'' | Some r \<Rightarrow> '' rifiutato: '' @ r)) (q_rejectedAt q) @
     (if q_status q = QExpired then [quotation_event q QuotationExpired '' scaduto'' (q_updatedAt q)] else []) @
     (if q_convertedToSalesOrderId q \<noteq> None
      then [quotation_event q QuotationConverted '' convertito in ordine'' (q_updatedAt q)] else [])"

text \<open>\<open>created\<close> gives the creation time of an order, a column the order tables leave out.\<close>

definition order_event :: "(uuid \<Rightarrow> int) \<Rightarrow> sales_order \<Rightarrow> timeline_event" where
  "order_event created r =
     \<lparr>te_occurredAt = created (ent_id r), te_kind = SalesOrderCreated, te_reference = so_orderNumber r,
      te_summary = ''Ordine cliente '' @ so_orderNumber r @ '' creato'',
      te_valueCents = Some (of_int (math_round (js_mul (so_totalAmount r) 100))), te_currency = Some ''EUR'',
      te_linkedEntityId = ent_id r, te_linkedEntityType = LinkedSalesOrder, te_recordedById = None\<rparr>"

definition ddt_event :: "ddt \<Rightarrow> timeline_kind \<Rightarrow> string \<Rightarrow> int \<Rightarrow> timeline_event" where
  "ddt_event d kind word moment =
     \<lparr>te_occurredAt = moment, te_kind = kind, te_reference = ddt_number d,
      te_summary = ''DDT '' @ ddt_number d @ word, te_valueCents = None, te_currency = None,
      te_linkedEntityId = ent_id d, te_linkedEntityType = LinkedDdt, te_recordedById = None\<rparr>"

definition ddt_events :: "ddt \<Rightarrow> timeline_event list" where
  "ddt_events d =
     (if ddt_status d \<noteq> DdtDraft \<and> format_date_only (ddt_issueDate d) \<noteq> []
      then [ddt_event d DdtIssuedEvent '' emesso'' (midnight_utc (format_date_only (ddt_issueDate d)))] else []) @
     opt_event (ddt_event d DdtInTransitEvent '' in transito'') (ddt_shippedAt d) @
     opt_event (ddt_event d DdtDeliveredEvent '' consegnato'') (ddt_deliveredAt d) @
     (if ddt_invoiceId d \<noteq> None then [ddt_event d DdtInvoicedEvent '' fatturato'' (ddt_updatedAt d)] else [])"

definition activity_event :: "contact_activity \<Rightarrow> timeline_event" where
  "activity_event a =
     \<lparr>te_occurredAt = ca_occurredAt a, te_kind = ActivityEvent, te_reference = ca_subject a, te_summary = ca_subject a,
      te_valueCents = None, te_currency = None, te_linkedEntityId = ent_id a, te_linkedEntityType = LinkedActivity,
      te_recordedById = Some (ca_recordedBy a)\<rparr>"

definition get_customer_timeline :: "(uuid \<Rightarrow> int) \<Rightarrow> uuid \<Rightarrow> uuid \<Rightarrow> depth_db \<Rightarrow> timeline_event list" where
  "get_customer_timeline created t c s =
     sort_key (\<lambda>e. - te_occurredAt e)
       (concat (map quotation_events (filter (\<lambda>q. tenantId q = t \<and> q_customerId q = c) (quotations s))) @
        map (order_event created) (filter (\<lambda>r. tenantId r = t \<and> so_customerId r = c) (salesOrders (orderTables s))) @
        concat (map ddt_events (filter (\<lambda>d. tenantId d = t \<and> ddt_customerId d = c) (ddts s))) @
        map activity_event (filter (\<lambda>a. tenantId a = t \<and> ca_customerId a = c) (contactActivities s)))"

section \<open>Request parameters\<close>

text \<open>\<^verbatim>\<open>?stage=\<dots>\<close>: absent, a repeated key, or one text with commas.\<close>

datatype stage_param = StageAbsent | StageList "string list" | StageText string

definition normalise_stage_list :: "stage_param \<Rightarrow> string list option" where
  "normalise_stage_list v =
     (case v of
        StageAbsent \<Rightarrow> None
      | StageList xs \<Rightarrow> Some xs
      | StageText x \<Rightarrow> Some (filter (\<lambda>w. length w > 0) (map js_trim (split_at_char CHR '','' x))))"

end
