(* ===== verification/SalesPipelineProps.thy ===== *)
theory SalesPipelineProps
  imports SalesPipeline
begin

text \<open>
  The pipeline shows every customer once, in order, and adds up; and the filter on one
  customer does not keep other customers out.
\<close>

section \<open>Insertion-ordered maps\<close>

lemma distinct_set_absent: "distinct (map fst m) \<Longrightarrow> distinct (map fst (set_absent f m x))"
  by (simp add: set_absent_def)

lemma foldl_set_absent_distinct: "distinct (map fst m) \<Longrightarrow> distinct (map fst (foldl (set_absent f) m xs))"
  by (induction xs arbitrary: m) (simp_all add: distinct_set_absent)

lemma foldl_set_absent_keys: "fst ` set (foldl (set_absent f) m xs) = fst ` set m \<union> f ` set xs"
  by (induction xs arbitrary: m) (auto simp: set_absent_def image_iff)

lemma foldl_set_absent_kept: "map_of m k = Some x \<Longrightarrow> map_of (foldl (set_absent f) m xs) k = Some x"
  by (induction xs arbitrary: m) (auto simp: set_absent_def map_add_Some_iff map_of_append)

text \<open>The entry of a key is the first element of the list that has the key.\<close>

lemma foldl_set_absent_first:
  "map_of m k = None \<Longrightarrow> map_of (foldl (set_absent f) m xs) k = find (\<lambda>x. f x = k) xs"
proof (induction xs arbitrary: m)
  case (Cons x xs)
  show ?case
  proof (cases "f x = k")
    case True
    then have "map_of (set_absent f m x) k = Some x"
      using Cons.prems by (auto simp: set_absent_def map_of_eq_None_iff map_add_Some_iff)
    then show ?thesis using True by (simp add: foldl_set_absent_kept)
  next
    case False
    then have "map_of (set_absent f m x) k = None"
      using Cons.prems by (auto simp: set_absent_def map_of_eq_None_iff)
    then show ?thesis using False Cons.IH by simp
  qed
qed simp

lemma first_by_find: "map_of (first_by f xs) k = find (\<lambda>x. f x = k) xs"
  by (simp add: first_by_def foldl_set_absent_first)

lemma find_sorted_rev:
  assumes "sorted (map g xs)" and "find P (rev xs) = Some x" and "y \<in> set xs" "P y"
  shows "g y \<le> g x"
  using assms
proof (induction xs rule: rev_induct)
  case (snoc z xs)
  then show ?case by (auto simp: sorted_append split: if_splits)
qed simp


lemma find_member: "find P xs = Some x \<Longrightarrow> x \<in> set xs \<and> P x"
  by (metis find_Some_iff nth_mem)

lemma find_filter: "find P xs = (case filter P xs of [] \<Rightarrow> None | x # _ \<Rightarrow> Some x)"
  by (induction xs) auto

lemma find_sort_key: "find (\<lambda>x. k x = v) (sort_key k xs) = find (\<lambda>x. k x = v) xs"
  by (simp only: find_filter sort_key_stable)

lemma lexicographic_sorted:
  fixes k1 :: "'a \<Rightarrow> 'b::linorder" and k2 :: "'a \<Rightarrow> 'c::linorder"
  assumes "sorted (map k1 ys)" and "\<And>v. sorted (map k2 (filter (\<lambda>x. k1 x = v) ys))"
  shows "sorted_wrt (\<lambda>d e. k1 d < k1 e \<or> k1 d = k1 e \<and> k2 d \<le> k2 e) ys"
  using assms
proof (induction ys)
  case (Cons y ys)
  have "sorted (map k2 (filter (\<lambda>x. k1 x = v) ys))" for v
    using Cons.prems(2) [of v] by (simp split: if_splits)
  moreover have "k1 y < k1 e \<or> k1 y = k1 e \<and> k2 y \<le> k2 e" if "e \<in> set ys" for e
    using Cons.prems(1) Cons.prems(2) [of "k1 y"] that by auto
  ultimately show ?case using Cons by simp
qed simp

lemma stable_sort_twice:
  fixes k1 :: "'a \<Rightarrow> 'b::linorder" and k2 :: "'a \<Rightarrow> 'c::linorder"
  shows "sorted_wrt (\<lambda>d e. k1 d < k1 e \<or> k1 d = k1 e \<and> k2 d \<le> k2 e) (sort_key k1 (sort_key k2 xs))"
  by (rule lexicographic_sorted) (simp_all add: sort_key_stable sorted_filter)

section \<open>The snapshot\<close>

lemma customer_deal_single: "length (customer_deal now t f s c) \<le> 1"
  by (simp add: customer_deal_def Let_def split: option.split)

lemma compose_deal_fields:
  assumes "compose_deal now co c q so act = Some d"
  shows "pd_customerId d = ent_id c"
    "pd_quotationId d = map_option ent_id q" "q = None \<Longrightarrow> pd_stage d = Lead"
  using assms by (auto simp: compose_deal_def Let_def split: option.splits prod.splits)

lemma customer_deal_member:
  assumes "d \<in> set (customer_deal now t f s c)"
  shows "pd_customerId d = c" "pd_quotationId d = map_option ent_id (map_of (latest_quotations t f s) c)"
    "deal_passes f d"
  using assms find_scoped_Some [of t c "customers (orderTables s)"]
  by (auto simp: customer_deal_def Let_def compose_deal_fields split: option.splits if_splits)

lemma distinct_customer_ids: "distinct (pipeline_customer_ids now t f s)"
  unfolding pipeline_customer_ids_def by (rule foldl_set_absent_distinct) simp

lemma distinct_deals:
  assumes "distinct cs" and "\<And>c. length (g c) \<le> 1" and "\<And>c d. d \<in> set (g c) \<Longrightarrow> pd_customerId d = c"
  shows "distinct (map pd_customerId (concat (map g cs)))"
  using assms(1)
proof (induction cs)
  case (Cons c cs)
  have rest: "c \<notin> pd_customerId ` set (concat (map g cs))" using Cons.prems assms(3) by fastforce
  have "g c = [] \<or> (\<exists>d. g c = [d] \<and> pd_customerId d = c)"
    using assms(2) [of c] assms(3) [of _ c] by (cases "g c") auto
  then show ?case using Cons rest by (elim disjE exE conjE) (simp_all only: list.map concat.simps append.simps distinct.simps, simp_all)
qed simp

lemma set_pipeline_deals:
  "set (ps_deals (get_pipeline now t f s)) = (\<Union>c\<in>set (pipeline_customer_ids now t f s). set (customer_deal now t f s c))"
  by (simp add: get_pipeline_def empty_snapshot_def Let_def sort_deals_def)

lemma newest_quotation:
  assumes "map_of (latest_quotations t f s) c = Some q"
  shows "q \<in> set (quotations s)" "quotation_passes t f q" "q_customerId q = c"
    "q' \<in> set (quotations s) \<Longrightarrow> quotation_passes t f q' \<Longrightarrow> q_customerId q' = c \<Longrightarrow> q_issueDate q' \<le> q_issueDate q"
proof -
  let ?qs = "sort_key q_issueDate (rev (filter (quotation_passes t f) (quotations s)))"
  have found: "find (\<lambda>x. q_customerId x = c) (rev ?qs) = Some q"
    using assms by (simp add: latest_quotations_def first_by_find pipeline_quotations_def find_sort_key)
  note member = find_member [OF found]
  then have "q \<in> set ?qs" "q_customerId q = c" by simp_all
  then show "q \<in> set (quotations s)" "quotation_passes t f q" "q_customerId q = c" by simp_all
  assume "q' \<in> set (quotations s)" "quotation_passes t f q'" "q_customerId q' = c"
  then show "q_issueDate q' \<le> q_issueDate q"
    by (intro find_sorted_rev [OF _ found]) simp_all
qed

lemma totals_fold:
  "foldl add_to_totals m ds st =
     (fst (m st) + length (filter (\<lambda>d. pd_stage d = st) ds),
      foldl (\<lambda>v d. js_add v (pd_valueCents d)) (snd (m st)) (filter (\<lambda>d. pd_stage d = st) ds))"
  by (induction ds arbitrary: m) (simp_all add: add_to_totals_def)

text \<open>
  The pipeline snapshot is consistent: every customer appears at most once, the deals
  come with the most recent activity first and the larger value first among equals, the
  totals of each stage count and sum exactly the deals shown in it, and a deal shows the
  newest of the quotations of its customer that pass the filters.
\<close>

theorem pipeline_snapshot_consistent:
  "let snap = get_pipeline now t f s in
    distinct (map pd_customerId (ps_deals snap)) \<and>
    sorted_wrt (\<lambda>d e. nullish (pd_lastActivityAt e) 0 < nullish (pd_lastActivityAt d) 0 \<or>
       nullish (pd_lastActivityAt d) 0 = nullish (pd_lastActivityAt e) 0 \<and> pd_valueCents e \<le> pd_valueCents d) (ps_deals snap) \<and>
    ps_totalsByStage snap st =
      (length (filter (\<lambda>d. pd_stage d = st) (ps_deals snap)), js_sum pd_valueCents (filter (\<lambda>d. pd_stage d = st) (ps_deals snap))) \<and>
    (\<forall>d\<in>set (ps_deals snap). \<forall>i. pd_quotationId d = Some i \<longrightarrow>
       (\<exists>q\<in>set (quotations s). ent_id q = i \<and> q_customerId q = pd_customerId d \<and> quotation_passes t f q \<and>
          (\<forall>q'\<in>set (quotations s). quotation_passes t f q' \<and> q_customerId q' = pd_customerId d \<longrightarrow>
             q_issueDate q' \<le> q_issueDate q)))"
proof -
  define snap where "snap = get_pipeline now t f s"
  let ?ds = "concat (map (customer_deal now t f s) (pipeline_customer_ids now t f s))"
  have deals: "ps_deals snap = sort_deals ?ds" and totals: "ps_totalsByStage snap = foldl add_to_totals empty_totals (ps_deals snap)"
    by (simp_all add: snap_def get_pipeline_def empty_snapshot_def Let_def sort_deals_def)
  have "distinct (map pd_customerId ?ds)"
    by (rule distinct_deals [OF distinct_customer_ids customer_deal_single customer_deal_member(1)])
  then have 1: "distinct (map pd_customerId (ps_deals snap))"
    by (simp add: deals sort_deals_def distinct_map)
  have 2: "sorted_wrt (\<lambda>d e. nullish (pd_lastActivityAt e) 0 < nullish (pd_lastActivityAt d) 0 \<or>
       nullish (pd_lastActivityAt d) 0 = nullish (pd_lastActivityAt e) 0 \<and> pd_valueCents e \<le> pd_valueCents d) (ps_deals snap)"
    unfolding deals sort_deals_def by (rule sorted_wrt_mono_rel [OF _ stable_sort_twice]) auto
  have 3: "ps_totalsByStage snap st =
      (length (filter (\<lambda>d. pd_stage d = st) (ps_deals snap)), js_sum pd_valueCents (filter (\<lambda>d. pd_stage d = st) (ps_deals snap)))"
    by (simp add: totals totals_fold empty_totals_def js_sum_def)
  have 4: "\<exists>q\<in>set (quotations s). ent_id q = i \<and> q_customerId q = pd_customerId d \<and> quotation_passes t f q \<and>
      (\<forall>q'\<in>set (quotations s). quotation_passes t f q' \<and> q_customerId q' = pd_customerId d \<longrightarrow> q_issueDate q' \<le> q_issueDate q)"
    if d: "d \<in> set (ps_deals snap)" "pd_quotationId d = Some i" for d i
  proof -
    obtain c where c: "d \<in> set (customer_deal now t f s c)" using d(1) unfolding snap_def set_pipeline_deals by blast
    then obtain q where "map_of (latest_quotations t f s) c = Some q" "ent_id q = i" "pd_customerId d = c"
      using d(2) customer_deal_member [OF c] by auto
    then show ?thesis using newest_quotation [of t f s c q] by blast
  qed
  show ?thesis unfolding Let_def snap_def [symmetric] using 1 2 3 4 by blast
qed


section \<open>The customer filter\<close>

definition only_customer :: "uuid \<Rightarrow> pipeline_filters" where
  "only_customer x = \<lparr>pf_stage = None, pf_customerId = Some x, pf_customerCodeContains = None, pf_periodFrom = None,
     pf_periodTo = None, pf_minValueCents = None, pf_maxValueCents = None, pf_ownerId = None, pf_currency = None\<rparr>"

lemma latest_of_other_customer:
  assumes "x \<noteq> []" and "c \<noteq> x"
  shows "map_of (latest_quotations t (only_customer x) s) c = None"
proof (cases "map_of (latest_quotations t (only_customer x) s) c")
  case (Some q)
  then show ?thesis using newest_quotation(2,3) [OF Some] assms
    by (simp add: quotation_passes_def only_customer_def truthy_def accepts_def)
qed

lemma last_activity_recent:
  assumes "a \<in> set (contactActivities s)" and "tenantId a = t"
    and "now - 90 * 24 * 60 * 60 * 1000 \<le> ca_occurredAt a"
  obtains act where "last_activity now t s (ca_customerId a) = Some act" and "a \<in> set (recent_activities now t s)"
proof -
  have a: "a \<in> set (recent_activities now t s)"
    using assms by (simp add: recent_activities_def LEAD_ACTIVITY_LOOKBACK_DAYS_def MS_PER_DAY_def)
  then have "map ca_occurredAt (filter (\<lambda>b. ca_customerId b = ca_customerId a) (recent_activities now t s)) \<noteq> []"
    by (auto simp: filter_empty_conv)
  then obtain x xs where "map ca_occurredAt (filter (\<lambda>b. ca_customerId b = ca_customerId a) (recent_activities now t s)) = x # xs"
    by (auto simp: neq_Nil_conv simp del: map_is_Nil_conv)
  then have "last_activity now t s (ca_customerId a) = Some (fold max xs x)" by (simp add: last_activity_def)
  then show thesis using a that by blast
qed

text \<open>
  The filter on one customer does not filter: asked for the pipeline of customer
  \<open>x\<close>, the service also lists every other customer with an activity in the last 90 days,
  as a lead worth nothing, whatever quotations and orders that customer has.
\<close>

theorem customer_filter_leaks_leads:
  assumes "x \<noteq> []" and "c \<noteq> x" and "find_scoped t c (customers (orderTables s)) = Some cu"
    and "a \<in> set (contactActivities s)" and "tenantId a = t" and "ca_customerId a = c"
    and "now - 90 * 24 * 60 * 60 * 1000 \<le> ca_occurredAt a"
  shows "\<exists>d\<in>set (ps_deals (get_pipeline now t (only_customer x) s)).
    pd_customerId d = c \<and> pd_stage d = Lead \<and> pd_valueCents d = 0"
proof -
  obtain act where act: "last_activity now t s c = Some act" and a: "a \<in> set (recent_activities now t s)"
    using last_activity_recent [OF assms(4,5,7)] assms(6) by blast
  have "c \<in> set (pipeline_customer_ids now t (only_customer x) s)"
    using a assms(6) by (auto simp: pipeline_customer_ids_def foldl_set_absent_keys)
  moreover have "\<exists>d\<in>set (customer_deal now t (only_customer x) s c). pd_customerId d = c \<and> pd_stage d = Lead \<and> pd_valueCents d = 0"
    using latest_of_other_customer [OF assms(1,2), of t s] act assms(3) find_scoped_Some [OF assms(3)]
    by (simp add: customer_deal_def compose_deal_def deal_passes_def Let_def only_customer_def truthy_def accepts_def)
  ultimately show ?thesis unfolding set_pipeline_deals by blast
qed


section \<open>Example\<close>

definition pipeline_0 :: depth_db where
  "pipeline_0 = \<lparr>quotations = [], quotationLines = [], ddts = [], ddtLines = [],
     contactActivities = [\<lparr>ent_id = ''A'', tenantId = ''T'', ca_customerId = ''K'', ca_contactPersonId = None,
       ca_kind = ActCall, ca_direction = Outbound, ca_occurredAt = 1000, ca_durationMinutes = None, ca_subject = ''S'',
       ca_body = None, ca_linkedEntityType = LinkCustomer, ca_linkedEntityId = None, ca_recordedBy = ''U'', ca_tags = []\<rparr>],
     orderTables = \<lparr>customers = [\<lparr>ent_id = ''K'', tenantId = ''T'', cu_code = ''K1'', cu_name = ''N'',
         cu_customerType = Business, cu_vatNumber = None, cu_fiscalCode = None, cu_sdiDestinationCode = None,
         cu_pecEmail = None, cu_email = None, cu_phone = None, cu_address = None, cu_city = None, cu_postalCode = None,
         cu_province = None, cu_country = ''IT'', cu_defaultIvaRate = 22, cu_paymentTermsDays = 30,
         cu_splitPayment = False, cu_isActive = True\<rparr>],
       salesOrders = [], inventory = \<lparr>products = [], warehouses = [], stockLevels = [], stockMovements = []\<rparr>\<rparr>\<rparr>"

theorem customer_filter_leaks_leads_witness:
  "\<exists>d\<in>set (ps_deals (get_pipeline 2000 ''T'' (only_customer ''X'') pipeline_0)). pd_customerId d = ''K'' \<and> pd_stage d = Lead"
proof -
  let ?c = "hd (customers (orderTables pipeline_0))" and ?a = "hd (contactActivities pipeline_0)"
  have "find_scoped ''T'' ''K'' (customers (orderTables pipeline_0)) = Some ?c"
    by (simp add: pipeline_0_def find_scoped_def)
  moreover have "?a \<in> set (contactActivities pipeline_0)" "tenantId ?a = ''T''" "ca_customerId ?a = ''K''"
      "2000 - 90 * 24 * 60 * 60 * 1000 \<le> ca_occurredAt ?a"
    by (simp_all add: pipeline_0_def)
  ultimately show ?thesis
    using customer_filter_leaks_leads [of "''X''" "''K''" "''T''" pipeline_0 ?c ?a 2000] by auto
qed

text \<open>The snapshot theorem on the same tables, without a filter.\<close>

theorem pipeline_snapshot_consistent_witness:
  "ps_totalsByStage (get_pipeline 2000 ''T'' (only_customer ''X'') pipeline_0) Lead =
     (length (filter (\<lambda>d. pd_stage d = Lead) (ps_deals (get_pipeline 2000 ''T'' (only_customer ''X'') pipeline_0))),
      js_sum pd_valueCents (filter (\<lambda>d. pd_stage d = Lead) (ps_deals (get_pipeline 2000 ''T'' (only_customer ''X'') pipeline_0))))"
  using pipeline_snapshot_consistent [of 2000 "''T''" "only_customer ''X''" pipeline_0 Lead] unfolding Let_def by blast

end
