(* ===== verification/Webhooks.thy ===== *)
theory Webhooks
  imports JsNumber JsString
begin

text \<open>
  Outgoing webhooks: the retry policy (\<^verbatim>\<open>backend/src/webhooks/retry-policy.ts\<close>), the
  signer (\<^verbatim>\<open>hmac-signer.ts\<close>), one delivery attempt (\<^verbatim>\<open>outbox-dispatcher.ts\<close>) and
  the management of subscriptions (\<^verbatim>\<open>webhooks.service.ts\<close>). HMAC-SHA256, the HTTP
  transport, random numbers and generated keys are parameters.
\<close>

section \<open>Retry policy\<close>

datatype delivery_outcome =
    Success2xx | Client4xx | Server5xx | TimedOut | ConnectionRefused | TlsError | Gone410 | NotFound404
  | RateLimited429 | UnknownOutcome

datatype retry_decision = Retry jsnum | Dlq | DisableSubscription string

definition MAX_ATTEMPTS :: int where "MAX_ATTEMPTS = 6"

definition BASE_DELAYS_MS :: "int list" where
  "BASE_DELAYS_MS = [0, 30000, 5 * 60000, 30 * 60000, 2 * 60 * 60000, 6 * 60 * 60000]"

definition JITTER_WINDOWS_MS :: "int list" where
  "JITTER_WINDOWS_MS = [0, 10000, 60000, 5 * 60000, 15 * 60000, 30 * 60000]"

text \<open>\<^verbatim>\<open>xs[i] ?? xs[xs.length - 1]\<close>\<close>

definition slot :: "int list \<Rightarrow> int \<Rightarrow> int" where
  "slot xs i = (if 0 \<le> i \<and> i < int (length xs) then xs ! nat i else last xs)"

text \<open>\<open>random\<close> is the value that \<^verbatim>\<open>random()\<close> returns, \<open>0 \<le> random < 1\<close>.\<close>

definition decide_retry :: "int \<Rightarrow> delivery_outcome \<Rightarrow> jsnum option \<Rightarrow> jsnum \<Rightarrow> retry_decision" where
  "decide_retry attemptJustExecuted result retryAfterSeconds random =
     (if result = Success2xx then Retry 0
      else if result = Gone410 then DisableSubscription ''410 Gone - consumer indicated endpoint is permanently retired.''
      else if result = NotFound404 then DisableSubscription ''404 Not Found - consumer endpoint does not exist.''
      else if attemptJustExecuted \<ge> MAX_ATTEMPTS then Dlq
      else if result = RateLimited429 \<and> retryAfterSeconds \<noteq> None
      then Retry (js_mul (min (max (the retryAfterSeconds) 1) (30 * 60)) 1000)
      else
        (let base = slot BASE_DELAYS_MS attemptJustExecuted;
             window = slot JITTER_WINDOWS_MS attemptJustExecuted;
             jitter = min window (math_floor (js_mul random (of_int (window + 1))))
         in Retry (of_int (base + jitter))))"

definition classify_http_status :: "int option \<Rightarrow> delivery_outcome" where
  "classify_http_status status =
     (case status of
        None \<Rightarrow> UnknownOutcome
      | Some n \<Rightarrow>
          if n = 410 then Gone410
          else if n = 404 then NotFound404
          else if n = 429 then RateLimited429
          else if 200 \<le> n \<and> n \<le> 299 then Success2xx
          else if 400 \<le> n \<and> n \<le> 499 then Client4xx
          else if 500 \<le> n \<and> n \<le> 599 then Server5xx
          else UnknownOutcome)"

definition DLQ_STORM_THRESHOLD :: nat where "DLQ_STORM_THRESHOLD = 50"
definition DLQ_STORM_WINDOW_MS :: int where "DLQ_STORM_WINDOW_MS = 60 * 60000"

definition should_auto_disable_on_dlq_storm :: "int list \<Rightarrow> int \<Rightarrow> bool" where
  "should_auto_disable_on_dlq_storm recent now =
     (let cutoff = now - DLQ_STORM_WINDOW_MS
      in length (filter (\<lambda>t. t \<ge> cutoff) recent) \<ge> DLQ_STORM_THRESHOLD)"

section \<open>Signatures\<close>

record signature_inputs =
  sg_timestamp :: string
  sg_rawBody :: string
  sg_secret :: string

definition SIGNATURE_PREFIX :: string where "SIGNATURE_PREFIX = ''sha256=''"

definition sign_webhook :: "(string \<Rightarrow> string \<Rightarrow> string) \<Rightarrow> signature_inputs \<Rightarrow> http_error + string" where
  "sign_webhook hmac i =
     (if sg_secret i = [] then Inl PlainError
      else if sg_timestamp i = [] then Inl PlainError
      else Inr (SIGNATURE_PREFIX @ hmac (sg_secret i) (sg_timestamp i @ ''.'' @ sg_rawBody i)))"

text \<open>\<^verbatim>\<open>timingSafeEqual\<close> on buffers of the same length is equality.\<close>

definition verify_webhook ::
  "(string \<Rightarrow> string \<Rightarrow> string) \<Rightarrow> signature_inputs \<Rightarrow> string option \<Rightarrow> http_error + bool" where
  "verify_webhook hmac i candidate =
     (case candidate of
        None \<Rightarrow> Inr False
      | Some h \<Rightarrow>
          if h = [] \<or> take (length SIGNATURE_PREFIX) h \<noteq> SIGNATURE_PREFIX then Inr False
          else
            (case sign_webhook hmac i of
               Inl e \<Rightarrow> Inl e
             | Inr expected \<Rightarrow> Inr (length expected = length h \<and> expected = h)))"

section \<open>One delivery attempt\<close>

record outbox_row =
  ob_id :: uuid
  ob_tenantId :: uuid
  ob_eventType :: string
  ob_source :: string
  ob_eventTime :: string
  ob_data :: string

record subscription_row =
  sr_id :: uuid
  sr_tenantId :: uuid
  sr_eventType :: string
  sr_targetUrl :: string
  sr_hmacSecret :: string

record webhook_request =
  wq_url :: string
  wq_rawBody :: string
  wq_headers :: "(string \<times> string) list"
  wq_timeoutMs :: int

record webhook_response =
  wr_status :: "int option"
  wr_retryAfterSeconds :: "jsnum option"
  wr_networkError :: "delivery_outcome option"
  wr_errorMessage :: "string option"
  wr_durationMs :: int

record delivery_attempt =
  da_deliveryId :: uuid
  da_attemptNumber :: int
  da_outcome :: delivery_outcome
  da_httpStatus :: "int option"
  da_durationMs :: int
  da_errorMessage :: "string option"

record dispatch_outcome =
  do_attempt :: delivery_attempt
  do_next :: retry_decision

definition DEFAULT_TIMEOUT_MS :: int where "DEFAULT_TIMEOUT_MS = 10000"

text \<open>
  \<^verbatim>\<open>JSON.stringify\<close> of a text and of the event envelope; \<open>ob_data\<close> is the JSON text of
  the payload.
\<close>

definition hex_digit :: "nat \<Rightarrow> char" where
  "hex_digit n = (if n < 10 then char_of (48 + n) else char_of (87 + n))"

definition json_char :: "char \<Rightarrow> string" where
  "json_char c =
     (let n = (of_char c :: nat) in
      if n = 34 then [CHR 0x5C, CHR 0x22]
      else if n = 92 then [CHR 0x5C, CHR 0x5C]
      else if n = 8 then [CHR 0x5C, CHR ''b'']
      else if n = 12 then [CHR 0x5C, CHR ''f'']
      else if n = 10 then [CHR 0x5C, CHR ''n'']
      else if n = 13 then [CHR 0x5C, CHR ''r'']
      else if n = 9 then [CHR 0x5C, CHR ''t'']
      else if n < 32 then CHR 0x5C # ''u00'' @ [hex_digit (n div 16), hex_digit (n mod 16)]
      else [c])"

definition json_text :: "string \<Rightarrow> string" where
  "json_text s = CHR 0x22 # concat (map json_char s) @ [CHR 0x22]"

definition json_field :: "string \<Rightarrow> string \<Rightarrow> string" where
  "json_field k v = json_text k @ '':'' @ v"

definition event_body :: "outbox_row \<Rightarrow> string" where
  "event_body ob =
     ''{'' @ json_field ''specversion'' (json_text ''1.0'') @ '','' @ json_field ''id'' (json_text (ob_id ob)) @ '','' @
     json_field ''type'' (json_text (ob_eventType ob)) @ '','' @ json_field ''source'' (json_text (ob_source ob)) @ '','' @
     json_field ''time'' (json_text (ob_eventTime ob)) @ '','' @
     json_field ''datacontenttype'' (json_text ''application/json'') @ '','' @ json_field ''data'' (ob_data ob) @ ''}''"

definition webhook_request_of ::
  "outbox_row \<Rightarrow> subscription_row \<Rightarrow> nat \<Rightarrow> string \<Rightarrow> uuid \<Rightarrow> string \<Rightarrow> int option \<Rightarrow> webhook_request" where
  "webhook_request_of ob sub attempt nowIso deliveryId signature timeoutMs =
     \<lparr>wq_url = sr_targetUrl sub, wq_rawBody = event_body ob,
      wq_headers =
        [(''Content-Type'', ''application/json''), (''X-SmartERP-Event-Id'', ob_id ob),
         (''X-SmartERP-Event-Type'', ob_eventType ob), (''X-SmartERP-Timestamp'', nowIso),
         (''X-SmartERP-Signature'', signature), (''X-SmartERP-Delivery-Id'', deliveryId),
         (''X-SmartERP-Delivery-Attempt'', dec attempt)],
      wq_timeoutMs = nullish timeoutMs DEFAULT_TIMEOUT_MS\<rparr>"

text \<open>The transport returns a response or throws an error with a message.\<close>

definition dispatch_once ::
  "(string \<Rightarrow> string \<Rightarrow> string) \<Rightarrow> (webhook_request \<Rightarrow> string + webhook_response) \<Rightarrow> jsnum \<Rightarrow> uuid \<Rightarrow>
   outbox_row \<Rightarrow> subscription_row \<Rightarrow> int \<Rightarrow> string \<Rightarrow> int option \<Rightarrow> http_error + dispatch_outcome" where
  "dispatch_once hmac transport random deliveryId ob sub attempt nowIso timeoutMs =
     (if attempt < 1 then Inl PlainError
      else if attempt > MAX_ATTEMPTS then Inl PlainError
      else
        (case sign_webhook hmac \<lparr>sg_timestamp = nowIso, sg_rawBody = event_body ob, sg_secret = sr_hmacSecret sub\<rparr> of
           Inl e \<Rightarrow> Inl e
         | Inr signature \<Rightarrow>
             let response =
                   (case transport (webhook_request_of ob sub (nat attempt) nowIso deliveryId signature timeoutMs) of
                      Inr r \<Rightarrow> r
                    | Inl message \<Rightarrow>
                        \<lparr>wr_status = None, wr_retryAfterSeconds = None, wr_networkError = Some UnknownOutcome,
                         wr_errorMessage = Some (take 2000 message), wr_durationMs = 0\<rparr>);
                 result = (case wr_networkError response of Some e \<Rightarrow> e | None \<Rightarrow> classify_http_status (wr_status response))
             in Inr
               \<lparr>do_attempt = \<lparr>da_deliveryId = deliveryId, da_attemptNumber = attempt, da_outcome = result,
                  da_httpStatus = wr_status response, da_durationMs = wr_durationMs response,
                  da_errorMessage = wr_errorMessage response\<rparr>,
                do_next = decide_retry attempt result (wr_retryAfterSeconds response) random\<rparr>))"

section \<open>Subscriptions\<close>

datatype subscription_status = SubActive | SubPaused | SubDisabled

record webhook_subscription = entity +
  ws_eventType :: string
  ws_targetUrl :: string
  ws_hmacSecret :: string
  ws_status :: subscription_status
  ws_disabledReason :: "string option"
  ws_disabledAt :: "int option"
  ws_createdAt :: int

record webhook_dlq_entry = entity +
  we_subscriptionId :: uuid
  we_outboxEventId :: uuid
  we_eventType :: string
  we_totalAttempts :: int
  we_lastOutcome :: string
  we_lastHttpStatus :: "int option"
  we_lastErrorMessage :: "string option"
  we_replayedAt :: "int option"
  we_replayedBy :: "uuid option"
  we_createdAt :: int

record webhook_db =
  subscriptions :: "webhook_subscription list"
  dlqEntries :: "webhook_dlq_entry list"

definition is_https :: "string \<Rightarrow> bool" where
  "is_https url \<longleftrightarrow> map to_lower (take 8 url) = ''https://''"

definition save_subscription :: "webhook_subscription \<Rightarrow> (webhook_db, webhook_subscription) svc" where
  "save_subscription w = seq (modify (subscriptions_update (save_row w))) (ret w)"

definition create_subscription ::
  "int \<Rightarrow> uuid \<Rightarrow> string \<Rightarrow> uuid \<Rightarrow> string \<Rightarrow> string \<Rightarrow> string option \<Rightarrow>
   (webhook_db, webhook_subscription \<times> string) svc" where
  "create_subscription now newId randomSecret t eventType targetUrl hmacSecret =
     seq (throw_if (\<not> is_https targetUrl) Conflict)
       (let secret = nullish hmacSecret randomSecret in
        bind (save_subscription \<lparr>ent_id = newId, tenantId = t, ws_eventType = eventType, ws_targetUrl = targetUrl,
                ws_hmacSecret = secret, ws_status = SubActive, ws_disabledReason = None, ws_disabledAt = None,
                ws_createdAt = now\<rparr>) (\<lambda>w. ret (w, secret)))"

definition list_subscriptions ::
  "uuid \<Rightarrow> subscription_status option \<Rightarrow> string option \<Rightarrow> (webhook_db, webhook_subscription list) svc" where
  "list_subscriptions t status eventType =
     gets (\<lambda>s. sort_key (\<lambda>w. - ws_createdAt w) (filter (\<lambda>w. tenantId w = t \<and>
       (status = None \<or> status = Some (ws_status w)) \<and>
       (eventType = None \<or> eventType = Some [] \<or> eventType = Some (ws_eventType w))) (subscriptions s)))"

definition get_subscription :: "uuid \<Rightarrow> uuid \<Rightarrow> (webhook_db, webhook_subscription) svc" where
  "get_subscription t i = bind (gets (\<lambda>s. find_scoped t i (subscriptions s))) (\<lambda>w. require w NotFound)"

definition pause_subscription :: "uuid \<Rightarrow> uuid \<Rightarrow> (webhook_db, webhook_subscription) svc" where
  "pause_subscription t i = bind (get_subscription t i) (\<lambda>w. save_subscription (w\<lparr>ws_status := SubPaused\<rparr>))"

definition resume_subscription :: "uuid \<Rightarrow> uuid \<Rightarrow> (webhook_db, webhook_subscription) svc" where
  "resume_subscription t i =
     bind (get_subscription t i) (\<lambda>w.
     save_subscription (w\<lparr>ws_status := SubActive, ws_disabledAt := None, ws_disabledReason := None\<rparr>))"

definition disable_subscription :: "int \<Rightarrow> uuid \<Rightarrow> uuid \<Rightarrow> string \<Rightarrow> (webhook_db, webhook_subscription) svc" where
  "disable_subscription now t i reason =
     bind (get_subscription t i) (\<lambda>w.
     save_subscription (w\<lparr>ws_status := SubDisabled, ws_disabledReason := Some reason, ws_disabledAt := Some now\<rparr>))"

definition list_dlq :: "uuid \<Rightarrow> uuid option \<Rightarrow> nat option \<Rightarrow> (webhook_db, webhook_dlq_entry list) svc" where
  "list_dlq t subscriptionId limit =
     gets (\<lambda>s. take (nullish limit 200) (sort_key (\<lambda>d. - we_createdAt d) (filter (\<lambda>d. tenantId d = t \<and>
       (subscriptionId = None \<or> subscriptionId = Some [] \<or> subscriptionId = Some (we_subscriptionId d))) (dlqEntries s))))"

end
