(* ===== verification/WebhookProps.thy ===== *)
theory WebhookProps
  imports Webhooks
begin

text \<open>
  A delivery ends after six attempts and a bounded time, whatever the consumer answers;
  and the signature that a consumer checks is tied to the time stamp and the body.
\<close>

section \<open>Delays\<close>

lemma slot_values:
  "slot BASE_DELAYS_MS 1 = 30000" "slot BASE_DELAYS_MS 2 = 300000" "slot BASE_DELAYS_MS 3 = 1800000"
  "slot BASE_DELAYS_MS 4 = 7200000" "slot BASE_DELAYS_MS 5 = 21600000"
  "slot JITTER_WINDOWS_MS 1 = 10000" "slot JITTER_WINDOWS_MS 2 = 60000" "slot JITTER_WINDOWS_MS 3 = 300000"
  "slot JITTER_WINDOWS_MS 4 = 900000" "slot JITTER_WINDOWS_MS 5 = 1800000"
  by (simp_all add: slot_def BASE_DELAYS_MS_def JITTER_WINDOWS_MS_def)

text \<open>The longest wait before each of the attempts two to six.\<close>

fun longest_wait :: "int \<Rightarrow> int" where
  "longest_wait k =
     (if k = 1 \<or> k = 2 then 1800000 else if k = 3 then 2100000 else if k = 4 then 8100000 else 23400000)"

lemma jitter_nonneg: "0 \<le> r \<Longrightarrow> 0 \<le> w \<Longrightarrow> 0 \<le> math_floor (js_mul r (of_int (w + 1)))"
  unfolding math_floor_def js_mul_def by (simp add: fl_nonneg)

lemma rate_limit_delay:
  "1000 \<le> js_mul (min (max a 1) 1800) 1000" "js_mul (min (max a 1) 1800) 1000 \<le> 1800000"
proof -
  have "fl (1 * 1000) \<le> fl (min (max a 1) 1800 * 1000)" by (rule fl_mono) simp
  then show "1000 \<le> js_mul (min (max a 1) 1800) 1000" by (simp add: js_mul_def fl_numeral_safe)
  have "fl (min (max a 1) 1800 * 1000) \<le> fl (1800 * 1000)" by (rule fl_mono) simp
  then show "js_mul (min (max a 1) 1800) 1000 \<le> 1800000" by (simp add: js_mul_def fl_numeral_safe)
qed

lemma attempt_cases: "1 \<le> k \<Longrightarrow> k < 6 \<Longrightarrow> k = 1 \<or> k = 2 \<or> k = 3 \<or> k = 4 \<or> (k::int) = 5"
  by arith

lemma backoff_bounds:
  assumes "1 \<le> k" "k < 6" "0 \<le> j"
  shows "1000 \<le> slot BASE_DELAYS_MS k + min (slot JITTER_WINDOWS_MS k) j"
    "slot BASE_DELAYS_MS k + min (slot JITTER_WINDOWS_MS k) j \<le> longest_wait k" "0 \<le> slot JITTER_WINDOWS_MS k"
  using attempt_cases [OF assms(1,2)] assms(3) by (auto simp: slot_values)

text \<open>A decision to wait is made before the sixth attempt, and the wait is bounded from both sides.\<close>

lemma retry_bounds:
  assumes "decide_retry k result ra r = Retry d" and "result \<noteq> Success2xx"
  shows "k < 6" "result \<notin> {Success2xx, Gone410, NotFound404}"
    "1 \<le> k \<Longrightarrow> 0 \<le> r \<Longrightarrow> 1000 \<le> d \<and> d \<le> of_int (longest_wait k)"
proof -
  show k: "k < 6" and "result \<notin> {Success2xx, Gone410, NotFound404}"
    using assms by (auto simp: decide_retry_def MAX_ATTEMPTS_def Let_def split: if_splits)
  assume pos: "1 \<le> k" "0 \<le> r"
  have least: "1800000 \<le> longest_wait k" by simp
  let ?j = "math_floor (js_mul r (of_int (slot JITTER_WINDOWS_MS k + 1)))"
  have j: "0 \<le> ?j" using backoff_bounds(3) [OF pos(1) k, of 0] pos(2) by (intro jitter_nonneg) simp_all
  from assms consider "d = js_mul (min (max (the ra) 1) 1800) 1000"
    | "d = of_int (slot BASE_DELAYS_MS k + min (slot JITTER_WINDOWS_MS k) ?j)"
    by (auto simp: decide_retry_def MAX_ATTEMPTS_def Let_def split: if_splits)
  then show "1000 \<le> d \<and> d \<le> of_int (longest_wait k)"
  proof cases
    case 1
    have "(1800000 :: rat) \<le> of_int (longest_wait k)" using least by (metis of_int_le_iff of_int_numeral)
    with 1 rate_limit_delay [of "the ra"] show ?thesis by (metis order_trans)
  next
    case 2
    then show ?thesis using backoff_bounds(1,2) [OF pos(1) k j] by (metis of_int_le_iff of_int_numeral)
  qed
qed

lemma retried_not_done: "decide_retry k result ra r = Retry d \<Longrightarrow> d \<noteq> 0 \<Longrightarrow> result \<noteq> Success2xx"
  by (auto simp: decide_retry_def)

lemma zero_means_done: "decide_retry k result ra r = Retry 0 \<Longrightarrow> 1 \<le> k \<Longrightarrow> 0 \<le> r \<Longrightarrow> result = Success2xx"
  using retry_bounds(3) [of k result ra r 0] by auto

section \<open>The worker\<close>

text \<open>
  The worker around \<^verbatim>\<open>dispatchOnce\<close>, as its header describes it: wait for the delay that
  the policy decides, then try again; a delay of zero means done. \<open>answers k\<close> is what the
  k-th attempt gets: its outcome, the \<^verbatim>\<open>Retry-After\<close> header and the random number.
\<close>

datatype delivery_end = Delivered | DeadLetter | Disabled

function worker ::
  "(int \<Rightarrow> delivery_outcome \<times> jsnum option \<times> jsnum) \<Rightarrow> int \<Rightarrow> jsnum list \<times> delivery_end" where
  "worker answers k =
     (case answers k of (result, retryAfter, random) \<Rightarrow>
        case decide_retry k result retryAfter random of
          Dlq \<Rightarrow> ([], DeadLetter)
        | DisableSubscription reason \<Rightarrow> ([], Disabled)
        | Retry d \<Rightarrow>
            if d = 0 then ([], Delivered)
            else (case worker answers (k + 1) of (ds, e) \<Rightarrow> (d # ds, e)))"
  by pat_completeness auto

termination
  by (relation "measure (\<lambda>(answers, k). nat (6 - k))") (auto dest: retry_bounds(1) retried_not_done)

declare worker.simps [simp del]

text \<open>The sum of the longest waits from an attempt on.\<close>

definition wait_budget :: "int \<Rightarrow> int" where
  "wait_budget k = sum_list (map longest_wait [k..5])"

lemma upto_step: "k < 6 \<Longrightarrow> [k..5] = k # [k + 1..5]"
  by (subst upto.simps) simp

lemma wait_budget_step: "k < 6 \<Longrightarrow> wait_budget k = longest_wait k + wait_budget (k + 1)"
  unfolding wait_budget_def by (subst upto_step) simp_all

lemma wait_budget_nonneg: "0 \<le> wait_budget k"
  unfolding wait_budget_def by (rule sum_list_nonneg) auto

lemma worker_bounds:
  assumes "1 \<le> k" and "k \<le> 6" and "\<And>j. 0 \<le> snd (snd (answers j))" and "worker answers k = (ds, e)"
  shows "int (length ds) \<le> 6 - k \<and> sum_list ds \<le> of_int (wait_budget k) \<and> (\<forall>d\<in>set ds. 1000 \<le> d) \<and>
    (e = Delivered \<longleftrightarrow> fst (answers (k + int (length ds))) = Success2xx)"
  using assms
proof (induction answers k arbitrary: ds e rule: worker.induct)
  case (1 answers k)
  obtain result ra r where a: "answers k = (result, ra, r)" using prod_cases3 by blast
  then have r: "0 \<le> r" using "1.prems"(3) [of k] by simp
  show ?case
  proof (cases "decide_retry k result ra r")
    case (Retry d)
    show ?thesis
    proof (cases "d = 0")
      case True
      have "result = Success2xx" using zero_means_done [of k result ra r] Retry True "1.prems"(1) r by simp
      then show ?thesis
        using "1.prems"(4) a Retry True wait_budget_nonneg "1.prems"(2) by (simp add: worker.simps [of answers k])
    next
      case False
      note bounds = retry_bounds [OF Retry retried_not_done [OF Retry False]]
      obtain ds' where w: "worker answers (k + 1) = (ds', e)" "ds = d # ds'"
        using "1.prems"(4) a Retry False by (auto simp: worker.simps [of answers k] split: prod.splits)
      have "int (length ds') \<le> 6 - (k + 1) \<and> sum_list ds' \<le> of_int (wait_budget (k + 1)) \<and> (\<forall>d\<in>set ds'. 1000 \<le> d) \<and>
          (e = Delivered \<longleftrightarrow> fst (answers (k + 1 + int (length ds'))) = Success2xx)"
        by (rule "1.IH" [OF a [symmetric] refl Retry False _ _ _ w(1)]) (use "1.prems" bounds(1) in auto)
      then show ?thesis
        using w(2) bounds "1.prems"(1) r by (simp add: wait_budget_step [of k] add.assoc add.left_commute)
    qed
  next
    case Dlq
    then have "result \<noteq> Success2xx" by (auto simp: decide_retry_def)
    then show ?thesis
      using "1.prems"(2,4) a Dlq wait_budget_nonneg by (auto simp: worker.simps [of answers k])
  next
    case (DisableSubscription reason)
    then have "result \<noteq> Success2xx" by (auto simp: decide_retry_def)
    then show ?thesis
      using "1.prems"(2,4) a DisableSubscription wait_budget_nonneg by (auto simp: worker.simps [of answers k])
  qed
qed

text \<open>
  C15. A delivery ends: whatever the consumer answers, the worker stops after at most six
  attempts and at most 10 hours and 20 minutes of waiting, it never retries within a second,
  and it ends as delivered exactly when its last attempt got a 2xx answer.
\<close>

theorem webhook_delivery_ends:
  assumes "\<And>j. 0 \<le> snd (snd (answers j))"
  shows "length (fst (worker answers 1)) \<le> 5 \<and> sum_list (fst (worker answers 1)) \<le> (10 * 60 + 20) * 60 * 1000 \<and>
    (\<forall>d\<in>set (fst (worker answers 1)). 1000 \<le> d) \<and>
    (snd (worker answers 1) = Delivered \<longleftrightarrow>
       fst (answers (1 + int (length (fst (worker answers 1))))) = Success2xx)"
proof -
  obtain ds e where w: "worker answers 1 = (ds, e)" by (cases "worker answers 1")
  have budget: "wait_budget 1 = 37200000"
    unfolding wait_budget_def by (simp add: upto_rec1)
  show ?thesis
    using worker_bounds [OF _ _ assms w] w by (simp add: budget)
qed


section \<open>Signatures\<close>

lemma prefix_sign: "sign_webhook hmac i = Inr h \<Longrightarrow> h \<noteq> [] \<and> take (length SIGNATURE_PREFIX) h = SIGNATURE_PREFIX"
  by (auto simp: sign_webhook_def SIGNATURE_PREFIX_def split: if_splits)

lemma verify_iff: "verify_webhook hmac i (Some h) = Inr True \<longleftrightarrow> sign_webhook hmac i = Inr h"
  using prefix_sign [of hmac i h] by (auto simp: verify_webhook_def split: sum.splits if_splits)

lemma split_at_dot:
  assumes "a @ CHR ''.'' # b = a' @ CHR ''.'' # b'" and "CHR ''.'' \<notin> set a" and "CHR ''.'' \<notin> set a'"
  shows "a = a' \<and> b = b'"
  using assms
proof (induction a arbitrary: a')
  case Nil
  then show ?case by (cases a') auto
next
  case (Cons x a)
  then obtain a2 where a2: "a' = x # a2" by (cases a') auto
  then show ?case using Cons.IH [of a2] Cons.prems by auto
qed

text \<open>
  What the dispatcher sends verifies, and nothing else does under its signature: a
  request that leaves \<^verbatim>\<open>dispatchOnce\<close> carries a time stamp and a signature with which the
  consumer's check of the body succeeds; and if the check succeeds for another time stamp
  (without fractions of a second) or another body, then the keyed hash has a collision.
\<close>

theorem webhook_signature_binds_request:
  assumes "sr_hmacSecret sub \<noteq> []" and "nowIso \<noteq> []" and "CHR ''.'' \<notin> set nowIso"
  shows "\<exists>signature. let rq = webhook_request_of ob sub (nat attempt) nowIso deliveryId signature timeoutMs in
    (\<forall>transport transport'. transport rq = transport' rq \<longrightarrow>
       dispatch_once hmac transport random deliveryId ob sub attempt nowIso timeoutMs =
       dispatch_once hmac transport' random deliveryId ob sub attempt nowIso timeoutMs) \<and>
    map_of (wq_headers rq) ''X-SmartERP-Timestamp'' = Some nowIso \<and>
    verify_webhook hmac \<lparr>sg_timestamp = nowIso, sg_rawBody = wq_rawBody rq, sg_secret = sr_hmacSecret sub\<rparr>
      (map_of (wq_headers rq) ''X-SmartERP-Signature'') = Inr True \<and>
    (\<forall>stamp body. CHR ''.'' \<notin> set stamp \<longrightarrow>
       verify_webhook hmac \<lparr>sg_timestamp = stamp, sg_rawBody = body, sg_secret = sr_hmacSecret sub\<rparr>
         (map_of (wq_headers rq) ''X-SmartERP-Signature'') = Inr True \<longrightarrow>
       stamp = nowIso \<and> body = wq_rawBody rq \<or>
       (\<exists>m m'. m \<noteq> m' \<and> hmac (sr_hmacSecret sub) m = hmac (sr_hmacSecret sub) m'))"
proof -
  let ?i = "\<lparr>sg_timestamp = nowIso, sg_rawBody = event_body ob, sg_secret = sr_hmacSecret sub\<rparr>"
  obtain signature where sig: "sign_webhook hmac ?i = Inr signature"
    using assms(1,2) by (simp add: sign_webhook_def)
  have other: "stamp = nowIso \<and> body = event_body ob \<or>
      (\<exists>m m'. m \<noteq> m' \<and> hmac (sr_hmacSecret sub) m = hmac (sr_hmacSecret sub) m')"
    if stamp: "CHR ''.'' \<notin> set stamp"
      and ok: "sign_webhook hmac \<lparr>sg_timestamp = stamp, sg_rawBody = body, sg_secret = sr_hmacSecret sub\<rparr> = Inr signature"
    for stamp body
  proof (cases "stamp @ CHR ''.'' # body = nowIso @ CHR ''.'' # event_body ob")
    case True
    then show ?thesis using split_at_dot [OF True stamp assms(3)] by simp
  next
    case False
    moreover have "hmac (sr_hmacSecret sub) (stamp @ CHR ''.'' # body) = hmac (sr_hmacSecret sub) (nowIso @ CHR ''.'' # event_body ob)"
      using sig ok by (auto simp: sign_webhook_def split: if_splits)
    ultimately show ?thesis by blast
  qed
  show ?thesis
    unfolding Let_def
    by (rule exI [of _ signature]) (use other in \<open>auto simp: webhook_request_of_def verify_iff sig dispatch_once_def\<close>)
qed

section \<open>Example\<close>

text \<open>
  A consumer that answers twice with 429 and a long \<^verbatim>\<open>Retry-After\<close> and then with 500:
  the wait is the whole budget, more than the nine hours that the source promises.
\<close>

definition slow_consumer :: "int \<Rightarrow> delivery_outcome \<times> jsnum option \<times> jsnum" where
  "slow_consumer k = (if k \<le> 2 then (RateLimited429, Some 3600, 0) else (Server5xx, None, 2097151 / 2097152))"

lemma slow_jitter:
  assumes "2097151 * w \<ge> 0" and "\<bar>2097151 * w\<bar> < 2 ^ 53"
  shows "js_mul (2097151 / 2097152) (of_int w) = of_int (2097151 * w) / 2097152"
proof -
  have "fl (of_int (2097151 * w) * 2 powi (- 21)) = of_int (2097151 * w) * 2 powi (- 21)"
    by (rule fl_dyadic) (use assms in auto)
  then show ?thesis by (simp add: js_mul_def power_int_minus field_simps)
qed

theorem webhook_delivery_ends_witness:
  "(9 * 60 * 60 * 1000 :: jsnum) < sum_list (fst (worker slow_consumer 1)) \<and>
   sum_list (fst (worker slow_consumer 1)) \<le> (10 * 60 + 20) * 60 * 1000 \<and> snd (worker slow_consumer 1) = DeadLetter"
proof -
  have d: "decide_retry 3 Server5xx None (2097151 / 2097152) = Retry 2100000"
    "decide_retry 4 Server5xx None (2097151 / 2097152) = Retry 8100000"
    "decide_retry 5 Server5xx None (2097151 / 2097152) = Retry 23400000"
    using slow_jitter [of 300001] slow_jitter [of 900001] slow_jitter [of 1800001]
    by (simp_all add: decide_retry_def MAX_ATTEMPTS_def slot_values math_floor_def floor_eq_iff)
  have e: "decide_retry k RateLimited429 (Some 3600) 0 = Retry 1800000" if "k < 6" for k
    using that by (simp add: decide_retry_def MAX_ATTEMPTS_def js_mul_def fl_numeral_safe)
  have "worker slow_consumer 1 = ([1800000, 1800000, 2100000, 8100000, 23400000], DeadLetter)"
    by (simp add: worker.simps slow_consumer_def d e decide_retry_def [of 6] MAX_ATTEMPTS_def)
  then show ?thesis using webhook_delivery_ends [of slow_consumer] by (simp add: slow_consumer_def)
qed

definition sample_event :: outbox_row where
  "sample_event = \<lparr>ob_id = ''E'', ob_tenantId = ''T'', ob_eventType = ''x.v1'', ob_source = ''s'',
     ob_eventTime = ''2026-05-01T10:00:00Z'', ob_data = ''{}''\<rparr>"

definition sample_subscription :: subscription_row where
  "sample_subscription = \<lparr>sr_id = ''S'', sr_tenantId = ''T'', sr_eventType = ''x.v1'', sr_targetUrl = ''https://c'',
     sr_hmacSecret = ''k''\<rparr>"

theorem webhook_signature_binds_request_witness:
  "\<exists>signature. verify_webhook (\<lambda>k m. k @ m)
     \<lparr>sg_timestamp = ''2026-05-01T10:00:01Z'', sg_rawBody = event_body sample_event, sg_secret = ''k''\<rparr> (Some signature) = Inr True"
  using webhook_signature_binds_request [of sample_subscription "''2026-05-01T10:00:01Z''" sample_event 1 "''D''" None
      "\<lambda>k m. k @ m" 0]
  by (auto simp: sample_subscription_def webhook_request_of_def Let_def)

end
