(* ===== verification/Auth.thy ===== *)
theory Auth
  imports JsString JsNumber
begin

text \<open>
  Authentication, \<^verbatim>\<open>backend/src/auth/auth.service.ts\<close> with
  \<^verbatim>\<open>common/password.util.ts\<close> and \<^verbatim>\<open>common/password-policy.ts\<close>: login with
  account lockout, registration, rotation of refresh tokens, tenant switch and logout.

  Password hashing, signing and verifying of JSON web tokens, SHA-256 and the breached
  password service are third-party code: a record of functions that every operation
  takes. Times are milliseconds; one request reads the clock once. The session and
  profile caches and the log lines are left out. Every account has a tenant, as
  registration makes it.
\<close>

section \<open>Accounts\<close>

datatype user_role = RoleAdmin | RoleManager | RoleOperator | RoleViewer

record user = entity +
  us_firstName :: string
  us_lastName :: string
  us_email :: string
  us_passwordHash :: string
  us_companyName :: string
  us_phone :: "string option"
  us_partitaIva :: "string option"
  us_role :: user_role
  us_refreshTokenHash :: "string option"
  us_tokenVersion :: int
  us_isActive :: bool
  us_lastLoginAt :: "int option"
  us_failedLoginAttempts :: int
  us_lockedUntil :: "int option"
  us_sessionCreatedAt :: "int option"

record auth_db =
  users :: "user list"

record access_payload =
  tk_sub :: uuid
  tk_email :: string
  tk_role :: user_role
  tk_tenantId :: uuid

record refresh_payload = access_payload +
  tk_tv :: int
  tk_jti :: uuid

record auth_env =
  argon2_verify :: "string \<Rightarrow> string \<Rightarrow> bool"
  argon2_hash :: "string \<Rightarrow> string"
  bcrypt_compare :: "string \<Rightarrow> string \<Rightarrow> bool"
  sign_access :: "int \<Rightarrow> access_payload \<Rightarrow> string"
  sign_refresh :: "int \<Rightarrow> refresh_payload \<Rightarrow> string"
  verify_refresh :: "int \<Rightarrow> string \<Rightarrow> refresh_payload option"
  sha256 :: "string \<Rightarrow> string"
  breach_count :: "string \<Rightarrow> nat"
  access_ttl :: string

section \<open>Passwords\<close>

definition starts_with :: "string \<Rightarrow> string \<Rightarrow> bool" where
  "starts_with p s \<longleftrightarrow> take (length p) s = p"

definition verify_password :: "auth_env \<Rightarrow> string \<Rightarrow> string \<Rightarrow> bool" where
  "verify_password env password hashed =
     (if password = [] \<or> hashed = [] then False
      else if starts_with ''$argon2'' hashed then argon2_verify env hashed password
      else bcrypt_compare env password hashed)"

definition is_legacy_bcrypt_hash :: "string \<Rightarrow> bool" where
  "is_legacy_bcrypt_hash hashed \<longleftrightarrow>
     starts_with ''$2a$'' hashed \<or> starts_with ''$2b$'' hashed \<or> starts_with ''$2y$'' hashed"

definition known_weak :: "string list" where
  "known_weak = [''password12'', ''password123'', ''qwerty1234'', ''letmein12'', ''welcome12'', ''admin12345'', ''1234567890'']"

datatype policy_reason = TooShort | TooLong | NoLetter | NoDigit | WellKnown

definition password_policy_reasons :: "string \<Rightarrow> policy_reason list" where
  "password_policy_reasons p =
     (if length p < 10 then [TooShort] else []) @
     (if length p > 128 then [TooLong] else []) @
     (if \<not> list_ex (\<lambda>c. is_upper c \<or> is_lower c) p then [NoLetter] else []) @
     (if \<not> list_ex is_digit p then [NoDigit] else []) @
     (if map to_lower p \<in> set known_weak then [WellKnown] else [])"

section \<open>Tokens\<close>

definition MAX_FAILED_ATTEMPTS :: int where "MAX_FAILED_ATTEMPTS = 5"
definition LOCKOUT_MINUTES :: int where "LOCKOUT_MINUTES = 15"
definition SESSION_ABSOLUTE_MS :: int where "SESSION_ABSOLUTE_MS = 12 * 60 * 60 * 1000"

record issued_tokens =
  accessToken :: string
  refreshToken :: string
  expiresIn :: nat

text \<open>The pattern \<^verbatim>\<open>^(\d+)\s*([smhd])$\<close>.\<close>

definition parse_ttl_seconds :: "string \<Rightarrow> nat" where
  "parse_ttl_seconds ttl =
     (let digits = takeWhile is_digit ttl;
          unit = dropWhile is_space (dropWhile is_digit ttl);
          n = parse_dec digits
      in if digits = [] then 900
         else if unit = ''s'' then n
         else if unit = ''m'' then n * 60
         else if unit = ''h'' then n * 3600
         else if unit = ''d'' then n * 86400
         else 900)"

definition issue_tokens ::
  "auth_env \<Rightarrow> int \<Rightarrow> uuid \<Rightarrow> (uuid \<times> user_role) option \<Rightarrow> user \<Rightarrow> issued_tokens" where
  "issue_tokens env now jti override u =
     (let role = (case override of None \<Rightarrow> us_role u | Some (_, r) \<Rightarrow> r);
          tenant = (case override of None \<Rightarrow> tenantId u | Some (t, _) \<Rightarrow> t)
      in \<lparr>accessToken = sign_access env now
            \<lparr>tk_sub = ent_id u, tk_email = us_email u, tk_role = role, tk_tenantId = tenant\<rparr>,
          refreshToken = sign_refresh env now
            \<lparr>tk_sub = ent_id u, tk_email = us_email u, tk_role = role, tk_tenantId = tenant,
             tk_tv = us_tokenVersion u, tk_jti = jti\<rparr>,
          expiresIn = parse_ttl_seconds (access_ttl env)\<rparr>)"

record public_user =
  pu_id :: uuid
  pu_email :: string
  pu_firstName :: string
  pu_lastName :: string
  pu_role :: user_role
  pu_companyName :: string
  pu_phone :: "string option"
  pu_partitaIva :: "string option"
  pu_tenantId :: uuid
  pu_lastLoginAt :: "int option"

definition public_user :: "user \<Rightarrow> public_user" where
  "public_user u =
     \<lparr>pu_id = ent_id u, pu_email = us_email u, pu_firstName = us_firstName u, pu_lastName = us_lastName u,
      pu_role = us_role u, pu_companyName = us_companyName u, pu_phone = us_phone u,
      pu_partitaIva = us_partitaIva u, pu_tenantId = tenantId u, pu_lastLoginAt = us_lastLoginAt u\<rparr>"

section \<open>Login\<close>

text \<open>\<^verbatim>\<open>email.trim().toLowerCase()\<close>\<close>

definition normalise_email :: "string \<Rightarrow> string" where
  "normalise_email e = map to_lower (js_trim e)"

definition find_active_email :: "string \<Rightarrow> user list \<Rightarrow> user option" where
  "find_active_email e us = find (\<lambda>u. us_email u = e \<and> us_isActive u) us"

definition find_active_id :: "uuid \<Rightarrow> user list \<Rightarrow> user option" where
  "find_active_id i us = find (\<lambda>u. ent_id u = i \<and> us_isActive u) us"

definition minutes_left :: "int \<Rightarrow> int \<Rightarrow> int" where
  "minutes_left now until = - ((now - until) div 60000)"

definition check_lock :: "int \<Rightarrow> user \<Rightarrow> (auth_db, unit) svc" where
  "check_lock now u =
     (case us_lockedUntil u of
        None \<Rightarrow> ret ()
      | Some until \<Rightarrow> throw_if (now < until) (Locked (minutes_left now until)))"

definition record_failure :: "int \<Rightarrow> user \<Rightarrow> user" where
  "record_failure now u =
     (let attempts = us_failedLoginAttempts u + 1;
          u' = u\<lparr>us_failedLoginAttempts := attempts\<rparr>
      in if attempts \<ge> MAX_FAILED_ATTEMPTS
         then u'\<lparr>us_lockedUntil := Some (now + LOCKOUT_MINUTES * 60000)\<rparr> else u')"

definition save_user :: "user \<Rightarrow> (auth_db, unit) svc" where
  "save_user u = modify (users_update (save_row u))"

definition login ::
  "auth_env \<Rightarrow> int \<Rightarrow> uuid \<Rightarrow> string \<Rightarrow> string \<Rightarrow> (auth_db, issued_tokens \<times> public_user) svc" where
  "login env now jti email password =
     bind (gets (\<lambda>s. find_active_email (normalise_email email) (users s))) (\<lambda>found.
     bind (require found Unauthorized) (\<lambda>u.
     seq (check_lock now u)
       (if \<not> verify_password env password (us_passwordHash u)
        then seq (save_user (record_failure now u)) (throw Unauthorized)
        else
          (let u1 = (if is_legacy_bcrypt_hash (us_passwordHash u)
                     then u\<lparr>us_passwordHash := argon2_hash env password\<rparr> else u);
               tokens = issue_tokens env now jti None u1;
               u2 = u1\<lparr>us_refreshTokenHash := Some (sha256 env (refreshToken tokens)), us_lastLoginAt := Some now,
                       us_failedLoginAttempts := 0, us_lockedUntil := None, us_sessionCreatedAt := Some now\<rparr>
           in seq (save_user u2) (ret (tokens, public_user u2))))))"

section \<open>Registration\<close>

record registration =
  rg_firstName :: string
  rg_lastName :: string
  rg_email :: string
  rg_password :: string
  rg_companyName :: string
  rg_phone :: "string option"
  rg_partitaIva :: "string option"
  rg_tenantId :: "uuid option"

definition register :: "auth_env \<Rightarrow> uuid \<Rightarrow> uuid \<Rightarrow> registration \<Rightarrow> (auth_db, public_user) svc" where
  "register env newId newTenant dto =
     (let email = normalise_email (rg_email dto) in
      bind (gets (\<lambda>s. find (\<lambda>u. us_email u = email) (users s))) (\<lambda>existing.
      seq (throw_if (existing \<noteq> None) Conflict)
     (seq (throw_if (password_policy_reasons (rg_password dto) \<noteq> []) Unprocessable)
     (seq (throw_if (breach_count env (rg_password dto) > 0) Unprocessable)
       (let u = \<lparr>ent_id = newId, tenantId = nullish (rg_tenantId dto) newTenant,
                 us_firstName = rg_firstName dto, us_lastName = rg_lastName dto, us_email = email,
                 us_passwordHash = argon2_hash env (rg_password dto), us_companyName = rg_companyName dto,
                 us_phone = rg_phone dto, us_partitaIva = rg_partitaIva dto, us_role = RoleAdmin,
                 us_refreshTokenHash = None, us_tokenVersion = 0, us_isActive = True, us_lastLoginAt = None,
                 us_failedLoginAttempts = 0, us_lockedUntil = None, us_sessionCreatedAt = None\<rparr>
        in seq (save_user u) (ret (public_user u)))))))"

section \<open>Refresh, tenant switch, logout\<close>

definition session_expired :: "int \<Rightarrow> user \<Rightarrow> bool" where
  "session_expired now u =
     (case us_sessionCreatedAt u of None \<Rightarrow> False | Some c \<Rightarrow> now - c > SESSION_ABSOLUTE_MS)"

definition refresh_token :: "auth_env \<Rightarrow> int \<Rightarrow> uuid \<Rightarrow> string \<Rightarrow> (auth_db, issued_tokens) svc" where
  "refresh_token env now jti token =
     bind (require (verify_refresh env now token) Unauthorized) (\<lambda>payload.
     bind (gets (\<lambda>s. find_active_id (tk_sub payload) (users s))) (\<lambda>found.
     bind (require found Unauthorized) (\<lambda>u.
     seq (throw_if (us_refreshTokenHash u = None) Unauthorized)
       (if session_expired now u
        then seq (save_user (u\<lparr>us_refreshTokenHash := None, us_tokenVersion := us_tokenVersion u + 1,
                               us_sessionCreatedAt := None\<rparr>)) (throw Forbidden)
        else if tk_tv payload \<noteq> us_tokenVersion u
        then seq (save_user (u\<lparr>us_refreshTokenHash := None, us_tokenVersion := us_tokenVersion u + 1\<rparr>))
               (throw Unauthorized)
        else
          seq (throw_if (Some (sha256 env token) \<noteq> us_refreshTokenHash u) Unauthorized)
            (let u1 = u\<lparr>us_tokenVersion := us_tokenVersion u + 1\<rparr>;
                 tokens = issue_tokens env now jti None u1
             in seq (save_user (u1\<lparr>us_refreshTokenHash := Some (sha256 env (refreshToken tokens))\<rparr>))
                  (ret tokens))))))"

definition mint_tokens_for_tenant_switch ::
  "auth_env \<Rightarrow> int \<Rightarrow> uuid \<Rightarrow> uuid \<Rightarrow> uuid \<Rightarrow> user_role \<Rightarrow> (auth_db, issued_tokens) svc" where
  "mint_tokens_for_tenant_switch env now jti userId t role =
     bind (gets (\<lambda>s. find_active_id userId (users s))) (\<lambda>found.
     bind (require found Unauthorized) (\<lambda>u.
       let u1 = u\<lparr>us_tokenVersion := us_tokenVersion u + 1, us_sessionCreatedAt := Some now\<rparr>;
           tokens = issue_tokens env now jti (Some (t, role)) u1
       in seq (save_user (u1\<lparr>us_refreshTokenHash := Some (sha256 env (refreshToken tokens))\<rparr>))
            (ret tokens)))"

definition logout :: "uuid \<Rightarrow> (auth_db, unit) svc" where
  "logout userId =
     bind (gets (\<lambda>s. find_id userId (users s))) (\<lambda>found.
       case found of
         None \<Rightarrow> ret ()
       | Some u \<Rightarrow> save_user (u\<lparr>us_refreshTokenHash := None, us_tokenVersion := us_tokenVersion u + 1\<rparr>))"

definition get_profile :: "uuid \<Rightarrow> (auth_db, public_user) svc" where
  "get_profile userId =
     bind (gets (\<lambda>s. find_active_id userId (users s))) (\<lambda>found.
     bind (require found Unauthorized) (\<lambda>u. ret (public_user u)))"

end
