(* ===== verification/AuthProps.thy ===== *)
theory AuthProps
  imports Auth
begin

text \<open>
  What the lockout is worth against guessing, that a refresh token works once, that a
  session ends after twelve hours, and that accounts do not share an email address.
\<close>

section \<open>Saving an account\<close>

lemma find_save_same:
  assumes "keyed rows" and "find P rows = Some u" and "ent_id u' = ent_id u" and "P u'"
  shows "find P (save_row u' rows) = Some u'"
proof -
  have u: "u \<in> set rows" using assms(2) by (auto simp: find_Some_iff)
  then have "save_row u' rows = map (\<lambda>x. if ent_id x = ent_id u' then u' else x) rows"
    using assms(3) unfolding save_row_def by (metis imageI)
  moreover have "find P (map (\<lambda>x. if ent_id x = ent_id u' then u' else x) rows) = Some u'"
    using assms unfolding keyed_def
  proof (induction rows)
    case (Cons x rows)
    show ?case
    proof (cases "P x")
      case True
      then show ?thesis using Cons.prems by simp
    next
      case False
      then have found: "find P rows = Some u" using Cons.prems by simp
      then have "u \<in> set rows" by (auto simp: find_Some_iff)
      then have "ent_id x \<noteq> ent_id u'" using Cons.prems by (auto simp: image_iff)
      then show ?thesis using Cons.IH Cons.prems found False by simp
    qed
  qed simp
  ultimately show ?thesis by simp
qed

lemma keyed_save [simp]: "keyed (users s) \<Longrightarrow> keyed (users (users_update (save_row u) s))"
  by (simp add: keyed_save_row)

lemma check_lock_Inr [svc_simps]:
  "check_lock now u s = (Inr x, t) \<longleftrightarrow> t = s \<and> (case us_lockedUntil u of None \<Rightarrow> True | Some l \<Rightarrow> \<not> now < l)"
  by (auto simp: check_lock_def svc_simps split: option.splits)

section \<open>Guessing passwords\<close>

text \<open>
  An attacker tries passwords on one account: each attempt is a time, the key a token
  would get, and a password. A guess is an attempt whose password was looked at: it is
  answered 401, where a locked account answers 423.
\<close>

type_synonym attempt = "int \<times> uuid \<times> string"

fun guesses :: "auth_env \<Rightarrow> string \<Rightarrow> attempt list \<Rightarrow> auth_db \<Rightarrow> nat" where
  "guesses env email [] s = 0"
| "guesses env email ((now, jti, pw) # as) s =
     (case login env now jti email pw s of
        (r, s') \<Rightarrow> (if r = Inl Unauthorized then 1 else 0) + guesses env email as s')"

definition LOCK_MS :: int where "LOCK_MS = LOCKOUT_MINUTES * 60000"

fun attempts_between :: "int \<Rightarrow> int \<Rightarrow> attempt list \<Rightarrow> bool" where
  "attempts_between t0 t1 [] = True"
| "attempts_between t0 t1 ((now, jti, pw) # as) = (t0 \<le> now \<and> now \<le> t1 \<and> attempts_between now t1 as)"

definition all_wrong :: "auth_env \<Rightarrow> string \<Rightarrow> attempt list \<Rightarrow> bool" where
  "all_wrong env hashed as \<longleftrightarrow> list_all (\<lambda>(now, jti, pw). \<not> verify_password env pw hashed) as"

lemma login_wrong:
  assumes "find_active_email (normalise_email email) (users s) = Some u"
    and "\<not> verify_password env pw (us_passwordHash u)"
  shows "login env now jti email pw s =
    (case us_lockedUntil u of
       Some until \<Rightarrow> if now < until then (Inl (Locked (minutes_left now until)), s)
                     else (Inl Unauthorized, users_update (save_row (record_failure now u)) s)
     | None \<Rightarrow> (Inl Unauthorized, users_update (save_row (record_failure now u)) s))"
  using assms by (auto simp: login_def svc_defs check_lock_def save_user_def split: option.split)

lemma record_failure_fields [simp]:
  "ent_id (record_failure now u) = ent_id u" "us_email (record_failure now u) = us_email u"
  "us_isActive (record_failure now u) = us_isActive u" "us_passwordHash (record_failure now u) = us_passwordHash u"
  "us_failedLoginAttempts (record_failure now u) = us_failedLoginAttempts u + 1"
  by (simp_all add: record_failure_def Let_def)

lemma record_failure_lock:
  "us_lockedUntil (record_failure now u) =
     (if us_failedLoginAttempts u \<ge> 4 then Some (now + LOCK_MS) else us_lockedUntil u)"
  by (simp add: record_failure_def Let_def MAX_FAILED_ATTEMPTS_def LOCK_MS_def)

text \<open>How many guesses an account in this state still allows until \<open>t1\<close>.\<close>

definition slots :: "int \<Rightarrow> int \<Rightarrow> int" where
  "slots t1 free = (if t1 < free then 0 else 1 + (t1 - free) div LOCK_MS)"

definition free_from :: "int \<Rightarrow> user \<Rightarrow> int" where
  "free_from t0 u = (case us_lockedUntil u of None \<Rightarrow> t0 | Some l \<Rightarrow> max t0 l)"

definition allowance :: "int \<Rightarrow> int \<Rightarrow> user \<Rightarrow> int" where
  "allowance t0 t1 u = max 0 (4 - us_failedLoginAttempts u) + slots t1 (free_from t0 u)"

lemma LOCK_MS_pos: "0 < LOCK_MS"
  by (simp add: LOCK_MS_def LOCKOUT_MINUTES_def)

lemma slots_nonneg: "0 \<le> slots t1 a"
  using pos_imp_zdiv_nonneg_iff [OF LOCK_MS_pos, of "t1 - a"] by (simp add: slots_def)

lemma slots_mono: "a \<le> b \<Longrightarrow> slots t1 b \<le> slots t1 a"
  using zdiv_mono1 [OF _ LOCK_MS_pos, of "t1 - b" "t1 - a"] pos_imp_zdiv_nonneg_iff [OF LOCK_MS_pos, of "t1 - a"]
  by (auto simp: slots_def)

lemma slots_step:
  assumes "now \<le> t1"
  shows "1 + slots t1 (now + LOCK_MS) = slots t1 now"
proof (cases "t1 < now + LOCK_MS")
  case True
  then show ?thesis using assms by (simp add: slots_def div_pos_pos_trivial)
next
  case False
  have "(t1 - now) div LOCK_MS = (t1 - (now + LOCK_MS) + LOCK_MS) div LOCK_MS" by simp
  also have "\<dots> = (t1 - (now + LOCK_MS)) div LOCK_MS + 1" using LOCK_MS_pos div_add_self2 by (metis less_irrefl)
  finally show ?thesis using False assms by (simp add: slots_def)
qed

text \<open>An attempt while locked changes nothing; one that counts uses up at least one guess.\<close>

lemma allowance_fail:
  assumes "t0 \<le> now" "now \<le> t1" and "case us_lockedUntil u of None \<Rightarrow> True | Some l \<Rightarrow> l \<le> now"
  shows "1 + allowance now t1 (record_failure now u) \<le> allowance t0 t1 u"
proof -
  have "free_from t0 u \<le> now" using assms(1,3) by (auto simp: free_from_def split: option.splits)
  then have mono: "slots t1 now \<le> slots t1 (free_from t0 u)" by (rule slots_mono)
  show ?thesis
  proof (cases "us_failedLoginAttempts u \<ge> 4")
    case True
    then have "free_from now (record_failure now u) = now + LOCK_MS"
      using LOCK_MS_pos by (simp add: free_from_def record_failure_lock)
    then show ?thesis using slots_step [OF assms(2)] mono True by (simp add: allowance_def)
  next
    case False
    then have "free_from now (record_failure now u) = now"
      using assms(3) by (auto simp: free_from_def record_failure_lock split: option.splits)
    then show ?thesis using mono False by (simp add: allowance_def)
  qed
qed

lemma allowance_nonneg: "0 \<le> allowance t0 t1 u"
  by (simp add: allowance_def slots_nonneg)

lemma allowance_mono: "t0 \<le> now \<Longrightarrow> allowance now t1 u \<le> allowance t0 t1 u"
  unfolding allowance_def by (intro add_left_mono slots_mono) (auto simp: free_from_def split: option.split)

lemma guesses_allowance:
  assumes "keyed (users s)" and "find_active_email (normalise_email email) (users s) = Some u"
    and "attempts_between t0 t1 as" and "all_wrong env (us_passwordHash u) as"
  shows "int (guesses env email as s) \<le> allowance t0 t1 u"
  using assms
proof (induction as arbitrary: s u t0)
  case Nil
  then show ?case by (simp add: allowance_nonneg)
next
  case (Cons a as)
  obtain now jti pw where a: "a = (now, jti, pw)" by (cases a)
  have wrong: "\<not> verify_password env pw (us_passwordHash u)" "all_wrong env (us_passwordHash u) as"
    and times: "t0 \<le> now" "now \<le> t1" "attempts_between now t1 as"
    using Cons.prems(3,4) by (simp_all add: a all_wrong_def)
  note run = login_wrong [OF Cons.prems(2) wrong(1), of now jti]
  show ?case
  proof (cases "case us_lockedUntil u of None \<Rightarrow> True | Some l \<Rightarrow> l \<le> now")
    case True
    let ?u = "record_failure now u" and ?s = "users_update (save_row (record_failure now u)) s"
    have step: "login env now jti email pw s = (Inl Unauthorized, ?s)"
      using run True by (auto split: option.splits)
    have "us_email u = normalise_email email \<and> us_isActive u"
      using Cons.prems(2) by (auto simp: find_active_email_def find_Some_iff)
    then have "find_active_email (normalise_email email) (users ?s) = Some ?u"
      using find_save_same [OF Cons.prems(1) Cons.prems(2) [unfolded find_active_email_def], of ?u]
      by (simp add: find_active_email_def)
    then have "int (guesses env email as ?s) \<le> allowance now t1 ?u"
      using Cons.IH [of ?s ?u now] Cons.prems(1) times(3) wrong(2) by (simp add: keyed_save_row)
    then show ?thesis using allowance_fail [OF times(1,2) True] by (simp add: a step)
  next
    case False
    then obtain l where "us_lockedUntil u = Some l" "now < l" by (auto split: option.splits)
    then have step: "login env now jti email pw s = (Inl (Locked (minutes_left now l)), s)" using run by simp
    have "int (guesses env email as s) \<le> allowance now t1 u"
      using Cons.IH [OF Cons.prems(1,2) times(3) wrong(2)] .
    then show ?thesis using allowance_mono [OF times(1), of t1 u] by (simp add: a step)
  qed
qed

text \<open>
  C10. The lockout bounds guessing: from an account without failed attempts, however
  many login attempts with wrong passwords are made between \<open>t0\<close> and \<open>t1\<close>, at most
  five passwords plus one for every full quarter of an hour are ever compared with the
  stored hash.
\<close>

theorem lockout_bounds_guessing:
  assumes "keyed (users s)" and "find_active_email (normalise_email email) (users s) = Some u"
    and "us_failedLoginAttempts u = 0" and "us_lockedUntil u = None"
    and "attempts_between t0 t1 as" and "t0 \<le> t1" and "all_wrong env (us_passwordHash u) as"
  shows "int (guesses env email as s) \<le> 5 + (t1 - t0) div (15 * 60 * 1000)"
  using guesses_allowance [OF assms(1,2,5,7)] assms(3,4,6)
  by (simp add: allowance_def free_from_def slots_def LOCK_MS_def LOCKOUT_MINUTES_def)

section \<open>The service as a state machine\<close>

text \<open>
  One step per request, refused requests included: those may have counted a failure or
  revoked a token.
\<close>

inductive auth_step :: "auth_env \<Rightarrow> auth_db \<Rightarrow> auth_db \<Rightarrow> bool" for env where
  login: "auth_step env s (snd (login env now jti email pw s))"
| register: "fresh n (users s) \<Longrightarrow> auth_step env s (snd (register env n nt dto s))"
| refresh: "auth_step env s (snd (refresh_token env now jti tok s))"
| switch_tenant: "auth_step env s (snd (mint_tokens_for_tenant_switch env now jti i t role s))"
| logout: "auth_step env s (snd (logout i s))"

definition auth_inv :: "auth_db \<Rightarrow> bool" where
  "auth_inv s \<longleftrightarrow> keyed (users s) \<and> distinct (map us_email (users s))"

text \<open>
  What a step does to the table: nothing, a new account, or a new version of one account
  with the same key and email and a token version that did not go back.
\<close>

definition account_kept :: "user \<Rightarrow> user \<Rightarrow> bool" where
  "account_kept u v \<longleftrightarrow> ent_id v = ent_id u \<and> us_email v = us_email u \<and> tenantId v = tenantId u \<and>
     us_role v = us_role u \<and> us_tokenVersion u \<le> us_tokenVersion v"

lemma found_member:
  "find_active_email e us = Some u \<Longrightarrow> u \<in> set us" "find_active_id i us = Some u \<Longrightarrow> u \<in> set us \<and> ent_id u = i"
  "find_id i us = Some v \<Longrightarrow> v \<in> set us"
  by (auto simp: find_active_email_def find_active_id_def find_id_def find_Some_iff)

definition changed :: "(user \<Rightarrow> user \<Rightarrow> bool) \<Rightarrow> auth_db \<Rightarrow> auth_db \<Rightarrow> bool" where
  "changed Q s s' \<longleftrightarrow> s' = s \<or> (\<exists>u v. Q u v \<and> s' = users_update (save_row v) s)"

lemma changed_refl [simp]: "changed Q s s"
  by (simp add: changed_def)

lemma changedI: "Q u v \<Longrightarrow> changed Q s (users_update (save_row v) s)"
  by (auto simp: changed_def)

lemma login_effect:
  "changed (\<lambda>u v. find_active_email (normalise_email email) (users s) = Some u \<and> account_kept u v \<and>
      us_tokenVersion v = us_tokenVersion u \<and> (v = record_failure now u \<or> us_sessionCreatedAt v = Some now))
    s (snd (login env now jti email pw s))"
proof (cases "find_active_email (normalise_email email) (users s)")
  case None
  then show ?thesis by (simp add: login_def svc_defs)
next
  case (Some u)
  have fail: "account_kept u (record_failure now u)" "us_tokenVersion (record_failure now u) = us_tokenVersion u"
    by (simp_all add: account_kept_def record_failure_def Let_def)
  show ?thesis using Some fail
    by (cases "us_lockedUntil u"; cases "verify_password env pw (us_passwordHash u)";
        cases "is_legacy_bcrypt_hash (us_passwordHash u)")
      (auto simp: login_def svc_defs check_lock_def save_user_def Let_def
        intro!: changedI [where u = u], simp_all add: account_kept_def)
qed

lemma refresh_effect:
  "changed (\<lambda>u v. (\<exists>p. verify_refresh env now tok = Some p \<and> find_active_id (tk_sub p) (users s) = Some u) \<and>
      account_kept u v \<and> us_tokenVersion v = us_tokenVersion u + 1 \<and> us_refreshTokenHash u \<noteq> None \<and>
      (us_refreshTokenHash v = None \<or> us_sessionCreatedAt v = us_sessionCreatedAt u))
    s (snd (refresh_token env now jti tok s))"
proof (cases "verify_refresh env now tok")
  case None
  then show ?thesis by (simp add: refresh_token_def svc_defs)
next
  case (Some p)
  note p = this
  show ?thesis
  proof (cases "find_active_id (tk_sub p) (users s)")
    case None
    then show ?thesis using p by (simp add: refresh_token_def svc_defs)
  next
    case (Some u)
    then show ?thesis using p
      by (cases "us_refreshTokenHash u"; cases "session_expired now u"; cases "tk_tv p = us_tokenVersion u")
        (auto simp: refresh_token_def svc_defs save_user_def Let_def
          intro!: changedI [where u = u], simp_all add: account_kept_def)
  qed
qed

lemma switch_effect:
  "changed (\<lambda>u v. find_active_id i (users s) = Some u \<and> account_kept u v)
    s (snd (mint_tokens_for_tenant_switch env now jti i t role s))"
  by (cases "find_active_id i (users s)")
    (auto simp: mint_tokens_for_tenant_switch_def svc_defs save_user_def Let_def intro!: changedI,
      simp_all add: account_kept_def)

lemma logout_effect:
  "changed (\<lambda>u v. find_id i (users s) = Some u \<and> account_kept u v \<and> us_refreshTokenHash v = None)
    s (snd (logout i s))"
  by (cases "find_id i (users s)")
    (auto simp: logout_def svc_defs save_user_def intro!: changedI, simp_all add: account_kept_def)

lemma register_effect:
  "changed (\<lambda>u v. ent_id v = n \<and> us_email v \<notin> us_email ` set (users s) \<and> us_refreshTokenHash v = None)
    s (snd (register env n nt dto s))"
proof (cases "find (\<lambda>u. us_email u = normalise_email (rg_email dto)) (users s)")
  case None
  then have "normalise_email (rg_email dto) \<notin> us_email ` set (users s)" by (auto simp: find_None_iff)
  then show ?thesis using None
    by (auto simp: register_def svc_defs save_user_def Let_def intro!: changedI)
next
  case (Some u)
  then show ?thesis by (simp add: register_def svc_defs Let_def)
qed

lemma emails_update:
  assumes "account_kept u v" and "u \<in> set rows" and "keyed rows"
  shows "map us_email (save_row v rows) = map us_email rows"
proof -
  have "save_row v rows = map (\<lambda>x. if ent_id x = ent_id v then v else x) rows"
    using assms unfolding save_row_def account_kept_def by (metis imageI)
  moreover have "us_email (if ent_id x = ent_id v then v else x) = us_email x" if "x \<in> set rows" for x
    using assms that table.key_inj [of rows x u] by (auto simp: account_kept_def)
  ultimately show ?thesis by simp
qed

lemma auth_step_effect:
  assumes "auth_step env s s'"
  shows "changed (\<lambda>u v. u \<in> set (users s) \<and> account_kept u v \<or>
      fresh (ent_id v) (users s) \<and> us_email v \<notin> us_email ` set (users s)) s s'"
  using assms
proof cases
  case (login now jti email pw)
  then show ?thesis using login_effect [of email s now env jti pw] found_member(1) unfolding changed_def by blast
next
  case (register n nt dto)
  then show ?thesis using register_effect [of n s env nt dto] unfolding changed_def by blast
next
  case (refresh now jti tok)
  then show ?thesis using refresh_effect [of env now tok s jti] found_member(2) unfolding changed_def by blast
next
  case (switch_tenant now jti i t role)
  then show ?thesis using switch_effect [of i s env now jti t role] found_member(2) unfolding changed_def by blast
next
  case (logout i)
  then show ?thesis using logout_effect [of i s] found_member(3) unfolding changed_def by blast
qed

lemma auth_step_inv:
  assumes "auth_step env s s'" and "auth_inv s"
  shows "auth_inv s'"
  using auth_step_effect [OF assms(1)] assms(2)
  unfolding changed_def auth_inv_def
  by (auto simp: keyed_save_row emails_update) (simp add: fresh_save_row)

lemma auth_run_inv: "(auth_step env)\<^sup>*\<^sup>* s s' \<Longrightarrow> auth_inv s \<Longrightarrow> auth_inv s'"
  by (induction rule: rtranclp_induct) (auto intro: auth_step_inv)

text \<open>
  No two accounts ever share an email address, whatever is registered and whoever
  logs in.
\<close>

theorem emails_stay_unique:
  assumes "(auth_step env)\<^sup>*\<^sup>* s s'" and "users s = []"
  shows "distinct (map us_email (users s'))"
  using auth_run_inv [OF assms(1)] assms(2) by (simp add: auth_inv_def keyed_def)

section \<open>Refresh tokens work once\<close>

lemma account_kept_trans: "account_kept u v \<Longrightarrow> account_kept v w \<Longrightarrow> account_kept u w"
  by (auto simp: account_kept_def)

lemma account_step:
  assumes "auth_step env s s'" and "auth_inv s" and "u \<in> set (users s)"
  shows "\<exists>v\<in>set (users s'). account_kept u v"
proof -
  have keyed: "keyed (users s)" using assms(2) by (simp add: auth_inv_def)
  have refl: "account_kept u u" by (simp add: account_kept_def)
  from auth_step_effect [OF assms(1)] consider "s' = s"
    | x y where "x \<in> set (users s)" "account_kept x y" "s' = users_update (save_row y) s"
    | y where "fresh (ent_id y) (users s)" "s' = users_update (save_row y) s"
    unfolding changed_def by blast
  then show ?thesis
  proof cases
    case 1
    then show ?thesis using assms(3) refl by blast
  next
    case (2 x y)
    show ?thesis
    proof (cases "ent_id u = ent_id x")
      case True
      then have "u = x" using keyed 2(1) assms(3) by (metis table.key_inj)
      then show ?thesis using 2 keyed by (auto simp: set_save_row)
    next
      case False
      then have "u \<in> set (users s')" using 2 keyed assms(3) by (simp add: set_save_row account_kept_def)
      then show ?thesis using refl by blast
    qed
  next
    case (3 y)
    then have "u \<in> set (users s')" using assms(3) by (simp add: fresh_save_row)
    then show ?thesis using refl by blast
  qed
qed

lemma account_run:
  assumes "(auth_step env)\<^sup>*\<^sup>* s s'" and "auth_inv s" and "u \<in> set (users s)"
  shows "\<exists>v\<in>set (users s'). account_kept u v"
  using assms
proof (induction rule: rtranclp_induct)
  case base
  then show ?case by (auto simp: account_kept_def)
next
  case (step t w)
  have inv: "auth_inv t" using auth_run_inv [OF step.hyps(1) step.prems(1)] .
  obtain v where v: "v \<in> set (users t)" "account_kept u v" using step by blast
  then obtain x where "x \<in> set (users w)" "account_kept v x" using account_step [OF step.hyps(2) inv v(1)] by blast
  then show ?case using v(2) account_kept_trans by blast
qed

lemma refresh_Inr:
  assumes "refresh_token env now jti tok s = (Inr ts, s')"
  obtains p u v where "verify_refresh env now tok = Some p" "find_active_id (tk_sub p) (users s) = Some u"
    "us_refreshTokenHash u = Some (sha256 env tok)" "\<not> session_expired now u" "tk_tv p = us_tokenVersion u"
    "account_kept u v" "us_tokenVersion v = us_tokenVersion u + 1" "us_sessionCreatedAt v = us_sessionCreatedAt u"
    "s' = users_update (save_row v) s"
proof -
  from assms obtain p u where p: "verify_refresh env now tok = Some p"
    and u: "find_active_id (tk_sub p) (users s) = Some u"
    by (auto simp: refresh_token_def svc_simps)
  define v where "v = u\<lparr>us_tokenVersion := us_tokenVersion u + 1,
    us_refreshTokenHash := Some (sha256 env (refreshToken (issue_tokens env now jti None
      (u\<lparr>us_tokenVersion := us_tokenVersion u + 1\<rparr>))))\<rparr>"
  have "us_refreshTokenHash u = Some (sha256 env tok)" "\<not> session_expired now u" "tk_tv p = us_tokenVersion u"
    "s' = users_update (save_row v) s"
    using assms p u by (auto simp: refresh_token_def svc_simps save_user_def Let_def v_def split: if_splits)
  moreover have "account_kept u v" "us_tokenVersion v = us_tokenVersion u + 1" "us_sessionCreatedAt v = us_sessionCreatedAt u"
    by (simp_all add: v_def account_kept_def)
  ultimately show thesis using that p u by blast
qed

text \<open>
  C11. A refresh token is accepted at most once: after it has been exchanged, whatever
  requests follow - further refreshes, logins, tenant switches, logouts, by anybody -
  presenting it again is refused, at any time.
\<close>

theorem refresh_token_single_use:
  assumes "(auth_step env)\<^sup>*\<^sup>* s0 s" and "users s0 = []"
    and "refresh_token env now jti tok s = (Inr ts, s1)" and "(auth_step env)\<^sup>*\<^sup>* s1 s2"
    and "verify_refresh env now' tok = None \<or> verify_refresh env now' tok = verify_refresh env now tok"
  shows "\<exists>e. fst (refresh_token env now' jti' tok s2) = Inl e"
proof (rule ccontr)
  assume "\<nexists>e. fst (refresh_token env now' jti' tok s2) = Inl e"
  then obtain ts' s3 where again: "refresh_token env now' jti' tok s2 = (Inr ts', s3)"
    by (metis obj_sumE prod.collapse)
  have inv: "auth_inv s" using auth_run_inv [OF assms(1)] assms(2) by (simp add: auth_inv_def keyed_def)
  have inv1: "auth_inv s1"
    using auth_step_inv [OF auth_step.refresh [of env s now jti tok] inv] assms(3) by simp
  obtain p u v where p: "verify_refresh env now tok = Some p"
    and u: "find_active_id (tk_sub p) (users s) = Some u" "tk_tv p = us_tokenVersion u"
    and v: "account_kept u v" "us_tokenVersion v = us_tokenVersion u + 1" "s1 = users_update (save_row v) s"
    using assms(3) by (rule refresh_Inr) blast
  have "v \<in> set (users s1)" using v(3) inv by (simp add: auth_inv_def set_save_row)
  then obtain w where w: "w \<in> set (users s2)" "account_kept v w" using account_run [OF assms(4) inv1] by blast
  obtain q x where q: "verify_refresh env now' tok = Some q"
    and x: "find_active_id (tk_sub q) (users s2) = Some x" "tk_tv q = us_tokenVersion x"
    using again by (rule refresh_Inr) blast
  have "q = p" using q p assms(5) by auto
  have "keyed (users s2)" using auth_run_inv [OF assms(4) inv1] by (simp add: auth_inv_def)
  moreover have "x \<in> set (users s2)" "ent_id x = tk_sub p" using found_member(2) [OF x(1)] \<open>q = p\<close> by simp_all
  moreover have "ent_id w = tk_sub p" using found_member(2) [OF u(1)] v(1) w(2) by (simp add: account_kept_def)
  ultimately have "x = w" using w(1) by (metis table.key_inj)
  then show False using x(2) u(2) v(2) w(2) \<open>q = p\<close> by (simp add: account_kept_def)
qed

section \<open>Sessions end\<close>

text \<open>
  The steps that do not start a new session of the account \<open>i\<close>: everything but a
  login to it with the right password and a tenant switch of it.
\<close>

inductive quiet_step :: "auth_env \<Rightarrow> uuid \<Rightarrow> auth_db \<Rightarrow> auth_db \<Rightarrow> bool" for env i where
  other_login: "find_active_email (normalise_email email) (users s) = Some u \<Longrightarrow>
    ent_id u \<noteq> i \<or> \<not> verify_password env pw (us_passwordHash u) \<Longrightarrow>
    quiet_step env i s (snd (login env now jti email pw s))"
| register: "fresh n (users s) \<Longrightarrow> quiet_step env i s (snd (register env n nt dto s))"
| refresh: "quiet_step env i s (snd (refresh_token env now jti tok s))"
| other_switch: "j \<noteq> i \<Longrightarrow> quiet_step env i s (snd (mint_tokens_for_tenant_switch env now jti j t role s))"
| logout: "quiet_step env i s (snd (logout j s))"

definition session_since :: "uuid \<Rightarrow> int \<Rightarrow> auth_db \<Rightarrow> bool" where
  "session_since i t0 s \<longleftrightarrow> keyed (users s) \<and>
     (\<exists>u\<in>set (users s). ent_id u = i \<and> (us_refreshTokenHash u = None \<or> us_sessionCreatedAt u = Some t0))"

lemma session_update:
  assumes "session_since i t0 s" and "u \<in> set (users s)" and "ent_id v = ent_id u"
    and "ent_id u = i \<Longrightarrow> us_refreshTokenHash u = None \<or> us_sessionCreatedAt u = Some t0 \<Longrightarrow>
      us_refreshTokenHash v = None \<or> us_sessionCreatedAt v = Some t0"
  shows "session_since i t0 (users_update (save_row v) s)"
proof -
  have keyed: "keyed (users s)" using assms(1) by (simp add: session_since_def)
  obtain w where w: "w \<in> set (users s)" "ent_id w = i" "us_refreshTokenHash w = None \<or> us_sessionCreatedAt w = Some t0"
    using assms(1) by (auto simp: session_since_def)
  show ?thesis
  proof (cases "ent_id u = i")
    case True
    then have "w = u" using keyed w(1,2) assms(2) by (metis table.key_inj)
    then show ?thesis using assms(3,4) w keyed by (auto simp: session_since_def keyed_save_row set_save_row)
  next
    case False
    then have "w \<in> set (save_row v (users s))" using w keyed assms(3) by (simp add: set_save_row)
    then show ?thesis using w keyed by (auto simp: session_since_def keyed_save_row)
  qed
qed

lemma failed_login_state:
  assumes "find_active_email (normalise_email email) (users s) = Some u" and "\<not> verify_password env pw (us_passwordHash u)"
  shows "snd (login env now jti email pw s) = s \<or>
    snd (login env now jti email pw s) = users_update (save_row (record_failure now u)) s"
  using login_wrong [OF assms, of now jti] by (auto split: option.splits)

lemma quiet_step_session:
  assumes "quiet_step env i s s'" and "session_since i t0 s"
  shows "session_since i t0 s'"
  using assms(1)
proof cases
  case (other_login email u pw now jti)
  note u = found_member(1) [OF other_login(2)]
  show ?thesis
  proof (cases "verify_password env pw (us_passwordHash u)")
    case True
    then have "ent_id u \<noteq> i" using other_login(3) by simp
    then show ?thesis
      using login_effect [of email s now env jti pw] other_login(1,2) assms(2) session_update [OF assms(2) u]
      by (auto simp: changed_def account_kept_def)
  next
    case False
    have "us_refreshTokenHash (record_failure now u) = us_refreshTokenHash u"
      "us_sessionCreatedAt (record_failure now u) = us_sessionCreatedAt u"
      by (simp_all add: record_failure_def Let_def)
    then show ?thesis
      using failed_login_state [OF other_login(2) False, of now jti] other_login(1) assms(2)
        session_update [OF assms(2) u, of "record_failure now u"] by auto
  qed
next
  case (register n nt dto)
  then show ?thesis using register_effect [of n s env nt dto] assms(2)
    by (auto simp: changed_def session_since_def keyed_save_row fresh_save_row keyed_def fresh_def)
next
  case (refresh now jti tok)
  show ?thesis
    using refresh_effect [of env now tok s jti] unfolding changed_def refresh(1) [symmetric]
  proof (elim disjE exE conjE)
    fix u v p
    assume "find_active_id (tk_sub p) (users s) = Some u" "account_kept u v" "s' = users_update (save_row v) s"
      and "us_refreshTokenHash v = None"
    then show ?thesis using session_update [OF assms(2), of u v] found_member(2) by (simp add: account_kept_def)
  next
    fix u v p
    assume "find_active_id (tk_sub p) (users s) = Some u" "account_kept u v" "s' = users_update (save_row v) s"
      and "us_sessionCreatedAt v = us_sessionCreatedAt u" and "us_refreshTokenHash u \<noteq> None"
    then show ?thesis
      using session_update [OF assms(2), of u v] found_member(2) by (auto simp: account_kept_def)
  qed (use assms(2) in simp)
next
  case (other_switch j now jti t role)
  show ?thesis
    using switch_effect [of j s env now jti t role] unfolding changed_def other_switch(1) [symmetric]
  proof (elim disjE exE conjE)
    fix u v
    assume "find_active_id j (users s) = Some u" "account_kept u v" "s' = users_update (save_row v) s"
    then show ?thesis
      using session_update [OF assms(2), of u v] found_member(2) other_switch(2) by (simp add: account_kept_def)
  qed (use assms(2) in simp)
next
  case (logout j)
  show ?thesis
    using logout_effect [of j s] unfolding changed_def logout [symmetric]
  proof (elim disjE exE conjE)
    fix u v
    assume "find_id j (users s) = Some u" "account_kept u v" "s' = users_update (save_row v) s"
      and "us_refreshTokenHash v = None"
    then show ?thesis using session_update [OF assms(2), of u v] found_member(3) by (simp add: account_kept_def)
  qed (use assms(2) in simp)
qed

lemma quiet_run_session: "(quiet_step env i)\<^sup>*\<^sup>* s s' \<Longrightarrow> session_since i t0 s \<Longrightarrow> session_since i t0 s'"
  by (induction rule: rtranclp_induct) (auto intro: quiet_step_session)

lemma login_starts_session:
  assumes "login env t0 jti email pw s = (Inr (ts, pu), s')" and "keyed (users s)"
  shows "session_since (pu_id pu) t0 s'"
proof -
  obtain u where u: "find_active_email (normalise_email email) (users s) = Some u"
    using assms(1) by (auto simp: login_def svc_simps)
  have "verify_password env pw (us_passwordHash u)"
    using assms(1) login_wrong [OF u, of env pw t0 jti]
    by (cases "verify_password env pw (us_passwordHash u)") (auto split: option.splits if_splits)
  then obtain v where "s' = users_update (save_row v) s" "ent_id v = pu_id pu" "us_sessionCreatedAt v = Some t0"
    using assms(1) u
    by (auto simp: login_def svc_simps save_user_def Let_def public_user_def split: if_splits)
  then show ?thesis using assms(2) by (auto simp: session_since_def keyed_save_row set_save_row)
qed

text \<open>
  A session ends twelve hours after the login that started it: however often its
  tokens are refreshed, and whatever else happens short of a new login or a tenant switch of
  the account, no refresh succeeds later than that.
\<close>

theorem session_ends_after_twelve_hours:
  assumes "login env t0 jti email pw s = (Inr (ts, pu), s1)" and "keyed (users s)"
    and "(quiet_step env (pu_id pu))\<^sup>*\<^sup>* s1 s2"
    and "refresh_token env now jti' tok s2 = (Inr ts', s3)"
    and "verify_refresh env now tok = Some p" and "tk_sub p = pu_id pu"
  shows "now - t0 \<le> 12 * 60 * 60 * 1000"
proof -
  have since: "session_since (pu_id pu) t0 s2"
    using quiet_run_session [OF assms(3)] login_starts_session [OF assms(1,2)] .
  obtain u where u: "find_active_id (tk_sub p) (users s2) = Some u" "us_refreshTokenHash u \<noteq> None" "\<not> session_expired now u"
    using assms(4) by (rule refresh_Inr) (use assms(5) in auto)
  obtain w where w: "w \<in> set (users s2)" "ent_id w = pu_id pu" "us_refreshTokenHash w = None \<or> us_sessionCreatedAt w = Some t0"
    using since by (auto simp: session_since_def)
  have "keyed (users s2)" using since by (simp add: session_since_def)
  then have "u = w" using w(1,2) found_member(2) [OF u(1)] assms(6) by (metis table.key_inj)
  then show ?thesis using u(2,3) w(3) by (auto simp: session_expired_def SESSION_ABSOLUTE_MS_def)
qed

text \<open>
  A tenant switch does not survive the next refresh: exchanging the refresh token
  that the switch issued for another tenant yields an access token for the account's own
  tenant and role again.
\<close>

theorem refresh_undoes_tenant_switch:
  assumes "keyed (users s)" and "find_active_id i (users s) = Some u"
    and "mint_tokens_for_tenant_switch env now jti i t role s = (Inr ts, s1)"
    and "refresh_token env now' jti' (refreshToken ts) s1 = (Inr ts', s2)"
    and "verify_refresh env now' (refreshToken ts) = Some p" and "tk_sub p = i"
  shows "accessToken ts' = sign_access env now'
    \<lparr>tk_sub = i, tk_email = us_email u, tk_role = us_role u, tk_tenantId = tenantId u\<rparr>"
proof -
  have u: "us_isActive u" "ent_id u = i"
    using assms(2) by (auto simp: find_active_id_def find_Some_iff)
  obtain v where v: "s1 = users_update (save_row v) s" "account_kept u v" "us_isActive v"
    using assms(2,3) u(1)
    by (auto simp: mint_tokens_for_tenant_switch_def svc_simps save_user_def Let_def account_kept_def)
  have "find_active_id i (users s1) = Some v"
    using find_save_same [OF assms(1) assms(2) [unfolded find_active_id_def], of v] v u
    by (simp add: find_active_id_def account_kept_def)
  then have "accessToken ts' = sign_access env now'
      \<lparr>tk_sub = ent_id v, tk_email = us_email v, tk_role = us_role v, tk_tenantId = tenantId v\<rparr>"
    using assms(4-6)
    by (auto simp: refresh_token_def svc_simps Let_def issue_tokens_def split: if_splits)
  then show ?thesis using v(2) u(2) by (simp add: account_kept_def)
qed

section \<open>Examples\<close>

text \<open>A token service for one account: the token spells the token version.\<close>

definition sample_env :: auth_env where
  "sample_env = \<lparr>argon2_verify = (\<lambda>h pw. h = ''$argon2'' @ pw), argon2_hash = (\<lambda>pw. ''$argon2'' @ pw),
     bcrypt_compare = (\<lambda>_ _. False), sign_access = (\<lambda>_ p. tk_tenantId p),
     sign_refresh = (\<lambda>_ p. CHR ''r'' # replicate (nat (tk_tv p)) CHR ''x''),
     verify_refresh = (\<lambda>_ tok. Some \<lparr>tk_sub = ''U'', tk_email = ''u'', tk_role = RoleAdmin, tk_tenantId = ''T'',
       tk_tv = int (length tok) - 1, tk_jti = ''j''\<rparr>),
     sha256 = (\<lambda>x. x), breach_count = (\<lambda>_. 0), access_ttl = ''15m''\<rparr>"

definition sample_registration :: registration where
  "sample_registration = \<lparr>rg_firstName = ''A'', rg_lastName = ''B'', rg_email = ''u'', rg_password = ''correct123'',
     rg_companyName = ''C'', rg_phone = None, rg_partitaIva = None, rg_tenantId = Some ''T''\<rparr>"

definition no_users :: auth_db where "no_users = \<lparr>users = []\<rparr>"

definition auth_1 :: auth_db where "auth_1 = snd (register sample_env ''U'' ''N'' sample_registration no_users)"

lemmas auth_eval =
  auth_1_def sample_env_def sample_registration_def no_users_def register_def login_def refresh_token_def
  mint_tokens_for_tenant_switch_def issue_tokens_def save_user_def check_lock_def verify_password_def
  starts_with_def is_legacy_bcrypt_hash_def find_active_email_def find_active_id_def session_expired_def
  SESSION_ABSOLUTE_MS_def normalise_email_def js_trim_def is_space_def to_lower_def is_upper_def is_lower_def is_digit_def
  password_policy_reasons_def known_weak_def save_row_def nullish_def public_user_def Let_def
  svc_defs runs_ok_def outcome_def after_def

lemma auth_1_eval:
  "users auth_1 = [\<lparr>ent_id = ''U'', tenantId = ''T'', us_firstName = ''A'', us_lastName = ''B'', us_email = ''u'',
     us_passwordHash = ''$argon2correct123'', us_companyName = ''C'', us_phone = None, us_partitaIva = None,
     us_role = RoleAdmin, us_refreshTokenHash = None, us_tokenVersion = 0, us_isActive = True, us_lastLoginAt = None,
     us_failedLoginAttempts = 0, us_lockedUntil = None, us_sessionCreatedAt = None\<rparr>]"
  by (simp add: auth_eval)

abbreviation sample_login :: "(auth_db, issued_tokens \<times> public_user) svc" where
  "sample_login \<equiv> login sample_env 0 ''j'' ''u'' ''correct123''"

definition auth_2 :: auth_db where "auth_2 = after sample_login auth_1"

abbreviation sample_refresh :: "(auth_db, issued_tokens) svc" where
  "sample_refresh \<equiv> refresh_token sample_env 1000 ''j'' ''r''"

definition auth_3 :: auth_db where "auth_3 = after sample_refresh auth_2"

lemma auth_runs: "runs_ok sample_login auth_1" "runs_ok sample_refresh auth_2"
  by (simp_all add: auth_2_def auth_1_eval auth_eval del: auth_1_def)

lemma sample_auth_run:
  "(auth_step sample_env)\<^sup>*\<^sup>* no_users auth_1" "(auth_step sample_env)\<^sup>*\<^sup>* no_users auth_2"
proof -
  have "auth_step sample_env no_users auth_1"
    unfolding auth_1_def by (rule auth_step.register) (simp add: no_users_def fresh_def)
  then show one: "(auth_step sample_env)\<^sup>*\<^sup>* no_users auth_1" by blast
  have "auth_step sample_env auth_1 auth_2"
    unfolding auth_2_def after_def by (rule auth_step.login)
  with one show "(auth_step sample_env)\<^sup>*\<^sup>* no_users auth_2" by simp
qed

definition sample_attempts :: "attempt list" where
  "sample_attempts = map (\<lambda>k. (1000 * int k, ''j'', ''wrong'')) [0..<20]"

theorem lockout_bounds_guessing_witness:
  "int (guesses sample_env ''u'' sample_attempts auth_1) \<le> 5 + (20000 - 0) div (15 * 60 * 1000)"
  by (rule lockout_bounds_guessing [where u = "hd (users auth_1)"])
    (simp_all add: sample_attempts_def all_wrong_def upt_conv_Cons auth_1_eval auth_eval keyed_def del: auth_1_def)

theorem emails_stay_unique_witness: "distinct (map us_email (users auth_1))"
  by (rule emails_stay_unique [OF sample_auth_run(1)]) (simp add: no_users_def)

theorem refresh_token_single_use_witness:
  "\<exists>e. fst (refresh_token sample_env 2000 ''j'' ''r'' auth_3) = Inl e"
  by (rule refresh_token_single_use [OF sample_auth_run(2) _ runs_okD [OF auth_runs(2)]])
    (simp_all add: no_users_def auth_3_def sample_env_def)

theorem session_ends_after_twelve_hours_witness:
  "runs_ok sample_refresh auth_2 \<and> (1000 :: int) - 0 \<le> 12 * 60 * 60 * 1000"
proof -
  have "keyed (users auth_1)" by (simp add: auth_1_eval keyed_def)
  moreover have login: "sample_login auth_1 = (Inr (fst (outcome sample_login auth_1), snd (outcome sample_login auth_1)), auth_2)"
    using runs_okD [OF auth_runs(1)] by (simp add: auth_2_def)
  moreover have "pu_id (snd (outcome sample_login auth_1)) = ''U''"
    by (simp add: auth_1_eval auth_eval del: auth_1_def)
  ultimately show ?thesis
    using auth_runs(2) session_ends_after_twelve_hours [OF login _ rtranclp.rtrancl_refl runs_okD [OF auth_runs(2)]]
    by (simp add: sample_env_def)
qed

abbreviation sample_switch :: "(auth_db, issued_tokens) svc" where
  "sample_switch \<equiv> mint_tokens_for_tenant_switch sample_env 1000 ''j'' ''U'' ''X'' RoleViewer"

abbreviation sample_second :: "(auth_db, issued_tokens) svc" where
  "sample_second \<equiv> refresh_token sample_env 2000 ''j'' (refreshToken (outcome sample_switch auth_1))"

lemma switch_runs: "runs_ok sample_switch auth_1" "runs_ok sample_second (after sample_switch auth_1)"
  by (simp_all add: auth_1_eval auth_eval del: auth_1_def)

theorem refresh_undoes_tenant_switch_witness:
  "accessToken (outcome sample_switch auth_1) = ''X'' \<and>
   accessToken (outcome sample_second (after sample_switch auth_1)) = ''T''"
proof -
  let ?u = "hd (users auth_1)"
  have "keyed (users auth_1)" "find_active_id ''U'' (users auth_1) = Some ?u"
    by (simp_all add: auth_1_eval keyed_def find_active_id_def)
  moreover have "verify_refresh sample_env 2000 (refreshToken (outcome sample_switch auth_1))
      = Some \<lparr>tk_sub = ''U'', tk_email = ''u'', tk_role = RoleAdmin, tk_tenantId = ''T'', tk_tv = 1, tk_jti = ''j''\<rparr>"
    by (simp add: auth_1_eval auth_eval del: auth_1_def)
  ultimately have "accessToken (outcome sample_second (after sample_switch auth_1)) =
      sign_access sample_env 2000 \<lparr>tk_sub = ''U'', tk_email = us_email ?u, tk_role = us_role ?u, tk_tenantId = tenantId ?u\<rparr>"
    using refresh_undoes_tenant_switch [OF _ _ runs_okD [OF switch_runs(1)] runs_okD [OF switch_runs(2)]] by simp
  moreover have "accessToken (outcome sample_switch auth_1) = ''X''"
    by (simp add: auth_1_eval auth_eval del: auth_1_def)
  ultimately show ?thesis by (simp add: auth_1_eval) (simp add: sample_env_def)
qed

end
