(* ===== verification/Memberships.thy ===== *)
theory Memberships
  imports Auth
begin

text \<open>
  Memberships, \<^verbatim>\<open>backend/src/memberships/memberships.service.ts\<close> with its entity:
  one user working for several tenants. The service uses the account service to issue
  the tokens of a tenant switch, so the state holds the accounts as well. Notes and the
  unused scopes of a membership are left out.
\<close>

section \<open>Entities\<close>

datatype membership_role = MAdmin | MManager | MOperator | MViewer | MCommercialista

datatype membership_status = MbPending | MbActive | MbRevoked

record membership = entity +
  mb_userId :: uuid
  mb_role :: membership_role
  mb_status :: membership_status
  mb_invitedAt :: "int option"
  mb_consentedAt :: "int option"
  mb_grantedAt :: "int option"
  mb_revokedAt :: "int option"
  mb_invitedBy :: "uuid option"
  mb_revokedBy :: "uuid option"

record membership_db =
  memberships :: "membership list"
  accounts :: auth_db

definition save_membership :: "membership \<Rightarrow> (membership_db, membership) svc" where
  "save_membership m = seq (modify (memberships_update (save_row m))) (ret m)"

section \<open>Operations\<close>

definition list_memberships_for_tenant ::
  "uuid \<Rightarrow> membership_role option \<Rightarrow> membership_status option \<Rightarrow> (membership_db, membership list) svc" where
  "list_memberships_for_tenant t role st =
     gets (\<lambda>s. filter (\<lambda>m. tenantId m = t \<and> (role = None \<or> role = Some (mb_role m)) \<and>
       (st = None \<or> st = Some (mb_status m))) (memberships s))"

definition find_membership :: "uuid \<Rightarrow> uuid \<Rightarrow> membership list \<Rightarrow> membership option" where
  "find_membership t u ms = find (\<lambda>m. tenantId m = t \<and> mb_userId m = u) ms"

definition invite ::
  "int \<Rightarrow> uuid \<Rightarrow> uuid \<Rightarrow> uuid \<Rightarrow> uuid \<Rightarrow> membership_role \<Rightarrow> (membership_db, membership) svc" where
  "invite now newId t invitedBy target role =
     bind (gets (\<lambda>s. find_membership t target (memberships s))) (\<lambda>existing.
     case existing of
       Some m \<Rightarrow>
         if mb_status m = MbActive \<and> mb_role m = role then ret m
         else if mb_status m = MbRevoked
         then save_membership (m\<lparr>mb_status := MbPending, mb_role := role, mb_invitedAt := Some now,
                mb_invitedBy := Some invitedBy, mb_revokedAt := None, mb_revokedBy := None\<rparr>)
         else throw Conflict
     | None \<Rightarrow>
         save_membership \<lparr>ent_id = newId, tenantId = t, mb_userId = target, mb_role = role, mb_status = MbPending,
           mb_invitedAt = Some now, mb_consentedAt = None, mb_grantedAt = None, mb_revokedAt = None,
           mb_invitedBy = Some invitedBy, mb_revokedBy = None\<rparr>)"

definition consent :: "int \<Rightarrow> uuid \<Rightarrow> uuid \<Rightarrow> (membership_db, membership) svc" where
  "consent now membershipId userId =
     bind (gets (\<lambda>s. find_id membershipId (memberships s))) (\<lambda>found.
     bind (require found NotFound) (\<lambda>m.
     seq (throw_if (mb_userId m \<noteq> userId) Forbidden)
    (seq (throw_if (mb_status m \<noteq> MbPending) BadRequest)
       (save_membership (m\<lparr>mb_status := MbActive, mb_consentedAt := Some now, mb_grantedAt := Some now\<rparr>)))))"

text \<open>\<open>actorIsAdmin\<close> is \<^verbatim>\<open>String(actorRole) === 'admin'\<close>.\<close>

definition revoke ::
  "int \<Rightarrow> uuid \<Rightarrow> uuid \<Rightarrow> bool \<Rightarrow> uuid \<Rightarrow> (membership_db, membership) svc" where
  "revoke now membershipId actor actorIsAdmin actorTenant =
     bind (gets (\<lambda>s. find_id membershipId (memberships s))) (\<lambda>found.
     bind (require found NotFound) (\<lambda>m.
     let isSubject = (mb_userId m = actor);
         isTenantAdmin = (tenantId m = actorTenant \<and> actorIsAdmin)
     in seq (throw_if (\<not> isSubject \<and> \<not> isTenantAdmin) Forbidden)
          (if mb_status m = MbRevoked then ret m
           else save_membership (m\<lparr>mb_status := MbRevoked, mb_revokedAt := Some now, mb_revokedBy := Some actor\<rparr>))))"

fun to_user_role :: "membership_role \<Rightarrow> user_role" where
  "to_user_role MAdmin = RoleAdmin"
| "to_user_role MManager = RoleManager"
| "to_user_role MOperator = RoleOperator"
| "to_user_role MCommercialista = RoleViewer"
| "to_user_role MViewer = RoleViewer"

definition switch_tenant ::
  "auth_env \<Rightarrow> int \<Rightarrow> uuid \<Rightarrow> uuid \<Rightarrow> uuid \<Rightarrow> (membership_db, issued_tokens \<times> membership) svc" where
  "switch_tenant env now jti userId target =
     bind (gets (\<lambda>s. find_membership target userId (memberships s))) (\<lambda>found.
     bind (require found NotFound) (\<lambda>m.
     seq (throw_if (mb_status m \<noteq> MbActive) Forbidden)
       (bind (on_part accounts (\<lambda>a s. s\<lparr>accounts := a\<rparr>)
                (mint_tokens_for_tenant_switch env now jti userId target (to_user_role (mb_role m)))) (\<lambda>tokens.
        ret (tokens, m)))))"

section \<open>Consent\<close>

text \<open>Steps are labelled with what the request was.\<close>

datatype membership_request = InviteBy uuid | ConsentBy uuid | RevokeBy uuid | SwitchBy uuid

inductive membership_step :: "membership_request \<Rightarrow> membership_db \<Rightarrow> membership_db \<Rightarrow> bool" where
  invite: "invite now n t by u role s = (Inr m, s') \<Longrightarrow> fresh n (memberships s) \<Longrightarrow> membership_step (InviteBy by) s s'"
| consent: "consent now i u s = (Inr m, s') \<Longrightarrow> membership_step (ConsentBy u) s s'"
| revoke: "revoke now i u a t s = (Inr m, s') \<Longrightarrow> membership_step (RevokeBy u) s s'"
| switch: "switch_tenant env now jti u t s = (Inr r, s') \<Longrightarrow> membership_step (SwitchBy u) s s'"

inductive_cases membership_stepE: "membership_step req s s'"

inductive membership_trace :: "membership_request list \<Rightarrow> membership_db \<Rightarrow> membership_db \<Rightarrow> bool" where
  Nil: "membership_trace [] s s"
| Snoc: "membership_trace reqs s t \<Longrightarrow> membership_step req t u \<Longrightarrow> membership_trace (reqs @ [req]) s u"

lemma save_membership_Inr [svc_simps]:
  "save_membership m s = (Inr r, s') \<longleftrightarrow> r = m \<and> s' = memberships_update (save_row m) s"
  by (auto simp: save_membership_def svc_simps)

lemma save_row_member: "m \<in> set (save_row r rows) \<Longrightarrow> m = r \<or> m \<in> set rows"
  by (auto simp: save_row_def split: if_splits)

lemma active_needs_consent:
  assumes "membership_step req s s'" and "m \<in> set (memberships s')" and "mb_status m = MbActive"
  shows "m \<in> set (memberships s) \<or> req = ConsentBy (mb_userId m)"
  using assms
proof (elim membership_stepE, goal_cases)
  case (1 now n t by' u role x)
  then show ?case
    by (auto simp: invite_def svc_simps split: option.splits if_splits dest!: save_row_member)
next
  case (2 now i u x)
  then show ?case by (auto simp: consent_def svc_simps dest!: save_row_member)
next
  case (3 now i u a t x)
  then obtain y where "s' = s \<or> s' = memberships_update (save_row (y\<lparr>mb_status := MbRevoked, mb_revokedAt := Some now,
      mb_revokedBy := Some u\<rparr>)) s"
    by (auto simp: revoke_def svc_simps Let_def split: if_splits)
  then show ?case using 3 by (auto dest!: save_row_member)
next
  case (4 env now jti u t r)
  then show ?case by (auto simp: switch_tenant_def svc_simps)
qed

lemma trace_consent:
  assumes "membership_trace reqs s0 s" and "memberships s0 = []" and "m \<in> set (memberships s)" and "mb_status m = MbActive"
  shows "ConsentBy (mb_userId m) \<in> set reqs"
  using assms
proof (induction arbitrary: m rule: membership_trace.induct)
  case (Snoc reqs s t req u)
  then show ?case using active_needs_consent [OF Snoc.hyps(2) Snoc.prems(2,3)] by auto
qed simp


section \<open>Example\<close>

definition plain_env :: auth_env where
  "plain_env = \<lparr>argon2_verify = (\<lambda>_ _. False), argon2_hash = (\<lambda>pw. pw), bcrypt_compare = (\<lambda>_ _. False),
     sign_access = (\<lambda>_ p. tk_tenantId p), sign_refresh = (\<lambda>_ p. tk_sub p), verify_refresh = (\<lambda>_ _. None),
     sha256 = (\<lambda>x. x), breach_count = (\<lambda>_. 0), access_ttl = ''15m''\<rparr>"

definition sample_accountant :: user where
  "sample_accountant = \<lparr>ent_id = ''U'', tenantId = ''H'', us_firstName = ''A'', us_lastName = ''B'', us_email = ''u'',
     us_passwordHash = ''x'', us_companyName = ''C'', us_phone = None, us_partitaIva = None, us_role = RoleAdmin,
     us_refreshTokenHash = None, us_tokenVersion = 0, us_isActive = True, us_lastLoginAt = None,
     us_failedLoginAttempts = 0, us_lockedUntil = None, us_sessionCreatedAt = None\<rparr>"

definition mdb_0 :: membership_db where
  "mdb_0 = \<lparr>memberships = [], accounts = \<lparr>users = [sample_accountant]\<rparr>\<rparr>"

abbreviation sample_invite :: "(membership_db, membership) svc" where
  "sample_invite \<equiv> invite 1 ''M'' ''T'' ''boss'' ''U'' MCommercialista"

abbreviation sample_consent :: "(membership_db, membership) svc" where
  "sample_consent \<equiv> consent 2 ''M'' ''U''"

abbreviation sample_tenant_switch :: "(membership_db, issued_tokens \<times> membership) svc" where
  "sample_tenant_switch \<equiv> switch_tenant plain_env 3 ''j'' ''U'' ''T''"

definition mdb_1 :: membership_db where "mdb_1 = after sample_invite mdb_0"
definition mdb_2 :: membership_db where "mdb_2 = after sample_consent mdb_1"

lemma membership_runs:
  "runs_ok sample_invite mdb_0" "runs_ok sample_consent mdb_1" "runs_ok sample_tenant_switch mdb_2"
  by (simp_all add: mdb_2_def mdb_1_def mdb_0_def sample_accountant_def plain_env_def invite_def consent_def
      switch_tenant_def find_membership_def find_id_def save_membership_def save_row_def
      mint_tokens_for_tenant_switch_def find_active_id_def save_user_def Let_def
      svc_defs runs_ok_def after_def)

lemma membership_sample_trace: "membership_trace ([InviteBy ''boss''] @ [ConsentBy ''U'']) mdb_0 mdb_2"
proof -
  have "membership_trace ([] @ [InviteBy ''boss'']) mdb_0 mdb_1"
    unfolding mdb_1_def
    by (rule membership_trace.Snoc [OF membership_trace.Nil],
        rule membership_step.invite [OF runs_okD [OF membership_runs(1)]]) (simp add: mdb_0_def fresh_def)
  then have "membership_trace (([] @ [InviteBy ''boss'']) @ [ConsentBy ''U'']) mdb_0 mdb_2"
    unfolding mdb_2_def
    by (rule membership_trace.Snoc) (rule membership_step.consent [OF runs_okD [OF membership_runs(2)]])
  then show ?thesis by simp
qed


end
