(* ===== verification/Iban.thy ===== *)
theory Iban
  imports JsString
begin

text \<open>
  Account numbers, \<^verbatim>\<open>backend/src/treasury/iban.util.ts\<close>: the check of an IBAN, its
  masked form, and the envelope it is stored in. AES-256-GCM is third-party code, a pair
  of functions; base64 is Node's. A buffer is the list of its bytes as characters.
\<close>

section \<open>Validation\<close>

definition clean_iban :: "string \<Rightarrow> string" where
  "clean_iban s = map to_upper (strip_spaces s)"

text \<open>\<^verbatim>\<open>^[A-Z]{2}\d{2}[A-Z0-9]{11,30}$\<close>\<close>

definition iban_format :: "string \<Rightarrow> bool" where
  "iban_format s \<longleftrightarrow>
     15 \<le> length s \<and> length s \<le> 34 \<and> list_all is_upper (take 2 s) \<and> list_all is_digit (take 2 (drop 2 s)) \<and>
     list_all (\<lambda>c. is_upper c \<or> is_digit c) (drop 4 s)"

definition iban_code :: "char \<Rightarrow> string" where
  "iban_code c = (if is_upper c then dec (of_char c - 65 + 10) else [c])"

definition iban_number :: "string \<Rightarrow> nat" where
  "iban_number s = parse_dec (concat (map iban_code (drop 4 s @ take 4 s)))"

definition validate_iban :: "string \<Rightarrow> bool" where
  "validate_iban plaintext =
     (let cleaned = clean_iban plaintext in iban_format cleaned \<and> iban_number cleaned mod 97 = 1)"

definition mask_iban :: "string \<Rightarrow> string" where
  "mask_iban plaintext =
     (let cleaned = strip_spaces plaintext in
      if length cleaned < 8 then cleaned else take 4 cleaned @ ''****'' @ drop (length cleaned - 4) cleaned)"

section \<open>Base64\<close>

definition b64_char :: "nat \<Rightarrow> char" where
  "b64_char n =
     (if n < 26 then char_of (65 + n) else if n < 52 then char_of (71 + n) else if n < 62 then char_of (n - 4)
      else if n = 62 then CHR ''+'' else CHR ''/'')"

definition b64_index :: "char \<Rightarrow> nat" where
  "b64_index c =
     (let n = (of_char c :: nat) in
      if is_upper c then n - 65 else if is_lower c then n - 71 else if is_digit c then n + 4
      else if n = 43 then 62 else 63)"

fun b64_encode :: "string \<Rightarrow> string" where
  "b64_encode [] = []"
| "b64_encode [a] =
     (let x = (of_char a :: nat) in [b64_char (x div 4), b64_char (x mod 4 * 16), CHR ''='', CHR ''=''])"
| "b64_encode [a, b] =
     (let x = (of_char a :: nat); y = of_char b in
      [b64_char (x div 4), b64_char (x mod 4 * 16 + y div 16), b64_char (y mod 16 * 4), CHR ''=''])"
| "b64_encode (a # b # c # r) =
     (let x = (of_char a :: nat); y = of_char b; z = of_char c in
      [b64_char (x div 4), b64_char (x mod 4 * 16 + y div 16), b64_char (y mod 16 * 4 + z div 64), b64_char (z mod 64)]
      @ b64_encode r)"

text \<open>Whole groups of four; what follows them is dropped.\<close>

fun b64_decode :: "string \<Rightarrow> string" where
  "b64_decode (w # x # y # z # r) =
     (let a = b64_index w; b = b64_index x; c = b64_index y; d = b64_index z in
      if y = CHR ''='' then [char_of (a * 4 + b div 16)]
      else if z = CHR ''='' then [char_of (a * 4 + b div 16), char_of (b mod 16 * 16 + c div 4)]
      else char_of (a * 4 + b div 16) # char_of (b mod 16 * 16 + c div 4) # char_of (c mod 4 * 64 + d) # b64_decode r)"
| "b64_decode r = []"

section \<open>The envelope\<close>

record aes_gcm =
  aes_seal :: "string \<Rightarrow> string \<Rightarrow> string \<Rightarrow> string \<times> string"
  aes_open :: "string \<Rightarrow> string \<Rightarrow> string \<Rightarrow> string \<Rightarrow> string option"

text \<open>\<open>raw\<close> is the value of the environment variable.\<close>

definition load_key :: "string option \<Rightarrow> http_error + string" where
  "load_key raw =
     (case raw of
        None \<Rightarrow> Inl PlainError
      | Some r \<Rightarrow> if r = [] \<or> length (b64_decode r) \<noteq> 32 then Inl PlainError else Inr (b64_decode r))"

definition encrypt_iban :: "aes_gcm \<Rightarrow> string option \<Rightarrow> string \<Rightarrow> string \<Rightarrow> http_error + string" where
  "encrypt_iban aes raw iv plaintext =
     (case load_key raw of
        Inl e \<Rightarrow> Inl e
      | Inr key \<Rightarrow>
          (case aes_seal aes key iv plaintext of (ct, tag) \<Rightarrow>
             Inr (''v1:'' @ b64_encode iv @ '':'' @ b64_encode tag @ '':'' @ b64_encode ct)))"

definition decrypt_iban :: "aes_gcm \<Rightarrow> string option \<Rightarrow> string \<Rightarrow> http_error + string" where
  "decrypt_iban aes raw ciphertext =
     (if take 3 ciphertext \<noteq> ''v1:'' then Inl PlainError
      else
        (case split_at_char CHR '':'' ciphertext of
           v # iv # tag # ct # rest \<Rightarrow>
             (case load_key raw of
                Inl e \<Rightarrow> Inl e
              | Inr key \<Rightarrow>
                  (case aes_open aes key (b64_decode iv) (b64_decode tag) (b64_decode ct) of
                     None \<Rightarrow> Inl PlainError
                   | Some pt \<Rightarrow> Inr pt))
         | _ \<Rightarrow> Inl PlainError))"

section \<open>Base64 and the envelope are round trips\<close>

lemma of_char_char_of: "n < 256 \<Longrightarrow> of_char (char_of n :: char) = (n :: nat)"
  by simp

lemma of_char_less: "(of_char (c :: char) :: nat) < 256"
  by (metis of_char_mod_256 mod_less_divisor zero_less_numeral)

lemma b64_index_char [simp]:
  assumes "n < 64"
  shows "b64_index (b64_char n) = n" "b64_char n \<noteq> CHR ''=''" "b64_char n \<noteq> CHR '':''"
proof -
  have code: "(of_char (b64_char n) :: nat) =
      (if n < 26 then 65 + n else if n < 52 then 71 + n else if n < 62 then n - 4 else if n = 62 then 43 else 47)"
    using assms by (simp add: b64_char_def)
  then show "b64_index (b64_char n) = n"
    using assms by (auto simp: b64_index_def Let_def is_upper_def is_lower_def is_digit_def)
  have "(of_char (b64_char n) :: nat) \<noteq> 61" "(of_char (b64_char n) :: nat) \<noteq> 58" using code assms by auto
  then show "b64_char n \<noteq> CHR ''=''" "b64_char n \<noteq> CHR '':''" by auto
qed

text \<open>The four groups of six bits of three bytes.\<close>

lemma byte_parts [simp]:
  "(of_char (c :: char) :: nat) div 4 < 64" "(of_char c :: nat) div 16 < 16" "(of_char c :: nat) div 64 < 4"
  using of_char_less [of c] by (simp_all add: less_mult_imp_div_less)

lemma sextets [simp]:
  "y < 16 \<Longrightarrow> x mod 4 * 16 + y < (64 :: nat)" "z < 4 \<Longrightarrow> y' mod 16 * 4 + z < (64 :: nat)"
  "x mod 4 * 16 < (64 :: nat)" "y' mod 16 * 4 < (64 :: nat)"
proof -
  have "x mod 4 < 4" "y' mod 16 < 16" by simp_all
  then show "y < 16 \<Longrightarrow> x mod 4 * 16 + y < 64" "z < 4 \<Longrightarrow> y' mod 16 * 4 + z < 64" "x mod 4 * 16 < 64" "y' mod 16 * 4 < 64"
    by linarith+
qed

lemma bytes_again [simp]:
  "y < 16 \<Longrightarrow> (x * 16 + y) div 16 = (x :: nat)" "y < 16 \<Longrightarrow> (x * 16 + y) mod 16 = (y :: nat)"
  "z < 4 \<Longrightarrow> (x * 4 + z) div 4 = (x :: nat)" "z < 4 \<Longrightarrow> (x * 4 + z) mod 4 = (z :: nat)"
  "x div 4 * 4 + x mod 4 = (x :: nat)" "y div 16 * 16 + y mod 16 = (y :: nat)" "z div 64 * 64 + z mod 64 = (z :: nat)"
  by (simp_all add: div_mult_mod_eq)

lemma b64_roundtrip [simp]: "b64_decode (b64_encode s) = s"
  by (induction s rule: b64_encode.induct) (simp_all add: Let_def)

lemma b64_no_colon: "CHR '':'' \<notin> set (b64_encode s)"
  by (induction s rule: b64_encode.induct) (auto simp: Let_def dest: sym [THEN b64_index_char(3) [THEN notE, rotated]])

lemma split_at_char_step: "c \<notin> set xs \<Longrightarrow> split_at_char c (xs @ c # ys) = xs # split_at_char c ys"
  by (induction xs) auto

lemma split_at_char_last: "c \<notin> set xs \<Longrightarrow> split_at_char c xs = [xs]"
  by (induction xs) auto

text \<open>What AES-GCM promises: opening what was sealed under the same key and nonce gives the text back.\<close>

definition aes_correct :: "aes_gcm \<Rightarrow> bool" where
  "aes_correct aes \<longleftrightarrow>
     (\<forall>key iv pt ct tag. aes_seal aes key iv pt = (ct, tag) \<longrightarrow> aes_open aes key iv tag ct = Some pt)"

lemma decrypt_encrypt:
  assumes "aes_correct aes" and "encrypt_iban aes raw iv plaintext = Inr c"
  shows "decrypt_iban aes raw c = Inr plaintext"
proof -
  obtain key ct tag where k: "load_key raw = Inr key" "aes_seal aes key iv plaintext = (ct, tag)"
    and c: "c = ''v1:'' @ b64_encode iv @ '':'' @ b64_encode tag @ '':'' @ b64_encode ct"
    using assms(2) by (auto simp: encrypt_iban_def split: sum.splits prod.splits)
  have "split_at_char CHR '':'' c = [''v1'', b64_encode iv, b64_encode tag, b64_encode ct]"
    using split_at_char_step [of "CHR '':''" "''v1''"] b64_no_colon
    by (simp add: c split_at_char_step split_at_char_last)
  moreover have "aes_open aes key iv tag ct = Some plaintext" using assms(1) k(2) by (auto simp: aes_correct_def)
  ultimately show ?thesis using k(1) by (simp add: decrypt_iban_def c)
qed


section \<open>Typing errors\<close>

lemma mod97_cancel:
  assumes "(10 * x) mod 97 = (10 * y) mod (97 :: nat)"
  shows "x mod 97 = y mod 97"
proof -
  have "(68 * (10 * x)) mod 97 = (68 * (10 * y)) mod 97" using assms by (metis mod_mult_right_eq)
  moreover have "68 * (10 * z) = z + 97 * (7 * z)" for z :: nat by simp
  ultimately show ?thesis by (simp only: mod_mult_self2)
qed

lemma mod97_shift: "(x * 10 ^ k) mod 97 = (y * 10 ^ k) mod 97 \<Longrightarrow> x mod 97 = (y mod 97 :: nat)"
proof (induction k)
  case (Suc k)
  have "(10 * (x * 10 ^ k)) mod 97 = (10 * (y * 10 ^ k)) mod 97" using Suc.prems by (simp add: mult.left_commute)
  then show ?case using Suc.IH mod97_cancel by blast
qed simp

lemma mod97_dvd: "x mod 97 = y mod (97 :: nat) \<longleftrightarrow> (97 :: int) dvd int x - int y"
  by (simp only: mod_eq_dvd_iff [symmetric] of_nat_numeral [symmetric, where 'a = int] of_nat_mod [symmetric] of_nat_eq_iff)

lemma mod97_add: "(a + x) mod 97 = (a + y) mod 97 \<Longrightarrow> x mod 97 = (y mod 97 :: nat)"
  by (simp add: mod97_dvd)

text \<open>The value of a stretch of the number decides the number modulo 97.\<close>

lemma stretch_decides:
  assumes "length u = length v"
    and "parse_dec (p @ u @ r) mod 97 = parse_dec (p @ v @ r) mod 97"
  shows "parse_dec u mod 97 = parse_dec v mod 97"
proof -
  have expand: "parse_dec (p @ w @ r) = parse_dec r + parse_dec (p @ w) * 10 ^ length r" for w
    using parse_dec_app [of "p @ w" r] by simp
  have "(parse_dec (p @ u) * 10 ^ length r) mod 97 = (parse_dec (p @ v) * 10 ^ length r) mod 97"
    by (rule mod97_add [of "parse_dec r"]) (use assms(2) in \<open>simp only: expand\<close>)
  then have "parse_dec (p @ u) mod 97 = parse_dec (p @ v) mod 97" by (rule mod97_shift)
  then have "(parse_dec p * 10 ^ length u + parse_dec u) mod 97 = (parse_dec p * 10 ^ length u + parse_dec v) mod 97"
    using assms(1) by (simp only: parse_dec_app [of p])
  then show ?thesis by (rule mod97_add)
qed

text \<open>Two characters of the same kind: both digits or both letters.\<close>

definition same_kind :: "char \<Rightarrow> char \<Rightarrow> bool" where
  "same_kind a b \<longleftrightarrow> (is_digit a \<and> is_digit b) \<or> (is_upper a \<and> is_upper b)"

definition code_val :: "char \<Rightarrow> nat" where
  "code_val c = parse_dec (iban_code c)"

lemma upper_not_digit: "is_upper c \<Longrightarrow> \<not> is_digit c"
  by (simp add: is_upper_def is_digit_def)

lemma length_dec_two: "10 \<le> n \<Longrightarrow> n < 100 \<Longrightarrow> length (dec n) = 2"
  by (subst dec.simps) (simp add: dec.simps [of "n div 10"])

lemma code_digit: "is_digit c \<Longrightarrow> length (iban_code c) = 1 \<and> code_val c = of_char c - 48 \<and> code_val c \<le> 9"
  using upper_not_digit [of c] by (auto simp: iban_code_def code_val_def parse_dec_def digit_val_def is_digit_def is_upper_def)

lemma code_upper:
  assumes "is_upper c"
  shows "length (iban_code c) = 2 \<and> code_val c = of_char c - 55 \<and> 10 \<le> code_val c \<and> code_val c \<le> 35"
proof -
  have "10 \<le> of_char c - 65 + (10 :: nat)" "of_char c - 65 + (10 :: nat) \<le> 35" "of_char c - 65 + (10 :: nat) = of_char c - 55"
    using assms by (auto simp: is_upper_def)
  then show ?thesis using assms by (simp add: iban_code_def code_val_def length_dec_two)
qed

lemma code_inj:
  assumes "same_kind a b" and "code_val a mod 97 = code_val b mod 97"
  shows "a = b"
proof -
  have "code_val a < 97" "code_val b < 97"
    using assms(1) code_digit [of a] code_digit [of b] code_upper [of a] code_upper [of b] by (auto simp: same_kind_def)
  then have eq: "code_val a = code_val b" using assms(2) by simp
  have "is_digit c \<Longrightarrow> of_char c = code_val c + 48" "is_upper c \<Longrightarrow> of_char c = code_val c + 55" for c
    using code_digit [of c] code_upper [of c] by (auto simp: is_digit_def is_upper_def)
  then have "(of_char a :: nat) = of_char b" using assms(1) eq unfolding same_kind_def by metis
  then show ?thesis by simp
qed

lemma code_length: "same_kind a b \<Longrightarrow> length (iban_code a) = length (iban_code b)"
  using code_digit code_upper by (auto simp: same_kind_def)

definition digits_of :: "string \<Rightarrow> string" where
  "digits_of s = concat (map iban_code s)"

lemma digits_of_simps [simp]:
  "digits_of (s @ t) = digits_of s @ digits_of t" "digits_of (c # s) = iban_code c @ digits_of s" "digits_of [] = []"
  by (simp_all add: digits_of_def)

lemma substitution_changes:
  assumes "same_kind a b" and "a \<noteq> b"
  shows "parse_dec (digits_of (p @ a # r)) mod 97 \<noteq> parse_dec (digits_of (p @ b # r)) mod 97"
  using assms code_inj stretch_decides [OF code_length [OF assms(1)], of "digits_of p" "digits_of r"]
  by (auto simp: code_val_def)

lemma small_multiple:
  fixes m d k :: int
  assumes "m * d = 97 * k" and "\<bar>d\<bar> \<le> n" and "m * n < 97" and "0 < m"
  shows "d = 0"
proof -
  have "\<bar>97 * k\<bar> = m * \<bar>d\<bar>" using assms(1,4) by (metis abs_mult abs_of_pos)
  also have "\<dots> \<le> m * n" using assms(2,4) by simp
  finally have "\<bar>k\<bar> < 1" using assms(3) by linarith
  then show ?thesis using assms(1,4) by simp
qed

lemma swap_arith:
  assumes "x \<le> b" "y \<le> b" and "(w * x + y) mod 97 = (w * y + x) mod (97 :: nat)" and "w = 10 \<and> b = 9 \<or> w = 100 \<and> b = 35"
  shows "x = y"
proof -
  have "(97 :: int) dvd int (w * x + y) - int (w * y + x)" using assms(3) by (simp only: mod97_dvd)
  then obtain k where k: "int (w * x + y) - int (w * y + x) = 97 * k" by blast
  have bound: "\<bar>int x - int y\<bar> \<le> int b" using assms(1,2) by linarith
  have "int x - int y = 0"
  proof (rule disjE [OF assms(4)])
    assume w: "w = 10 \<and> b = 9"
    have "9 * (int x - int y) = 97 * k" using k w by simp
    then show ?thesis by (rule small_multiple [OF _ bound]) (use w in simp_all)
  next
    assume w: "w = 100 \<and> b = 35"
    have "2 * (int x - int y) = 97 * (k - (int x - int y))" using k w by (simp add: algebra_simps)
    then show ?thesis by (rule small_multiple [OF _ bound]) (use w in simp_all)
  qed
  then show ?thesis by simp
qed

lemma swap_changes:
  assumes "same_kind a b" and "a \<noteq> b"
  shows "parse_dec (digits_of (p @ a # b # r)) mod 97 \<noteq> parse_dec (digits_of (p @ b # a # r)) mod 97"
proof
  assume eq: "parse_dec (digits_of (p @ a # b # r)) mod 97 = parse_dec (digits_of (p @ b # a # r)) mod 97"
  have "parse_dec (iban_code a @ iban_code b) mod 97 = parse_dec (iban_code b @ iban_code a) mod 97"
    by (rule stretch_decides [of _ _ "digits_of p" "digits_of r"]) (use eq in \<open>simp_all add: ac_simps\<close>)
  then have "code_val a = code_val b"
    using assms(1) code_digit [of a] code_digit [of b] code_upper [of a] code_upper [of b]
      swap_arith [of "code_val a" 9 "code_val b" 10] swap_arith [of "code_val a" 35 "code_val b" 100]
    by (auto simp: same_kind_def parse_dec_app code_val_def mult.commute)
  then show False using code_inj assms by simp
qed

text \<open>Where a position of the account number ends up in the rearranged number.\<close>

lemma four_and_more: "4 \<le> length s \<Longrightarrow> \<exists>a b c d t. s = a # b # c # d # t"
  by (auto simp: Suc_le_length_iff numeral_eq_Suc)

lemma rotate_split:
  assumes "i < length s" and "4 \<le> length s"
  obtains p r where "\<And>x. drop 4 (s[i := x]) @ take 4 (s[i := x]) = p @ x # r"
proof -
  obtain a b c d t where s: "s = a # b # c # d # t" using four_and_more [OF assms(2)] by blast
  have "i = 0 \<or> i = 1 \<or> i = 2 \<or> i = 3 \<or> (\<exists>j. i = 4 + j)" by presburger
  then consider "i = 0" | "i = 1" | "i = 2" | "i = 3" | j where "i = 4 + j" by blast
  then show thesis
  proof cases
    case 1
    then show thesis by (intro that [of t "[b, c, d]"]) (simp add: s)
  next
    case 2
    then show thesis by (intro that [of "t @ [a]" "[c, d]"]) (simp add: s)
  next
    case 3
    then show thesis by (intro that [of "t @ [a, b]" "[d]"]) (simp add: s numeral_2_eq_2)
  next
    case 4
    then show thesis by (intro that [of "t @ [a, b, c]" "[]"]) (simp add: s numeral_3_eq_3)
  next
    case 5
    then show thesis
      by (intro that [of "take j t" "drop (Suc j) t @ [a, b, c, d]"])
        (use assms(1) in \<open>simp add: s upd_conv_take_nth_drop\<close>)
  qed
qed


lemma rotate_split2:
  assumes "Suc i < length s" and "4 \<le> length s" and "i \<noteq> 3"
  obtains p r where "\<And>x y. drop 4 (s[i := x, Suc i := y]) @ take 4 (s[i := x, Suc i := y]) = p @ x # y # r"
proof -
  obtain a b c d t where s: "s = a # b # c # d # t" using four_and_more [OF assms(2)] by blast
  have "i = 0 \<or> i = 1 \<or> i = 2 \<or> (\<exists>j. i = 4 + j)" using assms(3) by presburger
  then consider "i = 0" | "i = 1" | "i = 2" | j where "i = 4 + j" by blast
  then show thesis
  proof cases
    case 1
    then show thesis by (intro that [of t "[c, d]"]) (simp add: s)
  next
    case 2
    then show thesis by (intro that [of "t @ [a]" "[d]"]) (simp add: s)
  next
    case 3
    then show thesis by (intro that [of "t @ [a, b]" "[]"]) (simp add: s numeral_2_eq_2)
  next
    case 4
    have upd: "t[j := x, Suc j := y] = take j t @ x # y # drop (Suc (Suc j)) t" for x y
      using assms(1) 4 by (simp add: s upd_conv_take_nth_drop take_Suc_conv_app_nth nth_list_update list_update_append)
    show thesis
      by (intro that [of "take j t" "drop (Suc (Suc j)) t @ [a, b, c, d]"]) (simp add: s 4 upd)
  qed
qed

lemma clean_formatted: "list_all (\<lambda>c. is_upper c \<or> is_digit c) s \<Longrightarrow> clean_iban s = s"
  by (induction s)
    (auto simp: clean_iban_def strip_spaces_def to_upper_def is_lower_def is_upper_def is_digit_def is_space_def)

lemma format_chars: "iban_format s \<Longrightarrow> list_all (\<lambda>c. is_upper c \<or> is_digit c) s \<and> 15 \<le> length s"
proof -
  assume f: "iban_format s"
  have "s = take 2 s @ take 2 (drop 2 s) @ drop 4 s"
    by (metis append_take_drop_id drop_drop add_2_eq_Suc' numeral_Bit0 one_add_one)
  then show ?thesis using f unfolding iban_format_def
    by (metis (mono_tags, lifting) list_all_append list_all_length)
qed

text \<open>
  The check catches typing errors: when a valid account number has one of its
  characters replaced by another of the same kind (a digit by a digit, a letter by a
  letter), or two neighbours of the same kind exchanged (other than the last check digit
  with the character after it), the result is not valid.
\<close>

theorem iban_typos_detected:
  assumes "validate_iban s" and "c = clean_iban s"
  shows "(\<forall>i < length c. \<forall>x. same_kind x (c ! i) \<longrightarrow> x \<noteq> c ! i \<longrightarrow> \<not> validate_iban (c[i := x])) \<and>
    (\<forall>i. Suc i < length c \<longrightarrow> i \<noteq> 3 \<longrightarrow> same_kind (c ! i) (c ! Suc i) \<longrightarrow> c ! i \<noteq> c ! Suc i \<longrightarrow>
       \<not> validate_iban (c[i := c ! Suc i, Suc i := c ! i]))"
proof -
  have valid: "iban_format c" "iban_number c mod 97 = 1"
    using assms by (simp_all add: validate_iban_def Let_def)
  note chars = format_chars [OF valid(1)]
  have number: "iban_number t = parse_dec (digits_of (drop 4 t @ take 4 t))" for t
    by (simp add: iban_number_def digits_of_def)
  have refused: "\<not> validate_iban t"
    if "iban_number t mod 97 \<noteq> iban_number c mod 97" and "list_all (\<lambda>c. is_upper c \<or> is_digit c) t" for t
    using that valid(2) by (simp add: validate_iban_def clean_formatted Let_def)
  have one: "\<not> validate_iban (c[i := x])"
    if i: "i < length c" and x: "same_kind x (c ! i)" "x \<noteq> c ! i" for i x
  proof (rule refused)
    obtain p r where pr: "\<And>x. drop 4 (c[i := x]) @ take 4 (c[i := x]) = p @ x # r"
      using rotate_split [of i c] i chars by auto
    show "iban_number (c[i := x]) mod 97 \<noteq> iban_number c mod 97"
      using substitution_changes [OF x, of p r] pr [of x] pr [of "c ! i"]
      by (simp only: number list_update_id not_False_eq_True)
    show "list_all (\<lambda>c. is_upper c \<or> is_digit c) (c[i := x])"
      using chars x i by (auto simp: list_all_iff same_kind_def dest!: subsetD [OF set_update_subset_insert])
  qed
  have two: "\<not> validate_iban (c[i := c ! Suc i, Suc i := c ! i])"
    if i: "Suc i < length c" "i \<noteq> 3" and x: "same_kind (c ! i) (c ! Suc i)" "c ! i \<noteq> c ! Suc i" for i
  proof (rule refused)
    obtain p r where pr: "\<And>x y. drop 4 (c[i := x, Suc i := y]) @ take 4 (c[i := x, Suc i := y]) = p @ x # y # r"
      using rotate_split2 [of i c] i chars by auto
    show "iban_number (c[i := c ! Suc i, Suc i := c ! i]) mod 97 \<noteq> iban_number c mod 97"
      using swap_changes [OF x, of p r, symmetric] pr [of "c ! Suc i" "c ! i"] pr [of "c ! i" "c ! Suc i"]
      by (simp only: number list_update_id not_False_eq_True)
    have "c ! i \<in> set c" "c ! Suc i \<in> set c" using i by auto
    then show "list_all (\<lambda>c. is_upper c \<or> is_digit c) (c[i := c ! Suc i, Suc i := c ! i])"
      using chars by (auto simp: list_all_iff dest!: subsetD [OF set_update_subset_insert])
  qed
  from one two show ?thesis by blast
qed

theorem iban_typos_detected_witness:
  "\<not> validate_iban ''IT60X0542811101000000123457'' \<and> \<not> validate_iban ''IT60X0542811101000000123546''"
proof -
  let ?c = "''IT60X0542811101000000123456''"
  have c: "?c = clean_iban ''IT60 X054 2811 1010 0000 0123 456''" by code_simp
  have v: "validate_iban ''IT60 X054 2811 1010 0000 0123 456''"
    unfolding validate_iban_def Let_def c [symmetric]
    by (simp add: iban_format_def iban_number_def iban_code_def is_upper_def is_digit_def dec.simps digit_def parse_dec_def digit_val_def)
  note typos = iban_typos_detected [OF v c]
  have a: "26 < length ?c" "same_kind (CHR ''7'') (?c ! 26)" "CHR ''7'' \<noteq> ?c ! 26"
    by (simp_all add: same_kind_def is_digit_def)
  have b: "Suc 24 < length ?c" "24 \<noteq> (3 :: nat)" "same_kind (?c ! 24) (?c ! Suc 24)" "?c ! 24 \<noteq> ?c ! Suc 24"
    by (simp_all add: same_kind_def is_digit_def)
  have a': "?c[26 := CHR ''7''] = ''IT60X0542811101000000123457''" by simp
  have b': "?c[24 := ?c ! Suc 24, Suc 24 := ?c ! 24] = ''IT60X0542811101000000123546''" by simp
  show ?thesis
    using conjunct1 [OF typos, rule_format, OF a] conjunct2 [OF typos, rule_format, OF b]
    unfolding a' b' by (rule conjI)
qed

end
