(* ===== verification/Treasury.thy ===== *)
theory Treasury
  imports Iban JsNumber JsDate "HOL-Library.List_Lexorder" "HOL-Library.Char_ord"
begin

text \<open>
  Bank accounts and their transactions: \<^verbatim>\<open>backend/src/treasury/treasury.service.ts\<close>
  with its entities and the three bank adapters of \<^verbatim>\<open>psd2/\<close>. \<open>now\<close> is the clock of the request, keys and initialisation
  vectors are generated by the platform.
\<close>

section \<open>Entities\<close>

datatype bank_account_status = BaActive | BaInactive | BaClosed

datatype psd2_provider = Intesa | Unicredit | Bper | Manual

datatype sca_status = ScaReceived | ScaAuthenticated | ScaExpired

record psd2_consent =
  pc_consentId :: string
  pc_validUntil :: string
  pc_scaStatus :: sca_status

record bank_account = entity +
  ba_name :: string
  ba_ibanEncrypted :: string
  ba_ibanMasked :: "string option"
  ba_bicSwift :: "string option"
  ba_bankName :: "string option"
  ba_currency :: string
  ba_psd2Provider :: psd2_provider
  ba_psd2Consent :: "psd2_consent option"
  ba_status :: bank_account_status
  ba_lastTransactionCursor :: "string option"
  ba_lastSyncedAt :: "int option"
  ba_notes :: "string option"

datatype reconciliation_status = Unmatched | Matched | Partial | Ignored

record bank_transaction = entity +
  bt_bankAccountId :: uuid
  bt_externalId :: string
  bt_valueDate :: string
  bt_bookingDate :: string
  bt_amountCents :: int
  bt_currency :: string
  bt_description :: string
  bt_counterpartyName :: "string option"
  bt_counterpartyIbanEncrypted :: "string option"
  bt_reconciliationStatus :: reconciliation_status
  bt_matchedDocumentType :: "string option"
  bt_matchedDocumentId :: "uuid option"
  bt_matchedAt :: "int option"
  bt_matchedBy :: "uuid option"

record treasury_db =
  bankAccounts :: "bank_account list"
  bankTransactions :: "bank_transaction list"

section \<open>Bank adapters\<close>

record psd2_transaction =
  pt_externalId :: string
  pt_valueDate :: string
  pt_bookingDate :: string
  pt_amountCents :: int
  pt_currency :: string
  pt_description :: string
  pt_counterpartyName :: "string option"
  pt_counterpartyIban :: "string option"

record psd2_pull_result =
  pp_transactions :: "psd2_transaction list"
  pp_cursor :: "string option"

datatype psd2_mode = Sandbox | Production

record psd2_context =
  px_tenantId :: uuid
  px_ibanPlaintext :: string
  px_consent :: "psd2_consent option"
  px_mode :: psd2_mode

text \<open>\<open>uuid\<close> is what \<^verbatim>\<open>crypto.randomUUID()\<close> returns.\<close>

definition consent_of :: "string \<Rightarrow> int \<Rightarrow> uuid \<Rightarrow> psd2_context \<Rightarrow> http_error + psd2_consent" where
  "consent_of prefix now uuid ctx =
     (if px_mode ctx = Production then Inl NotImplemented
      else Inr \<lparr>pc_consentId = prefix @ uuid, pc_validUntil = iso_time (now + 90 * 24 * 60 * 60 * 1000),
                pc_scaStatus = ScaAuthenticated\<rparr>)"

definition intesa_pull :: "int \<Rightarrow> uuid \<Rightarrow> psd2_context \<Rightarrow> string option \<Rightarrow> http_error + psd2_pull_result" where
  "intesa_pull now uuid ctx sinceCursor =
     (if px_mode ctx = Production then Inl NotImplemented
      else
        (let synthetic =
           [\<lparr>pt_externalId = ''INTESA-SBX-TX-'' @ uuid, pt_valueDate = iso_date now, pt_bookingDate = iso_date now,
             pt_amountCents = 12500, pt_currency = ''EUR'', pt_description = ''BONIFICO RICEVUTO ACME SPA FATTURA 2026/0001'',
             pt_counterpartyName = Some ''Acme Spa'', pt_counterpartyIban = Some ''IT60X0542811101000000123456''\<rparr>]
         in Inr \<lparr>pp_transactions = (if truthy sinceCursor then [] else synthetic), pp_cursor = Some (iso_time now)\<rparr>))"

definition unicredit_pull :: "int \<Rightarrow> uuid \<Rightarrow> psd2_context \<Rightarrow> string option \<Rightarrow> http_error + psd2_pull_result" where
  "unicredit_pull now uuid ctx sinceCursor =
     (if px_mode ctx = Production then Inl NotImplemented
      else Inr
        \<lparr>pp_transactions =
           (if truthy sinceCursor then []
            else
              [\<lparr>pt_externalId = ''UCRED-SBX-TX-'' @ uuid, pt_valueDate = iso_date now, pt_bookingDate = iso_date now,
                pt_amountCents = - 45000, pt_currency = ''EUR'', pt_description = ''BONIFICO USCITA FORNITORE BETA SRL'',
                pt_counterpartyName = Some ''Beta Srl'', pt_counterpartyIban = Some ''IT89A0306909606100000123456''\<rparr>]),
         pp_cursor = Some (iso_time now)\<rparr>)"

definition bper_pull :: "int \<Rightarrow> psd2_context \<Rightarrow> string option \<Rightarrow> http_error + psd2_pull_result" where
  "bper_pull now ctx sinceCursor =
     (if px_mode ctx = Production then Inl NotImplemented
      else Inr \<lparr>pp_transactions = (if truthy sinceCursor then [] else []), pp_cursor = Some (iso_time now)\<rparr>)"

text \<open>
  The adapter of a provider, as the function its \<^verbatim>\<open>pullTransactions\<close> is. The adapters are
  injected into the service; \<open>repository_adapters\<close> are the ones the module wires.
\<close>

type_synonym psd2_pull = "psd2_context \<Rightarrow> string option \<Rightarrow> http_error + psd2_pull_result"

record psd2_adapters =
  pa_intesa :: psd2_pull
  pa_unicredit :: psd2_pull
  pa_bper :: psd2_pull

definition repository_adapters :: "int \<Rightarrow> uuid \<Rightarrow> psd2_adapters" where
  "repository_adapters now uuid =
     \<lparr>pa_intesa = intesa_pull now uuid, pa_unicredit = unicredit_pull now uuid, pa_bper = bper_pull now\<rparr>"

definition resolve_adapter :: "psd2_adapters \<Rightarrow> psd2_provider \<Rightarrow> http_error + psd2_pull" where
  "resolve_adapter ad provider =
     (case provider of
        Intesa \<Rightarrow> Inr (pa_intesa ad)
      | Unicredit \<Rightarrow> Inr (pa_unicredit ad)
      | Bper \<Rightarrow> Inr (pa_bper ad)
      | Manual \<Rightarrow> Inl BadRequest)"

section \<open>Accounts\<close>

record account_input =
  ai_name :: string
  ai_iban :: string
  ai_bicSwift :: "string option"
  ai_bankName :: "string option"
  ai_psd2Provider :: "psd2_provider option"
  ai_currency :: "string option"

text \<open>What the cipher uses: AES-256-GCM and the key of the environment.\<close>

record vault =
  va_aes :: aes_gcm
  va_key :: "string option"

definition save_account :: "bank_account \<Rightarrow> (treasury_db, bank_account) svc" where
  "save_account a = seq (modify (bankAccounts_update (save_row a))) (ret a)"

definition account_row :: "uuid \<Rightarrow> uuid \<Rightarrow> account_input \<Rightarrow> string \<Rightarrow> string \<Rightarrow> bank_account" where
  "account_row newId t dto encrypted masked =
     \<lparr>ent_id = newId, tenantId = t, ba_name = ai_name dto, ba_ibanEncrypted = encrypted, ba_ibanMasked = Some masked,
      ba_bicSwift = ai_bicSwift dto, ba_bankName = ai_bankName dto, ba_currency = nullish (ai_currency dto) ''EUR'',
      ba_psd2Provider = nullish (ai_psd2Provider dto) Manual, ba_psd2Consent = None, ba_status = BaActive,
      ba_lastTransactionCursor = None, ba_lastSyncedAt = None, ba_notes = None\<rparr>"

definition create_account :: "vault \<Rightarrow> string \<Rightarrow> uuid \<Rightarrow> uuid \<Rightarrow> account_input \<Rightarrow> (treasury_db, bank_account) svc" where
  "create_account v iv newId t dto =
     seq (throw_if (\<not> validate_iban (ai_iban dto)) BadRequest)
       (let ibanCleaned = clean_iban (ai_iban dto) in
        bind (lift (encrypt_iban (va_aes v) (va_key v) iv ibanCleaned)) (\<lambda>encrypted.
        save_account (account_row newId t dto encrypted (mask_iban ibanCleaned))))"

definition list_accounts :: "uuid \<Rightarrow> bank_account_status option \<Rightarrow> (treasury_db, bank_account list) svc" where
  "list_accounts t status =
     gets (\<lambda>s. sort_key ba_name (filter (\<lambda>a. tenantId a = t \<and> (status = None \<or> status = Some (ba_status a)))
       (bankAccounts s)))"

definition get_account :: "uuid \<Rightarrow> uuid \<Rightarrow> (treasury_db, bank_account) svc" where
  "get_account t i = bind (gets (\<lambda>s. find_scoped t i (bankAccounts s))) (\<lambda>a. require a NotFound)"

definition reveal_iban :: "vault \<Rightarrow> uuid \<Rightarrow> uuid \<Rightarrow> (treasury_db, string) svc" where
  "reveal_iban v t i =
     bind (get_account t i) (\<lambda>a. lift (decrypt_iban (va_aes v) (va_key v) (ba_ibanEncrypted a)))"

section \<open>Import of transactions\<close>

definition find_external :: "uuid \<Rightarrow> string \<Rightarrow> bank_transaction list \<Rightarrow> bank_transaction option" where
  "find_external t x rows = find (\<lambda>r. tenantId r = t \<and> bt_externalId r = x) rows"

definition encrypt_counterparty :: "vault \<Rightarrow> string \<Rightarrow> string option \<Rightarrow> http_error + string option" where
  "encrypt_counterparty v iv iban =
     (if truthy iban then
        (case encrypt_iban (va_aes v) (va_key v) iv (clean_iban (the iban)) of Inl e \<Rightarrow> Inl e | Inr c \<Rightarrow> Inr (Some c))
      else Inr None)"

definition transaction_row :: "uuid \<Rightarrow> uuid \<Rightarrow> uuid \<Rightarrow> psd2_transaction \<Rightarrow> string option \<Rightarrow> bank_transaction" where
  "transaction_row newId t acc tx counterparty =
     \<lparr>ent_id = newId, tenantId = t, bt_bankAccountId = acc, bt_externalId = pt_externalId tx,
      bt_valueDate = pt_valueDate tx, bt_bookingDate = pt_bookingDate tx, bt_amountCents = pt_amountCents tx,
      bt_currency = pt_currency tx, bt_description = pt_description tx,
      bt_counterpartyName = pt_counterpartyName tx, bt_counterpartyIbanEncrypted = counterparty,
      bt_reconciliationStatus = Unmatched, bt_matchedDocumentType = None, bt_matchedDocumentId = None,
      bt_matchedAt = None, bt_matchedBy = None\<rparr>"

text \<open>
  The import loop with its counter. \<open>gen\<close> lists the key and the initialisation vector
  generated for each transaction of the batch.
\<close>

fun import_transactions ::
  "vault \<Rightarrow> uuid \<Rightarrow> uuid \<Rightarrow> (uuid \<times> string) list \<Rightarrow> psd2_transaction list \<Rightarrow> int \<Rightarrow> (treasury_db, int) svc" where
  "import_transactions v t acc gen [] imported = ret imported"
| "import_transactions v t acc gen (tx # txs) imported =
     bind (gets (\<lambda>s. find_external t (pt_externalId tx) (bankTransactions s))) (\<lambda>existing.
     if existing \<noteq> None then import_transactions v t acc (tl gen) txs imported
     else
       bind (lift (encrypt_counterparty v (snd (hd gen)) (pt_counterpartyIban tx))) (\<lambda>counterparty.
       seq (modify (bankTransactions_update (save_row (transaction_row (fst (hd gen)) t acc tx counterparty))))
       (import_transactions v t acc (tl gen) txs (imported + 1))))"

text \<open>The answer is the number of new transactions and the cursor.\<close>

definition sync_psd2 ::
  "vault \<Rightarrow> psd2_adapters \<Rightarrow> int \<Rightarrow> (uuid \<times> string) list \<Rightarrow> uuid \<Rightarrow> uuid \<Rightarrow> psd2_mode \<Rightarrow>
   (treasury_db, int \<times> string option) svc" where
  "sync_psd2 v ad now gen t accountId mode =
     bind (get_account t accountId) (\<lambda>account.
     seq (throw_if (ba_psd2Provider account = Manual) BadRequest)
       (bind (lift (resolve_adapter ad (ba_psd2Provider account))) (\<lambda>adapter.
        bind (lift (decrypt_iban (va_aes v) (va_key v) (ba_ibanEncrypted account))) (\<lambda>iban.
        bind (lift (adapter
          \<lparr>px_tenantId = t, px_ibanPlaintext = iban, px_consent = ba_psd2Consent account, px_mode = mode\<rparr>
          (ba_lastTransactionCursor account))) (\<lambda>result.
        bind (import_transactions v t (ent_id account) gen (pp_transactions result) 0) (\<lambda>imported.
        bind (save_account (account\<lparr>ba_lastTransactionCursor := pp_cursor result, ba_lastSyncedAt := Some now\<rparr>)) (\<lambda>_.
        ret (imported, pp_cursor result))))))))"

section \<open>Reconciliation\<close>

definition list_unmatched :: "uuid \<Rightarrow> uuid option \<Rightarrow> (treasury_db, bank_transaction list) svc" where
  "list_unmatched t accountId =
     gets (\<lambda>s. take 500 (rev (sort_key bt_valueDate (filter (\<lambda>x. tenantId x = t \<and>
       bt_reconciliationStatus x = Unmatched \<and> (\<not> truthy accountId \<or> accountId = Some (bt_bankAccountId x)))
       (bankTransactions s)))))"

definition save_transaction :: "bank_transaction \<Rightarrow> (treasury_db, bank_transaction) svc" where
  "save_transaction x = seq (modify (bankTransactions_update (save_row x))) (ret x)"

definition manual_match ::
  "int \<Rightarrow> uuid \<Rightarrow> uuid \<Rightarrow> uuid \<Rightarrow> string \<Rightarrow> uuid \<Rightarrow> (treasury_db, bank_transaction) svc" where
  "manual_match now t txId actor documentType documentId =
     bind (gets (\<lambda>s. find_scoped t txId (bankTransactions s))) (\<lambda>r.
     bind (require r NotFound) (\<lambda>tx.
     save_transaction (tx\<lparr>bt_matchedDocumentType := Some documentType, bt_matchedDocumentId := Some documentId,
       bt_reconciliationStatus := Matched, bt_matchedAt := Some now, bt_matchedBy := Some actor\<rparr>)))"

definition ignore_transaction :: "int \<Rightarrow> uuid \<Rightarrow> uuid \<Rightarrow> uuid \<Rightarrow> (treasury_db, bank_transaction) svc" where
  "ignore_transaction now t txId actor =
     bind (gets (\<lambda>s. find_scoped t txId (bankTransactions s))) (\<lambda>r.
     bind (require r NotFound) (\<lambda>tx.
     save_transaction (tx\<lparr>bt_reconciliationStatus := Ignored, bt_matchedAt := Some now, bt_matchedBy := Some actor\<rparr>)))"

end
