(* ===== verification/TreasuryProps.thy ===== *)
theory TreasuryProps
  imports Treasury
begin

text \<open>
  Correctness of the treasury service: the import of bank transactions happens exactly
  once per external identifier, and the account number entered is the one that is
  revealed.
\<close>

section \<open>The import loop\<close>

lemma find_external_None: "find_external t x rows = None \<longleftrightarrow> x \<notin> bt_externalId ` {r \<in> set rows. tenantId r = t}"
  by (auto simp: find_external_def find_None_iff)

definition known_ids :: "uuid \<Rightarrow> treasury_db \<Rightarrow> string set" where
  "known_ids t s = bt_externalId ` {r \<in> set (bankTransactions s). tenantId r = t}"

lemma import_known:
  "pt_externalId ` set txs \<subseteq> known_ids t s \<Longrightarrow> import_transactions v t acc gen txs n s = (Inr n, s)"
proof (induction txs arbitrary: gen)
  case (Cons tx txs)
  then have "find_external t (pt_externalId tx) (bankTransactions s) \<noteq> None"
    unfolding find_external_None by (auto simp: known_ids_def)
  with Cons show ?case by (simp add: bind_def gets_def)
qed (simp add: ret_def)

lemma transaction_row_sel:
  "ent_id (transaction_row i t acc tx cp) = i" "tenantId (transaction_row i t acc tx cp) = t"
  "bt_bankAccountId (transaction_row i t acc tx cp) = acc"
  "bt_externalId (transaction_row i t acc tx cp) = pt_externalId tx"
  "bt_reconciliationStatus (transaction_row i t acc tx cp) = Unmatched"
  by (simp_all add: transaction_row_def)

text \<open>What one run of the loop adds.\<close>

definition imported_rows :: "uuid \<Rightarrow> uuid \<Rightarrow> psd2_transaction list \<Rightarrow> treasury_db \<Rightarrow> bank_transaction list \<Rightarrow> bool" where
  "imported_rows t acc txs s new \<longleftrightarrow>
     distinct (map bt_externalId new) \<and>
     set (map bt_externalId new) = pt_externalId ` set txs - known_ids t s \<and>
     (\<forall>x\<in>set new. tenantId x = t \<and> bt_bankAccountId x = acc \<and> bt_reconciliationStatus x = Unmatched)"

lemma import_adds:
  assumes "import_transactions v t acc gen txs n s = (Inr m, s')"
    and "length txs \<le> length gen" and "distinct (map fst gen)"
    and "\<forall>g\<in>set gen. fresh (fst g) (bankTransactions s)"
  shows "\<exists>new. s' = bankTransactions_update (\<lambda>rows. rows @ new) s \<and> m = n + int (length new) \<and> imported_rows t acc txs s new"
  using assms
proof (induction txs arbitrary: gen n s)
  case Nil
  then show ?case by (intro exI [of _ "[]"]) (simp add: ret_def imported_rows_def)
next
  case (Cons tx txs)
  then obtain g gen' where gen: "gen = g # gen'" by (cases gen) auto
  show ?case
  proof (cases "find_external t (pt_externalId tx) (bankTransactions s)")
    case (Some r)
    then have known: "pt_externalId tx \<in> known_ids t s"
      using find_external_None [of t "pt_externalId tx" "bankTransactions s"] by (auto simp: known_ids_def)
    have "import_transactions v t acc gen' txs n s = (Inr m, s')"
      using Cons.prems(1) Some by (simp add: gen bind_def gets_def)
    from Cons.IH [OF this] Cons.prems known show ?thesis by (auto simp: gen imported_rows_def)
  next
    case None
    then have unknown: "pt_externalId tx \<notin> known_ids t s" unfolding find_external_None known_ids_def .
    from Cons.prems(1) None obtain cp
      where "import_transactions v t acc gen' txs (n + 1)
        (bankTransactions_update (save_row (transaction_row (fst g) t acc tx cp)) s) = (Inr m, s')"
      by (auto simp: gen svc_simps)
    then obtain row where row: "ent_id row = fst g" "tenantId row = t" "bt_bankAccountId row = acc"
        "bt_externalId row = pt_externalId tx" "bt_reconciliationStatus row = Unmatched"
      and rest: "import_transactions v t acc gen' txs (n + 1) (bankTransactions_update (save_row row) s) = (Inr m, s')"
      by (metis transaction_row_sel)
    let ?s = "bankTransactions_update (\<lambda>rows. rows @ [row]) s"
    have saved: "bankTransactions_update (save_row row) s = ?s"
      using Cons.prems(4) row(1) by (simp add: gen fresh_def save_row_def)
    have ids: "known_ids t ?s = insert (pt_externalId tx) (known_ids t s)"
      using row by (force simp: known_ids_def)
    have "\<forall>g\<in>set gen'. fresh (fst g) (bankTransactions ?s)"
      using Cons.prems(3,4) row(1) by (auto simp: gen fresh_def image_iff)
    with Cons.IH [OF rest [unfolded saved]] Cons.prems(2,3)
    obtain new where new: "s' = bankTransactions_update (\<lambda>rows. rows @ new) ?s" "m = n + 1 + int (length new)"
      "imported_rows t acc txs ?s new" by (auto simp: gen)
    have "imported_rows t acc (tx # txs) s (row # new)"
      using new(3) unknown row by (auto simp: imported_rows_def ids)
    with new(1,2) show ?thesis by (intro exI [of _ "row # new"]) simp
  qed
qed

lemma resolve_same:
  "resolve_adapter \<lparr>pa_intesa = f, pa_unicredit = f, pa_bper = f\<rparr> p = Inr g \<longleftrightarrow> p \<noteq> Manual \<and> g = f"
  by (cases p) (auto simp: resolve_adapter_def)

text \<open>
  A bank that delivers the same batch of transactions again does no harm. The first
  synchronisation of an account appends one unmatched transaction for each external
  identifier of the batch that the tenant does not have yet, reports their number, and
  leaves every transaction that was there, with its match, as it is; a second one with the
  same batch, whenever it comes, adds nothing and reports zero.
\<close>

theorem bank_import_exactly_once:
  assumes "sync_psd2 v \<lparr>pa_intesa = feed, pa_unicredit = feed, pa_bper = feed\<rparr> now gen t a mode s = (Inr (n, c), s')"
    and "feed = (\<lambda>_ _. Inr \<lparr>pp_transactions = batch, pp_cursor = c'\<rparr>)"
    and "length batch \<le> length gen" and "distinct (map fst gen)"
    and "\<forall>g\<in>set gen. fresh (fst g) (bankTransactions s)"
    and "keyed (bankAccounts s)"
  shows "(\<exists>new. bankTransactions s' = bankTransactions s @ new \<and> n = int (length new) \<and>
      distinct (map bt_externalId new) \<and>
      set (map bt_externalId new) = pt_externalId ` set batch - bt_externalId ` {r \<in> set (bankTransactions s). tenantId r = t} \<and>
      (\<forall>x\<in>set new. tenantId x = t \<and> bt_bankAccountId x = a \<and> bt_reconciliationStatus x = Unmatched)) \<and>
    (\<exists>s''. sync_psd2 v \<lparr>pa_intesa = feed, pa_unicredit = feed, pa_bper = feed\<rparr> now' gen' t a mode s' = (Inr (0, c'), s'') \<and>
      bankTransactions s'' = bankTransactions s')"
proof -
  let ?ad = "\<lparr>pa_intesa = feed, pa_unicredit = feed, pa_bper = feed\<rparr>"
  obtain acc iban u where acc: "find_scoped t a (bankAccounts s) = Some acc" "ba_psd2Provider acc \<noteq> Manual"
    and iban: "decrypt_iban (va_aes v) (va_key v) (ba_ibanEncrypted acc) = Inr iban"
    and imp: "import_transactions v t (ent_id acc) gen batch 0 s = (Inr n, u)"
    and s': "s' = bankAccounts_update (save_row (acc\<lparr>ba_lastTransactionCursor := c', ba_lastSyncedAt := Some now\<rparr>)) u"
    using assms(1) by (auto simp: sync_psd2_def get_account_def resolve_same save_account_def svc_simps assms(2))
  have ids: "ent_id acc = a" "tenantId acc = t" using find_scoped_Some [OF acc(1)] by simp_all
  obtain new where u: "u = bankTransactions_update (\<lambda>rows. rows @ new) s" "n = int (length new)" "imported_rows t a batch s new"
    using import_adds [OF imp assms(3,4,5)] ids by auto
  have known: "pt_externalId ` set batch \<subseteq> known_ids t s'"
  proof
    fix x
    assume "x \<in> pt_externalId ` set batch"
    then have "x \<in> known_ids t s \<or> x \<in> bt_externalId ` {r \<in> set new. tenantId r = t}"
      using u(3) unfolding imported_rows_def set_map by blast
    then show "x \<in> known_ids t s'" unfolding known_ids_def s' u(1) by (simp, blast)
  qed
  obtain acc' where acc': "find_scoped t a (bankAccounts s') = Some acc'" "ba_psd2Provider acc' \<noteq> Manual"
      "ba_ibanEncrypted acc' = ba_ibanEncrypted acc"
    using acc assms(6) ids by (simp add: s' u(1) find_scoped_save)
  have "\<exists>s''. sync_psd2 v ?ad now' gen' t a mode s' = (Inr (0, c'), s'') \<and> bankTransactions s'' = bankTransactions s'"
    using acc' iban import_known [OF known]
    by (simp add: sync_psd2_def get_account_def save_account_def svc_defs iffD2 [OF resolve_same] assms(2))
  with u show ?thesis by (simp add: s' imported_rows_def known_ids_def)
qed

definition plain_vault :: vault where
  "plain_vault =
     \<lparr>va_aes = \<lparr>aes_seal = (\<lambda>key iv pt. (pt, '''')), aes_open = (\<lambda>key iv tag ct. Some ct)\<rparr>,
      va_key = Some (b64_encode (replicate 32 CHR ''k''))\<rparr>"

lemma plain_vault_correct: "aes_correct (va_aes plain_vault)"
  by (simp add: aes_correct_def plain_vault_def)

lemma plain_vault_key: "load_key (va_key plain_vault) = Inr (replicate 32 CHR ''k'')"
proof -
  have "b64_encode x \<noteq> []" if "x \<noteq> []" for x :: string
    using that by (cases x rule: b64_encode.cases) (simp_all add: Let_def)
  then show ?thesis by (simp add: load_key_def plain_vault_def del: replicate.simps)
qed

definition bank_1 :: treasury_db where
  "bank_1 =
     \<lparr>bankAccounts =
        [\<lparr>ent_id = ''a'', tenantId = ''T'', ba_name = ''Conto'',
          ba_ibanEncrypted = projr (encrypt_iban (va_aes plain_vault) (va_key plain_vault) ''iv'' ''IT60X0542811101000000123456''),
          ba_ibanMasked = None, ba_bicSwift = None, ba_bankName = None, ba_currency = ''EUR'', ba_psd2Provider = Bper,
          ba_psd2Consent = None, ba_status = BaActive, ba_lastTransactionCursor = None, ba_lastSyncedAt = None,
          ba_notes = None\<rparr>],
      bankTransactions = []\<rparr>"

definition bank_batch :: "psd2_transaction list" where
  "bank_batch =
     [\<lparr>pt_externalId = ''x1'', pt_valueDate = ''2026-01-02'', pt_bookingDate = ''2026-01-02'', pt_amountCents = 100,
       pt_currency = ''EUR'', pt_description = ''d'', pt_counterpartyName = None, pt_counterpartyIban = None\<rparr>]"

definition bank_feed :: psd2_pull where
  "bank_feed = (\<lambda>_ _. Inr \<lparr>pp_transactions = bank_batch, pp_cursor = None\<rparr>)"

lemma plain_encrypts:
  "encrypt_iban (va_aes plain_vault) (va_key plain_vault) iv iban =
     Inr (projr (encrypt_iban (va_aes plain_vault) (va_key plain_vault) iv iban))"
  by (simp add: encrypt_iban_def plain_vault_key split: prod.split)

lemma bank_1_iban:
  "decrypt_iban (va_aes plain_vault) (va_key plain_vault)
     (projr (encrypt_iban (va_aes plain_vault) (va_key plain_vault) ''iv'' iban)) = Inr iban"
  by (rule decrypt_encrypt [OF plain_vault_correct plain_encrypts])

theorem bank_import_exactly_once_witness:
  "\<exists>s' s''. sync_psd2 plain_vault \<lparr>pa_intesa = bank_feed, pa_unicredit = bank_feed, pa_bper = bank_feed\<rparr> 1
       [(''t1'', ''iv'')] ''T'' ''a'' Sandbox bank_1 = (Inr (1, None), s') \<and>
     sync_psd2 plain_vault \<lparr>pa_intesa = bank_feed, pa_unicredit = bank_feed, pa_bper = bank_feed\<rparr> 2
       [(''t2'', ''iv'')] ''T'' ''a'' Sandbox s' = (Inr (0, None), s'') \<and>
     bankTransactions s'' = bankTransactions s'"
proof -
  obtain s' where run: "sync_psd2 plain_vault \<lparr>pa_intesa = bank_feed, pa_unicredit = bank_feed, pa_bper = bank_feed\<rparr> 1
      [(''t1'', ''iv'')] ''T'' ''a'' Sandbox bank_1 = (Inr (1, None), s')"
    by (simp add: sync_psd2_def get_account_def save_account_def svc_defs resolve_adapter_def find_scoped_def bank_1_iban
        bank_1_def bank_feed_def bank_batch_def find_external_def encrypt_counterparty_def)
  have "\<forall>g\<in>set [(''t1'', ''iv'')]. fresh (fst g) (bankTransactions bank_1)" "keyed (bankAccounts bank_1)"
    by (simp_all add: fresh_def keyed_def bank_1_def)
  from bank_import_exactly_once [OF run bank_feed_def _ _ this, of 2 "[(''t2'', ''iv'')]"] run show ?thesis
    by (auto simp: bank_batch_def)
qed

section \<open>Account numbers\<close>

text \<open>What the requests of the service do to the tables, failed ones included.\<close>

inductive treasury_step :: "vault \<Rightarrow> treasury_db \<Rightarrow> treasury_db \<Rightarrow> bool" for v where
  created: "fresh i (bankAccounts s) \<Longrightarrow> create_account v iv i t dto s = (r, s') \<Longrightarrow> treasury_step v s s'"
| synced: "sync_psd2 v ad now gen t a mode s = (r, s') \<Longrightarrow> treasury_step v s s'"
| matched: "manual_match now t x actor k d s = (r, s') \<Longrightarrow> treasury_step v s s'"
| ignored: "ignore_transaction now t x actor s = (r, s') \<Longrightarrow> treasury_step v s s'"

definition holds_iban :: "uuid \<Rightarrow> uuid \<Rightarrow> string \<Rightarrow> treasury_db \<Rightarrow> bool" where
  "holds_iban t i c s \<longleftrightarrow> keyed (bankAccounts s) \<and> (\<exists>a. find_id i (bankAccounts s) = Some a \<and> tenantId a = t \<and> ba_ibanEncrypted a = c)"

lemma import_keeps_accounts: "import_transactions v t acc gen txs n s = (r, s') \<Longrightarrow> bankAccounts s' = bankAccounts s"
proof (induction txs arbitrary: gen n s)
  case Nil
  then show ?case by (simp add: ret_def)
next
  case (Cons tx txs)
  show ?case
  proof (cases "find_external t (pt_externalId tx) (bankTransactions s)")
    case None
    show ?thesis
    proof (cases "encrypt_counterparty v (snd (hd gen)) (pt_counterpartyIban tx)")
      case (Inr cp)
      with None Cons.prems show ?thesis by (auto simp: svc_defs dest: Cons.IH)
    qed (use None Cons.prems in \<open>simp add: svc_defs\<close>)
  qed (use Cons in \<open>auto simp: svc_defs\<close>)
qed

lemma create_effect:
  assumes "create_account v iv i t dto s = (r, s')"
  shows "s' = s \<or> (\<exists>row. ent_id row = i \<and> s' = bankAccounts_update (save_row row) s)"
proof -
  have "ent_id (account_row i t dto e m) = i" for e m by (simp add: account_row_def)
  then show ?thesis using assms
    by (cases "encrypt_iban (va_aes v) (va_key v) iv (clean_iban (ai_iban dto))")
      (auto simp: create_account_def save_account_def svc_defs Let_def split: if_splits)
qed

lemma sync_effect:
  assumes "sync_psd2 v ad now gen t a mode s = (r, s')"
  shows "\<exists>u. bankAccounts u = bankAccounts s \<and>
    (s' = u \<or> (\<exists>acc c. find_scoped t a (bankAccounts s) = Some acc \<and>
       s' = bankAccounts_update (save_row (acc\<lparr>ba_lastTransactionCursor := c, ba_lastSyncedAt := Some now\<rparr>)) u))"
proof (cases r)
  case (Inl e)
  then show ?thesis using assms
    by (auto simp: sync_psd2_def get_account_def save_account_def svc_defs dest: import_keeps_accounts
        split: if_splits sum.splits prod.splits option.splits)
next
  case (Inr x)
  then show ?thesis using assms
    by (cases x) (auto simp: sync_psd2_def get_account_def save_account_def svc_simps dest: import_keeps_accounts)
qed

lemma step_holds_iban:
  assumes "treasury_step v s s'" and "holds_iban t i c s"
  shows "holds_iban t i c s'"
  using assms
proof (cases rule: treasury_step.cases)
  case (created j iv t' dto r)
  from assms(2) have "i \<noteq> j"
    using created(1) by (auto simp: holds_iban_def fresh_def find_id_keyed)
  with create_effect [OF created(2)] assms(2) show ?thesis
    by (auto simp: holds_iban_def keyed_save_row table.lookup_save)
next
  case (synced ad now gen t' a mode r)
  then obtain u where u: "bankAccounts u = bankAccounts s"
      "s' = u \<or> (\<exists>acc c. find_scoped t' a (bankAccounts s) = Some acc \<and>
       s' = bankAccounts_update (save_row (acc\<lparr>ba_lastTransactionCursor := c, ba_lastSyncedAt := Some now\<rparr>)) u)"
    using sync_effect by blast
  obtain b where b: "keyed (bankAccounts s)" "find_id i (bankAccounts s) = Some b" "tenantId b = t" "ba_ibanEncrypted b = c"
    using assms(2) by (auto simp: holds_iban_def)
  have "acc = b" if "find_scoped t' a (bankAccounts s) = Some acc" "i = ent_id acc" for acc
    using that b by (auto simp: find_scoped_keyed find_id_keyed dest: table.key_inj)
  then show ?thesis using u b
    by (auto simp: holds_iban_def keyed_save_row table.lookup_save)
next
  case matched
  then show ?thesis using assms(2)
    by (auto simp: manual_match_def save_transaction_def svc_defs holds_iban_def split: option.splits)
next
  case ignored
  then show ?thesis using assms(2)
    by (auto simp: ignore_transaction_def save_transaction_def svc_defs holds_iban_def split: option.splits)
qed

text \<open>
  The account number of a bank account survives storage: after the account was
  created, and whatever requests the service serves after that, successful or not, the
  number revealed is the one that was entered, without spaces and in capitals, and it
  satisfies the check of account numbers. The list shows at most four characters at either
  end of it.
\<close>

theorem revealed_iban_is_entered_iban:
  assumes "aes_correct (va_aes v)" and "keyed (bankAccounts s)"
    and "create_account v iv i t dto s = (Inr a, s1)" and "(treasury_step v)\<^sup>*\<^sup>* s1 s2"
  shows "reveal_iban v t i s2 = (Inr (clean_iban (ai_iban dto)), s2) \<and>
    validate_iban (clean_iban (ai_iban dto)) \<and>
    ba_ibanMasked a = Some (take 4 (clean_iban (ai_iban dto)) @ ''****'' @
      drop (length (clean_iban (ai_iban dto)) - 4) (clean_iban (ai_iban dto)))"
proof -
  let ?c = "clean_iban (ai_iban dto)"
  obtain e where valid: "validate_iban (ai_iban dto)" and e: "encrypt_iban (va_aes v) (va_key v) iv ?c = Inr e"
    and a: "ent_id a = i" "tenantId a = t" "ba_ibanEncrypted a = e" "ba_ibanMasked a = Some (mask_iban ?c)"
    and s1: "s1 = bankAccounts_update (save_row a) s"
    using assms(3) by (auto simp: create_account_def save_account_def account_row_def svc_simps Let_def)
  have "holds_iban t i e s1"
    using assms(2) a by (auto simp: s1 holds_iban_def keyed_save_row table.lookup_save)
  with assms(4) have "holds_iban t i e s2" by (induction rule: rtranclp_induct) (auto intro: step_holds_iban)
  then have "reveal_iban v t i s2 = (Inr ?c, s2)"
    using decrypt_encrypt [OF assms(1) e]
    by (auto simp: holds_iban_def reveal_iban_def get_account_def svc_defs find_scoped_find_id)
  moreover have chars: "list_all (\<lambda>c. is_upper c \<or> is_digit c) ?c"
    using valid format_chars by (simp add: validate_iban_def Let_def)
  moreover have "strip_spaces ?c = ?c"
    unfolding strip_spaces_def by (rule filter_True) (use chars in \<open>auto simp: list_all_iff is_space_def is_upper_def is_digit_def\<close>)
  moreover have "\<not> length ?c < 8" using valid by (simp add: validate_iban_def iban_format_def Let_def)
  ultimately show ?thesis using valid a(4) by (simp add: validate_iban_def mask_iban_def clean_formatted Let_def)
qed

theorem revealed_iban_is_entered_iban_witness:
  "\<exists>s1. fst (reveal_iban plain_vault ''T'' ''b'' s1) = Inr ''IT60X0542811101000000123456''"
proof -
  let ?dto = "\<lparr>ai_name = ''Conto'', ai_iban = ''IT60 X054 2811 1010 0000 0123 456'', ai_bicSwift = None, ai_bankName = None,
    ai_psd2Provider = None, ai_currency = None\<rparr>"
  have c: "clean_iban ''IT60 X054 2811 1010 0000 0123 456'' = ''IT60X0542811101000000123456''" by code_simp
  have valid: "validate_iban ''IT60 X054 2811 1010 0000 0123 456''"
    unfolding validate_iban_def Let_def c
    by (simp add: iban_format_def iban_number_def iban_code_def is_upper_def is_digit_def dec.simps digit_def parse_dec_def
        digit_val_def)
  obtain a s1 where "create_account plain_vault ''iv'' ''b'' ''T'' ?dto bank_1 = (Inr a, s1)"
    using plain_encrypts [of "''iv''" "''IT60X0542811101000000123456''"]
    by (cases "encrypt_iban (va_aes plain_vault) (va_key plain_vault) ''iv'' ''IT60X0542811101000000123456''")
      (simp_all add: create_account_def save_account_def svc_defs Let_def valid c)
  have "keyed (bankAccounts bank_1)" by (simp add: bank_1_def keyed_def)
  from revealed_iban_is_entered_iban [OF plain_vault_correct this \<open>create_account _ _ _ _ _ _ = _\<close> rtranclp.rtrancl_refl] c
  show ?thesis by (intro exI [of _ s1]) simp
qed

end
