(* ===== verification/Accounting.thy ===== *)
theory Accounting
  imports Sales JsDate
begin

text \<open>
  The accounting service, \<^verbatim>\<open>backend/src/accounting/accounting.service.ts\<close>: chart of
  accounts, journal, invoices with their posting, and the periodic VAT liquidation, with the
  entities of \<^verbatim>\<open>accounting.entity.ts\<close>. Dates are \<^verbatim>\<open>YYYY-MM-DD\<close> texts and the
  server runs in UTC; the customers are the rows of the sales module. Amounts are the doubles
  the code computes: a stored amount has been through \<^verbatim>\<open>toFixed(2)\<close>, so that the decimal
  column returns the same number.
\<close>

section \<open>Entities\<close>

datatype account_type = AcAsset | AcLiability | AcEquity | AcRevenue | AcExpense | AcCostOfGoodsSold | AcOther

datatype invoice_document_type = TD01 | TD02 | TD04 | TD05 | TD17 | TD18 | TD19 | TD24 | TD26

datatype invoice_status =
    InvDraft | InvQueued | InvSent | InvReceived | InvAccepted | InvRejected | InvNotDelivered | InvExpired | InvCancelled

record chart_of_account = entity +
  coa_code :: string
  coa_description :: string
  coa_type :: account_type
  coa_parentCode :: "string option"
  coa_isActive :: bool
  coa_isBankAccount :: bool

record journal_line =
  jl_accountId :: string
  jl_accountCode :: string
  jl_debit :: jsnum
  jl_credit :: jsnum
  jl_description :: "string option"

record journal_entry = entity +
  je_reference :: string
  je_entryDate :: string
  je_journal :: string
  je_description :: string
  je_lines :: "journal_line list"
  je_totalDebit :: jsnum
  je_totalCredit :: jsnum
  je_isPosted :: bool

record invoice_line =
  il_description :: string
  il_quantity :: jsnum
  il_unitPrice :: jsnum
  il_ivaRate :: jsnum
  il_ivaNature :: "string option"
  il_lineTotal :: jsnum

record invoice = entity +
  inv_documentType :: invoice_document_type
  inv_number :: string
  inv_fiscalYear :: nat
  inv_invoiceDate :: string
  inv_customerId :: uuid
  inv_customerName :: string
  inv_customerVatNumber :: "string option"
  inv_customerFiscalCode :: "string option"
  inv_customerSdiCode :: "string option"
  inv_customerPecEmail :: "string option"
  inv_status :: invoice_status
  inv_subtotalAmount :: jsnum
  inv_taxAmount :: jsnum
  inv_totalAmount :: jsnum
  inv_lines :: "invoice_line list"
  inv_submittedAt :: "int option"
  inv_notes :: "string option"

record accounting_db =
  chartOfAccounts :: "chart_of_account list"
  journalEntries :: "journal_entry list"
  invoices :: "invoice list"
  invoiceCustomers :: "customer list"

section \<open>Requests\<close>

record coa_input =
  cai_code :: string
  cai_description :: string
  cai_type :: account_type
  cai_parentCode :: "string option"
  cai_isBankAccount :: "bool option"

record journal_line_input =
  jli_accountId :: "string option"
  jli_accountCode :: string
  jli_debit :: "jsnum option"
  jli_credit :: "jsnum option"
  jli_description :: "string option"

record journal_input =
  ji_reference :: string
  ji_entryDate :: string
  ji_journal :: "string option"
  ji_description :: string
  ji_lines :: "journal_line_input list"
  ji_autoPost :: "bool option"

record invoice_line_input =
  ili_description :: string
  ili_quantity :: jsnum
  ili_unitPrice :: jsnum
  ili_ivaRate :: jsnum
  ili_ivaNature :: "string option"

record invoice_input =
  ii_documentType :: "invoice_document_type option"
  ii_invoiceDate :: string
  ii_customerId :: uuid
  ii_customerName :: string
  ii_customerVatNumber :: "string option"
  ii_customerFiscalCode :: "string option"
  ii_customerSdiCode :: "string option"
  ii_customerPecEmail :: "string option"
  ii_salesOrderId :: "uuid option"
  ii_lines :: "invoice_line_input list"
  ii_notes :: "string option"

section \<open>Chart of accounts\<close>

definition CREDITI_CLIENTI :: string where "CREDITI_CLIENTI = ''01.04''"
definition IVA_DEBITO :: string where "IVA_DEBITO = ''02.02.001''"
definition RICAVI_VENDITA :: string where "RICAVI_VENDITA = ''04.01.001''"

definition find_code :: "uuid \<Rightarrow> string \<Rightarrow> chart_of_account list \<Rightarrow> chart_of_account option" where
  "find_code t c rows = find (\<lambda>a. tenantId a = t \<and> coa_code a = c) rows"

definition account_of :: "uuid \<Rightarrow> uuid \<Rightarrow> coa_input \<Rightarrow> chart_of_account" where
  "account_of i t dto =
     \<lparr>ent_id = i, tenantId = t, coa_code = cai_code dto, coa_description = cai_description dto, coa_type = cai_type dto,
      coa_parentCode = cai_parentCode dto, coa_isActive = True, coa_isBankAccount = nullish (cai_isBankAccount dto) False\<rparr>"

definition create_coa :: "uuid \<Rightarrow> uuid \<Rightarrow> coa_input \<Rightarrow> (accounting_db, chart_of_account) svc" where
  "create_coa newId t dto =
     bind (gets (\<lambda>s. find_code t (cai_code dto) (chartOfAccounts s))) (\<lambda>existing.
     seq (throw_if (existing \<noteq> None) BadRequest)
       (seq (modify (chartOfAccounts_update (save_row (account_of newId t dto)))) (ret (account_of newId t dto))))"

definition list_coa :: "uuid \<Rightarrow> account_type option \<Rightarrow> (accounting_db, chart_of_account list) svc" where
  "list_coa t type =
     gets (\<lambda>s. sort_key coa_code (filter (\<lambda>a. tenantId a = t \<and> coa_isActive a \<and> (type = None \<or> type = Some (coa_type a)))
       (chartOfAccounts s)))"

definition get_account_by_code :: "uuid \<Rightarrow> string \<Rightarrow> (accounting_db, chart_of_account option) svc" where
  "get_account_by_code t c = gets (\<lambda>s. find_code t c (chartOfAccounts s))"

text \<open>One row of the template; descriptions are given in ASCII.\<close>

definition template_row :: "string \<Rightarrow> string \<Rightarrow> account_type \<Rightarrow> string option \<Rightarrow> bool option \<Rightarrow> coa_input" where
  "template_row c d ty p b =
     \<lparr>cai_code = c, cai_description = d, cai_type = ty, cai_parentCode = p, cai_isBankAccount = b\<rparr>"

definition coa_template :: "coa_input list" where
  "coa_template =
    [template_row ''01'' ''ATTIVITA'' AcAsset None None,
     template_row ''01.01'' ''Immobilizzazioni immateriali (B.I art. 2424)'' AcAsset (Some ''01'') None,
     template_row ''01.02'' ''Immobilizzazioni materiali (B.II art. 2424)'' AcAsset (Some ''01'') None,
     template_row ''01.03'' ''Rimanenze (C.I art. 2424)'' AcAsset (Some ''01'') None,
     template_row ''01.04'' ''Crediti verso clienti (C.II.1 art. 2424)'' AcAsset (Some ''01'') None,
     template_row ''01.05'' ''Disponibilita liquide (C.IV art. 2424)'' AcAsset (Some ''01'') None,
     template_row ''01.05.001'' ''Banca c/c'' AcAsset (Some ''01.05'') (Some True),
     template_row ''01.05.002'' ''Cassa contante'' AcAsset (Some ''01.05'') None,
     template_row ''02'' ''PASSIVITA'' AcLiability None None,
     template_row ''02.01'' ''Debiti verso fornitori (D.7 art. 2424)'' AcLiability (Some ''02'') None,
     template_row ''02.02'' ''Debiti tributari (D.12 art. 2424)'' AcLiability (Some ''02'') None,
     template_row ''02.02.001'' ''IVA a debito'' AcLiability (Some ''02.02'') None,
     template_row ''02.03'' ''Debiti verso istituti di previdenza (D.13 art. 2424)'' AcLiability (Some ''02'') None,
     template_row ''03'' ''PATRIMONIO NETTO (A art. 2424)'' AcEquity None None,
     template_row ''03.01'' ''Capitale sociale (A.I art. 2424)'' AcEquity (Some ''03'') None,
     template_row ''03.02'' ''Riserve (A.IV-VIII art. 2424)'' AcEquity (Some ''03'') None,
     template_row ''04'' ''RICAVI (A art. 2425)'' AcRevenue None None,
     template_row ''04.01'' ''Ricavi delle vendite e delle prestazioni (A.1 art. 2425)'' AcRevenue (Some ''04'') None,
     template_row ''04.01.001'' ''Ricavi vendita prodotti'' AcRevenue (Some ''04.01'') None,
     template_row ''04.01.002'' ''Ricavi prestazioni servizi'' AcRevenue (Some ''04.01'') None,
     template_row ''05'' ''COSTI (B art. 2425)'' AcExpense None None,
     template_row ''05.01'' ''Costi per materie prime (B.6 art. 2425)'' AcCostOfGoodsSold (Some ''05'') None,
     template_row ''05.02'' ''Costi per servizi (B.7 art. 2425)'' AcExpense (Some ''05'') None,
     template_row ''05.03'' ''Costi per il personale (B.9 art. 2425)'' AcExpense (Some ''05'') None,
     template_row ''05.04'' ''Ammortamenti (B.10 art. 2425)'' AcExpense (Some ''05'') None,
     template_row ''05.05'' ''Oneri finanziari (C.17 art. 2425)'' AcExpense (Some ''05'') None]"

text \<open>The seeding loop; \<open>ids\<close> are the keys generated for the rows, in order.\<close>

fun seed_accounts :: "uuid \<Rightarrow> (uuid \<times> coa_input) list \<Rightarrow> nat \<Rightarrow> (accounting_db, nat) svc" where
  "seed_accounts t [] created = ret created"
| "seed_accounts t ((i, a) # rest) created =
     bind (gets (\<lambda>s. find_code t (cai_code a) (chartOfAccounts s))) (\<lambda>existing.
     if existing \<noteq> None then seed_accounts t rest created
     else seq (modify (chartOfAccounts_update (save_row (account_of i t a)))) (seed_accounts t rest (created + 1)))"

definition seed_chart_of_accounts :: "uuid list \<Rightarrow> uuid \<Rightarrow> (accounting_db, nat) svc" where
  "seed_chart_of_accounts ids t = seed_accounts t (zip ids coa_template) 0"

section \<open>Journal\<close>

definition journal_line_of :: "journal_line_input \<Rightarrow> journal_line" where
  "journal_line_of l =
     \<lparr>jl_accountId = nullish (jli_accountId l) [], jl_accountCode = jli_accountCode l, jl_debit = nullish (jli_debit l) 0,
      jl_credit = nullish (jli_credit l) 0, jl_description = jli_description l\<rparr>"

text \<open>\<^verbatim>\<open>Math.abs(totalDebit - totalCredit) > 0.001\<close>\<close>

definition unbalanced :: "jsnum \<Rightarrow> jsnum \<Rightarrow> bool" where
  "unbalanced d c \<longleftrightarrow> \<bar>js_sub d c\<bar> > fl (1 / 1000)"

text \<open>\<open>journal_row\<close> is the entry that both posting methods store.\<close>

definition journal_row ::
  "uuid \<Rightarrow> uuid \<Rightarrow> string \<Rightarrow> string \<Rightarrow> string \<Rightarrow> string \<Rightarrow> journal_line list \<Rightarrow> bool \<Rightarrow> journal_entry" where
  "journal_row newId t reference entryDate journal description lines posted =
     \<lparr>ent_id = newId, tenantId = t, je_reference = reference, je_entryDate = entryDate, je_journal = journal,
      je_description = description, je_lines = lines, je_totalDebit = js_fixed2 (js_sum jl_debit lines),
      je_totalCredit = js_fixed2 (js_sum jl_credit lines), je_isPosted = posted\<rparr>"

definition save_journal :: "journal_entry \<Rightarrow> (accounting_db, journal_entry) svc" where
  "save_journal e = seq (modify (journalEntries_update (save_row e))) (ret e)"

definition create_journal_entry :: "uuid \<Rightarrow> uuid \<Rightarrow> journal_input \<Rightarrow> (accounting_db, journal_entry) svc" where
  "create_journal_entry newId t dto =
     (let lines = map journal_line_of (ji_lines dto) in
      seq (throw_if (unbalanced (js_sum jl_debit lines) (js_sum jl_credit lines)) BadRequest)
        (save_journal (journal_row newId t (ji_reference dto) (ji_entryDate dto) (nullish (ji_journal dto) ''generale'')
           (ji_description dto) lines (nullish (ji_autoPost dto) False))))"

text \<open>Page and page size are at least one.\<close>

definition list_journal_entries ::
  "uuid \<Rightarrow> string option \<Rightarrow> string option \<Rightarrow> nat option \<Rightarrow> nat option \<Rightarrow> (accounting_db, journal_entry page) svc" where
  "list_journal_entries t from to page limit =
     gets (\<lambda>s. get_page (nullish page 1) (min (nullish limit 20) 100) (rev (sort_key je_entryDate (filter
       (\<lambda>e. tenantId e = t \<and> (truthy from \<and> truthy to \<longrightarrow>
          iso_days (the from) \<le> iso_days (je_entryDate e) \<and> iso_days (je_entryDate e) \<le> iso_days (the to)))
       (journalEntries s)))))"

section \<open>Invoices\<close>

text \<open>\<^verbatim>\<open>new Date(s).getFullYear()\<close> of a day\<close>

definition year_of :: "string \<Rightarrow> nat" where
  "year_of d = parse_dec (take 4 d)"

definition invoice_number :: "nat \<Rightarrow> string" where
  "invoice_number n = pad_start 6 CHR ''0'' (dec n)"

definition next_invoice_number :: "uuid \<Rightarrow> nat \<Rightarrow> accounting_db \<Rightarrow> string" where
  "next_invoice_number t year s =
     invoice_number (length (filter (\<lambda>i. tenantId i = t \<and> inv_fiscalYear i = year) (invoices s)) + 1)"

definition invoice_line_of :: "invoice_line_input \<Rightarrow> invoice_line" where
  "invoice_line_of l =
     \<lparr>il_description = ili_description l, il_quantity = ili_quantity l, il_unitPrice = ili_unitPrice l,
      il_ivaRate = ili_ivaRate l, il_ivaNature = ili_ivaNature l,
      il_lineTotal = js_fixed2 (js_mul (ili_quantity l) (ili_unitPrice l))\<rparr>"

definition line_tax :: "invoice_line \<Rightarrow> jsnum" where
  "line_tax l = js_fixed2 (js_div (js_mul (il_lineTotal l) (il_ivaRate l)) 100)"

definition save_invoice :: "invoice \<Rightarrow> (accounting_db, invoice) svc" where
  "save_invoice i = seq (modify (invoices_update (save_row i))) (ret i)"

definition invoice_of :: "uuid \<Rightarrow> uuid \<Rightarrow> string \<Rightarrow> invoice_input \<Rightarrow> invoice" where
  "invoice_of newId t number dto =
     (let lines = map invoice_line_of (ii_lines dto);
          subtotal = js_sum il_lineTotal lines;
          tax = js_sum line_tax (filter (\<lambda>l. \<not> truthy (il_ivaNature l)) lines)
      in \<lparr>ent_id = newId, tenantId = t, inv_documentType = nullish (ii_documentType dto) TD01, inv_number = number,
          inv_fiscalYear = year_of (ii_invoiceDate dto), inv_invoiceDate = ii_invoiceDate dto,
          inv_customerId = ii_customerId dto, inv_customerName = ii_customerName dto,
          inv_customerVatNumber = ii_customerVatNumber dto, inv_customerFiscalCode = ii_customerFiscalCode dto,
          inv_customerSdiCode = ii_customerSdiCode dto, inv_customerPecEmail = ii_customerPecEmail dto,
          inv_status = InvDraft, inv_subtotalAmount = js_fixed2 subtotal, inv_taxAmount = js_fixed2 tax,
          inv_totalAmount = js_fixed2 (js_add subtotal tax), inv_lines = lines, inv_submittedAt = None,
          inv_notes = ii_notes dto\<rparr>)"

definition create_invoice :: "uuid \<Rightarrow> uuid \<Rightarrow> invoice_input \<Rightarrow> (accounting_db, invoice) svc" where
  "create_invoice newId t dto =
     bind (gets (next_invoice_number t (year_of (ii_invoiceDate dto)))) (\<lambda>number.
     save_invoice (invoice_of newId t number dto))"

definition get_invoice :: "uuid \<Rightarrow> uuid \<Rightarrow> (accounting_db, invoice) svc" where
  "get_invoice t i = bind (gets (\<lambda>s. find_scoped t i (invoices s))) (\<lambda>r. require r NotFound)"

section \<open>Posting\<close>

definition invoice_label :: "invoice \<Rightarrow> string" where
  "invoice_label i = inv_number i @ ''/'' @ dec (inv_fiscalYear i)"

definition posting_line :: "string \<Rightarrow> jsnum \<Rightarrow> jsnum \<Rightarrow> string \<Rightarrow> journal_line" where
  "posting_line code debit credit d =
     \<lparr>jl_accountId = [], jl_accountCode = code, jl_debit = debit, jl_credit = credit, jl_description = Some d\<rparr>"

definition posting_lines :: "bool \<Rightarrow> invoice \<Rightarrow> journal_line list" where
  "posting_lines splitPayment i =
     (let taxable = inv_subtotalAmount i;
          iva = inv_taxAmount i;
          receivable = (if splitPayment then taxable else inv_totalAmount i)
      in [posting_line CREDITI_CLIENTI (js_fixed2 receivable) 0
            (''Fattura '' @ invoice_label i @ '' verso '' @ inv_customerName i),
          posting_line RICAVI_VENDITA 0 (js_fixed2 taxable) (''Ricavi fattura '' @ invoice_label i)] @
         (if \<not> splitPayment \<and> iva > 0
          then [posting_line IVA_DEBITO 0 (js_fixed2 iva) (''IVA fattura '' @ invoice_label i)] else []))"

definition accept_invoice :: "int \<Rightarrow> uuid \<Rightarrow> uuid \<Rightarrow> uuid \<Rightarrow> (accounting_db, invoice) svc" where
  "accept_invoice now newId t i = transaction
     (bind (get_invoice t i) (\<lambda>invoice.
      if inv_status invoice = InvAccepted then ret invoice
      else
        bind (gets (\<lambda>s. find_scoped t (inv_customerId invoice) (invoiceCustomers s))) (\<lambda>customer.
        (let splitPayment = (case customer of None \<Rightarrow> False | Some c \<Rightarrow> cu_splitPayment c);
             lines = posting_lines splitPayment invoice
         in seq (throw_if (unbalanced (js_sum jl_debit lines) (js_sum jl_credit lines)) BadRequest)
              (bind (save_journal (journal_row newId t
                  (''INV-'' @ inv_number invoice @ ''-'' @ dec (inv_fiscalYear invoice)) (iso_date now) ''vendite''
                  (''Registrazione fattura '' @ invoice_label invoice) lines True)) (\<lambda>_.
               save_invoice (invoice\<lparr>inv_status := InvAccepted\<rparr>)))))))"

definition queue_invoice_for_sdi :: "int \<Rightarrow> uuid \<Rightarrow> uuid \<Rightarrow> (accounting_db, invoice) svc" where
  "queue_invoice_for_sdi now t i =
     bind (get_invoice t i) (\<lambda>invoice.
     seq (throw_if (inv_status invoice \<noteq> InvDraft) BadRequest)
       (save_invoice (invoice\<lparr>inv_status := InvQueued, inv_submittedAt := Some now\<rparr>)))"

definition list_invoices ::
  "uuid \<Rightarrow> invoice_status option \<Rightarrow> nat option \<Rightarrow> nat option \<Rightarrow> nat option \<Rightarrow> (accounting_db, invoice page) svc" where
  "list_invoices t status fiscalYear page limit =
     gets (\<lambda>s. get_page (nullish page 1) (min (nullish limit 20) 100) (rev (sort_key inv_invoiceDate (filter
       (\<lambda>i. tenantId i = t \<and> (status = None \<or> status = Some (inv_status i)) \<and>
          (fiscalYear = None \<or> fiscalYear = Some 0 \<or> fiscalYear = Some (inv_fiscalYear i))) (invoices s)))))"

section \<open>VAT liquidation\<close>

text \<open>
  \<^verbatim>\<open>new Date(y, m, d)\<close> as a day number: months outside 0 to 11 carry into the year, and
  the years 0 to 99 stand for 1900 to 1999.
\<close>

definition month_day :: "int \<Rightarrow> int \<Rightarrow> int \<Rightarrow> int" where
  "month_day y m d =
     (let y' = (if 0 \<le> y \<and> y \<le> 99 then 1900 + y else y)
      in days_from_civil (y' + m div 12) (m mod 12 + 1) 1 + d - 1)"

text \<open>The first and the last day of \<^verbatim>\<open>YYYY-Qn\<close> or \<^verbatim>\<open>YYYY-MM\<close>.\<close>

definition liquidation_period :: "string \<Rightarrow> (int \<times> int) option" where
  "liquidation_period p =
     (if length p = 7 \<and> list_all is_digit (take 4 p) \<and> p ! 4 = CHR ''-'' \<and> p ! 5 = CHR ''Q'' \<and>
         p ! 6 \<in> set ''1234''
      then
        (let y = int (parse_dec (take 4 p)); q = int (parse_dec (drop 6 p))
         in Some (month_day y ((q - 1) * 3) 1, month_day y (q * 3) 0))
      else if length p = 7 \<and> list_all is_digit (take 4 p) \<and> p ! 4 = CHR ''-'' \<and> list_all is_digit (drop 5 p)
      then
        (let y = int (parse_dec (take 4 p)); m = int (parse_dec (drop 5 p))
         in Some (month_day y (m - 1) 1, month_day y m 0))
      else None)"

record iva_liquidation =
  iv_period :: string
  iv_totalTaxable :: jsnum
  iv_totalIva :: jsnum
  iv_byRate :: "(jsnum \<times> jsnum \<times> jsnum) list"

text \<open>The record \<^verbatim>\<open>byRate\<close>, its keys in the order of their first use.\<close>

fun add_to_rate :: "jsnum \<Rightarrow> jsnum \<Rightarrow> jsnum \<Rightarrow> (jsnum \<times> jsnum \<times> jsnum) list \<Rightarrow> (jsnum \<times> jsnum \<times> jsnum) list" where
  "add_to_rate rate taxable iva [] = [(rate, js_add 0 taxable, js_add 0 iva)]"
| "add_to_rate rate taxable iva ((r, x, y) # rest) =
     (if r = rate then (r, js_add x taxable, js_add y iva) # rest else (r, x, y) # add_to_rate rate taxable iva rest)"

definition period_lines :: "uuid \<Rightarrow> int \<times> int \<Rightarrow> accounting_db \<Rightarrow> invoice_line list" where
  "period_lines t days s =
     filter (\<lambda>l. \<not> truthy (il_ivaNature l)) (concat (map inv_lines (filter
       (\<lambda>i. tenantId i = t \<and> fst days \<le> iso_days (inv_invoiceDate i) \<and> iso_days (inv_invoiceDate i) \<le> snd days \<and>
          inv_status i = InvAccepted) (invoices s))))"

definition line_iva :: "invoice_line \<Rightarrow> jsnum" where
  "line_iva l = js_div (js_mul (il_lineTotal l) (il_ivaRate l)) 100"

definition iva_liquidation_of :: "uuid \<Rightarrow> string \<Rightarrow> (accounting_db, iva_liquidation) svc" where
  "iva_liquidation_of t period =
     bind (require (liquidation_period period) BadRequest) (\<lambda>days.
     gets (\<lambda>s. let ls = period_lines t days s in
       \<lparr>iv_period = period, iv_totalTaxable = js_fixed2 (js_sum il_lineTotal ls), iv_totalIva = js_fixed2 (js_sum line_iva ls),
        iv_byRate = fold (\<lambda>l. add_to_rate (il_ivaRate l) (il_lineTotal l) (line_iva l)) ls []\<rparr>))"

end
