(* ===== verification/JsXml.thy ===== *)
theory JsXml
  imports JsNumber JsString
begin

text \<open>
  The texts of the XML builders: \<^verbatim>\<open>toFixed(2)\<close>, lines joined by newlines, and elements
  around escaped text. \<open>elements t doc\<close> is what a reader of the document finds as the text of
  its elements named \<open>t\<close>; the lemmas compute it for documents built from lines.
\<close>

section \<open>Building\<close>

text \<open>\<^verbatim>\<open>x.toFixed(2)\<close> below \<open>10 ^ 21\<close>\<close>

definition fixed2_text :: "jsnum \<Rightarrow> string" where
  "fixed2_text x =
     (let n = nat \<bar>to_fixed2 x\<bar>
      in (if x < 0 then ''-'' else []) @ dec (n div 100) @ ''.'' @ pad_start 2 CHR ''0'' (dec (n mod 100)))"

definition el :: "string \<Rightarrow> string \<Rightarrow> string" where
  "el t x = ''<'' @ t @ ''>'' @ x @ ''</'' @ t @ ''>''"

definition indent :: "nat \<Rightarrow> string \<Rightarrow> string" where
  "indent k s = replicate k CHR '' '' @ s"

text \<open>
  Lines that open or close an element (a name may be followed by attributes) and lines with an
  element around a text. An element with an absent or empty text is left out.
\<close>

datatype xml_line = XOpen nat string | XClose nat string | XText nat string string

fun render :: "xml_line \<Rightarrow> string" where
  "render (XOpen k t) = indent k (''<'' @ t @ ''>'')"
| "render (XClose k t) = indent k (''<'' @ (''/'' @ t) @ ''>'')"
| "render (XText k t x) = indent k (el t x)"

definition opt_el :: "nat \<Rightarrow> string \<Rightarrow> string option \<Rightarrow> xml_line list" where
  "opt_el k t v = (if truthy v then [XText k t (esc_xml (the v))] else [])"

definition quoted :: "string \<Rightarrow> string" where
  "quoted s = CHR 0x22 # s @ [CHR 0x22]"

definition xml_declaration :: xml_line where
  "xml_declaration = XOpen 0 (''?xml version='' @ quoted ''1.0'' @ '' encoding='' @ quoted ''UTF-8'' @ ''?'')"

text \<open>\<^verbatim>\<open>lines.join('\n')\<close>\<close>

fun join_nl :: "string list \<Rightarrow> string" where
  "join_nl [] = []"
| "join_nl [l] = l"
| "join_nl (l # ls) = l @ CHR 0x0A # join_nl ls"

section \<open>Reading\<close>

definition tag_name :: "string \<Rightarrow> string" where
  "tag_name p = takeWhile (\<lambda>c. c \<noteq> CHR ''>'') p"

definition element_text :: "string \<Rightarrow> string \<Rightarrow> string list" where
  "element_text t p = (if tag_name p = t then [unesc_xml (drop (Suc (length t)) p)] else [])"

definition elements :: "string \<Rightarrow> string \<Rightarrow> string list" where
  "elements t doc = concat (map (element_text t) (tl (split_at_char CHR ''<'' doc)))"

text \<open>Names of elements: no angle brackets, no slash and no space.\<close>

definition plain_tag :: "string \<Rightarrow> bool" where
  "plain_tag t \<longleftrightarrow> CHR ''<'' \<notin> set t \<and> CHR ''>'' \<notin> set t \<and> CHR ''/'' \<notin> set t \<and> CHR '' '' \<notin> set t"

definition no_lt :: "string \<Rightarrow> bool" where
  "no_lt s \<longleftrightarrow> CHR ''<'' \<notin> set s"

lemma no_lt_simps [simp]:
  "no_lt []" "no_lt (c # s) \<longleftrightarrow> c \<noteq> CHR ''<'' \<and> no_lt s" "no_lt (s @ r) \<longleftrightarrow> no_lt s \<and> no_lt r"
  "no_lt (replicate k CHR '' '')"
  by (auto simp: no_lt_def)

lemma no_lt_esc [simp]: "no_lt (esc_xml s)"
  using esc_xml_no_markup by (auto simp: no_lt_def)

lemma split_at_no [simp]: "c \<notin> set s \<Longrightarrow> split_at_char c s = [s]"
  by (induction s) auto

lemma split_at_nonempty [simp]: "split_at_char c s \<noteq> []"
  by (cases s) (auto split: list.splits)

lemma split_at_app: "split_at_char c (s @ c # r) = split_at_char c s @ split_at_char c r"
proof (induction s)
  case (Cons x s)
  then show ?case by (cases "split_at_char c s") simp_all
qed simp

lemma elements_app: "elements t (s @ CHR ''<'' # r) = elements t s @ elements t (CHR ''<'' # r)"
proof -
  have "tl (split_at_char CHR ''<'' s @ x) = tl (split_at_char CHR ''<'' s) @ x" for x
    by (cases "split_at_char CHR ''<'' s") simp_all
  then show ?thesis by (simp add: elements_def split_at_app)
qed

lemma elements_text: "no_lt s \<Longrightarrow> elements t s = []"
  by (simp add: elements_def no_lt_def)

lemma elements_one: "no_lt p \<Longrightarrow> elements t (CHR ''<'' # p) = element_text t p"
  by (simp add: elements_def no_lt_def)

text \<open>
  Lines of a document: they begin with a tag after some space, and what text follows their last
  tag does not matter.
\<close>

definition line_ok :: "string \<Rightarrow> string \<Rightarrow> bool" where
  "line_ok t l \<longleftrightarrow>
     (\<exists>i b. no_lt i \<and> l = i @ CHR ''<'' # b) \<and> (\<forall>w. no_lt w \<longrightarrow> elements t (l @ w) = elements t l)"

lemma elements_join: "list_all (line_ok t) ls \<Longrightarrow> elements t (join_nl ls) = concat (map (elements t) ls)"
proof (induction ls rule: join_nl.induct)
  case 1
  then show ?case by (simp add: elements_text)
next
  case (3 l l' ls)
  then obtain i b where i: "no_lt i" "l' = i @ CHR ''<'' # b" by (auto simp: line_ok_def)
  obtain r where r: "join_nl (l' # ls) = l' @ r" by (cases ls) auto
  have "elements t (l @ CHR 0x0A # join_nl (l' # ls)) = elements t ((l @ CHR 0x0A # i) @ CHR ''<'' # (b @ r))"
    by (subst r) (simp add: i)
  also have "\<dots> = elements t (l @ CHR 0x0A # i) @ elements t (CHR ''<'' # (b @ r))" by (rule elements_app)
  also have "elements t (l @ CHR 0x0A # i) = elements t l" using 3 i by (simp add: line_ok_def)
  also have "elements t (CHR ''<'' # (b @ r)) = elements t (join_nl (l' # ls))"
    using i elements_app [of t i "b @ r"] by (subst r) (simp add: elements_text)
  finally show ?case using 3 by simp
qed simp

lemma tag_name_plain: "CHR ''>'' \<notin> set p \<Longrightarrow> tag_name (p @ CHR ''>'' # r) = p"
  unfolding tag_name_def by (subst takeWhile_append2) auto

lemma element_text_plain:
  "CHR ''>'' \<notin> set p \<Longrightarrow> element_text t (p @ CHR ''>'' # r) = (if p = t then [unesc_xml r] else [])"
  by (simp add: element_text_def tag_name_plain)

lemma elements_line:
  assumes "plain_tag tag" and "plain_tag t" and "no_lt x" and "no_lt w"
  shows "elements t (indent k (el tag x) @ w) = (if tag = t then [unesc_xml x] else [])"
proof -
  have "elements t (indent k (el tag x) @ w) =
      elements t ((replicate k CHR '' '' @ CHR ''<'' # (tag @ CHR ''>'' # x)) @ CHR ''<'' # ((CHR ''/'' # tag) @ CHR ''>'' # w))"
    by (simp add: indent_def el_def)
  also have "\<dots> = element_text t (tag @ CHR ''>'' # x) @ element_text t ((CHR ''/'' # tag) @ CHR ''>'' # w)"
    unfolding elements_app using assms by (simp add: elements_text elements_one no_lt_def plain_tag_def)
  also have "\<dots> = (if tag = t then [unesc_xml x] else [])"
    using assms element_text_plain [of tag t x] element_text_plain [of "CHR ''/'' # tag" t w] by (auto simp: plain_tag_def)
  finally show ?thesis .
qed

lemma line_ok_el [simp]: "plain_tag tag \<Longrightarrow> plain_tag t \<Longrightarrow> no_lt x \<Longrightarrow> line_ok t (indent k (el tag x))"
  unfolding line_ok_def
  by (rule conjI, rule exI [of _ "replicate k CHR '' ''"], simp add: indent_def el_def)
    (simp add: elements_line elements_line [of tag t x "[]", simplified])

lemma elements_el: "plain_tag tag \<Longrightarrow> plain_tag t \<Longrightarrow> no_lt x \<Longrightarrow>
    elements t (indent k (el tag x)) = (if tag = t then [unesc_xml x] else [])"
  using elements_line [of tag t x "[]"] by simp

text \<open>Lines that only open or close an element.\<close>

lemma elements_open:
  assumes "CHR ''<'' \<notin> set p" and "CHR ''>'' \<notin> set p" and "p \<noteq> t" and "no_lt w"
  shows "elements t (indent k (''<'' @ p @ ''>'') @ w) = []"
proof -
  have "elements t (indent k (''<'' @ p @ ''>'') @ w) = elements t (replicate k CHR '' '' @ CHR ''<'' # (p @ CHR ''>'' # w))"
    by (simp add: indent_def)
  also have "\<dots> = element_text t (p @ CHR ''>'' # w)"
    using assms by (simp add: elements_app elements_text elements_one no_lt_def)
  finally show ?thesis using assms by (simp add: element_text_plain)
qed

lemma line_ok_open: "CHR ''<'' \<notin> set p \<Longrightarrow> CHR ''>'' \<notin> set p \<Longrightarrow> p \<noteq> t \<Longrightarrow> line_ok t (indent k (''<'' @ p @ ''>''))"
  unfolding line_ok_def
  by (rule conjI, rule exI [of _ "replicate k CHR '' ''"], simp add: indent_def)
    (use elements_open [of p t] elements_open [of p t "[]"] in simp)

section \<open>Documents\<close>

text \<open>
  The document of a list of lines. A list is well formed when its names and texts contain no
  angle brackets; \<open>value_of t\<close> is what a line contributes to the elements named \<open>t\<close>.
\<close>

definition xml_document :: "xml_line list \<Rightarrow> string" where
  "xml_document ls = join_nl (map render ls)"

fun well_formed_line :: "xml_line \<Rightarrow> bool" where
  "well_formed_line (XOpen k p) \<longleftrightarrow> CHR ''<'' \<notin> set p \<and> CHR ''>'' \<notin> set p"
| "well_formed_line (XClose k p) \<longleftrightarrow> plain_tag p"
| "well_formed_line (XText k p x) \<longleftrightarrow> plain_tag p \<and> no_lt x"

fun opens :: "string \<Rightarrow> xml_line \<Rightarrow> bool" where
  "opens t (XOpen k p) \<longleftrightarrow> p = t"
| "opens t _ \<longleftrightarrow> False"

fun value_of :: "string \<Rightarrow> xml_line \<Rightarrow> string list" where
  "value_of t (XText k p x) = (if p = t then [unesc_xml x] else [])"
| "value_of t _ = []"

definition values_of :: "string \<Rightarrow> xml_line list \<Rightarrow> string list" where
  "values_of t ls = concat (map (value_of t) ls)"

lemma values_of_simps [simp]:
  "values_of t [] = []" "values_of t (l # ls) = value_of t l @ values_of t ls"
  "values_of t (ls @ ls') = values_of t ls @ values_of t ls'"
  "values_of t (concat (map f xs)) = concat (map (\<lambda>x. values_of t (f x)) xs)"
  by (simp_all add: values_of_def) (induction xs, auto)

lemma slash_tag: "plain_tag p \<Longrightarrow> plain_tag t \<Longrightarrow> CHR ''<'' \<notin> set (CHR ''/'' # p) \<and> CHR ''>'' \<notin> set (CHR ''/'' # p) \<and> CHR ''/'' # p \<noteq> t"
  by (auto simp: plain_tag_def)

lemma render_line:
  assumes "plain_tag t" and "well_formed_line l" and "\<not> opens t l"
  shows "line_ok t (render l)" and "elements t (render l) = value_of t l"
proof -
  show "line_ok t (render l)"
  proof (cases l)
    case (XClose k p)
    then show ?thesis using assms line_ok_open [of "CHR ''/'' # p" t k] slash_tag [of p t] by simp
  qed (use assms line_ok_open in simp_all)
  show "elements t (render l) = value_of t l"
  proof (cases l)
    case (XClose k p)
    then show ?thesis using assms elements_open [of "CHR ''/'' # p" t "[]" k] slash_tag [of p t] by simp
  next
    case (XOpen k p)
    then show ?thesis using assms elements_open [of p t "[]" k] by simp
  qed (use assms in \<open>simp add: elements_el\<close>)
qed

lemma elements_document:
  assumes "plain_tag t" and "list_all well_formed_line ls" and "list_all (\<lambda>l. \<not> opens t l) ls"
  shows "elements t (xml_document ls) = values_of t ls"
proof -
  have "list_all (line_ok t) (map render ls)" "map (elements t) (map render ls) = map (value_of t) ls"
    using assms by (simp_all add: list_all_iff render_line)
  then show ?thesis unfolding xml_document_def values_of_def by (simp only: elements_join)
qed

lemma opt_el_simps [simp]:
  "list_all well_formed_line (opt_el k p v) \<longleftrightarrow> \<not> truthy v \<or> plain_tag p"
  "list_all (\<lambda>l. \<not> opens t l) (opt_el k p v)"
  "values_of t (opt_el k p v) = (if truthy v \<and> p = t then [the v] else [])"
  by (simp_all add: opt_el_def unesc_esc)

text \<open>Numbers and dates contain no markup.\<close>

definition no_markup :: "string \<Rightarrow> bool" where
  "no_markup s \<longleftrightarrow> no_lt s \<and> CHR ''&'' \<notin> set s"

lemma unesc_no_markup: "no_markup s \<Longrightarrow> unesc_xml s = s"
  unfolding no_markup_def by (induction s) (auto simp: unesc_xml.simps)

lemma no_markup_digits: "(\<And>c. c \<in> set s \<Longrightarrow> is_digit c) \<Longrightarrow> no_markup s"
  unfolding no_markup_def no_lt_def is_digit_def by fastforce

lemma no_markup_app [simp]: "no_markup (s @ r) \<longleftrightarrow> no_markup s \<and> no_markup r"
  by (auto simp: no_markup_def)

lemma no_markup_dec [simp]: "no_markup (dec n)"
  by (rule no_markup_digits) (rule dec_digits)

lemma no_markup_pad [simp]: "no_markup (pad_start k CHR ''0'' (dec n))"
  by (rule no_markup_digits) (auto intro: pad_start_digits [OF dec_digits])

lemma no_markup_fixed2 [simp]: "no_markup (fixed2_text x)"
proof -
  have "no_markup ''-''" "no_markup ''.''" "no_markup []" by (simp_all add: no_markup_def)
  then show ?thesis unfolding fixed2_text_def Let_def by (simp only: no_markup_app no_markup_dec no_markup_pad if_split simp_thms)
qed

lemma no_markup_no_lt [simp]: "no_markup x \<Longrightarrow> no_lt x"
  by (simp add: no_markup_def)

end
