(* ===== verification/FatturaPa.thy ===== *)
theory FatturaPa
  imports Accounting JsXml
begin

text \<open>
  The electronic invoice: the XML builder of
  \<^verbatim>\<open>backend/src/accounting/fatturapa/fatturapa-adapter.ts\<close> and the service method
  \<^verbatim>\<open>generateFatturaPaXml\<close>. The document is the list of its lines; where the code joins the
  lines of a block first, the block's lines stand in the list. Order rows are kept in the order of
  their creation.
\<close>

record fattura_tenant =
  ft_vatNumber :: "string option"
  ft_fiscalCode :: "string option"
  ft_name :: string
  ft_billingAddress :: "string option"
  ft_billingPostalCode :: "string option"
  ft_billingCity :: "string option"
  ft_billingProvince :: "string option"
  ft_billingCountry :: "string option"

record fattura_input =
  fi_tenant :: fattura_tenant
  fi_customer :: customer
  fi_invoice :: invoice
  fi_salesOrder :: "sales_order option"

record fattura_output =
  fo_xml :: string
  fo_fileName :: string
  fo_progressive :: string

section \<open>Helpers\<close>

definition fattura_invariants :: "fattura_input \<Rightarrow> bool" where
  "fattura_invariants inp \<longleftrightarrow>
     truthy (ft_vatNumber (fi_tenant inp)) \<and> inv_lines (fi_invoice inp) \<noteq> [] \<and>
     (truthy (cu_vatNumber (fi_customer inp)) \<or> truthy (cu_fiscalCode (fi_customer inp)))"

definition resolve_destination_code :: "customer \<Rightarrow> string" where
  "resolve_destination_code c =
     (case cu_sdiDestinationCode c of
        None \<Rightarrow> ''0000000''
      | Some sdi \<Rightarrow>
          if (length sdi = 6 \<or> length sdi = 7) \<and> list_all (\<lambda>x. is_upper x \<or> is_digit x) sdi then sdi else ''0000000'')"

definition b36_digit :: "nat \<Rightarrow> char" where
  "b36_digit n = (if n < 10 then char_of (48 + n) else char_of (55 + n))"

text \<open>\<^verbatim>\<open>n.toString(36).toUpperCase()\<close>\<close>

fun b36 :: "nat \<Rightarrow> string" where
  "b36 n = (if n < 36 then [b36_digit n] else b36 (n div 36) @ [b36_digit (n mod 36)])"

declare b36.simps [simp del]

definition encode_progressive :: "nat \<Rightarrow> string \<Rightarrow> string" where
  "encode_progressive fiscalYear number =
     (let digits = filter is_digit (dec fiscalYear @ number);
          encoded = b36 (parse_dec digits)
      in pad_start 5 CHR ''0'' (drop (length encoded - 5) encoded))"

definition format_date :: "string \<Rightarrow> string" where
  "format_date d = dec (parse_dec (take 4 d)) @ ''-'' @ take 2 (drop 5 d) @ ''-'' @ take 2 (drop 8 d)"

definition document_type_text :: "invoice_document_type \<Rightarrow> string" where
  "document_type_text ty =
     (case ty of TD01 \<Rightarrow> ''TD01'' | TD02 \<Rightarrow> ''TD02'' | TD04 \<Rightarrow> ''TD04'' | TD05 \<Rightarrow> ''TD05'' | TD17 \<Rightarrow> ''TD17''
      | TD18 \<Rightarrow> ''TD18'' | TD19 \<Rightarrow> ''TD19'' | TD24 \<Rightarrow> ''TD24'' | TD26 \<Rightarrow> ''TD26'')"

section \<open>Summary by rate\<close>

record riepilogo_item =
  ri_imponibile :: jsnum
  ri_imposta :: jsnum
  ri_natura :: "string option"

type_synonym riepilogo_key = "jsnum \<times> string"

definition riepilogo_key_of :: "invoice_line \<Rightarrow> riepilogo_key" where
  "riepilogo_key_of l = (il_ivaRate l, nullish (il_ivaNature l) [])"

definition add_line :: "invoice_line \<Rightarrow> riepilogo_item \<Rightarrow> riepilogo_item" where
  "add_line l item =
     item\<lparr>ri_imponibile := js_add (ri_imponibile item) (il_lineTotal l),
          ri_imposta := (if truthy (il_ivaNature l) then ri_imposta item else js_add (ri_imposta item) (line_iva l))\<rparr>"

text \<open>The \<^verbatim>\<open>Map\<close> keeps its keys in the order of insertion.\<close>

fun add_riepilogo :: "invoice_line \<Rightarrow> (riepilogo_key \<times> riepilogo_item) list \<Rightarrow> (riepilogo_key \<times> riepilogo_item) list" where
  "add_riepilogo l [] =
     [(riepilogo_key_of l, add_line l \<lparr>ri_imponibile = 0, ri_imposta = 0, ri_natura = il_ivaNature l\<rparr>)]"
| "add_riepilogo l ((k, item) # rest) =
     (if k = riepilogo_key_of l then (k, add_line l item) # rest else (k, item) # add_riepilogo l rest)"

definition riepilogo :: "invoice_line list \<Rightarrow> riepilogo_item list" where
  "riepilogo ls = map snd (fold add_riepilogo ls [])"

definition extract_rate :: "invoice_line list \<Rightarrow> riepilogo_item \<Rightarrow> jsnum" where
  "extract_rate ls item =
     (case find (\<lambda>l. \<bar>js_sub (il_lineTotal l) (ri_imponibile item)\<bar> < 1000 \<and>
                    nullish (il_ivaNature l) [] = nullish (ri_natura item) []) ls of
        None \<Rightarrow> 0
      | Some l \<Rightarrow> il_ivaRate l)"

section \<open>The document\<close>

definition root_tag :: "string \<Rightarrow> string" where
  "root_tag formato =
     ''p:FatturaElettronica versione='' @ quoted formato @ '' xmlns:p='' @
     quoted ''http://ivaservizi.agenziaentrate.gov.it/docs/xsd/fatture/v1.2'' @ '' xmlns:ds='' @
     quoted ''http://www.w3.org/2000/09/xmldsig#'' @ '' xmlns:xsi='' @ quoted ''http://www.w3.org/2001/XMLSchema-instance''"

definition header_lines :: "fattura_input \<Rightarrow> xml_line list" where
  "header_lines inp =
     (let t = fi_tenant inp; c = fi_customer inp; vat = the (ft_vatNumber t);
          progressive = encode_progressive (inv_fiscalYear (fi_invoice inp)) (inv_number (fi_invoice inp));
          formato = (if cu_customerType c = PublicAdministration then ''FPA12'' else ''FPR12'')
      in [xml_declaration,
          XOpen 0 (root_tag formato),
          XOpen 2 ''FatturaElettronicaHeader'',
          XOpen 4 ''DatiTrasmissione'',
          XOpen 6 ''IdTrasmittente'',
          XText 8 ''IdPaese'' (esc_xml ''IT''),
          XText 8 ''IdCodice'' (esc_xml vat),
          XClose 6 ''IdTrasmittente'',
          XText 6 ''ProgressivoInvio'' (esc_xml progressive),
          XText 6 ''FormatoTrasmissione'' (esc_xml formato),
          XText 6 ''CodiceDestinatario'' (esc_xml (resolve_destination_code c))]
        @ opt_el 6 ''PECDestinatario'' (cu_pecEmail c)
        @ [XClose 4 ''DatiTrasmissione'',
          XOpen 4 ''CedentePrestatore'',
          XOpen 6 ''DatiAnagrafici'',
          XOpen 8 ''IdFiscaleIVA'',
          XText 10 ''IdPaese'' (esc_xml ''IT''),
          XText 10 ''IdCodice'' (esc_xml vat),
          XClose 8 ''IdFiscaleIVA'']
        @ opt_el 8 ''CodiceFiscale'' (ft_fiscalCode t)
        @ [XOpen 8 ''Anagrafica'',
          XText 10 ''Denominazione'' (esc_xml (ft_name t)),
          XClose 8 ''Anagrafica'',
          XText 8 ''RegimeFiscale'' ''RF01'',
          XClose 6 ''DatiAnagrafici'',
          XOpen 6 ''Sede'',
          XText 8 ''Indirizzo'' (esc_xml (nullish (ft_billingAddress t) ''N/D'')),
          XText 8 ''CAP'' (esc_xml (nullish (ft_billingPostalCode t) ''00000'')),
          XText 8 ''Comune'' (esc_xml (nullish (ft_billingCity t) ''N/D''))]
        @ opt_el 8 ''Provincia'' (ft_billingProvince t)
        @ [XText 8 ''Nazione'' (esc_xml (nullish (ft_billingCountry t) ''IT'')),
          XClose 6 ''Sede'',
          XClose 4 ''CedentePrestatore'',
          XOpen 4 ''CessionarioCommittente'',
          XOpen 6 ''DatiAnagrafici'']
        @ (if truthy (cu_vatNumber c)
           then [XOpen 8 ''IdFiscaleIVA'', XText 10 ''IdPaese'' (esc_xml (cu_country c)),
                 XText 10 ''IdCodice'' (esc_xml (the (cu_vatNumber c))), XClose 8 ''IdFiscaleIVA''] else [])
        @ opt_el 8 ''CodiceFiscale'' (cu_fiscalCode c)
        @ [XOpen 8 ''Anagrafica'',
          XText 10 ''Denominazione'' (esc_xml (cu_name c)),
          XClose 8 ''Anagrafica'',
          XClose 6 ''DatiAnagrafici'',
          XOpen 6 ''Sede'',
          XText 8 ''Indirizzo'' (esc_xml (nullish (cu_address c) ''N/D'')),
          XText 8 ''CAP'' (esc_xml (nullish (cu_postalCode c) ''00000'')),
          XText 8 ''Comune'' (esc_xml (nullish (cu_city c) ''N/D''))]
        @ opt_el 8 ''Provincia'' (cu_province c)
        @ [XText 8 ''Nazione'' (esc_xml (cu_country c)),
          XClose 6 ''Sede'',
          XClose 4 ''CessionarioCommittente'',
          XClose 2 ''FatturaElettronicaHeader''])"

definition general_lines :: "fattura_input \<Rightarrow> xml_line list" where
  "general_lines inp =
     (let i = fi_invoice inp
      in [XOpen 2 ''FatturaElettronicaBody'',
          XOpen 4 ''DatiGenerali'',
          XOpen 6 ''DatiGeneraliDocumento'',
          XText 8 ''TipoDocumento'' (esc_xml (document_type_text (inv_documentType i))),
          XText 8 ''Divisa'' ''EUR'',
          XText 8 ''Data'' (format_date (inv_invoiceDate i)),
          XText 8 ''Numero'' (esc_xml (inv_number i)),
          XText 8 ''ImportoTotaleDocumento'' (fixed2_text (inv_totalAmount i))]
        @ (if truthy (inv_notes i) then [XText 8 ''Causale'' (esc_xml (take 200 (the (inv_notes i))))] else [])
        @ [XClose 6 ''DatiGeneraliDocumento'']
        @ (case fi_salesOrder inp of
             None \<Rightarrow> []
           | Some so \<Rightarrow>
               [XOpen 6 ''DatiOrdineAcquisto'',
                XText 8 ''IdDocumento'' (esc_xml (so_orderNumber so))]
               @ opt_el 8 ''CodiceCIG'' (so_customerPoReference so)
               @ [XClose 6 ''DatiOrdineAcquisto''])
        @ [XClose 4 ''DatiGenerali''])"

definition detail_lines :: "nat \<times> invoice_line \<Rightarrow> xml_line list" where
  "detail_lines = (\<lambda>(idx, l).
     [XOpen 6 ''DettaglioLinee'',
      XText 8 ''NumeroLinea'' (dec (idx + 1)),
      XText 8 ''Descrizione'' (esc_xml (il_description l)),
      XText 8 ''Quantita'' (fixed2_text (il_quantity l)),
      XText 8 ''PrezzoUnitario'' (fixed2_text (il_unitPrice l)),
      XText 8 ''PrezzoTotale'' (fixed2_text (il_lineTotal l)),
      XText 8 ''AliquotaIVA'' (fixed2_text (il_ivaRate l))]
     @ opt_el 8 ''Natura'' (il_ivaNature l)
     @ [XClose 6 ''DettaglioLinee''])"

definition summary_lines :: "string \<Rightarrow> invoice_line list \<Rightarrow> riepilogo_item \<Rightarrow> xml_line list" where
  "summary_lines esigibilita ls item =
     [XOpen 6 ''DatiRiepilogo'',
      XText 8 ''AliquotaIVA'' (fixed2_text (extract_rate ls item))]
     @ opt_el 8 ''Natura'' (ri_natura item)
     @ [XText 8 ''ImponibileImporto'' (fixed2_text (ri_imponibile item)),
      XText 8 ''Imposta'' (fixed2_text (ri_imposta item)),
      XText 8 ''EsigibilitaIVA'' (esc_xml esigibilita),
      XClose 6 ''DatiRiepilogo'']"

definition body_lines :: "fattura_input \<Rightarrow> xml_line list" where
  "body_lines inp =
     (let i = fi_invoice inp; ls = inv_lines i;
          esigibilita = (if cu_splitPayment (fi_customer inp) then ''S'' else ''I'')
      in [XOpen 4 ''DatiBeniServizi'']
        @ concat (map detail_lines (enumerate 0 ls))
        @ concat (map (summary_lines esigibilita ls) (riepilogo ls))
        @ [XClose 4 ''DatiBeniServizi'',
          XOpen 4 ''DatiPagamento'',
          XText 6 ''CondizioniPagamento'' ''TP02'',
          XOpen 6 ''DettaglioPagamento'',
          XText 8 ''ModalitaPagamento'' ''MP05'',
          XText 8 ''DataScadenzaPagamento'' (format_date (inv_invoiceDate i)),
          XText 8 ''ImportoPagamento'' (fixed2_text (inv_totalAmount i)),
          XClose 6 ''DettaglioPagamento'',
          XClose 4 ''DatiPagamento'',
          XClose 2 ''FatturaElettronicaBody'',
          XClose 0 ''p:FatturaElettronica''])"

definition build_fattura :: "fattura_input \<Rightarrow> http_error + fattura_output" where
  "build_fattura inp =
     (if \<not> fattura_invariants inp then Inl PlainError
      else
        (let progressive = encode_progressive (inv_fiscalYear (fi_invoice inp)) (inv_number (fi_invoice inp))
         in Inr
           \<lparr>fo_xml = xml_document (header_lines inp @ general_lines inp @ body_lines inp),
            fo_fileName = ''IT'' @ the (ft_vatNumber (fi_tenant inp)) @ ''_'' @ progressive @ ''.xml'',
            fo_progressive = progressive\<rparr>))"

section \<open>The service method\<close>

text \<open>\<open>tenant\<close> is the tenant's row and \<open>orders\<close> the table of sales orders.\<close>

definition generate_fattura_pa_xml ::
  "fattura_tenant option \<Rightarrow> sales_order list \<Rightarrow> uuid \<Rightarrow> uuid \<Rightarrow> (accounting_db, string \<times> string) svc" where
  "generate_fattura_pa_xml tenant orders t invoiceId =
     bind (get_invoice t invoiceId) (\<lambda>invoice.
     bind (gets (\<lambda>s. find_scoped t (inv_customerId invoice) (invoiceCustomers s))) (\<lambda>c.
     bind (require c NotFound) (\<lambda>customer.
     bind (require tenant NotFound) (\<lambda>tn.
     seq (throw_if (\<not> truthy (ft_vatNumber tn)) BadRequest)
       (let own = filter (\<lambda>o'. tenantId o' = t \<and> so_customerId o' = ent_id customer) orders;
            salesOrder = (if ent_id customer = [] \<or> own = [] then None else Some (last own))
        in bind (lift (build_fattura
             \<lparr>fi_tenant = tn, fi_customer = customer, fi_invoice = invoice, fi_salesOrder = salesOrder\<rparr>))
             (\<lambda>out. ret (fo_xml out, fo_fileName out)))))))"

end
