(* ===== verification/Cents.thy ===== *)
theory Cents
  imports JsNumber
begin

text \<open>
  Amounts of money as doubles: what \<^verbatim>\<open>toFixed(2)\<close> returns is the double nearest to a
  whole number of cents. Below a thousand million euros, adding up to a thousand of them in
  floating-point arithmetic is off by less than a tenth of a cent, so that the next
  \<^verbatim>\<open>toFixed(2)\<close> yields the exact sum.
\<close>

definition euro :: "int \<Rightarrow> jsnum" where
  "euro c = fl (of_int c / 100)"

definition BILLION :: int where "BILLION = 10 ^ 11"

text \<open>\<open>BILLION\<close> is a thousand million euros, in cents.\<close>

lemma js_fixed2_euro: "js_fixed2 x = euro (to_fixed2 x)"
  by (simp add: js_fixed2_def euro_def)

lemma fl_abs_error:
  assumes "\<bar>x\<bar> < 2 ^ 31"
  shows "\<bar>fl x - x\<bar> \<le> 1 / 2 ^ 23"
proof (cases "x = 0")
  case False
  let ?p = "2 powi fexp x :: rat"
  have "ilog2 \<bar>x\<bar> < 31"
    using ilog2_bounds(1) [of "\<bar>x\<bar>"] assms False powi2_less_iff [of "ilog2 \<bar>x\<bar>" 31] by simp
  then have "?p \<le> 2 powi (- 22)" by (simp only: powi2_le_iff) (simp add: fexp_def)
  then have p: "?p \<le> 1 / 2 ^ 22" by (simp add: power_int_minus field_simps)
  have "fl x - x = (of_int (rne (x / ?p)) - x / ?p) * ?p" using False by (simp add: fl_def left_diff_distrib)
  then have "\<bar>fl x - x\<bar> = \<bar>of_int (rne (x / ?p)) - x / ?p\<bar> * ?p" by (simp add: abs_mult)
  also have "\<dots> \<le> 1 / 2 * ?p" by (rule mult_right_mono [OF rne_error]) simp
  also have "\<dots> \<le> 1 / 2 ^ 23" using p by simp
  finally show ?thesis .
qed simp

lemma euro_error: "\<bar>c\<bar> \<le> BILLION \<Longrightarrow> \<bar>euro c - of_int c / 100\<bar> \<le> 1 / 2 ^ 23"
proof -
  assume c: "\<bar>c\<bar> \<le> BILLION"
  then have "(of_int \<bar>c\<bar> :: rat) \<le> of_int BILLION" by (simp only: of_int_le_iff)
  then have "\<bar>of_int c / 100 :: rat\<bar> < 2 ^ 31" by (simp add: BILLION_def)
  then show ?thesis unfolding euro_def by (rule fl_abs_error)
qed

lemma euro_nonneg: "0 \<le> c \<Longrightarrow> 0 \<le> euro c"
  by (simp add: euro_def fl_nonneg)

lemma to_fixed2_nonneg: "0 \<le> x \<Longrightarrow> 0 \<le> to_fixed2 x"
  by (simp add: to_fixed2_def)

text \<open>Close to a whole number of cents, \<^verbatim>\<open>toFixed(2)\<close> finds it.\<close>

lemma to_fixed2_near:
  assumes "0 \<le> x" and "\<bar>x - of_int c / 100\<bar> \<le> 1 / 250"
  shows "to_fixed2 x = c"
proof -
  have "of_int c \<le> 100 * x + 1 / 2" using assms(2) by linarith
  moreover have "100 * x + 1 / 2 < of_int c + 1" using assms(2) by linarith
  ultimately have "\<lfloor>100 * x + 1 / 2\<rfloor> = c" by (simp add: floor_eq_iff)
  with assms(1) show ?thesis by (simp add: to_fixed2_def)
qed

lemma error_step: "\<bar>a - s\<bar> \<le> e + d \<Longrightarrow> \<bar>b - a\<bar> \<le> d \<Longrightarrow> \<bar>b - s\<bar> \<le> e + 2 * (d :: rat)"
  by linarith

lemma js_sum_euro:
  assumes "\<And>x. x \<in> set xs \<Longrightarrow> f x = euro (c x) \<and> 0 \<le> c x"
    and "length xs \<le> 1000" and "sum_list (map c xs) \<le> BILLION"
  shows "\<bar>js_sum f xs - of_int (sum_list (map c xs)) / 100\<bar> \<le> of_nat (length xs) / 2 ^ 22"
  using assms
proof (induction xs rule: rev_induct)
  case (snoc x xs)
  have nonneg: "0 \<le> sum_list (map c xs)" "0 \<le> c x" using snoc.prems(1) by (auto intro!: sum_list_nonneg)
  let ?S = "of_int (sum_list (map c xs)) / 100 :: rat"
  have IH: "\<bar>js_sum f xs - ?S\<bar> \<le> of_nat (length xs) / 2 ^ 22"
  proof (rule snoc.IH)
    show "sum_list (map c xs) \<le> BILLION" using snoc.prems(3) nonneg by simp
  qed (use snoc.prems in auto)
  have fx: "f x = euro (c x)" using snoc.prems(1) by simp
  have ex: "\<bar>f x - of_int (c x) / 100\<bar> \<le> 1 / 2 ^ 23"
    unfolding fx by (rule euro_error) (use snoc.prems(3) nonneg in simp)
  have total: "?S + of_int (c x) / 100 \<le> 10 ^ 9" "0 \<le> ?S + of_int (c x) / 100"
    using snoc.prems(3) nonneg by (simp_all add: BILLION_def flip: add_divide_distrib of_int_add)
  have n: "of_nat (length xs) / 2 ^ 22 \<le> (1000 :: rat) / 2 ^ 22"
    using snoc.prems(2) by (intro divide_right_mono) auto
  have "\<bar>js_sum f xs + f x - (?S + of_int (c x) / 100)\<bar> \<le> of_nat (length xs) / 2 ^ 22 + 1 / 2 ^ 23"
    using IH ex by linarith
  moreover have "\<bar>js_sum f xs + f x\<bar> < 2 ^ 31" using calculation total n by simp
  then have "\<bar>js_add (js_sum f xs) (f x) - (js_sum f xs + f x)\<bar> \<le> 1 / 2 ^ 23"
    unfolding js_add_def by (rule fl_abs_error)
  ultimately have "\<bar>js_add (js_sum f xs) (f x) - (?S + of_int (c x) / 100)\<bar> \<le> of_nat (length xs) / 2 ^ 22 + 2 * (1 / 2 ^ 23)"
    by (rule error_step)
  then show ?case by (simp add: add_divide_distrib)
qed simp

lemma js_sum_euro_near:
  assumes "\<And>x. x \<in> set xs \<Longrightarrow> f x = euro (c x) \<and> 0 \<le> c x"
    and "length xs \<le> 1000" and "sum_list (map c xs) \<le> BILLION"
  shows "\<bar>js_sum f xs - of_int (sum_list (map c xs)) / 100\<bar> \<le> 1 / 4000"
proof -
  have "of_nat (length xs) / 2 ^ 22 \<le> (1000 :: rat) / 2 ^ 22"
    using assms(2) by (intro divide_right_mono) auto
  with js_sum_euro [OF assms] show ?thesis by simp
qed

lemma to_fixed2_sum:
  assumes "\<And>x. x \<in> set xs \<Longrightarrow> f x = euro (c x) \<and> 0 \<le> c x"
    and "length xs \<le> 1000" and "sum_list (map c xs) \<le> BILLION"
  shows "to_fixed2 (js_sum f xs) = sum_list (map c xs)"
proof (rule to_fixed2_near)
  show "0 \<le> js_sum f xs" using assms(1) by (intro js_sum_nonneg) (simp add: euro_nonneg)
  show "\<bar>js_sum f xs - of_int (sum_list (map c xs)) / 100\<bar> \<le> 1 / 250" using js_sum_euro_near [OF assms] by linarith
qed

lemma to_fixed2_euro: "0 \<le> c \<Longrightarrow> c \<le> BILLION \<Longrightarrow> to_fixed2 (euro c) = c"
  using euro_error [of c] by (intro to_fixed2_near) (auto simp: euro_nonneg)

end
