(* ===== verification/AccountingProps.thy ===== *)
theory AccountingProps
  imports Accounting Cents "HOL-Library.Multiset"
begin

text \<open>
  Correctness of the accounting service: invoices are well formed and numbered without
  gaps, every journal entry balances, an invoice is posted once with balanced lines, and the
  periods of the VAT liquidation divide the year.
\<close>

section \<open>Requests and reachable states\<close>

text \<open>
  Generated keys are new. The last rule is the sales module, which owns the customers.
\<close>

inductive acc_step :: "accounting_db \<Rightarrow> accounting_db \<Rightarrow> bool" where
  coa: "create_coa i t d s = (r, s') \<Longrightarrow> acc_step s s'"
| seeding: "seed_chart_of_accounts ids t s = (r, s') \<Longrightarrow> acc_step s s'"
| journal: "fresh i (journalEntries s) \<Longrightarrow> create_journal_entry i t j s = (r, s') \<Longrightarrow> acc_step s s'"
| invoicing: "fresh i (invoices s) \<Longrightarrow> create_invoice i t n s = (r, s') \<Longrightarrow> acc_step s s'"
| accepting: "fresh e (journalEntries s) \<Longrightarrow> accept_invoice now e t i s = (r, s') \<Longrightarrow> acc_step s s'"
| queueing: "queue_invoice_for_sdi now t i s = (r, s') \<Longrightarrow> acc_step s s'"
| customers: "acc_step s (s\<lparr>invoiceCustomers := cs\<rparr>)"

definition acc_reachable :: "accounting_db \<Rightarrow> bool" where
  "acc_reachable s \<longleftrightarrow>
     acc_step\<^sup>*\<^sup>* \<lparr>chartOfAccounts = [], journalEntries = [], invoices = [], invoiceCustomers = []\<rparr> s"

lemma acc_reachable_step: "acc_reachable s \<Longrightarrow> acc_step s s' \<Longrightarrow> acc_reachable s'"
  unfolding acc_reachable_def by (rule rtranclp.rtrancl_into_rtrancl)

lemma acc_reachable_induct [consumes 1, case_names start step]:
  assumes "acc_reachable s" and "P \<lparr>chartOfAccounts = [], journalEntries = [], invoices = [], invoiceCustomers = []\<rparr>"
    and "\<And>s s'. acc_reachable s \<Longrightarrow> P s \<Longrightarrow> acc_step s s' \<Longrightarrow> P s'"
  shows "P s"
  using assms(1) unfolding acc_reachable_def
  by (induction rule: rtranclp_induct) (use assms(2,3) in \<open>auto simp: acc_reachable_def\<close>)

text \<open>What a step does to invoices and journal.\<close>

lemma seed_accounts_keeps:
  "seed_accounts t xs n s = (r, s') \<Longrightarrow> invoices s' = invoices s \<and> journalEntries s' = journalEntries s"
proof (induction xs arbitrary: n s)
  case (Cons x xs)
  obtain i a where x: "x = (i, a)" by (cases x)
  show ?case
    using Cons.prems
    by (cases "find_code t (cai_code a) (chartOfAccounts s)") (auto simp: x svc_defs dest: Cons.IH)
qed (simp add: ret_def)

lemma accept_cases:
  assumes "accept_invoice now e t i s = (r, s')"
  obtains (unchanged) "s' = s" "\<And>x. r = Inr x \<Longrightarrow> find_scoped t i (invoices s) = Some x \<and> inv_status x = InvAccepted"
  | (posted) inv split where "find_scoped t i (invoices s) = Some inv" "inv_status inv \<noteq> InvAccepted"
      "\<not> unbalanced (js_sum jl_debit (posting_lines split inv)) (js_sum jl_credit (posting_lines split inv))"
      "split = (case find_scoped t (inv_customerId inv) (invoiceCustomers s) of None \<Rightarrow> False | Some c \<Rightarrow> cu_splitPayment c)"
      "r = Inr (inv\<lparr>inv_status := InvAccepted\<rparr>)"
      "s' = invoices_update (save_row (inv\<lparr>inv_status := InvAccepted\<rparr>))
         (journalEntries_update (save_row (journal_row e t (''INV-'' @ inv_number inv @ ''-'' @ dec (inv_fiscalYear inv))
            (iso_date now) ''vendite'' (''Registrazione fattura '' @ invoice_label inv) (posting_lines split inv) True)) s)"
proof (cases r)
  case (Inl x)
  then have "fst (accept_invoice now e t i s) = Inl x" using assms by simp
  then have "snd (accept_invoice now e t i s) = s" unfolding accept_invoice_def by (rule transaction_rollback)
  then show thesis using assms Inl by (intro unchanged) simp_all
next
  case (Inr x)
  then obtain inv where inv: "find_scoped t i (invoices s) = Some inv"
    using assms by (auto simp: accept_invoice_def get_invoice_def svc_simps)
  show thesis
  proof (cases "inv_status inv = InvAccepted")
    case True
    then show thesis using assms Inr inv unchanged by (auto simp: accept_invoice_def get_invoice_def svc_simps)
  next
    case False
    then show thesis
      using assms Inr inv by (intro posted) (auto simp: accept_invoice_def get_invoice_def save_journal_def save_invoice_def svc_simps Let_def)
  qed
qed

lemma queue_cases:
  assumes "queue_invoice_for_sdi now t i s = (r, s')"
  obtains (unchanged) "s' = s"
  | (queued) inv where "find_scoped t i (invoices s) = Some inv" "inv_status inv = InvDraft"
      "s' = invoices_update (save_row (inv\<lparr>inv_status := InvQueued, inv_submittedAt := Some now\<rparr>)) s"
  using assms
  by (auto simp: queue_invoice_for_sdi_def get_invoice_def save_invoice_def svc_defs split: option.splits if_splits)
lemma step_invoices:
  assumes "acc_step s s'"
  obtains (same) "invoices s' = invoices s"
  | (created) i t n where "fresh i (invoices s)"
      "invoices s' = invoices s @ [invoice_of i t (next_invoice_number t (year_of (ii_invoiceDate n)) s) n]"
  | (changed) t i inv st sub where "find_scoped t i (invoices s) = Some inv" "inv_status inv \<noteq> InvAccepted"
      "st = InvQueued \<and> inv_status inv = InvDraft \<and> sub \<noteq> None \<or> st = InvAccepted \<and> sub = inv_submittedAt inv"
      "invoices s' = save_row (inv\<lparr>inv_status := st, inv_submittedAt := sub\<rparr>) (invoices s)"
  using assms
proof (cases rule: acc_step.cases)
  case coa
  then show thesis
    by (intro same) (auto simp: create_coa_def svc_defs split: if_splits option.splits)
next
  case seeding
  then show thesis by (intro same) (auto simp: seed_chart_of_accounts_def dest: seed_accounts_keeps)
next
  case journal
  then show thesis
    by (intro same) (auto simp: create_journal_entry_def save_journal_def svc_defs Let_def split: if_splits)
next
  case (invoicing i t n r)
  have "ent_id (invoice_of i t k n) = i" for k by (simp add: invoice_of_def Let_def)
  then show thesis using invoicing
    by (intro created [of i t n]) (auto simp: create_invoice_def save_invoice_def svc_defs fresh_save_row)
next
  case (accepting e now t i r)
  from accepting(2) show thesis
  proof (cases rule: accept_cases)
    case (posted inv split)
    then show thesis by (intro changed [of t i inv InvAccepted "inv_submittedAt inv"]) auto
  qed (use same in simp)
next
  case (queueing now t i r)
  from queueing(1) show thesis
  proof (cases rule: queue_cases)
    case (queued inv)
    then show thesis by (intro changed [of t i inv InvQueued "Some now"]) auto
  qed (use same in simp)
next
  case customers
  then show thesis by (intro same) simp
qed

lemma step_journal:
  assumes "acc_step s s'"
  obtains (same) "journalEntries s' = journalEntries s"
  | (booked) e t ref date j d lines p where "fresh e (journalEntries s)"
      "\<not> unbalanced (js_sum jl_debit lines) (js_sum jl_credit lines)"
      "journalEntries s' = journalEntries s @ [journal_row e t ref date j d lines p]"
  using assms
proof (cases rule: acc_step.cases)
  case coa
  then show thesis
    by (intro same) (auto simp: create_coa_def svc_defs split: if_splits option.splits)
next
  case seeding
  then show thesis by (intro same) (auto simp: seed_chart_of_accounts_def dest: seed_accounts_keeps)
next
  case (journal i t j r)
  let ?lines = "map journal_line_of (ji_lines j)"
  show thesis
  proof (cases "unbalanced (js_sum jl_debit ?lines) (js_sum jl_credit ?lines)")
    case True
    then show thesis using journal by (intro same) (auto simp: create_journal_entry_def svc_defs Let_def)
  next
    case False
    have "ent_id (journal_row i t ref date k d ls p) = i" for ref date k d ls p by (simp add: journal_row_def)
    with False show thesis using journal
      by (intro booked [OF journal(1) False])
        (auto simp: create_journal_entry_def save_journal_def svc_defs Let_def fresh_save_row)
  qed
next
  case invoicing
  then show thesis by (intro same) (auto simp: create_invoice_def save_invoice_def svc_defs)
next
  case (accepting e now t i r)
  from accepting(2) show thesis
  proof (cases rule: accept_cases)
    case (posted inv split)
    have "ent_id (journal_row e t ref date k d ls p) = e" for ref date k d ls p by (simp add: journal_row_def)
    with posted accepting(1) show thesis by (intro booked [OF accepting(1) posted(3)]) (auto simp: fresh_save_row)
  qed (use same in simp)
next
  case (queueing now t i r)
  from queueing(1) show thesis
  proof (cases rule: queue_cases)
    case (queued inv)
    then show thesis by (intro same) simp
  qed (use same in simp)
next
  case customers
  then show thesis by (intro same) simp
qed

lemma acc_keyed: "acc_reachable s \<Longrightarrow> keyed (invoices s)"
proof (induction rule: acc_reachable_induct)
  case (step s s')
  from step(2) show ?case
  proof (cases rule: step_invoices)
    case (created i t n)
    then show ?thesis using step(3) by (auto simp: keyed_def fresh_def invoice_of_def Let_def)
  qed (use step(3) in \<open>simp_all add: keyed_save_row\<close>)
qed (simp add: keyed_def)

lemma acc_journal_keyed: "acc_reachable s \<Longrightarrow> keyed (journalEntries s)"
proof (induction rule: acc_reachable_induct)
  case (step s s')
  from step(2) show ?case
  proof (cases rule: step_journal)
    case (booked e t ref date j d lines p)
    then show ?thesis using step(3) by (auto simp: keyed_def fresh_def journal_row_def)
  qed (use step(3) in simp)
qed (simp add: keyed_def)

section \<open>Numbering\<close>

text \<open>Saving a row with the same projection under its key changes no projection.\<close>

definition year_numbers :: "uuid \<Rightarrow> nat \<Rightarrow> invoice list \<Rightarrow> string list" where
  "year_numbers t y rows = map inv_number (filter (\<lambda>i. tenantId i = t \<and> inv_fiscalYear i = y) rows)"

lemma year_numbers_project:
  "year_numbers t y rows = map snd (filter (\<lambda>p. fst p = (t, y)) (map (\<lambda>i. ((tenantId i, inv_fiscalYear i), inv_number i)) rows))"
  by (simp add: year_numbers_def filter_map o_def)

definition numbered :: "string list \<Rightarrow> bool" where
  "numbered xs \<longleftrightarrow> xs = map invoice_number [1..<Suc (length xs)]"

lemma numbered_snoc: "numbered xs \<Longrightarrow> numbered (xs @ [invoice_number (Suc (length xs))])"
  unfolding numbered_def length_append by (subst upt_Suc) simp

lemma reachable_numbers:
  assumes "acc_reachable s"
  shows "\<forall>t y. numbered (year_numbers t y (invoices s))"
  using assms
proof (induction rule: acc_reachable_induct)
  case (step s s')
  from step(2) show ?case
  proof (cases rule: step_invoices)
    case (created i t n)
    let ?i = "invoice_of i t (next_invoice_number t (year_of (ii_invoiceDate n)) s) n"
    have i: "tenantId ?i = t" "inv_fiscalYear ?i = year_of (ii_invoiceDate n)"
      "inv_number ?i = next_invoice_number t (year_of (ii_invoiceDate n)) s"
      by (simp_all add: invoice_of_def Let_def)
    have last: "next_invoice_number t' y s = invoice_number (Suc (length (year_numbers t' y (invoices s))))" for t' y
      by (simp add: next_invoice_number_def year_numbers_def)
    have split: "year_numbers t' y (invoices s') = year_numbers t' y (invoices s) @
        (if t' = t \<and> y = year_of (ii_invoiceDate n) then [next_invoice_number t y s] else [])" for t' y
      by (auto simp: year_numbers_def created(2) i)
    show ?thesis unfolding split using step(3) by (auto simp: last numbered_snoc)
  next
    case (changed t i inv st sub)
    have "inv \<in> set (invoices s)" using find_scoped_Some [OF changed(1)] by simp
    from map_save_row [OF acc_keyed [OF step(1)] this, of "inv\<lparr>inv_status := st, inv_submittedAt := sub\<rparr>"
        "\<lambda>i. ((tenantId i, inv_fiscalYear i), inv_number i)"]
    show ?thesis using step(3) unfolding year_numbers_project changed(4) by simp
  qed (use step(3) in simp)
qed (simp add: year_numbers_def numbered_def)

text \<open>
  C16. Invoices are numbered without gaps. In every reachable state the invoices of a
  tenant and a fiscal year, in the order of their creation, carry the numbers 1, 2, 3 and so
  on, padded to six digits.
\<close>

theorem invoices_numbered_without_gaps:
  assumes "acc_reachable s"
  shows "\<forall>t y. map inv_number (filter (\<lambda>i. tenantId i = t \<and> inv_fiscalYear i = y) (invoices s)) =
    map invoice_number [1..<Suc (length (filter (\<lambda>i. tenantId i = t \<and> inv_fiscalYear i = y) (invoices s)))]"
  using reachable_numbers [OF assms] by (simp add: year_numbers_def numbered_def del: upt_Suc)

section \<open>The journal balances\<close>

lemma milli: "fl (1 / 1000) \<le> 1 / 500"
proof -
  have "\<bar>fl (1 / 1000) - 1 / 1000\<bar> \<le> 1 / 2 ^ 23" by (rule fl_abs_error) simp
  then have "fl (1 / 1000) - 1 / 1000 \<le> 1 / 2 ^ 23" by (rule abs_le_D1)
  then show ?thesis by simp
qed

text \<open>Sums that pass the check of the service and come from whole cents are equal.\<close>

lemma near_difference:
  fixes f g C D x :: rat
  assumes "\<bar>f - C\<bar> \<le> 1 / 4000" and "\<bar>g - D\<bar> \<le> 1 / 4000"
  shows "0 \<le> C \<Longrightarrow> C \<le> 1000000000 \<Longrightarrow> 0 \<le> D \<Longrightarrow> D \<le> 1000000000 \<Longrightarrow> \<bar>f - g\<bar> < 2147483648"
    and "\<bar>x - (f - g)\<bar> \<le> 1 / 8388608 \<Longrightarrow> \<bar>x\<bar> \<le> 1 / 500 \<Longrightarrow> \<bar>C - D\<bar> < 1 / 100"
  using assms by linarith+

lemma balanced_cents:
  assumes "\<not> unbalanced (js_sum f xs) (js_sum g xs)" and "length xs \<le> 1000"
    and "\<And>x. x \<in> set xs \<Longrightarrow> f x = euro (c x) \<and> 0 \<le> c x" and "sum_list (map c xs) \<le> BILLION"
    and "\<And>x. x \<in> set xs \<Longrightarrow> g x = euro (d x) \<and> 0 \<le> d x" and "sum_list (map d xs) \<le> BILLION"
  shows "sum_list (map c xs) = sum_list (map d xs)"
proof -
  let ?f = "js_sum f xs" and ?g = "js_sum g xs" and ?C = "sum_list (map c xs)" and ?D = "sum_list (map d xs)"
  have f: "\<bar>?f - of_int ?C / 100\<bar> \<le> 1 / 4000" by (rule js_sum_euro_near [OF assms(3,2,4)])
  have g: "\<bar>?g - of_int ?D / 100\<bar> \<le> 1 / 4000" by (rule js_sum_euro_near [OF assms(5,2,6)])
  have pos: "0 \<le> ?C" "0 \<le> ?D" using assms(3,5) by (auto intro!: sum_list_nonneg)
  have "(of_int ?C :: rat) \<le> of_int BILLION" "(of_int ?D :: rat) \<le> of_int BILLION" using assms(4,6) by (simp_all only: of_int_le_iff)
  then have small: "of_int ?C / 100 \<le> (10 ^ 9 :: rat)" "of_int ?D / 100 \<le> (10 ^ 9 :: rat)" by (simp_all add: BILLION_def)
  have pos': "0 \<le> (of_int ?C / 100 :: rat)" "0 \<le> (of_int ?D / 100 :: rat)" using pos by simp_all
  have "\<bar>?f - ?g\<bar> < 2 ^ 31" using near_difference(1) [OF f g] small pos' by simp
  then have "\<bar>fl (?f - ?g) - (?f - ?g)\<bar> \<le> 1 / 2 ^ 23" by (rule fl_abs_error)
  moreover have "\<bar>fl (?f - ?g)\<bar> \<le> 1 / 500" using assms(1) milli by (simp add: unbalanced_def js_sub_def)
  ultimately have "\<bar>of_int ?C / 100 - of_int ?D / 100 :: rat\<bar> < 1 / 100"
    using near_difference(2) [OF f g] by simp
  then have "\<bar>of_int (?C - ?D) :: rat\<bar> < of_int 1" by (simp flip: diff_divide_distrib)
  then have "\<bar>?C - ?D\<bar> < 1" by (simp only: of_int_abs [symmetric] of_int_less_iff)
  then show ?thesis by simp
qed

lemma acc_entries:
  assumes "acc_reachable s"
  shows "\<forall>e\<in>set (journalEntries s). \<not> unbalanced (js_sum jl_debit (je_lines e)) (js_sum jl_credit (je_lines e)) \<and>
    je_totalDebit e = js_fixed2 (js_sum jl_debit (je_lines e)) \<and> je_totalCredit e = js_fixed2 (js_sum jl_credit (je_lines e))"
  using assms
proof (induction rule: acc_reachable_induct)
  case (step s s')
  from step(2) show ?case
    by (cases rule: step_journal) (use step(3) in \<open>auto simp: journal_row_def\<close>)
qed simp

text \<open>
  C17. The ledger balances to the cent. In every reachable state each journal entry whose
  amounts are nonnegative whole cents, with at most a thousand lines and at most a thousand
  million euros on either side, has debits and credits with exactly the same sum, and this
  sum is what its two total fields hold.
\<close>

theorem ledger_balances_to_the_cent:
  assumes "acc_reachable s" and "e \<in> set (journalEntries s)"
    and "\<forall>l\<in>set (je_lines e). jl_debit l = euro (deb l) \<and> 0 \<le> deb l \<and> jl_credit l = euro (cred l) \<and> 0 \<le> cred l"
    and "length (je_lines e) \<le> 1000"
    and "sum_list (map deb (je_lines e)) \<le> BILLION" and "sum_list (map cred (je_lines e)) \<le> BILLION"
  shows "sum_list (map deb (je_lines e)) = sum_list (map cred (je_lines e)) \<and>
    je_totalDebit e = euro (sum_list (map deb (je_lines e))) \<and>
    je_totalCredit e = euro (sum_list (map deb (je_lines e)))"
proof -
  let ?D = "sum_list (map deb (je_lines e))" and ?C = "sum_list (map cred (je_lines e))"
  from acc_entries [OF assms(1)] assms(2)
  have e: "\<not> unbalanced (js_sum jl_debit (je_lines e)) (js_sum jl_credit (je_lines e))"
    "je_totalDebit e = js_fixed2 (js_sum jl_debit (je_lines e))" "je_totalCredit e = js_fixed2 (js_sum jl_credit (je_lines e))"
    by simp_all
  have eq: "?D = ?C" using assms by (intro balanced_cents [OF e(1)]) auto
  have "to_fixed2 (js_sum jl_debit (je_lines e)) = ?D" "to_fixed2 (js_sum jl_credit (je_lines e)) = ?C"
    using assms by (auto intro!: to_fixed2_sum)
  with e(2,3) eq show ?thesis by (simp add: js_fixed2_euro)
qed

section \<open>Invoices are well formed\<close>

definition computed_amounts :: "invoice \<Rightarrow> bool" where
  "computed_amounts i \<longleftrightarrow>
     (\<forall>l\<in>set (inv_lines i). il_lineTotal l = js_fixed2 (js_mul (il_quantity l) (il_unitPrice l))) \<and>
     (let subtotal = js_sum il_lineTotal (inv_lines i);
          tax = js_sum line_tax (filter (\<lambda>l. \<not> truthy (il_ivaNature l)) (inv_lines i))
      in inv_subtotalAmount i = js_fixed2 subtotal \<and> inv_taxAmount i = js_fixed2 tax \<and>
         inv_totalAmount i = js_fixed2 (js_add subtotal tax))"

lemma reachable_invoices:
  assumes "acc_reachable s"
  shows "\<forall>i\<in>set (invoices s). inv_status i \<in> {InvDraft, InvQueued, InvAccepted} \<and>
    (inv_status i = InvDraft \<longrightarrow> inv_submittedAt i = None) \<and> (inv_status i = InvQueued \<longrightarrow> inv_submittedAt i \<noteq> None) \<and>
    inv_fiscalYear i = year_of (inv_invoiceDate i) \<and> computed_amounts i"
  using assms
proof (induction rule: acc_reachable_induct)
  case (step s s')
  from step(2) show ?case
  proof (cases rule: step_invoices)
    case (created i t n)
    then show ?thesis using step(3)
      by (auto simp: invoice_of_def computed_amounts_def invoice_line_of_def Let_def)
  next
    case (changed t i inv st sub)
    have "inv \<in> set (invoices s)" using find_scoped_Some [OF changed(1)] by simp
    with changed step(3) show ?thesis
      by (auto simp: set_save_row acc_keyed [OF step(1)] computed_amounts_def Let_def)
  qed (use step(3) in simp)
qed simp

text \<open>
  C18. The type of an invoice row. In every reachable state an invoice is a draft, queued or
  accepted; a draft has no submission time and a queued one has; the fiscal year is the year of
  its date; each line total, the subtotal, the tax and the total are the rounded results of the
  computation on its own lines, whatever was done to the invoice since it was created.
\<close>

theorem invoices_well_formed:
  assumes "acc_reachable s"
  shows "\<forall>i\<in>set (invoices s). inv_status i \<in> {InvDraft, InvQueued, InvAccepted} \<and>
    (inv_status i = InvDraft \<longrightarrow> inv_submittedAt i = None) \<and> (inv_status i = InvQueued \<longrightarrow> inv_submittedAt i \<noteq> None) \<and>
    inv_fiscalYear i = year_of (inv_invoiceDate i) \<and> computed_amounts i"
  by (rule reachable_invoices [OF assms])

section \<open>Posting\<close>

definition line_cents :: "invoice_line \<Rightarrow> int" where
  "line_cents l = to_fixed2 (js_mul (il_quantity l) (il_unitPrice l))"

definition tax_cents :: "invoice_line \<Rightarrow> int" where
  "tax_cents l = to_fixed2 (js_div (js_mul (il_lineTotal l) (il_ivaRate l)) 100)"

definition subtotal_cents :: "invoice \<Rightarrow> int" where
  "subtotal_cents i = sum_list (map line_cents (inv_lines i))"

definition total_tax_cents :: "invoice \<Rightarrow> int" where
  "total_tax_cents i = sum_list (map tax_cents (filter (\<lambda>l. \<not> truthy (il_ivaNature l)) (inv_lines i)))"

text \<open>
  What the request validation admits (nonnegative quantities, prices and rates), with at most a
  thousand lines and a thousand million euros.
\<close>

definition moderate_invoice :: "invoice \<Rightarrow> bool" where
  "moderate_invoice i \<longleftrightarrow>
     length (inv_lines i) \<le> 1000 \<and> subtotal_cents i + total_tax_cents i \<le> BILLION \<and>
     (\<forall>l\<in>set (inv_lines i). 0 \<le> il_quantity l \<and> 0 \<le> il_unitPrice l \<and> 0 \<le> il_ivaRate l)"

lemma js_mul_nonneg: "0 \<le> a \<Longrightarrow> 0 \<le> b \<Longrightarrow> 0 \<le> js_mul a b"
  by (simp add: js_mul_def fl_nonneg)

lemma js_div_nonneg: "0 \<le> a \<Longrightarrow> 0 < b \<Longrightarrow> 0 \<le> js_div a b"
  by (simp add: js_div_def fl_nonneg)

lemma near_sum:
  fixes x y C D z :: rat
  assumes "\<bar>x - C\<bar> \<le> 1 / 4000" and "\<bar>y - D\<bar> \<le> 1 / 4000"
  shows "0 \<le> C \<Longrightarrow> 0 \<le> D \<Longrightarrow> C + D \<le> 1000000000 \<Longrightarrow> \<bar>x + y\<bar> < 2147483648"
    and "\<bar>z - (x + y)\<bar> \<le> 1 / 8388608 \<Longrightarrow> \<bar>z - (C + D)\<bar> \<le> 3 / 5000"
  using assms by linarith+

lemma js_add_euro:
  assumes "\<bar>x - of_int c / 100\<bar> \<le> 1 / 4000" and "\<bar>y - of_int d / 100\<bar> \<le> 1 / 4000"
    and "0 \<le> c" "0 \<le> d" "c + d \<le> BILLION"
  shows "\<bar>js_add x y - of_int (c + d) / 100\<bar> \<le> 3 / 5000"
proof -
  have "0 \<le> (of_int c / 100 :: rat)" "0 \<le> (of_int d / 100 :: rat)" using assms(3,4) by simp_all
  moreover have "of_int c / 100 + of_int d / 100 \<le> (10 ^ 9 :: rat)"
  proof -
    have "(of_int (c + d) :: rat) \<le> of_int BILLION" using assms(5) by (simp only: of_int_le_iff)
    then show ?thesis by (simp add: BILLION_def)
  qed
  ultimately have "\<bar>x + y\<bar> < 2 ^ 31" using near_sum(1) [OF assms(1,2)] by simp
  then have "\<bar>js_add x y - (x + y)\<bar> \<le> 1 / 2 ^ 23" unfolding js_add_def by (rule fl_abs_error)
  then show ?thesis using near_sum(2) [OF assms(1,2)] by (simp add: add_divide_distrib)
qed

lemma moderate_amounts:
  assumes "computed_amounts i" and "moderate_invoice i"
  shows "inv_subtotalAmount i = euro (subtotal_cents i)" and "inv_taxAmount i = euro (total_tax_cents i)"
    and "inv_totalAmount i = euro (subtotal_cents i + total_tax_cents i)"
    and "0 \<le> subtotal_cents i" and "0 \<le> total_tax_cents i"
proof -
  let ?taxed = "filter (\<lambda>l. \<not> truthy (il_ivaNature l)) (inv_lines i)"
  let ?S = "js_sum il_lineTotal (inv_lines i)" and ?T = "js_sum line_tax ?taxed"
  have amounts: "inv_subtotalAmount i = js_fixed2 ?S" "inv_taxAmount i = js_fixed2 ?T" "inv_totalAmount i = js_fixed2 (js_add ?S ?T)"
    using assms(1) by (simp_all add: computed_amounts_def Let_def)
  have line: "il_lineTotal l = euro (line_cents l) \<and> 0 \<le> line_cents l" if "l \<in> set (inv_lines i)" for l
    using that assms by (auto simp: computed_amounts_def moderate_invoice_def line_cents_def js_fixed2_euro
        intro!: to_fixed2_nonneg js_mul_nonneg)
  have tax: "line_tax l = euro (tax_cents l) \<and> 0 \<le> tax_cents l" if "l \<in> set ?taxed" for l
    using that assms(2) line by (auto simp: moderate_invoice_def line_tax_def tax_cents_def js_fixed2_euro
        intro!: to_fixed2_nonneg js_mul_nonneg js_div_nonneg euro_nonneg)
  show nonneg: "0 \<le> subtotal_cents i" "0 \<le> total_tax_cents i"
    using line tax unfolding subtotal_cents_def total_tax_cents_def by (auto intro!: sum_list_nonneg)
  have bounds: "length (inv_lines i) \<le> 1000" "length ?taxed \<le> 1000" "subtotal_cents i \<le> BILLION" "total_tax_cents i \<le> BILLION"
    using assms(2) nonneg by (auto simp: moderate_invoice_def intro: order_trans [OF length_filter_le])
  note S = js_sum_euro_near [OF line bounds(1) bounds(3) [unfolded subtotal_cents_def]]
    and T = js_sum_euro_near [OF tax bounds(2) bounds(4) [unfolded total_tax_cents_def]]
  show "inv_subtotalAmount i = euro (subtotal_cents i)"
    using to_fixed2_sum [OF line bounds(1) bounds(3) [unfolded subtotal_cents_def]]
    by (simp add: amounts js_fixed2_euro subtotal_cents_def)
  show "inv_taxAmount i = euro (total_tax_cents i)"
    using to_fixed2_sum [OF tax bounds(2) bounds(4) [unfolded total_tax_cents_def]]
    by (simp add: amounts js_fixed2_euro total_tax_cents_def)
  have "0 \<le> ?S" "0 \<le> ?T" using line tax by (auto intro!: js_sum_nonneg euro_nonneg)
  then have "to_fixed2 (js_add ?S ?T) = subtotal_cents i + total_tax_cents i"
    using js_add_euro [OF S [folded subtotal_cents_def] T [folded total_tax_cents_def] nonneg] assms(2)
    by (intro to_fixed2_near) (auto simp: moderate_invoice_def js_add_nonneg)
  then show "inv_totalAmount i = euro (subtotal_cents i + total_tax_cents i)" by (simp add: amounts js_fixed2_euro)
qed

lemma near_bounds: "\<bar>x - y\<bar> \<le> e \<Longrightarrow> y - e \<le> x \<and> x \<le> y + (e :: rat)"
  by linarith

lemma near_common: "\<bar>a - m\<bar> \<le> e \<Longrightarrow> \<bar>b - m\<bar> \<le> d \<Longrightarrow> \<bar>b - a\<bar> \<le> e + (d :: rat)"
  by linarith

lemma near_abs: "\<bar>y\<bar> \<le> d \<Longrightarrow> \<bar>x - y\<bar> \<le> e \<Longrightarrow> \<bar>x\<bar> \<le> d + (e :: rat)"
  by linarith

lemma fl_euro [simp]: "fl (euro c) = euro c"
  by (simp add: euro_def)

lemma euro_0 [simp]: "euro 0 = 0"
  by (simp add: euro_def)

lemma euro_pos: "0 < c \<Longrightarrow> c \<le> BILLION \<Longrightarrow> 0 < euro c"
proof -
  assume c: "0 < c" "c \<le> BILLION"
  then have "(1 :: rat) \<le> of_int c" by (metis of_int_1_le_iff zless_imp_add1_zle add_0)
  then show ?thesis using near_bounds [OF euro_error [of c]] c by simp
qed

lemma js_fixed2_of_euro: "0 \<le> c \<Longrightarrow> c \<le> BILLION \<Longrightarrow> js_fixed2 (euro c) = euro c"
  by (simp add: js_fixed2_euro to_fixed2_euro)

lemma milli_lower: "3 / 5000 + 1 / 4000 \<le> fl (1 / 1000)"
proof -
  have "\<bar>fl (1 / 1000) - 1 / 1000\<bar> \<le> 1 / 2 ^ 23" by (rule fl_abs_error) simp
  then show ?thesis using near_bounds by fastforce
qed

lemma euro_sum_balanced:
  assumes "0 \<le> s" "0 \<le> t" "s + t \<le> BILLION"
  shows "\<not> unbalanced (euro (s + t)) (js_add (euro s) (euro t))"
proof -
  have near: "\<bar>euro c - of_int c / 100\<bar> \<le> 1 / 4000" if "0 \<le> c" "c \<le> BILLION" for c
    using euro_error [of c] that by simp
  have "\<bar>js_add (euro s) (euro t) - of_int (s + t) / 100\<bar> \<le> 3 / 5000"
    using assms by (intro js_add_euro near) auto
  moreover have "\<bar>euro (s + t) - of_int (s + t) / 100\<bar> \<le> 1 / 2 ^ 23"
    using assms by (intro euro_error) auto
  ultimately have d: "\<bar>euro (s + t) - js_add (euro s) (euro t)\<bar> \<le> 3 / 5000 + 1 / 2 ^ 23" by (rule near_common)
  then have "\<bar>euro (s + t) - js_add (euro s) (euro t)\<bar> < 2 ^ 31" by simp
  then have "\<bar>js_sub (euro (s + t)) (js_add (euro s) (euro t)) - (euro (s + t) - js_add (euro s) (euro t))\<bar> \<le> 1 / 2 ^ 23"
    unfolding js_sub_def by (rule fl_abs_error)
  with d have "\<bar>js_sub (euro (s + t)) (js_add (euro s) (euro t))\<bar> \<le> 3 / 5000 + 1 / 2 ^ 23 + 1 / 2 ^ 23" by (rule near_abs)
  with milli_lower show ?thesis by (simp add: unbalanced_def)
qed

lemma posting_lines_cents:
  assumes "computed_amounts i" and "moderate_invoice i"
  shows "map (\<lambda>l. (jl_accountCode l, jl_debit l, jl_credit l)) (posting_lines split i) =
      (if split then [(CREDITI_CLIENTI, euro (subtotal_cents i), 0), (RICAVI_VENDITA, 0, euro (subtotal_cents i))]
       else [(CREDITI_CLIENTI, euro (subtotal_cents i + total_tax_cents i), 0), (RICAVI_VENDITA, 0, euro (subtotal_cents i))] @
         (if 0 < total_tax_cents i then [(IVA_DEBITO, 0, euro (total_tax_cents i))] else []))"
    and "\<not> unbalanced (js_sum jl_debit (posting_lines split i)) (js_sum jl_credit (posting_lines split i))"
proof -
  note amounts = moderate_amounts [OF assms]
  have sums: "subtotal_cents i + total_tax_cents i \<le> BILLION" using assms(2) by (simp add: moderate_invoice_def)
  have fixed: "js_fixed2 (euro (subtotal_cents i)) = euro (subtotal_cents i)"
    "js_fixed2 (euro (total_tax_cents i)) = euro (total_tax_cents i)"
    "js_fixed2 (euro (subtotal_cents i + total_tax_cents i)) = euro (subtotal_cents i + total_tax_cents i)"
    using amounts sums by (auto intro!: js_fixed2_of_euro)
  have tax: "0 < euro (total_tax_cents i) \<longleftrightarrow> 0 < total_tax_cents i"
    using amounts sums euro_pos [of "total_tax_cents i"] by (cases "total_tax_cents i = 0") auto
  show "map (\<lambda>l. (jl_accountCode l, jl_debit l, jl_credit l)) (posting_lines split i) =
      (if split then [(CREDITI_CLIENTI, euro (subtotal_cents i), 0), (RICAVI_VENDITA, 0, euro (subtotal_cents i))]
       else [(CREDITI_CLIENTI, euro (subtotal_cents i + total_tax_cents i), 0), (RICAVI_VENDITA, 0, euro (subtotal_cents i))] @
         (if 0 < total_tax_cents i then [(IVA_DEBITO, 0, euro (total_tax_cents i))] else []))"
    by (simp add: posting_lines_def posting_line_def Let_def amounts fixed tax)
  show "\<not> unbalanced (js_sum jl_debit (posting_lines split i)) (js_sum jl_credit (posting_lines split i))"
    using euro_sum_balanced [OF amounts(4,5) sums] euro_sum_balanced [OF amounts(4), of 0] amounts sums
    by (auto simp: posting_lines_def posting_line_def Let_def fixed tax js_sum_def js_add_def)
qed

text \<open>
  An invoice can be posted, and the posting is right. In every reachable state an
  invoice of at most a thousand lines and a thousand million euros that is not accepted yet is
  accepted by the request to do so: the journal gains exactly one posted entry, which debits the
  customer with the sum of the rounded line amounts and the rounded taxes and credits the sales
  and the tax account, to the cent; for a customer under split payment the tax is left out on
  both sides.
\<close>

theorem invoice_posting_to_the_cent:
  assumes "acc_reachable s" and "i \<in> set (invoices s)" and "inv_status i \<noteq> InvAccepted" and "moderate_invoice i"
    and "fresh e (journalEntries s)"
    and "split = (case find_scoped (tenantId i) (inv_customerId i) (invoiceCustomers s) of None \<Rightarrow> False | Some c \<Rightarrow> cu_splitPayment c)"
  shows "\<exists>entry.
    accept_invoice now e (tenantId i) (ent_id i) s =
      (Inr (i\<lparr>inv_status := InvAccepted\<rparr>),
       s\<lparr>journalEntries := journalEntries s @ [entry], invoices := save_row (i\<lparr>inv_status := InvAccepted\<rparr>) (invoices s)\<rparr>) \<and>
    tenantId entry = tenantId i \<and> je_isPosted entry \<and>
    map (\<lambda>l. (jl_accountCode l, jl_debit l, jl_credit l)) (je_lines entry) =
      (if split then [(CREDITI_CLIENTI, euro (subtotal_cents i), 0), (RICAVI_VENDITA, 0, euro (subtotal_cents i))]
       else [(CREDITI_CLIENTI, euro (subtotal_cents i + total_tax_cents i), 0), (RICAVI_VENDITA, 0, euro (subtotal_cents i))] @
         (if 0 < total_tax_cents i then [(IVA_DEBITO, 0, euro (total_tax_cents i))] else []))"
proof -
  have computed: "computed_amounts i" using reachable_invoices [OF assms(1)] assms(2) by blast
  let ?lines = "posting_lines split i"
  note lines = posting_lines_cents [OF computed assms(4), of split]
  have find: "find_scoped (tenantId i) (ent_id i) (invoices s) = Some i"
    using assms(2) acc_keyed [OF assms(1)] by (simp add: find_scoped_keyed)
  let ?entry = "journal_row e (tenantId i) (''INV-'' @ inv_number i @ ''-'' @ dec (inv_fiscalYear i)) (iso_date now) ''vendite''
    (''Registrazione fattura '' @ invoice_label i) ?lines True"
  have "accept_invoice now e (tenantId i) (ent_id i) s =
      (Inr (i\<lparr>inv_status := InvAccepted\<rparr>),
       s\<lparr>journalEntries := journalEntries s @ [?entry], invoices := save_row (i\<lparr>inv_status := InvAccepted\<rparr>) (invoices s)\<rparr>)"
    using assms(3,5) lines(2)
    by (simp add: accept_invoice_def get_invoice_def save_journal_def save_invoice_def svc_defs find Let_def assms(6) [symmetric]
        fresh_save_row journal_row_def)
  moreover have "tenantId ?entry = tenantId i" "je_isPosted ?entry" "je_lines ?entry = ?lines"
    by (simp_all add: journal_row_def)
  ultimately show ?thesis using lines(1) by (intro exI [of _ ?entry]) simp
qed

text \<open>
  An accepted invoice is final. Once a request has accepted an invoice, then after any
  further requests its row is still the same, accepting it again returns that row and changes
  nothing, so that it is never posted a second time, and queueing it is refused.
\<close>

theorem accepted_invoice_is_final:
  assumes "acc_reachable s" and "accept_invoice now e t i s = (Inr row, s1)" and "acc_step\<^sup>*\<^sup>* s1 s2"
  shows "accept_invoice now' e' t i s2 = (Inr row, s2) \<and> queue_invoice_for_sdi now' t i s2 = (Inl BadRequest, s2) \<and>
    inv_status row = InvAccepted"
proof -
  from assms(2) have s1: "find_scoped t i (invoices s1) = Some row \<and> inv_status row = InvAccepted"
  proof (cases rule: accept_cases)
    case unchanged
    then show ?thesis by simp
  next
    case (posted inv' split)
    then show ?thesis using find_scoped_Some [OF posted(1)] by (auto simp: find_scoped_save acc_keyed [OF assms(1)])
  qed
  have "keyed (invoices s1)"
    using assms(2) acc_keyed [OF assms(1)] by (cases rule: accept_cases) (auto simp: keyed_save_row)
  from assms(3) this s1 have "keyed (invoices s2) \<and> find_scoped t i (invoices s2) = Some row"
  proof (induction rule: rtranclp_induct)
    case (step u v)
    then have u: "keyed (invoices u)" "find_scoped t i (invoices u) = Some row" "inv_status row = InvAccepted" by simp_all
    from step(2) show ?case
    proof (cases rule: step_invoices)
      case (created j t' n)
      have "ent_id (invoice_of j t' k n) = j" for k by (simp add: invoice_of_def Let_def)
      with created u show ?thesis
        by (auto simp: fresh_save_row [symmetric] keyed_save_row find_scoped_save fresh_def dest: find_scoped_Some)
    next
      case (changed t' j inv' st sub)
      have "i \<noteq> ent_id inv'"
        using changed(1,2) u find_scoped_Some [OF changed(1)] find_scoped_Some [OF u(2)] table.key_inj [OF u(1)] by metis
      with changed u show ?thesis by (simp add: keyed_save_row find_scoped_save)
    qed (use u in simp)
  qed simp
  with s1 show ?thesis
    by (simp add: accept_invoice_def queue_invoice_for_sdi_def get_invoice_def svc_defs)
qed

text \<open>
  Credit notes are booked as sales. The document type of an invoice plays no role in
  posting and liquidation: if the types of all invoices are changed in an arbitrary way, the
  acceptance of any of them writes the same journal and the liquidation of any period gives the
  same amounts. So a credit note (TD04) debits the customer and credits the sales account, and
  its tax is added to what is due.
\<close>

theorem credit_note_booked_as_sale:
  "let retype = invoices_update (map (inv_documentType_update f)) in
    snd (accept_invoice now e t i (retype s)) = retype (snd (accept_invoice now e t i s)) \<and>
    fst (iva_liquidation_of t p (retype s)) = fst (iva_liquidation_of t p s)"
proof -
  let ?g = "inv_documentType_update f" and ?retype = "invoices_update (map (inv_documentType_update f))"
  have find: "find_scoped t i (map ?g rows) = map_option ?g (find_scoped t i rows)" for rows
    unfolding find_scoped_def by (induction rows) auto
  have save: "save_row (?g r) (map ?g rows) = map ?g (save_row r rows)" for r rows
    by (auto simp: save_row_def image_iff)
  have status: "?g r\<lparr>inv_status := x\<rparr> = ?g (r\<lparr>inv_status := x\<rparr>)" for r x by simp
  have lines: "posting_lines b (?g r) = posting_lines b r" "invoice_label (?g r) = invoice_label r" for b r
    by (simp_all add: posting_lines_def invoice_label_def Let_def)
  have "snd (accept_invoice now e t i (?retype s)) = ?retype (snd (accept_invoice now e t i s))"
  proof (cases "find_scoped t i (invoices s)")
    case None
    then show ?thesis by (simp add: accept_invoice_def get_invoice_def svc_defs find)
  next
    case (Some r)
    then show ?thesis
      by (simp add: accept_invoice_def get_invoice_def save_journal_def save_invoice_def svc_defs find lines Let_def status save
          split: option.split)
  qed
  moreover have "period_lines t days (?retype s) = period_lines t days s" for days
    by (simp add: period_lines_def filter_map o_def)
  then have "fst (iva_liquidation_of t p (?retype s)) = fst (iva_liquidation_of t p s)"
    by (simp add: iva_liquidation_of_def svc_defs split: option.split)
  ultimately show ?thesis by simp
qed

section \<open>The periods of the liquidation\<close>

text \<open>The days before a year that begins in March.\<close>

definition year_days :: "int \<Rightarrow> int" where
  "year_days y = 365 * y + y div 4 - y div 100 + y div 400 - 719468"

lemma civil_year:
  "days_from_civil y m 1 = year_days (if m \<le> 2 then y - 1 else y) + (153 * ((m + 9) mod 12) + 2) div 5"
proof -
  define z where "z = (if m \<le> 2 then y - 1 else y)"
  have "z = 400 * (z div 400) + z mod 400" by simp
  then obtain e r where z: "z = 400 * e + r" "e = z div 400" "r = z mod 400" by blast
  have "(400 * e + r) div 4 = 100 * e + r div 4" "(400 * e + r) div 100 = 4 * e + r div 100"
    by (simp_all add: div_plus_div_distrib_dvd_left)
  then have "z div 4 = 100 * e + r div 4" "z div 100 = 4 * e + r div 100" by (simp_all only: z(1) [symmetric])
  then have "year_days z = 365 * z + (100 * e + r div 4) - (4 * e + r div 100) + e - 719468"
    unfolding year_days_def by (simp only: z(2))
  then have "year_days z = e * 146097 + r * 365 + r div 4 - r div 100 - 719468" using z(1) by linarith
  then show ?thesis by (simp add: days_from_civil_def Let_def z_def [symmetric] z(2,3))
qed

lemma year_days_step: "year_days (y - 1) + 364 \<le> year_days y"
proof -
  have "(y - 1) div 4 \<le> y div 4" "(y - 1) div 400 \<le> y div 400" "y div 100 \<le> (y - 1) div 100 + 1"
    by (simp_all add: zdiv_mono1)
  then show ?thesis by (simp add: year_days_def)
qed

lemma period_quarter:
  assumes "length ys = 4" and "list_all is_digit ys" and "c \<in> set ''1234''"
  shows "liquidation_period (ys @ [CHR ''-'', CHR ''Q'', c]) =
    Some (month_day (int (parse_dec ys)) ((int (parse_dec [c]) - 1) * 3) 1, month_day (int (parse_dec ys)) (int (parse_dec [c]) * 3) 0)"
  using assms by (simp add: liquidation_period_def nth_append Let_def)

lemma period_month:
  assumes "length ys = 4" and "list_all is_digit ys" and "is_digit a" and "is_digit b"
  shows "liquidation_period (ys @ [CHR ''-'', a, b]) =
    Some (month_day (int (parse_dec ys)) (int (parse_dec [a, b]) - 1) 1, month_day (int (parse_dec ys)) (int (parse_dec [a, b])) 0)"
proof -
  have "a \<noteq> CHR ''Q''" using assms(3) by (auto simp: is_digit_def)
  with assms show ?thesis by (simp add: liquidation_period_def nth_append Let_def)
qed

lemma digit_chars: "digit 0 = CHR ''0''" "digit 1 = CHR ''1''" "digit 2 = CHR ''2''" "digit 3 = CHR ''3''" "digit 4 = CHR ''4''"
  by (simp_all add: digit_def char_of_def bit_iff_odd)

lemma dec_small: "n < 10 \<Longrightarrow> dec n = [digit n]"
  by (simp add: dec.simps)

lemma pad_two: "n < 100 \<Longrightarrow> pad_start 2 CHR ''0'' (dec n) = [digit (n div 10), digit (n mod 10)]"
proof (cases "n < 10")
  case False
  assume "n < 100"
  with False show ?thesis by (subst dec.simps) (simp add: dec_small pad_start_def)
qed (simp add: dec_small pad_start_def digit_chars numeral_2_eq_2)

lemma year_text: "1000 \<le> y \<Longrightarrow> y \<le> 9999 \<Longrightarrow> length (dec y) = 4 \<and> list_all is_digit (dec y)"
proof -
  assume y: "1000 \<le> y" "y \<le> 9999"
  then have "100 \<le> y div 10" "10 \<le> y div 10 div 10" "y div 10 div 10 div 10 < 10" by (simp_all add: div_le_mono less_mult_imp_div_less)
  with y show ?thesis
    by (auto simp: dec.simps [of y] dec.simps [of "y div 10"] dec.simps [of "y div 10 div 10"] dec.simps [of "y div 10 div 10 div 10"])
qed

lemma mset_filter_split:
  assumes "\<And>i. P i \<longleftrightarrow> Q i \<or> R i" and "\<And>i. \<not> (Q i \<and> R i)"
  shows "mset (concat (map f (filter P xs))) = mset (concat (map f (filter Q xs))) + mset (concat (map f (filter R xs)))"
proof (induction xs)
  case (Cons i xs)
  then show ?case using assms by (cases "Q i"; cases "R i") simp_all
qed simp

lemma period_lines_split:
  assumes "a \<le> b" and "b \<le> c"
  shows "mset (period_lines t (a, c - 1) s) = mset (period_lines t (a, b - 1) s) + mset (period_lines t (b, c - 1) s)"
  unfolding period_lines_def mset_filter fst_conv snd_conv filter_union_mset [symmetric]
  by (rule arg_cong [where f = "filter_mset _"], rule mset_filter_split) (use assms in auto)

lemma month_first: "1000 \<le> y \<Longrightarrow> month_day y m 1 = days_from_civil (y + m div 12) (m mod 12 + 1) 1"
  by (simp add: month_day_def Let_def)

lemma month_last: "1000 \<le> y \<Longrightarrow> month_day y m 0 = month_day y m 1 - 1"
  by (simp add: month_day_def Let_def)

lemma month_grows:
  assumes "1000 \<le> y" and "m \<in> {0..11}"
  shows "month_day y m 1 < month_day y (m + 1) 1"
proof -
  have "m = 0 \<or> m = 1 \<or> m = 2 \<or> m = 3 \<or> m = 4 \<or> m = 5 \<or> m = 6 \<or> m = 7 \<or> m = 8 \<or> m = 9 \<or> m = 10 \<or> m = 11"
    using assms(2) unfolding atLeastAtMost_iff by presburger
  then show ?thesis
    using year_days_step [of y] by (elim disjE) (simp_all add: month_first [OF assms(1)] civil_year)
qed

text \<open>
  The quarters of the liquidation consist of their months. For every year of four digits
  and each quarter, the period of the quarter begins with its first month and ends with its third,
  each month begins the day after the one before has ended, and so does the next quarter; the
  lines that the quarter reports are those of its three months together, each exactly once.
\<close>

theorem quarter_is_its_three_months:
  assumes "1000 \<le> y" and "y < 9999" and "q \<in> {1, 2, 3, 4}"
  shows "\<exists>a b c d.
    liquidation_period (dec y @ ''-Q'' @ dec q) = Some (a, d - 1) \<and>
    liquidation_period (dec y @ ''-'' @ pad_start 2 CHR ''0'' (dec (3 * q - 2))) = Some (a, b - 1) \<and>
    liquidation_period (dec y @ ''-'' @ pad_start 2 CHR ''0'' (dec (3 * q - 1))) = Some (b, c - 1) \<and>
    liquidation_period (dec y @ ''-'' @ pad_start 2 CHR ''0'' (dec (3 * q))) = Some (c, d - 1) \<and>
    (\<exists>e. liquidation_period (if q < 4 then dec y @ ''-Q'' @ dec (q + 1) else dec (y + 1) @ ''-Q1'') = Some (d, e)) \<and>
    a < b \<and> b < c \<and> c < d \<and>
    (\<forall>t s. mset (period_lines t (a, d - 1) s) =
      mset (period_lines t (a, b - 1) s) + mset (period_lines t (b, c - 1) s) + mset (period_lines t (c, d - 1) s))"
proof -
  let ?y = "int y" and ?f = "3 * int q - 3"
  note ty = year_text [OF assms(1), THEN conjunct1] year_text [OF assms(1), THEN conjunct2]
  have y: "length (dec y) = 4" "list_all is_digit (dec y)" "length (dec (y + 1)) = 4" "list_all is_digit (dec (y + 1))"
    using year_text [of y] year_text [of "y + 1"] assms(1,2) by auto
  have years: "1000 \<le> ?y" "month_day (?y + 1) 0 1 = month_day ?y 12 1"
    using assms(1) by (simp_all add: month_first)
  have quarter: "liquidation_period (dec y @ ''-Q'' @ dec k) = Some (month_day ?y (3 * int k - 3) 1, month_day ?y (3 * int k) 1 - 1)"
    if "k \<in> {1, 2, 3, 4}" for k
  proof -
    have "digit k \<in> set ''1234''" "dec k = [digit k]" "parse_dec [digit k] = k"
      using that by (auto simp: digit_chars digit_chars(2) [simplified] dec_small parse_dec_def digit_val_def)
    then show ?thesis using period_quarter [OF y(1,2), of "digit k"] by (simp add: month_last [OF years(1)] algebra_simps)
  qed
  have month: "liquidation_period (dec y @ ''-'' @ pad_start 2 CHR ''0'' (dec m)) = Some (month_day ?y (int m - 1) 1, month_day ?y (int m) 1 - 1)"
    if "m \<le> 12" for m
  proof -
    have "m div 10 < 10" using that by simp
    then have "parse_dec [digit (m div 10), digit (m mod 10)] = m" by (simp add: parse_dec_def)
    then show ?thesis
      using that period_month [OF y(1,2), of "digit (m div 10)" "digit (m mod 10)"] by (simp add: pad_two month_last [OF years(1)])
  qed
  have following: "\<exists>e. liquidation_period (if q < 4 then dec y @ ''-Q'' @ dec (q + 1) else dec (y + 1) @ ''-Q1'') = Some (month_day ?y (3 * int q) 1, e)"
  proof (cases "q < 4")
    case True
    then show ?thesis using assms(3) quarter [of "q + 1"] by auto
  next
    case False
    then have "q = 4" using assms(3) by auto
    moreover have "parse_dec ''1'' = 1" by (simp add: parse_dec_def digit_val_def)
    ultimately show ?thesis using period_quarter [OF y(3,4), of "CHR ''1''"] years(2) by (simp add: add.commute)
  qed
  have grows: "month_day ?y (3 * int q - 3) 1 < month_day ?y (3 * int q - 2) 1"
    "month_day ?y (3 * int q - 2) 1 < month_day ?y (3 * int q - 1) 1" "month_day ?y (3 * int q - 1) 1 < month_day ?y (3 * int q) 1"
    using assms(3) month_grows [OF years(1), of "3 * int q - 3"] month_grows [OF years(1), of "3 * int q - 2"]
      month_grows [OF years(1), of "3 * int q - 1"] by auto
  have months: "int (3 * q - 2) = 3 * int q - 2" "int (3 * q - 1) = 3 * int q - 1" "3 * q - 2 \<le> 12" "3 * q - 1 \<le> 12" "3 * q \<le> 12"
    using assms(3) by auto
  have first: "liquidation_period (dec y @ ''-'' @ pad_start 2 CHR ''0'' (dec (3 * q - 2))) =
      Some (month_day ?y (3 * int q - 3) 1, month_day ?y (3 * int q - 2) 1 - 1)"
    unfolding month [OF months(3)] months(1) by simp
  have second: "liquidation_period (dec y @ ''-'' @ pad_start 2 CHR ''0'' (dec (3 * q - 1))) =
      Some (month_day ?y (3 * int q - 2) 1, month_day ?y (3 * int q - 1) 1 - 1)"
    unfolding month [OF months(4)] months(2) by simp
  have third: "liquidation_period (dec y @ ''-'' @ pad_start 2 CHR ''0'' (dec (3 * q))) =
      Some (month_day ?y (3 * int q - 1) 1, month_day ?y (3 * int q) 1 - 1)"
    unfolding month [OF months(5)] by simp
  have ls: "\<forall>t s. mset (period_lines t (month_day ?y (3 * int q - 3) 1, month_day ?y (3 * int q) 1 - 1) s) =
      mset (period_lines t (month_day ?y (3 * int q - 3) 1, month_day ?y (3 * int q - 2) 1 - 1) s) +
      mset (period_lines t (month_day ?y (3 * int q - 2) 1, month_day ?y (3 * int q - 1) 1 - 1) s) +
      mset (period_lines t (month_day ?y (3 * int q - 1) 1, month_day ?y (3 * int q) 1 - 1) s)"
    using grows by (intro allI) (subst period_lines_split [of _ "month_day ?y (3 * int q - 1) 1"], simp, simp,
      subst period_lines_split [of _ "month_day ?y (3 * int q - 2) 1"], simp_all)
  show ?thesis
    by (rule exI [of _ "month_day ?y (3 * int q - 3) 1"], rule exI [of _ "month_day ?y (3 * int q - 2) 1"],
        rule exI [of _ "month_day ?y (3 * int q - 1) 1"], rule exI [of _ "month_day ?y (3 * int q) 1"])
      (intro conjI quarter [OF assms(3)] first second third following grows ls)
qed

section \<open>An example\<close>

definition acc_input :: invoice_input where
  "acc_input =
     \<lparr>ii_documentType = None, ii_invoiceDate = ''2026-05-01'', ii_customerId = ''c'', ii_customerName = ''Acme'',
      ii_customerVatNumber = None, ii_customerFiscalCode = None, ii_customerSdiCode = None, ii_customerPecEmail = None,
      ii_salesOrderId = None,
      ii_lines = [\<lparr>ili_description = ''d'', ili_quantity = 2, ili_unitPrice = 50, ili_ivaRate = 22, ili_ivaNature = None\<rparr>],
      ii_notes = None\<rparr>"

definition acc_0 :: accounting_db where
  "acc_0 = \<lparr>chartOfAccounts = [], journalEntries = [], invoices = [], invoiceCustomers = []\<rparr>"

definition acc_inv :: invoice where
  "acc_inv = invoice_of ''i'' ''T'' ''000001'' acc_input"

definition acc_1 :: accounting_db where
  "acc_1 = \<lparr>chartOfAccounts = [], journalEntries = [], invoices = [acc_inv], invoiceCustomers = []\<rparr>"

lemma acc_first_number: "invoice_number 1 = ''000001''"
  by (simp add: invoice_number_def dec_small digit_chars(2) [simplified] pad_start_def numeral_eq_Suc)

lemma acc_1_step: "create_invoice ''i'' ''T'' acc_input acc_0 = (Inr acc_inv, acc_1)"
proof -
  have "next_invoice_number ''T'' y acc_0 = ''000001''" for y
    using acc_first_number by (simp add: next_invoice_number_def acc_0_def)
  then show ?thesis by (simp add: create_invoice_def save_invoice_def svc_defs acc_0_def acc_1_def acc_inv_def save_row_def)
qed

lemma acc_1_reachable: "acc_reachable acc_1"
proof -
  have "acc_step acc_0 acc_1" using acc_1_step by (rule acc_step.invoicing [rotated]) (simp add: fresh_def acc_0_def)
  then show ?thesis unfolding acc_reachable_def acc_0_def by (rule r_into_rtranclp)
qed

lemma acc_inv_fields:
  "ent_id acc_inv = ''i''" "tenantId acc_inv = ''T''" "inv_status acc_inv = InvDraft" "inv_fiscalYear acc_inv = 2026"
  "inv_number acc_inv = ''000001''" "inv_customerId acc_inv = ''c''"
  by (simp_all add: acc_inv_def invoice_of_def Let_def acc_input_def year_of_def parse_dec_def digit_val_def)

lemma acc_floors: "\<lfloor>20001 / 2 :: rat\<rfloor> = 10000" "\<lfloor>4401 / 2 :: rat\<rfloor> = 2200"
  by (simp_all add: floor_eq_iff)

lemma acc_inv_lines:
  "inv_lines acc_inv = [\<lparr>il_description = ''d'', il_quantity = 2, il_unitPrice = 50, il_ivaRate = 22, il_ivaNature = None,
     il_lineTotal = 100\<rparr>]"
  by (simp add: acc_inv_def invoice_of_def Let_def acc_input_def invoice_line_of_def js_mul_def js_fixed2_def to_fixed2_def
      fl_numeral_safe acc_floors)

lemma acc_inv_cents: "subtotal_cents acc_inv = 10000" "total_tax_cents acc_inv = 2200" "moderate_invoice acc_inv"
  by (simp_all add: moderate_invoice_def subtotal_cents_def total_tax_cents_def acc_inv_lines line_cents_def tax_cents_def
      js_mul_def js_div_def to_fixed2_def fl_numeral_safe acc_floors BILLION_def)

theorem invoices_numbered_without_gaps_witness:
  "acc_reachable acc_1 \<and> map inv_number (invoices acc_1) = map invoice_number [1..<Suc 1]"
proof -
  have "filter (\<lambda>i. tenantId i = ''T'' \<and> inv_fiscalYear i = 2026) (invoices acc_1) = invoices acc_1"
    by (simp add: acc_1_def acc_inv_fields)
  then show ?thesis
    using invoices_numbered_without_gaps [OF acc_1_reachable, rule_format, of "''T''" 2026] acc_1_reachable
    by (simp add: acc_1_def)
qed

theorem invoices_well_formed_witness: "computed_amounts acc_inv \<and> inv_fiscalYear acc_inv = year_of (inv_invoiceDate acc_inv)"
  using invoices_well_formed [OF acc_1_reachable] by (simp add: acc_1_def)

text \<open>The invoice is accepted.\<close>

definition acc_entry :: journal_entry where
  "acc_entry = journal_row ''e'' ''T'' (''INV-'' @ ''000001'' @ ''-'' @ dec 2026) (iso_date 0) ''vendite''
     (''Registrazione fattura '' @ invoice_label acc_inv) (posting_lines False acc_inv) True"

definition acc_2 :: accounting_db where
  "acc_2 = \<lparr>chartOfAccounts = [], journalEntries = [acc_entry], invoices = [acc_inv\<lparr>inv_status := InvAccepted\<rparr>],
     invoiceCustomers = []\<rparr>"

lemma acc_inv_computed: "computed_amounts acc_inv"
  using reachable_invoices [OF acc_1_reachable] by (simp add: acc_1_def)

lemma acc_2_step: "accept_invoice 0 ''e'' ''T'' ''i'' acc_1 = (Inr (acc_inv\<lparr>inv_status := InvAccepted\<rparr>), acc_2)"
  using posting_lines_cents(2) [OF acc_inv_computed acc_inv_cents(3), of False]
  by (simp add: accept_invoice_def get_invoice_def save_journal_def save_invoice_def svc_defs Let_def find_scoped_def acc_1_def
      acc_2_def acc_inv_fields acc_entry_def save_row_def)

lemma acc_2_reachable: "acc_reachable acc_2"
  by (rule acc_reachable_step [OF acc_1_reachable])
    (rule acc_step.accepting [OF _ acc_2_step], simp add: fresh_def acc_1_def)

lemma acc_entry_lines:
  "map (\<lambda>l. (jl_accountCode l, jl_debit l, jl_credit l)) (je_lines acc_entry) =
    [(CREDITI_CLIENTI, euro 12200, 0), (RICAVI_VENDITA, 0, euro 10000), (IVA_DEBITO, 0, euro 2200)]"
  using posting_lines_cents(1) [OF acc_inv_computed acc_inv_cents(3), of False]
  by (simp add: acc_entry_def journal_row_def acc_inv_cents)

theorem ledger_balances_to_the_cent_witness:
  "je_totalDebit acc_entry = euro 12200 \<and> je_totalCredit acc_entry = euro 12200"
proof -
  define deb cred where "deb = (\<lambda>l :: journal_line. if jl_accountCode l = CREDITI_CLIENTI then 12200 else 0 :: int)"
    and "cred = (\<lambda>l :: journal_line. if jl_accountCode l = CREDITI_CLIENTI then 0 else if jl_accountCode l = RICAVI_VENDITA then 10000 else 2200 :: int)"
  obtain x y z where ls: "je_lines acc_entry = [x, y, z]" and v:
    "jl_accountCode x = CREDITI_CLIENTI" "jl_debit x = euro 12200" "jl_credit x = 0"
    "jl_accountCode y = RICAVI_VENDITA" "jl_debit y = 0" "jl_credit y = euro 10000"
    "jl_accountCode z = IVA_DEBITO" "jl_debit z = 0" "jl_credit z = euro 2200"
    using acc_entry_lines by (auto simp: map_eq_Cons_conv)
  have codes: "RICAVI_VENDITA \<noteq> CREDITI_CLIENTI" "IVA_DEBITO \<noteq> CREDITI_CLIENTI" "IVA_DEBITO \<noteq> RICAVI_VENDITA"
    by (simp_all add: RICAVI_VENDITA_def CREDITI_CLIENTI_def IVA_DEBITO_def)
  have vals: "deb x = 12200" "deb y = 0" "deb z = 0" "cred x = 0" "cred y = 10000" "cred z = 2200"
    by (simp_all add: deb_def cred_def v codes)
  have "acc_entry \<in> set (journalEntries acc_2)" by (simp add: acc_2_def)
  from ledger_balances_to_the_cent [OF acc_2_reachable this, of deb cred] show ?thesis
    by (simp add: ls v vals BILLION_def)
qed

theorem invoice_posting_to_the_cent_witness:
  "\<exists>entry s. accept_invoice 0 ''e'' ''T'' ''i'' acc_1 = (Inr (acc_inv\<lparr>inv_status := InvAccepted\<rparr>), s) \<and>
     journalEntries s = [entry] \<and>
     map (\<lambda>l. (jl_accountCode l, jl_debit l, jl_credit l)) (je_lines entry) =
       [(CREDITI_CLIENTI, euro 12200, 0), (RICAVI_VENDITA, 0, euro 10000), (IVA_DEBITO, 0, euro 2200)]"
proof -
  have "acc_inv \<in> set (invoices acc_1)" "inv_status acc_inv \<noteq> InvAccepted" "fresh ''e'' (journalEntries acc_1)"
    "False = (case find_scoped (tenantId acc_inv) (inv_customerId acc_inv) (invoiceCustomers acc_1) of None \<Rightarrow> False
       | Some c \<Rightarrow> cu_splitPayment c)"
    by (simp_all add: acc_1_def acc_inv_fields fresh_def find_scoped_def)
  from invoice_posting_to_the_cent [OF acc_1_reachable this(1,2) acc_inv_cents(3) this(3,4), of 0]
  show ?thesis by (auto simp: acc_inv_fields acc_inv_cents acc_1_def)
qed

theorem accepted_invoice_is_final_witness:
  "accept_invoice 1 ''e2'' ''T'' ''i'' acc_2 = (Inr (acc_inv\<lparr>inv_status := InvAccepted\<rparr>), acc_2)"
  using accepted_invoice_is_final [OF acc_1_reachable acc_2_step rtranclp.rtrancl_refl] by blast

theorem quarter_is_its_three_months_witness:
  "\<exists>a b. liquidation_period ''2026-Q2'' = Some (a, b) \<and> a < b"
proof -
  have "dec 2026 @ ''-Q'' @ dec 2 = ''2026-Q2''" by (simp add: dec.simps digit_def char_of_def bit_iff_odd)
  then show ?thesis using quarter_is_its_three_months [of 2026 2] by fastforce
qed

end
