(* ===== verification/FatturaPaProps.thy ===== *)
theory FatturaPaProps
  imports FatturaPa AccountingProps
begin

text \<open>
  Correctness of the electronic invoice: what a reader finds in the document is what the
  invoice says, file names are unique, and the rates of the summary blocks are not always
  those of their lines.
\<close>

section \<open>Reading the document\<close>

text \<open>A date as the database returns it: digits and dashes.\<close>

definition iso_text :: "string \<Rightarrow> bool" where
  "iso_text d \<longleftrightarrow> list_all (\<lambda>c. is_digit c \<or> c = CHR ''-'') d"

lemma iso_text_no_markup: "iso_text d \<Longrightarrow> no_markup (format_date d)"
proof -
  assume d: "iso_text d"
  have "no_markup s" if "set s \<subseteq> set d" for s
    using d that unfolding iso_text_def list_all_iff no_markup_def no_lt_def is_digit_def by fastforce
  then have "no_markup (take 2 (drop 5 d))" "no_markup (take 2 (drop 8 d))"
    by (meson set_drop_subset set_take_subset order_trans)+
  moreover have "no_markup ''-''" by (simp add: no_markup_def)
  ultimately show ?thesis unfolding format_date_def by (simp only: no_markup_app no_markup_dec simp_thms)
qed

lemma header_well_formed: "list_all well_formed_line (header_lines inp)"
  by (simp add: header_lines_def Let_def plain_tag_def xml_declaration_def root_tag_def quoted_def)

lemma general_well_formed:
  "iso_text (inv_invoiceDate (fi_invoice inp)) \<Longrightarrow> list_all well_formed_line (general_lines inp)"
  by (simp add: general_lines_def Let_def plain_tag_def iso_text_no_markup split: option.split)

lemma detail_well_formed: "list_all well_formed_line (detail_lines p)"
  by (cases p) (simp add: detail_lines_def plain_tag_def)

lemma summary_well_formed: "list_all well_formed_line (summary_lines e ls item)"
  by (simp add: summary_lines_def plain_tag_def)

lemma list_all_concat: "list_all P (concat (map f xs)) \<longleftrightarrow> list_all (\<lambda>x. list_all P (f x)) xs"
  by (induction xs) auto

lemma list_all_True [simp]: "list_all (\<lambda>x. True) xs"
  by (simp add: list_all_iff)

lemma body_well_formed:
  "iso_text (inv_invoiceDate (fi_invoice inp)) \<Longrightarrow> list_all well_formed_line (body_lines inp)"
  by (simp add: body_lines_def Let_def plain_tag_def list_all_concat detail_well_formed summary_well_formed iso_text_no_markup)

text \<open>The names of the elements that hold texts, and what each part contributes to them.\<close>

definition text_tags :: "string set" where
  "text_tags = {''Denominazione'', ''IdCodice'', ''Numero'', ''ImportoTotaleDocumento'', ''Causale'', ''NumeroLinea'',
     ''Descrizione'', ''PrezzoTotale'', ''AliquotaIVA''}"

lemma text_tags_plain: "t \<in> text_tags \<Longrightarrow> plain_tag t"
  by (auto simp: text_tags_def plain_tag_def)

lemma text_tags_not_opened:
  assumes "t \<in> text_tags"
  shows "list_all (\<lambda>l. \<not> opens t l) (header_lines inp @ general_lines inp @ body_lines inp)"
  using assms unfolding text_tags_def
  by (elim insertE emptyE)
    (simp_all add: header_lines_def general_lines_def body_lines_def detail_lines_def summary_lines_def Let_def list_all_concat
      xml_declaration_def root_tag_def split: option.split prod.split)

lemma fattura_elements:
  assumes "t \<in> text_tags" and "iso_text (inv_invoiceDate (fi_invoice inp))" and "build_fattura inp = Inr out"
  shows "elements t (fo_xml out) = values_of t (header_lines inp) @ values_of t (general_lines inp) @ values_of t (body_lines inp)"
proof -
  have "fo_xml out = xml_document (header_lines inp @ general_lines inp @ body_lines inp)"
    using assms(3) by (auto simp: build_fattura_def Let_def split: if_splits)
  then show ?thesis
    using elements_document [OF text_tags_plain [OF assms(1)] _ text_tags_not_opened [OF assms(1)], of inp] assms(2)
    by (simp add: header_well_formed general_well_formed body_well_formed)
qed

lemma values_if: "values_of t (if b then xs else ys) = (if b then values_of t xs else values_of t ys)"
  by simp

lemma header_values:
  shows "values_of ''Denominazione'' (header_lines inp) = [ft_name (fi_tenant inp), cu_name (fi_customer inp)]"
    "values_of ''IdCodice'' (header_lines inp) =
     [the (ft_vatNumber (fi_tenant inp)), the (ft_vatNumber (fi_tenant inp))] @
     (if truthy (cu_vatNumber (fi_customer inp)) then [the (cu_vatNumber (fi_customer inp))] else [])"
    "values_of ''Numero'' (header_lines inp) = []"
    "values_of ''ImportoTotaleDocumento'' (header_lines inp) = []"
    "values_of ''Causale'' (header_lines inp) = []"
    "values_of ''NumeroLinea'' (header_lines inp) = []"
    "values_of ''Descrizione'' (header_lines inp) = []"
    "values_of ''PrezzoTotale'' (header_lines inp) = []"
    "values_of ''AliquotaIVA'' (header_lines inp) = []"
  by (simp_all add: header_lines_def Let_def xml_declaration_def unesc_esc unesc_no_markup values_if)

lemma general_values:
  assumes "iso_text (inv_invoiceDate (fi_invoice inp))"
  shows "values_of ''Numero'' (general_lines inp) = [inv_number (fi_invoice inp)]"
    "values_of ''ImportoTotaleDocumento'' (general_lines inp) = [fixed2_text (inv_totalAmount (fi_invoice inp))]"
    "values_of ''Causale'' (general_lines inp) =
       (if truthy (inv_notes (fi_invoice inp)) then [take 200 (the (inv_notes (fi_invoice inp)))] else [])"
    "values_of ''Denominazione'' (general_lines inp) = []"
    "values_of ''IdCodice'' (general_lines inp) = []"
    "values_of ''NumeroLinea'' (general_lines inp) = []"
    "values_of ''Descrizione'' (general_lines inp) = []"
    "values_of ''PrezzoTotale'' (general_lines inp) = []"
    "values_of ''AliquotaIVA'' (general_lines inp) = []"
  using iso_text_no_markup [OF assms]
  by (simp_all add: general_lines_def Let_def unesc_esc unesc_no_markup values_if split: option.split)

lemma body_values:
  assumes "iso_text (inv_invoiceDate (fi_invoice inp))"
  shows "values_of ''NumeroLinea'' (body_lines inp) = map dec [1..<Suc (length (inv_lines (fi_invoice inp)))]"
    "values_of ''Descrizione'' (body_lines inp) = map il_description (inv_lines (fi_invoice inp))"
    "values_of ''PrezzoTotale'' (body_lines inp) = map (\<lambda>l. fixed2_text (il_lineTotal l)) (inv_lines (fi_invoice inp))"
    "values_of ''AliquotaIVA'' (body_lines inp) = map (\<lambda>l. fixed2_text (il_ivaRate l)) (inv_lines (fi_invoice inp)) @
       map (\<lambda>item. fixed2_text (extract_rate (inv_lines (fi_invoice inp)) item)) (riepilogo (inv_lines (fi_invoice inp)))"
    "values_of ''Denominazione'' (body_lines inp) = []"
    "values_of ''IdCodice'' (body_lines inp) = []"
    "values_of ''Numero'' (body_lines inp) = []"
    "values_of ''ImportoTotaleDocumento'' (body_lines inp) = []"
    "values_of ''Causale'' (body_lines inp) = []"
proof -
  let ?ls = "inv_lines (fi_invoice inp)"
  have single: "concat (map (\<lambda>p. [f p]) xs) = map f xs" for f :: "nat \<times> invoice_line \<Rightarrow> string" and xs
    by (induction xs) auto
  have single': "concat (map (\<lambda>p. [f p]) xs) = map f xs" for f :: "riepilogo_item \<Rightarrow> string" and xs
    by (induction xs) auto
  have detail:
    "values_of ''NumeroLinea'' (detail_lines p) = [dec (Suc (fst p))]" "values_of ''Descrizione'' (detail_lines p) = [il_description (snd p)]"
    "values_of ''PrezzoTotale'' (detail_lines p) = [fixed2_text (il_lineTotal (snd p))]"
    "values_of ''AliquotaIVA'' (detail_lines p) = [fixed2_text (il_ivaRate (snd p))]"
    "values_of ''Denominazione'' (detail_lines p) = []" "values_of ''IdCodice'' (detail_lines p) = []"
    "values_of ''Numero'' (detail_lines p) = []" "values_of ''ImportoTotaleDocumento'' (detail_lines p) = []"
    "values_of ''Causale'' (detail_lines p) = []" for p
    by (simp_all add: detail_lines_def unesc_esc unesc_no_markup split_beta)
  have summary:
    "values_of ''NumeroLinea'' (summary_lines e ls item) = []" "values_of ''Descrizione'' (summary_lines e ls item) = []"
    "values_of ''PrezzoTotale'' (summary_lines e ls item) = []"
    "values_of ''AliquotaIVA'' (summary_lines e ls item) = [fixed2_text (extract_rate ls item)]"
    "values_of ''Denominazione'' (summary_lines e ls item) = []" "values_of ''IdCodice'' (summary_lines e ls item) = []"
    "values_of ''Numero'' (summary_lines e ls item) = []" "values_of ''ImportoTotaleDocumento'' (summary_lines e ls item) = []"
    "values_of ''Causale'' (summary_lines e ls item) = []" for e ls item
    by (simp_all add: summary_lines_def unesc_esc unesc_no_markup)
  have numbers: "map (\<lambda>p. dec (Suc (fst p))) (enumerate 0 ?ls) = map dec [1..<Suc (length ?ls)]"
    by (rule nth_equalityI) (simp_all add: nth_enumerate_eq del: upt_Suc)
  have snds: "map (\<lambda>p. f (snd p)) (enumerate 0 ?ls) = map f ?ls" for f :: "invoice_line \<Rightarrow> string"
    by (simp flip: map_map [of f snd, unfolded o_def])
  have none: "concat (map (\<lambda>x. []) xs) = []" for xs :: "riepilogo_item list"
    by (induction xs) simp_all
  note defs = body_lines_def Let_def unesc_no_markup detail summary single single' none numbers snds [of il_description]
    snds [of "\<lambda>l. fixed2_text (il_lineTotal l)"] snds [of "\<lambda>l. fixed2_text (il_ivaRate l)"] iso_text_no_markup [OF assms]
  show "values_of ''NumeroLinea'' (body_lines inp) = map dec [1..<Suc (length ?ls)]"
    "values_of ''Descrizione'' (body_lines inp) = map il_description ?ls"
    "values_of ''PrezzoTotale'' (body_lines inp) = map (\<lambda>l. fixed2_text (il_lineTotal l)) ?ls"
    "values_of ''AliquotaIVA'' (body_lines inp) = map (\<lambda>l. fixed2_text (il_ivaRate l)) ?ls @
       map (\<lambda>item. fixed2_text (extract_rate ?ls item)) (riepilogo ?ls)"
    by (simp_all add: defs del: upt_Suc)
  show "values_of ''Denominazione'' (body_lines inp) = []"
    "values_of ''IdCodice'' (body_lines inp) = []"
    "values_of ''Numero'' (body_lines inp) = []"
    "values_of ''ImportoTotaleDocumento'' (body_lines inp) = []"
    "values_of ''Causale'' (body_lines inp) = []"
    by (simp_all add: defs)
qed


section \<open>The summary blocks\<close>

definition group_lines :: "riepilogo_key \<Rightarrow> invoice_line list \<Rightarrow> invoice_line list" where
  "group_lines k ls = filter (\<lambda>l. riepilogo_key_of l = k) ls"

definition group_item :: "riepilogo_key \<Rightarrow> invoice_line list \<Rightarrow> riepilogo_item" where
  "group_item k ls =
     \<lparr>ri_imponibile = js_sum il_lineTotal (group_lines k ls),
      ri_imposta = js_sum line_iva (filter (\<lambda>l. \<not> truthy (il_ivaNature l)) (group_lines k ls)),
      ri_natura = il_ivaNature (hd (group_lines k ls))\<rparr>"

lemma add_riepilogo_keys: "map fst (add_riepilogo l m) =
    (if riepilogo_key_of l \<in> fst ` set m then map fst m else map fst m @ [riepilogo_key_of l])"
  by (induction l m rule: add_riepilogo.induct) auto

lemma add_riepilogo_old:
  assumes "riepilogo_key_of l \<in> fst ` set m" and "distinct (map fst m)"
  shows "add_riepilogo l m = map (\<lambda>p. (fst p, if fst p = riepilogo_key_of l then add_line l (snd p) else snd p)) m"
  using assms
proof (induction m)
  case (Cons p m)
  obtain k x where p: "p = (k, x)" by (cases p)
  show ?case
  proof (cases "k = riepilogo_key_of l")
    case True
    then have "fst q \<noteq> riepilogo_key_of l" if "q \<in> set m" for q using Cons.prems(2) that by (auto simp: p image_iff)
    then have "map (\<lambda>p. (fst p, if fst p = riepilogo_key_of l then add_line l (snd p) else snd p)) m = m"
      by (intro map_idI) simp
    with True show ?thesis by (simp add: p)
  next
    case False
    then show ?thesis using Cons by (simp add: p)
  qed
qed simp

lemma add_riepilogo_new: "riepilogo_key_of l \<notin> fst ` set m \<Longrightarrow>
    add_riepilogo l m = m @ [(riepilogo_key_of l, add_line l \<lparr>ri_imponibile = 0, ri_imposta = 0, ri_natura = il_ivaNature l\<rparr>)]"
  by (induction l m rule: add_riepilogo.induct) auto

lemma group_lines_snoc: "group_lines k (ls @ [l]) = group_lines k ls @ (if riepilogo_key_of l = k then [l] else [])"
  by (simp add: group_lines_def)

lemma group_item_snoc:
  "group_item k (ls @ [l]) =
     (if riepilogo_key_of l \<noteq> k then group_item k ls
      else if group_lines k ls = [] then add_line l \<lparr>ri_imponibile = 0, ri_imposta = 0, ri_natura = il_ivaNature l\<rparr>
      else add_line l (group_item k ls))"
  by (simp add: group_item_def group_lines_snoc add_line_def) (simp add: js_sum_def)

lemma riepilogo_map:
  "distinct (map fst (fold add_riepilogo ls [])) \<and> fst ` set (fold add_riepilogo ls []) = riepilogo_key_of ` set ls \<and>
   (\<forall>(k, x)\<in>set (fold add_riepilogo ls []). x = group_item k ls)"
proof (induction ls rule: rev_induct)
  case (snoc l ls)
  let ?m = "fold add_riepilogo ls []" and ?k = "riepilogo_key_of l"
  have m: "distinct (map fst ?m)" "fst ` set ?m = riepilogo_key_of ` set ls" "\<And>k x. (k, x) \<in> set ?m \<Longrightarrow> x = group_item k ls"
    using snoc by auto
  have keys: "map fst (add_riepilogo l ?m) = (if ?k \<in> fst ` set ?m then map fst ?m else map fst ?m @ [?k])"
    by (rule add_riepilogo_keys)
  then have "distinct (map fst (add_riepilogo l ?m))" using m(1) by simp
  moreover have "fst ` set (add_riepilogo l ?m) = insert ?k (fst ` set ?m)"
    using arg_cong [OF keys, of set] by (cases "?k \<in> fst ` set ?m") (simp_all add: insert_absorb)
  moreover have "x = group_item k (ls @ [l])" if kx: "(k, x) \<in> set (add_riepilogo l ?m)" for k x
  proof (cases "?k \<in> fst ` set ?m")
    case True
    have "group_lines k ls \<noteq> []" if "(k, y) \<in> set ?m" for y
    proof -
      have "k \<in> riepilogo_key_of ` set ls" using imageI [OF that, of fst] m(2) by simp
      then show ?thesis by (auto simp: group_lines_def filter_empty_conv)
    qed
    then show ?thesis
      using kx m(3) unfolding add_riepilogo_old [OF True m(1)] group_item_snoc by (auto split: if_splits)
  next
    case False
    then have "group_lines ?k ls = []" unfolding m(2) by (auto simp: group_lines_def filter_empty_conv image_iff)
    moreover have "k \<noteq> ?k" if "(k, y) \<in> set ?m" for y using imageI [OF that, of fst] False by (metis fst_conv)
    ultimately show ?thesis using kx m(3) [of k x] unfolding add_riepilogo_new [OF False] group_item_snoc by auto
  qed
  ultimately show ?case using m(2) by auto
qed simp

lemma riepilogo_groups:
  "\<exists>keys. distinct keys \<and> set keys = riepilogo_key_of ` set ls \<and> riepilogo ls = map (\<lambda>k. group_item k ls) keys"
proof (intro exI conjI)
  let ?m = "fold add_riepilogo ls []"
  show "distinct (map fst ?m)" "set (map fst ?m) = riepilogo_key_of ` set ls" using riepilogo_map [of ls] by simp_all
  have "map snd ?m = map (\<lambda>p. group_item (fst p) ls) ?m"
    using riepilogo_map [of ls] by (auto intro!: map_cong)
  then show "riepilogo ls = map (\<lambda>k. group_item k ls) (map fst ?m)" by (simp add: riepilogo_def o_def)
qed

text \<open>
  The summary of an electronic invoice has one block for each pair of rate and nature
  that occurs, and the block carries the sum of the totals of exactly the lines with that pair and,
  for taxed lines, the sum of their taxes, added in the order of the lines.
\<close>

theorem summary_groups_lines:
  "\<exists>keys. distinct keys \<and> set keys = riepilogo_key_of ` set ls \<and> riepilogo ls = map (\<lambda>k. group_item k ls) keys"
  by (rule riepilogo_groups)

text \<open>The first line is taken for every block as long as the amounts are small.\<close>

lemma js_add_ge: "fl b = b \<Longrightarrow> 0 \<le> x \<Longrightarrow> b \<le> js_add b x"
  unfolding js_add_def using fl_mono [of b "b + x"] by simp

lemma js_sum_fl: "fl (js_sum f xs) = js_sum f xs"
  by (induction xs rule: rev_induct) (simp_all add: js_add_def)

lemma js_sum_filter_le:
  assumes "\<And>x. x \<in> set xs \<Longrightarrow> 0 \<le> f x"
  shows "js_sum f (filter P xs) \<le> js_sum f xs"
  using assms
proof (induction xs rule: rev_induct)
  case (snoc x xs)
  then have IH: "js_sum f (filter P xs) \<le> js_sum f xs" and x: "0 \<le> f x" by simp_all
  have "js_add (js_sum f (filter P xs)) (f x) \<le> js_add (js_sum f xs) (f x)"
    unfolding js_add_def using IH by (intro fl_mono) simp
  moreover have "js_sum f xs \<le> js_add (js_sum f xs) (f x)" using x by (intro js_add_ge js_sum_fl)
  ultimately show ?case using IH by simp
qed simp

lemma js_sum_member_le:
  assumes "\<And>x. x \<in> set xs \<Longrightarrow> 0 \<le> f x" and "y \<in> set xs" and "fl (f y) = f y"
  shows "f y \<le> js_sum f xs"
  using assms
proof (induction xs rule: rev_induct)
  case (snoc x xs)
  show ?case
  proof (cases "y \<in> set xs")
    case True
    then have "f y \<le> js_sum f xs" using snoc by simp
    also have "\<dots> \<le> js_add (js_sum f xs) (f x)" using snoc.prems(1) by (intro js_add_ge js_sum_fl) simp
    finally show ?thesis by simp
  next
    case False
    then have "y = x" using snoc.prems(2) by simp
    moreover have "f x \<le> js_add (f x) (js_sum f xs)"
      using snoc.prems calculation by (intro js_add_ge js_sum_nonneg) simp_all
    ultimately show ?thesis by (simp add: js_add_def add.commute)
  qed
qed simp

text \<open>
  The rates of the summary are wrong for invoices with several rates. If no line has a
  nature, no total is negative and all totals together are below a thousand euros, the document
  has one summary block for each rate that occurs, but every one of these blocks states the rate
  of the first line.
\<close>

theorem summary_rates_follow_first_line:
  assumes "build_fattura inp = Inr out" and "iso_text (inv_invoiceDate (fi_invoice inp))"
    and "inv_lines (fi_invoice inp) = l # ls"
    and "\<forall>x\<in>set (l # ls). il_ivaNature x = None \<and> 0 \<le> il_lineTotal x \<and> fl (il_lineTotal x) = il_lineTotal x"
    and "js_sum il_lineTotal (l # ls) < 1000"
  shows "elements ''AliquotaIVA'' (fo_xml out) =
    map (\<lambda>x. fixed2_text (il_ivaRate x)) (l # ls) @
    replicate (card (il_ivaRate ` set (l # ls))) (fixed2_text (il_ivaRate l))"
proof -
  obtain keys where keys: "distinct keys" "set keys = riepilogo_key_of ` set (l # ls)"
      "riepilogo (l # ls) = map (\<lambda>k. group_item k (l # ls)) keys"
    using riepilogo_groups by blast
  have rate: "extract_rate (l # ls) (group_item k (l # ls)) = il_ivaRate l" if "k \<in> set keys" for k
  proof -
    let ?i = "group_item k (l # ls)"
    have "group_lines k (l # ls) \<noteq> []" using that keys(2) by (auto simp: group_lines_def filter_empty_conv)
    then have "hd (group_lines k (l # ls)) \<in> set (l # ls)" by (metis filter_is_subset group_lines_def hd_in_set subsetD)
    then have natura: "ri_natura ?i = None" using assms(4) by (auto simp: group_item_def)
    have "0 \<le> ri_imponibile ?i" "ri_imponibile ?i \<le> js_sum il_lineTotal (l # ls)"
      using assms(4) unfolding group_item_def group_lines_def
      by (auto simp only: riepilogo_item.simps intro!: js_sum_nonneg js_sum_filter_le) (auto split: if_splits)
    moreover have "0 \<le> il_lineTotal l" "il_lineTotal l \<le> js_sum il_lineTotal (l # ls)"
      using assms(4) by (auto intro!: js_sum_member_le)
    ultimately have d: "il_lineTotal l - ri_imponibile ?i \<le> js_sum il_lineTotal (l # ls)"
      "- js_sum il_lineTotal (l # ls) \<le> il_lineTotal l - ri_imponibile ?i" by linarith+
    have "js_sub (il_lineTotal l) (ri_imponibile ?i) \<le> js_sum il_lineTotal (l # ls)"
      "- js_sum il_lineTotal (l # ls) \<le> js_sub (il_lineTotal l) (ri_imponibile ?i)"
      using fl_mono [OF d(1)] fl_mono [OF d(2)] by (simp_all add: js_sub_def js_sum_fl fl_minus)
    then have "\<bar>js_sub (il_lineTotal l) (ri_imponibile ?i)\<bar> < 1000" using assms(5) by (simp add: abs_less_iff)
    then show ?thesis using natura assms(4) by (simp add: extract_rate_def nullish_def)
  qed
  have "length keys = card (il_ivaRate ` set (l # ls))"
  proof -
    have "set keys = (\<lambda>r. (r, [])) ` il_ivaRate ` set (l # ls)"
      using assms(4) unfolding keys(2) image_image by (intro image_cong) (auto simp: riepilogo_key_of_def nullish_def)
    then have "card (set keys) = card (il_ivaRate ` set (l # ls))" by (simp only:) (rule card_image, simp add: inj_on_def)
    then show ?thesis using distinct_card [OF keys(1)] by simp
  qed
  moreover have "map (\<lambda>k. fixed2_text (extract_rate (l # ls) (group_item k (l # ls)))) keys =
      replicate (length keys) (fixed2_text (il_ivaRate l))"
    using rate by (simp add: map_replicate_const cong: map_cong)
  ultimately show ?thesis
    using fattura_elements [OF _ assms(2,1), of "''AliquotaIVA''"]
    by (simp add: text_tags_def header_values general_values [OF assms(2)] body_values [OF assms(2)] assms(3) keys(3) o_def)
qed

section \<open>File names\<close>

definition d36 :: "char \<Rightarrow> nat" where
  "d36 c = (if is_digit c then of_char c - 48 else of_char c - 55)"

definition parse36 :: "string \<Rightarrow> nat" where
  "parse36 s = foldl (\<lambda>a c. 36 * a + d36 c) 0 s"

lemma d36_digit [simp]: "n < 36 \<Longrightarrow> d36 (b36_digit n) = n"
proof -
  assume n: "n < 36"
  then have "(of_char (b36_digit n) :: nat) = (if n < 10 then 48 + n else 55 + n)" by (simp add: b36_digit_def)
  with n show ?thesis by (simp add: d36_def is_digit_def)
qed

lemma parse36_snoc: "parse36 (s @ [c]) = 36 * parse36 s + d36 c"
  by (simp add: parse36_def)

lemma parse36_app: "parse36 (xs @ ys) = parse36 xs * 36 ^ length ys + parse36 ys"
  by (induction ys rule: rev_induct)
    (simp_all add: parse36_def [of "[]"] parse36_snoc algebra_simps flip: append_assoc)

lemma parse36_b36: "parse36 (b36 n) = n \<and> list_all (\<lambda>c. d36 c < 36) (b36 n)"
proof (induction n rule: b36.induct)
  case (1 n)
  show ?case
  proof (cases "n < 36")
    case True
    then show ?thesis by (simp add: b36.simps [of n] parse36_def)
  next
    case False
    then show ?thesis using 1 by (simp add: b36.simps [of n] parse36_snoc)
  qed
qed

lemma parse36_less: "list_all (\<lambda>c. d36 c < 36) s \<Longrightarrow> parse36 s < 36 ^ length s"
proof (induction s rule: rev_induct)
  case (snoc c s)
  then have "parse36 s + 1 \<le> 36 ^ length s" "d36 c < 36" by simp_all
  then have "36 * (parse36 s + 1) \<le> 36 * 36 ^ length s" by (intro mult_le_mono2)
  with \<open>d36 c < 36\<close> show ?case by (simp add: parse36_snoc)
qed (simp add: parse36_def)

lemma parse36_last:
  assumes "list_all (\<lambda>c. d36 c < 36) s"
  shows "parse36 (drop (length s - 5) s) = parse36 s mod 36 ^ 5"
proof (cases "5 \<le> length s")
  case True
  let ?xs = "take (length s - 5) s" and ?ys = "drop (length s - 5) s"
  have "parse36 s = parse36 ?xs * 36 ^ 5 + parse36 ?ys" using parse36_app [of ?xs ?ys] True by simp
  moreover have "parse36 ?ys < 36 ^ 5" using parse36_less [of ?ys] assms True by (auto simp: list_all_iff dest: in_set_dropD)
  ultimately show ?thesis by simp
next
  case False
  then have "(36 :: nat) ^ length s \<le> 36 ^ 5" by (intro power_increasing) simp_all
  then have "parse36 s < 36 ^ 5" using parse36_less [OF assms] by (rule less_le_trans [rotated])
  then show ?thesis using False by simp
qed

lemma parse36_pad: "parse36 (pad_start k CHR ''0'' s) = parse36 s"
proof -
  have "parse36 (replicate m CHR ''0'') = 0" for m
    by (induction m) (simp_all add: parse36_def d36_def is_digit_def)
  then show ?thesis by (simp add: pad_start_def parse36_app)
qed

lemma invoice_number_length: "m < 10 ^ 6 \<Longrightarrow> length (invoice_number m) = 6"
  using length_dec [of 6 m] by (simp add: invoice_number_def length_pad_start)

lemma progressive_value:
  assumes "m < 10 ^ 6"
  shows "parse36 (encode_progressive y (invoice_number m)) = (y * 10 ^ 6 + m) mod 36 ^ 5"
proof -
  have "filter is_digit (dec y @ invoice_number m) = dec y @ invoice_number m"
    by (rule filter_True) (auto simp: invoice_number_def dec_digits intro: pad_start_digits [OF dec_digits])
  moreover have "parse_dec (dec y @ invoice_number m) = y * 10 ^ 6 + m"
    by (simp only: parse_dec_app invoice_number_length [OF assms]) (simp add: invoice_number_def parse_dec_pad)
  ultimately show ?thesis
    using parse36_b36 by (simp add: encode_progressive_def Let_def parse36_pad parse36_last)
qed

lemma invoice_number_inj: "invoice_number m = invoice_number n \<Longrightarrow> m = n"
  by (metis invoice_number_def parse_dec_dec parse_dec_pad)

lemma close_years:
  fixes y z m n :: nat
  assumes "(y * 10 ^ 6 + m) mod 36 ^ 5 = (z * 10 ^ 6 + n) mod 36 ^ 5" and "m < 10 ^ 6" "n < 10 ^ 6" "y \<le> z" "z \<le> y + 59"
  shows "y = z \<and> m = n"
proof -
  obtain d where z: "z = y + d" "d \<le> 59" using assms(4,5) by (metis le_iff_add nat_add_left_cancel_le)
  have "((d * 10 ^ 6 + n) + y * 10 ^ 6) mod 36 ^ 5 = (m + y * 10 ^ 6) mod 36 ^ 5"
    using assms(1) by (simp add: z algebra_simps)
  then have "(d * 10 ^ 6 + n) mod 36 ^ 5 = m mod 36 ^ 5" unfolding nat_mod_eq_iff by (auto simp: add.assoc)
  moreover have "d * 10 ^ 6 + n < 36 ^ 5" "m < 36 ^ 5" using z(2) assms(2,3) by simp_all
  ultimately have "d * 10 ^ 6 + n = m" by simp
  with assms(2) show ?thesis by (cases d) (simp_all add: z)
qed

lemma numbered_member: "numbered xs \<Longrightarrow> x \<in> set xs \<Longrightarrow> \<exists>m. x = invoice_number m \<and> m \<le> length xs"
  unfolding numbered_def by (metis (no_types, lifting) atLeastLessThan_iff image_iff less_Suc_eq_le set_map set_upt)

lemma year_numbers_distinct: "numbered xs \<Longrightarrow> distinct xs"
  unfolding numbered_def by (metis distinct_map distinct_upt inj_onI invoice_number_inj)

text \<open>
  File names do not collide. In every reachable state of the accounting module, as
  long as a tenant has less than a million invoices in a year, the files of two different invoices
  of the tenant whose fiscal years are at most 59 apart have different names, although a name keeps
  only the last five base-36 digits of year and number.
\<close>

theorem fattura_file_names_unique:
  assumes "acc_reachable s" and "fi_invoice inp \<in> set (invoices s)" and "fi_invoice inp' \<in> set (invoices s)"
    and "fi_invoice inp \<noteq> fi_invoice inp'" and "fi_tenant inp = fi_tenant inp'"
    and "tenantId (fi_invoice inp) = t" and "tenantId (fi_invoice inp') = t"
    and "\<forall>y. length (filter (\<lambda>i. tenantId i = t \<and> inv_fiscalYear i = y) (invoices s)) < 10 ^ 6"
    and "inv_fiscalYear (fi_invoice inp) \<le> inv_fiscalYear (fi_invoice inp')"
    and "inv_fiscalYear (fi_invoice inp') \<le> inv_fiscalYear (fi_invoice inp) + 59"
    and "build_fattura inp = Inr out" and "build_fattura inp' = Inr out'"
  shows "fo_fileName out \<noteq> fo_fileName out'"
proof
  let ?i = "fi_invoice inp" and ?j = "fi_invoice inp'"
  assume "fo_fileName out = fo_fileName out'"
  then have eq: "encode_progressive (inv_fiscalYear ?i) (inv_number ?i) = encode_progressive (inv_fiscalYear ?j) (inv_number ?j)"
    using assms(5,11,12) by (auto simp: build_fattura_def Let_def split: if_splits)
  have num: "numbered (year_numbers t y (invoices s))" for y using reachable_numbers [OF assms(1)] by blast
  have "\<exists>m. inv_number x = invoice_number m \<and> m < 10 ^ 6" if "x \<in> set (invoices s)" "tenantId x = t" for x
  proof -
    have "inv_number x \<in> set (year_numbers t (inv_fiscalYear x) (invoices s))" using that by (auto simp: year_numbers_def)
    from numbered_member [OF num this] show ?thesis
      using assms(8) by (auto simp: year_numbers_def intro: le_less_trans)
  qed
  then obtain m n where m: "inv_number ?i = invoice_number m" "m < 10 ^ 6" and n: "inv_number ?j = invoice_number n" "n < 10 ^ 6"
    using assms(2,3,6,7) by metis
  have "(inv_fiscalYear ?i * 10 ^ 6 + m) mod 36 ^ 5 = (inv_fiscalYear ?j * 10 ^ 6 + n) mod 36 ^ 5"
    using arg_cong [OF eq, of parse36] unfolding m(1) n(1) progressive_value [OF m(2)] progressive_value [OF n(2)] .
  then have same: "inv_fiscalYear ?i = inv_fiscalYear ?j" "m = n"
    using close_years [OF _ m(2) n(2) assms(9,10)] by blast+
  let ?own = "filter (\<lambda>i. tenantId i = t \<and> inv_fiscalYear i = inv_fiscalYear ?i) (invoices s)"
  have "inj_on inv_number (set ?own)"
    using year_numbers_distinct [OF num, of "inv_fiscalYear ?i"] unfolding year_numbers_def distinct_map by simp
  moreover have "?i \<in> set ?own" "?j \<in> set ?own" "inv_number ?i = inv_number ?j"
    using assms(2,3,6,7) same m n by simp_all
  ultimately show False using assms(4) by (meson inj_onD)
qed

section \<open>Examples\<close>

definition fx_tenant :: fattura_tenant where
  "fx_tenant =
     \<lparr>ft_vatNumber = Some ''01234567890'', ft_fiscalCode = None, ft_name = ''<Rossi & Figli>'', ft_billingAddress = None,
      ft_billingPostalCode = None, ft_billingCity = None, ft_billingProvince = None, ft_billingCountry = None\<rparr>"

definition fx_customer :: customer where
  "fx_customer =
     \<lparr>ent_id = ''c'', tenantId = ''T'', cu_code = ''C1'', cu_name = ''Acme'', cu_customerType = Business,
      cu_vatNumber = Some ''09876543210'', cu_fiscalCode = None, cu_sdiDestinationCode = None, cu_pecEmail = None,
      cu_email = None, cu_phone = None, cu_address = None, cu_city = None, cu_postalCode = None, cu_province = None,
      cu_country = ''IT'', cu_defaultIvaRate = 22, cu_paymentTermsDays = 30, cu_splitPayment = False, cu_isActive = True\<rparr>"

definition fx_input :: "invoice \<Rightarrow> fattura_input" where
  "fx_input i = \<lparr>fi_tenant = fx_tenant, fi_customer = fx_customer, fi_invoice = i, fi_salesOrder = None\<rparr>"

lemma fx_builds: "inv_lines i \<noteq> [] \<Longrightarrow> \<exists>out. build_fattura (fx_input i) = Inr out"
  by (simp add: build_fattura_def Let_def fattura_invariants_def fx_input_def fx_tenant_def fx_customer_def)

lemma acc_inv_date: "iso_text (inv_invoiceDate acc_inv)"
  by (simp add: acc_inv_def invoice_of_def Let_def acc_input_def iso_text_def is_digit_def)


text \<open>A hundred euros at 22 and two hundred at 10 per cent.\<close>

definition fx_line :: "jsnum \<Rightarrow> jsnum \<Rightarrow> invoice_line" where
  "fx_line amount rate = \<lparr>il_description = ''d'', il_quantity = 1, il_unitPrice = amount, il_ivaRate = rate, il_ivaNature = None,
     il_lineTotal = amount\<rparr>"

definition fx_mixed :: invoice where
  "fx_mixed = acc_inv\<lparr>inv_lines := [fx_line 100 22, fx_line 200 10]\<rparr>"

theorem summary_rates_follow_first_line_witness:
  "\<exists>out. build_fattura (fx_input fx_mixed) = Inr out \<and>
     elements ''AliquotaIVA'' (fo_xml out) = [fixed2_text 22, fixed2_text 10, fixed2_text 22, fixed2_text 22]"
proof -
  obtain out where out: "build_fattura (fx_input fx_mixed) = Inr out" using fx_builds [of fx_mixed] by (auto simp: fx_mixed_def)
  have "iso_text (inv_invoiceDate (fi_invoice (fx_input fx_mixed)))" using acc_inv_date by (simp add: fx_input_def fx_mixed_def)
  moreover have "inv_lines (fi_invoice (fx_input fx_mixed)) = fx_line 100 22 # [fx_line 200 10]" by (simp add: fx_input_def fx_mixed_def)
  moreover have "\<forall>x\<in>set (fx_line 100 22 # [fx_line 200 10]).
      il_ivaNature x = None \<and> 0 \<le> il_lineTotal x \<and> fl (il_lineTotal x) = il_lineTotal x"
    by (simp add: fx_line_def fl_numeral_safe)
  moreover have "js_sum il_lineTotal (fx_line 100 22 # [fx_line 200 10]) < 1000"
    by (simp add: js_sum_def js_add_def fx_line_def fl_numeral_safe)
  ultimately have "elements ''AliquotaIVA'' (fo_xml out) =
      map (\<lambda>x. fixed2_text (il_ivaRate x)) (fx_line 100 22 # [fx_line 200 10]) @
      replicate (card (il_ivaRate ` set (fx_line 100 22 # [fx_line 200 10]))) (fixed2_text (il_ivaRate (fx_line 100 22)))"
    by (rule summary_rates_follow_first_line [OF out])
  moreover have "card {22, 10 :: rat} = 2" by simp
  ultimately show ?thesis using out by (simp add: fx_line_def numeral_2_eq_2)
qed

definition acc_second :: invoice where
  "acc_second = invoice_of ''i2'' ''T'' ''000002'' acc_input"

definition acc_3 :: accounting_db where
  "acc_3 = acc_1\<lparr>invoices := [acc_inv, acc_second]\<rparr>"

lemma acc_second_fields: "ent_id acc_second = ''i2''" "tenantId acc_second = ''T''" "inv_fiscalYear acc_second = 2026"
  "inv_lines acc_second = inv_lines acc_inv"
  by (simp_all add: acc_second_def acc_inv_def invoice_of_def Let_def acc_input_def year_of_def parse_dec_def digit_val_def)

lemma acc_3_reachable: "acc_reachable acc_3"
proof -
  have "invoice_number 2 = ''000002''"
    using digit_chars(3) by (simp add: invoice_number_def dec_small pad_start_def numeral_eq_Suc)
  moreover have "year_of (ii_invoiceDate acc_input) = 2026" using acc_inv_fields(4) by (simp add: acc_inv_def invoice_of_def Let_def)
  ultimately have "next_invoice_number ''T'' (year_of (ii_invoiceDate acc_input)) acc_1 = ''000002''"
    by (simp add: next_invoice_number_def acc_1_def acc_inv_fields numeral_2_eq_2)
  then have "create_invoice ''i2'' ''T'' acc_input acc_1 = (Inr acc_second, acc_3)"
    by (simp add: create_invoice_def save_invoice_def svc_defs acc_1_def acc_3_def acc_second_def [symmetric] save_row_def
        acc_inv_fields acc_second_fields)
  then have "acc_step acc_1 acc_3" by (rule acc_step.invoicing [rotated]) (simp add: fresh_def acc_1_def acc_inv_fields)
  then show ?thesis by (rule acc_reachable_step [OF acc_1_reachable])
qed

theorem fattura_file_names_unique_witness:
  "\<exists>out out'. build_fattura (fx_input acc_inv) = Inr out \<and> build_fattura (fx_input acc_second) = Inr out' \<and>
     fo_fileName out \<noteq> fo_fileName out'"
proof -
  obtain out where out: "build_fattura (fx_input acc_inv) = Inr out" using fx_builds [of acc_inv] acc_inv_lines by auto
  obtain out' where out': "build_fattura (fx_input acc_second) = Inr out'"
    using fx_builds [of acc_second] acc_inv_lines acc_second_fields by auto
  have "acc_inv \<noteq> acc_second" using acc_inv_fields(1) acc_second_fields(1) by auto
  then have "fo_fileName out \<noteq> fo_fileName out'"
    by (intro fattura_file_names_unique [OF acc_3_reachable, of "fx_input acc_inv" "fx_input acc_second" "''T''"])
      (simp_all add: out out', simp_all add: acc_3_def fx_input_def acc_inv_fields acc_second_fields)
  with out out' show ?thesis by blast
qed

end
