(* ===== verification/Production.thy ===== *)
theory Production
  imports Inventory JsDate
begin

text \<open>
  Production orders and work orders, \<^verbatim>\<open>backend/src/production/production.service.ts\<close>. The
  state holds the inventory tables next to the two of this module, because starting an
  order takes its materials out of the stock. Planned dates are \<^verbatim>\<open>YYYY-MM-DD\<close> texts,
  time stamps are milliseconds; decimal columns are read back as decimal strings, which
  \<open>fl\<close> turns into numbers.
\<close>

section \<open>Entities\<close>

datatype production_order_status = OrdDraft | OrdPlanned | OrdConfirmed | OrdInProgress | OrdCompleted | OrdCancelled

datatype work_order_status = WoPending | WoReady | WoInProgress | WoPaused | WoCompleted | WoCancelled

datatype priority = PriLow | PriNormal | PriHigh | PriUrgent

record bom_line =
  bm_materialId :: uuid
  bm_materialName :: string
  bm_quantityRequired :: rat
  bm_unit :: string

record production_order = entity +
  pd_orderNumber :: string
  pd_productName :: string
  pd_productId :: "string option"
  pd_quantityPlanned :: rat
  pd_quantityProduced :: rat
  pd_status :: production_order_status
  pd_priority :: priority
  pd_plannedStartDate :: string
  pd_plannedEndDate :: string
  pd_actualStartDate :: "int option"
  pd_actualEndDate :: "int option"
  pd_notes :: "string option"
  pd_customerReference :: "string option"
  pd_estimatedCost :: "rat option"
  pd_billOfMaterials :: "bom_line list option"

record quality_check_input =
  qc_checkName :: string
  qc_passed :: bool
  qc_value :: "string option"

record quality_check = quality_check_input +
  qc_timestamp :: string

record work_order = entity +
  wo_workOrderNumber :: string
  wo_productionOrderId :: uuid
  wo_operationName :: string
  wo_workCenter :: string
  wo_sequenceNumber :: int
  wo_status :: work_order_status
  wo_estimatedDurationHours :: "rat option"
  wo_actualDurationHours :: "rat option"
  wo_startedAt :: "int option"
  wo_completedAt :: "int option"
  wo_assignedTo :: "string option"
  wo_instructions :: "string option"
  wo_notes :: "string option"
  wo_quantityProduced :: "rat option"
  wo_quantityRejected :: "rat option"
  wo_qualityChecks :: "quality_check list option"

record production_db =
  productionOrders :: "production_order list"
  workOrders :: "work_order list"
  materials :: inventory_db

abbreviation with_materials :: "(inventory_db, 'a) svc \<Rightarrow> (production_db, 'a) svc" where
  "with_materials \<equiv> on_part materials (\<lambda>p s. s\<lparr>materials := p\<rparr>)"

section \<open>Requests\<close>

record production_order_input =
  pdin_productName :: string
  pdin_productId :: "string option"
  pdin_quantityPlanned :: rat
  pdin_priority :: "priority option"
  pdin_plannedStartDate :: string
  pdin_plannedEndDate :: string
  pdin_notes :: "string option"
  pdin_customerReference :: "string option"
  pdin_estimatedCost :: "rat option"
  pdin_billOfMaterials :: "bom_line list option"

record work_order_input =
  wi_operationName :: string
  wi_workCenter :: string
  wi_sequenceNumber :: int
  wi_estimatedDurationHours :: "rat option"
  wi_assignedTo :: "string option"
  wi_instructions :: "string option"

record work_order_status_input =
  ws_status :: work_order_status
  ws_quantityProduced :: "rat option"
  ws_quantityRejected :: "rat option"
  ws_notes :: "string option"
  ws_qualityChecks :: "quality_check_input list option"

section \<open>Production orders\<close>

definition next_production_number :: "nat \<Rightarrow> uuid \<Rightarrow> production_db \<Rightarrow> string" where
  "next_production_number year t s = doc_number ''PO'' 5 year (count_tenant t (productionOrders s) + 1)"

definition new_production_order :: "uuid \<Rightarrow> uuid \<Rightarrow> string \<Rightarrow> production_order_input \<Rightarrow> production_order" where
  "new_production_order newId t number dto =
     \<lparr>ent_id = newId, tenantId = t, pd_orderNumber = number, pd_productName = pdin_productName dto,
      pd_productId = pdin_productId dto, pd_quantityPlanned = pdin_quantityPlanned dto,
      pd_quantityProduced = 0, pd_status = OrdDraft, pd_priority = nullish (pdin_priority dto) PriNormal,
      pd_plannedStartDate = pdin_plannedStartDate dto, pd_plannedEndDate = pdin_plannedEndDate dto,
      pd_actualStartDate = None, pd_actualEndDate = None, pd_notes = pdin_notes dto,
      pd_customerReference = pdin_customerReference dto, pd_estimatedCost = pdin_estimatedCost dto,
      pd_billOfMaterials = pdin_billOfMaterials dto\<rparr>"

definition create_production_order ::
  "nat \<Rightarrow> uuid \<Rightarrow> uuid \<Rightarrow> production_order_input \<Rightarrow> (production_db, production_order) svc" where
  "create_production_order year newId t dto =
     bind (gets (next_production_number year t)) (\<lambda>number.
     let order = new_production_order newId t number dto
     in seq (modify (productionOrders_update (save_row order))) (ret order))"

fun priority_rank :: "priority \<Rightarrow> nat" where
  "priority_rank PriLow = 0"
| "priority_rank PriNormal = 1"
| "priority_rank PriHigh = 2"
| "priority_rank PriUrgent = 3"

text \<open>Ordered by priority, then by planned start: two stable sorts, the last key first.\<close>

definition get_production_orders ::
  "uuid \<Rightarrow> production_order_status option \<Rightarrow> nat \<Rightarrow> nat \<Rightarrow> (production_db, production_order page) svc" where
  "get_production_orders t status page limit =
     gets (\<lambda>s. get_page page limit (sort_key (\<lambda>r. priority_rank (pd_priority r)) (sort_key pd_plannedStartDate
       (filter (\<lambda>r. tenantId r = t \<and> (status = None \<or> status = Some (pd_status r))) (productionOrders s)))))"

definition get_production_order_by_id :: "uuid \<Rightarrow> uuid \<Rightarrow> (production_db, production_order) svc" where
  "get_production_order_by_id t i =
     bind (gets (\<lambda>s. find_scoped t i (productionOrders s))) (\<lambda>found. require found NotFound)"

fun production_transitions :: "production_order_status \<Rightarrow> production_order_status list" where
  "production_transitions OrdDraft = [OrdPlanned, OrdCancelled]"
| "production_transitions OrdPlanned = [OrdConfirmed, OrdCancelled]"
| "production_transitions OrdConfirmed = [OrdInProgress, OrdCancelled]"
| "production_transitions OrdInProgress = [OrdCompleted, OrdCancelled]"
| "production_transitions OrdCompleted = []"
| "production_transitions OrdCancelled = []"

text \<open>What the order takes out of the stock when it starts.\<close>

definition required_quantity :: "production_order \<Rightarrow> bom_line \<Rightarrow> jsnum" where
  "required_quantity r b = js_mul (fl (bm_quantityRequired b)) (fl (pd_quantityPlanned r))"

definition bom_requirements :: "production_order \<Rightarrow> bom_requirement list" where
  "bom_requirements r =
     map (\<lambda>b. \<lparr>bl_materialId = bm_materialId b, bl_quantityRequired = required_quantity r b, bl_warehouseId = None\<rparr>)
       (nullish (pd_billOfMaterials r) [])"

definition order_with_status :: "int \<Rightarrow> production_order_status \<Rightarrow> production_order \<Rightarrow> production_order" where
  "order_with_status now next r =
     r\<lparr>pd_status := next,
       pd_actualStartDate := (if next = OrdInProgress \<and> pd_actualStartDate r = None
         then Some now else pd_actualStartDate r),
       pd_actualEndDate := (if next = OrdCompleted then Some now else pd_actualEndDate r)\<rparr>"

text \<open>
  The transaction covers the order table only: the inventory service opens one of its own.
  The order is written last, so nothing can fail after the materials were taken.
\<close>

definition production_transaction :: "(production_db, 'a) svc \<Rightarrow> (production_db, 'a) svc" where
  "production_transaction m =
     (\<lambda>s. case m s of (Inl e, s') \<Rightarrow> (Inl e, s'\<lparr>productionOrders := productionOrders s\<rparr>) | (Inr a, s') \<Rightarrow> (Inr a, s'))"

definition update_production_order_status ::
  "int \<Rightarrow> (nat \<Rightarrow> uuid) \<Rightarrow> uuid \<Rightarrow> uuid \<Rightarrow> production_order_status \<Rightarrow> (production_db, production_order) svc" where
  "update_production_order_status now mvIds t i next =
     production_transaction
       (bind (get_production_order_by_id t i) (\<lambda>r.
        seq (throw_if (next \<notin> set (production_transitions (pd_status r))) BadRequest)
       (seq (if next = OrdInProgress \<and> bom_requirements r \<noteq> []
             then with_materials (consume_bom_for_production_order mvIds t (''PO:'' @ pd_orderNumber r)
                    (bom_requirements r) None)
             else ret ())
       (let saved = order_with_status now next r
        in seq (modify (productionOrders_update (save_row saved))) (ret saved)))))"

section \<open>Work orders\<close>

definition next_work_order_number :: "nat \<Rightarrow> uuid \<Rightarrow> production_db \<Rightarrow> string" where
  "next_work_order_number year t s = doc_number ''WO'' 5 year (count_tenant t (workOrders s) + 1)"

definition new_work_order :: "uuid \<Rightarrow> uuid \<Rightarrow> uuid \<Rightarrow> string \<Rightarrow> work_order_input \<Rightarrow> work_order" where
  "new_work_order newId t orderId number dto =
     \<lparr>ent_id = newId, tenantId = t, wo_workOrderNumber = number, wo_productionOrderId = orderId,
      wo_operationName = wi_operationName dto, wo_workCenter = wi_workCenter dto,
      wo_sequenceNumber = wi_sequenceNumber dto, wo_status = WoPending,
      wo_estimatedDurationHours = wi_estimatedDurationHours dto, wo_actualDurationHours = None,
      wo_startedAt = None, wo_completedAt = None, wo_assignedTo = wi_assignedTo dto,
      wo_instructions = wi_instructions dto, wo_notes = None, wo_quantityProduced = None,
      wo_quantityRejected = None, wo_qualityChecks = None\<rparr>"

definition create_work_order ::
  "nat \<Rightarrow> uuid \<Rightarrow> uuid \<Rightarrow> uuid \<Rightarrow> work_order_input \<Rightarrow> (production_db, work_order) svc" where
  "create_work_order year newId t orderId dto =
     bind (get_production_order_by_id t orderId) (\<lambda>_.
     bind (gets (next_work_order_number year t)) (\<lambda>number.
     let w = new_work_order newId t orderId number dto
     in seq (modify (workOrders_update (save_row w))) (ret w)))"

definition get_work_orders ::
  "uuid \<Rightarrow> work_order_status option \<Rightarrow> string option \<Rightarrow> nat \<Rightarrow> nat \<Rightarrow> (production_db, work_order page) svc" where
  "get_work_orders t status workCenter page limit =
     gets (\<lambda>s. get_page page limit (sort_key wo_sequenceNumber (filter
       (\<lambda>w. tenantId w = t \<and> (status = None \<or> status = Some (wo_status w)) \<and>
          (\<not> truthy workCenter \<or> workCenter = Some (wo_workCenter w))) (workOrders s))))"

definition stamp_check :: "int \<Rightarrow> quality_check_input \<Rightarrow> quality_check" where
  "stamp_check now qc = quality_check_input.extend qc (quality_check.fields (iso_time now))"

text \<open>Hours between two time stamps.\<close>

definition duration_hours :: "int \<Rightarrow> int \<Rightarrow> jsnum" where
  "duration_hours started completed = js_div (of_int (completed - started)) (of_int (1000 * 60 * 60))"

definition work_order_with_status :: "int \<Rightarrow> work_order_status_input \<Rightarrow> work_order \<Rightarrow> work_order" where
  "work_order_with_status now dto w =
     (let started = (if ws_status dto = WoInProgress \<and> wo_startedAt w = None then Some now else wo_startedAt w)
      in w\<lparr>wo_status := ws_status dto, wo_startedAt := started,
           wo_completedAt := (if ws_status dto = WoCompleted then Some now else wo_completedAt w),
           wo_actualDurationHours := (if ws_status dto = WoCompleted
             then (case started of None \<Rightarrow> wo_actualDurationHours w | Some t0 \<Rightarrow> Some (duration_hours t0 now))
             else wo_actualDurationHours w),
           wo_quantityProduced := or_else (ws_quantityProduced dto) (wo_quantityProduced w),
           wo_quantityRejected := or_else (ws_quantityRejected dto) (wo_quantityRejected w),
           wo_notes := (if truthy (ws_notes dto) then ws_notes dto else wo_notes w),
           wo_qualityChecks := (case ws_qualityChecks dto of None \<Rightarrow> wo_qualityChecks w
             | Some qcs \<Rightarrow> Some (map (stamp_check now) qcs))\<rparr>)"

text \<open>
  The order takes over the quantity of its completed work order with the highest sequence
  number. A stored quantity is a decimal string, which is truthy also when it is zero.
\<close>

definition completed_work_orders :: "uuid \<Rightarrow> uuid \<Rightarrow> production_db \<Rightarrow> work_order list" where
  "completed_work_orders t orderId s =
     filter (\<lambda>w. tenantId w = t \<and> wo_productionOrderId w = orderId \<and> wo_status w = WoCompleted) (workOrders s)"

definition last_work_order :: "work_order list \<Rightarrow> work_order option" where
  "last_work_order ws = (case sort_key (\<lambda>w. - wo_sequenceNumber w) ws of [] \<Rightarrow> None | w # _ \<Rightarrow> Some w)"

definition update_production_order_quantity :: "uuid \<Rightarrow> uuid \<Rightarrow> (production_db, unit) svc" where
  "update_production_order_quantity t orderId =
     bind (gets (completed_work_orders t orderId)) (\<lambda>ws.
     case last_work_order ws of
       None \<Rightarrow> ret ()
     | Some w \<Rightarrow> (case wo_quantityProduced w of
         None \<Rightarrow> ret ()
       | Some q \<Rightarrow> modify (productionOrders_update
           (map (\<lambda>r. if ent_id r = orderId then r\<lparr>pd_quantityProduced := q\<rparr> else r)))))"

definition update_work_order_status ::
  "int \<Rightarrow> uuid \<Rightarrow> uuid \<Rightarrow> work_order_status_input \<Rightarrow> (production_db, work_order) svc" where
  "update_work_order_status now t i dto =
     bind (gets (\<lambda>s. find_scoped t i (workOrders s))) (\<lambda>found.
     bind (require found NotFound) (\<lambda>w.
     let saved = work_order_with_status now dto w
     in seq (modify (workOrders_update (save_row saved)))
       (seq (if ws_status dto = WoCompleted \<and> nullish (ws_quantityProduced dto) 0 \<noteq> 0
             then update_production_order_quantity t (wo_productionOrderId saved) else ret ())
          (ret saved))))"

section \<open>Dashboard and schedule\<close>

record center_utilization =
  cn_estimated :: jsnum
  cn_actual :: jsnum
  cn_efficiency :: int

record production_dashboard =
  db_activeOrders :: nat
  db_completedToday :: nat
  db_overdueOrders :: nat
  db_efficiency :: int
  db_workCenterUtilization :: "(string \<times> center_utilization) list"

definition order_is_active :: "production_order \<Rightarrow> bool" where
  "order_is_active r \<longleftrightarrow> pd_status r = OrdConfirmed \<or> pd_status r = OrdInProgress"

text \<open>A missing duration counts as zero.\<close>

definition hours :: "rat option \<Rightarrow> jsnum" where
  "hours h = (case h of None \<Rightarrow> 0 | Some x \<Rightarrow> fl x)"

definition efficiency_of :: "jsnum \<Rightarrow> jsnum \<Rightarrow> int" where
  "efficiency_of estimated actual =
     (if actual > 0 then math_round (js_mul (js_div estimated actual) 100) else 0)"

text \<open>One entry per work center, in the order of its first work order.\<close>

fun add_to_center ::
  "work_order \<Rightarrow> (string \<times> center_utilization) list \<Rightarrow> (string \<times> center_utilization) list" where
  "add_to_center w [] =
     [(wo_workCenter w, \<lparr>cn_estimated = js_add 0 (hours (wo_estimatedDurationHours w)),
        cn_actual = js_add 0 (hours (wo_actualDurationHours w)), cn_efficiency = 0\<rparr>)]"
| "add_to_center w ((c, u) # us) =
     (if c = wo_workCenter w
      then (c, u\<lparr>cn_estimated := js_add (cn_estimated u) (hours (wo_estimatedDurationHours w)),
                cn_actual := js_add (cn_actual u) (hours (wo_actualDurationHours w))\<rparr>) # us
      else (c, u) # add_to_center w us)"

definition center_utilizations :: "work_order list \<Rightarrow> (string \<times> center_utilization) list" where
  "center_utilizations ws =
     map (\<lambda>(c, u). (c, u\<lparr>cn_efficiency := efficiency_of (cn_estimated u) (cn_actual u)\<rparr>))
       (fold add_to_center ws [])"

definition get_dashboard_metrics :: "int \<Rightarrow> uuid \<Rightarrow> (production_db, production_dashboard) svc" where
  "get_dashboard_metrics now t =
     gets (\<lambda>s. let today = now div MS_PER_DAY * MS_PER_DAY; tomorrow = today + MS_PER_DAY;
         own = filter (\<lambda>r. tenantId r = t) (productionOrders s);
         ws = filter (\<lambda>w. tenantId w = t \<and> wo_status w = WoCompleted) (workOrders s)
       in \<lparr>db_activeOrders = length (filter order_is_active own),
           db_completedToday = length (filter (\<lambda>r. pd_status r = OrdCompleted \<and>
             (case pd_actualEndDate r of None \<Rightarrow> False | Some e \<Rightarrow> today \<le> e \<and> e \<le> tomorrow)) own),
           db_overdueOrders = length (filter (\<lambda>r. order_is_active r \<and>
             midnight_utc (pd_plannedEndDate r) < today) own),
           db_efficiency = efficiency_of (js_sum (\<lambda>w. hours (wo_estimatedDurationHours w)) ws)
             (js_sum (\<lambda>w. hours (wo_actualDurationHours w)) ws),
           db_workCenterUtilization = center_utilizations ws\<rparr>)"

text \<open>The range ends are time stamps; the planned start counts as midnight of its day.\<close>

definition get_production_schedule :: "uuid \<Rightarrow> int \<Rightarrow> int \<Rightarrow> (production_db, production_order list) svc" where
  "get_production_schedule t startDate endDate =
     gets (\<lambda>s. sort_key pd_plannedStartDate (filter
       (\<lambda>r. tenantId r = t \<and> startDate \<le> midnight_utc (pd_plannedStartDate r) \<and>
          midnight_utc (pd_plannedStartDate r) \<le> endDate \<and>
          (pd_status r = OrdPlanned \<or> order_is_active r)) (productionOrders s)))"

end
