(* ===== verification/ProductionProps.thy ===== *)
theory ProductionProps
  imports Production InventoryProps
begin

text \<open>
  Correctness of production orders: materials leave the stock exactly once per started
  order, an order starts exactly when all its materials are there, and a completed or
  cancelled order stays as it is.
\<close>

section \<open>A batch of materials\<close>

declare split_paired_All [simp del]

text \<open>What a bill of materials takes at one stock level of a tenant.\<close>

definition bom_total :: "uuid \<Rightarrow> uuid \<Rightarrow> level_key \<Rightarrow> bom_requirement list \<Rightarrow> rat" where
  "bom_total t dw k bom = sum_list (map bl_quantityRequired (filter (\<lambda>b. bom_key t dw b = k) bom))"

definition whole_bom :: "bom_requirement list \<Rightarrow> bool" where
  "whole_bom bom \<longleftrightarrow> list_all (\<lambda>b. whole (bl_quantityRequired b)) bom"

definition bom_available :: "uuid \<Rightarrow> uuid \<Rightarrow> bom_requirement list \<Rightarrow> inventory_db \<Rightarrow> bool" where
  "bom_available t dw bom s \<longleftrightarrow>
     list_all (\<lambda>b. bom_total t dw (bom_key t dw b) bom \<le> on_hand (bom_key t dw b) s \<and>
       find_level (bom_key t dw b) (stockLevels s) \<noteq> None) bom"

lemma bom_total_simps [simp]:
  "bom_total t dw k [] = 0"
  "bom_total t dw k (b # bom) = (if bom_key t dw b = k then bl_quantityRequired b else 0) + bom_total t dw k bom"
  by (simp_all add: bom_total_def)

lemma bom_total_nonneg: "whole_bom bom \<Longrightarrow> 0 \<le> bom_total t dw k bom"
  by (induction bom) (auto simp: whole_bom_def whole_def)

lemma bom_total_absent: "k \<notin> bom_key t dw ` set bom \<Longrightarrow> bom_total t dw k bom = 0"
  by (induction bom) auto

text \<open>One material: it is taken exactly when enough of it is there.\<close>

definition level_present :: "level_key \<Rightarrow> inventory_db \<Rightarrow> bool" where
  "level_present k s \<longleftrightarrow> find_level k (stockLevels s) \<noteq> None"

lemma consume_one_decides:
  assumes "whole_stock s" and q: "whole (bl_quantityRequired b)"
  shows "if bl_quantityRequired b \<le> on_hand (bom_key t dw b) s \<and> level_present (bom_key t dw b) s
         then \<exists>u. consume_one m t ref dw b s = (Inr (), u) \<and> whole_stock u \<and> warehouses u = warehouses s \<and>
           (\<forall>k. on_hand k u = on_hand k s - (if bom_key t dw b = k then bl_quantityRequired b else 0) \<and>
             reserved k u = reserved k s \<and> level_present k u = level_present k s)
         else \<exists>e. consume_one m t ref dw b s = (Inl e, s)"
proof (cases "bl_quantityRequired b \<le> on_hand (bom_key t dw b) s \<and> level_present (bom_key t dw b) s")
  case fits: True
  let ?k = "bom_key t dw b"
  obtain l where l: "find_level ?k (stockLevels s) = Some l" using fits by (auto simp: level_present_def)
  define u where "u = snd (consume_one m t ref dw b s)"
  have run: "consume_one m t ref dw b s = (Inr (), u)"
    using fits l unfolding u_def consume_one_def bom_key_def [symmetric] Let_def
    by (simp add: svc_defs on_hand_def not_less)
  note eff = consume_one_Inr [OF run]
  have w: "whole (on_hand k s)" "whole (reserved k s)" for k using assms(1) by (simp_all add: whole_stock_def)
  have hand: "on_hand k u = on_hand k s - (if ?k = k then bl_quantityRequired b else 0)" for k
    using eff [of k] w q whole_sub by simp
  have "whole (on_hand k u)" for k
    using hand [of k] w(1) [of k] q fits by (intro whole_I) (auto simp: whole_Ints whole_def)
  then have whole: "whole_stock u" using eff w by (simp add: whole_stock_def)
  have "level_present k u = level_present k s \<and> warehouses u = warehouses s" for k
    using l unfolding u_def consume_one_def bom_key_def [symmetric] Let_def
    by (auto simp: svc_defs level_present_def find_save_level level_key_saved split: option.splits if_splits)
  then show ?thesis using fits run whole hand eff by simp
next
  case False
  then show ?thesis
    unfolding consume_one_def bom_key_def [symmetric] Let_def
    by (auto simp: svc_defs level_present_def on_hand_def split: option.splits)
qed

text \<open>
  The whole bill: all of it is taken when the sum asked for at every stock level is there,
  otherwise some line fails.
\<close>

lemma bom_available_present:
  "bom_available t dw bom s \<longleftrightarrow>
     (\<forall>b\<in>set bom. bom_total t dw (bom_key t dw b) bom \<le> on_hand (bom_key t dw b) s \<and>
       level_present (bom_key t dw b) s)"
  by (simp add: bom_available_def list_all_iff level_present_def)

lemma bom_available_Cons:
  assumes "whole_bom (b # bom)"
    and "bl_quantityRequired b \<le> on_hand (bom_key t dw b) s" and "level_present (bom_key t dw b) s"
    and u: "\<forall>k. on_hand k u = on_hand k s - (if bom_key t dw b = k then bl_quantityRequired b else 0) \<and>
      level_present k u = level_present k s"
  shows "bom_available t dw (b # bom) s \<longleftrightarrow> bom_available t dw bom u"
proof -
  have "bom_total t dw (bom_key t dw b) bom \<le> on_hand (bom_key t dw b) u"
    if "bom_available t dw bom u"
  proof (cases "bom_key t dw b \<in> bom_key t dw ` set bom")
    case True
    then show ?thesis using that by (auto simp: bom_available_present)
  next
    case False
    then show ?thesis using u assms(2) by (simp add: bom_total_absent)
  qed
  moreover have "bom_total t dw k (b # bom) \<le> on_hand k s \<longleftrightarrow> bom_total t dw k bom \<le> on_hand k u"
    and "level_present k u = level_present k s" for k
    using u [rule_format, of k] by auto
  ultimately show ?thesis
    using assms(3) unfolding bom_available_present by (simp del: bom_total_simps) blast
qed

lemma consume_loop:
  assumes "whole_stock s" and "whole_bom bom"
  shows "if bom_available t dw bom s
    then \<exists>u. for_each (\<lambda>(n, b). consume_one (ids n) t ref dw b) (enumerate n bom) s = (Inr (), u) \<and>
      whole_stock u \<and> warehouses u = warehouses s \<and>
      (\<forall>k. on_hand k u = on_hand k s - bom_total t dw k bom \<and> reserved k u = reserved k s)
    else \<exists>e u. for_each (\<lambda>(n, b). consume_one (ids n) t ref dw b) (enumerate n bom) s = (Inl e, u)"
  using assms
proof (induction bom arbitrary: s n)
  case Nil
  then show ?case by (simp add: ret_def bom_available_def)
next
  case (Cons b bom)
  have q: "whole (bl_quantityRequired b)" "whole_bom bom" using Cons.prems(2) by (simp_all add: whole_bom_def)
  note one = consume_one_decides [OF Cons.prems(1) q(1), where t = t and dw = dw and m = "ids n" and ref = ref]
  show ?case
  proof (cases "bl_quantityRequired b \<le> on_hand (bom_key t dw b) s \<and> level_present (bom_key t dw b) s")
    case True
    then obtain u where u: "consume_one (ids n) t ref dw b s = (Inr (), u)" "whole_stock u" "warehouses u = warehouses s"
      "\<forall>k. on_hand k u = on_hand k s - (if bom_key t dw b = k then bl_quantityRequired b else 0) \<and>
         reserved k u = reserved k s \<and> level_present k u = level_present k s"
      using one by (auto simp: split_paired_All)
    have eq: "bom_available t dw (b # bom) s \<longleftrightarrow> bom_available t dw bom u"
      using True u(4) by (intro bom_available_Cons [OF Cons.prems(2)]) auto
    show ?thesis using Cons.IH [OF u(2) q(2), of "Suc n"] u(1,3,4) unfolding eq
      by (auto simp: seq_def bind_def split: if_splits)
  next
    case False
    have "0 \<le> bom_total t dw (bom_key t dw b) bom" by (rule bom_total_nonneg) (rule q(2))
    then have "\<not> bom_available t dw (b # bom) s" using False by (auto simp: bom_available_present)
    then show ?thesis using one False by (auto simp: seq_def bind_def)
  qed
qed

section \<open>Starting an order\<close>

definition default_warehouse :: "uuid \<Rightarrow> warehouse list \<Rightarrow> uuid" where
  "default_warehouse t ws = (case first_active_warehouse t ws of None \<Rightarrow> '''' | Some w \<Rightarrow> ent_id w)"

lemma consume_bom_decides:
  assumes "whole_stock s" and "whole_bom bom" and "bom \<noteq> []"
  shows "if first_active_warehouse t (warehouses s) \<noteq> None \<and>
      bom_available t (default_warehouse t (warehouses s)) bom s
    then \<exists>u. consume_bom_for_production_order ids t ref bom None s = (Inr (), u) \<and> whole_stock u \<and>
      warehouses u = warehouses s \<and>
      (\<forall>k. on_hand k u = on_hand k s - bom_total t (default_warehouse t (warehouses s)) k bom \<and>
        reserved k u = reserved k s)
    else \<exists>e. consume_bom_for_production_order ids t ref bom None s = (Inl e, s)"
proof (cases "first_active_warehouse t (warehouses s)")
  case None
  then show ?thesis by (simp add: consume_bom_for_production_order_def svc_defs)
next
  case (Some w)
  then show ?thesis
    using consume_loop [OF assms(1,2), where t = t and dw = "ent_id w" and ids = ids and ref = ref and n = 0]
    by (auto simp: consume_bom_for_production_order_def default_warehouse_def bind_def gets_def require_def ret_def
        transaction_def split: if_splits)
qed

lemma bom_of_status [simp]: "bom_requirements (order_with_status now next r) = bom_requirements r"
  by (simp add: bom_requirements_def order_with_status_def required_quantity_def [abs_def])

lemma order_with_status_sel [simp]:
  "ent_id (order_with_status now next r) = ent_id r" "tenantId (order_with_status now next r) = tenantId r"
  "pd_status (order_with_status now next r) = next" "pd_orderNumber (order_with_status now next r) = pd_orderNumber r"
  "pd_actualStartDate (order_with_status now next r) =
     (if next = OrdInProgress \<and> pd_actualStartDate r = None then Some now else pd_actualStartDate r)"
  by (simp_all add: order_with_status_def)

text \<open>
  A request to start a confirmed order: it succeeds exactly when the tenant has an active
  warehouse and that warehouse holds, for every material, the sum of all lines that name it.
\<close>

lemma start_decides:
  assumes "whole_stock (materials s)" and "find_scoped t i (productionOrders s) = Some r"
    and "OrdInProgress \<in> set (production_transitions (pd_status r))" and "whole_bom (bom_requirements r)"
  shows "if bom_requirements r = [] \<or> first_active_warehouse t (warehouses (materials s)) \<noteq> None \<and>
      bom_available t (default_warehouse t (warehouses (materials s))) (bom_requirements r) (materials s)
    then \<exists>u. update_production_order_status now ids t i OrdInProgress s =
        (Inr (order_with_status now OrdInProgress r),
         s\<lparr>productionOrders := save_row (order_with_status now OrdInProgress r) (productionOrders s), materials := u\<rparr>) \<and>
      whole_stock u \<and> warehouses u = warehouses (materials s) \<and>
      (\<forall>k. on_hand k u = on_hand k (materials s)
          - bom_total t (default_warehouse t (warehouses (materials s))) k (bom_requirements r) \<and>
        reserved k u = reserved k (materials s))
    else \<exists>e. update_production_order_status now ids t i OrdInProgress s = (Inl e, s)"
proof (cases "bom_requirements r = []")
  case True
  then show ?thesis using assms(1-3)
    by (auto simp: update_production_order_status_def production_transaction_def get_production_order_by_id_def
        svc_defs Let_def intro!: exI [of _ "materials s"])
next
  case False
  note consume = consume_bom_decides [OF assms(1,4) False, where t = t and ids = ids and ref = "''PO:'' @ pd_orderNumber r"]
  show ?thesis
  proof (cases "first_active_warehouse t (warehouses (materials s)) \<noteq> None \<and>
      bom_available t (default_warehouse t (warehouses (materials s))) (bom_requirements r) (materials s)")
    case True
    then obtain u where u: "consume_bom_for_production_order ids t (''PO:'' @ pd_orderNumber r) (bom_requirements r) None
          (materials s) = (Inr (), u)" "whole_stock u" "warehouses u = warehouses (materials s)"
        "\<forall>k. on_hand k u = on_hand k (materials s)
          - bom_total t (default_warehouse t (warehouses (materials s))) k (bom_requirements r) \<and>
          reserved k u = reserved k (materials s)"
      using consume by auto
    have "update_production_order_status now ids t i OrdInProgress s =
        (Inr (order_with_status now OrdInProgress r),
         s\<lparr>productionOrders := save_row (order_with_status now OrdInProgress r) (productionOrders s), materials := u\<rparr>)"
      using False assms(2,3) u(1)
      by (simp add: update_production_order_status_def production_transaction_def get_production_order_by_id_def
          svc_defs Let_def)
    then show ?thesis using True u(2-4) by auto
  next
    case no: False
    then obtain e where "consume_bom_for_production_order ids t (''PO:'' @ pd_orderNumber r) (bom_requirements r) None
          (materials s) = (Inl e, materials s)"
      using consume by auto
    then have "update_production_order_status now ids t i OrdInProgress s = (Inl e, s)"
      using False assms(2,3)
      by (simp add: update_production_order_status_def production_transaction_def get_production_order_by_id_def
          svc_defs Let_def)
    then show ?thesis using False no by auto
  qed
qed

section \<open>Runs of production requests\<close>

text \<open>
  One step per successful request. Orders are created with a fresh key and with material
  quantities that come out whole.
\<close>

inductive production_step :: "production_db \<Rightarrow> production_db \<Rightarrow> bool" where
  create: "create_production_order y n t dto s = (Inr r, s') \<Longrightarrow> fresh n (productionOrders s) \<Longrightarrow>
    whole_bom (bom_requirements r) \<Longrightarrow> production_step s s'"
| status: "update_production_order_status now ids t i next s = (Inr r, s') \<Longrightarrow> production_step s s'"
| work_order: "create_work_order y n t i wi s = (Inr w, s') \<Longrightarrow> production_step s s'"
| work_status: "update_work_order_status now t i ws s = (Inr w, s') \<Longrightarrow> production_step s s'"

text \<open>What an order has taken at a stock level: its whole bill once it was started, nothing before.\<close>

definition order_takes :: "warehouse list \<Rightarrow> level_key \<Rightarrow> production_order \<Rightarrow> rat" where
  "order_takes ws k r =
     (if pd_actualStartDate r = None then 0
      else bom_total (tenantId r) (default_warehouse (tenantId r) ws) k (bom_requirements r))"

definition started_by_status :: "production_order \<Rightarrow> bool" where
  "started_by_status r \<longleftrightarrow>
     (pd_status r \<in> {OrdInProgress, OrdCompleted} \<longrightarrow> pd_actualStartDate r \<noteq> None) \<and>
     (pd_status r \<in> {OrdDraft, OrdPlanned, OrdConfirmed} \<longrightarrow> pd_actualStartDate r = None)"

definition production_inv :: "warehouse list \<Rightarrow> inventory_db \<Rightarrow> production_db \<Rightarrow> bool" where
  "production_inv ws m s \<longleftrightarrow> keyed (productionOrders s) \<and>
     (\<forall>r\<in>set (productionOrders s). started_by_status r \<and> whole_bom (bom_requirements r)) \<and>
     whole_stock (materials s) \<and> warehouses (materials s) = ws \<and>
     (\<forall>k. on_hand k (materials s) = on_hand k m - sum_list (map (order_takes ws k) (productionOrders s)) \<and>
       reserved k (materials s) = reserved k m)"

lemma create_production_order_Inr:
  "create_production_order y n t dto s = (Inr r, s') \<longleftrightarrow>
     r = new_production_order n t (next_production_number y t s) dto \<and>
     s' = productionOrders_update (save_row r) s"
  by (auto simp: create_production_order_def svc_simps Let_def)

lemma update_production_order_status_Inr:
  "update_production_order_status now ids t i next s = (Inr r', s') \<Longrightarrow>
     \<exists>r. find_scoped t i (productionOrders s) = Some r \<and> next \<in> set (production_transitions (pd_status r)) \<and>
       r' = order_with_status now next r \<and> productionOrders s' = save_row r' (productionOrders s) \<and>
       workOrders s' = workOrders s \<and> (next \<noteq> OrdInProgress \<longrightarrow> materials s' = materials s)"
  by (cases "next = OrdInProgress") (auto simp: update_production_order_status_def production_transaction_def get_production_order_by_id_def
      svc_simps Let_def split: sum.splits prod.splits if_splits)

lemma status_inv:
  assumes "update_production_order_status now ids t i next s = (Inr r', s')" and inv: "production_inv ws m s"
  shows "production_inv ws m s'"
proof -
  obtain r where r: "find_scoped t i (productionOrders s) = Some r" "next \<in> set (production_transitions (pd_status r))"
      "r' = order_with_status now next r" "productionOrders s' = save_row r' (productionOrders s)"
      "next \<noteq> OrdInProgress \<longrightarrow> materials s' = materials s"
    using update_production_order_status_Inr [OF assms(1)] by blast
  have old: "r \<in> set (productionOrders s)" "tenantId r = t" using find_scoped_Some [OF r(1)] by simp_all
  have i: "keyed (productionOrders s)" "whole_stock (materials s)" "warehouses (materials s) = ws"
      "started_by_status r" "whole_bom (bom_requirements r)"
      "\<forall>x\<in>set (productionOrders s). started_by_status x \<and> whole_bom (bom_requirements x)"
      "\<And>k. on_hand k (materials s) = on_hand k m - sum_list (map (order_takes ws k) (productionOrders s))"
      "\<And>k. reserved k (materials s) = reserved k m"
    using inv old(1) by (simp_all add: production_inv_def)
  have sum: "sum_list (map (order_takes ws k) (save_row r' (productionOrders s))) =
      sum_list (map (order_takes ws k) (productionOrders s)) - order_takes ws k r + order_takes ws k r'" for k
    by (rule sum_save_row [OF i(1) r(1)]) (simp add: r(3))
  have wf: "started_by_status r'"
    using i(4) r(2,3) by (cases "pd_status r"; cases "next") (auto simp: started_by_status_def)
  have rows: "\<forall>x\<in>set (save_row r' (productionOrders s)). started_by_status x \<and> whole_bom (bom_requirements x)"
    using i(1,5,6) wf r(3) by (auto simp: set_save_row)
  have stock: "whole_stock (materials s') \<and> warehouses (materials s') = ws \<and>
      (\<forall>k. on_hand k (materials s') = on_hand k (materials s) + order_takes ws k r - order_takes ws k r' \<and>
        reserved k (materials s') = reserved k (materials s))"
  proof (cases "next = OrdInProgress")
    case True
    then have "pd_status r = OrdConfirmed" using r(2) by (cases "pd_status r") auto
    then have fresh: "pd_actualStartDate r = None" using i(4) by (simp add: started_by_status_def)
    have start: "OrdInProgress \<in> set (production_transitions (pd_status r))" using r(2) True by simp
    obtain u where "materials s' = u" "whole_stock u" "warehouses u = warehouses (materials s)"
        "\<forall>k. on_hand k u = on_hand k (materials s)
          - bom_total t (default_warehouse t (warehouses (materials s))) k (bom_requirements r) \<and>
          reserved k u = reserved k (materials s)"
      using start_decides [OF i(2) r(1) start i(5), of now ids] assms(1) True
      by (auto simp del: split_paired_All split: if_splits)
    then show ?thesis using r(3) True fresh old(2) i(3) by (simp add: order_takes_def)
  next
    case False
    then show ?thesis using r(3,5) i(2,3) by (auto simp: order_takes_def)
  qed
  show ?thesis unfolding production_inv_def
    using r(4) rows stock sum i(1,7,8) by (simp add: keyed_save_row)
qed

lemma work_order_frame:
  "create_work_order y n t i wi s = (Inr w, s') \<Longrightarrow>
     productionOrders s' = productionOrders s \<and> materials s' = materials s"
  by (auto simp: create_work_order_def get_production_order_by_id_def svc_simps Let_def)

text \<open>Completing a work order writes at most the produced quantity of the order.\<close>

lemma update_work_order_status_frame:
  assumes "update_work_order_status now t i ws s = (Inr w, s')"
  shows "\<exists>f. productionOrders s' = map (\<lambda>r. r\<lparr>pd_quantityProduced := f r\<rparr>) (productionOrders s) \<and> materials s' = materials s"
proof -
  have id: "\<exists>f. rows = map (\<lambda>r. r\<lparr>pd_quantityProduced := f r\<rparr>) rows" for rows :: "production_order list"
    by (rule exI [of _ pd_quantityProduced]) simp
  have upd: "\<exists>f. map (\<lambda>r. if ent_id r = k then r\<lparr>pd_quantityProduced := q\<rparr> else r) rows =
      map (\<lambda>r. r\<lparr>pd_quantityProduced := f r\<rparr>) rows" for rows :: "production_order list" and k q
    by (rule exI [of _ "\<lambda>r. if ent_id r = k then q else pd_quantityProduced r"]) simp
  show ?thesis using assms
    by (auto simp: update_work_order_status_def update_production_order_quantity_def svc_simps Let_def
        simp del: map_eq_conv intro: id upd split: if_splits option.splits)
qed

lemma production_step_inv:
  assumes "production_step s s'" and inv: "production_inv ws m s"
  shows "production_inv ws m s'"
  using assms(1)
proof cases
  case (create y n t dto r)
  then have r: "r = new_production_order n t (next_production_number y t s) dto"
      "s' = productionOrders_update (save_row r) s" by (simp_all add: create_production_order_Inr)
  have f: "fresh (ent_id r) (productionOrders s)" using create(2) r(1) by (simp add: new_production_order_def)
  have "started_by_status r" "order_takes ws k r = 0" for k
    using r(1) by (simp_all add: new_production_order_def started_by_status_def order_takes_def)
  then show ?thesis using inv create(3) f r(2) sum_save_fresh [OF f, of "order_takes ws k" for k]
    by (auto simp: production_inv_def keyed_save_row set_save_row)
next
  case (status now ids t i nxt r)
  then show ?thesis using inv by (rule status_inv)
next
  case (work_order y n t i wi w)
  then show ?thesis using inv work_order_frame by (simp add: production_inv_def)
next
  case (work_status now t i wsi w)
  then obtain f where f: "productionOrders s' = map (\<lambda>r. r\<lparr>pd_quantityProduced := f r\<rparr>) (productionOrders s)"
      "materials s' = materials s" using update_work_order_status_frame by blast
  have "order_takes ws k (r\<lparr>pd_quantityProduced := f r\<rparr>) = order_takes ws k r"
    "started_by_status (r\<lparr>pd_quantityProduced := f r\<rparr>) = started_by_status r"
    "bom_requirements (r\<lparr>pd_quantityProduced := f r\<rparr>) = bom_requirements r" for k r
    by (simp_all add: order_takes_def started_by_status_def bom_requirements_def required_quantity_def [abs_def])
  then show ?thesis using inv unfolding production_inv_def f
    by (simp add: keyed_def comp_def)
qed

lemma production_run_inv: "production_step\<^sup>*\<^sup>* s s' \<Longrightarrow> production_inv ws m s \<Longrightarrow> production_inv ws m s'"
  by (induction rule: rtranclp_induct) (auto intro: production_step_inv)

lemma production_start_inv:
  "productionOrders s = [] \<Longrightarrow> whole_levels (materials s) \<Longrightarrow> production_inv (warehouses (materials s)) (materials s) s"
  by (simp add: production_inv_def keyed_def whole_stock_levels)


text \<open>
  A request to start a confirmed order is granted exactly when its bill is empty or the
  tenant has an active warehouse that holds, for every material, the sum over all the lines
  naming it. Then the order is in progress, its start time is set and the stock is down by
  exactly that much; otherwise the request fails and nothing at all has changed.
\<close>

theorem production_start_decides:
  assumes "production_step\<^sup>*\<^sup>* s0 s" and "productionOrders s0 = []" and "whole_levels (materials s0)"
    and "find_scoped t i (productionOrders s) = Some r" and "pd_status r = OrdConfirmed"
  shows "case update_production_order_status now ids t i OrdInProgress s of
      (Inr r', s') \<Rightarrow> (bom_requirements r = [] \<or> first_active_warehouse t (warehouses (materials s)) \<noteq> None \<and>
          bom_available t (default_warehouse t (warehouses (materials s))) (bom_requirements r) (materials s)) \<and>
        pd_status r' = OrdInProgress \<and> pd_actualStartDate r' = Some now \<and>
        find_scoped t i (productionOrders s') = Some r' \<and>
        (\<forall>k. on_hand k (materials s') = on_hand k (materials s)
          - bom_total t (default_warehouse t (warehouses (materials s))) k (bom_requirements r))
    | (Inl e, s') \<Rightarrow> \<not> (bom_requirements r = [] \<or> first_active_warehouse t (warehouses (materials s)) \<noteq> None \<and>
          bom_available t (default_warehouse t (warehouses (materials s))) (bom_requirements r) (materials s)) \<and>
        s' = s"
proof -
  have inv: "production_inv (warehouses (materials s0)) (materials s0) s"
    by (rule production_run_inv [OF assms(1) production_start_inv [OF assms(2,3)]])
  have r: "r \<in> set (productionOrders s)" "ent_id r = i" "tenantId r = t" using find_scoped_Some [OF assms(4)] by auto
  have "whole_stock (materials s)" "keyed (productionOrders s)" "whole_bom (bom_requirements r)"
      "pd_actualStartDate r = None"
    using inv r(1) assms(5) by (auto simp: production_inv_def started_by_status_def)
  moreover have "find_scoped t i (save_row (order_with_status now OrdInProgress r) (productionOrders s))
      = Some (order_with_status now OrdInProgress r)"
    using calculation(2) r by (simp add: find_scoped_save)
  ultimately show ?thesis
    using start_decides [of s t i r now ids] assms(4,5)
    by (cases "update_production_order_status now ids t i OrdInProgress s") (auto split: sum.split if_splits)
qed

section \<open>Examples\<close>

definition shop_floor :: production_db where
  "shop_floor = \<lparr>productionOrders = [], workOrders = [], materials =
     \<lparr>products = [], warehouses = [\<lparr>ent_id = ''W'', tenantId = ''T'', wh_code = ''A'', wh_name = ''A'', wh_address = None,
        wh_city = None, wh_postalCode = None, wh_province = None,
        wh_contactPerson = None, wh_contactPhone = None, wh_capacity = None, wh_isActive = True\<rparr>],
      stockLevels = [sample_level ''W'' 10 0], stockMovements = []\<rparr>\<rparr>"

definition sample_job :: production_order_input where
  "sample_job = \<lparr>pdin_productName = ''chair'', pdin_productId = None, pdin_quantityPlanned = 3,
     pdin_priority = None, pdin_plannedStartDate = ''2026-05-01'', pdin_plannedEndDate = ''2026-05-15'',
     pdin_notes = None, pdin_customerReference = None, pdin_estimatedCost = None,
     pdin_billOfMaterials = Some [\<lparr>bm_materialId = ''P'', bm_materialName = ''leg'', bm_quantityRequired = 2, bm_unit = ''pz''\<rparr>]\<rparr>"

abbreviation sample_job_created :: "(production_db, production_order) svc" where
  "sample_job_created \<equiv> create_production_order 2026 ''O'' ''T'' sample_job"

abbreviation sample_job_to :: "production_order_status \<Rightarrow> (production_db, production_order) svc" where
  "sample_job_to \<equiv> update_production_order_status 0 (sample_ids CHR ''m'') ''T'' ''O''"

definition floor_1 :: production_db where "floor_1 = after sample_job_created shop_floor"
definition floor_2 :: production_db where "floor_2 = after (sample_job_to OrdPlanned) floor_1"
definition floor_3 :: production_db where "floor_3 = after (sample_job_to OrdConfirmed) floor_2"
definition floor_4 :: production_db where "floor_4 = after (sample_job_to OrdInProgress) floor_3"

lemmas production_eval =
  create_production_order_def update_production_order_status_def production_transaction_def
  get_production_order_by_id_def new_production_order_def order_with_status_def bom_requirements_def
  required_quantity_def js_mul_def fl_numeral_safe save_row_def find_scoped_def nullish_def Let_def
  svc_defs runs_ok_def after_def outcome_def

definition sample_job_row :: "production_order_status \<Rightarrow> int option \<Rightarrow> production_order" where
  "sample_job_row st started = (new_production_order ''O'' ''T'' (doc_number ''PO'' 5 2026 1) sample_job)
     \<lparr>pd_status := st, pd_actualStartDate := started\<rparr>"

lemma floor_states:
  "productionOrders floor_1 = [sample_job_row OrdDraft None]" "materials floor_1 = materials shop_floor"
  "productionOrders floor_2 = [sample_job_row OrdPlanned None]" "materials floor_2 = materials shop_floor"
  "productionOrders floor_3 = [sample_job_row OrdConfirmed None]" "materials floor_3 = materials shop_floor"
proof -
  show one: "productionOrders floor_1 = [sample_job_row OrdDraft None]" "materials floor_1 = materials shop_floor"
    by (simp_all add: floor_1_def shop_floor_def production_eval sample_job_row_def next_production_number_def count_tenant_def)
  show two: "productionOrders floor_2 = [sample_job_row OrdPlanned None]" "materials floor_2 = materials shop_floor"
    using one by (simp_all add: floor_2_def production_eval sample_job_row_def)
  show "productionOrders floor_3 = [sample_job_row OrdConfirmed None]" "materials floor_3 = materials shop_floor"
    using two by (simp_all add: floor_3_def production_eval sample_job_row_def)
qed

lemma floor_runs:
  "runs_ok sample_job_created shop_floor" "runs_ok (sample_job_to OrdPlanned) floor_1"
  "runs_ok (sample_job_to OrdConfirmed) floor_2" "runs_ok (sample_job_to OrdInProgress) floor_3"
  using floor_states
  by (simp_all add: shop_floor_def production_eval sample_job_row_def sample_job_def sample_level_def sample_ids_def
      consume_bom_for_production_order_def consume_one_def first_active_warehouse_def find_level_def level_key_def)

lemma floor_reachable: "production_step\<^sup>*\<^sup>* shop_floor floor_3" "production_step\<^sup>*\<^sup>* shop_floor floor_4"
proof -
  note ok = floor_runs [THEN runs_okD]
  have whole: "whole_bom (bom_requirements (outcome sample_job_created shop_floor))"
    by (simp add: production_eval sample_job_def whole_bom_def)
  have "fresh ''O'' (productionOrders shop_floor)"
    by (simp add: fresh_def shop_floor_def)
  then have "production_step shop_floor floor_1"
    unfolding floor_1_def by (rule production_step.create [OF ok(1) _ whole])
  moreover have "production_step floor_1 floor_2"
    unfolding floor_2_def by (rule production_step.status [OF ok(2)])
  moreover have "production_step floor_2 floor_3"
    unfolding floor_3_def by (rule production_step.status [OF ok(3)])
  moreover have "production_step floor_3 floor_4"
    unfolding floor_4_def by (rule production_step.status [OF ok(4)])
  ultimately show "production_step\<^sup>*\<^sup>* shop_floor floor_3" and "production_step\<^sup>*\<^sup>* shop_floor floor_4"
    by auto
qed

lemma shop_floor_start: "productionOrders shop_floor = []" "whole_levels (materials shop_floor)"
  by (simp_all add: shop_floor_def whole_levels_def sample_level_def)


theorem production_start_decides_witness:
  "\<exists>r' s'. sample_job_to OrdInProgress floor_3 = (Inr r', s') \<and> pd_status r' = OrdInProgress \<and>
     on_hand (''T'', ''P'', ''W'') (materials s') = 4"
proof -
  have found: "find_scoped ''T'' ''O'' (productionOrders floor_3) = Some (sample_job_row OrdConfirmed None)"
    by (simp add: floor_states find_scoped_def sample_job_row_def new_production_order_def)
  have status: "pd_status (sample_job_row OrdConfirmed None) = OrdConfirmed" by (simp add: sample_job_row_def)
  have bom: "bom_total ''T'' (default_warehouse ''T'' (warehouses (materials floor_3))) (''T'', ''P'', ''W'')
      (bom_requirements (sample_job_row OrdConfirmed None)) = 6"
    by (simp add: floor_states shop_floor_def default_warehouse_def first_active_warehouse_def sample_job_row_def
        sample_job_def production_eval bom_key_def)
  have "on_hand (''T'', ''P'', ''W'') (materials floor_3) = 10"
    by (simp add: floor_states shop_floor_def on_hand_def find_level_def level_key_def sample_level_def)
  then show ?thesis
    using production_start_decides [OF floor_reachable(1) shop_floor_start found status, of 0 "sample_ids CHR ''m''"]
      runs_okD [OF floor_runs(4)] bom
    by (auto simp del: split_paired_All)
qed

end
