(* ===== verification/Intrastat.thy ===== *)
theory Intrastat
  imports Accounting ProcurementDb JsXml
begin

text \<open>
  Monthly declarations of trade inside the European Union,
  \<^verbatim>\<open>backend/src/intrastat/intrastat.service.ts\<close> with the entities of
  \<^verbatim>\<open>intrastat-declaration.entity.ts\<close>; the status machine is in theory \<open>Fsm\<close>. The state
  holds the two tables of the module and the three tables it reads. Queries without an
  \<^verbatim>\<open>ORDER BY\<close> return their rows in the order of the table.
\<close>

section \<open>Entities\<close>

datatype intrastat_type = Cessioni | Acquisti

datatype intrastat_periodicity = Monthly | Quarterly

datatype source_doc_type = FromInvoice | FromSupplierInvoice

record intrastat_declaration = entity +
  id_type :: intrastat_type
  id_periodicity :: intrastat_periodicity
  id_periodYear :: nat
  id_periodMonth :: "nat option"
  id_periodQuarter :: "nat option"
  id_status :: intrastat_status
  id_totalValueCents :: jsnum
  id_lineCount :: nat
  id_admProtocollo :: "string option"
  id_generatedAt :: "int option"
  id_submittedAt :: "int option"
  id_acceptedAt :: "int option"
  id_rejectedAt :: "int option"
  id_rejectionReason :: "string option"
  id_generatedBy :: "uuid option"
  id_submittedBy :: "uuid option"

record intrastat_candidate =
  ln_position :: nat
  ln_partnerCountry :: string
  ln_partnerVatNumber :: "string option"
  ln_nc8Code :: "string option"
  ln_netMassKg :: "string option"
  ln_supplementaryUnits :: "string option"
  ln_valueCents :: jsnum
  ln_statisticalValueCents :: "jsnum option"
  ln_currency :: string
  ln_naturaTransazione :: "string option"
  ln_modalitaTrasporto :: "string option"
  ln_regimeStatistico :: "string option"
  ln_paeseDestinazioneProvenienza :: "string option"
  ln_paeseOrigine :: "string option"
  ln_sourceDocType :: source_doc_type
  ln_sourceDocId :: uuid

record intrastat_line = entity +
  il_declarationId :: uuid
  il_data :: intrastat_candidate

record intrastat_db =
  declarations :: "intrastat_declaration list"
  intrastatLines :: "intrastat_line list"
  issuedInvoices :: "invoice list"
  tradeCustomers :: "customer list"
  receivedInvoices :: "supplier_invoice list"

definition EU_MEMBER_STATES_EXCL_IT :: "string list" where
  "EU_MEMBER_STATES_EXCL_IT =
     [''AT'', ''BE'', ''BG'', ''HR'', ''CY'', ''CZ'', ''DK'', ''EE'', ''FI'', ''FR'', ''DE'', ''GR'', ''HU'',
      ''IE'', ''LV'', ''LT'', ''LU'', ''MT'', ''NL'', ''PL'', ''PT'', ''RO'', ''SK'', ''SI'', ''ES'', ''SE'']"

definition is_intra_eu_partner :: "string option \<Rightarrow> bool" where
  "is_intra_eu_partner country \<longleftrightarrow>
     truthy country \<and> map to_upper (the country) \<in> set EU_MEMBER_STATES_EXCL_IT"

section \<open>Declarations\<close>

definition create_or_find_draft ::
  "uuid \<Rightarrow> uuid \<Rightarrow> intrastat_type \<Rightarrow> nat \<Rightarrow> nat \<Rightarrow> (intrastat_db, intrastat_declaration) svc" where
  "create_or_find_draft newId t ty year month =
     seq (throw_if (month < 1 \<or> month > 12) BadRequest)
    (bind (gets (\<lambda>s. find (\<lambda>d. tenantId d = t \<and> id_type d = ty \<and> id_periodYear d = year \<and>
        id_periodMonth d = Some month) (declarations s))) (\<lambda>existing.
     case existing of Some d \<Rightarrow> ret d
     | None \<Rightarrow>
       let d = \<lparr>ent_id = newId, tenantId = t, id_type = ty, id_periodicity = Monthly, id_periodYear = year,
                id_periodMonth = Some month, id_periodQuarter = None, id_status = IntraDraft,
                id_totalValueCents = 0, id_lineCount = 0, id_admProtocollo = None, id_generatedAt = None,
                id_submittedAt = None, id_acceptedAt = None, id_rejectedAt = None, id_rejectionReason = None,
                id_generatedBy = None, id_submittedBy = None\<rparr>
       in seq (modify (declarations_update (save_row d))) (ret d)))"

definition lines_of_declaration :: "uuid \<Rightarrow> uuid \<Rightarrow> intrastat_db \<Rightarrow> intrastat_line list" where
  "lines_of_declaration t i s =
     sort_key (\<lambda>l. ln_position (il_data l)) (filter (\<lambda>l. tenantId l = t \<and> il_declarationId l = i) (intrastatLines s))"

definition get_declaration ::
  "uuid \<Rightarrow> uuid \<Rightarrow> (intrastat_db, intrastat_declaration \<times> intrastat_line list) svc" where
  "get_declaration t i =
     bind (gets (\<lambda>s. find_scoped t i (declarations s))) (\<lambda>found.
     bind (require found NotFound) (\<lambda>d.
     bind (gets (lines_of_declaration t i)) (\<lambda>ls. ret (d, ls))))"

record declaration_filter =
  df_type :: "intrastat_type option"
  df_year :: "nat option"
  df_month :: "nat option"
  df_status :: "intrastat_status option"

fun intrastat_type_rank :: "intrastat_type \<Rightarrow> nat" where
  "intrastat_type_rank Cessioni = 0"
| "intrastat_type_rank Acquisti = 1"

text \<open>Newest period first; a null month sorts before every month in descending order.\<close>

definition list_declarations :: "uuid \<Rightarrow> declaration_filter \<Rightarrow> (intrastat_db, intrastat_declaration list) svc" where
  "list_declarations t f =
     gets (\<lambda>s. sort_key (\<lambda>d. - int (id_periodYear d)) (sort_key (\<lambda>d. - int (nullish (id_periodMonth d) 13))
       (sort_key (\<lambda>d. intrastat_type_rank (id_type d)) (filter
         (\<lambda>d. tenantId d = t \<and> (df_type f = None \<or> df_type f = Some (id_type d)) \<and>
            (df_year f = None \<or> df_year f = Some (id_periodYear d)) \<and>
            (df_month f = None \<or> df_month f = id_periodMonth d) \<and>
            (df_status f = None \<or> df_status f = Some (id_status d))) (declarations s)))))"

section \<open>Aggregation\<close>

text \<open>\<^verbatim>\<open>new Date(Date.UTC(year, month - 1, 1))\<close>: a month outside the year carries over.\<close>

definition start_of_month :: "int \<Rightarrow> int \<Rightarrow> int" where
  "start_of_month year month =
     days_from_civil (year + (month - 1) div 12) ((month - 1) mod 12 + 1) 1 * MS_PER_DAY"

definition upper_country :: "string option \<Rightarrow> string" where
  "upper_country c = map to_upper (nullish c '''')"

definition cessione_line :: "customer \<Rightarrow> invoice \<Rightarrow> nat \<Rightarrow> intrastat_candidate" where
  "cessione_line c i position =
     (let country = upper_country (Some (cu_country c));
          valueCents = of_int (math_round (js_mul (fl (inv_totalAmount i)) 100))
      in \<lparr>ln_position = position, ln_partnerCountry = country,
          ln_partnerVatNumber = (if truthy (cu_vatNumber c) then Some (country @ the (cu_vatNumber c)) else None),
          ln_nc8Code = None, ln_netMassKg = None, ln_supplementaryUnits = None, ln_valueCents = valueCents,
          ln_statisticalValueCents = Some valueCents, ln_currency = ''EUR'', ln_naturaTransazione = Some ''11'',
          ln_modalitaTrasporto = None, ln_regimeStatistico = None,
          ln_paeseDestinazioneProvenienza = Some country, ln_paeseOrigine = None,
          ln_sourceDocType = FromInvoice, ln_sourceDocId = ent_id i\<rparr>)"

definition acquisto_line :: "supplier_invoice \<Rightarrow> nat \<Rightarrow> intrastat_candidate" where
  "acquisto_line i position =
     (let country = upper_country (si_partnerCountry i); valueCents = si_totalCents i
      in \<lparr>ln_position = position, ln_partnerCountry = country, ln_partnerVatNumber = si_partnerVatNumber i,
          ln_nc8Code = None, ln_netMassKg = None, ln_supplementaryUnits = None, ln_valueCents = valueCents,
          ln_statisticalValueCents = Some valueCents, ln_currency = ''EUR'', ln_naturaTransazione = Some ''11'',
          ln_modalitaTrasporto = None, ln_regimeStatistico = None,
          ln_paeseDestinazioneProvenienza = Some country, ln_paeseOrigine = Some country,
          ln_sourceDocType = FromSupplierInvoice, ln_sourceDocId = ent_id i\<rparr>)"

text \<open>Positions count the lines that are pushed.\<close>

fun cessioni_loop :: "customer list \<Rightarrow> invoice list \<Rightarrow> nat \<Rightarrow> intrastat_candidate list" where
  "cessioni_loop cs [] position = []"
| "cessioni_loop cs (i # is) position =
     (case find_id (inv_customerId i) cs of
        None \<Rightarrow> cessioni_loop cs is position
      | Some c \<Rightarrow>
          if \<not> is_intra_eu_partner (Some (cu_country c)) then cessioni_loop cs is position
          else cessione_line c i position # cessioni_loop cs is (position + 1))"

definition invoices_between :: "uuid \<Rightarrow> int \<Rightarrow> int \<Rightarrow> intrastat_db \<Rightarrow> invoice list" where
  "invoices_between t a b s =
     filter (\<lambda>i. tenantId i = t \<and> a \<le> midnight_utc (inv_invoiceDate i) \<and> midnight_utc (inv_invoiceDate i) < b)
       (issuedInvoices s)"

definition aggregate_cessioni :: "uuid \<Rightarrow> int \<Rightarrow> int \<Rightarrow> intrastat_db \<Rightarrow> intrastat_candidate list" where
  "aggregate_cessioni t a b s =
     (let is = invoices_between t a b s; ids = map inv_customerId is
      in cessioni_loop (filter (\<lambda>c. tenantId c = t \<and> ent_id c \<in> set ids) (tradeCustomers s)) is 1)"

fun acquisti_loop :: "supplier_invoice list \<Rightarrow> nat \<Rightarrow> intrastat_candidate list" where
  "acquisti_loop [] position = []"
| "acquisti_loop (i # is) position =
     (if \<not> is_intra_eu_partner (si_partnerCountry i) then acquisti_loop is position
      else acquisto_line i position # acquisti_loop is (position + 1))"

definition aggregate_acquisti :: "uuid \<Rightarrow> int \<Rightarrow> int \<Rightarrow> intrastat_db \<Rightarrow> intrastat_candidate list" where
  "aggregate_acquisti t a b s =
     acquisti_loop (filter (\<lambda>i. tenantId i = t \<and> si_partnerCountry i \<noteq> None \<and> a \<le> si_date i \<and> si_date i < b)
       (receivedInvoices s)) 1"

definition aggregate_lines ::
  "uuid \<Rightarrow> intrastat_type \<Rightarrow> nat \<Rightarrow> nat \<Rightarrow> intrastat_db \<Rightarrow> intrastat_candidate list" where
  "aggregate_lines t ty year month s =
     (let a = start_of_month (int year) (int month); b = start_of_month (int year) (int month + 1)
      in case ty of Cessioni \<Rightarrow> aggregate_cessioni t a b s | Acquisti \<Rightarrow> aggregate_acquisti t a b s)"

section \<open>Lifecycle\<close>

definition intrastat_row :: "uuid \<Rightarrow> uuid \<Rightarrow> uuid \<Rightarrow> intrastat_candidate \<Rightarrow> intrastat_line" where
  "intrastat_row t declarationId newId c =
     \<lparr>ent_id = newId, tenantId = t, il_declarationId = declarationId, il_data = c\<rparr>"

text \<open>
  The lines are aggregated afresh and replace whatever lines the declaration had.
\<close>

definition generate ::
  "int \<Rightarrow> (nat \<Rightarrow> uuid) \<Rightarrow> uuid \<Rightarrow> uuid \<Rightarrow> uuid option \<Rightarrow> (intrastat_db, intrastat_declaration) svc" where
  "generate now ids t i actor = transaction
     (bind (gets (\<lambda>s. find_scoped t i (declarations s))) (\<lambda>found.
      bind (require found NotFound) (\<lambda>d.
      seq (throw_if (\<not> can_intrastat (id_status d) IntraGenerated) Unprocessable)
     (bind (lift (assert_intrastat (id_status d) IntraGenerated)) (\<lambda>_.
      bind (gets (aggregate_lines t (id_type d) (id_periodYear d) (nullish (id_periodMonth d) 0))) (\<lambda>fresh_lines.
      seq (modify (intrastatLines_update (filter (\<lambda>l. \<not> (tenantId l = t \<and> il_declarationId l = i)))))
     (let persisted = create_lines (intrastat_row t i) ids fresh_lines;
          saved = d\<lparr>id_status := IntraGenerated, id_generatedAt := Some now, id_generatedBy := actor,
            id_totalValueCents := js_sum (\<lambda>l. ln_valueCents (il_data l)) persisted,
            id_lineCount := length persisted\<rparr>
      in seq (modify (intrastatLines_update (save_rows persisted)))
        (seq (modify (declarations_update (save_row saved))) (ret saved)))))))))"

definition transition_intrastat ::
  "uuid \<Rightarrow> uuid \<Rightarrow> intrastat_status \<Rightarrow> (intrastat_declaration \<Rightarrow> http_error + intrastat_declaration) \<Rightarrow>
   (intrastat_db, intrastat_declaration) svc" where
  "transition_intrastat t i next app =
     bind (gets (\<lambda>s. find_scoped t i (declarations s))) (\<lambda>found.
     bind (require found NotFound) (\<lambda>d.
     seq (throw_if (\<not> can_intrastat (id_status d) next) Unprocessable)
    (bind (lift (app (d\<lparr>id_status := next\<rparr>))) (\<lambda>saved.
     seq (modify (declarations_update (save_row saved))) (ret saved)))))"

definition submit_declaration ::
  "int \<Rightarrow> uuid \<Rightarrow> uuid \<Rightarrow> string \<Rightarrow> uuid option \<Rightarrow> (intrastat_db, intrastat_declaration) svc" where
  "submit_declaration now t i admProtocollo actor =
     transition_intrastat t i IntraSubmitted (\<lambda>d.
       if admProtocollo = '''' then Inl BadRequest
       else Inr (d\<lparr>id_admProtocollo := Some admProtocollo, id_submittedAt := Some now, id_submittedBy := actor\<rparr>))"

definition accept_declaration :: "int \<Rightarrow> uuid \<Rightarrow> uuid \<Rightarrow> (intrastat_db, intrastat_declaration) svc" where
  "accept_declaration now t i =
     transition_intrastat t i IntraAccepted (\<lambda>d. Inr (d\<lparr>id_acceptedAt := Some now\<rparr>))"

definition reject_declaration :: "int \<Rightarrow> uuid \<Rightarrow> uuid \<Rightarrow> string \<Rightarrow> (intrastat_db, intrastat_declaration) svc" where
  "reject_declaration now t i reason =
     transition_intrastat t i IntraRejected (\<lambda>d.
       Inr (d\<lparr>id_rejectedAt := Some now, id_rejectionReason := Some reason\<rparr>))"

text \<open>Reopening resets the figures of the declaration and leaves its line rows in place.\<close>

definition reopen_declaration :: "uuid \<Rightarrow> uuid \<Rightarrow> (intrastat_db, intrastat_declaration) svc" where
  "reopen_declaration t i =
     transition_intrastat t i IntraDraft (\<lambda>d.
       Inr (d\<lparr>id_generatedAt := None, id_totalValueCents := 0, id_lineCount := 0\<rparr>))"

section \<open>Export\<close>

text \<open>\<^verbatim>\<open>String(n)\<close> of a whole number and \<^verbatim>\<open>xs.join(sep)\<close>\<close>

definition int_text :: "int \<Rightarrow> string" where
  "int_text n = (if n < 0 then ''-'' else []) @ dec (nat \<bar>n\<bar>)"

fun join_with :: "string \<Rightarrow> string list \<Rightarrow> string" where
  "join_with sep [] = []"
| "join_with sep [x] = x"
| "join_with sep (x # xs) = x @ sep @ join_with sep xs"

definition cents_to_euro_integer_string :: "jsnum \<Rightarrow> string" where
  "cents_to_euro_integer_string cents = int_text (math_round (js_div cents 100))"

definition CSV_HEADER_INTRA_1BIS :: "string list" where
  "CSV_HEADER_INTRA_1BIS =
     [''Codice ISO Stato membro acquirente'', ''Codice IVA acquirente'', ''Ammontare delle operazioni in euro'',
      ''Codice nomenclatura combinata NC8'', ''Massa netta in kg'', ''Unita supplementare'',
      ''Valore statistico in euro'', ''Natura della transazione'', ''Modalita di trasporto'',
      ''Paese di destinazione'', ''Regime statistico'']"

definition CSV_HEADER_INTRA_2BIS :: "string list" where
  "CSV_HEADER_INTRA_2BIS =
     [''Codice ISO Stato membro cedente'', ''Codice IVA cedente'', ''Ammontare delle operazioni in euro'',
      ''Codice nomenclatura combinata NC8'', ''Massa netta in kg'', ''Unita supplementare'',
      ''Valore statistico in euro'', ''Natura della transazione'', ''Modalita di trasporto'',
      ''Paese di provenienza'', ''Paese di origine delle merci'', ''Regime statistico'']"

definition statistical_value :: "intrastat_candidate \<Rightarrow> jsnum" where
  "statistical_value c = nullish (ln_statisticalValueCents c) (ln_valueCents c)"

definition csv_row_intra_1bis :: "intrastat_candidate \<Rightarrow> string list" where
  "csv_row_intra_1bis c =
     [ln_partnerCountry c, nullish (ln_partnerVatNumber c) '''', cents_to_euro_integer_string (ln_valueCents c),
      nullish (ln_nc8Code c) '''', nullish (ln_netMassKg c) '''', nullish (ln_supplementaryUnits c) '''',
      cents_to_euro_integer_string (statistical_value c), nullish (ln_naturaTransazione c) '''',
      nullish (ln_modalitaTrasporto c) '''', nullish (ln_paeseDestinazioneProvenienza c) '''',
      nullish (ln_regimeStatistico c) '''']"

definition csv_row_intra_2bis :: "intrastat_candidate \<Rightarrow> string list" where
  "csv_row_intra_2bis c =
     [ln_partnerCountry c, nullish (ln_partnerVatNumber c) '''', cents_to_euro_integer_string (ln_valueCents c),
      nullish (ln_nc8Code c) '''', nullish (ln_netMassKg c) '''', nullish (ln_supplementaryUnits c) '''',
      cents_to_euro_integer_string (statistical_value c), nullish (ln_naturaTransazione c) '''',
      nullish (ln_modalitaTrasporto c) '''', nullish (ln_paeseDestinazioneProvenienza c) '''',
      nullish (ln_paeseOrigine c) '''', nullish (ln_regimeStatistico c) '''']"

definition format_filename :: "intrastat_type \<Rightarrow> nat \<Rightarrow> nat option \<Rightarrow> string \<Rightarrow> string" where
  "format_filename ty year month ext =
     (case ty of Cessioni \<Rightarrow> ''INTRA-1bis'' | Acquisti \<Rightarrow> ''INTRA-2bis'') @ ''_'' @
     (case month of None \<Rightarrow> dec year
      | Some m \<Rightarrow> if m = 0 then dec year else dec year @ ''-'' @ pad_start 2 CHR ''0'' (dec m)) @ ''.'' @ ext"

definition crlf :: string where "crlf = [CHR 0x0D, CHR 0x0A]"

definition csv_body :: "string list list \<Rightarrow> string" where
  "csv_body rows = join_with crlf (map (join_with '';'') rows) @ crlf"

definition csv_rows :: "intrastat_type \<Rightarrow> intrastat_line list \<Rightarrow> string list list" where
  "csv_rows ty ls =
     (case ty of Cessioni \<Rightarrow> CSV_HEADER_INTRA_1BIS # map (\<lambda>l. csv_row_intra_1bis (il_data l)) ls
      | Acquisti \<Rightarrow> CSV_HEADER_INTRA_2BIS # map (\<lambda>l. csv_row_intra_2bis (il_data l)) ls)"

text \<open>A file is its name and its body.\<close>

definition export_csv :: "uuid \<Rightarrow> uuid \<Rightarrow> (intrastat_db, string \<times> string) svc" where
  "export_csv t i =
     bind (get_declaration t i) (\<lambda>(d, ls).
     ret (format_filename (id_type d) (id_periodYear d) (id_periodMonth d) ''csv'', csv_body (csv_rows (id_type d) ls)))"

definition intrastat_type_text :: "intrastat_type \<Rightarrow> string" where
  "intrastat_type_text ty = (case ty of Cessioni \<Rightarrow> ''cessioni'' | Acquisti \<Rightarrow> ''acquisti'')"

definition riga_lines :: "nat \<times> intrastat_line \<Rightarrow> xml_line list" where
  "riga_lines = (\<lambda>(k, l). let c = il_data l in
     [XOpen 4 (''Riga numero='' @ quoted (dec (k + 1))),
      XText 6 ''PaesePartner'' (esc_xml (ln_partnerCountry c)),
      XText 6 ''CodiceIvaPartner'' (esc_xml (nullish (ln_partnerVatNumber c) '''')),
      XText 6 ''AmmontareEuro'' (cents_to_euro_integer_string (ln_valueCents c)),
      XText 6 ''NC8'' (esc_xml (nullish (ln_nc8Code c) '''')),
      XText 6 ''MassaNettaKg'' (esc_xml (nullish (ln_netMassKg c) '''')),
      XText 6 ''UnitaSupplementare'' (esc_xml (nullish (ln_supplementaryUnits c) '''')),
      XText 6 ''ValoreStatisticoEuro'' (cents_to_euro_integer_string (statistical_value c)),
      XText 6 ''NaturaTransazione'' (esc_xml (nullish (ln_naturaTransazione c) '''')),
      XText 6 ''ModalitaTrasporto'' (esc_xml (nullish (ln_modalitaTrasporto c) '''')),
      XText 6 ''PaeseDestinazioneOProvenienza'' (esc_xml (nullish (ln_paeseDestinazioneProvenienza c) '''')),
      XText 6 ''PaeseOrigine'' (esc_xml (nullish (ln_paeseOrigine c) '''')),
      XText 6 ''RegimeStatistico'' (esc_xml (nullish (ln_regimeStatistico c) '''')),
      XClose 4 ''Riga''])"

definition declaration_period :: "intrastat_declaration \<Rightarrow> string" where
  "declaration_period d =
     (case id_periodMonth d of
        Some m \<Rightarrow> if m = 0 then dec (id_periodYear d) @ ''-Q'' @ dec (nullish (id_periodQuarter d) 0)
                  else dec (id_periodYear d) @ ''-'' @ pad_start 2 CHR ''0'' (dec m)
      | None \<Rightarrow> dec (id_periodYear d) @ ''-Q'' @ dec (nullish (id_periodQuarter d) 0))"

definition render_intrastat_xml :: "intrastat_declaration \<Rightarrow> intrastat_line list \<Rightarrow> string" where
  "render_intrastat_xml d ls =
     join_nl
       [render xml_declaration,
        render (XOpen 0 (''IntrastatDeclaration tipo='' @ quoted (intrastat_type_text (id_type d)) @
          '' periodo='' @ quoted (declaration_period d) @
          '' totaleEuro='' @ quoted (cents_to_euro_integer_string (id_totalValueCents d)) @
          '' righe='' @ quoted (dec (id_lineCount d)))),
        render (XOpen 2 ''Righe''),
        join_nl (map (\<lambda>kl. join_nl (map render (riga_lines kl))) (enumerate 0 ls)),
        render (XClose 2 ''Righe''),
        render (XClose 0 ''IntrastatDeclaration''),
        []]"

definition export_xml :: "uuid \<Rightarrow> uuid \<Rightarrow> (intrastat_db, string \<times> string) svc" where
  "export_xml t i =
     bind (get_declaration t i) (\<lambda>(d, ls).
     ret (format_filename (id_type d) (id_periodYear d) (id_periodMonth d) ''xml'', render_intrastat_xml d ls))"

end
