(* ===== verification/IntrastatProps.thy ===== *)
theory IntrastatProps
  imports Intrastat AccountingProps
begin

text \<open>
  Correctness of the trade declarations: the twelve months of a year declare every document
  of that year exactly once, the figures of a generated declaration are those of its lines,
  and nothing changes a declaration or its lines once it was submitted.
\<close>

section \<open>What a period declares\<close>

text \<open>The documents a tenant has to declare, with their dates, whatever the period.\<close>

definition traded_invoice :: "uuid \<Rightarrow> intrastat_db \<Rightarrow> invoice \<Rightarrow> bool" where
  "traded_invoice t s i \<longleftrightarrow> tenantId i = t \<and>
     (case find_scoped t (inv_customerId i) (tradeCustomers s) of None \<Rightarrow> False
      | Some c \<Rightarrow> is_intra_eu_partner (Some (cu_country c)))"

definition traded_receipt :: "uuid \<Rightarrow> supplier_invoice \<Rightarrow> bool" where
  "traded_receipt t i \<longleftrightarrow> tenantId i = t \<and> is_intra_eu_partner (si_partnerCountry i)"

definition declarable :: "uuid \<Rightarrow> intrastat_type \<Rightarrow> intrastat_db \<Rightarrow> (uuid \<times> int) list" where
  "declarable t ty s =
     (case ty of
        Cessioni \<Rightarrow> map (\<lambda>i. (ent_id i, midnight_utc (inv_invoiceDate i)))
          (filter (traded_invoice t s) (issuedInvoices s))
      | Acquisti \<Rightarrow> map (\<lambda>i. (ent_id i, si_date i)) (filter (traded_receipt t) (receivedInvoices s)))"

lemma cessioni_loop_ids:
  "map ln_sourceDocId (cessioni_loop cs is n) = map ent_id (filter (\<lambda>i.
     case find_id (inv_customerId i) cs of None \<Rightarrow> False | Some c \<Rightarrow> is_intra_eu_partner (Some (cu_country c))) is)"
  by (induction "is" arbitrary: n) (auto simp: cessione_line_def Let_def split: option.split)

lemma cessioni_loop_positions:
  "map ln_position (cessioni_loop cs is n) = [n..<n + length (cessioni_loop cs is n)]"
  by (induction "is" arbitrary: n) (auto simp: cessione_line_def Let_def upt_conv_Cons simp del: upt_Suc split: option.split)

lemma acquisti_loop_ids:
  "map ln_sourceDocId (acquisti_loop is n) = map ent_id (filter (\<lambda>i. is_intra_eu_partner (si_partnerCountry i)) is)"
  by (induction "is" arbitrary: n) (auto simp: acquisto_line_def Let_def)

lemma acquisti_loop_positions:
  "map ln_position (acquisti_loop is n) = [n..<n + length (acquisti_loop is n)]"
  by (induction "is" arbitrary: n) (auto simp: acquisto_line_def Let_def upt_conv_Cons simp del: upt_Suc)

lemma aggregate_positions:
  "map ln_position (aggregate_lines t ty y m s) = [1..<length (aggregate_lines t ty y m s) + 1]"
  by (cases ty) (simp_all add: aggregate_lines_def aggregate_cessioni_def aggregate_acquisti_def Let_def
      cessioni_loop_positions acquisti_loop_positions)

lemma find_of_named:
  "i \<in> A \<Longrightarrow> find_id i (filter (\<lambda>c. tenantId c = t \<and> ent_id c \<in> A) cs) = find_scoped t i cs"
  unfolding find_id_def find_scoped_def by (induction cs) auto

lemma aggregate_ids:
  "map ln_sourceDocId (aggregate_lines t ty y m s) =
     map fst (filter (\<lambda>(i, d). start_of_month (int y) (int m) \<le> d \<and> d < start_of_month (int y) (int m + 1))
       (declarable t ty s))"
proof (cases ty)
  case Cessioni
  define a b where ab: "a = start_of_month (int y) (int m)" "b = start_of_month (int y) (int m + 1)"
  have "filter (\<lambda>i. case find_id (inv_customerId i) (filter (\<lambda>c. tenantId c = t \<and>
        ent_id c \<in> inv_customerId ` set (invoices_between t a b s)) (tradeCustomers s)) of None \<Rightarrow> False
      | Some c \<Rightarrow> is_intra_eu_partner (Some (cu_country c))) (invoices_between t a b s) =
    filter (traded_invoice t s) (invoices_between t a b s)"
    by (rule filter_cong [OF refl])
      (simp only: find_of_named imageI, simp add: traded_invoice_def invoices_between_def)
  moreover have "filter (traded_invoice t s) (invoices_between t a b s) =
      filter (\<lambda>i. a \<le> midnight_utc (inv_invoiceDate i) \<and> midnight_utc (inv_invoiceDate i) < b)
        (filter (traded_invoice t s) (issuedInvoices s))"
    unfolding invoices_between_def filter_filter by (rule filter_cong) (auto simp: traded_invoice_def)
  ultimately show ?thesis
    using Cessioni unfolding aggregate_lines_def aggregate_cessioni_def Let_def ab [symmetric]
    by (simp add: cessioni_loop_ids declarable_def filter_map comp_def)
next
  case Acquisti
  then show ?thesis
    unfolding aggregate_lines_def aggregate_acquisti_def Let_def
    by (simp add: acquisti_loop_ids declarable_def filter_map comp_def)
      (rule arg_cong [where f = "map _"], rule filter_cong,
        auto simp: traded_receipt_def is_intra_eu_partner_def truthy_def split: option.splits)
qed

text \<open>The months of a year follow one another, and the thirteenth is the first of the next year.\<close>

lemma start_of_month_grows:
  assumes "1 \<le> m" and "m \<le> 12"
  shows "start_of_month y m \<le> start_of_month y (m + 1)"
proof -
  have "m = 1 \<or> m = 2 \<or> m = 3 \<or> m = 4 \<or> m = 5 \<or> m = 6 \<or> m = 7 \<or> m = 8 \<or> m = 9 \<or> m = 10 \<or> m = 11 \<or> m = 12"
    using assms by presburger
  then have "days_from_civil (y + (m - 1) div 12) ((m - 1) mod 12 + 1) 1
      \<le> days_from_civil (y + (m + 1 - 1) div 12) ((m + 1 - 1) mod 12 + 1) 1"
    using year_days_step [of y] by (elim disjE) (simp_all add: civil_year)
  then show ?thesis by (simp add: start_of_month_def MS_PER_DAY_def)
qed

lemma start_of_thirteenth: "start_of_month y 13 = start_of_month (y + 1) 1"
  by (simp add: start_of_month_def)

lemma intervals_partition:
  fixes f :: "nat \<Rightarrow> int"
  assumes "\<And>k. a \<le> k \<Longrightarrow> k < b \<Longrightarrow> f k \<le> f (Suc k)" and "a \<le> b"
  shows "f a \<le> f b \<and> mset (concat (map (\<lambda>k. map fst (filter (\<lambda>(i, d). f k \<le> d \<and> d < f (Suc k)) xs)) [a..<b]))
    = mset (map fst (filter (\<lambda>(i, d). f a \<le> d \<and> d < f b) xs))"
  using assms(2,1)
proof (induction b rule: dec_induct)
  case (step b)
  have IH: "f a \<le> f b" "mset (concat (map (\<lambda>k. map fst (filter (\<lambda>(i, d). f k \<le> d \<and> d < f (Suc k)) xs)) [a..<b]))
    = mset (map fst (filter (\<lambda>(i, d). f a \<le> d \<and> d < f b) xs))" using step by auto
  have le: "f b \<le> f (Suc b)" using step by simp
  have "mset (concat (map (\<lambda>x. [fst x]) (filter (\<lambda>(i, d). f a \<le> d \<and> d < f (Suc b)) xs))) =
      mset (concat (map (\<lambda>x. [fst x]) (filter (\<lambda>(i, d). f a \<le> d \<and> d < f b) xs))) +
      mset (concat (map (\<lambda>x. [fst x]) (filter (\<lambda>(i, d). f b \<le> d \<and> d < f (Suc b)) xs)))"
    by (rule mset_filter_split) (use IH(1) le in auto)
  then have "mset (map fst (filter (\<lambda>(i, d). f a \<le> d \<and> d < f (Suc b)) xs)) =
      mset (map fst (filter (\<lambda>(i, d). f a \<le> d \<and> d < f b) xs)) +
      mset (map fst (filter (\<lambda>(i, d). f b \<le> d \<and> d < f (Suc b)) xs))"
    unfolding concat_map_singleton .
  moreover have "[a..<Suc b] = [a..<b] @ [b]" using step.hyps by simp
  ultimately show ?case using IH le
    by (simp only: map_append concat_append mset_append list.map concat.simps append_Nil2) simp
qed simp


section \<open>Runs of declaration requests\<close>

text \<open>
  One step per successful request; between the requests, documents and customers may change
  in any way.
\<close>

inductive intrastat_step :: "intrastat_db \<Rightarrow> intrastat_db \<Rightarrow> bool" where
  draft: "create_or_find_draft n t ty y m s = (Inr d, s') \<Longrightarrow> fresh n (declarations s) \<Longrightarrow> intrastat_step s s'"
| generate: "generate now ids t i actor s = (Inr d, s') \<Longrightarrow> fresh_ids ids (intrastatLines s) \<Longrightarrow> intrastat_step s s'"
| submit: "submit_declaration now t i protocollo actor s = (Inr d, s') \<Longrightarrow> intrastat_step s s'"
| accept: "accept_declaration now t i s = (Inr d, s') \<Longrightarrow> intrastat_step s s'"
| reject: "reject_declaration now t i reason s = (Inr d, s') \<Longrightarrow> intrastat_step s s'"
| reopen: "reopen_declaration t i s = (Inr d, s') \<Longrightarrow> intrastat_step s s'"
| documents: "intrastat_step s (s\<lparr>issuedInvoices := is, tradeCustomers := cs, receivedInvoices := rs\<rparr>)"

definition lines_at :: "intrastat_declaration \<Rightarrow> intrastat_db \<Rightarrow> intrastat_line list" where
  "lines_at d s = filter (\<lambda>l. tenantId l = tenantId d \<and> il_declarationId l = ent_id d) (intrastatLines s)"

text \<open>A draft states nothing; any other declaration states the number and the sum of its lines.\<close>

definition figures_ok :: "intrastat_db \<Rightarrow> intrastat_declaration \<Rightarrow> bool" where
  "figures_ok s d \<longleftrightarrow>
     (if id_status d = IntraDraft then id_totalValueCents d = 0 \<and> id_lineCount d = 0
      else map (\<lambda>l. ln_position (il_data l)) (lines_at d s) = [1..<id_lineCount d + 1] \<and>
        id_totalValueCents d = js_sum (\<lambda>l. ln_valueCents (il_data l)) (lines_at d s))"

definition period_key :: "intrastat_declaration \<Rightarrow> uuid \<times> intrastat_type \<times> nat \<times> nat option" where
  "period_key d = (tenantId d, id_type d, id_periodYear d, id_periodMonth d)"

definition intrastat_inv :: "intrastat_db \<Rightarrow> bool" where
  "intrastat_inv s \<longleftrightarrow> keyed (declarations s) \<and> (\<forall>d\<in>set (declarations s). figures_ok s d) \<and>
     inj_on period_key (set (declarations s))"

text \<open>Which declaration a successful request wrote, and what it left alone.\<close>

definition same_file :: "intrastat_declaration \<Rightarrow> intrastat_declaration \<Rightarrow> bool" where
  "same_file d d' \<longleftrightarrow> ent_id d' = ent_id d \<and> period_key d' = period_key d \<and> id_periodQuarter d' = id_periodQuarter d \<and>
     id_totalValueCents d' = id_totalValueCents d \<and> id_lineCount d' = id_lineCount d"

lemma transition_intrastat_Inr:
  "transition_intrastat t i next app s = (Inr d', s') \<Longrightarrow>
     \<exists>d. find_scoped t i (declarations s) = Some d \<and> can_intrastat (id_status d) next \<and>
       app (d\<lparr>id_status := next\<rparr>) = Inr d' \<and> s' = declarations_update (save_row d') s"
  by (auto simp: transition_intrastat_def svc_simps)

lemma forward_transition:
  assumes "transition_intrastat t i next app s = (Inr d', s')" and nxt: "next \<notin> {IntraDraft, IntraGenerated}"
    and app: "\<And>d e. app d = Inr e \<Longrightarrow> same_file d e \<and> id_status e = id_status d"
  shows "\<exists>d. find_scoped t i (declarations s) = Some d \<and> id_status d \<noteq> IntraDraft \<and>
    id_status d' \<notin> {IntraDraft, IntraGenerated} \<and> same_file d d' \<and> s' = declarations_update (save_row d') s"
proof -
  obtain d where d: "find_scoped t i (declarations s) = Some d" "can_intrastat (id_status d) next"
      "app (d\<lparr>id_status := next\<rparr>) = Inr d'" "s' = declarations_update (save_row d') s"
    using transition_intrastat_Inr [OF assms(1)] by blast
  have "id_status d \<noteq> IntraDraft" using d(2) nxt by (cases "id_status d") (auto simp: can_intrastat_def)
  then show ?thesis using app [OF d(3)] d nxt by (auto simp: same_file_def period_key_def)
qed

lemma forward_Inr:
  assumes "submit_declaration now t i p actor s = (Inr d', s') \<or> accept_declaration now t i s = (Inr d', s') \<or>
    reject_declaration now t i reason s = (Inr d', s')"
  shows "\<exists>d. find_scoped t i (declarations s) = Some d \<and> id_status d \<noteq> IntraDraft \<and>
    id_status d' \<notin> {IntraDraft, IntraGenerated} \<and> same_file d d' \<and> s' = declarations_update (save_row d') s"
  using assms unfolding submit_declaration_def accept_declaration_def reject_declaration_def
  by (elim disjE; elim forward_transition) (auto simp: same_file_def period_key_def split: if_splits)

lemma reopen_Inr:
  "reopen_declaration t i s = (Inr d', s') \<Longrightarrow>
     \<exists>d. find_scoped t i (declarations s) = Some d \<and> id_status d = IntraGenerated \<and>
       d' = d\<lparr>id_status := IntraDraft, id_generatedAt := None, id_totalValueCents := 0, id_lineCount := 0\<rparr> \<and>
       s' = declarations_update (save_row d') s"
  unfolding reopen_declaration_def
  by (drule transition_intrastat_Inr) (auto simp: can_intrastat_def, case_tac "id_status d"; simp)

lemma generate_Inr:
  assumes "generate now ids t i actor s = (Inr d', s')" and "fresh_ids ids (intrastatLines s)"
  shows "\<exists>d cs. find_scoped t i (declarations s) = Some d \<and> id_status d = IntraDraft \<and>
    cs = aggregate_lines t (id_type d) (id_periodYear d) (nullish (id_periodMonth d) 0) s \<and>
    id_status d' = IntraGenerated \<and> ent_id d' = i \<and> tenantId d' = t \<and> period_key d' = period_key d \<and>
    id_lineCount d' = length cs \<and>
    id_totalValueCents d' = js_sum (\<lambda>l. ln_valueCents (il_data l)) (create_lines (intrastat_row t i) ids cs) \<and>
    declarations s' = save_row d' (declarations s) \<and>
    intrastatLines s' = filter (\<lambda>l. tenantId l = t \<longrightarrow> il_declarationId l \<noteq> i) (intrastatLines s) @
      create_lines (intrastat_row t i) ids cs"
proof -
  have draft: "can_intrastat x IntraGenerated \<Longrightarrow> x = IntraDraft" for x
    by (cases x) (simp_all add: can_intrastat_def)
  have "fresh_ids ids (filter (\<lambda>l. tenantId l = t \<longrightarrow> il_declarationId l \<noteq> i) (intrastatLines s))"
    using assms(2) by (auto simp: fresh_ids_def)
  then have save: "save_rows (create_lines (intrastat_row t i) ids cs)
        (filter (\<lambda>l. tenantId l = t \<longrightarrow> il_declarationId l \<noteq> i) (intrastatLines s)) =
      filter (\<lambda>l. tenantId l = t \<longrightarrow> il_declarationId l \<noteq> i) (intrastatLines s) @
        create_lines (intrastat_row t i) ids cs" for cs
    by (rule save_created_lines) (simp add: intrastat_row_def)
  obtain d where d: "find_scoped t i (declarations s) = Some d" "id_status d = IntraDraft"
    using assms(1) by (auto simp: generate_def svc_simps Let_def dest: draft)
  then show ?thesis using assms(1) find_scoped_Some [OF d(1)]
    by (auto simp: generate_def svc_simps Let_def period_key_def save)
qed

lemma draft_Inr:
  "create_or_find_draft n t ty y m s = (Inr d, s') \<Longrightarrow>
     s' = s \<or> (ent_id d = n \<and> id_status d = IntraDraft \<and> id_totalValueCents d = 0 \<and> id_lineCount d = 0 \<and>
       period_key d \<notin> period_key ` set (declarations s) \<and> s' = declarations_update (save_row d) s)"
  by (auto simp: create_or_find_draft_def svc_simps Let_def period_key_def find_None_iff split: option.splits)

lemma lines_at_frame: "intrastatLines s' = intrastatLines s \<Longrightarrow> lines_at d s' = lines_at d s"
  by (simp add: lines_at_def)

lemma lines_at_key: "ent_id d' = ent_id d \<Longrightarrow> tenantId d' = tenantId d \<Longrightarrow> lines_at d' s = lines_at d s"
  by (simp add: lines_at_def)

lemma figures_frame: "lines_at d s' = lines_at d s \<Longrightarrow> figures_ok s' d = figures_ok s d"
  by (simp add: figures_ok_def)

lemma generated_lines:
  assumes "intrastatLines s' = filter (\<lambda>l. tenantId l = t \<longrightarrow> il_declarationId l \<noteq> i) (intrastatLines s) @
      create_lines (intrastat_row t i) ids cs"
  shows "ent_id d = i \<Longrightarrow> tenantId d = t \<Longrightarrow> lines_at d s' = create_lines (intrastat_row t i) ids cs"
    and "ent_id d \<noteq> i \<Longrightarrow> lines_at d s' = lines_at d s"
proof -
  have ls: "tenantId l = t \<and> il_declarationId l = i" if "l \<in> set (create_lines (intrastat_row t i) ids cs)" for l
    using set_create_lines [OF that] by (auto simp: intrastat_row_def)
  show "lines_at d s' = create_lines (intrastat_row t i) ids cs" if "ent_id d = i" "tenantId d = t"
    using that ls by (auto simp: lines_at_def assms filter_empty_conv intro: filter_True)
  show "lines_at d s' = lines_at d s" if "ent_id d \<noteq> i"
    using that ls by (auto simp: lines_at_def assms filter_empty_conv intro!: filter_cong)
qed

lemma intrastat_inv_update:
  assumes "intrastat_inv s" and "find_scoped t i (declarations s) = Some d"
    and "ent_id d' = ent_id d" and "period_key d' = period_key d"
    and "declarations s' = save_row d' (declarations s)" and "figures_ok s' d'"
    and frame: "\<And>x. ent_id x \<noteq> i \<Longrightarrow> lines_at x s' = lines_at x s"
  shows "intrastat_inv s'"
proof -
  have d: "d \<in> set (declarations s)" "ent_id d = i" using find_scoped_Some [OF assms(2)] by simp_all
  have k: "keyed (declarations s)" "inj_on period_key (set (declarations s))"
      "\<And>x. x \<in> set (declarations s) \<Longrightarrow> figures_ok s x" using assms(1) by (auto simp: intrastat_inv_def)
  have rows: "set (declarations s') = insert d' {x \<in> set (declarations s). ent_id x \<noteq> i}"
    using k(1) assms(3,5) d(2) by (simp add: set_save_row)
  have "period_key d' \<notin> period_key ` {x \<in> set (declarations s). ent_id x \<noteq> i}"
    using k(2) d assms(4) by (auto dest: inj_onD)
  moreover have "inj_on period_key {x \<in> set (declarations s). ent_id x \<noteq> i}"
    using k(2) by (rule inj_on_subset) auto
  ultimately have "inj_on period_key (set (declarations s'))"
    unfolding rows inj_on_insert by (auto simp: image_iff)
  moreover have "figures_ok s' x" if "x \<in> set (declarations s')" for x
    using that assms(6) k(3) figures_frame [OF frame] unfolding rows by blast
  ultimately show ?thesis using k(1) assms(5) by (simp add: intrastat_inv_def keyed_save_row)
qed

lemma intrastat_step_inv:
  assumes "intrastat_step s s'" and inv: "intrastat_inv s"
  shows "intrastat_inv s'"
proof -
  have ok: "figures_ok s x" if "find_scoped t i (declarations s) = Some x" for t i x
    using inv find_scoped_Some [OF that] by (simp add: intrastat_inv_def)
  have forward: "intrastat_inv s'"
    if "find_scoped t i (declarations s) = Some d" "id_status d \<noteq> IntraDraft" "id_status d' \<notin> {IntraDraft, IntraGenerated}"
      "same_file d d'" "s' = declarations_update (save_row d') s" for t i d d'
  proof (rule intrastat_inv_update [OF inv that(1)])
    show "figures_ok s' d'" using ok [OF that(1)] that(2-5)
      by (auto simp: figures_ok_def same_file_def period_key_def lines_at_def)
  qed (use that in \<open>auto simp: same_file_def lines_at_def\<close>)
  show ?thesis using assms(1)
  proof cases
    case (draft n t ty y m d)
    show ?thesis using draft_Inr [OF draft(1)]
    proof (elim disjE conjE)
      assume d: "ent_id d = n" "id_status d = IntraDraft" "id_totalValueCents d = 0" "id_lineCount d = 0"
        "period_key d \<notin> period_key ` set (declarations s)" "s' = declarations_update (save_row d) s"
      have f: "figures_ok s' x = figures_ok s x" for x by (simp add: d(6) figures_ok_def lines_at_def)
      have "figures_ok s d" using d(2-4) by (simp add: figures_ok_def)
      moreover have "declarations s' = declarations s @ [d]" using d(1,6) draft(2) by (simp add: fresh_save_row)
      moreover have "inj_on period_key (insert d (set (declarations s)))"
        using inv d(5) by (auto simp: intrastat_inv_def)
      ultimately show ?thesis using inv draft(2) d(1) unfolding intrastat_inv_def f
        by (simp add: keyed_def fresh_def)
    qed (use inv in simp)
  next
    case (generate now ids t i actor d')
    then obtain d cs where d: "find_scoped t i (declarations s) = Some d" "id_status d' = IntraGenerated" "ent_id d' = i"
        "tenantId d' = t" "period_key d' = period_key d" "declarations s' = save_row d' (declarations s)"
        "id_lineCount d' = length cs"
        "id_totalValueCents d' = js_sum (\<lambda>l. ln_valueCents (il_data l)) (create_lines (intrastat_row t i) ids cs)"
      and cs: "cs = aggregate_lines t (id_type d) (id_periodYear d) (nullish (id_periodMonth d) 0) s"
      and ls: "intrastatLines s' = filter (\<lambda>l. tenantId l = t \<longrightarrow> il_declarationId l \<noteq> i) (intrastatLines s) @
          create_lines (intrastat_row t i) ids cs"
      using generate_Inr [OF generate] by blast
    show ?thesis
    proof (rule intrastat_inv_update [OF inv d(1)])
      have "map (\<lambda>l. ln_position (il_data l)) (create_lines (intrastat_row t i) ids cs) = map ln_position cs" for cs
        by (rule map_create_lines) (simp add: intrastat_row_def)
      then show "figures_ok s' d'"
        using d(2-4,7,8) aggregate_positions unfolding figures_ok_def by (simp add: generated_lines(1) [OF ls] cs)
    qed (use d generated_lines(2) [OF ls] find_scoped_Some [OF d(1)] in auto)
  next
    case (submit now t i p actor d')
    then show ?thesis using forward_Inr [of now t i p actor s d' s' "''''"] forward by blast
  next
    case (accept now t i d')
    then show ?thesis using forward_Inr [of now t i "''''" None s d' s' "''''"] forward by blast
  next
    case (reject now t i reason d')
    then show ?thesis using forward_Inr [of now t i "''''" None s d' s' reason] forward by blast
  next
    case (reopen t i d')
    then obtain d where d: "find_scoped t i (declarations s) = Some d"
        "d' = d\<lparr>id_status := IntraDraft, id_generatedAt := None, id_totalValueCents := 0, id_lineCount := 0\<rparr>"
        "s' = declarations_update (save_row d') s" using reopen_Inr by blast
    show ?thesis
      by (rule intrastat_inv_update [OF inv d(1), where d' = d'])
        (use d in \<open>simp_all add: period_key_def figures_ok_def lines_at_def\<close>)
  next
    case (documents "is" cs rs)
    then have "lines_at x s' = lines_at x s" for x by (intro lines_at_frame) simp
    then have "figures_ok s' x = figures_ok s x" for x by (rule figures_frame)
    then show ?thesis using inv documents by (simp add: intrastat_inv_def)
  qed
qed

lemma intrastat_run_inv: "intrastat_step\<^sup>*\<^sup>* s s' \<Longrightarrow> intrastat_inv s \<Longrightarrow> intrastat_inv s'"
  by (induction rule: rtranclp_induct) (auto intro: intrastat_step_inv)

lemma no_declarations_inv: "declarations s = [] \<Longrightarrow> intrastat_inv s"
  by (simp add: intrastat_inv_def keyed_def)

text \<open>A declaration that left the generated status keeps its key, its figures and its lines.\<close>

definition filed :: "intrastat_declaration \<Rightarrow> bool" where
  "filed d \<longleftrightarrow> id_status d \<notin> {IntraDraft, IntraGenerated}"

definition kept_as :: "intrastat_declaration \<Rightarrow> intrastat_line list \<Rightarrow> intrastat_db \<Rightarrow> bool" where
  "kept_as d ls s \<longleftrightarrow>
     (\<exists>d'. find_scoped (tenantId d) (ent_id d) (declarations s) = Some d' \<and> filed d' \<and> same_file d d') \<and>
     lines_at d s = ls"

lemma same_file_trans: "same_file a b \<Longrightarrow> same_file b c \<Longrightarrow> same_file a c"
  by (simp add: same_file_def)

lemma kept_update:
  assumes "kept_as d ls s" and "keyed (declarations s)" and "find_scoped t i (declarations s) = Some e"
    and "declarations s' = save_row e' (declarations s)" and "ent_id e' = i"
    and "i = ent_id d \<Longrightarrow> filed e \<Longrightarrow> filed e' \<and> same_file e e'" and "lines_at d s' = lines_at d s"
  shows "kept_as d ls s'"
proof -
  obtain d' where d': "find_scoped (tenantId d) (ent_id d) (declarations s) = Some d'" "filed d'" "same_file d d'"
    using assms(1) by (auto simp: kept_as_def)
  show ?thesis
  proof (cases "i = ent_id d")
    case True
    have "e = d'" using d'(1) assms(2,3) True find_scoped_Some [OF assms(3)] find_scoped_Some [OF d'(1)]
      by (metis table.key_inj)
    then have e': "filed e'" "same_file d e'" using assms(6) [OF True] d'(2,3) by (auto intro: same_file_trans)
    then have "tenantId e' = tenantId d" by (simp add: same_file_def period_key_def)
    then show ?thesis using e' assms True by (simp add: kept_as_def find_scoped_save)
  next
    case False
    then show ?thesis using assms d' by (auto simp: kept_as_def find_scoped_save)
  qed
qed

lemma intrastat_step_kept:
  assumes "intrastat_step s s'" and inv: "intrastat_inv s" and kept: "kept_as d ls s"
  shows "kept_as d ls s'"
proof -
  have keyed: "keyed (declarations s)" using inv by (simp add: intrastat_inv_def)
  have forward: "kept_as d ls s'"
    if "find_scoped t i (declarations s) = Some e" "id_status e' \<notin> {IntraDraft, IntraGenerated}"
      "same_file e e'" "s' = declarations_update (save_row e') s" for t i e e'
    by (rule kept_update [OF kept keyed that(1), where e' = e'])
      (use that find_scoped_Some [OF that(1)] in \<open>auto simp: same_file_def filed_def lines_at_def\<close>)
  have unfiled: "kept_as d ls s'"
    if "find_scoped t i (declarations s) = Some e" "\<not> filed e" "ent_id e' = i"
      "declarations s' = save_row e' (declarations s)" "i \<noteq> ent_id d \<Longrightarrow> lines_at d s' = lines_at d s" for t i e e'
  proof (rule kept_update [OF kept keyed that(1,4,3)])
    have "i \<noteq> ent_id d"
    proof
      assume "i = ent_id d"
      moreover obtain d' where "find_scoped (tenantId d) (ent_id d) (declarations s) = Some d'" "filed d'"
        using kept by (auto simp: kept_as_def)
      ultimately have "e = d'" using keyed that(1) by (metis find_scoped_Some table.key_inj)
      with \<open>filed d'\<close> that(2) show False by simp
    qed
    then show "lines_at d s' = lines_at d s" by (rule that(5))
  qed (use that in auto)
  show ?thesis using assms(1)
  proof cases
    case (draft n t ty y m e)
    show ?thesis using draft_Inr [OF draft(1)]
    proof (elim disjE conjE)
      assume e: "ent_id e = n" "s' = declarations_update (save_row e) s"
      then have "find_scoped a b (declarations s') = (if b = n then (if tenantId e = a then Some e else None)
          else find_scoped a b (declarations s))" for a b using keyed by (simp add: find_scoped_save)
      moreover have "ent_id d \<noteq> n" using kept find_scoped_fresh [OF draft(2)] by (auto simp: kept_as_def)
      ultimately show ?thesis using kept e(2) by (simp add: kept_as_def lines_at_def)
    qed (use kept in simp)
  next
    case (generate now ids t i actor e')
    then obtain e cs where e: "find_scoped t i (declarations s) = Some e" "id_status e = IntraDraft" "ent_id e' = i"
        "declarations s' = save_row e' (declarations s)"
      and ls: "intrastatLines s' = filter (\<lambda>l. tenantId l = t \<longrightarrow> il_declarationId l \<noteq> i) (intrastatLines s) @
          create_lines (intrastat_row t i) ids cs"
      using generate_Inr [OF generate] by blast
    show ?thesis
      by (rule unfiled [OF e(1) _ e(3,4)]) (use e(2) generated_lines(2) [OF ls] in \<open>auto simp: filed_def\<close>)
  next
    case (submit now t i p actor e')
    then show ?thesis using forward_Inr [of now t i p actor s e' s' "''''"] forward by blast
  next
    case (accept now t i e')
    then show ?thesis using forward_Inr [of now t i "''''" None s e' s' "''''"] forward by blast
  next
    case (reject now t i reason e')
    then show ?thesis using forward_Inr [of now t i "''''" None s e' s' reason] forward by blast
  next
    case (reopen t i e')
    then obtain e where e: "find_scoped t i (declarations s) = Some e" "id_status e = IntraGenerated"
        "ent_id e' = ent_id e" "s' = declarations_update (save_row e') s" using reopen_Inr by fastforce
    then show ?thesis using find_scoped_Some [OF e(1)]
      by (intro unfiled [OF e(1)]) (auto simp: filed_def lines_at_def)
  next
    case (documents "is" cs rs)
    then show ?thesis using kept by (simp add: kept_as_def lines_at_def)
  qed
qed

lemma intrastat_run_kept:
  "intrastat_step\<^sup>*\<^sup>* s s' \<Longrightarrow> intrastat_inv s \<Longrightarrow> kept_as d ls s \<Longrightarrow> kept_as d ls s'"
  by (induction rule: rtranclp_induct) (auto intro: intrastat_step_kept intrastat_run_inv)

lemma lines_of_declaration_at:
  "tenantId d = t \<Longrightarrow> ent_id d = i \<Longrightarrow>
     lines_of_declaration t i s = sort_key (\<lambda>l. ln_position (il_data l)) (lines_at d s)"
  by (simp add: lines_of_declaration_def lines_at_def)

text \<open>
  C22. In every state reached from empty tables, whatever happens to documents and customers
  in between, there is at most one declaration per tenant, kind and month, and a declaration
  that was generated states exactly its stored lines: they are numbered one, two, three and
  so on, their number is the stated line count and their sum the stated total. A draft states
  zero.
\<close>

theorem declared_figures_match_lines:
  assumes "intrastat_step\<^sup>*\<^sup>* s0 s" and "declarations s0 = []"
  shows "(\<forall>d\<in>set (declarations s). figures_ok s d) \<and> inj_on period_key (set (declarations s))"
  using intrastat_run_inv [OF assms(1) no_declarations_inv [OF assms(2)]] by (simp add: intrastat_inv_def)

text \<open>
  C23. Once submitted, a declaration can be exported again at any later time and gives the
  same files, to the letter: neither requests nor changes of the underlying invoices and
  customers reach it.
\<close>

theorem submitted_files_never_change:
  assumes "intrastat_step\<^sup>*\<^sup>* s0 s" and "declarations s0 = []" and "intrastat_step\<^sup>*\<^sup>* s s'"
    and "find_scoped t i (declarations s) = Some d" and "id_status d \<in> {IntraSubmitted, IntraAccepted, IntraRejected}"
  shows "fst (export_csv t i s') = fst (export_csv t i s) \<and> fst (export_xml t i s') = fst (export_xml t i s) \<and>
    \<not> isl (fst (export_csv t i s))"
proof -
  have inv: "intrastat_inv s" by (rule intrastat_run_inv [OF assms(1) no_declarations_inv [OF assms(2)]])
  have d: "ent_id d = i" "tenantId d = t" using find_scoped_Some [OF assms(4)] by simp_all
  have "kept_as d (lines_at d s) s"
    using assms(4,5) d by (auto simp: kept_as_def filed_def same_file_def)
  then have "kept_as d (lines_at d s) s'" by (rule intrastat_run_kept [OF assms(3) inv])
  then obtain d' where d': "find_scoped t i (declarations s') = Some d'" "same_file d d'" "lines_at d s' = lines_at d s"
    using d by (auto simp: kept_as_def)
  have eqs: "id_type d' = id_type d" "id_periodYear d' = id_periodYear d" "id_periodMonth d' = id_periodMonth d"
      "id_periodQuarter d' = id_periodQuarter d" "id_totalValueCents d' = id_totalValueCents d"
      "id_lineCount d' = id_lineCount d"
    using d'(2) by (simp_all add: same_file_def period_key_def)
  have "render_intrastat_xml d' ls = render_intrastat_xml d ls" for ls
    by (simp only: render_intrastat_xml_def declaration_period_def eqs)
  moreover have "lines_of_declaration t i s' = lines_of_declaration t i s"
    using d'(3) d by (simp add: lines_of_declaration_at)
  ultimately show ?thesis using d'(1,2) assms(4)
    by (simp add: export_csv_def export_xml_def get_declaration_def svc_defs eqs)
qed

section \<open>Examples\<close>

definition trade_start :: intrastat_db where
  "trade_start = \<lparr>declarations = [], intrastatLines = [], issuedInvoices = [], tradeCustomers = [], receivedInvoices = []\<rparr>"

definition trade_1 :: intrastat_db where "trade_1 = after (create_or_find_draft ''D'' ''T'' Acquisti 2026 3) trade_start"
definition trade_2 :: intrastat_db where "trade_2 = after (generate 5 (sample_ids CHR ''l'') ''T'' ''D'' None) trade_1"
definition trade_3 :: intrastat_db where "trade_3 = after (submit_declaration 6 ''T'' ''D'' ''P'' None) trade_2"
definition trade_4 :: intrastat_db where "trade_4 = after (accept_declaration 7 ''T'' ''D'') trade_3"

lemmas intrastat_eval =
  trade_start_def create_or_find_draft_def generate_def submit_declaration_def accept_declaration_def
  transition_intrastat_def can_intrastat_def assert_intrastat_def aggregate_lines_def aggregate_acquisti_def
  aggregate_cessioni_def create_lines_def js_sum_def
  find_scoped_def save_row_def save_rows_def Let_def svc_defs runs_ok_def after_def

lemma trade_rows:
  "\<exists>d. declarations trade_1 = [d] \<and> tenantId d = ''T'' \<and> ent_id d = ''D'' \<and> id_status d = IntraDraft \<and> id_type d = Acquisti"
  "\<exists>d. declarations trade_2 = [d] \<and> tenantId d = ''T'' \<and> ent_id d = ''D'' \<and> id_status d = IntraGenerated"
  "\<exists>d. declarations trade_3 = [d] \<and> tenantId d = ''T'' \<and> ent_id d = ''D'' \<and> id_status d = IntraSubmitted"
  "intrastatLines trade_1 = []" "receivedInvoices trade_1 = []"
proof -
  show 1: "\<exists>d. declarations trade_1 = [d] \<and> tenantId d = ''T'' \<and> ent_id d = ''D'' \<and> id_status d = IntraDraft \<and> id_type d = Acquisti"
    "intrastatLines trade_1 = []" "receivedInvoices trade_1 = []"
    by (simp_all add: trade_1_def intrastat_eval)
  then show 2: "\<exists>d. declarations trade_2 = [d] \<and> tenantId d = ''T'' \<and> ent_id d = ''D'' \<and> id_status d = IntraGenerated"
    by (auto simp: trade_2_def intrastat_eval)
  then show "\<exists>d. declarations trade_3 = [d] \<and> tenantId d = ''T'' \<and> ent_id d = ''D'' \<and> id_status d = IntraSubmitted"
    by (auto simp: trade_3_def intrastat_eval)
qed

lemma trade_runs:
  "runs_ok (create_or_find_draft ''D'' ''T'' Acquisti 2026 3) trade_start"
  "runs_ok (generate 5 (sample_ids CHR ''l'') ''T'' ''D'' None) trade_1"
  "runs_ok (submit_declaration 6 ''T'' ''D'' ''P'' None) trade_2"
  "runs_ok (accept_declaration 7 ''T'' ''D'') trade_3"
  using trade_rows by (auto simp: intrastat_eval)

lemma trade_reachable: "intrastat_step\<^sup>*\<^sup>* trade_start trade_3" "intrastat_step\<^sup>*\<^sup>* trade_3 trade_4"
proof -
  note ok = trade_runs [THEN runs_okD]
  have "intrastat_step trade_start trade_1"
    unfolding trade_1_def by (rule intrastat_step.draft [OF ok(1)]) (simp add: trade_start_def fresh_def)
  moreover have "intrastat_step trade_1 trade_2"
    unfolding trade_2_def
    by (rule intrastat_step.generate [OF ok(2)]) (simp add: trade_rows fresh_ids_def inj_sample_ids)
  moreover have "intrastat_step trade_2 trade_3"
    unfolding trade_3_def by (rule intrastat_step.submit [OF ok(3)])
  ultimately show "intrastat_step\<^sup>*\<^sup>* trade_start trade_3" by auto
  have "intrastat_step trade_3 trade_4"
    unfolding trade_4_def by (rule intrastat_step.accept [OF ok(4)])
  then show "intrastat_step\<^sup>*\<^sup>* trade_3 trade_4" by auto
qed

theorem declared_figures_match_lines_witness:
  "list_all (figures_ok trade_3) (declarations trade_3) \<and> inj_on period_key (set (declarations trade_3))"
  using declared_figures_match_lines [OF trade_reachable(1)] by (simp add: trade_start_def list_all_iff)

theorem submitted_files_never_change_witness:
  "fst (export_csv ''T'' ''D'' trade_4) = fst (export_csv ''T'' ''D'' trade_3) \<and>
   fst (export_xml ''T'' ''D'' trade_4) = fst (export_xml ''T'' ''D'' trade_3) \<and>
   \<not> isl (fst (export_csv ''T'' ''D'' trade_3))"
proof -
  obtain d where d: "declarations trade_3 = [d]" "tenantId d = ''T''" "ent_id d = ''D''" "id_status d = IntraSubmitted"
    using trade_rows(3) by blast
  show ?thesis
    by (rule submitted_files_never_change [OF trade_reachable(1) _ trade_reachable(2), where d = d])
      (simp_all add: trade_start_def find_scoped_def d)
qed

end
