(* ===== verification/Hr.thy ===== *)
theory Hr
  imports Documents JsNumber JsDate JsXml "HOL-Library.List_Lexorder" "HOL-Library.Char_ord"
begin

text \<open>
  Human resources, \<^verbatim>\<open>backend/src/hr\<close>: the employee register, leave requests and the daily
  attendance records, with the entities of the same directory; the status machines are in
  theory \<open>Fsm\<close>. Calendar dates of employees are \<^verbatim>\<open>YYYY-MM-DD\<close> texts. The dates of leave
  requests and attendances are JavaScript \<^verbatim>\<open>Date\<close> values in milliseconds, as the requests
  parse to them; \<open>None\<close> is an invalid date. The residence address is kept as its JSON text.
\<close>

section \<open>Entities\<close>

datatype contract_type = Indeterminato | Determinato | Apprendistato | Somministrazione | Cococo | Stage
  | CollaborazioneOccasionale

datatype leave_type = Ferie | PermessoRetribuito | PermessoNonRetribuito | Malattia | CongedoMaternita
  | CongedoPaternita | CongedoParentale | CongedoMatrimoniale | Lutto | L104 | AltroCongedo

datatype attendance_location = AtOffice | AtRemote | AtSite | AtTravel | AtOther

record employee = entity +
  em_employeeNumber :: string
  em_firstName :: string
  em_lastName :: string
  em_fiscalCode :: "string option"
  em_email :: "string option"
  em_phone :: "string option"
  em_dateOfBirth :: "string option"
  em_placeOfBirth :: "string option"
  em_nationality :: "string option"
  em_residenceAddress :: string
  em_contractType :: contract_type
  em_ccnlCode :: "string option"
  em_payGradeCode :: "string option"
  em_weeklyHours :: string
  em_monthlyWageCents :: int
  em_hourlyWageCents :: int
  em_hireDate :: "string option"
  em_terminationDate :: "string option"
  em_terminationReason :: "string option"
  em_status :: employee_status
  em_userId :: "uuid option"
  em_managerEmployeeId :: "uuid option"
  em_notes :: "string option"

record leave_request = entity +
  lr_employeeId :: uuid
  lr_leaveType :: leave_type
  lr_startDate :: int
  lr_endDate :: int
  lr_daysRequested :: string
  lr_reason :: "string option"
  lr_status :: leave_status
  lr_submittedAt :: "int option"
  lr_decidedAt :: "int option"
  lr_decidedBy :: "uuid option"
  lr_decisionReason :: "string option"
  lr_tags :: "string list"

record attendance = entity +
  at_employeeId :: uuid
  at_date :: int
  at_clockInAt :: "int option"
  at_clockOutAt :: "int option"
  at_breakMinutes :: int
  at_workedHours :: string
  at_location :: attendance_location
  at_locationLabel :: "string option"
  at_status :: attendance_status
  at_notes :: "string option"
  at_recordedBy :: "uuid option"

record hr_db =
  employees :: "employee list"
  leaveRequests :: "leave_request list"
  attendances :: "attendance list"

section \<open>Employees\<close>

record employee_input =
  ei_firstName :: string
  ei_lastName :: string
  ei_fiscalCode :: "string option"
  ei_email :: "string option"
  ei_phone :: "string option"
  ei_dateOfBirth :: "string option"
  ei_placeOfBirth :: "string option"
  ei_nationality :: "string option"
  ei_residenceAddress :: "string option"
  ei_contractType :: "contract_type option"
  ei_ccnlCode :: "string option"
  ei_payGradeCode :: "string option"
  ei_weeklyHours :: "string option"
  ei_monthlyWageCents :: "int option"
  ei_hourlyWageCents :: "int option"
  ei_hireDate :: "string option"
  ei_managerEmployeeId :: "uuid option"
  ei_userId :: "uuid option"
  ei_notes :: "string option"

record employee_update =
  eu_firstName :: "string option"
  eu_lastName :: "string option"
  eu_fiscalCode :: "string option"
  eu_email :: "string option"
  eu_phone :: "string option"
  eu_residenceAddress :: "string option"
  eu_contractType :: "contract_type option"
  eu_ccnlCode :: "string option"
  eu_payGradeCode :: "string option"
  eu_weeklyHours :: "string option"
  eu_monthlyWageCents :: "int option"
  eu_hourlyWageCents :: "int option"
  eu_managerEmployeeId :: "uuid option"
  eu_notes :: "string option"

text \<open>\<^verbatim>\<open>/EMP-(\d+)/.exec(s)\<close>: the digits of the first match, anywhere in the text.\<close>

fun emp_match :: "string \<Rightarrow> string option" where
  "emp_match [] = None"
| "emp_match (c # s) =
     (let digits = takeWhile is_digit (drop 4 (c # s))
      in if take 4 (c # s) = ''EMP-'' \<and> digits \<noteq> [] then Some digits else emp_match s)"

definition emp_number :: "nat \<Rightarrow> string" where
  "emp_number n = ''EMP-'' @ pad_start 4 CHR ''0'' (dec n)"

text \<open>The row of the tenant that was inserted last gives the number to continue from.\<close>

definition next_employee_number :: "uuid \<Rightarrow> hr_db \<Rightarrow> http_error + string" where
  "next_employee_number t s =
     (case rev (tenant_rows t (employees s)) of
        [] \<Rightarrow> Inr ''EMP-0001''
      | latest # _ \<Rightarrow> (case emp_match (em_employeeNumber latest) of
          None \<Rightarrow> Inl BadRequest
        | Some digits \<Rightarrow> Inr (emp_number (parse_dec digits + 1))))"

definition find_fiscal_code :: "uuid \<Rightarrow> string option \<Rightarrow> hr_db \<Rightarrow> employee option" where
  "find_fiscal_code t code s = find (\<lambda>e. tenantId e = t \<and> em_fiscalCode e = code) (employees s)"

definition save_employee :: "employee \<Rightarrow> (hr_db, employee) svc" where
  "save_employee e = seq (modify (employees_update (save_row e))) (ret e)"

definition new_employee :: "uuid \<Rightarrow> uuid \<Rightarrow> string \<Rightarrow> employee_input \<Rightarrow> employee" where
  "new_employee newId t number dto =
     \<lparr>ent_id = newId, tenantId = t, em_employeeNumber = number, em_firstName = ei_firstName dto,
      em_lastName = ei_lastName dto, em_fiscalCode = ei_fiscalCode dto, em_email = ei_email dto,
      em_phone = ei_phone dto,
      em_dateOfBirth = (if truthy (ei_dateOfBirth dto) then ei_dateOfBirth dto else None),
      em_placeOfBirth = ei_placeOfBirth dto, em_nationality = ei_nationality dto,
      em_residenceAddress = nullish (ei_residenceAddress dto) ''{}'',
      em_contractType = nullish (ei_contractType dto) Indeterminato, em_ccnlCode = ei_ccnlCode dto,
      em_payGradeCode = ei_payGradeCode dto, em_weeklyHours = nullish (ei_weeklyHours dto) ''40'',
      em_monthlyWageCents = nullish (ei_monthlyWageCents dto) 0,
      em_hourlyWageCents = nullish (ei_hourlyWageCents dto) 0,
      em_hireDate = (if truthy (ei_hireDate dto) then ei_hireDate dto else None),
      em_terminationDate = None, em_terminationReason = None, em_status = EmpProspect,
      em_userId = ei_userId dto, em_managerEmployeeId = ei_managerEmployeeId dto, em_notes = ei_notes dto\<rparr>"

definition create_employee :: "uuid \<Rightarrow> uuid \<Rightarrow> employee_input \<Rightarrow> (hr_db, employee) svc" where
  "create_employee newId t dto =
     bind (gets (next_employee_number t)) (\<lambda>derived.
     bind (lift derived) (\<lambda>number.
     bind (gets (find_fiscal_code t (ei_fiscalCode dto))) (\<lambda>existing.
     seq (throw_if (truthy (ei_fiscalCode dto) \<and> existing \<noteq> None) Conflict)
       (save_employee (new_employee newId t number dto)))))"

record employee_filter =
  ef_status :: "employee_status option"
  ef_contractType :: "contract_type option"
  ef_ccnlCode :: "string option"

definition list_employees :: "uuid \<Rightarrow> employee_filter \<Rightarrow> (hr_db, employee list) svc" where
  "list_employees t q =
     gets (\<lambda>s. sort_key em_lastName (sort_key em_firstName (filter
       (\<lambda>e. tenantId e = t \<and> (ef_status q = None \<or> ef_status q = Some (em_status e)) \<and>
          (ef_contractType q = None \<or> ef_contractType q = Some (em_contractType e)) \<and>
          (\<not> truthy (ef_ccnlCode q) \<or> ef_ccnlCode q = em_ccnlCode e)) (employees s))))"

definition get_employee :: "uuid \<Rightarrow> uuid \<Rightarrow> (hr_db, employee) svc" where
  "get_employee t i = bind (gets (\<lambda>s. find_scoped t i (employees s))) (\<lambda>found. require found NotFound)"

definition employee_updated :: "employee_update \<Rightarrow> employee \<Rightarrow> employee" where
  "employee_updated dto e =
     e\<lparr>em_firstName := nullish (eu_firstName dto) (em_firstName e),
       em_lastName := nullish (eu_lastName dto) (em_lastName e),
       em_fiscalCode := or_else (eu_fiscalCode dto) (em_fiscalCode e),
       em_email := or_else (eu_email dto) (em_email e),
       em_phone := or_else (eu_phone dto) (em_phone e),
       em_residenceAddress := nullish (eu_residenceAddress dto) (em_residenceAddress e),
       em_contractType := nullish (eu_contractType dto) (em_contractType e),
       em_ccnlCode := or_else (eu_ccnlCode dto) (em_ccnlCode e),
       em_payGradeCode := or_else (eu_payGradeCode dto) (em_payGradeCode e),
       em_weeklyHours := nullish (eu_weeklyHours dto) (em_weeklyHours e),
       em_monthlyWageCents := nullish (eu_monthlyWageCents dto) (em_monthlyWageCents e),
       em_hourlyWageCents := nullish (eu_hourlyWageCents dto) (em_hourlyWageCents e),
       em_managerEmployeeId := or_else (eu_managerEmployeeId dto) (em_managerEmployeeId e),
       em_notes := or_else (eu_notes dto) (em_notes e)\<rparr>"

definition update_employee :: "uuid \<Rightarrow> uuid \<Rightarrow> employee_update \<Rightarrow> (hr_db, employee) svc" where
  "update_employee t i dto =
     bind (get_employee t i) (\<lambda>e.
     bind (gets (find_fiscal_code t (eu_fiscalCode dto))) (\<lambda>dup.
     seq (throw_if (truthy (eu_fiscalCode dto) \<and> eu_fiscalCode dto \<noteq> em_fiscalCode e \<and>
         (case dup of None \<Rightarrow> False | Some d \<Rightarrow> ent_id d \<noteq> i)) Conflict)
       (save_employee (employee_updated dto e))))"

definition transition_employee ::
  "uuid \<Rightarrow> uuid \<Rightarrow> employee_status \<Rightarrow> (employee \<Rightarrow> employee) \<Rightarrow> (hr_db, employee) svc" where
  "transition_employee t i next app =
     bind (get_employee t i) (\<lambda>e.
     seq (throw_if (\<not> can_employee (em_status e) next) Unprocessable)
    (bind (lift (assert_employee (em_status e) next)) (\<lambda>_.
     save_employee ((app e)\<lparr>em_status := next\<rparr>))))"

definition start_onboarding :: "uuid \<Rightarrow> uuid \<Rightarrow> string option \<Rightarrow> (hr_db, employee) svc" where
  "start_onboarding t i hireDate =
     transition_employee t i EmpOnboarding (\<lambda>e. if truthy hireDate then e\<lparr>em_hireDate := hireDate\<rparr> else e)"

definition activate_employee :: "int \<Rightarrow> uuid \<Rightarrow> uuid \<Rightarrow> string option \<Rightarrow> (hr_db, employee) svc" where
  "activate_employee now t i hireDate =
     transition_employee t i EmpActive (\<lambda>e.
       let e' = (if truthy hireDate then e\<lparr>em_hireDate := hireDate\<rparr> else e)
       in if em_hireDate e' = None then e'\<lparr>em_hireDate := Some (iso_date now)\<rparr> else e')"

definition terminate_employee :: "uuid \<Rightarrow> uuid \<Rightarrow> string \<Rightarrow> string \<Rightarrow> (hr_db, employee) svc" where
  "terminate_employee t i terminationDate reason =
     transition_employee t i EmpTerminated (\<lambda>e.
       e\<lparr>em_terminationDate := Some terminationDate, em_terminationReason := Some reason\<rparr>)"

section \<open>Leave requests\<close>

record leave_input =
  li_employeeId :: uuid
  li_leaveType :: leave_type
  li_startDate :: "int option"
  li_endDate :: "int option"
  li_daysRequested :: string
  li_reason :: "string option"
  li_tags :: "string list option"

definition save_leave :: "leave_request \<Rightarrow> (hr_db, leave_request) svc" where
  "save_leave r = seq (modify (leaveRequests_update (save_row r))) (ret r)"

definition create_leave :: "uuid \<Rightarrow> uuid \<Rightarrow> leave_input \<Rightarrow> (hr_db, leave_request) svc" where
  "create_leave newId t dto =
     bind (require (li_startDate dto) BadRequest) (\<lambda>start.
     bind (require (li_endDate dto) BadRequest) (\<lambda>finish.
     seq (throw_if (finish < start) BadRequest)
       (save_leave
         \<lparr>ent_id = newId, tenantId = t, lr_employeeId = li_employeeId dto, lr_leaveType = li_leaveType dto,
          lr_startDate = start, lr_endDate = finish, lr_daysRequested = li_daysRequested dto,
          lr_reason = li_reason dto, lr_status = LeaveDraft, lr_submittedAt = None, lr_decidedAt = None,
          lr_decidedBy = None, lr_decisionReason = None, lr_tags = nullish (li_tags dto) []\<rparr>)))"

record leave_filter =
  lf_employeeId :: "uuid option"
  lf_status :: "leave_status option"
  lf_leaveType :: "leave_type option"
  lf_fromDate :: "int option"
  lf_toDate :: "int option"

definition list_leaves :: "uuid \<Rightarrow> leave_filter \<Rightarrow> (hr_db, leave_request list) svc" where
  "list_leaves t q =
     gets (\<lambda>s. sort_key (\<lambda>r. - lr_startDate r) (filter
       (\<lambda>r. tenantId r = t \<and> (lf_employeeId q = None \<or> lf_employeeId q = Some (lr_employeeId r)) \<and>
          (lf_status q = None \<or> lf_status q = Some (lr_status r)) \<and>
          (lf_leaveType q = None \<or> lf_leaveType q = Some (lr_leaveType r)) \<and>
          (case lf_fromDate q of None \<Rightarrow> True | Some a \<Rightarrow> a \<le> lr_startDate r) \<and>
          (case lf_toDate q of None \<Rightarrow> True | Some b \<Rightarrow> lr_endDate r \<le> b)) (leaveRequests s)))"

definition get_leave :: "uuid \<Rightarrow> uuid \<Rightarrow> (hr_db, leave_request) svc" where
  "get_leave t i = bind (gets (\<lambda>s. find_scoped t i (leaveRequests s))) (\<lambda>found. require found NotFound)"

definition transition_leave ::
  "uuid \<Rightarrow> uuid \<Rightarrow> leave_status \<Rightarrow> (leave_request \<Rightarrow> leave_request) \<Rightarrow> (hr_db, leave_request) svc" where
  "transition_leave t i next app =
     bind (get_leave t i) (\<lambda>r.
     seq (throw_if (\<not> can_leave (lr_status r) next) Unprocessable)
    (bind (lift (assert_leave (lr_status r) next)) (\<lambda>_.
     save_leave (app (r\<lparr>lr_status := next\<rparr>)))))"

definition submit_leave :: "int \<Rightarrow> uuid \<Rightarrow> uuid \<Rightarrow> (hr_db, leave_request) svc" where
  "submit_leave now t i = transition_leave t i LeaveSubmitted (\<lambda>r. r\<lparr>lr_submittedAt := Some now\<rparr>)"

text \<open>The three decisions write the same fields.\<close>

definition decided :: "int \<Rightarrow> uuid \<Rightarrow> string option \<Rightarrow> leave_request \<Rightarrow> leave_request" where
  "decided now actor reason r =
     r\<lparr>lr_decidedAt := Some now, lr_decidedBy := Some actor, lr_decisionReason := reason\<rparr>"

definition approve_leave :: "int \<Rightarrow> uuid \<Rightarrow> uuid \<Rightarrow> uuid \<Rightarrow> string option \<Rightarrow> (hr_db, leave_request) svc" where
  "approve_leave now t i actor reason = transition_leave t i LeaveApproved (decided now actor reason)"

definition reject_leave :: "int \<Rightarrow> uuid \<Rightarrow> uuid \<Rightarrow> uuid \<Rightarrow> string option \<Rightarrow> (hr_db, leave_request) svc" where
  "reject_leave now t i actor reason = transition_leave t i LeaveRejected (decided now actor reason)"

definition cancel_leave :: "int \<Rightarrow> uuid \<Rightarrow> uuid \<Rightarrow> uuid \<Rightarrow> string option \<Rightarrow> (hr_db, leave_request) svc" where
  "cancel_leave now t i actor reason = transition_leave t i LeaveCancelled (decided now actor reason)"

section \<open>Attendance\<close>

text \<open>The date of the request, or now, at midnight UTC.\<close>

definition parse_date :: "int \<Rightarrow> int option \<Rightarrow> int" where
  "parse_date now d = nullish d now div MS_PER_DAY * MS_PER_DAY"

record clock_in_input =
  cin_employeeId :: uuid
  cin_date :: "int option"
  cin_at :: "int option"
  cin_location :: "attendance_location option"
  cin_locationLabel :: "string option"

record clock_out_input =
  co_employeeId :: uuid
  co_date :: "int option"
  co_at :: "int option"
  co_breakMinutes :: "int option"
  co_notes :: "string option"

definition find_attendance :: "uuid \<Rightarrow> uuid \<Rightarrow> int \<Rightarrow> hr_db \<Rightarrow> attendance option" where
  "find_attendance t e d s =
     find (\<lambda>a. tenantId a = t \<and> at_employeeId a = e \<and> at_date a = d) (attendances s)"

definition save_attendance :: "attendance \<Rightarrow> (hr_db, attendance) svc" where
  "save_attendance a = seq (modify (attendances_update (save_row a))) (ret a)"

definition clock_in ::
  "int \<Rightarrow> uuid \<Rightarrow> uuid \<Rightarrow> uuid option \<Rightarrow> clock_in_input \<Rightarrow> (hr_db, attendance) svc" where
  "clock_in now newId t actor dto =
     (let date = parse_date now (cin_date dto); instant = nullish (cin_at dto) now in
      bind (gets (find_attendance t (cin_employeeId dto) date)) (\<lambda>found.
      case found of
        Some row \<Rightarrow>
          seq (throw_if (at_status row \<noteq> AttOpen) BadRequest)
            (save_attendance (row\<lparr>at_clockInAt := Some instant,
               at_location := nullish (cin_location dto) (at_location row),
               at_locationLabel := or_else (cin_locationLabel dto) (at_locationLabel row)\<rparr>))
      | None \<Rightarrow>
          save_attendance
            \<lparr>ent_id = newId, tenantId = t, at_employeeId = cin_employeeId dto, at_date = date,
             at_clockInAt = Some instant, at_clockOutAt = None, at_breakMinutes = 0, at_workedHours = ''0'',
             at_location = nullish (cin_location dto) AtOffice, at_locationLabel = cin_locationLabel dto,
             at_status = AttOpen, at_notes = None, at_recordedBy = actor\<rparr>))"

text \<open>Net hours between two instants, to two decimals.\<close>

definition net_minutes :: "int \<Rightarrow> int \<Rightarrow> int \<Rightarrow> jsnum" where
  "net_minutes start finish breakMinutes =
     max 0 (js_sub (js_div (of_int (finish - start)) (of_int (60 * 1000))) (of_int breakMinutes))"

definition worked_hours :: "int \<Rightarrow> int \<Rightarrow> int \<Rightarrow> jsnum" where
  "worked_hours start finish breakMinutes =
     js_div (of_int (math_round (js_mul (js_div (net_minutes start finish breakMinutes) 60) 100))) 100"

definition clock_out :: "int \<Rightarrow> uuid \<Rightarrow> clock_out_input \<Rightarrow> (hr_db, attendance) svc" where
  "clock_out now t dto =
     (let date = parse_date now (co_date dto); instant = nullish (co_at dto) now in
      bind (gets (find_attendance t (co_employeeId dto) date)) (\<lambda>found.
      bind (require found NotFound) (\<lambda>row.
      seq (throw_if (at_status row \<noteq> AttOpen) BadRequest)
     (bind (require (at_clockInAt row) BadRequest) (\<lambda>start.
      seq (throw_if (instant < start) BadRequest)
     (let breaks = nullish (co_breakMinutes dto) (at_breakMinutes row) in
      bind (lift (assert_attendance (at_status row) AttClosed)) (\<lambda>_.
      save_attendance (row\<lparr>at_clockOutAt := Some instant, at_breakMinutes := breaks,
        at_notes := or_else (co_notes dto) (at_notes row),
        at_workedHours := fixed2_text (worked_hours start instant breaks), at_status := AttClosed\<rparr>))))))))"

record attendance_filter =
  af_employeeId :: "uuid option"
  af_fromDate :: "int option"
  af_toDate :: "int option"
  af_status :: "attendance_status option"

definition list_attendances :: "uuid \<Rightarrow> attendance_filter \<Rightarrow> (hr_db, attendance list) svc" where
  "list_attendances t q =
     gets (\<lambda>s. sort_key (\<lambda>a. - at_date a) (sort_key at_employeeId (filter
       (\<lambda>a. tenantId a = t \<and> (af_employeeId q = None \<or> af_employeeId q = Some (at_employeeId a)) \<and>
          (case af_fromDate q of None \<Rightarrow> True | Some d \<Rightarrow> d \<le> at_date a) \<and>
          (case af_toDate q of None \<Rightarrow> True | Some d \<Rightarrow> at_date a \<le> d) \<and>
          (af_status q = None \<or> af_status q = Some (at_status a))) (attendances s))))"

text \<open>The sweep closes what was left open; an end at 23:59 stands in for the missing one.\<close>

definition end_of_day :: "int \<Rightarrow> int" where
  "end_of_day d = d div MS_PER_DAY * MS_PER_DAY + (23 * 60 + 59) * 60 * 1000"

definition swept :: "attendance \<Rightarrow> attendance" where
  "swept row =
     (let closed = row\<lparr>at_status := AttAutoClosed\<rparr>
      in case at_clockInAt row of
           None \<Rightarrow> closed
         | Some start \<Rightarrow>
             if at_clockOutAt row \<noteq> None then closed
             else closed\<lparr>at_clockOutAt := Some (end_of_day (at_date row)),
               at_workedHours := fixed2_text (worked_hours start (end_of_day (at_date row)) (at_breakMinutes row))\<rparr>)"

definition orphans_of :: "uuid \<Rightarrow> int \<Rightarrow> hr_db \<Rightarrow> attendance list" where
  "orphans_of t cutoff s =
     filter (\<lambda>a. tenantId a = t \<and> at_status a = AttOpen \<and> at_date a < cutoff) (attendances s)"

definition sweep_orphans :: "uuid \<Rightarrow> int \<Rightarrow> (hr_db, nat) svc" where
  "sweep_orphans t cutoff =
     bind (gets (orphans_of t cutoff)) (\<lambda>orphans.
     seq (for_each (\<lambda>row. if can_attendance (at_status row) AttAutoClosed
                          then modify (attendances_update (save_row (swept row))) else ret ()) orphans)
       (ret (length orphans)))"

end
