(* ===== verification/HrProps.thy ===== *)
theory HrProps
  imports Hr
begin

text \<open>
  Correctness of the human resources module: employees of a tenant are numbered in sequence
  and never share a fiscal code; an employee has at most one attendance record a day, whose
  hours are those between its two instants, and which is final once it is closed.
\<close>

section \<open>Employee numbers\<close>

lemma pad_digits: "c \<in> set (pad_start k CHR ''0'' (dec n)) \<Longrightarrow> is_digit c"
  by (rule pad_start_digits [OF dec_digits])

lemma emp_match_number: "emp_match (emp_number n) = Some (pad_start 4 CHR ''0'' (dec n))"
proof -
  let ?d = "pad_start 4 CHR ''0'' (dec n)"
  have digits: "takeWhile is_digit ?d = ?d" by (simp add: takeWhile_eq_all_conv pad_digits)
  have "?d \<noteq> []" by (metis length_pad_start list.size(3) max_nat.neutr_eq_iff zero_neq_numeral)
  then show ?thesis by (simp add: emp_number_def Let_def digits)
qed

text \<open>The numbers of a tenant, in the order of the table.\<close>

definition employee_numbers :: "uuid \<Rightarrow> employee list \<Rightarrow> string list" where
  "employee_numbers t rows =
     map snd (filter (\<lambda>p. fst p = t) (map (\<lambda>e. (tenantId e, em_employeeNumber e)) rows))"

lemma employee_numbers_rows: "employee_numbers t rows = map em_employeeNumber (tenant_rows t rows)"
  by (simp add: employee_numbers_def tenant_rows_def filter_map comp_def)

definition numbers_in_sequence :: "employee list \<Rightarrow> bool" where
  "numbers_in_sequence rows \<longleftrightarrow>
     (\<forall>t. employee_numbers t rows = map (\<lambda>k. emp_number (k + 1)) [0..<length (employee_numbers t rows)])"

lemma next_employee_number_sequence:
  assumes "numbers_in_sequence (employees s)"
  shows "next_employee_number t s = Inr (emp_number (length (employee_numbers t (employees s)) + 1))"
proof (cases "tenant_rows t (employees s)" rule: rev_cases)
  case Nil
  have "emp_number 1 = ''EMP-0001''" by code_simp
  then show ?thesis using Nil by (simp add: next_employee_number_def employee_numbers_rows)
next
  case (snoc rows e)
  have "map em_employeeNumber (rows @ [e]) = map (\<lambda>k. emp_number (k + 1)) [0..<Suc (length rows)]"
    using assms [unfolded numbers_in_sequence_def, rule_format, of t] snoc by (simp add: employee_numbers_rows)
  then have "em_employeeNumber e = emp_number (length rows + 1)" by simp
  then show ?thesis
    using snoc by (simp add: next_employee_number_def employee_numbers_rows emp_match_number parse_dec_pad)
qed

definition employees_ok :: "employee list \<Rightarrow> bool" where
  "employees_ok rows \<longleftrightarrow> keyed rows \<and> numbers_in_sequence rows \<and>
     (\<forall>a\<in>set rows. \<forall>b\<in>set rows. tenantId a = tenantId b \<and> truthy (em_fiscalCode a) \<and>
        em_fiscalCode a = em_fiscalCode b \<longrightarrow> a = b)"

lemma find_fiscal_code_None:
  "find_fiscal_code t code s = None \<longleftrightarrow> (\<forall>e\<in>set (employees s). tenantId e = t \<longrightarrow> em_fiscalCode e \<noteq> code)"
  by (auto simp: find_fiscal_code_def find_None_iff)

lemma employees_ok_insert:
  assumes "employees_ok (employees s)" and "fresh (ent_id e) (employees s)"
    and "next_employee_number (tenantId e) s = Inr (em_employeeNumber e)"
    and "truthy (em_fiscalCode e) \<longrightarrow> find_fiscal_code (tenantId e) (em_fiscalCode e) s = None"
  shows "employees_ok (save_row e (employees s))"
proof -
  have seq: "numbers_in_sequence (employees s)" using assms(1) by (simp add: employees_ok_def)
  have number: "em_employeeNumber e = emp_number (length (employee_numbers (tenantId e) (employees s)) + 1)"
    using assms(3) next_employee_number_sequence [OF seq] by simp
  have "employee_numbers t (employees s @ [e]) = map (\<lambda>k. emp_number (k + 1)) [0..<length (employee_numbers t (employees s @ [e]))]" for t
    using seq [unfolded numbers_in_sequence_def, rule_format, of t] number by (simp add: employee_numbers_def)
  then have "numbers_in_sequence (employees s @ [e])" by (simp add: numbers_in_sequence_def)
  moreover have "save_row e (employees s) = employees s @ [e]" using assms(2) by (rule fresh_save_row)
  moreover have "\<forall>a\<in>set (employees s). tenantId a = tenantId e \<and> truthy (em_fiscalCode e) \<longrightarrow> em_fiscalCode a \<noteq> em_fiscalCode e"
    using assms(4) by (auto simp: find_fiscal_code_None)
  ultimately show ?thesis
    using assms(1,2) by (auto simp: employees_ok_def keyed_def fresh_def)
qed

lemma employees_ok_update:
  assumes "employees_ok rows" and "old \<in> set rows" and "ent_id e = ent_id old" "tenantId e = tenantId old"
    "em_employeeNumber e = em_employeeNumber old"
    and code: "em_fiscalCode e = em_fiscalCode old \<or>
      (truthy (em_fiscalCode e) \<longrightarrow> (\<forall>b\<in>set rows. tenantId b = tenantId old \<and> em_fiscalCode b = em_fiscalCode e \<longrightarrow> b = old))"
  shows "employees_ok (save_row e rows)"
proof -
  have k: "keyed rows" using assms(1) by (simp add: employees_ok_def)
  have "map (\<lambda>e. (tenantId e, em_employeeNumber e)) (save_row e rows) = map (\<lambda>e. (tenantId e, em_employeeNumber e)) rows"
    by (rule map_save_row [OF k assms(2,3)]) (simp add: assms(4,5))
  then have "numbers_in_sequence (save_row e rows)"
    using assms(1) by (simp add: employees_ok_def numbers_in_sequence_def employee_numbers_def)
  moreover have "a = b" if ab: "a \<in> set (save_row e rows)" "b \<in> set (save_row e rows)" "tenantId a = tenantId b"
      "truthy (em_fiscalCode a)" "em_fiscalCode a = em_fiscalCode b" for a b
  proof -
    have other: "x = old" if "x \<in> set rows" "tenantId x = tenantId e" "em_fiscalCode x = em_fiscalCode e"
      "truthy (em_fiscalCode e)" for x
      using that assms(1,2,4) code unfolding employees_ok_def by metis
    have "a \<in> set rows \<Longrightarrow> b \<in> set rows \<Longrightarrow> a = b" using ab(3-5) assms(1) unfolding employees_ok_def by blast
    moreover have "a = e \<or> a \<in> set rows \<and> ent_id a \<noteq> ent_id old" "b = e \<or> b \<in> set rows \<and> ent_id b \<noteq> ent_id old"
      using ab(1,2) k assms(3) by (simp_all add: set_save_row)
    moreover have "a = e \<Longrightarrow> b \<in> set rows \<Longrightarrow> b = old" "b = e \<Longrightarrow> a \<in> set rows \<Longrightarrow> a = old"
      using ab(3-5) other by (metis, metis)
    ultimately show ?thesis by blast
  qed
  ultimately show ?thesis using k by (auto simp: employees_ok_def keyed_save_row)
qed

section \<open>Requests\<close>

text \<open>One step per successful request of the module; new rows get fresh keys.\<close>

inductive hr_step :: "hr_db \<Rightarrow> hr_db \<Rightarrow> bool" where
  hire: "create_employee n t ei s = (Inr e, s') \<Longrightarrow> fresh n (employees s) \<Longrightarrow> hr_step s s'"
| change: "update_employee t i eu s = (Inr e, s') \<Longrightarrow> hr_step s s'"
| onboard: "start_onboarding t i d s = (Inr e, s') \<Longrightarrow> hr_step s s'"
| activate: "activate_employee now t i d s = (Inr e, s') \<Longrightarrow> hr_step s s'"
| dismiss: "terminate_employee t i d why s = (Inr e, s') \<Longrightarrow> hr_step s s'"
| ask_leave: "create_leave n t li s = (Inr r, s') \<Longrightarrow> hr_step s s'"
| submit_leave: "submit_leave now t i s = (Inr r, s') \<Longrightarrow> hr_step s s'"
| approve_leave: "approve_leave now t i actor why s = (Inr r, s') \<Longrightarrow> hr_step s s'"
| reject_leave: "reject_leave now t i actor why s = (Inr r, s') \<Longrightarrow> hr_step s s'"
| cancel_leave: "cancel_leave now t i actor why s = (Inr r, s') \<Longrightarrow> hr_step s s'"
| clock_in: "clock_in now n t actor ci s = (Inr a, s') \<Longrightarrow> fresh n (attendances s) \<Longrightarrow> hr_step s s'"
| clock_out: "clock_out now t co s = (Inr a, s') \<Longrightarrow> hr_step s s'"
| sweep: "sweep_orphans t cutoff s = (Inr k, s') \<Longrightarrow> hr_step s s'"

lemma transition_leave_frame:
  "transition_leave t i next app s = (Inr r, s') \<Longrightarrow> employees s' = employees s \<and> attendances s' = attendances s"
  by (auto simp: transition_leave_def get_leave_def save_leave_def svc_simps)

lemma leave_frames:
  "create_leave n t li s = (Inr r, s') \<Longrightarrow> employees s' = employees s \<and> attendances s' = attendances s"
  "submit_leave now t i s = (Inr r, s') \<Longrightarrow> employees s' = employees s \<and> attendances s' = attendances s"
  "approve_leave now t i actor why s = (Inr r, s') \<Longrightarrow> employees s' = employees s \<and> attendances s' = attendances s"
  "reject_leave now t i actor why s = (Inr r, s') \<Longrightarrow> employees s' = employees s \<and> attendances s' = attendances s"
  "cancel_leave now t i actor why s = (Inr r, s') \<Longrightarrow> employees s' = employees s \<and> attendances s' = attendances s"
  unfolding submit_leave_def approve_leave_def reject_leave_def cancel_leave_def
  by (auto simp: create_leave_def save_leave_def svc_simps dest: transition_leave_frame)

lemma employee_frame:
  "create_employee n t ei s = (Inr e, s') \<Longrightarrow> attendances s' = attendances s"
  "update_employee t i eu s = (Inr e, s') \<Longrightarrow> attendances s' = attendances s"
  "transition_employee t i next app s = (Inr e, s') \<Longrightarrow> attendances s' = attendances s"
  by (auto simp: create_employee_def update_employee_def transition_employee_def get_employee_def save_employee_def svc_simps)

lemma sweep_loop:
  "list_all (\<lambda>r. at_status r = AttOpen) rows \<Longrightarrow>
     for_each (\<lambda>row. if can_attendance (at_status row) AttAutoClosed
        then modify (attendances_update (save_row (swept row))) else ret ()) rows s =
     (Inr (), attendances_update (save_rows (map swept rows)) s)"
  by (induction rows arbitrary: s) (simp_all add: svc_defs save_rows_def can_attendance_def comp_def)

lemma save_rows_map:
  assumes "keyed rows" and "distinct rs" and "set rs \<subseteq> set rows" and f: "\<And>x. ent_id (f x) = ent_id x"
  shows "save_rows (map f rs) rows = map (\<lambda>x. if x \<in> set rs then f x else x) rows"
  using assms(1-3)
proof (induction rs arbitrary: rows)
  case Nil
  then show ?case by (simp add: save_rows_def)
next
  case (Cons r rs)
  have r: "r \<in> set rows" using Cons.prems(3) by simp
  have one: "save_row (f r) rows = map (\<lambda>x. if x = r then f r else x) rows"
    using table.key_inj [OF Cons.prems(1) _ r] r f [of r] by (auto simp: save_row_def image_iff)
  have self: "f r \<in> set rs \<Longrightarrow> f r = r"
    using table.key_inj [OF Cons.prems(1) _ r, of "f r"] Cons.prems(3) f by auto
  have "save_rows (map f rs) (save_row (f r) rows) = map (\<lambda>x. if x \<in> set rs then f x else x) (save_row (f r) rows)"
  proof (rule Cons.IH)
    show "set rs \<subseteq> set (save_row (f r) rows)" using Cons.prems(2,3) by (auto simp: one)
  qed (use Cons.prems in \<open>simp_all add: keyed_save_row\<close>)
  also have "\<dots> = map (\<lambda>x. if x \<in> set (r # rs) then f x else x) rows"
    using self Cons.prems(2) by (auto simp: one)
  finally show ?case by (simp add: save_rows_def)
qed

lemma swept_sel [simp]:
  "ent_id (swept a) = ent_id a" "tenantId (swept a) = tenantId a" "at_employeeId (swept a) = at_employeeId a"
  "at_date (swept a) = at_date a" "at_status (swept a) = AttAutoClosed"
  by (simp_all add: swept_def Let_def split: option.split)

lemma sweep_orphans_Inr:
  assumes "sweep_orphans t cutoff s = (Inr k, s')" and "keyed (attendances s)"
  shows "employees s' = employees s \<and>
    attendances s' = map (\<lambda>a. if a \<in> set (orphans_of t cutoff s) then swept a else a) (attendances s)"
proof -
  have "distinct (attendances s)" using assms(2) by (simp add: keyed_def distinct_map)
  then have "save_rows (map swept (orphans_of t cutoff s)) (attendances s) =
      map (\<lambda>a. if a \<in> set (orphans_of t cutoff s) then swept a else a) (attendances s)"
    by (intro save_rows_map assms(2)) (auto simp: orphans_of_def)
  moreover have "list_all (\<lambda>r. at_status r = AttOpen) (orphans_of t cutoff s)"
    by (simp add: orphans_of_def list_all_iff)
  ultimately show ?thesis using assms(1)
    by (auto simp: sweep_orphans_def svc_simps sweep_loop simp del: for_each.simps)
qed

section \<open>Employees\<close>

definition employee_dates_ok :: "employee \<Rightarrow> bool" where
  "employee_dates_ok e \<longleftrightarrow> (em_status e = EmpActive \<longrightarrow> em_hireDate e \<noteq> None) \<and>
     (em_status e = EmpTerminated \<longrightarrow> em_terminationDate e \<noteq> None)"

definition employee_inv :: "hr_db \<Rightarrow> bool" where
  "employee_inv s \<longleftrightarrow> employees_ok (employees s) \<and> (\<forall>e\<in>set (employees s). employee_dates_ok e)"

lemma employee_inv_update:
  assumes "employee_inv s" and "find_scoped t i (employees s) = Some old"
    and "ent_id e = ent_id old" "tenantId e = tenantId old" "em_employeeNumber e = em_employeeNumber old"
    and "em_fiscalCode e = em_fiscalCode old \<or> (truthy (em_fiscalCode e) \<longrightarrow>
      (\<forall>b\<in>set (employees s). tenantId b = tenantId old \<and> em_fiscalCode b = em_fiscalCode e \<longrightarrow> b = old))"
    and "employee_dates_ok e" and "employees s' = save_row e (employees s)"
  shows "employee_inv s'"
  using assms find_scoped_Some [OF assms(2)] employees_ok_update [OF _ _ assms(3-6)]
  by (auto simp: employee_inv_def set_save_row employees_ok_def)

lemma transition_employee_inv:
  assumes "transition_employee t i next app s = (Inr e', s')" and "employee_inv s"
    and "\<And>e. ent_id (app e) = ent_id e \<and> tenantId (app e) = tenantId e \<and>
      em_employeeNumber (app e) = em_employeeNumber e \<and> em_fiscalCode (app e) = em_fiscalCode e"
    and "\<And>e. employee_dates_ok ((app e)\<lparr>em_status := next\<rparr>)"
  shows "employee_inv s'"
proof -
  obtain e where e: "find_scoped t i (employees s) = Some e" "e' = (app e)\<lparr>em_status := next\<rparr>"
      "s' = employees_update (save_row e') s"
    using assms(1) by (auto simp: transition_employee_def get_employee_def save_employee_def svc_simps)
  show ?thesis
    by (rule employee_inv_update [OF assms(2) e(1), where e = e']) (use e assms(3,4) in simp_all)
qed

lemma employee_step_inv:
  assumes "hr_step s s'" and inv: "employee_inv s"
  shows "employee_inv s'"
  using assms(1)
proof cases
  case (hire n t ei e)
  then have e: "next_employee_number t s = Inr (em_employeeNumber e)" "e = new_employee n t (em_employeeNumber e) ei"
      "truthy (ei_fiscalCode ei) \<longrightarrow> find_fiscal_code t (ei_fiscalCode ei) s = None"
      "employees s' = save_row e (employees s)"
    by (auto simp: create_employee_def save_employee_def svc_simps new_employee_def)
  have sel: "ent_id e = n" "tenantId e = t" "em_fiscalCode e = ei_fiscalCode ei" "em_status e = EmpProspect"
    by (subst e(2), simp add: new_employee_def)+
  have "employees_ok (save_row e (employees s))"
    using inv hire(2) e(1,3) sel by (intro employees_ok_insert) (simp_all add: employee_inv_def)
  then show ?thesis using inv sel(4) e(4) hire(2) sel(1)
    by (auto simp: employee_inv_def employee_dates_ok_def fresh_save_row)
next
  case (change t i eu e')
  then obtain e where e: "find_scoped t i (employees s) = Some e" "e' = employee_updated eu e"
      "s' = employees_update (save_row e') s"
      "\<not> (truthy (eu_fiscalCode eu) \<and> eu_fiscalCode eu \<noteq> em_fiscalCode e \<and>
         (case find_fiscal_code t (eu_fiscalCode eu) s of None \<Rightarrow> False | Some d \<Rightarrow> ent_id d \<noteq> i))"
    by (auto simp: update_employee_def get_employee_def save_employee_def svc_simps)
  have old: "e \<in> set (employees s)" "ent_id e = i" "tenantId e = t" using find_scoped_Some [OF e(1)] by simp_all
  show ?thesis
  proof (rule employee_inv_update [OF inv e(1), where e = e'])
    show "em_fiscalCode e' = em_fiscalCode e \<or> (truthy (em_fiscalCode e') \<longrightarrow>
      (\<forall>b\<in>set (employees s). tenantId b = tenantId e \<and> em_fiscalCode b = em_fiscalCode e' \<longrightarrow> b = e))"
    proof (cases "find_fiscal_code t (eu_fiscalCode eu) s")
      case None
      then show ?thesis using e(2) old(3)
        by (auto simp: employee_updated_def or_else_def find_fiscal_code_None split: option.splits)
    next
      case (Some d)
      have d: "d \<in> set (employees s)" "tenantId d = t" "em_fiscalCode d = eu_fiscalCode eu"
        using Some by (auto simp: find_fiscal_code_def find_Some_iff)
      have "d = e" if "ent_id d = i"
        using that d(1) old inv table.key_inj [of "employees s" d e] by (simp add: employee_inv_def employees_ok_def)
      then have "truthy (eu_fiscalCode eu) \<Longrightarrow> eu_fiscalCode eu = em_fiscalCode e"
        using e(4) Some d(3) by auto
      then show ?thesis using e(2)
        by (cases "eu_fiscalCode eu"; cases "truthy (eu_fiscalCode eu)")
          (simp_all add: employee_updated_def or_else_def)
    qed
    show "employee_dates_ok e'"
      using inv old(1) e(2) by (simp add: employee_inv_def employee_dates_ok_def employee_updated_def)
  qed (use e in \<open>simp_all add: employee_updated_def\<close>)
next
  case (onboard t i d e)
  show ?thesis
    by (rule transition_employee_inv [OF onboard [unfolded start_onboarding_def] inv]) (simp_all add: employee_dates_ok_def)
next
  case (activate now t i d e)
  show ?thesis
    by (rule transition_employee_inv [OF activate [unfolded activate_employee_def] inv])
      (auto simp: employee_dates_ok_def Let_def truthy_def split: option.splits)
next
  case (dismiss t i d why e)
  show ?thesis
    by (rule transition_employee_inv [OF dismiss [unfolded terminate_employee_def] inv]) (simp_all add: employee_dates_ok_def)
next
  case (clock_in now n t actor ci a)
  then have "employees s' = employees s"
    by (auto simp: clock_in_def save_attendance_def svc_simps Let_def split: option.splits)
  then show ?thesis using inv by (simp add: employee_inv_def)
next
  case (clock_out now t co a)
  then have "employees s' = employees s" by (auto simp: clock_out_def save_attendance_def svc_simps Let_def)
  then show ?thesis using inv by (simp add: employee_inv_def)
next
  case (sweep t cutoff k)
  then have "employees s' = employees s"
    by (auto simp: sweep_orphans_def svc_simps sweep_loop orphans_of_def list_all_iff simp del: for_each.simps)
  then show ?thesis using inv by (simp add: employee_inv_def)
qed (use inv in \<open>auto simp: employee_inv_def dest!: leave_frames\<close>)

section \<open>Attendance records\<close>

text \<open>
  A record is open with nothing but a start, closed with an end after its start, or closed
  by the sweep with the end of its day; its hours are those between its two instants.
\<close>

fun attendance_ok :: "attendance \<Rightarrow> bool" where
  "attendance_ok a \<longleftrightarrow> at_date a mod MS_PER_DAY = 0 \<and>
     (case at_clockInAt a of None \<Rightarrow> False | Some start \<Rightarrow>
       (case at_status a of
          AttOpen \<Rightarrow> at_clockOutAt a = None \<and> at_workedHours a = ''0''
        | AttClosed \<Rightarrow> (case at_clockOutAt a of None \<Rightarrow> False | Some finish \<Rightarrow> start \<le> finish \<and>
            at_workedHours a = fixed2_text (worked_hours start finish (at_breakMinutes a)))
        | AttAutoClosed \<Rightarrow> at_clockOutAt a = Some (end_of_day (at_date a)) \<and>
            at_workedHours a = fixed2_text (worked_hours start (end_of_day (at_date a)) (at_breakMinutes a))))"

definition day_key :: "attendance \<Rightarrow> uuid \<times> uuid \<times> int" where
  "day_key a = (tenantId a, at_employeeId a, at_date a)"

definition attendance_inv :: "hr_db \<Rightarrow> bool" where
  "attendance_inv s \<longleftrightarrow> keyed (attendances s) \<and> list_all attendance_ok (attendances s) \<and>
     inj_on day_key (set (attendances s))"

lemma find_attendance_None:
  "find_attendance t e d s = None \<longleftrightarrow> (t, e, d) \<notin> day_key ` set (attendances s)"
  by (auto simp: find_attendance_def find_None_iff day_key_def image_iff)

lemma find_attendance_Some: "find_attendance t e d s = Some a \<Longrightarrow> a \<in> set (attendances s) \<and> day_key a = (t, e, d)"
  by (auto simp: find_attendance_def find_Some_iff day_key_def)

text \<open>What a successful clocking did to the table: a new record, or a change of an open one.\<close>

definition clocked :: "attendance \<Rightarrow> hr_db \<Rightarrow> hr_db \<Rightarrow> bool" where
  "clocked a s s' \<longleftrightarrow> attendances s' = save_row a (attendances s) \<and> attendance_ok a \<and>
     (fresh (ent_id a) (attendances s) \<and> day_key a \<notin> day_key ` set (attendances s) \<or>
      (\<exists>row\<in>set (attendances s). ent_id a = ent_id row \<and> day_key a = day_key row \<and> at_status row = AttOpen))"

lemma parse_date_midnight: "parse_date now d mod MS_PER_DAY = 0"
  by (simp add: parse_date_def)

lemma clock_in_clocked:
  assumes "clock_in now n t actor ci s = (Inr a, s')" and "fresh n (attendances s)" and "attendance_inv s"
  shows "clocked a s s'"
proof (cases "find_attendance t (cin_employeeId ci) (parse_date now (cin_date ci)) s")
  case None
  let ?d = "parse_date now (cin_date ci)"
  have key: "(t, cin_employeeId ci, ?d) \<notin> day_key ` set (attendances s)"
    using None by (simp add: find_attendance_None)
  have a: "attendances s' = save_row a (attendances s)" "ent_id a = n" "day_key a = (t, cin_employeeId ci, ?d)"
      "attendance_ok a"
    using assms(1) None
    by (auto simp: clock_in_def save_attendance_def svc_simps Let_def parse_date_midnight day_key_def)
  then show ?thesis using assms(2) key by (simp add: clocked_def del: attendance_ok.simps)
next
  case (Some row)
  then have row: "row \<in> set (attendances s)" "attendance_ok row"
    using assms(3) find_attendance_Some [OF Some] by (auto simp: attendance_inv_def list_all_iff)
  then show ?thesis using assms(1) Some
    by (auto simp: clock_in_def save_attendance_def svc_simps Let_def clocked_def day_key_def
        split: option.splits intro!: bexI [of _ row])
qed

lemma clock_out_clocked:
  assumes "clock_out now t co s = (Inr a, s')" and "attendance_inv s"
  shows "clocked a s s'"
proof -
  obtain row where row: "find_attendance t (co_employeeId co) (parse_date now (co_date co)) s = Some row"
    using assms(1) by (auto simp: clock_out_def svc_simps Let_def)
  then have "row \<in> set (attendances s)" "attendance_ok row"
    using assms(2) find_attendance_Some [OF row] by (auto simp: attendance_inv_def list_all_iff)
  then show ?thesis using assms(1) row
    by (auto simp: clock_out_def save_attendance_def svc_simps Let_def clocked_def day_key_def
        split: option.splits intro!: bexI [of _ row])
qed

definition closed_kept :: "hr_db \<Rightarrow> hr_db \<Rightarrow> bool" where
  "closed_kept s s' \<longleftrightarrow> (\<forall>a\<in>set (attendances s). at_status a \<noteq> AttOpen \<longrightarrow> a \<in> set (attendances s'))"

lemma clocked_inv:
  assumes "clocked a s s'" and inv: "attendance_inv s"
  shows "attendance_inv s' \<and> closed_kept s s'"
proof -
  have k: "keyed (attendances s)" "inj_on day_key (set (attendances s))" "\<forall>x\<in>set (attendances s). attendance_ok x"
    using inv by (simp_all add: attendance_inv_def list_all_iff)
  have a: "attendances s' = save_row a (attendances s)" "attendance_ok a" using assms(1) by (simp_all add: clocked_def)
  have rows: "set (attendances s') = insert a {x \<in> set (attendances s). ent_id x \<noteq> ent_id a}"
    by (simp only: a(1) set_save_row [OF k(1)])
  have other: "day_key a \<notin> day_key ` {x \<in> set (attendances s). ent_id x \<noteq> ent_id a} \<and>
      (\<forall>x\<in>set (attendances s). at_status x \<noteq> AttOpen \<longrightarrow> ent_id x \<noteq> ent_id a)"
    using assms(1) unfolding clocked_def
  proof (elim conjE disjE bexE)
    fix row
    assume row: "row \<in> set (attendances s)" "ent_id a = ent_id row" "day_key a = day_key row" "at_status row = AttOpen"
    have "x = row" if "x \<in> set (attendances s)" "ent_id x = ent_id row \<or> day_key x = day_key row" for x
      using that(2)
    proof
      assume "ent_id x = ent_id row"
      then show ?thesis by (rule table.key_inj [OF k(1) that(1) row(1)])
    next
      assume "day_key x = day_key row"
      then show ?thesis by (rule inj_onD [OF k(2) _ that(1) row(1)])
    qed
    then have "x = row" if "x \<in> set (attendances s)" "ent_id x = ent_id a \<or> day_key a = day_key x" for x
      using that row(2,3) by metis
    then show ?thesis using row(2,4) by (auto simp: image_iff)
  next
    assume "fresh (ent_id a) (attendances s)" "day_key a \<notin> day_key ` set (attendances s)"
    then show ?thesis unfolding fresh_def by (metis (no_types, lifting) image_eqI image_iff mem_Collect_eq)
  qed
  have "inj_on day_key {x \<in> set (attendances s). ent_id x \<noteq> ent_id a}" using k(2) by (rule inj_on_subset) auto
  then have "inj_on day_key (set (attendances s'))" using other unfolding rows inj_on_insert by (auto simp: image_iff)
  then show ?thesis using k(1,3) a other rows
    by (simp add: attendance_inv_def list_all_iff closed_kept_def keyed_save_row del: attendance_ok.simps)
qed

lemma swept_ok: "attendance_ok a \<Longrightarrow> at_status a = AttOpen \<Longrightarrow> attendance_ok (swept a)"
  by (auto simp: swept_def Let_def split: option.splits)

lemma attendance_step_inv:
  assumes "hr_step s s'" and inv: "attendance_inv s"
  shows "attendance_inv s' \<and> closed_kept s s'"
proof -
  have same: ?thesis if "attendances s' = attendances s"
    using that inv by (simp add: attendance_inv_def closed_kept_def)
  show ?thesis using assms(1)
  proof cases
    case (clock_in now n t actor ci a)
    then show ?thesis using clock_in_clocked clocked_inv inv by blast
  next
    case (clock_out now t co a)
    then show ?thesis using clock_out_clocked clocked_inv inv by blast
  next
    case (sweep t cutoff k)
    define f where "f = (\<lambda>a. if a \<in> set (orphans_of t cutoff s) then swept a else a)"
    have rows: "attendances s' = map f (attendances s)"
      using sweep_orphans_Inr [OF sweep] inv by (simp add: attendance_inv_def f_def)
    have f: "ent_id (f a) = ent_id a" "day_key (f a) = day_key a" for a by (simp_all add: f_def day_key_def)
    have ok: "attendance_ok a \<Longrightarrow> attendance_ok (f a)" for a
      unfolding f_def using swept_ok by (simp add: orphans_of_def del: attendance_ok.simps)
    have "at_status a \<noteq> AttOpen \<Longrightarrow> f a = a" for a by (simp add: f_def orphans_of_def)
    then have "closed_kept s s'" by (force simp: closed_kept_def rows)
    moreover have "keyed (attendances s')" using inv by (simp add: attendance_inv_def keyed_def rows comp_def f)
    moreover have "inj_on day_key (set (attendances s'))"
      using inv by (auto simp: attendance_inv_def rows inj_on_def f)
    moreover have "list_all attendance_ok (attendances s')"
      using inv ok by (simp add: attendance_inv_def rows list_all_iff del: attendance_ok.simps)
    ultimately show ?thesis by (simp add: attendance_inv_def)
  qed (use same in \<open>auto simp: start_onboarding_def activate_employee_def terminate_employee_def
      dest!: leave_frames employee_frame\<close>)
qed

lemma employee_run_inv: "hr_step\<^sup>*\<^sup>* s s' \<Longrightarrow> employee_inv s \<Longrightarrow> employee_inv s'"
  by (induction rule: rtranclp_induct) (auto intro: employee_step_inv)

lemma attendance_run_inv:
  "hr_step\<^sup>*\<^sup>* s s' \<Longrightarrow> attendance_inv s \<Longrightarrow> attendance_inv s' \<and> closed_kept s s'"
proof (induction rule: rtranclp_induct)
  case (step u v)
  then show ?case using attendance_step_inv [OF step(2)] by (auto simp: closed_kept_def)
qed (simp add: closed_kept_def)

text \<open>
  C24. From an empty register, after any run of requests of the module, the employees of every
  tenant carry the numbers \<^verbatim>\<open>EMP-0001\<close>, \<^verbatim>\<open>EMP-0002\<close> and so on in the order of their
  creation, no two employees of a tenant share a fiscal code, whoever is active has a hire
  date and whoever was dismissed has a termination date.
\<close>

theorem employees_numbered_in_sequence:
  assumes "hr_step\<^sup>*\<^sup>* s0 s" and "employees s0 = []"
  shows "employee_numbers t (employees s)
        = map (\<lambda>k. emp_number (k + 1)) [0..<length (filter (\<lambda>e. tenantId e = t) (employees s))] \<and>
    inj_on em_fiscalCode {e \<in> set (employees s). tenantId e = t \<and> truthy (em_fiscalCode e)} \<and>
    list_all employee_dates_ok (employees s)"
proof (intro conjI)
  have "employee_inv s0"
    by (simp add: employee_inv_def employees_ok_def keyed_def numbers_in_sequence_def employee_numbers_def assms(2))
  then have ok: "employee_inv s" by (rule employee_run_inv [OF assms(1)])
  then show "employee_numbers t (employees s)
      = map (\<lambda>k. emp_number (k + 1)) [0..<length (filter (\<lambda>e. tenantId e = t) (employees s))]"
    unfolding employee_inv_def employees_ok_def numbers_in_sequence_def
    by (metis employee_numbers_rows length_map tenant_rows_def)
  show "inj_on em_fiscalCode {e \<in> set (employees s). tenantId e = t \<and> truthy (em_fiscalCode e)}"
    using ok unfolding employee_inv_def employees_ok_def inj_on_def by blast
  show "list_all employee_dates_ok (employees s)" using ok by (simp add: employee_inv_def list_all_iff)
qed

text \<open>
  From an empty table, after any run of requests an employee has at most one attendance
  record per day; a closed one ends after it starts and its hours are those between its two
  instants less the breaks, one closed by the sweep ends at 23:59 of its day, and an open one
  has no end. Records that are closed stay in the table as they are, whatever comes after.
\<close>

theorem attendance_one_sound_record_per_day:
  assumes "hr_step\<^sup>*\<^sup>* s0 s" and "attendances s0 = []" and "hr_step\<^sup>*\<^sup>* s s'"
  shows "list_all attendance_ok (attendances s) \<and> inj_on day_key (set (attendances s)) \<and>
    (\<forall>a\<in>set (attendances s). at_status a \<noteq> AttOpen \<longrightarrow> a \<in> set (attendances s'))"
proof -
  have "attendance_inv s0" by (simp add: attendance_inv_def keyed_def assms(2))
  then have inv: "attendance_inv s" using attendance_run_inv [OF assms(1)] by simp
  then show ?thesis using attendance_run_inv [OF assms(3)] by (simp add: attendance_inv_def closed_kept_def)
qed


section \<open>A sample run\<close>

definition hr_start :: hr_db where
  "hr_start = \<lparr>employees = [], leaveRequests = [], attendances = []\<rparr>"

definition sample_hire :: employee_input where
  "sample_hire = \<lparr>ei_firstName = ''Ada'', ei_lastName = ''Rossi'', ei_fiscalCode = Some ''X'', ei_email = None,
     ei_phone = None, ei_dateOfBirth = None, ei_placeOfBirth = None, ei_nationality = None,
     ei_residenceAddress = None, ei_contractType = None, ei_ccnlCode = None, ei_payGradeCode = None,
     ei_weeklyHours = None, ei_monthlyWageCents = None, ei_hourlyWageCents = None, ei_hireDate = None,
     ei_managerEmployeeId = None, ei_userId = None, ei_notes = None\<rparr>"

text \<open>Ada is hired, clocks in at 8 and out at 17 with a break of an hour on the first day of 1970.\<close>

definition sample_created :: "(hr_db, employee) svc" where
  "sample_created = create_employee ''E'' ''T'' sample_hire"

definition sample_in :: "(hr_db, attendance) svc" where
  "sample_in = clock_in 28800000 ''A'' ''T'' None
     \<lparr>cin_employeeId = ''E'', cin_date = None, cin_at = None, cin_location = None, cin_locationLabel = None\<rparr>"

definition sample_out :: "(hr_db, attendance) svc" where
  "sample_out = clock_out 61200000 ''T''
     \<lparr>co_employeeId = ''E'', co_date = None, co_at = None, co_breakMinutes = Some 60, co_notes = None\<rparr>"

definition hr_1 :: hr_db where "hr_1 = after sample_created hr_start"
definition hr_2 :: hr_db where "hr_2 = after sample_in hr_1"
definition hr_3 :: hr_db where "hr_3 = after sample_out hr_2"

lemmas hr_eval = hr_start_def sample_hire_def sample_created_def sample_in_def sample_out_def
  create_employee_def save_employee_def new_employee_def next_employee_number_def find_fiscal_code_def
  clock_in_def clock_out_def save_attendance_def find_attendance_def parse_date_def
  can_attendance_def assert_attendance_def tenant_rows_def save_row_def nullish_def MS_PER_DAY_def Let_def svc_defs runs_ok_def after_def

lemma hr_row_1: "hr_1 = hr_start\<lparr>employees := [new_employee ''E'' ''T'' ''EMP-0001'' sample_hire]\<rparr>"
  by (simp add: hr_1_def hr_eval)

lemma hr_row_2:
  "\<exists>a. attendances hr_2 = [a] \<and> tenantId a = ''T'' \<and> at_employeeId a = ''E'' \<and> at_date a = 0 \<and>
     at_clockInAt a = Some 28800000 \<and> at_status a = AttOpen"
  by (simp add: hr_2_def hr_row_1 hr_eval)

lemma hr_row_3:
  "\<exists>a. attendances hr_3 = [a] \<and> tenantId a = ''T'' \<and> at_status a = AttClosed \<and> at_clockOutAt a = Some 61200000"
  using hr_row_2 by (auto simp: hr_3_def hr_eval)

lemma hr_runs: "runs_ok sample_created hr_start" "runs_ok sample_in hr_1" "runs_ok sample_out hr_2"
proof -
  show "runs_ok sample_created hr_start" by (simp add: hr_eval)
  show "runs_ok sample_in hr_1" by (simp add: hr_row_1 hr_eval)
  show "runs_ok sample_out hr_2" using hr_row_2 by (auto simp: hr_eval)
qed

lemma hr_reachable: "hr_step\<^sup>*\<^sup>* hr_start hr_1" "hr_step\<^sup>*\<^sup>* hr_start hr_3" "hr_step\<^sup>*\<^sup>* hr_3 hr_3"
proof -
  note ok = hr_runs [THEN runs_okD]
  have "hr_step hr_start hr_1" unfolding hr_1_def
    by (rule hr_step.hire [OF ok(1) [unfolded sample_created_def], folded sample_created_def])
      (simp add: fresh_def hr_start_def)
  moreover have "hr_step hr_1 hr_2" unfolding hr_2_def
    by (rule hr_step.clock_in [OF ok(2) [unfolded sample_in_def], folded sample_in_def]) (simp add: fresh_def hr_row_1 hr_start_def)
  moreover have "hr_step hr_2 hr_3" unfolding hr_3_def
    by (rule hr_step.clock_out [OF ok(3) [unfolded sample_out_def], folded sample_out_def])
  ultimately show "hr_step\<^sup>*\<^sup>* hr_start hr_1" and "hr_step\<^sup>*\<^sup>* hr_start hr_3" by auto
qed simp

theorem employees_numbered_in_sequence_witness:
  "map em_employeeNumber (employees hr_1) = [''EMP-0001''] \<and>
   employee_numbers ''T'' (employees hr_1)
      = map (\<lambda>k. emp_number (k + 1)) [0..<length (filter (\<lambda>e. tenantId e = ''T'') (employees hr_1))] \<and>
   inj_on em_fiscalCode {e \<in> set (employees hr_1). tenantId e = ''T'' \<and> truthy (em_fiscalCode e)} \<and>
   list_all employee_dates_ok (employees hr_1)"
proof (rule conjI)
  show "map em_employeeNumber (employees hr_1) = [''EMP-0001'']" by (simp add: hr_row_1 new_employee_def)
qed (rule employees_numbered_in_sequence [OF hr_reachable(1)], simp add: hr_start_def)

theorem attendance_one_sound_record_per_day_witness:
  "map at_clockOutAt (attendances hr_3) = [Some 61200000] \<and>
   list_all attendance_ok (attendances hr_3) \<and> inj_on day_key (set (attendances hr_3))"
proof (rule conjI)
  show "map at_clockOutAt (attendances hr_3) = [Some 61200000]" using hr_row_3 by auto
  show "list_all attendance_ok (attendances hr_3) \<and> inj_on day_key (set (attendances hr_3))"
    using attendance_one_sound_record_per_day [OF hr_reachable(2) _ hr_reachable(3)]
    by (simp add: hr_start_def del: attendance_ok.simps)
qed

end
