(* ===== verification/Pec.thy ===== *)
theory Pec
  imports JsNumber JsString
begin

text \<open>
  Received electronic invoices, \<^verbatim>\<open>backend/src/pec\<close>: the parser of
  \<^verbatim>\<open>fatturapa-passive-parser.ts\<close>, which extracts fields with regular expressions, and
  the collection of attachments of \<^verbatim>\<open>pec-ingest.service.ts\<close>. The messages are what the
  mailbox lists, and \<open>utf8\<close> is how the platform decodes the bytes of an attachment.
\<close>

section \<open>Regular expressions\<close>

definition is_word :: "char \<Rightarrow> bool" where
  "is_word c \<longleftrightarrow> is_digit c \<or> is_upper c \<or> is_lower c \<or> c = CHR ''_''"

text \<open>
  The expression \<^verbatim>\<open>(?:[\w]+:)?TAG\<close> at the beginning of a text: what follows the name.
  A word ends where the colon begins, so the repetition matches in one way only.
\<close>

definition skip_name :: "string \<Rightarrow> string \<Rightarrow> string option" where
  "skip_name t s =
     (let w = takeWhile is_word s; r = drop (length w) s
      in if w \<noteq> [] \<and> take (Suc (length t)) r = CHR '':'' # t then Some (drop (Suc (length t)) r)
         else if take (length t) s = t then Some (drop (length t) s) else None)"

text \<open>\<^verbatim>\<open><(?:[\w]+:)?TAG[^>]*>\<close>: the name may be followed by anything up to the bracket.\<close>

definition open_tag :: "string \<Rightarrow> string \<Rightarrow> string option" where
  "open_tag t s =
     (if take 1 s \<noteq> ''<'' then None
      else (case skip_name t (drop 1 s) of
              None \<Rightarrow> None
            | Some q \<Rightarrow> (case dropWhile (\<lambda>c. c \<noteq> CHR ''>'') q of [] \<Rightarrow> None | _ # body \<Rightarrow> Some body)))"

text \<open>\<^verbatim>\<open></(?:[\w]+:)?TAG>\<close>\<close>

definition close_tag :: "string \<Rightarrow> string \<Rightarrow> string option" where
  "close_tag t s =
     (if take 2 s \<noteq> ''</'' then None
      else (case skip_name t (drop 2 s) of
              None \<Rightarrow> None
            | Some q \<Rightarrow> if take 1 q = ''>'' then Some (drop 1 q) else None))"

text \<open>\<^verbatim>\<open>([\s\S]*?)\<close> before the closing tag: the shortest text, with what follows the tag.\<close>

fun until_close :: "string \<Rightarrow> string \<Rightarrow> (string \<times> string) option" where
  "until_close t [] = None"
| "until_close t (c # s) =
     (case close_tag t (c # s) of
        Some rest \<Rightarrow> Some ([], rest)
      | None \<Rightarrow> map_option (\<lambda>(x, rest). (c # x, rest)) (until_close t s))"

text \<open>The leftmost place where the whole expression matches.\<close>

fun search_block :: "string \<Rightarrow> string \<Rightarrow> (string \<times> string) option" where
  "search_block t [] = None"
| "search_block t (c # s) =
     (case open_tag t (c # s) of
        None \<Rightarrow> search_block t s
      | Some body \<Rightarrow> (case until_close t body of None \<Rightarrow> search_block t s | Some found \<Rightarrow> Some found))"

definition first_tag :: "string \<Rightarrow> string \<Rightarrow> string option" where
  "first_tag t xml = map_option (\<lambda>(x, rest). js_trim x) (search_block t xml)"

lemma skip_name_shorter: "skip_name t s = Some q \<Longrightarrow> length q \<le> length s"
  by (auto simp: skip_name_def Let_def split: if_splits)

lemma open_tag_shorter: "open_tag t s = Some r \<Longrightarrow> length r < length s"
proof -
  assume o: "open_tag t s = Some r"
  then obtain q c where q: "skip_name t (drop 1 s) = Some q" "dropWhile (\<lambda>c. c \<noteq> CHR ''>'') q = c # r"
    by (auto simp: open_tag_def split: if_splits option.splits list.splits)
  have s: "s \<noteq> []" using o by (auto simp: open_tag_def)
  have "length r < length q" using length_dropWhile_le [of "\<lambda>c. c \<noteq> CHR ''>''" q] q(2) by simp
  moreover have "length (drop 1 s) < length s" using s by simp
  ultimately show ?thesis using skip_name_shorter [OF q(1)] by simp
qed

lemma close_tag_shorter: "close_tag t s = Some r \<Longrightarrow> length r < length s"
  by (auto simp: close_tag_def dest!: skip_name_shorter split: if_splits option.splits) (cases s; auto)

lemma until_close_shorter: "until_close t s = Some (x, r) \<Longrightarrow> length r < length s"
  by (induction s arbitrary: x) (auto split: option.splits dest: close_tag_shorter)

lemma search_block_shorter: "search_block t s = Some (x, r) \<Longrightarrow> length r < length s"
proof (induction s)
  case (Cons c s)
  then show ?case
    by (auto split: option.splits dest!: open_tag_shorter until_close_shorter)
qed simp

text \<open>\<^verbatim>\<open>xml.matchAll(re)\<close> goes on behind the last match.\<close>

function all_blocks :: "string \<Rightarrow> string \<Rightarrow> string list" where
  "all_blocks t s = (case search_block t s of None \<Rightarrow> [] | Some (x, rest) \<Rightarrow> x # all_blocks t rest)"
  by pat_completeness auto
termination
  by (relation "measure (\<lambda>(t, s). length s)") (auto dest: search_block_shorter)

declare all_blocks.simps [simp del]

definition first_nested :: "string \<Rightarrow> string \<Rightarrow> string \<Rightarrow> string option" where
  "first_nested xml out inner = (case all_blocks out xml of [] \<Rightarrow> None | b # _ \<Rightarrow> first_tag inner b)"

text \<open>\<^verbatim>\<open>/^<!\[CDATA\[([\s\S]*?)\]\]>$/\<close>\<close>

definition strip_cdata :: "string \<Rightarrow> string" where
  "strip_cdata s =
     js_trim (if 12 \<le> length s \<and> take 9 s = ''<![CDATA['' \<and> drop (length s - 3) s = '']]>''
              then take (length s - 12) (drop 9 s) else s)"

section \<open>Numbers\<close>

text \<open>
  \<^verbatim>\<open>Number(s)\<close>: blanks around a decimal literal, or a binary, octal or hexadecimal one;
  the empty text is zero. \<open>None\<close> is a value that is not finite.
\<close>

definition hex_val :: "char \<Rightarrow> nat" where
  "hex_val c = (if is_digit c then digit_val c else if is_upper c then of_char c - 55 else of_char c - 87)"

definition radix_value :: "nat \<Rightarrow> string \<Rightarrow> rat option" where
  "radix_value b s =
     (if s \<noteq> [] \<and> list_all (\<lambda>c. (is_digit c \<or> is_upper c \<or> is_lower c) \<and> hex_val c < b) s
      then Some (of_nat (foldl (\<lambda>a c. b * a + hex_val c) 0 s)) else None)"

definition exponent_value :: "string \<Rightarrow> int option" where
  "exponent_value s =
     (if s = [] then Some 0
      else if take 1 s \<noteq> ''e'' \<and> take 1 s \<noteq> ''E'' then None
      else
        (let r = drop 1 s; neg = take 1 r = ''-'';
             ds = (if neg \<or> take 1 r = ''+'' then drop 1 r else r)
         in if ds \<noteq> [] \<and> list_all is_digit ds
            then Some (if neg then - int (parse_dec ds) else int (parse_dec ds)) else None))"

definition decimal_value :: "string \<Rightarrow> rat option" where
  "decimal_value s =
     (let whole = takeWhile is_digit s; r = drop (length whole) s;
          frac = (if take 1 r = ''.'' then takeWhile is_digit (drop 1 r) else []);
          r' = (if take 1 r = ''.'' then drop (Suc (length frac)) r else r)
      in if whole = [] \<and> frac = [] then None
         else map_option (\<lambda>e. of_nat (parse_dec (whole @ frac)) * 10 powi (e - int (length frac))) (exponent_value r'))"

definition signed_value :: "string \<Rightarrow> rat option" where
  "signed_value s =
     (if take 1 s = ''-'' then map_option uminus (decimal_value (drop 1 s))
      else if take 1 s = ''+'' then decimal_value (drop 1 s) else decimal_value s)"

definition number_of_text :: "string \<Rightarrow> jsnum option" where
  "number_of_text text =
     (let s = js_trim text; p = map to_lower (take 2 s);
          v = (if s = [] then Some 0
               else if p = ''0x'' then radix_value 16 (drop 2 s)
               else if p = ''0o'' then radix_value 8 (drop 2 s)
               else if p = ''0b'' then radix_value 2 (drop 2 s)
               else signed_value s)
      in case v of None \<Rightarrow> None | Some x \<Rightarrow> if \<bar>fl x\<bar> < 2 ^ 1024 then Some (fl x) else None)"

definition to_cents :: "string \<Rightarrow> jsnum" where
  "to_cents text =
     (case number_of_text (strip_cdata text) of None \<Rightarrow> 0 | Some n \<Rightarrow> of_int (math_round (js_mul n 100)))"

text \<open>A rate that is no number stays \<^verbatim>\<open>NaN\<close>, here \<open>None\<close>; a missing or empty one is zero.\<close>

definition rate_of_text :: "string option \<Rightarrow> int option" where
  "rate_of_text a = (if truthy a then map_option math_round (number_of_text (the a)) else Some 0)"

section \<open>The parser\<close>

record parsed_line =
  pl_description :: string
  pl_quantity :: string
  pl_unitOfMeasure :: string
  pl_unitCostCents :: jsnum
  pl_lineTotalCents :: jsnum
  pl_taxRate :: "int option"
  pl_naturaCode :: "string option"

record parsed_iva =
  pv_rate :: "int option"
  pv_taxableCents :: jsnum
  pv_taxCents :: jsnum
  pv_naturaCode :: "string option"

record parsed_fattura =
  pf_invoiceNumber :: string
  pf_invoiceDate :: string
  pf_supplierVatNumber :: string
  pf_supplierName :: string
  pf_customerVatNumber :: string
  pf_documentType :: string
  pf_subtotalCents :: jsnum
  pf_taxCents :: jsnum
  pf_totalCents :: jsnum
  pf_currency :: string
  pf_ivaBreakdown :: "parsed_iva list"
  pf_lines :: "parsed_line list"
  pf_paymentDueDate :: "string option"

datatype parse_error = EmptyBody | MissingMandatory string

definition iva_of_block :: "string \<Rightarrow> parsed_iva" where
  "iva_of_block block =
     (let cents = (\<lambda>v. if truthy v then to_cents (the v) else 0)
      in \<lparr>pv_rate = rate_of_text (first_tag ''AliquotaIVA'' block),
          pv_taxableCents = cents (first_tag ''ImponibileImporto'' block),
          pv_taxCents = cents (first_tag ''Imposta'' block),
          pv_naturaCode = first_tag ''Natura'' block\<rparr>)"

definition parse_iva_breakdown :: "string \<Rightarrow> parsed_iva list" where
  "parse_iva_breakdown xml = map iva_of_block (all_blocks ''DatiRiepilogo'' xml)"

definition line_of_block :: "string \<Rightarrow> parsed_line" where
  "line_of_block block =
     (let natura = first_tag ''Natura'' block
      in \<lparr>pl_description = strip_cdata (nullish (first_tag ''Descrizione'' block) ''''),
          pl_quantity = strip_cdata (nullish (first_tag ''Quantita'' block) ''1''),
          pl_unitOfMeasure = strip_cdata (nullish (first_tag ''UnitaMisura'' block) ''pz''),
          pl_unitCostCents = to_cents (nullish (first_tag ''PrezzoUnitario'' block) ''0''),
          pl_lineTotalCents = to_cents (nullish (first_tag ''PrezzoTotale'' block) ''0''),
          pl_taxRate = rate_of_text (first_tag ''AliquotaIVA'' block),
          pl_naturaCode = (if truthy natura then map_option strip_cdata natura else None)\<rparr>)"

definition parse_lines :: "string \<Rightarrow> parsed_line list" where
  "parse_lines xml = map line_of_block (all_blocks ''DettaglioLinee'' xml)"

definition mandatory :: "string \<Rightarrow> string option \<Rightarrow> parse_error + string" where
  "mandatory field v = (if truthy v then Inr (the v) else Inl (MissingMandatory field))"

text \<open>The first missing mandatory field decides the error.\<close>

definition parse_fattura_pa :: "string \<Rightarrow> parse_error + parsed_fattura" where
  "parse_fattura_pa xml =
     (if xml = [] then Inl EmptyBody
      else case mandatory ''Numero'' (first_tag ''Numero'' xml) of Inl e \<Rightarrow> Inl e | Inr invoiceNumber \<Rightarrow>
      case mandatory ''Data'' (first_tag ''Data'' xml) of Inl e \<Rightarrow> Inl e | Inr invoiceDate \<Rightarrow>
      case mandatory ''CedentePrestatore.IdCodice'' (first_nested xml ''CedentePrestatore'' ''IdCodice'') of
        Inl e \<Rightarrow> Inl e | Inr supplierVatNumber \<Rightarrow>
      case mandatory ''CessionarioCommittente.IdCodice'' (first_nested xml ''CessionarioCommittente'' ''IdCodice'') of
        Inl e \<Rightarrow> Inl e | Inr customerVatNumber \<Rightarrow>
      let breakdown = parse_iva_breakdown xml; lines = parse_lines xml;
          subtotalCents = js_sum pl_lineTotalCents lines;
          taxCents = js_sum pv_taxCents breakdown;
          totalRaw = first_tag ''ImportoTotaleDocumento'' xml;
          supplierName = first_nested xml ''CedentePrestatore'' ''Denominazione''
      in Inr
        \<lparr>pf_invoiceNumber = strip_cdata invoiceNumber, pf_invoiceDate = take 10 invoiceDate,
         pf_supplierVatNumber = strip_cdata supplierVatNumber,
         pf_supplierName = (if truthy supplierName then strip_cdata (the supplierName) else ''''),
         pf_customerVatNumber = strip_cdata customerVatNumber,
         pf_documentType = nullish (first_tag ''TipoDocumento'' xml) ''TD01'',
         pf_subtotalCents = subtotalCents, pf_taxCents = taxCents,
         pf_totalCents = (if truthy totalRaw then to_cents (the totalRaw) else js_add subtotalCents taxCents),
         pf_currency = nullish (first_tag ''Divisa'' xml) ''EUR'',
         pf_ivaBreakdown = breakdown, pf_lines = lines,
         pf_paymentDueDate =
           map_option (take 10) (first_nested xml ''DettaglioPagamento'' ''DataScadenzaPagamento'')\<rparr>)"

section \<open>Collecting attachments\<close>

record pec_attachment =
  pa_filename :: string
  pa_mimeType :: string
  pa_body :: string

record pec_message =
  pm_messageId :: string
  pm_from :: string
  pm_to :: string
  pm_subject :: string
  pm_receivedAt :: string
  pm_attachments :: "pec_attachment list"

record pec_candidate =
  pcd_parsed :: parsed_fattura
  pcd_messageId :: string
  pcd_rawXml :: string
  pcd_filename :: string

record pec_ingest_error =
  pe_messageId :: string
  pe_filename :: string
  pe_errorCode :: string

record pec_summary =
  ps_tenantId :: uuid
  ps_inspectedMessages :: nat
  ps_candidates :: "pec_candidate list"
  ps_errors :: "pec_ingest_error list"

text \<open>\<^verbatim>\<open>/^IT[A-Z0-9]+_[A-Z0-9]+\.xml(?:\.p7m)?$/i\<close>\<close>

definition fatturapa_name :: "string \<Rightarrow> bool" where
  "fatturapa_name f \<longleftrightarrow>
     (let alnum = (\<lambda>c. is_upper c \<or> is_digit c); u = map to_upper f;
          a = takeWhile alnum (drop 2 u); r = drop (length a) (drop 2 u);
          b = takeWhile alnum (drop 1 r); e = drop (length b) (drop 1 r)
      in take 2 u = ''IT'' \<and> a \<noteq> [] \<and> take 1 r = ''_'' \<and> b \<noteq> [] \<and> (e = ''.XML'' \<or> e = ''.XML.P7M''))"

definition pick_attachments :: "pec_message \<Rightarrow> pec_attachment list" where
  "pick_attachments m =
     filter (\<lambda>a. fatturapa_name (pa_filename a) \<or> pa_mimeType a = ''application/xml'' \<or> pa_mimeType a = ''text/xml'')
       (pm_attachments m)"

definition is_signed :: "string \<Rightarrow> bool" where
  "is_signed f \<longleftrightarrow> 4 \<le> length f \<and> map to_lower (drop (length f - 4) f) = ''.p7m''"

definition error_code :: "parse_error \<Rightarrow> string" where
  "error_code e = (case e of EmptyBody \<Rightarrow> ''empty_body'' | MissingMandatory f \<Rightarrow> ''missing_mandatory'')"

definition ingest_attachment ::
  "(string \<Rightarrow> string) \<Rightarrow> string \<Rightarrow> pec_attachment \<Rightarrow> pec_ingest_error + pec_candidate" where
  "ingest_attachment utf8 messageId a =
     (if is_signed (pa_filename a)
      then Inl \<lparr>pe_messageId = messageId, pe_filename = pa_filename a, pe_errorCode = ''p7m_unwrap_not_implemented''\<rparr>
      else (case parse_fattura_pa (utf8 (pa_body a)) of
              Inl e \<Rightarrow> Inl \<lparr>pe_messageId = messageId, pe_filename = pa_filename a, pe_errorCode = error_code e\<rparr>
            | Inr p \<Rightarrow> Inr \<lparr>pcd_parsed = p, pcd_messageId = messageId, pcd_rawXml = pa_body a, pcd_filename = pa_filename a\<rparr>))"

text \<open>The two lists grow as the loops go through messages and attachments.\<close>

definition list_fattura_pa_candidates ::
  "(string \<Rightarrow> string) \<Rightarrow> uuid \<Rightarrow> pec_message list \<Rightarrow> pec_summary" where
  "list_fattura_pa_candidates utf8 t messages =
     (let step = (\<lambda>messageId a (cs, es). case ingest_attachment utf8 messageId a of
            Inl e \<Rightarrow> (cs, es @ [e]) | Inr c \<Rightarrow> (cs @ [c], es));
          (cs, es) = fold (\<lambda>m. fold (step (pm_messageId m)) (pick_attachments m)) messages ([], [])
      in \<lparr>ps_tenantId = t, ps_inspectedMessages = length messages, ps_candidates = cs, ps_errors = es\<rparr>)"

end
