(* ===== verification/PecReading.thy ===== *)
theory PecReading
  imports Pec FatturaPaProps
begin

text \<open>
  Reading the documents of the invoice builder with the regular expressions of the parser of
  received invoices: what each expression finds in a document that consists of lines.
\<close>

section \<open>Matching against lines of a document\<close>

text \<open>The part of a line from its first to its last bracket.\<close>

fun core :: "xml_line \<Rightarrow> string" where
  "core (XOpen k p) = ''<'' @ p @ ''>''"
| "core (XClose k p) = ''</'' @ p @ ''>''"
| "core (XText k p x) = el p x"

text \<open>A text that consists of the given lines, with anything but tags between them.\<close>

fun renders :: "xml_line list \<Rightarrow> string \<Rightarrow> bool" where
  "renders [] s \<longleftrightarrow> no_lt s"
| "renders (l # ls) s \<longleftrightarrow> (\<exists>g r. no_lt g \<and> s = g @ core l @ r \<and> renders ls r)"

lemma renders_gap: "no_lt g \<Longrightarrow> renders ls s \<Longrightarrow> renders ls (g @ s)"
proof (cases ls)
  case (Cons l ls')
  assume "no_lt g" "renders ls s"
  then obtain g' r where "no_lt g'" "s = g' @ core l @ r" "renders ls' r" using Cons by auto
  then have "no_lt (g @ g')" "g @ s = (g @ g') @ core l @ r" using \<open>no_lt g\<close> by simp_all
  then show ?thesis unfolding Cons renders.simps using \<open>renders ls' r\<close> by blast
qed simp

lemma render_core: "\<exists>g. no_lt g \<and> render l = g @ core l"
  by (cases l) (auto simp: indent_def intro!: exI [of _ "replicate _ CHR '' ''"])

lemma renders_document: "renders ls (xml_document ls)"
  unfolding xml_document_def
proof (induction ls rule: induct_list012)
  case (2 l)
  then show ?case using render_core [of l] by fastforce
next
  case (3 l l' ls)
  obtain g where g: "no_lt g" "render l = g @ core l" using render_core by blast
  have "renders (l' # ls) (CHR 0x0A # join_nl (map render (l' # ls)))"
    using renders_gap [of "[CHR 0x0A]", OF _ 3(2)] by simp
  then show ?case using g by (auto simp del: renders.simps(2)) (auto simp only: renders.simps(2))
qed simp

lemma renders_append: "renders (ls @ ls') s \<longleftrightarrow> (\<exists>r r'. s = r @ r' \<and> renders ls r \<and> renders ls' r')"
proof (induction ls arbitrary: s)
  case Nil
  show ?case
  proof
    assume "renders ([] @ ls') s"
    then show "\<exists>r r'. s = r @ r' \<and> renders [] r \<and> renders ls' r'" by (intro exI [of _ "[]"] exI [of _ s]) simp
  qed (auto intro: renders_gap)
next
  case (Cons l ls)
  show ?case
    by (simp add: Cons.IH) (metis append.assoc)
qed


text \<open>Names of the elements that are looked up, and lines that they do not match.\<close>

definition word_tag :: "string \<Rightarrow> bool" where
  "word_tag t \<longleftrightarrow> t \<noteq> [] \<and> list_all is_word t"

definition no_brackets :: "string \<Rightarrow> bool" where
  "no_brackets p \<longleftrightarrow> CHR ''<'' \<notin> set p \<and> CHR ''>'' \<notin> set p"

lemma is_word_punctuation [simp]: "\<not> is_word CHR ''>''" "\<not> is_word CHR ''/''" "\<not> is_word CHR '':''" "\<not> is_word CHR ''<''"
  by (simp_all add: is_word_def is_digit_def is_upper_def is_lower_def)

lemma word_tag_no: "word_tag t \<Longrightarrow> CHR ''>'' \<notin> set t \<and> CHR '':'' \<notin> set t \<and> CHR ''/'' \<notin> set t \<and> CHR ''<'' \<notin> set t"
  by (auto simp: word_tag_def list_all_iff)

lemma take_gt: "CHR ''>'' \<notin> set t \<Longrightarrow> take (length t) (p @ CHR ''>'' # r) = t \<longleftrightarrow> take (length t) p = t"
proof (induction t arbitrary: p)
  case (Cons c t)
  then show ?case by (cases p) auto
qed simp

lemma skip_name_gt:
  assumes "CHR ''>'' \<notin> set t" and "CHR ''>'' \<notin> set p"
  shows "skip_name t (p @ CHR ''>'' # r) = map_option (\<lambda>q. q @ CHR ''>'' # r) (skip_name t p)"
proof -
  have w: "takeWhile is_word (p @ CHR ''>'' # r) = takeWhile is_word p" by (induction p) auto
  have drop: "drop (length (takeWhile is_word p)) (p @ CHR ''>'' # r) = dropWhile is_word p @ CHR ''>'' # r"
    using length_takeWhile_le [of is_word p] by (simp add: dropWhile_eq_drop)
  have len: "take (length u) q = u \<Longrightarrow> length u \<le> length q" for u q :: string
    by (metis length_take min.cobounded1)
  show ?thesis
    using take_gt [of "CHR '':'' # t" "dropWhile is_word p" r] take_gt [of t p r] assms(1)
      len [of "CHR '':'' # t" "dropWhile is_word p"] len [of t p]
    unfolding skip_name_def Let_def w drop by (auto simp: dropWhile_eq_drop)
qed

lemma skip_name_slash: "word_tag t \<Longrightarrow> skip_name t (CHR ''/'' # p) = None"
  by (cases t) (auto simp: word_tag_def skip_name_def)

lemma skip_name_self: "word_tag t \<Longrightarrow> skip_name t t = Some []"
  by (simp add: skip_name_def word_tag_def list_all_iff takeWhile_eq_all_conv [THEN iffD2])

lemma skip_name_plain:
  assumes "CHR '':'' \<notin> set p"
  shows "skip_name t p = (if take (length t) p = t then Some (drop (length t) p) else None)"
proof -
  have "take (Suc (length t)) (drop n p) \<noteq> CHR '':'' # t" for n
    using assms by (metis in_set_takeD in_set_dropD list.set_intros(1))
  then show ?thesis by (simp add: skip_name_def Let_def)
qed

fun passes :: "string \<Rightarrow> xml_line \<Rightarrow> bool" where
  "passes t (XOpen k p) \<longleftrightarrow> no_brackets p \<and> skip_name t p = None"
| "passes t (XClose k p) \<longleftrightarrow> no_brackets p"
| "passes t (XText k p x) \<longleftrightarrow> no_brackets p \<and> no_lt x \<and> skip_name t p = None"

lemma search_gap [simp]: "no_lt g \<Longrightarrow> search_block t (g @ s) = search_block t s"
  by (induction g) (auto simp: open_tag_def)

lemma open_tag_name:
  "CHR ''>'' \<notin> set t \<Longrightarrow> CHR ''>'' \<notin> set p \<Longrightarrow>
     open_tag t (CHR ''<'' # p @ CHR ''>'' # r) = (if skip_name t p = None then None else Some r)"
proof (cases "skip_name t p")
  case (Some q)
  assume no: "CHR ''>'' \<notin> set t" "CHR ''>'' \<notin> set p"
  have "set q \<subseteq> set p" using Some set_drop_subset by (fastforce simp: skip_name_def Let_def split: if_splits)
  then have "dropWhile (\<lambda>c. c \<noteq> CHR ''>'') (q @ CHR ''>'' # r) = CHR ''>'' # r"
    using no(2) by (subst dropWhile_append2) auto
  then show ?thesis using Some no by (simp add: open_tag_def skip_name_gt)
qed (simp add: open_tag_def skip_name_gt)

lemma search_tag:
  "CHR ''>'' \<notin> set t \<Longrightarrow> no_brackets p \<Longrightarrow> skip_name t p = None \<Longrightarrow>
     search_block t (CHR ''<'' # p @ CHR ''>'' # r) = search_block t r"
  using open_tag_name [of t p r] search_gap [of "p @ ''>''" t r] by (simp add: no_brackets_def no_lt_def)

lemma search_core: "word_tag t \<Longrightarrow> passes t l \<Longrightarrow> search_block t (core l @ s) = search_block t s"
proof (cases l)
  case (XClose k p)
  assume t: "word_tag t" and "passes t l"
  then have "no_brackets (CHR ''/'' # p)" using XClose by (simp add: no_brackets_def)
  then show ?thesis using search_tag [of t "CHR ''/'' # p" s] t XClose by (simp add: skip_name_slash word_tag_no)
next
  case (XText k p x)
  assume t: "word_tag t" and l: "passes t l"
  then have "no_brackets (CHR ''/'' # p)" using XText by (simp add: no_brackets_def)
  then show ?thesis
    using search_tag [of t p "x @ ''</'' @ p @ ''>'' @ s"] search_tag [of t "CHR ''/'' # p" s] t l XText
      search_gap [of x t "CHR ''<'' # (CHR ''/'' # p) @ CHR ''>'' # s"]
    by (simp add: skip_name_slash word_tag_no el_def)
qed (simp add: search_tag word_tag_no del: search_block.simps)

lemma search_renders:
  "word_tag t \<Longrightarrow> list_all (passes t) ls \<Longrightarrow> renders ls r \<Longrightarrow> search_block t (r @ s) = search_block t s"
  by (induction ls arbitrary: r) (auto simp: search_core)


lemma close_tag_no_lt: "c \<noteq> CHR ''<'' \<Longrightarrow> close_tag t (c # s) = None"
  by (simp add: close_tag_def)

lemma until_gap: "no_lt g \<Longrightarrow> until_close t (g @ s) = map_option (\<lambda>(x, r). (g @ x, r)) (until_close t s)"
proof (induction g)
  case Nil
  show ?case by (cases "until_close t s") auto
next
  case (Cons c g)
  then show ?case by (cases "until_close t s") (auto simp: close_tag_no_lt)
qed

text \<open>Lines that do not close an element \<open>t\<close>.\<close>

fun inside :: "string \<Rightarrow> xml_line \<Rightarrow> bool" where
  "inside t (XOpen k p) \<longleftrightarrow> no_brackets p \<and> take 1 p \<noteq> ''/''"
| "inside t (XClose k p) \<longleftrightarrow> no_brackets p \<and> skip_name t p \<noteq> Some []"
| "inside t (XText k p x) \<longleftrightarrow> no_brackets p \<and> take 1 p \<noteq> ''/'' \<and> no_lt x \<and> skip_name t p \<noteq> Some []"

lemma close_tag_open: "take 1 p \<noteq> ''/'' \<Longrightarrow> close_tag t (CHR ''<'' # p @ CHR ''>'' # s) = None"
  by (cases p) (simp_all add: close_tag_def)

lemma close_tag_other:
  assumes "CHR ''>'' \<notin> set t" and "no_brackets p" and "skip_name t p \<noteq> Some []"
  shows "close_tag t (CHR ''<'' # CHR ''/'' # p @ CHR ''>'' # s) = None"
proof (cases "skip_name t p")
  case (Some q)
  then have "set q \<subseteq> set p" using set_drop_subset by (fastforce simp: skip_name_def Let_def split: if_splits)
  then show ?thesis using Some assms by (cases q) (auto simp: close_tag_def skip_name_gt no_brackets_def)
qed (use assms in \<open>simp add: close_tag_def skip_name_gt no_brackets_def\<close>)

lemma until_step:
  "close_tag t (c # s) = None \<Longrightarrow> no_lt g \<Longrightarrow>
     until_close t (c # g @ s') = map_option (\<lambda>(x, r). (c # g @ x, r)) (until_close t s') \<or> s \<noteq> g @ s'"
  by (cases "until_close t s'") (auto simp: until_gap)

lemma until_tag:
  assumes "close_tag t (CHR ''<'' # p @ CHR ''>'' # s) = None" and "no_brackets p"
  shows "until_close t (CHR ''<'' # p @ CHR ''>'' # s) = map_option (\<lambda>(x, r). (CHR ''<'' # p @ CHR ''>'' # x, r)) (until_close t s)"
  using until_step [OF assms(1), of "p @ ''>''" s] assms(2) by (simp add: no_brackets_def no_lt_def)

lemma until_core:
  assumes "word_tag t" and "inside t l"
  shows "until_close t (core l @ s) = map_option (\<lambda>(x, r). (core l @ x, r)) (until_close t s)"
proof -
  have t: "CHR ''>'' \<notin> set t" using word_tag_no [OF assms(1)] by simp
  have close: "until_close t (CHR ''<'' # (CHR ''/'' # p) @ CHR ''>'' # s) =
      map_option (\<lambda>(x, r). (CHR ''<'' # (CHR ''/'' # p) @ CHR ''>'' # x, r)) (until_close t s)"
    if "no_brackets p" "skip_name t p \<noteq> Some []" for p
    using until_tag [of t "CHR ''/'' # p" s] close_tag_other [OF t that] that(1) by (simp add: no_brackets_def)
  show ?thesis
  proof (cases l)
    case (XOpen k p)
    then show ?thesis using assms(2) until_tag [OF close_tag_open] by (simp del: until_close.simps)
  next
    case (XClose k p)
    then show ?thesis using assms(2) close [of p] by (simp del: until_close.simps)
  next
    case (XText k p x)
    then have p: "no_brackets p" "take 1 p \<noteq> ''/''" "no_lt x" "skip_name t p \<noteq> Some []" using assms(2) by simp_all
    show ?thesis
      using until_tag [OF close_tag_open [OF p(2)] p(1), of t "x @ CHR ''<'' # (CHR ''/'' # p) @ CHR ''>'' # s"]
        until_gap [OF p(3), of t "CHR ''<'' # (CHR ''/'' # p) @ CHR ''>'' # s"] close [OF p(1,4)]
      by (cases "until_close t s") (simp_all add: XText el_def split_beta del: until_close.simps)
  qed
qed

lemma until_renders:
  "word_tag t \<Longrightarrow> list_all (inside t) ls \<Longrightarrow> renders ls r \<Longrightarrow>
     until_close t (r @ s) = map_option (\<lambda>(x, q). (r @ x, q)) (until_close t s)"
proof (induction ls arbitrary: r)
  case (Cons l ls)
  obtain g r' where r: "no_lt g" "r = g @ core l @ r'" "renders ls r'" using Cons.prems(3) by auto
  have "until_close t (r' @ s) = map_option (\<lambda>(x, q). (r' @ x, q)) (until_close t s)"
    using Cons.IH [OF Cons.prems(1) _ r(3)] Cons.prems(2) by simp
  then show ?case
    using Cons.prems(1,2) r(1,2) until_gap [OF r(1), of t "core l @ r' @ s"] until_core [of t l "r' @ s"]
    by (cases "until_close t s") (simp_all add: split_beta)
qed (simp add: until_gap)

lemma until_here: "word_tag t \<Longrightarrow> until_close t (CHR ''<'' # CHR ''/'' # t @ CHR ''>'' # s) = Some ([], s)"
proof -
  assume t: "word_tag t"
  then have "skip_name t (t @ CHR ''>'' # s) = Some (CHR ''>'' # s)"
    using skip_name_gt [of t t s] by (simp add: skip_name_self word_tag_no)
  then have "close_tag t (CHR ''<'' # CHR ''/'' # t @ CHR ''>'' # s) = Some s" by (simp add: close_tag_def)
  then show ?thesis by simp
qed

text \<open>An element whose content consists of lines that do not close it.\<close>

lemma search_found:
  assumes "word_tag t" and "list_all (inside t) ls" and "renders ls x"
  shows "search_block t (CHR ''<'' # t @ CHR ''>'' # x @ CHR ''<'' # CHR ''/'' # t @ CHR ''>'' # s) = Some (x, s)"
proof -
  have "open_tag t (CHR ''<'' # t @ CHR ''>'' # r) = Some r" for r
    using open_tag_name [of t t r] assms(1) by (simp add: word_tag_no skip_name_self)
  moreover have "until_close t (x @ CHR ''<'' # CHR ''/'' # t @ CHR ''>'' # s) = Some (x, s)"
    using until_renders [OF assms] until_here [OF assms(1)] by simp
  ultimately show ?thesis by (simp del: until_close.simps)
qed

declare search_block.simps [simp del] until_close.simps [simp del] renders.simps(2) [simp del]


section \<open>Looking up elements\<close>

lemma first_tag_text:
  assumes "renders (ls @ XText k t x # ls') s" and "word_tag t" and "list_all (passes t) ls" and "no_lt x"
  shows "first_tag t s = Some (js_trim x)"
proof -
  obtain r g r' where s: "s = r @ g @ core (XText k t x) @ r'" "renders ls r" "no_lt g"
    using assms(1) by (auto simp: renders_append renders.simps)
  have "search_block t (core (XText k t x) @ r') = Some (x, r')"
    using search_found [OF assms(2), of "[]" x r'] assms(4) by (simp add: el_def)
  then show ?thesis using search_renders [OF assms(2,3) s(2)] s(1,3) by (simp add: first_tag_def)
qed

lemma first_tag_none:
  assumes "renders ls s" and "word_tag t" and "list_all (passes t) ls"
  shows "first_tag t s = None"
  using search_renders [OF assms(2,3,1), of "[]"] by (simp add: first_tag_def search_block.simps)

definition block_lines :: "nat \<Rightarrow> string \<Rightarrow> xml_line list \<Rightarrow> xml_line list" where
  "block_lines k t b = XOpen k t # b @ [XClose k t]"

lemma renders_block:
  assumes "renders (block_lines k t b @ ls) s"
  shows "\<exists>g x r. no_lt g \<and> s = g @ CHR ''<'' # t @ CHR ''>'' # x @ CHR ''<'' # CHR ''/'' # t @ CHR ''>'' # r \<and>
    renders b x \<and> renders ls r"
proof -
  obtain g r where g: "no_lt g" "s = g @ core (XOpen k t) @ r" "renders (b @ [XClose k t] @ ls) r"
    using assms by (auto simp: block_lines_def renders.simps)
  obtain x q where x: "r = x @ q" "renders b x" "renders ([XClose k t] @ ls) q"
    using g(3) unfolding renders_append by blast
  obtain g' r' where q: "no_lt g'" "q = g' @ core (XClose k t) @ r'" "renders ls r'"
    using x(3) by (auto simp: renders.simps)
  have "renders (b @ []) (x @ g')" unfolding renders_append using x(2) q(1) by (auto intro!: exI)
  then show ?thesis using g q x by (intro exI [of _ g] exI [of _ "x @ g'"] exI [of _ r']) simp
qed

lemma all_blocks_lines:
  assumes "renders (ls @ concat (map (block_lines k t) bs) @ ls') s" and "word_tag t"
    and "list_all (passes t) ls" and "list_all (passes t) ls'" and "list_all (list_all (inside t)) bs"
  shows "list_all2 renders bs (all_blocks t s)"
  using assms(1,3,5)
proof (induction bs arbitrary: ls s)
  case Nil
  then have "search_block t s = None"
    using search_renders [OF assms(2), of "ls @ ls'" s "[]"] assms(4) by (simp add: search_block.simps)
  then show ?case by (simp add: all_blocks.simps [of t s])
next
  case (Cons b bs)
  obtain r q where r: "s = r @ q" "renders ls r" "renders (block_lines k t b @ concat (map (block_lines k t) bs) @ ls') q"
    using renders_append [of ls "block_lines k t b @ concat (map (block_lines k t) bs) @ ls'" s] Cons.prems(1) by auto
  obtain g x r' where q: "no_lt g" "q = g @ CHR ''<'' # t @ CHR ''>'' # x @ CHR ''<'' # CHR ''/'' # t @ CHR ''>'' # r'"
      "renders b x" "renders (concat (map (block_lines k t) bs) @ ls') r'"
    using renders_block [OF r(3)] by blast
  have "search_block t s = Some (x, r')"
    using search_renders [OF assms(2) Cons.prems(2) r(2)] search_found [OF assms(2) _ q(3)] Cons.prems(3) r(1) q(1,2)
    by simp
  then show ?case
    using Cons.IH [of "[]" r'] Cons.prems(3) q(3,4) by (simp add: all_blocks.simps [of t s])
qed

lemma first_nested_lines:
  assumes "renders (ls @ block_lines k t b @ ls') s" and "word_tag t"
    and "list_all (passes t) ls" and "list_all (passes t) ls'" and "list_all (inside t) b"
  shows "\<exists>x. renders b x \<and> (\<forall>inner. first_nested s t inner = first_tag inner x)"
proof -
  have "list_all2 renders [b] (all_blocks t s)"
    using all_blocks_lines [of ls k t "[b]" ls' s] assms by simp
  then obtain x where "all_blocks t s = [x]" "renders b x" by (auto simp: list_all2_Cons1)
  then show ?thesis by (auto simp: first_nested_def)
qed

section \<open>Texts and amounts\<close>

lemma js_trim_no_space: "list_all (\<lambda>c. \<not> is_space c) s \<Longrightarrow> js_trim s = s"
proof -
  have "list_all (\<lambda>c. \<not> is_space c) r \<Longrightarrow> dropWhile is_space r = r" for r by (cases r) simp_all
  then show "list_all (\<lambda>c. \<not> is_space c) s \<Longrightarrow> js_trim s = s" by (simp add: js_trim_def)
qed

lemma js_trim_trim [simp]: "js_trim (js_trim s) = js_trim s"
proof -
  have idem: "dropWhile is_space (rev (dropWhile is_space (rev (dropWhile is_space s)))) = rev (dropWhile is_space (rev (dropWhile is_space s)))"
  proof (cases "dropWhile is_space s")
    case (Cons c q)
    then have c: "\<not> is_space c" using hd_dropWhile [of is_space s] by simp
    have "rev (dropWhile is_space (rev (c # q))) \<noteq> [] \<and> hd (rev (dropWhile is_space (rev (c # q)))) = c"
      using c by (simp add: dropWhile_append hd_append)
    then show ?thesis unfolding Cons using c by (metis dropWhile_eq_self_iff)
  next
    case Nil
    show ?thesis by (simp only: Nil rev.simps dropWhile.simps)
  qed
  show ?thesis unfolding js_trim_def idem by (simp add: dropWhile_idem)
qed

lemma strip_cdata_text: "CHR ''<'' \<notin> set s \<Longrightarrow> strip_cdata s = js_trim s"
proof -
  assume "CHR ''<'' \<notin> set s"
  then have "take 9 s \<noteq> ''<![CDATA[''" by (metis in_set_takeD list.set_intros(1))
  then show ?thesis by (simp add: strip_cdata_def)
qed


lemma fl_error_below: "\<bar>x\<bar> < 2 powi k \<Longrightarrow> - 1021 \<le> k \<Longrightarrow> \<bar>fl x - x\<bar> \<le> 2 powi (k - 54)"
proof (cases "x = 0")
  case False
  assume "\<bar>x\<bar> < 2 powi k" and k: "- 1021 \<le> k"
  then have "ilog2 \<bar>x\<bar> < k" using ilog2_bounds(1) [of "\<bar>x\<bar>"] False powi2_less_iff [of "ilog2 \<bar>x\<bar>" k] by simp
  then have p: "2 powi fexp x \<le> (2 powi (k - 53) :: rat)" by (simp only: powi2_le_iff) (use k in \<open>simp add: fexp_def\<close>)
  have "fl x - x = (of_int (rne (x / 2 powi fexp x)) - x / 2 powi fexp x) * 2 powi fexp x"
    using False by (simp add: fl_def left_diff_distrib)
  then have "\<bar>fl x - x\<bar> = \<bar>of_int (rne (x / 2 powi fexp x)) - x / 2 powi fexp x\<bar> * 2 powi fexp x" by (simp add: abs_mult)
  also have "\<dots> \<le> 1 / 2 * 2 powi fexp x" by (rule mult_right_mono [OF rne_error]) simp
  also have "\<dots> \<le> 1 / 2 * 2 powi (k - 53)" using p by simp
  also have "\<dots> = 2 powi (k - 54)" using powi2_add [of "k - 54" 1] by simp
  finally show ?thesis .
qed simp

lemma euro_near:
  assumes "\<bar>c\<bar> \<le> BILLION"
  shows "euro c * 100 \<le> of_int c + 1 / 10000" "of_int c - 1 / 10000 \<le> euro c * 100"
    "\<bar>of_int c :: rat\<bar> \<le> 100000000000"
proof -
  have "\<bar>euro c - of_int c / 100\<bar> \<le> 1 / 1000000"
    using euro_error [OF assms] by (rule order_trans) simp
  from abs_le_D1 [OF this] abs_le_D2 [OF this]
  show "euro c * 100 \<le> of_int c + 1 / 10000" "of_int c - 1 / 10000 \<le> euro c * 100" by simp_all
  show "\<bar>of_int c :: rat\<bar> \<le> 100000000000" using assms by (simp add: BILLION_def flip: of_int_abs)
qed

lemma euro_below: "\<bar>c\<bar> \<le> BILLION \<Longrightarrow> \<bar>euro c * 100\<bar> < 137438953472"
proof -
  assume c: "\<bar>c\<bar> \<le> BILLION"
  from abs_le_D1 [OF euro_near(3) [OF c]] abs_le_D2 [OF euro_near(3) [OF c]] show ?thesis
    using euro_near(1,2) [OF c] by (simp add: abs_less_iff)
qed

lemma round_euro: "\<bar>c\<bar> \<le> BILLION \<Longrightarrow> math_round (js_mul (euro c) 100) = c"
proof -
  assume c: "\<bar>c\<bar> \<le> BILLION"
  have "(2 :: rat) powi 37 = 137438953472" "(2 :: rat) powi (37 - 54) \<le> 1 / 1000"
    by (simp_all add: power_int_minus)
  then have "\<bar>fl (euro c * 100) - euro c * 100\<bar> \<le> 1 / 1000"
    using fl_error_below [of "euro c * 100" 37] euro_below [OF c] by simp
  from abs_le_D1 [OF this] abs_le_D2 [OF this]
  have "of_int c \<le> js_mul (euro c) 100 + 1 / 2" "js_mul (euro c) 100 + 1 / 2 < of_int c + 1"
    using euro_near(1,2) [OF c] unfolding js_mul_def by linarith+
  then show ?thesis unfolding math_round_def by (simp add: floor_eq_iff)
qed

lemma amount_chars: "c \<in> set (fixed2_text x) \<Longrightarrow> is_digit c \<or> c = CHR ''-'' \<or> c = CHR ''.''"
proof -
  have "c \<in> set (pad_start 2 CHR ''0'' (dec m)) \<Longrightarrow> is_digit c" for m by (rule pad_start_digits [OF dec_digits])
  then show "c \<in> set (fixed2_text x) \<Longrightarrow> is_digit c \<or> c = CHR ''-'' \<or> c = CHR ''.''"
    by (auto simp: fixed2_text_def Let_def split: if_splits dest: dec_digits)
qed

lemma digit_char [simp]: "is_digit c \<Longrightarrow> \<not> is_space c" "is_digit c \<Longrightarrow> \<not> is_upper c" "is_digit c \<Longrightarrow> to_lower c = c"
  by (simp_all add: is_digit_def is_space_def is_upper_def to_lower_def)

lemma amount_lower: "c \<in> set (fixed2_text x) \<Longrightarrow> to_lower c = c"
  by (drule amount_chars) (auto simp: to_lower_def is_upper_def is_digit_def)

lemma amount_trim: "js_trim (fixed2_text x) = fixed2_text x"
  by (rule js_trim_no_space) (auto simp: list_all_iff is_space_def dest!: amount_chars digit_char(1) [unfolded is_space_def])

lemma amount_strip: "strip_cdata (fixed2_text x) = fixed2_text x"
  using amount_chars [of "CHR ''<''" x] strip_cdata_text [of "fixed2_text x"] amount_trim [of x]
  by (auto simp: is_digit_def)

lemma decimal_amount:
  assumes "b < 100"
  shows "decimal_value (dec a @ CHR ''.'' # pad_start 2 CHR ''0'' (dec b)) = Some (of_nat (a * 100 + b) / 100)"
proof -
  let ?p = "pad_start 2 CHR ''0'' (dec b)"
  have digits: "takeWhile is_digit (dec a @ CHR ''.'' # r) = dec a" for r
    by (subst takeWhile_append2, erule dec_digits) (simp add: is_digit_def)
  have pad: "takeWhile is_digit ?p = ?p" using pad_start_digits [OF dec_digits] by (simp add: takeWhile_eq_all_conv)
  have len: "length ?p = 2" using length_dec [of 2 b] assms by (simp add: length_pad_start)
  have "parse_dec (dec a @ ?p) = a * 100 + b" by (simp add: parse_dec_app len parse_dec_pad)
  then show ?thesis unfolding decimal_value_def Let_def digits
    by (simp add: pad len exponent_value_def power_int_minus field_simps)
qed

lemma number_of_amount:
  assumes "\<bar>to_fixed2 x\<bar> \<le> BILLION"
  shows "number_of_text (fixed2_text x) = Some (euro (to_fixed2 x))"
proof -
  define n where "n = nat \<bar>to_fixed2 x\<bar>"
  let ?d = "dec (n div 100) @ CHR ''.'' # pad_start 2 CHR ''0'' (dec (n mod 100))"
  have shape: "fixed2_text x = (if x < 0 then ''-'' else []) @ ?d" by (simp add: fixed2_text_def Let_def n_def)
  obtain c r where d: "dec (n div 100) = c # r" by (cases "dec (n div 100)") auto
  then have c: "is_digit c" using dec_digits [of c "n div 100"] by simp
  have sign: "take 1 ?d \<noteq> ''-''" "take 1 ?d \<noteq> ''+''" using c by (auto simp: d is_digit_def)
  have amount: "decimal_value ?d = Some (of_nat n / 100)"
    using decimal_amount [of "n mod 100" "n div 100"] by simp
  have s: "signed_value (fixed2_text x) = Some ((if x < 0 then -1 else 1) * of_nat n / 100)"
  proof (cases "x < 0")
    case True
    then have "signed_value (fixed2_text x) = map_option uminus (decimal_value ?d)" by (simp add: signed_value_def shape)
    then show ?thesis using True amount by simp
  next
    case False
    then have "signed_value (fixed2_text x) = decimal_value ?d" using sign by (simp only: signed_value_def shape if_False append_Nil)
    then show ?thesis using False amount by simp
  qed
  have two: "map to_lower (take 2 (fixed2_text x)) = take 2 (fixed2_text x)"
    by (rule map_idI) (rule amount_lower, erule in_set_takeD)
  have letters: "c \<in> {CHR ''x'', CHR ''o'', CHR ''b''} \<Longrightarrow> c \<notin> set (take 2 (fixed2_text x))" for c
    using amount_chars by (fastforce dest: in_set_takeD simp: is_digit_def)
  have "to_fixed2 x = (if x < 0 then -1 else 1) * int n"
    by (auto simp: n_def to_fixed2_def)
  then have e: "euro (to_fixed2 x) = fl ((if x < 0 then -1 else 1) * of_nat n / 100)" by (simp add: euro_def)
  have "\<bar>euro (to_fixed2 x)\<bar> < 2 ^ 1024"
  proof -
    have "\<bar>euro (to_fixed2 x)\<bar> < 2 ^ 37" using euro_below [OF assms] by (simp add: abs_mult)
    also have "(2 ^ 37 :: rat) \<le> 2 ^ 1024" by (rule power_increasing) simp_all
    finally show ?thesis .
  qed
  moreover have "take 2 (fixed2_text x) \<noteq> ''0x''" "take 2 (fixed2_text x) \<noteq> ''0o''" "take 2 (fixed2_text x) \<noteq> ''0b''"
    using letters [of "CHR ''x''"] letters [of "CHR ''o''"] letters [of "CHR ''b''"] by fastforce+
  moreover have "fixed2_text x \<noteq> []" by (simp add: shape)
  ultimately show ?thesis by (simp add: number_of_text_def Let_def amount_trim two s e)
qed

lemma cents_of_amount: "\<bar>to_fixed2 x\<bar> \<le> BILLION \<Longrightarrow> to_cents (fixed2_text x) = of_int (to_fixed2 x)"
  by (simp add: to_cents_def amount_strip number_of_amount round_euro)


section \<open>Reading the invoices of the builder\<close>

fun finds :: "string \<Rightarrow> xml_line list \<Rightarrow> string option \<Rightarrow> bool" where
  "finds t [] v \<longleftrightarrow> v = None"
| "finds t (XText k p x # ls) v \<longleftrightarrow>
     (if p = t then v = Some x \<and> no_lt x else no_brackets p \<and> no_lt x \<and> skip_name t p = None \<and> finds t ls v)"
| "finds t (XOpen k p # ls) v \<longleftrightarrow> no_brackets p \<and> skip_name t p = None \<and> finds t ls v"
| "finds t (XClose k p # ls) v \<longleftrightarrow> no_brackets p \<and> finds t ls v"

definition found :: "string \<Rightarrow> xml_line list \<Rightarrow> string option \<Rightarrow> bool" where
  "found t ls v \<longleftrightarrow> (v = None \<and> list_all (passes t) ls) \<or>
     (\<exists>ls1 k x ls2. v = Some x \<and> ls = ls1 @ XText k t x # ls2 \<and> list_all (passes t) ls1 \<and> no_lt x)"

lemma found_cons: "passes t l \<Longrightarrow> found t ls v \<Longrightarrow> found t (l # ls) v"
  unfolding found_def by (metis append_Cons list.pred_inject(2))

lemma finds_found: "finds t ls v \<Longrightarrow> found t ls v"
proof (induction t ls v rule: finds.induct)
  case (2 t k p x ls v)
  show ?case
  proof (cases "p = t")
    case True
    have "XText k p x # ls = [] @ XText k t x # ls" using True by simp
    then show ?thesis using 2(2) True unfolding found_def by (metis finds.simps(2) list.pred_inject(1))
  qed (use 2 in \<open>simp add: found_cons\<close>)
qed (simp_all add: found_cons, simp add: found_def)

lemma first_tag_finds:
  assumes "renders ls s" and "word_tag t" and "finds t ls v"
  shows "first_tag t s = map_option js_trim v"
  using finds_found [OF assms(3)] unfolding found_def
proof (elim disjE exE conjE)
  fix ls1 k x ls2
  assume "v = Some x" "ls = ls1 @ XText k t x # ls2" "list_all (passes t) ls1" "no_lt x"
  then show ?thesis using first_tag_text [OF _ assms(2)] assms(1) by simp
qed (use first_tag_none [OF assms(1,2)] in simp)

lemma finds_passed: "list_all (passes t) ls \<Longrightarrow> finds t (ls @ ls') v \<longleftrightarrow> finds t ls' v"
proof (induction ls)
  case (Cons l ls)
  moreover have "skip_name t t \<noteq> None" by (cases t) (auto simp: skip_name_def Let_def)
  ultimately show ?case by (cases l) auto
qed simp

lemma finds_optional:
  "finds t (opt_el k p v @ ls) w \<longleftrightarrow>
     (if truthy v then finds t (XText k p (esc_xml (the v)) # ls) w else finds t ls w)"
  by (simp add: opt_el_def)

lemma passes_optional [simp]:
  "list_all (passes t) (opt_el k p v) \<longleftrightarrow> (truthy v \<longrightarrow> no_brackets p \<and> skip_name t p = None)"
  "list_all (inside t) (opt_el k p v) \<longleftrightarrow> (truthy v \<longrightarrow> no_brackets p \<and> take 1 p \<noteq> ''/'' \<and> skip_name t p \<noteq> Some [])"
  by (simp_all add: opt_el_def)

lemmas tag_eval = skip_name_plain no_brackets_def word_tag_def is_word_def is_digit_def is_upper_def is_lower_def

lemmas name_eval = skip_name_plain no_brackets_def

definition detail_inner :: "nat \<times> invoice_line \<Rightarrow> xml_line list" where
  "detail_inner = (\<lambda>(idx, l).
     [XText 8 ''NumeroLinea'' (dec (idx + 1)),
      XText 8 ''Descrizione'' (esc_xml (il_description l)),
      XText 8 ''Quantita'' (fixed2_text (il_quantity l)),
      XText 8 ''PrezzoUnitario'' (fixed2_text (il_unitPrice l)),
      XText 8 ''PrezzoTotale'' (fixed2_text (il_lineTotal l)),
      XText 8 ''AliquotaIVA'' (fixed2_text (il_ivaRate l))]
     @ opt_el 8 ''Natura'' (il_ivaNature l))"

lemma detail_block: "detail_lines p = block_lines 6 ''DettaglioLinee'' (detail_inner p)"
  by (cases p) (simp add: detail_lines_def detail_inner_def block_lines_def)

definition summary_inner :: "string \<Rightarrow> invoice_line list \<Rightarrow> riepilogo_item \<Rightarrow> xml_line list" where
  "summary_inner esigibilita ls item =
     [XText 8 ''AliquotaIVA'' (fixed2_text (extract_rate ls item))]
     @ opt_el 8 ''Natura'' (ri_natura item)
     @ [XText 8 ''ImponibileImporto'' (fixed2_text (ri_imponibile item)),
      XText 8 ''Imposta'' (fixed2_text (ri_imposta item)),
      XText 8 ''EsigibilitaIVA'' (esc_xml esigibilita)]"

lemma summary_block: "summary_lines e ls item = block_lines 6 ''DatiRiepilogo'' (summary_inner e ls item)"
  by (simp add: summary_lines_def summary_inner_def block_lines_def)

text \<open>What the parser makes of a text: escaped as in the document, without blanks around it.\<close>

definition received_text :: "string \<Rightarrow> string" where
  "received_text s = js_trim (esc_xml s)"

definition received_cents :: "jsnum \<Rightarrow> jsnum" where
  "received_cents x = of_int (to_fixed2 x)"

definition received_rate :: "jsnum \<Rightarrow> int option" where
  "received_rate x = Some (math_round (euro (to_fixed2 x)))"

definition received_line :: "invoice_line \<Rightarrow> parsed_line" where
  "received_line l =
     \<lparr>pl_description = received_text (il_description l), pl_quantity = fixed2_text (il_quantity l),
      pl_unitOfMeasure = ''pz'', pl_unitCostCents = received_cents (il_unitPrice l),
      pl_lineTotalCents = received_cents (il_lineTotal l), pl_taxRate = received_rate (il_ivaRate l),
      pl_naturaCode = (if truthy (il_ivaNature l) \<and> received_text (the (il_ivaNature l)) \<noteq> []
        then Some (received_text (the (il_ivaNature l))) else None)\<rparr>"

definition received_iva :: "invoice_line list \<Rightarrow> riepilogo_item \<Rightarrow> parsed_iva" where
  "received_iva ls item =
     \<lparr>pv_rate = received_rate (extract_rate ls item), pv_taxableCents = received_cents (ri_imponibile item),
      pv_taxCents = received_cents (ri_imposta item),
      pv_naturaCode = (if truthy (ri_natura item) then Some (received_text (the (ri_natura item))) else None)\<rparr>"

definition small_amount :: "jsnum \<Rightarrow> bool" where
  "small_amount x \<longleftrightarrow> \<bar>to_fixed2 x\<bar> \<le> BILLION"

lemma received_strip [simp]: "strip_cdata (received_text s) = received_text s"
proof -
  have "set (js_trim s) \<subseteq> set s" for s by (auto simp: js_trim_def dest!: set_dropWhileD)
  then have "CHR ''<'' \<notin> set (received_text s)" using esc_xml_no_markup unfolding received_text_def by blast
  then show ?thesis by (simp add: strip_cdata_text) (simp add: received_text_def)
qed

lemma amount_nonempty [simp]: "fixed2_text x \<noteq> []"
  by (simp add: fixed2_text_def Let_def)

lemma rate_of_amount: "small_amount x \<Longrightarrow> rate_of_text (Some (fixed2_text x)) = received_rate x"
  by (simp add: rate_of_text_def received_rate_def number_of_amount small_amount_def)

lemma strip_unit: "strip_cdata ''pz'' = ''pz''"
  by (simp add: strip_cdata_def js_trim_def is_space_def)

lemma received_line_of_block:
  assumes "renders (detail_inner (k, l)) x"
    and "small_amount (il_unitPrice l)" "small_amount (il_lineTotal l)" "small_amount (il_ivaRate l)"
  shows "line_of_block x = received_line l"
proof -
  let ?n = "if truthy (il_ivaNature l) then Some (esc_xml (the (il_ivaNature l))) else None"
  have "first_tag ''Descrizione'' x = Some (received_text (il_description l))"
    using first_tag_finds [OF assms(1), of "''Descrizione''" "Some (esc_xml (il_description l))"]
    by (simp add: tag_eval detail_inner_def received_text_def)
  moreover have "first_tag ''Quantita'' x = Some (fixed2_text (il_quantity l))"
    using first_tag_finds [OF assms(1), of "''Quantita''" "Some (fixed2_text (il_quantity l))"]
    by (simp add: tag_eval detail_inner_def amount_trim)
  moreover have "first_tag ''UnitaMisura'' x = None"
    using first_tag_finds [OF assms(1), of "''UnitaMisura''" None]
    by (simp add: tag_eval detail_inner_def opt_el_def)
  moreover have "first_tag ''PrezzoUnitario'' x = Some (fixed2_text (il_unitPrice l))"
    using first_tag_finds [OF assms(1), of "''PrezzoUnitario''" "Some (fixed2_text (il_unitPrice l))"]
    by (simp add: tag_eval detail_inner_def amount_trim)
  moreover have "first_tag ''PrezzoTotale'' x = Some (fixed2_text (il_lineTotal l))"
    using first_tag_finds [OF assms(1), of "''PrezzoTotale''" "Some (fixed2_text (il_lineTotal l))"]
    by (simp add: tag_eval detail_inner_def amount_trim)
  moreover have "first_tag ''AliquotaIVA'' x = Some (fixed2_text (il_ivaRate l))"
    using first_tag_finds [OF assms(1), of "''AliquotaIVA''" "Some (fixed2_text (il_ivaRate l))"]
    by (simp add: tag_eval detail_inner_def amount_trim)
  moreover have "first_tag ''Natura'' x = map_option js_trim ?n"
    by (rule first_tag_finds [OF assms(1)]) (simp_all add: tag_eval detail_inner_def opt_el_def)
  ultimately show ?thesis using assms(2-4)
    by (simp add: line_of_block_def Let_def received_line_def rate_of_amount amount_strip cents_of_amount received_cents_def
        small_amount_def nullish_def strip_unit flip: received_text_def)
qed


lemma received_iva_of_block:
  assumes "renders (summary_inner e ls item) x"
    and "small_amount (extract_rate ls item)" "small_amount (ri_imponibile item)" "small_amount (ri_imposta item)"
  shows "iva_of_block x = received_iva ls item"
proof -
  let ?n = "if truthy (ri_natura item) then Some (esc_xml (the (ri_natura item))) else None"
  have "first_tag ''AliquotaIVA'' x = Some (fixed2_text (extract_rate ls item))"
    using first_tag_finds [OF assms(1), of "''AliquotaIVA''" "Some (fixed2_text (extract_rate ls item))"]
    by (simp add: tag_eval summary_inner_def amount_trim)
  moreover have "first_tag ''ImponibileImporto'' x = Some (fixed2_text (ri_imponibile item))"
    using first_tag_finds [OF assms(1), of "''ImponibileImporto''" "Some (fixed2_text (ri_imponibile item))"]
    by (simp add: tag_eval summary_inner_def amount_trim finds_optional)
  moreover have "first_tag ''Imposta'' x = Some (fixed2_text (ri_imposta item))"
    using first_tag_finds [OF assms(1), of "''Imposta''" "Some (fixed2_text (ri_imposta item))"]
    by (simp add: tag_eval summary_inner_def amount_trim finds_optional)
  moreover have "first_tag ''Natura'' x = map_option js_trim ?n"
    by (rule first_tag_finds [OF assms(1)]) (simp_all add: tag_eval summary_inner_def finds_optional)
  ultimately show ?thesis using assms(2-4)
    by (simp add: iva_of_block_def Let_def received_iva_def rate_of_amount cents_of_amount received_cents_def
        small_amount_def flip: received_text_def)
qed

text \<open>The document as a sequence of blocks.\<close>

definition before_parties :: "fattura_input \<Rightarrow> xml_line list" where
  "before_parties inp = takeWhile (\<lambda>l. l \<noteq> XOpen 4 ''CedentePrestatore'') (header_lines inp)"

definition supplier_inner :: "fattura_input \<Rightarrow> xml_line list" where
  "supplier_inner inp =
     (let t = fi_tenant inp; vat = the (ft_vatNumber t)
      in [XOpen 6 ''DatiAnagrafici'', XOpen 8 ''IdFiscaleIVA'',
          XText 10 ''IdPaese'' (esc_xml ''IT''), XText 10 ''IdCodice'' (esc_xml vat), XClose 8 ''IdFiscaleIVA'']
        @ opt_el 8 ''CodiceFiscale'' (ft_fiscalCode t)
        @ [XOpen 8 ''Anagrafica'', XText 10 ''Denominazione'' (esc_xml (ft_name t)), XClose 8 ''Anagrafica'',
          XText 8 ''RegimeFiscale'' ''RF01'', XClose 6 ''DatiAnagrafici'', XOpen 6 ''Sede'',
          XText 8 ''Indirizzo'' (esc_xml (nullish (ft_billingAddress t) ''N/D'')),
          XText 8 ''CAP'' (esc_xml (nullish (ft_billingPostalCode t) ''00000'')),
          XText 8 ''Comune'' (esc_xml (nullish (ft_billingCity t) ''N/D''))]
        @ opt_el 8 ''Provincia'' (ft_billingProvince t)
        @ [XText 8 ''Nazione'' (esc_xml (nullish (ft_billingCountry t) ''IT'')), XClose 6 ''Sede''])"

definition customer_inner :: "fattura_input \<Rightarrow> xml_line list" where
  "customer_inner inp =
     (let c = fi_customer inp
      in [XOpen 6 ''DatiAnagrafici'']
        @ (if truthy (cu_vatNumber c)
           then [XOpen 8 ''IdFiscaleIVA'', XText 10 ''IdPaese'' (esc_xml (cu_country c)),
                 XText 10 ''IdCodice'' (esc_xml (the (cu_vatNumber c))), XClose 8 ''IdFiscaleIVA''] else [])
        @ opt_el 8 ''CodiceFiscale'' (cu_fiscalCode c)
        @ [XOpen 8 ''Anagrafica'', XText 10 ''Denominazione'' (esc_xml (cu_name c)), XClose 8 ''Anagrafica'',
          XClose 6 ''DatiAnagrafici'', XOpen 6 ''Sede'',
          XText 8 ''Indirizzo'' (esc_xml (nullish (cu_address c) ''N/D'')),
          XText 8 ''CAP'' (esc_xml (nullish (cu_postalCode c) ''00000'')),
          XText 8 ''Comune'' (esc_xml (nullish (cu_city c) ''N/D''))]
        @ opt_el 8 ''Provincia'' (cu_province c)
        @ [XText 8 ''Nazione'' (esc_xml (cu_country c)), XClose 6 ''Sede''])"

lemma header_blocks:
  "header_lines inp = before_parties inp @ block_lines 4 ''CedentePrestatore'' (supplier_inner inp)
     @ block_lines 4 ''CessionarioCommittente'' (customer_inner inp) @ [XClose 2 ''FatturaElettronicaHeader'']"
proof -
  have opt: "takeWhile (\<lambda>l. l \<noteq> XOpen 4 q) (opt_el k p v @ ls) = opt_el k p v @ takeWhile (\<lambda>l. l \<noteq> XOpen 4 q) ls"
    for k p v q ls by (simp add: opt_el_def)
  show ?thesis
    by (simp add: before_parties_def header_lines_def supplier_inner_def customer_inner_def block_lines_def Let_def opt
        xml_declaration_def)
qed

lemma skip_root: "word_tag t \<Longrightarrow> hd t \<noteq> CHR ''F'' \<Longrightarrow> hd t \<noteq> CHR ''p'' \<Longrightarrow> skip_name t (root_tag f) = None"
  by (cases t) (simp_all add: word_tag_def skip_name_def root_tag_def Let_def is_word_def is_digit_def is_upper_def is_lower_def)

lemma root_brackets: "no_brackets f \<Longrightarrow> no_brackets (root_tag f)"
  by (simp add: root_tag_def quoted_def no_brackets_def)

definition lookup_tags :: "string list" where
  "lookup_tags = [''Numero'', ''Data'', ''TipoDocumento'', ''Divisa'', ''ImportoTotaleDocumento'', ''CedentePrestatore'',
     ''CessionarioCommittente'', ''DettaglioLinee'', ''DatiRiepilogo'', ''DettaglioPagamento'']"

lemma lookup_words: "t \<in> set lookup_tags \<Longrightarrow> word_tag t"
  by (auto simp: lookup_tags_def tag_eval)

lemma before_passes: "t \<in> set lookup_tags \<Longrightarrow> list_all (passes t) (before_parties inp)"
proof -
  have opt: "takeWhile (\<lambda>l. l \<noteq> XOpen 4 q) (opt_el k p v @ ls) = opt_el k p v @ takeWhile (\<lambda>l. l \<noteq> XOpen 4 q) ls"
    for k p v q ls by (simp add: opt_el_def)
  assume t: "t \<in> set lookup_tags"
  then have root: "skip_name t (root_tag f) = None" for f
    using skip_root [OF lookup_words [OF t]] by (auto simp: lookup_tags_def)
  have "no_brackets (root_tag ''FPA12'')" "no_brackets (root_tag ''FPR12'')"
    by (rule root_brackets, simp add: no_brackets_def)+
  then show ?thesis using t root [of "''FPA12''"] root [of "''FPR12''"]
    unfolding lookup_tags_def list.set
    by (elim insertE emptyE)
      (simp_all add: before_parties_def header_lines_def Let_def opt xml_declaration_def
        name_eval quoted_def)
qed


lemma parties_pass:
  assumes "t \<in> set lookup_tags" and "t \<noteq> ''CedentePrestatore''" and "t \<noteq> ''CessionarioCommittente''"
  shows "list_all (passes t) (header_lines inp)"
proof -
  have "list_all (passes t) (block_lines 4 ''CedentePrestatore'' (supplier_inner inp))"
    "list_all (passes t) (block_lines 4 ''CessionarioCommittente'' (customer_inner inp))"
    using assms unfolding lookup_tags_def list.set
    by (elim insertE emptyE, simp_all add: block_lines_def supplier_inner_def customer_inner_def Let_def name_eval)+
  then show ?thesis using before_passes [OF assms(1), of inp] by (simp add: header_blocks name_eval)
qed

lemma customer_passes_supplier: "list_all (passes ''CedentePrestatore'') (block_lines k ''CessionarioCommittente'' (customer_inner inp))"
  and supplier_passes_customer: "list_all (passes ''CessionarioCommittente'') (block_lines k ''CedentePrestatore'' (supplier_inner inp))"
  and parties_inside: "list_all (inside ''CedentePrestatore'') (supplier_inner inp)"
    "list_all (inside ''CessionarioCommittente'') (customer_inner inp)"
  by (simp_all add: block_lines_def supplier_inner_def customer_inner_def Let_def tag_eval)

text \<open>Dates as the database prints them.\<close>

definition iso_day :: "string \<Rightarrow> bool" where
  "iso_day d \<longleftrightarrow> iso_text d \<and> length d = 10 \<and> format_date d = d"

lemma iso_day_text: "iso_day d \<Longrightarrow> js_trim d = d \<and> no_lt d"
  by (fastforce simp: iso_day_def iso_text_def list_all_iff is_digit_def is_space_def no_lt_def intro!: js_trim_no_space)

lemma general_passes:
  assumes "t \<in> {''CedentePrestatore'', ''CessionarioCommittente'', ''DettaglioLinee'', ''DatiRiepilogo'', ''DettaglioPagamento''}"
    and "iso_day (inv_invoiceDate (fi_invoice inp))"
  shows "list_all (passes t) (general_lines inp)"
proof -
  have "no_lt (format_date (inv_invoiceDate (fi_invoice inp)))" using assms(2) iso_day_text by (simp add: iso_day_def)
  then show ?thesis using assms(1)
    by (elim insertE emptyE) (simp_all add: general_lines_def Let_def name_eval split: option.split)
qed

definition payment_inner :: "fattura_input \<Rightarrow> xml_line list" where
  "payment_inner inp =
     [XText 8 ''ModalitaPagamento'' ''MP05'',
      XText 8 ''DataScadenzaPagamento'' (format_date (inv_invoiceDate (fi_invoice inp))),
      XText 8 ''ImportoPagamento'' (fixed2_text (inv_totalAmount (fi_invoice inp)))]"

definition payment_lines :: "fattura_input \<Rightarrow> xml_line list" where
  "payment_lines inp = [XClose 4 ''DatiBeniServizi'', XOpen 4 ''DatiPagamento'', XText 6 ''CondizioniPagamento'' ''TP02'']"

definition closing_lines :: "xml_line list" where
  "closing_lines = [XClose 4 ''DatiPagamento'', XClose 2 ''FatturaElettronicaBody'', XClose 0 ''p:FatturaElettronica'']"

definition due_mode :: "fattura_input \<Rightarrow> string" where
  "due_mode inp = (if cu_splitPayment (fi_customer inp) then ''S'' else ''I'')"

lemma body_blocks:
  "body_lines inp = [XOpen 4 ''DatiBeniServizi'']
     @ concat (map (block_lines 6 ''DettaglioLinee'') (map detail_inner (enumerate 0 (inv_lines (fi_invoice inp)))))
     @ concat (map (block_lines 6 ''DatiRiepilogo'')
         (map (summary_inner (due_mode inp) (inv_lines (fi_invoice inp))) (riepilogo (inv_lines (fi_invoice inp)))))
     @ payment_lines inp @ block_lines 6 ''DettaglioPagamento'' (payment_inner inp) @ closing_lines"
proof -
  have "detail_lines = block_lines 6 ''DettaglioLinee'' \<circ> detail_inner"
    "summary_lines e ls = block_lines 6 ''DatiRiepilogo'' \<circ> summary_inner e ls" for e ls
    by (simp_all add: fun_eq_iff detail_block summary_block)
  then show ?thesis
    by (simp add: body_lines_def Let_def due_mode_def payment_lines_def payment_inner_def closing_lines_def
        block_lines_def [of _ "''DettaglioPagamento''"])
qed

lemma list_all_blocks: "list_all P (concat (map f xs)) \<longleftrightarrow> list_all (\<lambda>x. list_all P (f x)) xs"
  by (rule list_all_concat)

lemma detail_passes:
  "t \<in> {''CedentePrestatore'', ''CessionarioCommittente'', ''DatiRiepilogo'', ''DettaglioPagamento''} \<Longrightarrow>
     list_all (passes t) (block_lines k ''DettaglioLinee'' (detail_inner p))"
  "list_all (inside ''DettaglioLinee'') (detail_inner p)"
  by (cases p, elim insertE emptyE, simp_all add: block_lines_def detail_inner_def name_eval)
    (cases p, simp add: detail_inner_def name_eval)

lemma summary_passes:
  "t \<in> {''CedentePrestatore'', ''CessionarioCommittente'', ''DettaglioLinee'', ''DettaglioPagamento''} \<Longrightarrow>
     list_all (passes t) (block_lines k ''DatiRiepilogo'' (summary_inner e ls item))"
  "list_all (inside ''DatiRiepilogo'') (summary_inner e ls item)"
  by (elim insertE emptyE, simp_all add: block_lines_def summary_inner_def name_eval)

lemma payment_passes:
  assumes "iso_day (inv_invoiceDate (fi_invoice inp))"
  shows "t \<in> set lookup_tags \<Longrightarrow> list_all (passes t) (payment_lines inp)" "list_all (passes t) closing_lines"
    "t \<in> {''CedentePrestatore'', ''CessionarioCommittente'', ''DettaglioLinee'', ''DatiRiepilogo''} \<Longrightarrow>
       list_all (passes t) (block_lines k ''DettaglioPagamento'' (payment_inner inp))"
    "list_all (inside ''DettaglioPagamento'') (payment_inner inp)"
proof -
  have d: "no_lt (format_date (inv_invoiceDate (fi_invoice inp)))" using assms iso_day_text by (simp add: iso_day_def)
  show "t \<in> set lookup_tags \<Longrightarrow> list_all (passes t) (payment_lines inp)" "list_all (passes t) closing_lines"
    unfolding lookup_tags_def list.set
    by (elim insertE emptyE, simp_all add: payment_lines_def closing_lines_def name_eval)
  show "t \<in> {''CedentePrestatore'', ''CessionarioCommittente'', ''DettaglioLinee'', ''DatiRiepilogo''} \<Longrightarrow>
       list_all (passes t) (block_lines k ''DettaglioPagamento'' (payment_inner inp))"
    "list_all (inside ''DettaglioPagamento'') (payment_inner inp)"
    using d by (elim insertE emptyE, simp_all add: block_lines_def payment_inner_def name_eval)
qed

end
