(* ===== verification/PecProps.thy ===== *)
theory PecProps
  imports PecReading
begin

text \<open>
  The parser of received invoices reads the invoices that the builder of this program emits,
  to the cent; and collecting attachments accounts for every one of them.
\<close>

section \<open>Whole documents\<close>

text \<open>VAT numbers and document numbers: letters, digits, dashes and slashes.\<close>

definition code_text :: "string \<Rightarrow> bool" where
  "code_text s \<longleftrightarrow> s \<noteq> [] \<and> list_all (\<lambda>c. is_word c \<or> c = CHR ''-'' \<or> c = CHR ''/'') s"

lemma received_code: "code_text s \<Longrightarrow> received_text s = s"
proof -
  assume s: "code_text s"
  have "esc_char c = [c] \<and> \<not> is_space c" if "is_word c \<or> c = CHR ''-'' \<or> c = CHR ''/''" for c
  proof -
    have "\<not> (is_word c \<or> c = CHR ''-'' \<or> c = CHR ''/'')" if "c \<in> {CHR ''&'', CHR ''<'', CHR ''>'', CHR 0x22, CHR 0x27}"
      using that by (elim insertE emptyE) (simp_all add: is_word_def is_digit_def is_upper_def is_lower_def)
    then have "c \<notin> {CHR ''&'', CHR ''<'', CHR ''>'', CHR 0x22, CHR 0x27}" using that by blast
    then have "esc_char c = [c]" by (simp add: esc_char_def)
    moreover have "\<not> is_space c"
      using that by (elim disjE) (auto simp: is_word_def is_digit_def is_upper_def is_lower_def is_space_def)
    ultimately show ?thesis by simp
  qed
  then have c: "esc_char c = [c]" "\<not> is_space c" if "c \<in> set s" for c
    using s that by (simp_all add: code_text_def list_all_iff)
  have "(\<And>c. c \<in> set r \<Longrightarrow> esc_char c = [c]) \<Longrightarrow> concat (map esc_char r) = r" for r by (induction r) simp_all
  then have "esc_xml s = s" "list_all (\<lambda>c. \<not> is_space c) s"
    using c by (simp_all add: esc_xml_concat list_all_iff)
  then show ?thesis by (simp add: received_text_def js_trim_no_space)
qed

lemma blocks_pass: "(\<And>p. list_all P (f (g p))) \<Longrightarrow> list_all P (concat (map f (map g ps)))"
  by (induction ps) simp_all

lemma document_blocks:
  assumes "build_fattura inp = Inr out"
  shows "renders (header_lines inp @ general_lines inp @ body_lines inp) (fo_xml out)"
  using assms renders_document by (auto simp: build_fattura_def Let_def split: if_splits)

lemma received_lines:
  assumes "build_fattura inp = Inr out" and "iso_day (inv_invoiceDate (fi_invoice inp))"
    and "\<And>l. l \<in> set (inv_lines (fi_invoice inp)) \<Longrightarrow>
      small_amount (il_unitPrice l) \<and> small_amount (il_lineTotal l) \<and> small_amount (il_ivaRate l)"
  shows "parse_lines (fo_xml out) = map received_line (inv_lines (fi_invoice inp))"
proof -
  let ?t = "''DettaglioLinee''" and ?ls = "inv_lines (fi_invoice inp)"
  let ?rest = "concat (map (block_lines 6 ''DatiRiepilogo'') (map (summary_inner (due_mode inp) ?ls) (riepilogo ?ls)))
     @ payment_lines inp @ block_lines 6 ''DettaglioPagamento'' (payment_inner inp) @ closing_lines"
  have t: "?t \<in> set lookup_tags" by (simp add: lookup_tags_def)
  have "list_all2 renders (map detail_inner (enumerate 0 ?ls)) (all_blocks ?t (fo_xml out))"
  proof (rule all_blocks_lines)
    show "renders ((header_lines inp @ general_lines inp @ [XOpen 4 ''DatiBeniServizi''])
        @ concat (map (block_lines 6 ?t) (map detail_inner (enumerate 0 ?ls))) @ ?rest) (fo_xml out)"
      using document_blocks [OF assms(1)] unfolding body_blocks append_assoc .
    show "word_tag ?t" by (rule lookup_words [OF t])
    show "list_all (passes ?t) (header_lines inp @ general_lines inp @ [XOpen 4 ''DatiBeniServizi''])"
      using parties_pass [OF t, of inp] general_passes [OF _ assms(2), of ?t] by (simp add: name_eval)
    have "list_all (passes ?t) (concat (map (block_lines 6 ''DatiRiepilogo'')
        (map (summary_inner (due_mode inp) ?ls) (riepilogo ?ls))))"
      by (rule blocks_pass, rule summary_passes(1)) simp
    then show "list_all (passes ?t) ?rest"
      using payment_passes(1) [OF assms(2) t] payment_passes(2) [OF assms(2), of ?t] payment_passes(3) [OF assms(2), of ?t]
      by (simp del: map_map)
    show "list_all (list_all (inside ?t)) (map detail_inner (enumerate 0 ?ls))"
      using detail_passes(2) by (simp add: list_all_iff)
  qed
  then have blocks: "list_all2 (\<lambda>p x. renders (detail_inner p) x) (enumerate 0 ?ls) (all_blocks ?t (fo_xml out))"
    by (simp add: list_all2_map1)
  have "map line_of_block xs = map (\<lambda>p. received_line (snd p)) ps"
    if "list_all2 (\<lambda>p x. renders (detail_inner p) x) ps xs" "snd ` set ps \<subseteq> set ?ls" for ps xs
    using that
  proof (induction rule: list_all2_induct)
    case (Cons p ps x xs)
    then show ?case using received_line_of_block [of "fst p" "snd p" x] assms(3) by (cases p) simp
  qed simp
  moreover have "snd ` set (enumerate 0 ?ls) \<subseteq> set ?ls" by (simp flip: set_map)
  moreover have "map (\<lambda>p. received_line (snd p)) (enumerate 0 ?ls) = map received_line ?ls"
    by (simp flip: map_map [of received_line snd, unfolded o_def])
  ultimately show ?thesis using blocks by (simp only: parse_lines_def)
qed

lemma received_breakdown:
  assumes "build_fattura inp = Inr out" and "iso_day (inv_invoiceDate (fi_invoice inp))"
    and "\<And>item. item \<in> set (riepilogo (inv_lines (fi_invoice inp))) \<Longrightarrow>
      small_amount (extract_rate (inv_lines (fi_invoice inp)) item) \<and> small_amount (ri_imponibile item) \<and>
      small_amount (ri_imposta item)"
  shows "parse_iva_breakdown (fo_xml out) =
    map (received_iva (inv_lines (fi_invoice inp))) (riepilogo (inv_lines (fi_invoice inp)))"
proof -
  let ?t = "''DatiRiepilogo''" and ?ls = "inv_lines (fi_invoice inp)"
  let ?before = "header_lines inp @ general_lines inp @ [XOpen 4 ''DatiBeniServizi'']
     @ concat (map (block_lines 6 ''DettaglioLinee'') (map detail_inner (enumerate 0 ?ls)))"
  let ?rest = "payment_lines inp @ block_lines 6 ''DettaglioPagamento'' (payment_inner inp) @ closing_lines"
  have t: "?t \<in> set lookup_tags" by (simp add: lookup_tags_def)
  have "list_all2 renders (map (summary_inner (due_mode inp) ?ls) (riepilogo ?ls)) (all_blocks ?t (fo_xml out))"
  proof (rule all_blocks_lines)
    show "renders (?before @ concat (map (block_lines 6 ?t) (map (summary_inner (due_mode inp) ?ls) (riepilogo ?ls))) @ ?rest)
        (fo_xml out)"
      using document_blocks [OF assms(1)] unfolding body_blocks append_assoc .
    show "word_tag ?t" by (rule lookup_words [OF t])
    have "list_all (passes ?t) (concat (map (block_lines 6 ''DettaglioLinee'') (map detail_inner (enumerate 0 ?ls))))"
      by (rule blocks_pass, rule detail_passes(1)) simp
    then show "list_all (passes ?t) ?before"
      using parties_pass [OF t, of inp] general_passes [OF _ assms(2), of ?t] by (simp add: name_eval del: map_map)
    show "list_all (passes ?t) ?rest"
      using payment_passes(1) [OF assms(2) t] payment_passes(2) [OF assms(2), of ?t] payment_passes(3) [OF assms(2), of ?t]
      by simp
    show "list_all (list_all (inside ?t)) (map (summary_inner (due_mode inp) ?ls) (riepilogo ?ls))"
      using summary_passes(2) by (simp add: list_all_iff)
  qed
  then have blocks: "list_all2 (\<lambda>p x. renders (summary_inner (due_mode inp) ?ls p) x) (riepilogo ?ls) (all_blocks ?t (fo_xml out))"
    by (simp add: list_all2_map1)
  have "map iva_of_block xs = map (received_iva ?ls) ps"
    if "list_all2 (\<lambda>p x. renders (summary_inner (due_mode inp) ?ls p) x) ps xs" "set ps \<subseteq> set (riepilogo ?ls)" for ps xs
    using that
  proof (induction rule: list_all2_induct)
    case (Cons p ps x xs)
    then show ?case using received_iva_of_block [of "due_mode inp" ?ls p x] assms(3) by simp
  qed simp
  from this [OF blocks] show ?thesis by (simp add: parse_iva_breakdown_def)
qed


lemma party_fields:
  assumes "build_fattura inp = Inr out" and "iso_day (inv_invoiceDate (fi_invoice inp))"
    and "truthy (cu_vatNumber (fi_customer inp))"
  shows "first_nested (fo_xml out) ''CedentePrestatore'' ''IdCodice'' = Some (received_text (the (ft_vatNumber (fi_tenant inp))))"
    "first_nested (fo_xml out) ''CedentePrestatore'' ''Denominazione'' = Some (received_text (ft_name (fi_tenant inp)))"
    "first_nested (fo_xml out) ''CessionarioCommittente'' ''IdCodice'' = Some (received_text (the (cu_vatNumber (fi_customer inp))))"
proof -
  let ?s = "''CedentePrestatore''" and ?c = "''CessionarioCommittente''"
  let ?rest = "[XClose 2 ''FatturaElettronicaHeader''] @ general_lines inp @ body_lines inp"
  have tags: "?s \<in> set lookup_tags" "?c \<in> set lookup_tags" by (simp_all add: lookup_tags_def)
  have doc: "renders (before_parties inp @ block_lines 4 ?s (supplier_inner inp) @ block_lines 4 ?c (customer_inner inp) @ ?rest) (fo_xml out)"
    using document_blocks [OF assms(1)] unfolding header_blocks append_assoc .
  have body: "list_all (passes t) (body_lines inp)" if "t \<in> {?s, ?c}" for t
  proof -
    have t: "t \<in> set lookup_tags" using that tags by auto
    have "list_all (passes t) (concat (map (block_lines 6 ''DettaglioLinee'') (map detail_inner (enumerate 0 (inv_lines (fi_invoice inp))))))"
      by (rule blocks_pass, rule detail_passes(1)) (use that in auto)
    moreover have "list_all (passes t) (concat (map (block_lines 6 ''DatiRiepilogo'')
        (map (summary_inner (due_mode inp) (inv_lines (fi_invoice inp))) (riepilogo (inv_lines (fi_invoice inp))))))"
      by (rule blocks_pass, rule summary_passes(1)) (use that in auto)
    moreover have "list_all (passes t) (block_lines 6 ''DettaglioPagamento'' (payment_inner inp))"
      using payment_passes(3) [OF assms(2)] that by auto
    moreover have "passes t (XOpen 4 ''DatiBeniServizi'')" using that by (auto simp: name_eval)
    ultimately show ?thesis
      using payment_passes(1) [OF assms(2) t] payment_passes(2) [OF assms(2)] by (simp add: body_blocks del: map_map passes.simps)
  qed
  have rest: "list_all (passes t) ?rest" if "t \<in> {?s, ?c}" for t
    using body [OF that] general_passes [OF _ assms(2), of t] that by (auto simp: name_eval)
  have "\<exists>x. renders (supplier_inner inp) x \<and> (\<forall>inner. first_nested (fo_xml out) ?s inner = first_tag inner x)"
  proof (rule first_nested_lines [OF doc lookup_words [OF tags(1)] before_passes [OF tags(1)]])
    show "list_all (passes ?s) (block_lines 4 ?c (customer_inner inp) @ ?rest)"
      using customer_passes_supplier rest [of ?s] by simp
  qed (rule parties_inside)
  then obtain x where x: "renders (supplier_inner inp) x" "first_nested (fo_xml out) ?s inner = first_tag inner x" for inner
    by blast
  have "\<exists>y. renders (customer_inner inp) y \<and> (\<forall>inner. first_nested (fo_xml out) ?c inner = first_tag inner y)"
  proof (rule first_nested_lines [of "before_parties inp @ block_lines 4 ?s (supplier_inner inp)"])
    show "renders ((before_parties inp @ block_lines 4 ?s (supplier_inner inp)) @ block_lines 4 ?c (customer_inner inp) @ ?rest) (fo_xml out)"
      using doc by simp
    show "list_all (passes ?c) (before_parties inp @ block_lines 4 ?s (supplier_inner inp))"
      using supplier_passes_customer before_passes [OF tags(2)] by simp
    show "list_all (passes ?c) ?rest" by (rule rest) simp
  qed (rule lookup_words [OF tags(2)] parties_inside)+
  then obtain y where y: "renders (customer_inner inp) y" "first_nested (fo_xml out) ?c inner = first_tag inner y" for inner
    by blast
  show "first_nested (fo_xml out) ?s ''IdCodice'' = Some (received_text (the (ft_vatNumber (fi_tenant inp))))"
    using first_tag_finds [OF x(1), of "''IdCodice''" "Some (esc_xml (the (ft_vatNumber (fi_tenant inp))))"]
    by (simp add: x(2) tag_eval supplier_inner_def Let_def received_text_def)
  show "first_nested (fo_xml out) ?s ''Denominazione'' = Some (received_text (ft_name (fi_tenant inp)))"
    using first_tag_finds [OF x(1), of "''Denominazione''" "Some (esc_xml (ft_name (fi_tenant inp)))"]
    by (simp add: x(2) tag_eval supplier_inner_def Let_def received_text_def finds_optional)
  show "first_nested (fo_xml out) ?c ''IdCodice'' = Some (received_text (the (cu_vatNumber (fi_customer inp))))"
    using first_tag_finds [OF y(1), of "''IdCodice''" "Some (esc_xml (the (cu_vatNumber (fi_customer inp))))"] assms(3)
    by (simp add: y(2) tag_eval customer_inner_def Let_def received_text_def)
qed

lemma general_fields:
  assumes "build_fattura inp = Inr out" and "iso_day (inv_invoiceDate (fi_invoice inp))"
  shows "first_tag ''Numero'' (fo_xml out) = Some (received_text (inv_number (fi_invoice inp)))"
    "first_tag ''Data'' (fo_xml out) = Some (inv_invoiceDate (fi_invoice inp))"
    "first_tag ''TipoDocumento'' (fo_xml out) = Some (document_type_text (inv_documentType (fi_invoice inp)))"
    "first_tag ''Divisa'' (fo_xml out) = Some ''EUR''"
    "first_tag ''ImportoTotaleDocumento'' (fo_xml out) = Some (fixed2_text (inv_totalAmount (fi_invoice inp)))"
proof -
  let ?i = "fi_invoice inp"
  have d: "format_date (inv_invoiceDate ?i) = inv_invoiceDate ?i" "js_trim (inv_invoiceDate ?i) = inv_invoiceDate ?i"
      "no_lt (inv_invoiceDate ?i)"
    using assms(2) iso_day_text by (simp_all add: iso_day_def)
  have find: "first_tag t (fo_xml out) = map_option js_trim v"
    if "t \<in> set lookup_tags" "t \<noteq> ''CedentePrestatore''" "t \<noteq> ''CessionarioCommittente''"
      "finds t (general_lines inp @ body_lines inp) v" for t v
    using first_tag_finds [OF document_blocks [OF assms(1)] lookup_words [OF that(1)]]
      finds_passed [OF parties_pass [OF that(1-3)]] that(4) by blast
  show "first_tag ''Numero'' (fo_xml out) = Some (received_text (inv_number ?i))"
    using find [of "''Numero''" "Some (esc_xml (inv_number ?i))"]
    by (simp add: lookup_tags_def general_lines_def Let_def name_eval d received_text_def)
  show "first_tag ''Data'' (fo_xml out) = Some (inv_invoiceDate ?i)"
    using find [of "''Data''" "Some (inv_invoiceDate ?i)"]
    by (simp add: lookup_tags_def general_lines_def Let_def name_eval d)
  show "first_tag ''Divisa'' (fo_xml out) = Some ''EUR''"
    using find [of "''Divisa''" "Some ''EUR''"]
    by (simp add: lookup_tags_def general_lines_def Let_def name_eval js_trim_def is_space_def)
  show "first_tag ''ImportoTotaleDocumento'' (fo_xml out) = Some (fixed2_text (inv_totalAmount ?i))"
    using find [of "''ImportoTotaleDocumento''" "Some (fixed2_text (inv_totalAmount ?i))"]
    by (simp add: lookup_tags_def general_lines_def Let_def name_eval d amount_trim)
  have "code_text (document_type_text (inv_documentType ?i))"
    by (cases "inv_documentType ?i") (simp_all add: document_type_text_def code_text_def is_word_def is_digit_def is_upper_def is_lower_def)
  then show "first_tag ''TipoDocumento'' (fo_xml out) = Some (document_type_text (inv_documentType ?i))"
    using find [of "''TipoDocumento''" "Some (esc_xml (document_type_text (inv_documentType ?i)))"] received_code
    by (simp add: lookup_tags_def general_lines_def Let_def name_eval received_text_def)
qed


lemma payment_due:
  assumes "build_fattura inp = Inr out" and "iso_day (inv_invoiceDate (fi_invoice inp))"
  shows "first_nested (fo_xml out) ''DettaglioPagamento'' ''DataScadenzaPagamento'' = Some (inv_invoiceDate (fi_invoice inp))"
proof -
  let ?t = "''DettaglioPagamento''" and ?ls = "inv_lines (fi_invoice inp)"
  let ?before = "header_lines inp @ general_lines inp @ [XOpen 4 ''DatiBeniServizi'']
     @ concat (map (block_lines 6 ''DettaglioLinee'') (map detail_inner (enumerate 0 ?ls)))
     @ concat (map (block_lines 6 ''DatiRiepilogo'') (map (summary_inner (due_mode inp) ?ls) (riepilogo ?ls)))
     @ payment_lines inp"
  have d: "format_date (inv_invoiceDate (fi_invoice inp)) = inv_invoiceDate (fi_invoice inp)"
      "js_trim (inv_invoiceDate (fi_invoice inp)) = inv_invoiceDate (fi_invoice inp)" "no_lt (inv_invoiceDate (fi_invoice inp))"
    using assms(2) iso_day_text by (simp_all add: iso_day_def)
  have t: "?t \<in> set lookup_tags" by (simp add: lookup_tags_def)
  have "\<exists>x. renders (payment_inner inp) x \<and> (\<forall>inner. first_nested (fo_xml out) ?t inner = first_tag inner x)"
  proof (rule first_nested_lines [of ?before])
    show "renders (?before @ block_lines 6 ?t (payment_inner inp) @ closing_lines) (fo_xml out)"
      using document_blocks [OF assms(1)] unfolding body_blocks append_assoc .
    have "list_all (passes ?t) (concat (map (block_lines 6 ''DettaglioLinee'') (map detail_inner (enumerate 0 ?ls))))"
      by (rule blocks_pass, rule detail_passes(1)) simp
    moreover have "list_all (passes ?t) (concat (map (block_lines 6 ''DatiRiepilogo'')
        (map (summary_inner (due_mode inp) ?ls) (riepilogo ?ls))))"
      by (rule blocks_pass, rule summary_passes(1)) simp
    ultimately show "list_all (passes ?t) ?before"
      using parties_pass [OF t, of inp] general_passes [OF _ assms(2), of ?t] payment_passes(1) [OF assms(2) t]
      by (simp add: name_eval del: map_map)
    show "list_all (passes ?t) closing_lines" using payment_passes(2) [OF assms(2)] .
    show "list_all (inside ?t) (payment_inner inp)" using payment_passes(4) [OF assms(2)] .
  qed (rule lookup_words [OF t])
  then obtain x where x: "renders (payment_inner inp) x" "first_nested (fo_xml out) ?t inner = first_tag inner x" for inner
    by blast
  show ?thesis
    using first_tag_finds [OF x(1), of "''DataScadenzaPagamento''" "Some (inv_invoiceDate (fi_invoice inp))"]
    by (simp add: x(2) tag_eval payment_inner_def d)
qed

section \<open>Round trip\<close>

definition received :: "fattura_input \<Rightarrow> parsed_fattura" where
  "received inp =
     (let i = fi_invoice inp; ls = map received_line (inv_lines i);
          ivas = map (received_iva (inv_lines i)) (riepilogo (inv_lines i))
      in \<lparr>pf_invoiceNumber = inv_number i, pf_invoiceDate = inv_invoiceDate i,
          pf_supplierVatNumber = the (ft_vatNumber (fi_tenant inp)),
          pf_supplierName = received_text (ft_name (fi_tenant inp)),
          pf_customerVatNumber = the (cu_vatNumber (fi_customer inp)),
          pf_documentType = document_type_text (inv_documentType i),
          pf_subtotalCents = js_sum pl_lineTotalCents ls, pf_taxCents = js_sum pv_taxCents ivas,
          pf_totalCents = received_cents (inv_totalAmount i), pf_currency = ''EUR'',
          pf_ivaBreakdown = ivas, pf_lines = ls, pf_paymentDueDate = Some (inv_invoiceDate i)\<rparr>)"

definition small_amounts :: "fattura_input \<Rightarrow> bool" where
  "small_amounts inp \<longleftrightarrow>
     (let ls = inv_lines (fi_invoice inp)
      in small_amount (inv_totalAmount (fi_invoice inp)) \<and>
         list_all (\<lambda>l. small_amount (il_unitPrice l) \<and> small_amount (il_lineTotal l) \<and> small_amount (il_ivaRate l)) ls \<and>
         list_all (\<lambda>item. small_amount (extract_rate ls item) \<and> small_amount (ri_imponibile item) \<and>
           small_amount (ri_imposta item)) (riepilogo ls))"



section \<open>Collecting attachments\<close>

text \<open>What becomes of the attachments that are picked, in order.\<close>

definition outcomes :: "(string \<Rightarrow> string) \<Rightarrow> pec_message list \<Rightarrow> (pec_ingest_error + pec_candidate) list" where
  "outcomes utf8 ms = concat (map (\<lambda>m. map (ingest_attachment utf8 (pm_messageId m)) (pick_attachments m)) ms)"

definition lefts :: "('a + 'b) list \<Rightarrow> 'a list" where "lefts xs = map projl (filter isl xs)"
definition rights :: "('a + 'b) list \<Rightarrow> 'b list" where "rights xs = map projr (filter (\<lambda>x. \<not> isl x) xs)"

lemma sides_append: "lefts (xs @ ys) = lefts xs @ lefts ys" "rights (xs @ ys) = rights xs @ rights ys"
  by (simp_all add: lefts_def rights_def)

lemma sides_simps [simp]:
  "lefts [] = []" "lefts (Inl e # xs) = e # lefts xs" "lefts (Inr c # xs) = lefts xs"
  "rights [] = []" "rights (Inl e # xs) = rights xs" "rights (Inr c # xs) = c # rights xs"
  by (simp_all add: lefts_def rights_def)

lemma summary_outcomes:
  "ps_candidates (list_fattura_pa_candidates utf8 t ms) = rights (outcomes utf8 ms) \<and>
   ps_errors (list_fattura_pa_candidates utf8 t ms) = lefts (outcomes utf8 ms)"
proof -
  define step where "step = (\<lambda>messageId a (cs, es). case ingest_attachment utf8 messageId a of
      Inl e \<Rightarrow> (cs, es @ [e]) | Inr c \<Rightarrow> (cs @ [c :: pec_candidate], es))"
  have one: "fold (step i) as p = (fst p @ rights (map (ingest_attachment utf8 i) as), snd p @ lefts (map (ingest_attachment utf8 i) as))"
    for i as p
    by (induction as arbitrary: p) (auto simp: step_def split: sum.split)
  have "fold (\<lambda>m. fold (step (pm_messageId m)) (pick_attachments m)) ms p =
      (fst p @ rights (outcomes utf8 ms), snd p @ lefts (outcomes utf8 ms))" for p
  proof (induction ms arbitrary: p)
    case (Cons m ms)
    then show ?case by (simp add: one outcomes_def sides_append)
  qed (simp add: outcomes_def)
  from this [of "([], [])"] show ?thesis
    by (simp add: list_fattura_pa_candidates_def Let_def flip: step_def)
qed


section \<open>Example\<close>

definition px_invoice :: invoice where
  "px_invoice = acc_inv\<lparr>inv_lines := [fx_line 100 22], inv_totalAmount := 122\<rparr>"

lemma px_fields: "inv_number px_invoice = ''000001''" "inv_lines px_invoice = [fx_line 100 22]" "inv_totalAmount px_invoice = 122"
  by (simp_all add: px_invoice_def acc_inv_fields)

lemma px_day: "iso_day (inv_invoiceDate px_invoice)"
proof -
  have "inv_invoiceDate px_invoice = ''2026-05-01''"
    by (simp add: px_invoice_def acc_inv_def invoice_of_def Let_def acc_input_def)
  moreover have "iso_day ''2026-05-01''" by code_simp
  ultimately show ?thesis by simp
qed


end
