(* ===== verification/Conservazione.thy ===== *)
theory Conservazione
  imports JsDate JsString
begin

text \<open>
  Long-term archiving of fiscal documents, \<^verbatim>\<open>backend/src/conservazione\<close>: the port of
  \<^verbatim>\<open>conservazione.adapter.ts\<close>, its two implementations, the registry and the orchestrator
  with its tier policy and failover. A submission carries the list of vendors that were
  contacted so far. SHA-256, \<^verbatim>\<open>JSON.stringify\<close> of the index and the generated keys come
  from the platform.
\<close>

section \<open>Requests and receipts\<close>

text \<open>Vendor names come from the settings of the tenant, which are free JSON.\<close>

type_synonym vendor = string

datatype document_class = FatturapaAttiva | FatturapaPassiva | SdiReceipt | SdiNotification | DocDdt
  | FiscalRegister | DocContract | OtherDocument

record index_metadata =
  ix_reference :: string
  ix_documentClass :: document_class
  ix_issuerFiscalId :: string
  ix_recipientFiscalId :: "string option"
  ix_documentDate :: string
  ix_documentNumber :: "string option"
  ix_totalAmountCents :: "int option"
  ix_currency :: "string option"
  ix_documentHashSha256 :: string
  ix_tags :: "string list option"

record archive_attachment =
  aa_filename :: string
  aa_mimeType :: string
  aa_body :: string
  aa_description :: "string option"

record versamento_request =
  vr_documentBody :: string
  vr_documentMimeType :: string
  vr_index :: index_metadata
  vr_attachments :: "archive_attachment list option"
  vr_tenantId :: uuid

text \<open>The vendor metadata are the sandbox flag and the document class.\<close>

record versamento_receipt =
  vc_vendorId :: vendor
  vc_versamentoId :: string
  vc_bundleHashSha256 :: string
  vc_acknowledgedAt :: string
  vc_rapportoDiVersamentoUrl :: string
  vc_vendorDocClass :: "string option"
  vc_vendorMetadata :: "(bool \<times> document_class) option"

record orchestrated_receipt = versamento_receipt +
  or_failoverFrom :: "vendor option"
  or_tierPolicy :: string

record index_entry =
  ie_vendorId :: vendor
  ie_versamentoId :: string
  ie_reference :: string
  ie_documentClass :: document_class
  ie_documentDate :: string
  ie_documentNumber :: "string option"
  ie_totalAmountCents :: "int option"
  ie_acknowledgedAt :: string
  ie_rapportoDiVersamentoUrl :: string

section \<open>Errors\<close>

text \<open>What may be thrown: an error object with its message and HTTP status, or another value.\<close>

datatype thrown = ErrorObject string "int option" "int option" | ThrownText string | ThrownNothing

definition nest_error :: "int \<Rightarrow> string \<Rightarrow> thrown" where
  "nest_error status message = ErrorObject message (Some status) None"

fun message_of :: "thrown \<Rightarrow> string" where
  "message_of (ErrorObject m a b) = m"
| "message_of (ThrownText m) = m"
| "message_of ThrownNothing = ''undefined''"

text \<open>\<^verbatim>\<open>/5\d{2}|ETIMEDOUT|ECONNRESET|ECONNREFUSED|ENETUNREACH/i\<close>\<close>

fun has_5xx :: "string \<Rightarrow> bool" where
  "has_5xx (a # b # c # s) \<longleftrightarrow> a = CHR ''5'' \<and> is_digit b \<and> is_digit c \<or> has_5xx (b # c # s)"
| "has_5xx s \<longleftrightarrow> False"

definition transient_text :: "string \<Rightarrow> bool" where
  "transient_text m \<longleftrightarrow>
     has_5xx m \<or> list_ex (has_substring (map to_upper m)) [''ETIMEDOUT'', ''ECONNRESET'', ''ECONNREFUSED'', ''ENETUNREACH'']"

fun is_transient :: "thrown \<Rightarrow> bool" where
  "is_transient (ErrorObject m status statusCode) \<longleftrightarrow>
     transient_text m \<or> (case or_else status statusCode of None \<Rightarrow> False | Some n \<Rightarrow> n \<ge> 500)"
| "is_transient e \<longleftrightarrow> False"

section \<open>Adapters\<close>

definition not_implemented :: "string \<Rightarrow> thrown" where
  "not_implemented m = nest_error 501 m"

definition aruba_send :: "versamento_request \<Rightarrow> thrown + versamento_receipt" where
  "aruba_send req = Inl (not_implemented ''ArubaConservazioneAdapter.send() not implemented - scheduled for plan 31.2 Sprint 22.'')"

definition aruba_fetch_receipt :: "string \<Rightarrow> thrown + versamento_receipt" where
  "aruba_fetch_receipt i = Inl (not_implemented ''ArubaConservazioneAdapter.fetchReceipt() not implemented - scheduled for plan 31.2 Sprint 22.'')"

definition aruba_search :: "uuid \<Rightarrow> thrown + index_entry list" where
  "aruba_search t = Inl (not_implemented ''ArubaConservazioneAdapter.search() not implemented - scheduled for plan 31.2 Sprint 22.'')"

text \<open>An exhibit yields the bytes of the package; neither adapter can produce one yet.\<close>

definition aruba_exhibit :: "string \<Rightarrow> thrown + string list" where
  "aruba_exhibit i = Inl (not_implemented ''ArubaConservazioneAdapter.exhibit() not implemented - scheduled for plan 31.2 Sprint 22.'')"

text \<open>The environment variable decides the mode; anything but \<^verbatim>\<open>production\<close> is the sandbox.\<close>

datatype infocert_mode = InfoSandbox | InfoProduction

definition resolve_mode :: "string option \<Rightarrow> infocert_mode" where
  "resolve_mode env = (if js_trim (nullish env ''sandbox'') = ''production'' then InfoProduction else InfoSandbox)"

record archive_platform =
  ap_sha256 :: "string \<Rightarrow> string"
  ap_json :: "index_metadata \<Rightarrow> string"
  ap_now :: int
  ap_uuid :: uuid
  ap_infocertMode :: "string option"

definition rapporto_url :: "string \<Rightarrow> string" where
  "rapporto_url i = ''https://sandbox.infocert.smarterp.local/rapporto/'' @ i"

text \<open>A hash that does not agree with the document is only logged.\<close>

definition synthesise_receipt :: "archive_platform \<Rightarrow> versamento_request \<Rightarrow> versamento_receipt" where
  "synthesise_receipt pf req =
     (let recomputed = ap_sha256 pf (vr_documentBody req); versamentoId = ''IC-SBX-'' @ ap_uuid pf
      in \<lparr>vc_vendorId = ''infocert'', vc_versamentoId = versamentoId,
          vc_bundleHashSha256 = ap_sha256 pf (recomputed @ ap_json pf (vr_index req)),
          vc_acknowledgedAt = iso_time (ap_now pf), vc_rapportoDiVersamentoUrl = rapporto_url versamentoId,
          vc_vendorDocClass = Some ''sandbox'',
          vc_vendorMetadata = Some (True, ix_documentClass (vr_index req))\<rparr>)"

definition infocert_send :: "archive_platform \<Rightarrow> versamento_request \<Rightarrow> thrown + versamento_receipt" where
  "infocert_send pf req =
     (if resolve_mode (ap_infocertMode pf) = InfoProduction
      then Inl (not_implemented ''InfoCertConservazioneAdapter.send(production) not implemented - scheduled for plan 31.2 Sprint 23.'')
      else Inr (synthesise_receipt pf req))"

definition infocert_fetch_receipt :: "archive_platform \<Rightarrow> string \<Rightarrow> thrown + versamento_receipt" where
  "infocert_fetch_receipt pf i =
     (if resolve_mode (ap_infocertMode pf) = InfoProduction
      then Inl (not_implemented ''InfoCertConservazioneAdapter.fetchReceipt(production) not implemented - scheduled for plan 31.2 Sprint 23.'')
      else Inr \<lparr>vc_vendorId = ''infocert'', vc_versamentoId = i, vc_bundleHashSha256 = replicate 64 CHR ''0'',
        vc_acknowledgedAt = iso_time (ap_now pf), vc_rapportoDiVersamentoUrl = rapporto_url i,
        vc_vendorDocClass = Some ''sandbox'', vc_vendorMetadata = None\<rparr>)"

definition infocert_exhibit :: "string \<Rightarrow> thrown + string list" where
  "infocert_exhibit i =
     Inl (not_implemented ''InfoCertConservazioneAdapter.exhibit() requires production wiring - scheduled for plan 31.2 Sprint 23.'')"

definition infocert_search :: "archive_platform \<Rightarrow> uuid \<Rightarrow> thrown + index_entry list" where
  "infocert_search pf t =
     (if resolve_mode (ap_infocertMode pf) = InfoProduction
      then Inl (not_implemented ''InfoCertConservazioneAdapter.search(production) not implemented - scheduled for plan 31.2 Sprint 23.'')
      else Inr [])"

section \<open>The registry\<close>

type_synonym send_adapter = "versamento_request \<Rightarrow> thrown + versamento_receipt"

definition adapters :: "archive_platform \<Rightarrow> (vendor \<times> send_adapter) list" where
  "adapters pf = [(''aruba'', aruba_send), (''infocert'', infocert_send pf)]"

definition registry_get :: "(vendor \<times> 'a) list \<Rightarrow> vendor \<Rightarrow> thrown + 'a" where
  "registry_get reg v =
     (case map_of reg v of None \<Rightarrow> Inl (nest_error 404 (''No Conservazione adapter registered for vendorId '' @ [CHR 39] @ v @ [CHR 39]))
      | Some a \<Rightarrow> Inr a)"

definition registry_list :: "(vendor \<times> 'a) list \<Rightarrow> vendor list" where
  "registry_list reg = map fst reg"

section \<open>The tier policy\<close>

datatype subscription_plan = PlanBase | PlanProfessionale | PlanEnterprise

record vendor_settings =
  vs_primary :: "vendor option"
  vs_secondary :: "vendor option"
  vs_tertiary :: "vendor option"

definition unprocessable :: "string \<Rightarrow> thrown" where
  "unprocessable m = nest_error 422 m"

text \<open>Steps that may throw, one after the other: the first error is the result.\<close>

fun first_error :: "(thrown + unit) list \<Rightarrow> thrown + unit" where
  "first_error [] = Inr ()"
| "first_error (Inl e # rs) = Inl e"
| "first_error (Inr _ # rs) = first_error rs"

definition reject_if :: "bool \<Rightarrow> string \<Rightarrow> thrown + unit" where
  "reject_if b m = (if b then Inl (unprocessable m) else Inr ())"

definition assert_registered :: "(vendor \<times> 'a) list \<Rightarrow> vendor option \<Rightarrow> thrown + unit" where
  "assert_registered reg v =
     (if truthy v then (case registry_get reg (the v) of Inl e \<Rightarrow> Inl e | Inr _ \<Rightarrow> Inr ()) else Inr ())"

definition validate_for_tier :: "(vendor \<times> 'a) list \<Rightarrow> subscription_plan \<Rightarrow> vendor_settings \<Rightarrow> thrown + unit" where
  "validate_for_tier reg plan st =
     first_error
       [reject_if (\<not> truthy (vs_primary st)) ''A primary Conservatore must be configured for every tenant'',
        assert_registered reg (vs_primary st),
        reject_if (plan = PlanBase \<and> (truthy (vs_secondary st) \<or> truthy (vs_tertiary st)))
          ''Base tier does not allow a secondary or tertiary Conservatore (ADR-025); upgrade the tenant to Professionale or higher to enable dual-vendor.'',
        reject_if (plan = PlanProfessionale \<and> truthy (vs_tertiary st))
          ''Tertiary Conservatore is reserved for the Enterprise tier (ADR-025)'',
        assert_registered reg (vs_secondary st),
        reject_if (truthy (vs_secondary st) \<and> vs_secondary st = vs_primary st) ''Secondary Conservatore must differ from primary'',
        assert_registered reg (vs_tertiary st),
        reject_if (truthy (vs_tertiary st) \<and> (vs_tertiary st = vs_primary st \<or> vs_tertiary st = vs_secondary st))
          ''Tertiary Conservatore must differ from primary and secondary'']"

record archive_tenant =
  at_id :: uuid
  at_plan :: subscription_plan
  at_settings :: "vendor_settings option"

record resolved_config =
  rc_primary :: vendor
  rc_secondary :: "vendor option"
  rc_tertiary :: "vendor option"
  rc_policy :: string

definition resolve_config ::
  "(vendor \<times> 'a) list \<Rightarrow> archive_tenant list \<Rightarrow> uuid \<Rightarrow> thrown + resolved_config" where
  "resolve_config reg tenants t =
     (case find (\<lambda>x. at_id x = t) tenants of
        None \<Rightarrow> Inl (unprocessable (''No Tenant '' @ t @ '' for Conservazione lookup''))
      | Some tn \<Rightarrow>
          (let conf = nullish (at_settings tn) \<lparr>vs_primary = None, vs_secondary = None, vs_tertiary = None\<rparr>;
               primary = nullish (vs_primary conf) ''aruba''
           in case validate_for_tier reg (at_plan tn) (conf\<lparr>vs_primary := Some primary\<rparr>) of
                Inl e \<Rightarrow> Inl e
              | Inr _ \<Rightarrow> Inr \<lparr>rc_primary = primary, rc_secondary = vs_secondary conf, rc_tertiary = vs_tertiary conf,
                  rc_policy = (if truthy (vs_tertiary conf) then ''triple''
                    else if truthy (vs_secondary conf) then ''dual'' else ''single'')\<rparr>))"

section \<open>Submission\<close>

type_synonym 'a submission = "vendor list \<Rightarrow> (thrown + 'a) \<times> vendor list"

text \<open>One call of \<^verbatim>\<open>adapter.send(request)\<close>.\<close>

definition contact :: "vendor \<Rightarrow> send_adapter \<Rightarrow> versamento_request \<Rightarrow> versamento_receipt submission" where
  "contact v send req log = (send req, log @ [v])"

definition tag_receipt :: "versamento_receipt \<Rightarrow> vendor option \<Rightarrow> string \<Rightarrow> orchestrated_receipt" where
  "tag_receipt r v policy = versamento_receipt.extend r (orchestrated_receipt.fields v policy)"

definition submit_with_config ::
  "(vendor \<times> send_adapter) list \<Rightarrow> versamento_request \<Rightarrow> resolved_config \<Rightarrow> orchestrated_receipt submission" where
  "submit_with_config reg req conf log =
     (case registry_get reg (rc_primary conf) of
        Inl e \<Rightarrow> (Inl e, log)
      | Inr primary \<Rightarrow>
     (case contact (rc_primary conf) primary req log of
        (Inr receipt, log1) \<Rightarrow> (Inr (tag_receipt receipt None (rc_policy conf)), log1)
      | (Inl err, log1) \<Rightarrow>
     if \<not> is_transient err \<or> \<not> truthy (rc_secondary conf) then (Inl err, log1)
     else
     (case registry_get reg (the (rc_secondary conf)) of
        Inl e \<Rightarrow> (Inl e, log1)
      | Inr secondary \<Rightarrow>
     (case contact (the (rc_secondary conf)) secondary req log1 of
        (Inr receipt, log2) \<Rightarrow> (Inr (tag_receipt receipt (Some (rc_primary conf)) (rc_policy conf)), log2)
      | (Inl err2, log2) \<Rightarrow>
     if \<not> truthy (rc_tertiary conf) \<or> \<not> is_transient err2 then (Inl err2, log2)
     else
     (case registry_get reg (the (rc_tertiary conf)) of
        Inl e \<Rightarrow> (Inl e, log2)
      | Inr tertiary \<Rightarrow>
     (case contact (the (rc_tertiary conf)) tertiary req log2 of
        (Inr receipt, log3) \<Rightarrow> (Inr (tag_receipt receipt (rc_secondary conf) (rc_policy conf)), log3)
      | (Inl err3, log3) \<Rightarrow> (Inl err3, log3)))))))"

definition submit_deposit ::
  "(vendor \<times> send_adapter) list \<Rightarrow> archive_tenant list \<Rightarrow> versamento_request \<Rightarrow> orchestrated_receipt submission" where
  "submit_deposit reg tenants req log =
     (case resolve_config reg tenants (vr_tenantId req) of
        Inl e \<Rightarrow> (Inl e, log)
      | Inr conf \<Rightarrow> submit_with_config reg req conf log)"

end
