(* ===== verification/ConservazioneProps.thy ===== *)
theory ConservazioneProps
  imports Conservazione
begin

text \<open>
  Correctness of the archiving orchestrator: vendors are tried in the configured order and
  only after a transient failure, within the limits of the tenant's plan.
\<close>

text \<open>The vendors of a configuration, in the order in which they may be tried.\<close>

definition chain :: "resolved_config \<Rightarrow> vendor list" where
  "chain conf =
     rc_primary conf # (if truthy (rc_secondary conf)
       then the (rc_secondary conf) # (if truthy (rc_tertiary conf) then [the (rc_tertiary conf)] else [])
       else [])"

text \<open>The specification: walk along the chain while the failures are transient.\<close>

fun walk :: "(vendor \<Rightarrow> thrown + versamento_receipt) \<Rightarrow> string \<Rightarrow> vendor option \<Rightarrow> vendor list \<Rightarrow>
    (thrown + orchestrated_receipt) \<times> vendor list" where
  "walk reply policy before [] = (Inl ThrownNothing, [])"
| "walk reply policy before (v # vs) =
     (case reply v of
        Inr receipt \<Rightarrow> (Inr (tag_receipt receipt before policy), [v])
      | Inl err \<Rightarrow>
          if is_transient err \<and> vs \<noteq> [] then (case walk reply policy (Some v) vs of (r, tried) \<Rightarrow> (r, v # tried))
          else (Inl err, [v]))"

definition reply_of :: "(vendor \<times> send_adapter) list \<Rightarrow> versamento_request \<Rightarrow> vendor \<Rightarrow> thrown + versamento_receipt" where
  "reply_of reg req v = (case map_of reg v of None \<Rightarrow> Inl ThrownNothing | Some send \<Rightarrow> send req)"

lemma first_error_ok: "first_error rs = Inr () \<longleftrightarrow> (\<forall>r\<in>set rs. r = Inr ())"
  by (induction rs rule: first_error.induct) auto

lemma registered_iff: "assert_registered reg v = Inr () \<longleftrightarrow> (truthy v \<longrightarrow> the v \<in> fst ` set reg)"
  by (auto simp: assert_registered_def registry_get_def map_of_eq_None_iff split: option.split)
    (metis map_of_eq_None_iff option.distinct(1))+

lemma reject_ok: "reject_if b m = Inr () \<longleftrightarrow> \<not> b"
  by (simp add: reject_if_def)

lemma validate_ok:
  "validate_for_tier reg plan st = Inr () \<longleftrightarrow>
     truthy (vs_primary st) \<and> the (vs_primary st) \<in> fst ` set reg \<and>
     (plan = PlanBase \<longrightarrow> \<not> truthy (vs_secondary st) \<and> \<not> truthy (vs_tertiary st)) \<and>
     (plan = PlanProfessionale \<longrightarrow> \<not> truthy (vs_tertiary st)) \<and>
     (truthy (vs_secondary st) \<longrightarrow> the (vs_secondary st) \<in> fst ` set reg \<and> vs_secondary st \<noteq> vs_primary st) \<and>
     (truthy (vs_tertiary st) \<longrightarrow> the (vs_tertiary st) \<in> fst ` set reg \<and> vs_tertiary st \<noteq> vs_primary st \<and>
        vs_tertiary st \<noteq> vs_secondary st)"
  unfolding validate_for_tier_def first_error_ok by (auto simp: registered_iff reject_ok)

lemma resolve_config_Inr:
  assumes "resolve_config reg tenants t = Inr conf"
  shows "\<exists>tn. find (\<lambda>x. at_id x = t) tenants = Some tn \<and>
    validate_for_tier reg (at_plan tn) \<lparr>vs_primary = Some (rc_primary conf), vs_secondary = rc_secondary conf,
      vs_tertiary = rc_tertiary conf\<rparr> = Inr ()"
proof -
  obtain tn :: archive_tenant where tn: "find (\<lambda>x. at_id x = t) tenants = Some tn"
    using assms by (auto simp: resolve_config_def split: option.splits)
  obtain p s r where st: "nullish (at_settings tn) \<lparr>vs_primary = None, vs_secondary = None, vs_tertiary = None\<rparr>
      = \<lparr>vs_primary = p, vs_secondary = s, vs_tertiary = r\<rparr>"
    by (metis vendor_settings.surjective old.unit.exhaust)
  show ?thesis using assms unfolding resolve_config_def tn by (auto simp: st Let_def tn split: sum.splits)
qed

lemma chain_registered:
  assumes "resolve_config reg tenants t = Inr conf"
  shows "set (chain conf) \<subseteq> fst ` set reg \<and> distinct (chain conf)"
proof -
  obtain tn :: archive_tenant where "validate_for_tier reg (at_plan tn) \<lparr>vs_primary = Some (rc_primary conf), vs_secondary = rc_secondary conf,
      vs_tertiary = rc_tertiary conf\<rparr> = Inr ()"
    using resolve_config_Inr [OF assms] by blast
  then show ?thesis unfolding validate_ok
    by (cases "rc_secondary conf"; cases "rc_tertiary conf") (auto simp: chain_def truthy_def)
qed

lemma submit_walks:
  assumes "set (chain conf) \<subseteq> fst ` set reg"
  shows "submit_with_config reg req conf log =
    (case walk (reply_of reg req) (rc_policy conf) None (chain conf) of (r, tried) \<Rightarrow> (r, log @ tried))"
proof -
  have get: "registry_get reg v = Inr (the (map_of reg v))" "reply_of reg req v = the (map_of reg v) req"
    if "v \<in> set (chain conf)" for v
  proof -
    have "v \<in> fst ` set reg" using assms that by blast
    then obtain a where "map_of reg v = Some a" by (metis map_of_eq_None_iff not_None_eq)
    then show "registry_get reg v = Inr (the (map_of reg v))" "reply_of reg req v = the (map_of reg v) req"
      by (simp_all add: registry_get_def reply_of_def)
  qed
  show ?thesis
  proof (cases "truthy (rc_secondary conf)")
    case False
    then show ?thesis using get [of "rc_primary conf"]
      by (simp add: submit_with_config_def chain_def contact_def split: sum.split)
  next
    case True
    then show ?thesis
      using get [of "rc_primary conf"] get [of "the (rc_secondary conf)"] get [of "the (rc_tertiary conf)"]
      by (cases "truthy (rc_tertiary conf)") (auto simp: submit_with_config_def chain_def contact_def truthy_def split: sum.split)
  qed
qed

lemma walk_prefix: "walk reply policy b vs = (r, tried) \<Longrightarrow> \<exists>rest. vs = tried @ rest"
  by (induction reply policy b vs arbitrary: r tried rule: walk.induct) (auto split: sum.splits if_splits prod.splits)

text \<open>How many vendors a plan pays for.\<close>

fun vendors_of_plan :: "subscription_plan \<Rightarrow> nat" where
  "vendors_of_plan PlanBase = 1"
| "vendors_of_plan PlanProfessionale = 2"
| "vendors_of_plan PlanEnterprise = 3"

lemma chain_length:
  assumes "resolve_config reg tenants t = Inr conf" and "find (\<lambda>x. at_id x = t) tenants = Some tn"
  shows "length (chain conf) \<le> vendors_of_plan (at_plan tn)"
  using resolve_config_Inr [OF assms(1)] assms(2) unfolding validate_ok
  by (cases "at_plan tn") (auto simp: chain_def)

section \<open>Properties\<close>


text \<open>
  One deposit contacts no vendor twice, only registered vendors, and at most one, two or
  three of them on the Base, Professionale and Enterprise plans.\<close>

theorem deposit_stays_within_plan:
  assumes "find (\<lambda>x. at_id x = vr_tenantId req) tenants = Some tn"
    and "submit_deposit reg tenants req [] = (r, tried)"
  shows "length tried \<le> vendors_of_plan (at_plan tn) \<and> distinct tried \<and> set tried \<subseteq> fst ` set reg"
proof (cases "resolve_config reg tenants (vr_tenantId req)")
  case (Inl e)
  then show ?thesis using assms by (simp add: submit_deposit_def)
next
  case (Inr conf)
  have reg: "set (chain conf) \<subseteq> fst ` set reg" "distinct (chain conf)"
    using chain_registered [OF Inr] by auto
  have "walk (reply_of reg req) (rc_policy conf) None (chain conf) = (r, tried)"
    using assms(2) submit_walks [OF reg(1), of req "[]"] Inr by (simp add: submit_deposit_def split: prod.splits)
  then obtain rest where "chain conf = tried @ rest" using walk_prefix by blast
  then show ?thesis using reg chain_length [OF Inr assms(1)] by auto
qed

text \<open>
  With the two adapters that are registered, a tenant on Aruba alone (the default)
  can never deposit, and one with InfoCert as the secondary outside production always deposits there, the
  receipt naming the failed Aruba and hashing the hash of the document followed by the index.\<close>

theorem aruba_fails_over_to_the_sandbox:
  assumes "find (\<lambda>x. at_id x = vr_tenantId req) tenants = Some tn"
    and "nullish (at_settings tn) \<lparr>vs_primary = None, vs_secondary = None, vs_tertiary = None\<rparr>
      = \<lparr>vs_primary = p, vs_secondary = second, vs_tertiary = None\<rparr>"
    and "p = None \<or> p = Some ''aruba''" and "resolve_mode (ap_infocertMode pf) = InfoSandbox"
    and "second = None \<or> second = Some ''infocert'' \<and> at_plan tn \<noteq> PlanBase"
  shows "submit_deposit (adapters pf) tenants req log =
    (if second = None then (Inl (not_implemented ''ArubaConservazioneAdapter.send() not implemented - scheduled for plan 31.2 Sprint 22.''),
       log @ [''aruba''])
     else (Inr (tag_receipt (synthesise_receipt pf req) (Some ''aruba'') ''dual''), log @ [''aruba'', ''infocert'']))"
proof -
  have valid: "validate_for_tier (adapters pf) (at_plan tn)
      \<lparr>vs_primary = Some ''aruba'', vs_secondary = second, vs_tertiary = None\<rparr> = Inr ()"
    using assms(5) by (auto simp: validate_ok truthy_def adapters_def)
  have "nullish p ''aruba'' = ''aruba''" using assms(3) by (auto simp: nullish_def)
  then have config: "resolve_config (adapters pf) tenants (vr_tenantId req) =
      Inr \<lparr>rc_primary = ''aruba'', rc_secondary = second, rc_tertiary = None,
        rc_policy = (if second = None then ''single'' else ''dual'')\<rparr>"
    using assms(5) valid by (auto simp: resolve_config_def assms(1,2) truthy_def Let_def)
  have "reply_of (adapters pf) req ''aruba'' = aruba_send req"
    and "reply_of (adapters pf) req ''infocert'' = Inr (synthesise_receipt pf req)"
    using assms(4) by (simp_all add: reply_of_def adapters_def infocert_send_def)
  moreover have "set (chain \<lparr>rc_primary = ''aruba'', rc_secondary = second, rc_tertiary = None, rc_policy = q\<rparr>)
      \<subseteq> fst ` set (adapters pf)" for q
    using assms(5) by (auto simp: chain_def truthy_def adapters_def)
  moreover have "is_transient (not_implemented m)" for m
    by (simp add: not_implemented_def nest_error_def or_else_def truthy_def)
  ultimately show ?thesis
    using assms(5) by (auto simp: submit_deposit_def config submit_walks chain_def truthy_def aruba_send_def)
qed

text \<open>A tenant with both vendors, a plan that allows it and a document of its own.\<close>

definition example_platform :: archive_platform where
  "example_platform = \<lparr>ap_sha256 = (\<lambda>s. rev s), ap_json = (\<lambda>ix. ix_reference ix), ap_now = 0, ap_uuid = ''u'',
     ap_infocertMode = None\<rparr>"

definition example_tenants :: "archive_tenant list" where
  "example_tenants = [\<lparr>at_id = ''t'', at_plan = PlanProfessionale,
     at_settings = Some \<lparr>vs_primary = None, vs_secondary = Some ''infocert'', vs_tertiary = None\<rparr>\<rparr>]"

definition example_request :: versamento_request where
  "example_request = \<lparr>vr_documentBody = ''doc'', vr_documentMimeType = ''text/xml'',
     vr_index = \<lparr>ix_reference = ''FT-1'', ix_documentClass = FatturapaAttiva, ix_issuerFiscalId = ''IT1'',
       ix_recipientFiscalId = None, ix_documentDate = ''2026-01-02'', ix_documentNumber = None,
       ix_totalAmountCents = None, ix_currency = None, ix_documentHashSha256 = ''cod'', ix_tags = None\<rparr>,
     vr_attachments = None, vr_tenantId = ''t''\<rparr>"

lemma example_found: "find (\<lambda>x. at_id x = vr_tenantId example_request) example_tenants = Some (hd example_tenants)"
  by (simp add: example_tenants_def example_request_def)

theorem deposit_stays_within_plan_witness:
  "length (snd (submit_deposit (adapters example_platform) example_tenants example_request [])) \<le> 2"
  using deposit_stays_within_plan [OF example_found, of "adapters example_platform"]
  by (cases "submit_deposit (adapters example_platform) example_tenants example_request []")
    (auto simp: example_tenants_def)

theorem aruba_fails_over_to_the_sandbox_witness:
  "snd (submit_deposit (adapters example_platform) example_tenants example_request []) = [''aruba'', ''infocert'']"
  using aruba_fails_over_to_the_sandbox
    [OF example_found, of None "Some ''infocert''" example_platform "[]"]
  by (simp add: example_tenants_def nullish_def resolve_mode_def example_platform_def js_trim_def)

end
