(* ===== verification/TreasuryPlanning.thy ===== *)
theory TreasuryPlanning
  imports Treasury Accounting ProcurementDb JsXml
begin

text \<open>
  What the treasury module computes from documents it does not change: proposals for the
  reconciliation (\<^verbatim>\<open>treasury/auto-reconciler.service.ts\<close>), the cash forecast
  (\<^verbatim>\<open>treasury/cash-forecast.service.ts\<close>) and the payment file
  (\<^verbatim>\<open>treasury/sepa-pain001.ts\<close>). The tables are arguments. \<open>strict\<close> tells whether
  the database refuses a query that compares an enumeration column with a text that is none of
  its labels, as PostgreSQL does.
\<close>

section \<open>Open documents\<close>

definition invoice_status_text :: "invoice_status \<Rightarrow> string" where
  "invoice_status_text st =
     (case st of InvDraft \<Rightarrow> ''draft'' | InvQueued \<Rightarrow> ''queued'' | InvSent \<Rightarrow> ''sent'' | InvReceived \<Rightarrow> ''received''
        | InvAccepted \<Rightarrow> ''accepted'' | InvRejected \<Rightarrow> ''rejected'' | InvNotDelivered \<Rightarrow> ''not_delivered''
        | InvExpired \<Rightarrow> ''expired'' | InvCancelled \<Rightarrow> ''cancelled'')"

definition INVOICE_STATUSES :: "string list" where
  "INVOICE_STATUSES = map invoice_status_text
     [InvDraft, InvQueued, InvSent, InvReceived, InvAccepted, InvRejected, InvNotDelivered, InvExpired, InvCancelled]"

definition si_status_text :: "si_status \<Rightarrow> string" where
  "si_status_text st =
     (case st of SiReceived \<Rightarrow> ''received'' | SiMatched \<Rightarrow> ''matched'' | SiDisputed \<Rightarrow> ''disputed''
        | SiApproved \<Rightarrow> ''approved'' | SiPaid \<Rightarrow> ''paid'' | SiRejected \<Rightarrow> ''rejected'' | SiCancelled \<Rightarrow> ''cancelled'')"

definition SI_STATUSES :: "string list" where
  "SI_STATUSES = map si_status_text [SiReceived, SiMatched, SiDisputed, SiApproved, SiPaid, SiRejected, SiCancelled]"

text \<open>\<^verbatim>\<open>status NOT IN (\<dots>)\<close>\<close>

definition status_not_in ::
  "bool \<Rightarrow> string list \<Rightarrow> string list \<Rightarrow> ('a \<Rightarrow> string) \<Rightarrow> 'a list \<Rightarrow> http_error + 'a list" where
  "status_not_in strict labels excluded label rows =
     (if strict \<and> \<not> set excluded \<subseteq> set labels then Inl PlainError
      else Inr (filter (\<lambda>r. label r \<notin> set excluded) rows))"

definition open_invoices :: "bool \<Rightarrow> uuid \<Rightarrow> invoice list \<Rightarrow> http_error + invoice list" where
  "open_invoices strict t rows =
     status_not_in strict INVOICE_STATUSES [''paid'', ''cancelled''] (\<lambda>i. invoice_status_text (inv_status i))
       (filter (\<lambda>i. tenantId i = t) rows)"

definition open_supplier_invoices :: "bool \<Rightarrow> uuid \<Rightarrow> supplier_invoice list \<Rightarrow> http_error + supplier_invoice list" where
  "open_supplier_invoices strict t rows =
     status_not_in strict SI_STATUSES [''paid'', ''cancelled'', ''rejected''] (\<lambda>i. si_status_text (si_status i))
       (filter (\<lambda>i. tenantId i = t) rows)"

section \<open>Proposals\<close>

datatype document_type = DocInvoice | DocSupplierInvoice

datatype confidence = ConfLow | ConfMedium | ConfHigh

record reconciliation_proposal =
  rp_bankTransactionId :: uuid
  rp_documentType :: document_type
  rp_documentId :: uuid
  rp_reason :: string
  rp_confidence :: confidence

definition amount_match :: "int \<Rightarrow> string" where
  "amount_match cents = ''Exact amount match ('' @ dec (nat cents) @ '' cents)''"

text \<open>An amount below zero left the account and is compared with supplier invoices.\<close>

definition propose_outgoing ::
  "bool \<Rightarrow> uuid \<Rightarrow> supplier_invoice list \<Rightarrow> bank_transaction \<Rightarrow> http_error + reconciliation_proposal option" where
  "propose_outgoing strict t sis tx =
     (let cents = \<bar>bt_amountCents tx\<bar> in
      case open_supplier_invoices strict t sis of
        Inl e \<Rightarrow> Inl e
      | Inr rows \<Rightarrow>
          (let candidates = take 5 (filter (\<lambda>si. si_totalCents si = of_int cents) rows) in
           case candidates of
             [] \<Rightarrow> Inr None
           | [si] \<Rightarrow> Inr (Some \<lparr>rp_bankTransactionId = ent_id tx, rp_documentType = DocSupplierInvoice,
               rp_documentId = ent_id si, rp_reason = amount_match cents @ '' on a single open SI'', rp_confidence = ConfHigh\<rparr>)
           | si # _ \<Rightarrow> Inr (Some \<lparr>rp_bankTransactionId = ent_id tx, rp_documentType = DocSupplierInvoice,
               rp_documentId = ent_id si,
               rp_reason = amount_match cents @ '' - '' @ dec (length candidates) @ '' candidates; first proposed'',
               rp_confidence = ConfLow\<rparr>)))"

definition invoice_cents :: "invoice \<Rightarrow> int" where
  "invoice_cents i = math_round (js_mul (inv_totalAmount i) 100)"

definition propose_incoming ::
  "bool \<Rightarrow> uuid \<Rightarrow> invoice list \<Rightarrow> bank_transaction \<Rightarrow> http_error + reconciliation_proposal option" where
  "propose_incoming strict t invs tx =
     (let cents = \<bar>bt_amountCents tx\<bar> in
      case open_invoices strict t invs of
        Inl e \<Rightarrow> Inl e
      | Inr rows \<Rightarrow> Inr (map_option (\<lambda>i. \<lparr>rp_bankTransactionId = ent_id tx, rp_documentType = DocInvoice,
          rp_documentId = ent_id i,
          rp_reason = amount_match cents @ '' on open invoice '' @ inv_number i @ ''/'' @ dec (inv_fiscalYear i),
          rp_confidence = (if has_substring (bt_description tx) (inv_number i) then ConfHigh else ConfMedium)\<rparr>)
          (find (\<lambda>i. invoice_cents i = cents) (take 50 rows))))"

definition propose_one ::
  "bool \<Rightarrow> uuid \<Rightarrow> invoice list \<Rightarrow> supplier_invoice list \<Rightarrow> bank_transaction \<Rightarrow>
     http_error + reconciliation_proposal option" where
  "propose_one strict t invs sis tx =
     (if bt_amountCents tx < 0 then propose_outgoing strict t sis tx else propose_incoming strict t invs tx)"

text \<open>The loop over the transactions; an error of a query ends it.\<close>

fun collect_proposals ::
  "(bank_transaction \<Rightarrow> http_error + reconciliation_proposal option) \<Rightarrow> bank_transaction list \<Rightarrow>
     http_error + reconciliation_proposal list" where
  "collect_proposals one [] = Inr []"
| "collect_proposals one (tx # txs) =
     (case one tx of
        Inl e \<Rightarrow> Inl e
      | Inr p \<Rightarrow> (case collect_proposals one txs of
          Inl e \<Rightarrow> Inl e
        | Inr ps \<Rightarrow> Inr ((case p of None \<Rightarrow> [] | Some x \<Rightarrow> [x]) @ ps)))"

text \<open>\<^verbatim>\<open>ORDER BY valueDate DESC LIMIT limit\<close>\<close>

definition unmatched_transactions :: "uuid \<Rightarrow> nat \<Rightarrow> bank_transaction list \<Rightarrow> bank_transaction list" where
  "unmatched_transactions t limit txs =
     take limit (rev (sort_key bt_valueDate
       (filter (\<lambda>x. tenantId x = t \<and> bt_reconciliationStatus x = Unmatched) txs)))"

definition propose ::
  "bool \<Rightarrow> uuid \<Rightarrow> nat option \<Rightarrow> bank_transaction list \<Rightarrow> invoice list \<Rightarrow> supplier_invoice list \<Rightarrow>
     http_error + reconciliation_proposal list" where
  "propose strict t limit txs invs sis =
     collect_proposals (propose_one strict t invs sis) (unmatched_transactions t (nullish limit 100) txs)"

section \<open>Cash forecast\<close>

record forecast_bucket =
  fb_horizonDays :: int
  fb_arInflowCents :: jsnum
  fb_apOutflowCents :: jsnum
  fb_netCents :: jsnum
  fb_arCount :: nat
  fb_apCount :: nat

definition empty_bucket :: "int \<Rightarrow> forecast_bucket" where
  "empty_bucket h = \<lparr>fb_horizonDays = h, fb_arInflowCents = 0, fb_apOutflowCents = 0, fb_netCents = 0,
     fb_arCount = 0, fb_apCount = 0\<rparr>"

definition days_until :: "int \<Rightarrow> int \<Rightarrow> int" where
  "days_until now dueAt = max 0 (math_ceil (js_div (of_int (dueAt - now)) (of_int MS_PER_DAY)))"

definition invoice_due :: "invoice \<Rightarrow> int" where
  "invoice_due i = midnight_utc (inv_invoiceDate i) + 30 * MS_PER_DAY"

definition add_receivable :: "int \<Rightarrow> invoice \<Rightarrow> forecast_bucket \<Rightarrow> forecast_bucket" where
  "add_receivable now i b =
     (if days_until now (invoice_due i) \<le> fb_horizonDays b
      then b\<lparr>fb_arInflowCents := js_add (fb_arInflowCents b) (of_int (invoice_cents i)), fb_arCount := fb_arCount b + 1\<rparr>
      else b)"

definition add_payable :: "int \<Rightarrow> supplier_invoice \<Rightarrow> forecast_bucket \<Rightarrow> forecast_bucket" where
  "add_payable now si b =
     (if days_until now (si_paymentDueDate si) \<le> fb_horizonDays b
      then b\<lparr>fb_apOutflowCents := js_add (fb_apOutflowCents b) (si_totalCents si), fb_apCount := fb_apCount b + 1\<rparr>
      else b)"

definition cash_forecast ::
  "bool \<Rightarrow> int \<Rightarrow> uuid \<Rightarrow> invoice list \<Rightarrow> supplier_invoice list \<Rightarrow> http_error + forecast_bucket list" where
  "cash_forecast strict now t invs sis =
     (case open_invoices strict t invs of Inl e \<Rightarrow> Inl e | Inr receivables \<Rightarrow>
      case open_supplier_invoices strict t sis of Inl e \<Rightarrow> Inl e | Inr payables \<Rightarrow>
      let buckets = map empty_bucket [30, 60, 90];
          buckets = foldl (\<lambda>bs i. map (add_receivable now i) bs) buckets receivables;
          buckets = foldl (\<lambda>bs si. map (add_payable now si) bs) buckets payables
      in Inr (map (\<lambda>b. b\<lparr>fb_netCents := js_sub (fb_arInflowCents b) (fb_apOutflowCents b)\<rparr>) buckets))"

section \<open>The payment file\<close>

record pain_payment =
  pn_endToEndId :: string
  pn_amountCents :: jsnum
  pn_currency :: string
  pn_beneficiaryName :: string
  pn_beneficiaryIban :: string
  pn_beneficiaryBic :: "string option"
  pn_remittanceInfo :: "string option"
  pn_requestedExecutionDate :: string

record pain_batch =
  pb_msgId :: string
  pb_initiatorName :: string
  pb_initiatorIban :: string
  pb_initiatorBic :: "string option"
  pb_payments :: "pain_payment list"

text \<open>The template as its tags and the texts between them.\<close>

datatype markup = Tag string | Chars string

fun markup_text :: "markup \<Rightarrow> string" where
  "markup_text (Tag p) = CHR ''<'' # p @ ''>''"
| "markup_text (Chars s) = s"

definition new_line :: "nat \<Rightarrow> markup" where
  "new_line k = Chars (CHR 0x0A # replicate k CHR '' '')"

definition element :: "string \<Rightarrow> string \<Rightarrow> markup list" where
  "element p x = [Tag p, Chars x, Tag (''/'' @ p)]"

definition agent :: "string \<Rightarrow> nat \<Rightarrow> string option \<Rightarrow> markup list" where
  "agent p k bic =
     (if truthy bic then [new_line k, Tag p, Tag ''FinInstnId''] @ element ''BICFI'' (esc_xml (the bic)) @
        [Tag ''/FinInstnId'', Tag (''/'' @ p)] else [])"

definition cents_text :: "jsnum \<Rightarrow> string" where
  "cents_text c = fixed2_text (js_div c 100)"

definition payment_markup :: "pain_payment \<Rightarrow> markup list" where
  "payment_markup p =
     [new_line 6, Tag ''CdtTrfTxInf'', new_line 8, Tag ''PmtId'', new_line 10] @
     element ''EndToEndId'' (esc_xml (pn_endToEndId p)) @
     [new_line 8, Tag ''/PmtId'', new_line 8, Tag ''Amt'', new_line 10,
      Tag (''InstdAmt Ccy='' @ quoted (esc_xml (pn_currency p))), Chars (cents_text (pn_amountCents p)), Tag ''/InstdAmt'',
      new_line 8, Tag ''/Amt'', new_line 8, Tag ''Cdtr'', new_line 10] @
     element ''Nm'' (esc_xml (pn_beneficiaryName p)) @
     [new_line 8, Tag ''/Cdtr'', new_line 8, Tag ''CdtrAcct'', new_line 10, Tag ''Id''] @
     element ''IBAN'' (esc_xml (pn_beneficiaryIban p)) @
     [Tag ''/Id'', new_line 8, Tag ''/CdtrAcct''] @
     agent ''CdtrAgt'' 8 (pn_beneficiaryBic p) @
     (if truthy (pn_remittanceInfo p) then [new_line 8, Tag ''RmtInf''] @
        element ''Ustrd'' (esc_xml (the (pn_remittanceInfo p))) @ [Tag ''/RmtInf''] else []) @
     [new_line 6, Tag ''/CdtTrfTxInf'']"

text \<open>Without payments the line where they would stand is empty.\<close>

definition payments_markup :: "pain_payment list \<Rightarrow> markup list" where
  "payments_markup ps = (if ps = [] then [new_line 0] else concat (map payment_markup ps))"

definition pain_markup :: "int \<Rightarrow> pain_batch \<Rightarrow> markup list" where
  "pain_markup now b =
     (let total = cents_text (js_sum pn_amountCents (pb_payments b)); count = dec (length (pb_payments b)) in
     [Tag (''?xml version='' @ quoted ''1.0'' @ '' encoding='' @ quoted ''UTF-8'' @ ''?''), new_line 0,
      Tag (''Document xmlns='' @ quoted ''urn:iso:std:iso:20022:tech:xsd:pain.001.001.09''), new_line 2,
      Tag ''CstmrCdtTrfInitn'', new_line 4, Tag ''GrpHdr'', new_line 6] @
     element ''MsgId'' (esc_xml (pb_msgId b)) @ [new_line 6] @
     element ''CreDtTm'' (iso_time now) @ [new_line 6] @
     element ''NbOfTxs'' count @ [new_line 6] @
     element ''CtrlSum'' total @ [new_line 6, Tag ''InitgPty'', new_line 8] @
     element ''Nm'' (esc_xml (pb_initiatorName b)) @
     [new_line 6, Tag ''/InitgPty'', new_line 4, Tag ''/GrpHdr'', new_line 4, Tag ''PmtInf'', new_line 6] @
     element ''PmtInfId'' (esc_xml (pb_msgId b) @ ''-PI1'') @ [new_line 6] @
     element ''PmtMtd'' ''TRF'' @ [new_line 6] @
     element ''NbOfTxs'' count @ [new_line 6] @
     element ''CtrlSum'' total @ [new_line 6, Tag ''ReqdExctnDt''] @
     element ''Dt'' (case pb_payments b of [] \<Rightarrow> iso_date now | p # _ \<Rightarrow> pn_requestedExecutionDate p) @
     [Tag ''/ReqdExctnDt'', new_line 6, Tag ''Dbtr'', new_line 8] @
     element ''Nm'' (esc_xml (pb_initiatorName b)) @
     [new_line 6, Tag ''/Dbtr'', new_line 6, Tag ''DbtrAcct'', new_line 8, Tag ''Id''] @
     element ''IBAN'' (esc_xml (pb_initiatorIban b)) @ [Tag ''/Id'', new_line 6, Tag ''/DbtrAcct''] @
     agent ''DbtrAgt'' 6 (pb_initiatorBic b) @
     payments_markup (pb_payments b) @
     [new_line 4, Tag ''/PmtInf'', new_line 2, Tag ''/CstmrCdtTrfInitn'', new_line 0, Tag ''/Document'', new_line 0])"

definition build_pain001 :: "int \<Rightarrow> pain_batch \<Rightarrow> string" where
  "build_pain001 now b = concat (map markup_text (pain_markup now b))"

end
