(* ===== verification/TreasuryPlanningProps.thy ===== *)
theory TreasuryPlanningProps
  imports TreasuryPlanning Cents
begin

text \<open>
  Correctness of the treasury's computations: the payment file states each payment and their
  exact sum, a forecast bucket adds up the open documents due within its horizon, and a proposal
  names an open document of exactly the amount of the transaction.
\<close>

declare split_paired_All [simp del]

section \<open>Reading markup\<close>

fun well_formed_markup :: "markup \<Rightarrow> bool" where
  "well_formed_markup (Tag p) \<longleftrightarrow> CHR ''<'' \<notin> set p \<and> CHR ''>'' \<notin> set p"
| "well_formed_markup (Chars s) \<longleftrightarrow> no_lt s"

fun chars_prefix :: "markup list \<Rightarrow> string" where
  "chars_prefix (Chars s # ms) = s @ chars_prefix ms"
| "chars_prefix ms = []"

fun read_markup :: "string \<Rightarrow> markup list \<Rightarrow> string list" where
  "read_markup t [] = []"
| "read_markup t (Tag p # ms) = (if p = t then [unesc_xml (chars_prefix ms)] else []) @ read_markup t ms"
| "read_markup t (Chars s # ms) = read_markup t ms"

abbreviation markup_string :: "markup list \<Rightarrow> string" where
  "markup_string ms \<equiv> concat (map markup_text ms)"

lemma elements_prefix: "no_lt s \<Longrightarrow> elements t (s @ r) = elements t r"
  unfolding elements_def no_lt_def
  by (induction s) (auto split: list.splits simp: split_at_char.simps)

lemma takeWhile_markup:
  "list_all well_formed_markup ms \<Longrightarrow> takeWhile (\<lambda>c. c \<noteq> CHR ''<'') (markup_string ms) = chars_prefix ms"
proof (induction ms rule: chars_prefix.induct)
  case (1 s ms)
  then have "takeWhile (\<lambda>c. c \<noteq> CHR ''<'') (s @ markup_string ms) = s @ takeWhile (\<lambda>c. c \<noteq> CHR ''<'') (markup_string ms)"
    by (intro takeWhile_append2) (auto simp: no_lt_def)
  with 1 show ?case by simp
qed auto

lemma elements_tag:
  assumes "CHR ''<'' \<notin> set p" and "CHR ''>'' \<notin> set p"
  shows "elements t (CHR ''<'' # p @ CHR ''>'' # r) =
    (if p = t then [unesc_xml (takeWhile (\<lambda>c. c \<noteq> CHR ''<'') r)] else []) @ elements t r"
proof -
  define w d where "w = takeWhile (\<lambda>c. c \<noteq> CHR ''<'') r" and "d = dropWhile (\<lambda>c. c \<noteq> CHR ''<'') r"
  then have r: "r = w @ d" and w: "no_lt w" by (auto simp: no_lt_def dest: set_takeWhileD)
  have one: "elements t (CHR ''<'' # p @ CHR ''>'' # w) = element_text t (p @ CHR ''>'' # w)"
    using assms w elements_one [of "p @ CHR ''>'' # w" t] by (simp add: no_lt_def)
  have "elements t ((CHR ''<'' # p @ CHR ''>'' # w) @ d) = element_text t (p @ CHR ''>'' # w) @ elements t d"
  proof (cases d)
    case (Cons c d')
    then have "c = CHR ''<''" using d_def hd_dropWhile [of "\<lambda>c. c \<noteq> CHR ''<''" r] by (metis list.discI list.sel(1))
    then show ?thesis using elements_app [of t "CHR ''<'' # p @ CHR ''>'' # w" d'] Cons one by simp
  qed (simp add: one elements_text)
  then show ?thesis using assms elements_prefix [OF w, of t d] by (simp add: element_text_plain r [symmetric] w_def [symmetric] flip: r)
qed

lemma elements_markup:
  "list_all well_formed_markup ms \<Longrightarrow> elements t (markup_string ms) = read_markup t ms"
proof (induction t ms rule: read_markup.induct)
  case (2 t p ms)
  then show ?case using elements_tag [of p t "markup_string ms"] by (simp add: takeWhile_markup)
qed (simp_all add: elements_text elements_prefix)

text \<open>What one payment contributes.\<close>

lemma esc_no_markup [simp]: "CHR ''<'' \<notin> set (esc_xml s)" "CHR ''>'' \<notin> set (esc_xml s)"
  using esc_xml_no_markup by auto

lemma well_formed_element: "CHR ''<'' \<notin> set p \<Longrightarrow> CHR ''>'' \<notin> set p \<Longrightarrow> no_lt x \<Longrightarrow> list_all well_formed_markup (element p x)"
  by (simp add: element_def)

lemma well_formed_agent: "CHR ''<'' \<notin> set p \<Longrightarrow> CHR ''>'' \<notin> set p \<Longrightarrow> list_all well_formed_markup (agent p k bic)"
  by (simp add: agent_def element_def new_line_def)

lemma well_formed_payment: "list_all well_formed_markup (payment_markup p)"
  by (simp add: payment_markup_def well_formed_element well_formed_agent new_line_def quoted_def cents_text_def)

lemma well_formed_payments: "list_all well_formed_markup (payments_markup ps)"
proof -
  have "list_all well_formed_markup (concat (map payment_markup ps))"
    by (induction ps) (simp_all add: well_formed_payment)
  then show ?thesis by (simp add: payments_markup_def new_line_def)
qed

lemma no_lt_iso_time: "no_lt (iso_time t)"
  by (simp add: iso_time_def iso_of_days_def pad_int_def Let_def split: prod.split)

lemma well_formed_pain:
  assumes "list_all (\<lambda>p. no_lt (pn_requestedExecutionDate p)) (pb_payments b)"
  shows "list_all well_formed_markup (pain_markup now b)"
proof -
  have "no_lt (iso_date now)" using no_lt_iso_time [of now] by (auto simp: iso_date_def no_lt_def dest: in_set_takeD)
  then have "no_lt (case pb_payments b of [] \<Rightarrow> iso_date now | p # _ \<Rightarrow> pn_requestedExecutionDate p)"
    using assms(1) by (cases "pb_payments b") auto
  then show ?thesis using no_lt_iso_time [of now]
    by (simp add: pain_markup_def Let_def well_formed_element well_formed_agent well_formed_payments new_line_def quoted_def cents_text_def)
qed

lemmas markup_defs = element_def agent_def new_line_def

definition amount_tag :: "string \<Rightarrow> string" where
  "amount_tag cur = ''InstdAmt Ccy='' @ quoted (esc_xml cur)"

lemma read_payment:
  "read_markup ''EndToEndId'' (payment_markup p @ ms) = pn_endToEndId p # read_markup ''EndToEndId'' ms"
  "read_markup ''Nm'' (payment_markup p @ ms) = pn_beneficiaryName p # read_markup ''Nm'' ms"
  "read_markup ''IBAN'' (payment_markup p @ ms) = pn_beneficiaryIban p # read_markup ''IBAN'' ms"
  "read_markup ''CtrlSum'' (payment_markup p @ ms) = read_markup ''CtrlSum'' ms"
  "read_markup ''NbOfTxs'' (payment_markup p @ ms) = read_markup ''NbOfTxs'' ms"
  "read_markup (amount_tag cur) (payment_markup p @ ms) =
     (if esc_xml (pn_currency p) = esc_xml cur then [cents_text (pn_amountCents p)] else []) @ read_markup (amount_tag cur) ms"
  by (cases "truthy (pn_beneficiaryBic p)"; cases "truthy (pn_remittanceInfo p)";
      simp add: payment_markup_def markup_defs unesc_esc amount_tag_def quoted_def cents_text_def unesc_no_markup)+

lemma read_payments:
  "read_markup ''EndToEndId'' (payments_markup ps @ ms) = map pn_endToEndId ps @ read_markup ''EndToEndId'' ms"
  "read_markup ''Nm'' (payments_markup ps @ ms) = map pn_beneficiaryName ps @ read_markup ''Nm'' ms"
  "read_markup ''IBAN'' (payments_markup ps @ ms) = map pn_beneficiaryIban ps @ read_markup ''IBAN'' ms"
  "read_markup ''CtrlSum'' (payments_markup ps @ ms) = read_markup ''CtrlSum'' ms"
  "read_markup ''NbOfTxs'' (payments_markup ps @ ms) = read_markup ''NbOfTxs'' ms"
  "read_markup (amount_tag cur) (payments_markup ps @ ms) =
     map (\<lambda>p. cents_text (pn_amountCents p)) (filter (\<lambda>p. pn_currency p = cur) ps) @ read_markup (amount_tag cur) ms"
proof -
  have "esc_xml a = esc_xml b \<longleftrightarrow> a = b" for a b by (metis unesc_esc)
  note step = read_payment [unfolded this]
  have *: "read_markup ''EndToEndId'' (concat (map payment_markup ps) @ ms) = map pn_endToEndId ps @ read_markup ''EndToEndId'' ms"
    "read_markup ''Nm'' (concat (map payment_markup ps) @ ms) = map pn_beneficiaryName ps @ read_markup ''Nm'' ms"
    "read_markup ''IBAN'' (concat (map payment_markup ps) @ ms) = map pn_beneficiaryIban ps @ read_markup ''IBAN'' ms"
    "read_markup ''CtrlSum'' (concat (map payment_markup ps) @ ms) = read_markup ''CtrlSum'' ms"
    "read_markup ''NbOfTxs'' (concat (map payment_markup ps) @ ms) = read_markup ''NbOfTxs'' ms"
    "read_markup (amount_tag cur) (concat (map payment_markup ps) @ ms) =
       map (\<lambda>p. cents_text (pn_amountCents p)) (filter (\<lambda>p. pn_currency p = cur) ps) @ read_markup (amount_tag cur) ms"
    by (induction ps) (simp_all add: step)
  then show "read_markup ''EndToEndId'' (payments_markup ps @ ms) = map pn_endToEndId ps @ read_markup ''EndToEndId'' ms"
    "read_markup ''Nm'' (payments_markup ps @ ms) = map pn_beneficiaryName ps @ read_markup ''Nm'' ms"
    "read_markup ''IBAN'' (payments_markup ps @ ms) = map pn_beneficiaryIban ps @ read_markup ''IBAN'' ms"
    "read_markup ''CtrlSum'' (payments_markup ps @ ms) = read_markup ''CtrlSum'' ms"
    "read_markup ''NbOfTxs'' (payments_markup ps @ ms) = read_markup ''NbOfTxs'' ms"
    "read_markup (amount_tag cur) (payments_markup ps @ ms) =
       map (\<lambda>p. cents_text (pn_amountCents p)) (filter (\<lambda>p. pn_currency p = cur) ps) @ read_markup (amount_tag cur) ms"
    by (simp_all add: payments_markup_def new_line_def)
qed

text \<open>The amount a reader takes from a text with two decimals, in cents.\<close>

definition cents_of_text :: "string \<Rightarrow> nat" where
  "cents_of_text s = parse_dec (filter is_digit s)"

lemma cents_of_fixed2: "0 \<le> x \<Longrightarrow> cents_of_text (fixed2_text x) = nat (to_fixed2 x)"
proof -
  assume "0 \<le> x"
  then have n: "\<bar>to_fixed2 x\<bar> = to_fixed2 x" "\<not> x < 0" using to_fixed2_nonneg by auto
  let ?n = "nat (to_fixed2 x)"
  have "filter is_digit (dec k) = dec k" for k using dec_digits by (simp add: filter_id_conv)
  moreover have "filter is_digit (pad_start 2 CHR ''0'' (dec k)) = pad_start 2 CHR ''0'' (dec k)" for k
    using pad_start_digits [OF dec_digits] by (auto simp: filter_id_conv)
  moreover have "length (pad_start 2 CHR ''0'' (dec (?n mod 100))) = 2"
    using length_dec [of 2 "?n mod 100"] by (simp add: length_pad_start)
  moreover have "\<not> is_digit CHR ''.''" by (simp add: is_digit_def)
  ultimately show ?thesis
    by (simp add: cents_of_text_def fixed2_text_def Let_def n parse_dec_app parse_dec_pad)
qed

lemma cents_of_cents_text:
  assumes "c \<in> \<int>" and "0 \<le> c" and "c \<le> of_int BILLION"
  shows "rat_of_nat (cents_of_text (cents_text c)) = c"
proof -
  obtain k where k: "c = of_int k" using assms(1) by (elim Ints_cases)
  then have b: "0 \<le> k" "k \<le> BILLION" using assms(2,3) by (simp_all del: of_int_numeral)
  have "js_div c 100 = euro k" by (simp add: k js_div_def euro_def)
  then have "cents_of_text (cents_text c) = nat k"
    using b cents_of_fixed2 [OF euro_nonneg] by (simp add: cents_text_def to_fixed2_euro)
  then show ?thesis using b(1) k by simp
qed

lemma sum_of_cents:
  assumes "list_all (\<lambda>p. pn_amountCents p \<in> \<int> \<and> 0 \<le> pn_amountCents p) ps"
    and "sum_list (map pn_amountCents ps) \<le> of_int BILLION"
  shows "js_sum pn_amountCents ps = sum_list (map pn_amountCents ps)"
    and "0 \<le> sum_list (map pn_amountCents ps)" and "sum_list (map pn_amountCents ps) \<in> \<int>"
    and "p \<in> set ps \<Longrightarrow> pn_amountCents p \<le> of_int BILLION"
proof -
  show nonneg: "0 \<le> sum_list (map pn_amountCents ps)" using assms(1) by (intro sum_list_nonneg) (auto simp: list_all_iff)
  have "map (\<lambda>p. \<bar>pn_amountCents p\<bar>) ps = map pn_amountCents ps" using assms(1) by (auto simp: list_all_iff)
  then have "sum_list (map (\<lambda>p. \<bar>pn_amountCents p\<bar>) ps) \<le> of_int BILLION" using assms(2) by (simp only:)
  also have "\<dots> \<le> (2 ^ 53 :: rat)" by (simp add: BILLION_def)
  finally have "sum_list (map (\<lambda>p. \<bar>pn_amountCents p\<bar>) ps) \<le> 2 ^ 53" .
  then show "js_sum pn_amountCents ps = sum_list (map pn_amountCents ps)"
    using assms(1) by (intro js_sum_exact) (auto simp: list_all_iff)
  show "sum_list (map pn_amountCents ps) \<in> \<int>" using assms(1) by (induction ps) auto
  assume "p \<in> set ps"
  then have "pn_amountCents p \<le> sum_list (map pn_amountCents ps)"
    using assms(1) by (intro member_le_sum_list) (auto simp: list_all_iff)
  then show "pn_amountCents p \<le> of_int BILLION" using assms(2) by simp
qed

lemma no_markup_cents [simp]: "no_markup (cents_text c)"
  by (simp add: cents_text_def)

lemma not_amount_tag [simp]: "take 9 s \<noteq> ''InstdAmt '' \<Longrightarrow> (s = amount_tag cur) = False"
  by (auto simp: amount_tag_def)

section \<open>Properties\<close>

text \<open>
  C28. The payment file says what it was built from. A reader finds, in order, the references,
  names and account numbers of all payments whatever characters they contain, the amount of each
  payment to the cent, and twice the number of payments and their exact sum: for payments in
  euros over whole cents with a total up to a thousand million euros.\<close>

theorem payment_file_reads_back:
  assumes "list_all (\<lambda>p. pn_amountCents p \<in> \<int> \<and> 0 \<le> pn_amountCents p) (pb_payments b)"
    and "list_all (\<lambda>p. pn_currency p = ''EUR'' \<and> no_lt (pn_requestedExecutionDate p)) (pb_payments b)"
    and "sum_list (map pn_amountCents (pb_payments b)) \<le> of_int BILLION"
  shows "let file = build_pain001 now b; ps = pb_payments b; total = sum_list (map pn_amountCents ps) in
    elements ''EndToEndId'' file = map pn_endToEndId ps \<and>
    elements ''IBAN'' file = pb_initiatorIban b # map pn_beneficiaryIban ps \<and>
    elements ''Nm'' file = [pb_initiatorName b, pb_initiatorName b] @ map pn_beneficiaryName ps \<and>
    map (\<lambda>s. rat_of_nat (cents_of_text s)) (elements (amount_tag ''EUR'') file) = map pn_amountCents ps \<and>
    map (\<lambda>s. rat_of_nat (cents_of_text s)) (elements ''CtrlSum'' file) = [total, total] \<and>
    elements ''NbOfTxs'' file = [dec (length ps), dec (length ps)]"
proof -
  note sums = sum_of_cents [OF assms(1,3)]
  have "list_all (\<lambda>p. no_lt (pn_requestedExecutionDate p)) (pb_payments b)"
    using assms(2) by (simp add: list_all_iff)
  then have reader: "elements t (build_pain001 now b) = read_markup t (pain_markup now b)" for t
    unfolding build_pain001_def by (rule elements_markup [OF well_formed_pain])
  have amounts: "map (\<lambda>s. rat_of_nat (cents_of_text s)) (map (\<lambda>p. cents_text (pn_amountCents p)) (pb_payments b))
      = map pn_amountCents (pb_payments b)"
    using assms(1) sums(4) by (auto simp: list_all_iff intro!: cents_of_cents_text)
  have euros: "filter (\<lambda>p. pn_currency p = ''EUR'') (pb_payments b) = pb_payments b"
    using assms(2) by (simp add: list_all_iff filter_id_conv)
  have "rat_of_nat (cents_of_text (cents_text (sum_list (map pn_amountCents (pb_payments b))))) =
      sum_list (map pn_amountCents (pb_payments b))"
    using cents_of_cents_text [OF sums(3,2) assms(3)] .
  then show ?thesis unfolding Let_def reader
    using amounts
    by (cases "truthy (pb_initiatorBic b)")
      (simp_all add: pain_markup_def Let_def markup_defs quoted_def read_payments
        euros unesc_esc unesc_no_markup sums(1))
qed

definition example_payment :: "string \<Rightarrow> jsnum \<Rightarrow> pain_payment" where
  "example_payment i c = \<lparr>pn_endToEndId = i, pn_amountCents = c, pn_currency = ''EUR'', pn_beneficiaryName = ''A & B'',
     pn_beneficiaryIban = ''IT1'', pn_beneficiaryBic = None, pn_remittanceInfo = Some ''<x>'',
     pn_requestedExecutionDate = ''2026-01-02''\<rparr>"

definition example_batch :: pain_batch where
  "example_batch = \<lparr>pb_msgId = ''M'', pb_initiatorName = ''Us'', pb_initiatorIban = ''IT0'', pb_initiatorBic = Some ''X'',
     pb_payments = [example_payment ''E1'' 1050, example_payment ''E2'' 99]\<rparr>"

theorem payment_file_reads_back_witness:
  "map (\<lambda>s. rat_of_nat (cents_of_text s)) (elements ''CtrlSum'' (build_pain001 0 example_batch)) = [1149, 1149]"
  using payment_file_reads_back [of example_batch 0]
  by (simp add: example_batch_def example_payment_def BILLION_def Let_def)

section \<open>The forecast\<close>

lemma days_until_le:
  assumes "0 \<le> h" and "h \<le> 90"
  shows "days_until now due \<le> h \<longleftrightarrow> due \<le> now + h * MS_PER_DAY"
proof -
  let ?x = "of_int (due - now) / of_int MS_PER_DAY :: rat"
  have D: "(0 :: rat) < of_int MS_PER_DAY" by (simp add: MS_PER_DAY_def)
  have split: "?x \<le> of_int h \<longleftrightarrow> due \<le> now + h * MS_PER_DAY"
    using D by (simp only: divide_le_eq if_True) (simp flip: of_int_mult of_int_add add: algebra_simps)
  have "fl ?x \<le> of_int h \<longleftrightarrow> ?x \<le> of_int h"
  proof
    assume "?x \<le> of_int h"
    then have "fl ?x \<le> fl (of_int h)" by (rule fl_mono)
    then show "fl ?x \<le> of_int h" using assms by (simp add: fl_safe safe_of_int)
  next
    let ?y = "of_int (h * 2 ^ 27 + 1) * 2 powi (- 27) :: rat"
    assume le: "fl ?x \<le> of_int h"
    show "?x \<le> of_int h"
    proof (rule ccontr)
      assume "\<not> ?x \<le> of_int h"
      then have "h * MS_PER_DAY + 1 \<le> due - now" using split by simp
      then have "(of_int (h * MS_PER_DAY + 1) :: rat) \<le> of_int (due - now)" by (simp only: of_int_le_iff)
      then have "of_int (h * MS_PER_DAY + 1) / of_int MS_PER_DAY \<le> ?x" using D by (intro divide_right_mono) auto
      then have "of_int h + 1 / of_int MS_PER_DAY \<le> ?x" using D by (simp add: add_divide_distrib)
      moreover have y: "?y = of_int h + 1 / 2 ^ 27" by (simp add: power_int_minus field_simps)
      moreover have "(1 / 2 ^ 27 :: rat) \<le> 1 / of_int MS_PER_DAY" by (simp add: MS_PER_DAY_def)
      ultimately have "?y \<le> ?x" by linarith
      then have "fl ?y \<le> fl ?x" by (rule fl_mono)
      moreover have "\<bar>h * 2 ^ 27 + 1\<bar> \<le> 2 ^ 53" using assms by simp
      then have "fl ?y = ?y" by (rule fl_dyadic) simp
      ultimately have "of_int h + (1 / 2 ^ 27 :: rat) \<le> of_int h" using le y by linarith
      then show False by simp
    qed
  qed
  then show ?thesis using assms split by (simp add: days_until_def math_ceil_def js_div_def ceiling_le_iff)
qed

lemma fold_buckets: "foldl (\<lambda>bs x. map (f x) bs) bs xs = map (\<lambda>b. foldl (\<lambda>b x. f x b) b xs) bs"
  by (induction xs arbitrary: bs) simp_all

lemma fold_receivables:
  "foldl (\<lambda>b i. add_receivable now i b) b xs =
     (let due = filter (\<lambda>i. days_until now (invoice_due i) \<le> fb_horizonDays b) xs in
      b\<lparr>fb_arInflowCents := foldl (\<lambda>s i. js_add s (of_int (invoice_cents i))) (fb_arInflowCents b) due,
        fb_arCount := fb_arCount b + length due\<rparr>)"
  by (induction xs arbitrary: b) (simp_all add: add_receivable_def Let_def)

lemma fold_payables:
  "foldl (\<lambda>b i. add_payable now i b) b xs =
     (let due = filter (\<lambda>i. days_until now (si_paymentDueDate i) \<le> fb_horizonDays b) xs in
      b\<lparr>fb_apOutflowCents := foldl (\<lambda>s i. js_add s (si_totalCents i)) (fb_apOutflowCents b) due,
        fb_apCount := fb_apCount b + length due\<rparr>)"
  by (induction xs arbitrary: b) (simp_all add: add_payable_def Let_def)

lemma open_invoices_eq:
  "open_invoices strict t rows =
     (if strict then Inl PlainError else Inr (filter (\<lambda>i. tenantId i = t \<and> inv_status i \<noteq> InvCancelled) rows))"
proof -
  have "''paid'' \<notin> set INVOICE_STATUSES" by (simp add: INVOICE_STATUSES_def invoice_status_text_def)
  moreover have "invoice_status_text st \<notin> {''paid'', ''cancelled''} \<longleftrightarrow> st \<noteq> InvCancelled" for st
    by (cases st) (simp_all add: invoice_status_text_def)
  ultimately show ?thesis by (auto simp: open_invoices_def status_not_in_def intro!: filter_cong)
qed

lemma open_supplier_invoices_eq:
  "open_supplier_invoices strict t rows =
     Inr (filter (\<lambda>i. tenantId i = t \<and> si_status i \<notin> {SiPaid, SiCancelled, SiRejected}) rows)"
proof -
  have "set [''paid'', ''cancelled'', ''rejected''] \<subseteq> set SI_STATUSES" by (simp add: SI_STATUSES_def si_status_text_def)
  moreover have "si_status_text st \<notin> set [''paid'', ''cancelled'', ''rejected''] \<longleftrightarrow> st \<notin> {SiPaid, SiCancelled, SiRejected}" for st
    by (cases st) (simp_all add: si_status_text_def)
  ultimately show ?thesis by (auto simp: open_supplier_invoices_def status_not_in_def intro!: filter_cong)
qed

text \<open>What a bucket is meant to hold: the open documents due within its horizon, or overdue.\<close>

definition bucket_of :: "int \<Rightarrow> uuid \<Rightarrow> invoice list \<Rightarrow> supplier_invoice list \<Rightarrow> int \<Rightarrow> forecast_bucket" where
  "bucket_of now t invs sis h =
     (let ar = filter (\<lambda>i. tenantId i = t \<and> inv_status i \<noteq> InvCancelled \<and> invoice_due i \<le> now + h * MS_PER_DAY) invs;
          ap = filter (\<lambda>i. tenantId i = t \<and> si_status i \<notin> {SiPaid, SiCancelled, SiRejected} \<and>
            si_paymentDueDate i \<le> now + h * MS_PER_DAY) sis;
          inflow = js_sum (\<lambda>i. of_int (invoice_cents i)) ar; outflow = js_sum si_totalCents ap
      in \<lparr>fb_horizonDays = h, fb_arInflowCents = inflow, fb_apOutflowCents = outflow, fb_netCents = js_sub inflow outflow,
          fb_arCount = length ar, fb_apCount = length ap\<rparr>)"

text \<open>
  The forecast of 30, 60 and 90 days adds up exactly the open documents of the tenant that
  are due within the horizon, the days being counted in floating-point arithmetic
  notwithstanding. A database that checks the labels of an enumeration, however, refuses the
  query for open invoices, which asks for a status \<^verbatim>\<open>paid\<close> that invoices do not have:
  there the forecast always fails.\<close>

theorem forecast_adds_open_documents_due:
  "cash_forecast strict now t invs sis =
     (if strict then Inl PlainError else Inr (map (bucket_of now t invs sis) [30, 60, 90]))"
  by (simp add: cash_forecast_def open_invoices_eq open_supplier_invoices_eq fold_buckets fold_receivables fold_payables
      empty_bucket_def days_until_le bucket_of_def js_sum_def Let_def conj_ac)

section \<open>Proposals\<close>

lemma collect_proposals_from:
  "collect_proposals one txs = Inr ps \<Longrightarrow> p \<in> set ps \<Longrightarrow> \<exists>tx\<in>set txs. one tx = Inr (Some p)"
  by (induction txs arbitrary: ps) (auto split: sum.splits option.splits)

lemma unmatched_sound:
  "tx \<in> set (unmatched_transactions t limit txs) \<Longrightarrow>
     tx \<in> set txs \<and> tenantId tx = t \<and> bt_reconciliationStatus tx = Unmatched"
  unfolding unmatched_transactions_def by (drule in_set_takeD) simp

definition proposes_supplier_invoice ::
  "uuid \<Rightarrow> supplier_invoice list \<Rightarrow> bank_transaction \<Rightarrow> reconciliation_proposal \<Rightarrow> bool" where
  "proposes_supplier_invoice t sis tx p \<longleftrightarrow>
     (let candidates = filter (\<lambda>i. tenantId i = t \<and> si_status i \<notin> {SiPaid, SiCancelled, SiRejected} \<and>
         si_totalCents i = of_int (- bt_amountCents tx)) sis
      in rp_documentType p = DocSupplierInvoice \<and> rp_documentId p \<in> ent_id ` set candidates \<and>
         rp_confidence p = (if length candidates = 1 then ConfHigh else ConfLow))"

definition proposes_invoice :: "uuid \<Rightarrow> invoice list \<Rightarrow> bank_transaction \<Rightarrow> reconciliation_proposal \<Rightarrow> bool" where
  "proposes_invoice t invs tx p \<longleftrightarrow>
     (\<exists>i\<in>set invs. tenantId i = t \<and> inv_status i \<noteq> InvCancelled \<and> invoice_cents i = bt_amountCents tx \<and>
        rp_documentType p = DocInvoice \<and> rp_documentId p = ent_id i \<and>
        rp_confidence p = (if has_substring (bt_description tx) (inv_number i) then ConfHigh else ConfMedium))"

lemma propose_outgoing_sound:
  assumes "propose_outgoing strict t sis tx = Inr (Some p)" and "bt_amountCents tx < 0"
  shows "rp_bankTransactionId p = ent_id tx \<and> proposes_supplier_invoice t sis tx p"
proof -
  define cs where "cs = filter (\<lambda>i. tenantId i = t \<and> si_status i \<notin> {SiPaid, SiCancelled, SiRejected} \<and>
         si_totalCents i = of_int (- bt_amountCents tx)) sis"
  have eq: "filter (\<lambda>si. si_totalCents si = of_int \<bar>bt_amountCents tx\<bar>)
      (filter (\<lambda>i. tenantId i = t \<and> si_status i \<notin> {SiPaid, SiCancelled, SiRejected}) sis) = cs"
    using assms(2) by (simp add: cs_def conj_ac)
  have "case take 5 cs of [] \<Rightarrow> False | si # r \<Rightarrow>
      rp_bankTransactionId p = ent_id tx \<and> rp_documentType p = DocSupplierInvoice \<and> rp_documentId p = ent_id si \<and>
      rp_confidence p = (if r = [] then ConfHigh else ConfLow)"
    using assms(1) unfolding propose_outgoing_def open_supplier_invoices_eq Let_def sum.case eq
    by (auto split: list.splits)
  moreover obtain c cs' where c: "cs = c # cs'" using calculation by (cases cs) auto
  moreover have "take 5 (c # cs') = c # take 4 cs'" by simp
  ultimately show ?thesis
    unfolding proposes_supplier_invoice_def Let_def cs_def [symmetric] by simp
qed

lemma propose_incoming_sound:
  assumes "propose_incoming strict t invs tx = Inr (Some p)" and "\<not> bt_amountCents tx < 0"
  shows "rp_bankTransactionId p = ent_id tx \<and> proposes_invoice t invs tx p"
proof -
  define rows where "rows = take 50 (filter (\<lambda>i. tenantId i = t \<and> inv_status i \<noteq> InvCancelled) invs)"
  have strict: "\<not> strict" using assms(1) by (auto simp: propose_incoming_def open_invoices_eq Let_def)
  obtain i where i: "find (\<lambda>i. invoice_cents i = \<bar>bt_amountCents tx\<bar>) rows = Some i"
    and p: "rp_bankTransactionId p = ent_id tx \<and> rp_documentType p = DocInvoice \<and> rp_documentId p = ent_id i \<and>
      rp_confidence p = (if has_substring (bt_description tx) (inv_number i) then ConfHigh else ConfMedium)"
    using assms(1) strict by (auto simp: propose_incoming_def open_invoices_eq Let_def rows_def)
  have "i \<in> set rows" "invoice_cents i = bt_amountCents tx"
    using i assms(2) by (auto simp: find_Some_iff)
  moreover have "set rows \<subseteq> {i \<in> set invs. tenantId i = t \<and> inv_status i \<noteq> InvCancelled}"
    unfolding rows_def by (auto dest: in_set_takeD)
  ultimately show ?thesis using p unfolding proposes_invoice_def by blast
qed

text \<open>
  Every proposal for the reconciliation belongs to an unmatched transaction of the tenant and
  names an open document of the tenant over exactly its amount: a supplier invoice for money that
  left, with high confidence when there is no other of the amount, and an invoice for money that
  arrived, with high confidence when the description contains its number.\<close>

theorem proposals_name_exact_open_documents:
  assumes "propose strict t limit txs invs sis = Inr ps" and "p \<in> set ps"
  shows "\<exists>tx\<in>set txs. tenantId tx = t \<and> bt_reconciliationStatus tx = Unmatched \<and> rp_bankTransactionId p = ent_id tx \<and>
    (if bt_amountCents tx < 0 then proposes_supplier_invoice t sis tx p else proposes_invoice t invs tx p)"
proof -
  obtain tx where tx: "tx \<in> set (unmatched_transactions t (nullish limit 100) txs)"
    and p: "propose_one strict t invs sis tx = Inr (Some p)"
    using collect_proposals_from [OF assms(1) [unfolded propose_def] assms(2)] by blast
  show ?thesis
    using unmatched_sound [OF tx] p propose_outgoing_sound [of strict t sis tx p] propose_incoming_sound [of strict t invs tx p]
    by (intro bexI [of _ tx]) (auto simp: propose_one_def split: if_splits)
qed

definition example_invoice :: invoice where
  "example_invoice = \<lparr>ent_id = ''i1'', tenantId = ''t'', inv_documentType = TD01, inv_number = ''7'', inv_fiscalYear = 2026,
     inv_invoiceDate = ''2026-01-02'', inv_customerId = ''c'', inv_customerName = ''C'', inv_customerVatNumber = None,
     inv_customerFiscalCode = None, inv_customerSdiCode = None, inv_customerPecEmail = None, inv_status = InvAccepted,
     inv_subtotalAmount = 10, inv_taxAmount = 2, inv_totalAmount = 12, inv_lines = [], inv_submittedAt = None, inv_notes = None\<rparr>"

definition example_transaction :: bank_transaction where
  "example_transaction = \<lparr>ent_id = ''b1'', tenantId = ''t'', bt_bankAccountId = ''a'', bt_externalId = ''x'',
     bt_valueDate = ''2026-02-01'', bt_bookingDate = ''2026-02-01'', bt_amountCents = 1200, bt_currency = ''EUR'',
     bt_description = ''saldo 7'', bt_counterpartyName = None, bt_counterpartyIbanEncrypted = None,
     bt_reconciliationStatus = Unmatched, bt_matchedDocumentType = None, bt_matchedDocumentId = None,
     bt_matchedAt = None, bt_matchedBy = None\<rparr>"

lemma example_proposals:
  "\<exists>p. propose False ''t'' None [example_transaction] [example_invoice] [] = Inr [p]"
proof -
  have "fl 1200 = 1200" by (rule fl_numeral_safe) simp
  then have "invoice_cents example_invoice = 1200"
    by (simp add: invoice_cents_def example_invoice_def js_mul_def math_round_def floor_eq_iff)
  then show ?thesis
    by (simp add: propose_def nullish_def unmatched_transactions_def propose_one_def propose_incoming_def open_invoices_eq
        example_transaction_def Let_def)
      (simp add: example_invoice_def)
qed

theorem proposals_name_exact_open_documents_witness:
  "\<exists>p. propose False ''t'' None [example_transaction] [example_invoice] [] = Inr [p] \<and> rp_bankTransactionId p = ''b1''"
proof -
  obtain p where p: "propose False ''t'' None [example_transaction] [example_invoice] [] = Inr [p]"
    using example_proposals by blast
  have "rp_bankTransactionId p = ''b1''"
    using proposals_name_exact_open_documents [OF p] by (simp add: example_transaction_def)
  with p show ?thesis by blast
qed

end
