(* ===== verification/MultiCompany.thy ===== *)
theory MultiCompany
  imports Accounting ProcurementDb JsDate "HOL-Library.List_Lexorder" "HOL-Library.Char_ord"
begin

text \<open>
  The companies of a tenant and their consolidation:
  \<^verbatim>\<open>multi-company/multi-company.service.ts\<close> and
  \<^verbatim>\<open>multi-company/consolidation.service.ts\<close>. The address of a company is its JSON text.
\<close>

section \<open>Companies\<close>

record company = entity +
  co_code :: string
  co_name :: string
  co_vatNumber :: "string option"
  co_fiscalCode :: "string option"
  co_sdiDestinationCode :: "string option"
  co_pecEmail :: "string option"
  co_address :: string
  co_isPrimary :: bool
  co_isActive :: bool

record company_input =
  coi_code :: string
  coi_name :: string
  coi_vatNumber :: "string option"
  coi_fiscalCode :: "string option"
  coi_sdiDestinationCode :: "string option"
  coi_pecEmail :: "string option"
  coi_address :: "string option"

record company_db =
  companies :: "company list"

definition active_companies :: "uuid \<Rightarrow> company list \<Rightarrow> company list" where
  "active_companies t rows = filter (\<lambda>c. tenantId c = t \<and> co_isActive c) rows"

definition list_companies :: "uuid \<Rightarrow> (company_db, company list) svc" where
  "list_companies t = gets (\<lambda>s. sort_key co_code (active_companies t (companies s)))"

definition company_of :: "uuid \<Rightarrow> uuid \<Rightarrow> company_input \<Rightarrow> company" where
  "company_of newId t dto =
     \<lparr>ent_id = newId, tenantId = t, co_code = coi_code dto, co_name = coi_name dto, co_vatNumber = coi_vatNumber dto,
      co_fiscalCode = coi_fiscalCode dto, co_sdiDestinationCode = coi_sdiDestinationCode dto,
      co_pecEmail = coi_pecEmail dto, co_address = nullish (coi_address dto) ''{}'', co_isPrimary = False, co_isActive = True\<rparr>"

definition create_company :: "uuid \<Rightarrow> uuid \<Rightarrow> company_input \<Rightarrow> (company_db, company) svc" where
  "create_company newId t dto =
     bind (gets (\<lambda>s. find (\<lambda>c. tenantId c = t \<and> co_code c = coi_code dto) (companies s))) (\<lambda>dup.
     seq (throw_if (dup \<noteq> None) Conflict)
       (seq (modify (companies_update (save_row (company_of newId t dto)))) (ret (company_of newId t dto))))"

text \<open>The result is the row as it was found before the loop.\<close>

definition set_primary :: "uuid \<Rightarrow> uuid \<Rightarrow> (company_db, company) svc" where
  "set_primary t i =
     bind (gets (\<lambda>s. find_scoped t i (companies s))) (\<lambda>found.
     bind (require found NotFound) (\<lambda>target.
     seq (throw_if (\<not> co_isActive target) BadRequest)
       (bind (list_companies t) (\<lambda>all.
        seq (for_each (\<lambda>c. if co_isPrimary c \<noteq> (ent_id c = i)
              then modify (companies_update (save_row (c\<lparr>co_isPrimary := (ent_id c = i)\<rparr>))) else ret ()) all)
          (ret target)))))"

section \<open>Consolidation\<close>

record consolidation_line =
  cl_companyId :: uuid
  cl_companyCode :: string
  cl_companyName :: string
  cl_salesCents :: jsnum
  cl_purchasesCents :: jsnum
  cl_netCents :: jsnum

record consolidation_result =
  cr_fiscalYear :: int
  cr_perCompany :: "consolidation_line list"
  cr_salesCents :: jsnum
  cr_purchasesCents :: jsnum
  cr_netCents :: jsnum
  cr_computedAt :: string

definition new_year :: "int \<Rightarrow> int" where
  "new_year y = days_from_civil y 1 1 * MS_PER_DAY"

definition in_year :: "int \<Rightarrow> int \<Rightarrow> bool" where
  "in_year y time \<longleftrightarrow> new_year y \<le> time \<and> time < new_year (y + 1)"

definition year_invoices :: "uuid \<Rightarrow> int \<Rightarrow> invoice list \<Rightarrow> invoice list" where
  "year_invoices t y rows = filter (\<lambda>i. tenantId i = t \<and> in_year y (midnight_utc (inv_invoiceDate i))) rows"

definition year_supplier_invoices :: "uuid \<Rightarrow> int \<Rightarrow> supplier_invoice list \<Rightarrow> supplier_invoice list" where
  "year_supplier_invoices t y rows = filter (\<lambda>i. tenantId i = t \<and> in_year y (si_date i)) rows"

definition primary_company :: "company list \<Rightarrow> company option" where
  "primary_company cs = or_else (find co_isPrimary cs) (case cs of [] \<Rightarrow> None | c # _ \<Rightarrow> Some c)"

definition empty_line :: "company \<Rightarrow> consolidation_line" where
  "empty_line c = \<lparr>cl_companyId = ent_id c, cl_companyCode = co_code c, cl_companyName = co_name c,
     cl_salesCents = 0, cl_purchasesCents = 0, cl_netCents = 0\<rparr>"

definition invoice_company :: "company list \<Rightarrow> invoice \<Rightarrow> company option" where
  "invoice_company cs i =
     or_else (find (\<lambda>c. truthy (co_vatNumber c) \<and> co_vatNumber c = inv_customerVatNumber i) cs) (primary_company cs)"

definition sales_cents :: "invoice \<Rightarrow> jsnum" where
  "sales_cents i = of_int (math_round (js_mul (inv_totalAmount i) 100))"

text \<open>A document of no company changes no line.\<close>

definition add_sales :: "company list \<Rightarrow> consolidation_line list \<Rightarrow> invoice \<Rightarrow> consolidation_line list" where
  "add_sales cs ls i =
     (case invoice_company cs i of
        None \<Rightarrow> ls
      | Some c \<Rightarrow> map (\<lambda>l. if cl_companyId l = ent_id c
          then l\<lparr>cl_salesCents := js_add (cl_salesCents l) (sales_cents i)\<rparr> else l) ls)"

definition add_purchase :: "company list \<Rightarrow> consolidation_line list \<Rightarrow> supplier_invoice \<Rightarrow> consolidation_line list" where
  "add_purchase cs ls i =
     (case primary_company cs of
        None \<Rightarrow> ls
      | Some c \<Rightarrow> map (\<lambda>l. if cl_companyId l = ent_id c
          then l\<lparr>cl_purchasesCents := js_add (cl_purchasesCents l) (si_totalCents i)\<rparr> else l) ls)"

definition consolidate ::
  "int \<Rightarrow> uuid \<Rightarrow> int \<Rightarrow> company list \<Rightarrow> invoice list \<Rightarrow> supplier_invoice list \<Rightarrow> consolidation_result" where
  "consolidate now t y companyRows invoiceRows siRows =
     (let cs = active_companies t companyRows;
          ls = map empty_line cs;
          ls = foldl (add_sales cs) ls (year_invoices t y invoiceRows);
          ls = foldl (add_purchase cs) ls (year_supplier_invoices t y siRows);
          ls = map (\<lambda>l. l\<lparr>cl_netCents := js_sub (cl_salesCents l) (cl_purchasesCents l)\<rparr>) ls;
          sales = js_sum cl_salesCents ls; purchases = js_sum cl_purchasesCents ls
      in \<lparr>cr_fiscalYear = y, cr_perCompany = sort_key cl_companyCode ls, cr_salesCents = sales,
          cr_purchasesCents = purchases, cr_netCents = js_sub sales purchases, cr_computedAt = iso_time now\<rparr>)"

end
