(* ===== verification/MultiCompanyProps.thy ===== *)
theory MultiCompanyProps
  imports MultiCompany "HOL-Library.Multiset"
begin

text \<open>
  Correctness of the companies of a tenant: at most one primary company, company codes that do
  not repeat, and a consolidation that counts every document of the year once.
\<close>

declare split_paired_All [simp del]

section \<open>Companies\<close>

text \<open>What every request keeps: keys, codes and at most one primary company per tenant.\<close>

definition companies_ok :: "company_db \<Rightarrow> bool" where
  "companies_ok s \<longleftrightarrow> keyed (companies s) \<and> (\<forall>c\<in>set (companies s). co_isActive c) \<and>
     (\<forall>c\<in>set (companies s). \<forall>d\<in>set (companies s). tenantId c = tenantId d \<and> co_code c = co_code d \<longrightarrow> c = d) \<and>
     (\<forall>c\<in>set (companies s). \<forall>d\<in>set (companies s). tenantId c = tenantId d \<and> co_isPrimary c \<and> co_isPrimary d \<longrightarrow> c = d)"

inductive company_step :: "company_db \<Rightarrow> company_db \<Rightarrow> bool" where
  create: "fresh newId (companies s) \<Longrightarrow> create_company newId t dto s = (r, s') \<Longrightarrow> company_step s s'"
| primary: "set_primary t i s = (r, s') \<Longrightarrow> company_step s s'"

text \<open>The loop of \<open>set_primary\<close> leaves every row of the tenant with the flag of the chosen company.\<close>

definition primary_row :: "uuid \<Rightarrow> uuid \<Rightarrow> company \<Rightarrow> company" where
  "primary_row t i c = (if tenantId c = t \<and> co_isActive c then c\<lparr>co_isPrimary := (ent_id c = i)\<rparr> else c)"

lemma save_row_map:
  "keyed rows \<Longrightarrow> c \<in> set rows \<Longrightarrow> ent_id r = ent_id c \<Longrightarrow>
     save_row r rows = map (\<lambda>x. if ent_id x = ent_id c then r else x) rows"
  by (auto simp: save_row_def)

lemma primary_loop:
  assumes "keyed rows" and "distinct (map ent_id cs)" and "set cs \<subseteq> set rows"
  shows "for_each (\<lambda>c. if co_isPrimary c \<noteq> (ent_id c = i)
      then modify (companies_update (save_row (c\<lparr>co_isPrimary := (ent_id c = i)\<rparr>))) else ret ()) cs (s\<lparr>companies := rows\<rparr>) =
    (Inr (), s\<lparr>companies := map (\<lambda>c. if ent_id c \<in> ent_id ` set cs then c\<lparr>co_isPrimary := (ent_id c = i)\<rparr> else c) rows\<rparr>)"
  using assms
proof (induction cs arbitrary: rows)
  case Nil
  then show ?case by (simp add: svc_defs)
next
  case (Cons c cs)
  let ?rows = "map (\<lambda>x. if ent_id x = ent_id c then c\<lparr>co_isPrimary := (ent_id c = i)\<rparr> else x) rows"
  have key: "x = c" if "x \<in> set rows" "ent_id x = ent_id c" for x
    using that Cons.prems(1,3) by (auto simp: keyed_def distinct_map dest: inj_onD)
  have same: "?rows = rows" if "co_isPrimary c = (ent_id c = i)"
  proof -
    have "c\<lparr>co_isPrimary := (ent_id c = i)\<rparr> = c" using that by (cases c) auto
    then show ?thesis using key by (intro map_idI) auto
  qed
  have step: "(if co_isPrimary c \<noteq> (ent_id c = i)
      then modify (companies_update (save_row (c\<lparr>co_isPrimary := (ent_id c = i)\<rparr>))) else ret ()) (s\<lparr>companies := rows\<rparr>) =
      (Inr (), s\<lparr>companies := ?rows\<rparr>)"
    using save_row_map [OF Cons.prems(1), of c "c\<lparr>co_isPrimary := (ent_id c = i)\<rparr>"] Cons.prems(3) same
    by (auto simp: svc_defs)
  have ids: "map ent_id ?rows = map ent_id rows" by (auto simp: o_def)
  have "keyed ?rows" using Cons.prems(1) unfolding keyed_def ids .
  moreover have "set cs \<subseteq> set ?rows"
  proof
    fix x assume x: "x \<in> set cs"
    then have "ent_id x \<noteq> ent_id c" using Cons.prems(2) by (auto simp: image_iff)
    then show "x \<in> set ?rows" using x Cons.prems(3) by (auto simp: image_iff intro!: bexI [of _ x])
  qed
  ultimately have "for_each (\<lambda>c. if co_isPrimary c \<noteq> (ent_id c = i)
      then modify (companies_update (save_row (c\<lparr>co_isPrimary := (ent_id c = i)\<rparr>))) else ret ()) cs (s\<lparr>companies := ?rows\<rparr>) =
    (Inr (), s\<lparr>companies := map (\<lambda>c. if ent_id c \<in> ent_id ` set cs then c\<lparr>co_isPrimary := (ent_id c = i)\<rparr> else c) ?rows\<rparr>)"
    using Cons.prems(2) by (intro Cons.IH) auto
  moreover have "map (\<lambda>c. if ent_id c \<in> ent_id ` set cs then c\<lparr>co_isPrimary := (ent_id c = i)\<rparr> else c) ?rows =
      map (\<lambda>x. if ent_id x \<in> ent_id ` set (c # cs) then x\<lparr>co_isPrimary := (ent_id x = i)\<rparr> else x) rows"
    using key Cons.prems(2) by (auto simp: image_iff)
  ultimately show ?case using step by (simp add: seq_def bind_def)
qed

lemma set_primary_result:
  assumes "keyed (companies s)" and "find_scoped t i (companies s) = Some c" and "co_isActive c"
  shows "set_primary t i s = (Inr c, s\<lparr>companies := map (primary_row t i) (companies s)\<rparr>)"
proof -
  let ?all = "sort_key co_code (active_companies t (companies s))"
  have set_all: "set ?all = {x \<in> set (companies s). tenantId x = t \<and> co_isActive x}" by (auto simp: active_companies_def)
  have "distinct (map ent_id (active_companies t (companies s)))"
    using assms(1) by (simp add: active_companies_def keyed_def distinct_map_filter)
  then have "distinct (map ent_id ?all)" by (simp add: distinct_map)
  then have loop: "for_each (\<lambda>c. if co_isPrimary c \<noteq> (ent_id c = i)
      then modify (companies_update (save_row (c\<lparr>co_isPrimary := (ent_id c = i)\<rparr>))) else ret ()) ?all s =
    (Inr (), s\<lparr>companies := map (\<lambda>c. if ent_id c \<in> ent_id ` set ?all then c\<lparr>co_isPrimary := (ent_id c = i)\<rparr> else c) (companies s)\<rparr>)"
    using primary_loop [OF assms(1), of ?all i s] set_all by simp
  have "x = y" if "x \<in> set (companies s)" "y \<in> set (companies s)" "ent_id x = ent_id y" for x y
    using that assms(1) by (auto simp: keyed_def distinct_map dest: inj_onD)
  then have "map (\<lambda>c. if ent_id c \<in> ent_id ` set ?all then c\<lparr>co_isPrimary := (ent_id c = i)\<rparr> else c) (companies s) =
      map (primary_row t i) (companies s)"
    unfolding set_all primary_row_def by (auto simp: image_iff)
  then show ?thesis
    using loop assms(2,3) by (simp add: set_primary_def svc_defs list_companies_def)
qed

lemma set_primary_cases:
  "set_primary t i s = (r, s') \<Longrightarrow> keyed (companies s) \<Longrightarrow>
     s' = s \<or> s' = s\<lparr>companies := map (primary_row t i) (companies s)\<rparr>"
proof (cases "find_scoped t i (companies s)")
  case (Some c)
  assume "set_primary t i s = (r, s')" "keyed (companies s)"
  then show ?thesis using Some set_primary_result [of s t i c]
    by (cases "co_isActive c") (auto simp: set_primary_def svc_defs)
qed (auto simp: set_primary_def svc_defs)

lemma companies_ok_step: "company_step s s' \<Longrightarrow> companies_ok s \<Longrightarrow> companies_ok s'"
proof (induction rule: company_step.induct)
  case (create newId s t dto r s')
  show ?case
  proof (cases "find (\<lambda>c. tenantId c = t \<and> co_code c = coi_code dto) (companies s)")
    case None
    then have "s' = s\<lparr>companies := companies s @ [company_of newId t dto]\<rparr>"
      using create.hyps by (auto simp: create_company_def svc_defs company_of_def fresh_save_row)
    moreover have "ent_id c \<noteq> newId" if "c \<in> set (companies s)" for c
      using create.hyps(1) that by (auto simp: fresh_def)
    ultimately show ?thesis using create.prems None unfolding companies_ok_def find_None_iff
      by (auto simp: company_of_def keyed_def)
  qed (use create in \<open>auto simp: create_company_def svc_defs\<close>)
next
  case (primary t i s r s')
  have "keyed (companies s)" using primary.prems by (simp add: companies_ok_def)
  from set_primary_cases [OF primary.hyps this] show ?case
  proof
    assume s': "s' = s\<lparr>companies := map (primary_row t i) (companies s)\<rparr>"
    have ids: "ent_id (primary_row t i c) = ent_id c" "tenantId (primary_row t i c) = tenantId c"
      "co_code (primary_row t i c) = co_code c" "co_isActive (primary_row t i c) = co_isActive c" for c
      by (simp_all add: primary_row_def)
    have "keyed (map (primary_row t i) (companies s))"
      using \<open>keyed (companies s)\<close> by (simp add: keyed_def o_def ids)
    moreover have key: "c = d" if "c \<in> set (companies s)" "d \<in> set (companies s)" "ent_id c = ent_id d" for c d
      using that \<open>keyed (companies s)\<close> by (auto simp: keyed_def distinct_map dest: inj_onD)
    have "primary_row t i c = primary_row t i d"
      if "c \<in> set (companies s)" "d \<in> set (companies s)" "tenantId c = tenantId d"
        "co_isPrimary (primary_row t i c)" "co_isPrimary (primary_row t i d)" for c d
    proof (cases "tenantId c = t")
      case True
      then have "ent_id c = i" "ent_id d = i"
        using that primary.prems by (auto simp: primary_row_def companies_ok_def)
      then show ?thesis using key [of c d] that by simp
    next
      case False
      then show ?thesis using that primary.prems by (auto simp: primary_row_def companies_ok_def)
    qed
    ultimately show ?thesis using primary.prems unfolding companies_ok_def s'
      by (auto simp: ids)
  qed (use primary.prems in simp)
qed

lemma companies_ok_reachable: "company_step\<^sup>*\<^sup>* s s' \<Longrightarrow> companies_ok s \<Longrightarrow> companies_ok s'"
  by (induction rule: rtranclp_induct) (auto intro: companies_ok_step)

lemma filter_eq_single:
  "distinct xs \<Longrightarrow> x \<in> set xs \<Longrightarrow> P x \<Longrightarrow> (\<And>y. y \<in> set xs \<Longrightarrow> P y \<Longrightarrow> y = x) \<Longrightarrow> filter P xs = [x]"
proof -
  assume a: "distinct xs" "x \<in> set xs" "P x" "\<And>y. y \<in> set xs \<Longrightarrow> P y \<Longrightarrow> y = x"
  have single: "ys = [x]" if "distinct ys" "set ys = {x}" for ys :: "'a list"
  proof -
    have "length ys = 1" using that distinct_card [of ys] by simp
    then obtain y where "ys = [y]" by (auto simp: length_Suc_conv)
    with that(2) show ?thesis by simp
  qed
  have "set (filter P xs) = {x}" using a(2,3) by (auto dest: a(4))
  then show "filter P xs = [x]" using a(1) by (intro single) simp
qed

text \<open>
  In every state that requests reach from an empty table a tenant has at most one primary
  company and no code twice; and marking a company of the tenant as primary never fails there
  and leaves it as the tenant's only primary company.\<close>

theorem one_primary_company:
  assumes "company_step\<^sup>*\<^sup>* \<lparr>companies = []\<rparr> s" and "find_scoped t i (companies s) = Some c"
  shows "runs_ok (set_primary t i) s \<and>
    map ent_id (filter (\<lambda>d. tenantId d = t \<and> co_isPrimary d) (companies (after (set_primary t i) s))) = [i] \<and>
    length (filter (\<lambda>d. tenantId d = u \<and> co_isPrimary d) (companies s)) \<le> 1 \<and>
    distinct (map co_code (filter (\<lambda>d. tenantId d = u) (companies s)))"
proof -
  have ok: "companies_ok s" by (rule companies_ok_reachable [OF assms(1)]) (simp add: companies_ok_def keyed_def)
  then have keyed: "keyed (companies s)" and distinct: "distinct (companies s)"
    by (auto simp: companies_ok_def keyed_def distinct_map)
  have c: "c \<in> set (companies s)" "tenantId c = t" "ent_id c = i" using find_scoped_Some [OF assms(2)] by auto
  then have active: "co_isActive c" using ok by (simp add: companies_ok_def)
  have key: "d = c" if "d \<in> set (companies s)" "ent_id d = i" for d
    using that c keyed by (auto simp: keyed_def distinct_map dest: inj_onD)
  have "filter (\<lambda>d. tenantId d = t \<and> co_isPrimary d) (map (primary_row t i) (companies s)) =
      map (primary_row t i) (filter (\<lambda>d. ent_id d = i) (companies s))"
  proof -
    have "(tenantId (primary_row t i d) = t \<and> co_isPrimary (primary_row t i d)) = (ent_id d = i)"
      if "d \<in> set (companies s)" for d
    proof -
      have "co_isActive d" using ok that by (simp add: companies_ok_def)
      then show ?thesis using key [OF that] c by (cases "ent_id d = i") (simp_all add: primary_row_def)
    qed
    then show ?thesis by (simp add: filter_map o_def cong: filter_cong)
  qed
  moreover have "filter (\<lambda>d. ent_id d = i) (companies s) = [c]"
    using distinct c key by (intro filter_eq_single)
  ultimately have "map ent_id (filter (\<lambda>d. tenantId d = t \<and> co_isPrimary d) (map (primary_row t i) (companies s))) = [i]"
    using c by (simp add: primary_row_def)
  moreover have "card (set (filter (\<lambda>d. tenantId d = u \<and> co_isPrimary d) (companies s))) \<le> Suc 0"
    using ok by (subst card_le_Suc0_iff_eq) (auto simp: companies_ok_def)
  then have "length (filter (\<lambda>d. tenantId d = u \<and> co_isPrimary d) (companies s)) \<le> 1"
    using distinct by (metis One_nat_def distinct_card distinct_filter)
  moreover have "distinct (map co_code (filter (\<lambda>d. tenantId d = u) (companies s)))"
    using ok distinct by (auto simp: distinct_map companies_ok_def inj_on_def)
  ultimately show ?thesis
    using set_primary_result [OF keyed assms(2) active] by (simp add: runs_ok_def after_def)
qed

section \<open>Consolidation\<close>

lemma fold_sales:
  "foldl (add_sales cs) ls is =
     map (\<lambda>l. l\<lparr>cl_salesCents := foldl (\<lambda>s i. js_add s (sales_cents i)) (cl_salesCents l)
       (filter (\<lambda>i. map_option ent_id (invoice_company cs i) = Some (cl_companyId l)) is)\<rparr>) ls"
proof (induction "is" arbitrary: ls)
  case (Cons i is')
  show ?case unfolding foldl_Cons Cons
    by (cases "invoice_company cs i") (auto simp: add_sales_def)
qed simp

lemma fold_purchases:
  "foldl (add_purchase cs) ls is =
     map (\<lambda>l. l\<lparr>cl_purchasesCents := foldl (\<lambda>s i. js_add s (si_totalCents i)) (cl_purchasesCents l)
       (filter (\<lambda>i. map_option ent_id (primary_company cs) = Some (cl_companyId l)) is)\<rparr>) ls"
proof (induction "is" arbitrary: ls)
  case (Cons i is')
  show ?case unfolding foldl_Cons Cons
    by (cases "primary_company cs") (auto simp: add_purchase_def)
qed simp

text \<open>Documents distributed over distinct keys, one key each, keep their sum.\<close>

lemma sum_one_key:
  "distinct ks \<Longrightarrow> x \<in> set ks \<Longrightarrow> (\<Sum>k\<leftarrow>ks. if x = k then v else 0) = (v :: rat)"
proof (induction ks)
  case (Cons k ks)
  have "x \<notin> set ks \<Longrightarrow> (\<Sum>k\<leftarrow>ks. if x = k then v else 0) = 0" by (induction ks) auto
  with Cons show ?case by auto
qed simp

lemma sum_distributed:
  assumes "distinct ks" and "\<And>i. i \<in> set xs \<Longrightarrow> a i \<in> set ks"
  shows "(\<Sum>k\<leftarrow>ks. \<Sum>i\<leftarrow>filter (\<lambda>i. a i = k) xs. f i) = (\<Sum>i\<leftarrow>xs. (f i :: rat))"
  using assms(2)
proof (induction xs)
  case (Cons x xs)
  have "(\<Sum>k\<leftarrow>ks. \<Sum>i\<leftarrow>filter (\<lambda>i. a i = k) (x # xs). f i) =
      (\<Sum>k\<leftarrow>ks. (if a x = k then f x else 0) + (\<Sum>i\<leftarrow>filter (\<lambda>i. a i = k) xs. f i))"
    by (rule arg_cong [of _ _ sum_list], rule map_cong) auto
  also have "\<dots> = f x + (\<Sum>i\<leftarrow>xs. f i)"
    using Cons by (simp add: sum_list_addf sum_one_key assms(1))
  finally show ?case by simp
qed simp

lemma abs_sum_le: "\<bar>\<Sum>i\<leftarrow>xs. f i\<bar> \<le> (\<Sum>i\<leftarrow>xs. \<bar>f i :: rat\<bar>)"
  by (induction xs) (auto intro: order_trans [OF abs_triangle_ineq])

lemma sum_filter_le: "(\<Sum>i\<leftarrow>filter P xs. \<bar>f i :: rat\<bar>) \<le> (\<Sum>i\<leftarrow>xs. \<bar>f i\<bar>)"
  by (induction xs) auto

lemma sum_Ints: "(\<And>i. i \<in> set xs \<Longrightarrow> f i \<in> \<int>) \<Longrightarrow> (\<Sum>i\<leftarrow>xs. f i :: rat) \<in> \<int>"
  by (induction xs) auto

lemma totals_of_lines:
  assumes "distinct ks" and "\<And>i. i \<in> set xs \<Longrightarrow> a i \<in> set ks"
    and "\<And>i. i \<in> set xs \<Longrightarrow> f i \<in> \<int>" and "(\<Sum>i\<leftarrow>xs. \<bar>f i\<bar>) \<le> 2 ^ 53"
  shows "js_sum (\<lambda>k. js_sum f (filter (\<lambda>i. a i = k) xs)) ks = (\<Sum>i\<leftarrow>xs. f i)"
    and "(\<Sum>k\<leftarrow>ks. js_sum f (filter (\<lambda>i. a i = k) xs)) = (\<Sum>i\<leftarrow>xs. f i)"
proof -
  have line: "js_sum f (filter (\<lambda>i. a i = k) xs) = (\<Sum>i\<leftarrow>filter (\<lambda>i. a i = k) xs. f i)" for k
    using assms(3) order_trans [OF sum_filter_le assms(4)] by (intro js_sum_exact) auto
  have total: "(\<Sum>k\<leftarrow>ks. \<Sum>i\<leftarrow>filter (\<lambda>i. a i = k) xs. f i) = (\<Sum>i\<leftarrow>xs. f i)"
    by (rule sum_distributed [OF assms(1,2)])
  have "(\<Sum>k\<leftarrow>ks. \<bar>\<Sum>i\<leftarrow>filter (\<lambda>i. a i = k) xs. f i\<bar>) \<le> (\<Sum>k\<leftarrow>ks. \<Sum>i\<leftarrow>filter (\<lambda>i. a i = k) xs. \<bar>f i\<bar>)"
    by (intro sum_list_mono abs_sum_le)
  also have "\<dots> = (\<Sum>i\<leftarrow>xs. \<bar>f i\<bar>)" by (rule sum_distributed [OF assms(1,2)])
  finally have "(\<Sum>k\<leftarrow>ks. \<bar>\<Sum>i\<leftarrow>filter (\<lambda>i. a i = k) xs. f i\<bar>) \<le> 2 ^ 53" using assms(4) by simp
  then have "js_sum (\<lambda>k. \<Sum>i\<leftarrow>filter (\<lambda>i. a i = k) xs. f i) ks = (\<Sum>k\<leftarrow>ks. \<Sum>i\<leftarrow>filter (\<lambda>i. a i = k) xs. f i)"
    using assms(3) by (intro js_sum_exact) (auto intro: sum_Ints)
  then show "js_sum (\<lambda>k. js_sum f (filter (\<lambda>i. a i = k) xs)) ks = (\<Sum>i\<leftarrow>xs. f i)"
    "(\<Sum>k\<leftarrow>ks. js_sum f (filter (\<lambda>i. a i = k) xs)) = (\<Sum>i\<leftarrow>xs. f i)"
    by (simp_all add: line total)
qed

lemma primary_exists: "cs \<noteq> [] \<Longrightarrow> \<exists>c\<in>set cs. primary_company cs = Some c"
  by (cases "find co_isPrimary cs"; cases cs)
    (auto simp: primary_company_def or_else_def find_Some_iff find_None_iff split: if_splits)

lemma invoice_company_exists: "cs \<noteq> [] \<Longrightarrow> \<exists>c\<in>set cs. invoice_company cs i = Some c"
  using primary_exists [of cs]
  by (auto simp: invoice_company_def or_else_def find_Some_iff split: option.split)

lemma js_sum_map: "js_sum g (map h xs) = js_sum (\<lambda>x. g (h x)) xs"
  by (simp add: js_sum_def foldl_map)

lemma sum_sort_key: "(\<Sum>x\<leftarrow>sort_key g xs. f x) = (\<Sum>x\<leftarrow>xs. (f x :: rat))"
  by (metis mset_map mset_sort sum_mset_sum_list)

text \<open>The line of a company.\<close>

definition line_of :: "company list \<Rightarrow> invoice list \<Rightarrow> supplier_invoice list \<Rightarrow> company \<Rightarrow> consolidation_line" where
  "line_of cs invs sis c =
     (let sales = js_sum sales_cents (filter (\<lambda>i. map_option ent_id (invoice_company cs i) = Some (ent_id c)) invs);
          purchases = js_sum si_totalCents (filter (\<lambda>i. map_option ent_id (primary_company cs) = Some (ent_id c)) sis)
      in \<lparr>cl_companyId = ent_id c, cl_companyCode = co_code c, cl_companyName = co_name c, cl_salesCents = sales,
          cl_purchasesCents = purchases, cl_netCents = js_sub sales purchases\<rparr>)"

lemma consolidate_lines:
  fixes t y rows invs sis
  defines "cs \<equiv> active_companies t rows"
  defines "ls \<equiv> map (line_of cs (year_invoices t y invs) (year_supplier_invoices t y sis)) cs"
  shows "cr_perCompany (consolidate now t y rows invs sis) = sort_key cl_companyCode ls"
    and "cr_salesCents (consolidate now t y rows invs sis) = js_sum cl_salesCents ls"
    and "cr_purchasesCents (consolidate now t y rows invs sis) = js_sum cl_purchasesCents ls"
proof -
  have "map (\<lambda>l. l\<lparr>cl_netCents := js_sub (cl_salesCents l) (cl_purchasesCents l)\<rparr>)
      (foldl (add_purchase cs) (foldl (add_sales cs) (map empty_line cs) (year_invoices t y invs))
        (year_supplier_invoices t y sis)) = ls"
    unfolding fold_sales fold_purchases ls_def map_map by (intro map_cong) (simp_all add: line_of_def empty_line_def js_sum_def Let_def)
  then show "cr_perCompany (consolidate now t y rows invs sis) = sort_key cl_companyCode ls"
    and "cr_salesCents (consolidate now t y rows invs sis) = js_sum cl_salesCents ls"
    and "cr_purchasesCents (consolidate now t y rows invs sis) = js_sum cl_purchasesCents ls"
    by (simp_all add: consolidate_def Let_def cs_def)
qed

text \<open>
  A consolidation loses no document and counts none twice: when the tenant has an active
  company, the totals are the exact sums over all its invoices and supplier invoices of the year,
  and the lines of the companies add up to them.\<close>

theorem consolidation_counts_each_document_once:
  assumes "keyed rows" and "active_companies t rows \<noteq> []"
    and "(\<Sum>i\<leftarrow>year_invoices t y invs. \<bar>sales_cents i\<bar>) \<le> 2 ^ 53"
    and "(\<Sum>i\<leftarrow>year_supplier_invoices t y sis. \<bar>si_totalCents i\<bar>) \<le> 2 ^ 53"
    and "list_all (\<lambda>i. si_totalCents i \<in> \<int>) (year_supplier_invoices t y sis)"
  shows "let r = consolidate now t y rows invs sis in
    cr_salesCents r = (\<Sum>i\<leftarrow>year_invoices t y invs. sales_cents i) \<and>
    cr_purchasesCents r = (\<Sum>i\<leftarrow>year_supplier_invoices t y sis. si_totalCents i) \<and>
    (\<Sum>l\<leftarrow>cr_perCompany r. cl_salesCents l) = cr_salesCents r \<and>
    (\<Sum>l\<leftarrow>cr_perCompany r. cl_purchasesCents l) = cr_purchasesCents r"
proof -
  let ?cs = "active_companies t rows"
  let ?a = "\<lambda>i. ent_id (the (invoice_company ?cs i))" and ?p = "\<lambda>i :: supplier_invoice. ent_id (the (primary_company ?cs))"
  have ids: "distinct (map ent_id ?cs)" using assms(1) by (simp add: keyed_def active_companies_def distinct_map_filter)
  have a: "map_option ent_id (invoice_company ?cs i) = Some k \<longleftrightarrow> ?a i = k" "?a i \<in> set (map ent_id ?cs)" for i k
    using invoice_company_exists [OF assms(2), of i] by auto
  have p: "map_option ent_id (primary_company ?cs) = Some k \<longleftrightarrow> ?p i = k" "?p i \<in> set (map ent_id ?cs)" for i k
    using primary_exists [OF assms(2)] by auto
  have ints: "sales_cents i \<in> \<int>" for i by (simp add: sales_cents_def)
  have whole: "si_totalCents i \<in> \<int>" if "i \<in> set (year_supplier_invoices t y sis)" for i using assms(5) that by (simp add: list_all_iff)
  note sales = totals_of_lines [of "map ent_id ?cs" "year_invoices t y invs" ?a sales_cents, OF ids a(2) ints assms(3)]
  note purchases = totals_of_lines [of "map ent_id ?cs" "year_supplier_invoices t y sis" ?p si_totalCents, OF ids p(2) whole assms(4)]
  show ?thesis
    using sales purchases
    unfolding Let_def consolidate_lines sum_sort_key js_sum_map map_map line_of_def a(1) p(1)
    by (simp add: js_sum_map o_def)
qed

text \<open>Examples: one company that becomes the primary one, and an invoice of its year.\<close>

definition example_company :: company_input where
  "example_company = \<lparr>coi_code = ''A'', coi_name = ''Alfa'', coi_vatNumber = Some ''1'', coi_fiscalCode = None,
     coi_sdiDestinationCode = None, coi_pecEmail = None, coi_address = None\<rparr>"

lemma example_created:
  "create_company ''c'' ''t'' example_company \<lparr>companies = []\<rparr> =
     (Inr (company_of ''c'' ''t'' example_company), \<lparr>companies = [company_of ''c'' ''t'' example_company]\<rparr>)"
  by (simp add: create_company_def svc_defs save_row_def)

theorem one_primary_company_witness:
  "runs_ok (set_primary ''t'' ''c'') \<lparr>companies = [company_of ''c'' ''t'' example_company]\<rparr>"
proof -
  have "company_step\<^sup>*\<^sup>* \<lparr>companies = []\<rparr> \<lparr>companies = [company_of ''c'' ''t'' example_company]\<rparr>"
    by (rule r_into_rtranclp, rule company_step.create [OF _ example_created]) (simp add: fresh_def)
  moreover have "find_scoped ''t'' ''c'' [company_of ''c'' ''t'' example_company] = Some (company_of ''c'' ''t'' example_company)"
    by (simp add: find_scoped_def company_of_def)
  ultimately show ?thesis using one_primary_company by fastforce
qed

theorem consolidation_counts_each_document_once_witness:
  "cr_salesCents (consolidate 0 ''t'' 2026 [company_of ''c'' ''t'' example_company] [] []) = 0"
  using consolidation_counts_each_document_once
    [of "[company_of ''c'' ''t'' example_company]" "''t''" 2026 "[]" "[]" 0]
  by (simp add: keyed_def active_companies_def company_of_def year_invoices_def year_supplier_invoices_def Let_def)

end
