(* ===== verification/Planning.thy ===== *)
theory Planning
  imports Inventory JsDate "HOL-Library.List_Lexorder" "HOL-Library.Char_ord"
begin

text \<open>
  Planning aids: the greedy scheduler (\<^verbatim>\<open>scheduling/scheduling.service.ts\<close>), the demand
  forecast (\<^verbatim>\<open>forecasting/forecasting.service.ts\<close>), the detector of outliers
  (\<^verbatim>\<open>anomaly/anomaly.service.ts\<close>), the compliance rules
  (\<^verbatim>\<open>anomaly/compliance-reasoner.service.ts\<close>) and the emission figures
  (\<^verbatim>\<open>esg/esg.service.ts\<close>). Due dates are days in the form of ISO; the square root is the
  platform's, and a value that is no finite number is \<open>None\<close>.
\<close>

section \<open>Scheduling\<close>

record scheduling_job =
  sj_id :: string
  sj_productId :: uuid
  sj_quantity :: jsnum
  sj_dueDate :: string
  sj_estimatedMinutes :: jsnum
  sj_priority :: "jsnum option"

record scheduling_resource =
  sr_id :: string
  sr_dailyCapacityMinutes :: jsnum
  sr_capabilities :: "string list"

record scheduled_assignment =
  sa_jobId :: string
  sa_resourceId :: string
  sa_startMinutes :: jsnum
  sa_endMinutes :: jsnum

record scheduling_result =
  sh_assignments :: "scheduled_assignment list"
  sh_unassigned :: "string list"
  sh_method :: string
  sh_computedAt :: string

text \<open>The cursor of each resource; assigning a job moves it.\<close>

type_synonym cursor = "string \<Rightarrow> jsnum"

definition job_key :: "scheduling_job \<Rightarrow> jsnum" where
  "job_key j = nullish (sj_priority j) (of_int (midnight_utc (sj_dueDate j)))"

definition schedule_job ::
  "scheduling_resource list \<Rightarrow> scheduling_job \<Rightarrow> cursor \<times> scheduled_assignment list \<times> string list \<Rightarrow>
     cursor \<times> scheduled_assignment list \<times> string list" where
  "schedule_job rs j = (\<lambda>(cursor, done, left).
     (case find (\<lambda>r. js_add (cursor (sr_id r)) (sj_estimatedMinutes j) \<le> sr_dailyCapacityMinutes r) rs of
        None \<Rightarrow> (cursor, done, left @ [sj_id j])
      | Some r \<Rightarrow>
          (let begins = cursor (sr_id r); ends = js_add begins (sj_estimatedMinutes j)
           in (cursor(sr_id r := ends),
               done @ [\<lparr>sa_jobId = sj_id j, sa_resourceId = sr_id r, sa_startMinutes = begins, sa_endMinutes = ends\<rparr>],
               left))))"

definition schedule :: "int \<Rightarrow> scheduling_job list \<Rightarrow> scheduling_resource list \<Rightarrow> scheduling_result" where
  "schedule now jobs rs =
     (case fold (schedule_job rs) (sort_key job_key jobs) (\<lambda>_. 0, [], []) of
        (cursor, done, left) \<Rightarrow>
          \<lparr>sh_assignments = done, sh_unassigned = left, sh_method = ''greedy_v1'', sh_computedAt = iso_time now\<rparr>)"

section \<open>Demand forecast\<close>

record forecast_result =
  fr_productId :: uuid
  fr_sku :: string
  fr_horizonDays :: jsnum
  fr_predictedDemandUnits :: int
  fr_reorderSuggestionUnits :: int
  fr_confidence :: string
  fr_method :: string

definition predicted_demand :: "jsnum \<Rightarrow> jsnum \<Rightarrow> int" where
  "predicted_demand onHand horizon =
     (let monthlyVelocity = max 1 (math_round (js_div onHand 4))
      in math_round (js_mul (js_div (of_int monthlyVelocity) 30) horizon))"

definition units_on_hand :: "uuid \<Rightarrow> stock_level list \<Rightarrow> uuid \<Rightarrow> jsnum" where
  "units_on_hand t levels productId =
     (case find (\<lambda>l. tenantId l = t \<and> sl_productId l = productId) levels of None \<Rightarrow> 0 | Some l \<Rightarrow> sl_onHand l)"

definition forecast_sku ::
  "uuid \<Rightarrow> product list \<Rightarrow> stock_level list \<Rightarrow> uuid \<Rightarrow> jsnum option \<Rightarrow> forecast_result" where
  "forecast_sku t productRows levels productId horizonDays =
     (let horizon = nullish horizonDays 30;
          product = find_scoped t productId productRows;
          sku = (case product of None \<Rightarrow> productId | Some p \<Rightarrow> pd_sku p);
          onHand = units_on_hand t levels productId;
          predicted = predicted_demand onHand horizon
      in \<lparr>fr_productId = productId, fr_sku = sku, fr_horizonDays = horizon, fr_predictedDemandUnits = predicted,
          fr_reorderSuggestionUnits = max 0 (predicted - math_floor onHand),
          fr_confidence = ''low'', fr_method = ''moving_average_v1''\<rparr>)"

definition list_reorder_suggestions ::
  "uuid \<Rightarrow> product list \<Rightarrow> stock_level list \<Rightarrow> int option \<Rightarrow> forecast_result list" where
  "list_reorder_suggestions t productRows levels threshold =
     sort_key (\<lambda>f. - fr_reorderSuggestionUnits f)
       (filter (\<lambda>f. fr_reorderSuggestionUnits f > nullish threshold 0)
         (map (\<lambda>p. forecast_sku t productRows levels (ent_id p) (Some 30))
           (take 200 (filter (\<lambda>p. tenantId p = t) productRows))))"

section \<open>Outliers\<close>

record read_model_row = entity +
  rm_projectionId :: string
  rm_key :: string
  rm_payload :: "string \<Rightarrow> jsnum option option"

datatype severity = SevLow | SevMedium | SevHigh

record anomaly_finding =
  af_projectionId :: string
  af_key :: string
  af_field :: string
  af_value :: jsnum
  af_mean :: jsnum
  af_stdev :: jsnum
  af_zScore :: jsnum
  af_severity :: severity

text \<open>An absent field counts as zero.\<close>

definition field_value :: "string \<Rightarrow> read_model_row \<Rightarrow> jsnum option" where
  "field_value field r = nullish (rm_payload r field) (Some 0)"

definition finding_of :: "string \<Rightarrow> string \<Rightarrow> jsnum \<Rightarrow> jsnum \<Rightarrow> jsnum \<Rightarrow> read_model_row \<Rightarrow> anomaly_finding option" where
  "finding_of projectionId field threshold mean stdev r =
     (case field_value field r of
        None \<Rightarrow> None
      | Some v \<Rightarrow>
          (let z = js_div (js_sub v mean) stdev in
           if \<bar>z\<bar> \<ge> threshold
           then Some \<lparr>af_projectionId = projectionId, af_key = rm_key r, af_field = field, af_value = v, af_mean = mean,
             af_stdev = stdev, af_zScore = z,
             af_severity = (if \<bar>z\<bar> \<ge> 3 then SevHigh else if \<bar>z\<bar> \<ge> 2 then SevMedium else SevLow)\<rparr>
           else None))"

definition detect ::
  "(jsnum \<Rightarrow> jsnum) \<Rightarrow> uuid \<Rightarrow> string \<Rightarrow> string \<Rightarrow> jsnum option \<Rightarrow> read_model_row list \<Rightarrow> anomaly_finding list" where
  "detect math_sqrt t projectionId field threshold table =
     (let rows = filter (\<lambda>r. tenantId r = t \<and> rm_projectionId r = projectionId) table;
          values = List.map_filter (field_value field) rows
      in if length values < 3 then []
         else
          (let n = of_nat (length values);
               mean = js_div (js_sum id values) n;
               variance = js_div (js_sum (\<lambda>b. js_mul (js_sub b mean) (js_sub b mean)) values) n;
               sd = math_sqrt variance; stdev = (if sd = 0 then 1 else sd)
           in sort_key (\<lambda>f. - \<bar>af_zScore f\<bar>)
                (List.map_filter (finding_of projectionId field (nullish threshold 2) mean stdev) rows)))"

section \<open>Compliance rules\<close>

datatype finding_severity = FindingInfo | FindingWarning | FindingCritical

record compliance_finding =
  cf_ruleId :: string
  cf_severity :: finding_severity

record reasoner_input =
  ri_invoicesLast30Days :: jsnum
  ri_supplierInvoicesLast30Days :: jsnum
  ri_intrastatDeclarationsLast90Days :: jsnum
  ri_conservazioneVersamentiLast30Days :: jsnum
  ri_ssoConfigured :: bool
  ri_breakGlassEmailRotatedDaysAgo :: "jsnum option"

definition reason :: "reasoner_input \<Rightarrow> compliance_finding list" where
  "reason input =
     (if ri_invoicesLast30Days input > 0 \<and> ri_conservazioneVersamentiLast30Days input < ri_invoicesLast30Days input
      then [\<lparr>cf_ruleId = ''conservazione.coverage_below_invoices'', cf_severity = FindingCritical\<rparr>] else []) @
     (if ri_supplierInvoicesLast30Days input > 30 \<and> \<not> ri_ssoConfigured input
      then [\<lparr>cf_ruleId = ''sso.recommended_for_active_tenants'', cf_severity = FindingWarning\<rparr>] else []) @
     (case ri_breakGlassEmailRotatedDaysAgo input of
        None \<Rightarrow> []
      | Some d \<Rightarrow> if d > 30 then [\<lparr>cf_ruleId = ''breakglass.rotation_overdue'', cf_severity = FindingWarning\<rparr>] else []) @
     (if ri_intrastatDeclarationsLast90Days input = 0 \<and> ri_invoicesLast30Days input > 0
      then [\<lparr>cf_ruleId = ''intrastat.no_declarations_filed'', cf_severity = FindingInfo\<rparr>] else [])"

section \<open>Emissions\<close>

record esg_inputs =
  es_kwhElectricity :: jsnum
  es_kwhRenewableSelfProduced :: jsnum
  es_litresDieselFleet :: jsnum
  es_litresGasolineFleet :: jsnum
  es_m3NaturalGas :: jsnum

record esg_report =
  eg_tenantId :: uuid
  eg_tenantName :: string
  eg_reportingYear :: int
  eg_scope1KgCo2e :: int
  eg_scope2KgCo2e :: int
  eg_totalKgCo2e :: int

definition FACTOR_ELECTRICITY :: jsnum where "FACTOR_ELECTRICITY = fl (275 / 1000)"
definition FACTOR_DIESEL :: jsnum where "FACTOR_DIESEL = fl (268 / 100)"
definition FACTOR_GASOLINE :: jsnum where "FACTOR_GASOLINE = fl (231 / 100)"
definition FACTOR_NATURAL_GAS :: jsnum where "FACTOR_NATURAL_GAS = fl (196 / 100)"

definition compute_report :: "uuid \<Rightarrow> string \<Rightarrow> int \<Rightarrow> esg_inputs \<Rightarrow> esg_report" where
  "compute_report t name year inputs =
     (let scope2 = js_mul (max 0 (js_sub (es_kwhElectricity inputs) (es_kwhRenewableSelfProduced inputs))) FACTOR_ELECTRICITY;
          scope1 = js_add (js_add (js_mul (es_litresDieselFleet inputs) FACTOR_DIESEL)
            (js_mul (es_litresGasolineFleet inputs) FACTOR_GASOLINE)) (js_mul (es_m3NaturalGas inputs) FACTOR_NATURAL_GAS)
      in \<lparr>eg_tenantId = t, eg_tenantName = name, eg_reportingYear = year, eg_scope1KgCo2e = math_round scope1,
          eg_scope2KgCo2e = math_round scope2, eg_totalKgCo2e = math_round (js_add scope1 scope2)\<rparr>)"

end
