(* ===== verification/PlanningProps.thy ===== *)
theory PlanningProps
  imports Planning Cents "HOL-Library.Multiset"
begin

text \<open>
  Correctness of the planning aids: a schedule is feasible and leaves no job out that would still
  fit, and what the demand forecast suggests to order.
\<close>

declare split_paired_All [simp del]

section \<open>Schedules\<close>

text \<open>How far a resource is occupied by a list of assignments.\<close>

definition occupied :: "scheduled_assignment list \<Rightarrow> string \<Rightarrow> jsnum" where
  "occupied as r = foldl (\<lambda>m a. if sa_resourceId a = r then sa_endMinutes a else m) 0 as"

lemma occupied_snoc: "occupied (as @ [a]) r = (if sa_resourceId a = r then sa_endMinutes a else occupied as r)"
  by (simp add: occupied_def)

lemma occupied_Nil [simp]: "occupied [] r = 0"
  by (simp add: occupied_def)

text \<open>
  What the loop keeps: cursors agree with the assignments, which are on known resources within
  their capacity and one after the other; every job passed is in one of the two lists; and a job
  that was left out fits nowhere.
\<close>

definition schedule_ok ::
  "scheduling_resource list \<Rightarrow> scheduling_job list \<Rightarrow> cursor \<times> scheduled_assignment list \<times> string list \<Rightarrow> bool" where
  "schedule_ok rs js = (\<lambda>(cursor, as, left).
     (\<forall>r. cursor r = occupied as r \<and> 0 \<le> cursor r \<and> fl (cursor r) = cursor r) \<and>
     (\<forall>a\<in>set as. 0 \<le> sa_startMinutes a \<and> sa_startMinutes a \<le> sa_endMinutes a \<and> sa_endMinutes a \<le> cursor (sa_resourceId a) \<and>
        (\<exists>r\<in>set rs. sr_id r = sa_resourceId a \<and> sa_endMinutes a \<le> sr_dailyCapacityMinutes r)) \<and>
     sorted_wrt (\<lambda>a b. sa_resourceId a = sa_resourceId b \<longrightarrow> sa_endMinutes a \<le> sa_startMinutes b) as \<and>
     mset (map sj_id js) = mset (map sa_jobId as) + mset left \<and>
     (\<forall>i\<in>set left. \<exists>j\<in>set js. sj_id j = i \<and>
        (\<forall>r\<in>set rs. \<not> js_add (cursor (sr_id r)) (sj_estimatedMinutes j) \<le> sr_dailyCapacityMinutes r)))"

lemma schedule_ok_step:
  assumes ok: "schedule_ok rs js st" and nonneg: "0 \<le> sj_estimatedMinutes j"
  shows "schedule_ok rs (js @ [j]) (schedule_job rs j st)"
proof -
  obtain cursor as left where st: "st = (cursor, as, left)" by (metis prod_cases3)
  show ?thesis
  proof (cases "find (\<lambda>r. js_add (cursor (sr_id r)) (sj_estimatedMinutes j) \<le> sr_dailyCapacityMinutes r) rs")
    case None
    then have "\<forall>r\<in>set rs. \<not> js_add (cursor (sr_id r)) (sj_estimatedMinutes j) \<le> sr_dailyCapacityMinutes r"
      by (auto simp: find_None_iff)
    moreover have st': "schedule_job rs j st = (cursor, as, left @ [sj_id j])" using None by (simp add: st schedule_job_def)
    moreover have "mset (map sj_id (js @ [j])) = mset (map sa_jobId as) + mset (left @ [sj_id j])"
      using ok by (simp add: st schedule_ok_def)
    ultimately show ?thesis using ok unfolding st' unfolding st schedule_ok_def prod.case set_append list.set
      by (elim conjE) (intro conjI; (assumption | blast))
  next
    case (Some r)
    then have r: "r \<in> set rs" "js_add (cursor (sr_id r)) (sj_estimatedMinutes j) \<le> sr_dailyCapacityMinutes r"
      by (auto simp: find_Some_iff)
    let ?begins = "cursor (sr_id r)" and ?ends = "js_add (cursor (sr_id r)) (sj_estimatedMinutes j)"
    let ?a = "\<lparr>sa_jobId = sj_id j, sa_resourceId = sr_id r, sa_startMinutes = ?begins, sa_endMinutes = ?ends\<rparr>"
    have cursor: "cursor x = occupied as x" "0 \<le> cursor x" "fl (cursor x) = cursor x" for x
      using ok unfolding st schedule_ok_def prod.case by blast+
    have up: "?begins \<le> ?ends"
      using fl_mono [of ?begins "?begins + sj_estimatedMinutes j"] nonneg by (simp add: js_add_def cursor(3))
    have ends: "fl ?ends = ?ends" by (simp add: js_add_def)
    have grow: "cursor x \<le> (cursor(sr_id r := ?ends)) x" for x using up by simp
    have later: "js_add (cursor x) m \<le> js_add ((cursor(sr_id r := ?ends)) x) m" for x m
      unfolding js_add_def by (intro fl_mono add_right_mono) (use grow [of x] in \<open>simp add: js_add_def\<close>)
    have st': "schedule_job rs j st = (cursor(sr_id r := ?ends), as @ [?a], left)"
      using Some by (simp add: st schedule_job_def Let_def)
    have as: "0 \<le> sa_startMinutes a \<and> sa_startMinutes a \<le> sa_endMinutes a \<and> sa_endMinutes a \<le> cursor (sa_resourceId a) \<and>
        (\<exists>r\<in>set rs. sr_id r = sa_resourceId a \<and> sa_endMinutes a \<le> sr_dailyCapacityMinutes r)" if "a \<in> set as" for a
      using ok that by (auto simp: st schedule_ok_def)
    have "sorted_wrt (\<lambda>a b. sa_resourceId a = sa_resourceId b \<longrightarrow> sa_endMinutes a \<le> sa_startMinutes b) as"
      using ok unfolding st schedule_ok_def prod.case by blast
    moreover have "sa_resourceId a = sr_id r \<longrightarrow> sa_endMinutes a \<le> ?begins" if "a \<in> set as" for a
      using as [OF that] by auto
    ultimately have "sorted_wrt (\<lambda>a b. sa_resourceId a = sa_resourceId b \<longrightarrow> sa_endMinutes a \<le> sa_startMinutes b) (as @ [?a])"
      by (simp add: sorted_wrt_append)
    moreover have "0 \<le> sa_startMinutes a \<and> sa_startMinutes a \<le> sa_endMinutes a \<and>
        sa_endMinutes a \<le> (cursor(sr_id r := ?ends)) (sa_resourceId a) \<and>
        (\<exists>r\<in>set rs. sr_id r = sa_resourceId a \<and> sa_endMinutes a \<le> sr_dailyCapacityMinutes r)" if "a \<in> set (as @ [?a])" for a
    proof (cases "a = ?a")
      case True
      then show ?thesis using up cursor(2) r by auto
    next
      case False
      then have "a \<in> set as" using that by auto
      from as [OF this] show ?thesis using grow [of "sa_resourceId a"] by (meson order_trans)
    qed
    moreover have "\<forall>i\<in>set left. \<exists>j'\<in>set (js @ [j]). sj_id j' = i \<and>
        (\<forall>r'\<in>set rs. \<not> js_add ((cursor(sr_id r := ?ends)) (sr_id r')) (sj_estimatedMinutes j') \<le> sr_dailyCapacityMinutes r')"
    proof
      fix i assume "i \<in> set left"
      then obtain j' where j': "j' \<in> set js" "sj_id j' = i"
        "\<forall>r'\<in>set rs. \<not> js_add (cursor (sr_id r')) (sj_estimatedMinutes j') \<le> sr_dailyCapacityMinutes r'"
        using ok by (auto simp: st schedule_ok_def)
      then show "\<exists>j'\<in>set (js @ [j]). sj_id j' = i \<and>
        (\<forall>r'\<in>set rs. \<not> js_add ((cursor(sr_id r := ?ends)) (sr_id r')) (sj_estimatedMinutes j') \<le> sr_dailyCapacityMinutes r')"
        using order_trans [OF later] by (intro bexI [of _ j'] conjI ballI) (simp_all del: fun_upd_apply, blast)
    qed
    moreover have "mset (map sj_id (js @ [j])) = mset (map sa_jobId (as @ [?a])) + mset left"
      using ok by (simp add: st schedule_ok_def)
    moreover have "\<forall>x. (cursor(sr_id r := ?ends)) x = occupied (as @ [?a]) x \<and> 0 \<le> (cursor(sr_id r := ?ends)) x \<and>
        fl ((cursor(sr_id r := ?ends)) x) = (cursor(sr_id r := ?ends)) x"
      using cursor up ends order_trans [OF cursor(2) up] by (auto simp: occupied_snoc)
    ultimately show ?thesis unfolding st' schedule_ok_def prod.case by blast
  qed
qed

lemma schedule_ok_fold:
  "schedule_ok rs done st \<Longrightarrow> list_all (\<lambda>j. 0 \<le> sj_estimatedMinutes j) js \<Longrightarrow>
     schedule_ok rs (done @ js) (fold (schedule_job rs) js st)"
proof (induction js arbitrary: "done" st)
  case (Cons j js)
  then have "schedule_ok rs (done @ [j]) (schedule_job rs j st)" by (intro schedule_ok_step) auto
  from Cons.IH [OF this] show ?case using Cons.prems by simp
qed simp

text \<open>
  C29. A schedule is feasible and the greedy choice is exhausted. For durations that are not
  negative every job is either assigned once or reported as left out, the assignments of a
  resource follow one another without overlap and end within its capacity, and no job that was
  left out would still fit into a resource behind its last assignment.\<close>

theorem schedule_feasible_and_exhausted:
  assumes "list_all (\<lambda>j. 0 \<le> sj_estimatedMinutes j) jobs"
  shows "let r = schedule now jobs rs; as = sh_assignments r in
    mset (map sj_id jobs) = mset (map sa_jobId as) + mset (sh_unassigned r) \<and>
    sorted_wrt (\<lambda>a b. sa_resourceId a \<noteq> sa_resourceId b \<or> sa_endMinutes a \<le> sa_startMinutes b) as \<and>
    list_all (\<lambda>a. 0 \<le> sa_startMinutes a \<and> sa_startMinutes a \<le> sa_endMinutes a \<and>
      list_ex (\<lambda>r. sr_id r = sa_resourceId a \<and> sa_endMinutes a \<le> sr_dailyCapacityMinutes r) rs) as \<and>
    list_all (\<lambda>i. list_ex (\<lambda>j. sj_id j = i \<and>
      list_all (\<lambda>r. js_add (occupied as (sr_id r)) (sj_estimatedMinutes j) > sr_dailyCapacityMinutes r) rs) jobs) (sh_unassigned r)"
proof -
  obtain cursor as left where run: "fold (schedule_job rs) (sort_key job_key jobs) (\<lambda>_. 0, [], []) = (cursor, as, left)"
    by (metis prod_cases3)
  have "schedule_ok rs [] (\<lambda>_. 0, [], [])" by (simp add: schedule_ok_def)
  then have "schedule_ok rs ([] @ sort_key job_key jobs) (cursor, as, left)"
    unfolding run [symmetric] by (rule schedule_ok_fold) (use assms in \<open>simp add: list_all_iff\<close>)
  moreover have "mset (map sj_id (sort_key job_key jobs)) = mset (map sj_id jobs)" by simp
  ultimately show ?thesis
    unfolding Let_def schedule_def run
    by (auto simp: schedule_ok_def list_all_iff list_ex_iff not_le elim!: sorted_wrt_mono_rel [rotated])
qed

definition example_job :: "string \<Rightarrow> jsnum \<Rightarrow> scheduling_job" where
  "example_job i m = \<lparr>sj_id = i, sj_productId = ''p'', sj_quantity = 1, sj_dueDate = ''2026-01-02'', sj_estimatedMinutes = m,
     sj_priority = None\<rparr>"

definition example_resource :: scheduling_resource where
  "example_resource = \<lparr>sr_id = ''r'', sr_dailyCapacityMinutes = 100, sr_capabilities = []\<rparr>"

theorem schedule_feasible_and_exhausted_witness:
  "mset [''a'', ''b''] = mset (map sa_jobId (sh_assignments (schedule 0 [example_job ''a'' 60, example_job ''b'' 50] [example_resource]))) +
     mset (sh_unassigned (schedule 0 [example_job ''a'' 60, example_job ''b'' 50] [example_resource]))"
  using schedule_feasible_and_exhausted [of "[example_job ''a'' 60, example_job ''b'' 50]" 0 "[example_resource]"]
  by (simp add: example_job_def Let_def)

section \<open>The demand forecast\<close>

text \<open>Dividing a whole number by thirty and multiplying by thirty rounds back to it.\<close>

lemma thirty_back:
  assumes "1 \<le> n" and "n \<le> 10 ^ 9"
  shows "math_round (js_mul (js_div (of_int n) 30) 30) = n"
proof -
  let ?n = "of_int n :: rat"
  have n: "1 \<le> ?n" "?n \<le> 10 ^ 9"
  proof -
    have "of_int 1 \<le> ?n" "?n \<le> of_int (10 ^ 9)" using assms by (simp_all only: of_int_le_iff)
    then show "1 \<le> ?n" "?n \<le> 10 ^ 9" by simp_all
  qed
  define a where "a = fl (?n / 30)"
  have a: "\<bar>a - ?n / 30\<bar> \<le> 1 / 2 ^ 23" unfolding a_def using n by (intro fl_abs_error) simp
  have a2: "a \<le> ?n / 30 + 1 / 2 ^ 23" "?n / 30 - 1 / 2 ^ 23 \<le> a"
    using abs_le_D1 [OF a] abs_le_D2 [OF a] by linarith+
  have pos: "0 \<le> a" unfolding a_def using n by (intro fl_nonneg) simp
  then have "\<bar>a * 30\<bar> < 2 ^ 31" using a2(1) n by simp
  then have b: "\<bar>fl (a * 30) - a * 30\<bar> \<le> 1 / 2 ^ 23" by (rule fl_abs_error)
  have b2: "fl (a * 30) \<le> a * 30 + 1 / 2 ^ 23" "a * 30 - 1 / 2 ^ 23 \<le> fl (a * 30)"
    using abs_le_D1 [OF b] abs_le_D2 [OF b] by linarith+
  have eps: "(31 :: rat) / 2 ^ 23 < 1 / 2" by simp
  have "fl (a * 30) \<le> ?n + 31 / 2 ^ 23" "?n - 31 / 2 ^ 23 \<le> fl (a * 30)" using a2 b2 by simp_all
  then have "?n \<le> fl (a * 30) + 1 / 2" "fl (a * 30) + 1 / 2 < ?n + 1" using eps by linarith+
  then have "\<lfloor>fl (a * 30) + 1 / 2\<rfloor> = n" by (simp only: floor_eq_iff)
  then show ?thesis by (simp add: math_round_def js_mul_def js_div_def a_def)
qed

lemma velocity_small:
  assumes "0 \<le> x" and "x \<le> 10 ^ 9"
  shows "max 1 (math_round (js_div x 4)) \<le> max 1 \<lfloor>x\<rfloor>"
proof -
  let ?n = "\<lfloor>x\<rfloor>"
  have n: "0 \<le> ?n" "?n \<le> 10 ^ 9" using assms by (simp, metis floor_le_numeral floor_mono floor_numeral_power)
  have "x / 4 \<le> of_int (?n + 1) / 4" using floor_correct [of x] by simp
  then have "fl (x / 4) \<le> fl (of_int (?n + 1) / 4)" by (rule fl_mono)
  also have "fl (of_int (?n + 1) / 4) = of_int (?n + 1) / 4"
    using fl_dyadic [of "?n + 1" "- 2"] n by (simp add: power_int_minus field_simps)
  finally have "math_round (js_div x 4) \<le> \<lfloor>of_int (?n + 1) / 4 + 1 / 2 :: rat\<rfloor>"
    unfolding math_round_def js_div_def by (intro floor_mono) simp
  also have "(of_int (?n + 1) / 4 + 1 / 2 :: rat) = of_int (?n + 3) / 4" by simp
  also have "\<lfloor>of_int (?n + 3) / 4 :: rat\<rfloor> = (?n + 3) div 4" using floor_divide_of_int_eq [where 'a = rat, of "?n + 3" 4] by simp
  finally show ?thesis using n by linarith
qed

lemma demand_covered:
  assumes "0 \<le> x" and "x \<le> 10 ^ 9"
  shows "max 0 (predicted_demand x 30 - math_floor x) = (if x < 1 then 1 else 0)"
proof -
  let ?v = "max 1 (math_round (js_div x 4))"
  have small: "?v \<le> max 1 \<lfloor>x\<rfloor>" by (rule velocity_small [OF assms])
  have "\<lfloor>x\<rfloor> \<le> 10 ^ 9" using assms(2) by (metis floor_le_numeral floor_mono floor_numeral_power)
  then have "max 1 \<lfloor>x\<rfloor> \<le> 10 ^ 9" by (intro max.boundedI) simp_all
  with small have "?v \<le> 10 ^ 9" by (rule order_trans)
  then have "predicted_demand x 30 = ?v"
    unfolding predicted_demand_def Let_def by (intro thirty_back) simp_all
  moreover have "x < 1 \<longleftrightarrow> \<lfloor>x\<rfloor> = 0" using assms(1) by (simp add: floor_eq_iff)
  moreover have "0 \<le> \<lfloor>x\<rfloor>" using assms(1) by simp
  ultimately show ?thesis using small by (auto simp: math_floor_def)
qed

text \<open>
  What the reorder list contains. For stocks between nothing and a thousand million units the
  forecast never predicts more than is in stock, unless there is less than one unit: the
  suggestions are exactly the products without a unit, each with one unit to order. Reorder
  points and sales play no role.\<close>

theorem reorder_list_is_empty_stock:
  assumes "list_all (\<lambda>l. 0 \<le> sl_onHand l \<and> sl_onHand l \<le> 10 ^ 9) levels"
  shows "map (\<lambda>f. (fr_productId f, fr_reorderSuggestionUnits f)) (list_reorder_suggestions t productRows levels None) =
    map (\<lambda>p. (ent_id p, 1)) (filter (\<lambda>p. units_on_hand t levels (ent_id p) < 1) (take 200 (filter (\<lambda>p. tenantId p = t) productRows)))"
proof -
  have range: "0 \<le> units_on_hand t levels i" "units_on_hand t levels i \<le> 10 ^ 9" for i
    using assms by (auto simp: units_on_hand_def list_all_iff find_Some_iff split: option.split)
  let ?f = "\<lambda>p. forecast_sku t productRows levels (ent_id p) (Some 30)"
  let ?ps = "take 200 (filter (\<lambda>p. tenantId p = t) productRows)"
  have units: "fr_reorderSuggestionUnits (?f p) = (if units_on_hand t levels (ent_id p) < 1 then 1 else 0)"
    and product: "fr_productId (?f p) = ent_id p" for p
    using demand_covered [OF range] by (simp_all add: forecast_sku_def Let_def nullish_def)
  have kept: "filter (\<lambda>f. fr_reorderSuggestionUnits f > 0) (map ?f ?ps) = map ?f (filter (\<lambda>p. units_on_hand t levels (ent_id p) < 1) ?ps)"
    by (simp add: filter_map o_def units)
  have "map (\<lambda>f. - fr_reorderSuggestionUnits f) (map ?f (filter (\<lambda>p. units_on_hand t levels (ent_id p) < 1) ?ps)) =
      map (\<lambda>_. - 1) (filter (\<lambda>p. units_on_hand t levels (ent_id p) < 1) ?ps)" by (simp add: units)
  moreover have "sorted (map (\<lambda>_. - 1 :: int) xs)" for xs :: "product list" by (induction xs) auto
  ultimately have "sorted (map (\<lambda>f. - fr_reorderSuggestionUnits f) (map ?f (filter (\<lambda>p. units_on_hand t levels (ent_id p) < 1) ?ps)))"
    by (simp only:)
  then show ?thesis
    unfolding list_reorder_suggestions_def nullish_def option.case kept
    by (simp add: sort_key_id_if_sorted o_def units product)
qed

definition example_level :: stock_level where
  "example_level = \<lparr>ent_id = ''l'', tenantId = ''t'', sl_productId = ''p'', sl_warehouseId = ''w'', sl_onHand = 0,
     sl_reserved = 0, sl_onOrder = 0\<rparr>"

definition example_product :: product where
  "example_product = \<lparr>ent_id = ''p'', tenantId = ''t'', pd_sku = ''S'', pd_name = ''N'', pd_description = None,
     pd_category = RawMaterial, pd_unitOfMeasure = Piece, pd_unitCost = 1, pd_sellingPrice = 2, pd_weight = 1,
     pd_barcode = None, pd_minimumStock = 5, pd_reorderPoint = 10, pd_reorderQuantity = 20, pd_leadTimeDays = 7,
     pd_supplier = None, pd_isActive = True\<rparr>"

theorem reorder_list_is_empty_stock_witness:
  "map (\<lambda>f. (fr_productId f, fr_reorderSuggestionUnits f))
     (list_reorder_suggestions ''t'' [example_product] [example_level] None) = [(''p'', 1)]"
  using reorder_list_is_empty_stock [of "[example_level]" "''t''" "[example_product]"]
  by (simp add: example_level_def example_product_def units_on_hand_def)

end
