(* ===== verification/VatRules.thy ===== *)
theory VatRules
  imports JsNumber JsXml
begin

text \<open>
  Fiscal rules without state: the VAT of a regime (\<^verbatim>\<open>accounting/iva-regimes.ts\<close>) and the
  import one-stop shop (\<^verbatim>\<open>accounting/ioss/ioss.service.ts\<close>). Texts are ASCII renderings.
\<close>

section \<open>Regimes\<close>

datatype regime_fiscale = RF01 | RF02 | RF04 | RF05 | RF06 | RF07 | RF08 | RF09 | RF10 | RF11 | RF12 | RF13
  | RF14 | RF15 | RF16 | RF17 | RF18 | RF19

record iva_input =
  iv_regime :: regime_fiscale
  iv_taxableAmount :: jsnum
  iv_requestedIvaRate :: jsnum
  iv_splitPayment :: bool
  iv_reverseCharge :: bool

record iva_result =
  ir_ivaRate :: jsnum
  ir_ivaAmount :: jsnum
  ir_ivaNature :: "string option"
  ir_reasoning :: string
  ir_payableByBuyer :: jsnum
  ir_treasuryReceivableFromSeller :: jsnum
  ir_cassettaRegimeCode :: regime_fiscale

definition round2 :: "jsnum \<Rightarrow> jsnum" where
  "round2 n = js_div (of_int (math_round (js_mul n 100))) 100"

definition compute_iva :: "iva_input \<Rightarrow> iva_result" where
  "compute_iva input =
     (let regime = iv_regime input; taxable = iv_taxableAmount input;
          untaxed = (\<lambda>nature reason. \<lparr>ir_ivaRate = 0, ir_ivaAmount = 0, ir_ivaNature = Some nature, ir_reasoning = reason,
            ir_payableByBuyer = round2 taxable, ir_treasuryReceivableFromSeller = 0, ir_cassettaRegimeCode = regime\<rparr>);
          ivaAmount = round2 (js_div (js_mul taxable (iv_requestedIvaRate input)) 100)
      in if regime = RF19
         then untaxed ''N2.2'' ''Regime forfettario (art.1 c.54-89 L.190/2014) - operazione non soggetta ad IVA''
         else if regime = RF02
         then untaxed ''N2.2'' ''Regime dei minimi (art.1 c.96-117 L.244/2007) - operazione non soggetta ad IVA''
         else if iv_reverseCharge input
         then untaxed ''N6.9'' ''Reverse charge art.17 DPR 633/1972 - IVA assolta dal cessionario/committente''
         else if iv_splitPayment input
         then \<lparr>ir_ivaRate = iv_requestedIvaRate input, ir_ivaAmount = ivaAmount, ir_ivaNature = None,
           ir_reasoning = ''Split payment art. 17-ter DPR 633/1972 - IVA versata direttamente dall'' @ [CHR 39] @ ''ente acquirente'',
           ir_payableByBuyer = round2 taxable, ir_treasuryReceivableFromSeller = 0, ir_cassettaRegimeCode = regime\<rparr>
         else \<lparr>ir_ivaRate = iv_requestedIvaRate input, ir_ivaAmount = ivaAmount, ir_ivaNature = None,
           ir_reasoning = ''Regime ordinario - IVA applicata e riscossa dal cedente'',
           ir_payableByBuyer = round2 (js_add taxable ivaAmount), ir_treasuryReceivableFromSeller = ivaAmount,
           ir_cassettaRegimeCode = regime\<rparr>)"

section \<open>Import one-stop shop\<close>

record ioss_check =
  ic_iossNumberValid :: bool
  ic_thresholdRespected :: bool
  ic_warnings :: "string list"

record ioss_input =
  ioi_iossNumber :: "string option"
  ioi_consigneeCountry :: string
  ioi_consignmentValueCents :: jsnum
  ioi_isB2C :: bool

text \<open>\<^verbatim>\<open>/^IM\d{10}\w{2}$/\<close>\<close>

definition ioss_number_pattern :: "string \<Rightarrow> bool" where
  "ioss_number_pattern s \<longleftrightarrow>
     length s = 14 \<and> take 2 s = ''IM'' \<and> list_all is_digit (take 10 (drop 2 s)) \<and>
     list_all (\<lambda>c. is_digit c \<or> is_upper c \<or> is_lower c \<or> c = CHR ''_'') (drop 12 s)"

definition IOSS_THRESHOLD_CENTS :: jsnum where "IOSS_THRESHOLD_CENTS = 15000"

definition ioss_validate :: "string \<Rightarrow> bool" where
  "ioss_validate s = ioss_number_pattern (js_trim s)"

definition check_ioss_invoice :: "ioss_input \<Rightarrow> ioss_check" where
  "check_ioss_invoice input =
     (let respected = ioi_consignmentValueCents input \<le> IOSS_THRESHOLD_CENTS;
          valid = (if truthy (ioi_iossNumber input) then ioss_validate (the (ioi_iossNumber input)) else False)
      in \<lparr>ic_iossNumberValid = valid, ic_thresholdRespected = respected,
          ic_warnings =
            (if ioi_isB2C input then []
             else [''IOSS does not apply to B2B sales - apply the standard intra-EU regime instead.'']) @
            (if respected then []
             else [''Consignment value '' @ fixed2_text (js_div (ioi_consignmentValueCents input) 100) @
               '' EUR > EUR 150 threshold - IOSS not applicable; standard import regime applies.'']) @
            (if truthy (ioi_iossNumber input) \<and> \<not> valid
             then [''IOSS number does not match the IM-prefix + 12-char shape (Reg. UE 2019/2026 art. 369o).''] else [])\<rparr>)"

text \<open>An infinite or undefined rate is \<open>None\<close>.\<close>

definition convert_to_eur_cents :: "jsnum \<Rightarrow> jsnum option \<Rightarrow> http_error + int" where
  "convert_to_eur_cents amount rate =
     (case rate of None \<Rightarrow> Inl BadRequest
      | Some r \<Rightarrow> if r \<le> 0 then Inl BadRequest else Inr (math_round (js_div amount r)))"

section \<open>Correctness\<close>

text \<open>
  Amounts that are whole cents: the double nearest to a number of cents keeps it under
  \<open>round2\<close>, and a non-negative taxable amount is never taxed below zero.
\<close>

lemma round2_mono: "x \<le> y \<Longrightarrow> round2 x \<le> round2 y"
proof -
  assume "x \<le> y"
  then have "js_mul x 100 \<le> js_mul y 100" unfolding js_mul_def by (intro fl_mono) simp
  then have "math_round (js_mul x 100) \<le> math_round (js_mul y 100)" unfolding math_round_def by (intro floor_mono) simp
  then have "(of_int (math_round (js_mul x 100)) :: rat) \<le> of_int (math_round (js_mul y 100))" by (simp only: of_int_le_iff)
  then show ?thesis unfolding round2_def js_div_def by (intro fl_mono divide_right_mono) auto
qed

lemma round2_0 [simp]: "round2 0 = 0"
proof -
  have "\<lfloor>1 / 2 :: rat\<rfloor> = 0" by (simp only: floor_eq_iff) simp
  then show ?thesis by (simp add: round2_def js_mul_def math_round_def js_div_def)
qed

lemma round2_nonneg: "0 \<le> x \<Longrightarrow> 0 \<le> round2 x"
  using round2_mono [of 0 x] by simp

text \<open>
  The rounding is not the banker's rounding its comment announces: half a cent goes up.
\<close>

lemma round2_half_goes_up: "math_round (js_mul (1 / 8) 100) = 13"
proof -
  have "fl (25 / 2) = 25 / 2" using fl_dyadic [of 25 "- 1"] by (simp add: power_int_minus field_simps)
  then show ?thesis by (simp add: js_mul_def math_round_def floor_eq_iff)
qed

text \<open>
  Who pays the tax. For a taxable amount and a rate that are not negative the buyer never
  pays less than the rounded taxable amount; the seller owes tax to the treasury only in the
  cases left over by the two untaxed regimes, reverse charge and split payment, and then exactly
  the tax of the invoice; and an invoice without tax names its nature.\<close>

lemma vat_paid_by_the_right_party:
  assumes "0 \<le> iv_taxableAmount i" and "0 \<le> iv_requestedIvaRate i"
    and "fl (iv_taxableAmount i) = iv_taxableAmount i"
  shows "round2 (iv_taxableAmount i) \<le> ir_payableByBuyer (compute_iva i) \<and>
    ir_treasuryReceivableFromSeller (compute_iva i) =
      (if iv_regime i \<in> {RF02, RF19} \<or> iv_reverseCharge i \<or> iv_splitPayment i then 0 else ir_ivaAmount (compute_iva i)) \<and>
    0 \<le> ir_ivaAmount (compute_iva i) \<and>
    (ir_ivaNature (compute_iva i) = None \<longleftrightarrow> iv_regime i \<notin> {RF02, RF19} \<and> \<not> iv_reverseCharge i)"
proof -
  have "0 \<le> js_div (js_mul (iv_taxableAmount i) (iv_requestedIvaRate i)) 100"
    using assms by (simp add: js_div_def js_mul_def fl_nonneg)
  then have iva: "0 \<le> round2 (js_div (js_mul (iv_taxableAmount i) (iv_requestedIvaRate i)) 100)" (is "0 \<le> ?a")
    by (rule round2_nonneg)
  then have "fl (iv_taxableAmount i) \<le> js_add (iv_taxableAmount i) ?a" unfolding js_add_def by (intro fl_mono) simp
  then have "round2 (fl (iv_taxableAmount i)) \<le> round2 (js_add (iv_taxableAmount i) ?a)" by (rule round2_mono)
  then show ?thesis using iva assms(3) by (auto simp: compute_iva_def Let_def)
qed

end
