(* ===== verification/Pdf.thy ===== *)
theory Pdf
  imports JsString JsXml
begin

text \<open>
  The two renderers of text as PDF: \<^verbatim>\<open>compliance/pdf.renderer.ts\<close>, with pages of 56 lines,
  and the one of \<^verbatim>\<open>bi/report-exporter.service.ts\<close>, with one page. A text is its bytes in
  Latin-1, so the length of a text is its length in bytes.
\<close>

section \<open>Contents\<close>

definition pdf_escape :: "string \<Rightarrow> string" where
  "pdf_escape s =
     replace_char CHR '')'' [CHR 0x5C, CHR '')'']
      (replace_char CHR ''('' [CHR 0x5C, CHR ''('']
       (replace_char CHR 0x5C [CHR 0x5C, CHR 0x5C] s))"

definition show_line :: "string \<Rightarrow> string" where
  "show_line l = ''('' @ pdf_escape l @ '') Tj T*''"

text \<open>The lines of a page, moved to the place where they begin.\<close>

definition text_block :: "string \<Rightarrow> string \<Rightarrow> string list \<Rightarrow> string" where
  "text_block position leading page =
     ''BT'' @ [CHR 0x0A] @ ''/F1 10 Tf'' @ [CHR 0x0A] @ position @ '' Td'' @ [CHR 0x0A] @ leading @ '' TL'' @ [CHR 0x0A] @
     join_nl (map show_line page) @ [CHR 0x0A] @ ''ET''"

definition build_page_stream :: "string list \<Rightarrow> string" where
  "build_page_stream page = text_block ''40 760'' ''13'' page"

function chunks :: "nat \<Rightarrow> 'a list \<Rightarrow> 'a list list" where
  "chunks n xs = (if xs = [] \<or> n = 0 then [] else take n xs # chunks n (drop n xs))"
  by pat_completeness auto
termination
  by (relation "measure (\<lambda>(n, xs). length xs)") auto

declare chunks.simps [simp del]

definition paginate :: "string list \<Rightarrow> nat \<Rightarrow> string list list" where
  "paginate lines n = (if chunks n lines = [] then [['''']] else chunks n lines)"

section \<open>Objects\<close>

definition FONT_OBJECT :: string where
  "FONT_OBJECT = ''<< /Type /Font /Subtype /Type1 /BaseFont /Helvetica >>''"

definition CATALOG_OBJECT :: string where
  "CATALOG_OBJECT = ''<< /Type /Catalog /Pages 2 0 R >>''"

definition page_object :: "nat \<Rightarrow> nat \<Rightarrow> string" where
  "page_object contentId fontId =
     ''<< /Type /Page /Parent 2 0 R /MediaBox [0 0 612 792] /Contents '' @ dec contentId @
     '' 0 R /Resources << /Font << /F1 '' @ dec fontId @ '' 0 R >> >> >>''"

definition content_object :: "string \<Rightarrow> string" where
  "content_object stream =
     ''<< /Length '' @ dec (length stream) @ '' >>'' @ [CHR 0x0A] @ ''stream'' @ [CHR 0x0A] @ stream @ [CHR 0x0A] @ ''endstream''"

fun join_space :: "string list \<Rightarrow> string" where
  "join_space [] = []"
| "join_space [l] = l"
| "join_space (l # ls) = l @ CHR '' '' # join_space ls"

definition pages_object :: "nat \<Rightarrow> string" where
  "pages_object n =
     ''<< /Type /Pages /Kids ['' @ join_space (map (\<lambda>i. dec (3 + i * 2) @ '' 0 R'') [0..<n]) @ ''] /Count '' @ dec n @ '' >>''"

text \<open>The identifier of an object is one more than its index.\<close>

definition pdf_objects :: "string list \<Rightarrow> string list" where
  "pdf_objects streams =
     (let n = length streams; fontIndex = 3 + 2 * n
      in [CATALOG_OBJECT, pages_object n] @
         concat (map (\<lambda>i. [page_object (4 + i * 2) fontIndex, content_object (streams ! i)]) [0..<n]) @ [FONT_OBJECT])"

section \<open>The file\<close>

definition numbered_object :: "nat \<Rightarrow> string \<Rightarrow> string" where
  "numbered_object k obj = dec k @ '' 0 obj'' @ [CHR 0x0A] @ obj @ [CHR 0x0A] @ ''endobj'' @ [CHR 0x0A]"

fun add_object :: "string \<times> nat list \<Rightarrow> string \<Rightarrow> string \<times> nat list" where
  "add_object (body, offsets) obj = (body @ numbered_object (length offsets + 1) obj, offsets @ [length body])"

definition xref_line :: "nat \<Rightarrow> string" where
  "xref_line off = pad_start 10 CHR ''0'' (dec off) @ '' 00000 n '' @ [CHR 0x0A]"

definition xref_table :: "nat list \<Rightarrow> string" where
  "xref_table offsets =
     ''xref'' @ [CHR 0x0A] @ ''0 '' @ dec (length offsets + 1) @ [CHR 0x0A] @ ''0000000000 65535 f '' @ [CHR 0x0A] @
     concat (map xref_line offsets)"

definition pdf_trailer :: "nat \<Rightarrow> nat \<Rightarrow> string" where
  "pdf_trailer count xrefOffset =
     ''trailer'' @ [CHR 0x0A] @ ''<< /Size '' @ dec count @ '' /Root 1 0 R >>'' @ [CHR 0x0A] @ ''startxref'' @ [CHR 0x0A] @
     dec xrefOffset @ [CHR 0x0A] @ ''%%EOF''"

definition pdf_file :: "string list \<Rightarrow> string" where
  "pdf_file objects =
     (case foldl add_object (''%PDF-1.4'' @ [CHR 0x0A], []) objects of
        (body, offsets) \<Rightarrow> body @ xref_table offsets @ pdf_trailer (length objects + 1) (length body))"

definition render_minimal_pdf :: "string list \<Rightarrow> string" where
  "render_minimal_pdf lines = pdf_file (pdf_objects (map build_page_stream (paginate lines 56)))"

text \<open>The single page of the report exporter.\<close>

definition render_report_pdf :: "string list \<Rightarrow> string" where
  "render_report_pdf lines = pdf_file (pdf_objects [text_block ''40 800'' ''14'' lines])"

end
