(* ===== verification/PdfProps.thy ===== *)
theory PdfProps
  imports Pdf
begin

text \<open>
  Correctness of the PDF renderer, against a reader: the cross-reference table of a file leads to
  every object, the page tree to the content of every page, and the strings shown there are the
  lines that were rendered.
\<close>

declare split_paired_All [simp del]

section \<open>Where the objects are\<close>

abbreviation nl :: char where "nl \<equiv> CHR 0x0A"

text \<open>The part of the file before the table, up to an object.\<close>

definition body_before :: "string list \<Rightarrow> nat \<Rightarrow> string" where
  "body_before objs i = ''%PDF-1.4'' @ [nl] @ concat (map (\<lambda>j. numbered_object (Suc j) (objs ! j)) [0..<i])"

definition offsets_of :: "string list \<Rightarrow> nat list" where
  "offsets_of objs = map (\<lambda>i. length (body_before objs i)) [0..<length objs]"

lemma body_before_Suc: "body_before objs (Suc i) = body_before objs i @ numbered_object (Suc i) (objs ! i)"
  by (simp add: body_before_def)

lemma add_objects:
  "k \<le> length objs \<Longrightarrow> foldl add_object (''%PDF-1.4'' @ [nl], []) (take k objs) =
     (body_before objs k, map (\<lambda>i. length (body_before objs i)) [0..<k])"
proof (induction k)
  case (Suc k)
  then show ?case by (simp add: take_Suc_conv_app_nth body_before_Suc)
qed (simp add: body_before_def)

lemma pdf_file_eq:
  "pdf_file objs = body_before objs (length objs) @ xref_table (offsets_of objs) @
     pdf_trailer (length objs + 1) (length (body_before objs (length objs)))"
  using add_objects [of "length objs" objs] by (simp add: pdf_file_def offsets_of_def)

lemma body_split:
  "i < n \<Longrightarrow> \<exists>rest. body_before objs n = body_before objs i @ numbered_object (Suc i) (objs ! i) @ rest"
proof (induction n)
  case (Suc n)
  show ?case
  proof (cases "i = n")
    case True
    then show ?thesis by (simp add: body_before_Suc)
  next
    case False
    then obtain rest where "body_before objs n = body_before objs i @ numbered_object (Suc i) (objs ! i) @ rest"
      using Suc by auto
    then show ?thesis by (simp add: body_before_Suc)
  qed
qed simp

section \<open>A reader\<close>

text \<open>
  The number before the end of the file tells where the table begins; behind its first two lines
  entry \<open>k\<close> is the ten digits at the head of line \<open>k\<close> of twenty bytes.
\<close>

definition read_startxref :: "string \<Rightarrow> nat" where
  "read_startxref pdf = parse_dec (rev (takeWhile is_digit (drop 6 (rev pdf))))"

definition drop_line :: "string \<Rightarrow> string" where
  "drop_line s = tl (dropWhile (\<lambda>c. c \<noteq> nl) s)"

definition object_offset :: "string \<Rightarrow> nat \<Rightarrow> nat" where
  "object_offset pdf k = parse_dec (take 10 (drop (20 * k) (drop_line (drop_line (drop (read_startxref pdf) pdf)))))"

lemma drop_line_simp [simp]: "nl \<notin> set s \<Longrightarrow> drop_line (s @ nl # r) = r"
proof -
  assume "nl \<notin> set s"
  then have "dropWhile (\<lambda>c. c \<noteq> nl) (s @ nl # r) = nl # r" by (induction s) auto
  then show ?thesis by (simp add: drop_line_def)
qed

lemma read_startxref_trailer: "read_startxref (body @ pdf_trailer n x) = x"
proof -
  have digits: "set (dec x) \<subseteq> {c. is_digit c}" using dec_digits by auto
  have "drop 6 (rev (body @ pdf_trailer n x)) = rev (dec x) @ nl # drop 7 (rev (body @ pdf_trailer n x)) \<and> True \<or> True" by simp
  let ?pre = "body @ ''trailer'' @ [nl] @ ''<< /Size '' @ dec n @ '' /Root 1 0 R >>'' @ [nl] @ ''startxref''"
  have "body @ pdf_trailer n x = ?pre @ nl # dec x @ nl # ''%%EOF''" by (simp add: pdf_trailer_def)
  then have "drop 6 (rev (body @ pdf_trailer n x)) = rev (dec x) @ nl # rev ?pre" by simp
  moreover have "takeWhile is_digit (rev (dec x) @ nl # rev ?pre) = rev (dec x)"
    using digits by (subst takeWhile_append2) (auto simp: is_digit_def)
  ultimately show ?thesis by (simp add: read_startxref_def)
qed

lemma length_xref_line: "off < 10 ^ 10 \<Longrightarrow> length (xref_line off) = 20"
  using length_dec [of 10 off] by (simp add: xref_line_def length_pad_start)

lemma xref_line_offset: "off < 10 ^ 10 \<Longrightarrow> parse_dec (take 10 (xref_line off @ r)) = off"
proof -
  assume "off < 10 ^ 10"
  then have "length (pad_start 10 CHR ''0'' (dec off)) = 10" using length_dec [of 10 off] by (simp add: length_pad_start)
  then have "take 10 (xref_line off @ r) = pad_start 10 CHR ''0'' (dec off)" by (simp add: xref_line_def)
  then show ?thesis by (simp add: parse_dec_pad)
qed

lemma table_line:
  assumes "\<forall>off\<in>set offs. off < 10 ^ 10" and "k < length offs"
  shows "\<exists>r'. drop (20 * k) (concat (map xref_line offs) @ r) = xref_line (offs ! k) @ r'"
  using assms
proof (induction offs arbitrary: k)
  case (Cons off offs)
  show ?case
  proof (cases k)
    case (Suc j)
    have "length (xref_line off) = 20" using Cons.prems by (simp add: length_xref_line)
    then show ?thesis using Cons.IH [of j] Cons.prems Suc by simp
  qed simp
qed simp

lemma object_offset_file:
  assumes "i < length objs" and "length (pdf_file objs) < 10 ^ 10"
  shows "object_offset (pdf_file objs) (Suc i) = length (body_before objs i)"
proof -
  let ?b = "body_before objs (length objs)" and ?offs = "offsets_of objs"
  let ?t = "pdf_trailer (length objs + 1) (length ?b)"
  have x: "read_startxref (pdf_file objs) = length ?b"
    unfolding pdf_file_eq using read_startxref_trailer [of "?b @ xref_table ?offs"] by simp
  have small: "length (body_before objs j) < 10 ^ 10" if "j < length objs" for j
    using body_split [OF that, of objs] assms(2) by (auto simp: pdf_file_eq)
  have no_nl: "nl \<notin> set (''0 '' @ dec n)" for n using dec_digits [of nl n] by (auto simp: is_digit_def)
  let ?r0 = "''0000000000 65535 f '' @ [nl] @ concat (map xref_line ?offs) @ ?t"
  have "drop (length ?b) (pdf_file objs) = ''xref'' @ nl # (''0 '' @ dec (length ?offs + 1)) @ nl # ?r0"
    by (simp add: pdf_file_eq xref_table_def)
  moreover have "drop_line (''xref'' @ nl # (''0 '' @ dec (length ?offs + 1)) @ nl # ?r0) =
      (''0 '' @ dec (length ?offs + 1)) @ nl # ?r0" by (rule drop_line_simp) simp
  moreover have "drop_line ((''0 '' @ dec (length ?offs + 1)) @ nl # ?r0) = ?r0" by (rule drop_line_simp [OF no_nl])
  ultimately have lines: "drop_line (drop_line (drop (length ?b) (pdf_file objs))) = ?r0" by (simp only:)
  have "\<forall>off\<in>set ?offs. off < 10 ^ 10" using small by (auto simp: offsets_of_def)
  then obtain r where "drop (20 * i) (concat (map xref_line ?offs) @ ?t) = xref_line (?offs ! i) @ r"
    using table_line [of ?offs i ?t] assms(1) by (auto simp: offsets_of_def)
  then have "drop (20 * i + 20) (drop_line (drop_line (drop (length ?b) (pdf_file objs)))) = xref_line (?offs ! i) @ r"
    unfolding lines by (simp add: drop_drop [symmetric, of "20 * i" 20] del: drop_drop)
  moreover have "20 * Suc i = 20 * i + 20" by simp
  ultimately have "object_offset (pdf_file objs) (Suc i) = parse_dec (take 10 (xref_line (?offs ! i) @ r))"
    by (simp only: object_offset_def x)
  also have "\<dots> = ?offs ! i" using assms(1) small by (intro xref_line_offset) (simp add: offsets_of_def)
  finally show ?thesis using assms(1) by (simp add: offsets_of_def)
qed

lemma object_at_offset:
  assumes "i < length objs" and "length (pdf_file objs) < 10 ^ 10"
  shows "\<exists>rest. drop (object_offset (pdf_file objs) (Suc i)) (pdf_file objs) = numbered_object (Suc i) (objs ! i) @ rest"
proof -
  obtain rest where "body_before objs (length objs) = body_before objs i @ numbered_object (Suc i) (objs ! i) @ rest"
    using body_split [OF assms(1)] by blast
  then show ?thesis unfolding object_offset_file [OF assms] by (simp add: pdf_file_eq)
qed

section \<open>The pages\<close>

lemma concat_chunks: "0 < n \<Longrightarrow> concat (chunks n xs) = xs"
proof (induction n xs rule: chunks.induct)
  case (1 n xs)
  then show ?case by (subst chunks.simps) simp
qed

lemma chunk_length: "c \<in> set (chunks n xs) \<Longrightarrow> length c \<le> n"
proof (induction n xs rule: chunks.induct)
  case (1 n xs)
  then show ?case by (subst (asm) chunks.simps) (auto split: if_splits)
qed

lemma concat_paginate: "concat (paginate ls 56) = (if ls = [] then [[]] else ls)"
proof -
  have "chunks 56 ls = [] \<longleftrightarrow> ls = []" by (subst chunks.simps) simp
  then show ?thesis by (simp add: paginate_def concat_chunks)
qed

lemma page_length: "page \<in> set (paginate ls 56) \<Longrightarrow> length page \<le> 56"
  by (auto simp: paginate_def dest: chunk_length split: if_splits)

lemma concat_pairs_nth:
  assumes "j < n"
  shows "concat (map (\<lambda>i. [f i, g i]) [0..<n]) ! (2 * j) = f j" and "concat (map (\<lambda>i. [f i, g i]) [0..<n]) ! Suc (2 * j) = g j"
    and "length (concat (map (\<lambda>i. [f i, g i]) [0..<n])) = 2 * n"
proof -
  have len: "length (concat (map (\<lambda>i. [f i, g i]) [0..<k])) = 2 * k" for k
    by (induction k) simp_all
  then show "length (concat (map (\<lambda>i. [f i, g i]) [0..<n])) = 2 * n" .
  from assms have "concat (map (\<lambda>i. [f i, g i]) [0..<n]) ! (2 * j) = f j \<and> concat (map (\<lambda>i. [f i, g i]) [0..<n]) ! Suc (2 * j) = g j"
  proof (induction n)
    case (Suc n)
    then show ?case by (cases "j = n") (simp_all add: nth_append len del: length_concat)
  qed simp
  then show "concat (map (\<lambda>i. [f i, g i]) [0..<n]) ! (2 * j) = f j" "concat (map (\<lambda>i. [f i, g i]) [0..<n]) ! Suc (2 * j) = g j"
    by simp_all
qed

lemma page_objects:
  assumes "j < length streams"
  shows "pdf_objects streams ! (2 + 2 * j) = page_object (4 + j * 2) (3 + 2 * length streams)"
    and "pdf_objects streams ! (3 + 2 * j) = content_object (streams ! j)"
    and "3 + 2 * j < length (pdf_objects streams)"
  using concat_pairs_nth [OF assms, of "\<lambda>i. page_object (4 + i * 2) (3 + 2 * length streams)" "\<lambda>i. content_object (streams ! i)"] assms
  by (simp_all add: pdf_objects_def Let_def nth_append numeral_3_eq_3 del: length_concat)

section \<open>The strings that a page shows\<close>

fun shown_strings :: "bool \<Rightarrow> string \<Rightarrow> string \<Rightarrow> string list" where
  "shown_strings inside cur [] = []"
| "shown_strings False cur (c # s) = (if c = CHR ''('' then shown_strings True [] s else shown_strings False cur s)"
| "shown_strings True cur (c # s) =
     (if c = CHR '')'' then cur # shown_strings False [] s
      else if c = CHR 0x5C then (case s of [] \<Rightarrow> [] | d # s' \<Rightarrow> shown_strings True (cur @ [d]) s')
      else shown_strings True (cur @ [c]) s)"

lemma pdf_escape_Cons:
  "pdf_escape (c # s) = (if c \<in> {CHR 0x5C, CHR ''('', CHR '')''} then [CHR 0x5C, c] else [c]) @ pdf_escape s"
  by (simp add: pdf_escape_def replace_char_def)

lemma shown_escaped: "shown_strings True cur (pdf_escape s @ CHR '')'' # t) = (cur @ s) # shown_strings False [] t"
proof (induction s arbitrary: cur)
  case (Cons c s)
  then show ?case by (simp add: pdf_escape_Cons)
qed (simp add: pdf_escape_def replace_char_def)

lemma shown_outside: "CHR ''('' \<notin> set s \<Longrightarrow> shown_strings False cur (s @ t) = shown_strings False cur t"
  by (induction s) auto

lemma shown_irrelevant: "shown_strings False cur s = shown_strings False [] s"
  by (induction s) auto

lemma shown_line: "shown_strings False [] (show_line l @ t) = l # shown_strings False [] t"
  using shown_escaped [of "[]" l "'' Tj T*'' @ t"] by (simp add: show_line_def)

lemma shown_lines: "shown_strings False [] (join_nl (map show_line page) @ t) = page @ shown_strings False [] t"
proof (induction page rule: induct_list012)
  case (3 a b page)
  then show ?case using shown_line [of a "CHR 0x0A # join_nl (map show_line (b # page)) @ t"] by simp
qed (simp_all add: shown_line)

lemma shown_text_block:
  assumes "CHR ''('' \<notin> set position" and "CHR ''('' \<notin> set leading"
  shows "shown_strings False [] (text_block position leading page) = page"
proof -
  let ?pre = "''BT'' @ [nl] @ ''/F1 10 Tf'' @ [nl] @ position @ '' Td'' @ [nl] @ leading @ '' TL'' @ [nl]"
  have "text_block position leading page = ?pre @ join_nl (map show_line page) @ [nl] @ ''ET''"
    by (simp add: text_block_def)
  moreover have "shown_strings False [] (?pre @ join_nl (map show_line page) @ [nl] @ ''ET'') =
      shown_strings False [] (join_nl (map show_line page) @ [nl] @ ''ET'')"
    using assms by (intro shown_outside) simp
  ultimately show ?thesis using shown_lines [of page "[nl] @ ''ET''"] by simp
qed



end
