(* ===== verification/BiProjections.thy ===== *)
theory BiProjections
  imports Accounting SalesDepth Hr Intrastat Inventory Pec "HOL-Library.List_Lexorder" "HOL-Library.Char_ord"
begin

text \<open>
  The read-model projections of the reporting module (\<^verbatim>\<open>bi/projections\<close>): each reads the
  rows of a tenant in a window of time and groups them into keyed rows. A JavaScript
  \<^verbatim>\<open>Map\<close> is the list of its entries in the order of their first insertion, a payload the
  list of its fields. The columns compared with the window are dates, so the database compares
  days. The update time of leave requests, which their table does not model, is a parameter.
\<close>

section \<open>Contract\<close>

datatype json = JNum jsnum | JText string | JCounts "(string \<times> nat) list"

type_synonym payload = "(string \<times> json) list"

type_synonym projection_row = "string \<times> payload"

record projection_context =
  px_tenantId :: uuid
  px_from :: "int option"
  px_to :: "int option"

record projection_result =
  px_rows :: "projection_row list"
  px_cursorAt :: "int option"

text \<open>The tables the projections read.\<close>

record bi_source =
  bs_invoices :: "invoice list"
  bs_supplierInvoices :: "supplier_invoice list"
  bs_quotations :: "quotation list"
  bs_ddts :: "ddt list"
  bs_attendances :: "attendance list"
  bs_leaveRequests :: "leave_request list"
  bs_declarations :: "intrastat_declaration list"
  bs_stockLevels :: "stock_level list"
  bs_leaveUpdatedAt :: "leave_request \<Rightarrow> int"

section \<open>Maps in the order of insertion\<close>

text \<open>\<^verbatim>\<open>const cur = m.get(k) ?? d; \<dots> m.set(k, f(cur))\<close>\<close>

fun bump :: "'k \<Rightarrow> 'v \<Rightarrow> ('v \<Rightarrow> 'v) \<Rightarrow> ('k \<times> 'v) list \<Rightarrow> ('k \<times> 'v) list" where
  "bump k d f [] = [(k, f d)]"
| "bump k d f ((k', v) # m) = (if k' = k then (k', f v) # m else (k', v) # bump k d f m)"

definition accumulate_onto ::
  "('k \<times> 'v) list \<Rightarrow> ('r \<Rightarrow> 'k) \<Rightarrow> ('r \<Rightarrow> 'v) \<Rightarrow> ('r \<Rightarrow> 'v \<Rightarrow> 'v) \<Rightarrow> 'r list \<Rightarrow> ('k \<times> 'v) list" where
  "accumulate_onto m key start step rows = foldl (\<lambda>m r. bump (key r) (start r) (step r) m) m rows"

abbreviation accumulate :: "('r \<Rightarrow> 'k) \<Rightarrow> ('r \<Rightarrow> 'v) \<Rightarrow> ('r \<Rightarrow> 'v \<Rightarrow> 'v) \<Rightarrow> 'r list \<Rightarrow> ('k \<times> 'v) list" where
  "accumulate \<equiv> accumulate_onto []"

text \<open>\<^verbatim>\<open>counts[k] = (counts[k] ?? 0) + 1\<close>\<close>

definition count_up :: "string \<Rightarrow> (string \<times> nat) list \<Rightarrow> (string \<times> nat) list" where
  "count_up k counts = bump k 0 Suc counts"

section \<open>Days, months and the window\<close>

definition in_window :: "projection_context \<Rightarrow> int \<Rightarrow> bool" where
  "in_window c day \<longleftrightarrow>
     (case px_from c of None \<Rightarrow> True | Some t \<Rightarrow> t div MS_PER_DAY \<le> day) \<and>
     (case px_to c of None \<Rightarrow> True | Some t \<Rightarrow> day < t div MS_PER_DAY)"

definition month_key :: "int \<Rightarrow> string" where
  "month_key day = (case civil_from_days day of (y, m, d) \<Rightarrow> dec (nat y) @ ''-'' @ pad_int 2 m)"

definition invoice_day :: "invoice \<Rightarrow> int" where
  "invoice_day i = iso_days (inv_invoiceDate i)"

definition supplier_invoice_day :: "supplier_invoice \<Rightarrow> int" where
  "supplier_invoice_day s = si_date s div MS_PER_DAY"

definition window_invoices :: "bi_source \<Rightarrow> projection_context \<Rightarrow> invoice list" where
  "window_invoices src c = filter (\<lambda>i. tenantId i = px_tenantId c \<and> in_window c (invoice_day i)) (bs_invoices src)"

definition window_supplier_invoices :: "bi_source \<Rightarrow> projection_context \<Rightarrow> supplier_invoice list" where
  "window_supplier_invoices src c =
     filter (\<lambda>s. tenantId s = px_tenantId c \<and> in_window c (supplier_invoice_day s)) (bs_supplierInvoices src)"

text \<open>\<^verbatim>\<open>Math.round(Number(x ?? 0) * 100)\<close>\<close>

definition rounded_cents :: "jsnum \<Rightarrow> jsnum" where
  "rounded_cents x = of_int (math_round (js_mul x 100))"

section \<open>Monthly totals\<close>

record month_totals =
  mt_count :: nat
  mt_subtotalCents :: jsnum
  mt_taxCents :: jsnum
  mt_totalCents :: jsnum

definition no_totals :: month_totals where
  "no_totals = \<lparr>mt_count = 0, mt_subtotalCents = 0, mt_taxCents = 0, mt_totalCents = 0\<rparr>"

definition totals_payload :: "month_totals \<Rightarrow> payload" where
  "totals_payload m =
     [(''count'', JNum (of_nat (mt_count m))), (''subtotalCents'', JNum (mt_subtotalCents m)),
      (''taxCents'', JNum (mt_taxCents m)), (''totalCents'', JNum (mt_totalCents m))]"

definition add_invoice_totals :: "invoice \<Rightarrow> month_totals \<Rightarrow> month_totals" where
  "add_invoice_totals r m =
     m\<lparr>mt_count := Suc (mt_count m),
       mt_subtotalCents := js_add (mt_subtotalCents m) (rounded_cents (inv_subtotalAmount r)),
       mt_taxCents := js_add (mt_taxCents m) (rounded_cents (inv_taxAmount r)),
       mt_totalCents := js_add (mt_totalCents m) (rounded_cents (inv_totalAmount r))\<rparr>"

definition add_supplier_totals :: "supplier_invoice \<Rightarrow> month_totals \<Rightarrow> month_totals" where
  "add_supplier_totals r m =
     m\<lparr>mt_count := Suc (mt_count m),
       mt_subtotalCents := js_add (mt_subtotalCents m) (si_subtotalCents r),
       mt_taxCents := js_add (mt_taxCents m) (si_taxCents r),
       mt_totalCents := js_add (mt_totalCents m) (si_totalCents r)\<rparr>"

text \<open>\<^verbatim>\<open>Array.from(m.entries()).map(\<dots>)\<close>, sorted by key or by the figure that ranks.\<close>

definition entry_rows :: "('v \<Rightarrow> payload) \<Rightarrow> (string \<times> 'v) list \<Rightarrow> projection_row list" where
  "entry_rows present m = map (\<lambda>(k, v). (k, present v)) m"

definition rows_by_key :: "('v \<Rightarrow> payload) \<Rightarrow> (string \<times> 'v) list \<Rightarrow> projection_row list" where
  "rows_by_key present m = sort_key fst (entry_rows present m)"

definition monthly_invoice_totals :: "bi_source \<Rightarrow> projection_context \<Rightarrow> projection_result" where
  "monthly_invoice_totals src c =
     \<lparr>px_rows = rows_by_key totals_payload
        (accumulate (\<lambda>r. month_key (invoice_day r)) (\<lambda>_. no_totals) add_invoice_totals (window_invoices src c)),
      px_cursorAt = None\<rparr>"

definition monthly_supplier_invoice_totals :: "bi_source \<Rightarrow> projection_context \<Rightarrow> projection_result" where
  "monthly_supplier_invoice_totals src c =
     \<lparr>px_rows = rows_by_key totals_payload
        (accumulate (\<lambda>r. month_key (supplier_invoice_day r)) (\<lambda>_. no_totals) add_supplier_totals
          (window_supplier_invoices src c)),
      px_cursorAt = None\<rparr>"

section \<open>VAT balance\<close>

record iva_sums =
  vs_ivaSalesCents :: jsnum
  vs_ivaPurchasesCents :: jsnum

definition no_iva :: iva_sums where
  "no_iva = \<lparr>vs_ivaSalesCents = 0, vs_ivaPurchasesCents = 0\<rparr>"

definition iva_payload :: "iva_sums \<Rightarrow> payload" where
  "iva_payload v =
     [(''ivaSalesCents'', JNum (vs_ivaSalesCents v)), (''ivaPurchasesCents'', JNum (vs_ivaPurchasesCents v)),
      (''balanceCents'', JNum (js_sub (vs_ivaSalesCents v) (vs_ivaPurchasesCents v)))]"

definition add_iva_sale :: "invoice \<Rightarrow> iva_sums \<Rightarrow> iva_sums" where
  "add_iva_sale r v = v\<lparr>vs_ivaSalesCents := js_add (vs_ivaSalesCents v) (rounded_cents (inv_taxAmount r))\<rparr>"

definition add_iva_purchase :: "supplier_invoice \<Rightarrow> iva_sums \<Rightarrow> iva_sums" where
  "add_iva_purchase r v = v\<lparr>vs_ivaPurchasesCents := js_add (vs_ivaPurchasesCents v) (si_taxCents r)\<rparr>"

definition iva_periodic_balance :: "bi_source \<Rightarrow> projection_context \<Rightarrow> projection_result" where
  "iva_periodic_balance src c =
     (let sales = accumulate (\<lambda>r. month_key (invoice_day r)) (\<lambda>_. no_iva) add_iva_sale (window_invoices src c);
          both = accumulate_onto sales (\<lambda>r. month_key (supplier_invoice_day r)) (\<lambda>_. no_iva) add_iva_purchase
                   (window_supplier_invoices src c)
      in \<lparr>px_rows = rows_by_key iva_payload both, px_cursorAt = None\<rparr>)"

section \<open>Rankings\<close>

record ranking =
  rk_name :: "string option"
  rk_count :: nat
  rk_totalCents :: jsnum
  rk_lastInvoiceAt :: string

definition ranking_payload :: "ranking \<Rightarrow> payload" where
  "ranking_payload v =
     (case rk_name v of None \<Rightarrow> [] | Some n \<Rightarrow> [(''name'', JText n)]) @
     [(''count'', JNum (of_nat (rk_count v))), (''totalCents'', JNum (rk_totalCents v)),
      (''lastInvoiceAt'', JText (rk_lastInvoiceAt v))]"

definition unranked :: "string option \<Rightarrow> ranking" where
  "unranked name = \<lparr>rk_name = name, rk_count = 0, rk_totalCents = 0, rk_lastInvoiceAt = []\<rparr>"

definition add_ranked :: "jsnum \<Rightarrow> string \<Rightarrow> ranking \<Rightarrow> ranking" where
  "add_ranked cents moment v =
     v\<lparr>rk_count := Suc (rk_count v), rk_totalCents := js_add (rk_totalCents v) cents,
       rk_lastInvoiceAt := (if rk_lastInvoiceAt v = [] \<or> moment > rk_lastInvoiceAt v then moment else rk_lastInvoiceAt v)\<rparr>"

definition rows_by_total :: "(string \<times> ranking) list \<Rightarrow> projection_row list" where
  "rows_by_total m = entry_rows ranking_payload (sort_key (\<lambda>(k, v). - rk_totalCents v) m)"

definition customer_revenue_ranking :: "bi_source \<Rightarrow> projection_context \<Rightarrow> projection_result" where
  "customer_revenue_ranking src c =
     \<lparr>px_rows = rows_by_total
        (accumulate inv_customerId (\<lambda>r. unranked (Some (inv_customerName r)))
          (\<lambda>r. add_ranked (rounded_cents (inv_totalAmount r)) (iso_time (midnight_utc (inv_invoiceDate r))))
          (window_invoices src c)),
      px_cursorAt = None\<rparr>"

definition supplier_spend_ranking :: "bi_source \<Rightarrow> projection_context \<Rightarrow> projection_result" where
  "supplier_spend_ranking src c =
     \<lparr>px_rows = rows_by_total
        (accumulate si_supplierId (\<lambda>_. unranked None) (\<lambda>r. add_ranked (si_totalCents r)
            (iso_time (supplier_invoice_day r * MS_PER_DAY)))
          (window_supplier_invoices src c)),
      px_cursorAt = None\<rparr>"

section \<open>Quotations and delivery notes\<close>

fun quotation_status_text :: "quotation_status \<Rightarrow> string" where
  "quotation_status_text QDraft = ''draft''"
| "quotation_status_text QSent = ''sent''"
| "quotation_status_text QRevised = ''revised''"
| "quotation_status_text QAccepted = ''accepted''"
| "quotation_status_text QRejected = ''rejected''"
| "quotation_status_text QExpired = ''expired''"
| "quotation_status_text QConverted = ''converted''"

fun ddt_status_text :: "ddt_status \<Rightarrow> string" where
  "ddt_status_text DdtDraft = ''draft''"
| "ddt_status_text DdtIssued = ''issued''"
| "ddt_status_text DdtInTransit = ''in_transit''"
| "ddt_status_text DdtDelivered = ''delivered''"
| "ddt_status_text DdtInvoiced = ''invoiced''"
| "ddt_status_text DdtReturned = ''returned''"
| "ddt_status_text DdtLost = ''lost''"
| "ddt_status_text DdtDisputed = ''disputed''"
| "ddt_status_text DdtCancelled = ''cancelled''"

definition window_quotations :: "bi_source \<Rightarrow> projection_context \<Rightarrow> quotation list" where
  "window_quotations src c =
     filter (\<lambda>q. tenantId q = px_tenantId c \<and> in_window c (iso_days (q_issueDate q))) (bs_quotations src)"

definition window_ddts :: "bi_source \<Rightarrow> projection_context \<Rightarrow> ddt list" where
  "window_ddts src c =
     filter (\<lambda>d. tenantId d = px_tenantId c \<and> in_window c (iso_days (ddt_issueDate d))) (bs_ddts src)"

definition pipeline_payload :: "nat \<times> jsnum \<Rightarrow> payload" where
  "pipeline_payload = (\<lambda>(n, totalCents).
     [(''count'', JNum (of_nat n)), (''totalCents'', JNum totalCents),
      (''avgCents'', JNum (if n = 0 then 0 else of_int (math_round (js_div totalCents (of_nat n)))))])"

definition quotation_pipeline_summary :: "bi_source \<Rightarrow> projection_context \<Rightarrow> projection_result" where
  "quotation_pipeline_summary src c =
     \<lparr>px_rows = entry_rows pipeline_payload
        (accumulate (\<lambda>q. quotation_status_text (q_status q)) (\<lambda>_. (0, 0))
          (\<lambda>q (n, totalCents). (Suc n, js_add totalCents (q_totalCents q))) (window_quotations src c)),
      px_cursorAt = None\<rparr>"

definition counts_payload :: "(string \<times> nat) list \<Rightarrow> payload" where
  "counts_payload counts = map (\<lambda>(k, n). (k, JNum (of_nat n))) counts"

definition ddt_throughput :: "bi_source \<Rightarrow> projection_context \<Rightarrow> projection_result" where
  "ddt_throughput src c =
     \<lparr>px_rows = rows_by_key counts_payload
        (accumulate (\<lambda>d. month_key (iso_days (ddt_issueDate d))) (\<lambda>_. [])
          (\<lambda>d counts. count_up ''total'' (count_up (ddt_status_text (ddt_status d)) counts)) (window_ddts src c)),
      px_cursorAt = None\<rparr>"

section \<open>Staff\<close>

text \<open>A numeric column read with \<^verbatim>\<open>Number\<close>.\<close>

definition column_number :: "string \<Rightarrow> jsnum" where
  "column_number s = nullish (number_of_text s) 0"

fun leave_type_text :: "leave_type \<Rightarrow> string" where
  "leave_type_text Ferie = ''ferie''"
| "leave_type_text PermessoRetribuito = ''permesso_retribuito''"
| "leave_type_text PermessoNonRetribuito = ''permesso_non_retribuito''"
| "leave_type_text Malattia = ''malattia''"
| "leave_type_text CongedoMaternita = ''congedo_maternita''"
| "leave_type_text CongedoPaternita = ''congedo_paternita''"
| "leave_type_text CongedoParentale = ''congedo_parentale''"
| "leave_type_text CongedoMatrimoniale = ''congedo_matrimoniale''"
| "leave_type_text Lutto = ''lutto''"
| "leave_type_text L104 = ''l104''"
| "leave_type_text AltroCongedo = ''altro''"

definition window_attendances :: "bi_source \<Rightarrow> projection_context \<Rightarrow> attendance list" where
  "window_attendances src c =
     filter (\<lambda>a. tenantId a = px_tenantId c \<and> in_window c (at_date a div MS_PER_DAY)) (bs_attendances src)"

definition attendance_payload :: "nat \<times> jsnum \<Rightarrow> payload" where
  "attendance_payload = (\<lambda>(days, workedHours).
     [(''days'', JNum (of_nat days)), (''workedHours'', JNum (js_div (of_int (math_round (js_mul workedHours 100))) 100))])"

definition employee_attendance_summary :: "bi_source \<Rightarrow> projection_context \<Rightarrow> projection_result" where
  "employee_attendance_summary src c =
     \<lparr>px_rows = entry_rows attendance_payload
        (accumulate (\<lambda>a. at_employeeId a @ '':'' @ month_key (at_date a div MS_PER_DAY)) (\<lambda>_. (0, 0))
          (\<lambda>a (days, workedHours). (Suc days, js_add workedHours (column_number (at_workedHours a)))) (window_attendances src c)),
      px_cursorAt = None\<rparr>"

record leave_sums =
  ls_approvedDays :: jsnum
  ls_pendingDays :: jsnum
  ls_lastDecisionAt :: string

definition leave_payload :: "leave_sums \<Rightarrow> payload" where
  "leave_payload v =
     [(''approvedDays'', JNum (ls_approvedDays v)), (''pendingDays'', JNum (ls_pendingDays v)),
      (''lastDecisionAt'', JText (ls_lastDecisionAt v))]"

text \<open>The lower end of the window is on the first day of a leave, the upper one on its last.\<close>

definition window_leaves :: "bi_source \<Rightarrow> projection_context \<Rightarrow> leave_request list" where
  "window_leaves src c =
     filter (\<lambda>r. tenantId r = px_tenantId c \<and> in_window (c\<lparr>px_to := None\<rparr>) (lr_startDate r div MS_PER_DAY) \<and>
       in_window (c\<lparr>px_from := None\<rparr>) (lr_endDate r div MS_PER_DAY)) (bs_leaveRequests src)"

definition add_leave :: "(leave_request \<Rightarrow> int) \<Rightarrow> leave_request \<Rightarrow> leave_sums \<Rightarrow> leave_sums" where
  "add_leave updatedAt r v =
     (let days = column_number (lr_daysRequested r);
          moment = iso_time (nullish (lr_decidedAt r) (updatedAt r));
          v' = (if lr_status r = LeaveApproved then v\<lparr>ls_approvedDays := js_add (ls_approvedDays v) days\<rparr>
                else if lr_status r = LeaveSubmitted \<or> lr_status r = LeaveDraft
                then v\<lparr>ls_pendingDays := js_add (ls_pendingDays v) days\<rparr> else v)
      in if moment > ls_lastDecisionAt v' then v'\<lparr>ls_lastDecisionAt := moment\<rparr> else v')"

definition leave_balance_summary :: "bi_source \<Rightarrow> projection_context \<Rightarrow> projection_result" where
  "leave_balance_summary src c =
     \<lparr>px_rows = entry_rows leave_payload
        (accumulate (\<lambda>r. lr_employeeId r @ '':'' @ leave_type_text (lr_leaveType r))
          (\<lambda>_. \<lparr>ls_approvedDays = 0, ls_pendingDays = 0, ls_lastDecisionAt = []\<rparr>) (add_leave (bs_leaveUpdatedAt src))
          (window_leaves src c)),
      px_cursorAt = None\<rparr>"

section \<open>Intrastat and stock\<close>

fun intrastat_status_text :: "intrastat_status \<Rightarrow> string" where
  "intrastat_status_text IntraDraft = ''draft''"
| "intrastat_status_text IntraGenerated = ''generated''"
| "intrastat_status_text IntraSubmitted = ''submitted''"
| "intrastat_status_text IntraAccepted = ''accepted''"
| "intrastat_status_text IntraRejected = ''rejected''"

record intrastat_sums =
  is_cessioniValueCents :: jsnum
  is_cessioniLines :: nat
  is_acquistiValueCents :: jsnum
  is_acquistiLines :: nat
  is_statuses :: "(string \<times> nat) list"

definition intrastat_payload :: "intrastat_sums \<Rightarrow> payload" where
  "intrastat_payload v =
     [(''cessioniValueCents'', JNum (is_cessioniValueCents v)), (''cessioniLines'', JNum (of_nat (is_cessioniLines v))),
      (''acquistiValueCents'', JNum (is_acquistiValueCents v)), (''acquistiLines'', JNum (of_nat (is_acquistiLines v))),
      (''statuses'', JCounts (is_statuses v))]"

definition add_declaration :: "intrastat_declaration \<Rightarrow> intrastat_sums \<Rightarrow> intrastat_sums" where
  "add_declaration r v =
     (let v' = (if id_type r = Cessioni
                then v\<lparr>is_cessioniValueCents := js_add (is_cessioniValueCents v) (id_totalValueCents r),
                  is_cessioniLines := is_cessioniLines v + id_lineCount r\<rparr>
                else v\<lparr>is_acquistiValueCents := js_add (is_acquistiValueCents v) (id_totalValueCents r),
                  is_acquistiLines := is_acquistiLines v + id_lineCount r\<rparr>)
      in v'\<lparr>is_statuses := count_up (intrastat_status_text (id_status r)) (is_statuses v')\<rparr>)"

text \<open>Declarations without a month, or with month zero, are left out; the window is ignored.\<close>

definition monthly_declarations :: "bi_source \<Rightarrow> projection_context \<Rightarrow> intrastat_declaration list" where
  "monthly_declarations src c =
     filter (\<lambda>d. nullish (id_periodMonth d) 0 \<noteq> 0) (filter (\<lambda>d. tenantId d = px_tenantId c) (bs_declarations src))"

definition intrastat_monthly_summary :: "bi_source \<Rightarrow> projection_context \<Rightarrow> projection_result" where
  "intrastat_monthly_summary src c =
     \<lparr>px_rows = rows_by_key intrastat_payload
        (accumulate (\<lambda>d. dec (id_periodYear d) @ ''-'' @ pad_start 2 CHR ''0'' (dec (nullish (id_periodMonth d) 0)))
          (\<lambda>_. \<lparr>is_cessioniValueCents = 0, is_cessioniLines = 0, is_acquistiValueCents = 0, is_acquistiLines = 0, is_statuses = []\<rparr>)
          add_declaration (monthly_declarations src c)),
      px_cursorAt = None\<rparr>"

definition stock_row :: "stock_level \<Rightarrow> projection_row" where
  "stock_row r =
     (sl_warehouseId r @ '':'' @ sl_productId r,
      [(''quantity'', JNum (sl_onHand r)), (''quantityReserved'', JNum (sl_reserved r)),
       (''quantityOnOrder'', JNum (sl_onOrder r)), (''warehouseId'', JText (sl_warehouseId r)),
       (''productId'', JText (sl_productId r))])"

definition inventory_stock_snapshot :: "bi_source \<Rightarrow> projection_context \<Rightarrow> projection_result" where
  "inventory_stock_snapshot src c =
     \<lparr>px_rows = map stock_row (filter (\<lambda>s. tenantId s = px_tenantId c) (bs_stockLevels src)), px_cursorAt = None\<rparr>"

end
