(* ===== verification/BiReadModel.thy ===== *)
theory BiReadModel
  imports BiProjections Pdf
begin

text \<open>
  The read model of the reporting module: the registry of projections
  (\<^verbatim>\<open>bi/projection-registry.service.ts\<close>, \<^verbatim>\<open>bi.module.ts\<close>) and the orchestrator that
  runs them and stores their rows (\<^verbatim>\<open>bi/projection.orchestrator.ts\<close>). The unique index of
  \<^verbatim>\<open>read_model_rows\<close> is modelled, because a projection with two rows of one key fails on it.
\<close>

section \<open>Registry\<close>

record projection =
  pj_id :: string
  pj_description :: string
  pj_source :: string
  pj_run :: "projection_context \<Rightarrow> string + projection_result"

fun register_all :: "projection list \<Rightarrow> projection list \<Rightarrow> http_error + projection list" where
  "register_all known [] = Inr known"
| "register_all known (p # ps) =
     (if pj_id p \<in> pj_id ` set known then Inl PlainError else register_all (known @ [p]) ps)"

definition registry :: "projection list \<Rightarrow> http_error + projection list" where
  "registry ps = register_all [] ps"

definition projection_get :: "projection list \<Rightarrow> string \<Rightarrow> http_error + projection" where
  "projection_get reg i = (case find (\<lambda>p. pj_id p = i) reg of None \<Rightarrow> Inl NotFound | Some p \<Rightarrow> Inr p)"

definition projection_list :: "projection list \<Rightarrow> projection list" where
  "projection_list reg = sort_key pj_id reg"

definition registry_has :: "projection list \<Rightarrow> string \<Rightarrow> bool" where
  "registry_has reg i \<longleftrightarrow> i \<in> pj_id ` set reg"

definition projection_of ::
  "bi_source \<Rightarrow> string \<Rightarrow> string \<Rightarrow> string \<Rightarrow> (bi_source \<Rightarrow> projection_context \<Rightarrow> projection_result) \<Rightarrow> projection" where
  "projection_of src i description source f =
     \<lparr>pj_id = i, pj_description = description, pj_source = source, pj_run = (\<lambda>c. Inr (f src c))\<rparr>"

definition PROJECTION_PROVIDERS :: "bi_source \<Rightarrow> projection list" where
  "PROJECTION_PROVIDERS src =
    [projection_of src ''monthly_invoice_totals''
       ''Sales totals per fiscal month: invoice count + subtotal + IVA + total (R-D04 cents).'' ''invoices'' monthly_invoice_totals,
     projection_of src ''monthly_supplier_invoice_totals''
       ''Purchase totals per fiscal month: SI count + subtotal + IVA + total.'' ''supplier_invoices'' monthly_supplier_invoice_totals,
     projection_of src ''customer_revenue_ranking''
       ''Per-customer YTD revenue: invoice count + total (cents) + last-invoice timestamp.'' ''invoices'' customer_revenue_ranking,
     projection_of src ''supplier_spend_ranking''
       ''Per-supplier YTD spend: invoice count + total (cents) + last-invoice timestamp.'' ''supplier_invoices'' supplier_spend_ranking,
     projection_of src ''quotation_pipeline_summary''
       ''Quotation pipeline summary: count + total cents + average per status.'' ''sales_orders'' quotation_pipeline_summary,
     projection_of src ''ddt_throughput''
       ''DDT throughput per month (counts grouped by status).'' ''sales_orders'' ddt_throughput,
     projection_of src ''iva_periodic_balance''
       ''Monthly IVA liquidation: sales tax - purchases tax (cents).'' ''mixed'' iva_periodic_balance,
     projection_of src ''employee_attendance_summary''
       ''Worked hours + days per employee per month (HR-lite reporting).'' ''attendances'' employee_attendance_summary,
     projection_of src ''leave_balance_summary''
       ''Per-employee leave balance by type (approved + pending days).'' ''leave_requests'' leave_balance_summary,
     projection_of src ''intrastat_monthly_summary''
       ''INTRA-1bis + INTRA-2bis monthly summary: per-period totals, line counts, status mix.'' ''mixed'' intrastat_monthly_summary,
     projection_of src ''inventory_stock_snapshot''
       ''Per-(warehouse, product) stock level snapshot.'' ''inventory'' inventory_stock_snapshot]"

section \<open>Tables\<close>

record bi_row = entity +
  br_projectionId :: string
  br_key :: string
  br_payload :: payload
  br_version :: nat

datatype cursor_status = CursorIdle | CursorRunning | CursorFailed

record projection_cursor = entity +
  pjc_projectionId :: string
  pjc_lastProcessedAt :: "int option"
  pjc_rowsProjected :: nat
  pjc_status :: cursor_status
  pjc_lastError :: "string option"

record bi_db =
  readModelRows :: "bi_row list"
  projectionCursors :: "projection_cursor list"

text \<open>The unique index on tenant, projection and key.\<close>

definition row_index :: "bi_row \<Rightarrow> uuid \<times> string \<times> string" where
  "row_index r = (tenantId r, br_projectionId r, br_key r)"

definition index_unique :: "bi_row list \<Rightarrow> bool" where
  "index_unique rows \<longleftrightarrow> distinct (map row_index rows)"

section \<open>The projection that is not registered\<close>

definition benchmark_anonymous :: "int \<Rightarrow> bi_row list \<Rightarrow> projection_context \<Rightarrow> projection_result" where
  "benchmark_anonymous now table c =
     (let rows = filter (\<lambda>r. tenantId r = px_tenantId c \<and>
            br_projectionId r \<in> {''monthly_invoice_totals'', ''iva_periodic_balance'', ''customer_revenue_ranking''}) table;
          count_of = (\<lambda>p. JNum (of_nat (length (filter (\<lambda>r. br_projectionId r = p) rows))))
      in \<lparr>px_rows = [(''summary'',
            [(''monthlyInvoiceCount'', count_of ''monthly_invoice_totals''), (''ivaPeriods'', count_of ''iva_periodic_balance''),
             (''customerCount'', count_of ''customer_revenue_ranking''), (''computedAtIso'', JText (iso_time now))])],
          px_cursorAt = None\<rparr>)"

section \<open>Running a projection\<close>

definition read_model_entity :: "uuid \<Rightarrow> string \<Rightarrow> uuid \<Rightarrow> projection_row \<Rightarrow> bi_row" where
  "read_model_entity t p i r =
     \<lparr>ent_id = i, tenantId = t, br_projectionId = p, br_key = fst r, br_payload = snd r, br_version = 1\<rparr>"

definition save_chunk :: "bi_row list \<Rightarrow> (bi_db, unit) svc" where
  "save_chunk rows =
     bind (gets (\<lambda>s. save_rows rows (readModelRows s))) (\<lambda>table.
     seq (throw_if (\<not> index_unique table) PlainError)
     (modify (\<lambda>s. s\<lparr>readModelRows := table\<rparr>)))"

definition upsert_rows :: "(nat \<Rightarrow> uuid) \<Rightarrow> uuid \<Rightarrow> string \<Rightarrow> projection_result \<Rightarrow> (bi_db, unit) svc" where
  "upsert_rows newId t p result =
     (if px_rows result = [] then ret ()
      else transaction
        (seq (modify (\<lambda>s. s\<lparr>readModelRows := filter (\<lambda>r. \<not> (tenantId r = t \<and> br_projectionId r = p)) (readModelRows s)\<rparr>))
          (for_each save_chunk
            (chunks 500 (map (\<lambda>(n, r). read_model_entity t p (newId n) r) (enumerate 0 (px_rows result)))))))"

record run_result =
  rr_projectionId :: string
  rr_rowsProjected :: nat
  rr_cursorAt :: int

definition find_cursor :: "uuid \<Rightarrow> string \<Rightarrow> projection_cursor list \<Rightarrow> projection_cursor option" where
  "find_cursor t p cs = find (\<lambda>c. tenantId c = t \<and> pjc_projectionId c = p) cs"

definition running_cursor :: "uuid \<Rightarrow> uuid \<Rightarrow> string \<Rightarrow> projection_cursor option \<Rightarrow> projection_cursor" where
  "running_cursor i t p c =
     (case c of
        None \<Rightarrow> \<lparr>ent_id = i, tenantId = t, pjc_projectionId = p, pjc_lastProcessedAt = None, pjc_rowsProjected = 0,
          pjc_status = CursorRunning, pjc_lastError = None\<rparr>
      | Some c \<Rightarrow> c\<lparr>pjc_status := CursorRunning, pjc_lastError := None\<rparr>)"

definition save_cursor :: "projection_cursor \<Rightarrow> (bi_db, unit) svc" where
  "save_cursor c = modify (projectionCursors_update (save_row c))"

definition run_projection ::
  "int \<Rightarrow> uuid \<Rightarrow> (nat \<Rightarrow> uuid) \<Rightarrow> projection list \<Rightarrow> uuid \<Rightarrow> string \<Rightarrow> int option \<Rightarrow> int option \<Rightarrow> (bi_db, run_result) svc" where
  "run_projection now cursorId newId reg t p from_time to_time =
     bind (lift (projection_get reg p)) (\<lambda>projection.
     bind (gets (\<lambda>s. running_cursor cursorId t p (find_cursor t p (projectionCursors s)))) (\<lambda>cursor.
     seq (save_cursor cursor)
     (case pj_run projection \<lparr>px_tenantId = t, px_from = from_time, px_to = to_time\<rparr> of
        Inl message \<Rightarrow>
          seq (save_cursor (cursor\<lparr>pjc_status := CursorFailed, pjc_lastError := Some message\<rparr>)) (throw PlainError)
      | Inr result \<Rightarrow>
          seq (upsert_rows newId t p result)
          (let cursorAt = nullish (or_else (px_cursorAt result) to_time) now in
           seq (save_cursor (cursor\<lparr>pjc_lastProcessedAt := Some cursorAt, pjc_rowsProjected := length (px_rows result),
             pjc_status := CursorIdle, pjc_lastError := None\<rparr>))
           (ret \<lparr>rr_projectionId = p, rr_rowsProjected = length (px_rows result), rr_cursorAt = cursorAt\<rparr>)))))"

text \<open>A projection that fails is logged and the next one runs.\<close>

fun run_each :: "(string \<Rightarrow> (bi_db, run_result) svc) \<Rightarrow> projection list \<Rightarrow> (bi_db, run_result list) svc" where
  "run_each run [] = ret []"
| "run_each run (p # ps) = (\<lambda>s.
     case run (pj_id p) s of
       (Inl e, s') \<Rightarrow> run_each run ps s'
     | (Inr r, s') \<Rightarrow> bind (run_each run ps) (\<lambda>rs. ret (r # rs)) s')"

definition run_all ::
  "int \<Rightarrow> (string \<Rightarrow> uuid) \<Rightarrow> (string \<Rightarrow> nat \<Rightarrow> uuid) \<Rightarrow> projection list \<Rightarrow> uuid \<Rightarrow> int option \<Rightarrow> int option \<Rightarrow>
     (bi_db, run_result list) svc" where
  "run_all now cursorId newId reg t from_time to_time =
     run_each (\<lambda>p. run_projection now (cursorId p) (newId p) reg t p from_time to_time) (projection_list reg)"

section \<open>Reading\<close>

text \<open>\<^verbatim>\<open>s LIKE p\<close>, where a percent sign stands for any text and an underscore for one character.\<close>

fun sql_like :: "string \<Rightarrow> string \<Rightarrow> bool" where
  "sql_like [] s \<longleftrightarrow> s = []"
| "sql_like (p # ps) s \<longleftrightarrow>
     (if p = CHR ''%'' then list_ex (\<lambda>n. sql_like ps (drop n s)) [0..<Suc (length s)]
      else if p = CHR 0x5C
      then (case ps of [] \<Rightarrow> False | q # qs \<Rightarrow> (case s of [] \<Rightarrow> False | c # cs \<Rightarrow> c = q \<and> sql_like qs cs))
      else (case s of [] \<Rightarrow> False | c # cs \<Rightarrow> (p = CHR ''_'' \<or> c = p) \<and> sql_like ps cs))"

definition list_rows :: "uuid \<Rightarrow> string \<Rightarrow> string option \<Rightarrow> nat \<Rightarrow> bi_db \<Rightarrow> bi_row list" where
  "list_rows t p keyPrefix n s =
     take n (sort_key br_key
       (filter (\<lambda>r. tenantId r = t \<and> br_projectionId r = p \<and>
          (truthy keyPrefix \<longrightarrow> sql_like (the keyPrefix @ ''%'') (br_key r))) (readModelRows s)))"

definition get_cursor :: "uuid \<Rightarrow> string \<Rightarrow> bi_db \<Rightarrow> projection_cursor option" where
  "get_cursor t p s = find_cursor t p (projectionCursors s)"

end
