(* ===== verification/BiReports.thy ===== *)
theory BiReports
  imports BiReadModel
begin

text \<open>
  Dashboards and reports: the catalogue of dashboards (\<^verbatim>\<open>bi/dashboards/dashboards.catalog.ts\<close>,
  texts without accents), the data behind a dashboard, saved reports and their schedules
  (\<^verbatim>\<open>bi/report.service.ts\<close>), and the exporter (\<^verbatim>\<open>bi/report-exporter.service.ts\<close>). The body
  of a report is a JSON text that no operation reads; the printed form of a number is a parameter.
\<close>

section \<open>The catalogue\<close>

datatype persona = Marco | Sara | Luca | Giulia

datatype widget_type = Kpi | TimeSeries | TopN | BarPerStatus | Table

record dashboard_widget =
  wd_id :: string
  wd_title :: string
  wd_type :: widget_type
  wd_projectionId :: string
  wd_keyPrefix :: "string option"
  wd_field :: "string option"
  wd_limit :: "nat option"

record dashboard_manifest =
  ds_id :: string
  ds_persona :: persona
  ds_title :: string
  ds_description :: string
  ds_widgets :: "dashboard_widget list"

definition widget ::
  "string \<Rightarrow> string \<Rightarrow> widget_type \<Rightarrow> string \<Rightarrow> string option \<Rightarrow> nat option \<Rightarrow> dashboard_widget" where
  "widget i title type p field n =
     \<lparr>wd_id = i, wd_title = title, wd_type = type, wd_projectionId = p, wd_keyPrefix = None, wd_field = field, wd_limit = n\<rparr>"

definition dashboard :: "string \<Rightarrow> persona \<Rightarrow> string \<Rightarrow> string \<Rightarrow> dashboard_widget list \<Rightarrow> dashboard_manifest" where
  "dashboard i p title description ws =
     \<lparr>ds_id = i, ds_persona = p, ds_title = title, ds_description = description, ds_widgets = ws\<rparr>"

text \<open>The rows that are mapped to dashboards of one widget, named by the part of the id after the slash.\<close>

definition row_dashboard ::
  "persona \<Rightarrow> string \<Rightarrow> string \<Rightarrow> string \<Rightarrow> string \<Rightarrow> widget_type \<Rightarrow> string option \<Rightarrow> dashboard_manifest" where
  "row_dashboard p i title description projectionId type field =
     dashboard i p title description
       [widget (split_at_char CHR ''/'' i ! 1) title type projectionId field (if type = TopN then Some 10 else None)]"

definition MARCO_DASHBOARDS :: "dashboard_manifest list" where
  "MARCO_DASHBOARDS =
    [dashboard ''marco/revenue_overview'' Marco ''Andamento fatturato'' ''Fatturato mensile, IVA, marginalita.''
       [widget ''rev_monthly'' ''Fatturato mensile'' TimeSeries ''monthly_invoice_totals'' (Some ''totalCents'') None,
        widget ''iva_monthly'' ''IVA periodica'' TimeSeries ''iva_periodic_balance'' (Some ''balanceCents'') None],
     dashboard ''marco/top_customers'' Marco ''Top clienti YTD'' ''I 10 clienti per fatturato YTD.''
       [widget ''cust_top10'' ''Top 10 clienti'' TopN ''customer_revenue_ranking'' (Some ''totalCents'') (Some 10)],
     dashboard ''marco/top_suppliers'' Marco ''Top fornitori YTD'' ''I 10 fornitori per spesa YTD.''
       [widget ''sup_top10'' ''Top 10 fornitori'' TopN ''supplier_spend_ranking'' (Some ''totalCents'') (Some 10)],
     dashboard ''marco/pipeline'' Marco ''Pipeline vendite'' ''Stati preventivi + valore totale.''
       [widget ''pipeline_status'' ''Preventivi per stato'' BarPerStatus ''quotation_pipeline_summary'' (Some ''totalCents'') None],
     dashboard ''marco/intrastat'' Marco ''Intrastat'' ''Cessioni e acquisti intracomunitari per mese.''
       [widget ''intra_monthly'' ''Intrastat mensile'' TimeSeries ''intrastat_monthly_summary'' (Some ''cessioniValueCents'') None],
     dashboard ''marco/iva_balance'' Marco ''Liquidazione IVA'' ''Bilancio IVA mensile (vendite - acquisti).''
       [widget ''iva_balance'' ''IVA da versare/credito'' TimeSeries ''iva_periodic_balance'' (Some ''balanceCents'') None],
     dashboard ''marco/ddt_flow'' Marco ''DDT mensili'' ''Flusso DDT per mese e stato.''
       [widget ''ddt_monthly'' ''DDT per stato'' BarPerStatus ''ddt_throughput'' None None],
     dashboard ''marco/hr_overview'' Marco ''Costo del lavoro (snapshot)'' ''Ore lavorate aggregate.''
       [widget ''hr_workedhours'' ''Ore lavorate / mese'' TimeSeries ''employee_attendance_summary'' (Some ''workedHours'') None],
     dashboard ''marco/leave_overview'' Marco ''Ferie + permessi pendenti'' ''Saldo ferie + permessi, pendenti vs approvati.''
       [widget ''leave_balance'' ''Saldo ferie + permessi'' Table ''leave_balance_summary'' None None],
     dashboard ''marco/inventory'' Marco ''Magazzino - snapshot'' ''Valore + giacenze magazzino corrente.''
       [widget ''inv_snapshot'' ''Giacenze per magazzino'' Table ''inventory_stock_snapshot'' None None]]"

definition SARA_DASHBOARDS :: "dashboard_manifest list" where
  "SARA_DASHBOARDS =
    [row_dashboard Sara ''sara/iva_close'' ''Chiusura IVA mensile'' ''Bilancio IVA per chiusura periodica.'' ''iva_periodic_balance'' TimeSeries (Some ''balanceCents''),
     row_dashboard Sara ''sara/sales_recap'' ''Riepilogo vendite'' ''Fatturato + IVA per mese.'' ''monthly_invoice_totals'' TimeSeries (Some ''totalCents''),
     row_dashboard Sara ''sara/purchases_recap'' ''Riepilogo acquisti'' ''Fatture passive per mese.'' ''monthly_supplier_invoice_totals'' TimeSeries (Some ''totalCents''),
     row_dashboard Sara ''sara/customers_top'' ''Clienti per fatturato'' ''Top clienti.'' ''customer_revenue_ranking'' TopN (Some ''totalCents''),
     row_dashboard Sara ''sara/suppliers_top'' ''Fornitori per spesa'' ''Top fornitori.'' ''supplier_spend_ranking'' TopN (Some ''totalCents''),
     row_dashboard Sara ''sara/intrastat_period'' ''Intrastat periodica'' ''Aggregato Intrastat mensile.'' ''intrastat_monthly_summary'' TimeSeries (Some ''cessioniValueCents''),
     row_dashboard Sara ''sara/quotation_pipeline'' ''Pipeline preventivi'' ''Stati preventivi.'' ''quotation_pipeline_summary'' BarPerStatus (Some ''totalCents''),
     row_dashboard Sara ''sara/ddt_flow'' ''Flusso DDT'' ''DDT per stato e mese.'' ''ddt_throughput'' BarPerStatus None,
     row_dashboard Sara ''sara/leave_pending'' ''Ferie pendenti'' ''Permessi e ferie da approvare.'' ''leave_balance_summary'' Table (Some ''pendingDays''),
     row_dashboard Sara ''sara/inventory_value'' ''Valore magazzino'' ''Snapshot giacenze.'' ''inventory_stock_snapshot'' Table (Some ''quantity'')]"

definition LUCA_DASHBOARDS :: "dashboard_manifest list" where
  "LUCA_DASHBOARDS =
    [row_dashboard Luca ''luca/inventory_snapshot'' ''Snapshot magazzino'' ''Giacenze correnti.'' ''inventory_stock_snapshot'' Table None,
     row_dashboard Luca ''luca/ddt_outbound'' ''DDT in uscita'' ''Flusso DDT outbound.'' ''ddt_throughput'' BarPerStatus None,
     row_dashboard Luca ''luca/work_orders_volume'' ''Volume produttivo'' ''Carico produttivo mensile (proxy: DDT throughput).'' ''ddt_throughput'' TimeSeries None,
     row_dashboard Luca ''luca/quotation_demand'' ''Domanda da preventivi'' ''Pipeline da pre-vendita.'' ''quotation_pipeline_summary'' BarPerStatus None,
     row_dashboard Luca ''luca/team_attendance'' ''Presenze team'' ''Ore lavorate / mese.'' ''employee_attendance_summary'' TimeSeries None,
     row_dashboard Luca ''luca/leave_planner'' ''Pianificazione ferie'' ''Saldo permessi/ferie.'' ''leave_balance_summary'' Table None,
     row_dashboard Luca ''luca/customer_spend'' ''Top clienti'' ''Per pianificare priorita produttive.'' ''customer_revenue_ranking'' TopN None,
     row_dashboard Luca ''luca/supplier_spend'' ''Spesa fornitori'' ''Per gestire approvvigionamenti.'' ''supplier_spend_ranking'' TopN None,
     row_dashboard Luca ''luca/sales_total'' ''Fatturato vendite'' ''Trend per pianificazione.'' ''monthly_invoice_totals'' TimeSeries None,
     row_dashboard Luca ''luca/purchase_total'' ''Spesa acquisti'' ''Trend acquisti / pianificazione MRP.'' ''monthly_supplier_invoice_totals'' TimeSeries None]"

definition GIULIA_DASHBOARDS :: "dashboard_manifest list" where
  "GIULIA_DASHBOARDS =
    [row_dashboard Giulia ''giulia/stock_snapshot'' ''Giacenze per magazzino'' ''Snapshot stock (warehouse x prodotto).'' ''inventory_stock_snapshot'' Table None,
     row_dashboard Giulia ''giulia/ddt_pipeline'' ''Pipeline DDT'' ''DDT in transito / consegnati.'' ''ddt_throughput'' BarPerStatus None,
     row_dashboard Giulia ''giulia/customer_priority'' ''Priorita clienti'' ''Top clienti per fatturato.'' ''customer_revenue_ranking'' TopN None,
     row_dashboard Giulia ''giulia/purchases_history'' ''Storico acquisti'' ''Andamento acquisti.'' ''monthly_supplier_invoice_totals'' TimeSeries None,
     row_dashboard Giulia ''giulia/team_attendance'' ''Presenze magazzino'' ''Ore di reparto.'' ''employee_attendance_summary'' TimeSeries None,
     row_dashboard Giulia ''giulia/leave_team'' ''Ferie team'' ''Pianificazione ferie reparto.'' ''leave_balance_summary'' Table None,
     row_dashboard Giulia ''giulia/quotation_signal'' ''Segnale preventivi'' ''Pipeline preventivi (quanti accettati = preparare merce).'' ''quotation_pipeline_summary'' BarPerStatus None,
     row_dashboard Giulia ''giulia/intrastat'' ''Movimenti intra-EU'' ''Cessioni intracomunitarie.'' ''intrastat_monthly_summary'' TimeSeries None,
     row_dashboard Giulia ''giulia/sales_trend'' ''Trend vendite'' ''Per anticipare carichi spedizione.'' ''monthly_invoice_totals'' TimeSeries None,
     row_dashboard Giulia ''giulia/iva_balance'' ''Bilancio IVA'' ''Per allineamento con Sara.'' ''iva_periodic_balance'' TimeSeries None]"

definition DASHBOARD_CATALOG :: "dashboard_manifest list" where
  "DASHBOARD_CATALOG = MARCO_DASHBOARDS @ SARA_DASHBOARDS @ LUCA_DASHBOARDS @ GIULIA_DASHBOARDS"

section \<open>Dashboards\<close>

definition list_dashboards :: "persona option \<Rightarrow> dashboard_manifest list" where
  "list_dashboards p =
     (case p of None \<Rightarrow> DASHBOARD_CATALOG | Some p \<Rightarrow> filter (\<lambda>d. ds_persona d = p) DASHBOARD_CATALOG)"

definition get_dashboard :: "string \<Rightarrow> http_error + dashboard_manifest" where
  "get_dashboard i = (case find (\<lambda>d. ds_id d = i) DASHBOARD_CATALOG of None \<Rightarrow> Inl NotFound | Some d \<Rightarrow> Inr d)"

record widget_data =
  wdt_widgetId :: string
  wdt_projectionId :: string
  wdt_rows :: "bi_row list"

definition resolve_dashboard_data :: "uuid \<Rightarrow> string \<Rightarrow> (bi_db, dashboard_manifest \<times> widget_data list) svc" where
  "resolve_dashboard_data t dashboardId =
     bind (lift (get_dashboard dashboardId)) (\<lambda>d.
     gets (\<lambda>s. (d, map (\<lambda>w. \<lparr>wdt_widgetId = wd_id w, wdt_projectionId = wd_projectionId w,
       wdt_rows = list_rows t (wd_projectionId w) (wd_keyPrefix w) (nullish (wd_limit w) 1000) s\<rparr>) (ds_widgets d))))"

section \<open>Saved reports\<close>

datatype schedule_status = ScheduleActive | SchedulePaused | ScheduleFailed | ScheduleCancelled

datatype schedule_channel = ChannelEmail | ChannelPec

datatype export_format = FormatPdf | FormatXlsx | FormatCsv

record report_definition = entity +
  rd_name :: string
  rd_description :: "string option"
  rd_createdBy :: uuid
  rd_body :: string
  rd_isActive :: bool

record report_schedule = entity +
  rs_reportDefinitionId :: uuid
  rs_cronExpression :: string
  rs_timezone :: string
  rs_channel :: schedule_channel
  rs_recipients :: "string list"
  rs_format :: export_format
  rs_status :: schedule_status
  rs_nextRunAt :: "int option"
  rs_createdBy :: uuid

record report_db =
  reportDefinitions :: "report_definition list"
  reportSchedules :: "report_schedule list"

record report_input =
  ri_name :: string
  ri_description :: "string option"
  ri_body :: string

record schedule_input =
  shi_reportDefinitionId :: uuid
  shi_cronExpression :: string
  shi_timezone :: "string option"
  shi_channel :: schedule_channel
  shi_recipients :: "string list"
  shi_format :: export_format

text \<open>A deleted report keeps its row, and its name.\<close>

definition create_report :: "uuid \<Rightarrow> uuid \<Rightarrow> uuid \<Rightarrow> report_input \<Rightarrow> (report_db, report_definition) svc" where
  "create_report newId t actor dto =
     bind (gets (\<lambda>s. find (\<lambda>r. tenantId r = t \<and> rd_name r = ri_name dto) (reportDefinitions s))) (\<lambda>dup.
     seq (throw_if (dup \<noteq> None) Conflict)
     (let r = \<lparr>ent_id = newId, tenantId = t, rd_name = ri_name dto, rd_description = ri_description dto,
                rd_createdBy = actor, rd_body = ri_body dto, rd_isActive = True\<rparr>
      in seq (modify (reportDefinitions_update (save_row r))) (ret r)))"

definition list_reports :: "uuid \<Rightarrow> report_db \<Rightarrow> report_definition list" where
  "list_reports t s = sort_key rd_name (filter (\<lambda>r. tenantId r = t \<and> rd_isActive r) (reportDefinitions s))"

definition get_report :: "uuid \<Rightarrow> uuid \<Rightarrow> (report_db, report_definition) svc" where
  "get_report t i = bind (gets (\<lambda>s. find_scoped t i (reportDefinitions s))) (\<lambda>r. require r NotFound)"

definition update_report :: "uuid \<Rightarrow> uuid \<Rightarrow> string \<Rightarrow> (report_db, report_definition) svc" where
  "update_report t i body =
     bind (get_report t i) (\<lambda>r.
     seq (modify (reportDefinitions_update (save_row (r\<lparr>rd_body := body\<rparr>)))) (ret (r\<lparr>rd_body := body\<rparr>)))"

definition delete_report :: "uuid \<Rightarrow> uuid \<Rightarrow> (report_db, unit) svc" where
  "delete_report t i =
     bind (get_report t i) (\<lambda>r. modify (reportDefinitions_update (save_row (r\<lparr>rd_isActive := False\<rparr>))))"

text \<open>\<^verbatim>\<open>s.split(/\s+/)\<close>\<close>

function split_spaces :: "string \<Rightarrow> string list" where
  "split_spaces s =
     (let w = takeWhile (\<lambda>c. \<not> is_space c) s; r = dropWhile (\<lambda>c. \<not> is_space c) s
      in if r = [] then [w] else w # split_spaces (dropWhile is_space r))"
  by pat_completeness auto
termination
proof (relation "measure length")
  fix s :: string and w r
  assume r: "r = dropWhile (\<lambda>c. \<not> is_space c) s" and ne: "r \<noteq> []"
  have "is_space (hd r)" using hd_dropWhile [OF ne [unfolded r]] by (simp add: r)
  then have "dropWhile is_space r = dropWhile is_space (tl r)" using ne by (cases r) auto
  then have "length (dropWhile is_space r) < length r"
    using ne length_dropWhile_le [of is_space "tl r"] by (cases r) auto
  moreover have "length r \<le> length s" unfolding r by (rule length_dropWhile_le)
  ultimately show "(dropWhile is_space r, s) \<in> measure length" by simp
qed simp

definition is_valid_cron :: "string \<Rightarrow> bool" where
  "is_valid_cron expr \<longleftrightarrow> length (split_spaces (js_trim expr)) = 5"

text \<open>The expression is not looked at.\<close>

definition next_run_at :: "int \<Rightarrow> string \<Rightarrow> int" where
  "next_run_at now cronExpression = now + 24 * 60 * 60 * 1000"

definition create_schedule :: "int \<Rightarrow> uuid \<Rightarrow> uuid \<Rightarrow> uuid \<Rightarrow> schedule_input \<Rightarrow> (report_db, report_schedule) svc" where
  "create_schedule now newId t actor dto =
     seq (throw_if (shi_recipients dto = []) BadRequest)
     (seq (throw_if (\<not> is_valid_cron (shi_cronExpression dto)) BadRequest)
     (bind (get_report t (shi_reportDefinitionId dto)) (\<lambda>d.
      let x = \<lparr>ent_id = newId, tenantId = t, rs_reportDefinitionId = ent_id d,
                rs_cronExpression = shi_cronExpression dto, rs_timezone = nullish (shi_timezone dto) ''UTC'',
                rs_channel = shi_channel dto, rs_recipients = shi_recipients dto, rs_format = shi_format dto,
                rs_status = ScheduleActive, rs_nextRunAt = Some (next_run_at now (shi_cronExpression dto)), rs_createdBy = actor\<rparr>
      in seq (modify (reportSchedules_update (save_row x))) (ret x))))"

text \<open>Null times come last.\<close>

definition list_schedules ::
  "uuid \<Rightarrow> schedule_status option \<Rightarrow> uuid option \<Rightarrow> report_db \<Rightarrow> report_schedule list" where
  "list_schedules t status reportDefinitionId s =
     (let rows = filter (\<lambda>x. tenantId x = t \<and> (case status of None \<Rightarrow> True | Some v \<Rightarrow> rs_status x = v) \<and>
            (truthy reportDefinitionId \<longrightarrow> rs_reportDefinitionId x = the reportDefinitionId)) (reportSchedules s)
      in sort_key (\<lambda>x. the (rs_nextRunAt x)) (filter (\<lambda>x. rs_nextRunAt x \<noteq> None) rows) @
         filter (\<lambda>x. rs_nextRunAt x = None) rows)"

definition pause_schedule :: "uuid \<Rightarrow> uuid \<Rightarrow> (report_db, report_schedule) svc" where
  "pause_schedule t i =
     bind (gets (\<lambda>s. find_scoped t i (reportSchedules s))) (\<lambda>found.
     bind (require found NotFound) (\<lambda>x.
     let x' = x\<lparr>rs_status := SchedulePaused\<rparr> in
     seq (modify (reportSchedules_update (save_row x'))) (ret x')))"

definition resume_schedule :: "int \<Rightarrow> uuid \<Rightarrow> uuid \<Rightarrow> (report_db, report_schedule) svc" where
  "resume_schedule now t i =
     bind (gets (\<lambda>s. find_scoped t i (reportSchedules s))) (\<lambda>found.
     bind (require found NotFound) (\<lambda>x.
     let x' = x\<lparr>rs_status := ScheduleActive, rs_nextRunAt := Some (next_run_at now (rs_cronExpression x))\<rparr> in
     seq (modify (reportSchedules_update (save_row x'))) (ret x')))"

section \<open>Export\<close>

fun persona_text :: "persona \<Rightarrow> string" where
  "persona_text Marco = ''marco''"
| "persona_text Sara = ''sara''"
| "persona_text Luca = ''luca''"
| "persona_text Giulia = ''giulia''"

definition collect_headers :: "bi_row list \<Rightarrow> string list" where
  "collect_headers rows = sort (remdups (concat (map (\<lambda>r. map fst (br_payload r)) rows)))"

text \<open>\<^verbatim>\<open>JSON.stringify\<close> of the counters of an object, whose keys are labels of states.\<close>

definition counts_text :: "(string \<times> nat) list \<Rightarrow> string" where
  "counts_text counts =
     ''{'' @ join_with '','' (map (\<lambda>(k, n). CHR 0x22 # k @ CHR 0x22 # CHR '':'' # dec n) counts) @ ''}''"

definition format_cell :: "(jsnum \<Rightarrow> string) \<Rightarrow> json option \<Rightarrow> string" where
  "format_cell show_num v =
     (case v of None \<Rightarrow> [] | Some (JNum n) \<Rightarrow> show_num n | Some (JText s) \<Rightarrow> s | Some (JCounts c) \<Rightarrow> counts_text c)"

definition row_cells :: "(jsnum \<Rightarrow> string) \<Rightarrow> string list \<Rightarrow> bi_row \<Rightarrow> string list" where
  "row_cells show_num headers r = map (\<lambda>h. format_cell show_num (map_of (br_payload r) h)) headers"

definition csv_escape :: "string \<Rightarrow> string" where
  "csv_escape s =
     (if CHR '';'' \<in> set s \<or> CHR 0x22 \<in> set s \<or> CHR 0x0A \<in> set s
      then CHR 0x22 # replace_char CHR 0x22 [CHR 0x22, CHR 0x22] s @ [CHR 0x22] else s)"

definition csv_row :: "(jsnum \<Rightarrow> string) \<Rightarrow> string list \<Rightarrow> bi_row \<Rightarrow> string" where
  "csv_row show_num headers r =
     csv_escape (br_key r) @ '';'' @ join_with '';'' (map csv_escape (row_cells show_num headers r))"

definition csv_widget :: "(jsnum \<Rightarrow> string) \<Rightarrow> widget_data \<Rightarrow> string list" where
  "csv_widget show_num w =
     (let headers = collect_headers (wdt_rows w)
      in [''Widget;'' @ csv_escape (wdt_widgetId w), ''Projection;'' @ csv_escape (wdt_projectionId w),
          ''Key;'' @ join_with '';'' headers] @ map (csv_row show_num headers) (wdt_rows w) @ [[]])"

definition csv_lines :: "int \<Rightarrow> (jsnum \<Rightarrow> string) \<Rightarrow> dashboard_manifest \<Rightarrow> widget_data list \<Rightarrow> string list" where
  "csv_lines now show_num d ws =
     [''Dashboard;'' @ csv_escape (ds_title d), ''Persona;'' @ persona_text (ds_persona d), ''Generated;'' @ iso_time now, []] @
     concat (map (csv_widget show_num) ws)"

text \<open>\<^verbatim>\<open>id.replace(/[^a-z0-9]+/gi, '_')\<close>\<close>

definition alphanumeric :: "char \<Rightarrow> bool" where
  "alphanumeric c \<longleftrightarrow> is_upper c \<or> is_lower c \<or> is_digit c"

fun plain_name :: "bool \<Rightarrow> string \<Rightarrow> string" where
  "plain_name gap [] = []"
| "plain_name gap (c # cs) =
     (if alphanumeric c then c # plain_name False cs
      else if gap then plain_name True cs else CHR ''_'' # plain_name True cs)"

record export_output =
  xo_filename :: string
  xo_contentType :: string
  xo_body :: string

definition line_break :: string where
  "line_break = [CHR 0x0D, CHR 0x0A]"

definition export_dashboard_csv :: "int \<Rightarrow> (jsnum \<Rightarrow> string) \<Rightarrow> dashboard_manifest \<Rightarrow> widget_data list \<Rightarrow> export_output" where
  "export_dashboard_csv now show_num d ws =
     \<lparr>xo_filename = plain_name False (ds_id d) @ ''.csv'', xo_contentType = ''text/csv; charset=utf-8'',
      xo_body = join_with line_break (csv_lines now show_num d ws)\<rparr>"

definition safe_sheet_name :: "string \<Rightarrow> string" where
  "safe_sheet_name s = take 31 (map (\<lambda>c. if c \<in> set (CHR 0x5C # ''/:?*[]'') then CHR ''_'' else c) s)"

definition sheet_cell :: "string \<Rightarrow> string \<Rightarrow> string" where
  "sheet_cell type s = ''<Cell><Data ss:Type='' @ quoted type @ ''>'' @ esc_xml s @ ''</Data></Cell>''"

text \<open>Only numbers are cells of the type of numbers.\<close>

definition value_cell :: "(jsnum \<Rightarrow> string) \<Rightarrow> json option \<Rightarrow> string" where
  "value_cell show_num v =
     sheet_cell (case v of Some (JNum n) \<Rightarrow> ''Number'' | _ \<Rightarrow> ''String'') (format_cell show_num v)"

definition sheet_row :: "string list \<Rightarrow> string" where
  "sheet_row cells = ''<Row>'' @ concat cells @ ''</Row>''"

definition worksheet :: "(jsnum \<Rightarrow> string) \<Rightarrow> widget_data \<Rightarrow> string" where
  "worksheet show_num w =
     (let headers = collect_headers (wdt_rows w)
      in ''<Worksheet ss:Name='' @ quoted (esc_xml (safe_sheet_name (wdt_widgetId w))) @ ''><Table>'' @
         sheet_row (map (sheet_cell ''String'') (''Key'' # headers)) @
         concat (map (\<lambda>r. sheet_row (sheet_cell ''String'' (br_key r) #
           map (\<lambda>h. value_cell show_num (map_of (br_payload r) h)) headers)) (wdt_rows w)) @
         ''</Table></Worksheet>'')"

definition export_xlsx :: "(jsnum \<Rightarrow> string) \<Rightarrow> dashboard_manifest \<Rightarrow> widget_data list \<Rightarrow> export_output" where
  "export_xlsx show_num d ws =
     \<lparr>xo_filename = plain_name False (ds_id d) @ ''.xml'', xo_contentType = ''application/vnd.ms-excel; charset=utf-8'',
      xo_body = join_nl
        [''<?xml version='' @ quoted ''1.0'' @ '' encoding='' @ quoted ''UTF-8'' @ ''?>'',
         ''<?mso-application progid='' @ quoted ''Excel.Sheet'' @ ''?>'',
         ''<Workbook xmlns='' @ quoted ''urn:schemas-microsoft-com:office:spreadsheet'' @ '' xmlns:ss='' @
           quoted ''urn:schemas-microsoft-com:office:spreadsheet'' @ ''>'',
         join_nl (map (worksheet show_num) ws), ''</Workbook>'', []]\<rparr>"

text \<open>The long dash of the first line is no character of Latin-1: its low byte is written.\<close>

definition pdf_row :: "(jsnum \<Rightarrow> string) \<Rightarrow> string list \<Rightarrow> bi_row \<Rightarrow> string" where
  "pdf_row show_num headers r =
     br_key r @ '' | '' @ join_with '' | '' (map2 (\<lambda>h c. h @ ''='' @ c) headers (row_cells show_num headers r))"

definition pdf_widget :: "(jsnum \<Rightarrow> string) \<Rightarrow> widget_data \<Rightarrow> string list" where
  "pdf_widget show_num w =
     (''# '' @ wdt_widgetId w @ '' ('' @ wdt_projectionId w @ '')'') #
     map (pdf_row show_num (collect_headers (wdt_rows w))) (take 50 (wdt_rows w)) @ [[]]"

definition export_pdf :: "int \<Rightarrow> (jsnum \<Rightarrow> string) \<Rightarrow> dashboard_manifest \<Rightarrow> widget_data list \<Rightarrow> export_output" where
  "export_pdf now show_num d ws =
     \<lparr>xo_filename = plain_name False (ds_id d) @ ''.pdf'', xo_contentType = ''application/pdf'',
      xo_body = render_report_pdf
        ([''SmartERP '' @ [CHR 0x14] @ '' '' @ ds_title d, ''Persona: '' @ persona_text (ds_persona d),
          ''Generated: '' @ iso_time now, []] @ concat (map (pdf_widget show_num) ws))\<rparr>"

definition export_report ::
  "int \<Rightarrow> (jsnum \<Rightarrow> string) \<Rightarrow> dashboard_manifest \<Rightarrow> widget_data list \<Rightarrow> string \<Rightarrow> http_error + export_output" where
  "export_report now show_num d ws fmt =
     (if fmt = ''csv'' then Inr (export_dashboard_csv now show_num d ws)
      else if fmt = ''xlsx'' then Inr (export_xlsx show_num d ws)
      else if fmt = ''pdf'' then Inr (export_pdf now show_num d ws)
      else Inl BadRequest)"

end
