(* ===== verification/BiProps.thy ===== *)
theory BiProps
  imports BiReports PdfProps
begin

text \<open>
  Correctness of the reporting module. The entries of an accumulated map are, per key, the fold
  over the rows of that key, so the figures of a month are sums over the documents of the month.
  The locale \<open>projection_contract\<close> is what the orchestrator relies on: a projection yields one
  row per key, from the rows of the tenant alone. Every registered projection is an instance, so
  its run cannot fail on the unique index and replaces exactly its own rows.
\<close>

declare split_paired_All [simp del]

section \<open>Accumulated maps\<close>

lemma bump_lookup:
  "map_of (bump k d f m) x = (if x = k then Some (f (nullish (map_of m k) d)) else map_of m x)"
  by (induction m) (auto simp: nullish_def)

lemma bump_keys: "map fst (bump k d f m) = (if k \<in> fst ` set m then map fst m else map fst m @ [k])"
  by (induction m) (auto simp: image_iff, (metis fst_conv)+)

lemma accumulate_keys:
  "distinct (map fst m) \<Longrightarrow> distinct (map fst (accumulate_onto m key start step rows)) \<and>
     fst ` set (accumulate_onto m key start step rows) = fst ` set m \<union> key ` set rows"
proof (induction rows arbitrary: m)
  case (Cons r rows)
  have keys: "fst ` set (bump (key r) (start r) (step r) m) = insert (key r) (fst ` set m)"
    using arg_cong [OF bump_keys, of set "key r" "start r" "step r" m] by auto
  have "distinct (map fst (bump (key r) (start r) (step r) m))"
    using Cons.prems by (simp add: bump_keys)
  from Cons.IH [OF this] show ?case by (auto simp: accumulate_onto_def keys)
qed (simp add: accumulate_onto_def)

lemma accumulate_lookup:
  "map_of (accumulate_onto m key start step rows) k =
     (case filter (\<lambda>r. key r = k) rows of
        [] \<Rightarrow> map_of m k
      | r # rs \<Rightarrow> Some (foldl (\<lambda>v r. step r v) (nullish (map_of m k) (start r)) (r # rs)))"
proof (induction rows arbitrary: m)
  case (Cons r rows)
  have "accumulate_onto m key start step (r # rows) = accumulate_onto (bump (key r) (start r) (step r) m) key start step rows"
    by (simp add: accumulate_onto_def)
  then show ?case
    by (auto simp: Cons.IH bump_lookup nullish_def split: list.split)
qed (simp add: accumulate_onto_def)

lemma distinct_entry_rows: "map fst (entry_rows present m) = map fst m"
  by (simp add: entry_rows_def split_def)

lemma entry_rows_lookup: "map_of (entry_rows present m) k = map_option present (map_of m k)"
  by (induction m) (auto simp: entry_rows_def)

lemma sorted_entries:
  assumes "distinct (map fst m)"
  shows "distinct (map fst (sort_key f m))" and "map_of (sort_key f m) = map_of m"
proof -
  show d: "distinct (map fst (sort_key f m))" using assms by (simp add: distinct_map)
  show "map_of (sort_key f m) = map_of m" using map_of_inject_set [OF d assms] by simp
qed

lemma rows_by_key:
  assumes "distinct (map fst m)"
  shows "distinct (map fst (rows_by_key present m))" and "sorted (map fst (rows_by_key present m))"
    and "map_of (rows_by_key present m) k = map_option present (map_of m k)"
  using assms sorted_entries [of "entry_rows present m" fst]
  by (simp_all add: rows_by_key_def distinct_entry_rows entry_rows_lookup)

lemma rows_by_total: "distinct (map fst m) \<Longrightarrow> distinct (map fst (rows_by_total m))"
  by (simp add: rows_by_total_def distinct_entry_rows sorted_entries)

section \<open>The VAT balance of a month\<close>

lemma add_iva_sales:
  "foldl (\<lambda>v r. add_iva_sale r v) v rs =
     v\<lparr>vs_ivaSalesCents := foldl (\<lambda>s r. js_add s (rounded_cents (inv_taxAmount r))) (vs_ivaSalesCents v) rs\<rparr>"
  by (induction rs arbitrary: v) (simp_all add: add_iva_sale_def)

lemma add_iva_purchases:
  "foldl (\<lambda>v r. add_iva_purchase r v) v rs =
     v\<lparr>vs_ivaPurchasesCents := foldl (\<lambda>s r. js_add s (si_taxCents r)) (vs_ivaPurchasesCents v) rs\<rparr>"
  by (induction rs arbitrary: v) (simp_all add: add_iva_purchase_def)

lemma distinct_accumulate: "distinct (map fst (accumulate key start step rows))"
  using accumulate_keys [of "[]"] by auto

definition invoices_of_month :: "bi_source \<Rightarrow> projection_context \<Rightarrow> string \<Rightarrow> invoice list" where
  "invoices_of_month src c k = filter (\<lambda>i. month_key (invoice_day i) = k) (window_invoices src c)"

definition supplier_invoices_of_month :: "bi_source \<Rightarrow> projection_context \<Rightarrow> string \<Rightarrow> supplier_invoice list" where
  "supplier_invoices_of_month src c k = filter (\<lambda>i. month_key (supplier_invoice_day i) = k) (window_supplier_invoices src c)"

lemma add_totals_of_invoices:
  "foldl (\<lambda>v r. add_invoice_totals r v) v rs =
     \<lparr>mt_count = mt_count v + length rs,
      mt_subtotalCents = foldl (\<lambda>s r. js_add s (rounded_cents (inv_subtotalAmount r))) (mt_subtotalCents v) rs,
      mt_taxCents = foldl (\<lambda>s r. js_add s (rounded_cents (inv_taxAmount r))) (mt_taxCents v) rs,
      mt_totalCents = foldl (\<lambda>s r. js_add s (rounded_cents (inv_totalAmount r))) (mt_totalCents v) rs\<rparr>"
  by (induction rs arbitrary: v) (simp_all add: add_invoice_totals_def)

lemma invoice_totals_of_month:
  "map_of (px_rows (monthly_invoice_totals src c)) k =
     (let rs = invoices_of_month src c k in
      if rs = [] then None
      else Some (totals_payload \<lparr>mt_count = length rs,
        mt_subtotalCents = js_sum (\<lambda>r. rounded_cents (inv_subtotalAmount r)) rs,
        mt_taxCents = js_sum (\<lambda>r. rounded_cents (inv_taxAmount r)) rs,
        mt_totalCents = js_sum (\<lambda>r. rounded_cents (inv_totalAmount r)) rs\<rparr>))"
  by (auto simp: monthly_invoice_totals_def rows_by_key(3) [OF distinct_accumulate] accumulate_lookup invoices_of_month_def
      nullish_def add_totals_of_invoices no_totals_def js_sum_def Let_def simp del: foldl_Cons split: list.split)


section \<open>Storing the rows of a run\<close>

lemma save_chunks:
  assumes "keyed (readModelRows s @ concat cs)" and "index_unique (readModelRows s @ concat cs)"
  shows "for_each save_chunk cs s = (Inr (), s\<lparr>readModelRows := readModelRows s @ concat cs\<rparr>)"
  using assms
proof (induction cs arbitrary: s)
  case (Cons c cs)
  have "save_rows c (readModelRows s) = readModelRows s @ c"
    using Cons.prems(1) by (intro save_rows_fresh) (auto simp: keyed_def)
  moreover have "index_unique (readModelRows s @ c)" using Cons.prems(2) by (auto simp: index_unique_def)
  ultimately have "save_chunk c s = (Inr (), s\<lparr>readModelRows := readModelRows s @ c\<rparr>)"
    by (simp add: save_chunk_def svc_defs)
  then show ?case using Cons.IH [of "s\<lparr>readModelRows := readModelRows s @ c\<rparr>"] Cons.prems
    by (simp add: seq_def bind_def)
qed (simp add: ret_def)

abbreviation own_rows :: "uuid \<Rightarrow> string \<Rightarrow> bi_row list \<Rightarrow> bi_row list" where
  "own_rows t p rows \<equiv> filter (\<lambda>r. tenantId r = t \<and> br_projectionId r = p) rows"

abbreviation other_rows :: "uuid \<Rightarrow> string \<Rightarrow> bi_row list \<Rightarrow> bi_row list" where
  "other_rows t p rows \<equiv> filter (\<lambda>r. \<not> (tenantId r = t \<and> br_projectionId r = p)) rows"

definition stored_rows :: "(nat \<Rightarrow> uuid) \<Rightarrow> uuid \<Rightarrow> string \<Rightarrow> projection_row list \<Rightarrow> bi_row list" where
  "stored_rows newId t p rows = map (\<lambda>(n, r). read_model_entity t p (newId n) r) (enumerate 0 rows)"

lemma stored_rows_eq:
  "stored_rows newId t p rows = map (\<lambda>n. read_model_entity t p (newId n) (rows ! n)) [0..<length rows]"
  unfolding stored_rows_def by (rule nth_equalityI) (simp_all add: nth_enumerate_eq)

lemma stored_rows_simps:
  "map (\<lambda>r. (br_key r, br_payload r)) (stored_rows newId t p rows) = rows"
  "map ent_id (stored_rows newId t p rows) = map newId [0..<length rows]"
  "map row_index (stored_rows newId t p rows) = map (\<lambda>r. (t, p, fst r)) rows"
  "own_rows t p (stored_rows newId t p rows) = stored_rows newId t p rows"
  "other_rows t p (stored_rows newId t p rows) = []"
proof -
  show "map (\<lambda>r. (br_key r, br_payload r)) (stored_rows newId t p rows) = rows"
    "map ent_id (stored_rows newId t p rows) = map newId [0..<length rows]"
    "map row_index (stored_rows newId t p rows) = map (\<lambda>r. (t, p, fst r)) rows"
    by (rule nth_equalityI; simp add: stored_rows_eq read_model_entity_def row_index_def)+
  show "own_rows t p (stored_rows newId t p rows) = stored_rows newId t p rows"
    "other_rows t p (stored_rows newId t p rows) = []"
    by (auto simp: stored_rows_eq read_model_entity_def filter_empty_conv filter_id_conv)
qed

lemma disjoint_range: "(\<And>n. f n \<notin> A) \<Longrightarrow> B \<subseteq> range f \<Longrightarrow> A \<inter> B = {}"
  by blast

lemma disjoint_complement: "A \<subseteq> - C \<Longrightarrow> B \<subseteq> C \<Longrightarrow> A \<inter> B = {}"
  by blast

lemma upsert_rows_result:
  assumes "keyed (readModelRows s)" and "index_unique (readModelRows s)" and "fresh_ids newId (readModelRows s)"
    and "distinct (map fst (px_rows result))" and ne: "px_rows result \<noteq> []"
  shows "upsert_rows newId t p result s =
    (Inr (), s\<lparr>readModelRows := other_rows t p (readModelRows s) @ stored_rows newId t p (px_rows result)\<rparr>)"
    and "keyed (other_rows t p (readModelRows s) @ stored_rows newId t p (px_rows result))"
    and "index_unique (other_rows t p (readModelRows s) @ stored_rows newId t p (px_rows result))"
proof -
  let ?new = "stored_rows newId t p (px_rows result)" and ?s = "s\<lparr>readModelRows := other_rows t p (readModelRows s)\<rparr>"
  have ids: "ent_id ` set ?new \<subseteq> range newId"
    unfolding set_map [symmetric] stored_rows_simps(2) by auto
  have "newId n \<notin> ent_id ` set (other_rows t p (readModelRows s))" for n
    using assms(3) by (auto simp: fresh_ids_def)
  then have "ent_id ` set (other_rows t p (readModelRows s)) \<inter> ent_id ` set ?new = {}"
    by (rule disjoint_range) (rule ids)
  moreover have "distinct (map ent_id ?new)"
    using assms(3) by (auto simp: stored_rows_simps(2) fresh_ids_def distinct_map intro: inj_on_subset)
  ultimately show k: "keyed (other_rows t p (readModelRows s) @ ?new)"
    using assms(1) by (simp add: keyed_def distinct_map_filter)
  have keys: "row_index ` set ?new \<subseteq> {(t, p, k) | k. True}"
    unfolding set_map [symmetric] stored_rows_simps(3) by auto
  have "row_index ` set (other_rows t p (readModelRows s)) \<subseteq> - {(t, p, k) | k. True}"
    by (auto simp: row_index_def)
  then have "row_index ` set (other_rows t p (readModelRows s)) \<inter> row_index ` set ?new = {}"
    by (rule disjoint_complement) (rule keys)
  moreover have "distinct (map row_index ?new)"
    using assms(4) by (simp add: stored_rows_simps(3) distinct_map inj_on_def)
  ultimately show u: "index_unique (other_rows t p (readModelRows s) @ ?new)"
    using assms(2) by (simp add: index_unique_def distinct_map_filter)
  have "for_each save_chunk (chunks 500 ?new) ?s = (Inr (), ?s\<lparr>readModelRows := readModelRows ?s @ concat (chunks 500 ?new)\<rparr>)"
    by (rule save_chunks) (use k u in \<open>simp_all add: concat_chunks\<close>)
  then show "upsert_rows newId t p result s = (Inr (), s\<lparr>readModelRows := other_rows t p (readModelRows s) @ ?new\<rparr>)"
    using ne by (simp add: upsert_rows_def stored_rows_def [symmetric] svc_defs concat_chunks)
qed

section \<open>What the orchestrator relies on\<close>

text \<open>No stock level is listed twice and the identifiers hold no colon.\<close>

definition sound_stock :: "bi_source \<Rightarrow> uuid \<Rightarrow> bool" where
  "sound_stock src t \<longleftrightarrow>
     (let levels = filter (\<lambda>s. tenantId s = t) (bs_stockLevels src)
      in distinct (map (\<lambda>s. (sl_warehouseId s, sl_productId s)) levels) \<and>
         list_all (\<lambda>s. CHR '':'' \<notin> set (sl_warehouseId s)) levels)"

text \<open>The tables without the rows of other tenants.\<close>

definition only_tenant :: "uuid \<Rightarrow> bi_source \<Rightarrow> bi_source" where
  "only_tenant t src =
     \<lparr>bs_invoices = filter (\<lambda>r. tenantId r = t) (bs_invoices src),
      bs_supplierInvoices = filter (\<lambda>r. tenantId r = t) (bs_supplierInvoices src),
      bs_quotations = filter (\<lambda>r. tenantId r = t) (bs_quotations src),
      bs_ddts = filter (\<lambda>r. tenantId r = t) (bs_ddts src),
      bs_attendances = filter (\<lambda>r. tenantId r = t) (bs_attendances src),
      bs_leaveRequests = filter (\<lambda>r. tenantId r = t) (bs_leaveRequests src),
      bs_declarations = filter (\<lambda>r. tenantId r = t) (bs_declarations src),
      bs_stockLevels = filter (\<lambda>r. tenantId r = t) (bs_stockLevels src),
      bs_leaveUpdatedAt = bs_leaveUpdatedAt src\<rparr>"

locale projection_contract =
  fixes run_of :: "bi_source \<Rightarrow> projection_context \<Rightarrow> projection_result"
  assumes one_row_per_key: "sound_stock src (px_tenantId c) \<Longrightarrow> distinct (map fst (px_rows (run_of src c)))"
    and own_documents: "run_of (only_tenant (px_tenantId c) src) c = run_of src c"
    and no_anchor: "px_cursorAt (run_of src c) = None"
begin

lemma run_succeeds:
  fixes from_time to_time :: "int option" and cursorId :: uuid and s :: bi_db
  assumes reg: "projection_get reg p = Inr (projection_of src p description origin run_of)"
    and stock: "sound_stock src t"
    and table: "keyed (readModelRows s)" "index_unique (readModelRows s)" "fresh_ids newId (readModelRows s)"
  defines "rows \<equiv> px_rows (run_of src \<lparr>px_tenantId = t, px_from = from_time, px_to = to_time\<rparr>)"
    and "cursor \<equiv> running_cursor cursorId t p (find_cursor t p (projectionCursors s))"
  shows "run_projection now cursorId newId reg t p from_time to_time s =
    (Inr \<lparr>rr_projectionId = p, rr_rowsProjected = length rows, rr_cursorAt = nullish to_time now\<rparr>,
     \<lparr>readModelRows = (if rows = [] then readModelRows s
        else other_rows t p (readModelRows s) @ stored_rows newId t p rows),
      projectionCursors = save_row (cursor\<lparr>pjc_lastProcessedAt := Some (nullish to_time now), pjc_rowsProjected := length rows,
        pjc_status := CursorIdle, pjc_lastError := None\<rparr>) (projectionCursors s)\<rparr>)"
proof -
  let ?c = "\<lparr>px_tenantId = t, px_from = from_time, px_to = to_time\<rparr>"
  let ?s = "projectionCursors_update (save_row cursor) s"
  let ?table = "if rows = [] then readModelRows s else other_rows t p (readModelRows s) @ stored_rows newId t p rows"
  have "upsert_rows newId t p (run_of src ?c) ?s = (Inr (), ?s\<lparr>readModelRows := ?table\<rparr>)"
  proof (cases "rows = []")
    case True
    then show ?thesis by (simp add: upsert_rows_def ret_def rows_def [symmetric])
  next
    case False
    have "distinct (map fst (px_rows (run_of src ?c)))" using stock by (intro one_row_per_key) simp
    then show ?thesis using upsert_rows_result(1) [of ?s newId "run_of src ?c" t p] table False
      by (simp add: rows_def [symmetric])
  qed
  then show ?thesis
    using reg no_anchor [of src ?c]
    by (simp add: run_projection_def svc_defs projection_of_def save_cursor_def cursor_def [symmetric] rows_def [symmetric] Let_def
        or_else_def)
qed

end


section \<open>The registered projections\<close>

lemma only_tenant_windows [simp]:
  "window_invoices (only_tenant (px_tenantId c) src) c = window_invoices src c"
  "window_supplier_invoices (only_tenant (px_tenantId c) src) c = window_supplier_invoices src c"
  "window_quotations (only_tenant (px_tenantId c) src) c = window_quotations src c"
  "window_ddts (only_tenant (px_tenantId c) src) c = window_ddts src c"
  "window_attendances (only_tenant (px_tenantId c) src) c = window_attendances src c"
  "window_leaves (only_tenant (px_tenantId c) src) c = window_leaves src c"
  "monthly_declarations (only_tenant (px_tenantId c) src) c = monthly_declarations src c"
  by (simp_all add: only_tenant_def window_invoices_def window_supplier_invoices_def window_quotations_def window_ddts_def
      window_attendances_def window_leaves_def monthly_declarations_def)

lemmas grouped_rows = rows_by_key(1) rows_by_total distinct_accumulate distinct_entry_rows

interpretation invoice_totals: projection_contract monthly_invoice_totals
  by unfold_locales (simp_all add: monthly_invoice_totals_def grouped_rows)

interpretation supplier_totals: projection_contract monthly_supplier_invoice_totals
  by unfold_locales (simp_all add: monthly_supplier_invoice_totals_def grouped_rows)

interpretation customer_ranking: projection_contract customer_revenue_ranking
  by unfold_locales (simp_all add: customer_revenue_ranking_def grouped_rows)

interpretation supplier_ranking: projection_contract supplier_spend_ranking
  by unfold_locales (simp_all add: supplier_spend_ranking_def grouped_rows)

interpretation pipeline_summary: projection_contract quotation_pipeline_summary
  by unfold_locales (simp_all add: quotation_pipeline_summary_def grouped_rows)

interpretation throughput: projection_contract ddt_throughput
  by unfold_locales (simp_all add: ddt_throughput_def grouped_rows)

interpretation iva_balance: projection_contract iva_periodic_balance
  by unfold_locales (simp_all add: iva_periodic_balance_def grouped_rows accumulate_keys)

interpretation attendance_summary: projection_contract employee_attendance_summary
  by unfold_locales (simp_all add: employee_attendance_summary_def grouped_rows)

interpretation leave_summary: projection_contract leave_balance_summary
  by unfold_locales (simp_all add: leave_balance_summary_def only_tenant_def grouped_rows,
     simp add: window_leaves_def filter_filter)

interpretation intrastat_summary: projection_contract intrastat_monthly_summary
  by unfold_locales (simp_all add: intrastat_monthly_summary_def grouped_rows)

lemma joined_key: "CHR '':'' \<notin> set a \<Longrightarrow> CHR '':'' \<notin> set a' \<Longrightarrow> a @ '':'' @ b = a' @ '':'' @ b' \<longleftrightarrow> a = a' \<and> b = b'"
  by (auto simp: append_eq_append_conv2 Cons_eq_append_conv append_eq_Cons_conv)

interpretation stock_snapshot: projection_contract inventory_stock_snapshot
proof unfold_locales
  fix src :: bi_source and c :: projection_context
  let ?levels = "filter (\<lambda>s. tenantId s = px_tenantId c) (bs_stockLevels src)"
  assume "sound_stock src (px_tenantId c)"
  then have levels: "distinct ?levels" "inj_on (\<lambda>s. (sl_warehouseId s, sl_productId s)) (set ?levels)"
    "\<forall>s\<in>set ?levels. CHR '':'' \<notin> set (sl_warehouseId s)"
    unfolding sound_stock_def Let_def distinct_map list_all_iff by blast+
  have "inj_on (\<lambda>s. sl_warehouseId s @ '':'' @ sl_productId s) (set ?levels)"
  proof (rule inj_onI)
    fix a b
    assume in_levels: "a \<in> set ?levels" "b \<in> set ?levels"
      and eq: "sl_warehouseId a @ '':'' @ sl_productId a = sl_warehouseId b @ '':'' @ sl_productId b"
    have "sl_warehouseId a = sl_warehouseId b \<and> sl_productId a = sl_productId b"
      using joined_key [THEN iffD1, OF _ _ eq] levels(3) in_levels by simp
    then show "a = b" using inj_onD [OF levels(2), of a b] in_levels by simp
  qed
  then show "distinct (map fst (px_rows (inventory_stock_snapshot src c)))"
    using levels(1) by (simp add: inventory_stock_snapshot_def stock_row_def comp_def distinct_map)
qed (simp_all add: inventory_stock_snapshot_def only_tenant_def)

definition meets_contract :: "bi_source \<Rightarrow> projection \<Rightarrow> bool" where
  "meets_contract src q \<longleftrightarrow> (\<exists>i description origin f. q = projection_of src i description origin f \<and> projection_contract f)"

lemma projection_of_meets_contract: "projection_contract f \<Longrightarrow> meets_contract src (projection_of src i description origin f)"
  by (auto simp: meets_contract_def)

lemma providers_meet_contract: "list_all (meets_contract src) (PROJECTION_PROVIDERS src)"
  by (simp add: PROJECTION_PROVIDERS_def projection_of_meets_contract
      invoice_totals.projection_contract_axioms supplier_totals.projection_contract_axioms
      customer_ranking.projection_contract_axioms supplier_ranking.projection_contract_axioms
      pipeline_summary.projection_contract_axioms throughput.projection_contract_axioms
      iva_balance.projection_contract_axioms attendance_summary.projection_contract_axioms
      leave_summary.projection_contract_axioms intrastat_summary.projection_contract_axioms
      stock_snapshot.projection_contract_axioms)

lemma provider_ids: "map pj_id (PROJECTION_PROVIDERS src) =
    [''monthly_invoice_totals'', ''monthly_supplier_invoice_totals'', ''customer_revenue_ranking'', ''supplier_spend_ranking'',
     ''quotation_pipeline_summary'', ''ddt_throughput'', ''iva_periodic_balance'', ''employee_attendance_summary'',
     ''leave_balance_summary'', ''intrastat_monthly_summary'', ''inventory_stock_snapshot'']"
  by (simp add: PROJECTION_PROVIDERS_def projection_of_def)

lemma distinct_provider_ids: "distinct (map pj_id (PROJECTION_PROVIDERS src))"
  unfolding provider_ids by code_simp

lemma projection_get_provider:
  "q \<in> set (PROJECTION_PROVIDERS src) \<Longrightarrow> projection_get (PROJECTION_PROVIDERS src) (pj_id q) = Inr q"
  by (simp add: projection_get_def find_Some_iff_keyed [OF distinct_provider_ids, THEN iffD2])

lemma register_all_distinct:
  "distinct (map pj_id (known @ ps)) \<Longrightarrow> register_all known ps = Inr (known @ ps)"
  by (induction ps arbitrary: known) auto

lemma registry_providers: "registry (PROJECTION_PROVIDERS src) = Inr (PROJECTION_PROVIDERS src)"
  unfolding registry_def using register_all_distinct [of "[]" "PROJECTION_PROVIDERS src"] distinct_provider_ids by simp


lemma projections_read_own_documents:
  "map (\<lambda>q. pj_run q c) (PROJECTION_PROVIDERS (only_tenant (px_tenantId c) src)) = map (\<lambda>q. pj_run q c) (PROJECTION_PROVIDERS src)"
  by (simp add: PROJECTION_PROVIDERS_def projection_of_def invoice_totals.own_documents supplier_totals.own_documents
      customer_ranking.own_documents supplier_ranking.own_documents pipeline_summary.own_documents throughput.own_documents
      iva_balance.own_documents attendance_summary.own_documents leave_summary.own_documents intrastat_summary.own_documents
      stock_snapshot.own_documents)

text \<open>
  C32. Running a registered projection succeeds when the stock levels are listed once each: the
  rows stored for this tenant and projection become exactly the rows the projection yields, in
  their order, or stay as they were when it yields none. The rows of every other tenant and
  projection are left alone, and there is still one row per tenant, projection and key.
\<close>

theorem projection_run_replaces_its_rows:
  assumes "q \<in> set (PROJECTION_PROVIDERS src)" and "sound_stock src t"
    and "keyed (readModelRows s)" and "index_unique (readModelRows s)" and "fresh_ids newId (readModelRows s)"
  shows "let p = pj_id q; rows = px_rows (projr (pj_run q \<lparr>px_tenantId = t, px_from = from_time, px_to = to_time\<rparr>));
      (r, s') = run_projection now cursorId newId (PROJECTION_PROVIDERS src) t p from_time to_time s
    in r = Inr \<lparr>rr_projectionId = p, rr_rowsProjected = length rows, rr_cursorAt = nullish to_time now\<rparr> \<and>
       map (\<lambda>x. (br_key x, br_payload x)) (own_rows t p (readModelRows s')) =
         (if rows = [] then map (\<lambda>x. (br_key x, br_payload x)) (own_rows t p (readModelRows s)) else rows) \<and>
       other_rows t p (readModelRows s') = other_rows t p (readModelRows s) \<and>
       keyed (readModelRows s') \<and> index_unique (readModelRows s')"
proof -
  obtain i description origin f where q: "q = projection_of src i description origin f" and f: "projection_contract f"
    using providers_meet_contract [of src] assms(1) by (auto simp: list_all_iff meets_contract_def)
  let ?rows = "px_rows (f src \<lparr>px_tenantId = t, px_from = from_time, px_to = to_time\<rparr>)"
  have i: "pj_id q = i" and result: "pj_run q c = Inr (f src c)" for c by (simp_all add: q projection_of_def)
  have "projection_get (PROJECTION_PROVIDERS src) i = Inr (projection_of src i description origin f)"
    using projection_get_provider [OF assms(1)] i q by simp
  note run = projection_contract.run_succeeds [OF f this assms(2-5), of now cursorId from_time to_time]
  have "distinct (map fst ?rows)" using projection_contract.one_row_per_key [OF f, of src] assms(2) by simp
  note upsert = upsert_rows_result(2,3) [OF assms(3-5) this, of t i]
  show ?thesis
    using assms(3,4) upsert unfolding i result Let_def run
    by (auto simp: stored_rows_simps stored_rows_simps(5) [simplified])
qed

definition sample_stock :: stock_level where
  "sample_stock = \<lparr>ent_id = ''l1'', tenantId = ''t1'', sl_productId = ''p1'', sl_warehouseId = ''w1'', sl_onHand = 5,
     sl_reserved = 2, sl_onOrder = 0\<rparr>"

definition sample_source :: bi_source where
  "sample_source = \<lparr>bs_invoices = [], bs_supplierInvoices = [], bs_quotations = [], bs_ddts = [], bs_attendances = [],
     bs_leaveRequests = [], bs_declarations = [], bs_stockLevels = [sample_stock], bs_leaveUpdatedAt = (\<lambda>_. 0)\<rparr>"

definition sample_run :: "(http_error + run_result) \<times> bi_db" where
  "sample_run = run_projection 0 ''c1'' (sample_ids CHR ''r'') (PROJECTION_PROVIDERS sample_source) ''t1''
     ''inventory_stock_snapshot'' None None \<lparr>readModelRows = [], projectionCursors = []\<rparr>"

theorem projection_run_replaces_its_rows_witness:
  "map (\<lambda>x. (br_key x, br_payload x)) (own_rows ''t1'' ''inventory_stock_snapshot'' (readModelRows (snd sample_run))) =
     [stock_row sample_stock]"
proof -
  let ?q = "projection_of sample_source ''inventory_stock_snapshot'' ''Per-(warehouse, product) stock level snapshot.''
    ''inventory'' inventory_stock_snapshot"
  have q: "?q \<in> set (PROJECTION_PROVIDERS sample_source)" by (simp add: PROJECTION_PROVIDERS_def)
  have stock: "sound_stock sample_source ''t1''" by (simp add: sound_stock_def sample_source_def sample_stock_def)
  have rows: "px_rows (inventory_stock_snapshot sample_source \<lparr>px_tenantId = ''t1'', px_from = None, px_to = None\<rparr>) =
      [stock_row sample_stock]"
    by (simp add: inventory_stock_snapshot_def sample_source_def) (simp add: sample_stock_def)
  show ?thesis
    using projection_run_replaces_its_rows [OF q stock, of "\<lparr>readModelRows = [], projectionCursors = []\<rparr>"
        "sample_ids CHR ''r''" None None 0 "''c1''"] rows
    by (simp add: keyed_def index_unique_def Let_def split_def projection_of_def sample_run_def)
qed

section \<open>Dashboards\<close>

lemma catalog_checks:
  "distinct (map ds_id DASHBOARD_CATALOG)"
  "list_all (\<lambda>d. list_all (\<lambda>w. wd_projectionId w \<in> set
     [''monthly_invoice_totals'', ''monthly_supplier_invoice_totals'', ''customer_revenue_ranking'', ''supplier_spend_ranking'',
      ''quotation_pipeline_summary'', ''ddt_throughput'', ''iva_periodic_balance'', ''employee_attendance_summary'',
      ''leave_balance_summary'', ''intrastat_monthly_summary'', ''inventory_stock_snapshot'']) (ds_widgets d)) DASHBOARD_CATALOG"
  "map (\<lambda>p. length (list_dashboards (Some p))) [Marco, Sara, Luca, Giulia] = [10, 10, 10, 10]"
  by code_simp+

lemma get_dashboard_catalog: "d \<in> set DASHBOARD_CATALOG \<Longrightarrow> get_dashboard (ds_id d) = Inr d"
  by (simp add: get_dashboard_def find_Some_iff_keyed [OF catalog_checks(1), THEN iffD2])

lemma list_rows_of_projection:
  "list_all (\<lambda>r. tenantId r = t \<and> br_projectionId r = p) (list_rows t p k n s) \<and> sorted (map br_key (list_rows t p k n s)) \<and>
     length (list_rows t p k n s) \<le> n"
  by (auto simp: list_rows_def list_all_iff sorted_wrt_take take_map [symmetric] dest: in_set_takeD)

text \<open>
  The catalogue has forty dashboards under different names, ten for each persona, and each
  can be shown to every tenant: all its widgets name a registered projection and show rows of that
  tenant and projection in the order of their keys, at most as many as the widget asks for.
\<close>

theorem dashboards_can_be_shown:
  "map (\<lambda>p. length (list_dashboards (Some p))) [Marco, Sara, Luca, Giulia] = [10, 10, 10, 10] \<and>
   distinct (map ds_id DASHBOARD_CATALOG) \<and>
   list_all (\<lambda>d. \<exists>ws. resolve_dashboard_data t (ds_id d) s = (Inr (d, ws), s) \<and>
     list_all2 (\<lambda>w x. wdt_projectionId x = wd_projectionId w \<and>
       registry_has (PROJECTION_PROVIDERS src) (wd_projectionId w) \<and>
       list_all (\<lambda>r. tenantId r = t \<and> br_projectionId r = wd_projectionId w) (wdt_rows x) \<and>
       sorted (map br_key (wdt_rows x)) \<and> length (wdt_rows x) \<le> nullish (wd_limit w) 1000) (ds_widgets d) ws) DASHBOARD_CATALOG"
proof -
  have registered: "registry_has (PROJECTION_PROVIDERS src) (wd_projectionId w)"
    if "d \<in> set DASHBOARD_CATALOG" "w \<in> set (ds_widgets d)" for d w
    using catalog_checks(2) that unfolding registry_has_def set_map [symmetric] provider_ids list_all_iff by blast
  show ?thesis
    using catalog_checks(1,3) list_rows_of_projection
    by (auto simp: list_all_iff resolve_dashboard_data_def svc_defs get_dashboard_catalog list_all2_conv_all_nth registered)
qed

end
