(* ===== verification/BiExportProps.thy ===== *)
theory BiExportProps
  imports BiProps
begin

text \<open>
  Correctness of the CSV export, against a reader of files with semicolons, quoted fields and
  lines that end with carriage return and line feed.
\<close>

declare split_paired_All [simp del]

section \<open>A reader\<close>

text \<open>
  The arguments are whether the reader is inside quotes, the characters of the field and the
  fields of the record read so far, and what is left of the file.
\<close>

fun read_csv :: "bool \<Rightarrow> string \<Rightarrow> string list \<Rightarrow> string \<Rightarrow> string list list" where
  "read_csv q f r [] = [r @ [f]]"
| "read_csv True f r (c # cs) =
     (if c = CHR 0x22
      then (case cs of
              [] \<Rightarrow> [r @ [f]]
            | d # ds \<Rightarrow> if d = CHR 0x22 then read_csv True (f @ [d]) r ds else read_csv False f r cs)
      else read_csv True (f @ [c]) r cs)"
| "read_csv False f r (c # cs) =
     (if c = CHR 0x22 \<and> f = [] then read_csv True f r cs
      else if c = CHR '';'' then read_csv False [] (r @ [f]) cs
      else (case cs of
              [] \<Rightarrow> read_csv False (f @ [c]) r cs
            | d # ds \<Rightarrow> if c = CHR 0x0D \<and> d = CHR 0x0A then (r @ [f]) # read_csv False [] [] ds
                else read_csv False (f @ [c]) r cs))"

text \<open>What may follow a field: nothing, a semicolon or the end of the line.\<close>

definition field_end :: "string \<Rightarrow> bool" where
  "field_end s \<longleftrightarrow> s = [] \<or> hd s = CHR '';'' \<or> take 2 s = line_break"

lemma field_end_not: "field_end (c # s) \<Longrightarrow> c \<noteq> CHR 0x22 \<and> c \<noteq> CHR 0x0A"
  by (auto simp: field_end_def line_break_def)

lemma read_char:
  "c \<noteq> CHR '';'' \<Longrightarrow> c \<noteq> CHR 0x22 \<Longrightarrow> t = [] \<or> hd t \<noteq> CHR 0x0A \<Longrightarrow> read_csv False f r (c # t) = read_csv False (f @ [c]) r t"
  by (cases t) simp_all

lemma read_plain:
  "CHR '';'' \<notin> set s \<Longrightarrow> CHR 0x22 \<notin> set s \<Longrightarrow> CHR 0x0A \<notin> set s \<Longrightarrow> field_end t \<Longrightarrow>
     read_csv False f r (s @ t) = read_csv False (f @ s) r t"
proof (induction s arbitrary: f)
  case (Cons c s)
  have "s @ t = [] \<or> hd (s @ t) \<noteq> CHR 0x0A"
    using Cons.prems by (cases s; cases t) (auto dest: field_end_not)
  then have "read_csv False f r (c # s @ t) = read_csv False (f @ [c]) r (s @ t)"
    using Cons.prems by (intro read_char) auto
  then show ?case using Cons by simp
qed simp

lemma read_doubled:
  "field_end t \<Longrightarrow>
     read_csv True f r (replace_char CHR 0x22 [CHR 0x22, CHR 0x22] s @ CHR 0x22 # t) = read_csv False (f @ s) r t"
proof (induction s arbitrary: f)
  case Nil
  then show ?case by (cases t) (auto simp: replace_char_def dest: field_end_not)
next
  case (Cons c s)
  then show ?case by (simp add: replace_char_def)
qed

lemma read_field: "field_end t \<Longrightarrow> read_csv False [] r (csv_escape s @ t) = read_csv False s r t"
  using read_doubled [of t "[]" r s] read_plain [of s t "[]" r]
  by (auto simp: csv_escape_def)

lemma read_semicolon: "read_csv False f r (CHR '';'' # t) = read_csv False [] (r @ [f]) t"
  by simp

lemma read_line_end: "read_csv False f r (line_break @ t) = (r @ [f]) # read_csv False [] [] t"
  by (simp add: line_break_def)

section \<open>Lines\<close>

text \<open>The record of a line of fields; a line without fields is read as one empty field.\<close>

definition record_of :: "string list \<Rightarrow> string list" where
  "record_of cells = (if cells = [] then [[]] else cells)"

definition line_end :: "string \<Rightarrow> bool" where
  "line_end s \<longleftrightarrow> s = [] \<or> take 2 s = line_break"

lemma line_end_field: "line_end t \<Longrightarrow> field_end t"
  by (auto simp: line_end_def field_end_def)

text \<open>A line is read as its record: what the reader has read when the line ends.\<close>

definition reads_as :: "string \<Rightarrow> string list \<Rightarrow> bool" where
  "reads_as l fs \<longleftrightarrow> (\<forall>t. line_end t \<longrightarrow> read_csv False [] [] (l @ t) = read_csv False (last fs) (butlast fs) t)"

lemma reads_asD: "reads_as l fs \<Longrightarrow> line_end t \<Longrightarrow> read_csv False [] [] (l @ t) = read_csv False (last fs) (butlast fs) t"
  by (simp add: reads_as_def)

lemma read_cells:
  "line_end t \<Longrightarrow> read_csv False [] r (join_with '';'' (map csv_escape cells) @ t) =
     read_csv False (last (record_of cells)) (r @ butlast (record_of cells)) t"
proof (induction cells arbitrary: r)
  case (Cons a cs)
  then show ?case using read_field [OF line_end_field, of t r a]
    by (cases cs) (simp_all add: record_of_def read_field field_end_def)
qed (simp add: record_of_def)

lemma reads_as_cells: "reads_as (join_with '';'' (map csv_escape cells)) (record_of cells)"
  by (simp add: reads_as_def read_cells)

lemma reads_as_row: "reads_as (csv_escape k @ '';'' @ join_with '';'' (map csv_escape cells)) (k # record_of cells)"
  by (simp add: reads_as_def read_field field_end_def read_cells) (simp add: record_of_def)

definition plain_text :: "string \<Rightarrow> bool" where
  "plain_text s \<longleftrightarrow> CHR '';'' \<notin> set s \<and> CHR 0x22 \<notin> set s \<and> CHR 0x0A \<notin> set s"

lemma csv_escape_plain: "plain_text s \<Longrightarrow> csv_escape s = s"
  by (simp add: plain_text_def csv_escape_def)

lemma reads_as_labelled:
  assumes "plain_text label"
  shows "reads_as (label @ '';'' @ csv_escape s) [label, s]"
  using reads_as_row [of label "[s]"] assms by (simp add: csv_escape_plain record_of_def)

lemma reads_as_plain_fields:
  assumes "plain_text label" and "list_all plain_text fs"
  shows "reads_as (label @ '';'' @ join_with '';'' fs) (label # record_of fs)"
proof -
  have "map csv_escape fs = fs" using assms(2) by (simp add: list_all_iff csv_escape_plain map_idI)
  then show ?thesis using reads_as_row [of label fs] assms(1) by (simp add: csv_escape_plain)
qed

lemma reads_as_empty: "reads_as [] [[]]"
  by (simp add: reads_as_def)

lemma read_lines:
  assumes "list_all2 reads_as ls recs" and "ls \<noteq> []" and "list_all (\<lambda>r. r \<noteq> []) recs"
  shows "read_csv False [] [] (join_with line_break ls) = recs"
  using assms
proof (induction ls arbitrary: recs)
  case (Cons l ls)
  then obtain r recs' where recs: "recs = r # recs'" "reads_as l r" "r \<noteq> []" "list_all2 reads_as ls recs'"
    "list_all (\<lambda>r. r \<noteq> []) recs'" by (auto simp: list_all2_Cons1)
  show ?case
  proof (cases ls)
    case Nil
    have "read_csv False [] [] (l @ []) = [butlast r @ [last r]]"
      using reads_asD [OF recs(2), of "[]"] by (simp add: line_end_def)
    then show ?thesis using Nil recs by simp
  next
    case more: (Cons l' ls')
    have "line_end (line_break @ join_with line_break ls)" by (simp add: line_end_def line_break_def)
    from reads_asD [OF recs(2) this]
    have "read_csv False [] [] (l @ line_break @ join_with line_break ls) = (butlast r @ [last r]) # read_csv False [] [] (join_with line_break ls)"
      by (simp only: read_line_end)
    moreover have "read_csv False [] [] (join_with line_break ls) = recs'"
      using Cons.IH recs more by simp
    moreover have "join_with line_break (l # ls) = l @ line_break @ join_with line_break ls" using more by simp
    ultimately show ?thesis using recs by simp
  qed
qed simp

section \<open>The export\<close>

lemma set_pad_int: "c \<in> set (pad_int k n) \<Longrightarrow> is_digit c"
  unfolding pad_int_def by (rule pad_start_digits [OF dec_digits])

lemma plain_iso_time: "plain_text (iso_time t)"
  by (auto simp: plain_text_def iso_time_def iso_of_days_def Let_def split_def is_digit_def dest!: set_pad_int)

definition widget_records :: "(jsnum \<Rightarrow> string) \<Rightarrow> widget_data \<Rightarrow> string list list" where
  "widget_records show_num w =
     (let headers = collect_headers (wdt_rows w)
      in [[''Widget'', wdt_widgetId w], [''Projection'', wdt_projectionId w], ''Key'' # record_of headers] @
         map (\<lambda>r. br_key r # record_of (row_cells show_num headers r)) (wdt_rows w) @ [[[]]])"

lemma csv_widget_reads_as:
  assumes "list_all plain_text (collect_headers (wdt_rows w))"
  shows "list_all2 reads_as (csv_widget show_num w) (widget_records show_num w)"
proof -
  have plain: "plain_text ''Widget''" "plain_text ''Projection''" "plain_text ''Key''" by (simp_all add: plain_text_def)
  show ?thesis
    using reads_as_labelled [OF plain(1)] reads_as_labelled [OF plain(2)] reads_as_plain_fields [OF plain(3) assms]
    by (simp add: csv_widget_def widget_records_def Let_def list_all2_append list_all2_map1 list_all2_map2 list_all2_same
        csv_row_def reads_as_row [simplified] reads_as_empty)
qed

lemma list_all2_concat: "list_all2 (list_all2 P) xss yss \<Longrightarrow> list_all2 P (concat xss) (concat yss)"
  by (induction rule: list_all2_induct) (auto intro: list_all2_appendI)

text \<open>
  C33. The CSV file of a dashboard reads back as what was exported: the title, the persona
  and the moment, then for every widget its name, its projection, the headers, and one record per
  row with the key and the printed value under each header. Titles, keys and values may hold
  semicolons, quotes and line feeds; headers are written without quoting, so they must not.
\<close>

theorem csv_export_reads_back:
  assumes "list_all (\<lambda>w. list_all plain_text (collect_headers (wdt_rows w))) ws"
  shows "read_csv False [] [] (xo_body (export_dashboard_csv now show_num d ws)) =
    [[''Dashboard'', ds_title d], [''Persona'', persona_text (ds_persona d)], [''Generated'', iso_time now], [[]]] @
    concat (map (widget_records show_num) ws)"
proof -
  have plain: "plain_text ''Dashboard''" "plain_text ''Persona''" "plain_text ''Generated''"
    "plain_text (persona_text (ds_persona d))" by (simp_all add: plain_text_def) (cases "ds_persona d"; simp)
  have "list_all2 (list_all2 reads_as) (map (csv_widget show_num) ws) (map (widget_records show_num) ws)"
    using assms by (simp add: list_all2_map1 list_all2_map2 list_all2_same list_all_iff csv_widget_reads_as)
  then have "list_all2 reads_as (csv_lines now show_num d ws)
      ([[''Dashboard'', ds_title d], [''Persona'', persona_text (ds_persona d)], [''Generated'', iso_time now], [[]]] @
       concat (map (widget_records show_num) ws))"
    using reads_as_labelled [OF plain(1), of "ds_title d"] reads_as_labelled [OF plain(2), of "persona_text (ds_persona d)"]
      reads_as_labelled [OF plain(3), of "iso_time now"] reads_as_empty
    by (simp add: csv_lines_def csv_escape_plain plain(4) plain_iso_time list_all2_concat)
  moreover have "csv_lines now show_num d ws \<noteq> []" by (simp add: csv_lines_def)
  moreover have "list_all (\<lambda>r. r \<noteq> []) (concat (map (widget_records show_num) ws))"
    by (auto simp: list_all_iff widget_records_def Let_def)
  ultimately show ?thesis by (simp add: export_dashboard_csv_def read_lines)
qed

definition sample_widget :: widget_data where
  "sample_widget = \<lparr>wdt_widgetId = ''w'', wdt_projectionId = ''customer_revenue_ranking'',
     wdt_rows = [\<lparr>ent_id = ''r'', tenantId = ''t'', br_projectionId = ''customer_revenue_ranking'', br_key = ''a;b'',
       br_payload = [(''name'', JText [CHR ''R'', CHR 0x22, CHR 0x0A])], br_version = 1\<rparr>]\<rparr>"

theorem csv_export_reads_back_witness:
  "drop 7 (read_csv False [] [] (xo_body (export_dashboard_csv 0 (\<lambda>_. []) (dashboard ''d'' Sara ''T'' ''D'' []) [sample_widget]))) =
     [[''a;b'', [CHR ''R'', CHR 0x22, CHR 0x0A]], [[]]]"
proof -
  have headers: "collect_headers (wdt_rows sample_widget) = [''name'']"
    by (simp add: collect_headers_def sample_widget_def)
  then have "list_all (\<lambda>w. list_all plain_text (collect_headers (wdt_rows w))) [sample_widget]"
    by (simp add: plain_text_def)
  from csv_export_reads_back [OF this, of 0 "\<lambda>_. []" "dashboard ''d'' Sara ''T'' ''D'' []"] show ?thesis
    by (simp add: widget_records_def headers Let_def record_of_def)
       (simp add: sample_widget_def row_cells_def format_cell_def)
qed

end
