(* ===== verification/Sso.thy ===== *)
theory Sso
  imports Documents JsString
begin

text \<open>
  Single sign-on: the configurations of a tenant (\<^verbatim>\<open>sso/sso.service.ts\<close>), the bearer token
  of the provisioning interface (\<^verbatim>\<open>sso/scim.controller.ts\<close>) and the validation of SAML
  responses (\<^verbatim>\<open>sso/saml.strategy.ts\<close>). SHA-256, the random token, the base64 reading of a
  response and the signature check of the platform are parameters.
\<close>

section \<open>Configurations\<close>

datatype sso_protocol = Saml2 | Scim2

datatype sso_status = SsoActive | SsoPaused | SsoPending

record sso_config = entity +
  sc_protocol :: sso_protocol
  sc_status :: sso_status
  sc_idpEntityId :: "string option"
  sc_idpSsoUrl :: "string option"
  sc_idpX509Cert :: "string option"
  sc_attributeMappingEmail :: "string option"
  sc_attributeMappingName :: "string option"
  sc_defaultRole :: string
  sc_scimBearerTokenHash :: "string option"
  sc_breakGlassEmail :: "string option"
  sc_breakGlassRotatedAt :: "int option"

text \<open>
  \<^verbatim>\<open>Partial<SsoConfig>\<close>. The bodies of the requests are not classes, so the validation pipe
  does not look at them and any column may come in.
\<close>

record sso_fields =
  sf_tenantId :: "uuid option"
  sf_status :: "sso_status option"
  sf_idpEntityId :: "string option"
  sf_idpSsoUrl :: "string option"
  sf_idpX509Cert :: "string option"
  sf_attributeMappingEmail :: "string option"
  sf_attributeMappingName :: "string option"
  sf_defaultRole :: "string option"
  sf_scimBearerTokenHash :: "string option"

definition find_config :: "uuid \<Rightarrow> sso_protocol \<Rightarrow> sso_config list \<Rightarrow> sso_config option" where
  "find_config t p cs = find (\<lambda>c. tenantId c = t \<and> sc_protocol c = p) cs"

definition assign_config :: "sso_fields \<Rightarrow> sso_config \<Rightarrow> sso_config" where
  "assign_config f c =
     c\<lparr>tenantId := nullish (sf_tenantId f) (tenantId c), sc_status := nullish (sf_status f) (sc_status c),
       sc_idpEntityId := or_else (sf_idpEntityId f) (sc_idpEntityId c), sc_idpSsoUrl := or_else (sf_idpSsoUrl f) (sc_idpSsoUrl c),
       sc_idpX509Cert := or_else (sf_idpX509Cert f) (sc_idpX509Cert c),
       sc_attributeMappingEmail := or_else (sf_attributeMappingEmail f) (sc_attributeMappingEmail c),
       sc_attributeMappingName := or_else (sf_attributeMappingName f) (sc_attributeMappingName c),
       sc_defaultRole := nullish (sf_defaultRole f) (sc_defaultRole c),
       sc_scimBearerTokenHash := or_else (sf_scimBearerTokenHash f) (sc_scimBearerTokenHash c)\<rparr>"

definition pending_config :: "uuid \<Rightarrow> uuid \<Rightarrow> sso_protocol \<Rightarrow> sso_config" where
  "pending_config i t p =
     \<lparr>ent_id = i, tenantId = t, sc_protocol = p, sc_status = SsoPending, sc_idpEntityId = None, sc_idpSsoUrl = None,
      sc_idpX509Cert = None, sc_attributeMappingEmail = None, sc_attributeMappingName = None, sc_defaultRole = ''viewer'',
      sc_scimBearerTokenHash = None, sc_breakGlassEmail = None, sc_breakGlassRotatedAt = None\<rparr>"

definition save_config :: "sso_config \<Rightarrow> (sso_config list, sso_config) svc" where
  "save_config c = seq (modify (save_row c)) (ret c)"

definition upsert_config :: "uuid \<Rightarrow> uuid \<Rightarrow> sso_protocol \<Rightarrow> sso_fields \<Rightarrow> (sso_config list, sso_config) svc" where
  "upsert_config newId t p f =
     bind (gets (find_config t p)) (\<lambda>existing.
     save_config (assign_config f (nullish existing (pending_config newId t p))))"

text \<open>The enumeration lists \<^verbatim>\<open>saml2\<close> before \<^verbatim>\<open>scim2\<close>.\<close>

definition list_configs :: "uuid \<Rightarrow> sso_config list \<Rightarrow> sso_config list" where
  "list_configs t cs = sort_key (\<lambda>c. if sc_protocol c = Saml2 then 0 else (1 :: nat)) (filter (\<lambda>c. tenantId c = t) cs)"

definition get_config :: "uuid \<Rightarrow> sso_protocol \<Rightarrow> (sso_config list, sso_config) svc" where
  "get_config t p = bind (gets (find_config t p)) (\<lambda>c. require c NotFound)"

definition activate_config :: "uuid \<Rightarrow> sso_protocol \<Rightarrow> (sso_config list, sso_config) svc" where
  "activate_config t p = bind (get_config t p) (\<lambda>c. save_config (c\<lparr>sc_status := SsoActive\<rparr>))"

definition pause_config :: "uuid \<Rightarrow> sso_protocol \<Rightarrow> (sso_config list, sso_config) svc" where
  "pause_config t p = bind (get_config t p) (\<lambda>c. save_config (c\<lparr>sc_status := SsoPaused\<rparr>))"

definition set_break_glass :: "int \<Rightarrow> uuid \<Rightarrow> uuid \<Rightarrow> string \<Rightarrow> (sso_config list, sso_config) svc" where
  "set_break_glass now newId t email =
     seq (throw_if (CHR ''@'' \<notin> set email) Conflict)
     (bind (gets (find_config t Saml2)) (\<lambda>existing.
      save_config ((nullish existing (pending_config newId t Saml2))
        \<lparr>sc_breakGlassEmail := Some (map to_lower (js_trim email)), sc_breakGlassRotatedAt := Some now\<rparr>)))"

section \<open>The provisioning token\<close>

definition rotate_scim_token :: "(string \<Rightarrow> string) \<Rightarrow> string \<Rightarrow> uuid \<Rightarrow> (sso_config list, string \<times> string) svc" where
  "rotate_scim_token sha256 token t =
     bind (get_config t Scim2) (\<lambda>c.
     bind (save_config (c\<lparr>sc_scimBearerTokenHash := Some (sha256 token),
       sc_status := (if sc_status c = SsoPending then SsoActive else sc_status c)\<rparr>)) (\<lambda>_.
     ret (token, sha256 token)))"

text \<open>The loop that collects the differing bits of all positions.\<close>

definition safe_equal :: "string \<Rightarrow> string \<Rightarrow> bool" where
  "safe_equal a b \<longleftrightarrow> length a = length b \<and> foldl (\<lambda>r (x, y). r \<or> x \<noteq> y) False (zip a b) = False"

definition verify_scim_token :: "(string \<Rightarrow> string) \<Rightarrow> uuid \<Rightarrow> string \<Rightarrow> sso_config list \<Rightarrow> bool" where
  "verify_scim_token sha256 t token cs =
     (case find_config t Scim2 cs of
        None \<Rightarrow> False
      | Some c \<Rightarrow> if \<not> truthy (sc_scimBearerTokenHash c) \<or> sc_status c \<noteq> SsoActive then False
          else safe_equal (sha256 token) (the (sc_scimBearerTokenHash c)))"

definition assert_bearer :: "(string \<Rightarrow> string) \<Rightarrow> uuid \<Rightarrow> string option \<Rightarrow> sso_config list \<Rightarrow> http_error + unit" where
  "assert_bearer sha256 t auth cs =
     (if \<not> truthy auth \<or> take 7 (map to_lower (the auth)) \<noteq> ''bearer '' then Inl Unauthorized
      else if \<not> verify_scim_token sha256 t (js_trim (drop 7 (the auth))) cs then Inl Unauthorized else Inr ())"

section \<open>Patterns over the text of a response\<close>

definition strip :: "string \<Rightarrow> string \<Rightarrow> string option" where
  "strip p s = (if take (length p) s = p then Some (drop (length p) s) else None)"

text \<open>\<^verbatim>\<open><(?:pre)?name\<close>: what follows, if the text begins so.\<close>

definition saml_open_tag :: "string \<Rightarrow> string \<Rightarrow> string \<Rightarrow> string option" where
  "saml_open_tag pre name s = or_else (strip (CHR ''<'' # pre @ name) s) (strip (CHR ''<'' # name) s)"

text \<open>\<^verbatim>\<open></(?:pre)?name>\<close>: the tag, if the text begins so.\<close>

definition saml_close_tag :: "string \<Rightarrow> string \<Rightarrow> string \<Rightarrow> string option" where
  "saml_close_tag pre name s =
     (if strip (''</'' @ pre @ name @ ''>'') s \<noteq> None then Some (''</'' @ pre @ name @ ''>'')
      else if strip (''</'' @ name @ ''>'') s \<noteq> None then Some (''</'' @ name @ ''>'') else None)"

text \<open>\<^verbatim>\<open><(?:pre)?name[^>]*>([^<]+)</(?:pre)?name>\<close>: the text between the tags.\<close>

definition text_element :: "string \<Rightarrow> string \<Rightarrow> string \<Rightarrow> string option" where
  "text_element pre name s =
     (case saml_open_tag pre name s of
        None \<Rightarrow> None
      | Some r \<Rightarrow>
          (let r' = dropWhile (\<lambda>c. c \<noteq> CHR ''>'') r;
               body = takeWhile (\<lambda>c. c \<noteq> CHR ''<'') (tl r')
           in if r' = [] \<or> body = [] \<or> saml_close_tag pre name (drop (length body) (tl r')) = None then None else Some body))"

text \<open>The shortest text that ends with the closing tag.\<close>

fun up_to_close :: "string \<Rightarrow> string \<Rightarrow> string \<Rightarrow> string option" where
  "up_to_close pre name s =
     (case saml_close_tag pre name s of
        Some tag \<Rightarrow> Some tag
      | None \<Rightarrow> (case s of [] \<Rightarrow> None | c # cs \<Rightarrow> map_option (Cons c) (up_to_close pre name cs)))"

declare up_to_close.simps [simp del]

text \<open>\<^verbatim>\<open><(?:saml:)?Assertion[\s\S]*?</(?:saml:)?Assertion>\<close>\<close>

definition assertion_at :: "string \<Rightarrow> string option" where
  "assertion_at s =
     (case saml_open_tag ''saml:'' ''Assertion'' s of
        None \<Rightarrow> None
      | Some r \<Rightarrow> map_option (\<lambda>body. take (length s - length r) s @ body) (up_to_close ''saml:'' ''Assertion'' r))"

text \<open>\<^verbatim>\<open>match\<close>: the first place where the pattern fits.\<close>

fun first_match :: "(string \<Rightarrow> 'a option) \<Rightarrow> string \<Rightarrow> 'a option" where
  "first_match f s =
     (case f s of Some x \<Rightarrow> Some x | None \<Rightarrow> (case s of [] \<Rightarrow> None | c # cs \<Rightarrow> first_match f cs))"

declare first_match.simps [simp del]

text \<open>\<^verbatim>\<open>matchAll\<close>: a match with the number of characters it takes; the search goes on behind it.\<close>

function all_matches :: "(string \<Rightarrow> ('a \<times> nat) option) \<Rightarrow> string \<Rightarrow> 'a list" where
  "all_matches f s =
     (if s = [] then []
      else case f s of
        None \<Rightarrow> all_matches f (tl s)
      | Some (x, n) \<Rightarrow> x # all_matches f (drop (max 1 n) s))"
  by pat_completeness auto
termination by (relation "measure (\<lambda>(f, s). length s)") auto

declare all_matches.simps [simp del]

definition attribute_value_at :: "string \<Rightarrow> (string \<times> nat) option" where
  "attribute_value_at s =
     (case text_element ''saml:'' ''AttributeValue'' s of
        None \<Rightarrow> None
      | Some v \<Rightarrow>
          (let r = dropWhile (\<lambda>c. c \<noteq> CHR ''>'') s;
               tag = the (saml_close_tag ''saml:'' ''AttributeValue'' (drop (length v) (tl r)))
           in Some (v, length s - length r + 1 + length v + length tag)))"

text \<open>
  \<^verbatim>\<open><(?:saml:)?Attribute[^>]*Name="([^"]+)"[^>]*>([\s\S]*?)</(?:saml:)?Attribute>\<close>. The first
  star is greedy, so the last \<^verbatim>\<open>Name="\<close> from which the rest of the pattern fits is taken.
\<close>

definition attribute_from :: "string \<Rightarrow> nat \<Rightarrow> (string \<times> string \<times> string) option" where
  "attribute_from r k =
     (case strip (''Name='' @ [CHR 0x22]) (drop k r) of
        None \<Rightarrow> None
      | Some u \<Rightarrow>
          (let name = takeWhile (\<lambda>c. c \<noteq> CHR 0x22) u;
               v = dropWhile (\<lambda>c. c \<noteq> CHR ''>'') (tl (drop (length name) u))
           in if name = [] \<or> drop (length name) u = [] \<or> v = [] then None
              else (case up_to_close ''saml:'' ''Attribute'' (tl v) of
                      None \<Rightarrow> None
                    | Some body \<Rightarrow> Some (name, body, drop (length body) (tl v)))))"

definition attribute_at :: "string \<Rightarrow> ((string \<times> string) \<times> nat) option" where
  "attribute_at s =
     (case saml_open_tag ''saml:'' ''Attribute'' s of
        None \<Rightarrow> None
      | Some r \<Rightarrow>
          (case find (\<lambda>k. attribute_from r k \<noteq> None) (rev [0..<Suc (length (takeWhile (\<lambda>c. c \<noteq> CHR ''>'') r))]) of
             None \<Rightarrow> None
           | Some k \<Rightarrow> (case the (attribute_from r k) of (name, body, rest) \<Rightarrow> Some ((name, body), length s - length rest))))"

section \<open>Validation of a response\<close>

record saml_assertion =
  sa_nameId :: string
  sa_email :: "string option"
  sa_displayName :: "string option"
  sa_attributes :: "(string \<times> string list) list"

text \<open>
  \<^verbatim>\<open>certPem.replace(/(.{64})/g, '$1\n')\<close> between the marks of a certificate. The dot matches no
  line break, so the count of characters begins anew after one.
\<close>

fun break_lines :: "nat \<Rightarrow> string \<Rightarrow> string" where
  "break_lines k [] = []"
| "break_lines k (c # s) =
     (if c = CHR 0x0A \<or> c = CHR 0x0D then c # break_lines 0 s
      else if k = 63 then c # CHR 0x0A # break_lines 0 s else c # break_lines (Suc k) s)"

definition pem_certificate :: "string \<Rightarrow> string" where
  "pem_certificate cert =
     (if has_substring cert ''-----BEGIN CERTIFICATE-----'' then cert
      else ''-----BEGIN CERTIFICATE-----'' @ [CHR 0x0A] @ break_lines 0 cert @ [CHR 0x0A] @ ''-----END CERTIFICATE-----'')"

type_synonym signature_check = "string \<Rightarrow> string \<Rightarrow> string \<Rightarrow> bool"

definition verify_signature :: "signature_check \<Rightarrow> string \<Rightarrow> string \<Rightarrow> bool" where
  "verify_signature rsa_verify xml cert =
     (case (first_match (text_element ''ds:'' ''SignatureValue'') xml, first_match assertion_at xml) of
        (Some signature, Some assertion) \<Rightarrow> rsa_verify (pem_certificate cert) assertion (strip_spaces signature)
      | _ \<Rightarrow> False)"

text \<open>A later attribute replaces an earlier one of the same name.\<close>

definition saml_attributes :: "string \<Rightarrow> (string \<times> string list) list" where
  "saml_attributes xml = rev (map (\<lambda>(name, body). (name, all_matches attribute_value_at body)) (all_matches attribute_at xml))"

definition first_value :: "(string \<times> string list) list \<Rightarrow> string \<Rightarrow> string option" where
  "first_value attrs key = (case map_of attrs key of Some (v # vs) \<Rightarrow> Some v | _ \<Rightarrow> None)"

definition parse_assertion :: "string \<Rightarrow> sso_config \<Rightarrow> saml_assertion" where
  "parse_assertion xml c =
     (let attrs = saml_attributes xml
      in \<lparr>sa_nameId = nullish (first_match (text_element ''saml:'' ''NameID'') xml) [],
          sa_email = first_value attrs (nullish (sc_attributeMappingEmail c) ''email''),
          sa_displayName = first_value attrs (nullish (sc_attributeMappingName c) ''name''),
          sa_attributes = attrs\<rparr>)"

definition validate_assertion ::
  "(string \<Rightarrow> string) \<Rightarrow> signature_check \<Rightarrow> uuid \<Rightarrow> string \<Rightarrow> sso_config list \<Rightarrow> http_error + saml_assertion" where
  "validate_assertion decode rsa_verify t response cs =
     (case find_config t Saml2 cs of
        None \<Rightarrow> Inl Unauthorized
      | Some c \<Rightarrow>
          if sc_status c \<noteq> SsoActive then Inl Unauthorized
          else if \<not> truthy (sc_idpX509Cert c) then Inl Unauthorized
          else (let xml = decode response in
                if \<not> verify_signature rsa_verify xml (the (sc_idpX509Cert c)) then Inl Unauthorized
                else Inr (parse_assertion xml c)))"

section \<open>The provisioning token is the last one issued\<close>

lemma some_position_differs: "foldl (\<lambda>r (x, y). r \<or> x \<noteq> y) b ps \<longleftrightarrow> b \<or> list_ex (\<lambda>(x, y). x \<noteq> y) ps"
  by (induction ps arbitrary: b) (simp_all add: split_def)

lemma safe_equal_eq [simp]: "safe_equal a b \<longleftrightarrow> a = b"
  using list_all2_iff [of "(=)" a b] unfolding safe_equal_def some_position_differs list.rel_eq
  by (auto simp: list_ex_iff)

text \<open>
  C35. When a tenant rotates its provisioning token, exactly the headers with that token (or
  one of the same hash) are let in from then on, unless the configuration is paused; an earlier
  token is refused. Nothing changes for the other tenants.
\<close>

theorem scim_token_is_the_last_issued:
  assumes "find_config t Scim2 cs = Some c" and "keyed cs" and "sha256 token \<noteq> []"
    and "rotate_scim_token sha256 token t cs = (Inr out, cs')"
  shows "out = (token, sha256 token) \<and>
    (assert_bearer sha256 t auth cs' = Inr () \<longleftrightarrow>
       truthy auth \<and> take 7 (map to_lower (the auth)) = ''bearer '' \<and> sc_status c \<noteq> SsoPaused \<and>
       sha256 (js_trim (drop 7 (the auth))) = sha256 token) \<and>
    (t' \<noteq> t \<longrightarrow> assert_bearer sha256 t' auth cs' = assert_bearer sha256 t' auth cs)"
proof -
  let ?c = "c\<lparr>sc_scimBearerTokenHash := Some (sha256 token),
    sc_status := (if sc_status c = SsoPending then SsoActive else sc_status c)\<rparr>"
  have c: "c \<in> set cs" "tenantId c = t" "sc_protocol c = Scim2"
    using assms(1) by (auto simp: find_config_def find_Some_iff)
  have run: "out = (token, sha256 token)" "cs' = save_row ?c cs"
    using assms(1,4) by (auto simp: rotate_scim_token_def get_config_def save_config_def svc_simps)
  have "find_config t Scim2 cs' = Some ?c"
    unfolding run find_config_def by (rule find_replaced [OF assms(1) [unfolded find_config_def]]) (use c assms(2) in simp_all)
  moreover have "find_config t' Scim2 cs' = find_config t' Scim2 cs" if "t' \<noteq> t"
    unfolding run find_config_def by (rule find_unreplaced [OF c(1)]) (use c that assms(2) in simp_all)
  moreover have "truthy (Some (sha256 token))" using assms(3) by (simp add: truthy_def)
  moreover have "sc_status c \<noteq> SsoPaused \<longleftrightarrow> sc_status c = SsoPending \<or> sc_status c = SsoActive"
    by (cases "sc_status c") simp_all
  ultimately show ?thesis
    by (auto simp: run(1) assert_bearer_def verify_scim_token_def)
qed

text \<open>
  The body of the upsert request is copied over the columns: a tenant without a configuration
  writes one of another tenant, active and with a certificate of its choice.
\<close>

lemma upsert_writes_any_tenant:
  assumes "find_config t p cs = None" and "find_config v p cs = None" and "fresh n cs"
    and "sf_tenantId f = Some v" and "sf_status f = Some SsoActive" and "sf_idpX509Cert f = Some cert"
  shows "\<exists>c. upsert_config n t p f cs = (Inr c, cs @ [c]) \<and> find_config v p (cs @ [c]) = Some c \<and>
    sc_status c = SsoActive \<and> sc_idpX509Cert c = Some cert"
proof -
  let ?c = "assign_config f (pending_config n t p)"
  have c: "ent_id ?c = n" "tenantId ?c = v" "sc_protocol ?c = p" "sc_status ?c = SsoActive" "sc_idpX509Cert ?c = Some cert"
    using assms(4-6) by (simp_all add: assign_config_def pending_config_def nullish_def or_else_def)
  have "upsert_config n t p f cs = (Inr ?c, cs @ [?c])"
    using assms(1,3) c(1) by (simp add: upsert_config_def save_config_def svc_defs nullish_def fresh_save_row)
  moreover have "find_config v p (cs @ [?c]) = Some ?c"
    using assms(2) c by (simp add: find_config_def find_appended)
  ultimately show ?thesis using c by blast
qed

section \<open>What the signature covers\<close>

definition needs_bracket :: "(string \<Rightarrow> 'a option) \<Rightarrow> bool" where
  "needs_bracket f \<longleftrightarrow> (\<forall>c s. c \<noteq> CHR ''<'' \<longrightarrow> f (c # s) = None)"

lemma first_match_skip: "f (c # s) = None \<Longrightarrow> first_match f (c # s) = first_match f s"
  by (subst first_match.simps) simp

lemma first_match_plain: "needs_bracket f \<Longrightarrow> CHR ''<'' \<notin> set v \<Longrightarrow> first_match f (v @ s) = first_match f s"
proof (induction v)
  case (Cons c v)
  then have "c \<noteq> CHR ''<''" by auto
  then have "f (c # v @ s) = None" using Cons.prems(1) by (simp add: needs_bracket_def)
  from first_match_skip [of f c "v @ s", OF this] show ?case using Cons by simp
qed simp

lemma open_tag_bracket: "c \<noteq> CHR ''<'' \<Longrightarrow> saml_open_tag pre name (c # s) = None"
  by (simp add: saml_open_tag_def strip_def or_else_def)

lemma needs_bracket_patterns: "needs_bracket (text_element pre name)" "needs_bracket assertion_at"
  by (simp_all add: needs_bracket_def text_element_def assertion_at_def open_tag_bracket)

definition name_id :: "string \<Rightarrow> string" where
  "name_id v = ''<NameID>'' @ v @ ''</NameID>''"

lemma first_match_behind_name_id:
  assumes "needs_bracket f" and "CHR ''<'' \<notin> set v"
    and "f (name_id v @ xml) = None" and "f (''</NameID>'' @ xml) = None"
  shows "first_match f (name_id v @ xml) = first_match f xml"
proof -
  have "first_match f (name_id v @ xml) = first_match f (''NameID>'' @ v @ ''</NameID>'' @ xml)"
    using first_match_skip [of f "CHR ''<''" "''NameID>'' @ v @ ''</NameID>'' @ xml"] assms(3) by (simp add: name_id_def)
  also have "\<dots> = first_match f (v @ ''</NameID>'' @ xml)" by (rule first_match_plain [OF assms(1)]) simp
  also have "\<dots> = first_match f (''</NameID>'' @ xml)" by (rule first_match_plain [OF assms(1,2)])
  also have "\<dots> = first_match f (''/NameID>'' @ xml)"
    using first_match_skip [of f "CHR ''<''" "''/NameID>'' @ xml"] assms(4) by simp
  also have "\<dots> = first_match f xml" by (rule first_match_plain [OF assms(1)]) simp
  finally show ?thesis .
qed

lemma signed_parts_behind_name_id:
  assumes "CHR ''<'' \<notin> set v"
  shows "first_match (text_element ''ds:'' ''SignatureValue'') (name_id v @ xml) = first_match (text_element ''ds:'' ''SignatureValue'') xml"
    and "first_match assertion_at (name_id v @ xml) = first_match assertion_at xml"
  using assms
  by (intro first_match_behind_name_id needs_bracket_patterns; simp add: name_id_def text_element_def assertion_at_def saml_open_tag_def
      strip_def or_else_def)+

lemma name_id_found:
  assumes "CHR ''<'' \<notin> set v" and "v \<noteq> []"
  shows "first_match (text_element ''saml:'' ''NameID'') (name_id v @ xml) = Some v"
proof -
  have "takeWhile (\<lambda>c. c \<noteq> CHR ''<'') (v @ CHR ''<'' # r) = v" for r
    using assms(1) by (induction v) auto
  then have "text_element ''saml:'' ''NameID'' (name_id v @ xml) = Some v"
    using assms(2) by (simp add: text_element_def name_id_def saml_open_tag_def strip_def or_else_def saml_close_tag_def Let_def)
  then show ?thesis by (subst first_match.simps) simp
qed

text \<open>
  C36. A response is accepted only when the tenant has an active configuration with a
  certificate and the signature in the response verifies the first assertion. But the name is
  taken from anywhere in the document: from one accepted response, putting a name before it
  makes another that is accepted with that name, without any new signature.
\<close>

theorem saml_name_is_not_signed:
  assumes "validate_assertion decode rsa_verify t response cs = Inr a"
  shows "(\<exists>c signature assertion. find_config t Saml2 cs = Some c \<and> sc_status c = SsoActive \<and> truthy (sc_idpX509Cert c) \<and>
      first_match (text_element ''ds:'' ''SignatureValue'') (decode response) = Some signature \<and>
      first_match assertion_at (decode response) = Some assertion \<and>
      rsa_verify (pem_certificate (the (sc_idpX509Cert c))) assertion (strip_spaces signature)) \<and>
    (CHR ''<'' \<notin> set v \<and> v \<noteq> [] \<and> decode forged = name_id v @ decode response \<longrightarrow>
      map_sum id sa_nameId (validate_assertion decode rsa_verify t forged cs) = Inr v)"
  using assms
  by (auto simp: validate_assertion_def verify_signature_def Let_def signed_parts_behind_name_id parse_assertion_def name_id_found
      nullish_def split: option.splits if_splits)

definition sample_saml_config :: sso_config where
  "sample_saml_config = (pending_config ''c1'' ''t1'' Saml2)\<lparr>sc_status := SsoActive, sc_idpX509Cert := Some ''K''\<rparr>"

definition sample_response :: string where
  "sample_response = ''<Assertion><NameID>me</NameID></Assertion><SignatureValue>sig</SignatureValue>''"

theorem saml_name_is_not_signed_witness:
  "map_sum id sa_nameId (validate_assertion id (\<lambda>k a s. s = ''sig'' \<and> a = take 42 sample_response) ''t1'' sample_response
     [sample_saml_config]) = Inr ''me'' \<and>
   map_sum id sa_nameId (validate_assertion id (\<lambda>k a s. s = ''sig'' \<and> a = take 42 sample_response) ''t1''
     (name_id ''boss'' @ sample_response) [sample_saml_config]) = Inr ''boss''"
proof -
  have run: "map_sum id sa_nameId (validate_assertion id (\<lambda>k a s. s = ''sig'' \<and> a = take 42 sample_response) ''t1'' sample_response
     [sample_saml_config]) = Inr ''me''"
    by code_simp
  then obtain a where "validate_assertion id (\<lambda>k a s. s = ''sig'' \<and> a = take 42 sample_response) ''t1'' sample_response
     [sample_saml_config] = Inr a"
    by (cases "validate_assertion id (\<lambda>k a s. s = ''sig'' \<and> a = take 42 sample_response) ''t1'' sample_response
      [sample_saml_config]") auto
  from saml_name_is_not_signed [OF this, of "''boss''" "name_id ''boss'' @ sample_response"] run show ?thesis by simp
qed

definition sample_scim_config :: sso_config where
  "sample_scim_config = pending_config ''c2'' ''t1'' Scim2"

theorem scim_token_is_the_last_issued_witness:
  "assert_bearer (Cons CHR ''#'') ''t1'' (Some ''Bearer k1'')
     (after (rotate_scim_token (Cons CHR ''#'') ''k1'' ''t1'') [sample_scim_config]) = Inr ()"
proof -
  have c: "find_config ''t1'' Scim2 [sample_scim_config] = Some sample_scim_config" and k: "keyed [sample_scim_config]"
    and pending: "sc_status sample_scim_config = SsoPending"
    by (simp_all add: find_config_def sample_scim_config_def pending_config_def keyed_def)
  have ok: "runs_ok (rotate_scim_token (Cons CHR ''#'') ''k1'' ''t1'') [sample_scim_config]"
    using c by (simp add: runs_ok_def rotate_scim_token_def get_config_def save_config_def svc_defs)
  have "take 7 (map to_lower ''Bearer k1'') = ''bearer '' \<and> js_trim (drop 7 ''Bearer k1'') = ''k1'' \<and> truthy (Some ''Bearer k1'')"
    by code_simp
  then show ?thesis using scim_token_is_the_last_issued [OF c k _ runs_okD [OF ok], of "Some ''Bearer k1''" "''t1''"] pending by simp
qed

end
