(* ===== verification/Tenants.thy ===== *)
theory Tenants
  imports Conservazione Documents
begin

text \<open>
  The tenants, \<^verbatim>\<open>backend/src/tenants/tenants.service.ts\<close> with its entity. The table of
  tenants is its own scope, so the tenant of a row is the row itself. Preferences are pairs of
  texts. The update is that of the request body, which has no fields of registration. Messages
  and log lines are left out.
\<close>

section \<open>Entity\<close>

datatype tenant_status = TnTrial | TnActive | TnPastDue | TnSuspended | TnCancelled

record tenant = entity +
  tn_name :: string
  tn_vatNumber :: "string option"
  tn_fiscalCode :: "string option"
  tn_sdiDestinationCode :: "string option"
  tn_pecEmail :: "string option"
  tn_billingAddress :: "string option"
  tn_billingCity :: "string option"
  tn_billingPostalCode :: "string option"
  tn_billingProvince :: "string option"
  tn_plan :: subscription_plan
  tn_status :: tenant_status
  tn_seatLimit :: int
  tn_trialEndsAt :: "int option"
  tn_settings :: "(string \<times> string) list option"

record tenant_input =
  ti_name :: string
  ti_vatNumber :: "string option"
  ti_fiscalCode :: "string option"
  ti_sdiDestinationCode :: "string option"
  ti_pecEmail :: "string option"
  ti_billingAddress :: "string option"
  ti_billingCity :: "string option"
  ti_billingPostalCode :: "string option"
  ti_billingProvince :: "string option"
  ti_plan :: "subscription_plan option"
  ti_settings :: "(string \<times> string) list option"

record tenant_update =
  tu_name :: "string option"
  tu_plan :: "subscription_plan option"
  tu_status :: "tenant_status option"
  tu_seatLimit :: "int option"
  tu_settings :: "(string \<times> string) list option"

fun default_seat_limit :: "subscription_plan \<Rightarrow> int" where
  "default_seat_limit PlanBase = 3"
| "default_seat_limit PlanProfessionale = 15"
| "default_seat_limit PlanEnterprise = - 1"

definition default_settings :: "(string \<times> string) list" where
  "default_settings =
     [(''locale'', ''it''), (''timezone'', ''Europe/Rome''), (''currency'', ''EUR''), (''iva_default'', ''22''),
      (''accounting_template'', ''pc_iv_direttiva_cee'')]"

section \<open>Operations\<close>

definition create_tenant :: "int \<Rightarrow> uuid \<Rightarrow> tenant_input \<Rightarrow> (tenant list, tenant) svc" where
  "create_tenant now newId dto =
     bind (gets (\<lambda>s. find (\<lambda>r. tn_vatNumber r = ti_vatNumber dto) s)) (\<lambda>existing.
     seq (throw_if (truthy (ti_vatNumber dto) \<and> existing \<noteq> None) Conflict)
     (let plan = nullish (ti_plan dto) PlanBase;
          r = \<lparr>ent_id = newId, tenantId = newId, tn_name = ti_name dto, tn_vatNumber = ti_vatNumber dto,
               tn_fiscalCode = ti_fiscalCode dto, tn_sdiDestinationCode = ti_sdiDestinationCode dto,
               tn_pecEmail = ti_pecEmail dto, tn_billingAddress = ti_billingAddress dto,
               tn_billingCity = ti_billingCity dto, tn_billingPostalCode = ti_billingPostalCode dto,
               tn_billingProvince = ti_billingProvince dto, tn_plan = plan, tn_status = TnTrial,
               tn_seatLimit = default_seat_limit plan, tn_trialEndsAt = Some (now + 30 * MS_PER_DAY),
               tn_settings = Some (nullish (ti_settings dto) default_settings)\<rparr>
      in seq (modify (save_row r)) (ret r)))"

definition find_tenant :: "uuid \<Rightarrow> (tenant list, tenant) svc" where
  "find_tenant i = bind (gets (find_id i)) (\<lambda>found. require found NotFound)"

definition find_tenant_for_caller :: "uuid \<Rightarrow> uuid \<Rightarrow> (tenant list, tenant) svc" where
  "find_tenant_for_caller i caller = seq (throw_if (i \<noteq> caller) NotFound) (find_tenant i)"

text \<open>\<^verbatim>\<open>Object.assign(tenant, dto)\<close>; a limit of zero seats counts as absent.\<close>

definition assign_tenant :: "tenant_update \<Rightarrow> tenant \<Rightarrow> tenant" where
  "assign_tenant dto r =
     r\<lparr>tn_name := nullish (tu_name dto) (tn_name r), tn_plan := nullish (tu_plan dto) (tn_plan r),
       tn_status := nullish (tu_status dto) (tn_status r),
       tn_seatLimit := (case tu_plan dto of
           Some plan \<Rightarrow> if nullish (tu_seatLimit dto) 0 = 0 then default_seat_limit plan else the (tu_seatLimit dto)
         | None \<Rightarrow> nullish (tu_seatLimit dto) (tn_seatLimit r)),
       tn_settings := or_else (tu_settings dto) (tn_settings r)\<rparr>"

definition update_tenant :: "uuid \<Rightarrow> tenant_update \<Rightarrow> (tenant list, tenant) svc" where
  "update_tenant i dto =
     bind (find_tenant i) (\<lambda>r.
     seq (modify (save_row (assign_tenant dto r))) (ret (assign_tenant dto r)))"

definition update_tenant_for_caller :: "uuid \<Rightarrow> uuid \<Rightarrow> tenant_update \<Rightarrow> (tenant list, tenant) svc" where
  "update_tenant_for_caller i caller dto = seq (throw_if (i \<noteq> caller) Forbidden) (update_tenant i dto)"

definition only_status :: "tenant_status \<Rightarrow> tenant_update" where
  "only_status st = \<lparr>tu_name = None, tu_plan = None, tu_status = Some st, tu_seatLimit = None, tu_settings = None\<rparr>"

definition suspend_tenant :: "uuid \<Rightarrow> (tenant list, tenant) svc" where
  "suspend_tenant i = update_tenant i (only_status TnSuspended)"

definition activate_tenant :: "uuid \<Rightarrow> (tenant list, tenant) svc" where
  "activate_tenant i = update_tenant i (only_status TnActive)"

section \<open>Requests\<close>

text \<open>Requests are labelled with the tenant they concern.\<close>

inductive tenant_step :: "uuid \<Rightarrow> tenant list \<Rightarrow> tenant list \<Rightarrow> bool" where
  create: "create_tenant now n dto s = (Inr r, s') \<Longrightarrow> fresh n s \<Longrightarrow> tenant_step n s s'"
| update: "update_tenant_for_caller i caller dto s = (Inr r, s') \<Longrightarrow> tenant_step caller s s'"
| suspend: "suspend_tenant i s = (Inr r, s') \<Longrightarrow> tenant_step i s s'"
| activate: "activate_tenant i s = (Inr r, s') \<Longrightarrow> tenant_step i s s'"

inductive tenant_run :: "tenant list \<Rightarrow> bool" where
  start: "tenant_run []"
| step: "tenant_run s \<Longrightarrow> tenant_step i s s' \<Longrightarrow> tenant_run s'"

definition tenants_ok :: "tenant list \<Rightarrow> bool" where
  "tenants_ok s \<longleftrightarrow>
     keyed s \<and> distinct (filter (\<lambda>v. truthy v) (map tn_vatNumber s)) \<and>
     (\<forall>r\<in>set s. tenantId r = ent_id r \<and> tn_trialEndsAt r \<noteq> None \<and> tn_settings r \<noteq> None)"

lemma assign_tenant_simps [simp]:
  "ent_id (assign_tenant dto r) = ent_id r" "tenantId (assign_tenant dto r) = tenantId r"
  "tn_vatNumber (assign_tenant dto r) = tn_vatNumber r" "tn_trialEndsAt (assign_tenant dto r) = tn_trialEndsAt r"
  "tn_settings (assign_tenant dto r) = None \<longleftrightarrow> tu_settings dto = None \<and> tn_settings r = None"
  by (auto simp: assign_tenant_def or_else_def split: option.splits)

lemma update_tenant_result:
  assumes "update_tenant i dto s = (Inr r, s')" and "keyed s"
  obtains x where "x \<in> set s" "ent_id x = i" "s' = save_row (assign_tenant dto x) s" "r = assign_tenant dto x"
  using assms by (auto simp: update_tenant_def find_tenant_def svc_simps find_id_keyed)

lemma update_tenant_ok:
  assumes "update_tenant i dto s = (Inr r, s')" and "tenants_ok s"
  shows "tenants_ok s'"
proof -
  have k: "keyed s" using assms(2) by (simp add: tenants_ok_def)
  obtain x where x: "x \<in> set s" "ent_id x = i" "s' = save_row (assign_tenant dto x) s"
    using update_tenant_result [OF assms(1) k] by blast
  have "map tn_vatNumber s' = map tn_vatNumber s" unfolding x(3) by (rule map_save_row [OF k x(1)]) simp_all
  then show ?thesis using assms(2) x k
    by (auto simp: tenants_ok_def keyed_save_row set_save_row simp del: not_None_eq)
qed

lemma create_tenant_result:
  assumes "create_tenant now n dto s = (Inr r, s')" and "fresh n s"
  shows "s' = s @ [r]" and "ent_id r = n" and "truthy (ti_vatNumber dto) \<Longrightarrow> ti_vatNumber dto \<notin> tn_vatNumber ` set s"
    and "tenantId r = n" and "tn_vatNumber r = ti_vatNumber dto" and "tn_trialEndsAt r = Some (now + 30 * MS_PER_DAY)"
    and "tn_settings r \<noteq> None" and "tn_status r = TnTrial" and "tn_seatLimit r = default_seat_limit (tn_plan r)"
  using assms by (auto simp: create_tenant_def svc_simps Let_def fresh_save_row find_None_iff)

lemma create_tenant_ok:
  assumes "create_tenant now n dto s = (Inr r, s')" and "fresh n s" and "tenants_ok s"
  shows "tenants_ok s'"
  using create_tenant_result [OF assms(1,2)] assms(2,3)
  by (auto simp: tenants_ok_def keyed_def fresh_def)

lemma tenant_step_ok: "tenant_step i s s' \<Longrightarrow> tenants_ok s \<Longrightarrow> tenants_ok s'"
  by (induction rule: tenant_step.induct)
     (auto simp: suspend_tenant_def activate_tenant_def update_tenant_for_caller_def svc_simps
       dest: create_tenant_ok update_tenant_ok)

lemma tenant_run_ok: "tenant_run s \<Longrightarrow> tenants_ok s"
proof (induction rule: tenant_run.induct)
  case start
  then show ?case by (simp add: tenants_ok_def keyed_def)
qed (rule tenant_step_ok)

text \<open>What a request leaves alone.\<close>

definition spares_others :: "uuid \<Rightarrow> tenant list \<Rightarrow> tenant list \<Rightarrow> bool" where
  "spares_others i s s' \<longleftrightarrow> foreign_rows i s' = foreign_rows i s \<and>
     list_all (\<lambda>r. map_option tn_vatNumber (find_id (ent_id r) s') = Some (tn_vatNumber r)) s"

lemma update_spares_others:
  assumes "update_tenant i dto s = (Inr r, s')" and ok: "tenants_ok s"
  shows "spares_others i s s'"
proof -
  have k: "keyed s" using ok by (simp add: tenants_ok_def)
  obtain x where x: "x \<in> set s" "ent_id x = i" "s' = save_row (assign_tenant dto x) s"
    using update_tenant_result [OF assms(1) k] by blast
  have own: "tenantId y = ent_id y" if "y \<in> set s" for y using ok that by (simp add: tenants_ok_def)
  have "foreign_rows i s' = foreign_rows i s"
    unfolding x(3) using own x by (intro foreign_rows_save k) auto
  moreover have "map_option tn_vatNumber (find_id (ent_id y) s') = Some (tn_vatNumber y)" if "y \<in> set s" for y
  proof (cases "ent_id y = i")
    case True
    then have "y = x" using table.key_inj [OF k that x(1)] x(2) by simp
    then show ?thesis by (simp add: x(3) table.lookup_save k)
  next
    case False
    then show ?thesis using that k by (simp add: x(3) x(2) table.lookup_save find_id_keyed [THEN iffD2])
  qed
  ultimately show ?thesis by (simp add: spares_others_def list_all_iff)
qed

lemma create_spares_others:
  assumes "create_tenant now n dto s = (Inr r, s')" and "fresh n s" and "tenants_ok s"
  shows "spares_others n s s'"
proof -
  note new = create_tenant_result [OF assms(1,2)]
  have "keyed s'" using create_tenant_ok [OF assms] by (simp add: tenants_ok_def)
  then have "find_id (ent_id y) s' = Some y" if "y \<in> set s" for y
    using that new(1) by (simp add: find_id_keyed)
  moreover have "foreign_rows n s' = foreign_rows n s" using new by (simp add: foreign_rows_def)
  ultimately show ?thesis by (simp add: spares_others_def list_all_iff)
qed

lemma tenant_step_spares_others: "tenant_step i s s' \<Longrightarrow> tenants_ok s \<Longrightarrow> spares_others i s s'"
  by (induction rule: tenant_step.induct)
     (auto simp: suspend_tenant_def activate_tenant_def update_tenant_for_caller_def svc_simps
       dest: create_spares_others update_spares_others)


definition sample_tenant_input :: tenant_input where
  "sample_tenant_input = \<lparr>ti_name = ''F'', ti_vatNumber = Some ''02345678901'', ti_fiscalCode = None,
     ti_sdiDestinationCode = None, ti_pecEmail = None, ti_billingAddress = None, ti_billingCity = None,
     ti_billingPostalCode = None, ti_billingProvince = None, ti_plan = None, ti_settings = None\<rparr>"

definition sample_tenants :: "tenant list" where
  "sample_tenants = after (create_tenant 0 ''t1'' sample_tenant_input) []"

lemma sample_tenant_run: "tenant_run sample_tenants"
proof (rule tenant_run.step [OF tenant_run.start])
  have "runs_ok (create_tenant 0 ''t1'' sample_tenant_input) []"
    by (simp add: runs_ok_def create_tenant_def svc_defs Let_def)
  from runs_okD [OF this] show "tenant_step ''t1'' [] sample_tenants"
    unfolding sample_tenants_def by (rule tenant_step.create) (simp add: fresh_def)
qed


text \<open>
  The request that changes a tenant may come from any of its users and sets the plan,
  the state and the number of seats as it likes: a suspended tenant on the base plan makes itself
  an active tenant of the enterprise plan without a limit of seats.
\<close>

theorem tenant_can_upgrade_itself:
  assumes "find_id t s = Some r"
  shows "\<exists>r'. update_tenant_for_caller t t
      \<lparr>tu_name = None, tu_plan = Some PlanEnterprise, tu_status = Some TnActive, tu_seatLimit = None, tu_settings = None\<rparr> s =
        (Inr r', save_row r' s) \<and> tn_plan r' = PlanEnterprise \<and> tn_status r' = TnActive \<and> tn_seatLimit r' = - 1"
  using assms
  by (simp add: update_tenant_for_caller_def update_tenant_def find_tenant_def svc_defs assign_tenant_def nullish_def)

theorem tenant_can_upgrade_itself_witness:
  "\<exists>r'. update_tenant_for_caller ''t1'' ''t1''
      \<lparr>tu_name = None, tu_plan = Some PlanEnterprise, tu_status = Some TnActive, tu_seatLimit = None, tu_settings = None\<rparr>
      sample_tenants = (Inr r', save_row r' sample_tenants) \<and> tn_seatLimit r' = - 1"
proof -
  have "find_id ''t1'' sample_tenants \<noteq> None"
    by (simp add: sample_tenants_def after_def create_tenant_def svc_defs Let_def find_id_def save_row_def)
  then obtain r where "find_id ''t1'' sample_tenants = Some r" by blast
  from tenant_can_upgrade_itself [OF this] show ?thesis by blast
qed

end
