(* ===== verification/Commercialista.thy ===== *)
theory Commercialista
  imports Tenants Memberships BiProjections TreasuryPlanning
begin

text \<open>
  The cockpit of an external accountant, \<^verbatim>\<open>commercialista/commercialista.service.ts\<close>: the
  tenants that granted access, and the figures of one of them. Reading only; the tables are
  arguments. Descriptions of deadlines have no accents.
\<close>

section \<open>The tenants that granted access\<close>

record commercialista_db =
  cm_memberships :: "membership list"
  cm_tenants :: "tenant list"
  cm_invoices :: "invoice list"
  cm_supplierInvoices :: "supplier_invoice list"
  cm_declarations :: "intrastat_declaration list"
  cm_quotations :: "quotation list"

record assigned_tenant =
  ag_tenantId :: uuid
  ag_tenantName :: string
  ag_plan :: subscription_plan
  ag_status :: tenant_status
  ag_grantedAt :: "int option"
  ag_role :: membership_role

text \<open>Latest grant first; in descending order the database puts missing dates before all others.\<close>

definition by_grant :: "membership list \<Rightarrow> membership list" where
  "by_grant ms = filter (\<lambda>m. mb_grantedAt m = None) ms @
     sort_key (\<lambda>m. - the (mb_grantedAt m)) (filter (\<lambda>m. mb_grantedAt m \<noteq> None) ms)"

definition assignment :: "tenant list \<Rightarrow> membership \<Rightarrow> assigned_tenant option" where
  "assignment ts m =
     map_option (\<lambda>x. \<lparr>ag_tenantId = ent_id x, ag_tenantName = tn_name x, ag_plan = tn_plan x, ag_status = tn_status x,
       ag_grantedAt = mb_grantedAt m, ag_role = mb_role m\<rparr>) (find_id (tenantId m) ts)"

definition list_assigned_tenants :: "uuid \<Rightarrow> commercialista_db \<Rightarrow> assigned_tenant list" where
  "list_assigned_tenants userId s =
     (let ms = by_grant (filter (\<lambda>m. mb_userId m = userId \<and> mb_status m = MbActive \<and> mb_role m = MCommercialista) (cm_memberships s));
          ts = filter (\<lambda>x. ent_id x \<in> set (map tenantId ms)) (cm_tenants s)
      in List.map_filter (assignment ts) ms)"

section \<open>The figures of a tenant\<close>

definition assert_commercialista_membership :: "uuid \<Rightarrow> uuid \<Rightarrow> commercialista_db \<Rightarrow> http_error + membership" where
  "assert_commercialista_membership userId t s =
     (case find (\<lambda>m. tenantId m = t \<and> mb_userId m = userId \<and> mb_role m = MCommercialista) (cm_memberships s) of
        None \<Rightarrow> Inl Forbidden
      | Some m \<Rightarrow> if mb_status m \<noteq> MbActive then Inl Forbidden else Inr m)"

text \<open>\<^verbatim>\<open>countByField\<close>\<close>

definition count_by :: "('r \<Rightarrow> string) \<Rightarrow> 'r list \<Rightarrow> (string \<times> nat) list" where
  "count_by field rows = foldl (\<lambda>out r. count_up (field r) out) [] rows"

record iva_period =
  ip_totalSalesCents :: jsnum
  ip_totalPurchasesCents :: jsnum
  ip_balanceCents :: jsnum

record tax_deadline =
  td_kind :: string
  td_dueDate :: string
  td_description :: string

record tenant_snapshot =
  sn_tenant :: tenant
  sn_invoiceStatusCounts :: "(string \<times> nat) list"
  sn_supplierInvoiceStatusCounts :: "(string \<times> nat) list"
  sn_ivaPeriod :: iva_period
  sn_recentIntrastat :: "intrastat_declaration list"
  sn_pipelineQuotationCounts :: "(string \<times> nat) list"
  sn_deadlines :: "tax_deadline list"

text \<open>\<^verbatim>\<open>Date.UTC(year, month, d)\<close> as a day, where the month counts from zero and may be twelve.\<close>

definition utc_day :: "int \<Rightarrow> int \<Rightarrow> int \<Rightarrow> int" where
  "utc_day y m d = days_from_civil (y + m div 12) (m mod 12 + 1) d"

definition utc_year :: "int \<Rightarrow> int" where
  "utc_year now = fst (civil_from_days (now div MS_PER_DAY))"

definition utc_month :: "int \<Rightarrow> int" where
  "utc_month now = fst (snd (civil_from_days (now div MS_PER_DAY))) - 1"

definition next_deadlines :: "int \<Rightarrow> tax_deadline list" where
  "next_deadlines now =
     [\<lparr>td_kind = ''iva_mensile'', td_dueDate = iso_of_days (utc_day (utc_year now) (utc_month now + 1) 16),
       td_description = ''Liquidazione IVA mensile - versamento entro il 16 del mese successivo (DPR 322/1998 art. 8)''\<rparr>]"

text \<open>The two descending orders, with missing months first, as two stable sorts.\<close>

definition latest_declarations :: "intrastat_declaration list \<Rightarrow> intrastat_declaration list" where
  "latest_declarations ds =
     sort_key (\<lambda>d. - int (id_periodYear d)) (sort_key (\<lambda>d. case id_periodMonth d of None \<Rightarrow> - 13 | Some m \<Rightarrow> - int m) ds)"

definition in_month :: "int \<Rightarrow> int \<Rightarrow> bool" where
  "in_month now day \<longleftrightarrow> utc_day (utc_year now) (utc_month now) 1 \<le> day \<and> day < utc_day (utc_year now) (utc_month now + 1) 1"

definition iva_of_month :: "int \<Rightarrow> invoice list \<Rightarrow> supplier_invoice list \<Rightarrow> iva_period" where
  "iva_of_month now is ss =
     (let sold = js_sum (\<lambda>r. rounded_cents (inv_taxAmount r)) (filter (\<lambda>r. in_month now (invoice_day r)) is);
          bought = js_sum si_taxCents (filter (\<lambda>r. in_month now (supplier_invoice_day r)) ss)
      in \<lparr>ip_totalSalesCents = sold, ip_totalPurchasesCents = bought, ip_balanceCents = js_sub sold bought\<rparr>)"

definition get_snapshot :: "int \<Rightarrow> uuid \<Rightarrow> uuid \<Rightarrow> commercialista_db \<Rightarrow> http_error + tenant_snapshot" where
  "get_snapshot now userId t s =
     (case assert_commercialista_membership userId t s of
        Inl e \<Rightarrow> Inl e
      | Inr _ \<Rightarrow>
          (case find_id t (cm_tenants s) of
             None \<Rightarrow> Inl NotFound
           | Some x \<Rightarrow>
               (let yearStart = utc_day (utc_year now) 0 1;
                    is = filter (\<lambda>r. tenantId r = t \<and> yearStart \<le> invoice_day r) (cm_invoices s);
                    ss = filter (\<lambda>r. tenantId r = t \<and> yearStart \<le> supplier_invoice_day r) (cm_supplierInvoices s);
                    qs = filter (\<lambda>r. tenantId r = t \<and> yearStart \<le> iso_days (q_issueDate r)) (cm_quotations s)
                in Inr \<lparr>sn_tenant = x,
                     sn_invoiceStatusCounts = count_by (\<lambda>r. invoice_status_text (inv_status r)) is,
                     sn_supplierInvoiceStatusCounts = count_by (\<lambda>r. si_status_text (si_status r)) ss,
                     sn_ivaPeriod = iva_of_month now is ss,
                     sn_recentIntrastat = take 5 (latest_declarations (filter (\<lambda>d. tenantId d = t) (cm_declarations s))),
                     sn_pipelineQuotationCounts = count_by (\<lambda>r. quotation_status_text (q_status r)) qs,
                     sn_deadlines = next_deadlines now\<rparr>)))"

end
