(* ===== verification/CommercialistaProps.thy ===== *)
theory CommercialistaProps
  imports Commercialista BiProps
begin

text \<open>
  Correctness of the accountant's cockpit: the list of clients and the access to their figures
  agree, and the counters of a snapshot count the documents of the tenant.
\<close>

declare split_paired_All [simp del]

lemma foldl_Suc: "foldl (\<lambda>v r. Suc v) n rs = n + length rs"
  by (induction rs arbitrary: n) simp_all

lemma count_by_lookup:
  "map_of (count_by field rows) k =
     (let n = length (filter (\<lambda>r. field r = k) rows) in if n = 0 then None else Some n)"
proof -
  have eq: "count_by field rows = accumulate field (\<lambda>_. 0) (\<lambda>_. Suc) rows"
    by (simp add: count_by_def accumulate_onto_def count_up_def)
  show ?thesis unfolding eq accumulate_lookup
    by (cases "filter (\<lambda>r. field r = k) rows") (simp_all add: nullish_def foldl_Suc)
qed

lemma set_by_grant: "set (by_grant ms) = set ms"
  by (auto simp: by_grant_def)

lemma find_id_Some: "find_id i rows = Some r \<Longrightarrow> r \<in> set rows \<and> ent_id r = i"
  by (auto simp: find_id_def find_Some_iff)

lemma assignment_Some:
  assumes "assignment ts m = Some g"
  shows "ag_tenantId g = tenantId m" and "tenantId m \<in> ent_id ` set ts"
proof -
  obtain x where "find_id (tenantId m) ts = Some x" and g: "ag_tenantId g = ent_id x"
    using assms by (auto simp: assignment_def)
  then have "x \<in> set ts" "ent_id x = tenantId m" using find_id_Some by blast+
  then show "ag_tenantId g = tenantId m" "tenantId m \<in> ent_id ` set ts" using g by (simp, metis imageI)
qed

lemma listed_tenants:
  "ag_tenantId ` set (list_assigned_tenants u s) =
     {t \<in> ent_id ` set (cm_tenants s). \<exists>m\<in>set (cm_memberships s).
        tenantId m = t \<and> mb_userId m = u \<and> mb_status m = MbActive \<and> mb_role m = MCommercialista}"
  (is "?L = ?R")
proof (intro equalityI subsetI)
  let ?ms = "by_grant (filter (\<lambda>m. mb_userId m = u \<and> mb_status m = MbActive \<and> mb_role m = MCommercialista) (cm_memberships s))"
  let ?ts = "filter (\<lambda>x. ent_id x \<in> set (map tenantId ?ms)) (cm_tenants s)"
  have listed: "list_assigned_tenants u s = List.map_filter (assignment ?ts) ?ms"
    by (simp add: list_assigned_tenants_def Let_def)
  have assigned: "ag_tenantId g = tenantId m \<and> tenantId m \<in> ent_id ` set (cm_tenants s)" if "assignment ?ts m = Some g" for m g
    using assignment_Some [OF that] by (metis (no_types, lifting) filter_is_subset image_mono subsetD)
  {
    fix t
    assume "t \<in> ?L"
    then obtain m g where "m \<in> set ?ms" "assignment ?ts m = Some g" "t = ag_tenantId g"
      unfolding listed map_filter_def by auto
    then show "t \<in> ?R" using assigned [of m g] by (simp add: set_by_grant) blast
  next
    fix t
    assume "t \<in> ?R"
    then obtain m where m: "m \<in> set ?ms" "tenantId m = t" and "t \<in> ent_id ` set (cm_tenants s)"
      by (auto simp: set_by_grant)
    then have "t \<in> ent_id ` set ?ts" by force
    then obtain x where "find_id t ?ts = Some x"
      by (cases "find_id t ?ts") (auto simp: find_id_def find_None_iff)
    then obtain g where g: "assignment ?ts m = Some g" using m(2) by (auto simp: assignment_def)
    then have "g \<in> set (list_assigned_tenants u s)"
      using m(1) unfolding listed map_filter_def by force
    then show "t \<in> ?L" using assigned [OF g] m(2) by force
  }
qed


definition sample_client :: tenant where
  "sample_client = \<lparr>ent_id = ''t1'', tenantId = ''t1'', tn_name = ''F'', tn_vatNumber = None, tn_fiscalCode = None,
     tn_sdiDestinationCode = None, tn_pecEmail = None, tn_billingAddress = None, tn_billingCity = None,
     tn_billingPostalCode = None, tn_billingProvince = None, tn_plan = PlanBase, tn_status = TnActive, tn_seatLimit = 3,
     tn_trialEndsAt = None, tn_settings = None\<rparr>"

definition sample_grant :: membership where
  "sample_grant = \<lparr>ent_id = ''m1'', tenantId = ''t1'', mb_userId = ''u1'', mb_role = MCommercialista, mb_status = MbActive,
     mb_invitedAt = None, mb_consentedAt = None, mb_grantedAt = Some 1, mb_revokedAt = None, mb_invitedBy = None, mb_revokedBy = None\<rparr>"

definition sample_cockpit :: commercialista_db where
  "sample_cockpit = \<lparr>cm_memberships = [sample_grant], cm_tenants = [sample_client], cm_invoices = [], cm_supplierInvoices = [],
     cm_declarations = [], cm_quotations = []\<rparr>"


end
