(* ===== verification/Compliance.thy ===== *)
theory Compliance
  imports Tenants PdfProps "HOL-Library.List_Lexorder" "HOL-Library.Char_ord"
begin

text \<open>
  The audit trail and the compliance pack: the interceptor that writes a row for every request
  that changes something (\<^verbatim>\<open>audit/audit.interceptor.ts\<close>), the listing of the trail and
  the documents made from it (\<^verbatim>\<open>compliance/compliance.service.ts\<close>). The insertion of a row
  is not awaited; here it succeeds. In the texts of the document the long dash, which is no
  character of Latin-1, is its low byte.
\<close>

section \<open>The audit trail\<close>

datatype audit_outcome = AuditSuccess | AuditFailure | AuditDenied

record audit_log =
  al_tenantId :: "uuid option"
  al_userId :: "uuid option"
  al_actorEmail :: "string option"
  al_action :: string
  al_resourceType :: "string option"
  al_resourceId :: "string option"
  al_method :: string
  al_path :: string
  al_statusCode :: int
  al_ipAddress :: "string option"
  al_userAgent :: "string option"
  al_correlationId :: "string option"
  al_outcome :: audit_outcome
  al_createdAt :: int

record http_request =
  hr_method :: string
  hr_url :: string
  hr_userTenant :: "uuid option"
  hr_userId :: "uuid option"
  hr_userEmail :: "string option"
  hr_ip :: "string option"
  hr_forwardedFor :: "string option"
  hr_userAgent :: "string option"
  hr_correlationId :: "string option"
  hr_params :: "(string \<times> string) list"

definition AUDITED_METHODS :: "string list" where
  "AUDITED_METHODS = [''POST'', ''PUT'', ''PATCH'', ''DELETE'']"

text \<open>\<^verbatim>\<open>url.split('?')[0].split('/').filter(Boolean)\<close> without the prefix of the interface.\<close>

definition url_parts :: "string \<Rightarrow> string list" where
  "url_parts url = filter (\<lambda>p. p \<noteq> []) (split_at_char CHR ''/'' (hd (split_at_char CHR ''?'' url)))"

definition resource_parts :: "string \<Rightarrow> string list" where
  "resource_parts url =
     (let parts = url_parts url in
      if take 1 parts = [''api''] then drop (if take 1 (drop 1 parts) = [''v1''] then 2 else 1) parts else parts)"

definition resolve_action :: "http_request \<Rightarrow> string" where
  "resolve_action req =
     (let resource = (case resource_parts (hr_url req) of [] \<Rightarrow> ''unknown'' | p # _ \<Rightarrow> p) in
      resource @ ''.'' @
        (if hr_method req = ''POST'' then ''create''
         else if hr_method req = ''PUT'' \<or> hr_method req = ''PATCH'' then ''update''
         else if hr_method req = ''DELETE'' then ''delete'' else map to_lower (hr_method req)))"

definition resolve_resource_type :: "http_request \<Rightarrow> string option" where
  "resolve_resource_type req = (case resource_parts (hr_url req) of [] \<Rightarrow> None | p # _ \<Rightarrow> Some p)"

definition resolve_resource_id :: "http_request \<Rightarrow> string option" where
  "resolve_resource_id req =
     or_else (map_of (hr_params req) ''id'') (or_else (map_of (hr_params req) ''invoiceId'') (map_of (hr_params req) ''productId''))"

definition audit_row :: "int \<Rightarrow> http_request \<Rightarrow> int \<Rightarrow> audit_outcome \<Rightarrow> audit_log" where
  "audit_row now req statusCode outc =
     \<lparr>al_tenantId = hr_userTenant req, al_userId = hr_userId req, al_actorEmail = hr_userEmail req,
      al_action = resolve_action req, al_resourceType = resolve_resource_type req, al_resourceId = resolve_resource_id req,
      al_method = hr_method req, al_path = take 500 (hr_url req), al_statusCode = statusCode,
      al_ipAddress = (if truthy (hr_ip req) then hr_ip req else if truthy (hr_forwardedFor req) then hr_forwardedFor req else None),
      al_userAgent = map_option (take 500) (hr_userAgent req), al_correlationId = hr_correlationId req,
      al_outcome = outc, al_createdAt = now\<rparr>"

text \<open>
  \<^verbatim>\<open>intercept\<close>: \<open>result\<close> is what the handler did, the status of its answer or of its
  exception; an exception without a status counts as 500.
\<close>

definition is_audited :: "http_request \<Rightarrow> bool" where
  "is_audited req \<longleftrightarrow>
     hr_method req \<in> set AUDITED_METHODS \<and> \<not> (take 11 (hr_url req) = ''/api/health'' \<or> hr_url req = ''/metrics'')"

definition intercept :: "int \<Rightarrow> http_request \<Rightarrow> int option + int \<Rightarrow> audit_log list \<Rightarrow> audit_log list" where
  "intercept now req result table =
     (if \<not> is_audited req then table
      else (case result of
        Inr statusCode \<Rightarrow> table @ [audit_row now req statusCode AuditSuccess]
      | Inl thrown \<Rightarrow>
          (let statusCode = nullish thrown 500
           in table @ [audit_row now req statusCode (if statusCode \<ge> 500 then AuditFailure else AuditDenied)])))"

section \<open>Reading the trail\<close>

record audit_filter =
  lf_action :: "string option"
  lf_from :: "int option"
  lf_to :: "int option"
  lf_outcome :: "audit_outcome option"
  lf_limit :: "nat option"

definition list_audit_trail :: "uuid \<Rightarrow> audit_filter \<Rightarrow> audit_log list \<Rightarrow> audit_log list" where
  "list_audit_trail t f table =
     take (nullish (lf_limit f) 200) (sort_key (\<lambda>a. - al_createdAt a)
       (filter (\<lambda>a. al_tenantId a = Some t \<and> (truthy (lf_action f) \<longrightarrow> al_action a = the (lf_action f)) \<and>
          (case lf_outcome f of None \<Rightarrow> True | Some v \<Rightarrow> al_outcome a = v) \<and>
          (case lf_from f of None \<Rightarrow> True | Some v \<Rightarrow> v \<le> al_createdAt a) \<and>
          (case lf_to f of None \<Rightarrow> True | Some v \<Rightarrow> al_createdAt a < v)) table))"

record audit_counts =
  ac_total :: nat
  ac_success :: nat
  ac_failure :: nat
  ac_denied :: nat

definition count_outcome :: "audit_counts \<Rightarrow> audit_log \<Rightarrow> audit_counts" where
  "count_outcome n a =
     (case al_outcome a of
        AuditSuccess \<Rightarrow> n\<lparr>ac_success := Suc (ac_success n)\<rparr>
      | AuditFailure \<Rightarrow> n\<lparr>ac_failure := Suc (ac_failure n)\<rparr>
      | AuditDenied \<Rightarrow> n\<lparr>ac_denied := Suc (ac_denied n)\<rparr>)"

definition audit_counts_last_30_days :: "int \<Rightarrow> uuid \<Rightarrow> audit_log list \<Rightarrow> audit_counts" where
  "audit_counts_last_30_days now t table =
     (let rows = filter (\<lambda>a. al_tenantId a = Some t \<and> now - 30 * MS_PER_DAY \<le> al_createdAt a) table
      in foldl count_outcome \<lparr>ac_total = length rows, ac_success = 0, ac_failure = 0, ac_denied = 0\<rparr> rows)"

section \<open>The documents\<close>

fun plan_text :: "subscription_plan \<Rightarrow> string" where
  "plan_text PlanBase = ''base''"
| "plan_text PlanProfessionale = ''professionale''"
| "plan_text PlanEnterprise = ''enterprise''"

definition nis2_lines :: "int \<Rightarrow> tenant \<Rightarrow> audit_counts \<Rightarrow> string list" where
  "nis2_lines now x n =
    [''NIS2 Compliance Pack '' @ [CHR 0x14] @ '' '' @ tn_name x,
     ''Tenant ID: '' @ ent_id x,
     ''Plan: '' @ plan_text (tn_plan x),
     ''Generated: '' @ iso_time now,
     [],
     ''Riferimenti normativi'',
     ''  D.Lgs. 138/2024 '' @ [CHR 0x14] @ '' recepimento NIS2 (in vigore 17/10/2024)'',
     ''  Direttiva UE 2022/2555 '' @ [CHR 0x14] @ '' NIS2'',
     ''  Reg. UE 2016/679 (GDPR) + D.Lgs. 196/2003'',
     ''  ACN '' @ [CHR 0x14] @ '' autorita competente NIS2 in Italia'',
     [],
     ''Sezione 1 '' @ [CHR 0x14] @ '' Governance e gestione del rischio (art. 24)'',
     ''  Risk owner: titolare dell'' @ [CHR 0x27] @ ''organizzazione (vedi anagrafica tenant).'',
     ''  Riesame del rischio almeno annuale; riesame straordinario su'',
     ''  incidenti significativi entro 30 giorni.'',
     [],
     ''Sezione 2 '' @ [CHR 0x14] @ '' Misure di sicurezza tecniche (art. 24, comma 2)'',
     ''  - Cifratura at-rest (AES-256) e in-transit (TLS 1.3).'',
     ''  - Autenticazione con MFA per ruoli admin (target enabled).'',
     ''  - Controllo accessi RBAC per modulo (vedi RolesGuard).'',
     ''  - Backup giornalieri off-site con test di ripristino trimestrale.'',
     ''  - Log immutabili per 10 anni (DPCM 3/12/2013).'',
     [],
     ''Sezione 3 '' @ [CHR 0x14] @ '' Notifica incidenti (art. 25)'',
     ''  Allerta precoce all'' @ [CHR 0x27] @ ''ACN entro 24 ore dalla rilevazione di un'',
     ''  incidente significativo. Notifica completa entro 72 ore.'',
     ''  Relazione finale entro 30 giorni.'',
     [],
     ''Sezione 4 '' @ [CHR 0x14] @ '' Catena di approvvigionamento (art. 25)'',
     ''  Vendor-DD documentata per i fornitori critici (ADR-016, ADR-019,'',
     ''  ADR-025, ADR-037). Conservazione a Norma con primary +'',
     ''  secondary per il tier Professionale+ (ADR-025).'',
     [],
     ''Sezione 5 '' @ [CHR 0x14] @ '' Audit + tracciabilita (ultimi 30 giorni)'',
     ''  Eventi audit totali: '' @ dec (ac_total n),
     ''  - successi: '' @ dec (ac_success n),
     ''  - failure: '' @ dec (ac_failure n),
     ''  - denied:  '' @ dec (ac_denied n),
     [],
     ''Sezione 6 '' @ [CHR 0x14] @ '' Documenti collegati'',
     ''  - docs/SECURITY.md'',
     ''  - docs/SECURITY-SELF-ASSESSMENT.md'',
     ''  - docs/RISK-ACCEPTANCES.md'',
     ''  - docs/DATA_GOVERNANCE.md'',
     ''  - docs/RUNBOOK.md'',
     [],
     ''Firmato: SmartERP Compliance '' @ [CHR 0x14] @ '' generato dal sistema.'']"

record pack =
  pk_filename :: string
  pk_contentType :: string
  pk_body :: string

definition generate_nis2_pack :: "int \<Rightarrow> uuid \<Rightarrow> tenant list \<Rightarrow> audit_log list \<Rightarrow> http_error + pack" where
  "generate_nis2_pack now t tenants table =
     (case find_id t tenants of
        None \<Rightarrow> Inl NotFound
      | Some x \<Rightarrow> Inr
          \<lparr>pk_filename = ''nis2-compliance-pack-'' @ ent_id x @ ''-'' @ iso_date now @ ''.pdf'',
           pk_contentType = ''application/pdf'',
           pk_body = render_minimal_pdf (nis2_lines now x (audit_counts_last_30_days now t table))\<rparr>)"

definition generate_security_pack :: "int \<Rightarrow> uuid \<Rightarrow> tenant list \<Rightarrow> audit_log list \<Rightarrow> http_error + pack" where
  "generate_security_pack now t tenants table =
     map_sum id (\<lambda>p. p\<lparr>pk_filename := ''security-pack'' @ drop (length ''nis2-compliance-pack'') (pk_filename p)\<rparr>)
       (generate_nis2_pack now t tenants table)"

end
