(* ===== verification/ComplianceProps.thy ===== *)
theory ComplianceProps
  imports Compliance
begin

text \<open>
  Correctness of the audit trail: what the interceptor keeps of a run of requests, and that the
  counts of the compliance pack are those of the requests.
\<close>

section \<open>A run of requests\<close>

type_synonym audit_event = "int \<times> http_request \<times> (int option + int)"

definition intercept_all :: "audit_event list \<Rightarrow> audit_log list \<Rightarrow> audit_log list" where
  "intercept_all events table = foldl (\<lambda>rows (at_ms, req, result). intercept at_ms req result rows) table events"

text \<open>What happened to a request, read off the answer alone.\<close>

fun outcome_of :: "int option + int \<Rightarrow> audit_outcome" where
  "outcome_of (Inr code) = AuditSuccess"
| "outcome_of (Inl None) = AuditFailure"
| "outcome_of (Inl (Some code)) = (if code \<ge> 500 then AuditFailure else AuditDenied)"

fun status_of :: "int option + int \<Rightarrow> int" where
  "status_of (Inr code) = code"
| "status_of (Inl None) = 500"
| "status_of (Inl (Some code)) = code"

fun row_of :: "audit_event \<Rightarrow> audit_log" where
  "row_of (at_ms, req, result) = audit_row at_ms req (status_of result) (outcome_of result)"

definition audited_event :: "audit_event \<Rightarrow> bool" where
  "audited_event e \<longleftrightarrow> is_audited (fst (snd e))"

lemma intercept_row:
  "intercept at_ms req result rows =
     (if is_audited req then rows @ [row_of (at_ms, req, result)] else rows)"
proof (cases result)
  case (Inl thrown)
  then show ?thesis by (cases thrown) (simp_all add: intercept_def nullish_def)
qed (simp add: intercept_def)

lemma intercept_all_rows: "intercept_all events table = table @ map row_of (filter audited_event events)"
proof (induction events arbitrary: table)
  case (Cons e events)
  obtain at_ms req result where e: "e = (at_ms, req, result)" by (cases e)
  have "intercept_all (e # events) table = intercept_all events (intercept at_ms req result table)"
    by (simp add: intercept_all_def e)
  then show ?case by (simp only: Cons.IH) (simp add: e intercept_row audited_event_def)
qed (simp add: intercept_all_def)

section \<open>Counting\<close>

abbreviation outcome_count :: "audit_outcome \<Rightarrow> audit_log list \<Rightarrow> nat" where
  "outcome_count v rows \<equiv> length (filter (\<lambda>a. al_outcome a = v) rows)"

lemma foldl_count_outcome:
  "foldl count_outcome n rows =
     \<lparr>ac_total = ac_total n, ac_success = ac_success n + outcome_count AuditSuccess rows,
      ac_failure = ac_failure n + outcome_count AuditFailure rows,
      ac_denied = ac_denied n + outcome_count AuditDenied rows\<rparr>"
  by (induction rows arbitrary: n) (auto simp: count_outcome_def split: audit_outcome.splits)

lemma outcomes_exhaust:
  "outcome_count AuditSuccess rows + outcome_count AuditFailure rows + outcome_count AuditDenied rows = length rows"
proof (induction rows)
  case (Cons a rows)
  then show ?case by (cases "al_outcome a") simp_all
qed simp

lemma row_of_fields [simp]:
  "al_tenantId (row_of e) = hr_userTenant (fst (snd e))" "al_createdAt (row_of e) = fst e"
  "al_outcome (row_of e) = outcome_of (snd (snd e))"
  by (cases e; simp add: audit_row_def)+

definition recent_event :: "int \<Rightarrow> uuid \<Rightarrow> audit_event \<Rightarrow> bool" where
  "recent_event now t e \<longleftrightarrow> hr_userTenant (fst (snd e)) = Some t \<and> now - 30 * MS_PER_DAY \<le> fst e"

definition recent_with :: "int \<Rightarrow> uuid \<Rightarrow> audit_event list \<Rightarrow> audit_outcome \<Rightarrow> nat" where
  "recent_with now t events v =
     length (filter (\<lambda>e. audited_event e \<and> recent_event now t e \<and> outcome_of (snd (snd e)) = v) events)"

lemma outcome_count_recent:
  "outcome_count v (filter (\<lambda>a. al_tenantId a = Some t \<and> now - 30 * MS_PER_DAY \<le> al_createdAt a)
      (map row_of (filter audited_event events))) = recent_with now t events v"
  by (simp add: recent_with_def recent_event_def filter_map o_def conj_ac)

lemma counts_of_run:
  "audit_counts_last_30_days now t (intercept_all events []) =
     \<lparr>ac_total = recent_with now t events AuditSuccess + recent_with now t events AuditFailure
                 + recent_with now t events AuditDenied,
      ac_success = recent_with now t events AuditSuccess, ac_failure = recent_with now t events AuditFailure,
      ac_denied = recent_with now t events AuditDenied\<rparr>"
proof -
  let ?rows = "filter (\<lambda>a. al_tenantId a = Some t \<and> now - 30 * MS_PER_DAY \<le> al_createdAt a)
    (map row_of (filter audited_event events))"
  have "length ?rows = recent_with now t events AuditSuccess + recent_with now t events AuditFailure
      + recent_with now t events AuditDenied"
    using outcomes_exhaust [of ?rows] by (simp only: outcome_count_recent)
  then show ?thesis
    unfolding audit_counts_last_30_days_def intercept_all_rows Let_def append_Nil
    by (simp only: foldl_count_outcome outcome_count_recent audit_counts.simps add_0)
qed


section \<open>Examples\<close>

definition sample_request :: "string \<Rightarrow> string \<Rightarrow> http_request" where
  "sample_request verb url =
     \<lparr>hr_method = verb, hr_url = url, hr_userTenant = Some ''t1'', hr_userId = Some ''u1'', hr_userEmail = None,
      hr_ip = Some ''10.0.0.1'', hr_forwardedFor = None, hr_userAgent = None, hr_correlationId = None,
      hr_params = [(''id'', ''42'')]\<rparr>"

lemma example_actions:
  "resolve_action (sample_request ''POST'' ''/api/v1/invoices/?draft=1'') = ''invoices.create''"
  "resolve_action (sample_request ''DELETE'' ''/api/customers/42'') = ''customers.delete''"
  "resolve_action (sample_request ''PATCH'' ''/'') = ''unknown.update''"
  "resolve_resource_id (sample_request ''PATCH'' ''/'') = Some ''42''"
  by code_simp+

lemma example_trail:
  "map al_outcome (intercept_all
     [(1, sample_request ''GET'' ''/api/v1/invoices'', Inr 200), (2, sample_request ''POST'' ''/api/v1/invoices'', Inr 201),
      (3, sample_request ''POST'' ''/api/v1/invoices'', Inl (Some 403)), (4, sample_request ''PUT'' ''/api/v1/invoices/1'', Inl None)] [])
   = [AuditSuccess, AuditDenied, AuditFailure]"
  by code_simp

end
