(* ===== verification/Copilot.thy ===== *)
theory Copilot
  imports BiReadModel Tenants
begin

text \<open>
  The assistant: the client of the language model (\<^verbatim>\<open>ai-copilot/anthropic.client.ts\<close>), the
  tools it may call (\<^verbatim>\<open>tool-registry.service.ts\<close>, \<^verbatim>\<open>tools/sara-tools.ts\<close>,
  \<^verbatim>\<open>tools/production-tools.ts\<close>), the conversation turn with its daily budget of tokens
  (\<^verbatim>\<open>copilot.service.ts\<close>) and the harness of golden questions (\<^verbatim>\<open>eval.harness.ts\<close>).

  Token counts are whole numbers, exact as JavaScript numbers below two to the power of 53. The
  limit in \<^verbatim>\<open>tenant.settings.aiCopilot.dailyTokenCap\<close> is a parameter that reads the tenant:
  the settings of a tenant are modelled as texts. The schemas of the tools' inputs are only sent
  to the model and are left out; the service does not check an input against them.
\<close>

section \<open>The tools\<close>

datatype copilot_persona = ForSara | ForMarco | ForLuca | ForGiulia | ForAndrea

record tool_input =
  in_from :: "string option"
  in_to :: "string option"
  in_limit :: "nat option"
  in_supplierInvoiceNumber :: "string option"
  in_supplierId :: "uuid option"
  in_period :: "string option"
  in_contains :: "string option"
  in_year :: "nat option"
  in_days :: "nat option"
  in_articleSku :: "string option"

record tool_tables =
  tt_invoices :: "invoice list"
  tt_supplierInvoices :: "supplier_invoice list"
  tt_customers :: "customer list"
  tt_declarations :: "intrastat_declaration list"
  tt_ddts :: "ddt list"
  tt_readModelRows :: "bi_row list"

text \<open>What a tool returns: entities, or an object with the listed fields.\<close>

datatype tool_result =
    FoundInvoices "invoice list"
  | FoundSupplierInvoices "supplier_invoice list"
  | FoundCustomers "customer list"
  | FoundDeclarations "intrastat_declaration list"
  | FoundDdts "ddt list"
  | FoundRows "bi_row list"
  | FoundRow bi_row
  | NoBalance "string option" payload
  | CashCounters nat nat nat "int option"
  | ScrapEvents nat "string list" string
  | RootCauses "string option" "string list" string

record copilot_tool =
  tl_name :: string
  tl_description :: string
  tl_persona :: copilot_persona
  tl_execute :: "tool_tables \<Rightarrow> uuid \<Rightarrow> tool_input \<Rightarrow> tool_result"

text \<open>Query parameters read as conditions: an absent or empty text, and a year of zero, set no bound.\<close>

definition given_date :: "string option \<Rightarrow> int option" where
  "given_date s = (if truthy s then Some (midnight_utc (the s)) else None)"

definition list_invoices_tool :: "tool_tables \<Rightarrow> uuid \<Rightarrow> tool_input \<Rightarrow> tool_result" where
  "list_invoices_tool db t x =
     FoundInvoices (take (nullish (in_limit x) 25) (sort_key (\<lambda>i. - invoice_day i)
       (filter (\<lambda>i. tenantId i = t \<and>
          in_window \<lparr>px_tenantId = t, px_from = given_date (in_from x), px_to = given_date (in_to x)\<rparr> (invoice_day i))
        (tt_invoices db))))"

definition find_supplier_invoice_tool :: "tool_tables \<Rightarrow> uuid \<Rightarrow> tool_input \<Rightarrow> tool_result" where
  "find_supplier_invoice_tool db t x =
     FoundSupplierInvoices (take 20 (sort_key (\<lambda>s. - supplier_invoice_day s)
       (filter (\<lambda>s. tenantId s = t \<and>
          (truthy (in_supplierInvoiceNumber x) \<longrightarrow> si_number s = the (in_supplierInvoiceNumber x)) \<and>
          (truthy (in_supplierId x) \<longrightarrow> si_supplierId s = the (in_supplierId x)))
        (tt_supplierInvoices db))))"

text \<open>\<^verbatim>\<open>findOne\<close> ignores a condition whose value is undefined.\<close>

definition summarise_iva_tool :: "tool_tables \<Rightarrow> uuid \<Rightarrow> tool_input \<Rightarrow> tool_result" where
  "summarise_iva_tool db t x =
     (case find (\<lambda>r. tenantId r = t \<and> br_projectionId r = ''iva_periodic_balance'' \<and>
            (case in_period x of None \<Rightarrow> True | Some period \<Rightarrow> br_key r = period)) (tt_readModelRows db) of
        Some r \<Rightarrow> FoundRow r
      | None \<Rightarrow> NoBalance (in_period x)
          [(''ivaSalesCents'', JNum 0), (''ivaPurchasesCents'', JNum 0), (''balanceCents'', JNum 0)])"

definition list_customers_tool :: "tool_tables \<Rightarrow> uuid \<Rightarrow> tool_input \<Rightarrow> tool_result" where
  "list_customers_tool db t x =
     FoundCustomers (take (nullish (in_limit x) 50) (sort_key cu_name
       (filter (\<lambda>c. tenantId c = t \<and>
          (truthy (in_contains x) \<longrightarrow>
             sql_like (''%'' @ map to_lower (the (in_contains x)) @ ''%'') (map to_lower (cu_name c))))
        (tt_customers db))))"

definition projected_rows :: "tool_tables \<Rightarrow> uuid \<Rightarrow> string \<Rightarrow> bi_row list" where
  "projected_rows db t p = filter (\<lambda>r. tenantId r = t \<and> br_projectionId r = p) (tt_readModelRows db)"

text \<open>
  \<^verbatim>\<open>ORDER BY (payload->>'k')::bigint DESC\<close>, a missing figure first. The figures the rows of
  a projection are ranked by are numbers.
\<close>

definition by_figure :: "string \<Rightarrow> bi_row list \<Rightarrow> bi_row list" where
  "by_figure k rows =
     (let number = (\<lambda>r. case map_of (br_payload r) k of Some (JNum q) \<Rightarrow> Some q | _ \<Rightarrow> None)
      in filter (\<lambda>r. number r = None) rows @
         sort_key (\<lambda>r. - the (number r)) (filter (\<lambda>r. number r \<noteq> None) rows))"

definition top_customers_tool :: "tool_tables \<Rightarrow> uuid \<Rightarrow> tool_input \<Rightarrow> tool_result" where
  "top_customers_tool db t x =
     FoundRows (take (nullish (in_limit x) 10) (by_figure ''totalCents'' (projected_rows db t ''customer_revenue_ranking'')))"

definition top_suppliers_tool :: "tool_tables \<Rightarrow> uuid \<Rightarrow> tool_input \<Rightarrow> tool_result" where
  "top_suppliers_tool db t x =
     FoundRows (take (nullish (in_limit x) 10) (by_figure ''totalCents'' (projected_rows db t ''supplier_spend_ranking'')))"

text \<open>Newest period first; a declaration without a month comes before the others of its year.\<close>

definition intrastat_status_tool :: "tool_tables \<Rightarrow> uuid \<Rightarrow> tool_input \<Rightarrow> tool_result" where
  "intrastat_status_tool db t x =
     FoundDeclarations (take 24
       (sort_key (\<lambda>d. - int (id_periodYear d))
         (sort_key (\<lambda>d. case id_periodMonth d of None \<Rightarrow> - 13 | Some m \<Rightarrow> - int m)
           (filter (\<lambda>d. tenantId d = t \<and> (nullish (in_year x) 0 \<noteq> 0 \<longrightarrow> id_periodYear d = the (in_year x)))
             (tt_declarations db)))))"

text \<open>The rows of a projection by month.\<close>

definition months_between :: "string \<Rightarrow> tool_tables \<Rightarrow> uuid \<Rightarrow> tool_input \<Rightarrow> tool_result" where
  "months_between p db t x =
     FoundRows (take 36 (sort_key br_key
       (filter (\<lambda>r. (truthy (in_from x) \<longrightarrow> the (in_from x) \<le> br_key r) \<and> (truthy (in_to x) \<longrightarrow> br_key r < the (in_to x)))
         (projected_rows db t p))))"

definition monthly_sales_tool :: "tool_tables \<Rightarrow> uuid \<Rightarrow> tool_input \<Rightarrow> tool_result" where
  "monthly_sales_tool = months_between ''monthly_invoice_totals''"

definition monthly_purchases_tool :: "tool_tables \<Rightarrow> uuid \<Rightarrow> tool_input \<Rightarrow> tool_result" where
  "monthly_purchases_tool = months_between ''monthly_supplier_invoice_totals''"

definition cash_snapshot_tool :: "tool_tables \<Rightarrow> uuid \<Rightarrow> tool_input \<Rightarrow> tool_result" where
  "cash_snapshot_tool db t x = CashCounters 0 0 0 None"

definition explain_scrap_spike_tool :: "tool_tables \<Rightarrow> uuid \<Rightarrow> tool_input \<Rightarrow> tool_result" where
  "explain_scrap_spike_tool db t x =
     ScrapEvents (nullish (in_days x) 7) []
       ''Scrap event stream lands with the production-scheduling work (Sprint 29).''"

definition find_root_cause_tool :: "tool_tables \<Rightarrow> uuid \<Rightarrow> tool_input \<Rightarrow> tool_result" where
  "find_root_cause_tool db t x =
     RootCauses (in_articleSku x) [] ''Root-cause graph traversal lands with Sprint 29 (production scheduling).''"

definition work_order_throughput_tool :: "tool_tables \<Rightarrow> uuid \<Rightarrow> tool_input \<Rightarrow> tool_result" where
  "work_order_throughput_tool = months_between ''ddt_throughput''"

definition ddt_pipeline_tool :: "tool_tables \<Rightarrow> uuid \<Rightarrow> tool_input \<Rightarrow> tool_result" where
  "ddt_pipeline_tool db t x =
     FoundDdts (take 50 (sort_key (\<lambda>d. - iso_days (ddt_issueDate d))
       (filter (\<lambda>d. tenantId d = t \<and>
          ddt_status d \<notin> {DdtDelivered, DdtInvoiced, DdtCancelled, DdtReturned, DdtLost}) (tt_ddts db))))"

definition top_articles_produced_tool :: "tool_tables \<Rightarrow> uuid \<Rightarrow> tool_input \<Rightarrow> tool_result" where
  "top_articles_produced_tool db t x =
     FoundRows (take (nullish (in_limit x) 10) (by_figure ''quantity'' (projected_rows db t ''inventory_stock_snapshot'')))"

text \<open>The tools in the order in which the module injects them.\<close>

definition SARA_TOOLS :: "copilot_tool list" where
  "SARA_TOOLS = map (\<lambda>(name, description, execute).
       \<lparr>tl_name = name, tl_description = description, tl_persona = ForSara, tl_execute = execute\<rparr>)
    [(''list_invoices'', ''List recent invoices issued by the tenant.'', list_invoices_tool),
     (''find_supplier_invoice'', ''Find a supplier invoice by number or supplier id.'', find_supplier_invoice_tool),
     (''summarise_iva'', ''Summarise IVA balance for a fiscal period (YYYY-MM).'', summarise_iva_tool),
     (''list_customers'', ''List customers with optional substring filter.'', list_customers_tool),
     (''top_customers'', ''Top-N customers by revenue YTD via the BI projection.'', top_customers_tool),
     (''top_suppliers'', ''Top-N suppliers by spend YTD via the BI projection.'', top_suppliers_tool),
     (''intrastat_status'', ''Status of the latest INTRA-1bis + INTRA-2bis declarations.'', intrastat_status_tool),
     (''monthly_sales'', ''Monthly invoice totals via the BI projection.'', monthly_sales_tool),
     (''monthly_purchases'', ''Monthly supplier-invoice totals via the BI projection.'', monthly_purchases_tool),
     (''cash_snapshot'', ''Snapshot of the tenant bank-transaction reconciliation status counters.'', cash_snapshot_tool)]"

definition PRODUCTION_TOOLS :: "copilot_tool list" where
  "PRODUCTION_TOOLS = map (\<lambda>(name, description, execute).
       \<lparr>tl_name = name, tl_description = description, tl_persona = ForLuca, tl_execute = execute\<rparr>)
    [(''explain_scrap_spike'', ''Explain a recent scrap-rate spike '' @ [CHR 0x14] @
        '' surfaces the work-orders, materials, and operators implicated in the past N days.'', explain_scrap_spike_tool),
     (''find_root_cause'', ''Walk the upstream WO + supplier chain for an article + flag candidate root causes.'', find_root_cause_tool),
     (''work_order_throughput'', ''Throughput of WOs (proxy: DDT throughput per month) for the period.'', work_order_throughput_tool),
     (''ddt_pipeline'', ''Inspect the DDT pipeline for the calling tenant.'', ddt_pipeline_tool),
     (''top_articles_produced'', ''Top articles in the inventory snapshot (proxy for current production focus).'', top_articles_produced_tool)]"

section \<open>The registry\<close>

fun register_tools :: "copilot_tool list \<Rightarrow> copilot_tool list \<Rightarrow> http_error + copilot_tool list" where
  "register_tools known [] = Inr known"
| "register_tools known (x # xs) =
     (if tl_name x \<in> tl_name ` set known then Inl PlainError else register_tools (known @ [x]) xs)"

definition tool_registry :: "copilot_tool list \<Rightarrow> http_error + copilot_tool list" where
  "tool_registry tools = register_tools [] tools"

definition get_tool :: "copilot_tool list \<Rightarrow> string \<Rightarrow> http_error + copilot_tool" where
  "get_tool reg name = (case find (\<lambda>x. tl_name x = name) reg of None \<Rightarrow> Inl NotFound | Some x \<Rightarrow> Inr x)"

definition tools_for_persona :: "copilot_tool list \<Rightarrow> copilot_persona \<Rightarrow> copilot_tool list" where
  "tools_for_persona reg p = filter (\<lambda>x. tl_persona x = p) reg"

section \<open>The client of the language model\<close>

record copilot_env =
  env_apiKey :: "string option"
  env_live :: "string option"

record model_request =
  mq_systemPrompt :: string
  mq_userMessage :: string
  mq_tools :: "copilot_tool list"
  mq_cacheId :: "string option"

datatype content_block = TextBlock string | ToolUseBlock (use_id: string) (use_name: string) (use_input: tool_input)

datatype stop_reason = EndTurn | ToolUse | MaxTokens | StopSequence

record token_usage =
  us_inputTokens :: int
  us_outputTokens :: int
  us_cacheCreationTokens :: int
  us_cacheReadTokens :: int

record model_response =
  mr_content :: "content_block list"
  mr_usage :: token_usage
  mr_model :: string
  mr_stopReason :: stop_reason

definition estimate_tokens :: "string \<Rightarrow> int" where
  "estimate_tokens s = int ((length s + 3) div 4)"

definition synthetic_response :: "model_request \<Rightarrow> model_response" where
  "synthetic_response q =
     \<lparr>mr_content = [TextBlock (''(synthetic) Copilot heard: '' @ take 120 (mq_userMessage q))],
      mr_usage = \<lparr>us_inputTokens = estimate_tokens (mq_systemPrompt q @ '' '' @ mq_userMessage q), us_outputTokens = 24,
        us_cacheCreationTokens = 0, us_cacheReadTokens = (if truthy (mq_cacheId q) then 1 else 0)\<rparr>,
      mr_model = ''claude-sonnet-4-6'', mr_stopReason = EndTurn\<rparr>"

definition send_message :: "copilot_env \<Rightarrow> model_request \<Rightarrow> http_error + model_response" where
  "send_message env q =
     (if \<not> truthy (env_apiKey env) then Inr (synthetic_response q)
      else if env_live env \<noteq> Some ''true'' then Inr (synthetic_response q)
      else Inl PlainError)"

section \<open>The daily counters\<close>

record cost_counter = entity +
  cc_date :: int
  cc_inputTokens :: int
  cc_outputTokens :: int
  cc_cacheCreationTokens :: int
  cc_cacheReadTokens :: int
  cc_turnsCount :: nat
  cc_capRejectionsCount :: nat

fun default_daily_cap :: "subscription_plan \<Rightarrow> rat" where
  "default_daily_cap PlanBase = 50000"
| "default_daily_cap PlanProfessionale = 250000"
| "default_daily_cap PlanEnterprise = 1000000"

definition resolve_daily_cap :: "(tenant \<Rightarrow> rat option) \<Rightarrow> tenant list \<Rightarrow> uuid \<Rightarrow> rat" where
  "resolve_daily_cap cap_setting tenants t =
     (case find_id t tenants of
        None \<Rightarrow> default_daily_cap PlanBase
      | Some x \<Rightarrow> nullish (cap_setting x) (default_daily_cap (tn_plan x)))"

text \<open>The counter of a day, in days since 1970; \<open>newId\<close> is the id of a row that is created.\<close>

definition daily_counter :: "int \<Rightarrow> uuid \<Rightarrow> uuid \<Rightarrow> (cost_counter list, cost_counter) svc" where
  "daily_counter now newId t =
     bind (gets (find (\<lambda>c. tenantId c = t \<and> cc_date c = now div MS_PER_DAY))) (\<lambda>found.
     case found of
       Some c \<Rightarrow> ret c
     | None \<Rightarrow>
         (let c = \<lparr>ent_id = newId, tenantId = t, cc_date = now div MS_PER_DAY, cc_inputTokens = 0, cc_outputTokens = 0,
                   cc_cacheCreationTokens = 0, cc_cacheReadTokens = 0, cc_turnsCount = 0, cc_capRejectionsCount = 0\<rparr>
          in seq (modify (save_row c)) (ret c)))"

definition total_tokens :: "cost_counter \<Rightarrow> int" where
  "total_tokens c = cc_inputTokens c + cc_outputTokens c"

definition assert_within_cap :: "rat \<Rightarrow> int \<Rightarrow> uuid \<Rightarrow> uuid \<Rightarrow> (cost_counter list, unit) svc" where
  "assert_within_cap cap now newId t =
     bind (daily_counter now newId t) (\<lambda>c.
     if of_int (total_tokens c) \<ge> cap
     then seq (modify (save_row (c\<lparr>cc_capRejectionsCount := Suc (cc_capRejectionsCount c)\<rparr>))) (throw Forbidden)
     else ret ())"

definition add_usage :: "token_usage \<Rightarrow> cost_counter \<Rightarrow> cost_counter" where
  "add_usage u c =
     c\<lparr>cc_inputTokens := cc_inputTokens c + us_inputTokens u, cc_outputTokens := cc_outputTokens c + us_outputTokens u,
       cc_cacheCreationTokens := cc_cacheCreationTokens c + us_cacheCreationTokens u,
       cc_cacheReadTokens := cc_cacheReadTokens c + us_cacheReadTokens u, cc_turnsCount := Suc (cc_turnsCount c)\<rparr>"

definition record_usage :: "int \<Rightarrow> uuid \<Rightarrow> uuid \<Rightarrow> token_usage \<Rightarrow> (cost_counter list, unit) svc" where
  "record_usage now newId t u =
     bind (daily_counter now newId t) (\<lambda>c. modify (save_row (add_usage u c)))"

section \<open>A turn\<close>

definition SYSTEM_PROMPT :: string where
  "SYSTEM_PROMPT =
     ''Sei l'' @ [CHR 0x27] @ ''assistente AI di SmartERP. Rispondi sempre in italiano. '' @
     ''Quando l'' @ [CHR 0x27] @ ''utente chiede dati operativi, chiama lo strumento '' @
     ''piu adatto invece di rispondere direttamente. Non inventare numeri.''"

record copilot_answer =
  an_output :: string
  an_toolCalls :: "(string \<times> tool_input) list"
  an_usage :: token_usage
  an_turnsCount :: nat

definition tool_calls_of :: "content_block list \<Rightarrow> (string \<times> tool_input) list" where
  "tool_calls_of content = concat (map (\<lambda>b. case b of TextBlock x \<Rightarrow> [] | ToolUseBlock i n x \<Rightarrow> [(n, x)]) content)"

definition texts_of :: "content_block list \<Rightarrow> string list" where
  "texts_of content = concat (map (\<lambda>b. case b of TextBlock x \<Rightarrow> [x] | ToolUseBlock i n y \<Rightarrow> []) content)"

text \<open>
  \<open>now\<close> is the time at which the budget is checked, \<open>later\<close> that at which the usage is recorded:
  midnight may fall between them.
\<close>

definition ask ::
  "copilot_env \<Rightarrow> (tenant \<Rightarrow> rat option) \<Rightarrow> tenant list \<Rightarrow> copilot_tool list \<Rightarrow> int \<Rightarrow> int \<Rightarrow> uuid \<Rightarrow> uuid \<Rightarrow>
     uuid \<Rightarrow> string \<Rightarrow> copilot_persona \<Rightarrow> (cost_counter list, copilot_answer) svc" where
  "ask env cap_setting tenants reg now later newId laterId t userMessage p =
     seq (assert_within_cap (resolve_daily_cap cap_setting tenants t) now newId t)
     (bind (lift (send_message env
         \<lparr>mq_systemPrompt = SYSTEM_PROMPT, mq_userMessage = userMessage, mq_tools = tools_for_persona reg p,
          mq_cacheId = None\<rparr>)) (\<lambda>response.
     seq (record_usage later laterId t (mr_usage response))
     (ret \<lparr>an_output = js_trim (join_with [CHR 0x0A] (texts_of (mr_content response))),
           an_toolCalls = tool_calls_of (mr_content response), an_usage = mr_usage response, an_turnsCount = 1\<rparr>)))"

section \<open>The golden questions\<close>

text \<open>
  What a question expects: a call of a tool, or an output in which a word begins with one of two
  stems, \<^verbatim>\<open>/\b(passive|fattur)/i\<close>.
\<close>

datatype expectation = ExpectsTool string | ExpectsItalian

fun word_starts :: "bool \<Rightarrow> string \<Rightarrow> string list" where
  "word_starts inside [] = []"
| "word_starts inside (c # cs) =
     (if is_word c \<and> \<not> inside then [c # cs] else []) @ word_starts (is_word c) cs"

definition speaks_of_invoices :: "string \<Rightarrow> bool" where
  "speaks_of_invoices s \<longleftrightarrow>
     list_ex (\<lambda>w. take 7 w = ''passive'' \<or> take 6 w = ''fattur'') (word_starts False (map to_lower s))"

fun meets :: "expectation \<Rightarrow> copilot_answer \<Rightarrow> bool" where
  "meets (ExpectsTool name) a \<longleftrightarrow> list_ex (\<lambda>c. fst c = name) (an_toolCalls a)"
| "meets ExpectsItalian a \<longleftrightarrow> speaks_of_invoices (an_output a)"

record golden_question =
  gq_id :: string
  gq_persona :: copilot_persona
  gq_prompt :: string
  gq_expect :: expectation

definition GOLDEN_QUESTIONS :: "golden_question list" where
  "GOLDEN_QUESTIONS = map (\<lambda>(i, p, prompt, e). \<lparr>gq_id = i, gq_persona = p, gq_prompt = prompt, gq_expect = e\<rparr>)
    [(''sara/q01-ack'', ForSara, ''Mostrami le ultime 5 fatture emesse'', ExpectsTool ''list_invoices''),
     (''sara/q02-iva'', ForSara, ''Qual e il bilancio IVA del periodo 2026-04?'', ExpectsTool ''summarise_iva''),
     (''sara/q03-top-customers'', ForSara, ''Top 10 clienti per fatturato YTD'', ExpectsTool ''top_customers''),
     (''sara/q04-monthly-sales'', ForSara, ''Andamento del fatturato negli ultimi 6 mesi'', ExpectsTool ''monthly_sales''),
     (''sara/q05-italian'', ForSara, ''Riassumi le fatture passive del mese'', ExpectsItalian),
     (''luca/q06-scrap'', ForLuca, ''Spiegami lo spike di scarti delle ultime 2 settimane'', ExpectsTool ''explain_scrap_spike''),
     (''luca/q07-rootcause'', ForLuca, ''Trova la causa principale dei difetti su SKU FUSO-12'', ExpectsTool ''find_root_cause''),
     (''luca/q08-throughput'', ForLuca, ''Andamento del throughput WO degli ultimi 6 mesi'', ExpectsTool ''work_order_throughput''),
     (''luca/q09-pipeline'', ForLuca, ''Quali DDT sono ancora aperti?'', ExpectsTool ''ddt_pipeline''),
     (''luca/q10-snapshot'', ForLuca, ''Top articoli a magazzino oggi'', ExpectsTool ''top_articles_produced''),
     (''sara/q11-purchase'', ForSara, ''Andamento degli acquisti negli ultimi 3 mesi'', ExpectsTool ''monthly_purchases''),
     (''sara/q12-suppliers'', ForSara, ''Top 5 fornitori per spesa'', ExpectsTool ''top_suppliers''),
     (''sara/q13-customers'', ForSara, ''Cerca clienti che contengono '' @ [CHR 0x22] @ ''spa'' @ [CHR 0x22],
        ExpectsTool ''list_customers''),
     (''sara/q14-cash'', ForSara, ''Stato di cassa attuale'', ExpectsTool ''cash_snapshot''),
     (''sara/q15-intrastat'', ForSara, ''Stato Intrastat del 2026'', ExpectsTool ''intrastat_status'')]"

record eval_item =
  ei_id :: string
  ei_pass :: bool
  ei_output :: string
  ei_toolCalls :: "string list"

record eval_report =
  ev_total :: nat
  ev_passed :: nat
  ev_failed :: nat
  ev_items :: "eval_item list"

definition grade :: "golden_question \<Rightarrow> copilot_answer \<Rightarrow> eval_item" where
  "grade q a = \<lparr>ei_id = gq_id q, ei_pass = meets (gq_expect q) a, ei_output = an_output a,
                ei_toolCalls = map fst (an_toolCalls a)\<rparr>"

fun ask_each ::
  "(golden_question \<Rightarrow> (cost_counter list, copilot_answer) svc) \<Rightarrow> golden_question list \<Rightarrow>
     (cost_counter list, eval_item list) svc" where
  "ask_each f [] = ret []"
| "ask_each f (q # qs) = bind (f q) (\<lambda>a. bind (ask_each f qs) (\<lambda>items. ret (grade q a # items)))"

definition run_eval ::
  "(golden_question \<Rightarrow> (cost_counter list, copilot_answer) svc) \<Rightarrow> (cost_counter list, eval_report) svc" where
  "run_eval f =
     bind (ask_each f GOLDEN_QUESTIONS) (\<lambda>items.
     let passed = length (filter ei_pass items)
     in ret \<lparr>ev_total = length GOLDEN_QUESTIONS, ev_passed = passed, ev_failed = length GOLDEN_QUESTIONS - passed,
             ev_items = items\<rparr>)"

end
