(* ===== verification/CopilotProps.thy ===== *)
theory CopilotProps
  imports Copilot
begin

text \<open>
  Correctness of the assistant: the daily budget of tokens over any history of turns.
\<close>

section \<open>The daily budget\<close>

text \<open>The largest cost of a turn whose question has at most \<open>n\<close> characters.\<close>

definition turn_cost :: "nat \<Rightarrow> int" where
  "turn_cost n = int ((length SYSTEM_PROMPT + 1 + n + 3) div 4) + 24"

definition counter_ok :: "(uuid \<Rightarrow> rat) \<Rightarrow> nat \<Rightarrow> cost_counter \<Rightarrow> bool" where
  "counter_ok cap n c \<longleftrightarrow>
     0 \<le> total_tokens c \<and> of_int (total_tokens c) < max 1 (cap (tenantId c)) + of_int (turn_cost n) \<and>
     (cc_capRejectionsCount c > 0 \<longrightarrow> cap (tenantId c) \<le> of_int (total_tokens c))"

definition counters_ok :: "(uuid \<Rightarrow> rat) \<Rightarrow> nat \<Rightarrow> int \<Rightarrow> cost_counter list \<Rightarrow> bool" where
  "counters_ok cap n clock s \<longleftrightarrow>
     keyed s \<and> (\<forall>x\<in>set s. \<forall>y\<in>set s. tenantId x = tenantId y \<and> cc_date x = cc_date y \<longrightarrow> x = y) \<and>
     (\<forall>c\<in>set s. cc_date c \<le> clock div MS_PER_DAY \<and> counter_ok cap n c)"

text \<open>A turn at a time no earlier than the clock; the ids of its new rows are fresh.\<close>

inductive ask_run ::
  "copilot_env \<Rightarrow> (tenant \<Rightarrow> rat option) \<Rightarrow> tenant list \<Rightarrow> copilot_tool list \<Rightarrow> nat \<Rightarrow> int \<Rightarrow> cost_counter list \<Rightarrow> bool"
  for env cap_setting tenants reg n where
  start: "ask_run env cap_setting tenants reg n clock []"
| turn: "ask_run env cap_setting tenants reg n clock s \<Longrightarrow> clock \<le> now \<Longrightarrow> now \<le> later \<Longrightarrow>
    fresh newId s \<Longrightarrow> fresh laterId s \<Longrightarrow> newId \<noteq> laterId \<Longrightarrow> length message \<le> n \<Longrightarrow>
    ask env cap_setting tenants reg now later newId laterId t message p s = (r, s') \<Longrightarrow>
    ask_run env cap_setting tenants reg n later s'"

lemma MS_PER_DAY_pos: "0 < MS_PER_DAY"
  by (simp add: MS_PER_DAY_def)

lemma turn_cost_pos: "0 < turn_cost n"
  by (simp add: turn_cost_def)

lemma counters_ok_later: "counters_ok cap n clock s \<Longrightarrow> clock \<le> now \<Longrightarrow> counters_ok cap n now s"
  unfolding counters_ok_def using zdiv_mono1 [OF _ MS_PER_DAY_pos, of clock now] by (meson order_trans)

text \<open>Saving a changed counter.\<close>

lemma counters_ok_save:
  assumes ok: "counters_ok cap n clock s" and c: "c \<in> set s"
    and same: "ent_id c' = ent_id c" "tenantId c' = tenantId c" "cc_date c' = cc_date c"
    and new: "counter_ok cap n c'"
  shows "counters_ok cap n clock (save_row c' s)"
proof -
  from ok have k: "keyed s" by (simp add: counters_ok_def)
  have set: "set (save_row c' s) = insert c' {x \<in> set s. ent_id x \<noteq> ent_id c}"
    using set_save_row [OF k, of c'] by (simp add: same)
  have other: "x \<in> set s \<Longrightarrow> ent_id x \<noteq> ent_id c \<Longrightarrow> \<not> (tenantId x = tenantId c' \<and> cc_date x = cc_date c')" for x
    using ok c by (auto simp: counters_ok_def same)
  have date: "cc_date c' \<le> clock div MS_PER_DAY" using ok c by (simp add: counters_ok_def same)
  have "keyed (save_row c' s)" using k by (rule keyed_save_row)
  moreover have "\<forall>x\<in>set (save_row c' s). \<forall>y\<in>set (save_row c' s).
      tenantId x = tenantId y \<and> cc_date x = cc_date y \<longrightarrow> x = y"
  proof (intro ballI impI)
    fix x y
    assume "x \<in> set (save_row c' s)" "y \<in> set (save_row c' s)" and e: "tenantId x = tenantId y \<and> cc_date x = cc_date y"
    then consider "x = c'" "y = c'" | "x = c'" "y \<in> set s" "ent_id y \<noteq> ent_id c"
      | "y = c'" "x \<in> set s" "ent_id x \<noteq> ent_id c" | "x \<in> set s" "y \<in> set s" by (auto simp: set)
    then show "x = y"
      using other e ok by cases (auto simp: counters_ok_def)
  qed
  moreover have "\<forall>x\<in>set (save_row c' s). cc_date x \<le> clock div MS_PER_DAY \<and> counter_ok cap n x"
    using ok new date by (auto simp: set counters_ok_def)
  ultimately show ?thesis by (simp add: counters_ok_def)
qed

lemma find_None_iff_all: "find P xs = None \<longleftrightarrow> (\<forall>x\<in>set xs. \<not> P x)"
  by (auto simp: find_None_iff)

lemma daily_counter_result:
  assumes ok: "counters_ok cap n clock s" and "clock \<le> now" and fresh: "fresh newId s"
  obtains c s1 where "daily_counter now newId t s = (Inr c, s1)" "counters_ok cap n now s1" "c \<in> set s1"
    "tenantId c = t" "cc_date c = now div MS_PER_DAY" "c \<in> set s \<or> total_tokens c = 0"
    "ent_id ` set s1 \<subseteq> insert newId (ent_id ` set s)"
proof -
  from ok \<open>clock \<le> now\<close> have now: "counters_ok cap n now s" by (rule counters_ok_later)
  let ?mine = "\<lambda>c. tenantId c = t \<and> cc_date c = now div MS_PER_DAY"
  show thesis
  proof (cases "find ?mine s")
    case (Some c)
    then have "c \<in> set s" "?mine c" by (auto simp: find_Some_iff)
    with Some now show thesis by (intro that [of c s]) (auto simp: daily_counter_def svc_defs)
  next
    case None
    define c :: cost_counter where "c = \<lparr>ent_id = newId, tenantId = t, cc_date = now div MS_PER_DAY,
      cc_inputTokens = 0, cc_outputTokens = 0, cc_cacheCreationTokens = 0, cc_cacheReadTokens = 0,
      cc_turnsCount = 0, cc_capRejectionsCount = 0\<rparr>"
    have none: "\<forall>x\<in>set s. \<not> ?mine x" using None by (simp only: find_None_iff_all not_False_eq_True)
    have id: "newId \<notin> ent_id ` set s" using fresh by (auto simp: fresh_def)
    have saved: "save_row c s = s @ [c]" using id by (simp add: save_row_def c_def)
    have zero: "counter_ok cap n c"
      using turn_cost_pos [of n] by (simp add: counter_ok_def total_tokens_def c_def add_pos_pos max_def)
    have "counters_ok cap n now (s @ [c])"
      unfolding counters_ok_def using now none id zero
      by (auto simp: counters_ok_def keyed_def c_def)
    then show thesis
      using None by (intro that [of c "s @ [c]"])
        (auto simp: daily_counter_def svc_defs saved c_def [symmetric], auto simp: c_def total_tokens_def)
  qed
qed

lemma send_usage:
  assumes "send_message env q = Inr r" and "length (mq_systemPrompt q) = length SYSTEM_PROMPT"
    and "length (mq_userMessage q) \<le> n"
  shows "0 \<le> us_inputTokens (mr_usage r)" and "us_outputTokens (mr_usage r) = 24"
    and "us_inputTokens (mr_usage r) + us_outputTokens (mr_usage r) \<le> turn_cost n"
proof -
  from assms(1) have r: "r = synthetic_response q" by (auto simp: send_message_def split: if_splits)
  have "(length SYSTEM_PROMPT + 1 + length (mq_userMessage q) + 3) div 4 \<le> (length SYSTEM_PROMPT + 1 + n + 3) div 4"
    by (intro div_le_mono add_mono le_refl assms(3))
  then show "us_inputTokens (mr_usage r) + us_outputTokens (mr_usage r) \<le> turn_cost n"
    using assms(2) by (simp add: r synthetic_response_def estimate_tokens_def turn_cost_def zdiv_int [symmetric]
        del: of_nat_add)
  show "0 \<le> us_inputTokens (mr_usage r)" "us_outputTokens (mr_usage r) = 24"
    by (simp_all add: r synthetic_response_def estimate_tokens_def)
qed


lemma assert_within_cap_result:
  assumes ok: "counters_ok cap n clock s" and "clock \<le> now" and "fresh newId s"
    and run: "assert_within_cap (cap t) now newId t s = (r, s')"
  shows "counters_ok cap n now s'" and "ent_id ` set s' \<subseteq> insert newId (ent_id ` set s)"
    and "r = Inr () \<Longrightarrow> c \<in> set s' \<Longrightarrow> tenantId c = t \<Longrightarrow> cc_date c = now div MS_PER_DAY \<Longrightarrow>
           of_int (total_tokens c) < cap t"
proof -
  obtain c s1 where c: "daily_counter now newId t s = (Inr c, s1)" "counters_ok cap n now s1" "c \<in> set s1"
    "tenantId c = t" "cc_date c = now div MS_PER_DAY" "ent_id ` set s1 \<subseteq> insert newId (ent_id ` set s)"
    using daily_counter_result [OF assms(1-3), of t] by metis
  define c' where "c' = c\<lparr>cc_capRejectionsCount := Suc (cc_capRejectionsCount c)\<rparr>"
  have result: "(r, s') = (if of_int (total_tokens c) \<ge> cap t then (Inl Forbidden, save_row c' s1) else (Inr (), s1))"
    using run by (cases "cap t \<le> of_int (total_tokens c)") (simp_all add: assert_within_cap_def svc_defs c(1) c'_def)
  have refused: "counters_ok cap n now (save_row c' s1)" if "cap t \<le> of_int (total_tokens c)"
    using that c by (intro counters_ok_save [OF c(2,3)])
      (auto simp: c'_def counters_ok_def counter_ok_def total_tokens_def)
  have ids: "ent_id ` set (save_row c' s1) = ent_id ` set s1"
    using c(3) by (auto simp: ids_save_row c'_def)
  show "counters_ok cap n now s'" using result refused c(2) by (auto split: if_splits)
  show "ent_id ` set s' \<subseteq> insert newId (ent_id ` set s)" using result ids c(6) by (auto split: if_splits)
  show "of_int (total_tokens x) < cap t" if "r = Inr ()" "x \<in> set s'" "tenantId x = t" "cc_date x = now div MS_PER_DAY" for x
  proof -
    have "s' = s1" "of_int (total_tokens c) < cap t" using result that(1) by (auto split: if_splits)
    moreover have "x = c" using c(2-5) that(2-4) \<open>s' = s1\<close> unfolding counters_ok_def by metis
    ultimately show ?thesis by simp
  qed
qed

lemma counter_ok_add_usage:
  assumes "counter_ok cap n c" and "of_int (total_tokens c) < cap (tenantId c) \<or> total_tokens c = 0"
    and "0 \<le> us_inputTokens u" "us_outputTokens u = 24" "us_inputTokens u + us_outputTokens u \<le> turn_cost n"
  shows "counter_ok cap n (add_usage u c)"
proof -
  have total: "total_tokens (add_usage u c) = total_tokens c + (us_inputTokens u + us_outputTokens u)"
    by (simp add: total_tokens_def add_usage_def)
  have "of_int (total_tokens c) < max 1 (cap (tenantId c))" using assms(2) by (auto simp: max_def)
  moreover have "(of_int (us_inputTokens u + us_outputTokens u) :: rat) \<le> of_int (turn_cost n)"
    using assms(5) by (simp only: of_int_le_iff)
  ultimately have "of_int (total_tokens (add_usage u c)) < max 1 (cap (tenantId c)) + of_int (turn_cost n)"
    unfolding total of_int_add [of "total_tokens c"] by (rule add_less_le_mono)
  moreover have "cap (tenantId c) \<le> of_int (total_tokens (add_usage u c))"
    if "cap (tenantId c) \<le> of_int (total_tokens c)"
  proof -
    have "(of_int (total_tokens c) :: rat) \<le> of_int (total_tokens (add_usage u c))"
      using assms(3,4) by (simp add: total)
    with that show ?thesis by (rule order_trans)
  qed
  moreover have "0 \<le> total_tokens (add_usage u c)" using assms by (simp add: total counter_ok_def)
  ultimately show ?thesis
    using assms(1) unfolding counter_ok_def by (simp add: add_usage_def)
qed

lemma record_usage_result:
  assumes ok: "counters_ok cap n now s" and "now \<le> later" and "fresh laterId s"
    and spare: "\<And>c. c \<in> set s \<Longrightarrow> tenantId c = t \<Longrightarrow> cc_date c = later div MS_PER_DAY \<Longrightarrow> of_int (total_tokens c) < cap t"
    and u: "0 \<le> us_inputTokens u" "us_outputTokens u = 24" "us_inputTokens u + us_outputTokens u \<le> turn_cost n"
    and run: "record_usage later laterId t u s = (r, s')"
  shows "counters_ok cap n later s'"
proof -
  obtain c s1 where c: "daily_counter later laterId t s = (Inr c, s1)" "counters_ok cap n later s1" "c \<in> set s1"
    "tenantId c = t" "cc_date c = later div MS_PER_DAY" "c \<in> set s \<or> total_tokens c = 0"
    using daily_counter_result [OF assms(1-3), of t] by metis
  have "s' = save_row (add_usage u c) s1"
    using run by (simp add: record_usage_def svc_defs c(1))
  moreover have "counter_ok cap n (add_usage u c)"
    using c spare [of c] by (intro counter_ok_add_usage u) (auto simp: counters_ok_def)
  moreover have "ent_id (add_usage u c) = ent_id c" "tenantId (add_usage u c) = tenantId c"
    "cc_date (add_usage u c) = cc_date c" by (simp_all add: add_usage_def)
  ultimately show ?thesis using counters_ok_save [OF c(2,3)] by simp
qed

text \<open>
  A turn keeps the invariant. When midnight falls inside it, the counter of the new day has no row
  yet, for no row is ahead of the clock.
\<close>

lemma ask_keeps_counters:
  assumes ok: "counters_ok (resolve_daily_cap cap_setting tenants) n clock s"
    and times: "clock \<le> now" "now \<le> later"
    and ids: "fresh newId s" "fresh laterId s" "newId \<noteq> laterId" and len: "length message \<le> n"
    and run: "ask env cap_setting tenants reg now later newId laterId t message p s = (r, s')"
  shows "counters_ok (resolve_daily_cap cap_setting tenants) n later s'"
proof -
  let ?cap = "resolve_daily_cap cap_setting tenants"
  let ?q = "\<lparr>mq_systemPrompt = SYSTEM_PROMPT, mq_userMessage = message, mq_tools = tools_for_persona reg p, mq_cacheId = None\<rparr>"
  obtain r1 s1 where a: "assert_within_cap (?cap t) now newId t s = (r1, s1)" by fastforce
  note within = assert_within_cap_result [OF ok times(1) ids(1) a]
  have fresh: "fresh laterId s1" using within(2) ids by (auto simp: fresh_def)
  have later: "counters_ok ?cap n later s1" using within(1) times(2) by (rule counters_ok_later)
  show ?thesis
  proof (cases "\<exists>response. r1 = Inr () \<and> send_message env ?q = Inr response")
    case False
    then have "s' = s1"
      using run by (cases r1; cases "send_message env ?q") (simp_all add: ask_def svc_defs a)
    with later show ?thesis by simp
  next
    case True
    then obtain response where r1: "r1 = Inr ()" and send: "send_message env ?q = Inr response" by blast
    obtain r2 s2 where rec: "record_usage later laterId t (mr_usage response) s1 = (r2, s2)" by fastforce
    have "s' = s2" using run by (cases r2) (simp_all add: ask_def svc_defs a r1 send rec)
    moreover have "counters_ok ?cap n later s2"
    proof (rule record_usage_result [OF within(1) times(2) fresh _ _ _ _ rec])
      fix c assume "c \<in> set s1" "tenantId c = t" and day: "cc_date c = later div MS_PER_DAY"
      moreover have "cc_date c \<le> now div MS_PER_DAY" using within(1) \<open>c \<in> set s1\<close> by (simp add: counters_ok_def)
      then have "cc_date c = now div MS_PER_DAY"
        using day zdiv_mono1 [OF times(2) MS_PER_DAY_pos] by simp
      ultimately show "of_int (total_tokens c) < ?cap t" using within(3) [OF r1] by blast
    qed (use send_usage [OF send] len in simp_all)
    ultimately show ?thesis by simp
  qed
qed

lemma ask_run_counters_ok:
  "ask_run env cap_setting tenants reg n clock s \<Longrightarrow> counters_ok (resolve_daily_cap cap_setting tenants) n clock s"
proof (induction rule: ask_run.induct)
  case (start clock)
  show ?case by (simp add: counters_ok_def keyed_def)
next
  case (turn clock s now later newId laterId message t p r s')
  from turn.IH turn.hyps(2-8) show ?case by (rule ask_keeps_counters)
qed

lemma only_element: "distinct xs \<Longrightarrow> set xs = {c} \<Longrightarrow> xs = [c]"
  by (cases xs) (auto simp: subset_singleton_iff)

text \<open>
  C39. The daily budget of tokens holds over every history of turns, asked by any tenants at times
  that never go back, midnight inside a turn included: a tenant has one counter for a day, the
  tokens it counts stay below the limit of its plan (or setting) plus the cost of one turn, the
  one that crosses it, and a turn is refused only on a day on which the limit is spent. Questions
  have at most \<open>n\<close> characters; the tenants and their limits stay as they are.
\<close>
theorem copilot_budget_holds:
  assumes "ask_run env cap_setting tenants reg n clock s" and "c \<in> set s"
  shows "of_int (total_tokens c) < max 1 (resolve_daily_cap cap_setting tenants (tenantId c)) + of_int (turn_cost n) \<and>
    (cc_capRejectionsCount c > 0 \<longrightarrow> resolve_daily_cap cap_setting tenants (tenantId c) \<le> of_int (total_tokens c)) \<and>
    filter (\<lambda>x. tenantId x = tenantId c \<and> cc_date x = cc_date c) s = [c]"
proof -
  have ok: "counters_ok (resolve_daily_cap cap_setting tenants) n clock s" using assms(1) by (rule ask_run_counters_ok)
  have "distinct s" using ok by (auto simp: counters_ok_def keyed_def distinct_map)
  then have "filter (\<lambda>x. tenantId x = tenantId c \<and> cc_date x = cc_date c) s = [c]"
    using ok assms(2) by (intro only_element) (auto simp: counters_ok_def)
  then show ?thesis using ok assms(2) by (simp add: counters_ok_def counter_ok_def)
qed


section \<open>Examples\<close>

definition no_env :: copilot_env where
  "no_env = \<lparr>env_apiKey = None, env_live = None\<rparr>"

definition example_tenant :: tenant where
  "example_tenant =
     \<lparr>ent_id = ''t1'', tenantId = ''t1'', tn_name = ''Rossi'', tn_vatNumber = None, tn_fiscalCode = None,
      tn_sdiDestinationCode = None, tn_pecEmail = None, tn_billingAddress = None, tn_billingCity = None,
      tn_billingPostalCode = None, tn_billingProvince = None, tn_plan = PlanBase, tn_status = TnActive,
      tn_seatLimit = 3, tn_trialEndsAt = Some 0, tn_settings = None\<rparr>"

definition example_turn :: "int \<Rightarrow> cost_counter list \<Rightarrow> (http_error + copilot_answer) \<times> cost_counter list" where
  "example_turn now =
     ask no_env (\<lambda>x. Some 100) [example_tenant] [] now now (dec (nat now)) (dec (nat (now + 1))) ''t1''
       ''Ciao'' ForSara"

definition example_counters :: "cost_counter list" where
  "example_counters = snd (example_turn 50 (snd (example_turn 30 (snd (example_turn 10 [])))))"

lemma example_budget:
  "fst (example_turn 10 []) =
     Inr \<lparr>an_output = ''(synthetic) Copilot heard: Ciao'', an_toolCalls = [],
          an_usage = \<lparr>us_inputTokens = 49, us_outputTokens = 24, us_cacheCreationTokens = 0, us_cacheReadTokens = 0\<rparr>,
          an_turnsCount = 1\<rparr>"
  "fst (example_turn 50 (snd (example_turn 30 (snd (example_turn 10 []))))) = Inl Forbidden"
  by code_simp+

lemma example_run: "ask_run no_env (\<lambda>x. Some 100) [example_tenant] [] 4 50 example_counters"
proof -
  have step: "ask_run no_env (\<lambda>x. Some 100) [example_tenant] [] 4 now (snd (example_turn now s))"
    if "ask_run no_env (\<lambda>x. Some 100) [example_tenant] [] 4 clock s" "clock \<le> now"
      "fresh (dec (nat now)) s" "fresh (dec (nat (now + 1))) s" "dec (nat now) \<noteq> dec (nat (now + 1))" for clock now s
  proof -
    have turn: "example_turn now s = (fst (example_turn now s), snd (example_turn now s))"
      by (rule prod.collapse [symmetric])
    have "length ''Ciao'' \<le> 4" by simp
    from ask_run.turn [OF that(1,2) order_refl that(3-5) this turn [unfolded example_turn_def]]
    show ?thesis by (simp only: example_turn_def)
  qed
  have ids: "fresh (dec (nat now)) s" "fresh (dec (nat (now + 1))) s" "dec (nat now) \<noteq> dec (nat (now + 1))"
    if "(now, s) \<in> set [(10, []), (30, snd (example_turn 10 [])), (50, snd (example_turn 30 (snd (example_turn 10 []))))]"
    for now s
  proof -
    have "list_all (\<lambda>(now, s). fresh (dec (nat now)) s \<and> fresh (dec (nat (now + 1))) s \<and> dec (nat now) \<noteq> dec (nat (now + 1)))
      [(10, []), (30, snd (example_turn 10 [])), (50, snd (example_turn 30 (snd (example_turn 10 []))))]" by code_simp
    with that show "fresh (dec (nat now)) s" "fresh (dec (nat (now + 1))) s" "dec (nat now) \<noteq> dec (nat (now + 1))"
      unfolding list_all_iff by blast+
  qed
  have "ask_run no_env (\<lambda>x. Some 100) [example_tenant] [] 4 10 (snd (example_turn 10 []))"
    by (rule step [OF ask_run.start [where clock = 10]]) (rule order_refl ids; simp)+
  then have "ask_run no_env (\<lambda>x. Some 100) [example_tenant] [] 4 30 (snd (example_turn 30 (snd (example_turn 10 []))))"
    by (rule step) (simp, (rule ids; simp)+)
  then show ?thesis unfolding example_counters_def by (rule step) (simp, (rule ids; simp)+)
qed

lemma copilot_budget_holds_witness:
  "map total_tokens example_counters = [146] \<and> map cc_capRejectionsCount example_counters = [1] \<and>
   of_int (total_tokens (hd example_counters)) < (100 :: rat) + of_int (turn_cost 4)"
proof -
  have cap: "resolve_daily_cap (\<lambda>x. Some 100) [example_tenant] (tenantId (hd example_counters)) = 100" by code_simp
  have "hd example_counters \<in> set example_counters" by code_simp
  from copilot_budget_holds [OF example_run this]
  have "of_int (total_tokens (hd example_counters)) < max 1 (100 :: rat) + of_int (turn_cost 4)"
    unfolding cap by blast
  moreover have "map total_tokens example_counters = [146] \<and> map cc_capRejectionsCount example_counters = [1]" by code_simp
  ultimately show ?thesis by simp
qed

end
