(* ===== verification/CopilotEvalProps.thy ===== *)
theory CopilotEvalProps
  imports Copilot
begin

text \<open>
  What the assistant's tools return, and what the harness of golden questions can find out
  without a live model.
\<close>

section \<open>The tools\<close>

definition ALL_TOOLS :: "copilot_tool list" where
  "ALL_TOOLS = SARA_TOOLS @ PRODUCTION_TOOLS"

text \<open>The tenants whose data a result holds, and the number of entities in it.\<close>

fun result_owners :: "tool_result \<Rightarrow> uuid set" where
  "result_owners (FoundInvoices xs) = tenantId ` set xs"
| "result_owners (FoundSupplierInvoices xs) = tenantId ` set xs"
| "result_owners (FoundCustomers xs) = tenantId ` set xs"
| "result_owners (FoundDeclarations xs) = tenantId ` set xs"
| "result_owners (FoundDdts xs) = tenantId ` set xs"
| "result_owners (FoundRows xs) = tenantId ` set xs"
| "result_owners (FoundRow x) = {tenantId x}"
| "result_owners _ = {}"

fun result_count :: "tool_result \<Rightarrow> nat" where
  "result_count (FoundInvoices xs) = length xs"
| "result_count (FoundSupplierInvoices xs) = length xs"
| "result_count (FoundCustomers xs) = length xs"
| "result_count (FoundDeclarations xs) = length xs"
| "result_count (FoundDdts xs) = length xs"
| "result_count (FoundRows xs) = length xs"
| "result_count (FoundRow x) = 1"
| "result_count _ = 0"

lemma set_by_figure: "set (by_figure k rows) = set rows"
  by (auto simp: by_figure_def)

lemma take_owned: "(\<And>x. x \<in> set xs \<Longrightarrow> tenantId x = t) \<Longrightarrow> tenantId ` set (take k xs) \<subseteq> {t}"
  by (auto dest: in_set_takeD)

lemma months_between_owned: "result_owners (months_between p db t x) \<subseteq> {t}"
  unfolding months_between_def result_owners.simps by (rule take_owned) (auto simp: projected_rows_def)

lemma ranked_owned: "result_owners (FoundRows (take k (by_figure f (projected_rows db t p)))) \<subseteq> {t}"
  unfolding result_owners.simps by (rule take_owned) (auto simp: set_by_figure projected_rows_def)

lemma summarise_owned: "result_owners (summarise_iva_tool db t x) \<subseteq> {t}"
  by (auto simp: summarise_iva_tool_def find_Some_iff split: option.split)

definition allowed_count :: "tool_input \<Rightarrow> nat" where
  "allowed_count x = max 50 (nullish (in_limit x) 50)"

lemma limit_allowed:
  "nullish (in_limit x) 25 \<le> allowed_count x" "nullish (in_limit x) 10 \<le> allowed_count x"
  "nullish (in_limit x) 50 \<le> allowed_count x" "k \<le> 50 \<Longrightarrow> k \<le> allowed_count x"
  by (simp_all add: allowed_count_def nullish_def max_def split: option.split)

definition tool_ok :: "(tool_tables \<Rightarrow> uuid \<Rightarrow> tool_input \<Rightarrow> tool_result) \<Rightarrow> bool" where
  "tool_ok f \<longleftrightarrow> (\<forall>db t x. result_owners (f db t x) \<subseteq> {t} \<and> result_count (f db t x) \<le> allowed_count x)"

lemma tool_okI:
  "(\<And>db t x. result_owners (f db t x) \<subseteq> {t}) \<Longrightarrow> (\<And>db t x. result_count (f db t x) \<le> allowed_count x) \<Longrightarrow> tool_ok f"
  by (simp add: tool_ok_def)

lemma length_take_le: "k \<le> n \<Longrightarrow> length (take k xs) \<le> n"
  by simp

lemma listing_tools_ok:
  shows "tool_ok list_invoices_tool" and "tool_ok find_supplier_invoice_tool" and "tool_ok list_customers_tool"
    and "tool_ok intrastat_status_tool" and "tool_ok ddt_pipeline_tool"
proof -
  note unfolds = tool_ok_def result_owners.simps result_count.simps
  show "tool_ok list_invoices_tool"
    unfolding unfolds list_invoices_tool_def
    by (intro allI conjI) ((rule take_owned, simp), rule length_take_le [OF limit_allowed(1)])
  show "tool_ok find_supplier_invoice_tool"
    unfolding unfolds find_supplier_invoice_tool_def
    by (intro allI conjI) ((rule take_owned, simp), rule length_take_le [OF limit_allowed(4)], simp)
  show "tool_ok list_customers_tool"
    unfolding unfolds list_customers_tool_def
    by (intro allI conjI) ((rule take_owned, simp), rule length_take_le [OF limit_allowed(3)])
  show "tool_ok intrastat_status_tool"
    unfolding unfolds intrastat_status_tool_def
    by (intro allI conjI) ((rule take_owned, simp), rule length_take_le [OF limit_allowed(4)], simp)
  show "tool_ok ddt_pipeline_tool"
    unfolding unfolds ddt_pipeline_tool_def
    by (intro allI conjI) ((rule take_owned, simp), rule length_take_le [OF limit_allowed(4)], simp)
qed

lemma months_between_ok: "tool_ok (months_between p)"
  by (rule tool_okI [OF months_between_owned])
    (simp only: months_between_def result_count.simps, rule length_take_le [OF limit_allowed(4)], simp)

lemma ranking_tools_ok:
  "tool_ok top_customers_tool" "tool_ok top_suppliers_tool" "tool_ok top_articles_produced_tool"
  unfolding tool_ok_def top_customers_tool_def top_suppliers_tool_def top_articles_produced_tool_def result_count.simps
  by (intro allI conjI ranked_owned length_take_le [OF limit_allowed(2)])+

lemma summarise_iva_ok: "tool_ok summarise_iva_tool"
  by (rule tool_okI [OF summarise_owned]) (auto simp: summarise_iva_tool_def allowed_count_def max_def split: option.splits)

lemma constant_tools_ok:
  "tool_ok cash_snapshot_tool" "tool_ok explain_scrap_spike_tool" "tool_ok find_root_cause_tool"
  by (simp_all add: tool_ok_def cash_snapshot_tool_def explain_scrap_spike_tool_def find_root_cause_tool_def)

lemma tool_executes:
  "map tl_execute ALL_TOOLS =
     [list_invoices_tool, find_supplier_invoice_tool, summarise_iva_tool, list_customers_tool, top_customers_tool,
      top_suppliers_tool, intrastat_status_tool, monthly_sales_tool, monthly_purchases_tool, cash_snapshot_tool,
      explain_scrap_spike_tool, find_root_cause_tool, work_order_throughput_tool, ddt_pipeline_tool,
      top_articles_produced_tool]"
  by (simp add: ALL_TOOLS_def SARA_TOOLS_def PRODUCTION_TOOLS_def)

lemma all_tools_ok: "list_all tool_ok (map tl_execute ALL_TOOLS)"
  unfolding tool_executes list.pred_inject monthly_sales_tool_def monthly_purchases_tool_def work_order_throughput_tool_def
  by (intro conjI listing_tools_ok months_between_ok ranking_tools_ok summarise_iva_ok constant_tools_ok list.pred_inject(1) TrueI)

lemma get_tool_ok:
  assumes "get_tool ALL_TOOLS name = Inr tool"
  shows "tool_ok (tl_execute tool)"
proof -
  from assms have "tool \<in> set ALL_TOOLS" by (auto simp: get_tool_def find_Some_iff split: option.splits)
  with all_tools_ok show ?thesis by (simp add: list_all_iff)
qed

lemma register_tools_all: "register_tools known xs = Inr ys \<Longrightarrow> ys = known @ xs"
proof (induction xs arbitrary: known)
  case (Cons x xs)
  then have "register_tools (known @ [x]) xs = Inr ys" by (simp split: if_splits)
  from Cons.IH [OF this] show ?case by simp
qed simp


definition example_input :: tool_input where
  "example_input =
     \<lparr>in_from = None, in_to = None, in_limit = Some 5, in_supplierInvoiceNumber = None, in_supplierId = None,
      in_period = Some ''2026-04'', in_contains = None, in_year = None, in_days = None, in_articleSku = None\<rparr>"

definition example_tables :: tool_tables where
  "example_tables =
     \<lparr>tt_invoices = [], tt_supplierInvoices = [], tt_customers = [], tt_declarations = [], tt_ddts = [],
      tt_readModelRows = map (\<lambda>(i, t). \<lparr>ent_id = i, tenantId = t, br_projectionId = ''iva_periodic_balance'',
         br_key = ''2026-04'', br_payload = [(''balanceCents'', JNum 12)], br_version = 1\<rparr>) [(''r1'', ''t2''), (''r2'', ''t1'')]\<rparr>"

lemma example_tool:
  "map_sum id tl_name (get_tool (SARA_TOOLS @ PRODUCTION_TOOLS) ''summarise_iva'') = Inr ''summarise_iva''"
  "summarise_iva_tool example_tables ''t1'' example_input = FoundRow (tt_readModelRows example_tables ! 1)"
  "summarise_iva_tool example_tables ''t3'' example_input =
     NoBalance (Some ''2026-04'') [(''ivaSalesCents'', JNum 0), (''ivaPurchasesCents'', JNum 0), (''balanceCents'', JNum 0)]"
  by code_simp+

text \<open>The registry accepts the tools.\<close>

lemma tools_registered: "tool_registry (SARA_TOOLS @ PRODUCTION_TOOLS) = Inr (SARA_TOOLS @ PRODUCTION_TOOLS)"
  by (simp add: tool_registry_def SARA_TOOLS_def PRODUCTION_TOOLS_def)


section \<open>The golden questions\<close>

lemma send_message_synthetic: "send_message env q = Inr r \<Longrightarrow> r = synthetic_response q"
  by (auto simp: send_message_def split: if_splits)

lemma ask_answer:
  assumes "ask env cap_setting tenants reg now later newId laterId t message p s = (Inr a, s')"
  shows "an_toolCalls a = []" and "an_output a = js_trim (''(synthetic) Copilot heard: '' @ take 120 message)"
  using assms
  by (auto simp: ask_def svc_simps synthetic_response_def tool_calls_of_def texts_of_def dest!: send_message_synthetic)

lemma ask_each_items:
  assumes "\<And>q s a s'. f q s = (Inr a, s') \<Longrightarrow>
      an_toolCalls a = [] \<and> an_output a = js_trim (''(synthetic) Copilot heard: '' @ take 120 (gq_prompt q))"
    and "ask_each f qs s = (Inr items, s')"
  shows "map (\<lambda>i. (ei_id i, ei_pass i)) items =
      map (\<lambda>q. (gq_id q, gq_expect q = ExpectsItalian \<and>
         speaks_of_invoices (js_trim (''(synthetic) Copilot heard: '' @ take 120 (gq_prompt q))))) qs \<and>
    list_all (\<lambda>i. ei_toolCalls i = []) items"
  using assms(2)
proof (induction qs arbitrary: s items s')
  case (Cons q qs)
  then obtain a s1 rest s2 where a: "f q s = (Inr a, s1)" and rest: "ask_each f qs s1 = (Inr rest, s2)"
    and items: "items = grade q a # rest" by (auto simp: svc_simps)
  have "meets (gq_expect q) a \<longleftrightarrow> gq_expect q = ExpectsItalian \<and>
      speaks_of_invoices (js_trim (''(synthetic) Copilot heard: '' @ take 120 (gq_prompt q)))"
    using assms(1) [OF a] by (cases "gq_expect q") simp_all
  then show ?case using Cons.IH [OF rest] assms(1) [OF a] by (simp add: items grade_def)
qed (simp add: svc_simps)

lemma golden_echoes:
  "map (\<lambda>q. (gq_id q, gq_expect q = ExpectsItalian \<and>
       speaks_of_invoices (js_trim (''(synthetic) Copilot heard: '' @ take 120 (gq_prompt q))))) GOLDEN_QUESTIONS =
     map (\<lambda>i. (i, i = ''sara/q05-italian'')) (map gq_id GOLDEN_QUESTIONS)"
  by code_simp

text \<open>
  Without a live model the golden questions measure nothing but the echo: whatever the tenant,
  its budget and the times of the fifteen turns, a run of the harness that gets an answer to every
  question passes one of them and fails fourteen, no turn calls a tool, and the one that passes
  passes because its own wording comes back in the output.
\<close>
theorem eval_passes_only_the_echo:
  assumes "run_eval (\<lambda>q. ask env cap_setting tenants reg (now q) (later q) (newId q) (laterId q) t (gq_prompt q) (gq_persona q)) s
      = (Inr report, s')"
  shows "ev_total report = 15 \<and> ev_passed report = 1 \<and> ev_failed report = 14 \<and>
    map ei_id (filter ei_pass (ev_items report)) = [''sara/q05-italian''] \<and>
    concat (map ei_toolCalls (ev_items report)) = []"
proof -
  let ?ids = "map gq_id GOLDEN_QUESTIONS"
  obtain items where "ask_each (\<lambda>q. ask env cap_setting tenants reg (now q) (later q) (newId q) (laterId q) t (gq_prompt q)
      (gq_persona q)) GOLDEN_QUESTIONS s = (Inr items, s')"
    and report: "report = \<lparr>ev_total = length GOLDEN_QUESTIONS, ev_passed = length (filter ei_pass items),
      ev_failed = length GOLDEN_QUESTIONS - length (filter ei_pass items), ev_items = items\<rparr>"
    using assms by (auto simp: run_eval_def svc_simps Let_def)
  note run = this(1)
  have echo: "an_toolCalls a = [] \<and> an_output a = js_trim (''(synthetic) Copilot heard: '' @ take 120 (gq_prompt q))"
    if "ask env cap_setting tenants reg (now q) (later q) (newId q) (laterId q) t (gq_prompt q) (gq_persona q) s = (Inr a, s')"
    for q s a s' using ask_answer [OF that] by simp
  from ask_each_items [OF echo run]
  have "map (\<lambda>i. (ei_id i, ei_pass i)) items = map (\<lambda>i. (i, i = ''sara/q05-italian'')) ?ids \<and>
      list_all (\<lambda>i. ei_toolCalls i = []) items"
    unfolding golden_echoes .
  then have items: "map (\<lambda>i. (ei_id i, ei_pass i)) items = map (\<lambda>i. (i, i = ''sara/q05-italian'')) ?ids"
    and none: "list_all (\<lambda>i. ei_toolCalls i = []) items" by (rule conjunct1, blast)
  have "map fst (filter snd (map (\<lambda>i. (ei_id i, ei_pass i)) items)) = [''sara/q05-italian'']"
    unfolding items by (simp add: GOLDEN_QUESTIONS_def)
  then have ids: "map ei_id (filter ei_pass items) = [''sara/q05-italian'']"
    by (simp add: filter_map o_def)
  then have "length (filter ei_pass items) = 1" by (metis length_map length_Cons list.size(3) One_nat_def)
  moreover have "length GOLDEN_QUESTIONS = 15" by (simp add: GOLDEN_QUESTIONS_def)
  moreover have "concat (map ei_toolCalls items) = []" using none by (simp add: list_all_iff)
  ultimately show ?thesis using ids by (simp add: report)
qed

text \<open>A run on the counter of a day on which the tenant has asked nothing yet.\<close>

definition example_counter :: cost_counter where
  "example_counter =
     \<lparr>ent_id = ''c1'', tenantId = ''t1'', cc_date = 0, cc_inputTokens = 0, cc_outputTokens = 0,
      cc_cacheCreationTokens = 0, cc_cacheReadTokens = 0, cc_turnsCount = 0, cc_capRejectionsCount = 0\<rparr>"

definition example_ask :: "golden_question \<Rightarrow> (cost_counter list, copilot_answer) svc" where
  "example_ask q =
     ask \<lparr>env_apiKey = None, env_live = None\<rparr> (\<lambda>x. None) [] [] 0 0 ''c2'' ''c3'' ''t1'' (gq_prompt q) (gq_persona q)"

lemma example_ask_answers:
  assumes "tenantId c = ''t1''" "cc_date c = 0" and "of_int (total_tokens c) < (50000 :: rat)"
  shows "\<exists>a u. example_ask q [c] = (Inr a, [add_usage u c]) \<and>
    us_inputTokens u + us_outputTokens u = estimate_tokens (SYSTEM_PROMPT @ '' '' @ gq_prompt q) + 24"
  using assms
  by (simp add: example_ask_def ask_def assert_within_cap_def record_usage_def daily_counter_def svc_defs
      resolve_daily_cap_def find_id_def send_message_def synthetic_response_def save_row_def add_usage_def)
    (rule exI [where x = "\<lparr>us_inputTokens = estimate_tokens (SYSTEM_PROMPT @ '' '' @ gq_prompt q), us_outputTokens = 24,
        us_cacheCreationTokens = 0, us_cacheReadTokens = 0\<rparr>"], simp)

lemma prompt_length: "length SYSTEM_PROMPT = 188"
  by (simp add: SYSTEM_PROMPT_def)

lemma example_questions_answered:
  assumes "tenantId c = ''t1''" "cc_date c = 0"
    and "list_all (\<lambda>q. length (gq_prompt q) \<le> 100) qs" and "total_tokens c + 97 * int (length qs) < 50000"
  shows "\<exists>items s'. ask_each example_ask qs [c] = (Inr items, s')"
  using assms
proof (induction qs arbitrary: c)
  case (Cons q qs)
  have "(of_int (total_tokens c) :: rat) < 50000" using Cons.prems(4) by simp
  then obtain a u where a: "example_ask q [c] = (Inr a, [add_usage u c])"
    and u: "us_inputTokens u + us_outputTokens u = estimate_tokens (SYSTEM_PROMPT @ '' '' @ gq_prompt q) + 24"
    using example_ask_answers [OF Cons.prems(1,2), of q] by blast
  have "length (gq_prompt q) \<le> 100" using Cons.prems(3) by simp
  then have "estimate_tokens (SYSTEM_PROMPT @ '' '' @ gq_prompt q) \<le> 73"
    by (simp add: estimate_tokens_def prompt_length)
  then have "total_tokens (add_usage u c) \<le> total_tokens c + 97"
    using u by (simp add: total_tokens_def add_usage_def)
  then obtain items s' where "ask_each example_ask qs [add_usage u c] = (Inr items, s')"
    using Cons.IH [of "add_usage u c"] Cons.prems by (auto simp: add_usage_def)
  with a show ?case by (simp add: svc_defs)
qed (simp add: svc_defs)

definition example_eval :: "http_error + eval_report" where
  "example_eval = fst (run_eval example_ask [example_counter])"

lemma eval_passes_only_the_echo_witness:
  "case example_eval of Inl e \<Rightarrow> False | Inr report \<Rightarrow> ev_passed report = 1 \<and> ev_failed report = 14"
proof -
  have "list_all (\<lambda>q. length (gq_prompt q) \<le> 100) GOLDEN_QUESTIONS" and "length GOLDEN_QUESTIONS = 15"
    by (simp_all add: GOLDEN_QUESTIONS_def)
  then obtain items s' where "ask_each example_ask GOLDEN_QUESTIONS [example_counter] = (Inr items, s')"
    using example_questions_answered [of example_counter GOLDEN_QUESTIONS] by (auto simp: example_counter_def total_tokens_def)
  then obtain report where run: "run_eval example_ask [example_counter] = (Inr report, s')"
    by (simp add: run_eval_def svc_defs Let_def)
  from eval_passes_only_the_echo [OF run [unfolded example_ask_def]]
  show ?thesis by (simp add: example_eval_def run)
qed

end
