(* ===== verification/Rag.thy ===== *)
theory Rag
  imports BiReadModel
begin

text \<open>
  Retrieval for the assistant: the redaction of personal data
  (\<^verbatim>\<open>ai-copilot/rag/pii-redactor.ts\<close>), the ingestion of customers, products and invoices as
  searchable texts and the search over them (\<^verbatim>\<open>ai-copilot/rag/rag.service.ts\<close>).

  A regular expression is a matcher: from whether the character before is a word character and
  the text that follows, to the positions behind its matches, in the order in which JavaScript
  tries them. The hash and the printed form of an amount are parameters. In the texts the long
  dash is its low byte.
\<close>

section \<open>Matchers\<close>

type_synonym position = "bool \<times> string"

type_synonym matcher = "position \<Rightarrow> position list"

definition one_char :: "(char \<Rightarrow> bool) \<Rightarrow> matcher" where
  "one_char P at_pos = (case snd at_pos of [] \<Rightarrow> [] | c # cs \<Rightarrow> if P c then [(is_word c, cs)] else [])"

definition word_boundary :: matcher where
  "word_boundary at_pos =
     (if fst at_pos \<noteq> (case snd at_pos of [] \<Rightarrow> False | c # cs \<Rightarrow> is_word c) then [at_pos] else [])"

definition followed_by :: "matcher \<Rightarrow> matcher \<Rightarrow> matcher" where
  "followed_by a b at_pos = concat (map b (a at_pos))"

definition optionally :: "matcher \<Rightarrow> matcher" where
  "optionally a at_pos = a at_pos @ [at_pos]"

text \<open>At least \<open>lo\<close> and at most \<open>k\<close> more repetitions, as many as possible first when \<open>greedy\<close>.\<close>

fun times :: "bool \<Rightarrow> nat \<Rightarrow> nat \<Rightarrow> matcher \<Rightarrow> matcher" where
  "times greedy 0 0 a at_pos = [at_pos]"
| "times greedy (Suc lo) k a at_pos = concat (map (times greedy lo k a) (a at_pos))"
| "times greedy 0 (Suc k) a at_pos =
     (if greedy then concat (map (times greedy 0 k a) (a at_pos)) @ [at_pos]
      else at_pos # concat (map (times greedy 0 k a) (a at_pos)))"

text \<open>Without an upper bound: a match of a character is never longer than what follows.\<close>

definition at_least :: "bool \<Rightarrow> nat \<Rightarrow> matcher \<Rightarrow> matcher" where
  "at_least greedy lo a at_pos = times greedy lo (length (snd at_pos)) a at_pos"

fun in_sequence :: "matcher list \<Rightarrow> matcher" where
  "in_sequence [] at_pos = [at_pos]"
| "in_sequence (a # as) at_pos = followed_by a (in_sequence as) at_pos"

definition exactly :: "nat \<Rightarrow> (char \<Rightarrow> bool) \<Rightarrow> matcher" where
  "exactly n P = times True n 0 (one_char P)"

definition literal_text :: "string \<Rightarrow> matcher" where
  "literal_text s = in_sequence (map (\<lambda>c. one_char (\<lambda>x. x = c)) s)"

text \<open>\<^verbatim>\<open>s.replace(/e/g, r)\<close> for an expression that matches no empty text.\<close>

function replace_matches :: "matcher \<Rightarrow> string \<Rightarrow> bool \<Rightarrow> string \<Rightarrow> string" where
  "replace_matches e r before [] = []"
| "replace_matches e r before (c # cs) =
     (case e (before, c # cs) of
        (w, rest) # _ \<Rightarrow>
          if length rest < length (c # cs) then r @ replace_matches e r w rest
          else c # replace_matches e r (is_word c) cs
      | [] \<Rightarrow> c # replace_matches e r (is_word c) cs)"
  by pat_completeness auto
termination by (relation "measure (\<lambda>(e, r, before, s). length s)") auto

section \<open>Redaction\<close>

definition is_letter :: "char \<Rightarrow> bool" where
  "is_letter c \<longleftrightarrow> is_upper c \<or> is_lower c"

definition iban_pattern :: matcher where
  "iban_pattern = in_sequence
     [word_boundary, literal_text ''IT'', exactly 2 is_digit, exactly 1 is_upper, exactly 22 is_digit, word_boundary]"

definition fiscal_code_pattern :: matcher where
  "fiscal_code_pattern = in_sequence
     [word_boundary, exactly 6 is_upper, exactly 2 is_digit, exactly 1 is_upper, exactly 2 is_digit, exactly 1 is_upper,
      exactly 3 is_digit, exactly 1 is_upper, word_boundary]"

definition vat_number_pattern :: matcher where
  "vat_number_pattern = in_sequence
     [word_boundary, optionally (literal_text ''IT''), exactly 11 is_digit, word_boundary]"

definition email_pattern :: matcher where
  "email_pattern = in_sequence
     [word_boundary, at_least True 1 (one_char (\<lambda>c. is_letter c \<or> is_digit c \<or> c \<in> set ''._%+-'')),
      literal_text ''@'', at_least True 1 (one_char (\<lambda>c. is_letter c \<or> is_digit c \<or> c \<in> set ''.-'')),
      literal_text ''.'', at_least True 2 (one_char is_letter), word_boundary]"

definition card_pattern :: matcher where
  "card_pattern = in_sequence
     [word_boundary, times True 13 6 (followed_by (one_char is_digit) (at_least False 0 (one_char (\<lambda>c. c \<in> set '' -'')))),
      word_boundary]"

definition phone_pattern :: matcher where
  "phone_pattern = in_sequence
     [word_boundary, optionally (followed_by (literal_text ''+39'') (optionally (one_char (\<lambda>c. is_space c \<or> c = CHR ''-'')))),
      times True 2 2 (one_char is_digit), optionally (one_char (\<lambda>c. is_space c \<or> c = CHR ''-'')),
      times True 6 2 (one_char is_digit), word_boundary]"

definition PATTERNS :: "(matcher \<times> string) list" where
  "PATTERNS = [(iban_pattern, ''[IBAN]''), (fiscal_code_pattern, ''[CF]''), (vat_number_pattern, ''[PIVA]''),
     (email_pattern, ''[EMAIL]''), (card_pattern, ''[CARD]''), (phone_pattern, ''[PHONE]'')]"

definition redact_pii :: "string \<Rightarrow> string" where
  "redact_pii input = foldl (\<lambda>s (e, r). replace_matches e r False s) input PATTERNS"

section \<open>Ingestion and search\<close>

datatype rag_source = RagAudit | RagCustomer | RagProduct | RagInvoice | RagSupplierInvoice

fun rag_source_text :: "rag_source \<Rightarrow> string" where
  "rag_source_text RagAudit = ''audit''"
| "rag_source_text RagCustomer = ''customer''"
| "rag_source_text RagProduct = ''product''"
| "rag_source_text RagInvoice = ''invoice''"
| "rag_source_text RagSupplierInvoice = ''supplier_invoice''"

record rag_chunk = entity +
  rg_sourceType :: rag_source
  rg_sourceId :: uuid
  rg_body :: string
  rg_contentHash :: string
  rg_createdAt :: int

record rag_tables =
  rt_customers :: "customer list"
  rt_products :: "product list"
  rt_invoices :: "invoice list"

type_synonym ingest_state = "nat \<times> nat \<times> rag_chunk list"

definition content_hash :: "(string \<Rightarrow> string) \<Rightarrow> rag_source \<Rightarrow> uuid \<Rightarrow> string \<Rightarrow> string" where
  "content_hash sha256 ty i redacted = sha256 (rag_source_text ty @ '':'' @ i @ '':'' @ redacted)"

definition has_chunk :: "uuid \<Rightarrow> rag_source \<Rightarrow> uuid \<Rightarrow> string \<Rightarrow> rag_chunk list \<Rightarrow> bool" where
  "has_chunk t ty i h cs \<longleftrightarrow>
     list_ex (\<lambda>c. tenantId c = t \<and> rg_sourceType c = ty \<and> rg_sourceId c = i \<and> rg_contentHash c = h) cs"

definition ingest_row ::
  "(string \<Rightarrow> string) \<Rightarrow> (nat \<Rightarrow> uuid) \<Rightarrow> int \<Rightarrow> uuid \<Rightarrow> rag_source \<Rightarrow> ingest_state \<Rightarrow> uuid \<times> string \<Rightarrow> ingest_state" where
  "ingest_row sha256 newId now t ty = (\<lambda>(inserted, skipped, cs) (i, body).
     let redacted = redact_pii body; h = content_hash sha256 ty i redacted in
     if has_chunk t ty i h cs then (inserted, Suc skipped, cs)
     else (Suc inserted, skipped,
       save_row \<lparr>ent_id = newId inserted, tenantId = t, rg_sourceType = ty, rg_sourceId = i, rg_body = redacted,
         rg_contentHash = h, rg_createdAt = now\<rparr> cs))"

definition customer_texts :: "rag_tables \<Rightarrow> uuid \<Rightarrow> (uuid \<times> string) list" where
  "customer_texts db t =
     map (\<lambda>c. (ent_id c, cu_name c @ '' '' @ [CHR 0x14] @ '' '' @ nullish (cu_address c) [] @ '' '' @
         nullish (cu_city c) [] @ '' ('' @ cu_country c @ '')''))
       (filter (\<lambda>c. tenantId c = t) (rt_customers db))"

definition product_texts :: "rag_tables \<Rightarrow> uuid \<Rightarrow> (uuid \<times> string) list" where
  "product_texts db t =
     map (\<lambda>p. (ent_id p, pd_sku p @ '' '' @ [CHR 0x14] @ '' '' @ nullish (pd_description p) []))
       (filter (\<lambda>p. tenantId p = t) (rt_products db))"

definition invoice_texts :: "(jsnum \<Rightarrow> string) \<Rightarrow> rag_tables \<Rightarrow> uuid \<Rightarrow> (uuid \<times> string) list" where
  "invoice_texts show_amount db t =
     map (\<lambda>i. (ent_id i, ''Fattura '' @ inv_number i @ ''/'' @ dec (inv_fiscalYear i) @ '' '' @ [CHR 0x14] @ '' '' @
         inv_customerName i @ '' '' @ [CHR 0x14] @ '' '' @ show_amount (inv_totalAmount i) @ '' EUR''))
       (take 1000 (sort_key (\<lambda>i. - invoice_day i) (filter (\<lambda>i. tenantId i = t) (rt_invoices db))))"

definition ingest_all ::
  "(string \<Rightarrow> string) \<Rightarrow> (jsnum \<Rightarrow> string) \<Rightarrow> (nat \<Rightarrow> uuid) \<Rightarrow> int \<Rightarrow> rag_tables \<Rightarrow> uuid \<Rightarrow>
     (rag_chunk list, nat \<times> nat) svc" where
  "ingest_all sha256 show_amount newId now db t cs =
     (let s1 = foldl (ingest_row sha256 newId now t RagCustomer) (0, 0, cs) (customer_texts db t);
          s2 = foldl (ingest_row sha256 newId now t RagProduct) s1 (product_texts db t);
          (inserted, skipped, cs') = foldl (ingest_row sha256 newId now t RagInvoice) s2 (invoice_texts show_amount db t)
      in (Inr (inserted, skipped), cs'))"

definition retrieve :: "uuid \<Rightarrow> string \<Rightarrow> nat \<Rightarrow> rag_chunk list \<Rightarrow> rag_chunk list" where
  "retrieve t query n cs =
     take n (sort_key (\<lambda>c. - rg_createdAt c)
       (filter (\<lambda>c. tenantId c = t \<and> sql_like (''%'' @ map to_lower query @ ''%'') (map to_lower (rg_body c))) cs))"

end
