(* ===== verification/RagProps.thy ===== *)
theory RagProps
  imports Rag
begin

text \<open>
  Correctness of the retrieval store: a second ingestion of the same data changes nothing, a
  search finds texts of the own tenant only, and the redaction leaves texts without digits and
  without an at sign as they are.
\<close>

section \<open>Ingesting twice\<close>

text \<open>What a document leaves in the store, and the ids in use after a number of insertions.\<close>

definition ingested :: "(string \<Rightarrow> string) \<Rightarrow> uuid \<Rightarrow> rag_chunk list \<Rightarrow> rag_source \<Rightarrow> uuid \<times> string \<Rightarrow> bool" where
  "ingested sha t cs ty d \<longleftrightarrow> has_chunk t ty (fst d) (content_hash sha ty (fst d) (redact_pii (snd d))) cs"

definition ids_within :: "(nat \<Rightarrow> uuid) \<Rightarrow> uuid set \<Rightarrow> ingest_state \<Rightarrow> bool" where
  "ids_within newId old s \<longleftrightarrow> ent_id ` set (snd (snd s)) \<subseteq> old \<union> newId ` {..<fst s}"

abbreviation store :: "ingest_state \<Rightarrow> rag_chunk list" where "store s \<equiv> snd (snd s)"

lemma ingest_row_appends:
  assumes "ids_within newId old s" and "inj newId" and "\<And>k. newId k \<notin> old"
  shows "\<exists>new. store (ingest_row sha newId now t ty s d) = store s @ new"
    and "ingested sha t (store (ingest_row sha newId now t ty s d)) ty d"
    and "ids_within newId old (ingest_row sha newId now t ty s d)"
proof -
  obtain n k cs i body where s: "s = (n, k, cs)" and d: "d = (i, body)" by (metis prod.exhaust)
  have fresh: "newId n \<notin> ent_id ` set cs"
  proof
    assume "newId n \<in> ent_id ` set cs"
    then have "newId n \<in> old \<union> newId ` {..<n}" using assms(1) by (auto simp: ids_within_def s)
    with assms(3) obtain k where "k < n" "newId n = newId k" by auto
    with injD [OF assms(2)] show False by blast
  qed
  show "\<exists>new. store (ingest_row sha newId now t ty s d) = store s @ new"
    using fresh by (auto simp: ingest_row_def s d Let_def save_row_def)
  show "ingested sha t (store (ingest_row sha newId now t ty s d)) ty d"
    using fresh by (auto simp: ingest_row_def s d Let_def save_row_def ingested_def has_chunk_def)
  show "ids_within newId old (ingest_row sha newId now t ty s d)"
    using assms(1) fresh
    by (auto simp: ingest_row_def s d Let_def save_row_def ids_within_def lessThan_Suc)
qed

lemma ingested_append: "ingested sha t cs ty d \<Longrightarrow> ingested sha t (cs @ new) ty d"
  by (auto simp: ingested_def has_chunk_def)

lemma all_ingested_append: "list_all (ingested sha t cs ty) ds \<Longrightarrow> list_all (ingested sha t (cs @ new) ty) ds"
  by (auto simp: list_all_iff intro: ingested_append)

lemma ingest_rows_append:
  assumes "inj newId" and "\<And>k. newId k \<notin> old"
  shows "ids_within newId old s \<Longrightarrow>
    (\<exists>new. store (foldl (ingest_row sha newId now t ty) s ds) = store s @ new) \<and>
    ids_within newId old (foldl (ingest_row sha newId now t ty) s ds) \<and>
    list_all (ingested sha t (store (foldl (ingest_row sha newId now t ty) s ds)) ty) ds"
proof (induction ds arbitrary: s)
  case (Cons d ds)
  note row = ingest_row_appends [OF Cons.prems assms, where sha = sha and now = now and t = t and ty = ty and d = d]
  from Cons.IH [OF row(3)] obtain new where
    new: "store (foldl (ingest_row sha newId now t ty) s (d # ds)) = store (ingest_row sha newId now t ty s d) @ new"
    and rest: "ids_within newId old (foldl (ingest_row sha newId now t ty) s (d # ds))"
      "list_all (ingested sha t (store (foldl (ingest_row sha newId now t ty) s (d # ds))) ty) ds"
    by auto
  moreover have "ingested sha t (store (foldl (ingest_row sha newId now t ty) s (d # ds))) ty d"
    unfolding new by (rule ingested_append [OF row(2)])
  ultimately show ?case using row(1) by auto
qed simp

lemma ingest_again:
  "list_all (ingested sha t cs ty) ds \<Longrightarrow>
     foldl (ingest_row sha newId now t ty) (n, k, cs) ds = (n, k + length ds, cs)"
  by (induction ds arbitrary: k) (auto simp: ingest_row_def ingested_def Let_def)

definition all_texts :: "(jsnum \<Rightarrow> string) \<Rightarrow> rag_tables \<Rightarrow> uuid \<Rightarrow> (uuid \<times> string) list" where
  "all_texts show_amount db t = customer_texts db t @ product_texts db t @ invoice_texts show_amount db t"

text \<open>
  Ingestion is idempotent: after one pass a second one over the same data, at any time and with
  any new ids, inserts nothing, skips every document and leaves the store as it is; and the first
  pass kept every text that was stored before it.
\<close>
theorem second_ingestion_adds_nothing:
  assumes "fresh_ids newId cs" and "ingest_all sha show_amount newId now db t cs = (Inr counts, cs')"
  shows "ingest_all sha show_amount newId' later db t cs' = (Inr (0, length (all_texts show_amount db t)), cs')"
    and "\<exists>new. cs' = cs @ new"
proof -
  let ?step = "\<lambda>ty. foldl (ingest_row sha newId now t ty)"
  let ?s1 = "?step RagCustomer (0, 0, cs) (customer_texts db t)"
  let ?s2 = "?step RagProduct ?s1 (product_texts db t)"
  let ?s3 = "?step RagInvoice ?s2 (invoice_texts show_amount db t)"
  have inj: "inj newId" and new: "newId k \<notin> ent_id ` set cs" for k using assms(1) by (auto simp: fresh_ids_def)
  note append = ingest_rows_append [OF inj, of "ent_id ` set cs", OF new, where sha = sha and now = now and t = t]
  have start: "ids_within newId (ent_id ` set cs) (0, 0, cs)" by (auto simp: ids_within_def)
  have one: "\<exists>new. store ?s1 = cs @ new" "ids_within newId (ent_id ` set cs) ?s1"
    "list_all (ingested sha t (store ?s1) RagCustomer) (customer_texts db t)"
    using append [OF start, where ty = RagCustomer and ds = "customer_texts db t"] by simp_all
  have two: "\<exists>new. store ?s2 = store ?s1 @ new" "ids_within newId (ent_id ` set cs) ?s2"
    "list_all (ingested sha t (store ?s2) RagProduct) (product_texts db t)"
    using append [OF one(2), where ty = RagProduct and ds = "product_texts db t"] by blast+
  have three: "\<exists>new. store ?s3 = store ?s2 @ new"
    "list_all (ingested sha t (store ?s3) RagInvoice) (invoice_texts show_amount db t)"
    using append [OF two(2), where ty = RagInvoice and ds = "invoice_texts show_amount db t"] by blast+
  have cs': "cs' = store ?s3"
    using assms(2) by (auto simp: ingest_all_def Let_def split: prod.splits)
  obtain n1 n2 n3 where
    n: "store ?s1 = cs @ n1" "store ?s2 = store ?s1 @ n2" "store ?s3 = store ?s2 @ n3"
    using one(1) two(1) three(1) by blast
  then have "cs' = cs @ n1 @ n2 @ n3" by (simp add: cs')
  then show "\<exists>new. cs' = cs @ new" by blast
  have "list_all (ingested sha t (store ?s1 @ n2 @ n3) RagCustomer) (customer_texts db t)"
    using one(3) by (rule all_ingested_append)
  then have "list_all (ingested sha t cs' RagCustomer) (customer_texts db t)"
    unfolding cs' n(3) n(2) append_assoc .
  moreover have "list_all (ingested sha t cs' RagProduct) (product_texts db t)"
    unfolding cs' n(3) using two(3) by (rule all_ingested_append)
  moreover have "list_all (ingested sha t cs' RagInvoice) (invoice_texts show_amount db t)"
    unfolding cs' by (rule three(2))
  ultimately show "ingest_all sha show_amount newId' later db t cs' = (Inr (0, length (all_texts show_amount db t)), cs')"
    by (simp add: ingest_all_def ingest_again all_texts_def Let_def)
qed

lemma retrieve_own: "c \<in> set (retrieve t query n cs) \<Longrightarrow> tenantId c = t \<and> c \<in> set cs"
  by (auto simp: retrieve_def dest: in_set_takeD)

section \<open>Redaction\<close>

text \<open>Every match consumes text, and among it a character with the property.\<close>

definition consumes :: "matcher \<Rightarrow> bool" where
  "consumes e \<longleftrightarrow> (\<forall>p. \<forall>q\<in>set (e p). \<exists>xs. snd p = xs @ snd q)"

definition needs :: "(char \<Rightarrow> bool) \<Rightarrow> matcher \<Rightarrow> bool" where
  "needs P e \<longleftrightarrow> (\<forall>p. \<forall>q\<in>set (e p). \<exists>xs. snd p = xs @ snd q \<and> list_ex P xs)"

named_theorems matcher_intros "how matchers consume text"

lemma needs_consumes: "needs P e \<Longrightarrow> consumes e"
  unfolding needs_def consumes_def by blast

lemma consumes_one_char [matcher_intros]: "consumes (one_char P)"
  by (auto simp: consumes_def one_char_def split: list.splits)

lemma needs_one_char: "(\<And>c. Q c \<Longrightarrow> P c) \<Longrightarrow> needs P (one_char Q)"
  by (auto simp: needs_def one_char_def split: list.splits if_splits)

lemma consumes_word_boundary [matcher_intros]: "consumes word_boundary"
  by (auto simp: consumes_def word_boundary_def)

lemma consumes_followed_by [matcher_intros]: "consumes a \<Longrightarrow> consumes b \<Longrightarrow> consumes (followed_by a b)"
  unfolding consumes_def followed_by_def by (auto simp: Ball_def) (metis append.assoc snd_conv)

lemma needs_followed_by:
  assumes "consumes a" "consumes b" and "needs P a \<or> needs P b"
  shows "needs P (followed_by a b)"
  unfolding needs_def
proof (intro allI ballI)
  fix p q assume "q \<in> set (followed_by a b p)"
  then obtain m where m: "m \<in> set (a p)" "q \<in> set (b m)" by (auto simp: followed_by_def)
  from assms(3) show "\<exists>xs. snd p = xs @ snd q \<and> list_ex P xs"
  proof
    assume "needs P a"
    with m assms(2) obtain xs ys where "snd p = xs @ snd m" "list_ex P xs" "snd m = ys @ snd q"
      unfolding needs_def consumes_def by meson
    then show ?thesis by (intro exI [of _ "xs @ ys"]) simp
  next
    assume "needs P b"
    with m assms(1) obtain xs ys where "snd p = xs @ snd m" "snd m = ys @ snd q" "list_ex P ys"
      unfolding needs_def consumes_def by meson
    then show ?thesis by (intro exI [of _ "xs @ ys"]) simp
  qed
qed

lemma consumes_optionally [matcher_intros]: "consumes a \<Longrightarrow> consumes (optionally a)"
  by (auto simp: consumes_def optionally_def)

lemma consumes_times [matcher_intros]:
  assumes "consumes a" shows "consumes (times greedy lo k a)"
proof -
  have "\<forall>q\<in>set (times greedy lo k a p). \<exists>xs. snd p = xs @ snd q" for p
    using assms unfolding consumes_def
    by (induction greedy lo k a p rule: times.induct) (auto simp: Ball_def, (metis append.assoc snd_conv)+)
  then show ?thesis by (simp add: consumes_def)
qed

lemma needs_times: "needs P a \<Longrightarrow> needs P (times greedy (Suc lo) k a)"
proof -
  assume a: "needs P a"
  have "times greedy (Suc lo) k a = followed_by a (times greedy lo k a)" by (rule ext) (simp add: followed_by_def)
  with a show ?thesis
    using needs_followed_by [OF needs_consumes [OF a] consumes_times [OF needs_consumes [OF a]]] by simp
qed

lemma needs_times_pos: "0 < lo \<Longrightarrow> needs P a \<Longrightarrow> needs P (times greedy lo k a)"
  by (cases lo) (simp_all add: needs_times)

lemma consumes_at_least [matcher_intros]: "consumes a \<Longrightarrow> consumes (at_least greedy lo a)"
  using consumes_times unfolding consumes_def at_least_def by blast

lemma consumes_in_sequence [matcher_intros]: "list_all consumes es \<Longrightarrow> consumes (in_sequence es)"
proof (induction es)
  case (Cons e es)
  have "in_sequence (e # es) = followed_by e (in_sequence es)" by (rule ext) simp
  with Cons show ?case by (simp add: consumes_followed_by)
qed (simp add: consumes_def)

lemma needs_in_sequence: "list_all consumes es \<Longrightarrow> list_ex (needs P) es \<Longrightarrow> needs P (in_sequence es)"
proof (induction es)
  case (Cons e es)
  have "in_sequence (e # es) = followed_by e (in_sequence es)" by (rule ext) simp
  moreover have "needs P (followed_by e (in_sequence es))"
    using Cons by (intro needs_followed_by) (auto intro: consumes_in_sequence)
  ultimately show ?case by simp
qed simp

lemma consumes_exactly [matcher_intros]: "consumes (exactly n P)"
  unfolding exactly_def by (intro matcher_intros)

lemma consumes_literal_text [matcher_intros]: "consumes (literal_text s)"
  unfolding literal_text_def by (intro matcher_intros) (auto simp: list_all_iff intro: matcher_intros)

lemma needs_exactly: "0 < n \<Longrightarrow> (\<And>c. Q c \<Longrightarrow> P c) \<Longrightarrow> needs P (exactly n Q)"
  unfolding exactly_def by (cases n) (auto intro: needs_times needs_one_char)

lemma needs_literal: "P c \<Longrightarrow> needs P (literal_text [c])"
proof -
  assume "P c"
  moreover have "literal_text [c] = followed_by (one_char (\<lambda>x. x = c)) (in_sequence [])"
    by (rule ext) (simp add: literal_text_def)
  ultimately show ?thesis
    by (simp only:) (rule needs_followed_by; auto intro: matcher_intros needs_one_char consumes_in_sequence)
qed

text \<open>What a text must hold to be redacted at all.\<close>

definition revealing :: "char \<Rightarrow> bool" where
  "revealing c \<longleftrightarrow> is_digit c \<or> c = CHR ''@''"

lemma patterns_need:
  "list_all (\<lambda>(e, r). needs revealing e) PATTERNS"
proof -
  note consuming = matcher_intros
  have digits: "0 < n \<Longrightarrow> needs revealing (exactly n is_digit)" for n
    by (rule needs_exactly) (simp_all add: revealing_def)
  have runs: "0 < lo \<Longrightarrow> needs revealing (times g lo k (one_char is_digit))" for g lo k
    by (rule needs_times_pos, assumption, rule needs_one_char) (simp add: revealing_def)
  have "needs revealing iban_pattern" unfolding iban_pattern_def
    by (rule needs_in_sequence) (auto intro: consuming digits)
  moreover have "needs revealing fiscal_code_pattern" unfolding fiscal_code_pattern_def
    by (rule needs_in_sequence) (auto intro: consuming digits)
  moreover have "needs revealing vat_number_pattern" unfolding vat_number_pattern_def
    by (rule needs_in_sequence) (auto intro: consuming digits)
  moreover have "needs revealing email_pattern" unfolding email_pattern_def
    by (rule needs_in_sequence) (auto intro: consuming needs_literal simp: revealing_def)
  moreover have "needs revealing card_pattern"
  proof -
    let ?cell = "followed_by (one_char is_digit) (at_least False 0 (one_char (\<lambda>c. c \<in> set '' -'')))"
    have "needs revealing (one_char is_digit)" by (rule needs_one_char) (simp add: revealing_def)
    then have "needs revealing ?cell" by (intro needs_followed_by disjI1 matcher_intros)
    then have "needs revealing (times True 13 6 ?cell)" by (rule needs_times_pos [rotated]) simp
    moreover have "list_all consumes [word_boundary, times True 13 6 ?cell, word_boundary]"
      by (simp only: list.pred_inject) (intro conjI consuming TrueI)
    ultimately show ?thesis unfolding card_pattern_def by (intro needs_in_sequence) simp_all
  qed
  moreover have "needs revealing phone_pattern" unfolding phone_pattern_def
    by (rule needs_in_sequence) (auto intro: consuming runs)
  ultimately show ?thesis by (simp add: PATTERNS_def)
qed

lemma replace_none:
  assumes "needs P e" and "\<not> list_ex P s"
  shows "replace_matches e r before s = s"
  using assms(2)
proof (induction s arbitrary: before)
  case (Cons c cs)
  have "e (before, c # cs) = []"
  proof (rule ccontr)
    assume "e (before, c # cs) \<noteq> []"
    then obtain q where "q \<in> set (e (before, c # cs))" by (metis list.set_sel(1))
    with assms(1) obtain xs where "c # cs = xs @ snd q" "list_ex P xs" unfolding needs_def by (metis snd_conv)
    with Cons.prems show False by (metis list_ex_append)
  qed
  then show ?case using Cons by simp
qed simp

text \<open>The redaction leaves a text without digits and without an at sign as it is.\<close>
theorem redaction_spares_plain_text: "\<not> list_ex revealing s \<Longrightarrow> redact_pii s = s"
proof -
  assume plain: "\<not> list_ex revealing s"
  have "foldl (\<lambda>s (e, r). replace_matches e r False s) s ps = s"
    if "list_all (\<lambda>(e, r). needs revealing e) ps" for ps
    using that plain by (induction ps) (auto simp: replace_none)
  with patterns_need show ?thesis by (simp add: redact_pii_def)
qed

lemma redaction_examples:
  "redact_pii ''cf rssmra80a01h501u.'' = ''cf rssmra80a01h501u.''"
  "redact_pii ''IT12345678901'' = ''[PIVA]''"
  "redact_pii ''a@b.it'' = ''[EMAIL]''"
  by code_simp+

end
