(* ===== verification/Platform.thy ===== *)
theory Platform
  imports BiReports Tenants Planning
begin

text \<open>
  Services and filters at the edge of the program: the marketplace of packages
  (\<^verbatim>\<open>marketplace/marketplace.service.ts\<close>), the connectors to other systems
  (\<^verbatim>\<open>integrations\<close>), the document of the emission figures (\<^verbatim>\<open>esg/esg.service.ts\<close>), and
  what every request passes (\<^verbatim>\<open>common\<close>): the token against cross-site requests, the
  correlation id and the error answer. In the texts of the document an arrow and a long dash are
  their low bytes; the printed form of a number is a parameter.
\<close>

section \<open>Marketplace\<close>

datatype package_status = PkgActive | PkgPaused | PkgDeprecated

datatype installation_status = InsActive | InsPaused | InsCancelled

text \<open>Packages belong to no tenant; their tenant column is empty.\<close>

record marketplace_package = entity +
  mk_vendor :: string
  mk_slug :: string
  mk_displayName :: string
  mk_version :: string
  mk_status :: package_status
  mk_scopes :: "string list"
  mk_monthlyPriceCents :: "int option"

record installation = entity +
  mi_packageId :: uuid
  mi_status :: installation_status
  mi_config :: string
  mi_installedAt :: "int option"
  mi_cancelledAt :: "int option"

record marketplace_db =
  mkPackages :: "marketplace_package list"
  mkInstallations :: "installation list"

definition list_packages :: "marketplace_db \<Rightarrow> marketplace_package list" where
  "list_packages s = sort_key mk_displayName (filter (\<lambda>p. mk_status p = PkgActive) (mkPackages s))"

definition install_package ::
  "int \<Rightarrow> uuid \<Rightarrow> uuid \<Rightarrow> uuid \<Rightarrow> string \<Rightarrow> (marketplace_db, installation) svc" where
  "install_package now newId t packageId config =
     bind (gets (\<lambda>s. find_id packageId (mkPackages s))) (\<lambda>found.
     bind (require found NotFound) (\<lambda>_.
     bind (gets (\<lambda>s. find (\<lambda>i. tenantId i = t \<and> mi_packageId i = packageId) (mkInstallations s))) (\<lambda>dup.
     seq (throw_if (dup \<noteq> None) Conflict)
     (let x = \<lparr>ent_id = newId, tenantId = t, mi_packageId = packageId, mi_status = InsActive, mi_config = config,
               mi_installedAt = Some now, mi_cancelledAt = None\<rparr>
      in seq (modify (mkInstallations_update (save_row x))) (ret x)))))"

definition list_installations :: "uuid \<Rightarrow> marketplace_db \<Rightarrow> installation list" where
  "list_installations t s =
     sort_key (\<lambda>i. - nullish (mi_installedAt i) 0)
       (filter (\<lambda>i. tenantId i = t \<and> mi_status i = InsActive) (mkInstallations s))"

definition cancel_installation :: "int \<Rightarrow> uuid \<Rightarrow> uuid \<Rightarrow> (marketplace_db, installation) svc" where
  "cancel_installation now t i =
     bind (gets (\<lambda>s. find_scoped t i (mkInstallations s))) (\<lambda>found.
     bind (require found NotFound) (\<lambda>x.
     let y = x\<lparr>mi_status := InsCancelled, mi_cancelledAt := Some now\<rparr>
     in seq (modify (mkInstallations_update (save_row y))) (ret y)))"

inductive marketplace_step :: "marketplace_db \<Rightarrow> marketplace_db \<Rightarrow> bool" where
  install: "install_package now n t p c s = (Inr x, s') \<Longrightarrow> fresh n (mkInstallations s) \<Longrightarrow> marketplace_step s s'"
| cancel: "cancel_installation now t i s = (Inr x, s') \<Longrightarrow> marketplace_step s s'"

inductive marketplace_run :: "marketplace_db \<Rightarrow> marketplace_db \<Rightarrow> bool" for s where
  here: "marketplace_run s s"
| further: "marketplace_run s s' \<Longrightarrow> marketplace_step s' s'' \<Longrightarrow> marketplace_run s s''"

definition package_taken :: "uuid \<Rightarrow> uuid \<Rightarrow> marketplace_db \<Rightarrow> bool" where
  "package_taken t p s \<longleftrightarrow>
     list_ex (\<lambda>i. tenantId i = t \<and> mi_packageId i = p) (mkInstallations s) \<and> p \<in> ent_id ` set (mkPackages s)"

lemma save_row_keeps_pair:
  assumes "list_ex (\<lambda>i. tenantId i = t \<and> mi_packageId i = p) rows"
    and "x \<in> set rows" "ent_id y = ent_id x" "tenantId y = tenantId x" "mi_packageId y = mi_packageId x" "keyed rows"
  shows "list_ex (\<lambda>i. tenantId i = t \<and> mi_packageId i = p) (save_row y rows)"
proof -
  have set: "set (save_row y rows) = insert y {z \<in> set rows. ent_id z \<noteq> ent_id x}"
    using set_save_row [OF assms(6), of y] by (simp add: assms(3))
  from assms(1) obtain z where z: "z \<in> set rows" "tenantId z = t" "mi_packageId z = p" by (auto simp: list_ex_iff)
  show ?thesis
  proof (cases "ent_id z = ent_id x")
    case True
    then have "z = x" using table.key_inj [OF assms(6) z(1) assms(2)] by simp
    with z assms(4,5) show ?thesis by (auto simp: list_ex_iff set)
  next
    case False
    with z show ?thesis by (auto simp: list_ex_iff set)
  qed
qed

lemma marketplace_step_keeps_taken:
  "marketplace_step s s' \<Longrightarrow> keyed (mkInstallations s) \<Longrightarrow>
     keyed (mkInstallations s') \<and> (package_taken t p s \<longrightarrow> package_taken t p s')"
proof (induction rule: marketplace_step.induct)
  case (install now n u q c s x s')
  then have "mkInstallations s' = mkInstallations s @ [x]" "mkPackages s' = mkPackages s" "ent_id x = n"
    by (auto simp: install_package_def svc_simps Let_def fresh_def save_row_def)
  with install show ?case by (auto simp: package_taken_def keyed_def fresh_def)
next
  case (cancel now u i s x s')
  then obtain y where y: "y \<in> set (mkInstallations s)"
    and s': "mkInstallations s' = save_row (y\<lparr>mi_status := InsCancelled, mi_cancelledAt := Some now\<rparr>) (mkInstallations s)"
      "mkPackages s' = mkPackages s"
    by (auto simp: cancel_installation_def svc_simps Let_def dest: find_scoped_Some)
  then show ?case
    using cancel.prems save_row_keeps_pair [OF _ y, of t p] by (simp add: package_taken_def keyed_save_row)
qed

lemma marketplace_run_keeps_taken:
  "marketplace_run s s' \<Longrightarrow> keyed (mkInstallations s) \<Longrightarrow> package_taken t p s \<Longrightarrow>
     keyed (mkInstallations s') \<and> package_taken t p s'"
  by (induction rule: marketplace_run.induct) (blast dest: marketplace_step_keeps_taken)+

text \<open>
  A package a tenant has installed once is never installed again, also after it was cancelled:
  the duplicate check does not look at the status of the installation.
\<close>
lemma installed_package_stays_taken:
  assumes "install_package now n t p c s = (Inr x, s1)" and "fresh n (mkInstallations s)" and "keyed (mkInstallations s)"
    and "marketplace_run s1 s2"
  shows "fst (install_package now' n' t p c' s2) = Inl Conflict"
proof -
  have "keyed (mkInstallations s1)"
    using marketplace_step_keeps_taken [OF marketplace_step.install [OF assms(1,2)] assms(3)] by blast
  moreover have "package_taken t p s1"
    using assms(1,2) by (auto simp: install_package_def svc_simps Let_def fresh_def save_row_def package_taken_def
        find_id_def find_Some_iff)
  ultimately have "package_taken t p s2" using marketplace_run_keeps_taken [OF assms(4)] by blast
  have found: "\<exists>y. find P xs = Some y" if "\<exists>x\<in>set xs. P x" for P and xs :: "'z list"
    using that by (cases "find P xs") (auto simp: find_None_iff)
  obtain i where "find (\<lambda>i. tenantId i = t \<and> mi_packageId i = p) (mkInstallations s2) = Some i"
    using found [of "mkInstallations s2" "\<lambda>i. tenantId i = t \<and> mi_packageId i = p"] \<open>package_taken t p s2\<close> by (auto simp: package_taken_def list_ex_iff)
  moreover obtain q where "find_id p (mkPackages s2) = Some q"
    using found [of "mkPackages s2" "\<lambda>r. ent_id r = p"] \<open>package_taken t p s2\<close>
    by (auto simp: package_taken_def find_id_def)
  ultimately show ?thesis by (simp add: install_package_def svc_defs)
qed

section \<open>Connectors\<close>

datatype connector_mode = Sandbox | Production

record connector_context =
  cx_tenantId :: uuid
  cx_mode :: connector_mode
  cx_credentials :: "(string \<times> string) list"

record connector_health =
  ch_ok :: bool
  ch_mode :: connector_mode
  ch_upstreamReachable :: bool
  ch_lastSuccessfulSync :: "string option"
  ch_message :: "string option"

record connector_sync =
  cs_itemsImported :: nat
  cs_itemsSkipped :: nat
  cs_cursorAt :: string
  cs_warnings :: "string list"

record connector =
  cn_id :: string
  cn_description :: string
  cn_source :: string
  cn_healthcheck :: "connector_context \<Rightarrow> connector_health"
  cn_syncIncoming :: "int \<Rightarrow> connector_context \<Rightarrow> connector_sync"

definition shopify_healthcheck :: "connector_context \<Rightarrow> connector_health" where
  "shopify_healthcheck c =
     (if cx_mode c = Sandbox
      then \<lparr>ch_ok = True, ch_mode = Sandbox, ch_upstreamReachable = True, ch_lastSuccessfulSync = None,
            ch_message = Some ''sandbox''\<rparr>
      else if \<not> truthy (map_of (cx_credentials c) ''shopDomain'') \<or> \<not> truthy (map_of (cx_credentials c) ''accessToken'')
      then \<lparr>ch_ok = False, ch_mode = Production, ch_upstreamReachable = False, ch_lastSuccessfulSync = None,
            ch_message = Some ''Missing credentials: configure tenant.settings.integrations.shopify''\<rparr>
      else \<lparr>ch_ok = False, ch_mode = Production, ch_upstreamReachable = False, ch_lastSuccessfulSync = None,
            ch_message = Some ''Production wiring lands in Sprint 24 (BullMQ live worker)''\<rparr>)"

definition shopify_sync :: "int \<Rightarrow> connector_context \<Rightarrow> connector_sync" where
  "shopify_sync now c =
     \<lparr>cs_itemsImported = 0, cs_itemsSkipped = 0, cs_cursorAt = iso_time now,
      cs_warnings = (if cx_mode c = Sandbox then [''sandbox mode '' @ [CHR 0x14] @ '' no real Shopify call performed'']
        else [''Production sync deferred to Sprint 24 alongside the BullMQ worker''])\<rparr>"

definition shopify_connector :: connector where
  "shopify_connector =
     \<lparr>cn_id = ''shopify'', cn_description = ''Shopify Admin REST connector '' @ [CHR 0x14] @ '' sync customers, products, orders.'',
      cn_source = ''shopify'', cn_healthcheck = shopify_healthcheck, cn_syncIncoming = shopify_sync\<rparr>"

fun register_connectors :: "connector list \<Rightarrow> connector list \<Rightarrow> http_error + connector list" where
  "register_connectors known [] = Inr known"
| "register_connectors known (c # cs) =
     (if cn_id c \<in> cn_id ` set known then Inl PlainError else register_connectors (known @ [c]) cs)"

definition get_connector :: "connector list \<Rightarrow> string \<Rightarrow> http_error + connector" where
  "get_connector reg i = (case find (\<lambda>c. cn_id c = i) reg of None \<Rightarrow> Inl NotFound | Some c \<Rightarrow> Inr c)"

section \<open>The emission document\<close>

text \<open>\<^verbatim>\<open>x.toFixed(0)\<close>\<close>

definition to_fixed_0 :: "jsnum \<Rightarrow> string" where
  "to_fixed_0 x = (if x < 0 then ''-'' @ dec (nat (math_round (- x))) else dec (nat (math_round x)))"

definition esg_lines :: "(jsnum \<Rightarrow> string) \<Rightarrow> uuid \<Rightarrow> string \<Rightarrow> int \<Rightarrow> esg_inputs \<Rightarrow> string list" where
  "esg_lines show_num t name year inputs =
     (let r = compute_report t name year inputs; arrow = [CHR 0x92]; dash = [CHR 0x14] in
      [''ESG Report '' @ dash @ '' '' @ name,
       ''Tenant ID: '' @ t,
       ''Reporting year: '' @ int_text year,
       [],
       ''Riferimenti normativi'',
       ''  Direttiva UE 2022/2464 (CSRD); ESRS E1 '' @ dash @ '' climate change'',
       ''  D.Lgs. 254/2016 (DNF '' @ dash @ '' Dichiarazione Non Finanziaria)'',
       ''  Piano Transizione 5.0 '' @ dash @ '' credito d'' @ [CHR 0x27] @ ''imposta efficienza energetica'',
       [],
       ''Scope 1 '' @ dash @ '' emissioni dirette'',
       ''  Diesel flotta: '' @ show_num (es_litresDieselFleet inputs) @ '' L '' @ arrow @ '' '' @
         to_fixed_0 (js_mul (es_litresDieselFleet inputs) FACTOR_DIESEL) @ '' kg CO2e'',
       ''  Benzina flotta: '' @ show_num (es_litresGasolineFleet inputs) @ '' L '' @ arrow @ '' '' @
         to_fixed_0 (js_mul (es_litresGasolineFleet inputs) FACTOR_GASOLINE) @ '' kg CO2e'',
       ''  Gas naturale: '' @ show_num (es_m3NaturalGas inputs) @ '' m'' @ [CHR 0xB3] @ '' '' @ arrow @ '' '' @
         to_fixed_0 (js_mul (es_m3NaturalGas inputs) FACTOR_NATURAL_GAS) @ '' kg CO2e'',
       ''  Totale Scope 1: '' @ int_text (eg_scope1KgCo2e r) @ '' kg CO2e'',
       [],
       ''Scope 2 '' @ dash @ '' energia acquistata'',
       ''  kWh elettricit'' @ [CHR 0xE0] @ '': '' @ show_num (es_kwhElectricity inputs),
       ''  kWh rinnovabili autoprodotti: '' @ show_num (es_kwhRenewableSelfProduced inputs),
       ''  Totale Scope 2: '' @ int_text (eg_scope2KgCo2e r) @ '' kg CO2e'',
       [],
       ''Totale Scope 1 + 2: '' @ int_text (eg_totalKgCo2e r) @ '' kg CO2e'',
       [],
       ''Calcolo basato su fattori di emissione 2024 (mix elettrico ITA, diesel, benzina, gas naturale). Scope-3 fuori ambito v1.'',
       [],
       ''Firmato: SmartERP ESG '' @ dash @ '' generato dal sistema.''])"

definition generate_esg_pdf :: "(jsnum \<Rightarrow> string) \<Rightarrow> uuid \<Rightarrow> int \<Rightarrow> esg_inputs \<Rightarrow> tenant list \<Rightarrow> export_output" where
  "generate_esg_pdf show_num t year inputs tenants =
     (let name = (case find_id t tenants of None \<Rightarrow> ''(tenant)'' | Some x \<Rightarrow> tn_name x) in
      \<lparr>xo_filename = ''esg-report-'' @ t @ ''-'' @ int_text year @ ''.pdf'', xo_contentType = ''application/pdf'',
       xo_body = render_minimal_pdf (esg_lines show_num t name year inputs)\<rparr>)"

section \<open>Every request\<close>

text \<open>The correlation id: a given one of up to 127 characters, or a fresh one.\<close>

definition correlation_id :: "uuid \<Rightarrow> string option \<Rightarrow> string" where
  "correlation_id random_uuid incoming =
     (if truthy incoming \<and> length (the incoming) < 128 then the incoming else random_uuid)"

record edge_request =
  er_method :: string
  er_path :: string
  er_authorization :: "string option"
  er_cookie :: "string option"
  er_csrfToken :: "string option"

definition path_starts :: "string \<Rightarrow> string \<Rightarrow> bool" where
  "path_starts p s \<longleftrightarrow> take (length p) s = p"

text \<open>\<^verbatim>\<open>/csrf_token=([A-Za-z0-9]+)/.exec(s)?.[1]\<close>\<close>

fun csrf_cookie :: "string \<Rightarrow> string option" where
  "csrf_cookie [] = None"
| "csrf_cookie (c # cs) =
     (let v = takeWhile alphanumeric (drop 11 (c # cs))
      in if path_starts ''csrf_token='' (c # cs) \<and> v \<noteq> [] then Some v else csrf_cookie cs)"

definition check_csrf :: "edge_request \<Rightarrow> http_error + unit" where
  "check_csrf req =
     (let verb = map to_upper (er_method req); path = er_path req;
          cookieToken = csrf_cookie (nullish (er_cookie req) []) in
      if path_starts ''/api/health'' path \<or> path = ''/metrics'' \<or> path_starts ''/api/auth/login'' path \<or>
         path_starts ''/api/auth/register'' path \<or> path_starts ''/api/auth/refresh'' path \<or>
         path_starts ''/api/csrf-token'' path then Inr ()
      else if truthy (er_authorization req) \<and> path_starts ''bearer '' (map to_lower (the (er_authorization req))) then Inr ()
      else if verb \<in> {''GET'', ''HEAD'', ''OPTIONS''} then Inr ()
      else if \<not> truthy cookieToken \<or> \<not> truthy (er_csrfToken req) \<or> cookieToken \<noteq> er_csrfToken req then Inl Forbidden
      else Inr ())"

definition csrf_set_cookie :: "string \<Rightarrow> string" where
  "csrf_set_cookie token = ''csrf_token='' @ token @ ''; HttpOnly; Secure; SameSite=Strict; Path=/; Max-Age=43200''"

lemma takeWhile_token:
  "list_all alphanumeric v \<Longrightarrow> rest = [] \<or> \<not> alphanumeric (hd rest) \<Longrightarrow> takeWhile alphanumeric (v @ rest) = v"
  by (induction v) (cases rest; auto)+

text \<open>The minted cookie reads back: a request that repeats its token passes.\<close>

lemma minted_token_passes:
  assumes "list_all alphanumeric token" and "token \<noteq> []"
    and "er_cookie req = Some (csrf_set_cookie token)" and "er_csrfToken req = Some token"
  shows "check_csrf req = Inr ()"
proof -
  have "takeWhile alphanumeric (token @ ''; HttpOnly; Secure; SameSite=Strict; Path=/; Max-Age=43200'') = token"
    using assms(1) by (rule takeWhile_token) (simp add: alphanumeric_def is_upper_def is_lower_def is_digit_def)
  then have "csrf_cookie (csrf_set_cookie token) = Some token"
    using assms(2) by (simp add: csrf_set_cookie_def path_starts_def Let_def)
  then show ?thesis using assms by (simp add: check_csrf_def nullish_def Let_def)
qed

text \<open>The name of the cookie is not anchored: any cookie whose name ends in it is read first.\<close>

lemma csrf_reads_other_cookies:
  "csrf_cookie ''evil_csrf_token=A; csrf_token=B'' = Some ''A''"
  by code_simp

section \<open>The error answer\<close>

datatype problem_message = NoMessage | MessageText string | MessageList "string list"

datatype problem_body = BodyText string | BodyObject problem_message "string list option" "string option"

text \<open>An exception of the framework with status and body, another error with its message, or any other value.\<close>

datatype edge_exception = HttpThrown int problem_body | ErrorThrown string | OtherThrown

record problem_details =
  pd_type :: string
  pd_title :: string
  pd_status :: int
  pd_detail :: "string option"
  pd_instance :: string
  pd_code :: "string option"
  pd_correlationId :: "string option"
  pd_errors :: "string list option"
  pd_timestamp :: string

definition resolve_title :: "int \<Rightarrow> string" where
  "resolve_title status =
     (case map_of [(400, ''Bad Request''), (401, ''Unauthorized''), (403, ''Forbidden''), (404, ''Not Found''),
         (409, ''Conflict''), (422, ''Unprocessable Entity''), (429, ''Too Many Requests''),
         (500, ''Internal Server Error''), (501, ''Not Implemented''), (502, ''Bad Gateway''), (503, ''Service Unavailable'')]
         status of
        Some title \<Rightarrow> title
      | None \<Rightarrow> if status \<ge> 500 then ''Server Error'' else ''Client Error'')"

fun thrown_status :: "edge_exception \<Rightarrow> int" where
  "thrown_status (HttpThrown status body) = status"
| "thrown_status _ = 500"

fun problem_detail :: "edge_exception \<Rightarrow> string option" where
  "problem_detail (HttpThrown status (BodyText x)) = Some x"
| "problem_detail (HttpThrown status (BodyObject (MessageText x) es code)) = Some x"
| "problem_detail (HttpThrown status (BodyObject (MessageList xs) es code)) = Some (join_with ''; '' xs)"
| "problem_detail (HttpThrown status (BodyObject NoMessage es code)) = None"
| "problem_detail (ErrorThrown x) = Some x"
| "problem_detail OtherThrown = None"

fun problem_errors :: "edge_exception \<Rightarrow> string list option" where
  "problem_errors (HttpThrown status (BodyObject (MessageList xs) es code)) = Some (nullish es xs)"
| "problem_errors (HttpThrown status (BodyObject message es code)) = es"
| "problem_errors _ = None"

fun problem_code :: "edge_exception \<Rightarrow> string option" where
  "problem_code (HttpThrown status (BodyObject message es code)) = code"
| "problem_code _ = None"

definition problem_of :: "string \<Rightarrow> int \<Rightarrow> string \<Rightarrow> string option \<Rightarrow> edge_exception \<Rightarrow> problem_details" where
  "problem_of base now url correlationId e =
     \<lparr>pd_type = base @ ''/problems/'' @ int_text (thrown_status e), pd_title = resolve_title (thrown_status e),
      pd_status = thrown_status e, pd_detail = problem_detail e, pd_instance = url, pd_code = problem_code e,
      pd_correlationId = correlationId, pd_errors = problem_errors e, pd_timestamp = iso_time now\<rparr>"

text \<open>An error that is no exception of the framework answers 500 and shows its message to the caller.\<close>

lemma plain_errors_show_their_message:
  "pd_status (problem_of base now url c (ErrorThrown x)) = 500 \<and> pd_detail (problem_of base now url c (ErrorThrown x)) = Some x"
  by (simp add: problem_of_def)

end
