(* ===== verification/Registries.thy ===== *)
theory Registries
  imports BiProps Copilot Platform
begin

text \<open>
  The registries of the program: projections, tools of the assistant and connectors are
  registered by name when the program starts and looked up by name when a request comes. The
  locale \<open>name_registry\<close> states the contract once; the three registries interpret it.
\<close>

section \<open>The contract\<close>

locale name_registry =
  fixes name :: "'a \<Rightarrow> string"
    and register :: "'a list \<Rightarrow> 'a list \<Rightarrow> http_error + 'a list"
    and get :: "'a list \<Rightarrow> string \<Rightarrow> http_error + 'a"
  assumes register_Nil: "register known [] = Inr known"
    and register_Cons: "register known (x # xs) =
      (if name x \<in> name ` set known then Inl PlainError else register (known @ [x]) xs)"
    and get_found: "get reg k = Inr x \<longleftrightarrow> find (\<lambda>x. name x = k) reg = Some x"
    and get_missing: "find (\<lambda>x. name x = k) reg = None \<Longrightarrow> get reg k = Inl NotFound"
begin

lemma register_result:
  "register known xs =
     (if distinct (map name xs) \<and> name ` set xs \<inter> name ` set known = {} then Inr (known @ xs) else Inl PlainError)"
proof (induction xs arbitrary: known)
  case (Cons x xs)
  show ?case
  proof (cases "name x \<in> name ` set known")
    case False
    then show ?thesis by (simp add: register_Cons Cons.IH)
  qed (auto simp: register_Cons)
qed (simp add: register_Nil)

lemma starts_iff_names_differ:
  "register [] xs = (if distinct (map name xs) then Inr xs else Inl PlainError)"
  by (simp add: register_result)

lemma get_registered:
  assumes "register [] xs = Inr reg"
  shows "get reg k = Inr x \<longleftrightarrow> x \<in> set xs \<and> name x = k"
proof -
  from assms have "distinct (map name xs)" "reg = xs" by (auto simp: starts_iff_names_differ split: if_splits)
  then show ?thesis by (simp add: get_found find_Some_iff_keyed)
qed

lemma get_unregistered:
  assumes "register [] xs = Inr reg" and "k \<notin> name ` set xs"
  shows "get reg k = Inl NotFound"
proof -
  from assms(1) have "reg = xs" by (auto simp: starts_iff_names_differ split: if_splits)
  then have "find (\<lambda>x. name x = k) reg = None" using assms(2) by (auto simp: find_None_iff)
  then show ?thesis by (rule get_missing)
qed

end

section \<open>The registries\<close>

interpretation projections: name_registry pj_id register_all projection_get
  by unfold_locales (auto simp: projection_get_def split: option.splits)

interpretation tools: name_registry tl_name register_tools get_tool
  by unfold_locales (auto simp: get_tool_def split: option.splits)

interpretation connectors: name_registry cn_id register_connectors get_connector
  by unfold_locales (auto simp: get_connector_def split: option.splits)

text \<open>Every service is found under its name, and only there.\<close>

lemma projection_found:
  "registry ps = Inr reg \<Longrightarrow> projection_get reg i = Inr p \<longleftrightarrow> p \<in> set ps \<and> pj_id p = i"
  unfolding registry_def by (rule projections.get_registered)

lemma tool_found:
  "tool_registry xs = Inr reg \<Longrightarrow> get_tool reg n = Inr x \<longleftrightarrow> x \<in> set xs \<and> tl_name x = n"
  unfolding tool_registry_def by (rule tools.get_registered)

lemma connector_found:
  "register_connectors [] cs = Inr reg \<Longrightarrow> get_connector reg i = Inr c \<longleftrightarrow> c \<in> set cs \<and> cn_id c = i"
  by (rule connectors.get_registered)

text \<open>The module of the reports starts: its projections have different names.\<close>

lemma projections_registered: "registry (PROJECTION_PROVIDERS src) = Inr (PROJECTION_PROVIDERS src)"
  unfolding registry_def projections.starts_iff_names_differ
  by (simp add: PROJECTION_PROVIDERS_def projection_of_def)

text \<open>
  The projection for the anonymous benchmark is not among them: whoever asks for it gets 404.
\<close>
lemma benchmark_is_not_registered:
  "projection_get (PROJECTION_PROVIDERS src) ''benchmark_anonymous'' = Inl NotFound"
  using projections.get_unregistered [OF projections_registered [unfolded registry_def], of "''benchmark_anonymous''"]
  by (simp add: PROJECTION_PROVIDERS_def projection_of_def)

end
