(* ===== verification/Queues.thy ===== *)
theory Queues
  imports BiProjections
begin

text \<open>
  The jobs of the queues (\<^verbatim>\<open>queues/\<close>): under which id a producer adds a job, and what the
  processor of each queue does with it. The queue itself, its retries and the counters for
  monitoring are those of a library. A sum in the database is exact and then cast to a double;
  the groups of a query are in the order of their first row.
\<close>

section \<open>Producers\<close>

text \<open>Each adds a job under a name and an id of its own; the queue keeps one job per id.\<close>

definition enqueue_submit :: "uuid \<Rightarrow> uuid \<Rightarrow> string \<times> string" where
  "enqueue_submit t invoiceId = (''submit'', ''sdi-submit:'' @ t @ '':'' @ invoiceId)"

definition enqueue_poll :: "int \<Rightarrow> uuid \<Rightarrow> uuid \<Rightarrow> string \<times> string \<times> int" where
  "enqueue_poll now t invoiceId =
     (''poll-receipt'', ''sdi-poll:'' @ t @ '':'' @ invoiceId @ '':'' @ int_text now, 5 * 60 * 1000)"

definition enqueue_close_day :: "uuid \<Rightarrow> string \<Rightarrow> string \<times> string" where
  "enqueue_close_day t businessDate = (''close-day'', ''eod:'' @ t @ '':'' @ businessDate)"

definition enqueue_stock_reconciliation :: "uuid \<Rightarrow> string \<Rightarrow> string \<times> string" where
  "enqueue_stock_reconciliation t businessDate = (''reconcile-stock'', ''eod-stock:'' @ t @ '':'' @ businessDate)"

definition enqueue_monthly :: "uuid \<Rightarrow> string \<Rightarrow> bool option \<Rightarrow> string \<times> string" where
  "enqueue_monthly t period includeThirteenth =
     (let name = (if includeThirteenth = Some True then ''compute-thirteenth'' else ''compute-monthly'')
      in (name, ''payroll:'' @ t @ '':'' @ period @ '':'' @ name))"

definition enqueue_report :: "uuid \<Rightarrow> string \<Rightarrow> string \<Rightarrow> string \<times> string" where
  "enqueue_report t reportType requestedAt =
     (reportType, ''report:'' @ t @ '':'' @ reportType @ '':'' @ requestedAt)"

section \<open>Processors\<close>

definition process_end_of_day :: "journal_entry list \<Rightarrow> product list \<Rightarrow> uuid \<Rightarrow> nat \<times> nat" where
  "process_end_of_day entries ps t =
     (length (filter (\<lambda>e. tenantId e = t \<and> \<not> je_isPosted e) entries),
      length (filter (\<lambda>p. tenantId p = t \<and> pd_isActive p) ps))"

datatype sdi_status = SdiSubmitted | SdiPolled

definition process_invoice_sdi :: "string option \<Rightarrow> string option \<Rightarrow> string \<Rightarrow> http_error + sdi_status" where
  "process_invoice_sdi apiUrl apiKey name =
     (if \<not> truthy apiUrl \<or> \<not> truthy apiKey then Inl PlainError
      else Inr (if name = ''poll-receipt'' then SdiPolled else SdiSubmitted))"

definition process_payroll :: "http_error + unit" where
  "process_payroll = Inl PlainError"

datatype report_result =
    IvaReport jsnum jsnum
  | CustomerReport "(uuid \<times> nat \<times> jsnum) list"
  | StockReport payload

definition db_sum :: "('r \<Rightarrow> jsnum) \<Rightarrow> 'r list \<Rightarrow> jsnum" where
  "db_sum f rows = fl (sum_list (map f rows))"

definition iva_report :: "invoice list \<Rightarrow> uuid \<Rightarrow> report_result" where
  "iva_report invs t =
     (let rows = filter (\<lambda>i. tenantId i = t \<and> inv_status i = InvAccepted) invs
      in IvaReport (db_sum inv_taxAmount rows) (db_sum inv_subtotalAmount rows))"

definition customer_report :: "sales_order list \<Rightarrow> uuid \<Rightarrow> report_result" where
  "customer_report orders t =
     (let rows = filter (\<lambda>o'. tenantId o' = t) orders;
          mine = (\<lambda>c. filter (\<lambda>o'. so_customerId o' = c) rows)
      in CustomerReport (take 50 (sort_key (\<lambda>(c, n, revenue). - revenue)
           (map (\<lambda>c. (c, length (mine c), db_sum so_totalAmount (mine c)))
             (rev (remdups (rev (map so_customerId rows))))))))"

text \<open>The alias of the second column is not quoted, so the database answers in lower case.\<close>

definition stock_report :: "stock_level list \<Rightarrow> uuid \<Rightarrow> report_result" where
  "stock_report levels t =
     (let rows = filter (\<lambda>l. tenantId l = t) levels
      in StockReport [(''levels'', JNum (of_nat (length rows))), (''onhand'', JNum (db_sum sl_onHand rows)),
           (''reserved'', JNum (db_sum sl_reserved rows))])"

definition process_report ::
  "invoice list \<Rightarrow> sales_order list \<Rightarrow> stock_level list \<Rightarrow> uuid \<Rightarrow> string \<Rightarrow> http_error + report_result" where
  "process_report invs orders levels t name =
     (if name = ''iva-liquidation'' then Inr (iva_report invs t)
      else if name = ''sales-by-customer'' then Inr (customer_report orders t)
      else if name = ''stock-status'' then Inr (stock_report levels t)
      else Inl PlainError)"

section \<open>What the jobs do\<close>

text \<open>
  Submitting an invoice twice is one job: the ids agree exactly when tenant and invoice do, as
  long as no tenant's id holds a colon.
\<close>

lemma split_at_colon:
  "CHR '':'' \<notin> set a \<Longrightarrow> CHR '':'' \<notin> set b \<Longrightarrow> a @ CHR '':'' # x = b @ CHR '':'' # y \<longleftrightarrow> a = b \<and> x = y"
proof (induction a arbitrary: b)
  case Nil
  then show ?case by (cases b) auto
next
  case (Cons c a)
  then show ?case by (cases b) auto
qed

lemma submissions_collapse:
  assumes "CHR '':'' \<notin> set t" and "CHR '':'' \<notin> set t'"
  shows "snd (enqueue_submit t i) = snd (enqueue_submit t' i') \<longleftrightarrow> t = t' \<and> i = i'"
  using split_at_colon [OF assms, of i i'] by (simp add: enqueue_submit_def)

text \<open>Every customer with an order is in the groups of the report, once.\<close>

lemma report_groups:
  "distinct (rev (remdups (rev xs)))" "set (rev (remdups (rev xs))) = set xs"
  by simp_all

lemma customer_report_groups:
  assumes "customer_report orders t = CustomerReport rows"
  shows "distinct (map fst rows) \<and> length rows \<le> 50 \<and>
    list_all (\<lambda>(c, n, revenue). n = length (filter (\<lambda>o'. tenantId o' = t \<and> so_customerId o' = c) orders) \<and>
      revenue = db_sum so_totalAmount (filter (\<lambda>o'. tenantId o' = t \<and> so_customerId o' = c) orders)) rows"
proof -
  let ?mine = "\<lambda>c. filter (\<lambda>o'. tenantId o' = t \<and> so_customerId o' = c) orders"
  let ?all = "map (\<lambda>c. (c, length (?mine c), db_sum so_totalAmount (?mine c)))
    (rev (remdups (rev (map so_customerId (filter (\<lambda>o'. tenantId o' = t) orders)))))"
  have rows: "rows = take 50 (sort_key (\<lambda>(c, n, revenue). - revenue) ?all)"
    using assms by (simp add: customer_report_def Let_def conj_commute)
  have "distinct (map fst ?all)" by (simp add: o_def)
  then have "distinct (map fst (sort_key (\<lambda>(c, n, revenue). - revenue) ?all))"
    by (metis (no_types, lifting) distinct_map distinct_sort set_sort)
  then have "distinct (map fst rows)" unfolding rows take_map [symmetric] by (rule distinct_take)
  moreover have "length rows \<le> 50" by (simp add: rows)
  moreover have "set rows \<subseteq> set ?all" unfolding rows using set_take_subset by fastforce
  ultimately show ?thesis by (auto simp: list_all_iff)
qed

end
