(* ===== verification/Spec2Isabelle.thy ===== *)
theory Spec2Isabelle
  imports ProcurementProps SalesDepthProps SalesPipelineProps WebhookProps AuthProps Memberships
    TreasuryProps FatturaPaProps ProductionProps IntrastatProps HrProps PecProps ConservazioneProps
    TreasuryPlanningProps MultiCompanyProps PlanningProps VatRules PdfProps BiExportProps
    Sso CommercialistaProps ComplianceProps CopilotProps CopilotEvalProps RagProps Registries Queues
begin

text \<open>
  Smart ERP: a verification of the backend's business rules.

  The program (\<^verbatim>\<open>src/backend/src\<close>) is a NestJS server for small manufacturers. Each module has
  controllers that parse a request, services with the business rules, and TypeORM entities that
  store one table each. Every table is shared by all customers of the server (tenants) and has a
  tenant column. This development models the services: nearly every method of them is a definition
  of the same name, with the guards, errors and writes of the method in their order.

  The parts and how they interact.

  \<^item> Procurement (\<open>ProcurementDb\<close> tables, \<open>Requisition\<close>, \<open>Rfq\<close>, \<open>GoodsReceipt\<close>,
    \<open>SupplierInvoice\<close> operations, \<open>ThreeWayMatch\<close> the matcher, \<open>Procurement\<close> the step relation;
    \<^verbatim>\<open>procurement/\<close>): a requisition is approved along a chain and becomes a purchase order, as
    does the awarded answer to a request for quote; goods receipts are inspected against orders,
    and supplier invoices are matched against both.
  \<^item> Inventory (\<open>Inventory\<close>; \<^verbatim>\<open>inventory/\<close>): stock levels, movements and reservations. Sales
    (\<open>Sales\<close>, \<^verbatim>\<open>sales/sales.service.ts\<close>) reserves, releases and ships through it; production
    (\<open>Production\<close>, \<^verbatim>\<open>production/\<close>) takes the materials of an order from it.
  \<^item> Quotations, delivery notes and contacts (\<open>SalesDepth\<close>), the pipeline screen
    (\<open>SalesPipeline\<close>): a quotation becomes a sales order, delivery notes become invoices.
  \<^item> Accounting (\<open>Accounting\<close>, \<open>VatRules\<close>, \<open>FatturaPa\<close>; \<^verbatim>\<open>accounting/\<close>): invoices, the ledger,
    the VAT liquidation and the electronic invoice as XML. \<open>Pec\<close> (\<^verbatim>\<open>pec/\<close>) parses received
    electronic invoices; \<open>Conservazione\<close> (\<^verbatim>\<open>conservazione/\<close>) deposits documents with archiving
    vendors; \<open>Intrastat\<close> (\<^verbatim>\<open>intrastat/\<close>) declares trade inside the European Union from the same
    invoices.
  \<^item> Treasury (\<open>Iban\<close>, \<open>Treasury\<close>, \<open>TreasuryPlanning\<close>; \<^verbatim>\<open>treasury/\<close>): accounts, imported bank
    transactions, proposals for reconciliation, the cash forecast and the payment file.
  \<^item> Human resources (\<open>Hr\<close>; \<^verbatim>\<open>hr/\<close>), the companies of a tenant (\<open>MultiCompany\<close>), planning aids,
    anomaly rules and emissions (\<open>Planning\<close>; \<^verbatim>\<open>scheduling/\<close>, \<^verbatim>\<open>forecasting/\<close>, \<^verbatim>\<open>anomaly/\<close>,
    \<^verbatim>\<open>esg/\<close>).
  \<^item> Accounts and access (\<open>Auth\<close>, \<open>Memberships\<close>, \<open>Tenants\<close>, \<open>Sso\<close>): login with lockout and
    second factor, sessions, users of several tenants, the tenants themselves, single sign-on.
    The external accountant (\<open>Commercialista\<close>) sees the tenants whose membership he has.
  \<^item> Reporting (\<open>BiProjections\<close>, \<open>BiReadModel\<close>, \<open>BiReports\<close>; \<^verbatim>\<open>bi/\<close>): projections group the
    documents of the other modules into rows, dashboards list the rows, exporters write them as
    CSV, spreadsheet XML or PDF. The assistant (\<open>Copilot\<close>; \<^verbatim>\<open>ai-copilot/\<close>) offers the same rows as
    tools to a language model, within a daily budget; \<open>Rag\<close> stores redacted texts for it to search.
  \<^item> Documents and the edge: the PDF renderers (\<open>Pdf\<close>), the audit trail and the compliance pack
    (\<open>Compliance\<close>), webhooks (\<open>Webhooks\<close>), queued jobs (\<open>Queues\<close>), and marketplace, connectors, emission document and
    request filters (\<open>Platform\<close>).

  How state and operations correspond to the code. A method is a service computation, a function
  from the tables of its module to a result and the tables afterwards (\<open>svc\<close> in \<open>Prelude\<close>); its
  exceptions are the values of \<open>http_error\<close>, which keep what was written before them, and
  \<open>transaction\<close> undoes it. A table is the list of its rows in the order of insertion, a row a
  record with the columns the code uses; rows extend \<open>entity\<close>, the key and the tenant. A method
  that only reads is a function of the tables. Enumerations are datatypes with the labels of the
  source, optional values options, records of a request its fields. \<open>Documents\<close> has the
  status transition all document services share, \<open>Fsm\<close> the tables of allowed transitions. Numbers
  are doubles (\<open>JsNumber\<close>: rationals rounded to 53 bits after every operation; \<open>Cents\<close>: money),
  dates are days or milliseconds since 1970 (\<open>JsDate\<close>), texts lists of characters (\<open>JsString\<close>,
  \<open>JsXml\<close>). The server runs in UTC; a query without an order returns rows in that of the table.

  Code that is not in the repository is a parameter: random identifiers, the clock, hashes,
  encryption, token signing, signature checks, base64, the square root, the answers of vendors and
  of the bank, the printing of a number. Where a property needs a law of such code it is a
  hypothesis of the property (fresh identifiers, decryption undoing encryption, a hash that tells
  its inputs apart), and its witness instantiates it.

  The interfaces. The locale \<open>repository\<close> is what services rely on of a table (\<open>Prelude\<close>,
  interpreted for every table by its primary key and for stock levels by warehouse and product);
  \<open>document_table\<close> a table inside a database (\<open>Documents\<close>, interpreted for the seven documents);
  \<open>status_machine\<close> and \<open>ranked_machine\<close> the status machines (\<open>Fsm\<close>, eleven interpretations);
  \<open>projection_contract\<close> a projection as the orchestrator needs it (\<open>BiProps\<close>, eleven);
  \<open>name_registry\<close> a registry of named services (\<open>Registries\<close>, three).

  What the groups of lemmas show. The theories named \<open>\<dots>Props\<close> hold the properties, most of them
  over all histories: an inductive relation has a step per request of any tenant, in any order,
  and an invariant is proved by rule induction.

  \<^item> Invariants of reachable states: approvals complete, documents only move forward, stock never
    negative and backed by the orders that hold it, numbering without gaps, figures of declarations
    those of their lines, VAT numbers of tenants distinct, refused requests without effect.
  \<^item> Separation of tenants: procurement, tools of the assistant, the accountant's cockpit,
    provisioning tokens, projections.
  \<^item> Round trips against a reader written here: electronic invoice, received invoices, payment
    file, CSV export, PDF files.
  \<^item> Equivalence with a reference sum or predicate: the three-way match, the VAT balance of a
    month, the declarable documents of a year.
  \<^item> Bounds and ends: guessing behind the lockout, balance of the ledger to the cent, retries of a
    webhook, tokens of a day.
  \<^item> What the code does and should not: findings of the modelling are lemmas too, among them
    \<open>saml_name_is_not_signed\<close>, \<open>credit_note_booked_as_sale\<close>, \<open>changed_default_warehouse_strands_stock\<close>,
    \<open>eval_passes_only_the_echo\<close>, \<open>tenant_can_upgrade_itself\<close>, \<open>installed_package_stays_taken\<close>.

  Bounds and recursion. No definition needs fuel: loops run over lists and are structural, or end
  by a measure proved beside them (chunks of a list, the digits of a number, matches of a regular
  expression). The only loop that could go on, the retries of a webhook, is a run of attempts, and
  \<open>webhook_delivery_ends\<close> bounds it. Regular expressions are matchers written out by hand, with
  the backtracking the expression needs.

  Abstractions. Messages of exceptions, log lines, metrics, caches and most columns that record
  who changed a row are left out. Unique indexes of the database are left out (the checks in the
  code are modelled) except that of the read model, on which a projection can fail. Columns of a
  fixed number of decimals do not round; infinities do not occur, and \<^verbatim>\<open>NaN\<close> only where the
  source meets it. The collation of the database is that of the characters' codes. Requests of one
  history run one after the other: races between requests are not modelled.

  Not modelled. Controllers and modules forward to the services; the guards before them come from
  the framework. Migrations and seeds are the schema and demonstration data. The mailbox, the
  carriers (whose only adapter throws), the health probes and the metrics are glue around
  third-party code. The frontend and the generated client have no business rules.
\<close>

end
